(* ===== verification/Py_Prelude.thy ===== *)
theory Py_Prelude
  imports Main "HOL-Library.AList" "HOL-Library.Sublist"
begin

text \<open>
  The parts of Python the components share: exceptions as values of a sum type, \<open>str\<close>
  methods on ASCII text, insertion-ordered dictionaries, first-extremum selection as done by
  \<open>min\<close> and \<open>max\<close> with a key, and the interface (a locale) that every keyed in-memory store of
  the program provides to its clients.
\<close>

named_theorems py_eval \<open>equations that evaluate the Python prelude on closed terms\<close>
named_theorems res_simps \<open>inversion of computations that may raise\<close>

section \<open>Exceptions\<close>

text \<open>
  One constructor per exception class the modelled code raises. The argument is the message,
  where the source gives one.
\<close>

datatype py_error =
    ValueError string
  | IndexError string
  | KeyError string
  | LookupError string
  | TypeError
  | AttributeError string
  | ZeroDivisionError
  | OverflowError
  | RateResolutionError string
  | CurrencyConversionError string
  | NotFoundError string
  | ConflictError string
  | ForbiddenError string
  | UnauthorizedError string
  | ValidationError string
  | MultipleResultsFound
  | NoResultFound
  | IntegrityError

type_synonym 'a res = "py_error + 'a"

definition res_bind :: "'a res \<Rightarrow> ('a \<Rightarrow> 'b res) \<Rightarrow> 'b res" where
  "res_bind m f = (case m of Inl e \<Rightarrow> Inl e | Inr x \<Rightarrow> f x)"

lemma res_bind_simps [simp, py_eval]:
  "res_bind (Inl e) f = Inl e"
  "res_bind (Inr x) f = f x"
  by (simp_all add: res_bind_def)

lemma res_bind_eq_Inr [res_simps]:
  "res_bind m f = Inr y \<longleftrightarrow> (\<exists>x. m = Inr x \<and> f x = Inr y)"
  by (cases m) auto

lemma res_bind_eq_Inl [res_simps]:
  "res_bind m f = Inl e \<longleftrightarrow> m = Inl e \<or> (\<exists>x. m = Inr x \<and> f x = Inl e)"
  by (cases m) auto

definition res_map :: "('a \<Rightarrow> 'b) \<Rightarrow> 'a res \<Rightarrow> 'b res" where
  "res_map f m = res_bind m (\<lambda>x. Inr (f x))"

lemma res_map_simps [simp, py_eval]:
  "res_map f (Inl e) = Inl e"
  "res_map f (Inr x) = Inr (f x)"
  by (simp_all add: res_map_def)

lemma res_map_eq_Inr [res_simps]:
  "res_map f m = Inr y \<longleftrightarrow> (\<exists>x. m = Inr x \<and> y = f x)"
  by (cases m) auto

text \<open>A comprehension whose body may raise: it stops at the first exception.\<close>

fun mapM_res :: "('a \<Rightarrow> 'b res) \<Rightarrow> 'a list \<Rightarrow> 'b list res" where
  "mapM_res f [] = Inr []"
| "mapM_res f (x # xs) = res_bind (f x) (\<lambda>y. res_bind (mapM_res f xs) (\<lambda>ys. Inr (y # ys)))"

lemma mapM_res_length: "mapM_res f xs = Inr ys \<Longrightarrow> length ys = length xs"
  by (induction xs arbitrary: ys) (auto simp: res_simps)

lemma mapM_res_nth:
  "mapM_res f xs = Inr ys \<longleftrightarrow> length ys = length xs \<and> (\<forall>i < length xs. f (xs ! i) = Inr (ys ! i))"
proof (induction xs arbitrary: ys)
  case Nil
  show ?case by auto
next
  case (Cons x xs)
  show ?case
  proof
    assume "mapM_res f (x # xs) = Inr ys"
    then obtain y zs where y: "f x = Inr y" and zs: "mapM_res f xs = Inr zs" and ys: "ys = y # zs"
      by (auto simp: res_simps)
    from zs Cons.IH have "length zs = length xs \<and> (\<forall>i < length xs. f (xs ! i) = Inr (zs ! i))"
      by blast
    with y ys show "length ys = length (x # xs) \<and> (\<forall>i < length (x # xs). f ((x # xs) ! i) = Inr (ys ! i))"
      by (auto simp: nth_Cons split: nat.splits)
  next
    assume h: "length ys = length (x # xs) \<and> (\<forall>i < length (x # xs). f ((x # xs) ! i) = Inr (ys ! i))"
    then obtain y zs where ys: "ys = y # zs" by (cases ys) auto
    from h ys have "f x = Inr y" by force
    moreover from h ys have "\<forall>i < length xs. f (xs ! i) = Inr (zs ! i)" by force
    with h ys Cons.IH have "mapM_res f xs = Inr zs" by simp
    ultimately show "mapM_res f (x # xs) = Inr ys" using ys by simp
  qed
qed

lemma mapM_res_pure: "mapM_res (\<lambda>x. Inr (f x)) xs = Inr (map f xs)"
  by (induction xs) simp_all

lemma mapM_res_cong:
  "(\<And>x. x \<in> set xs \<Longrightarrow> f x = g x) \<Longrightarrow> mapM_res f xs = mapM_res g xs"
  by (induction xs) auto

lemma mapM_res_total: "(\<And>x. x \<in> set xs \<Longrightarrow> \<exists>y. f x = Inr y) \<Longrightarrow> \<exists>ys. mapM_res f xs = Inr ys"
  by (induction xs) fastforce+

lemma mapM_res_set: "mapM_res f xs = Inr ys \<Longrightarrow> y \<in> set ys \<Longrightarrow> \<exists>x \<in> set xs. f x = Inr y"
  by (fastforce simp: mapM_res_nth in_set_conv_nth)

lemma mapM_res_set_iff: "mapM_res f xs = Inr ys \<Longrightarrow> y \<in> set ys \<longleftrightarrow> (\<exists>x \<in> set xs. f x = Inr y)"
  by (fastforce simp: mapM_res_nth in_set_conv_nth)

text \<open>The entries of a list that are present, for loops that skip with \<open>continue\<close>.\<close>

fun somes :: "'a option list \<Rightarrow> 'a list" where
  "somes [] = []"
| "somes (None # xs) = somes xs"
| "somes (Some x # xs) = x # somes xs"

lemma somes_set: "x \<in> set (somes xs) \<longleftrightarrow> Some x \<in> set xs"
  by (induction xs rule: somes.induct) auto

section \<open>Strings\<close>

text \<open>
  A Python \<open>str\<close> is a HOL \<open>string\<close>. Case conversion and white space are those of ASCII; text
  outside ASCII is not modelled.
\<close>

definition upper_char :: "char \<Rightarrow> char" where
  "upper_char c = (let n = of_char c :: nat in if 97 \<le> n \<and> n \<le> 122 then char_of (n - 32) else c)"

definition lower_char :: "char \<Rightarrow> char" where
  "lower_char c = (let n = of_char c :: nat in if 65 \<le> n \<and> n \<le> 90 then char_of (n + 32) else c)"

definition py_upper :: "string \<Rightarrow> string" where "py_upper = map upper_char"
definition py_lower :: "string \<Rightarrow> string" where "py_lower = map lower_char"

lemma upper_char_idem [simp]: "upper_char (upper_char c) = upper_char c"
proof (cases "97 \<le> (of_char c :: nat) \<and> (of_char c :: nat) \<le> 122")
  case True
  then have "of_char c - 32 < (256 :: nat)" by linarith
  then have "(of_char (char_of (of_char c - 32 :: nat)) :: nat) = of_char c - 32" by simp
  moreover from True have "\<not> 97 \<le> (of_char c :: nat) - 32" by linarith
  ultimately show ?thesis using True by (simp add: upper_char_def Let_def)
next
  case False
  then show ?thesis by (auto simp: upper_char_def Let_def)
qed

lemma py_upper_idem [simp]: "py_upper (py_upper s) = py_upper s"
  by (simp add: py_upper_def)

lemma py_upper_simps [py_eval]:
  "py_upper [] = []" "py_upper (c # s) = upper_char c # py_upper s"
  "py_lower [] = []" "py_lower (c # s) = lower_char c # py_lower s"
  by (simp_all add: py_upper_def py_lower_def)

lemmas [py_eval] = upper_char_def lower_char_def

definition py_is_space :: "char \<Rightarrow> bool" where
  "py_is_space c = (let n = of_char c :: nat in n = 32 \<or> (9 \<le> n \<and> n \<le> 13) \<or> (28 \<le> n \<and> n \<le> 31))"

definition py_strip :: "string \<Rightarrow> string" where
  "py_strip s = rev (dropWhile py_is_space (rev (dropWhile py_is_space s)))"

lemmas [py_eval] = py_is_space_def py_strip_def

text \<open>Python's \<open>q in s\<close> on strings.\<close>

definition py_in :: "string \<Rightarrow> string \<Rightarrow> bool" where "py_in q s = sublist q s"

text \<open>\<open>s.replace(p, '')\<close>: every non-overlapping occurrence is removed, from the left.\<close>

function py_delete :: "string \<Rightarrow> string \<Rightarrow> string" where
  "py_delete p [] = []"
| "py_delete p (c # s) = (if p \<noteq> [] \<and> prefix p (c # s) then py_delete p (drop (length p) (c # s))
     else c # py_delete p s)"
  by pat_completeness auto
termination
  by (relation "measure (length \<circ> snd)") auto

declare py_delete.simps(2) [simp del]
lemmas [py_eval] = py_delete.simps

text \<open>Truthiness of an optional string: \<open>None\<close> and the empty string are false.\<close>

definition truthy :: "string option \<Rightarrow> bool" where
  "truthy s = (case s of None \<Rightarrow> False | Some t \<Rightarrow> t \<noteq> [])"

lemma truthy_simps [simp, py_eval]: "truthy None = False" "truthy (Some t) = (t \<noteq> [])"
  by (simp_all add: truthy_def)

text \<open>\<open>str\<close> of an integer, and the zero-padded formats such as \<open>:04d\<close>.\<close>

function dec_digits :: "int \<Rightarrow> string" where
  "dec_digits n = (if n < 10 then [char_of (48 + n)] else dec_digits (n div 10) @ [char_of (48 + n mod 10)])"
  by pat_completeness auto
termination
  by (relation "measure nat") auto

declare dec_digits.simps [simp del, py_eval]

definition int_str :: "int \<Rightarrow> string" where
  "int_str i = (if i < 0 then CHR ''-'' # dec_digits (- i) else dec_digits i)"

text \<open>\<open>format(i, '0wd')\<close>: the sign counts towards the width.\<close>

definition zpad :: "nat \<Rightarrow> int \<Rightarrow> string" where
  "zpad w i = (if i < 0
     then (let d = dec_digits (- i) in CHR ''-'' # replicate (w - 1 - length d) CHR ''0'' @ d)
     else (let d = dec_digits i in replicate (w - length d) CHR ''0'' @ d))"

lemmas [py_eval] = int_str_def zpad_def

definition digit_val :: "char \<Rightarrow> int" where "digit_val c = of_char c - 48"

fun digits_val :: "int \<Rightarrow> string \<Rightarrow> int" where
  "digits_val acc [] = acc"
| "digits_val acc (c # s) = digits_val (10 * acc + digit_val c) s"

lemma digits_val_append: "digits_val acc (s @ t) = digits_val (digits_val acc s) t"
  by (induction s arbitrary: acc) simp_all

lemma digit_val_char_of: "0 \<le> n \<Longrightarrow> n < 10 \<Longrightarrow> digit_val (char_of (48 + n)) = n"
  by (simp add: digit_val_def)

lemma digits_val_dec_digits: "0 \<le> n \<Longrightarrow> digits_val 0 (dec_digits n) = n"
proof (induction n rule: dec_digits.induct)
  case (1 n)
  show ?case
  proof (cases "n < 10")
    case True
    with 1 show ?thesis
      by (subst dec_digits.simps) (simp add: digit_val_char_of)
  next
    case False
    with 1 have "digits_val 0 (dec_digits (n div 10)) = n div 10" by simp
    with False show ?thesis
      by (subst dec_digits.simps) (simp add: digits_val_append digit_val_char_of)
  qed
qed

lemma dec_digits_inj: "0 \<le> m \<Longrightarrow> 0 \<le> n \<Longrightarrow> dec_digits m = dec_digits n \<Longrightarrow> m = n"
  by (metis digits_val_dec_digits)

lemma digits_val_zeros: "digits_val 0 (replicate k CHR ''0'' @ s) = digits_val 0 s"
  by (induction k) (simp_all add: digit_val_def)

text \<open>Padding loses nothing: the number is read back from its padded form.\<close>

lemma digits_val_zpad: "0 \<le> i \<Longrightarrow> digits_val 0 (zpad w i) = i"
  by (simp add: zpad_def Let_def digits_val_zeros digits_val_dec_digits)

lemma zpad_inj: "0 \<le> i \<Longrightarrow> 0 \<le> j \<Longrightarrow> zpad w i = zpad w j \<Longrightarrow> i = j"
  by (metis digits_val_zpad)

lemma dec_digits_not_Nil [simp]: "dec_digits n \<noteq> []"
  by (subst dec_digits.simps) simp

section \<open>Dictionaries\<close>

text \<open>
  A Python \<open>dict\<close> iterates in insertion order and keeps a key's position when its value is
  replaced: an association list written with \<^const>\<open>AList.update\<close> and read with
  \<^const>\<open>map_of\<close>.
\<close>

type_synonym ('k, 'v) dict = "('k \<times> 'v) list"

abbreviation dget :: "('k, 'v) dict \<Rightarrow> 'k \<Rightarrow> 'v option" where "dget d k \<equiv> map_of d k"
abbreviation dset :: "'k \<Rightarrow> 'v \<Rightarrow> ('k, 'v) dict \<Rightarrow> ('k, 'v) dict" where
  "dset k v d \<equiv> AList.update k v d"
abbreviation dvalues :: "('k, 'v) dict \<Rightarrow> 'v list" where "dvalues d \<equiv> map snd d"
abbreviation dkeys :: "('k, 'v) dict \<Rightarrow> 'k list" where "dkeys d \<equiv> map fst d"

text \<open>\<open>d.get(k, default)\<close>.\<close>

definition dget_or :: "('k, 'v) dict \<Rightarrow> 'k \<Rightarrow> 'v \<Rightarrow> 'v" where
  "dget_or d k v = (case dget d k of None \<Rightarrow> v | Some x \<Rightarrow> x)"

lemmas [py_eval] = dget_or_def

lemma dget_dset: "dget (dset k v d) k' = (if k' = k then Some v else dget d k')"
  by (simp add: AList.update_conv')

lemma dget_or_dset: "dget_or (dset k v d) k' w = (if k' = k then v else dget_or d k' w)"
  by (simp add: dget_or_def dget_dset)

text \<open>A dict comprehension: a later pair replaces the value of an earlier one in place.\<close>

definition dict_of :: "('k \<times> 'v) list \<Rightarrow> ('k, 'v) dict" where
  "dict_of kvs = fold (\<lambda>(k, v) d. dset k v d) kvs []"

lemma dict_of_snoc: "dict_of (kvs @ [(k, v)]) = dset k v (dict_of kvs)"
  by (simp add: dict_of_def)

lemma dict_of_Nil [simp]: "dict_of [] = []"
  by (simp add: dict_of_def)

lemma dget_dict_of: "dget (dict_of kvs) k = dget (rev kvs) k"
proof (induction kvs rule: rev_induct)
  case Nil
  show ?case by simp
next
  case (snoc p kvs)
  then show ?case by (cases p) (simp add: dict_of_snoc dget_dset)
qed

lemma distinct_dkeys_dict_of: "distinct (dkeys (dict_of kvs))"
proof (induction kvs rule: rev_induct)
  case Nil
  show ?case by simp
next
  case (snoc p kvs)
  then show ?case
    by (cases p) (simp add: dict_of_snoc AList.distinct_update)
qed

lemma set_dkeys_dict_of: "set (dkeys (dict_of kvs)) = set (dkeys kvs)"
proof (induction kvs rule: rev_induct)
  case Nil
  show ?case by simp
next
  case (snoc p kvs)
  then show ?case
    by (cases p) (auto simp: dict_of_snoc AList.update_keys)
qed

text \<open>Each value of a comprehension over \<open>xs\<close> keyed by \<open>f\<close> is one of the \<open>xs\<close>, under its own key.\<close>

lemma dict_of_keyed_mem:
  "(k, x) \<in> set (dict_of (map (\<lambda>x. (f x, x)) xs)) \<Longrightarrow> x \<in> set xs \<and> f x = k"
proof -
  assume "(k, x) \<in> set (dict_of (map (\<lambda>x. (f x, x)) xs))"
  then have "dget (dict_of (map (\<lambda>x. (f x, x)) xs)) k = Some x"
    by (simp add: distinct_dkeys_dict_of)
  then have "dget (rev (map (\<lambda>x. (f x, x)) xs)) k = Some x"
    by (simp add: dget_dict_of)
  then have "(k, x) \<in> set (map (\<lambda>x. (f x, x)) xs)"
    by (metis map_of_SomeD set_rev)
  then show ?thesis by auto
qed

lemma set_update_subset: "set (dset k v d) \<subseteq> insert (k, v) (set d)"
  by (induction d) auto

section \<open>Selection from lists\<close>

text \<open>
  \<open>min(xs, key=f)\<close> and \<open>max(xs, key=f)\<close> of a non-empty list return the first extremal element:
  the candidate is replaced only by a strictly better one.
\<close>

fun min_by :: "('a \<Rightarrow> 'b::linorder) \<Rightarrow> 'a \<Rightarrow> 'a list \<Rightarrow> 'a" where
  "min_by f x [] = x"
| "min_by f x (y # ys) = min_by f (if f y < f x then y else x) ys"

fun max_by :: "('a \<Rightarrow> 'b::linorder) \<Rightarrow> 'a \<Rightarrow> 'a list \<Rightarrow> 'a" where
  "max_by f x [] = x"
| "max_by f x (y # ys) = max_by f (if f x < f y then y else x) ys"

lemma min_by_mem: "min_by f x ys \<in> set (x # ys)"
proof (induction ys arbitrary: x)
  case Nil
  show ?case by simp
next
  case (Cons z ys)
  show ?case
    using Cons.IH [of "if f z < f x then z else x"] by (auto split: if_splits)
qed

lemma max_by_mem: "max_by f x ys \<in> set (x # ys)"
proof (induction ys arbitrary: x)
  case Nil
  show ?case by simp
next
  case (Cons z ys)
  show ?case
    using Cons.IH [of "if f x < f z then z else x"] by (auto split: if_splits)
qed

lemma min_by_le_hd: "f (min_by f x ys) \<le> f x"
proof (induction ys arbitrary: x)
  case Nil
  show ?case by simp
next
  case (Cons z ys)
  show ?case
    using Cons.IH [of "if f z < f x then z else x"] by (auto split: if_splits)
qed

lemma min_by_le: "y \<in> set (x # ys) \<Longrightarrow> f (min_by f x ys) \<le> f y"
proof (induction ys arbitrary: x)
  case Nil
  then show ?case by simp
next
  case (Cons z ys)
  have h: "f (min_by f (if f z < f x then z else x) ys) \<le> f (if f z < f x then z else x)"
    by (rule min_by_le_hd)
  from Cons.prems consider "y = x" | "y = z" | "y \<in> set ys" by auto
  then show ?case
  proof cases
    case 3
    then show ?thesis using Cons.IH [of "if f z < f x then z else x"] by simp
  qed (use h in \<open>auto split: if_splits\<close>)
qed

lemma max_by_ge_hd: "f x \<le> f (max_by f x ys)"
proof (induction ys arbitrary: x)
  case Nil
  show ?case by simp
next
  case (Cons z ys)
  show ?case
    using Cons.IH [of "if f x < f z then z else x"] by (auto split: if_splits)
qed

lemma max_by_ge: "y \<in> set (x # ys) \<Longrightarrow> f y \<le> f (max_by f x ys)"
proof (induction ys arbitrary: x)
  case Nil
  then show ?case by simp
next
  case (Cons z ys)
  have h: "f (if f x < f z then z else x) \<le> f (max_by f (if f x < f z then z else x) ys)"
    by (rule max_by_ge_hd)
  from Cons.prems consider "y = x" | "y = z" | "y \<in> set ys" by auto
  then show ?case
  proof cases
    case 3
    then show ?thesis using Cons.IH [of "if f x < f z then z else x"] by simp
  qed (use h in \<open>auto split: if_splits\<close>)
qed

text \<open>\<open>xs[i]\<close> with Python's negative indices.\<close>

definition py_index :: "'a list \<Rightarrow> int \<Rightarrow> 'a res" where
  "py_index xs k = (if - int (length xs) \<le> k \<and> k < int (length xs)
     then Inr (xs ! nat (k mod int (length xs))) else Inl (IndexError ''list index out of range''))"

lemma py_index_mem: "py_index xs k = Inr x \<Longrightarrow> x \<in> set xs"
proof -
  assume "py_index xs k = Inr x"
  then have x: "x = xs ! nat (k mod int (length xs))" and l: "- int (length xs) \<le> k" "k < int (length xs)"
    by (auto simp: py_index_def split: if_splits)
  from l have "0 < int (length xs)" by linarith
  then have "nat (k mod int (length xs)) < length xs" by (simp add: nat_less_iff)
  then show ?thesis by (simp add: x)
qed

lemma py_index_nonneg: "0 \<le> k \<Longrightarrow> k < int (length xs) \<Longrightarrow> py_index xs k = Inr (xs ! nat k)"
  by (simp add: py_index_def)

lemma py_index_neg:
  "- int (length xs) \<le> k \<Longrightarrow> k < 0 \<Longrightarrow> py_index xs k = Inr (xs ! nat (int (length xs) + k))"
proof -
  assume k: "- int (length xs) \<le> k" "k < 0"
  have "k mod int (length xs) = (k + int (length xs)) mod int (length xs)" by simp
  also have "\<dots> = k + int (length xs)" using k by (intro mod_pos_pos_trivial) auto
  finally show ?thesis using k by (simp add: py_index_def add.commute)
qed

text \<open>\<open>next((x for x in xs if P(x)), None)\<close> is \<^const>\<open>List.find\<close>.\<close>

lemma find_SomeD: "List.find P xs = Some x \<Longrightarrow> x \<in> set xs \<and> P x"
  by (induction xs) (auto split: if_splits)

lemma find_append: "List.find P (xs @ ys) = (case List.find P xs of Some x \<Rightarrow> Some x | None \<Rightarrow> List.find P ys)"
  by (induction xs) auto

text \<open>Sorting by a key is stable, as \<open>sorted\<close> and \<open>list.sort\<close> are.\<close>

lemma hd_sort_key_le: "x \<in> set xs \<Longrightarrow> f (hd (sort_key f xs)) \<le> f x"
proof -
  assume x: "x \<in> set xs"
  then have ne: "sort_key f xs \<noteq> []" by (metis empty_iff empty_set set_sort)
  then obtain y ys where s: "sort_key f xs = y # ys" by (cases "sort_key f xs") auto
  have "sorted (map f (y # ys))" using sorted_sort_key [of f xs] by (simp add: s)
  moreover have "x \<in> set (y # ys)" using x set_sort [of f xs] by (simp add: s)
  ultimately show ?thesis by (auto simp: s)
qed

lemma hd_sort_key_mem: "xs \<noteq> [] \<Longrightarrow> hd (sort_key f xs) \<in> set xs"
  by (metis hd_in_set length_0_conv length_sort set_sort)

text \<open>Enumerating a set, such as Python's \<open>{f(x) for x in xs}\<close>, in some order without repeats.\<close>

definition enumerates :: "('a list \<Rightarrow> 'a list) \<Rightarrow> bool" where
  "enumerates ord \<longleftrightarrow> (\<forall>xs. distinct (ord xs) \<and> set (ord xs) = set xs)"

lemma enumerates_remdups: "enumerates remdups"
  by (simp add: enumerates_def)

section \<open>Keyed stores\<close>

text \<open>
  The ports of \<open>domain/interfaces.py\<close> that persist an entity all offer \<open>save\<close> and a lookup by
  identity. A client relies on three laws: what a lookup finds after a save, that the entity
  found under a key carries that key, and that the listing of the store shows exactly the
  entities that can be looked up, each once.
\<close>

locale keyed_store =
  fixes save :: "'e \<Rightarrow> 's \<Rightarrow> 's"
    and find :: "'s \<Rightarrow> 'k \<Rightarrow> 'e option"
    and elems :: "'s \<Rightarrow> 'e list"
    and key :: "'e \<Rightarrow> 'k"
    and inv :: "'s \<Rightarrow> bool"
  assumes find_save: "inv s \<Longrightarrow> find (save e s) k = (if k = key e then Some e else find s k)"
    and inv_save: "inv s \<Longrightarrow> inv (save e s)"
    and find_key: "inv s \<Longrightarrow> find s k = Some e \<Longrightarrow> key e = k"
    and elems_iff: "inv s \<Longrightarrow> e \<in> set (elems s) \<longleftrightarrow> find s (key e) = Some e"
    and elems_keys: "inv s \<Longrightarrow> distinct (map key (elems s))"
begin

lemma find_save_same: "inv s \<Longrightarrow> find (save e s) (key e) = Some e"
  by (simp add: find_save)

lemma find_save_other: "inv s \<Longrightarrow> k \<noteq> key e \<Longrightarrow> find (save e s) k = find s k"
  by (simp add: find_save)

lemma elems_save:
  "inv s \<Longrightarrow> e' \<in> set (elems (save e s)) \<longleftrightarrow> e' = e \<or> key e' \<noteq> key e \<and> e' \<in> set (elems s)"
  by (auto simp: elems_iff inv_save find_save)

lemma find_in_elems: "inv s \<Longrightarrow> find s k = Some e \<Longrightarrow> e \<in> set (elems s)"
  using find_key elems_iff by metis

lemma inv_fold_save: "inv s \<Longrightarrow> inv (fold save es s)"
  by (induction es arbitrary: s) (simp_all add: inv_save)

text \<open>Saving a list of entities with pairwise different keys makes exactly those visible.\<close>

lemma find_fold_save:
  "inv s \<Longrightarrow> distinct (map key es) \<Longrightarrow>
    find (fold save es s) k =
      (case List.find (\<lambda>e. key e = k) es of Some e \<Rightarrow> Some e | None \<Rightarrow> find s k)"
proof (induction es arbitrary: s)
  case Nil
  then show ?case by simp
next
  case (Cons e es)
  have none: "key e = k \<Longrightarrow> List.find (\<lambda>e. key e = k) es = None"
    using Cons.prems(2) by (simp add: find_None_iff) (metis image_eqI)
  show ?case
    using Cons.IH [of "save e s"] Cons.prems none
    by (auto simp: inv_save find_save split: option.splits)
qed

lemma elems_fold_save:
  "inv s \<Longrightarrow> distinct (map key es) \<Longrightarrow>
    e \<in> set (elems (fold save es s)) \<longleftrightarrow>
      e \<in> set es \<or> key e \<notin> key ` set es \<and> e \<in> set (elems s)"
proof (induction es arbitrary: s)
  case Nil
  then show ?case by simp
next
  case (Cons x es)
  have "e \<in> set (elems (fold save es (save x s))) \<longleftrightarrow>
      e \<in> set es \<or> key e \<notin> key ` set es \<and> e \<in> set (elems (save x s))"
    using Cons by (simp add: inv_save)
  then show ?case
    using Cons.prems by (auto simp: elems_save)
qed

end

text \<open>Writing a list of objects under their keys, as a loop of \<open>d[key(x)] = x\<close>.\<close>

lemma dget_fold_dset:
  "distinct (map key xs) \<Longrightarrow> dget (fold (\<lambda>x. dset (key x) x) xs d) k =
    (case List.find (\<lambda>x. key x = k) xs of Some x \<Rightarrow> Some x | None \<Rightarrow> dget d k)"
proof (induction xs arbitrary: d)
  case (Cons x xs)
  have none: "key x = k \<Longrightarrow> List.find (\<lambda>x. key x = k) xs = None"
    using Cons.prems by (simp add: find_None_iff) (metis image_eqI)
  show ?case
    using Cons.IH [of "dset (key x) x d"] Cons.prems none
    by (auto simp: dget_dset split: option.splits)
qed simp

lemma fold_dset_triv:
  "(\<And>x. x \<in> set xs \<Longrightarrow> dget d (key x) = Some x) \<Longrightarrow> fold (\<lambda>x. dset (key x) x) xs d = d"
  by (induction xs) (simp_all add: AList.update_triv)

lemma find_distinct_key:
  "distinct (map key xs) \<Longrightarrow> x \<in> set xs \<Longrightarrow> List.find (\<lambda>y. key y = key x) xs = Some x"
  by (induction xs) auto

lemma dget_fold_dset_mem:
  "distinct (map key xs) \<Longrightarrow> x \<in> set xs \<Longrightarrow> dget (fold (\<lambda>x. dset (key x) x) xs d) (key x) = Some x"
  by (simp add: dget_fold_dset find_distinct_key)

lemma fold_dset_idem:
  "distinct (map key xs) \<Longrightarrow>
    fold (\<lambda>x. dset (key x) x) xs (fold (\<lambda>x. dset (key x) x) xs d) = fold (\<lambda>x. dset (key x) x) xs d"
  by (intro fold_dset_triv dget_fold_dset_mem)

text \<open>
  The in-memory repositories keep a dictionary from identity to entity. The generic operations
  and their laws:
\<close>

definition store_save :: "('e \<Rightarrow> 'k) \<Rightarrow> 'e \<Rightarrow> ('k, 'e) dict \<Rightarrow> ('k, 'e) dict" where
  "store_save key e d = dset (key e) e d"

definition store_inv :: "('e \<Rightarrow> 'k) \<Rightarrow> ('k, 'e) dict \<Rightarrow> bool" where
  "store_inv key d \<longleftrightarrow> distinct (dkeys d) \<and> (\<forall>(k, e) \<in> set d. key e = k)"

lemma store_inv_Nil [simp]: "store_inv key []"
  by (simp add: store_inv_def)

lemma set_dset: "distinct (dkeys d) \<Longrightarrow> set (dset k v d) = insert (k, v) {p \<in> set d. fst p \<noteq> k}"
  by (induction d) (auto simp: image_iff)

lemma store_inv_save: "store_inv key d \<Longrightarrow> store_inv key (store_save key e d)"
  by (auto simp: store_inv_def store_save_def AList.distinct_update set_dset)

lemma store_find_key: "store_inv key d \<Longrightarrow> dget d k = Some e \<Longrightarrow> key e = k"
  by (auto simp: store_inv_def dest!: map_of_SomeD)

lemma store_elems_iff: "store_inv key d \<Longrightarrow> e \<in> set (dvalues d) \<longleftrightarrow> dget d (key e) = Some e"
proof
  assume "store_inv key d" "e \<in> set (dvalues d)"
  then show "dget d (key e) = Some e"
    by (fastforce simp: store_inv_def)
next
  assume "store_inv key d" "dget d (key e) = Some e"
  then show "e \<in> set (dvalues d)" by (force dest: map_of_SomeD)
qed

lemma store_keys: "store_inv key d \<Longrightarrow> map key (dvalues d) = dkeys d"
  by (auto simp: store_inv_def)

lemma store_distinct: "store_inv key d \<Longrightarrow> distinct (map key (dvalues d))"
proof -
  assume h: "store_inv key d"
  then have "distinct (dkeys d)" by (simp add: store_inv_def)
  with store_keys [OF h] show ?thesis by (simp only:)
qed

lemma keyed_store_dict:
  "keyed_store (store_save key) dget dvalues key (store_inv key)"
proof
  fix s :: "('b, 'a) dict" and e k
  assume h: "store_inv key s"
  show "dget (store_save key e s) k = (if k = key e then Some e else dget s k)"
    by (simp add: store_save_def dget_dset)
  show "store_inv key (store_save key e s)" using h by (rule store_inv_save)
  show "(e \<in> set (dvalues s)) = (dget s (key e) = Some e)" using h by (rule store_elems_iff)
  show "distinct (map key (dvalues s))" using h by (rule store_distinct)
  assume "dget s k = Some e"
  with h show "key e = k" by (rule store_find_key)
qed

end
