(* ===== verification/Py_Date.thy ===== *)
theory Py_Date
  imports Py_Prelude
begin

text \<open>
  Python's \<open>datetime.date\<close>: a date is its proleptic Gregorian ordinal (\<open>date.toordinal\<close>, day 1 is
  0001-01-01), so comparison and subtraction of dates are those of integers. A \<open>datetime\<close> is a
  number of microseconds on a fixed time line; the code only stores, compares, shifts and subtracts
  them. Reading the clock is an argument of the operation that does it.
\<close>

type_synonym date = int
type_synonym datetime = int

definition max_ordinal :: date where "max_ordinal = 3652059"  \<comment> \<open>9999-12-31\<close>

definition is_leap :: "int \<Rightarrow> bool" where
  "is_leap y \<longleftrightarrow> y mod 4 = 0 \<and> (y mod 100 \<noteq> 0 \<or> y mod 400 = 0)"

definition days_before_year :: "int \<Rightarrow> int" where
  "days_before_year y = (y - 1) * 365 + (y - 1) div 4 - (y - 1) div 100 + (y - 1) div 400"

definition days_in_month :: "int \<Rightarrow> int \<Rightarrow> int" where
  "days_in_month y m = (if m = 2 then (if is_leap y then 29 else 28)
                        else if m \<in> {4, 6, 9, 11} then 30 else 31)"

fun days_before_month_from :: "nat \<Rightarrow> int \<Rightarrow> int" where
  "days_before_month_from 0 y = 0"
| "days_before_month_from (Suc k) y = days_before_month_from k y + days_in_month y (int (Suc k))"

definition days_before_month :: "int \<Rightarrow> int \<Rightarrow> int" where
  "days_before_month y m = days_before_month_from (nat (m - 1)) y"

definition valid_ymd :: "int \<Rightarrow> int \<Rightarrow> int \<Rightarrow> bool" where
  "valid_ymd y m d \<longleftrightarrow> 1 \<le> y \<and> y \<le> 9999 \<and> 1 \<le> m \<and> m \<le> 12 \<and> 1 \<le> d \<and> d \<le> days_in_month y m"

definition ymd_ord :: "int \<Rightarrow> int \<Rightarrow> int \<Rightarrow> date" where
  "ymd_ord y m d = days_before_year y + days_before_month y m + d"

text \<open>\<open>date(y, m, d)\<close> raises \<open>ValueError\<close> outside the calendar.\<close>

definition mk_date :: "int \<Rightarrow> int \<Rightarrow> int \<Rightarrow> date option" where
  "mk_date y m d = (if valid_ymd y m d then Some (ymd_ord y m d) else None)"

text \<open>The inverse, by the 400/100/4/1-year cycles of the standard library.\<close>

definition ord_ymd :: "date \<Rightarrow> int \<times> int \<times> int" where
  "ord_ymd n = (let n0 = n - 1; n400 = n0 div 146097; a = n0 mod 146097;
     n100 = a div 36524; b = a mod 36524; n4 = b div 1461; c = b mod 1461;
     n1 = c div 365; e = c mod 365; y = n400 * 400 + n100 * 100 + n4 * 4 + n1 + 1
     in if n1 = 4 \<or> n100 = 4 then (y - 1, 12, 31)
        else let m0 = (e + 50) div 32; p = days_before_month y m0;
                 m = (if e < p then m0 - 1 else m0)
             in (y, m, e - days_before_month y m + 1))"

definition date_year :: "date \<Rightarrow> int" where "date_year n = fst (ord_ymd n)"
definition date_month :: "date \<Rightarrow> int" where "date_month n = fst (snd (ord_ymd n))"
definition date_day :: "date \<Rightarrow> int" where "date_day n = snd (snd (ord_ymd n))"

text \<open>\<open>d + timedelta(days=n)\<close>.\<close>

definition date_add :: "date \<Rightarrow> int \<Rightarrow> date res" where
  "date_add d n = (if 1 \<le> d + n \<and> d + n \<le> max_ordinal then Inr (d + n) else Inl OverflowError)"

text \<open>\<open>str(d)\<close>, which is \<open>d.isoformat()\<close>, and the formats \<open>%y%m%d\<close> and \<open>%y%m\<close> of \<open>strftime\<close>.\<close>

definition isoformat :: "date \<Rightarrow> string" where
  "isoformat d = zpad 4 (date_year d) @ ''-'' @ zpad 2 (date_month d) @ ''-'' @ zpad 2 (date_day d)"

definition fmt_yymm :: "date \<Rightarrow> string" where
  "fmt_yymm d = zpad 2 (date_year d mod 100) @ zpad 2 (date_month d)"

definition fmt_yymmdd :: "date \<Rightarrow> string" where
  "fmt_yymmdd d = fmt_yymm d @ zpad 2 (date_day d)"

text \<open>
  \<open>datetime.strptime(s, '%Y-%m-%d').date()\<close>: four digits, a month of one or two digits and a day
  of one or two (a blank may stand for its leading digit), separated by hyphens and nothing after.
\<close>

definition is_digit :: "char \<Rightarrow> bool" where
  "is_digit c = (let n = of_char c :: nat in 48 \<le> n \<and> n \<le> 57)"

definition month_field :: "string \<Rightarrow> int option" where
  "month_field s = (if (length s = 1 \<or> length s = 2) \<and> list_all is_digit s \<and>
      1 \<le> digits_val 0 s \<and> digits_val 0 s \<le> 12 then Some (digits_val 0 s) else None)"

definition day_field :: "string \<Rightarrow> int option" where
  "day_field s = (let t = (if length s = 2 \<and> hd s = CHR '' '' then tl s else s) in
     if (length t = 1 \<or> length t = 2) \<and> list_all is_digit t \<and>
      1 \<le> digits_val 0 t \<and> digits_val 0 t \<le> 31 then Some (digits_val 0 t) else None)"

definition parse_ymd :: "string \<Rightarrow> date option" where
  "parse_ymd s = (let y = take 4 s; r = drop 4 s in
     if length y = 4 \<and> list_all is_digit y \<and> r \<noteq> [] \<and> hd r = CHR ''-'' then
       (let m = takeWhile (\<lambda>c. c \<noteq> CHR ''-'') (tl r); d = dropWhile (\<lambda>c. c \<noteq> CHR ''-'') (tl r) in
        case (month_field m, d) of
          (Some mm, _ # ds) \<Rightarrow>
            (case day_field ds of Some dd \<Rightarrow> mk_date (digits_val 0 y) mm dd | None \<Rightarrow> None)
        | _ \<Rightarrow> None)
     else None)"

lemma parse_ymd_range: "parse_ymd s = Some d \<Longrightarrow> \<exists>y m dd. valid_ymd y m dd \<and> d = ymd_ord y m dd"
  by (auto simp: parse_ymd_def Let_def mk_date_def split: if_splits option.splits list.splits)

end
