(* ===== verification/Py_Float.thy ===== *)
theory Py_Float
  imports Complex_Main "HOL-Library.Log_Nat" Py_Prelude
begin

text \<open>
  Python's \<open>float\<close>. A finite double is the rational number it denotes; every arithmetic operation
  is the exact operation followed by \<open>rnd\<close>, the rounding to the nearest double with ties to even
  (53 significant bits, smallest exponent -1074). Infinities, NaN, overflow beyond the largest
  double and the sign of a zero are not modelled. The theory also defines the built-ins the code
  applies to floats: \<open>round(x, n)\<close>, the compensated \<open>sum\<close> of Python 3.12 and later (the version
  the project requires), \<open>:.nf\<close> formatting and the shortest \<open>repr\<close>.
\<close>

type_synonym flt = rat

section \<open>Rounding to the nearest integer, ties to even\<close>

definition rhe :: "rat \<Rightarrow> int" where
  "rhe x = (let n = \<lfloor>x\<rfloor>; d = x - of_int n in
     if d < 1 / 2 then n else if 1 / 2 < d then n + 1 else if even n then n else n + 1)"

lemma rhe_of_int [simp]: "rhe (of_int n) = n"
  by (simp add: rhe_def)

lemma rhe_bounds: "\<lfloor>x\<rfloor> \<le> rhe x" "rhe x \<le> \<lfloor>x\<rfloor> + 1"
  by (simp_all add: rhe_def Let_def)

lemma rhe_dist: "\<bar>of_int (rhe x) - x\<bar> \<le> 1 / 2"
proof -
  define n where "n = \<lfloor>x\<rfloor>"
  then have n: "\<lfloor>x\<rfloor> = n" and b: "of_int n \<le> x" "x < of_int n + 1"
    using floor_correct [of x] by simp_all
  have lo: "x - of_int n < 1 / 2 \<Longrightarrow> rhe x = n" by (simp add: rhe_def n)
  have hi: "1 / 2 < x - of_int n \<Longrightarrow> rhe x = n + 1" by (simp add: rhe_def n)
  have mid: "x - of_int n = 1 / 2 \<Longrightarrow> rhe x = n \<or> rhe x = n + 1" by (simp add: rhe_def n)
  consider "x - of_int n < 1 / 2" | "1 / 2 < x - of_int n" | "x - of_int n = 1 / 2" by linarith
  then show ?thesis
  proof cases
    case 1
    with lo b show ?thesis by simp
  next
    case 2
    with hi b have "of_int (rhe x) = (of_int n :: rat) + 1" by simp
    with 2 b show ?thesis by linarith
  next
    case 3
    then have "of_int (rhe x) = (of_int n :: rat) \<or> of_int (rhe x) = (of_int n :: rat) + 1"
      using mid by auto
    with 3 show ?thesis by linarith
  qed
qed

lemma rhe_mono: "x \<le> y \<Longrightarrow> rhe x \<le> rhe y"
proof -
  assume le: "x \<le> y"
  then have fl: "\<lfloor>x\<rfloor> \<le> \<lfloor>y\<rfloor>" by (rule floor_mono)
  show ?thesis
  proof (cases "\<lfloor>x\<rfloor> = \<lfloor>y\<rfloor>")
    case True
    with le show ?thesis by (auto simp: rhe_def Let_def)
  next
    case False
    with fl have "\<lfloor>x\<rfloor> + 1 \<le> \<lfloor>y\<rfloor>" by linarith
    with rhe_bounds(2) [of x] rhe_bounds(1) [of y] show ?thesis by linarith
  qed
qed

lemma rhe_0 [simp]: "rhe 0 = 0"
  using rhe_of_int [of 0] by simp

lemma rhe_1 [simp]: "rhe 1 = 1"
  using rhe_of_int [of 1] by simp

lemma rhe_numeral [simp]: "rhe (numeral k) = numeral k"
  using rhe_of_int [of "numeral k"] by simp

lemma rhe_minus: "rhe (- x) = - rhe x"
proof (cases "x = of_int \<lfloor>x\<rfloor>")
  case True
  have "rhe (- x) = rhe (of_int (- \<lfloor>x\<rfloor>))" using True by simp
  also have "\<dots> = - \<lfloor>x\<rfloor>" by (rule rhe_of_int)
  also have "\<lfloor>x\<rfloor> = rhe x" by (subst True) simp
  finally show ?thesis .
next
  case False
  have "\<lfloor>- x\<rfloor> = - \<lfloor>x\<rfloor> - 1"
    using False by (intro floor_unique) (auto, linarith+)
  then show ?thesis by (auto simp: rhe_def Let_def)
qed

section \<open>Rounding to double precision\<close>

text \<open>The binary exponent: \<open>2 ^ e \<le> |x| < 2 ^ (e + 1)\<close>.\<close>

definition expo :: "rat \<Rightarrow> int" where
  "expo x = (if 1 \<le> \<bar>x\<bar> then bitlen \<lfloor>\<bar>x\<bar>\<rfloor> - 1 else - bitlen (\<lceil>1 / \<bar>x\<bar>\<rceil> - 1))"

definition rexp :: "rat \<Rightarrow> int" where "rexp x = max (expo x - 52) (-1074)"

definition rnd :: "rat \<Rightarrow> flt" where
  "rnd x = (if x = 0 then 0 else of_int (rhe (x / 2 powi rexp x)) * 2 powi rexp x)"

lemma powi_pos [simp]: "0 < (2::rat) powi n"
  by (simp add: zero_less_power_int)

lemma powi_ge_1: "0 \<le> n \<Longrightarrow> \<exists>k. (2::rat) powi n = of_int k"
  by (metis of_int_numeral of_int_power power_int_nonneg_exp)

lemma powi_split: "(2::rat) powi (m - n) = 2 powi m / 2 powi n"
  by (simp add: power_int_diff)

lemma powi_le: "m \<le> n \<Longrightarrow> (2::rat) powi m \<le> 2 powi n"
  by (simp add: power_int_increasing)

lemma powi_lt: "m < n \<Longrightarrow> (2::rat) powi m < 2 powi n"
  by (simp add: power_int_strict_increasing)

lemma powi_less_cancel: "(2::rat) powi m < 2 powi n \<Longrightarrow> m < n"
  by (meson linorder_not_le powi_le)

lemma bitlen_rat:
  assumes "0 < n"
  shows "(2::rat) powi (bitlen n - 1) \<le> of_int n" "of_int n + 1 \<le> (2::rat) powi bitlen n"
proof -
  have b: "2 ^ nat (bitlen n - 1) \<le> n" "n < 2 ^ nat (bitlen n)"
    using bitlen_bounds [OF assms] by auto
  have pos: "0 \<le> bitlen n" "0 < bitlen n"
    using assms bitlen_nonneg [of n] bitlen_eq_zero_iff [of n] by linarith+
  have "(2::rat) powi (bitlen n - 1) = of_int (2 ^ nat (bitlen n - 1))"
    using pos by (simp add: power_int_nonneg_exp)
  also have "\<dots> \<le> of_int n" using b(1) of_int_le_iff by blast
  finally show "(2::rat) powi (bitlen n - 1) \<le> of_int n" .
  have "of_int (n + 1) \<le> (of_int (2 ^ nat (bitlen n)) :: rat)"
    using b(2) of_int_le_iff zless_imp_add1_zle by blast
  then show "of_int n + 1 \<le> (2::rat) powi bitlen n"
    using pos by (simp add: power_int_nonneg_exp)
qed

lemma expo_bounds_ge1:
  assumes "1 \<le> \<bar>x\<bar>"
  shows "2 powi expo x \<le> \<bar>x\<bar>" "\<bar>x\<bar> < 2 powi (expo x + 1)"
proof -
  have n: "0 < \<lfloor>\<bar>x\<bar>\<rfloor>" using assms by linarith
  have f: "of_int \<lfloor>\<bar>x\<bar>\<rfloor> \<le> \<bar>x\<bar>" "\<bar>x\<bar> < of_int \<lfloor>\<bar>x\<bar>\<rfloor> + 1" by linarith+
  have e: "expo x = bitlen \<lfloor>\<bar>x\<bar>\<rfloor> - 1" "expo x + 1 = bitlen \<lfloor>\<bar>x\<bar>\<rfloor>"
    using assms by (simp_all add: expo_def)
  show "2 powi expo x \<le> \<bar>x\<bar>" unfolding e(1) using bitlen_rat(1) [OF n] f(1) by (rule order_trans)
  show "\<bar>x\<bar> < 2 powi (expo x + 1)" unfolding e(2) using f(2) bitlen_rat(2) [OF n] by (rule less_le_trans)
qed

lemma expo_bounds_lt1:
  assumes "\<bar>x\<bar> < 1" "x \<noteq> 0"
  shows "2 powi expo x \<le> \<bar>x\<bar>" "\<bar>x\<bar> < 2 powi (expo x + 1)"
proof -
  define c where "c = \<lceil>1 / \<bar>x\<bar>\<rceil> - 1"
  have "1 < 1 / \<bar>x\<bar>" using assms by (simp add: field_simps)
  then have "1 < \<lceil>1 / \<bar>x\<bar>\<rceil>" by (simp add: less_ceiling_iff)
  then have c: "0 < c" by (simp add: c_def)
  have "of_int c < 1 / \<bar>x\<bar>" "1 / \<bar>x\<bar> \<le> of_int c + 1" by (simp_all add: c_def) linarith
  with bitlen_rat [OF c]
  have lt: "(2::rat) powi (bitlen c - 1) < 1 / \<bar>x\<bar>" and ge: "1 / \<bar>x\<bar> \<le> 2 powi bitlen c"
    by linarith+
  have e: "expo x = - bitlen c" "expo x + 1 = - (bitlen c - 1)"
    using assms by (simp_all add: expo_def c_def)
  have x: "0 < \<bar>x\<bar>" using assms by simp
  show "2 powi expo x \<le> \<bar>x\<bar>"
    using ge x unfolding e(1) by (simp add: power_int_minus field_simps)
  show "\<bar>x\<bar> < 2 powi (expo x + 1)"
    using lt x unfolding e(2) power_int_minus by (simp add: field_simps)
qed

lemma expo_bounds:
  assumes "x \<noteq> 0"
  shows "2 powi expo x \<le> \<bar>x\<bar>" "\<bar>x\<bar> < 2 powi (expo x + 1)"
  using expo_bounds_ge1 [of x] expo_bounds_lt1 [of x] assms by (cases "1 \<le> \<bar>x\<bar>"; simp)+

lemma expo_minus [simp]: "expo (- x) = expo x"
  by (simp add: expo_def)

lemma rexp_minus [simp]: "rexp (- x) = rexp x"
  by (simp add: rexp_def)

lemma expo_mono: "0 < x \<Longrightarrow> x \<le> y \<Longrightarrow> expo x \<le> expo y"
proof -
  assume "0 < x" "x \<le> y"
  then have "2 powi expo x \<le> x" "y < 2 powi (expo y + 1)"
    using expo_bounds(1) [of x] expo_bounds(2) [of y] by auto
  with \<open>x \<le> y\<close> have "(2::rat) powi expo x < 2 powi (expo y + 1)" by linarith
  then show ?thesis using powi_less_cancel by force
qed

lemma rnd_0 [simp]: "rnd 0 = 0"
  by (simp add: rnd_def)

lemma rnd_minus: "rnd (- x) = - rnd x"
  by (simp add: rnd_def rhe_minus)

lemma powi_quot_int: "m \<le> n \<Longrightarrow> \<exists>k. (2::rat) powi n / 2 powi m = of_int k"
  using powi_ge_1 [of "n - m"] by (simp add: powi_split)

text \<open>Powers of two that are multiples of the unit separate rounded values.\<close>

lemma rnd_le_power:
  assumes "0 < x" "x \<le> 2 powi n" "rexp x \<le> n"
  shows "rnd x \<le> 2 powi n"
proof -
  obtain k where k: "(2::rat) powi n / 2 powi rexp x = of_int k"
    using powi_quot_int assms(3) by blast
  have "x / 2 powi rexp x \<le> of_int k"
    using assms(2) by (simp add: k [symmetric] divide_right_mono less_imp_le)
  then have "rhe (x / 2 powi rexp x) \<le> k" using rhe_mono by fastforce
  then have "of_int (rhe (x / 2 powi rexp x)) * 2 powi rexp x \<le> of_int k * (2::rat) powi rexp x"
    by (simp add: less_imp_le)
  also have "\<dots> = 2 powi n" by (simp add: k [symmetric])
  finally show ?thesis using assms(1) by (simp add: rnd_def)
qed

lemma rnd_ge_power:
  assumes "0 < x" "2 powi n \<le> x" "rexp x \<le> n"
  shows "2 powi n \<le> rnd x"
proof -
  obtain k where k: "(2::rat) powi n / 2 powi rexp x = of_int k"
    using powi_quot_int assms(3) by blast
  have "of_int k \<le> x / 2 powi rexp x"
    using assms(2) by (simp add: k [symmetric] divide_right_mono less_imp_le)
  then have "k \<le> rhe (x / 2 powi rexp x)" using rhe_mono by fastforce
  then have "of_int k * (2::rat) powi rexp x \<le> of_int (rhe (x / 2 powi rexp x)) * 2 powi rexp x"
    by (simp add: less_imp_le)
  moreover have "of_int k * (2::rat) powi rexp x = 2 powi n" by (simp add: k [symmetric])
  ultimately show ?thesis using assms(1) by (simp add: rnd_def)
qed

lemma rnd_nonneg: "0 \<le> x \<Longrightarrow> 0 \<le> rnd x"
proof -
  assume "0 \<le> x"
  then have "0 \<le> rhe (x / 2 powi rexp x)"
    using rhe_mono [of 0 "x / 2 powi rexp x"] by (simp add: less_imp_le)
  then show ?thesis by (simp add: rnd_def less_imp_le)
qed

lemma rnd_mono_pos:
  assumes "0 < x" "x \<le> y"
  shows "rnd x \<le> rnd y"
proof (cases "rexp x = rexp y")
  case True
  have "rhe (x / 2 powi rexp x) \<le> rhe (y / 2 powi rexp x)"
    using assms by (intro rhe_mono) (simp add: divide_right_mono less_imp_le)
  then show ?thesis using assms True by (simp add: rnd_def less_imp_le)
next
  case False
  have "expo x \<le> expo y" using assms by (rule expo_mono)
  with False have lt: "expo x < expo y" and r: "rexp x \<le> expo y" "rexp y \<le> expo y"
    by (auto simp: rexp_def)
  have y: "0 < y" using assms by linarith
  have "x < 2 powi (expo x + 1)" using expo_bounds(2) [of x] assms by simp
  also have "\<dots> \<le> 2 powi expo y" using lt by (intro powi_le) simp
  finally have "rnd x \<le> 2 powi expo y" using assms r by (intro rnd_le_power) auto
  also have "\<dots> \<le> rnd y"
    using expo_bounds(1) [of y] y r by (intro rnd_ge_power) auto
  finally show ?thesis .
qed

lemma rnd_mono: "x \<le> y \<Longrightarrow> rnd x \<le> rnd y"
proof -
  assume le: "x \<le> y"
  consider "0 < x" | "x \<le> 0" "0 \<le> y" | "y < 0" by linarith
  then show ?thesis
  proof cases
    case 1
    then show ?thesis using le by (rule rnd_mono_pos)
  next
    case 2
    then have "0 \<le> rnd y" "0 \<le> rnd (- x)" by (auto intro: rnd_nonneg)
    then show ?thesis by (simp add: rnd_minus)
  next
    case 3
    then have "rnd (- y) \<le> rnd (- x)" using le by (intro rnd_mono_pos) auto
    then show ?thesis by (simp add: rnd_minus)
  qed
qed

text \<open>
  The representable numbers: \<open>m * 2 ^ q\<close> with \<open>|m| \<le> 2 ^ 53\<close> and \<open>q \<ge> -1074\<close>. They are the fixed
  points of \<open>rnd\<close>, and every rounded number is one.
\<close>

lemma rnd_representable:
  assumes "\<bar>m\<bar> \<le> 2 ^ 53" "-1074 \<le> q"
  shows "rnd (of_int m * 2 powi q) = of_int m * 2 powi q"
proof (cases "m = 0")
  case False
  have main: "rnd (of_int m * 2 powi q) = of_int m * 2 powi q"
    if m: "\<bar>m\<bar> < 2 ^ 53" "m \<noteq> 0" and q: "-1074 \<le> q" for m :: int and q :: int
  proof -
    let ?x = "of_int m * 2 powi q :: rat"
    have x: "?x \<noteq> 0" using m by simp
    have "(2::rat) powi expo ?x \<le> \<bar>?x\<bar>" using expo_bounds(1) x by blast
    also have "\<bar>?x\<bar> = of_int \<bar>m\<bar> * 2 powi q" by (simp add: abs_mult)
    also have "\<dots> < 2 ^ 53 * 2 powi q"
    proof -
      have "of_int \<bar>m\<bar> < (of_int (2 ^ 53) :: rat)" using m(1) of_int_less_iff by blast
      then show ?thesis by simp
    qed
    also have "\<dots> = 2 powi (53 + q)" by (simp add: power_int_add)
    finally have "expo ?x < 53 + q" by (rule powi_less_cancel)
    then have le: "rexp ?x \<le> q" using q by (simp add: rexp_def)
    then obtain k where "(2::rat) powi q / 2 powi rexp ?x = of_int k" using powi_quot_int by blast
    then have k: "?x / 2 powi rexp ?x = of_int (m * k)" by (simp add: divide_simps) 
    then have "rhe (?x / 2 powi rexp ?x) = m * k" by (simp only: rhe_of_int)
    then have "rnd ?x = of_int (m * k) * 2 powi rexp ?x" using x by (simp only: rnd_def if_False)
    also have "\<dots> = ?x" unfolding k [symmetric] by simp
    finally show ?thesis .
  qed
  show ?thesis
  proof (cases "\<bar>m\<bar> = 2 ^ 53")
    case True
    define s where "s = sgn m"
    have m: "m = s * 2 ^ 52 * 2" using True by (simp add: s_def sgn_if abs_if split: if_splits)
    have e: "of_int m * 2 powi q = (of_int (s * 2 ^ 52) * 2 powi (q + 1) :: rat)"
      by (simp add: m power_int_add)
    have s: "\<bar>s * 2 ^ 52\<bar> < 2 ^ 53" "s * 2 ^ 52 \<noteq> 0"
      using False by (auto simp: s_def sgn_if abs_mult)
    show ?thesis unfolding e using assms(2) by (intro main s) simp
  qed (use main assms False in auto)
qed simp

lemma rnd_form: "\<exists>m q. rnd x = of_int m * 2 powi q \<and> \<bar>m\<bar> \<le> 2 ^ 53 \<and> -1074 \<le> q"
proof (cases "x = 0")
  case True
  then show ?thesis by (intro exI [of _ 0]) auto
next
  case False
  let ?m = "rhe (x / 2 powi rexp x)"
  have "\<bar>x\<bar> < 2 powi (expo x + 1)" using expo_bounds(2) False by blast
  also have "\<dots> \<le> 2 powi (53 + rexp x)" by (intro powi_le) (simp add: rexp_def)
  also have "\<dots> = 2 ^ 53 * 2 powi rexp x" by (simp add: power_int_add)
  finally have lt: "\<bar>x / 2 powi rexp x\<bar> \<le> of_int (2 ^ 53)"
    by (simp add: abs_divide divide_le_eq)
  from lt have "x / 2 powi rexp x \<le> of_int (2 ^ 53)" by (rule abs_le_D1)
  moreover from lt have "- (x / 2 powi rexp x) \<le> of_int (2 ^ 53)" by (rule abs_le_D2)
  then have "of_int (- (2 ^ 53)) \<le> x / 2 powi rexp x" by simp
  ultimately have "?m \<le> 2 ^ 53" "- (2 ^ 53) \<le> ?m" using rhe_mono rhe_of_int by metis+
  then have "\<bar>?m\<bar> \<le> 2 ^ 53" by linarith
  then show ?thesis using False
    by (intro exI [of _ ?m] exI [of _ "rexp x"]) (simp add: rnd_def rexp_def)
qed

lemma rnd_idem [simp]: "rnd (rnd x) = rnd x"
proof -
  obtain m q where "rnd x = of_int m * 2 powi q" "\<bar>m\<bar> \<le> 2 ^ 53" "-1074 \<le> q"
    using rnd_form by blast
  then show ?thesis using rnd_representable by simp
qed

lemma rnd_of_int: "\<bar>n\<bar> \<le> 2 ^ 53 \<Longrightarrow> rnd (of_int n) = of_int n"
  using rnd_representable [of n 0] by simp

lemma rnd_1 [simp]: "rnd 1 = 1"
  using rnd_of_int [of 1] by simp

definition is_flt :: "rat \<Rightarrow> bool" where "is_flt x \<longleftrightarrow> rnd x = x"

lemma is_flt_rnd [simp, intro]: "is_flt (rnd x)"
  by (simp add: is_flt_def)

lemma is_flt_of_int: "\<bar>n\<bar> \<le> 2 ^ 53 \<Longrightarrow> is_flt (of_int n)"
  by (simp add: is_flt_def rnd_of_int)

section \<open>Monotone roundings\<close>

text \<open>
  What the money computations need of a rounding: it is monotone and fixes zero. The locale
  is interpreted below on \<^const>\<open>rnd\<close> and on the built-in \<open>round(x, n)\<close>.
\<close>

locale monotone_rounding =
  fixes r :: "rat \<Rightarrow> rat"
  assumes mono: "x \<le> y \<Longrightarrow> r x \<le> r y"
    and zero: "r 0 = 0"
begin

lemma nonneg: "0 \<le> x \<Longrightarrow> 0 \<le> r x"
  using mono [of 0 x] by (simp add: zero)

lemma nonpos: "x \<le> 0 \<Longrightarrow> r x \<le> 0"
  using mono [of x 0] by (simp add: zero)

lemma neg_back: "r x < 0 \<Longrightarrow> x < 0"
  using nonneg [of x] by linarith

lemma pos_back: "0 < r x \<Longrightarrow> 0 < x"
  using nonpos [of x] by linarith

lemma max_commute: "r (max x y) = max (r x) (r y)"
  using mono [of x y] mono [of y x] by (cases "x \<le> y") (auto simp: max_def)

lemma min_commute: "r (min x y) = min (r x) (r y)"
  using mono [of x y] mono [of y x] by (cases "x \<le> y") (auto simp: min_def)

lemma diff_nonneg: "x \<le> y \<Longrightarrow> 0 \<le> r (y - x)"
  by (rule nonneg) simp

end

interpretation dbl: monotone_rounding rnd
  by unfold_locales (auto intro: rnd_mono)

section \<open>Operations on floats\<close>

text \<open>A literal of the source, such as \<open>0.0036\<close>, is the double nearest to the decimal.\<close>

definition flit :: "rat \<Rightarrow> flt" where "flit x = rnd x"
definition fint :: "int \<Rightarrow> flt" where "fint n = rnd (of_int n)"
definition fadd :: "flt \<Rightarrow> flt \<Rightarrow> flt" where "fadd x y = rnd (x + y)"
definition fsub :: "flt \<Rightarrow> flt \<Rightarrow> flt" where "fsub x y = rnd (x - y)"
definition fmul :: "flt \<Rightarrow> flt \<Rightarrow> flt" where "fmul x y = rnd (x * y)"

text \<open>Division by a divisor known to be non-zero, and the checked \<open>/\<close> of the source.\<close>

definition fquot :: "flt \<Rightarrow> flt \<Rightarrow> flt" where "fquot x y = rnd (x / y)"
definition fdiv :: "flt \<Rightarrow> flt \<Rightarrow> flt res" where
  "fdiv x y = (if y = 0 then Inl ZeroDivisionError else Inr (fquot x y))"

lemmas flt_op_defs = flit_def fint_def fadd_def fsub_def fmul_def fquot_def

lemma is_flt_ops [simp, intro]:
  "is_flt (flit a)" "is_flt (fint i)" "is_flt (fadd x y)" "is_flt (fsub x y)" "is_flt (fmul x y)"
  "is_flt (fquot x y)"
  by (simp_all add: flt_op_defs)

lemma fdiv_nz [simp]: "y \<noteq> 0 \<Longrightarrow> fdiv x y = Inr (fquot x y)"
  by (simp add: fdiv_def)

lemma fdiv_0 [simp]: "fdiv x 0 = Inl ZeroDivisionError"
  by (simp add: fdiv_def)

lemma fsub_nonneg: "y \<le> x \<Longrightarrow> 0 \<le> fsub x y"
  by (simp add: fsub_def rnd_nonneg)

lemma fsub_self [simp]: "fsub x x = 0"
  by (simp add: fsub_def)

lemma fsub_pos: "is_flt x \<Longrightarrow> is_flt y \<Longrightarrow> fsub x y < 0 \<Longrightarrow> x < y"
  using fsub_nonneg [of y x] by linarith

text \<open>Multiplying a non-negative amount by a factor of at least one does not lower it.\<close>

lemma fmul_ge: "is_flt x \<Longrightarrow> 0 \<le> x \<Longrightarrow> 1 \<le> k \<Longrightarrow> x \<le> fmul x k"
proof -
  assume x: "is_flt x" "0 \<le> x" and k: "1 \<le> k"
  have "x * 1 \<le> x * k" using x k by (intro mult_left_mono) auto
  then have "rnd x \<le> rnd (x * k)" by (intro rnd_mono) simp
  then show ?thesis using x by (simp add: fmul_def is_flt_def)
qed

lemma fadd_one_ge: "0 \<le> x \<Longrightarrow> 1 \<le> fadd 1 x"
  using rnd_mono [of 1 "1 + x"] by (simp add: fadd_def)

section \<open>The built-in round\<close>

text \<open>
  \<open>round(x, n)\<close> rounds the exact binary value correctly to \<open>n\<close> decimals, ties to even, and
  converts the decimal back to the nearest double.
\<close>

definition py_round :: "nat \<Rightarrow> flt \<Rightarrow> flt" where
  "py_round n x = rnd (of_int (rhe (x * 10 ^ n)) / 10 ^ n)"

lemma py_round_mono: "x \<le> y \<Longrightarrow> py_round n x \<le> py_round n y"
  unfolding py_round_def by (intro rnd_mono divide_right_mono) (auto intro!: rhe_mono mult_right_mono)

lemma py_round_0 [simp]: "py_round n 0 = 0"
  by (simp add: py_round_def)

interpretation pr: monotone_rounding "py_round n" for n
  by unfold_locales (auto intro: py_round_mono)

lemma is_flt_py_round [simp, intro]: "is_flt (py_round n x)"
  by (simp add: py_round_def)

lemma py_round_of_int: "\<bar>k\<bar> \<le> 2 ^ 53 \<Longrightarrow> py_round n (of_int k) = of_int k"
proof -
  assume k: "\<bar>k\<bar> \<le> 2 ^ 53"
  have "(of_int k :: rat) * 10 ^ n = of_int (k * 10 ^ n)" by simp
  then have "rhe (of_int k * 10 ^ n) = k * 10 ^ n" by (simp only: rhe_of_int)
  then show ?thesis using k by (simp add: py_round_def rnd_of_int)
qed

section \<open>The built-in sum\<close>

text \<open>
  From Python 3.12 on, \<open>sum\<close> over floats is the compensated summation of Neumaier: \<open>f\<close> is the
  running total and \<open>c\<close> the accumulated rounding error, added at the end unless it is zero. The
  sum starts from the integer 0, so the first float becomes the total as it is.
\<close>

fun fsum_from :: "flt \<Rightarrow> flt \<Rightarrow> flt list \<Rightarrow> flt" where
  "fsum_from f c [] = (if c = 0 then f else fadd f c)"
| "fsum_from f c (x # xs) =
     (let t = fadd f x
      in fsum_from t (if \<bar>x\<bar> \<le> \<bar>f\<bar> then fadd c (fadd (fsub f t) x) else fadd c (fadd (fsub x t) f)) xs)"

definition py_sum :: "flt list \<Rightarrow> flt" where
  "py_sum xs = (case xs of [] \<Rightarrow> 0 | x # ys \<Rightarrow> fsum_from x 0 ys)"

lemma py_sum_Nil [simp]: "py_sum [] = 0"
  by (simp add: py_sum_def)

lemma py_sum_single [simp]: "py_sum [x] = x"
  by (simp add: py_sum_def)

lemma fsum_from_of_int:
  "\<bar>f\<bar> + sum_list (map abs ns) \<le> 2 ^ 53 \<Longrightarrow>
    fsum_from (of_int f) 0 (map of_int ns) = of_int (f + sum_list ns)"
proof (induction ns arbitrary: f)
  case Nil
  then show ?case by simp
next
  case (Cons n ns)
  have nn: "0 \<le> sum_list (map abs ns)" by (intro sum_list_nonneg) auto
  with Cons.prems have b: "\<bar>f + n\<bar> \<le> 2 ^ 53" "\<bar>f\<bar> \<le> 2 ^ 53" "\<bar>n\<bar> \<le> 2 ^ 53" by auto
  have t: "fadd (of_int f) (of_int n) = of_int (f + n)"
    using rnd_of_int [OF b(1)] by (simp add: fadd_def)
  have d: "fsub (of_int f) (of_int (f + n)) = of_int (- n)"
          "fsub (of_int n) (of_int (f + n)) = of_int (- f)"
    using rnd_of_int [of "- n"] rnd_of_int [of "- f"] b by (simp_all add: fsub_def)
  have c: "fadd (of_int (- n)) (of_int n) = 0" "fadd (of_int (- f)) (of_int f) = 0" "fadd 0 0 = 0"
    by (simp_all add: fadd_def)
  have "fsum_from (of_int f) 0 (map of_int (n # ns)) = fsum_from (of_int (f + n)) 0 (map of_int ns)"
    by (simp only: list.map fsum_from.simps Let_def t d c if_cancel)
  also have "\<dots> = of_int (f + n + sum_list ns)"
    using Cons.prems by (intro Cons.IH) auto
  finally show ?case by (simp add: add.assoc)
qed

text \<open>On whole amounts within \<open>2 ^ 53\<close> the sum is exact.\<close>

lemma py_sum_of_int:
  assumes "sum_list (map abs ns) \<le> 2 ^ 53"
  shows "py_sum (map of_int ns) = of_int (sum_list ns)"
proof (cases ns)
  case (Cons n ms)
  then show ?thesis using assms fsum_from_of_int [of n ms] by (simp add: py_sum_def)
qed simp

text \<open>
  The compensation never spoils the sign: a sum of non-negative floats is non-negative. The error
  of one addition is itself a double (Fast2Sum), so the exact value of total plus compensation
  never drops below what the next rounding can represent.
\<close>

lemma rhe_nearest: "\<bar>of_int (rhe y) - y\<bar> \<le> \<bar>of_int k - y\<bar>"
proof (cases "k = rhe y")
  case False
  then have "1 \<le> \<bar>k - rhe y\<bar>" by linarith
  then have "1 \<le> \<bar>of_int (k - rhe y) :: rat\<bar>" by (metis of_int_1_le_iff of_int_abs)
  then show ?thesis using rhe_dist [of y] unfolding of_int_diff by linarith
qed simp

lemma rexp_mono: "0 < x \<Longrightarrow> x \<le> y \<Longrightarrow> rexp x \<le> rexp y"
  using expo_mono [of x y] by (simp add: rexp_def)

lemma rnd_grid: "q \<le> rexp y \<Longrightarrow> \<exists>k. rnd y = of_int k * 2 powi q"
proof -
  assume "q \<le> rexp y"
  then obtain k where k: "(2::rat) powi rexp y / 2 powi q = of_int k" using powi_quot_int by blast
  then have e: "(2::rat) powi rexp y = of_int k * 2 powi q" by (simp add: divide_simps)
  show ?thesis
  proof (cases "y = 0")
    case True
    then show ?thesis by (intro exI [of _ 0]) simp
  next
    case False
    then have "rnd y = of_int (rhe (y / 2 powi rexp y) * k) * 2 powi q"
      by (simp add: rnd_def e [symmetric])
    then show ?thesis by blast
  qed
qed

lemma is_flt_on_grid:
  assumes f: "f \<noteq> 0" and y: "y = of_int k * 2 powi rexp f" "\<bar>y\<bar> \<le> \<bar>f\<bar>"
  shows "is_flt y"
proof -
  have "\<bar>f\<bar> < 2 powi (expo f + 1)" using expo_bounds(2) f by blast
  also have "\<dots> \<le> 2 powi (53 + rexp f)" by (intro powi_le) (simp add: rexp_def)
  also have "\<dots> = 2 ^ 53 * 2 powi rexp f" by (simp add: power_int_add)
  finally have "\<bar>f\<bar> < of_int (2 ^ 53) * 2 powi rexp f" by simp
  moreover have "\<bar>y\<bar> = of_int \<bar>k\<bar> * 2 powi rexp f" by (simp add: y(1) abs_mult)
  ultimately have "of_int \<bar>k\<bar> * 2 powi rexp f < of_int (2 ^ 53) * (2 :: rat) powi rexp f"
    using y(2) by linarith
  then have "of_int \<bar>k\<bar> < (of_int (2 ^ 53) :: rat)" by (simp only: mult_less_cancel_right_pos powi_pos)
  then have "\<bar>k\<bar> \<le> 2 ^ 53" by (simp only: of_int_less_iff)
  moreover have "-1074 \<le> rexp f" by (simp add: rexp_def)
  ultimately show ?thesis using rnd_representable y(1) by (simp add: is_flt_def)
qed

lemma rnd_error_le:
  assumes f: "is_flt f" and x: "0 < x" "x \<le> f"
  shows "rnd (f + x) - (f + x) \<le> x"
proof -
  let ?z = "f + x" and ?u = "(2::rat) powi rexp (f + x)"
  have le: "rexp f \<le> rexp ?z" using x by (intro rexp_mono) auto
  obtain k where k: "f \<le> of_int k * ?u" "of_int k * ?u \<le> ?z"
  proof (cases "rexp f = rexp ?z")
    case True
    then obtain k where "rnd f = of_int k * ?u" using rnd_grid [of "rexp ?z" f] by auto
    then show ?thesis using that [of k] f x by (simp add: is_flt_def)
  next
    case False
    with le have r: "rexp ?z = expo ?z - 52" and lt: "expo f + 1 \<le> expo ?z"
      by (auto simp: rexp_def)
    have u: "of_int (2 ^ 52) * ?u = 2 powi expo ?z" unfolding r by (simp add: power_int_diff)
    have "f < 2 powi (expo f + 1)" using expo_bounds(2) [of f] x by simp
    also have "\<dots> \<le> 2 powi expo ?z" using lt by (rule powi_le)
    finally have "f \<le> 2 powi expo ?z" by simp
    moreover have "2 powi expo ?z \<le> ?z" using expo_bounds(1) [of ?z] x by simp
    ultimately show ?thesis using that [of "2 ^ 52"] unfolding u by simp
  qed
  have z: "?z \<noteq> 0" using x by simp
  have "\<bar>of_int (rhe (?z / ?u)) - ?z / ?u\<bar> * ?u \<le> \<bar>of_int k - ?z / ?u\<bar> * ?u"
    by (intro mult_right_mono rhe_nearest) simp
  then have "\<bar>(of_int (rhe (?z / ?u)) - ?z / ?u) * ?u\<bar> \<le> \<bar>(of_int k - ?z / ?u) * ?u\<bar>"
    by (simp add: abs_mult)
  moreover have "(of_int m - ?z / ?u) * ?u = of_int m * ?u - ?z" for m
    by (simp add: left_diff_distrib)
  ultimately have "\<bar>rnd ?z - ?z\<bar> \<le> \<bar>of_int k * ?u - ?z\<bar>"
    using z by (simp only: rnd_def if_False)
  then show ?thesis using k by linarith
qed

lemma is_flt_double: "is_flt f \<Longrightarrow> is_flt (2 * f)"
proof -
  assume f: "is_flt f"
  obtain m q where m: "rnd f = of_int m * 2 powi q" "\<bar>m\<bar> \<le> 2 ^ 53" "-1074 \<le> q" using rnd_form by blast
  then have "2 * f = of_int m * 2 powi (q + 1)" using f by (simp add: is_flt_def power_int_add)
  then show ?thesis using rnd_representable [of m "q + 1"] m by (simp add: is_flt_def)
qed

lemma fast_two_sum:
  assumes f: "is_flt f" and x: "is_flt x" "0 \<le> x" "x \<le> f"
  shows "fadd (fsub f (fadd f x)) x = f + x - rnd (f + x)"
proof (cases "x = 0")
  case True
  with f show ?thesis by (simp add: flt_op_defs is_flt_def)
next
  case False
  with x have p: "0 < x" "0 < f" by auto
  let ?t = "rnd (f + x)"
  have "rnd f \<le> ?t" by (rule rnd_mono) (use x in simp)
  then have lo: "f \<le> ?t" using f by (simp add: is_flt_def)
  have "?t \<le> rnd (2 * f)" by (rule rnd_mono) (use x in simp)
  then have hi: "?t \<le> 2 * f" using is_flt_double [OF f] by (simp add: is_flt_def)
  have r: "rexp f \<le> rexp (f + x)" "rexp x \<le> rexp f"
    using p x by (auto intro: rexp_mono)
  obtain a where a: "rnd f = of_int a * 2 powi rexp f" using rnd_grid by blast
  obtain b where b: "?t = of_int b * 2 powi rexp f" using rnd_grid r(1) by blast
  obtain c where c: "(2::rat) powi rexp f / 2 powi rexp x = of_int c" using powi_quot_int r(2) by blast
  then have e: "(2::rat) powi rexp f = of_int c * 2 powi rexp x" by (simp add: divide_simps)
  obtain k where k: "rnd x = of_int k * 2 powi rexp x" using rnd_grid by blast
  have d1: "f - ?t = of_int (a - b) * 2 powi rexp f"
    using a b f by (simp add: is_flt_def left_diff_distrib)
  have "is_flt (f - ?t)" by (rule is_flt_on_grid [OF _ d1]) (use p lo hi in auto)
  then have s1: "fsub f (fadd f x) = f - ?t" by (simp add: flt_op_defs is_flt_def)
  have d2: "f - ?t + x = of_int ((a - b) * c + k) * 2 powi rexp x"
    using k x(1) unfolding d1 e by (simp add: is_flt_def distrib_right)
  have "is_flt (f - ?t + x)"
    by (rule is_flt_on_grid [OF _ d2]) (use p lo rnd_error_le [OF f p(1) x(3)] in \<open>auto simp: abs_le_iff\<close>)
  then have "rnd (f - ?t + x) = f - ?t + x" by (simp add: is_flt_def)
  then show ?thesis unfolding s1 by (simp add: fadd_def)
qed

lemma fsum_from_nonneg:
  "is_flt f \<Longrightarrow> 0 \<le> f \<Longrightarrow> 0 \<le> f + c \<Longrightarrow> (\<And>x. x \<in> set xs \<Longrightarrow> is_flt x \<and> 0 \<le> x) \<Longrightarrow> 0 \<le> fsum_from f c xs"
proof (induction xs arbitrary: f c)
  case Nil
  then show ?case by (simp add: fadd_def rnd_nonneg)
next
  case (Cons x xs)
  let ?t = "rnd (f + x)"
  have x: "is_flt x" "0 \<le> x" using Cons.prems(4) by auto
  have e: "(if \<bar>x\<bar> \<le> \<bar>f\<bar> then fadd c (fadd (fsub f (fadd f x)) x) else fadd c (fadd (fsub x (fadd f x)) f))
      = rnd (c + (f + x - ?t))"
  proof (cases "x \<le> f")
    case True
    then show ?thesis
      using x Cons.prems(2) fast_two_sum [OF Cons.prems(1) x(1,2)] by (simp add: fadd_def [of c])
  next
    case False
    then show ?thesis
      using x Cons.prems(2) fast_two_sum [OF x(1) Cons.prems(1,2)]
      by (simp add: fadd_def [of c] fadd_def [of f x] fadd_def [of x f] add.commute [of x f])
  qed
  have "rnd (- ?t) \<le> rnd (c + (f + x - ?t))"
    by (rule rnd_mono) (use Cons.prems(3) x in simp)
  then have "0 \<le> ?t + rnd (c + (f + x - ?t))" by (simp add: rnd_minus)
  moreover have "0 \<le> ?t" using x Cons.prems(2) by (simp add: rnd_nonneg)
  ultimately have "0 \<le> fsum_from ?t (rnd (c + (f + x - ?t))) xs"
    using Cons.prems(4) by (intro Cons.IH) auto
  moreover have "fsum_from f c (x # xs) = fsum_from ?t (rnd (c + (f + x - ?t))) xs"
    unfolding fsum_from.simps Let_def e by (simp add: fadd_def)
  ultimately show ?case by simp
qed

lemma py_sum_nonneg: "(\<And>x. x \<in> set xs \<Longrightarrow> is_flt x \<and> 0 \<le> x) \<Longrightarrow> 0 \<le> py_sum xs"
  by (cases xs) (auto simp: py_sum_def intro!: fsum_from_nonneg)

lemma fsum_from_flt: "is_flt f \<Longrightarrow> is_flt (fsum_from f c xs)"
  by (induction xs arbitrary: f c) (auto simp: Let_def)

lemma is_flt_py_sum: "(\<And>x. x \<in> set xs \<Longrightarrow> is_flt x) \<Longrightarrow> is_flt (py_sum xs)"
  by (cases xs) (auto simp: py_sum_def is_flt_def intro: fsum_from_flt [unfolded is_flt_def])

lemma fmul_nonneg: "0 \<le> a \<Longrightarrow> 0 \<le> b \<Longrightarrow> is_flt (fmul a b) \<and> 0 \<le> fmul a b"
  by (simp add: fmul_def rnd_nonneg)

lemma fquot_nonneg: "0 \<le> a \<Longrightarrow> 0 \<le> b \<Longrightarrow> 0 \<le> fquot a b"
  by (simp add: fquot_def rnd_nonneg)

lemma fint_nonneg: "0 \<le> n \<Longrightarrow> 0 \<le> fint n"
  by (simp add: fint_def rnd_nonneg)

section \<open>Formatting\<close>

definition fmt_fixed :: "nat \<Rightarrow> flt \<Rightarrow> string" where
  "fmt_fixed n x = (let m = rhe (\<bar>x\<bar> * 10 ^ n) in
     (if x < 0 then ''-'' else '''') @ dec_digits (m div 10 ^ n) @ ''.'' @ zpad n (m mod 10 ^ n))"

text \<open>The decimal exponent, and the shortest digits that read back as the same double.\<close>

function dec_len :: "int \<Rightarrow> int" where
  "dec_len n = (if n < 1 then 0 else 1 + dec_len (n div 10))"
  by pat_completeness auto
termination
  by (relation "measure nat") auto

declare dec_len.simps [simp del]

definition expo10 :: "rat \<Rightarrow> int" where
  "expo10 x = (if 1 \<le> x then dec_len \<lfloor>x\<rfloor> - 1 else - dec_len (\<lceil>1 / x\<rceil> - 1))"

definition sig_digits :: "nat \<Rightarrow> rat \<Rightarrow> (int \<times> int) option" where
  "sig_digits p x = (let k = expo10 x - int p + 1; n = rhe (x / 10 powi k)
     in map_option (\<lambda>n. (n, k)) (List.find (\<lambda>n. rnd (of_int n * 10 powi k) = x) [n, n + 1, n - 1]))"

fun shortest_from :: "nat \<Rightarrow> nat \<Rightarrow> rat \<Rightarrow> int \<times> int" where
  "shortest_from 0 p x = (rhe (x / 10 powi (expo10 x - 16)), expo10 x - 16)"
| "shortest_from (Suc fuel) p x =
     (case sig_digits p x of Some nk \<Rightarrow> nk | None \<Rightarrow> shortest_from fuel (Suc p) x)"

definition strip_zeros :: "string \<Rightarrow> string" where
  "strip_zeros s = rev (dropWhile (\<lambda>c. c = CHR ''0'') (rev s))"

definition place_point :: "string \<Rightarrow> int \<Rightarrow> string" where
  "place_point ds pt =
     (if -4 < pt \<and> pt \<le> 16
      then if pt \<le> 0 then ''0.'' @ replicate (nat (- pt)) CHR ''0'' @ ds
           else if int (length ds) \<le> pt then ds @ replicate (nat pt - length ds) CHR ''0'' @ ''.0''
           else take (nat pt) ds @ ''.'' @ drop (nat pt) ds
      else (case ds of [] \<Rightarrow> [] | d # r \<Rightarrow> d # (if r = [] then [] else CHR ''.'' # r)) @
           ''e'' @ (if pt - 1 < 0 then ''-'' else ''+'') @ zpad 2 \<bar>pt - 1\<bar>)"

text \<open>\<open>str(x)\<close> of a float: the shortest decimal, searched from one to seventeen digits.\<close>

definition frepr :: "flt \<Rightarrow> string" where
  "frepr x = (if x = 0 then ''0.0'' else
     (let (n, k) = shortest_from 17 1 \<bar>x\<bar>; ds = dec_digits n
      in (if x < 0 then ''-'' else '''') @ place_point (strip_zeros ds) (int (length ds) + k)))"

end
