(* ===== verification/Audit_Trail.thy ===== *)
theory Audit_Trail
  imports Py_Date Py_Float
begin

text \<open>
  \<open>app/modules/audit/service.py\<close>: the append-only audit trail and the redaction of the payloads
  it stores. Payloads are JSON values; an object keeps the order of its keys.
\<close>

datatype json =
    JNull
  | JBool bool
  | JInt int
  | JFloat flt
  | JStr string
  | JTime datetime  \<comment> \<open>the text of a time, by \<open>isoformat\<close>\<close>
  | JList "json list"
  | JObj "(string \<times> json) list"

section \<open>Redaction\<close>

definition sensitive_keys :: "string list" where
  "sensitive_keys = [''password'', ''password_hash'', ''token'', ''refresh_token'', ''access_token'',
     ''authorization'', ''mfa_secret'', ''tax_registration'', ''bank_details'', ''credit_limit_amount'',
     ''email'', ''phone'']"

definition is_sensitive :: "string \<Rightarrow> bool" where
  "is_sensitive k = list_ex (\<lambda>s. py_in s (py_lower k)) sensitive_keys"

text \<open>
  The loop over \<open>data.items()\<close>; \<open>redact_value\<close> is its body for a key that is not sensitive: only
  a \<open>dict\<close> is descended into.
\<close>

fun redact_payload :: "(string \<times> json) list \<Rightarrow> (string \<times> json) list"
  and redact_value :: "json \<Rightarrow> json" where
  "redact_payload [] = []"
| "redact_payload ((k, v) # kvs) =
    (k, if is_sensitive k then JStr ''[REDACTED]'' else redact_value v) # redact_payload kvs"
| "redact_value (JObj kvs) = JObj (redact_payload kvs)"
| "redact_value JNull = JNull"
| "redact_value (JBool b) = JBool b"
| "redact_value (JInt i) = JInt i"
| "redact_value (JFloat x) = JFloat x"
| "redact_value (JStr s) = JStr s"
| "redact_value (JTime t) = JTime t"
| "redact_value (JList xs) = JList xs"

section \<open>The log\<close>

record audit_log =
  al_tenant_id :: "string option"
  al_user_id :: "string option"
  al_branch_id :: "string option"
  al_entity_type :: string
  al_entity_id :: string
  al_action :: string
  al_previous_value :: "(string \<times> json) list option"
  al_new_value :: "(string \<times> json) list option"
  al_correlation_id :: "string option"
  al_ip_address :: "string option"
  al_user_agent :: "string option"

definition record_audit :: "audit_log \<Rightarrow> audit_log list \<Rightarrow> audit_log list" where
  "record_audit e rows = rows @ [e\<lparr>al_previous_value := map_option redact_payload (al_previous_value e),
     al_new_value := map_option redact_payload (al_new_value e)\<rparr>]"

section \<open>What redaction guarantees\<close>

text \<open>The value found by following keys through nested objects.\<close>

fun json_at :: "string list \<Rightarrow> json \<Rightarrow> json option" where
  "json_at [] v = Some v"
| "json_at (k # ks) (JObj kvs) = (case map_of kvs k of None \<Rightarrow> None | Some v \<Rightarrow> json_at ks v)"
| "json_at (k # ks) v = None"

lemma map_of_redact:
  "map_of (redact_payload kvs) k =
    map_option (\<lambda>v. if is_sensitive k then JStr ''[REDACTED]'' else redact_value v) (map_of kvs k)"
  by (induction kvs) auto

lemma redact_keys: "map fst (redact_payload kvs) = map fst kvs"
  by (induction kvs) auto

lemma redact_value_other: "(\<And>kvs. v \<noteq> JObj kvs) \<Longrightarrow> redact_value v = v"
  by (cases v) auto

lemma json_at_redact:
  "json_at ks (redact_value v) =
    (case json_at ks v of None \<Rightarrow> None
     | Some w \<Rightarrow> if list_ex is_sensitive (butlast ks) then None
        else if ks \<noteq> [] \<and> is_sensitive (last ks) then Some (JStr ''[REDACTED]'') else Some (redact_value w))"
proof (induction ks v rule: json_at.induct)
  case (2 k ks kvs)
  have leaf: "json_at ks (JStr s) = (if ks = [] then Some (JStr s) else None)" for s
    by (cases ks) auto
  show ?case
  proof (cases "map_of kvs k")
    case (Some v)
    show ?thesis
    proof (cases "is_sensitive k")
      case True
      with Some show ?thesis by (auto simp: map_of_redact leaf split: option.splits)
    next
      case False
      then show ?thesis
        using Some 2 [OF Some] by (auto simp: map_of_redact split: option.splits)
    qed
  qed (simp add: map_of_redact)
qed (auto split: option.splits)

lemma redact_idem: "redact_payload (redact_payload kvs) = redact_payload kvs"
  "redact_value (redact_value v) = redact_value v"
  by (induction kvs and v rule: redact_payload_redact_value.induct) auto

section \<open>Properties\<close>

text \<open>
  What redaction does at every path of object keys: below a sensitive key nothing is left, the
  value of a sensitive key is the marker, and every other value is kept, itself redacted.
\<close>

theorem redaction_exact:
  "json_at (k # ks) (JObj (redact_payload kvs)) =
    (case json_at (k # ks) (JObj kvs) of None \<Rightarrow> None
     | Some w \<Rightarrow> if list_ex is_sensitive (butlast (k # ks)) then None
        else if is_sensitive (last (k # ks)) then Some (JStr ''[REDACTED]'') else Some (redact_value w))"
  using json_at_redact [of "k # ks" "JObj kvs"] by (simp split: option.splits)

text \<open>
  Objects inside a list are not visited: a password in the second position of a payload such as
  \<open>{'users': [{'password': ...}]}\<close> is written to the log.
\<close>

theorem redaction_skips_lists: "redact_payload [(''users'', JList xs)] = [(''users'', JList xs)]"
  by code_simp

text \<open>Redacting twice changes nothing, and the keys and their order are kept.\<close>

theorem redaction_idempotent:
  "redact_payload (redact_payload kvs) = redact_payload kvs \<and> map fst (redact_payload kvs) = map fst kvs"
  by (simp add: redact_idem redact_keys)

end
