(* ===== verification/Py_Money.thy ===== *)
theory Py_Money
  imports Py_Float
begin

text \<open>
  Amounts of money in floats. An amount of \<open>k\<close> cents is represented by the double nearest to
  \<open>k / 100\<close>. Sums and differences of such amounts are off by less than half a cent, so that
  \<open>round(x, 2)\<close> gives back exactly the double of the exact result; this is what the services that
  keep bills, payments and invoices rely on. The bound is ten billion units of the currency.
\<close>

section \<open>The error of one rounding\<close>

lemma rnd_dist: "\<bar>rnd x - x\<bar> \<le> 2 powi rexp x / 2"
proof (cases "x = 0")
  case False
  define u where "u = (2::rat) powi rexp x"
  have u: "0 < u" by (simp add: u_def)
  have "rnd x - x = (of_int (rhe (x / u)) - x / u) * u"
    using False u by (simp add: rnd_def u_def [symmetric] left_diff_distrib)
  then have "\<bar>rnd x - x\<bar> = \<bar>of_int (rhe (x / u)) - x / u\<bar> * u" using u by (simp add: abs_mult)
  also have "\<dots> \<le> 1 / 2 * u" using rhe_dist [of "x / u"] u by (intro mult_right_mono) auto
  finally show ?thesis by (simp add: u_def)
qed simp

lemma rnd_error:
  assumes "\<bar>x\<bar> < 2 powi n" and "-1000 \<le> n"
  shows "\<bar>rnd x - x\<bar> \<le> 2 powi (n - 54)"
proof (cases "x = 0")
  case False
  have "2 powi expo x \<le> \<bar>x\<bar>" using False by (rule expo_bounds)
  then have "2 powi expo x < (2::rat) powi n" using assms(1) by linarith
  then have "expo x < n" by (rule powi_less_cancel)
  then have "rexp x \<le> n - 53" using assms(2) by (simp add: rexp_def)
  then have "(2::rat) powi rexp x \<le> 2 powi (n - 53)" by (rule powi_le)
  moreover have "(2::rat) powi (n - 53) = 2 * 2 powi (n - 54)"
    using power_int_add [of "2::rat" 1 "n - 54"] by simp
  ultimately show ?thesis using rnd_dist [of x] by linarith
qed simp

section \<open>Cents\<close>

definition cent :: "int \<Rightarrow> flt" where "cent k = rnd (of_int k / 100)"

definition money_bound :: int where "money_bound = 10 ^ 12"

lemma is_flt_cent [simp, intro]: "is_flt (cent k)"
  by (simp add: cent_def)

lemma cent_0 [simp]: "cent 0 = 0"
  by (simp add: cent_def)

lemma cent_mono: "a \<le> b \<Longrightarrow> cent a \<le> cent b"
  unfolding cent_def by (intro rnd_mono divide_right_mono) simp_all

lemma cent_nonneg: "0 \<le> k \<Longrightarrow> 0 \<le> cent k"
  using cent_mono [of 0 k] by simp

lemma rnd_error_small: "\<bar>x\<bar> \<le> 10 ^ 10 + 1 \<Longrightarrow> \<bar>rnd x - x\<bar> \<le> 1 / 2 ^ 20"
proof -
  assume x: "\<bar>x\<bar> \<le> 10 ^ 10 + 1"
  have "(10 :: rat) ^ 10 + 1 < 2 powi 34" by (simp add: power_int_def)
  then have "\<bar>rnd x - x\<bar> \<le> 2 powi (34 - 54)" using x by (intro rnd_error) linarith+
  also have "2 powi (34 - 54) = (1 / 2 ^ 20 :: rat)" by (simp add: power_int_def inverse_eq_divide power_one_over)
  finally show ?thesis .
qed

lemma cent_error: "\<bar>k\<bar> \<le> money_bound \<Longrightarrow> \<bar>cent k - of_int k / 100\<bar> \<le> 1 / 2 ^ 20"
proof -
  assume "\<bar>k\<bar> \<le> money_bound"
  then have "\<bar>k\<bar> \<le> 10 ^ 12" by (simp add: money_bound_def)
  then have "of_int \<bar>k\<bar> \<le> (of_int (10 ^ 12) :: rat)" by (simp only: of_int_le_iff)
  then have "\<bar>of_int k :: rat\<bar> \<le> 10 ^ 12" by simp
  then have "\<bar>of_int k / 100 :: rat\<bar> \<le> 10 ^ 10 + 1" by simp
  then show ?thesis unfolding cent_def by (rule rnd_error_small)
qed

lemma rhe_near: "\<bar>y - of_int k\<bar> < 1 / 2 \<Longrightarrow> rhe y = k"
proof -
  assume a: "\<bar>y - of_int k\<bar> < 1 / 2"
  have "\<bar>of_int (rhe y) - y\<bar> \<le> \<bar>of_int k - y\<bar>" by (rule rhe_nearest)
  then have "\<bar>of_int (rhe y) - of_int k :: rat\<bar> < 1" using a by linarith
  then have "\<bar>of_int (rhe y - k) :: rat\<bar> < of_int 1" by simp
  then have "\<bar>rhe y - k\<bar> < 1" by linarith
  then show ?thesis by simp
qed

text \<open>Rounding to two digits recovers the cents from any value less than half a cent away.\<close>

lemma py_round_near: "\<bar>y - of_int k / 100\<bar> < 1 / 200 \<Longrightarrow> py_round 2 y = cent k"
proof -
  assume a: "\<bar>y - of_int k / 100\<bar> < 1 / 200"
  have "y * 10 ^ 2 = 100 * y" by simp
  then have "\<bar>y * 10 ^ 2 - of_int k\<bar> < 1 / 2" using a by linarith
  then have "rhe (y * 10 ^ 2) = k" by (rule rhe_near)
  then show ?thesis by (simp add: py_round_def cent_def)
qed

lemma py_round_cent [simp]: "\<bar>k\<bar> \<le> money_bound \<Longrightarrow> py_round 2 (cent k) = cent k"
  using cent_error [of k] by (intro py_round_near) (simp add: abs_le_iff abs_less_iff)

lemma cent_less: "\<bar>a\<bar> \<le> money_bound \<Longrightarrow> \<bar>b\<bar> \<le> money_bound \<Longrightarrow> a < b \<Longrightarrow> cent a < cent b"
proof -
  assume "\<bar>a\<bar> \<le> money_bound" "\<bar>b\<bar> \<le> money_bound" "a < b"
  then have "\<bar>cent a - of_int a / 100\<bar> \<le> 1 / 2 ^ 20" "\<bar>cent b - of_int b / 100\<bar> \<le> 1 / 2 ^ 20"
    "of_int a + 1 \<le> (of_int b :: rat)" using cent_error by (blast, blast, linarith)
  then show ?thesis unfolding abs_le_iff by simp
qed

lemma cent_less_iff: "\<bar>a\<bar> \<le> money_bound \<Longrightarrow> \<bar>b\<bar> \<le> money_bound \<Longrightarrow> cent a < cent b \<longleftrightarrow> a < b"
  using cent_less cent_mono by (metis linorder_not_le)

lemma cent_le_iff: "\<bar>a\<bar> \<le> money_bound \<Longrightarrow> \<bar>b\<bar> \<le> money_bound \<Longrightarrow> cent a \<le> cent b \<longleftrightarrow> a \<le> b"
  using cent_less_iff [of b a] by (simp add: linorder_not_less [symmetric])

lemma cent_eq_iff: "\<bar>a\<bar> \<le> money_bound \<Longrightarrow> \<bar>b\<bar> \<le> money_bound \<Longrightarrow> cent a = cent b \<longleftrightarrow> a = b"
  by (metis cent_less linorder_neqE less_irrefl)

section \<open>Sums and differences\<close>

text \<open>\<open>x\<close> is within \<open>n\<close> rounding errors of \<open>k\<close> cents.\<close>

definition near :: "nat \<Rightarrow> flt \<Rightarrow> int \<Rightarrow> bool" where
  "near n x k \<longleftrightarrow> \<bar>x - of_int k / 100\<bar> \<le> of_nat n / 2 ^ 20 \<and> \<bar>k\<bar> \<le> money_bound"

lemma near_cent: "\<bar>k\<bar> \<le> money_bound \<Longrightarrow> near 1 (cent k) k"
  using cent_error [of k] by (simp add: near_def)

lemma near_mono: "near m x k \<Longrightarrow> m \<le> n \<Longrightarrow> near n x k"
proof -
  assume a: "near m x k" and "m \<le> n"
  then have "of_nat m / 2 ^ 20 \<le> (of_nat n / 2 ^ 20 :: rat)" by (intro divide_right_mono) auto
  with a show ?thesis by (simp add: near_def)
qed

lemma near_0 [simp]: "near n 0 0"
  by (simp add: near_def money_bound_def)

lemma near_le: "near n x k \<Longrightarrow> n \<le> 2 ^ 20 \<Longrightarrow> \<bar>x\<bar> \<le> 10 ^ 10 + 1"
proof -
  assume a: "near n x k" and n: "n \<le> 2 ^ 20"
  have "(of_nat n :: rat) \<le> of_nat (2 ^ 20)" using n by (simp only: of_nat_le_iff)
  then have 1: "of_nat n / 2 ^ 20 \<le> (1 :: rat)" by simp
  have "\<bar>k\<bar> \<le> 10 ^ 12" using a by (simp add: near_def money_bound_def)
  then have "of_int \<bar>k\<bar> \<le> (of_int (10 ^ 12) :: rat)" by (simp only: of_int_le_iff)
  then have "\<bar>of_int k / 100 :: rat\<bar> \<le> 10 ^ 10" by simp
  moreover from a have "\<bar>x - of_int k / 100\<bar> \<le> of_nat n / 2 ^ 20" by (simp only: near_def)
  ultimately show ?thesis using 1 by linarith
qed

lemma near_rnd: "\<bar>x - of_int k / 100\<bar> \<le> of_nat n / 2 ^ 20 \<Longrightarrow> \<bar>k\<bar> \<le> money_bound \<Longrightarrow> n \<le> 2 ^ 20 \<Longrightarrow>
  near (Suc n) (rnd x) k"
proof -
  assume a: "\<bar>x - of_int k / 100\<bar> \<le> of_nat n / 2 ^ 20" "\<bar>k\<bar> \<le> money_bound" "n \<le> 2 ^ 20"
  then have "near n x k" by (simp add: near_def)
  then have "\<bar>x\<bar> \<le> 10 ^ 10 + 1" using a(3) by (rule near_le)
  then have "\<bar>rnd x - x\<bar> \<le> 1 / 2 ^ 20" by (rule rnd_error_small)
  moreover have "of_nat (Suc n) / 2 ^ 20 = of_nat n / 2 ^ 20 + (1 / 2 ^ 20 :: rat)"
    by (simp add: add_divide_distrib)
  ultimately have "\<bar>rnd x - of_int k / 100\<bar> \<le> of_nat (Suc n) / 2 ^ 20" using a(1) by linarith
  with a(2) show ?thesis by (simp add: near_def)
qed

lemma near_add_aux:
  "\<bar>x - of_int a / 100\<bar> \<le> of_nat m / 2 ^ 20 \<and> \<bar>a\<bar> \<le> money_bound \<Longrightarrow>
    \<bar>y - of_int b / 100\<bar> \<le> of_nat n / 2 ^ 20 \<and> \<bar>b\<bar> \<le> money_bound \<Longrightarrow>
    \<bar>(x + y) - of_int (a + b) / 100\<bar> \<le> (of_nat (m + n) / 2 ^ 20 :: rat)"
  unfolding of_int_add of_nat_add add_divide_distrib by linarith

lemma near_sub_aux:
  "\<bar>x - of_int a / 100\<bar> \<le> of_nat m / 2 ^ 20 \<and> \<bar>a\<bar> \<le> money_bound \<Longrightarrow>
    \<bar>y - of_int b / 100\<bar> \<le> of_nat n / 2 ^ 20 \<and> \<bar>b\<bar> \<le> money_bound \<Longrightarrow>
    \<bar>(x - y) - of_int (a - b) / 100\<bar> \<le> (of_nat (m + n) / 2 ^ 20 :: rat)"
  unfolding of_int_diff of_nat_add add_divide_distrib diff_divide_distrib by linarith

lemma near_add: "near m x a \<Longrightarrow> near n y b \<Longrightarrow> \<bar>a + b\<bar> \<le> money_bound \<Longrightarrow> m + n \<le> 2 ^ 20 \<Longrightarrow>
  near (Suc (m + n)) (fadd x y) (a + b)"
  unfolding fadd_def by (rule near_rnd) (simp_all only: near_def near_add_aux)

lemma near_sub: "near m x a \<Longrightarrow> near n y b \<Longrightarrow> \<bar>a - b\<bar> \<le> money_bound \<Longrightarrow> m + n \<le> 2 ^ 20 \<Longrightarrow>
  near (Suc (m + n)) (fsub x y) (a - b)"
  unfolding fsub_def by (rule near_rnd) (simp_all only: near_def near_sub_aux)

lemma near_round: "near n x k \<Longrightarrow> n \<le> 5000 \<Longrightarrow> py_round 2 x = cent k"
proof -
  assume a: "near n x k" and n: "n \<le> 5000"
  have "(of_nat n :: rat) \<le> of_nat 5000" using n by (simp only: of_nat_le_iff)
  then have "of_nat n / 2 ^ 20 < (1 / 200 :: rat)" by simp
  then show ?thesis using a by (intro py_round_near) (simp add: near_def)
qed

lemma cent_add:
  "\<bar>a\<bar> \<le> money_bound \<Longrightarrow> \<bar>b\<bar> \<le> money_bound \<Longrightarrow> \<bar>a + b\<bar> \<le> money_bound \<Longrightarrow>
    py_round 2 (fadd (cent a) (cent b)) = cent (a + b)"
  using near_round [OF near_add [OF near_cent near_cent]] by simp

lemma cent_sub:
  "\<bar>a\<bar> \<le> money_bound \<Longrightarrow> \<bar>b\<bar> \<le> money_bound \<Longrightarrow> \<bar>a - b\<bar> \<le> money_bound \<Longrightarrow>
    py_round 2 (fsub (cent a) (cent b)) = cent (a - b)"
  using near_round [OF near_sub [OF near_cent near_cent]] by simp

text \<open>Adding up a list of amounts with \<open>+=\<close>.\<close>

lemma near_fold:
  "near n x k \<Longrightarrow> \<bar>k\<bar> + sum_list (map abs ks) \<le> money_bound \<Longrightarrow> n + 2 * length ks \<le> 2 ^ 20 \<Longrightarrow>
    near (n + 2 * length ks) (fold (\<lambda>c s. fadd s (cent c)) ks x) (k + sum_list ks)"
proof (induction ks arbitrary: n x k)
  case (Cons c ks)
  have nn: "0 \<le> sum_list (map abs ks)" by (induction ks) auto
  have b: "\<bar>c\<bar> \<le> money_bound" "\<bar>k + c\<bar> \<le> money_bound" "\<bar>k + c\<bar> + sum_list (map abs ks) \<le> money_bound"
    using Cons.prems(2) nn abs_triangle_ineq [of k c] by simp_all
  have "near (Suc (n + 1)) (fadd x (cent c)) (k + c)"
    using Cons.prems b by (intro near_add near_cent) auto
  then have "near (Suc (n + 1) + 2 * length ks) (fold (\<lambda>c s. fadd s (cent c)) ks (fadd x (cent c))) (k + c + sum_list ks)"
    using Cons.prems b by (intro Cons.IH) auto
  then show ?case by (simp add: add.assoc)
qed simp

text \<open>The cents of an amount.\<close>

definition cents_of :: "flt \<Rightarrow> int" where "cents_of x = rhe (x * 100)"

lemma cents_of_cent [simp]: "\<bar>k\<bar> \<le> money_bound \<Longrightarrow> cents_of (cent k) = k"
proof -
  assume "\<bar>k\<bar> \<le> money_bound"
  then have "\<bar>cent k - of_int k / 100\<bar> \<le> 1 / 2 ^ 20" by (rule cent_error)
  moreover have "(1 :: rat) / 2 ^ 20 < 1 / 200" by simp
  ultimately have "\<bar>cent k * 100 - of_int k\<bar> < 1 / 2" by linarith
  then show ?thesis unfolding cents_of_def by (rule rhe_near)
qed

lemma sum_cents_of:
  "(\<forall>k \<in> set ks. 0 \<le> k) \<Longrightarrow> sum_list ks \<le> money_bound \<Longrightarrow> sum_list (map cents_of (map cent ks)) = sum_list ks"
proof (induction ks)
  case (Cons k ks)
  have "0 \<le> sum_list ks" using Cons.prems(1) by (intro sum_list_nonneg) simp
  with Cons show ?case by simp
qed simp

end
