(* ===== verification/Transactions.thy ===== *)
theory Transactions
  imports Py_Prelude
begin

text \<open>
  How the endpoints use a service: the session of \<open>app/db/session.py\<close> is handed to the service, the
  endpoint commits when the service returns, and a session that is closed without a commit loses
  everything that was flushed in it. A service operation is a function from the tables to a result
  and the tables as the session sees them afterwards.
\<close>

definition committed :: "('a res \<times> 'd) \<Rightarrow> 'd \<Rightarrow> 'a res \<times> 'd" where
  "committed r db = (case r of (Inr x, db') \<Rightarrow> (Inr x, db') | (Inl e, _) \<Rightarrow> (Inl e, db))"

lemma committed_simps [simp]:
  "committed (Inr x, db') db = (Inr x, db')"
  "committed (Inl e, db') db = (Inl e, db)"
  by (simp_all add: committed_def)

lemma committed_cases: "snd (committed r db) = db \<or> (\<exists>x. r = (Inr x, snd (committed r db)))"
  by (cases r; cases "fst r") (auto simp: committed_def)

text \<open>
  The states of the database reached by requests of which each satisfies \<open>ok\<close> when it is made.
\<close>

inductive reached :: "('r \<Rightarrow> 'd \<Rightarrow> 'a res \<times> 'd) \<Rightarrow> ('r \<Rightarrow> 'd \<Rightarrow> bool) \<Rightarrow> 'd \<Rightarrow> 'd \<Rightarrow> bool"
  for service ok start where
  reached_start: "reached service ok start start"
| reached_request: "reached service ok start db \<Longrightarrow> ok r db \<Longrightarrow>
    reached service ok start (snd (committed (service r db) db))"

lemma reached_trans: "reached svc ok b c \<Longrightarrow> reached svc ok a b \<Longrightarrow> reached svc ok a c"
  by (induction rule: reached.induct) (auto intro: reached.intros)

lemma reached_mono: "reached service ok start db \<Longrightarrow> (\<And>r db. ok r db \<Longrightarrow> ok' r db) \<Longrightarrow> reached service ok' start db"
  by (induction rule: reached.induct) (auto intro: reached.intros)

lemma reached_step: "ok r db \<Longrightarrow> service r db = (Inr x, db') \<Longrightarrow> reached service ok db db'"
  using reached_request [OF reached_start, of ok r db service] by simp

text \<open>
  The contract of a service: a request that succeeds keeps the invariant. What the endpoints do
  then keeps it too, whether the requests succeed or not.
\<close>

locale service_contract =
  fixes service :: "'r \<Rightarrow> 'd \<Rightarrow> 'a res \<times> 'd"
    and ok :: "'r \<Rightarrow> 'd \<Rightarrow> bool"
    and inv :: "'d \<Rightarrow> bool"
  assumes keeps: "inv db \<Longrightarrow> ok r db \<Longrightarrow> service r db = (Inr x, db') \<Longrightarrow> inv db'"
begin

lemma endpoint_keeps: "inv db \<Longrightarrow> ok r db \<Longrightarrow> inv (snd (committed (service r db) db))"
  using committed_cases [of "service r db" db] keeps by metis

lemma reached_inv: "reached service ok start db \<Longrightarrow> inv start \<Longrightarrow> inv db"
  by (induction rule: reached.induct) (auto intro: endpoint_keeps)

end

end
