(* ===== verification/Payables.thy ===== *)
theory Payables
  imports Audit_Trail Py_Money Transactions "HOL-Library.Multiset"
begin

text \<open>
  \<open>app/modules/payables/service.py\<close>: carrier and vendor bills recorded against the cost ledger of
  a shipment, their verification, approval and payment. The database session is a record of
  tables; a table read by primary key is a dictionary, the others are lists in insertion order.
  Identities and the clock are arguments. The sum of a numeric column and the text of one are
  computed by the database, outside the repository: they are the two functions of \<open>db_env\<close>.
\<close>

section \<open>Tables\<close>

record db_env =
  db_sum :: "flt list \<Rightarrow> flt"
  db_text :: "flt \<Rightarrow> string"

record cost_line =
  cl_id :: string
  cl_shipment_id :: string
  cl_vendor_id :: "string option"
  cl_carrier_id :: "string option"
  cl_charge_code :: "string option"
  cl_description :: "string option"
  cl_quantity :: flt
  cl_unit_rate :: "flt option"
  cl_amount :: flt
  cl_currency_code :: "string option"
  cl_status :: string
  cl_is_additional :: bool
  cl_created_by :: "string option"

record payable =
  pay_id :: string
  pay_tenant_id :: string
  pay_shipment_id :: string
  pay_vendor_id :: "string option"
  pay_carrier_id :: "string option"
  pay_bill_number :: string
  pay_bill_date :: date
  pay_due_date :: "date option"
  pay_currency_code :: string
  pay_subtotal_amount :: flt
  pay_tax_amount :: flt
  pay_total_amount :: flt
  pay_paid_amount :: flt
  pay_status :: string
  pay_verification_status :: string
  pay_approval_status :: string
  pay_verified_by :: "string option"
  pay_verified_at :: "datetime option"
  pay_approved_by :: "string option"
  pay_approved_at :: "datetime option"
  pay_rejection_reason :: "string option"
  pay_variance_amount :: flt
  pay_supporting_document_url :: "string option"
  pay_notes :: "string option"
  pay_financial_entry_id :: "string option"

record payable_line =
  pl_id :: string
  pl_tenant_id :: string
  pl_payable_id :: string
  pl_cost_line_id :: "string option"
  pl_charge_code :: string
  pl_description :: "string option"
  pl_quantity :: flt
  pl_unit_rate :: "flt option"
  pl_expected_amount :: flt
  pl_billed_amount :: flt
  pl_variance_amount :: flt
  pl_currency_code :: string
  pl_status :: string

record payable_payment =
  pp_id :: string
  pp_tenant_id :: string
  pp_payable_id :: string
  pp_payment_reference :: string
  pp_payment_date :: date
  pp_amount :: flt
  pp_currency_code :: string
  pp_payment_method :: string
  pp_financial_entry_id :: string
  pp_recorded_by :: string
  pp_notes :: "string option"

record fin_entry =
  fe_id :: string
  fe_tenant_id :: string
  fe_shipment_id :: "string option"
  fe_entry_date :: date
  fe_entry_type :: string
  fe_debit_amount :: flt
  fe_credit_amount :: flt
  fe_currency_code :: string
  fe_description :: "string option"
  fe_approved_by :: "string option"
  fe_status :: string

record ship_exception =
  sx_tenant_id :: string
  sx_shipment_id :: string
  sx_exception_type :: string
  sx_severity :: string
  sx_domain :: string
  sx_status :: string
  sx_description :: string
  sx_financial_impact :: flt
  sx_opened_at :: datetime

record ap_db =
  ap_shipments :: "(string \<times> string) list"  \<comment> \<open>id and tenant\<close>
  ap_vendors :: "(string \<times> string) list"
  ap_carriers :: "string list"
  ap_cost_lines :: "(string, cost_line) dict"
  ap_payables :: "(string, payable) dict"
  ap_lines :: "payable_line list"
  ap_payments :: "payable_payment list"
  ap_entries :: "fin_entry list"
  ap_exceptions :: "ship_exception list"
  ap_audit :: "audit_log list"

section \<open>Recording a bill\<close>

record bill_line =
  bl_charge_code :: string
  bl_billed_amount :: flt
  bl_cost_line_id :: "string option"
  bl_description :: "string option"
  bl_quantity :: flt
  bl_unit_rate :: "flt option"

record bill =
  bi_tenant_id :: string
  bi_actor_id :: string
  bi_shipment_id :: string
  bi_bill_number :: string
  bi_lines :: "bill_line list"
  bi_vendor_id :: "string option"
  bi_carrier_id :: "string option"
  bi_bill_date :: "date option"
  bi_due_date :: "date option"
  bi_currency_code :: string
  bi_tax_amount :: flt
  bi_document_url :: "string option"
  bi_notes :: "string option"

text \<open>\<open>a or b\<close> on optional strings.\<close>

definition or_str :: "string option \<Rightarrow> string option \<Rightarrow> string option" where
  "or_str a b = (if truthy a then a else b)"

text \<open>\<open>cost_lines_map\<close>: by upper-case code; of several lines with one code the last is kept.\<close>

definition cost_lines_map :: "string \<Rightarrow> (string, cost_line) dict \<Rightarrow> (string, cost_line) dict" where
  "cost_lines_map sid d = dict_of (map (\<lambda>c. (py_upper (the (cl_charge_code c)), c))
     (filter (\<lambda>c. cl_shipment_id c = sid \<and> truthy (cl_charge_code c)) (dvalues d)))"

definition variance_status :: "flt \<Rightarrow> string" where
  "variance_status variance = (if variance = 0 then ''MATCHED'' else if 0 < variance then ''OVER_BILLED'' else ''UNDER_BILLED'')"

text \<open>The state of the loop over the bill's lines.\<close>

record bill_acc =
  ba_cost_lines :: "(string, cost_line) dict"
  ba_subtotal :: flt
  ba_total_variance :: flt
  ba_lines :: "payable_line list"

text \<open>The payable line of a bill line matched to a cost line, and of an additional charge.\<close>

definition matched_line :: "bill \<Rightarrow> bill_line \<Rightarrow> cost_line \<Rightarrow> payable_line" where
  "matched_line b l cl = (let billed = bl_billed_amount l; expected = cl_amount cl; variance = py_round 2 (fsub billed expected)
     in \<lparr>pl_id = '''', pl_tenant_id = bi_tenant_id b, pl_payable_id = '''', pl_cost_line_id = Some (cl_id cl),
         pl_charge_code = py_upper (py_strip (bl_charge_code l)), pl_description = or_str (bl_description l) (cl_description cl),
         pl_quantity = bl_quantity l, pl_unit_rate = Some (case bl_unit_rate l of None \<Rightarrow> billed | Some r \<Rightarrow> r),
         pl_expected_amount = expected, pl_billed_amount = billed, pl_variance_amount = variance,
         pl_currency_code = py_upper (bi_currency_code b), pl_status = variance_status variance\<rparr>)"

definition additional_cost :: "bill \<Rightarrow> bill_line \<Rightarrow> string \<Rightarrow> cost_line" where
  "additional_cost b l i = (let code = py_upper (py_strip (bl_charge_code l)); billed = bl_billed_amount l
     in \<lparr>cl_id = i, cl_shipment_id = bi_shipment_id b, cl_vendor_id = bi_vendor_id b, cl_carrier_id = bi_carrier_id b,
         cl_charge_code = Some code, cl_description = or_str (bl_description l) (Some (''Additional billed: '' @ code)),
         cl_quantity = bl_quantity l, cl_unit_rate = Some (case bl_unit_rate l of None \<Rightarrow> billed | Some r \<Rightarrow> r),
         cl_amount = billed, cl_currency_code = Some (py_upper (bi_currency_code b)), cl_status = ''BILLED'',
         cl_is_additional = True, cl_created_by = Some (bi_actor_id b)\<rparr>)"

definition additional_line :: "bill \<Rightarrow> bill_line \<Rightarrow> cost_line \<Rightarrow> payable_line" where
  "additional_line b l cl = (let billed = bl_billed_amount l
     in \<lparr>pl_id = '''', pl_tenant_id = bi_tenant_id b, pl_payable_id = '''', pl_cost_line_id = Some (cl_id cl),
         pl_charge_code = py_upper (py_strip (bl_charge_code l)), pl_description = cl_description cl,
         pl_quantity = bl_quantity l, pl_unit_rate = Some (case bl_unit_rate l of None \<Rightarrow> billed | Some r \<Rightarrow> r),
         pl_expected_amount = 0, pl_billed_amount = billed, pl_variance_amount = billed,
         pl_currency_code = py_upper (bi_currency_code b), pl_status = ''ADDITIONAL_CHARGE''\<rparr>)"

text \<open>Which cost line a bill line is matched to: by identity when one is given, else by code.\<close>

definition match_cost_line ::
  "bill \<Rightarrow> (string, cost_line) dict \<Rightarrow> (string, cost_line) dict \<Rightarrow> bill_line \<Rightarrow> cost_line option res" where
  "match_cost_line b cost_map costs l =
    (case bl_cost_line_id l of
       Some i \<Rightarrow> (case dget costs i of
          Some cl \<Rightarrow> if cl_shipment_id cl = bi_shipment_id b then Inr (Some cl)
            else Inl (NotFoundError (''Cost line '' @ i @ '' does not belong to shipment '' @ bi_shipment_id b @ ''.''))
        | None \<Rightarrow> Inl (NotFoundError (''Cost line '' @ i @ '' does not belong to shipment '' @ bi_shipment_id b @ ''.'')))
     | None \<Rightarrow> (case dget cost_map (py_upper (py_strip (bl_charge_code l))) of
          Some c \<Rightarrow> Inr (dget costs (cl_id c)) | None \<Rightarrow> Inr None))"

definition bill_step ::
  "bill \<Rightarrow> (string, cost_line) dict \<Rightarrow> string \<Rightarrow> bill_line \<Rightarrow> bill_acc \<Rightarrow> bill_acc res" where
  "bill_step b cost_map i l a =
    (let charge_code = py_upper (py_strip (bl_charge_code l)); billed = bl_billed_amount l in
     if billed \<le> 0 then Inl (ValidationError (''Billed amount for '' @ charge_code @ '' must be positive.''))
     else res_bind (match_cost_line b cost_map (ba_cost_lines a) l) (\<lambda>matched. Inr (case matched of
       Some cl \<Rightarrow>
         (let pl = matched_line b l cl;
              cl = (if cl_status cl \<in> {''ESTIMATED'', ''ACCRUED''} then cl\<lparr>cl_status := ''BILLED''\<rparr> else cl)
          in a\<lparr>ba_cost_lines := dset (cl_id cl) cl (ba_cost_lines a), ba_subtotal := fadd (ba_subtotal a) billed,
               ba_total_variance := fadd (ba_total_variance a) (pl_variance_amount pl), ba_lines := ba_lines a @ [pl]\<rparr>)
     | None \<Rightarrow>
         (let cl = additional_cost b l i
          in a\<lparr>ba_cost_lines := dset i cl (ba_cost_lines a), ba_subtotal := fadd (ba_subtotal a) billed,
               ba_total_variance := fadd (ba_total_variance a) billed,
               ba_lines := ba_lines a @ [additional_line b l cl]\<rparr>))))"

text \<open>A bill line that is refused ends the loop; what the earlier lines did stays in the session.\<close>

fun bill_loop ::
  "bill \<Rightarrow> (string, cost_line) dict \<Rightarrow> (nat \<Rightarrow> string) \<Rightarrow> bill_line list \<Rightarrow> bill_acc \<Rightarrow> unit res \<times> bill_acc" where
  "bill_loop b cost_map ids [] a = (Inr (), a)"
| "bill_loop b cost_map ids (l # ls) a =
    (case bill_step b cost_map (ids (length (ba_lines a))) l a of
       Inl e \<Rightarrow> (Inl e, a) | Inr a' \<Rightarrow> bill_loop b cost_map ids ls a')"

definition audit_payable :: "string \<Rightarrow> string \<Rightarrow> string \<Rightarrow> string \<Rightarrow> (string \<times> json) list \<Rightarrow> ap_db \<Rightarrow> ap_db" where
  "audit_payable tenant_id actor_id pid action new_value db = db\<lparr>ap_audit := record_audit
    \<lparr>al_tenant_id = Some tenant_id, al_user_id = Some actor_id, al_branch_id = None, al_entity_type = ''payable'',
     al_entity_id = pid, al_action = action, al_previous_value = None, al_new_value = Some new_value,
     al_correlation_id = None, al_ip_address = None, al_user_agent = None\<rparr> (ap_audit db)\<rparr>"

text \<open>\<open>get_payable\<close>: the bill, its lines and its payments by date.\<close>

record payable_details =
  pd_payable :: payable
  pd_lines :: "payable_line list"
  pd_payments :: "payable_payment list"

definition find_payable :: "ap_db \<Rightarrow> string \<Rightarrow> string \<Rightarrow> payable res" where
  "find_payable db pid tenant_id = (case dget (ap_payables db) pid of
     Some p \<Rightarrow> if pay_tenant_id p = tenant_id then Inr p else Inl (NotFoundError (''Payable '' @ pid @ '' not found.''))
   | None \<Rightarrow> Inl (NotFoundError (''Payable '' @ pid @ '' not found.'')))"

definition get_payable :: "ap_db \<Rightarrow> string \<Rightarrow> string \<Rightarrow> payable_details res" where
  "get_payable db pid tenant_id = res_map (\<lambda>p. \<lparr>pd_payable = p, pd_lines = filter (\<lambda>l. pl_payable_id l = pid) (ap_lines db),
     pd_payments = sort_key pp_payment_date (filter (\<lambda>x. pp_payable_id x = pid) (ap_payments db))\<rparr>)
     (find_payable db pid tenant_id)"

definition list_payables ::
  "ap_db \<Rightarrow> string \<Rightarrow> string option \<Rightarrow> string option \<Rightarrow> string option \<Rightarrow> string option \<Rightarrow> nat \<Rightarrow> payable list" where
  "list_payables db tenant_id shipment_id vendor_id carrier_id status limit =
    take limit (rev (filter (\<lambda>p. pay_tenant_id p = tenant_id
      \<and> (shipment_id = None \<or> Some (pay_shipment_id p) = shipment_id)
      \<and> (vendor_id = None \<or> pay_vendor_id p = vendor_id)
      \<and> (carrier_id = None \<or> pay_carrier_id p = carrier_id)
      \<and> (truthy status \<longrightarrow> pay_status p = py_upper (py_strip (the status)))) (dvalues (ap_payables db))))"

text \<open>
  The identity of the cost line added for the bill line at position \<open>i\<close> is \<open>ids i\<close>; the bill and
  its lines take the identities after those.
\<close>

definition new_payable :: "bill \<Rightarrow> date \<Rightarrow> string \<Rightarrow> bill_acc \<Rightarrow> payable" where
  "new_payable b today pid a =
    \<lparr>pay_id = pid, pay_tenant_id = bi_tenant_id b, pay_shipment_id = bi_shipment_id b, pay_vendor_id = bi_vendor_id b,
     pay_carrier_id = bi_carrier_id b, pay_bill_number = py_strip (bi_bill_number b),
     pay_bill_date = (case bi_bill_date b of None \<Rightarrow> today | Some d \<Rightarrow> d), pay_due_date = bi_due_date b,
     pay_currency_code = py_upper (bi_currency_code b), pay_subtotal_amount = py_round 2 (ba_subtotal a),
     pay_tax_amount = py_round 2 (bi_tax_amount b), pay_total_amount = py_round 2 (fadd (ba_subtotal a) (bi_tax_amount b)),
     pay_paid_amount = 0, pay_status = ''RECEIVED'', pay_verification_status = ''PENDING'',
     pay_approval_status = ''PENDING'', pay_verified_by = None, pay_verified_at = None, pay_approved_by = None,
     pay_approved_at = None, pay_rejection_reason = None, pay_variance_amount = py_round 2 (ba_total_variance a),
     pay_supporting_document_url = bi_document_url b, pay_notes = bi_notes b, pay_financial_entry_id = None\<rparr>"

definition check_bill :: "bill \<Rightarrow> ap_db \<Rightarrow> unit res" where
  "check_bill b db =
    (if (bi_shipment_id b, bi_tenant_id b) \<notin> set (ap_shipments db)
     then Inl (NotFoundError (''Shipment '' @ bi_shipment_id b @ '' not found or does not belong to tenant.''))
     else if bi_vendor_id b \<noteq> None \<and> (the (bi_vendor_id b), bi_tenant_id b) \<notin> set (ap_vendors db)
     then Inl (NotFoundError (''Vendor '' @ the (bi_vendor_id b) @ '' not found or does not belong to tenant.''))
     else if bi_carrier_id b \<noteq> None \<and> the (bi_carrier_id b) \<notin> set (ap_carriers db)
     then Inl (NotFoundError (''Carrier '' @ the (bi_carrier_id b) @ '' not found.''))
     else if list_ex (\<lambda>p. pay_tenant_id p = bi_tenant_id b \<and> pay_bill_number p = py_strip (bi_bill_number b)) (dvalues (ap_payables db))
     then Inl (ConflictError (''Payable bill number '' @ [CHR 0x27] @ bi_bill_number b @ [CHR 0x27] @ '' already exists for this tenant.''))
     else if bi_lines b = [] then Inl (ValidationError ''At least one bill line is required.'')
     else Inr ())"

definition numbered_lines :: "(nat \<Rightarrow> string) \<Rightarrow> string \<Rightarrow> payable_line list \<Rightarrow> payable_line list" where
  "numbered_lines ids pid ls = map (\<lambda>(i, l). l\<lparr>pl_id := ids (Suc (length ls) + i), pl_payable_id := pid\<rparr>) (enumerate 0 ls)"

definition record_payable :: "date \<Rightarrow> (nat \<Rightarrow> string) \<Rightarrow> bill \<Rightarrow> ap_db \<Rightarrow> payable_details res \<times> ap_db" where
  "record_payable today ids b db =
    (case check_bill b db of
       Inl e \<Rightarrow> (Inl e, db)
     | Inr _ \<Rightarrow>
         (case bill_loop b (cost_lines_map (bi_shipment_id b) (ap_cost_lines db)) ids (bi_lines b)
             \<lparr>ba_cost_lines = ap_cost_lines db, ba_subtotal = 0, ba_total_variance = 0, ba_lines = []\<rparr> of
            (Inl e, a) \<Rightarrow> (Inl e, db\<lparr>ap_cost_lines := ba_cost_lines a\<rparr>)
          | (Inr _, a) \<Rightarrow>
              (let pid = ids (length (bi_lines b));
                   p = new_payable b today pid a;
                   db = db\<lparr>ap_cost_lines := ba_cost_lines a, ap_payables := dset pid p (ap_payables db),
                           ap_lines := ap_lines db @ numbered_lines ids pid (ba_lines a)\<rparr>;
                   db = audit_payable (bi_tenant_id b) (bi_actor_id b) pid ''payable.created''
                     [(''bill_number'', JStr (pay_bill_number p)), (''shipment_id'', JStr (bi_shipment_id b)),
                      (''total_amount'', JFloat (pay_total_amount p)), (''variance_amount'', JFloat (pay_variance_amount p))] db
               in (get_payable db pid (bi_tenant_id b), db))))"

section \<open>Verification\<close>

text \<open>Moving the cost lines of a bill from one status to the next.\<close>

definition advance_cost :: "string \<Rightarrow> string \<Rightarrow> string \<Rightarrow> (string, cost_line) dict \<Rightarrow> (string, cost_line) dict" where
  "advance_cost old new i costs = (case dget costs i of
     Some cl \<Rightarrow> if cl_status cl = old then dset i (cl\<lparr>cl_status := new\<rparr>) costs else costs | None \<Rightarrow> costs)"

definition advance_costs :: "string \<Rightarrow> string \<Rightarrow> string \<Rightarrow> ap_db \<Rightarrow> ap_db" where
  "advance_costs old new pid db = db\<lparr>ap_cost_lines := fold (\<lambda>l costs. case pl_cost_line_id l of
       None \<Rightarrow> costs | Some i \<Rightarrow> advance_cost old new i costs)
     (filter (\<lambda>l. pl_payable_id l = pid) (ap_lines db)) (ap_cost_lines db)\<rparr>"

definition is_material :: "payable \<Rightarrow> bool" where
  "is_material p = (let total = pay_total_amount p; var = \<bar>pay_variance_amount p\<bar>
     in 100 < var \<or> (0 < total \<and> flit (1 / 10) < fquot var total))"

definition cost_variance_exception :: "db_env \<Rightarrow> payable \<Rightarrow> string \<Rightarrow> datetime \<Rightarrow> ship_exception" where
  "cost_variance_exception env p tenant_id now =
    \<lparr>sx_tenant_id = tenant_id, sx_shipment_id = pay_shipment_id p, sx_exception_type = ''COST_VARIANCE'',
     sx_severity = (if 500 < \<bar>pay_variance_amount p\<bar> then ''CRITICAL'' else ''WARNING''), sx_domain = ''FINANCIAL'',
     sx_status = ''OPEN'', sx_description = ''Carrier/Vendor bill '' @ pay_bill_number p @ '' has cost variance of '' @
       db_text env (pay_variance_amount p) @ '' '' @ pay_currency_code p @ ''.'',
     sx_financial_impact = \<bar>pay_variance_amount p\<bar>, sx_opened_at = now\<rparr>"

definition add_note :: "string \<Rightarrow> string option \<Rightarrow> string option \<Rightarrow> string option" where
  "add_note label notes old = (if truthy notes
     then Some ((if truthy old then the old else []) @ [CHR 0x0A] @ label @ '' notes: '' @ the notes) else old)"

definition put_payable :: "payable \<Rightarrow> ap_db \<Rightarrow> ap_db" where
  "put_payable p db = db\<lparr>ap_payables := dset (pay_id p) p (ap_payables db)\<rparr>"

definition verified :: "string \<Rightarrow> datetime \<Rightarrow> string option \<Rightarrow> payable \<Rightarrow> payable" where
  "verified actor_id now notes p = p\<lparr>pay_verification_status := ''VERIFIED'', pay_status := ''VERIFIED'',
     pay_verified_by := Some actor_id, pay_verified_at := Some now, pay_notes := add_note ''Verification'' notes (pay_notes p)\<rparr>"

definition verify_payable ::
  "db_env \<Rightarrow> datetime \<Rightarrow> string \<Rightarrow> string \<Rightarrow> string \<Rightarrow> bool \<Rightarrow> string option \<Rightarrow> ap_db \<Rightarrow> payable_details res \<times> ap_db" where
  "verify_payable env now pid tenant_id actor_id allow_material_variance notes db =
    (case find_payable db pid tenant_id of
       Inl e \<Rightarrow> (Inl e, db)
     | Inr p \<Rightarrow>
         if pay_status p \<in> {''APPROVED'', ''PAID''}
         then (Inl (ValidationError (''Payable '' @ pay_bill_number p @ '' is already '' @ pay_status p @ '' and cannot be re-verified.'')), db)
         else
           (let db = (if 0 < \<bar>pay_variance_amount p\<bar>
                  then db\<lparr>ap_exceptions := ap_exceptions db @ [cost_variance_exception env p tenant_id now]\<rparr> else db)
            in if is_material p \<and> \<not> allow_material_variance
               then (Inl (ValidationError (''Payable '' @ pay_bill_number p @ '' has a material variance of '' @
                       db_text env (pay_variance_amount p) @ '' '' @ pay_currency_code p @
                       ''. Review and explicit approval required.'')),
                     put_payable (p\<lparr>pay_verification_status := ''VARIANCE_DETECTED''\<rparr>) db)
               else
                 (let p = verified actor_id now notes p;
                      db = put_payable p db;
                      db = db\<lparr>ap_lines := map (\<lambda>l. if pl_payable_id l = pid then l\<lparr>pl_status := ''VERIFIED''\<rparr> else l) (ap_lines db)\<rparr>;
                      db = advance_costs ''BILLED'' ''VERIFIED'' pid db;
                      db = audit_payable tenant_id actor_id pid ''payable.verified''
                        [(''status'', JStr ''VERIFIED''), (''verification_status'', JStr ''VERIFIED''), (''verified_at'', JTime now)] db
                  in (get_payable db pid tenant_id, db))))"

section \<open>Approval\<close>

definition approval_entry :: "string \<Rightarrow> date \<Rightarrow> string \<Rightarrow> string \<Rightarrow> payable \<Rightarrow> fin_entry" where
  "approval_entry eid today tenant_id actor_id p =
    \<lparr>fe_id = eid, fe_tenant_id = tenant_id, fe_shipment_id = Some (pay_shipment_id p), fe_entry_date = today,
     fe_entry_type = ''ACCOUNTS_PAYABLE'', fe_debit_amount = 0, fe_credit_amount = pay_total_amount p,
     fe_currency_code = pay_currency_code p,
     fe_description = Some (''AP Bill recognition '' @ pay_bill_number p @ '' for Shipment''),
     fe_approved_by = Some actor_id, fe_status = ''POSTED''\<rparr>"

definition approved :: "string \<Rightarrow> datetime \<Rightarrow> string option \<Rightarrow> string \<Rightarrow> payable \<Rightarrow> payable" where
  "approved actor_id now notes eid p = p\<lparr>pay_approval_status := ''APPROVED'', pay_status := ''APPROVED'',
     pay_approved_by := Some actor_id, pay_approved_at := Some now, pay_notes := add_note ''Approval'' notes (pay_notes p),
     pay_financial_entry_id := Some eid\<rparr>"

definition approve_payable ::
  "datetime \<Rightarrow> date \<Rightarrow> string \<Rightarrow> string \<Rightarrow> string \<Rightarrow> string \<Rightarrow> string option \<Rightarrow> ap_db \<Rightarrow> payable_details res \<times> ap_db" where
  "approve_payable now today eid pid tenant_id actor_id notes db =
    (case find_payable db pid tenant_id of
       Inl e \<Rightarrow> (Inl e, db)
     | Inr p \<Rightarrow>
         if pay_approval_status p = ''APPROVED''
         then (Inl (ValidationError (''Payable '' @ pay_bill_number p @ '' is already approved.'')), db)
         else if pay_verification_status p \<noteq> ''VERIFIED''
         then (Inl (ValidationError (''Payable '' @ pay_bill_number p @
                 '' must be VERIFIED before approval. Current verification status: '' @ [CHR 0x27] @
                 pay_verification_status p @ [CHR 0x27] @ ''.'')), db)
         else
           (let db = put_payable (approved actor_id now notes eid p) db;
                db = advance_costs ''VERIFIED'' ''APPROVED'' pid db;
                db = db\<lparr>ap_entries := ap_entries db @ [approval_entry eid today tenant_id actor_id p]\<rparr>;
                db = audit_payable tenant_id actor_id pid ''payable.approved''
                  [(''status'', JStr ''APPROVED''), (''approval_status'', JStr ''APPROVED''), (''approved_at'', JTime now)] db
            in (get_payable db pid tenant_id, db)))"

section \<open>Payment\<close>

record payment_request =
  pq_payable_id :: string
  pq_tenant_id :: string
  pq_actor_id :: string
  pq_amount :: flt
  pq_reference :: string
  pq_date :: "date option"
  pq_currency_code :: "string option"
  pq_method :: string
  pq_notes :: "string option"

definition payment_entry :: "string \<Rightarrow> date \<Rightarrow> string \<Rightarrow> payment_request \<Rightarrow> payable \<Rightarrow> fin_entry" where
  "payment_entry eid pay_date ccy q p =
    \<lparr>fe_id = eid, fe_tenant_id = pq_tenant_id q, fe_shipment_id = Some (pay_shipment_id p), fe_entry_date = pay_date,
     fe_entry_type = ''AP_PAYMENT'', fe_debit_amount = pq_amount q, fe_credit_amount = 0, fe_currency_code = ccy,
     fe_description = Some (''AP Payment '' @ pq_reference q @ '' for Bill '' @ pay_bill_number p),
     fe_approved_by = Some (pq_actor_id q), fe_status = ''POSTED''\<rparr>"

definition payment_row :: "string \<Rightarrow> string \<Rightarrow> date \<Rightarrow> string \<Rightarrow> payment_request \<Rightarrow> payable_payment" where
  "payment_row rid eid pay_date ccy q =
    \<lparr>pp_id = rid, pp_tenant_id = pq_tenant_id q, pp_payable_id = pq_payable_id q,
     pp_payment_reference = py_strip (pq_reference q), pp_payment_date = pay_date, pp_amount = pq_amount q,
     pp_currency_code = ccy, pp_payment_method = pq_method q, pp_financial_entry_id = eid,
     pp_recorded_by = pq_actor_id q, pp_notes = pq_notes q\<rparr>"

definition existing_paid :: "db_env \<Rightarrow> string \<Rightarrow> string \<Rightarrow> ap_db \<Rightarrow> flt" where
  "existing_paid env pid tenant_id db = db_sum env (map pp_amount
     (filter (\<lambda>x. pp_payable_id x = pid \<and> pp_tenant_id x = tenant_id) (ap_payments db)))"

definition paid_state :: "flt \<Rightarrow> payable \<Rightarrow> payable" where
  "paid_state new_total_paid p = p\<lparr>pay_paid_amount := new_total_paid,
     pay_status := (if pay_total_amount p \<le> new_total_paid then ''PAID'' else ''PARTIALLY_PAID'')\<rparr>"

definition record_payment ::
  "db_env \<Rightarrow> date \<Rightarrow> string \<Rightarrow> string \<Rightarrow> payment_request \<Rightarrow> ap_db \<Rightarrow> payable_details res \<times> ap_db" where
  "record_payment env today eid rid q db =
    (if pq_amount q \<le> 0 then (Inl (ValidationError ''Payment amount must be positive.''), db)
     else case find_payable db (pq_payable_id q) (pq_tenant_id q) of
       Inl e \<Rightarrow> (Inl e, db)
     | Inr p \<Rightarrow>
         if pay_status p \<notin> {''APPROVED'', ''PARTIALLY_PAID''}
         then (Inl (ValidationError (''Cannot record payment for payable with status '' @ [CHR 0x27] @ pay_status p @
                 [CHR 0x27] @ ''. Payable must be APPROVED.'')), db)
         else
           (let total_amt = pay_total_amount p;
                paid = existing_paid env (pq_payable_id q) (pq_tenant_id q) db;
                remaining = py_round 2 (fsub total_amt paid)
            in if remaining \<le> 0
               then (Inl (ValidationError (''Payable '' @ pay_bill_number p @ '' is already fully paid.'')), db)
               else if remaining < pq_amount q
               then (Inl (ValidationError (''Payment amount ('' @ frepr (pq_amount q) @ '') exceeds remaining balance ('' @
                       frepr remaining @ '') on payable '' @ pay_bill_number p @ '' (total: '' @ frepr total_amt @
                       '', previously paid: '' @ frepr paid @ '').'')), db)
               else
                 (let pay_date = (case pq_date q of None \<Rightarrow> today | Some d \<Rightarrow> d);
                      ccy = (if truthy (pq_currency_code q) then the (pq_currency_code q) else pay_currency_code p);
                      new_total_paid = py_round 2 (fadd paid (pq_amount q));
                      p = paid_state new_total_paid p;
                      db = db\<lparr>ap_entries := ap_entries db @ [payment_entry eid pay_date ccy q p],
                              ap_payments := ap_payments db @ [payment_row rid eid pay_date ccy q]\<rparr>;
                      db = put_payable p db;
                      db = (if pay_status p = ''PAID'' then advance_costs ''APPROVED'' ''PAID'' (pq_payable_id q) db else db);
                      db = audit_payable (pq_tenant_id q) (pq_actor_id q) (pq_payable_id q) ''payable.paid''
                        [(''payment_reference'', JStr (pq_reference q)), (''amount'', JFloat (pq_amount q)),
                         (''paid_amount'', JFloat new_total_paid), (''status'', JStr (pay_status p))] db
                  in (get_payable db (pq_payable_id q) (pq_tenant_id q), db))))"

section \<open>The endpoints\<close>

text \<open>
  \<open>app/api/v1/endpoints/payables.py\<close>: each endpoint calls the service and commits; the session of
  \<open>get_db\<close> is closed without a commit when the service raises, so that nothing the service had
  flushed is kept.
\<close>

datatype ap_request =
    Create date "nat \<Rightarrow> string" bill
  | Verify datetime string string string bool "string option"
  | Approve datetime date string string string string "string option"
  | Pay date string string payment_request

fun ap_service :: "db_env \<Rightarrow> ap_request \<Rightarrow> ap_db \<Rightarrow> payable_details res \<times> ap_db" where
  "ap_service env (Create today ids b) db = record_payable today ids b db"
| "ap_service env (Verify now pid tid actor allow notes) db = verify_payable env now pid tid actor allow notes db"
| "ap_service env (Approve now today eid pid tid actor notes) db = approve_payable now today eid pid tid actor notes db"
| "ap_service env (Pay today eid rid q) db = record_payment env today eid rid q db"

definition ap_endpoint :: "db_env \<Rightarrow> ap_request \<Rightarrow> ap_db \<Rightarrow> payable_details res \<times> ap_db" where
  "ap_endpoint env r db = committed (ap_service env r db) db"

section \<open>What the operations change\<close>

lemma db_frames [simp]:
  "ap_payables (advance_costs old new pid db) = ap_payables db"
  "ap_payments (advance_costs old new pid db) = ap_payments db"
  "ap_entries (advance_costs old new pid db) = ap_entries db"
  "ap_exceptions (advance_costs old new pid db) = ap_exceptions db"
  "ap_lines (advance_costs old new pid db) = ap_lines db"
  "ap_payables (audit_payable t a i act v db) = ap_payables db"
  "ap_payments (audit_payable t a i act v db) = ap_payments db"
  "ap_entries (audit_payable t a i act v db) = ap_entries db"
  "ap_exceptions (audit_payable t a i act v db) = ap_exceptions db"
  "ap_lines (audit_payable t a i act v db) = ap_lines db"
  "ap_cost_lines (audit_payable t a i act v db) = ap_cost_lines db"
  "ap_payables (put_payable p db) = dset (pay_id p) p (ap_payables db)"
  "ap_payments (put_payable p db) = ap_payments db"
  "ap_entries (put_payable p db) = ap_entries db"
  "ap_exceptions (put_payable p db) = ap_exceptions db"
  "ap_lines (put_payable p db) = ap_lines db"
  "ap_cost_lines (put_payable p db) = ap_cost_lines db"
  by (simp_all add: advance_costs_def audit_payable_def put_payable_def)

lemma find_payable_Inr: "find_payable db pid tid = Inr p \<longleftrightarrow> dget (ap_payables db) pid = Some p \<and> pay_tenant_id p = tid"
  by (auto simp: find_payable_def split: option.splits)

lemma pay_changes [simp]:
  "pay_id (verified a now n p) = pay_id p" "pay_tenant_id (verified a now n p) = pay_tenant_id p"
  "pay_total_amount (verified a now n p) = pay_total_amount p" "pay_paid_amount (verified a now n p) = pay_paid_amount p"
  "pay_id (approved a now n i p) = pay_id p" "pay_tenant_id (approved a now n i p) = pay_tenant_id p"
  "pay_total_amount (approved a now n i p) = pay_total_amount p" "pay_paid_amount (approved a now n i p) = pay_paid_amount p"
  "pay_id (paid_state x p) = pay_id p" "pay_tenant_id (paid_state x p) = pay_tenant_id p"
  "pay_total_amount (paid_state x p) = pay_total_amount p" "pay_paid_amount (paid_state x p) = x"
  by (simp_all add: verified_def approved_def paid_state_def)

lemma record_effect:
  assumes "record_payable today ids b db = (Inr d, db')"
  obtains a where "check_bill b db = Inr ()"
    "bill_loop b (cost_lines_map (bi_shipment_id b) (ap_cost_lines db)) ids (bi_lines b)
       \<lparr>ba_cost_lines = ap_cost_lines db, ba_subtotal = 0, ba_total_variance = 0, ba_lines = []\<rparr> = (Inr (), a)"
    "ap_payables db' = dset (ids (length (bi_lines b))) (new_payable b today (ids (length (bi_lines b))) a) (ap_payables db)"
    "ap_payments db' = ap_payments db" "ap_entries db' = ap_entries db" "ap_exceptions db' = ap_exceptions db"
    "ap_lines db' = ap_lines db @ numbered_lines ids (ids (length (bi_lines b))) (ba_lines a)"
    "ap_cost_lines db' = ba_cost_lines a"
  using assms by (auto simp: record_payable_def Let_def split: sum.splits prod.splits)

lemma verify_effect:
  assumes "verify_payable env now pid tid actor allow notes db = (Inr d, db')"
  obtains p where "dget (ap_payables db) pid = Some p" "pay_tenant_id p = tid"
    "pay_status p \<notin> {''APPROVED'', ''PAID''}" "\<not> is_material p \<or> allow"
    "ap_payables db' = dset (pay_id p) (verified actor now notes p) (ap_payables db)"
    "ap_payments db' = ap_payments db" "ap_entries db' = ap_entries db"
  using assms
  by (auto simp: verify_payable_def Let_def find_payable_Inr split: sum.splits prod.splits if_splits)

lemma approve_effect:
  assumes "approve_payable now today eid pid tid actor notes db = (Inr d, db')"
  obtains p where "dget (ap_payables db) pid = Some p" "pay_tenant_id p = tid"
    "pay_approval_status p \<noteq> ''APPROVED''" "pay_verification_status p = ''VERIFIED''"
    "ap_payables db' = dset (pay_id p) (approved actor now notes eid p) (ap_payables db)"
    "ap_payments db' = ap_payments db"
    "ap_entries db' = ap_entries db @ [approval_entry eid today tid actor p]"
  using assms
  by (auto simp: approve_payable_def Let_def find_payable_Inr split: sum.splits prod.splits if_splits)

lemma pay_effect:
  assumes "record_payment env today eid rid q db = (Inr d, db')"
  obtains p ccy day new_total where "dget (ap_payables db) (pq_payable_id q) = Some p" "pay_tenant_id p = pq_tenant_id q"
    "0 < pq_amount q" "pay_status p \<in> {''APPROVED'', ''PARTIALLY_PAID''}"
    "pq_amount q \<le> py_round 2 (fsub (pay_total_amount p) (existing_paid env (pq_payable_id q) (pq_tenant_id q) db))"
    "new_total = py_round 2 (fadd (existing_paid env (pq_payable_id q) (pq_tenant_id q) db) (pq_amount q))"
    "ap_payables db' = dset (pay_id p) (paid_state new_total p) (ap_payables db)"
    "ap_payments db' = ap_payments db @ [payment_row rid eid day ccy q]"
    "ap_entries db' = ap_entries db @ [payment_entry eid day ccy q (paid_state new_total p)]"
  using assms
  by (auto simp: record_payment_def Let_def find_payable_Inr not_le not_less split: sum.splits prod.splits if_splits)


section \<open>The lines of a bill\<close>

definition line_priced :: "payable_line \<Rightarrow> bool" where
  "line_priced l \<longleftrightarrow>
    (pl_status l = ''ADDITIONAL_CHARGE'' \<and> pl_expected_amount l = 0 \<and> pl_variance_amount l = pl_billed_amount l) \<or>
    (pl_variance_amount l = py_round 2 (fsub (pl_billed_amount l) (pl_expected_amount l)) \<and>
     pl_status l = variance_status (pl_variance_amount l))"

lemma bill_step_effect:
  assumes "bill_step b m i l a = Inr a'"
  obtains pl where "ba_lines a' = ba_lines a @ [pl]" "pl_billed_amount pl = bl_billed_amount l" "line_priced pl"
    "0 < bl_billed_amount l" "ba_subtotal a' = fadd (ba_subtotal a) (bl_billed_amount l)"
    "ba_total_variance a' = fadd (ba_total_variance a) (pl_variance_amount pl)"
    "pl_charge_code pl = py_upper (py_strip (bl_charge_code l))"
  using assms
  by (auto simp: bill_step_def Let_def res_simps matched_line_def additional_line_def line_priced_def
      split: if_splits option.splits)

lemma bill_loop_effect:
  assumes "bill_loop b m ids ls a = (Inr (), a')"
  obtains pls where "ba_lines a' = ba_lines a @ pls" "map pl_billed_amount pls = map bl_billed_amount ls"
    "list_all line_priced pls" "list_all (\<lambda>l. 0 < bl_billed_amount l) ls"
    "ba_subtotal a' = fold (\<lambda>l s. fadd s (bl_billed_amount l)) ls (ba_subtotal a)"
    "ba_total_variance a' = fold (\<lambda>l s. fadd s (pl_variance_amount l)) pls (ba_total_variance a)"
    "map pl_charge_code pls = map (\<lambda>l. py_upper (py_strip (bl_charge_code l))) ls"
proof -
  from assms have "\<exists>pls. ba_lines a' = ba_lines a @ pls \<and> map pl_billed_amount pls = map bl_billed_amount ls \<and>
    list_all line_priced pls \<and> list_all (\<lambda>l. 0 < bl_billed_amount l) ls \<and>
    ba_subtotal a' = fold (\<lambda>l s. fadd s (bl_billed_amount l)) ls (ba_subtotal a) \<and>
    ba_total_variance a' = fold (\<lambda>l s. fadd s (pl_variance_amount l)) pls (ba_total_variance a) \<and>
    map pl_charge_code pls = map (\<lambda>l. py_upper (py_strip (bl_charge_code l))) ls"
  proof (induction ls arbitrary: a)
    case (Cons l ls)
    then obtain a1 where s: "bill_step b m (ids (length (ba_lines a))) l a = Inr a1"
      and r: "bill_loop b m ids ls a1 = (Inr (), a')" by (auto split: sum.splits)
    from s obtain pl where pl: "ba_lines a1 = ba_lines a @ [pl]" "pl_billed_amount pl = bl_billed_amount l" "line_priced pl"
      "0 < bl_billed_amount l" "ba_subtotal a1 = fadd (ba_subtotal a) (bl_billed_amount l)"
      "ba_total_variance a1 = fadd (ba_total_variance a) (pl_variance_amount pl)"
      "pl_charge_code pl = py_upper (py_strip (bl_charge_code l))"
      by (rule bill_step_effect)
    from Cons.IH [OF r] obtain pls where "ba_lines a' = ba_lines a1 @ pls" "map pl_billed_amount pls = map bl_billed_amount ls"
      "list_all line_priced pls" "list_all (\<lambda>l. 0 < bl_billed_amount l) ls"
      "ba_subtotal a' = fold (\<lambda>l s. fadd s (bl_billed_amount l)) ls (ba_subtotal a1)"
      "ba_total_variance a' = fold (\<lambda>l s. fadd s (pl_variance_amount l)) pls (ba_total_variance a1)"
      "map pl_charge_code pls = map (\<lambda>l. py_upper (py_strip (bl_charge_code l))) ls" by blast
    with pl show ?case by (intro exI [of _ "pl # pls"]) simp
  qed simp
  then show ?thesis using that by blast
qed

text \<open>Bills in cents: the totals are exact.\<close>

definition bill_cents :: "bill \<Rightarrow> int list \<Rightarrow> int \<Rightarrow> bool" where
  "bill_cents b ks t \<longleftrightarrow> map bl_billed_amount (bi_lines b) = map cent ks \<and> bi_tax_amount b = cent t \<and> 0 \<le> t \<and>
     (\<forall>k \<in> set ks. 0 \<le> k) \<and> sum_list ks + t \<le> money_bound \<and> length ks \<le> 1000"

lemma sum_list_nonneg_int: "(\<forall>k \<in> set ks. 0 \<le> k) \<Longrightarrow> 0 \<le> sum_list (ks :: int list)"
  by (induction ks) auto

lemma near_subtotal:
  assumes "bill_cents b ks t"
  shows "near (2 * length ks) (fold (\<lambda>l s. fadd s (bl_billed_amount l)) (bi_lines b) 0) (sum_list ks)"
proof -
  have f: "fold (\<lambda>l s. fadd s (bl_billed_amount l)) (bi_lines b) 0 = fold (\<lambda>c s. fadd s (cent c)) ks 0"
  proof -
    have "fold (\<lambda>l s. fadd s (bl_billed_amount l)) (bi_lines b) (0 :: flt) = fold (\<lambda>x s. fadd s x) (map bl_billed_amount (bi_lines b)) 0"
      by (simp add: fold_map comp_def)
    also have "map bl_billed_amount (bi_lines b) = map cent ks" using assms by (simp add: bill_cents_def)
    finally show ?thesis by (simp add: fold_map comp_def)
  qed
  have "map abs ks = ks" using assms by (intro map_idI) (auto simp: bill_cents_def)
  then have "near (0 + 2 * length ks) (fold (\<lambda>c s. fadd s (cent c)) ks 0) (0 + sum_list ks)"
    using assms by (intro near_fold) (auto simp: bill_cents_def)
  then show ?thesis by (simp add: f)
qed

lemma new_payable_total:
  assumes c: "bill_cents b ks t" and l: "bill_loop b m ids (bi_lines b)
       \<lparr>ba_cost_lines = cl, ba_subtotal = 0, ba_total_variance = 0, ba_lines = []\<rparr> = (Inr (), a)"
  shows "pay_total_amount (new_payable b today pid a) = cent (sum_list ks + t)"
    "pay_subtotal_amount (new_payable b today pid a) = cent (sum_list ks)"
    "bi_lines b \<noteq> [] \<Longrightarrow> 0 < sum_list ks"
proof -
  from l obtain pls where s: "ba_subtotal a = fold (\<lambda>l s. fadd s (bl_billed_amount l)) (bi_lines b) 0"
    and p: "list_all (\<lambda>l. 0 < bl_billed_amount l) (bi_lines b)"
    by (rule bill_loop_effect) auto
  have n: "near (2 * length ks) (ba_subtotal a) (sum_list ks)" using near_subtotal [OF c] by (simp add: s)
  have nn: "0 \<le> sum_list ks" "0 \<le> t" using c by (auto simp: bill_cents_def intro: sum_list_nonneg_int)
  have b: "\<bar>t\<bar> \<le> money_bound" "\<bar>sum_list ks + t\<bar> \<le> money_bound" "length ks \<le> 1000" "bi_tax_amount b = cent t"
    using c nn by (auto simp: bill_cents_def)
  have "near (Suc (2 * length ks + 1)) (fadd (ba_subtotal a) (cent t)) (sum_list ks + t)"
    using n b by (intro near_add near_cent) auto
  then have "py_round 2 (fadd (ba_subtotal a) (cent t)) = cent (sum_list ks + t)"
    using b by (intro near_round) auto
  then show "pay_total_amount (new_payable b today pid a) = cent (sum_list ks + t)"
    by (simp add: new_payable_def b)
  show "pay_subtotal_amount (new_payable b today pid a) = cent (sum_list ks)"
    using near_round [OF n] b by (simp add: new_payable_def)
  show "0 < sum_list ks" if ne: "bi_lines b \<noteq> []"
  proof -
    obtain x xs where x: "bi_lines b = x # xs" using ne by (cases "bi_lines b") auto
    then obtain k ks' where k: "ks = k # ks'" "bl_billed_amount x = cent k" using c by (auto simp: bill_cents_def)
    have "0 < cent k" using p x k by simp
    then have "0 < k" using cent_mono [of k 0] by (cases "0 < k") auto
    moreover have "0 \<le> sum_list ks'" using c k by (intro sum_list_nonneg_int) (auto simp: bill_cents_def)
    ultimately show ?thesis by (simp add: k)
  qed
qed

end
