(* ===== verification/Py_Decimal.thy ===== *)
theory Py_Decimal
  imports Py_Money
begin

text \<open>
  Python's \<open>decimal\<close>, as far as the code uses it: a \<open>Decimal\<close> is the rational it denotes,
  \<open>Decimal(str(x))\<close> of a float is the shortest decimal that reads back as \<open>x\<close>, a product is
  rounded to the 28 significant digits of the default context, and \<open>quantize\<close> to two places rounds
  halves away from zero (\<open>ROUND_HALF_UP\<close>). Operands too large for \<open>quantize\<close> (above 10 to the 26th)
  are not modelled; the numeric columns of the program hold 14 digits before the point.
\<close>

section \<open>Operations\<close>

definition dec_of_flt :: "flt \<Rightarrow> rat" where
  "dec_of_flt x = (if x = 0 then 0 else
     (let (n, k) = shortest_from 17 1 \<bar>x\<bar> in (if x < 0 then -1 else 1) * of_int n * 10 powi k))"

definition drnd :: "rat \<Rightarrow> rat" where
  "drnd x = (if x = 0 then 0 else
     (let e = expo10 \<bar>x\<bar> - 27 in of_int (rhe (x / 10 powi e)) * 10 powi e))"

definition half_up :: "rat \<Rightarrow> int" where
  "half_up x = (if x < 0 then - \<lfloor>1 / 2 - x\<rfloor> else \<lfloor>x + 1 / 2\<rfloor>)"

definition quantize_cents :: "rat \<Rightarrow> rat" where
  "quantize_cents x = of_int (half_up (x * 100)) / 100"

section \<open>Decimal exponents\<close>

lemma dec_len_bounds: "1 \<le> n \<Longrightarrow> 1 \<le> dec_len n \<and> 10 ^ nat (dec_len n - 1) \<le> n \<and> n < 10 ^ nat (dec_len n)"
proof (induction n rule: dec_len.induct)
  case (1 n)
  show ?case
  proof (cases "n < 10")
    case True
    then have "dec_len n = 1" using 1 by (simp add: dec_len.simps)
    with True 1 show ?thesis by simp
  next
    case False
    with 1 have ih: "1 \<le> dec_len (n div 10)" "10 ^ nat (dec_len (n div 10) - 1) \<le> n div 10"
      "n div 10 < 10 ^ nat (dec_len (n div 10))" by simp_all
    have l: "dec_len n = 1 + dec_len (n div 10)" using 1 by (subst dec_len.simps) simp
    have s: "nat (dec_len n - 1) = Suc (nat (dec_len (n div 10) - 1))" "nat (dec_len n) = Suc (nat (dec_len (n div 10)))"
      using ih(1) l by linarith+
    have "10 * (n div 10) \<le> n" "n < 10 * (n div 10) + 10" by simp_all
    with ih s l show ?thesis by simp
  qed
qed

lemma powi10_pos [simp]: "0 < (10::rat) powi n"
  by (simp add: zero_less_power_int)

lemma powi10_lt: "m < n \<Longrightarrow> (10::rat) powi m < 10 powi n"
  by (simp add: power_int_strict_increasing)

lemma powi10_less_cancel: "(10::rat) powi m < 10 powi n \<Longrightarrow> m < n"
  by (metis linorder_not_le order_less_irrefl order_le_less power_int_increasing one_le_numeral order_trans)

lemma expo10_bounds: "0 < x \<Longrightarrow> 10 powi expo10 x \<le> x \<and> x < 10 powi (expo10 x + 1)"
proof (cases "1 \<le> x")
  case True
  define n where "n = \<lfloor>x\<rfloor>"
  have n: "1 \<le> n" "of_int n \<le> x" "x < of_int n + 1" using True floor_correct [of x] by (auto simp: n_def)
  note d = dec_len_bounds [OF n(1)]
  have e: "expo10 x = dec_len n - 1" using True by (simp add: expo10_def n_def)
  have "(10::rat) powi (dec_len n - 1) = of_int (10 ^ nat (dec_len n - 1))" using d by (simp add: power_int_def)
  also have "\<dots> \<le> of_int n" using d by (simp only: of_int_le_iff)
  finally have lo: "(10::rat) powi (dec_len n - 1) \<le> x" using n by linarith
  have "n + 1 \<le> 10 ^ nat (dec_len n)" using d by linarith
  then have "of_int (n + 1) \<le> (of_int (10 ^ nat (dec_len n)) :: rat)" by (simp only: of_int_le_iff)
  also have "\<dots> = 10 powi (dec_len n)" using d by (simp add: power_int_def)
  finally have "x < 10 powi (dec_len n)" using n by simp
  with lo show ?thesis by (simp add: e)
next
  case False
  assume x: "0 < x"
  define m where "m = \<lceil>1 / x\<rceil> - 1"
  have inv: "1 < 1 / x" using x False by (simp add: field_simps)
  then have m: "1 \<le> m" "of_int m < 1 / x" "1 / x \<le> of_int m + 1"
    using ceiling_correct [of "1 / x"] by (auto simp: m_def)
  note d = dec_len_bounds [OF m(1)]
  have e: "expo10 x = - dec_len m" using False by (simp add: expo10_def m_def)
  have p: "(10::rat) powi dec_len m = of_int (10 ^ nat (dec_len m))"
    "(10::rat) powi (dec_len m - 1) = of_int (10 ^ nat (dec_len m - 1))" using d by (simp_all add: power_int_def)
  have "m + 1 \<le> 10 ^ nat (dec_len m)" using d by linarith
  then have "of_int (m + 1) \<le> (of_int (10 ^ nat (dec_len m)) :: rat)" by (simp only: of_int_le_iff)
  then have "1 / x \<le> 10 powi dec_len m" using m(3) p(1) by simp
  then have lo: "10 powi (- dec_len m) \<le> x" using x by (simp add: power_int_minus field_simps)
  have "of_int (10 ^ nat (dec_len m - 1)) \<le> (of_int m :: rat)" using d by (simp only: of_int_le_iff)
  then have "10 powi (dec_len m - 1) < 1 / x" using m(2) p(2) by linarith
  then have "x < inverse (10 powi (dec_len m - 1))" using x by (simp add: field_simps)
  also have "inverse (10 powi (dec_len m - 1)) = (10::rat) powi (- dec_len m + 1)"
    by (metis minus_diff_eq power_int_minus uminus_add_conv_diff add.commute)
  finally show ?thesis using lo by (simp add: e)
qed

lemma expo10_unique: "10 powi m \<le> x \<Longrightarrow> x < 10 powi (m + 1) \<Longrightarrow> expo10 x = m"
proof -
  assume a: "10 powi m \<le> x" "x < 10 powi (m + 1)"
  have "0 < (10::rat) powi m" by simp
  then have "0 < x" using a(1) by linarith
  note b = expo10_bounds [OF this]
  have "(10::rat) powi m < 10 powi (expo10 x + 1)" "(10::rat) powi expo10 x < 10 powi (m + 1)"
    using a b by linarith+
  then have "m < expo10 x + 1" "expo10 x < m + 1" by (blast dest: powi10_less_cancel)+
  then show ?thesis by simp
qed

text \<open>Numbers of at most 28 digits are not changed by the rounding of the context.\<close>

lemma drnd_exact: "\<bar>m\<bar> < 10 ^ 28 \<Longrightarrow> drnd (of_int m * 10 powi e) = of_int m * 10 powi e"
proof (cases "m = 0")
  case False
  assume m: "\<bar>m\<bar> < 10 ^ 28"
  define y where "y = of_int m * (10::rat) powi e"
  define q where "q = expo10 \<bar>y\<bar> - 27"
  have y: "0 < \<bar>y\<bar>" using False by (simp add: y_def)
  have "of_int \<bar>m\<bar> < (of_int (10 ^ 28) :: rat)" using m by (simp only: of_int_less_iff)
  then have "\<bar>y\<bar> < 10 ^ 28 * 10 powi e" by (simp add: y_def abs_mult)
  also have "(10::rat) ^ 28 * 10 powi e = 10 powi (28 + e)"
    using power_int_add [of "10 :: rat" 28 e] by simp
  finally have "(10::rat) powi expo10 \<bar>y\<bar> < 10 powi (28 + e)" using expo10_bounds [OF y] by linarith
  then have "q \<le> e" using powi10_less_cancel by (fastforce simp: q_def)
  then obtain j where j: "(10::rat) powi (e - q) = of_int j"
    by (metis diff_ge_0_iff_ge of_int_numeral of_int_power power_int_nonneg_exp)
  have "y / 10 powi q = of_int (m * j)"
    by (simp add: y_def j [symmetric] power_int_diff)
  then have "rhe (y / 10 powi q) = m * j" by (simp only: rhe_of_int)
  then have "drnd y = of_int (m * j) * 10 powi q" using y unfolding drnd_def q_def Let_def by auto
  also have "\<dots> = y" by (simp add: y_def j [symmetric] power_int_diff)
  finally show ?thesis by (simp add: y_def)
qed (simp add: drnd_def)

section \<open>Amounts in cents\<close>

lemma powi10_minus2: "(10::rat) powi (-2) = 1 / 100"
  by (simp add: power_int_def field_simps)

lemma expo10_cent:
  assumes "0 < k" "k < money_bound"
  shows "expo10 (cent k) = dec_len k - 3"
proof (rule expo10_unique)
  define d where "d = dec_len k"
  from dec_len_bounds [of k] assms have d: "1 \<le> d" "10 ^ nat (d - 1) \<le> k" "k < 10 ^ nat d" by (simp_all add: d_def)
  have sh: "(10::rat) powi (n - 2) = 10 powi n / 100" for n
    by (simp add: power_int_diff)
  have pd: "(10::rat) powi (d - 1) = of_int (10 ^ nat (d - 1))" "(10::rat) powi d = of_int (10 ^ nat d)"
    using d(1) by (simp_all add: power_int_def)
  have "of_int (10 ^ nat (d - 1)) \<le> (of_int k :: rat)" using d(2) by (simp only: of_int_le_iff)
  then have lo: "10 powi (d - 3) \<le> (of_int k / 100 :: rat)" using sh [of "d - 1"] pd(1) by (simp add: divide_right_mono)
  have small: "(10::rat) powi (d - 3) \<le> rnd (10 powi (d - 3))"
  proof (cases "3 \<le> d")
    case True
    have "10 ^ nat (d - 1) \<le> (10::int) ^ 12" using d(2) assms(2) by (simp add: money_bound_def)
    then have "nat (d - 1) \<le> 12" using power_le_imp_le_exp [of "10::int" "nat (d - 1)" 12] by linarith
    then have "(10::int) ^ nat (d - 3) \<le> 10 ^ 12" by (intro power_increasing) auto
    then have "rnd (of_int (10 ^ nat (d - 3))) = of_int (10 ^ nat (d - 3))" by (intro rnd_of_int) simp
    moreover have "(10::rat) powi (d - 3) = of_int (10 ^ nat (d - 3))" using True by (simp add: power_int_def)
    ultimately show ?thesis by simp
  next
    case False
    with d(1) have "d = 1 \<or> d = 2" by linarith
    moreover have "1 / 100 \<le> rnd (1 / 100)" "1 / 10 \<le> rnd (1 / 10)" by code_simp+
    moreover have "(10::rat) powi (-1) = 1 / 10" by (simp add: power_int_def)
    ultimately show ?thesis using powi10_minus2 by auto
  qed
  also have "rnd (10 powi (d - 3)) \<le> cent k" unfolding cent_def using lo by (rule rnd_mono)
  finally show "10 powi (dec_len k - 3) \<le> cent k" by (simp add: d_def)
  have "k + 1 \<le> 10 ^ nat d" using d(3) by linarith
  then have "of_int (k + 1) \<le> (of_int (10 ^ nat d) :: rat)" by (simp only: of_int_le_iff)
  then have "(of_int k + 1) / 100 \<le> (10::rat) powi (d - 2)" using sh [of d] pd(2) by (simp add: divide_right_mono)
  moreover have "\<bar>cent k - of_int k / 100\<bar> \<le> 1 / 2 ^ 20" using assms by (intro cent_error) auto
  moreover have "(1 :: rat) / 2 ^ 20 < 1 / 100" by simp
  ultimately have "cent k < 10 powi (d - 2)" unfolding add_divide_distrib by linarith
  then show "cent k < 10 powi (dec_len k - 3 + 1)" by (simp add: d_def)
qed

text \<open>A multiple of a hundredth that rounds to the double of \<open>k\<close> cents is \<open>k\<close> cents.\<close>

lemma cent_inverse: "rnd (of_int j / 100) = cent k \<Longrightarrow> 0 < k \<Longrightarrow> k < money_bound \<Longrightarrow> j = k"
proof -
  assume a: "rnd (of_int j / 100) = cent k" "0 < k" "k < money_bound"
  then have c: "cent j = cent k" by (simp add: cent_def)
  consider "j \<le> 0" | "money_bound \<le> j" | "0 < j" "j < money_bound" by linarith
  then show ?thesis
  proof cases
    case 1
    have "cent 0 < cent k" using a by (intro cent_less) auto
    with cent_mono [OF 1] c show ?thesis by simp
  next
    case 2
    have "cent k < cent money_bound" using a by (intro cent_less) auto
    with cent_mono [OF 2] c show ?thesis by simp
  next
    case 3
    with a c cent_eq_iff [of j k] show ?thesis by simp
  qed
qed

lemma grid_hundredth: "-2 \<le> e \<Longrightarrow> \<exists>j. of_int n * (10::rat) powi e = of_int j / 100"
proof -
  assume e: "-2 \<le> e"
  have "(10::rat) powi e = 10 powi (e + 2) / 100" using power_int_diff [of "10::rat" "e + 2" 2] by simp
  moreover have "(10::rat) powi (e + 2) = of_int (10 ^ nat (e + 2))" using e by (simp add: power_int_def)
  ultimately have "of_int n * (10::rat) powi e = of_int (n * 10 ^ nat (e + 2)) / 100" by simp
  then show ?thesis by blast
qed

lemma shortest_cent:
  assumes k: "0 < k" "k < money_bound"
  shows "1 \<le> p \<Longrightarrow> int p \<le> dec_len k \<Longrightarrow> dec_len k < int (p + fuel) \<Longrightarrow>
    shortest_from fuel p (cent k) = (n, e) \<Longrightarrow> of_int n * 10 powi e = (of_int k / 100 :: rat)"
proof (induction fuel arbitrary: p)
  case (Suc fuel)
  define x where "x = cent k"
  have e0: "expo10 x = dec_len k - 3" using expo10_cent [OF k] by (simp add: x_def)
  show ?case
  proof (cases "sig_digits p x")
    case (Some ne)
    then have ne: "ne = (n, e)" using Suc.prems(4) by (simp add: x_def)
    from Some [unfolded ne] have e': "e = expo10 x - int p + 1"
      by (auto simp: sig_digits_def Let_def simp del: find.simps)
    from Some [unfolded ne] have "rnd (of_int n * 10 powi e) = x"
      unfolding e' by (auto simp: sig_digits_def Let_def simp del: find.simps dest!: find_SomeD)
    then have r: "rnd (of_int n * 10 powi e) = cent k" and e: "-2 \<le> e" using e' e0 Suc.prems(2) by (simp_all add: x_def)
    from grid_hundredth [OF e] obtain j where j: "of_int n * (10::rat) powi e = of_int j / 100" by blast
    have "j = k" using r [unfolded j] k by (rule cent_inverse)
    with j show ?thesis by simp
  next
    case None
    have "int p \<noteq> dec_len k"
    proof
      assume p: "int p = dec_len k"
      have "rhe (x / 10 powi (-2)) = k"
        using cents_of_cent [of k] k by (simp add: powi10_minus2 cents_of_def x_def)
      moreover have "rnd (of_int k * 10 powi (-2)) = x" by (simp add: powi10_minus2 x_def cent_def)
      ultimately show False using None e0 p by (simp add: sig_digits_def)
    qed
    moreover have "shortest_from fuel (Suc p) (cent k) = (n, e)" using None Suc.prems(4) by (simp add: x_def)
    ultimately show ?thesis using Suc.IH [of "Suc p"] Suc.prems by simp
  qed
qed simp

lemma dec_len_small: "0 < k \<Longrightarrow> k < money_bound \<Longrightarrow> dec_len k \<le> 12"
proof -
  assume k: "0 < k" "k < money_bound"
  have d: "1 \<le> dec_len k" "10 ^ nat (dec_len k - 1) \<le> k" using dec_len_bounds [of k] k by simp_all
  have "10 ^ nat (dec_len k - 1) < (10::int) ^ 12" using d k by (simp add: money_bound_def)
  then have "nat (dec_len k - 1) < 12" by (rule power_less_imp_less_exp [rotated]) simp
  then show ?thesis by linarith
qed

lemma dec_of_cent: "0 \<le> k \<Longrightarrow> k < money_bound \<Longrightarrow> dec_of_flt (cent k) = of_int k / 100"
proof (cases "k = 0")
  case False
  assume k: "0 \<le> k" "k < money_bound"
  then have k': "0 < k" using False by simp
  have pos: "0 < cent k" using cent_less [of 0 k] k k' by simp
  obtain n e where s: "shortest_from 17 1 (cent k) = (n, e)" by (cases "shortest_from 17 1 (cent k)")
  have "1 \<le> dec_len k" using dec_len_bounds [of k] k' by simp
  then have "of_int n * 10 powi e = (of_int k / 100 :: rat)"
    using shortest_cent [OF k' k(2) _ _ _ s] dec_len_small [OF k' k(2)] by simp
  then show ?thesis using pos s by (simp add: dec_of_flt_def)
qed (simp add: dec_of_flt_def)

text \<open>A percentage of an amount in cents, rounded to cents with halves up.\<close>

lemma percent_exact:
  assumes "0 \<le> k" "k < money_bound" "0 \<le> r" "r \<le> 100"
  shows "quantize_cents (drnd (of_int k / 100 * (of_int r / 100))) = of_int ((k * r + 50) div 100) / 100"
proof -
  have "k * r \<le> money_bound * 100" using assms by (intro mult_mono) auto
  then have "\<bar>k * r\<bar> < 10 ^ 28" using assms by (simp add: money_bound_def)
  then have "drnd (of_int (k * r) * 10 powi (-4)) = of_int (k * r) * 10 powi (-4)" by (rule drnd_exact)
  moreover have "of_int k / 100 * (of_int r / 100) = of_int (k * r) * (10::rat) powi (-4)"
    by (simp add: power_int_def power_one_over)
  ultimately have d: "drnd (of_int k / 100 * (of_int r / 100)) = of_int (k * r) * 10 powi (-4)" by simp
  have "of_int (k * r) * (10::rat) powi (-4) * 100 = of_int (k * r) / of_int 100"
    by (simp add: power_int_def power_one_over)
  moreover have "half_up (of_int (k * r) / of_int 100 :: rat) = (k * r + 50) div 100"
  proof -
    have "0 \<le> (of_int (k * r) / of_int 100 :: rat)" using assms by simp
    moreover have "of_int (k * r) / of_int 100 + 1 / 2 = (of_int (k * r + 50) / of_int 100 :: rat)" by simp
    ultimately show ?thesis by (simp only: half_up_def not_less [symmetric] if_False floor_divide_of_int_eq)
  qed
  ultimately show ?thesis by (simp only: d quantize_cents_def)
qed

end
