(* ===== verification/Invoicing.thy ===== *)
theory Invoicing
  imports Payables Py_Decimal
begin

text \<open>
  \<open>app/modules/invoicing\<close>: tax, generation of customer invoices from the revenue ledger, approval,
  sending, credit and debit notes. Tables are those of the database session, as in \<open>Payables\<close>;
  identities, the clock and the approval threshold of the settings are arguments. The PDF renderer
  is left out.
\<close>

section \<open>Tax\<close>

record tax_evaluation =
  te_applicable :: bool
  te_jurisdiction :: string
  te_tax_type :: string
  te_tax_rate :: flt

definition compute_tax :: "tax_evaluation \<Rightarrow> flt \<Rightarrow> flt" where
  "compute_tax t amount = (if \<not> te_applicable t \<or> te_tax_rate t \<le> 0 then 0
     else rnd (quantize_cents (drnd (dec_of_flt amount * dec_of_flt (te_tax_rate t)))))"

definition tax_rules :: "(string, string \<times> flt) dict" where
  "tax_rules = [(''PK'', (''GST'', flit (16 / 100))), (''SA'', (''VAT'', flit (15 / 100))), (''AE'', (''VAT'', flit (5 / 100)))]"

definition tax_evaluate :: "string option \<Rightarrow> bool \<Rightarrow> tax_evaluation" where
  "tax_evaluate jurisdiction is_tax_exempt =
    (if \<not> truthy jurisdiction \<or> is_tax_exempt
     then \<lparr>te_applicable = False, te_jurisdiction = (if truthy jurisdiction then the jurisdiction else ''NONE''),
           te_tax_type = ''EXEMPT'', te_tax_rate = 0\<rparr>
     else (let code = py_upper (py_strip (the jurisdiction)) in
       case dget tax_rules code of
         None \<Rightarrow> \<lparr>te_applicable = False, te_jurisdiction = code, te_tax_type = ''NONE'', te_tax_rate = 0\<rparr>
       | Some (ty, r) \<Rightarrow> \<lparr>te_applicable = True, te_jurisdiction = code, te_tax_type = ty, te_tax_rate = r\<rparr>))"

section \<open>Tables\<close>

record shipment_row =
  shp_id :: string
  shp_tenant_id :: string
  shp_customer_id :: string
  shp_job_id :: "string option"

record customer_row =
  cus_id :: string
  cus_tenant_id :: string
  cus_name :: string
  cus_tax_registration :: "string option"
  cus_credit_limit_currency :: "string option"
  cus_payment_terms_days :: "int option"

record exchange_rate_row =
  xr_currency_code :: string
  xr_rate_date :: date
  xr_rate_to_base :: flt
  xr_source :: string

record revenue_line =
  rev_id :: string
  rev_shipment_id :: string
  rev_charge_code :: string
  rev_description :: "string option"
  rev_quantity :: flt
  rev_unit_rate :: "flt option"
  rev_amount :: flt
  rev_currency_code :: "string option"
  rev_status :: string

record invoice =
  inv_id :: string
  inv_tenant_id :: string
  inv_customer_id :: string
  inv_shipment_id :: string
  inv_number :: string
  inv_date :: date
  inv_currency_code :: string
  inv_exchange_rate_to_base :: flt
  inv_exchange_rate_source :: "string option"
  inv_subtotal_amount :: flt
  inv_tax_amount :: flt
  inv_total_amount :: flt
  inv_amount :: flt
  inv_tax_jurisdiction :: string
  inv_tax_rate :: flt
  inv_tax_type :: string
  inv_job_number :: "string option"
  inv_customer_po :: "string option"
  inv_approval_status :: string
  inv_approved_by :: "string option"
  inv_approved_at :: "datetime option"
  inv_sent_at :: "datetime option"
  inv_sent_by :: "string option"
  inv_customer_email :: "string option"
  inv_payment_terms :: string
  inv_notes :: "string option"
  inv_status :: string

record invoice_line =
  il_tenant_id :: string
  il_invoice_id :: string
  il_revenue_line_id :: string
  il_charge_code :: string
  il_description :: string
  il_quantity :: flt
  il_unit_rate :: flt
  il_amount :: flt
  il_source_amount :: flt
  il_source_currency :: string
  il_exchange_rate :: flt
  il_tax_rate :: flt
  il_tax_amount :: flt
  il_total_amount :: flt

text \<open>Credit and debit notes have the same columns but for the charge of a debit note.\<close>

record ar_note =
  nt_id :: string
  nt_tenant_id :: string
  nt_number :: string
  nt_invoice_id :: string
  nt_customer_id :: string
  nt_amount :: flt
  nt_tax_amount :: flt
  nt_total_amount :: flt
  nt_currency_code :: string
  nt_reason :: string
  nt_date :: date
  nt_status :: string
  nt_created_by :: string
  nt_financial_entry_id :: string

record debit_note = ar_note +
  dn_charge_code :: string
  dn_description :: string

record outbox_event =
  ob_event_type :: string
  ob_tenant_id :: string
  ob_aggregate_type :: string
  ob_aggregate_id :: string
  ob_payload :: "(string \<times> json) list"
  ob_occurred_at :: datetime
  ob_status :: string

record inv_db =
  iv_shipments :: "shipment_row list"
  iv_customers :: "customer_row list"
  iv_contacts :: "(string \<times> string option) list"  \<comment> \<open>customer and e-mail, in order\<close>
  iv_rates :: "exchange_rate_row list"
  iv_revenue :: "(string, revenue_line) dict"
  iv_invoices :: "(string, invoice) dict"
  iv_lines :: "invoice_line list"
  iv_credits :: "ar_note list"
  iv_debits :: "debit_note list"
  iv_entries :: "fin_entry list"
  iv_outbox :: "outbox_event list"
  iv_audit :: "audit_log list"

definition enqueue :: "string \<Rightarrow> string \<Rightarrow> string \<Rightarrow> string \<Rightarrow> (string \<times> json) list \<Rightarrow> datetime \<Rightarrow>
    outbox_event list \<Rightarrow> outbox_event list" where
  "enqueue event_type tenant_id aggregate_type aggregate_id payload now rows = rows @
     [\<lparr>ob_event_type = event_type, ob_tenant_id = tenant_id, ob_aggregate_type = aggregate_type,
       ob_aggregate_id = aggregate_id, ob_payload = payload, ob_occurred_at = now, ob_status = ''PENDING''\<rparr>]"

definition audit_inv :: "string \<Rightarrow> string \<Rightarrow> string \<Rightarrow> string \<Rightarrow> string \<Rightarrow> (string \<times> json) list \<Rightarrow> inv_db \<Rightarrow> inv_db" where
  "audit_inv tenant_id actor_id entity_type eid action new_value db = db\<lparr>iv_audit := record_audit
    \<lparr>al_tenant_id = Some tenant_id, al_user_id = Some actor_id, al_branch_id = None, al_entity_type = entity_type,
     al_entity_id = eid, al_action = action, al_previous_value = None, al_new_value = Some new_value,
     al_correlation_id = None, al_ip_address = None, al_user_agent = None\<rparr> (iv_audit db)\<rparr>"

text \<open>\<open>_get_next_sequence\<close> counts the rows of the tenant; the references are built from it.\<close>

definition reference :: "string \<Rightarrow> date \<Rightarrow> nat \<Rightarrow> string" where
  "reference pre today rows = pre @ ''-'' @ int_str (date_year today) @ ''-'' @ zpad 5 (int rows + 1)"

section \<open>Retrieval\<close>

record invoice_details =
  id_invoice :: invoice
  id_customer_name :: string
  id_tax_registration :: "string option"
  id_lines :: "invoice_line list"

definition find_invoice :: "inv_db \<Rightarrow> string \<Rightarrow> string \<Rightarrow> invoice res" where
  "find_invoice db iid tenant_id = (case dget (iv_invoices db) iid of
     Some i \<Rightarrow> if inv_tenant_id i = tenant_id then Inr i else Inl (NotFoundError (''Invoice '' @ iid @ '' not found.''))
   | None \<Rightarrow> Inl (NotFoundError (''Invoice '' @ iid @ '' not found.'')))"

definition get_invoice :: "inv_db \<Rightarrow> string \<Rightarrow> string \<Rightarrow> invoice_details res" where
  "get_invoice db iid tenant_id = res_map (\<lambda>i.
     let c = List.find (\<lambda>c. cus_id c = inv_customer_id i) (iv_customers db)
     in \<lparr>id_invoice = i, id_customer_name = (case c of None \<Rightarrow> ''Customer'' | Some c \<Rightarrow> cus_name c),
         id_tax_registration = (case c of None \<Rightarrow> None | Some c \<Rightarrow> cus_tax_registration c),
         id_lines = filter (\<lambda>l. il_invoice_id l = iid) (iv_lines db)\<rparr>)
     (find_invoice db iid tenant_id)"

definition list_invoices ::
  "inv_db \<Rightarrow> string \<Rightarrow> string option \<Rightarrow> string option \<Rightarrow> string option \<Rightarrow> nat \<Rightarrow> invoice list" where
  "list_invoices db tenant_id customer_id shipment_id status limit =
    take limit (rev (filter (\<lambda>i. inv_tenant_id i = tenant_id
      \<and> (customer_id = None \<or> Some (inv_customer_id i) = customer_id)
      \<and> (shipment_id = None \<or> Some (inv_shipment_id i) = shipment_id)
      \<and> (truthy status \<longrightarrow> inv_status i = py_upper (py_strip (the status)))) (dvalues (iv_invoices db))))"

section \<open>Generation\<close>

fun py_join :: "string \<Rightarrow> string list \<Rightarrow> string" where
  "py_join sep [] = []"
| "py_join sep [x] = x"
| "py_join sep (x # y # ys) = x @ sep @ py_join sep (y # ys)"

record invoice_request =
  ir_shipment_id :: string
  ir_tenant_id :: string
  ir_actor_id :: string
  ir_currency_code :: "string option"
  ir_tax_jurisdiction :: "string option"
  ir_payment_terms :: "string option"
  ir_customer_po :: "string option"
  ir_notes :: "string option"
  ir_revenue_line_ids :: "string list"  \<comment> \<open>empty for \<open>None\<close>, as the code tests truthiness\<close>

definition eligible_lines :: "invoice_request \<Rightarrow> inv_db \<Rightarrow> revenue_line list" where
  "eligible_lines q db = filter (\<lambda>r. rev_shipment_id r = ir_shipment_id q \<and>
     (if ir_revenue_line_ids q \<noteq> [] then rev_id r \<in> set (ir_revenue_line_ids q)
      else rev_status r \<in> {''ESTIMATED'', ''QUOTED''})) (dvalues (iv_revenue db))"

definition or_else :: "string option \<Rightarrow> string \<Rightarrow> string" where
  "or_else a b = (if truthy a then the a else b)"

definition target_currency :: "invoice_request \<Rightarrow> customer_row \<Rightarrow> string" where
  "target_currency q c = py_upper (py_strip (or_else (ir_currency_code q) (or_else (cus_credit_limit_currency c) ''USD'')))"

text \<open>The most recent rate of the currency up to today; none is needed for USD.\<close>

definition locked_rate_to_base :: "date \<Rightarrow> string \<Rightarrow> inv_db \<Rightarrow> flt \<times> string option" where
  "locked_rate_to_base today target_curr db =
    (if target_curr = ''USD'' then (1, None)
     else case filter (\<lambda>x. xr_currency_code x = target_curr \<and> xr_rate_date x \<le> today) (iv_rates db) of
       [] \<Rightarrow> (1, None)
     | x # xs \<Rightarrow> (let best = max_by xr_rate_date x xs in (xr_rate_to_base best, Some (xr_source best))))"

definition invoice_line_of :: "string \<Rightarrow> string \<Rightarrow> string \<Rightarrow> flt \<Rightarrow> tax_evaluation \<Rightarrow> revenue_line \<Rightarrow> invoice_line" where
  "invoice_line_of tenant_id iid target_curr rate tax r =
    (let src_amount = rev_amount r; src_curr = or_else (rev_currency_code r) ''USD'';
         convert = (src_curr \<noteq> target_curr \<and> 0 < rate);
         line_amount = (if convert then py_round 2 (fmul src_amount rate) else src_amount);
         line_tax = compute_tax tax line_amount
     in \<lparr>il_tenant_id = tenant_id, il_invoice_id = iid, il_revenue_line_id = rev_id r, il_charge_code = rev_charge_code r,
         il_description = or_else (rev_description r) (rev_charge_code r), il_quantity = rev_quantity r,
         il_unit_rate = (case rev_unit_rate r of None \<Rightarrow> line_amount | Some u \<Rightarrow> u), il_amount = line_amount,
         il_source_amount = src_amount, il_source_currency = src_curr, il_exchange_rate = (if convert then rate else 1),
         il_tax_rate = te_tax_rate tax, il_tax_amount = line_tax, il_total_amount = py_round 2 (fadd line_amount line_tax)\<rparr>)"

definition terms_text :: "invoice_request \<Rightarrow> customer_row \<Rightarrow> string" where
  "terms_text q c = or_else (ir_payment_terms q) (case cus_payment_terms_days c of
     None \<Rightarrow> ''Net 30'' | Some d \<Rightarrow> if d = 0 then ''Net 30'' else int_str d @ '' days'')"

definition tenant_count :: "('a \<Rightarrow> string) \<Rightarrow> string \<Rightarrow> 'a list \<Rightarrow> nat" where
  "tenant_count tenant_of tenant_id rows = length (filter (\<lambda>x. tenant_of x = tenant_id) rows)"

definition new_invoice :: "flt \<Rightarrow> datetime \<Rightarrow> date \<Rightarrow> string \<Rightarrow> invoice_request \<Rightarrow> shipment_row \<Rightarrow> customer_row \<Rightarrow>
    tax_evaluation \<Rightarrow> invoice_line list \<Rightarrow> inv_db \<Rightarrow> invoice" where
  "new_invoice threshold now today iid q s c tax ls db =
    (let target_curr = target_currency q c; (rate, source) = locked_rate_to_base today target_curr db;
         subtotal = fold (\<lambda>l x. fadd x (il_amount l)) ls 0;
         tax_total = fold (\<lambda>l x. fadd x (il_tax_amount l)) ls 0;
         grand_total = py_round 2 (fadd subtotal tax_total);
         auto = (grand_total \<le> threshold)
     in \<lparr>inv_id = iid, inv_tenant_id = ir_tenant_id q, inv_customer_id = shp_customer_id s,
         inv_shipment_id = ir_shipment_id q,
         inv_number = reference ''INV'' today (tenant_count inv_tenant_id (ir_tenant_id q) (dvalues (iv_invoices db))),
         inv_date = today, inv_currency_code = target_curr, inv_exchange_rate_to_base = rate,
         inv_exchange_rate_source = source, inv_subtotal_amount = subtotal, inv_tax_amount = tax_total,
         inv_total_amount = grand_total, inv_amount = grand_total, inv_tax_jurisdiction = te_jurisdiction tax,
         inv_tax_rate = te_tax_rate tax, inv_tax_type = te_tax_type tax, inv_job_number = shp_job_id s,
         inv_customer_po = ir_customer_po q,
         inv_approval_status = (if auto then ''APPROVED'' else ''PENDING''),
         inv_approved_by = (if auto then Some (ir_actor_id q) else None),
         inv_approved_at = (if auto then Some now else None),
         inv_sent_at = None, inv_sent_by = None, inv_customer_email = None, inv_payment_terms = terms_text q c,
         inv_notes = ir_notes q, inv_status = (if auto then ''APPROVED'' else ''PENDING_APPROVAL'')\<rparr>)"

definition receivable_entry :: "string \<Rightarrow> date \<Rightarrow> invoice \<Rightarrow> fin_entry" where
  "receivable_entry eid today i =
    \<lparr>fe_id = eid, fe_tenant_id = inv_tenant_id i, fe_shipment_id = Some (inv_shipment_id i), fe_entry_date = today,
     fe_entry_type = ''INVOICE_RECEIVABLE'', fe_debit_amount = inv_total_amount i, fe_credit_amount = 0,
     fe_currency_code = inv_currency_code i,
     fe_description = Some (''Invoice '' @ inv_number i @ '' generated for shipment '' @ inv_shipment_id i),
     fe_approved_by = inv_approved_by i, fe_status = ''POSTED''\<rparr>"

definition mark_invoiced :: "revenue_line list \<Rightarrow> (string, revenue_line) dict \<Rightarrow> (string, revenue_line) dict" where
  "mark_invoiced rs d = fold (\<lambda>r. dset (rev_id r) (r\<lparr>rev_status := ''INVOICED''\<rparr>)) rs d"

definition generate_invoice :: "flt \<Rightarrow> datetime \<Rightarrow> date \<Rightarrow> string \<Rightarrow> string \<Rightarrow> invoice_request \<Rightarrow> inv_db \<Rightarrow>
    invoice_details res \<times> inv_db" where
  "generate_invoice threshold now today iid eid q db =
    (case List.find (\<lambda>s. shp_id s = ir_shipment_id q \<and> shp_tenant_id s = ir_tenant_id q) (iv_shipments db) of
       None \<Rightarrow> (Inl (NotFoundError (''Shipment '' @ ir_shipment_id q @ '' not found or does not belong to tenant.'')), db)
     | Some s \<Rightarrow>
         (case List.find (\<lambda>c. cus_id c = shp_customer_id s \<and> cus_tenant_id c = ir_tenant_id q) (iv_customers db) of
            None \<Rightarrow> (Inl (NotFoundError (''Customer '' @ shp_customer_id s @ '' for shipment not found.'')), db)
          | Some c \<Rightarrow>
              (let revenue_lines = eligible_lines q db in
               if revenue_lines = []
               then (Inl (ValidationError ''No eligible revenue lines available for invoicing on this shipment.''), db)
               else (let already = map rev_id (filter (\<lambda>r. rev_status r = ''INVOICED'') revenue_lines) in
                 if already \<noteq> []
                 then (Inl (ValidationError (''Revenue line(s) '' @ py_join '', '' already @ '' are already invoiced.'')), db)
                 else
                   (let target_curr = target_currency q c;
                        tax = tax_evaluate (Some (or_else (ir_tax_jurisdiction q) ''NONE'')) False;
                        ls = map (invoice_line_of (ir_tenant_id q) iid target_curr (fst (locked_rate_to_base today target_curr db)) tax)
                          revenue_lines;
                        i = new_invoice threshold now today iid q s c tax ls db;
                        db = db\<lparr>iv_invoices := dset iid i (iv_invoices db), iv_lines := iv_lines db @ ls,
                                iv_revenue := mark_invoiced revenue_lines (iv_revenue db),
                                iv_entries := iv_entries db @ [receivable_entry eid today i]\<rparr>;
                        db = audit_inv (ir_tenant_id q) (ir_actor_id q) ''invoice'' iid ''invoice.created''
                          [(''invoice_number'', JStr (inv_number i)), (''total_amount'', JFloat (inv_total_amount i)),
                           (''currency'', JStr target_curr), (''status'', JStr (inv_status i)),
                           (''lines_count'', JInt (int (length ls)))] db
                    in (get_invoice db iid (ir_tenant_id q), db))))))"

section \<open>Approval and sending\<close>

definition put_invoice :: "invoice \<Rightarrow> inv_db \<Rightarrow> inv_db" where
  "put_invoice i db = db\<lparr>iv_invoices := dset (inv_id i) i (iv_invoices db)\<rparr>"

definition approved_invoice :: "datetime \<Rightarrow> string \<Rightarrow> string option \<Rightarrow> invoice \<Rightarrow> invoice" where
  "approved_invoice now actor_id notes i = i\<lparr>inv_status := ''APPROVED'', inv_approval_status := ''APPROVED'',
     inv_approved_by := Some actor_id, inv_approved_at := Some now,
     inv_notes := (if truthy notes then Some ((if truthy (inv_notes i) then the (inv_notes i) @ [CHR 0x0A] else []) @
       ''Approval note: '' @ the notes) else inv_notes i)\<rparr>"

definition approve_invoice :: "datetime \<Rightarrow> string \<Rightarrow> string \<Rightarrow> string \<Rightarrow> string option \<Rightarrow> inv_db \<Rightarrow>
    invoice_details res \<times> inv_db" where
  "approve_invoice now iid tenant_id actor_id notes db =
    (case find_invoice db iid tenant_id of
       Inl e \<Rightarrow> (Inl e, db)
     | Inr i \<Rightarrow>
         if inv_status i = ''APPROVED'' then (get_invoice db iid tenant_id, db)
         else if inv_status i \<noteq> ''PENDING_APPROVAL''
         then (Inl (ValidationError (''Cannot approve invoice in status '' @ [CHR 0x27] @ inv_status i @ [CHR 0x27] @ ''.'')), db)
         else
           (let db = put_invoice (approved_invoice now actor_id notes i) db;
                db = audit_inv tenant_id actor_id ''invoice'' iid ''invoice.approved''
                  [(''status'', JStr ''APPROVED''), (''approved_by'', JStr actor_id)] db
            in (get_invoice db iid tenant_id, db)))"

text \<open>The outcome of \<open>send_invoice\<close>: the mail address and the time.\<close>

definition recipient :: "string option \<Rightarrow> invoice \<Rightarrow> inv_db \<Rightarrow> string option" where
  "recipient recipient_email i db = (if truthy recipient_email then recipient_email
     else or_str (inv_customer_email i) (case List.find (\<lambda>c. fst c = inv_customer_id i) (iv_contacts db) of
       None \<Rightarrow> None | Some c \<Rightarrow> snd c))"

definition sent_invoice :: "datetime \<Rightarrow> string \<Rightarrow> string \<Rightarrow> invoice \<Rightarrow> invoice" where
  "sent_invoice now actor_id email i = i\<lparr>inv_status := ''SENT'', inv_sent_at := Some now, inv_sent_by := Some actor_id,
     inv_customer_email := Some email\<rparr>"

definition send_invoice :: "datetime \<Rightarrow> string \<Rightarrow> string \<Rightarrow> string \<Rightarrow> string option \<Rightarrow> inv_db \<Rightarrow>
    (invoice \<times> string \<times> datetime) res \<times> inv_db" where
  "send_invoice now iid tenant_id actor_id recipient_email db =
    (case find_invoice db iid tenant_id of
       Inl e \<Rightarrow> (Inl e, db)
     | Inr i \<Rightarrow>
         if inv_status i \<notin> {''APPROVED'', ''SENT''}
         then (Inl (ValidationError (''Invoice must be APPROVED before sending. Current status: '' @ [CHR 0x27] @
                 inv_status i @ [CHR 0x27] @ ''.'')), db)
         else
           (let email = recipient recipient_email i db in
            if \<not> truthy email then (Inl (ValidationError ''Recipient email is required to send invoice.''), db)
            else
              (let i = sent_invoice now actor_id (the email) i;
                   db = put_invoice i db;
                   db = db\<lparr>iv_outbox := enqueue ''invoice.sent'' tenant_id ''invoice'' iid
                     [(''invoice_id'', JStr iid), (''invoice_number'', JStr (inv_number i)), (''recipient_email'', JStr (the email)),
                      (''total_amount'', JFloat (inv_total_amount i)), (''currency'', JStr (inv_currency_code i)),
                      (''customer_id'', JStr (inv_customer_id i)), (''sent_at'', JTime now)] now (iv_outbox db)\<rparr>;
                   db = audit_inv tenant_id actor_id ''invoice'' iid ''invoice.sent''
                     [(''status'', JStr ''SENT''), (''recipient_email'', JStr (the email)), (''sent_at'', JTime now)] db
               in (Inr (i, the email, now), db))))"

section \<open>Credit and debit notes\<close>

record note_request =
  nq_invoice_id :: string
  nq_tenant_id :: string
  nq_actor_id :: string
  nq_amount :: flt
  nq_reason :: string
  nq_currency_code :: "string option"

definition credited :: "db_env \<Rightarrow> string \<Rightarrow> string \<Rightarrow> inv_db \<Rightarrow> flt" where
  "credited env iid tenant_id db = db_sum env (map nt_amount
     (filter (\<lambda>n. nt_invoice_id n = iid \<and> nt_tenant_id n = tenant_id \<and> nt_status n \<noteq> ''CANCELLED'') (iv_credits db)))"

definition credit_state :: "flt \<Rightarrow> invoice \<Rightarrow> invoice" where
  "credit_state new_credited i = (if inv_total_amount i \<le> new_credited then i\<lparr>inv_status := ''CREDITED''\<rparr> else i)"

definition note_entry :: "string \<Rightarrow> string \<Rightarrow> date \<Rightarrow> string \<Rightarrow> flt \<Rightarrow> flt \<Rightarrow> string \<Rightarrow> note_request \<Rightarrow> invoice \<Rightarrow> fin_entry" where
  "note_entry eid ty today ccy debit credit descr q i =
    \<lparr>fe_id = eid, fe_tenant_id = nq_tenant_id q, fe_shipment_id = Some (inv_shipment_id i), fe_entry_date = today,
     fe_entry_type = ty, fe_debit_amount = debit, fe_credit_amount = credit, fe_currency_code = ccy,
     fe_description = Some descr, fe_approved_by = Some (nq_actor_id q), fe_status = ''POSTED''\<rparr>"

definition note_row :: "string \<Rightarrow> string \<Rightarrow> string \<Rightarrow> date \<Rightarrow> string \<Rightarrow> note_request \<Rightarrow> invoice \<Rightarrow> ar_note" where
  "note_row nid num eid today ccy q i =
    \<lparr>nt_id = nid, nt_tenant_id = nq_tenant_id q, nt_number = num, nt_invoice_id = nq_invoice_id q,
     nt_customer_id = inv_customer_id i, nt_amount = nq_amount q, nt_tax_amount = 0, nt_total_amount = nq_amount q,
     nt_currency_code = ccy, nt_reason = py_strip (nq_reason q), nt_date = today, nt_status = ''ISSUED'',
     nt_created_by = nq_actor_id q, nt_financial_entry_id = eid\<rparr>"

definition bad_reason :: "string \<Rightarrow> bool" where
  "bad_reason s \<longleftrightarrow> s = [] \<or> length (py_strip s) < 3"

definition create_credit_note ::
  "db_env \<Rightarrow> date \<Rightarrow> string \<Rightarrow> string \<Rightarrow> note_request \<Rightarrow> inv_db \<Rightarrow> (ar_note \<times> string) res \<times> inv_db" where
  "create_credit_note env today eid nid q db =
    (if nq_amount q \<le> 0 then (Inl (ValidationError ''Credit note amount must be positive.''), db)
     else if bad_reason (nq_reason q)
     then (Inl (ValidationError ''Credit note reason is required (minimum 3 characters).''), db)
     else case find_invoice db (nq_invoice_id q) (nq_tenant_id q) of
       Inl e \<Rightarrow> (Inl e, db)
     | Inr i \<Rightarrow>
         (let inv_total = inv_total_amount i;
              existing = credited env (nq_invoice_id q) (nq_tenant_id q) db;
              remaining = py_round 2 (fsub inv_total existing)
          in if remaining \<le> 0
             then (Inl (ValidationError (''Invoice '' @ inv_number i @ '' has already been fully credited.'')), db)
             else if remaining < nq_amount q
             then (Inl (ValidationError (''Credit note amount ('' @ frepr (nq_amount q) @ '') exceeds remaining creditable amount ('' @
                     frepr remaining @ '') on invoice '' @ inv_number i @ '' (total: '' @ frepr inv_total @
                     '', previously credited: '' @ frepr existing @ '').'')), db)
             else
               (let i = credit_state (py_round 2 (fadd existing (nq_amount q))) i;
                    num = reference ''CN'' today (tenant_count nt_tenant_id (nq_tenant_id q) (iv_credits db));
                    ccy = or_else (nq_currency_code q) (inv_currency_code i);
                    n = note_row nid num eid today ccy q i;
                    db = put_invoice i db;
                    db = db\<lparr>iv_entries := iv_entries db @ [note_entry eid ''CREDIT_NOTE'' today ccy 0 (nq_amount q)
                               (''Credit Note '' @ num @ '' for Invoice '' @ inv_number i @ '': '' @ nq_reason q) q i],
                            iv_credits := iv_credits db @ [n]\<rparr>;
                    db = audit_inv (nq_tenant_id q) (nq_actor_id q) ''credit_note'' nid ''credit_note.issued''
                      [(''credit_note_number'', JStr num), (''invoice_id'', JStr (nq_invoice_id q)),
                       (''amount'', JFloat (nq_amount q)), (''reason'', JStr (nq_reason q))] db
                in (Inr (n, inv_number i), db))))"

definition create_debit_note ::
  "date \<Rightarrow> string \<Rightarrow> string \<Rightarrow> note_request \<Rightarrow> string \<Rightarrow> string option \<Rightarrow> inv_db \<Rightarrow> (debit_note \<times> string) res \<times> inv_db" where
  "create_debit_note today eid nid q charge_code descr db =
    (if nq_amount q \<le> 0 then (Inl (ValidationError ''Debit note amount must be positive.''), db)
     else if py_strip charge_code = [] then (Inl (ValidationError ''Charge code is required.''), db)
     else if bad_reason (nq_reason q)
     then (Inl (ValidationError ''Debit note reason is required (minimum 3 characters).''), db)
     else case find_invoice db (nq_invoice_id q) (nq_tenant_id q) of
       Inl e \<Rightarrow> (Inl e, db)
     | Inr i \<Rightarrow>
         (let num = reference ''DN'' today (tenant_count nt_tenant_id (nq_tenant_id q) (iv_debits db));
              ccy = or_else (nq_currency_code q) (inv_currency_code i);
              code = py_upper (py_strip charge_code);
              n = ar_note.extend (note_row nid num eid today ccy q i)
                (debit_note.fields code (or_else descr code));
              db = db\<lparr>iv_entries := iv_entries db @ [note_entry eid ''DEBIT_NOTE'' today ccy (nq_amount q) 0
                         (''Debit Note '' @ num @ '' for Invoice '' @ inv_number i @ '' ('' @ charge_code @ ''): '' @ nq_reason q) q i],
                      iv_debits := iv_debits db @ [n]\<rparr>;
              db = audit_inv (nq_tenant_id q) (nq_actor_id q) ''debit_note'' nid ''debit_note.issued''
                [(''debit_note_number'', JStr num), (''invoice_id'', JStr (nq_invoice_id q)), (''charge_code'', JStr code),
                 (''amount'', JFloat (nq_amount q)), (''reason'', JStr (nq_reason q))] db
          in (Inr (n, inv_number i), db)))"

end
