(* ===== verification/Payables_Life.thy ===== *)
theory Payables_Life
  imports Payables
begin

text \<open>
  The life of a carrier bill under the requests of the payables endpoints: the invariant of bills
  and payments in cents, the refinement of the module's contract, the mirror of the payments in the
  ledger, and what happens to a bill that is verified again after a part payment.
\<close>

section \<open>The life of a bill\<close>

text \<open>
  What the code relies on of the database: the sum of a numeric column is exact, so that the sum of
  amounts in cents is the amount of the summed cents.
\<close>

definition exact_sums :: "db_env \<Rightarrow> bool" where
  "exact_sums env \<longleftrightarrow> (\<forall>ks. (\<forall>k \<in> set ks. 0 \<le> k) \<and> sum_list ks \<le> money_bound \<longrightarrow>
     db_sum env (map cent ks) = cent (sum_list ks))"

text \<open>
  The requests considered: identities drawn from \<open>uuid4\<close> are new, and amounts are in cents up to
  the bound.
\<close>

fun ap_ok :: "ap_request \<Rightarrow> ap_db \<Rightarrow> bool" where
  "ap_ok (Create today ids b) db \<longleftrightarrow> ids (length (bi_lines b)) \<notin> set (dkeys (ap_payables db)) \<and> (\<exists>ks t. bill_cents b ks t)"
| "ap_ok (Verify now pid tid actor allow notes) db \<longleftrightarrow> True"
| "ap_ok (Approve now today eid pid tid actor notes) db \<longleftrightarrow> eid \<notin> set (map fe_id (ap_entries db))"
| "ap_ok (Pay today eid rid q) db \<longleftrightarrow> eid \<notin> set (map fe_id (ap_entries db)) \<and>
     (\<exists>k. pq_amount q = cent k \<and> \<bar>k\<bar> \<le> money_bound)"

definition payments_of :: "ap_db \<Rightarrow> string \<Rightarrow> payable_payment list" where
  "payments_of db pid = filter (\<lambda>x. pp_payable_id x = pid) (ap_payments db)"

text \<open>The stage of a bill of \<open>T\<close> cents of which \<open>s\<close> cents have been paid.\<close>

definition stage :: "payable \<Rightarrow> int \<Rightarrow> int \<Rightarrow> bool" where
  "stage p T s \<longleftrightarrow>
    (pay_status p = ''RECEIVED'' \<and> pay_verification_status p = ''PENDING'' \<and> pay_approval_status p = ''PENDING'' \<and> s = 0) \<or>
    (pay_verification_status p = ''VERIFIED'' \<and> pay_verified_by p \<noteq> None \<and>
      (pay_status p = ''VERIFIED'' \<and> pay_approval_status p = ''PENDING'' \<and> s = 0 \<or>
       pay_approval_status p = ''APPROVED'' \<and> pay_approved_by p \<noteq> None \<and>
        (pay_status p = ''APPROVED'' \<and> s = 0 \<or> pay_status p = ''PARTIALLY_PAID'' \<and> 0 < s \<and> s < T \<or>
         pay_status p = ''PAID'' \<and> s = T \<or> pay_status p = ''VERIFIED'' \<and> 0 < s \<and> s < T)))"

definition bill_ok :: "payable_payment list \<Rightarrow> payable \<Rightarrow> bool" where
  "bill_ok xs p \<longleftrightarrow> (\<exists>T ks. 0 < T \<and> T \<le> money_bound \<and> pay_total_amount p = cent T \<and> map pp_amount xs = map cent ks \<and>
     (\<forall>k \<in> set ks. 0 < k) \<and> sum_list ks \<le> T \<and> pay_paid_amount p = cent (sum_list ks) \<and> stage p T (sum_list ks) \<and>
     (\<forall>x \<in> set xs. pp_tenant_id x = pay_tenant_id p))"

definition bills_inv :: "ap_db \<Rightarrow> bool" where
  "bills_inv db \<longleftrightarrow> store_inv pay_id (ap_payables db) \<and>
     pp_payable_id ` set (ap_payments db) \<subseteq> set (dkeys (ap_payables db)) \<and>
     (\<forall>pid p. dget (ap_payables db) pid = Some p \<longrightarrow> bill_ok (payments_of db pid) p)"

lemma bill_okE:
  assumes "bill_ok xs p"
  obtains T ks where "0 < T" "T \<le> money_bound" "pay_total_amount p = cent T" "map pp_amount xs = map cent ks"
    "\<forall>k \<in> set ks. 0 < k" "sum_list ks \<le> T" "pay_paid_amount p = cent (sum_list ks)" "stage p T (sum_list ks)"
    "\<forall>x \<in> set xs. pp_tenant_id x = pay_tenant_id p" "0 \<le> sum_list ks"
  using assms sum_list_nonneg_int unfolding bill_ok_def by (metis less_imp_le)

lemma store_inv_dset: "store_inv key d \<Longrightarrow> key e = k \<Longrightarrow> store_inv key (dset k e d)"
  using store_inv_save [of key d e] by (auto simp: store_save_def)

lemma bills_invI:
  assumes "bills_inv db" and "pay_id p' = pid" and "bill_ok (payments_of db' pid) p'"
    and "ap_payables db' = dset pid p' (ap_payables db)"
    and "ap_payments db' = ap_payments db @ xs" and "\<forall>x \<in> set xs. pp_payable_id x = pid"
  shows "bills_inv db'"
proof -
  have keys: "set (dkeys (ap_payables db')) = insert pid (set (dkeys (ap_payables db)))"
    using assms(4) by (auto simp: AList.update_keys)
  have "bill_ok (payments_of db' i) p" if "dget (ap_payables db') i = Some p" for i p
  proof (cases "i = pid")
    case True
    with that assms(3,4) show ?thesis by (simp add: dget_dset)
  next
    case False
    with assms(5,6) have "payments_of db' i = payments_of db i" by (auto simp: payments_of_def filter_empty_conv)
    with False that assms(1,4) show ?thesis by (simp add: bills_inv_def dget_dset)
  qed
  with assms keys show ?thesis
    by (auto simp: bills_inv_def store_inv_dset)
qed

lemma bills_inv_get: "bills_inv db \<Longrightarrow> dget (ap_payables db) pid = Some p \<Longrightarrow> pay_id p = pid \<and> bill_ok (payments_of db pid) p"
  using store_find_key by (force simp: bills_inv_def)

lemma bills_keep_create:
  assumes inv: "bills_inv db" and ok: "ap_ok (Create today ids b) db" and r: "record_payable today ids b db = (Inr d, db')"
  shows "bills_inv db'"
proof -
  let ?pid = "ids (length (bi_lines b))"
  from r obtain a where check: "check_bill b db = Inr ()" and
    l: "bill_loop b (cost_lines_map (bi_shipment_id b) (ap_cost_lines db)) ids (bi_lines b)
       \<lparr>ba_cost_lines = ap_cost_lines db, ba_subtotal = 0, ba_total_variance = 0, ba_lines = []\<rparr> = (Inr (), a)"
    and p: "ap_payables db' = dset ?pid (new_payable b today ?pid a) (ap_payables db)" "ap_payments db' = ap_payments db"
    by (rule record_effect)
  from ok obtain ks t where c: "bill_cents b ks t" by auto
  have ne: "bi_lines b \<noteq> []" using check by (auto simp: check_bill_def split: if_splits)
  have none: "payments_of db' ?pid = []"
  proof -
    have "?pid \<notin> pp_payable_id ` set (ap_payments db)" using inv ok by (auto simp: bills_inv_def)
    then have "\<forall>x \<in> set (ap_payments db). pp_payable_id x \<noteq> ?pid" by (metis imageI)
    then show ?thesis using p(2) by (simp add: payments_of_def filter_empty_conv)
  qed
  have "bill_ok [] (new_payable b today ?pid a)"
    unfolding bill_ok_def using new_payable_total [OF c l] ne c
    by (intro exI [of _ "sum_list ks + t"] exI [of _ "[]"]) (auto simp: bill_cents_def stage_def new_payable_def)
  then show ?thesis
    using inv p none by (intro bills_invI [of db "new_payable b today ?pid a" ?pid db' "[]"]) (auto simp: new_payable_def)
qed

lemma bills_keep_verify:
  assumes inv: "bills_inv db" and r: "verify_payable env now pid tid actor allow notes db = (Inr d, db')"
  shows "bills_inv db'"
proof -
  from r obtain p where p: "dget (ap_payables db) pid = Some p" "pay_status p \<notin> {''APPROVED'', ''PAID''}"
    "ap_payables db' = dset (pay_id p) (verified actor now notes p) (ap_payables db)" "ap_payments db' = ap_payments db"
    by (rule verify_effect)
  from bills_inv_get [OF inv p(1)] have i: "pay_id p = pid" and b: "bill_ok (payments_of db pid) p" by auto
  have "payments_of db' pid = payments_of db pid" using p by (simp add: payments_of_def)
  moreover from b have "bill_ok (payments_of db pid) (verified actor now notes p)"
  proof (rule bill_okE)
    fix T ks assume h: "0 < T" "T \<le> money_bound" "pay_total_amount p = cent T" "map pp_amount (payments_of db pid) = map cent ks"
      "\<forall>k \<in> set ks. 0 < k" "sum_list ks \<le> T" "pay_paid_amount p = cent (sum_list ks)" "stage p T (sum_list ks)"
      "\<forall>x \<in> set (payments_of db pid). pp_tenant_id x = pay_tenant_id p"
    have "stage (verified actor now notes p) T (sum_list ks)"
      using h(8) p(2) by (auto simp: stage_def verified_def)
    with h show ?thesis unfolding bill_ok_def by (intro exI [of _ T] exI [of _ ks]) simp
  qed
  ultimately show ?thesis
    using inv p i by (intro bills_invI [of db "verified actor now notes p" pid db' "[]"]) auto
qed

lemma bills_keep_approve:
  assumes inv: "bills_inv db" and r: "approve_payable now today eid pid tid actor notes db = (Inr d, db')"
  shows "bills_inv db'"
proof -
  from r obtain p where p: "dget (ap_payables db) pid = Some p" "pay_approval_status p \<noteq> ''APPROVED''"
    "pay_verification_status p = ''VERIFIED''"
    "ap_payables db' = dset (pay_id p) (approved actor now notes eid p) (ap_payables db)" "ap_payments db' = ap_payments db"
    by (rule approve_effect)
  from bills_inv_get [OF inv p(1)] have i: "pay_id p = pid" and b: "bill_ok (payments_of db pid) p" by auto
  have "payments_of db' pid = payments_of db pid" using p by (simp add: payments_of_def)
  moreover from b have "bill_ok (payments_of db pid) (approved actor now notes eid p)"
  proof (rule bill_okE)
    fix T ks assume h: "0 < T" "T \<le> money_bound" "pay_total_amount p = cent T" "map pp_amount (payments_of db pid) = map cent ks"
      "\<forall>k \<in> set ks. 0 < k" "sum_list ks \<le> T" "pay_paid_amount p = cent (sum_list ks)" "stage p T (sum_list ks)"
      "\<forall>x \<in> set (payments_of db pid). pp_tenant_id x = pay_tenant_id p"
    have "stage (approved actor now notes eid p) T (sum_list ks)"
      using h(8) p(2,3) by (auto simp: stage_def approved_def)
    with h show ?thesis unfolding bill_ok_def by (intro exI [of _ T] exI [of _ ks]) simp
  qed
  ultimately show ?thesis
    using inv p i by (intro bills_invI [of db "approved actor now notes eid p" pid db' "[]"]) auto
qed

text \<open>What a payment does in cents.\<close>

lemma pay_effect_cents:
  assumes ex: "exact_sums env" and inv: "bills_inv db" and ok: "ap_ok (Pay today eid rid q) db"
    and r: "record_payment env today eid rid q db = (Inr d, db')"
  obtains p T ks k ccy day where "dget (ap_payables db) (pq_payable_id q) = Some p" "pay_id p = pq_payable_id q"
    "pay_tenant_id p = pq_tenant_id q"
    "0 < T" "T \<le> money_bound" "pay_total_amount p = cent T" "map pp_amount (payments_of db (pq_payable_id q)) = map cent ks"
    "\<forall>k \<in> set ks. 0 < k" "0 < k" "pq_amount q = cent k" "sum_list ks + k \<le> T" "stage p T (sum_list ks)"
    "pay_status p \<in> {''APPROVED'', ''PARTIALLY_PAID''}" "pay_paid_amount p = cent (sum_list ks)"
    "ap_payables db' = dset (pq_payable_id q) (paid_state (cent (sum_list ks + k)) p) (ap_payables db)"
    "ap_payments db' = ap_payments db @ [payment_row rid eid day ccy q]"
    "ap_entries db' = ap_entries db @ [payment_entry eid day ccy q (paid_state (cent (sum_list ks + k)) p)]"
    "\<forall>x \<in> set (payments_of db (pq_payable_id q)). pp_tenant_id x = pay_tenant_id p"
proof -
  from r obtain p ccy day nt where p: "dget (ap_payables db) (pq_payable_id q) = Some p" "pay_tenant_id p = pq_tenant_id q"
    "0 < pq_amount q" "pay_status p \<in> {''APPROVED'', ''PARTIALLY_PAID''}"
    and le: "pq_amount q \<le> py_round 2 (fsub (pay_total_amount p) (existing_paid env (pq_payable_id q) (pq_tenant_id q) db))"
    and nt: "nt = py_round 2 (fadd (existing_paid env (pq_payable_id q) (pq_tenant_id q) db) (pq_amount q))"
    and db': "ap_payables db' = dset (pay_id p) (paid_state nt p) (ap_payables db)"
      "ap_payments db' = ap_payments db @ [payment_row rid eid day ccy q]"
      "ap_entries db' = ap_entries db @ [payment_entry eid day ccy q (paid_state nt p)]"
    by (rule pay_effect)
  from bills_inv_get [OF inv p(1)] have i: "pay_id p = pq_payable_id q" and b: "bill_ok (payments_of db (pq_payable_id q)) p" by auto
  from b obtain T ks where h: "0 < T" "T \<le> money_bound" "pay_total_amount p = cent T"
    "map pp_amount (payments_of db (pq_payable_id q)) = map cent ks" "\<forall>k \<in> set ks. 0 < k" "sum_list ks \<le> T"
    "pay_paid_amount p = cent (sum_list ks)" "stage p T (sum_list ks)"
    "\<forall>x \<in> set (payments_of db (pq_payable_id q)). pp_tenant_id x = pay_tenant_id p" "0 \<le> sum_list ks"
    by (rule bill_okE)
  have "filter (\<lambda>x. pp_payable_id x = pq_payable_id q \<and> pp_tenant_id x = pq_tenant_id q) (ap_payments db) =
      payments_of db (pq_payable_id q)"
    using h(9) p(2) by (auto simp: payments_of_def intro!: filter_cong)
  then have "existing_paid env (pq_payable_id q) (pq_tenant_id q) db = db_sum env (map cent ks)"
    by (simp add: existing_paid_def h(4))
  moreover have "db_sum env (map cent ks) = cent (sum_list ks)"
    using ex h(2,5,6) by (force simp: exact_sums_def)
  ultimately have e: "existing_paid env (pq_payable_id q) (pq_tenant_id q) db = cent (sum_list ks)" by simp
  from ok obtain k where k: "pq_amount q = cent k" "\<bar>k\<bar> \<le> money_bound" by auto
  have k0: "0 < k" using p(3) k cent_mono [of k 0] by (cases "0 < k") auto
  have bd: "\<bar>T\<bar> \<le> money_bound" "\<bar>sum_list ks\<bar> \<le> money_bound" "\<bar>T - sum_list ks\<bar> \<le> money_bound" using h by auto
  have "cent k \<le> cent (T - sum_list ks)"
    using le cent_sub [OF bd] by (simp add: e h(3) k)
  then have kT: "sum_list ks + k \<le> T" using cent_le_iff [OF k(2) bd(3)] by simp
  have "nt = cent (sum_list ks + k)"
    using cent_add [OF bd(2) k(2)] kT h k0 by (simp add: nt e k)
  with that p h k k0 kT db' i show ?thesis by metis
qed

lemma paid_stage:
  assumes "stage p T s" "pay_status p \<in> {''APPROVED'', ''PARTIALLY_PAID''}" "0 < k" "0 \<le> s" "s + k \<le> T" "T \<le> money_bound"
    "pay_total_amount p = cent T"
  shows "stage (paid_state (cent (s + k)) p) T (s + k)"
proof -
  have "cent T \<le> cent (s + k) \<longleftrightarrow> s + k = T" using assms cent_le_iff [of T "s + k"] by auto
  with assms show ?thesis by (auto simp: stage_def paid_state_def)
qed

lemma bills_keep_pay:
  assumes ex: "exact_sums env" and inv: "bills_inv db" and ok: "ap_ok (Pay today eid rid q) db"
    and r: "record_payment env today eid rid q db = (Inr d, db')"
  shows "bills_inv db'"
proof -
  from assms obtain p T ks k ccy day where h: "dget (ap_payables db) (pq_payable_id q) = Some p" "pay_id p = pq_payable_id q"
    "pay_tenant_id p = pq_tenant_id q"
    "0 < T" "T \<le> money_bound" "pay_total_amount p = cent T" "map pp_amount (payments_of db (pq_payable_id q)) = map cent ks"
    "\<forall>k \<in> set ks. 0 < k" "0 < k" "pq_amount q = cent k" "sum_list ks + k \<le> T" "stage p T (sum_list ks)"
    "pay_status p \<in> {''APPROVED'', ''PARTIALLY_PAID''}" "pay_paid_amount p = cent (sum_list ks)"
    "ap_payables db' = dset (pq_payable_id q) (paid_state (cent (sum_list ks + k)) p) (ap_payables db)"
    "ap_payments db' = ap_payments db @ [payment_row rid eid day ccy q]"
    "ap_entries db' = ap_entries db @ [payment_entry eid day ccy q (paid_state (cent (sum_list ks + k)) p)]"
    "\<forall>x \<in> set (payments_of db (pq_payable_id q)). pp_tenant_id x = pay_tenant_id p"
    by (rule pay_effect_cents)
  let ?x = "payment_row rid eid day ccy q" and ?p = "paid_state (cent (sum_list ks + k)) p"
  have nn: "0 \<le> sum_list ks" using h(8) by (intro sum_list_nonneg_int) auto
  have x: "pp_payable_id ?x = pq_payable_id q" "pp_amount ?x = cent k" "pp_tenant_id ?x = pay_tenant_id p"
    using h by (simp_all add: payment_row_def)
  have pays: "payments_of db' (pq_payable_id q) = payments_of db (pq_payable_id q) @ [?x]"
    using h(16) x by (simp add: payments_of_def)
  have "bill_ok (payments_of db (pq_payable_id q) @ [?x]) ?p"
    unfolding bill_ok_def using h x paid_stage [OF h(12,13,9) nn h(11,5,6)]
    by (intro exI [of _ T] exI [of _ "ks @ [k]"]) auto
  then show ?thesis
    using inv h pays x by (intro bills_invI [of db ?p "pq_payable_id q" db' "[?x]"]) auto
qed

lemma bills_keep:
  assumes "exact_sums env" "bills_inv db" "ap_ok r db" "ap_service env r db = (Inr d, db')"
  shows "bills_inv db'"
proof (cases r)
  case Create
  with assms show ?thesis using bills_keep_create by simp
next
  case Verify
  with assms show ?thesis using bills_keep_verify by simp
next
  case Approve
  with assms show ?thesis using bills_keep_approve by simp
next
  case Pay
  with assms show ?thesis using bills_keep_pay by simp
qed

interpretation bills: service_contract "ap_service env" ap_ok "\<lambda>db. exact_sums env \<and> bills_inv db" for env
  by unfold_locales (use bills_keep in blast)


lemma stage_settled: "stage p T s \<Longrightarrow> 0 < T \<Longrightarrow> pay_status p = ''PAID'' \<longleftrightarrow> s = T"
  by (auto simp: stage_def)

lemma stage_paid: "stage p T s \<Longrightarrow> 0 < s \<Longrightarrow> pay_verification_status p = ''VERIFIED'' \<and>
    pay_approval_status p = ''APPROVED'' \<and> pay_verified_by p \<noteq> None \<and> pay_approved_by p \<noteq> None"
  by (auto simp: stage_def)

section \<open>Properties of the life of a bill\<close>

definition no_bills :: "ap_db \<Rightarrow> bool" where
  "no_bills db \<longleftrightarrow> ap_payables db = [] \<and> ap_payments db = [] \<and> ap_entries db = []"

lemma reached_bills: "exact_sums env \<Longrightarrow> no_bills start \<Longrightarrow> reached (ap_service env) ap_ok start db \<Longrightarrow> bills_inv db"
  using bills.reached_inv [of env start db] by (simp add: bills_inv_def no_bills_def)

lemma bill_ok_cents:
  assumes "bill_ok xs p"
  shows "sum_list (map (cents_of \<circ> pp_amount) xs) \<le> cents_of (pay_total_amount p)"
    "pay_paid_amount p = cent (sum_list (map (cents_of \<circ> pp_amount) xs))"
    "stage p (cents_of (pay_total_amount p)) (sum_list (map (cents_of \<circ> pp_amount) xs))"
    "0 < cents_of (pay_total_amount p)" "xs \<noteq> [] \<Longrightarrow> 0 < sum_list (map (cents_of \<circ> pp_amount) xs)"
proof -
  from assms obtain T ks where h: "0 < T" "T \<le> money_bound" "pay_total_amount p = cent T" "map pp_amount xs = map cent ks"
    "\<forall>k \<in> set ks. 0 < k" "sum_list ks \<le> T" "pay_paid_amount p = cent (sum_list ks)" "stage p T (sum_list ks)"
    by (rule bill_okE)
  have "map (cents_of \<circ> pp_amount) xs = map cents_of (map pp_amount xs)" by simp
  also have "sum_list \<dots> = sum_list ks" unfolding h(4) using h(2,5,6) by (intro sum_cents_of) auto
  finally have s: "sum_list (map (cents_of \<circ> pp_amount) xs) = sum_list ks" .
  have T: "cents_of (pay_total_amount p) = T" using h by simp
  show "sum_list (map (cents_of \<circ> pp_amount) xs) \<le> cents_of (pay_total_amount p)"
    "pay_paid_amount p = cent (sum_list (map (cents_of \<circ> pp_amount) xs))"
    "stage p (cents_of (pay_total_amount p)) (sum_list (map (cents_of \<circ> pp_amount) xs))"
    "0 < cents_of (pay_total_amount p)"
    unfolding s T using h by auto
  show "0 < sum_list (map (cents_of \<circ> pp_amount) xs)" if "xs \<noteq> []"
  proof -
    from that h(4) obtain k ks' where "ks = k # ks'" by (cases ks) auto
    with h(5) sum_list_nonneg_int [of ks'] show ?thesis unfolding s by force
  qed
qed

text \<open>
  C2: As long as the amounts of the requests are in whole cents, the payments recorded for a bill
  never exceed its total, the paid amount of the bill is their sum, and the bill is PAID exactly
  when they reach the total. The hypothesis \<open>ap_ok\<close> on every request says: a bill has at most 1000
  lines of non-negative amounts in cents that with its tax stay within \<open>money_bound\<close>, a payment is
  in cents within that bound, and generated identities are new. Fractions of a cent, which the
  schemas accept, are not covered: \<open>fraction_of_a_cent_overpays\<close> below exceeds a bill with them.
\<close>

theorem payments_within_bill:
  assumes "exact_sums env" and "no_bills start" and "reached (ap_service env) ap_ok start db"
    and "dget (ap_payables db) pid = Some p"
  defines "paid \<equiv> sum_list (map (cents_of \<circ> pp_amount) (payments_of db pid))"
  shows "paid \<le> cents_of (pay_total_amount p) \<and> pay_paid_amount p = cent paid \<and>
    (pay_status p = ''PAID'' \<longleftrightarrow> paid = cents_of (pay_total_amount p))"
proof -
  have "bill_ok (payments_of db pid) p"
    using bills_inv_get [OF reached_bills [OF assms(1-3)] assms(4)] by simp
  note b = bill_ok_cents [OF this, folded paid_def]
  have "pay_status p = ''PAID'' \<longleftrightarrow> paid = cents_of (pay_total_amount p)"
    using b(3,4) by (rule stage_settled)
  with b(1,2) show ?thesis by blast
qed

text \<open>
  Money only leaves for bills that were verified and approved, each by a recorded user.
\<close>

theorem paid_bills_are_approved:
  assumes "exact_sums env" and "no_bills start" and "reached (ap_service env) ap_ok start db"
    and "x \<in> set (ap_payments db)"
  shows "\<exists>p. dget (ap_payables db) (pp_payable_id x) = Some p \<and> pay_tenant_id p = pp_tenant_id x \<and>
    pay_verification_status p = ''VERIFIED'' \<and> pay_approval_status p = ''APPROVED'' \<and>
    pay_verified_by p \<noteq> None \<and> pay_approved_by p \<noteq> None"
proof -
  have inv: "bills_inv db" by (rule reached_bills [OF assms(1-3)])
  then have "pp_payable_id x \<in> set (dkeys (ap_payables db))" using assms(4) by (auto simp: bills_inv_def)
  then obtain p where p: "dget (ap_payables db) (pp_payable_id x) = Some p"
    by (cases "dget (ap_payables db) (pp_payable_id x)") (auto simp: map_of_eq_None_iff)
  have b: "bill_ok (payments_of db (pp_payable_id x)) p" using bills_inv_get [OF inv p] by simp
  have x: "x \<in> set (payments_of db (pp_payable_id x))" using assms(4) by (simp add: payments_of_def)
  have "\<forall>x \<in> set (payments_of db (pp_payable_id x)). pp_tenant_id x = pay_tenant_id p"
    using b unfolding bill_ok_def by blast
  with x have t: "pay_tenant_id p = pp_tenant_id x" by simp
  have "0 < sum_list (map (cents_of \<circ> pp_amount) (payments_of db (pp_payable_id x)))"
    by (rule bill_ok_cents(5) [OF b]) (use x in auto)
  then show ?thesis using stage_paid [OF bill_ok_cents(3) [OF b]] p t by blast
qed

section \<open>Refinement of the payment contract\<close>

text \<open>
  The contract of the module, without tables, floats or statuses: a bill of a positive total is
  entered, it may be verified at any time, a verified bill is approved at most once, and an
  approved bill takes payments within what is left of its total.
\<close>

record bill_spec =
  spec_total :: int
  spec_paid :: int
  spec_verified :: bool
  spec_approved :: bool

inductive spec_step :: "bill_spec option \<Rightarrow> bill_spec option \<Rightarrow> bool" where
  spec_enter: "0 < T \<Longrightarrow> spec_step None (Some \<lparr>spec_total = T, spec_paid = 0, spec_verified = False, spec_approved = False\<rparr>)"
| spec_verify: "spec_step (Some b) (Some (b\<lparr>spec_verified := True\<rparr>))"
| spec_approve: "spec_verified b \<Longrightarrow> \<not> spec_approved b \<Longrightarrow> spec_step (Some b) (Some (b\<lparr>spec_approved := True\<rparr>))"
| spec_pay: "spec_approved b \<Longrightarrow> 0 < k \<Longrightarrow> spec_paid b + k \<le> spec_total b \<Longrightarrow>
    spec_step (Some b) (Some (b\<lparr>spec_paid := spec_paid b + k\<rparr>))"

definition abs_bill :: "payable \<Rightarrow> bill_spec" where
  "abs_bill p = \<lparr>spec_total = cents_of (pay_total_amount p), spec_paid = cents_of (pay_paid_amount p),
     spec_verified = (pay_verification_status p = ''VERIFIED''), spec_approved = (pay_approval_status p = ''APPROVED'')\<rparr>"

definition abs_db :: "ap_db \<Rightarrow> string \<Rightarrow> bill_spec option" where
  "abs_db db pid = map_option abs_bill (dget (ap_payables db) pid)"

lemma abs_db_dset: "ap_payables db' = dset i p (ap_payables db) \<Longrightarrow>
  abs_db db' pid = (if pid = i then Some (abs_bill p) else abs_db db pid)"
  by (simp add: abs_db_def dget_dset)

lemma service_refines:
  assumes ex: "exact_sums env" and inv: "bills_inv db" and ok: "ap_ok r db" and s: "ap_service env r db = (Inr d, db')"
  shows "abs_db db' pid = abs_db db pid \<or> spec_step (abs_db db pid) (abs_db db' pid)"
proof (cases r)
  case (Create today ids b)
  let ?pid = "ids (length (bi_lines b))"
  from s Create obtain a where check: "check_bill b db = Inr ()" and
    l: "bill_loop b (cost_lines_map (bi_shipment_id b) (ap_cost_lines db)) ids (bi_lines b)
       \<lparr>ba_cost_lines = ap_cost_lines db, ba_subtotal = 0, ba_total_variance = 0, ba_lines = []\<rparr> = (Inr (), a)"
    and p: "ap_payables db' = dset ?pid (new_payable b today ?pid a) (ap_payables db)"
    by (auto elim: record_effect)
  from ok Create obtain ks t where c: "bill_cents b ks t" and new: "dget (ap_payables db) ?pid = None"
    by (auto simp: map_of_eq_None_iff)
  have ne: "bi_lines b \<noteq> []" using check by (auto simp: check_bill_def split: if_splits)
  have "0 < sum_list ks + t" "\<bar>sum_list ks + t\<bar> \<le> money_bound"
    using new_payable_total(3) [OF c l ne] c by (auto simp: bill_cents_def)
  then have "abs_bill (new_payable b today ?pid a) =
      \<lparr>spec_total = sum_list ks + t, spec_paid = 0, spec_verified = False, spec_approved = False\<rparr>"
    using new_payable_total(1) [OF c l] cents_of_cent [of 0]
    by (simp add: abs_bill_def) (simp add: new_payable_def money_bound_def)
  then have "spec_step None (Some (abs_bill (new_payable b today ?pid a)))"
    using spec_enter \<open>0 < sum_list ks + t\<close> by simp
  moreover have "abs_db db ?pid = None" using new by (simp add: abs_db_def)
  ultimately show ?thesis using abs_db_dset [OF p, of pid] by (cases "pid = ?pid") simp_all
next
  case (Verify now i tid actor allow nts)
  from s Verify obtain p where p: "dget (ap_payables db) i = Some p"
    "ap_payables db' = dset (pay_id p) (verified actor now nts p) (ap_payables db)" by (auto elim: verify_effect)
  have i: "pay_id p = i" using bills_inv_get [OF inv p(1)] by simp
  have "abs_bill (verified actor now nts p) = (abs_bill p)\<lparr>spec_verified := True\<rparr>"
    by (simp add: abs_bill_def verified_def)
  then show ?thesis
    using abs_db_dset [OF p(2), of pid] p(1) i by (cases "pid = i") (auto simp: abs_db_def intro: spec_verify)
next
  case (Approve now today eid i tid actor nts)
  from s Approve obtain p where p: "dget (ap_payables db) i = Some p"
    "ap_payables db' = dset (pay_id p) (approved actor now nts eid p) (ap_payables db)"
    "pay_approval_status p \<noteq> ''APPROVED''" "pay_verification_status p = ''VERIFIED''" by (auto elim: approve_effect)
  have i: "pay_id p = i" using bills_inv_get [OF inv p(1)] by simp
  have "abs_bill (approved actor now nts eid p) = (abs_bill p)\<lparr>spec_approved := True\<rparr>"
    by (simp add: abs_bill_def approved_def)
  moreover have "spec_step (Some (abs_bill p)) (Some ((abs_bill p)\<lparr>spec_approved := True\<rparr>))"
    by (rule spec_approve) (simp_all add: abs_bill_def p)
  ultimately show ?thesis
    using abs_db_dset [OF p(2), of pid] p(1) i by (cases "pid = i") (auto simp: abs_db_def)
next
  case (Pay today eid rid q)
  from ex inv ok [unfolded Pay] s [unfolded Pay ap_service.simps] obtain p T ks k where
    h: "dget (ap_payables db) (pq_payable_id q) = Some p" "0 < T" "T \<le> money_bound" "pay_total_amount p = cent T"
    "\<forall>k \<in> set ks. 0 < k" "0 < k" "sum_list ks + k \<le> T" "stage p T (sum_list ks)"
    "pay_status p \<in> {''APPROVED'', ''PARTIALLY_PAID''}" "pay_paid_amount p = cent (sum_list ks)"
    "ap_payables db' = dset (pq_payable_id q) (paid_state (cent (sum_list ks + k)) p) (ap_payables db)"
    by (rule pay_effect_cents)
  have nn: "0 \<le> sum_list ks" using h(5) by (intro sum_list_nonneg_int) auto
  have "abs_bill (paid_state (cent (sum_list ks + k)) p) = (abs_bill p)\<lparr>spec_paid := spec_paid (abs_bill p) + k\<rparr>"
    using h nn by (simp add: abs_bill_def) (simp add: paid_state_def)
  moreover have "spec_step (Some (abs_bill p)) (Some ((abs_bill p)\<lparr>spec_paid := spec_paid (abs_bill p) + k\<rparr>))"
    by (rule spec_pay) (use h nn in \<open>auto simp: abs_bill_def stage_def\<close>)
  ultimately show ?thesis
    using abs_db_dset [OF h(11), of pid] h(1) by (cases "pid = pq_payable_id q") (auto simp: abs_db_def)
qed

text \<open>
  C4: For amounts in whole cents the module implements its contract: in every database reached by
  requests satisfying \<open>ap_ok\<close> (amounts in cents within \<open>money_bound\<close>, at most 1000 lines a bill,
  new identities), a further such request either leaves a bill as the contract sees it or makes one
  step of the contract on it. For fractions of a cent the code does not keep the contract.
\<close>

theorem payables_refine_contract:
  assumes "exact_sums env" and "no_bills start" and "reached (ap_service env) ap_ok start db" and "ap_ok r db"
  shows "abs_db (snd (ap_endpoint env r db)) pid = abs_db db pid \<or>
    spec_step (abs_db db pid) (abs_db (snd (ap_endpoint env r db)) pid)"
  using committed_cases [of "ap_service env r db" db] service_refines [OF assms(1) reached_bills [OF assms(1-3)] assms(4)]
  unfolding ap_endpoint_def by metis


section \<open>The ledger\<close>

text \<open>One entry per payment and one per approval, with the same amounts.\<close>

definition approvals_of :: "(string, payable) dict \<Rightarrow> (string option \<times> flt \<times> string) list" where
  "approvals_of d = map (\<lambda>p. (pay_financial_entry_id p, pay_total_amount p, pay_currency_code p))
     (filter (\<lambda>p. pay_approval_status p = ''APPROVED'') (dvalues d))"

definition ledger_inv :: "ap_db \<Rightarrow> bool" where
  "ledger_inv db \<longleftrightarrow> store_inv pay_id (ap_payables db) \<and>
     map (\<lambda>e. (fe_id e, fe_tenant_id e, fe_debit_amount e, fe_currency_code e))
         (filter (\<lambda>e. fe_entry_type e = ''AP_PAYMENT'') (ap_entries db)) =
       map (\<lambda>x. (pp_financial_entry_id x, pp_tenant_id x, pp_amount x, pp_currency_code x)) (ap_payments db) \<and>
     mset (map (\<lambda>e. (Some (fe_id e), fe_credit_amount e, fe_currency_code e))
         (filter (\<lambda>e. fe_entry_type e = ''ACCOUNTS_PAYABLE'') (ap_entries db))) = mset (approvals_of (ap_payables db))"

lemma approvals_new:
  "dget d k = None \<Longrightarrow> pay_approval_status p \<noteq> ''APPROVED'' \<Longrightarrow> mset (approvals_of (dset k p d)) = mset (approvals_of d)"
  by (induction d) (auto simp: approvals_of_def split: if_splits)

lemma approvals_change:
  "dget d k = Some old \<Longrightarrow>
    mset (approvals_of (dset k p d)) + mset (approvals_of [(k, old)]) = mset (approvals_of d) + mset (approvals_of [(k, p)])"
  by (induction d) (auto simp: approvals_of_def split: if_splits)

lemma approvals_keep:
  assumes "dget d k = Some old" "pay_approval_status p = pay_approval_status old"
    "pay_financial_entry_id p = pay_financial_entry_id old" "pay_total_amount p = pay_total_amount old"
    "pay_currency_code p = pay_currency_code old"
  shows "mset (approvals_of (dset k p d)) = mset (approvals_of d)"
proof -
  have "approvals_of [(k, p)] = approvals_of [(k, old)]" using assms by (simp add: approvals_of_def)
  with approvals_change [OF assms(1), of p] show ?thesis by simp
qed

lemma ledger_keeps:
  assumes inv: "ledger_inv db" and ok: "ap_ok r db" and s: "ap_service env r db = (Inr d, db')"
  shows "ledger_inv db'"
proof (cases r)
  case (Create today ids b)
  let ?pid = "ids (length (bi_lines b))"
  from s Create obtain a where p: "ap_payables db' = dset ?pid (new_payable b today ?pid a) (ap_payables db)"
    "ap_payments db' = ap_payments db" "ap_entries db' = ap_entries db"
    by (auto elim: record_effect)
  have "dget (ap_payables db) ?pid = None" using ok Create by (auto simp: map_of_eq_None_iff)
  with p inv show ?thesis by (simp add: ledger_inv_def approvals_new store_inv_dset new_payable_def)
next
  case (Verify now i tid actor allow nts)
  from s Verify obtain p where p: "dget (ap_payables db) i = Some p"
    "ap_payables db' = dset (pay_id p) (verified actor now nts p) (ap_payables db)"
    "ap_payments db' = ap_payments db" "ap_entries db' = ap_entries db" by (auto elim: verify_effect)
  have i: "pay_id p = i" using inv p(1) store_find_key by (force simp: ledger_inv_def)
  have "mset (approvals_of (ap_payables db')) = mset (approvals_of (ap_payables db))"
    unfolding p(2) i by (rule approvals_keep [OF p(1)]) (simp_all add: verified_def)
  with p i inv show ?thesis by (simp add: ledger_inv_def store_inv_dset)
next
  case (Approve now today eid i tid actor nts)
  from s Approve obtain p where p: "dget (ap_payables db) i = Some p" "pay_approval_status p \<noteq> ''APPROVED''"
    "ap_payables db' = dset (pay_id p) (approved actor now nts eid p) (ap_payables db)"
    "ap_payments db' = ap_payments db" "ap_entries db' = ap_entries db @ [approval_entry eid today tid actor p]"
    by (auto elim: approve_effect)
  have i: "pay_id p = i" using inv p(1) store_find_key by (force simp: ledger_inv_def)
  have "mset (approvals_of (ap_payables db')) =
      mset (approvals_of (ap_payables db)) + {#(Some eid, pay_total_amount p, pay_currency_code p)#}"
    using approvals_change [OF p(1), of "approved actor now nts eid p"] p(2)
    unfolding p(3) i by (simp add: approvals_of_def approved_def)
  with p i inv show ?thesis by (simp add: ledger_inv_def store_inv_dset approval_entry_def)
next
  case (Pay today eid rid q)
  from s Pay obtain p ccy day nt where p: "dget (ap_payables db) (pq_payable_id q) = Some p"
    "pay_tenant_id p = pq_tenant_id q"
    "ap_payables db' = dset (pay_id p) (paid_state nt p) (ap_payables db)"
    "ap_payments db' = ap_payments db @ [payment_row rid eid day ccy q]"
    "ap_entries db' = ap_entries db @ [payment_entry eid day ccy q (paid_state nt p)]"
    by (auto elim: pay_effect)
  have i: "pay_id p = pq_payable_id q" using inv p(1) store_find_key by (force simp: ledger_inv_def)
  have "mset (approvals_of (ap_payables db')) = mset (approvals_of (ap_payables db))"
    unfolding p(3) i by (rule approvals_keep [OF p(1)]) (simp_all add: paid_state_def)
  with p i inv show ?thesis by (simp add: ledger_inv_def store_inv_dset payment_entry_def payment_row_def)
qed

interpretation ledger: service_contract "ap_service env" ap_ok ledger_inv for env
  by unfold_locales (rule ledger_keeps)

text \<open>
  The ledger mirrors the bills: the payment entries are the payments, in order and with their
  amounts, currencies and tenants, and the payable entries are exactly one per approved bill, with
  its identity and total. This holds for all amounts.
\<close>

theorem ledger_mirrors_bills:
  assumes "no_bills start" and "reached (ap_service env) ap_ok start db"
  shows "map (\<lambda>e. (fe_id e, fe_tenant_id e, fe_debit_amount e, fe_currency_code e))
         (filter (\<lambda>e. fe_entry_type e = ''AP_PAYMENT'') (ap_entries db)) =
       map (\<lambda>x. (pp_financial_entry_id x, pp_tenant_id x, pp_amount x, pp_currency_code x)) (ap_payments db) \<and>
     mset (map (\<lambda>e. (Some (fe_id e), fe_credit_amount e, fe_currency_code e))
         (filter (\<lambda>e. fe_entry_type e = ''ACCOUNTS_PAYABLE'') (ap_entries db))) =
       mset (map (\<lambda>p. (pay_financial_entry_id p, pay_total_amount p, pay_currency_code p))
         (filter (\<lambda>p. pay_approval_status p = ''APPROVED'') (dvalues (ap_payables db))))"
proof -
  have "ledger_inv start" using assms(1) by (simp add: ledger_inv_def no_bills_def approvals_of_def)
  with assms(2) have "ledger_inv db" by (rule ledger.reached_inv)
  then show ?thesis by (simp add: ledger_inv_def approvals_of_def)
qed

section \<open>Verifying a partly paid bill again\<close>

text \<open>
  The guard of the verification names APPROVED and PAID but not PARTIALLY_PAID. A partly paid bill
  that is verified again has the status VERIFIED and is still marked as approved:
\<close>

definition stuck :: "string \<Rightarrow> payable_payment list \<Rightarrow> ap_db \<Rightarrow> bool" where
  "stuck pid xs db \<longleftrightarrow> store_inv pay_id (ap_payables db) \<and> payments_of db pid = xs \<and>
     (\<exists>p. dget (ap_payables db) pid = Some p \<and> pay_status p = ''VERIFIED'' \<and> pay_approval_status p = ''APPROVED'')"

lemma stuckI:
  assumes "stuck pid xs db" "ap_payables db' = dset i p' (ap_payables db)" "pay_id p' = i" "payments_of db' pid = xs"
    "i = pid \<Longrightarrow> pay_status p' = ''VERIFIED'' \<and> pay_approval_status p' = ''APPROVED''"
  shows "stuck pid xs db'"
  using assms by (cases "i = pid") (auto simp: stuck_def dget_dset store_inv_dset)

lemma stuck_keeps:
  assumes inv: "stuck pid xs db" and ok: "ap_ok r db" and s: "ap_service env r db = (Inr d, db')"
  shows "stuck pid xs db'"
proof -
  from inv obtain p0 where p0: "dget (ap_payables db) pid = Some p0" "pay_status p0 = ''VERIFIED''"
    "pay_approval_status p0 = ''APPROVED''" and si: "store_inv pay_id (ap_payables db)" and xs: "payments_of db pid = xs"
    by (auto simp: stuck_def)
  show ?thesis
  proof (cases r)
    case (Create today ids b)
    let ?pid = "ids (length (bi_lines b))"
    from s Create obtain a where p: "ap_payables db' = dset ?pid (new_payable b today ?pid a) (ap_payables db)"
      "ap_payments db' = ap_payments db" by (auto elim: record_effect)
    have "dget (ap_payables db) ?pid = None" using ok Create by (auto simp: map_of_eq_None_iff)
    with p0 have "?pid \<noteq> pid" by auto
    with p xs show ?thesis by (intro stuckI [OF inv p(1)]) (auto simp: new_payable_def payments_of_def)
  next
    case (Verify now i tid actor allow nts)
    from s Verify obtain p where p: "dget (ap_payables db) i = Some p"
      "ap_payables db' = dset (pay_id p) (verified actor now nts p) (ap_payables db)"
      "ap_payments db' = ap_payments db" by (auto elim: verify_effect)
    have i: "pay_id p = i" using si p(1) by (rule store_find_key)
    show ?thesis using p p0 i xs by (intro stuckI [OF inv p(2)]) (auto simp: verified_def payments_of_def)
  next
    case (Approve now today eid i tid actor nts)
    from s Approve obtain p where p: "dget (ap_payables db) i = Some p" "pay_approval_status p \<noteq> ''APPROVED''"
      "ap_payables db' = dset (pay_id p) (approved actor now nts eid p) (ap_payables db)"
      "ap_payments db' = ap_payments db" by (auto elim: approve_effect)
    have i: "pay_id p = i" using si p(1) by (rule store_find_key)
    with p p0 have "i \<noteq> pid" by auto
    with p i xs show ?thesis by (intro stuckI [OF inv p(3)]) (auto simp: payments_of_def)
  next
    case (Pay today eid rid q)
    from s Pay obtain p ccy day nt where p: "dget (ap_payables db) (pq_payable_id q) = Some p"
      "pay_status p \<in> {''APPROVED'', ''PARTIALLY_PAID''}"
      "ap_payables db' = dset (pay_id p) (paid_state nt p) (ap_payables db)"
      "ap_payments db' = ap_payments db @ [payment_row rid eid day ccy q]"
      by (auto elim: pay_effect)
    have i: "pay_id p = pq_payable_id q" using si p(1) by (rule store_find_key)
    with p p0 have ne: "pq_payable_id q \<noteq> pid" by auto
    then have "payments_of db' pid = xs" using p(4) xs by (simp add: payments_of_def payment_row_def)
    with p i ne show ?thesis by (intro stuckI [OF inv p(3)]) auto
  qed
qed

interpretation stuck_bill: service_contract "ap_service env" ap_ok "stuck pid xs" for env pid xs
  by unfold_locales (rule stuck_keeps)

text \<open>
  After that, no sequence of requests pays anything more on the bill or changes its status: it can
  be neither approved nor paid, and a bill paid in part is never settled.
\<close>

theorem reverified_part_payment_is_stuck:
  assumes "reached (ap_service env) ap_ok start db0" and "no_bills start" and "exact_sums env"
    and "dget (ap_payables db0) pid = Some p" and "pay_status p = ''PARTIALLY_PAID''"
    and "ap_service env (Verify now pid (pay_tenant_id p) actor True nts) db0 = (res, db1)"
    and "reached (ap_service env) ap_ok db1 db"
  shows "(\<exists>d. res = Inr d) \<and> payments_of db pid = payments_of db0 pid \<and>
    (\<exists>p'. dget (ap_payables db) pid = Some p' \<and> pay_status p' = ''VERIFIED'')"
proof -
  have inv: "bills_inv db0" by (rule reached_bills [OF assms(3,2,1)])
  have i: "pay_id p = pid" and b: "bill_ok (payments_of db0 pid) p" using bills_inv_get [OF inv assms(4)] by auto
  have ap: "pay_approval_status p = ''APPROVED''"
    using bill_ok_cents(3) [OF b] assms(5) by (auto simp: stage_def)
  from assms(4,5) i have r: "\<exists>d. res = Inr d"
    and d: "ap_payables db1 = dset pid (verified actor now nts p) (ap_payables db0)" "ap_payments db1 = ap_payments db0"
    using assms(6)
    by (auto simp: verify_payable_def find_payable_Inr Let_def get_payable_def find_payable_def dget_dset res_map_def
        verified_def split: sum.splits option.splits)
  have "stuck pid (payments_of db0 pid) db1"
    using d inv ap i by (auto simp: stuck_def bills_inv_def store_inv_dset dget_dset payments_of_def verified_def)
  with assms(7) have "stuck pid (payments_of db0 pid) db" by (rule stuck_bill.reached_inv)
  with r show ?thesis by (auto simp: stuck_def)
qed


section \<open>Settling a bill\<close>

lemma verify_ok:
  assumes "dget (ap_payables db) pid = Some p" "pay_id p = pid" "pay_status p \<notin> {''APPROVED'', ''PAID''}"
  shows "\<exists>d db'. verify_payable env now pid (pay_tenant_id p) actor True nts db = (Inr d, db')"
  using assms
  by (auto simp: verify_payable_def find_payable_def Let_def get_payable_def dget_dset res_map_def verified_def)

lemma approve_ok:
  assumes "dget (ap_payables db) pid = Some p" "pay_id p = pid" "pay_verification_status p = ''VERIFIED''"
    "pay_approval_status p \<noteq> ''APPROVED''"
  shows "\<exists>d db'. approve_payable now today eid pid (pay_tenant_id p) actor nts db = (Inr d, db')"
  using assms
  by (auto simp: approve_payable_def find_payable_def Let_def get_payable_def dget_dset res_map_def approved_def)

lemma pay_ok:
  assumes "dget (ap_payables db) (pq_payable_id q) = Some p" "pay_id p = pq_payable_id q" "pay_tenant_id p = pq_tenant_id q"
    "pay_status p \<in> {''APPROVED'', ''PARTIALLY_PAID''}" "0 < pq_amount q"
    "pq_amount q \<le> py_round 2 (fsub (pay_total_amount p) (existing_paid env (pq_payable_id q) (pq_tenant_id q) db))"
  shows "\<exists>d db'. record_payment env today eid rid q db = (Inr d, db')"
  using assms
  by (auto simp: record_payment_def find_payable_def Let_def get_payable_def dget_dset res_map_def paid_state_def)

definition settle :: "datetime \<Rightarrow> date \<Rightarrow> string \<Rightarrow> string \<Rightarrow> string \<Rightarrow> string \<Rightarrow> payable \<Rightarrow> ap_request list" where
  "settle now today actor eid eid' rid p =
    [Verify now (pay_id p) (pay_tenant_id p) actor True None,
     Approve now today eid (pay_id p) (pay_tenant_id p) actor None,
     Pay today eid' rid \<lparr>pq_payable_id = pay_id p, pq_tenant_id = pay_tenant_id p, pq_actor_id = actor,
       pq_amount = pay_total_amount p, pq_reference = ''SETTLE'', pq_date = None, pq_currency_code = None,
       pq_method = ''WIRE_TRANSFER'', pq_notes = None\<rparr>]"

text \<open>
  Every received bill can be settled: verifying it with its variance allowed, approving it and
  paying its total, one endpoint call each, leaves it PAID, whatever was recorded before.
\<close>

theorem received_bill_can_be_settled:
  assumes "exact_sums env" and "no_bills start" and "reached (ap_service env) ap_ok start db"
    and "dget (ap_payables db) pid = Some p" and "pay_status p = ''RECEIVED''"
  shows "\<exists>p'. dget (ap_payables (fold (\<lambda>r d. snd (ap_endpoint env r d)) (settle now today actor eid eid' rid p) db)) pid = Some p' \<and>
    pay_status p' = ''PAID'' \<and> pay_paid_amount p' = pay_total_amount p"
proof -
  have inv: "bills_inv db" by (rule reached_bills [OF assms(1-3)])
  have i: "pay_id p = pid" and b: "bill_ok (payments_of db pid) p" using bills_inv_get [OF inv assms(4)] by auto
  from b obtain T ks where h: "0 < T" "T \<le> money_bound" "pay_total_amount p = cent T"
    "map pp_amount (payments_of db pid) = map cent ks" "\<forall>k \<in> set ks. 0 < k" "stage p T (sum_list ks)" "0 \<le> sum_list ks"
    by (rule bill_okE)
  have st: "sum_list ks = 0" "pay_approval_status p \<noteq> ''APPROVED''" using h(6) assms(5) by (auto simp: stage_def)
  then have none: "payments_of db pid = []"
    using bill_ok_cents(3,5) [OF b] assms(5) by (cases "payments_of db pid = []") (auto simp: stage_def)
  let ?q = "\<lparr>pq_payable_id = pid, pq_tenant_id = pay_tenant_id p, pq_actor_id = actor,
       pq_amount = pay_total_amount p, pq_reference = ''SETTLE'', pq_date = None, pq_currency_code = None,
       pq_method = ''WIRE_TRANSFER'', pq_notes = None\<rparr>"
  obtain d1 db1 where v: "verify_payable env now pid (pay_tenant_id p) actor True None db = (Inr d1, db1)"
    using verify_ok [OF assms(4) i] assms(5) by fastforce
  let ?p1 = "verified actor now None p"
  from v have db1: "ap_payables db1 = dset pid ?p1 (ap_payables db)" "ap_payments db1 = ap_payments db"
    using assms(4) i by (auto elim!: verify_effect)
  obtain d2 db2 where a: "approve_payable now today eid pid (pay_tenant_id p) actor None db1 = (Inr d2, db2)"
    using approve_ok [of db1 pid ?p1 now today eid actor None] db1 i st(2) by (auto simp: dget_dset verified_def)
  let ?p2 = "approved actor now None eid ?p1"
  from a have db2: "dget (ap_payables db2) pid = Some ?p2" "ap_payments db2 = ap_payments db"
    using db1 i by (auto elim!: approve_effect simp: dget_dset)
  have e: "existing_paid env pid (pay_tenant_id p) db2 = 0"
  proof -
    have "\<forall>x \<in> set (ap_payments db). pp_payable_id x \<noteq> pid" using none by (auto simp: payments_of_def filter_empty_conv)
    then have "existing_paid env pid (pay_tenant_id p) db2 = db_sum env (map cent [])"
      by (simp add: existing_paid_def db2)
    also have "\<dots> = cent (sum_list [])" using assms(1) [unfolded exact_sums_def, rule_format, of "[]"] by (simp add: money_bound_def)
    finally show ?thesis by simp
  qed
  have T: "py_round 2 (cent T) = cent T" "fsub (cent T) 0 = cent T" "fadd 0 (cent T) = cent T" "0 < cent T"
    using h cent_less [of 0 T] is_flt_cent [of T] by (simp_all add: fsub_def fadd_def is_flt_def)
  have p2: "pay_total_amount ?p2 = cent T" "pay_id ?p2 = pid" "pay_tenant_id ?p2 = pay_tenant_id p" "pay_status ?p2 = ''APPROVED''"
    using h i by (simp_all add: approved_def verified_def)
  obtain d3 db3 where y: "record_payment env today eid' rid ?q db2 = (Inr d3, db3)"
    using pay_ok [of db2 ?q ?p2 env today eid' rid] db2(1) p2 e T h(3) by auto
  from y obtain nt where "nt = py_round 2 (fadd (existing_paid env pid (pay_tenant_id p) db2) (pay_total_amount p))"
    "ap_payables db3 = dset pid (paid_state nt ?p2) (ap_payables db2)"
    using db2(1) p2 by (auto elim!: pay_effect)
  then have "dget (ap_payables db3) pid = Some (paid_state (cent T) ?p2)"
    using e T h(3) by (simp add: dget_dset)
  moreover have "fold (\<lambda>r d. snd (ap_endpoint env r d)) (settle now today actor eid eid' rid p) db = db3"
    using v a y by (simp add: settle_def ap_endpoint_def i)
  ultimately show ?thesis using p2(1) h(3) by (auto simp: paid_state_def)
qed

section \<open>Fractions of a cent\<close>

lemma fraction_arith:
  "0 < flit (4 / 1000)" "flit (4 / 1000) \<le> 100" "py_round 2 (fsub 100 0) = 100" "py_round 2 (fadd 0 (flit (4 / 1000))) = 0"
  "py_round 2 (fsub 100 (flit (4 / 1000))) = 100"
proof -
  have "(0 < flit (4 / 1000)) \<and> (flit (4 / 1000) \<le> 100) \<and> (py_round 2 (fsub 100 0) = 100) \<and>
      (py_round 2 (fadd 0 (flit (4 / 1000))) = 0) \<and> (py_round 2 (fsub 100 (flit (4 / 1000))) = 100)"
    by code_simp
  then show "0 < flit (4 / 1000)" "flit (4 / 1000) \<le> 100" "py_round 2 (fsub 100 0) = 100"
    "py_round 2 (fadd 0 (flit (4 / 1000))) = 0" "py_round 2 (fsub 100 (flit (4 / 1000))) = 100" by blast+
qed

text \<open>
  The restriction to whole cents in the two properties above is needed: the balance is rounded to
  cents and the amount of a request is not. On every approved and unpaid bill of 100.00 the service
  accepts a payment of 0.004 and then one of 100.00, which together exceed the bill.
\<close>

theorem fraction_of_a_cent_overpays:
  assumes p: "dget (ap_payables db) pid = Some p" "pay_id p = pid" "pay_status p = ''APPROVED''" "pay_total_amount p = 100"
    and none: "payments_of db pid = []"
    and env: "db_sum env [] = 0" "db_sum env [flit (4 / 1000)] = flit (4 / 1000)"
    and q1: "pq_payable_id q1 = pid" "pq_tenant_id q1 = pay_tenant_id p" "pq_amount q1 = flit (4 / 1000)"
    and q2: "pq_payable_id q2 = pid" "pq_tenant_id q2 = pay_tenant_id p" "pq_amount q2 = 100"
  shows "\<exists>d1 db1 d2 db2. record_payment env today eid rid q1 db = (Inr d1, db1) \<and>
    record_payment env today eid' rid' q2 db1 = (Inr d2, db2) \<and>
    pay_total_amount p < sum_list (map pp_amount (payments_of db2 pid))"
proof -
  have paid: "existing_paid env pid (pay_tenant_id p) db' = db_sum env (map pp_amount (payments_of db' pid))"
    if "\<forall>x \<in> set (payments_of db' pid). pp_tenant_id x = pay_tenant_id p" for db'
  proof -
    have "filter (\<lambda>x. pp_payable_id x = pid \<and> pp_tenant_id x = pay_tenant_id p) (ap_payments db') = payments_of db' pid"
      using that by (auto simp: payments_of_def intro!: filter_cong)
    then show ?thesis by (simp add: existing_paid_def)
  qed
  have e: "existing_paid env pid (pay_tenant_id p) db = 0" using paid none env(1) by simp
  obtain d1 db1 where y1: "record_payment env today eid rid q1 db = (Inr d1, db1)"
    using pay_ok [of db q1 p env today eid rid] p q1 e fraction_arith by auto
  then obtain ccy day where db1: "dget (ap_payables db1) pid = Some (paid_state 0 p)"
      "ap_payments db1 = ap_payments db @ [payment_row rid eid day ccy q1]"
    using p q1 e fraction_arith by (auto elim!: pay_effect simp: dget_dset)
  then have l1: "payments_of db1 pid = [payment_row rid eid day ccy q1]"
    using none q1 by (simp add: payments_of_def payment_row_def)
  have e1: "existing_paid env pid (pay_tenant_id p) db1 = flit (4 / 1000)"
    using paid [of db1] l1 q1 env(2) by (simp add: payment_row_def)
  have p1: "pay_id (paid_state 0 p) = pid" "pay_status (paid_state 0 p) = ''PARTIALLY_PAID''"
    "pay_total_amount (paid_state 0 p) = 100" "pay_tenant_id (paid_state 0 p) = pay_tenant_id p"
    using p by (simp_all add: paid_state_def)
  obtain d2 db2 where y2: "record_payment env today eid' rid' q2 db1 = (Inr d2, db2)"
    using pay_ok [of db1 q2 "paid_state 0 p" env today eid' rid'] db1(1) p1 q2 e1 fraction_arith by auto
  then obtain ccy' day' where "ap_payments db2 = ap_payments db1 @ [payment_row rid' eid' day' ccy' q2]"
    by (auto elim!: pay_effect)
  then have "payments_of db2 pid = [payment_row rid eid day ccy q1, payment_row rid' eid' day' ccy' q2]"
    using l1 q2 by (simp add: payments_of_def payment_row_def)
  then have "sum_list (map pp_amount (payments_of db2 pid)) = flit (4 / 1000) + 100"
    using q1 q2 by (simp add: payment_row_def)
  with y1 y2 p(4) fraction_arith(1) show ?thesis by auto
qed

section \<open>Variance and totals\<close>

lemma material_positive: "is_material p \<Longrightarrow> 0 < \<bar>pay_variance_amount p\<bar>"
proof (rule ccontr)
  assume m: "is_material p" and "\<not> 0 < \<bar>pay_variance_amount p\<bar>"
  then have "flit (1 / 10) < 0" by (simp add: is_material_def Let_def fquot_def)
  moreover have "0 \<le> flit (1 / 10)" unfolding flit_def by (rule rnd_nonneg) simp
  ultimately show False by linarith
qed

text \<open>
  The refusal of a material variance is not kept: the service opens a COST_VARIANCE exception and
  marks the bill, then raises, and the endpoint does not commit. In the database there is neither an
  exception nor the mark.
\<close>

theorem material_variance_leaves_no_trace:
  assumes "dget (ap_payables db) pid = Some p" and "pay_id p = pid"
    and "pay_status p \<notin> {''APPROVED'', ''PAID''}" and "is_material p"
  shows "\<exists>e session. ap_service env (Verify now pid (pay_tenant_id p) actor False nts) db = (Inl e, session) \<and>
    ap_exceptions session = ap_exceptions db @ [cost_variance_exception env p (pay_tenant_id p) now] \<and>
    dget (ap_payables session) pid = Some (p\<lparr>pay_verification_status := ''VARIANCE_DETECTED''\<rparr>) \<and>
    ap_endpoint env (Verify now pid (pay_tenant_id p) actor False nts) db = (Inl e, db)"
  using assms material_positive [OF assms(4)]
  by (simp add: ap_endpoint_def verify_payable_def find_payable_def Let_def dget_dset)

lemma numbered_fields:
  "map pl_billed_amount (numbered_lines ids pid ls) = map pl_billed_amount ls"
  "map pl_expected_amount (numbered_lines ids pid ls) = map pl_expected_amount ls"
  "map pl_variance_amount (numbered_lines ids pid ls) = map pl_variance_amount ls"
  "map pl_status (numbered_lines ids pid ls) = map pl_status ls"
  "filter (\<lambda>l. pl_payable_id l = pid) (numbered_lines ids pid ls) = numbered_lines ids pid ls"
proof -
  have *: "map f (map (\<lambda>(i, l). g i l) (enumerate n ls)) = map f ls" if "\<And>i l. f (g i l) = f l"
    for f :: "payable_line \<Rightarrow> 'a" and g n by (induction ls arbitrary: n) (simp_all add: that)
  show "map pl_billed_amount (numbered_lines ids pid ls) = map pl_billed_amount ls"
    "map pl_expected_amount (numbered_lines ids pid ls) = map pl_expected_amount ls"
    "map pl_variance_amount (numbered_lines ids pid ls) = map pl_variance_amount ls"
    "map pl_status (numbered_lines ids pid ls) = map pl_status ls"
    unfolding numbered_lines_def by (rule *, simp)+
  show "filter (\<lambda>l. pl_payable_id l = pid) (numbered_lines ids pid ls) = numbered_lines ids pid ls"
    by (auto simp: numbered_lines_def filter_id_conv)
qed


lemma sum_list_near:
  "map pl_variance_amount pls = map (\<lambda>(k, e). cent (k - e)) kes \<Longrightarrow>
    sum_list (map (\<lambda>(k, e). \<bar>k - e\<bar>) kes) \<le> money_bound \<Longrightarrow> length kes \<le> 1000 \<Longrightarrow>
    near (2 * length kes) (fold (\<lambda>l s. fadd s (pl_variance_amount l)) pls 0) (sum_list (map (\<lambda>(k, e). k - e) kes))"
proof -
  assume a: "map pl_variance_amount pls = map (\<lambda>(k, e). cent (k - e)) kes"
    "sum_list (map (\<lambda>(k, e). \<bar>k - e\<bar>) kes) \<le> money_bound" "length kes \<le> 1000"
  let ?ds = "map (\<lambda>(k, e). k - e) kes"
  have "fold (\<lambda>l s. fadd s (pl_variance_amount l)) pls 0 = fold (\<lambda>x s. fadd s x) (map pl_variance_amount pls) 0"
    by (simp add: fold_map comp_def)
  also have "map pl_variance_amount pls = map cent ?ds" using a(1) by (simp add: comp_def case_prod_unfold)
  finally have f: "fold (\<lambda>l s. fadd s (pl_variance_amount l)) pls 0 = fold (\<lambda>c s. fadd s (cent c)) ?ds 0"
    by (simp add: fold_map comp_def)
  have "map abs ?ds = map (\<lambda>(k, e). \<bar>k - e\<bar>) kes" by (simp add: case_prod_unfold)
  then have "sum_list (map abs ?ds) \<le> money_bound" using a(2) by (simp only:)
  then have "near (0 + 2 * length ?ds) (fold (\<lambda>c s. fadd s (cent c)) ?ds 0) (0 + sum_list ?ds)"
    using a(3) by (intro near_fold) simp_all
  then show ?thesis by (simp add: f)
qed

text \<open>A priced line in cents: its variance is billed minus expected, and its status says which way.\<close>

lemma line_priced_cents:
  assumes "line_priced l" "pl_billed_amount l = cent k" "pl_expected_amount l = cent e" "0 \<le> k" "0 \<le> e"
    "k \<le> money_bound" "e \<le> money_bound"
  shows "pl_variance_amount l = cent (k - e) \<and>
    pl_status l \<in> (if k = e then {''MATCHED'', ''ADDITIONAL_CHARGE''} else if e < k then {''OVER_BILLED'', ''ADDITIONAL_CHARGE''}
      else {''UNDER_BILLED''})"
proof -
  have b: "\<bar>k\<bar> \<le> money_bound" "\<bar>e\<bar> \<le> money_bound" "\<bar>k - e\<bar> \<le> money_bound" "\<bar>0\<bar> \<le> money_bound" using assms by auto
  show ?thesis
    using assms(1) unfolding line_priced_def
  proof
    assume a: "pl_status l = ''ADDITIONAL_CHARGE'' \<and> pl_expected_amount l = 0 \<and> pl_variance_amount l = pl_billed_amount l"
    then have "e = 0" using assms(3) cent_eq_iff [OF b(2,4)] by simp
    with a assms(2,4) show ?thesis by auto
  next
    assume a: "pl_variance_amount l = py_round 2 (fsub (pl_billed_amount l) (pl_expected_amount l)) \<and>
      pl_status l = variance_status (pl_variance_amount l)"
    then have v: "pl_variance_amount l = cent (k - e)" using cent_sub [OF b(1-3)] assms(2,3) by simp
    have "cent (k - e) = 0 \<longleftrightarrow> k = e" "0 < cent (k - e) \<longleftrightarrow> e < k"
      using cent_eq_iff [OF b(3,4)] cent_less_iff [OF b(4,3)] by auto
    with a v show ?thesis by (auto simp: variance_status_def)
  qed
qed

lemma variances_cents:
  "list_all line_priced pls \<Longrightarrow> map pl_billed_amount pls = map cent ks \<Longrightarrow> map pl_expected_amount pls = map cent es \<Longrightarrow>
    \<forall>k \<in> set ks. 0 \<le> k \<Longrightarrow> \<forall>e \<in> set es. 0 \<le> e \<Longrightarrow> sum_list ks + sum_list es \<le> money_bound \<Longrightarrow>
    map pl_variance_amount pls = map (\<lambda>(k, e). cent (k - e)) (zip ks es) \<and>
    sum_list (map (\<lambda>(k, e). \<bar>k - e\<bar>) (zip ks es)) \<le> sum_list ks + sum_list es \<and>
    sum_list (map (\<lambda>(k, e). k - e) (zip ks es)) = sum_list ks - sum_list es"
proof (induction pls arbitrary: ks es)
  case (Cons l pls)
  then obtain k ks' e es' where ke: "ks = k # ks'" "es = e # es'" by (cases ks; cases es) auto
  have nn: "0 \<le> sum_list ks'" "0 \<le> sum_list es'" using Cons.prems ke by (auto intro!: sum_list_nonneg_int)
  have "pl_variance_amount l = cent (k - e)"
    using line_priced_cents [of l k e] Cons.prems ke nn by simp
  moreover have "sum_list ks' + sum_list es' \<le> money_bound" using Cons.prems ke nn by simp
  moreover have "0 \<le> k" "0 \<le> e" using Cons.prems ke by simp_all
  then have "\<bar>k - e\<bar> \<le> k + e" by linarith
  ultimately show ?case using Cons.IH [of ks' es'] Cons.prems ke by simp
qed auto

text \<open>
  Recording a bill in cents computes exactly: the total is the sum of the lines and the tax, every
  line is stored with its billed amount and the variance to what was expected, and the variance of
  the bill is the sum billed minus the sum expected.
\<close>

theorem recorded_bill_exact:
  assumes "record_payable today ids b db = (Inr d, db')" and "bill_cents b ks t"
    and "map pl_expected_amount (pd_lines d) = map cent es" and "\<forall>e \<in> set es. 0 \<le> e"
    and "sum_list ks + sum_list es \<le> money_bound"
    and "ids (length (bi_lines b)) \<notin> pl_payable_id ` set (ap_lines db)"
  shows "pay_total_amount (pd_payable d) = cent (sum_list ks + t) \<and> pay_subtotal_amount (pd_payable d) = cent (sum_list ks) \<and>
    pay_variance_amount (pd_payable d) = cent (sum_list ks - sum_list es) \<and>
    map pl_billed_amount (pd_lines d) = map cent ks \<and>
    map pl_variance_amount (pd_lines d) = map (\<lambda>(k, e). cent (k - e)) (zip ks es) \<and>
    dget (ap_payables db') (pay_id (pd_payable d)) = Some (pd_payable d)"
proof -
  let ?pid = "ids (length (bi_lines b))"
  from assms(1) obtain a where l: "bill_loop b (cost_lines_map (bi_shipment_id b) (ap_cost_lines db)) ids (bi_lines b)
       \<lparr>ba_cost_lines = ap_cost_lines db, ba_subtotal = 0, ba_total_variance = 0, ba_lines = []\<rparr> = (Inr (), a)"
    and p: "ap_payables db' = dset ?pid (new_payable b today ?pid a) (ap_payables db)"
    and ln: "ap_lines db' = ap_lines db @ numbered_lines ids ?pid (ba_lines a)"
    by (auto elim: record_effect)
  from l obtain pls where pls: "ba_lines a = pls" "map pl_billed_amount pls = map bl_billed_amount (bi_lines b)"
    "list_all line_priced pls" "ba_total_variance a = fold (\<lambda>l s. fadd s (pl_variance_amount l)) pls 0"
    by (auto elim: bill_loop_effect)
  have old: "filter (\<lambda>l. pl_payable_id l = ?pid) (ap_lines db) = []" using assms(6) by (metis (mono_tags, lifting) filter_False image_eqI)
  have "get_payable db' ?pid (bi_tenant_id b) = Inr d"
    using assms(1) by (auto simp: record_payable_def Let_def split: sum.splits prod.splits)
  then have d: "pd_payable d = new_payable b today ?pid a" "pd_lines d = numbered_lines ids ?pid pls"
    using p ln old pls(1)
    by (auto simp: get_payable_def res_simps find_payable_Inr dget_dset numbered_fields)
  have ks: "map pl_billed_amount pls = map cent ks" "\<forall>k \<in> set ks. 0 \<le> k" "length ks \<le> 1000"
    using pls(2) assms(2) by (auto simp: bill_cents_def)
  have es: "map pl_expected_amount pls = map cent es" using assms(3) d by (simp add: numbered_fields)
  have len: "length ks = length pls" "length es = length pls" using ks(1) es by (metis length_map)+
  note v = variances_cents [OF pls(3) ks(1) es ks(2) assms(4,5)]
  have "near (2 * length (zip ks es)) (ba_total_variance a) (sum_list (map (\<lambda>(k, e). k - e) (zip ks es)))"
    unfolding pls(4) using v assms(5) ks(3) by (intro sum_list_near) auto
  then have "py_round 2 (ba_total_variance a) = cent (sum_list ks - sum_list es)"
    using near_round v ks(3) by fastforce
  then have "pay_variance_amount (pd_payable d) = cent (sum_list ks - sum_list es)" by (simp add: d new_payable_def)
  moreover have "dget (ap_payables db') (pay_id (pd_payable d)) = Some (pd_payable d)"
    using p by (simp add: d dget_dset) (simp add: new_payable_def)
  ultimately show ?thesis
    using new_payable_total(1,2) [OF assms(2) l] ks v by (simp add: d numbered_fields)
qed

section \<open>A worked bill\<close>

definition sample_env :: db_env where
  "sample_env = \<lparr>db_sum = (\<lambda>xs. cent (sum_list (map cents_of xs))), db_text = frepr\<rparr>"

lemma sample_env_exact: "exact_sums sample_env"
  using sum_cents_of by (auto simp: exact_sums_def sample_env_def simp del: map_map)

definition sample_cost :: cost_line where
  "sample_cost = \<lparr>cl_id = ''C'', cl_shipment_id = ''S'', cl_vendor_id = None, cl_carrier_id = None,
     cl_charge_code = Some ''FRT'', cl_description = None, cl_quantity = 1, cl_unit_rate = None, cl_amount = 100,
     cl_currency_code = Some ''USD'', cl_status = ''ESTIMATED'', cl_is_additional = False, cl_created_by = None\<rparr>"

definition sample_ap :: ap_db where
  "sample_ap = \<lparr>ap_shipments = [(''S'', ''T'')], ap_vendors = [], ap_carriers = [], ap_cost_lines = [(''C'', sample_cost)],
     ap_payables = [], ap_lines = [], ap_payments = [], ap_entries = [], ap_exceptions = [], ap_audit = []\<rparr>"

definition sample_line :: "flt \<Rightarrow> bill_line" where
  "sample_line x = \<lparr>bl_charge_code = ''FRT'', bl_billed_amount = x, bl_cost_line_id = None, bl_description = None,
     bl_quantity = 1, bl_unit_rate = None\<rparr>"

definition sample_bill :: "flt list \<Rightarrow> bill" where
  "sample_bill xs = \<lparr>bi_tenant_id = ''T'', bi_actor_id = ''U'', bi_shipment_id = ''S'', bi_bill_number = ''B1'',
     bi_lines = map sample_line xs, bi_vendor_id = None, bi_carrier_id = None, bi_bill_date = None, bi_due_date = None,
     bi_currency_code = ''USD'', bi_tax_amount = 5, bi_document_url = None, bi_notes = None\<rparr>"

definition payable_ids :: "nat \<Rightarrow> string" where "payable_ids n = CHR ''I'' # replicate n CHR ''x''"

definition sample_pay :: "flt \<Rightarrow> payment_request" where
  "sample_pay x = \<lparr>pq_payable_id = ''Ix'', pq_tenant_id = ''T'', pq_actor_id = ''U'', pq_amount = x, pq_reference = ''R'',
     pq_date = None, pq_currency_code = None, pq_method = ''WIRE_TRANSFER'', pq_notes = None\<rparr>"

lemma cent_whole: "cent 12000 = 120" "cent 500 = 5" "cent 5000 = 50" "cent 10000 = 100"
proof -
  have "(cent 12000 = 120) \<and> (cent 500 = 5) \<and> (cent 5000 = 50) \<and> (cent 10000 = 100)" by code_simp
  then show "cent 12000 = 120" "cent 500 = 5" "cent 5000 = 50" "cent 10000 = 100" by blast+
qed

lemma sample_bill_cents: "bill_cents (sample_bill [120]) [12000] 500"
  by (simp add: bill_cents_def sample_bill_def sample_line_def cent_whole money_bound_def)


lemma sample_arith:
  "fadd 0 120 = 120" "fadd 120 5 = 125" "py_round 2 125 = 125" "fsub 120 100 = 20" "py_round 2 20 = 20" "fadd 0 20 = 20"
  "py_round 2 120 = 120" "py_round 2 5 = 5" "fsub 125 0 = 125" "fadd 0 50 = 50" "py_round 2 50 = 50"
proof -
  have "(fadd 0 120 = 120) \<and> (fadd 120 5 = 125) \<and> (py_round 2 125 = 125) \<and> (fsub 120 100 = 20) \<and> (py_round 2 20 = 20) \<and> (fadd 0 20 = 20) \<and> (py_round 2 120 = 120) \<and> (py_round 2 5 = 5) \<and> (fsub 125 0 = 125) \<and> (fadd 0 50 = 50) \<and> (py_round 2 50 = 50)" by code_simp
  then show "fadd 0 120 = 120" "fadd 120 5 = 125" "py_round 2 125 = 125" "fsub 120 100 = 20" "py_round 2 20 = 20" "fadd 0 20 = 20" "py_round 2 120 = 120" "py_round 2 5 = 5" "fsub 125 0 = 125" "fadd 0 50 = 50" "py_round 2 50 = 50" by blast+
qed

definition sample_p :: payable where
  "sample_p = new_payable (sample_bill [120]) 738000 ''Ix''
     \<lparr>ba_cost_lines = [], ba_subtotal = 120, ba_total_variance = 20, ba_lines = []\<rparr>"

lemma sample_upper: "py_upper (py_strip ''FRT'') = ''FRT''" "py_upper ''USD'' = ''USD''" "py_strip ''B1'' = ''B1''" "py_upper ''FRT'' = ''FRT''"
  by (simp_all add: py_eval)

lemma sample_create:
  "\<exists>d. fst (record_payable 738000 payable_ids (sample_bill [120]) sample_ap) = Inr d \<and> pd_payable d = sample_p \<and>
    map pl_expected_amount (pd_lines d) = [100]"
  by (simp add: record_payable_def check_bill_def sample_ap_def sample_bill_def sample_line_def cost_lines_map_def
     sample_cost_def dict_of_def bill_step_def match_cost_line_def matched_line_def Let_def sample_upper sample_arith
     get_payable_def find_payable_def payable_ids_def new_payable_def sample_p_def dget_dset numbered_lines_def)

lemma sample_p_fields:
  "pay_id sample_p = ''Ix''" "pay_tenant_id sample_p = ''T''" "pay_status sample_p = ''RECEIVED''"
  "pay_approval_status sample_p = ''PENDING''" "pay_total_amount sample_p = 125" "pay_variance_amount sample_p = 20"
  by (simp_all add: sample_p_def new_payable_def sample_bill_def sample_arith)

lemma sample_no_bills: "no_bills sample_ap"
  by (simp add: no_bills_def sample_ap_def)

text \<open>The bill is recorded, verified, approved and paid in part.\<close>

lemma sample_history:
  obtains d1 db1 db4 p4 x where "record_payable 738000 payable_ids (sample_bill [120]) sample_ap = (Inr d1, db1)"
    "reached (ap_service sample_env) ap_ok sample_ap db1" "dget (ap_payables db1) ''Ix'' = Some sample_p"
    "pd_payable d1 = sample_p" "map pl_expected_amount (pd_lines d1) = [100]"
    "reached (ap_service sample_env) ap_ok sample_ap db4" "dget (ap_payables db4) ''Ix'' = Some p4"
    "pay_status p4 = ''PARTIALLY_PAID''" "pay_tenant_id p4 = ''T''" "ap_payments db4 = [x]" "pp_amount x = 50"
    "pp_payable_id x = ''Ix''"
proof -
  have step: "reached (ap_service sample_env) ap_ok sample_ap db'"
    if "reached (ap_service sample_env) ap_ok sample_ap db" "ap_ok r db" "ap_service sample_env r db = (Inr d, db')" for db r d db'
    using reached_request [OF that(1,2)] that(3) by simp
  obtain d1 db1 where c: "record_payable 738000 payable_ids (sample_bill [120]) sample_ap = (Inr d1, db1)"
    and d1: "pd_payable d1 = sample_p" "map pl_expected_amount (pd_lines d1) = [100]"
    using sample_create by (metis eq_fst_iff)
  have "ap_ok (Create 738000 payable_ids (sample_bill [120])) sample_ap"
    using sample_bill_cents by (auto simp: sample_ap_def)
  then have r1: "reached (ap_service sample_env) ap_ok sample_ap db1"
    by (rule step [OF reached_start]) (simp add: c)
  from c have db1: "ap_payments db1 = []" "ap_entries db1 = []" by (auto elim!: record_effect simp: sample_ap_def)
  have g: "get_payable db1 ''Ix'' ''T'' = Inr d1"
    using c by (auto simp: record_payable_def Let_def sample_bill_def payable_ids_def split: sum.splits prod.splits)
  then have p1: "dget (ap_payables db1) ''Ix'' = Some sample_p"
    using d1 by (auto simp: get_payable_def res_simps find_payable_Inr)
  obtain d2 db2 where v: "verify_payable sample_env 1 ''Ix'' ''T'' ''U'' True None db1 = (Inr d2, db2)"
    using verify_ok [OF p1, of sample_env 1 "''U''" None] by (auto simp: sample_p_fields)
  let ?p2 = "verified ''U'' 1 None sample_p"
  from v have r2: "reached (ap_service sample_env) ap_ok sample_ap db2"
    by (intro step [OF r1, of "Verify 1 ''Ix'' ''T'' ''U'' True None"]) auto
  from v have db2: "dget (ap_payables db2) ''Ix'' = Some ?p2" "ap_payments db2 = []" "ap_entries db2 = []"
    using p1 db1 by (auto elim!: verify_effect simp: dget_dset sample_p_fields)
  obtain d3 db3 where a: "approve_payable 2 738001 ''E1'' ''Ix'' ''T'' ''U'' None db2 = (Inr d3, db3)"
    using approve_ok [OF db2(1), of 2 738001 "''E1''" "''U''" None]
    by (auto simp: sample_p_fields) (auto simp: verified_def sample_p_fields)
  let ?p3 = "approved ''U'' 2 None ''E1'' ?p2"
  from a have r3: "reached (ap_service sample_env) ap_ok sample_ap db3"
    using db2 by (intro step [OF r2, of "Approve 2 738001 ''E1'' ''Ix'' ''T'' ''U'' None"]) auto
  from a have db3: "dget (ap_payables db3) ''Ix'' = Some ?p3" "ap_payments db3 = []" "map fe_id (ap_entries db3) = [''E1'']"
    using db2 by (auto elim!: approve_effect simp: dget_dset sample_p_fields approval_entry_def)
  have e: "existing_paid sample_env ''Ix'' ''T'' db3 = 0"
    by (simp add: existing_paid_def db3 sample_env_def)
  have b: "py_round 2 (fsub 125 0) = 125" by (simp add: sample_arith)
  obtain d4 db4 where y: "record_payment sample_env 738002 ''E2'' ''P1'' (sample_pay 50) db3 = (Inr d4, db4)"
    using pay_ok [of db3 "sample_pay 50" ?p3 sample_env 738002 "''E2''" "''P1''"] db3(1) e b
    by (auto simp: sample_pay_def sample_p_fields) (auto simp: approved_def)
  from y have r4: "reached (ap_service sample_env) ap_ok sample_ap db4"
    using db3 cent_whole(3) by (intro step [OF r3, of "Pay 738002 ''E2'' ''P1'' (sample_pay 50)"])
      (auto simp: sample_pay_def money_bound_def intro!: exI [of _ 5000])
  from y obtain ccy day where db4: "dget (ap_payables db4) ''Ix'' = Some (paid_state 50 ?p3)"
      "ap_payments db4 = [payment_row ''P1'' ''E2'' day ccy (sample_pay 50)]"
    using db3 e by (auto elim!: pay_effect simp: dget_dset sample_p_fields sample_pay_def sample_arith)
  show ?thesis
    by (rule that [OF c r1 p1 d1 r4 db4(1) _ _ db4(2)])
      (simp_all add: paid_state_def payment_row_def sample_pay_def sample_p_fields)
qed


lemma sample_history4:
  obtains db4 p4 x where "reached (ap_service sample_env) ap_ok sample_ap db4" "dget (ap_payables db4) ''Ix'' = Some p4"
    "pay_status p4 = ''PARTIALLY_PAID''" "pay_tenant_id p4 = ''T''" "ap_payments db4 = [x]" "pp_amount x = 50"
    "payments_of db4 ''Ix'' = [x]"
proof -
  obtain db4 p4 x where h: "reached (ap_service sample_env) ap_ok sample_ap db4" "dget (ap_payables db4) ''Ix'' = Some p4"
    "pay_status p4 = ''PARTIALLY_PAID''" "pay_tenant_id p4 = ''T''" "ap_payments db4 = [x]" "pp_amount x = 50"
    "pp_payable_id x = ''Ix''"
    by (rule sample_history)
  show ?thesis by (rule that [OF h(1-6)]) (simp add: payments_of_def h)
qed

theorem payments_within_bill_witness:
  "\<exists>db p. reached (ap_service sample_env) ap_ok sample_ap db \<and> dget (ap_payables db) ''Ix'' = Some p \<and>
    payments_of db ''Ix'' \<noteq> [] \<and>
    sum_list (map (cents_of \<circ> pp_amount) (payments_of db ''Ix'')) \<le> cents_of (pay_total_amount p)"
proof -
  obtain db p x where h: "reached (ap_service sample_env) ap_ok sample_ap db" "dget (ap_payables db) ''Ix'' = Some p"
    "pay_status p = ''PARTIALLY_PAID''" "pay_tenant_id p = ''T''" "ap_payments db = [x]" "pp_amount x = 50"
    "payments_of db ''Ix'' = [x]"
    by (rule sample_history4)
  from payments_within_bill [OF sample_env_exact sample_no_bills h(1,2)] h show ?thesis by fastforce
qed

theorem paid_bills_are_approved_witness:
  "\<exists>db x. reached (ap_service sample_env) ap_ok sample_ap db \<and> x \<in> set (ap_payments db) \<and>
    (\<exists>p. dget (ap_payables db) (pp_payable_id x) = Some p \<and> pay_approval_status p = ''APPROVED'')"
proof -
  obtain db p x where h: "reached (ap_service sample_env) ap_ok sample_ap db" "dget (ap_payables db) ''Ix'' = Some p"
    "pay_status p = ''PARTIALLY_PAID''" "pay_tenant_id p = ''T''" "ap_payments db = [x]" "pp_amount x = 50"
    "payments_of db ''Ix'' = [x]"
    by (rule sample_history4)
  then have "x \<in> set (ap_payments db)" by simp
  from paid_bills_are_approved [OF sample_env_exact sample_no_bills h(1) this] h(1) this show ?thesis by blast
qed

theorem payables_refine_contract_witness:
  "\<exists>db. reached (ap_service sample_env) ap_ok sample_ap db \<and>
    (abs_db (snd (ap_endpoint sample_env (Verify 9 ''Ix'' ''T'' ''U'' True None) db)) ''Ix'' = abs_db db ''Ix'' \<or>
     spec_step (abs_db db ''Ix'') (abs_db (snd (ap_endpoint sample_env (Verify 9 ''Ix'' ''T'' ''U'' True None) db)) ''Ix''))"
proof -
  obtain db p x where h: "reached (ap_service sample_env) ap_ok sample_ap db" "dget (ap_payables db) ''Ix'' = Some p"
    "pay_status p = ''PARTIALLY_PAID''" "pay_tenant_id p = ''T''" "ap_payments db = [x]" "pp_amount x = 50"
    "payments_of db ''Ix'' = [x]"
    by (rule sample_history4)
  have "ap_ok (Verify 9 ''Ix'' ''T'' ''U'' True None) db" by simp
  from payables_refine_contract [OF sample_env_exact sample_no_bills h(1) this] h(1) show ?thesis by blast
qed

theorem ledger_mirrors_bills_witness:
  "\<exists>db. reached (ap_service sample_env) ap_ok sample_ap db \<and> length (ap_payments db) = 1 \<and>
    length (filter (\<lambda>e. fe_entry_type e = ''AP_PAYMENT'') (ap_entries db)) = 1"
proof -
  obtain db p x where h: "reached (ap_service sample_env) ap_ok sample_ap db" "dget (ap_payables db) ''Ix'' = Some p"
    "pay_status p = ''PARTIALLY_PAID''" "pay_tenant_id p = ''T''" "ap_payments db = [x]" "pp_amount x = 50"
    "payments_of db ''Ix'' = [x]"
    by (rule sample_history4)
  from ledger_mirrors_bills [OF sample_no_bills h(1)]
  have "map (\<lambda>e. (fe_id e, fe_tenant_id e, fe_debit_amount e, fe_currency_code e))
         (filter (\<lambda>e. fe_entry_type e = ''AP_PAYMENT'') (ap_entries db)) =
       map (\<lambda>x. (pp_financial_entry_id x, pp_tenant_id x, pp_amount x, pp_currency_code x)) (ap_payments db)" by blast
  then have "length (filter (\<lambda>e. fe_entry_type e = ''AP_PAYMENT'') (ap_entries db)) = length (ap_payments db)"
    by (auto dest: map_eq_imp_length_eq)
  with h(1,5) show ?thesis by (intro exI [of _ db]) simp
qed

theorem reverified_part_payment_is_stuck_witness:
  "\<exists>db0 db1 p. reached (ap_service sample_env) ap_ok sample_ap db0 \<and> dget (ap_payables db0) ''Ix'' = Some p \<and>
    pay_status p = ''PARTIALLY_PAID'' \<and> db1 = snd (ap_service sample_env (Verify 9 ''Ix'' ''T'' ''U'' True None) db0) \<and>
    payments_of db1 ''Ix'' = payments_of db0 ''Ix'' \<and> (\<exists>p'. dget (ap_payables db1) ''Ix'' = Some p' \<and> pay_status p' = ''VERIFIED'')"
proof -
  obtain db p x where h: "reached (ap_service sample_env) ap_ok sample_ap db" "dget (ap_payables db) ''Ix'' = Some p"
    "pay_status p = ''PARTIALLY_PAID''" "pay_tenant_id p = ''T''" "ap_payments db = [x]" "pp_amount x = 50"
    "payments_of db ''Ix'' = [x]"
    by (rule sample_history4)
  let ?r = "Verify 9 ''Ix'' (pay_tenant_id p) ''U'' True None"
  from reverified_part_payment_is_stuck [OF h(1) sample_no_bills sample_env_exact h(2,3), of 9 "''U''" None
      "fst (ap_service sample_env ?r db)" "snd (ap_service sample_env ?r db)" "snd (ap_service sample_env ?r db)"]
  have "payments_of (snd (ap_service sample_env ?r db)) ''Ix'' = payments_of db ''Ix'' \<and>
    (\<exists>p'. dget (ap_payables (snd (ap_service sample_env ?r db))) ''Ix'' = Some p' \<and> pay_status p' = ''VERIFIED'')"
    by (simp add: reached_start)
  with h(1-4) show ?thesis
    by (intro exI [of _ db] exI [of _ "snd (ap_service sample_env ?r db)"] exI [of _ p]) simp
qed

lemma sample_history1:
  obtains d1 db1 where "record_payable 738000 payable_ids (sample_bill [120]) sample_ap = (Inr d1, db1)"
    "reached (ap_service sample_env) ap_ok sample_ap db1" "dget (ap_payables db1) ''Ix'' = Some sample_p"
    "pd_payable d1 = sample_p" "map pl_expected_amount (pd_lines d1) = [100]"
  by (rule sample_history)

theorem received_bill_can_be_settled_witness:
  "\<exists>db p'. reached (ap_service sample_env) ap_ok sample_ap db \<and> dget (ap_payables db) ''Ix'' = Some sample_p \<and>
    dget (ap_payables (fold (\<lambda>r d. snd (ap_endpoint sample_env r d)) (settle 1 738001 ''U'' ''E1'' ''E2'' ''P1'' sample_p) db)) ''Ix''
      = Some p' \<and> pay_status p' = ''PAID''"
proof -
  obtain d1 db1 where h: "record_payable 738000 payable_ids (sample_bill [120]) sample_ap = (Inr d1, db1)"
    "reached (ap_service sample_env) ap_ok sample_ap db1" "dget (ap_payables db1) ''Ix'' = Some sample_p"
    "pd_payable d1 = sample_p" "map pl_expected_amount (pd_lines d1) = [100]"
    by (rule sample_history1)
  from received_bill_can_be_settled [OF sample_env_exact sample_no_bills h(2,3) sample_p_fields(3)] h(2,3)
  show ?thesis by blast
qed

lemma sample_material: "is_material sample_p"
proof -
  have "flit (1 / 10) < fquot 20 125" by code_simp
  then show ?thesis by (simp add: is_material_def Let_def sample_p_fields)
qed

theorem material_variance_leaves_no_trace_witness:
  "\<exists>db e session. reached (ap_service sample_env) ap_ok sample_ap db \<and>
    ap_service sample_env (Verify 1 ''Ix'' ''T'' ''U'' False None) db = (Inl e, session) \<and>
    length (ap_exceptions session) = Suc (length (ap_exceptions db)) \<and>
    ap_endpoint sample_env (Verify 1 ''Ix'' ''T'' ''U'' False None) db = (Inl e, db)"
proof -
  obtain d1 db1 where h: "record_payable 738000 payable_ids (sample_bill [120]) sample_ap = (Inr d1, db1)"
    "reached (ap_service sample_env) ap_ok sample_ap db1" "dget (ap_payables db1) ''Ix'' = Some sample_p"
    "pd_payable d1 = sample_p" "map pl_expected_amount (pd_lines d1) = [100]"
    by (rule sample_history1)
  have "pay_status sample_p \<notin> {''APPROVED'', ''PAID''}" by (simp add: sample_p_fields)
  from material_variance_leaves_no_trace [OF h(3) sample_p_fields(1) this sample_material, of sample_env 1 "''U''" None] h(2)
  show ?thesis by (fastforce simp: sample_p_fields)
qed

theorem recorded_bill_exact_witness:
  "\<exists>d. fst (record_payable 738000 payable_ids (sample_bill [120]) sample_ap) = Inr d \<and>
    pay_total_amount (pd_payable d) = cent 12500 \<and> pay_variance_amount (pd_payable d) = cent 2000"
proof -
  obtain d1 db1 where h: "record_payable 738000 payable_ids (sample_bill [120]) sample_ap = (Inr d1, db1)"
    "reached (ap_service sample_env) ap_ok sample_ap db1" "dget (ap_payables db1) ''Ix'' = Some sample_p"
    "pd_payable d1 = sample_p" "map pl_expected_amount (pd_lines d1) = [100]"
    by (rule sample_history1)
  have e: "map pl_expected_amount (pd_lines d1) = map cent [10000]" using h(5) cent_whole(4) by simp
  from recorded_bill_exact [OF h(1) sample_bill_cents e] h(1) show ?thesis
    by (auto simp: sample_ap_def money_bound_def)
qed

text \<open>
  Two lines of a bill that split one expected charge are each compared with the whole of it: a
  charge of 100 billed as 50 and 50 is recorded with a variance of -100.
\<close>

lemma split_arith: "fadd 0 50 = 50" "fadd 50 50 = 100" "fadd 100 5 = 105" "py_round 2 105 = 105" "fsub 50 100 = - 50"
  "py_round 2 (- 50) = - 50" "fadd 0 (- 50) = - 50" "fadd (- 50) (- 50) = - 100" "py_round 2 (- 100) = - 100" "py_round 2 100 = 100"
proof -
  have "(fadd 0 50 = 50) \<and> (fadd 50 50 = 100) \<and> (fadd 100 5 = 105) \<and> (py_round 2 105 = 105) \<and> (fsub 50 100 = - 50) \<and> (py_round 2 (- 50) = - 50) \<and> (fadd 0 (- 50) = - 50) \<and> (fadd (- 50) (- 50) = - 100) \<and> (py_round 2 (- 100) = - 100) \<and> (py_round 2 100 = 100)" by code_simp
  then show "fadd 0 50 = 50" "fadd 50 50 = 100" "fadd 100 5 = 105" "py_round 2 105 = 105" "fsub 50 100 = - 50" "py_round 2 (- 50) = - 50" "fadd 0 (- 50) = - 50" "fadd (- 50) (- 50) = - 100" "py_round 2 (- 100) = - 100" "py_round 2 100 = 100" by blast+
qed

theorem split_charge_is_compared_twice:
  "\<exists>d. fst (record_payable 738000 payable_ids (sample_bill [50, 50]) sample_ap) = Inr d \<and>
    pay_subtotal_amount (pd_payable d) = cl_amount sample_cost \<and> pay_variance_amount (pd_payable d) = - 100"
  by (simp add: record_payable_def check_bill_def sample_ap_def sample_bill_def sample_line_def cost_lines_map_def
     sample_cost_def dict_of_def bill_step_def match_cost_line_def matched_line_def Let_def sample_upper split_arith sample_arith
     get_payable_def find_payable_def payable_ids_def new_payable_def dget_dset numbered_lines_def)

end
