(* ===== verification/Invoicing_Life.thy ===== *)
theory Invoicing_Life
  imports Invoicing Payables_Life
begin

text \<open>
  What holds of the invoicing tables in every database the endpoints of
  \<open>app/api/v1/endpoints/invoices.py\<close> reach: no revenue line is billed twice, credits stay within the
  invoice, only approved invoices are sent, references are unique per tenant, and the ledger mirrors
  invoices and notes.
\<close>

section \<open>The endpoints\<close>

datatype inv_request =
    Generate flt datetime date string string invoice_request
  | Approve_Invoice datetime string string string "string option"
  | Send_Invoice datetime string string string "string option"
  | Credit_Note date string string note_request
  | Debit_Note date string string note_request string "string option"

fun inv_service :: "db_env \<Rightarrow> inv_request \<Rightarrow> inv_db \<Rightarrow> unit res \<times> inv_db" where
  "inv_service env (Generate threshold now today iid eid q) db =
     apfst (res_map (\<lambda>_. ())) (generate_invoice threshold now today iid eid q db)"
| "inv_service env (Approve_Invoice now iid tid actor nts) db = apfst (res_map (\<lambda>_. ())) (approve_invoice now iid tid actor nts db)"
| "inv_service env (Send_Invoice now iid tid actor email) db = apfst (res_map (\<lambda>_. ())) (send_invoice now iid tid actor email db)"
| "inv_service env (Credit_Note today eid nid q) db = apfst (res_map (\<lambda>_. ())) (create_credit_note env today eid nid q db)"
| "inv_service env (Debit_Note today eid nid q code descr) db =
     apfst (res_map (\<lambda>_. ())) (create_debit_note today eid nid q code descr db)"

lemma apfst_Inr: "apfst (res_map f) p = (Inr x, db') \<longleftrightarrow> (\<exists>y. p = (Inr y, db') \<and> x = f y)"
  by (cases p; cases "fst p") auto

lemma inv_frames [simp]:
  "iv_invoices (audit_inv t a ty k act v db) = iv_invoices db" "iv_lines (audit_inv t a ty k act v db) = iv_lines db"
  "iv_revenue (audit_inv t a ty k act v db) = iv_revenue db" "iv_credits (audit_inv t a ty k act v db) = iv_credits db"
  "iv_debits (audit_inv t a ty k act v db) = iv_debits db" "iv_entries (audit_inv t a ty k act v db) = iv_entries db"
  "iv_outbox (audit_inv t a ty k act v db) = iv_outbox db"
  "iv_invoices (put_invoice i db) = dset (inv_id i) i (iv_invoices db)" "iv_lines (put_invoice i db) = iv_lines db"
  "iv_revenue (put_invoice i db) = iv_revenue db" "iv_credits (put_invoice i db) = iv_credits db"
  "iv_debits (put_invoice i db) = iv_debits db" "iv_entries (put_invoice i db) = iv_entries db"
  "iv_outbox (put_invoice i db) = iv_outbox db"
  by (simp_all add: audit_inv_def put_invoice_def)

lemma find_invoice_Inr: "find_invoice db iid tid = Inr i \<longleftrightarrow> dget (iv_invoices db) iid = Some i \<and> inv_tenant_id i = tid"
  by (auto simp: find_invoice_def split: option.splits)

lemma generate_effect:
  assumes "generate_invoice threshold now today iid eid q db = (Inr d, db')"
  obtains s c ls tax i where "eligible_lines q db \<noteq> []" "\<forall>r \<in> set (eligible_lines q db). rev_status r \<noteq> ''INVOICED''"
    "tax = tax_evaluate (Some (or_else (ir_tax_jurisdiction q) ''NONE'')) False"
    "ls = map (invoice_line_of (ir_tenant_id q) iid (target_currency q c) (fst (locked_rate_to_base today (target_currency q c) db)) tax)
       (eligible_lines q db)"
    "i = new_invoice threshold now today iid q s c tax ls db" "iv_invoices db' = dset iid i (iv_invoices db)"
    "iv_lines db' = iv_lines db @ ls" "iv_revenue db' = mark_invoiced (eligible_lines q db) (iv_revenue db)"
    "iv_credits db' = iv_credits db" "iv_debits db' = iv_debits db" "iv_outbox db' = iv_outbox db"
    "iv_entries db' = iv_entries db @ [receivable_entry eid today i]"
    "c \<in> set (iv_customers db)" "s \<in> set (iv_shipments db)"
  using assms
  by (auto simp: generate_invoice_def Let_def filter_empty_conv dest!: find_SomeD split: option.splits if_splits)

lemma approve_invoice_effect:
  assumes "approve_invoice now iid tid actor nts db = (Inr d, db')"
  obtains (same) "db' = db" | (approve) i where "dget (iv_invoices db) iid = Some i" "inv_tenant_id i = tid" "inv_status i = ''PENDING_APPROVAL''"
    "iv_invoices db' = dset (inv_id i) (approved_invoice now actor nts i) (iv_invoices db)" "iv_lines db' = iv_lines db"
    "iv_revenue db' = iv_revenue db" "iv_credits db' = iv_credits db" "iv_debits db' = iv_debits db"
    "iv_outbox db' = iv_outbox db" "iv_entries db' = iv_entries db"
  using assms
  by (auto simp: approve_invoice_def Let_def find_invoice_Inr approved_invoice_def split: sum.splits if_splits)

lemma send_invoice_effect:
  assumes "send_invoice now iid tid actor email db = (Inr d, db')"
  obtains i addr ev where "dget (iv_invoices db) iid = Some i" "inv_tenant_id i = tid" "inv_status i \<in> {''APPROVED'', ''SENT''}"
    "iv_invoices db' = dset (inv_id i) (sent_invoice now actor addr i) (iv_invoices db)" "iv_lines db' = iv_lines db"
    "iv_revenue db' = iv_revenue db" "iv_credits db' = iv_credits db" "iv_debits db' = iv_debits db"
    "iv_outbox db' = iv_outbox db @ [ev]" "ob_aggregate_id ev = iid" "iv_entries db' = iv_entries db"
proof -
  from assms obtain i where i: "find_invoice db iid tid = Inr i" "inv_status i \<in> {''APPROVED'', ''SENT''}"
    "truthy (recipient email i db)" by (auto simp: send_invoice_def Let_def split: sum.splits if_splits)
  with assms show ?thesis
    by (intro that [of i "the (recipient email i db)"])
      (auto simp: send_invoice_def Let_def find_invoice_Inr enqueue_def sent_invoice_def)
qed

lemma credit_state_fields [simp]:
  "note_row n m e t y q (credit_state x i) = note_row n m e t y q i"
  "note_entry e ty t y w z ds q (credit_state x i) = note_entry e ty t y w z ds q i"
  "inv_id (credit_state x i) = inv_id i" "inv_number (credit_state x i) = inv_number i"
  "inv_currency_code (credit_state x i) = inv_currency_code i" "inv_total_amount (credit_state x i) = inv_total_amount i"
  "inv_tenant_id (credit_state x i) = inv_tenant_id i" "inv_approval_status (credit_state x i) = inv_approval_status i"
  "inv_approved_by (credit_state x i) = inv_approved_by i" "inv_sent_at (credit_state x i) = inv_sent_at i"
  by (simp_all add: credit_state_def note_row_def note_entry_def)

lemma credit_effect:
  assumes "create_credit_note env today eid nid q db = (Inr d, db')"
  obtains i num ccy descr where "dget (iv_invoices db) (nq_invoice_id q) = Some i" "inv_tenant_id i = nq_tenant_id q" "0 < nq_amount q"
    "nq_amount q \<le> py_round 2 (fsub (inv_total_amount i) (credited env (nq_invoice_id q) (nq_tenant_id q) db))"
    "iv_invoices db' = dset (inv_id i) (credit_state (py_round 2 (fadd (credited env (nq_invoice_id q) (nq_tenant_id q) db) (nq_amount q))) i)
       (iv_invoices db)"
    "iv_lines db' = iv_lines db" "iv_revenue db' = iv_revenue db" "iv_credits db' = iv_credits db @ [note_row nid num eid today ccy q i]"
    "iv_debits db' = iv_debits db" "iv_outbox db' = iv_outbox db"
    "iv_entries db' = iv_entries db @ [note_entry eid ''CREDIT_NOTE'' today ccy 0 (nq_amount q) descr q i]"
  using assms
  by (auto simp: create_credit_note_def Let_def find_invoice_Inr not_le not_less split: sum.splits if_splits)

lemma debit_effect:
  assumes "create_debit_note today eid nid q code ds db = (Inr d, db')"
  obtains i n ccy descr where "dget (iv_invoices db) (nq_invoice_id q) = Some i" "inv_tenant_id i = nq_tenant_id q"
    "0 < nq_amount q" "iv_invoices db' = iv_invoices db" "iv_lines db' = iv_lines db" "iv_revenue db' = iv_revenue db"
    "iv_credits db' = iv_credits db" "iv_debits db' = iv_debits db @ [n]" "nt_amount n = nq_amount q"
    "nt_financial_entry_id n = eid" "nt_tenant_id n = nq_tenant_id q" "nt_currency_code n = ccy"
    "iv_outbox db' = iv_outbox db"
    "iv_entries db' = iv_entries db @ [note_entry eid ''DEBIT_NOTE'' today ccy (nq_amount q) 0 descr q i]"
  using assms
  by (auto simp: create_debit_note_def Let_def find_invoice_Inr not_le note_row_def ar_note.defs debit_note.defs
      split: sum.splits if_splits)


text \<open>The requests considered: the identities drawn are new.\<close>

fun inv_ok :: "inv_request \<Rightarrow> inv_db \<Rightarrow> bool" where
  "inv_ok (Generate threshold now today iid eid q) db \<longleftrightarrow> iid \<notin> set (dkeys (iv_invoices db))"
| "inv_ok r db \<longleftrightarrow> True"

lemma inv_service_cases [consumes 1, case_names generate approve send credit debit]:
  assumes "inv_service env r db = (Inr x, db')"
  obtains threshold now today iid eid q d where "r = Generate threshold now today iid eid q"
      "generate_invoice threshold now today iid eid q db = (Inr d, db')"
  | now iid tid actor nts d where "r = Approve_Invoice now iid tid actor nts" "approve_invoice now iid tid actor nts db = (Inr d, db')"
  | now iid tid actor email d where "r = Send_Invoice now iid tid actor email" "send_invoice now iid tid actor email db = (Inr d, db')"
  | today eid nid q d where "r = Credit_Note today eid nid q" "create_credit_note env today eid nid q db = (Inr d, db')"
  | today eid nid q code ds d where "r = Debit_Note today eid nid q code ds" "create_debit_note today eid nid q code ds db = (Inr d, db')"
  using assms by (cases r) (auto simp: apfst_Inr)

section \<open>Revenue lines are billed once\<close>

definition billed_once :: "inv_db \<Rightarrow> bool" where
  "billed_once db \<longleftrightarrow> store_inv rev_id (iv_revenue db) \<and> distinct (map il_revenue_line_id (iv_lines db)) \<and>
     (\<forall>l \<in> set (iv_lines db). \<exists>r. dget (iv_revenue db) (il_revenue_line_id l) = Some r \<and> rev_status r = ''INVOICED'')"

lemma mark_invoiced_alt: "mark_invoiced rs d = fold (\<lambda>r. dset (rev_id r) r) (map (\<lambda>r. r\<lparr>rev_status := ''INVOICED''\<rparr>) rs) d"
  by (induction rs arbitrary: d) (simp_all add: mark_invoiced_def)

lemma store_inv_fold: "store_inv key d \<Longrightarrow> store_inv key (fold (\<lambda>r. dset (key r) r) rs d)"
  by (induction rs arbitrary: d) (simp_all add: store_inv_dset)

lemma mark_invoiced_get:
  assumes "distinct (map rev_id rs)"
  shows "dget (mark_invoiced rs d) k = (case List.find (\<lambda>r. rev_id r = k) rs of
    Some r \<Rightarrow> Some (r\<lparr>rev_status := ''INVOICED''\<rparr>) | None \<Rightarrow> dget d k)"
proof -
  let ?f = "\<lambda>r. r\<lparr>rev_status := ''INVOICED''\<rparr>"
  have "List.find (\<lambda>r. rev_id r = k) (map ?f rs) = map_option ?f (List.find (\<lambda>r. rev_id r = k) rs)"
    by (induction rs) auto
  moreover have "distinct (map rev_id (map ?f rs))" using assms by (simp add: comp_def)
  ultimately show ?thesis
    unfolding mark_invoiced_alt by (subst dget_fold_dset) (auto split: option.splits)
qed

lemma line_revenue [simp]: "il_revenue_line_id (invoice_line_of t i c r tax x) = rev_id x"
  by (simp add: invoice_line_of_def Let_def)

lemma billed_once_keeps:
  assumes inv: "billed_once db" and ok: "inv_ok r db" and s: "inv_service env r db = (Inr x, db')"
  shows "billed_once db'"
  using s
proof (cases rule: inv_service_cases)
  case (generate threshold now today iid eid q d)
  from generate(2) show ?thesis
  proof (rule generate_effect)
    fix sh c ls tax i
    let ?rs = "eligible_lines q db"
    assume new: "\<forall>r \<in> set ?rs. rev_status r \<noteq> ''INVOICED''"
      and ls: "ls = map (invoice_line_of (ir_tenant_id q) iid (target_currency q c) (fst (locked_rate_to_base today (target_currency q c) db)) tax) ?rs"
      and lines: "iv_lines db' = iv_lines db @ ls" and rev: "iv_revenue db' = mark_invoiced ?rs (iv_revenue db)"
    have si: "store_inv rev_id (iv_revenue db)" using inv by (simp add: billed_once_def)
    have sub: "set ?rs \<subseteq> set (dvalues (iv_revenue db))" by (auto simp: eligible_lines_def)
    have dist: "distinct (map rev_id ?rs)"
      using store_distinct [OF si] by (simp add: eligible_lines_def distinct_map_filter)
    have si': "store_inv rev_id (iv_revenue db')" unfolding rev mark_invoiced_alt using si by (rule store_inv_fold)
    have old: "dget (iv_revenue db) (rev_id r) = Some r" if "r \<in> set ?rs" for r
      using store_elems_iff [OF si] sub that by blast
    have disj: "il_revenue_line_id l \<noteq> rev_id r" if "l \<in> set (iv_lines db)" "r \<in> set ?rs" for l r
      using inv old [OF that(2)] new that unfolding billed_once_def by fastforce
    have "distinct (map il_revenue_line_id (iv_lines db'))"
      using inv dist disj by (auto simp: lines ls billed_once_def comp_def)
    moreover have "\<exists>r. dget (iv_revenue db') (il_revenue_line_id l) = Some r \<and> rev_status r = ''INVOICED''"
      if l: "l \<in> set (iv_lines db')" for l
    proof (cases "List.find (\<lambda>r. rev_id r = il_revenue_line_id l) ?rs")
      case (Some r)
      then show ?thesis by (simp add: rev mark_invoiced_get [OF dist])
    next
      case None
      then have "l \<notin> set ls" by (auto simp: ls find_None_iff)
      with l lines have "l \<in> set (iv_lines db)" by simp
      with inv None show ?thesis by (simp add: billed_once_def rev mark_invoiced_get [OF dist])
    qed
    ultimately show ?thesis using si' by (simp add: billed_once_def)
  qed
next
  case approve
  with inv show ?thesis by (auto elim!: approve_invoice_effect simp: billed_once_def)
next
  case send
  with inv show ?thesis by (auto elim!: send_invoice_effect simp: billed_once_def)
next
  case credit
  with inv show ?thesis by (auto elim!: credit_effect simp: billed_once_def)
next
  case debit
  with inv show ?thesis by (auto elim!: debit_effect simp: billed_once_def)
qed

interpretation billed: service_contract "inv_service env" inv_ok billed_once for env
  by unfold_locales (rule billed_once_keeps)


section \<open>Only approved invoices are sent\<close>

definition approval_ok :: "invoice \<Rightarrow> bool" where
  "approval_ok i \<longleftrightarrow>
    (inv_status i = ''PENDING_APPROVAL'' \<and> inv_approval_status i = ''PENDING'' \<and> inv_approved_by i = None \<and> inv_sent_at i = None) \<or>
    (inv_status i \<in> {''APPROVED'', ''SENT'', ''CREDITED''} \<and> inv_approval_status i = ''APPROVED'' \<and> inv_approved_by i \<noteq> None) \<or>
    (inv_status i = ''CREDITED'' \<and> inv_approval_status i = ''PENDING'' \<and> inv_approved_by i = None \<and> inv_sent_at i = None)"

definition approvals_inv :: "inv_db \<Rightarrow> bool" where
  "approvals_inv db \<longleftrightarrow> store_inv inv_id (iv_invoices db) \<and>
     (\<forall>iid i. dget (iv_invoices db) iid = Some i \<longrightarrow> approval_ok i) \<and>
     (\<forall>e \<in> set (iv_outbox db). \<exists>i. dget (iv_invoices db) (ob_aggregate_id e) = Some i \<and>
        inv_approval_status i = ''APPROVED'' \<and> inv_approved_by i \<noteq> None)"

lemma approvals_invI:
  assumes "approvals_inv db" "iv_invoices db' = dset iid i' (iv_invoices db)" "inv_id i' = iid" "approval_ok i'"
    "iv_outbox db' = iv_outbox db @ es" "\<forall>e \<in> set es. ob_aggregate_id e = iid \<and> inv_approval_status i' = ''APPROVED'' \<and> inv_approved_by i' \<noteq> None"
    "\<And>i. dget (iv_invoices db) iid = Some i \<Longrightarrow> inv_approval_status i = ''APPROVED'' \<Longrightarrow>
       inv_approval_status i' = ''APPROVED'' \<and> inv_approved_by i' \<noteq> None"
  shows "approvals_inv db'"
  unfolding approvals_inv_def
proof (intro conjI allI impI ballI)
  show "store_inv inv_id (iv_invoices db')" using assms by (simp add: approvals_inv_def store_inv_dset)
next
  fix k i assume "dget (iv_invoices db') k = Some i"
  then show "approval_ok i" using assms by (cases "k = iid") (auto simp: approvals_inv_def dget_dset)
next
  fix e assume e: "e \<in> set (iv_outbox db')"
  show "\<exists>i. dget (iv_invoices db') (ob_aggregate_id e) = Some i \<and> inv_approval_status i = ''APPROVED'' \<and> inv_approved_by i \<noteq> None"
  proof (cases "e \<in> set es")
    case True
    then show ?thesis using assms(2,6) by (simp add: dget_dset)
  next
    case False
    with e assms(5) have "e \<in> set (iv_outbox db)" by simp
    with assms(1) obtain i where "dget (iv_invoices db) (ob_aggregate_id e) = Some i"
      "inv_approval_status i = ''APPROVED''" "inv_approved_by i \<noteq> None" by (auto simp: approvals_inv_def)
    then show ?thesis using assms(2,7) by (cases "ob_aggregate_id e = iid") (auto simp: dget_dset)
  qed
qed

lemma invoice_approvals_keep:
  assumes inv: "approvals_inv db" and ok: "inv_ok r db" and s: "inv_service env r db = (Inr x, db')"
  shows "approvals_inv db'"
  using s
proof (cases rule: inv_service_cases)
  case (generate threshold now today iid eid q d)
  then have new: "dget (iv_invoices db) iid = None" using ok by (simp add: map_of_eq_None_iff)
  from generate(2) show ?thesis
    using inv new
    by (auto elim!: generate_effect intro!: approvals_invI [of db db' iid _ "[]"]
        simp: new_invoice_def Let_def approval_ok_def split: prod.splits)
next
  case (approve now iid tid actor nts d)
  from approve(2) show ?thesis
  proof (cases rule: approve_invoice_effect)
    case (approve i)
    have "inv_id i = iid" using inv approve(1) store_find_key by (force simp: approvals_inv_def)
    with approve inv show ?thesis
      by (intro approvals_invI [of db db' iid "approved_invoice now actor nts i" "[]"])
        (auto simp: approved_invoice_def approval_ok_def)
  qed (use inv in simp)
next
  case (send now iid tid actor email d)
  from send(2) obtain i addr ev where e: "dget (iv_invoices db) iid = Some i" "inv_status i \<in> {''APPROVED'', ''SENT''}"
    "iv_invoices db' = dset (inv_id i) (sent_invoice now actor addr i) (iv_invoices db)"
    "iv_outbox db' = iv_outbox db @ [ev]" "ob_aggregate_id ev = iid" by (rule send_invoice_effect)
  have i: "inv_id i = iid" using inv e(1) store_find_key by (force simp: approvals_inv_def)
  have "approval_ok i" using inv e(1) by (auto simp: approvals_inv_def)
  then have "inv_approval_status i = ''APPROVED''" "inv_approved_by i \<noteq> None" using e(2) by (auto simp: approval_ok_def)
  with e i inv show ?thesis
    by (intro approvals_invI [of db db' iid "sent_invoice now actor addr i" "[ev]"]) (auto simp: sent_invoice_def approval_ok_def)
next
  case (credit today eid nid q d)
  from credit(2) obtain i nc where e: "dget (iv_invoices db) (nq_invoice_id q) = Some i"
    "iv_invoices db' = dset (inv_id i) (credit_state nc i) (iv_invoices db)" "iv_outbox db' = iv_outbox db"
    by (rule credit_effect) blast
  have i: "inv_id i = nq_invoice_id q" using inv e(1) store_find_key by (force simp: approvals_inv_def)
  have "approval_ok i" using inv e(1) by (auto simp: approvals_inv_def)
  then have "approval_ok (credit_state nc i)" by (auto simp: approval_ok_def credit_state_def)
  moreover have "inv_approved_by i \<noteq> None" if "inv_approval_status i = ''APPROVED''"
    using \<open>approval_ok i\<close> that by (auto simp: approval_ok_def)
  ultimately show ?thesis
    using e i inv by (intro approvals_invI [of db db' "nq_invoice_id q" "credit_state nc i" "[]"]) auto
next
  case debit
  with inv show ?thesis by (auto elim!: debit_effect simp: approvals_inv_def)
qed

interpretation approvals: service_contract "inv_service env" inv_ok approvals_inv for env
  by unfold_locales (rule invoice_approvals_keep)

section \<open>The receivables ledger\<close>

lemma dvalues_new_row: "k \<notin> set (dkeys d) \<Longrightarrow> map (f \<circ> snd) (dset k v d) = map (f \<circ> snd) d @ [f v]"
  by (induction d) auto

lemma dvalues_dset_same: "dget d k = Some old \<Longrightarrow> f v = f old \<Longrightarrow> map (f \<circ> snd) (dset k v d) = map (f \<circ> snd) d"
  by (induction d) auto

lemma new_invoice_fields [simp]:
  "inv_id (new_invoice th now today iid q s c tax ls db) = iid"
  "inv_tenant_id (new_invoice th now today iid q s c tax ls db) = ir_tenant_id q"
  "inv_number (new_invoice th now today iid q s c tax ls db) =
     reference ''INV'' today (tenant_count inv_tenant_id (ir_tenant_id q) (dvalues (iv_invoices db)))"
  by (simp_all add: new_invoice_def Let_def case_prod_unfold)

definition entries_of :: "string \<Rightarrow> inv_db \<Rightarrow> fin_entry list" where
  "entries_of ty db = filter (\<lambda>e. fe_entry_type e = ty) (iv_entries db)"

definition receivables_inv :: "inv_db \<Rightarrow> bool" where
  "receivables_inv db \<longleftrightarrow> store_inv inv_id (iv_invoices db) \<and>
     map (\<lambda>e. (fe_tenant_id e, fe_debit_amount e, fe_currency_code e)) (entries_of ''INVOICE_RECEIVABLE'' db) =
       map (\<lambda>i. (inv_tenant_id i, inv_total_amount i, inv_currency_code i)) (dvalues (iv_invoices db)) \<and>
     map (\<lambda>e. (fe_id e, fe_tenant_id e, fe_credit_amount e, fe_currency_code e)) (entries_of ''CREDIT_NOTE'' db) =
       map (\<lambda>n. (nt_financial_entry_id n, nt_tenant_id n, nt_amount n, nt_currency_code n)) (iv_credits db) \<and>
     map (\<lambda>e. (fe_id e, fe_tenant_id e, fe_debit_amount e, fe_currency_code e)) (entries_of ''DEBIT_NOTE'' db) =
       map (\<lambda>n. (nt_financial_entry_id n, nt_tenant_id n, nt_amount n, nt_currency_code n)) (iv_debits db)"

lemma invoice_fields_kept [simp]:
  "inv_tenant_id (approved_invoice now a n i) = inv_tenant_id i" "inv_total_amount (approved_invoice now a n i) = inv_total_amount i"
  "inv_currency_code (approved_invoice now a n i) = inv_currency_code i" "inv_id (approved_invoice now a n i) = inv_id i"
  "inv_number (approved_invoice now a n i) = inv_number i" "inv_number (sent_invoice now a ad i) = inv_number i"
  "inv_tenant_id (sent_invoice now a ad i) = inv_tenant_id i" "inv_total_amount (sent_invoice now a ad i) = inv_total_amount i"
  "inv_currency_code (sent_invoice now a ad i) = inv_currency_code i" "inv_id (sent_invoice now a ad i) = inv_id i"
  by (simp_all add: approved_invoice_def sent_invoice_def)

lemma receivables_keep:
  assumes inv: "receivables_inv db" and ok: "inv_ok r db" and s: "inv_service env r db = (Inr x, db')"
  shows "receivables_inv db'"
proof -
  have si: "store_inv inv_id (iv_invoices db)" using inv by (simp add: receivables_inv_def)
  have key: "inv_id i = k" if "dget (iv_invoices db) k = Some i" for k i using si that by (rule store_find_key)
  from s show ?thesis
  proof (cases rule: inv_service_cases)
    case (generate threshold now today iid eid q d)
    then have new: "iid \<notin> set (dkeys (iv_invoices db))" using ok by simp
    from generate(2) show ?thesis
      using inv new
      by (auto elim!: generate_effect simp: receivables_inv_def entries_of_def store_inv_dset dvalues_new_row receivable_entry_def)
  next
    case (approve now iid tid actor nts d)
    from approve(2) show ?thesis
    proof (cases rule: approve_invoice_effect)
      case (approve i)
      with inv key [OF approve(1)] show ?thesis by (simp add: receivables_inv_def entries_of_def store_inv_dset dvalues_dset_same [OF approve(1)])
    qed (use inv in simp)
  next
    case (send now iid tid actor email d)
    from send(2) obtain i addr where e: "dget (iv_invoices db) iid = Some i"
      "iv_invoices db' = dset (inv_id i) (sent_invoice now actor addr i) (iv_invoices db)"
      "iv_credits db' = iv_credits db" "iv_debits db' = iv_debits db" "iv_entries db' = iv_entries db"
      by (rule send_invoice_effect)
    with inv key [OF e(1)] show ?thesis
      by (simp add: receivables_inv_def entries_of_def store_inv_dset dvalues_dset_same [OF e(1)])
  next
    case (credit today eid nid q d)
    from credit(2) obtain i nc num ccy descr where e: "dget (iv_invoices db) (nq_invoice_id q) = Some i"
      "iv_invoices db' = dset (inv_id i) (credit_state nc i) (iv_invoices db)" "iv_debits db' = iv_debits db"
      "iv_credits db' = iv_credits db @ [note_row nid num eid today ccy q i]"
      "iv_entries db' = iv_entries db @ [note_entry eid ''CREDIT_NOTE'' today ccy 0 (nq_amount q) descr q i]"
      by (rule credit_effect) blast
    with inv key [OF e(1)] show ?thesis
      by (simp add: receivables_inv_def entries_of_def store_inv_dset dvalues_dset_same [OF e(1)] note_row_def note_entry_def)
  next
    case debit
    with inv show ?thesis by (auto elim!: debit_effect simp: receivables_inv_def entries_of_def note_entry_def)
  qed
qed

interpretation receivables: service_contract "inv_service env" inv_ok receivables_inv for env
  by unfold_locales (rule receivables_keep)


section \<open>References\<close>

lemma dec_digits_no_dash: "0 \<le> n \<Longrightarrow> CHR ''-'' \<notin> set (dec_digits n)"
proof (induction n rule: dec_digits.induct)
  case (1 n)
  have d: "CHR ''-'' \<noteq> char_of (48 + m)" if "0 \<le> m" "m < 10" for m :: int
  proof
    assume "CHR ''-'' = char_of (48 + m)"
    then have "of_char (CHR ''-'') = (of_char (char_of (48 + m) :: char) :: int)" by simp
    then show False using that by simp
  qed
  show ?case
    using 1 d [of n] d [of "n mod 10"] by (subst dec_digits.simps) auto
qed

lemma zpad_no_dash: "0 \<le> n \<Longrightarrow> CHR ''-'' \<notin> set (zpad w n)"
  using dec_digits_no_dash by (simp add: zpad_def Let_def)

lemma after_last_dash: "CHR ''-'' \<notin> set ys \<Longrightarrow> takeWhile (\<lambda>c. c \<noteq> CHR ''-'') (rev (xs @ ''-'' @ ys)) = rev ys"
proof -
  assume "CHR ''-'' \<notin> set ys"
  then have "\<forall>x \<in> set (rev ys). x \<noteq> CHR ''-''" by (metis set_rev)
  then show ?thesis by (simp add: takeWhile_tail takeWhile_eq_all_conv)
qed

lemma reference_inj: "reference p d m = reference p' d' n \<Longrightarrow> m = n"
proof -
  assume e: "reference p d m = reference p' d' n"
  have r: "reference p d k = (p @ ''-'' @ int_str (date_year d)) @ ''-'' @ zpad 5 (int k + 1)" for p d k
    by (simp add: reference_def)
  have "rev (zpad 5 (int m + 1)) = rev (zpad 5 (int n + 1))"
    using e zpad_no_dash [of "int m + 1" 5] zpad_no_dash [of "int n + 1" 5]
    unfolding r by (metis after_last_dash add_nonneg_nonneg of_nat_0_le_iff zero_le_one)
  then have "int m + 1 = int n + 1" by (intro zpad_inj [of _ _ 5]) simp_all
  then show ?thesis by simp
qed

text \<open>The references given out for a tenant: the n-th carries the sequence number n.\<close>

definition numbered :: "string \<Rightarrow> string list \<Rightarrow> bool" where
  "numbered pre ns \<longleftrightarrow> (\<forall>n < length ns. \<exists>d. ns ! n = reference pre d n)"

lemma numbered_distinct: "numbered pre ns \<Longrightarrow> distinct ns"
  unfolding numbered_def distinct_conv_nth using reference_inj by metis

lemma numbered_snoc: "numbered pre ns \<Longrightarrow> numbered pre (ns @ [reference pre d (length ns)])"
  by (auto simp: numbered_def nth_append less_Suc_eq)

definition tenant_numbers :: "('a \<Rightarrow> string) \<Rightarrow> ('a \<Rightarrow> string) \<Rightarrow> string \<Rightarrow> 'a list \<Rightarrow> string list" where
  "tenant_numbers tenant num t rows = map num (filter (\<lambda>x. tenant x = t) rows)"

lemma tenant_numbers_new:
  assumes "\<forall>t. numbered pre (tenant_numbers tenant num t rows)" "num x = reference pre d (tenant_count tenant (tenant x) rows)"
  shows "\<forall>t. numbered pre (tenant_numbers tenant num t (rows @ [x]))"
  using assms numbered_snoc [of pre "tenant_numbers tenant num (tenant x) rows" d]
  by (simp add: tenant_numbers_def tenant_count_def)

definition numbers_inv :: "inv_db \<Rightarrow> bool" where
  "numbers_inv db \<longleftrightarrow> store_inv inv_id (iv_invoices db) \<and>
     (\<forall>t. numbered ''INV'' (tenant_numbers inv_tenant_id inv_number t (dvalues (iv_invoices db)))) \<and>
     (\<forall>t. numbered ''CN'' (tenant_numbers nt_tenant_id nt_number t (iv_credits db))) \<and>
     (\<forall>t. numbered ''DN'' (tenant_numbers nt_tenant_id nt_number t (iv_debits db)))"

lemma dvalues_new: "k \<notin> set (dkeys d) \<Longrightarrow> dvalues (dset k v d) = dvalues d @ [v]"
  by (induction d) auto

lemma tenant_numbers_same:
  "dget d k = Some old \<Longrightarrow> tenant v = tenant old \<Longrightarrow> num v = num old \<Longrightarrow>
    tenant_numbers tenant num t (dvalues (dset k v d)) = tenant_numbers tenant num t (dvalues d)"
  by (induction d) (auto simp: tenant_numbers_def split: if_splits)

lemma credit_number:
  "create_credit_note env today eid nid q db = (Inr d, db') \<Longrightarrow>
    \<exists>n. iv_credits db' = iv_credits db @ [n] \<and> nt_tenant_id n = nq_tenant_id q \<and>
      nt_number n = reference ''CN'' today (tenant_count nt_tenant_id (nq_tenant_id q) (iv_credits db))"
  by (auto simp: create_credit_note_def Let_def note_row_def split: sum.splits if_splits)

lemma debit_number:
  "create_debit_note today eid nid q code ds db = (Inr d, db') \<Longrightarrow>
    \<exists>n. iv_debits db' = iv_debits db @ [n] \<and> nt_tenant_id n = nq_tenant_id q \<and>
      nt_number n = reference ''DN'' today (tenant_count nt_tenant_id (nq_tenant_id q) (iv_debits db))"
  by (auto simp: create_debit_note_def Let_def note_row_def ar_note.defs debit_note.defs split: sum.splits if_splits)

lemma numbers_keep:
  assumes inv: "numbers_inv db" and ok: "inv_ok r db" and s: "inv_service env r db = (Inr x, db')"
  shows "numbers_inv db'"
proof -
  have si: "store_inv inv_id (iv_invoices db)" using inv by (simp add: numbers_inv_def)
  have key: "inv_id i = k" if "dget (iv_invoices db) k = Some i" for k i using si that by (rule store_find_key)
  from s show ?thesis
  proof (cases rule: inv_service_cases)
    case (generate threshold now today iid eid q d)
    then have new: "iid \<notin> set (dkeys (iv_invoices db))" using ok by simp
    from generate(2) obtain s c ls tax i where e: "i = new_invoice threshold now today iid q s c tax ls db"
      "iv_invoices db' = dset iid i (iv_invoices db)" "iv_credits db' = iv_credits db" "iv_debits db' = iv_debits db"
      by (rule generate_effect)
    have "\<forall>t. numbered ''INV'' (tenant_numbers inv_tenant_id inv_number t (dvalues (iv_invoices db) @ [i]))"
      using inv by (intro tenant_numbers_new) (simp_all add: numbers_inv_def e(1))
    with e inv show ?thesis
      unfolding numbers_inv_def e(2) dvalues_new [OF new] by (simp add: store_inv_dset)
  next
    case (approve now iid tid actor nts d)
    from approve(2) show ?thesis
    proof (cases rule: approve_invoice_effect)
      case (approve i)
      with inv key [OF approve(1)] show ?thesis by (simp add: numbers_inv_def store_inv_dset tenant_numbers_same [OF approve(1)])
    qed (use inv in simp)
  next
    case (send now iid tid actor email d)
    from send(2) obtain i addr where e: "dget (iv_invoices db) iid = Some i"
      "iv_invoices db' = dset (inv_id i) (sent_invoice now actor addr i) (iv_invoices db)"
      "iv_credits db' = iv_credits db" "iv_debits db' = iv_debits db"
      by (rule send_invoice_effect)
    with inv key [OF e(1)] show ?thesis by (simp add: numbers_inv_def store_inv_dset tenant_numbers_same [OF e(1)])
  next
    case (credit today eid nid q d)
    from credit(2) obtain i nc where e: "dget (iv_invoices db) (nq_invoice_id q) = Some i"
      "iv_invoices db' = dset (inv_id i) (credit_state nc i) (iv_invoices db)" "iv_debits db' = iv_debits db"
      by (rule credit_effect) blast
    from credit_number [OF credit(2)] obtain n where n: "iv_credits db' = iv_credits db @ [n]" "nt_tenant_id n = nq_tenant_id q"
      "nt_number n = reference ''CN'' today (tenant_count nt_tenant_id (nq_tenant_id q) (iv_credits db))" by blast
    have "\<forall>t. numbered ''CN'' (tenant_numbers nt_tenant_id nt_number t (iv_credits db @ [n]))"
      using inv n by (intro tenant_numbers_new) (simp_all add: numbers_inv_def)
    with e n inv key [OF e(1)] show ?thesis by (simp add: numbers_inv_def store_inv_dset tenant_numbers_same [OF e(1)])
  next
    case (debit today eid nid q code ds d)
    from debit_number [OF debit(2)] obtain n where n: "iv_debits db' = iv_debits db @ [n]" "nt_tenant_id n = nq_tenant_id q"
      "nt_number n = reference ''DN'' today (tenant_count nt_tenant_id (nq_tenant_id q) (iv_debits db))" by blast
    have "\<forall>t. numbered ''DN'' (tenant_numbers nt_tenant_id nt_number t (iv_debits db @ [n]))"
      using inv n by (intro tenant_numbers_new) (simp_all add: numbers_inv_def)
    moreover from debit(2) have "iv_invoices db' = iv_invoices db" "iv_credits db' = iv_credits db"
      by (auto elim: debit_effect)
    ultimately show ?thesis using n inv by (simp add: numbers_inv_def)
  qed
qed

interpretation numbers: service_contract "inv_service env" inv_ok numbers_inv for env
  by unfold_locales (rule numbers_keep)


section \<open>Credits stay within the invoice\<close>

text \<open>The requests in cents: credit amounts, and invoices from zero to the bound of \<open>Py_Money\<close>.\<close>

fun inv_cents :: "db_env \<Rightarrow> inv_request \<Rightarrow> inv_db \<Rightarrow> bool" where
  "inv_cents env (Generate threshold now today iid eid q) db \<longleftrightarrow>
     (case fst (generate_invoice threshold now today iid eid q db) of
        Inl e \<Rightarrow> True | Inr d \<Rightarrow> 0 \<le> inv_total_amount (id_invoice d) \<and> inv_total_amount (id_invoice d) < cent money_bound)"
| "inv_cents env (Credit_Note today eid nid q) db \<longleftrightarrow> (\<exists>k. nq_amount q = cent k \<and> \<bar>k\<bar> \<le> money_bound)"
| "inv_cents env r db \<longleftrightarrow> True"

definition credits_of :: "inv_db \<Rightarrow> string \<Rightarrow> ar_note list" where
  "credits_of db iid = filter (\<lambda>n. nt_invoice_id n = iid) (iv_credits db)"

definition credit_ok :: "ar_note list \<Rightarrow> invoice \<Rightarrow> bool" where
  "credit_ok ns i \<longleftrightarrow> (\<exists>T ks. 0 \<le> T \<and> T < money_bound \<and> inv_total_amount i = cent T \<and> map nt_amount ns = map cent ks \<and>
     (\<forall>k \<in> set ks. 0 < k) \<and> sum_list ks \<le> T \<and> (inv_status i = ''CREDITED'' \<longleftrightarrow> 0 < T \<and> sum_list ks = T) \<and>
     (\<forall>n \<in> set ns. nt_tenant_id n = inv_tenant_id i \<and> nt_status n = ''ISSUED''))"

definition credits_inv :: "inv_db \<Rightarrow> bool" where
  "credits_inv db \<longleftrightarrow> store_inv inv_id (iv_invoices db) \<and> nt_invoice_id ` set (iv_credits db) \<subseteq> set (dkeys (iv_invoices db)) \<and>
     (\<forall>iid i. dget (iv_invoices db) iid = Some i \<longrightarrow> credit_ok (credits_of db iid) i)"

lemma credits_invI:
  assumes "credits_inv db" "inv_id i' = iid" "credit_ok (credits_of db' iid) i'" "iv_invoices db' = dset iid i' (iv_invoices db)"
    "iv_credits db' = iv_credits db @ ns" "\<forall>n \<in> set ns. nt_invoice_id n = iid"
  shows "credits_inv db'"
proof -
  have keys: "set (dkeys (iv_invoices db')) = insert iid (set (dkeys (iv_invoices db)))"
    using assms(4) by (auto simp: AList.update_keys)
  have "credit_ok (credits_of db' k) i" if "dget (iv_invoices db') k = Some i" for k i
  proof (cases "k = iid")
    case True
    with that assms(3,4) show ?thesis by (simp add: dget_dset)
  next
    case False
    with assms(5,6) have "credits_of db' k = credits_of db k" by (auto simp: credits_of_def filter_empty_conv)
    with False that assms(1,4) show ?thesis by (simp add: credits_inv_def dget_dset)
  qed
  with assms keys show ?thesis by (auto simp: credits_inv_def store_inv_dset)
qed

lemma credits_inv_get: "credits_inv db \<Longrightarrow> dget (iv_invoices db) iid = Some i \<Longrightarrow> inv_id i = iid \<and> credit_ok (credits_of db iid) i"
  using store_find_key by (force simp: credits_inv_def)

lemma credit_ok_status:
  "credit_ok ns i \<Longrightarrow> inv_total_amount j = inv_total_amount i \<Longrightarrow> inv_tenant_id j = inv_tenant_id i \<Longrightarrow>
    (inv_status j = ''CREDITED'') = (inv_status i = ''CREDITED'') \<Longrightarrow> credit_ok ns j"
  by (simp add: credit_ok_def)

lemma rounded_cents: "py_round 2 x = cent (rhe (x * 100))"
  by (simp add: py_round_def cent_def)

lemma credits_keep_generate:
  assumes inv: "credits_inv db" and new: "iid \<notin> set (dkeys (iv_invoices db))"
    and c: "inv_cents env (Generate threshold now today iid eid q) db"
    and g: "generate_invoice threshold now today iid eid q db = (Inr d, db')"
  shows "credits_inv db'"
proof -
  from g obtain s cu ls tax i where i: "i = new_invoice threshold now today iid q s cu tax ls db"
    "iv_invoices db' = dset iid i (iv_invoices db)" "iv_credits db' = iv_credits db" by (rule generate_effect)
  have "get_invoice db' iid (ir_tenant_id q) = Inr d"
    using g by (auto simp: generate_invoice_def Let_def split: option.splits if_splits)
  then have d: "id_invoice d = i" using i(2) by (auto simp: get_invoice_def res_simps find_invoice_Inr dget_dset Let_def)
  define T where "T = rhe (fadd (fold (\<lambda>l x. fadd x (il_amount l)) ls 0) (fold (\<lambda>l x. fadd x (il_tax_amount l)) ls 0) * 100)"
  have tot: "inv_total_amount i = cent T"
    unfolding i(1) T_def by (simp add: new_invoice_def Let_def case_prod_unfold rounded_cents)
  have b: "0 \<le> cent T" "cent T < cent money_bound" using c g tot d by auto
  have "0 \<le> T"
  proof (rule ccontr)
    assume "\<not> 0 \<le> T"
    then have "cent T \<le> cent (-1)" by (intro cent_mono) simp
    also have "cent (-1) < cent 0" by (rule cent_less) (simp_all add: money_bound_def)
    finally show False using b by simp
  qed
  moreover have "T < money_bound" using b(2) cent_mono [of money_bound T] by linarith
  moreover have "inv_status i \<noteq> ''CREDITED''" unfolding i(1) by (simp add: new_invoice_def Let_def case_prod_unfold)
  moreover have none: "credits_of db' iid = []"
  proof -
    have "iid \<notin> nt_invoice_id ` set (iv_credits db)" using inv new by (auto simp: credits_inv_def)
    then have "\<forall>n \<in> set (iv_credits db). nt_invoice_id n \<noteq> iid" by (metis imageI)
    then show ?thesis by (simp add: credits_of_def i(3) filter_empty_conv)
  qed
  ultimately have "credit_ok (credits_of db' iid) i"
    unfolding credit_ok_def none using tot by (intro exI [of _ T] exI [of _ "[]"]) auto
  then show ?thesis using inv i by (intro credits_invI [of db i iid db' "[]"]) simp_all
qed

lemma credits_keep_credit:
  assumes ex: "exact_sums env" and inv: "credits_inv db" and c: "inv_cents env (Credit_Note today eid nid q) db"
    and g: "create_credit_note env today eid nid q db = (Inr d, db')"
  shows "credits_inv db'"
proof -
  let ?iid = "nq_invoice_id q"
  let ?cr = "credited env ?iid (nq_tenant_id q) db"
  from g obtain i num ccy where e: "dget (iv_invoices db) ?iid = Some i" "inv_tenant_id i = nq_tenant_id q" "0 < nq_amount q"
    "nq_amount q \<le> py_round 2 (fsub (inv_total_amount i) ?cr)"
    "iv_invoices db' = dset (inv_id i) (credit_state (py_round 2 (fadd ?cr (nq_amount q))) i) (iv_invoices db)"
    "iv_credits db' = iv_credits db @ [note_row nid num eid today ccy q i]"
    by (rule credit_effect)
  from credits_inv_get [OF inv e(1)] have k: "inv_id i = ?iid" and ok: "credit_ok (credits_of db ?iid) i" by auto
  from ok obtain T ks where h: "0 \<le> T" "T < money_bound" "inv_total_amount i = cent T"
    "map nt_amount (credits_of db ?iid) = map cent ks" "\<forall>k \<in> set ks. 0 < k" "sum_list ks \<le> T"
    "inv_status i = ''CREDITED'' \<longleftrightarrow> 0 < T \<and> sum_list ks = T"
    "\<forall>n \<in> set (credits_of db ?iid). nt_tenant_id n = inv_tenant_id i \<and> nt_status n = ''ISSUED''"
    unfolding credit_ok_def by blast
  have nn: "0 \<le> sum_list ks" using h(5) by (intro sum_list_nonneg_int) auto
  have "filter (\<lambda>n. nt_invoice_id n = ?iid \<and> nt_tenant_id n = nq_tenant_id q \<and> nt_status n \<noteq> ''CANCELLED'') (iv_credits db) =
      credits_of db ?iid"
    using h(8) e(2) by (auto simp: credits_of_def intro!: filter_cong)
  then have "?cr = db_sum env (map cent ks)" by (simp add: credited_def h(4))
  then have cr: "?cr = cent (sum_list ks)" using ex h(2,5,6) by (force simp: exact_sums_def)
  from c obtain m where m: "nq_amount q = cent m" "\<bar>m\<bar> \<le> money_bound" by auto
  have m0: "0 < m" using e(3) m cent_mono [of m 0] by (cases "0 < m") auto
  have bd: "\<bar>T\<bar> \<le> money_bound" "\<bar>sum_list ks\<bar> \<le> money_bound" "\<bar>T - sum_list ks\<bar> \<le> money_bound" using h nn by auto
  have "cent m \<le> cent (T - sum_list ks)" using e(4) cent_sub [OF bd] by (simp add: cr h(3) m)
  then have le: "sum_list ks + m \<le> T" using cent_le_iff [OF m(2) bd(3)] by simp
  have new: "py_round 2 (fadd ?cr (nq_amount q)) = cent (sum_list ks + m)"
    using cent_add [OF bd(2) m(2)] le h(2) m0 nn by (simp add: cr m)
  have full: "inv_total_amount i \<le> cent (sum_list ks + m) \<longleftrightarrow> sum_list ks + m = T"
    using cent_le_iff [of T "sum_list ks + m"] h(2) le m0 nn by (auto simp: h(3))
  let ?n = "note_row nid num eid today ccy q i" and ?i = "credit_state (cent (sum_list ks + m)) i"
  have n: "nt_invoice_id ?n = ?iid" "nt_amount ?n = cent m" "nt_tenant_id ?n = inv_tenant_id i" "nt_status ?n = ''ISSUED''"
    using e(2) m by (simp_all add: note_row_def)
  have cs: "credits_of db' ?iid = credits_of db ?iid @ [?n]" using e(6) n by (simp add: credits_of_def)
  have st: "inv_status ?i = ''CREDITED'' \<longleftrightarrow> 0 < T \<and> sum_list ks + m = T"
    using full h(7) le m0 nn by (auto simp: credit_state_def)
  have "credit_ok (credits_of db ?iid @ [?n]) ?i"
    unfolding credit_ok_def using h n st le m0 by (intro exI [of _ T] exI [of _ "ks @ [m]"]) auto
  then show ?thesis
    using inv e(5,6) cs n k new by (intro credits_invI [of db ?i ?iid db' "[?n]"]) auto
qed

lemma credits_keep:
  assumes ex: "exact_sums env" and inv: "credits_inv db" and ok: "inv_ok r db \<and> inv_cents env r db"
    and s: "inv_service env r db = (Inr x, db')"
  shows "credits_inv db'"
  using s
proof (cases rule: inv_service_cases)
  case (generate threshold now today iid eid q d)
  have "iid \<notin> set (dkeys (iv_invoices db))" "inv_cents env (Generate threshold now today iid eid q) db"
    using ok by (simp_all only: generate(1) inv_ok.simps simp_thms)
  then show ?thesis using credits_keep_generate [OF inv _ _ generate(2)] by blast
next
  case (approve now iid tid actor nts d)
  from approve(2) show ?thesis
  proof (cases rule: approve_invoice_effect)
    case (approve i)
    from credits_inv_get [OF inv approve(1)] have "inv_id i = iid" "credit_ok (credits_of db iid) i" by auto
    moreover have "credits_of db' iid = credits_of db iid" using approve by (simp add: credits_of_def)
    ultimately show ?thesis
      using approve inv by (intro credits_invI [of db "approved_invoice now actor nts i" iid db' "[]"])
        (auto intro: credit_ok_status simp: approved_invoice_def)
  qed (use inv in simp)
next
  case (send now iid tid actor email d)
  from send(2) obtain i addr where e: "dget (iv_invoices db) iid = Some i" "inv_status i \<in> {''APPROVED'', ''SENT''}"
    "iv_invoices db' = dset (inv_id i) (sent_invoice now actor addr i) (iv_invoices db)" "iv_credits db' = iv_credits db"
    by (rule send_invoice_effect)
  from credits_inv_get [OF inv e(1)] have "inv_id i = iid" "credit_ok (credits_of db iid) i" by auto
  moreover have "credits_of db' iid = credits_of db iid" using e by (simp add: credits_of_def)
  ultimately show ?thesis
    using e inv by (intro credits_invI [of db "sent_invoice now actor addr i" iid db' "[]"])
      (auto intro: credit_ok_status simp: sent_invoice_def)
next
  case (credit today eid nid q d)
  have "inv_cents env (Credit_Note today eid nid q) db" using ok by (simp only: credit(1) simp_thms)
  then show ?thesis using credits_keep_credit [OF ex inv _ credit(2)] by blast
next
  case debit
  from debit(2) have "iv_invoices db' = iv_invoices db" "iv_credits db' = iv_credits db" by (auto elim: debit_effect)
  with inv show ?thesis by (simp add: credits_inv_def credits_of_def)
qed

interpretation credits: service_contract "inv_service env" "\<lambda>r db. inv_ok r db \<and> inv_cents env r db"
    "\<lambda>db. exact_sums env \<and> credits_inv db" for env
  by unfold_locales (use credits_keep in blast)

section \<open>Properties\<close>

text \<open>A database in which nothing has been invoiced yet.\<close>

definition no_invoices :: "inv_db \<Rightarrow> bool" where
  "no_invoices db \<longleftrightarrow> iv_invoices db = [] \<and> iv_lines db = [] \<and> iv_credits db = [] \<and> iv_debits db = [] \<and>
     iv_entries db = [] \<and> iv_outbox db = [] \<and> store_inv rev_id (iv_revenue db)"

text \<open>
  C10: No revenue line is ever invoiced twice, whatever lines the requests name: each is on at most one
  invoice line, and every line on an invoice is marked INVOICED.
\<close>

theorem revenue_billed_once:
  assumes "no_invoices start" and "reached (inv_service env) inv_ok start db"
  shows "distinct (map il_revenue_line_id (iv_lines db)) \<and>
    (\<forall>l \<in> set (iv_lines db). \<exists>r. dget (iv_revenue db) (il_revenue_line_id l) = Some r \<and> rev_status r = ''INVOICED'')"
  using billed.reached_inv [OF assms(2)] assms(1) by (simp add: no_invoices_def billed_once_def)

text \<open>
  C6: As long as credit notes are in whole cents, they never exceed their invoice, and an invoice is
  CREDITED exactly when its positive total has been credited in full. The hypothesis \<open>inv_cents\<close> on
  the requests says that a credit note is in cents within \<open>money_bound\<close> and that an invoice is
  generated with a total from zero to below it; \<open>inv_ok\<close> that identities are new. Fractions of a
  cent, which the schema accepts, are not covered: \<open>fraction_of_a_cent_overcredits\<close> shows why.
\<close>

theorem credits_within_invoice:
  assumes "exact_sums env" and "no_invoices start"
    and "reached (inv_service env) (\<lambda>r db. inv_ok r db \<and> inv_cents env r db) start db"
    and "dget (iv_invoices db) iid = Some i"
  defines "given \<equiv> sum_list (map (cents_of \<circ> nt_amount) (credits_of db iid))"
  shows "given \<le> cents_of (inv_total_amount i) \<and>
    (inv_status i = ''CREDITED'' \<longleftrightarrow> 0 < cents_of (inv_total_amount i) \<and> given = cents_of (inv_total_amount i))"
proof -
  have "credits_inv start" using assms(2) by (simp add: no_invoices_def credits_inv_def)
  then have inv: "credits_inv db" using credits.reached_inv [OF assms(3)] assms(1) by simp
  have "credit_ok (credits_of db iid) i" using credits_inv_get [OF inv assms(4)] by simp
  then obtain T ks where h: "0 \<le> T" "T < money_bound" "inv_total_amount i = cent T"
    "map nt_amount (credits_of db iid) = map cent ks" "\<forall>k \<in> set ks. 0 < k" "sum_list ks \<le> T"
    "inv_status i = ''CREDITED'' \<longleftrightarrow> 0 < T \<and> sum_list ks = T" unfolding credit_ok_def by blast
  have "map (cents_of \<circ> nt_amount) (credits_of db iid) = map cents_of (map nt_amount (credits_of db iid))" by simp
  also have "sum_list \<dots> = sum_list ks" unfolding h(4) using h(2,5,6) by (intro sum_cents_of) auto
  finally have s: "given = sum_list ks" by (simp add: given_def)
  have "cents_of (inv_total_amount i) = T" using h by simp
  with s h show ?thesis by simp
qed

text \<open>
  The creditable amount is rounded to cents and the amount of a note is not: on every invoice of
  100.00 without credits the service issues a note of 0.004 and then one of 100.00.
\<close>

lemma credit_possible:
  assumes "dget (iv_invoices db) (nq_invoice_id q) = Some i" "inv_tenant_id i = nq_tenant_id q" "0 < nq_amount q"
    "\<not> bad_reason (nq_reason q)" "0 < py_round 2 (fsub (inv_total_amount i) (credited env (nq_invoice_id q) (nq_tenant_id q) db))"
    "nq_amount q \<le> py_round 2 (fsub (inv_total_amount i) (credited env (nq_invoice_id q) (nq_tenant_id q) db))"
  shows "\<exists>d db'. create_credit_note env today eid nid q db = (Inr d, db')"
  using assms by (simp add: create_credit_note_def find_invoice_def Let_def)

theorem fraction_of_a_cent_overcredits:
  assumes i: "dget (iv_invoices db) iid = Some i" "inv_id i = iid" "inv_total_amount i = 100" and none: "credits_of db iid = []"
    and env: "db_sum env [] = 0" "db_sum env [flit (4 / 1000)] = flit (4 / 1000)"
    and q1: "nq_invoice_id q1 = iid" "nq_tenant_id q1 = inv_tenant_id i" "nq_amount q1 = flit (4 / 1000)" "\<not> bad_reason (nq_reason q1)"
    and q2: "nq_invoice_id q2 = iid" "nq_tenant_id q2 = inv_tenant_id i" "nq_amount q2 = 100" "\<not> bad_reason (nq_reason q2)"
  shows "\<exists>d1 db1 d2 db2. create_credit_note env today eid nid q1 db = (Inr d1, db1) \<and>
    create_credit_note env today eid' nid' q2 db1 = (Inr d2, db2) \<and>
    inv_total_amount i < sum_list (map nt_amount (credits_of db2 iid))"
proof -
  have cr: "credited env iid (inv_tenant_id i) db' = db_sum env (map nt_amount (credits_of db' iid))"
    if "\<forall>n \<in> set (credits_of db' iid). nt_tenant_id n = inv_tenant_id i \<and> nt_status n = ''ISSUED''" for db'
  proof -
    have "filter (\<lambda>n. nt_invoice_id n = iid \<and> nt_tenant_id n = inv_tenant_id i \<and> nt_status n \<noteq> ''CANCELLED'') (iv_credits db') =
        credits_of db' iid"
      using that by (auto simp: credits_of_def intro!: filter_cong)
    then show ?thesis by (simp add: credited_def)
  qed
  have e: "credited env iid (inv_tenant_id i) db = 0" using cr none env(1) by simp
  obtain d1 db1 where y1: "create_credit_note env today eid nid q1 db = (Inr d1, db1)"
    using credit_possible [of db q1 i env today eid nid] i q1 e fraction_arith by auto
  from y1 obtain num ccy where db1: "iv_invoices db1 = dset iid (credit_state 0 i) (iv_invoices db)"
      "iv_credits db1 = iv_credits db @ [note_row nid num eid today ccy q1 i]"
    by (rule credit_effect) (use i q1 e fraction_arith in auto)
  have l1: "credits_of db1 iid = [note_row nid num eid today ccy q1 i]"
    using none q1 db1(2) by (simp add: credits_of_def note_row_def)
  have e1: "credited env iid (inv_tenant_id i) db1 = flit (4 / 1000)"
    using cr [of db1] l1 q1 env(2) by (simp add: note_row_def)
  have i1: "credit_state 0 i = i" using i by (simp add: credit_state_def)
  have g1: "dget (iv_invoices db1) iid = Some i" using db1(1) i1 by (simp add: dget_dset)
  obtain d2 db2 where y2: "create_credit_note env today eid' nid' q2 db1 = (Inr d2, db2)"
    using credit_possible [of db1 q2 i env today eid' nid'] g1 i q2 e1 fraction_arith by auto
  from y2 obtain num' ccy' where "iv_credits db2 = iv_credits db1 @ [note_row nid' num' eid' today ccy' q2 i]"
    by (rule credit_effect) (use g1 i q2 in auto)
  then have "credits_of db2 iid = [note_row nid num eid today ccy q1 i, note_row nid' num' eid' today ccy' q2 i]"
    using l1 q2 by (simp add: credits_of_def note_row_def)
  then have "sum_list (map nt_amount (credits_of db2 iid)) = flit (4 / 1000) + 100"
    using q1 q2 by (simp add: note_row_def)
  with y1 y2 i(3) fraction_arith(1) show ?thesis by auto
qed

text \<open>
  Every invoice announced to the customer has been approved by a recorded user, and remains
  approved; an invoice that waits for approval has not been sent.
\<close>

theorem sent_invoices_are_approved:
  assumes "no_invoices start" and "reached (inv_service env) inv_ok start db"
  shows "(\<forall>e \<in> set (iv_outbox db). \<exists>i. dget (iv_invoices db) (ob_aggregate_id e) = Some i \<and>
      inv_approval_status i = ''APPROVED'' \<and> inv_approved_by i \<noteq> None) \<and>
    (\<forall>iid i. dget (iv_invoices db) iid = Some i \<longrightarrow> inv_status i = ''PENDING_APPROVAL'' \<longrightarrow> inv_sent_at i = None)"
proof -
  have "approvals_inv db"
    using approvals.reached_inv [OF assms(2)] assms(1) by (simp add: no_invoices_def approvals_inv_def)
  moreover have "inv_sent_at i = None" if "approval_ok i" "inv_status i = ''PENDING_APPROVAL''" for i
    using that by (auto simp: approval_ok_def)
  ultimately show ?thesis unfolding approvals_inv_def by blast
qed

text \<open>Invoice, credit note and debit note references are unique within a tenant.\<close>

theorem references_unique:
  assumes "no_invoices start" and "reached (inv_service env) inv_ok start db"
  shows "distinct (map inv_number (filter (\<lambda>i. inv_tenant_id i = t) (dvalues (iv_invoices db)))) \<and>
    distinct (map nt_number (filter (\<lambda>n. nt_tenant_id n = t) (iv_credits db))) \<and>
    distinct (map nt_number (filter (\<lambda>n. nt_tenant_id n = t) (iv_debits db)))"
proof -
  have "numbers_inv start" using assms(1) by (simp add: no_invoices_def numbers_inv_def numbered_def tenant_numbers_def)
  then have "numbers_inv db" using numbers.reached_inv [OF assms(2)] by simp
  then show ?thesis using numbered_distinct unfolding numbers_inv_def tenant_numbers_def by blast
qed

text \<open>
  The ledger mirrors the receivables: one entry per invoice with its total, in order, one per credit
  note and one per debit note with its amount; approval and sending post nothing.
\<close>

theorem ledger_mirrors_receivables:
  assumes "no_invoices start" and "reached (inv_service env) inv_ok start db"
  shows "map (\<lambda>e. (fe_tenant_id e, fe_debit_amount e, fe_currency_code e)) (entries_of ''INVOICE_RECEIVABLE'' db) =
      map (\<lambda>i. (inv_tenant_id i, inv_total_amount i, inv_currency_code i)) (dvalues (iv_invoices db)) \<and>
    map (\<lambda>e. (fe_id e, fe_tenant_id e, fe_credit_amount e, fe_currency_code e)) (entries_of ''CREDIT_NOTE'' db) =
      map (\<lambda>n. (nt_financial_entry_id n, nt_tenant_id n, nt_amount n, nt_currency_code n)) (iv_credits db) \<and>
    map (\<lambda>e. (fe_id e, fe_tenant_id e, fe_debit_amount e, fe_currency_code e)) (entries_of ''DEBIT_NOTE'' db) =
      map (\<lambda>n. (nt_financial_entry_id n, nt_tenant_id n, nt_amount n, nt_currency_code n)) (iv_debits db)"
proof -
  have "receivables_inv start" using assms(1) by (simp add: no_invoices_def receivables_inv_def entries_of_def)
  then have "receivables_inv db" using receivables.reached_inv [OF assms(2)] by simp
  then show ?thesis by (simp add: receivables_inv_def)
qed

end
