(* ===== verification/Invoicing_Totals.thy ===== *)
theory Invoicing_Totals
  imports Invoicing_Life
begin

text \<open>
  The amounts of generated invoices: exact totals and taxes for revenue in cents and in the
  currency of the invoice, what the conversion of other currencies does, and a worked invoice
  that the invariants of \<open>Invoicing_Life\<close> are applied to.
\<close>

section \<open>Tax in cents\<close>

text \<open>The whole percentage a jurisdiction charges.\<close>

definition tax_percent :: "string \<Rightarrow> int" where
  "tax_percent j = (case dget [(''PK'', 16), (''SA'', 15), (''AE'', 5)] (py_upper (py_strip j)) of None \<Rightarrow> 0 | Some r \<Rightarrow> r)"

lemma tax_literals: "dec_of_flt (flit (16 / 100)) = 16 / 100" "dec_of_flt (flit (15 / 100)) = 15 / 100"
  "dec_of_flt (flit (5 / 100)) = 5 / 100" "0 < flit (16 / 100)" "0 < flit (15 / 100)" "0 < flit (5 / 100)"
proof -
  have "(dec_of_flt (flit (16 / 100)) = 16 / 100) \<and> (dec_of_flt (flit (15 / 100)) = 15 / 100) \<and> (dec_of_flt (flit (5 / 100)) = 5 / 100) \<and> (0 < flit (16 / 100)) \<and> (0 < flit (15 / 100)) \<and> (0 < flit (5 / 100))" by code_simp
  then show "dec_of_flt (flit (16 / 100)) = 16 / 100" "dec_of_flt (flit (15 / 100)) = 15 / 100" "dec_of_flt (flit (5 / 100)) = 5 / 100" "0 < flit (16 / 100)" "0 < flit (15 / 100)" "0 < flit (5 / 100)" by blast+
qed

lemma tax_cases:
  assumes "j \<noteq> []"
  shows "(te_applicable (tax_evaluate (Some j) False) \<and> 0 < te_tax_rate (tax_evaluate (Some j) False) \<and>
     dec_of_flt (te_tax_rate (tax_evaluate (Some j) False)) = of_int (tax_percent j) / 100 \<and> 0 < tax_percent j \<and> tax_percent j \<le> 100) \<or>
    (\<not> te_applicable (tax_evaluate (Some j) False) \<and> tax_percent j = 0)"
proof -
  have p: "\<not> flit (16 / 100) \<le> 0" "\<not> flit (15 / 100) \<le> 0" "\<not> flit (5 / 100) \<le> 0" using tax_literals by linarith+
  show ?thesis
    using assms tax_literals by (auto simp: tax_evaluate_def tax_rules_def tax_percent_def Let_def)
qed

definition tax_cents :: "string \<Rightarrow> int \<Rightarrow> int" where
  "tax_cents j k = (k * tax_percent j + 50) div 100"

text \<open>The tax of an amount in cents is the percentage, rounded to cents with halves up.\<close>

lemma compute_tax_exact:
  assumes "j \<noteq> []" "0 \<le> k" "k < money_bound"
  shows "compute_tax (tax_evaluate (Some j) False) (cent k) = cent (tax_cents j k)"
  using tax_cases [OF assms(1)]
proof
  assume a: "te_applicable (tax_evaluate (Some j) False) \<and> 0 < te_tax_rate (tax_evaluate (Some j) False) \<and>
     dec_of_flt (te_tax_rate (tax_evaluate (Some j) False)) = of_int (tax_percent j) / 100 \<and> 0 < tax_percent j \<and> tax_percent j \<le> 100"
  then have "quantize_cents (drnd (of_int k / 100 * (of_int (tax_percent j) / 100))) = of_int (tax_cents j k) / 100"
    unfolding tax_cents_def using a by (intro percent_exact [OF assms(2,3)]) auto
  moreover have "dec_of_flt (cent k) * dec_of_flt (te_tax_rate (tax_evaluate (Some j) False)) =
      of_int k / 100 * (of_int (tax_percent j) / 100)" using a dec_of_cent [OF assms(2,3)] by (simp only:)
  ultimately have "quantize_cents (drnd (dec_of_flt (cent k) * dec_of_flt (te_tax_rate (tax_evaluate (Some j) False)))) =
      of_int (tax_cents j k) / 100" by (simp only:)
  moreover have "\<not> (\<not> te_applicable (tax_evaluate (Some j) False) \<or> te_tax_rate (tax_evaluate (Some j) False) \<le> 0)"
    using a by linarith
  ultimately show ?thesis unfolding compute_tax_def by (simp only: if_False cent_def)
qed (simp add: compute_tax_def tax_cents_def)

lemma tax_cents_bounds: "j \<noteq> [] \<Longrightarrow> 0 \<le> k \<Longrightarrow> 0 \<le> tax_cents j k \<and> tax_cents j k \<le> k"
proof -
  assume "j \<noteq> []" and k: "0 \<le> k"
  then have p: "0 \<le> tax_percent j" "tax_percent j \<le> 16"
    by (auto simp: tax_percent_def split: option.splits)
  then have "0 \<le> k * tax_percent j" "k * tax_percent j \<le> k * 16" using k by (auto intro: mult_left_mono)
  then show ?thesis using k unfolding tax_cents_def by auto
qed

section \<open>Totals\<close>

text \<open>Revenue lines of \<open>ks\<close> cents in the currency of the invoice.\<close>

definition revenue_cents :: "string \<Rightarrow> revenue_line list \<Rightarrow> int list \<Rightarrow> bool" where
  "revenue_cents ccy rs ks \<longleftrightarrow> map rev_amount rs = map cent ks \<and> (\<forall>r \<in> set rs. or_else (rev_currency_code r) ''USD'' = ccy) \<and>
     (\<forall>k \<in> set ks. 0 \<le> k) \<and> 2 * sum_list ks < money_bound \<and> length ks \<le> 1000"

lemma line_cents:
  assumes "rev_amount r = cent k" "or_else (rev_currency_code r) ''USD'' = ccy" "0 \<le> k" "2 * k < money_bound" "j \<noteq> []"
  shows "il_amount (invoice_line_of t i ccy rate (tax_evaluate (Some j) False) r) = cent k"
    "il_tax_amount (invoice_line_of t i ccy rate (tax_evaluate (Some j) False) r) = cent (tax_cents j k)"
    "il_total_amount (invoice_line_of t i ccy rate (tax_evaluate (Some j) False) r) = cent (k + tax_cents j k)"
proof -
  note b = tax_cents_bounds [OF assms(5,3)]
  have tx: "compute_tax (tax_evaluate (Some j) False) (cent k) = cent (tax_cents j k)"
    using assms by (intro compute_tax_exact) auto
  show "il_amount (invoice_line_of t i ccy rate (tax_evaluate (Some j) False) r) = cent k"
    "il_tax_amount (invoice_line_of t i ccy rate (tax_evaluate (Some j) False) r) = cent (tax_cents j k)"
    using assms(1,2) tx by (simp_all add: invoice_line_of_def Let_def)
  show "il_total_amount (invoice_line_of t i ccy rate (tax_evaluate (Some j) False) r) = cent (k + tax_cents j k)"
    using assms tx b cent_add [of k "tax_cents j k"] by (simp add: invoice_line_of_def Let_def)
qed

lemma lines_cents:
  assumes "j \<noteq> []" "map rev_amount rs = map cent ks" "\<forall>r \<in> set rs. or_else (rev_currency_code r) ''USD'' = ccy"
    "\<forall>k \<in> set ks. 0 \<le> k \<and> 2 * k < money_bound"
    "ls = map (invoice_line_of t i ccy rate (tax_evaluate (Some j) False)) rs"
  shows "map il_amount ls = map cent ks \<and> map il_tax_amount ls = map cent (map (tax_cents j) ks) \<and>
    map il_total_amount ls = map (\<lambda>k. cent (k + tax_cents j k)) ks"
  using assms(2-4) unfolding assms(5)
proof (induction rs arbitrary: ks)
  case (Cons r rs)
  then obtain k ks' where ks: "ks = k # ks'" by (cases ks) auto
  with Cons.prems have h: "rev_amount r = cent k" "or_else (rev_currency_code r) ''USD'' = ccy" "0 \<le> k" "2 * k < money_bound" by auto
  from Cons.IH [of ks'] Cons.prems ks show ?case using line_cents [OF h assms(1)] by simp
qed simp

lemma fold_cents:
  assumes "map f ls = map cent ks" "\<forall>k \<in> set ks. 0 \<le> k" "sum_list ks \<le> money_bound" "length ks \<le> 1000"
  shows "near (2 * length ks) (fold (\<lambda>l x. fadd x (f l)) ls 0) (sum_list ks)"
proof -
  have "fold (\<lambda>l x. fadd x (f l)) ls (0::flt) = fold (\<lambda>y x. fadd x y) (map f ls) 0" by (simp add: fold_map comp_def)
  also have "\<dots> = fold (\<lambda>c s. fadd s (cent c)) ks 0" by (simp add: assms(1) fold_map comp_def)
  finally have f: "fold (\<lambda>l x. fadd x (f l)) ls 0 = fold (\<lambda>c s. fadd s (cent c)) ks 0" .
  have "map abs ks = ks" using assms(2) by (intro map_idI) auto
  then have "near (0 + 2 * length ks) (fold (\<lambda>c s. fadd s (cent c)) ks 0) (0 + sum_list ks)"
    using assms by (intro near_fold) auto
  then show ?thesis by (simp add: f)
qed

lemma totals_of:
  assumes "generate_invoice threshold now today iid eid q db = (Inr d, db')"
    and "revenue_cents (inv_currency_code (id_invoice d)) (eligible_lines q db) ks"
    and "iid \<notin> il_invoice_id ` set (iv_lines db)"
  defines "j \<equiv> or_else (ir_tax_jurisdiction q) ''NONE''"
  shows "map il_amount (id_lines d) = map cent ks \<and> map il_tax_amount (id_lines d) = map (cent \<circ> tax_cents j) ks \<and>
    map il_total_amount (id_lines d) = map (\<lambda>k. cent (k + tax_cents j k)) ks \<and>
    inv_total_amount (id_invoice d) = cent (sum_list ks + sum_list (map (tax_cents j) ks)) \<and>
    (inv_status (id_invoice d) = ''APPROVED'' \<longleftrightarrow> cent (sum_list ks + sum_list (map (tax_cents j) ks)) \<le> threshold)"
proof -
  from assms(1) obtain s c ls i where e: "ls = map (invoice_line_of (ir_tenant_id q) iid (target_currency q c)
       (fst (locked_rate_to_base today (target_currency q c) db)) (tax_evaluate (Some j) False)) (eligible_lines q db)"
    "i = new_invoice threshold now today iid q s c (tax_evaluate (Some j) False) ls db"
    "iv_invoices db' = dset iid i (iv_invoices db)" "iv_lines db' = iv_lines db @ ls"
    unfolding j_def by (auto elim: generate_effect)
  have old: "filter (\<lambda>l. il_invoice_id l = iid) (iv_lines db) = []"
    using assms(3) by (metis (mono_tags, lifting) filter_False image_eqI)
  have new: "filter (\<lambda>l. il_invoice_id l = iid) ls = ls" unfolding e(1) by (auto simp: filter_id_conv invoice_line_of_def Let_def)
  have "get_invoice db' iid (ir_tenant_id q) = Inr d"
    using assms(1) by (auto simp: generate_invoice_def Let_def split: option.splits if_splits)
  then have d: "id_invoice d = i" "id_lines d = ls"
    using e(3,4) old new by (auto simp: get_invoice_def res_simps find_invoice_Inr dget_dset Let_def)
  have ccy: "inv_currency_code (id_invoice d) = target_currency q c" by (simp add: d e(2) new_invoice_def Let_def case_prod_unfold)
  have ks: "\<forall>k \<in> set ks. 0 \<le> k" "2 * sum_list ks < money_bound" "length ks \<le> 1000"
    using assms(2) by (simp_all add: revenue_cents_def)
  have mem: "\<forall>k \<in> set ks. 0 \<le> k \<and> 2 * k < money_bound"
  proof
    fix k assume k: "k \<in> set ks"
    then have "k \<le> sum_list ks" using ks(1) by (simp add: member_le_sum_list)
    then show "0 \<le> k \<and> 2 * k < money_bound" using k ks by auto
  qed
  have j: "j \<noteq> []" by (cases "ir_tax_jurisdiction q") (auto simp: j_def or_else_def)
  have l: "map il_amount ls = map cent ks" "map il_tax_amount ls = map cent (map (tax_cents j) ks)"
      "map il_total_amount ls = map (\<lambda>k. cent (k + tax_cents j k)) ks"
    using lines_cents [OF j _ _ mem e(1)] assms(2) ccy by (simp_all add: revenue_cents_def)
  have tb: "0 \<le> tax_cents j k \<and> tax_cents j k \<le> k" if "k \<in> set ks" for k
    using tax_cents_bounds [OF j] mem that by blast
  have st: "sum_list (map (tax_cents j) ks) \<le> sum_list ks" "0 \<le> sum_list ks" "0 \<le> sum_list (map (tax_cents j) ks)"
    using sum_list_mono [of ks "tax_cents j" "\<lambda>k. k"] tb ks(1) by (auto intro!: sum_list_nonneg)
  have "near (2 * length ks) (fold (\<lambda>l x. fadd x (il_amount l)) ls 0) (sum_list ks)"
    using ks st by (intro fold_cents l) auto
  moreover have "near (2 * length (map (tax_cents j) ks)) (fold (\<lambda>l x. fadd x (il_tax_amount l)) ls 0) (sum_list (map (tax_cents j) ks))"
    using ks st tb by (intro fold_cents l(2)) auto
  ultimately have "near (Suc (2 * length ks + 2 * length (map (tax_cents j) ks)))
      (fadd (fold (\<lambda>l x. fadd x (il_amount l)) ls 0) (fold (\<lambda>l x. fadd x (il_tax_amount l)) ls 0))
      (sum_list ks + sum_list (map (tax_cents j) ks))"
    using ks st by (intro near_add) auto
  then have "py_round 2 (fadd (fold (\<lambda>l x. fadd x (il_amount l)) ls 0) (fold (\<lambda>l x. fadd x (il_tax_amount l)) ls 0)) =
      cent (sum_list ks + sum_list (map (tax_cents j) ks))"
    using ks(3) by (intro near_round) auto
  then show ?thesis
    using l by (simp add: d e(2) new_invoice_def Let_def case_prod_unfold)
qed

text \<open>
  An invoice over revenue in cents and in its own currency adds up exactly: each line carries its
  amount, the percentage of its jurisdiction rounded half up, and their sum; the total of the
  invoice is the sum of all amounts and taxes; it is approved at once exactly when that total is
  within the threshold.
\<close>

theorem invoice_totals_exact:
  assumes "generate_invoice threshold now today iid eid q db = (Inr d, db')"
    and "revenue_cents (inv_currency_code (id_invoice d)) (eligible_lines q db) ks"
    and "iid \<notin> il_invoice_id ` set (iv_lines db)"
  defines "j \<equiv> or_else (ir_tax_jurisdiction q) ''NONE''"
  shows "map il_amount (id_lines d) = map cent ks \<and> map il_tax_amount (id_lines d) = map (cent \<circ> tax_cents j) ks \<and>
    map il_total_amount (id_lines d) = map (\<lambda>k. cent (k + tax_cents j k)) ks \<and>
    inv_total_amount (id_invoice d) = cent (sum_list ks + sum_list (map (tax_cents j) ks)) \<and>
    (inv_status (id_invoice d) = ''APPROVED'' \<longleftrightarrow> cent (sum_list ks + sum_list (map (tax_cents j) ks)) \<le> threshold)"
  unfolding j_def by (rule totals_of [OF assms(1-3)])

text \<open>
  An invoice in USD takes revenue in any other currency at the rate one: the rate is looked up for
  the currency of the invoice, never for that of the line. A line of 100 in any currency is
  invoiced as 100 dollars.
\<close>

theorem usd_invoice_ignores_line_currency:
  "il_amount (invoice_line_of t i ''USD'' (fst (locked_rate_to_base today ''USD'' db)) tax r) =
    (if or_else (rev_currency_code r) ''USD'' = ''USD'' then rev_amount r else py_round 2 (fmul (rev_amount r) 1))"
  by (simp add: invoice_line_of_def locked_rate_to_base_def Let_def)


section \<open>A worked invoice\<close>

definition sample_revenue :: revenue_line where
  "sample_revenue = \<lparr>rev_id = ''R'', rev_shipment_id = ''S'', rev_charge_code = ''FRT'', rev_description = None,
     rev_quantity = 1, rev_unit_rate = None, rev_amount = 100, rev_currency_code = Some ''USD'', rev_status = ''QUOTED''\<rparr>"

definition sample_iv :: inv_db where
  "sample_iv = \<lparr>iv_shipments = [\<lparr>shp_id = ''S'', shp_tenant_id = ''T'', shp_customer_id = ''K'', shp_job_id = None\<rparr>],
     iv_customers = [\<lparr>cus_id = ''K'', cus_tenant_id = ''T'', cus_name = ''N'', cus_tax_registration = None,
       cus_credit_limit_currency = None, cus_payment_terms_days = None\<rparr>],
     iv_contacts = [], iv_rates = [], iv_revenue = [(''R'', sample_revenue)], iv_invoices = [], iv_lines = [],
     iv_credits = [], iv_debits = [], iv_entries = [], iv_outbox = [], iv_audit = []\<rparr>"

definition sample_iq :: invoice_request where
  "sample_iq = \<lparr>ir_shipment_id = ''S'', ir_tenant_id = ''T'', ir_actor_id = ''U'', ir_currency_code = None,
     ir_tax_jurisdiction = Some ''SA'', ir_payment_terms = None, ir_customer_po = None, ir_notes = None,
     ir_revenue_line_ids = []\<rparr>"

definition sample_cn :: note_request where
  "sample_cn = \<lparr>nq_invoice_id = ''I'', nq_tenant_id = ''T'', nq_actor_id = ''U'', nq_amount = 50, nq_reason = ''short'',
     nq_currency_code = None\<rparr>"

lemma sample_tax: "tax_evaluate (Some ''SA'') False =
    \<lparr>te_applicable = True, te_jurisdiction = ''SA'', te_tax_type = ''VAT'', te_tax_rate = flit (15 / 100)\<rparr>"
  by (simp add: tax_evaluate_def tax_rules_def Let_def py_eval)

lemma sample_eligible: "eligible_lines sample_iq sample_iv = [sample_revenue]"
  by (simp add: eligible_lines_def sample_iq_def sample_iv_def sample_revenue_def)

lemma sample_no_invoices: "no_invoices sample_iv"
  by (simp add: no_invoices_def sample_iv_def store_inv_def sample_revenue_def)

lemma generate_ok:
  assumes "List.find (\<lambda>s. shp_id s = ir_shipment_id q \<and> shp_tenant_id s = ir_tenant_id q) (iv_shipments db) = Some s"
    and "List.find (\<lambda>c. cus_id c = shp_customer_id s \<and> cus_tenant_id c = ir_tenant_id q) (iv_customers db) = Some c"
    and "eligible_lines q db \<noteq> []" "\<forall>r \<in> set (eligible_lines q db). rev_status r \<noteq> ''INVOICED''"
  obtains d db' where "generate_invoice threshold now today iid eid q db = (Inr d, db')"
    "dget (iv_invoices db') iid = Some (id_invoice d)" "inv_currency_code (id_invoice d) = target_currency q c"
    "inv_id (id_invoice d) = iid" "inv_tenant_id (id_invoice d) = ir_tenant_id q"
proof -
  have "\<exists>d db'. generate_invoice threshold now today iid eid q db = (Inr d, db') \<and> id_invoice d =
      new_invoice threshold now today iid q s c (tax_evaluate (Some (or_else (ir_tax_jurisdiction q) ''NONE'')) False)
        (map (invoice_line_of (ir_tenant_id q) iid (target_currency q c) (fst (locked_rate_to_base today (target_currency q c) db))
          (tax_evaluate (Some (or_else (ir_tax_jurisdiction q) ''NONE'')) False)) (eligible_lines q db)) db \<and>
      dget (iv_invoices db') iid = Some (id_invoice d)"
    using assms by (simp add: generate_invoice_def Let_def get_invoice_def find_invoice_def dget_dset filter_empty_conv)
  then show ?thesis using that by (auto simp: new_invoice_def Let_def case_prod_unfold)
qed

lemma sample_generate:
  obtains d db' where "generate_invoice 5000 1 738000 ''I'' ''E'' sample_iq sample_iv = (Inr d, db')"
    "inv_currency_code (id_invoice d) = ''USD''" "dget (iv_invoices db') ''I'' = Some (id_invoice d)"
    "inv_id (id_invoice d) = ''I''" "inv_tenant_id (id_invoice d) = ''T''"
proof -
  let ?c = "\<lparr>cus_id = ''K'', cus_tenant_id = ''T'', cus_name = ''N'', cus_tax_registration = None,
       cus_credit_limit_currency = None, cus_payment_terms_days = None\<rparr>"
  let ?s = "\<lparr>shp_id = ''S'', shp_tenant_id = ''T'', shp_customer_id = ''K'', shp_job_id = None\<rparr>"
  have s: "List.find (\<lambda>s. shp_id s = ir_shipment_id sample_iq \<and> shp_tenant_id s = ir_tenant_id sample_iq) (iv_shipments sample_iv) = Some ?s"
    by (simp add: sample_iq_def sample_iv_def)
  have c: "List.find (\<lambda>c. cus_id c = shp_customer_id ?s \<and> cus_tenant_id c = ir_tenant_id sample_iq) (iv_customers sample_iv) = Some ?c"
    by (simp add: sample_iq_def sample_iv_def)
  have ccy: "target_currency sample_iq ?c = ''USD''"
    by (simp add: target_currency_def or_else_def sample_iq_def py_eval)
  have ten: "ir_tenant_id sample_iq = ''T''" by (simp add: sample_iq_def)
  have el: "eligible_lines sample_iq sample_iv \<noteq> []" "\<forall>r \<in> set (eligible_lines sample_iq sample_iv). rev_status r \<noteq> ''INVOICED''"
    by (simp_all add: sample_eligible) (simp add: sample_revenue_def)
  show ?thesis
    by (rule generate_ok [OF s c el, of 5000 1 738000 "''I''" "''E''"]) (rule that, simp_all only: ccy ten)
qed

lemma sample_totals:
  assumes "inv_currency_code (id_invoice d) = ''USD''"
  shows "revenue_cents (inv_currency_code (id_invoice d)) (eligible_lines sample_iq sample_iv) [10000]"
    "''I'' \<notin> il_invoice_id ` set (iv_lines sample_iv)"
  using assms cent_whole(4) unfolding sample_eligible
  by (simp_all add: revenue_cents_def sample_revenue_def or_else_def money_bound_def sample_iv_def)

theorem invoice_totals_exact_witness:
  "\<exists>d db'. generate_invoice 5000 1 738000 ''I'' ''E'' sample_iq sample_iv = (Inr d, db') \<and>
    inv_total_amount (id_invoice d) = cent 11500"
proof -
  obtain d db' where g: "generate_invoice 5000 1 738000 ''I'' ''E'' sample_iq sample_iv = (Inr d, db')"
    "inv_currency_code (id_invoice d) = ''USD''"
    by (rule sample_generate)
  have t: "tax_cents ''SA'' 10000 = 1500" by (simp add: tax_cents_def tax_percent_def py_eval)
  from invoice_totals_exact [OF g(1) sample_totals [OF g(2)]] g(1) t show ?thesis
    by (auto simp: sample_iq_def or_else_def)
qed

text \<open>The invoice is generated, sent, and credited in part.\<close>

lemma send_ok:
  assumes "dget (iv_invoices db) iid = Some i" "inv_tenant_id i = tid" "inv_status i = ''APPROVED''" "truthy email"
  obtains d db' where "send_invoice now iid tid actor email db = (Inr d, db')"
  using assms by (auto simp: send_invoice_def find_invoice_def recipient_def Let_def)

lemma credit_ok_request:
  assumes "dget (iv_invoices db) (nq_invoice_id q) = Some i" "inv_tenant_id i = nq_tenant_id q" "0 < nq_amount q"
    "\<not> bad_reason (nq_reason q)" "nq_amount q \<le> py_round 2 (fsub (inv_total_amount i) (credited env (nq_invoice_id q) (nq_tenant_id q) db))"
  obtains d db' where "create_credit_note env today eid nid q db = (Inr d, db')"
  using assms by (auto simp: create_credit_note_def find_invoice_def Let_def)

lemma sample_amounts: "cent 11500 = 115" "fsub 115 0 = 115" "py_round 2 115 = 115" "fadd 0 50 = 50" "py_round 2 50 = 50"
  "cent money_bound = 10000000000"
proof -
  have "(cent 11500 = 115) \<and> (fsub 115 0 = 115) \<and> (py_round 2 115 = 115) \<and> (fadd 0 50 = 50) \<and> (py_round 2 50 = 50) \<and> (cent money_bound = 10000000000)" by code_simp
  then show "cent 11500 = 115" "fsub 115 0 = 115" "py_round 2 115 = 115" "fadd 0 50 = 50" "py_round 2 50 = 50" "cent money_bound = 10000000000" by blast+
qed

lemma invoice_history:
  obtains db3 i3 n where "reached (inv_service sample_env) (\<lambda>r db. inv_ok r db \<and> inv_cents sample_env r db) sample_iv db3"
    "dget (iv_invoices db3) ''I'' = Some i3" "inv_status i3 = ''SENT''" "inv_total_amount i3 = 115"
    "iv_credits db3 = [n]" "nt_invoice_id n = ''I''" "nt_amount n = 50" "nt_tenant_id n = ''T''" "iv_outbox db3 \<noteq> []" "iv_lines db3 \<noteq> []"
proof -
  let ?ok = "\<lambda>r db. inv_ok r db \<and> inv_cents sample_env r db"
  let ?reached = "reached (inv_service sample_env) ?ok sample_iv"
  have step: "?reached db'" if "?reached db" "?ok r db" "inv_service sample_env r db = (Inr d, db')" for db r d db'
    using reached_request [OF that(1,2)] that(3) by simp
  obtain d1 db1 where g: "generate_invoice 5000 1 738000 ''I'' ''E'' sample_iq sample_iv = (Inr d1, db1)"
    "inv_currency_code (id_invoice d1) = ''USD''" "dget (iv_invoices db1) ''I'' = Some (id_invoice d1)"
    "inv_id (id_invoice d1) = ''I''" "inv_tenant_id (id_invoice d1) = ''T''"
    by (rule sample_generate)
  have t: "tax_cents ''SA'' 10000 = 1500" by (simp add: tax_cents_def tax_percent_def py_eval)
  have j: "or_else (ir_tax_jurisdiction sample_iq) ''NONE'' = ''SA''" by (simp add: sample_iq_def or_else_def)
  from totals_of [OF g(1) sample_totals [OF g(2)]] t
  have tot: "inv_total_amount (id_invoice d1) = 115" "inv_status (id_invoice d1) = ''APPROVED''"
    by (simp_all add: j sample_amounts)
  have "?ok (Generate 5000 1 738000 ''I'' ''E'' sample_iq) sample_iv"
    using g(1) tot by (simp add: sample_amounts) (simp add: sample_iv_def)
  then have r1: "?reached db1" by (rule step [OF reached_start]) (simp add: g(1))
  have db1: "iv_credits db1 = []" "iv_lines db1 \<noteq> []"
    using g(1) by (auto elim!: generate_effect simp: sample_eligible) (auto simp: sample_iv_def)
  obtain d2 db2 where s: "send_invoice 2 ''I'' ''T'' ''U'' (Some ''a@b'') db1 = (Inr d2, db2)"
    by (rule send_ok [OF g(3,5) tot(2), of "Some ''a@b''" 2 "''U''"]) simp
  then have r2: "?reached db2" by (intro step [OF r1, of "Send_Invoice 2 ''I'' ''T'' ''U'' (Some ''a@b'')"]) auto
  from s g obtain addr where db2: "dget (iv_invoices db2) ''I'' = Some (sent_invoice 2 ''U'' addr (id_invoice d1))"
    "iv_credits db2 = []" "iv_outbox db2 \<noteq> []" "iv_lines db2 \<noteq> []"
    using db1 by (auto elim!: send_invoice_effect simp: dget_dset)
  have q: "nq_invoice_id sample_cn = ''I''" "nq_tenant_id sample_cn = ''T''" "nq_amount sample_cn = 50" "nq_reason sample_cn = ''short''"
    by (simp_all add: sample_cn_def)
  have e: "credited sample_env ''I'' ''T'' db2 = 0" by (simp add: credited_def db2 sample_env_def)
  have br: "\<not> bad_reason ''short''" by (simp add: bad_reason_def py_eval)
  obtain d3 db3 where c: "create_credit_note sample_env 738001 ''E2'' ''N1'' sample_cn db2 = (Inr d3, db3)"
    using credit_ok_request [of db2 sample_cn "sent_invoice 2 ''U'' addr (id_invoice d1)" sample_env 738001 "''E2''" "''N1''"]
      db2 g tot br by (auto simp: q e sample_amounts)
  then have r3: "?reached db3"
    using cent_whole(3) by (intro step [OF r2, of "Credit_Note 738001 ''E2'' ''N1'' sample_cn"])
      (auto simp: q money_bound_def intro!: exI [of _ 5000])
  from c obtain num ccy where db3: "dget (iv_invoices db3) ''I'' = Some (credit_state 50 (sent_invoice 2 ''U'' addr (id_invoice d1)))"
    "iv_credits db3 = [note_row ''N1'' num ''E2'' 738001 ccy sample_cn (sent_invoice 2 ''U'' addr (id_invoice d1))]"
    "iv_outbox db3 \<noteq> []" "iv_lines db3 \<noteq> []"
    using db2 g by (auto elim!: credit_effect simp: dget_dset q e sample_amounts)
  show ?thesis
    by (rule that [OF r3 db3(1) _ _ db3(2)])
      (use tot db3 in \<open>simp_all add: credit_state_def sent_invoice_def note_row_def q\<close>)
qed

lemma invoice_history_ok:
  obtains db where "reached (inv_service sample_env) inv_ok sample_iv db" "iv_credits db \<noteq> []" "iv_outbox db \<noteq> []" "iv_lines db \<noteq> []"
  using invoice_history reached_mono by (metis (lifting) list.discI)

theorem revenue_billed_once_witness:
  "\<exists>db. reached (inv_service sample_env) inv_ok sample_iv db \<and> iv_lines db \<noteq> [] \<and> distinct (map il_revenue_line_id (iv_lines db))"
proof -
  obtain db where h: "reached (inv_service sample_env) inv_ok sample_iv db" "iv_lines db \<noteq> []" by (rule invoice_history_ok)
  from revenue_billed_once [OF sample_no_invoices h(1)] h show ?thesis by blast
qed

theorem sent_invoices_are_approved_witness:
  "\<exists>db e i. reached (inv_service sample_env) inv_ok sample_iv db \<and> e \<in> set (iv_outbox db) \<and>
     dget (iv_invoices db) (ob_aggregate_id e) = Some i \<and> inv_approval_status i = ''APPROVED''"
proof -
  obtain db where h: "reached (inv_service sample_env) inv_ok sample_iv db" "iv_outbox db \<noteq> []" by (rule invoice_history_ok)
  from sent_invoices_are_approved [OF sample_no_invoices h(1)] h show ?thesis
    by (metis list.set_intros(1) neq_Nil_conv)
qed

theorem references_unique_witness:
  "\<exists>db. reached (inv_service sample_env) inv_ok sample_iv db \<and> iv_credits db \<noteq> [] \<and>
     distinct (map nt_number (filter (\<lambda>n. nt_tenant_id n = ''T'') (iv_credits db)))"
proof -
  obtain db where h: "reached (inv_service sample_env) inv_ok sample_iv db" "iv_credits db \<noteq> []" by (rule invoice_history_ok)
  from references_unique [OF sample_no_invoices h(1)] h show ?thesis by blast
qed

theorem ledger_mirrors_receivables_witness:
  "\<exists>db. reached (inv_service sample_env) inv_ok sample_iv db \<and> iv_credits db \<noteq> [] \<and>
     map (\<lambda>e. (fe_id e, fe_tenant_id e, fe_credit_amount e, fe_currency_code e)) (entries_of ''CREDIT_NOTE'' db) =
       map (\<lambda>n. (nt_financial_entry_id n, nt_tenant_id n, nt_amount n, nt_currency_code n)) (iv_credits db)"
proof -
  obtain db where h: "reached (inv_service sample_env) inv_ok sample_iv db" "iv_credits db \<noteq> []" by (rule invoice_history_ok)
  from ledger_mirrors_receivables [OF sample_no_invoices h(1)] h show ?thesis by blast
qed

theorem credits_within_invoice_witness:
  "\<exists>db i. reached (inv_service sample_env) (\<lambda>r db. inv_ok r db \<and> inv_cents sample_env r db) sample_iv db \<and>
     dget (iv_invoices db) ''I'' = Some i \<and> iv_credits db \<noteq> [] \<and>
     sum_list (map (cents_of \<circ> nt_amount) (credits_of db ''I'')) \<le> cents_of (inv_total_amount i)"
proof -
  obtain db i n where h: "reached (inv_service sample_env) (\<lambda>r db. inv_ok r db \<and> inv_cents sample_env r db) sample_iv db"
    "dget (iv_invoices db) ''I'' = Some i" "iv_credits db = [n]" by (rule invoice_history)
  from credits_within_invoice [OF sample_env_exact sample_no_invoices h(1,2)] h show ?thesis by fastforce
qed

end
