(* ===== verification/Workflow.thy ===== *)
theory Workflow
  imports Audit_Trail Transactions Invoicing
begin

text \<open>
  The workflow engine of \<open>app/modules/workflow/service.py\<close>, the three state machines the services
  install in it (the common lifecycle of \<open>app/modules/shipments/service.py\<close>, sea and air freight of
  \<open>backend/app/services\<close>), and the shipment service on top of it. The guard registry is an argument
  of the engine; \<open>guard_registry\<close> is the one the program registers.
\<close>

section \<open>Tables\<close>

record state_machine =
  sm_id :: string
  sm_tenant_id :: string
  sm_code :: string
  sm_name :: string
  sm_entity_type :: string

record workflow_state =
  ws_id :: string
  ws_machine_id :: string
  ws_code :: string
  ws_name :: string
  ws_is_initial :: bool
  ws_is_terminal :: bool

record workflow_transition =
  wt_machine_id :: string
  wt_from :: string
  wt_to :: string
  wt_required_permission :: "string option"
  wt_required_fields :: "string list"
  wt_guards :: "string list"
  wt_is_active :: bool

record workflow_instance =
  wi_id :: string
  wi_tenant_id :: string
  wi_machine_id :: string
  wi_entity_type :: string
  wi_entity_id :: string
  wi_current_state_id :: string
  wi_version :: int
  wi_updated_at :: datetime

record workflow_history =
  wh_instance_id :: string
  wh_from :: string
  wh_to :: string
  wh_actor_id :: string
  wh_notes :: "string option"
  wh_occurred_at :: datetime

record shipment =
  sd_id :: string
  sd_tenant_id :: string
  sd_booking_id :: string
  sd_customer_id :: string
  sd_mode :: string
  sd_status :: string
  sd_created_by :: "string option"

record wf_db =
  wf_machines :: "state_machine list"
  wf_states :: "workflow_state list"
  wf_transitions :: "workflow_transition list"
  wf_instances :: "(string, workflow_instance) dict"
  wf_history :: "workflow_history list"
  wf_shipments :: "(string, shipment) dict"
  wf_outbox :: "outbox_event list"
  wf_audit :: "audit_log list"

text \<open>\<open>scalar_one_or_none\<close> of a query without a uniqueness constraint.\<close>

definition one_or_none :: "'a list \<Rightarrow> 'a option res" where
  "one_or_none xs = (case xs of [] \<Rightarrow> Inr None | [x] \<Rightarrow> Inr (Some x) | _ \<Rightarrow> Inl MultipleResultsFound)"

section \<open>The engine\<close>

type_synonym guard_context = "(string, json) dict"
type_synonym registry = "(string, guard_context \<Rightarrow> bool) dict"

definition register :: "string \<Rightarrow> (guard_context \<Rightarrow> bool) \<Rightarrow> registry \<Rightarrow> registry" where
  "register name func guards = dset name func guards"

definition guard_registry :: registry where
  "guard_registry = register ''always_true'' (\<lambda>ctx. True) []"

definition evaluate_guard :: "registry \<Rightarrow> string \<Rightarrow> guard_context \<Rightarrow> bool res" where
  "evaluate_guard guards name ctx = (case dget guards name of
     None \<Rightarrow> Inl (ValidationError (''Unknown guard: '' @ name)) | Some f \<Rightarrow> Inr (f ctx))"

fun check_guards :: "registry \<Rightarrow> guard_context \<Rightarrow> string list \<Rightarrow> unit res" where
  "check_guards guards ctx [] = Inr ()"
| "check_guards guards ctx (g # gs) = (case evaluate_guard guards g ctx of
     Inl e \<Rightarrow> Inl e
   | Inr ok \<Rightarrow> if \<not> ok then Inl (ValidationError (''Guard failed: '' @ g)) else check_guards guards ctx gs)"

definition get_state :: "wf_db \<Rightarrow> string \<Rightarrow> string \<Rightarrow> workflow_state res" where
  "get_state db machine_id code = (case List.find (\<lambda>s. ws_machine_id s = machine_id \<and> ws_code s = code) (wf_states db) of
     None \<Rightarrow> Inl (ValidationError (''Unknown state: '' @ code)) | Some s \<Rightarrow> Inr s)"

definition find_transition :: "wf_db \<Rightarrow> string \<Rightarrow> string \<Rightarrow> string \<Rightarrow> workflow_transition option res" where
  "find_transition db machine_id from_state_id to_state_id = one_or_none
     (filter (\<lambda>t. wt_machine_id t = machine_id \<and> wt_from t = from_state_id \<and> wt_to t = to_state_id) (wf_transitions db))"

definition moved :: "datetime \<Rightarrow> string \<Rightarrow> workflow_instance \<Rightarrow> workflow_instance" where
  "moved now to_id i = i\<lparr>wi_current_state_id := to_id, wi_version := wi_version i + 1, wi_updated_at := now\<rparr>"

definition workflow_audit :: "string \<Rightarrow> string \<Rightarrow> string \<Rightarrow> string \<Rightarrow> string \<Rightarrow>
    (string \<times> json) list option \<Rightarrow> (string \<times> json) list \<Rightarrow> wf_db \<Rightarrow> wf_db" where
  "workflow_audit tenant_id actor_id entity_type eid action old new_value db = db\<lparr>wf_audit := record_audit
    \<lparr>al_tenant_id = Some tenant_id, al_user_id = Some actor_id, al_branch_id = None, al_entity_type = entity_type,
     al_entity_id = eid, al_action = action, al_previous_value = old, al_new_value = Some new_value,
     al_correlation_id = None, al_ip_address = None, al_user_agent = None\<rparr> (wf_audit db)\<rparr>"

text \<open>
  The time of the history row is the \<open>updated_at\<close> the instance had before the transition: the
  column is set when the change is written.
\<close>

definition perform :: "datetime \<Rightarrow> string \<Rightarrow> string \<Rightarrow> string option \<Rightarrow> workflow_instance \<Rightarrow> string \<Rightarrow> wf_db \<Rightarrow>
    workflow_instance \<times> wf_db" where
  "perform now tenant_id actor_id notes i to_id db =
    (let from_id = wi_current_state_id i; i' = moved now to_id i;
         db = db\<lparr>wf_instances := dset (wi_id i) i' (wf_instances db),
                 wf_history := wf_history db @ [\<lparr>wh_instance_id = wi_id i, wh_from = from_id, wh_to = to_id,
                   wh_actor_id = actor_id, wh_notes = notes, wh_occurred_at = wi_updated_at i\<rparr>]\<rparr>;
         db = workflow_audit tenant_id actor_id (wi_entity_type i) (wi_entity_id i) ''workflow.transition''
           (Some [(''state_id'', JStr from_id)]) [(''state_id'', JStr to_id)] db;
         db = db\<lparr>wf_outbox := enqueue (wi_entity_type i @ ''.state_changed'') tenant_id (wi_entity_type i) (wi_entity_id i)
           [(''from_state_id'', JStr from_id), (''to_state_id'', JStr to_id)] now (wf_outbox db)\<rparr>
     in (i', db))"

definition transition :: "registry \<Rightarrow> datetime \<Rightarrow> string \<Rightarrow> string \<Rightarrow> string \<Rightarrow> string \<Rightarrow> string list \<Rightarrow>
    string option \<Rightarrow> guard_context \<Rightarrow> wf_db \<Rightarrow> workflow_instance res \<times> wf_db" where
  "transition guards now instance_id to_state_code actor_id tenant_id permission_codes notes ctx db =
    (case dget (wf_instances db) instance_id of
       None \<Rightarrow> (Inl (ValidationError ''Workflow instance not found''), db)
     | Some i \<Rightarrow>
       if wi_tenant_id i \<noteq> tenant_id then (Inl (ValidationError ''Workflow instance not found''), db)
       else case get_state db (wi_machine_id i) to_state_code of
         Inl e \<Rightarrow> (Inl e, db)
       | Inr to_state \<Rightarrow>
         (case find_transition db (wi_machine_id i) (wi_current_state_id i) (ws_id to_state) of
            Inl e \<Rightarrow> (Inl e, db)
          | Inr None \<Rightarrow> (Inl (ValidationError (''Invalid transition to '' @ to_state_code)), db)
          | Inr (Some t) \<Rightarrow>
              if \<not> wt_is_active t then (Inl (ValidationError (''Invalid transition to '' @ to_state_code)), db)
              else if truthy (wt_required_permission t) \<and> the (wt_required_permission t) \<notin> set permission_codes
              then (Inl (ForbiddenError ''Missing permission for transition''), db)
              else case check_guards guards ctx (wt_guards t) of
                Inl e \<Rightarrow> (Inl e, db)
              | Inr _ \<Rightarrow>
                if filter (\<lambda>f. f \<notin> set (dkeys ctx)) (wt_required_fields t) \<noteq> []
                then (Inl (ValidationError ''Missing required fields''), db)
                else (let (i, db) = perform now tenant_id actor_id notes i (ws_id to_state) db in (Inr i, db))))"

section \<open>State machines installed by the services\<close>

fun title_from :: "bool \<Rightarrow> string \<Rightarrow> string" where
  "title_from cased [] = []"
| "title_from cased (c # cs) =
    (if upper_char c \<noteq> lower_char c then (if cased then lower_char c else upper_char c) # title_from True cs
     else c # title_from False cs)"

definition state_title :: "string \<Rightarrow> string" where
  "state_title code = title_from False (map (\<lambda>c. if c = CHR ''_'' then CHR '' '' else c) code)"

text \<open>A state is its code, whether it is initial and whether it is terminal.\<close>

definition state_row :: "string \<Rightarrow> (nat \<Rightarrow> string) \<Rightarrow> nat \<Rightarrow> string \<times> bool \<times> bool \<Rightarrow> workflow_state" where
  "state_row mid sid k s = \<lparr>ws_id = sid k, ws_machine_id = mid, ws_code = fst s, ws_name = state_title (fst s),
     ws_is_initial = fst (snd s), ws_is_terminal = snd (snd s)\<rparr>"

definition state_rows :: "string \<Rightarrow> (nat \<Rightarrow> string) \<Rightarrow> (string \<times> bool \<times> bool) list \<Rightarrow> workflow_state list" where
  "state_rows mid sid specs = map2 (state_row mid sid) [0..<length specs] specs"

definition state_map :: "workflow_state list \<Rightarrow> (string, string) dict" where
  "state_map rows = dict_of (map (\<lambda>s. (ws_code s, ws_id s)) rows)"

definition transition_rows :: "string \<Rightarrow> workflow_state list \<Rightarrow> (string \<times> string \<times> string \<times> string list) list \<Rightarrow>
    workflow_transition list" where
  "transition_rows mid rows specs = map (\<lambda>(from_code, to_code, perm, guards).
     \<lparr>wt_machine_id = mid, wt_from = the (dget (state_map rows) from_code), wt_to = the (dget (state_map rows) to_code),
      wt_required_permission = Some perm, wt_required_fields = [],
      wt_guards = (if guards \<noteq> [] then guards else [''always_true'']), wt_is_active = True\<rparr>) specs"

definition ensure_workflow :: "string \<Rightarrow> string \<Rightarrow> (string \<times> bool \<times> bool) list \<Rightarrow> (string \<times> string \<times> string \<times> string list) list \<Rightarrow>
    string \<Rightarrow> string \<Rightarrow> (nat \<Rightarrow> string) \<Rightarrow> wf_db \<Rightarrow> state_machine \<times> wf_db" where
  "ensure_workflow code name states transitions tenant_id mid sid db =
    (case List.find (\<lambda>m. sm_tenant_id m = tenant_id \<and> sm_code m = code) (wf_machines db) of
       Some m \<Rightarrow> (m, db)
     | None \<Rightarrow>
        (let m = \<lparr>sm_id = mid, sm_tenant_id = tenant_id, sm_code = code, sm_name = name, sm_entity_type = ''shipment''\<rparr>;
             rows = state_rows mid sid states
         in (m, db\<lparr>wf_machines := wf_machines db @ [m], wf_states := wf_states db @ rows,
                   wf_transitions := wf_transitions db @ transition_rows mid rows transitions\<rparr>)))"

definition shipment_states :: "(string \<times> bool \<times> bool) list" where
  "shipment_states = [(''DRAFT'', True, False), (''SUBMITTED'', False, False), (''APPROVED'', False, False),
     (''BOOKED'', False, False), (''DEPARTED'', False, False), (''ARRIVED'', False, False), (''DELIVERED'', False, False),
     (''CLOSED'', False, True)]"

definition shipment_transitions :: "(string \<times> string \<times> string \<times> string list) list" where
  "shipment_transitions = map (\<lambda>(f, t). (f, t, if f \<noteq> ''DRAFT'' then ''shipment:transition'' else ''shipment:create'', [''always_true'']))
     [(''DRAFT'', ''SUBMITTED''), (''SUBMITTED'', ''APPROVED''), (''APPROVED'', ''BOOKED''), (''BOOKED'', ''DEPARTED''),
      (''DEPARTED'', ''ARRIVED''), (''ARRIVED'', ''DELIVERED''), (''DELIVERED'', ''CLOSED'')]"

definition ensure_shipment_workflow :: "string \<Rightarrow> string \<Rightarrow> (nat \<Rightarrow> string) \<Rightarrow> wf_db \<Rightarrow> state_machine \<times> wf_db" where
  "ensure_shipment_workflow = ensure_workflow ''shipment_common'' ''Shipment Common Lifecycle'' shipment_states shipment_transitions"

definition sea_states :: "(string \<times> bool \<times> bool) list" where
  "sea_states = [(''BOOKING'', True, False), (''EMPTY_RELEASED'', False, False), (''GATE_IN'', False, False),
     (''VGM_SUBMITTED'', False, False), (''LOADED'', False, False), (''DEPARTED'', False, False), (''ARRIVED'', False, False),
     (''DELIVERED'', False, True)]"

definition sea_transitions :: "(string \<times> string \<times> string \<times> string list) list" where
  "sea_transitions = map (\<lambda>(f, t, p). (f, t, p, [''always_true'']))
     [(''BOOKING'', ''EMPTY_RELEASED'', ''shipment:update''), (''EMPTY_RELEASED'', ''GATE_IN'', ''shipment:update''),
      (''GATE_IN'', ''VGM_SUBMITTED'', ''shipment:vgm''), (''VGM_SUBMITTED'', ''LOADED'', ''shipment:update''),
      (''LOADED'', ''DEPARTED'', ''shipment:update''), (''DEPARTED'', ''ARRIVED'', ''shipment:update''),
      (''ARRIVED'', ''DELIVERED'', ''shipment:update'')]"

definition ensure_sea_workflow :: "string \<Rightarrow> string \<Rightarrow> (nat \<Rightarrow> string) \<Rightarrow> wf_db \<Rightarrow> state_machine \<times> wf_db" where
  "ensure_sea_workflow = ensure_workflow ''sea_freight_fcl'' ''Sea Freight FCL Lifecycle'' sea_states sea_transitions"

definition air_states :: "(string \<times> bool \<times> bool) list" where
  "air_states = [(''ENQUIRY'', True, False), (''QUOTED'', False, False), (''CONFIRMED'', False, False),
     (''CARGO_READY'', False, False), (''PICKED_UP'', False, False), (''RECEIVED_AT_WAREHOUSE'', False, False),
     (''SCREENED'', False, False), (''DOCUMENTATION_COMPLETE'', False, False), (''MAWB_ISSUED'', False, False),
     (''BOOKED_ON_FLIGHT'', False, False), (''ACCEPTED_BY_AIRLINE'', False, False), (''DEPARTED'', False, False),
     (''IN_TRANSIT'', False, False), (''ARRIVED'', False, False), (''CARGO_BREAKDOWN'', False, False),
     (''CUSTOMS_CLEARED'', False, False), (''OUT_FOR_DELIVERY'', False, False), (''DELIVERED'', False, False),
     (''POD_CONFIRMED'', False, False), (''FINANCIALLY_SETTLED'', False, False), (''CLOSED'', False, True)]"

definition air_transitions :: "(string \<times> string \<times> string \<times> string list) list" where
  "air_transitions = map (\<lambda>(f, t, gs). (f, t, ''air_shipment:transition'', gs))
     [(''ENQUIRY'', ''QUOTED'', []), (''QUOTED'', ''CONFIRMED'', []), (''CONFIRMED'', ''CARGO_READY'', []),
      (''CARGO_READY'', ''PICKED_UP'', [''pickup_assigned_guard'']),
      (''PICKED_UP'', ''RECEIVED_AT_WAREHOUSE'', [''warehouse_receipt_guard'']),
      (''RECEIVED_AT_WAREHOUSE'', ''SCREENED'', [''received_pieces_recorded_guard'']),
      (''SCREENED'', ''DOCUMENTATION_COMPLETE'', [''screening_complete_guard'']),
      (''DOCUMENTATION_COMPLETE'', ''MAWB_ISSUED'', [''mawb_approved_guard'']),
      (''MAWB_ISSUED'', ''BOOKED_ON_FLIGHT'', [''flight_booking_guard'']),
      (''BOOKED_ON_FLIGHT'', ''ACCEPTED_BY_AIRLINE'', [''airline_acceptance_guard'']),
      (''ACCEPTED_BY_AIRLINE'', ''DEPARTED'', [''no_blocking_exceptions_guard'']),
      (''DEPARTED'', ''IN_TRANSIT'', []), (''IN_TRANSIT'', ''ARRIVED'', []),
      (''ARRIVED'', ''CARGO_BREAKDOWN'', [''arrival_confirmed_guard'']),
      (''CARGO_BREAKDOWN'', ''CUSTOMS_CLEARED'', [''customs_records_guard'']),
      (''CUSTOMS_CLEARED'', ''OUT_FOR_DELIVERY'', []), (''OUT_FOR_DELIVERY'', ''DELIVERED'', []),
      (''DELIVERED'', ''POD_CONFIRMED'', [''pod_valid_guard'']),
      (''POD_CONFIRMED'', ''FINANCIALLY_SETTLED'', [''financial_settlement_guard'']),
      (''FINANCIALLY_SETTLED'', ''CLOSED'', [''no_open_tasks_guard''])]"

definition ensure_air_workflow :: "string \<Rightarrow> string \<Rightarrow> (nat \<Rightarrow> string) \<Rightarrow> wf_db \<Rightarrow> state_machine \<times> wf_db" where
  "ensure_air_workflow = ensure_workflow ''air_freight_direct'' ''Air Freight Direct Lifecycle'' air_states air_transitions"

section \<open>The shipment service\<close>

record shipment_ids =
  si_shipment :: string
  si_machine :: string
  si_states :: "nat \<Rightarrow> string"
  si_instance :: string

definition create_shipment :: "datetime \<Rightarrow> shipment_ids \<Rightarrow> string \<Rightarrow> string \<Rightarrow> string \<Rightarrow> string \<Rightarrow> string \<Rightarrow> wf_db \<Rightarrow>
    shipment res \<times> wf_db" where
  "create_shipment now ids tenant_id actor_id customer_id booking_id mode db =
    (let s = \<lparr>sd_id = si_shipment ids, sd_tenant_id = tenant_id, sd_booking_id = booking_id, sd_customer_id = customer_id,
              sd_mode = mode, sd_status = ''DRAFT'', sd_created_by = Some actor_id\<rparr>;
         db = db\<lparr>wf_shipments := dset (si_shipment ids) s (wf_shipments db)\<rparr>;
         (m, db) = ensure_shipment_workflow tenant_id (si_machine ids) (si_states ids) db
     in case List.find (\<lambda>st. ws_machine_id st = sm_id m \<and> ws_code st = ''DRAFT'') (wf_states db) of
          None \<Rightarrow> (Inl NoResultFound, db)
        | Some draft \<Rightarrow>
           (let i = \<lparr>wi_id = si_instance ids, wi_tenant_id = tenant_id, wi_machine_id = sm_id m, wi_entity_type = ''shipment'',
                     wi_entity_id = si_shipment ids, wi_current_state_id = ws_id draft, wi_version = 1, wi_updated_at = now\<rparr>;
                db = db\<lparr>wf_instances := dset (si_instance ids) i (wf_instances db)\<rparr>;
                db = workflow_audit tenant_id actor_id ''shipment'' (si_shipment ids) ''create'' None
                  [(''mode'', JStr mode), (''status'', JStr ''DRAFT'')] db;
                db = db\<lparr>wf_outbox := enqueue ''shipment.created'' tenant_id ''shipment'' (si_shipment ids)
                  [(''mode'', JStr mode)] now (wf_outbox db)\<rparr>
            in (Inr s, db)))"

definition get_shipment :: "wf_db \<Rightarrow> string \<Rightarrow> string \<Rightarrow> shipment option" where
  "get_shipment db shipment_id tenant_id = (case dget (wf_shipments db) shipment_id of
     Some s \<Rightarrow> if sd_tenant_id s = tenant_id then Some s else None | None \<Rightarrow> None)"

definition list_shipments :: "wf_db \<Rightarrow> string \<Rightarrow> nat \<Rightarrow> shipment list" where
  "list_shipments db tenant_id limit = take limit (filter (\<lambda>s. sd_tenant_id s = tenant_id) (dvalues (wf_shipments db)))"

definition shipment_transition :: "registry \<Rightarrow> datetime \<Rightarrow> string \<Rightarrow> string \<Rightarrow> string \<Rightarrow> string list \<Rightarrow>
    string \<Rightarrow> string option \<Rightarrow> guard_context \<Rightarrow> wf_db \<Rightarrow> shipment res \<times> wf_db" where
  "shipment_transition guards now shipment_id tenant_id actor_id permission_codes to_state notes ctx db =
    (case get_shipment db shipment_id tenant_id of
       None \<Rightarrow> (Inl (NotFoundError ''Shipment not found''), db)
     | Some s \<Rightarrow>
       (case one_or_none (filter (\<lambda>i. wi_entity_type i = ''shipment'' \<and> wi_entity_id i = shipment_id \<and> wi_tenant_id i = tenant_id)
           (dvalues (wf_instances db))) of
          Inl e \<Rightarrow> (Inl e, db)
        | Inr None \<Rightarrow> (Inl (ValidationError ''Workflow instance not found''), db)
        | Inr (Some i) \<Rightarrow>
          (case transition guards now (wi_id i) to_state actor_id tenant_id permission_codes notes ctx db of
             (Inl e, db') \<Rightarrow> (Inl e, db')
           | (Inr _, db') \<Rightarrow>
             (let s' = s\<lparr>sd_status := to_state\<rparr> in (Inr s', db'\<lparr>wf_shipments := dset shipment_id s' (wf_shipments db')\<rparr>)))))"

end
