(* ===== verification/Workflow_Life.thy ===== *)
theory Workflow_Life
  imports Workflow Invoicing_Life
begin

text \<open>
  The rows the common lifecycle has in the tables, what each request does to them, and the invariant
  kept by the endpoints of \<open>app/api/v1/endpoints/shipments.py\<close> and \<open>workflows.py\<close>: an instance at
  the k-th state has made the first k steps.
\<close>

section \<open>The endpoints\<close>

datatype wf_request =
    Create_Shipment datetime shipment_ids string string string string string
  | Shipment_Transition datetime string string string "string list" string "string option" guard_context
  | Instance_Transition datetime string string string string "string list" "string option" guard_context

fun wf_service :: "wf_request \<Rightarrow> wf_db \<Rightarrow> unit res \<times> wf_db" where
  "wf_service (Create_Shipment now ids tid actor cid bid mode) db =
     apfst (res_map (\<lambda>_. ())) (create_shipment now ids tid actor cid bid mode db)"
| "wf_service (Shipment_Transition now sid tid actor perms to_state nts ctx) db =
     apfst (res_map (\<lambda>_. ())) (shipment_transition guard_registry now sid tid actor perms to_state nts ctx db)"
| "wf_service (Instance_Transition now iid to_state actor tid perms nts ctx) db =
     apfst (res_map (\<lambda>_. ())) (transition guard_registry now iid to_state actor tid perms nts ctx db)"

text \<open>The requests considered: the identities drawn are new and distinct.\<close>

fun wf_ok :: "wf_request \<Rightarrow> wf_db \<Rightarrow> bool" where
  "wf_ok (Create_Shipment now ids tid actor cid bid mode) db \<longleftrightarrow>
     si_shipment ids \<notin> set (dkeys (wf_shipments db)) \<and> si_instance ids \<notin> set (dkeys (wf_instances db)) \<and>
     si_machine ids \<notin> sm_id ` set (wf_machines db) \<and> inj_on (si_states ids) {..<8}"
| "wf_ok r db \<longleftrightarrow> True"

section \<open>The common lifecycle\<close>

definition lifecycle :: "string list" where
  "lifecycle = [''DRAFT'', ''SUBMITTED'', ''APPROVED'', ''BOOKED'', ''DEPARTED'', ''ARRIVED'', ''DELIVERED'', ''CLOSED'']"

definition lc_state :: "string \<Rightarrow> (nat \<Rightarrow> string) \<Rightarrow> nat \<Rightarrow> workflow_state" where
  "lc_state mid sid k = state_row mid sid k (lifecycle ! k, k = 0, k = 7)"

definition lc_transition :: "string \<Rightarrow> (nat \<Rightarrow> string) \<Rightarrow> nat \<Rightarrow> workflow_transition" where
  "lc_transition mid sid k = \<lparr>wt_machine_id = mid, wt_from = sid k, wt_to = sid (Suc k),
     wt_required_permission = Some (if k = 0 then ''shipment:create'' else ''shipment:transition''),
     wt_required_fields = [], wt_guards = [''always_true''], wt_is_active = True\<rparr>"

lemma lifecycle_facts: "length lifecycle = 8" "distinct lifecycle"
  by (simp_all add: lifecycle_def)

lemma lifecycle_eq_iff: "a < 8 \<Longrightarrow> b < 8 \<Longrightarrow> lifecycle ! a = lifecycle ! b \<longleftrightarrow> a = b"
  using lifecycle_facts by (simp add: nth_eq_iff_index_eq)

lemma upt8: "[0..<8] = [0, 1, 2, 3, 4, 5, 6, 7 :: nat]" "[0..<7] = [0, 1, 2, 3, 4, 5, 6 :: nat]"
  by (simp_all add: upt_conv_Cons)

lemma shipment_state_rows: "state_rows mid sid shipment_states = map (lc_state mid sid) [0..<8]"
  by (simp add: state_rows_def shipment_states_def upt8 lc_state_def lifecycle_def) (simp add: eval_nat_numeral)

lemma shipment_state_map:
  "k < 8 \<Longrightarrow> dget (state_map (map (lc_state mid sid) [0..<8])) (lifecycle ! k) = Some (sid k)"
proof -
  let ?kvs = "map (\<lambda>j. (lifecycle ! j, sid j)) [0..<8]"
  assume k: "k < 8"
  have "map (\<lambda>s. (ws_code s, ws_id s)) (map (lc_state mid sid) [0..<8]) = ?kvs"
    by (simp add: lc_state_def state_row_def)
  moreover have "distinct (map fst (rev ?kvs))"
    using lifecycle_facts by (simp add: rev_map [symmetric] comp_def map_nth [of lifecycle, unfolded lifecycle_facts])
  moreover have "(lifecycle ! k, sid k) \<in> set (rev ?kvs)" using k by auto
  ultimately show ?thesis by (simp only: state_map_def dget_dict_of map_of_eq_Some_iff)
qed

lemma shipment_transition_rows:
  "transition_rows mid (map (lc_state mid sid) [0..<8]) shipment_transitions = map (lc_transition mid sid) [0..<7]"
proof -
  have m: "dget (state_map (map (lc_state mid sid) [0..<8])) c = Some (sid k)" if "lifecycle ! k = c" "k < 8" for c k
    using shipment_state_map that by blast
  show ?thesis
    unfolding transition_rows_def shipment_transitions_def
    using m [of 0 "''DRAFT''"] m [of 1 "''SUBMITTED''"] m [of 2 "''APPROVED''"] m [of 3 "''BOOKED''"] m [of 4 "''DEPARTED''"]
      m [of 5 "''ARRIVED''"] m [of 6 "''DELIVERED''"] m [of 7 "''CLOSED''"]
    by (simp add: lifecycle_def upt8(2) lc_transition_def del: upt_Suc) (simp add: eval_nat_numeral)
qed

text \<open>The rows of one machine.\<close>

definition installed :: "wf_db \<Rightarrow> string \<Rightarrow> (nat \<Rightarrow> string) \<Rightarrow> bool" where
  "installed db mid sid \<longleftrightarrow> inj_on sid {..<8} \<and>
     filter (\<lambda>s. ws_machine_id s = mid) (wf_states db) = map (lc_state mid sid) [0..<8] \<and>
     filter (\<lambda>t. wt_machine_id t = mid) (wf_transitions db) = map (lc_transition mid sid) [0..<7]"

lemma find_filter: "List.find (\<lambda>x. P x \<and> Q x) xs = List.find Q (filter P xs)"
  by (induction xs) auto

lemma find_map_index:
  "k < n \<Longrightarrow> P (f k) \<Longrightarrow> (\<And>j. j < n \<Longrightarrow> P (f j) \<Longrightarrow> j = k) \<Longrightarrow> List.find P (map f [0..<n]) = Some (f k)"
proof (induction n)
  case (Suc n)
  show ?case
  proof (cases "k = n")
    case True
    have "\<not> P (f j)" if "j < n" for j using Suc.prems(3) [of j] that True by auto
    then have "List.find P (map f [0..<n]) = None" by (simp add: find_None_iff)
    with True Suc.prems(2) show ?thesis by (simp add: find_append)
  next
    case False
    then have "k < n" using Suc.prems(1) by simp
    then have "List.find P (map f [0..<n]) = Some (f k)" by (rule Suc.IH [OF _ Suc.prems(2)]) (rule Suc.prems(3), simp_all)
    then show ?thesis by (simp add: find_append)
  qed
qed simp

lemma find_map_index_SomeD:
  assumes "List.find P (map f [0..<n]) = Some x"
  obtains k where "k < n" "x = f k" "P (f k)"
proof -
  from find_SomeD [OF assms] show ?thesis using that by auto
qed

lemma lc_state_code [simp]: "ws_code (lc_state mid sid k) = lifecycle ! k" "ws_id (lc_state mid sid k) = sid k"
  by (simp_all add: lc_state_def state_row_def)

lemma installed_get_state:
  assumes "installed db mid sid" and "get_state db mid code = Inr s"
  obtains k where "k < 8" "s = lc_state mid sid k" "code = lifecycle ! k"
proof -
  from assms have "List.find (\<lambda>s. ws_code s = code) (map (lc_state mid sid) [0..<8]) = Some s"
    unfolding get_state_def find_filter installed_def by (simp split: option.splits)
  then obtain k where "k < 8" "s = lc_state mid sid k" "ws_code (lc_state mid sid k) = code" by (rule find_map_index_SomeD)
  with that show ?thesis by simp
qed

lemma installed_find_state:
  assumes "installed db mid sid" and "k < 8"
  shows "List.find (\<lambda>s. ws_machine_id s = mid \<and> ws_code s = lifecycle ! k) (wf_states db) = Some (lc_state mid sid k)"
    "List.find (\<lambda>s. ws_machine_id s = mid \<and> ws_id s = sid k) (wf_states db) = Some (lc_state mid sid k)"
  using assms by (auto simp: installed_def find_filter lifecycle_eq_iff inj_on_def intro!: find_map_index)

lemma filter_index: "a < n \<Longrightarrow> (\<And>j. j < n \<Longrightarrow> P (f j) \<longleftrightarrow> j = a \<and> b) \<Longrightarrow> filter P (map f [0..<n]) = (if b then [f a] else [])"
proof (induction n)
  case (Suc n)
  show ?case
  proof (cases "a = n")
    case True
    with Suc.prems have "filter P (map f [0..<n]) = []" by (auto simp: filter_empty_conv)
    with True Suc.prems show ?thesis by simp
  next
    case False
    with Suc.prems have "filter P (map f [0..<n]) = (if b then [f a] else [])" by (intro Suc.IH) auto
    with False Suc.prems show ?thesis by simp
  qed
qed simp

lemma installed_find_transition:
  assumes "installed db mid sid" and "a < 8" "b < 8"
  shows "find_transition db mid (sid a) (sid b) = Inr (if b = Suc a then Some (lc_transition mid sid a) else None)"
proof -
  have inj: "sid j = sid l \<longleftrightarrow> j = l" if "j < 8" "l < 8" for j l
    using assms(1) that by (auto simp: installed_def inj_on_def)
  have "filter (\<lambda>t. wt_machine_id t = mid \<and> wt_from t = sid a \<and> wt_to t = sid b) (wf_transitions db) =
      filter (\<lambda>t. wt_from t = sid a \<and> wt_to t = sid b) (filter (\<lambda>t. wt_machine_id t = mid) (wf_transitions db))"
    by (simp add: conj_comms)
  also have "\<dots> = filter (\<lambda>t. wt_from t = sid a \<and> wt_to t = sid b) (map (lc_transition mid sid) [0..<7])"
    using assms(1) by (simp only: installed_def)
  also have "\<dots> = (if b = Suc a then [lc_transition mid sid a] else [])"
  proof (cases "a < 7")
    case True
    then show ?thesis using assms(3) inj by (intro filter_index) (auto simp: lc_transition_def)
  next
    case False
    then have "a = 7" using assms(2) by simp
    then show ?thesis using assms(3) inj by (auto simp: filter_empty_conv lc_transition_def)
  qed
  finally show ?thesis by (simp add: find_transition_def one_or_none_def)
qed


section \<open>Effects\<close>

lemma workflow_frames [simp]:
  "wf_machines (workflow_audit t a ty k act old v db) = wf_machines db" "wf_states (workflow_audit t a ty k act old v db) = wf_states db"
  "wf_transitions (workflow_audit t a ty k act old v db) = wf_transitions db"
  "wf_instances (workflow_audit t a ty k act old v db) = wf_instances db"
  "wf_history (workflow_audit t a ty k act old v db) = wf_history db"
  "wf_shipments (workflow_audit t a ty k act old v db) = wf_shipments db"
  by (simp_all add: workflow_audit_def)

lemma transition_effect:
  assumes "transition guards now iid code actor tid perms nts ctx db = (Inr i', db')"
  obtains i st t h where "dget (wf_instances db) iid = Some i" "wi_tenant_id i = tid" "get_state db (wi_machine_id i) code = Inr st"
    "find_transition db (wi_machine_id i) (wi_current_state_id i) (ws_id st) = Inr (Some t)" "wt_is_active t"
    "truthy (wt_required_permission t) \<longrightarrow> the (wt_required_permission t) \<in> set perms"
    "check_guards guards ctx (wt_guards t) = Inr ()" "set (wt_required_fields t) \<subseteq> set (dkeys ctx)"
    "i' = moved now (ws_id st) i" "wf_instances db' = dset (wi_id i) i' (wf_instances db)"
    "wf_history db' = wf_history db @ [h]" "wh_instance_id h = wi_id i" "wh_from h = wi_current_state_id i" "wh_to h = ws_id st"
    "wf_machines db' = wf_machines db" "wf_states db' = wf_states db" "wf_transitions db' = wf_transitions db"
    "wf_shipments db' = wf_shipments db"
proof -
  from assms obtain i where i: "dget (wf_instances db) iid = Some i" "wi_tenant_id i = tid"
    by (auto simp: transition_def split: option.splits if_splits)
  with assms obtain st where st: "get_state db (wi_machine_id i) code = Inr st"
    by (auto simp: transition_def split: sum.splits)
  with assms i obtain t where t: "find_transition db (wi_machine_id i) (wi_current_state_id i) (ws_id st) = Inr (Some t)"
    by (auto simp: transition_def split: sum.splits option.splits)
  with assms i st have a: "wt_is_active t" "truthy (wt_required_permission t) \<longrightarrow> the (wt_required_permission t) \<in> set perms"
    "check_guards guards ctx (wt_guards t) = Inr ()" "set (wt_required_fields t) \<subseteq> set (dkeys ctx)"
    "perform now tid actor nts i (ws_id st) db = (i', db')"
    by (auto simp: transition_def filter_empty_conv split: sum.splits if_splits prod.splits)
  show ?thesis
    by (rule that [OF i st t a(1-4)]) (use a(5) in \<open>auto simp: perform_def Let_def\<close>)
qed

lemma transition_Inl: "transition guards now iid code actor tid perms nts ctx db = (Inl e, db') \<Longrightarrow> db' = db"
  by (auto simp: transition_def split: option.splits sum.splits if_splits prod.splits)

lemma ensure_effect:
  assumes "ensure_shipment_workflow tid mid sid db = (m, db')"
  obtains (found) "m \<in> set (wf_machines db)" "db' = db" "sm_tenant_id m = tid" "sm_code m = ''shipment_common''"
  | (made) "sm_id m = mid" "sm_code m = ''shipment_common''" "wf_machines db' = wf_machines db @ [m]"
    "wf_states db' = wf_states db @ map (lc_state mid sid) [0..<8]"
    "wf_transitions db' = wf_transitions db @ map (lc_transition mid sid) [0..<7]"
    "wf_instances db' = wf_instances db" "wf_history db' = wf_history db" "wf_shipments db' = wf_shipments db"
proof (cases "List.find (\<lambda>m. sm_tenant_id m = tid \<and> sm_code m = ''shipment_common'') (wf_machines db)")
  case None
  then show ?thesis
    using assms shipment_state_rows [of mid sid] shipment_transition_rows [of mid sid]
    by (intro made) (auto simp: ensure_shipment_workflow_def ensure_workflow_def Let_def)
next
  case (Some m')
  then show ?thesis
    using assms find_SomeD [OF Some] by (intro found) (auto simp: ensure_shipment_workflow_def ensure_workflow_def)
qed

lemma create_effect:
  assumes "create_shipment now ids tid actor cid bid mode db = (Inr s, db')"
  obtains m db1 st i where
    "ensure_shipment_workflow tid (si_machine ids) (si_states ids) (db\<lparr>wf_shipments := dset (si_shipment ids) s (wf_shipments db)\<rparr>) = (m, db1)"
    "sd_id s = si_shipment ids" "sd_tenant_id s = tid" "sd_status s = ''DRAFT''"
    "List.find (\<lambda>st. ws_machine_id st = sm_id m \<and> ws_code st = ''DRAFT'') (wf_states db1) = Some st"
    "wi_id i = si_instance ids" "wi_tenant_id i = tid" "wi_machine_id i = sm_id m" "wi_entity_type i = ''shipment''"
    "wi_entity_id i = si_shipment ids" "wi_current_state_id i = ws_id st" "wi_version i = 1"
    "wf_instances db' = dset (si_instance ids) i (wf_instances db1)"
    "wf_machines db' = wf_machines db1" "wf_states db' = wf_states db1" "wf_transitions db' = wf_transitions db1"
    "wf_history db' = wf_history db1" "wf_shipments db' = wf_shipments db1"
proof -
  let ?s = "\<lparr>sd_id = si_shipment ids, sd_tenant_id = tid, sd_booking_id = bid, sd_customer_id = cid, sd_mode = mode,
    sd_status = ''DRAFT'', sd_created_by = Some actor\<rparr>"
  obtain m db1 where e: "ensure_shipment_workflow tid (si_machine ids) (si_states ids)
      (db\<lparr>wf_shipments := dset (si_shipment ids) ?s (wf_shipments db)\<rparr>) = (m, db1)" by fastforce
  with assms obtain st where st: "List.find (\<lambda>st. ws_machine_id st = sm_id m \<and> ws_code st = ''DRAFT'') (wf_states db1) = Some st"
    and s: "s = ?s" by (auto simp: create_shipment_def Let_def split: option.splits)
  show ?thesis
    by (rule that [of m db1 st "\<lparr>wi_id = si_instance ids, wi_tenant_id = tid, wi_machine_id = sm_id m, wi_entity_type = ''shipment'',
        wi_entity_id = si_shipment ids, wi_current_state_id = ws_id st, wi_version = 1, wi_updated_at = now\<rparr>"])
      (use assms e st s in \<open>auto simp: create_shipment_def Let_def\<close>)
qed

lemma shipment_transition_effect:
  assumes "shipment_transition guards now sid tid actor perms code nts ctx db = (Inr s', db')"
  obtains s i i' db1 where "dget (wf_shipments db) sid = Some s" "sd_tenant_id s = tid"
    "filter (\<lambda>i. wi_entity_type i = ''shipment'' \<and> wi_entity_id i = sid \<and> wi_tenant_id i = tid) (dvalues (wf_instances db)) = [i]"
    "transition guards now (wi_id i) code actor tid perms nts ctx db = (Inr i', db1)"
    "s' = s\<lparr>sd_status := code\<rparr>" "db' = db1\<lparr>wf_shipments := dset sid s' (wf_shipments db1)\<rparr>"
  using assms
  by (auto simp: shipment_transition_def get_shipment_def one_or_none_def Let_def split: option.splits sum.splits if_splits prod.splits list.splits)

section \<open>The invariant\<close>

definition history_of :: "wf_db \<Rightarrow> string \<Rightarrow> workflow_history list" where
  "history_of db iid = filter (\<lambda>h. wh_instance_id h = iid) (wf_history db)"

text \<open>
  An instance at the k-th state has made the first k steps; its shipment's status is a state it has
  been in.
\<close>

definition instance_ok :: "wf_db \<Rightarrow> workflow_instance \<Rightarrow> bool" where
  "instance_ok db i \<longleftrightarrow> (\<exists>sid k j s. k < 8 \<and> j \<le> k \<and> installed db (wi_machine_id i) sid \<and> wi_current_state_id i = sid k \<and>
     wi_version i = int k + 1 \<and> wi_entity_type i = ''shipment'' \<and>
     map (\<lambda>h. (wh_from h, wh_to h)) (history_of db (wi_id i)) = map (\<lambda>m. (sid m, sid (Suc m))) [0..<k] \<and>
     dget (wf_shipments db) (wi_entity_id i) = Some s \<and> sd_tenant_id s = wi_tenant_id i \<and> sd_status s = lifecycle ! j)"

definition rows_ok :: "wf_db \<Rightarrow> bool" where
  "rows_ok db \<longleftrightarrow> ws_machine_id ` set (wf_states db) \<subseteq> sm_id ` set (wf_machines db) \<and>
     wt_machine_id ` set (wf_transitions db) \<subseteq> sm_id ` set (wf_machines db) \<and>
     (\<forall>m \<in> set (wf_machines db). \<exists>sid. installed db (sm_id m) sid)"

definition wf_inv :: "wf_db \<Rightarrow> bool" where
  "wf_inv db \<longleftrightarrow> rows_ok db \<and> store_inv wi_id (wf_instances db) \<and> store_inv sd_id (wf_shipments db) \<and>
     wh_instance_id ` set (wf_history db) \<subseteq> set (dkeys (wf_instances db)) \<and>
     distinct (map wi_entity_id (dvalues (wf_instances db))) \<and>
     (\<forall>iid i. dget (wf_instances db) iid = Some i \<longrightarrow> instance_ok db i)"

lemma instance_ok_frame:
  assumes "instance_ok db i" "wf_states db' = wf_states db" "wf_transitions db' = wf_transitions db"
    "history_of db' (wi_id i) = history_of db (wi_id i)" "dget (wf_shipments db') (wi_entity_id i) = dget (wf_shipments db) (wi_entity_id i)"
  shows "instance_ok db' i"
  using assms by (simp add: instance_ok_def installed_def)

lemma rows_ok_frame:
  "rows_ok db \<Longrightarrow> wf_machines db' = wf_machines db \<Longrightarrow> wf_states db' = wf_states db \<Longrightarrow> wf_transitions db' = wf_transitions db \<Longrightarrow> rows_ok db'"
  by (simp add: rows_ok_def installed_def)

text \<open>One transition moves one state ahead.\<close>

lemma instance_ok_step:
  assumes ok: "instance_ok db i" and t: "transition guards now (wi_id i) code actor tid perms nts ctx db = (Inr i', db')"
    and g: "dget (wf_instances db) (wi_id i) = Some i"
  obtains sid k where "Suc k < 8" "installed db (wi_machine_id i) sid" "wi_current_state_id i = sid k" "wi_version i = int k + 1"
    "code = lifecycle ! Suc k" "i' = moved now (sid (Suc k)) i"
    "map (\<lambda>h. (wh_from h, wh_to h)) (history_of db' (wi_id i)) = map (\<lambda>m. (sid m, sid (Suc m))) [0..<Suc k]"
proof -
  from ok obtain sid k where k: "k < 8" "installed db (wi_machine_id i) sid" "wi_current_state_id i = sid k" "wi_version i = int k + 1"
    "map (\<lambda>h. (wh_from h, wh_to h)) (history_of db (wi_id i)) = map (\<lambda>m. (sid m, sid (Suc m))) [0..<k]"
    unfolding instance_ok_def by blast
  from t g obtain st tr h where e: "get_state db (wi_machine_id i) code = Inr st"
    "find_transition db (wi_machine_id i) (wi_current_state_id i) (ws_id st) = Inr (Some tr)" "i' = moved now (ws_id st) i"
    "wf_history db' = wf_history db @ [h]" "wh_instance_id h = wi_id i" "wh_from h = wi_current_state_id i" "wh_to h = ws_id st"
    by (auto elim!: transition_effect)
  from installed_get_state [OF k(2) e(1)] obtain b where b: "b < 8" "st = lc_state (wi_machine_id i) sid b" "code = lifecycle ! b" .
  from e(2) have "b = Suc k" unfolding k(3) b(2) lc_state_code installed_find_transition [OF k(2,1) b(1)] by (simp split: if_splits)
  with b k e show ?thesis by (intro that [of k sid]) (simp_all add: history_of_def)
qed

section \<open>Preservation\<close>

lemma dvalues_inj:
  "distinct (map f (dvalues d)) \<Longrightarrow> dget d a = Some x \<Longrightarrow> dget d b = Some y \<Longrightarrow> f x = f y \<Longrightarrow> a = b"
  by (induction d) (auto split: if_splits dest!: map_of_SomeD simp: image_iff)

lemma dvalues_kept: "dget d k = Some old \<Longrightarrow> f v = f old \<Longrightarrow> map f (dvalues (dset k v d)) = map f (dvalues d)"
  by (induction d) auto

lemma moved_fields [simp]:
  "wi_id (moved now x i) = wi_id i" "wi_entity_id (moved now x i) = wi_entity_id i" "wi_tenant_id (moved now x i) = wi_tenant_id i"
  "wi_machine_id (moved now x i) = wi_machine_id i" "wi_entity_type (moved now x i) = wi_entity_type i"
  "wi_current_state_id (moved now x i) = x" "wi_version (moved now x i) = wi_version i + 1"
  by (simp_all add: moved_def)

lemma wf_inv_step:
  assumes inv: "wf_inv db" and t: "transition guards now iid code actor tid perms nts ctx db = (Inr i', db')"
    and g: "dget (wf_instances db) iid = Some i"
    and ships: "ships = wf_shipments db \<or>
      (\<exists>s. dget (wf_shipments db) (wi_entity_id i) = Some s \<and> ships = dset (wi_entity_id i) (s\<lparr>sd_status := code\<rparr>) (wf_shipments db))"
  shows "wf_inv (db'\<lparr>wf_shipments := ships\<rparr>)"
proof -
  let ?db = "db'\<lparr>wf_shipments := ships\<rparr>"
  have id: "wi_id i = iid" using inv g store_find_key by (force simp: wf_inv_def)
  have ok: "instance_ok db i" using inv g by (auto simp: wf_inv_def)
  from t g obtain h where e: "wf_instances db' = dset iid i' (wf_instances db)" "wf_history db' = wf_history db @ [h]"
    "wh_instance_id h = iid" "wf_machines db' = wf_machines db" "wf_states db' = wf_states db"
    "wf_transitions db' = wf_transitions db" "wf_shipments db' = wf_shipments db"
    using id by (auto elim!: transition_effect)
  obtain sid k where k: "Suc k < 8" "installed db (wi_machine_id i) sid" "wi_current_state_id i = sid k" "wi_version i = int k + 1"
    "code = lifecycle ! Suc k" "i' = moved now (sid (Suc k)) i"
    "map (\<lambda>h. (wh_from h, wh_to h)) (history_of db' (wi_id i)) = map (\<lambda>m. (sid m, sid (Suc m))) [0..<Suc k]"
    by (rule instance_ok_step [OF ok t [folded id]]) (use g id in auto)
  from ok obtain j s k' where s: "j \<le> k'" "k' < 8" "wi_version i = int k' + 1" "dget (wf_shipments db) (wi_entity_id i) = Some s"
    "sd_tenant_id s = wi_tenant_id i" "sd_status s = lifecycle ! j" "wi_entity_type i = ''shipment''"
    unfolding instance_ok_def by blast
  have kk: "k' = k" using s(3) k(4) by simp
  have st: "store_inv sd_id (wf_shipments db)" using inv by (simp add: wf_inv_def)
  have sid: "sd_id s = wi_entity_id i" using st s(4) by (rule store_find_key)
  have ships_inv: "store_inv sd_id ships" using ships st sid s(4) by (auto simp: store_inv_dset)
  have other: "dget ships e = dget (wf_shipments db) e" if "e \<noteq> wi_entity_id i" for e
    using ships that by (auto simp: dget_dset)
  obtain s' j' where s': "dget ships (wi_entity_id i) = Some s'" "sd_tenant_id s' = wi_tenant_id i" "sd_status s' = lifecycle ! j'" "j' \<le> Suc k"
  proof (cases "ships = wf_shipments db")
    case True
    then show ?thesis using s kk by (intro that [of s j]) auto
  next
    case False
    then show ?thesis using ships s k by (intro that [of "s\<lparr>sd_status := code\<rparr>" "Suc k"]) (auto simp: dget_dset)
  qed
  have inst: "installed ?db m sd \<longleftrightarrow> installed db m sd" for m sd by (simp add: installed_def e)
  have hist: "history_of ?db x = history_of db' x" for x by (simp add: history_of_def)
  have all: "instance_ok ?db x" if x: "dget (wf_instances ?db) y = Some x" for x y
  proof (cases "y = iid")
    case True
    then have "x = i'" using x e by (simp add: dget_dset)
    with s' k s(7) id show ?thesis
      unfolding instance_ok_def inst hist by (intro exI [of _ sid] exI [of _ "Suc k"] exI [of _ j'] exI [of _ s']) auto
  next
    case False
    then have y: "dget (wf_instances db) y = Some x" using x e by (simp add: dget_dset)
    then have "instance_ok db x" using inv by (auto simp: wf_inv_def)
    moreover have "wi_entity_id x \<noteq> wi_entity_id i"
      using dvalues_inj [OF _ y g, of wi_entity_id] inv False by (auto simp: wf_inv_def)
    moreover have "wi_id x = y" using inv y store_find_key by (force simp: wf_inv_def)
    ultimately show ?thesis
      using e False other by (intro instance_ok_frame [of db x ?db]) (simp_all add: history_of_def)
  qed
  have "map wi_entity_id (dvalues (wf_instances db')) = map wi_entity_id (dvalues (wf_instances db))"
    unfolding e(1) using g k(6) by (intro dvalues_kept) auto
  then have d: "distinct (map wi_entity_id (dvalues (wf_instances db')))" using inv by (simp add: wf_inv_def del: map_map)
  have i: "store_inv wi_id (wf_instances db')"
    using inv k(6) id by (simp add: e(1) wf_inv_def store_inv_dset)
  have "set (dkeys (wf_instances db')) = insert iid (set (dkeys (wf_instances db)))"
    by (auto simp: e(1) AList.update_keys)
  then have w: "wh_instance_id ` set (wf_history db') \<subseteq> set (dkeys (wf_instances db'))"
    using inv unfolding e(2) by (simp add: wf_inv_def e(3)) blast
  have "rows_ok db" using inv by (simp only: wf_inv_def)
  then have r: "rows_ok ?db" by (rule rows_ok_frame) (simp_all add: e)
  show ?thesis unfolding wf_inv_def using all d i w r ships_inv by (simp del: map_map)
qed

lemma rows_ok_made:
  assumes "rows_ok db" "mid \<notin> sm_id ` set (wf_machines db)" "inj_on sid {..<8}" "sm_id m = mid"
    "wf_machines db' = wf_machines db @ [m]" "wf_states db' = wf_states db @ map (lc_state mid sid) [0..<8]"
    "wf_transitions db' = wf_transitions db @ map (lc_transition mid sid) [0..<7]"
  shows "rows_ok db' \<and> installed db' mid sid \<and> (\<forall>x sd. x \<noteq> mid \<longrightarrow> installed db x sd \<longrightarrow> installed db' x sd)"
proof -
  have old: "filter (\<lambda>s. ws_machine_id s = mid) (wf_states db) = []" "filter (\<lambda>t. wt_machine_id t = mid) (wf_transitions db) = []"
    using assms(1,2) by (auto simp: rows_ok_def filter_empty_conv)
  have new: "filter (\<lambda>s. ws_machine_id s = x) (map (lc_state mid sid) [0..<8]) = (if x = mid then map (lc_state mid sid) [0..<8] else [])"
    "filter (\<lambda>t. wt_machine_id t = x) (map (lc_transition mid sid) [0..<7]) = (if x = mid then map (lc_transition mid sid) [0..<7] else [])" for x
    by (auto simp: filter_id_conv filter_empty_conv lc_state_def state_row_def lc_transition_def)
  have i1: "installed db' mid sid" using assms(3) old new by (simp add: installed_def assms(6,7))
  have i2: "installed db' x sd" if "x \<noteq> mid" "installed db x sd" for x sd
    using that new by (simp add: installed_def assms(6,7))
  have "\<exists>sid. installed db' (sm_id m') sid" if "m' \<in> set (wf_machines db')" for m'
  proof (cases "m' = m")
    case True
    then show ?thesis using i1 assms(4) by blast
  next
    case False
    then have m': "m' \<in> set (wf_machines db)" using that assms(5) by simp
    then obtain sd where "installed db (sm_id m') sd" using assms(1) by (auto simp: rows_ok_def)
    moreover have "sm_id m' \<noteq> mid" using m' assms(2) by (metis imageI)
    ultimately show ?thesis using i2 by blast
  qed
  moreover have "ws_machine_id ` set (wf_states db') \<subseteq> sm_id ` set (wf_machines db')"
    "wt_machine_id ` set (wf_transitions db') \<subseteq> sm_id ` set (wf_machines db')"
    using assms(1,4) by (auto simp: rows_ok_def assms(5-7) lc_state_def state_row_def lc_transition_def)
  ultimately show ?thesis using i1 i2 by (simp add: rows_ok_def)
qed

lemma ensure_keeps:
  assumes "ensure_shipment_workflow tid mid sid db = (m, db')" "rows_ok db" "mid \<notin> sm_id ` set (wf_machines db)" "inj_on sid {..<8}"
  shows "rows_ok db' \<and> (\<exists>sd. installed db' (sm_id m) sd) \<and> (\<forall>x sd. x \<in> sm_id ` set (wf_machines db) \<longrightarrow> installed db x sd \<longrightarrow> installed db' x sd) \<and>
    wf_instances db' = wf_instances db \<and> wf_history db' = wf_history db \<and> wf_shipments db' = wf_shipments db"
  using assms(1)
proof (cases rule: ensure_effect)
  case found
  then show ?thesis using assms(2) by (auto simp: rows_ok_def)
next
  case made
  from rows_ok_made [OF assms(2,3,4) made(1,3-5)] show ?thesis using made assms(3) by metis
qed

lemma wf_inv_create:
  assumes inv: "wf_inv db" and c: "create_shipment now ids tid actor cid bid mode db = (Inr s, db')"
    and ok: "wf_ok (Create_Shipment now ids tid actor cid bid mode) db"
  shows "wf_inv db'"
proof -
  let ?db0 = "db\<lparr>wf_shipments := dset (si_shipment ids) s (wf_shipments db)\<rparr>"
  from c obtain m db1 st i where e:
    "ensure_shipment_workflow tid (si_machine ids) (si_states ids) ?db0 = (m, db1)"
    "sd_id s = si_shipment ids" "sd_tenant_id s = tid" "sd_status s = ''DRAFT''"
    "List.find (\<lambda>st. ws_machine_id st = sm_id m \<and> ws_code st = ''DRAFT'') (wf_states db1) = Some st"
    "wi_id i = si_instance ids" "wi_tenant_id i = tid" "wi_machine_id i = sm_id m" "wi_entity_type i = ''shipment''"
    "wi_entity_id i = si_shipment ids" "wi_current_state_id i = ws_id st" "wi_version i = 1"
    "wf_instances db' = dset (si_instance ids) i (wf_instances db1)"
    "wf_machines db' = wf_machines db1" "wf_states db' = wf_states db1" "wf_transitions db' = wf_transitions db1"
    "wf_history db' = wf_history db1" "wf_shipments db' = wf_shipments db1"
    by (rule create_effect)
  have rows: "rows_ok db" using inv by (simp only: wf_inv_def)
  then have rows0: "rows_ok ?db0" by (rule rows_ok_frame) simp_all
  have fresh: "si_shipment ids \<notin> set (dkeys (wf_shipments db))" "si_instance ids \<notin> set (dkeys (wf_instances db))"
    "si_machine ids \<notin> sm_id ` set (wf_machines ?db0)" "inj_on (si_states ids) {..<8}"
    using ok by simp_all
  from ensure_keeps [OF e(1) rows0 fresh(3,4)] obtain sd where k: "rows_ok db1" "installed db1 (sm_id m) sd"
    "\<forall>x sd. x \<in> sm_id ` set (wf_machines db) \<longrightarrow> installed ?db0 x sd \<longrightarrow> installed db1 x sd"
    "wf_instances db1 = wf_instances db" "wf_history db1 = wf_history db"
    "wf_shipments db1 = dset (si_shipment ids) s (wf_shipments db)" by auto
  have inst: "installed db' x y \<longleftrightarrow> installed db1 x y" for x y using e by (simp add: installed_def)
  have st: "st = lc_state (sm_id m) sd 0"
    using installed_find_state(1) [OF k(2), of 0] e(5) by (simp add: lifecycle_def)
  have noh: "history_of db' (si_instance ids) = []"
  proof -
    have "wh_instance_id ` set (wf_history db) \<subseteq> set (dkeys (wf_instances db))" using inv by (simp only: wf_inv_def)
    then have "\<forall>h \<in> set (wf_history db). wh_instance_id h \<noteq> si_instance ids" using fresh(2) by (metis imageI subsetD)
    then show ?thesis using e(17) k(5) by (simp add: history_of_def filter_empty_conv)
  qed
  have hist: "history_of db' x = history_of db x" for x using e(17) k(5) by (simp add: history_of_def)
  have old: "instance_ok db x" if "dget (wf_instances db) y = Some x" for x y
    using inv that by (auto simp only: wf_inv_def)
  have old_machine: "wi_machine_id x \<in> sm_id ` set (wf_machines db)" if "instance_ok db x" for x
  proof -
    from that obtain sid where "installed db (wi_machine_id x) sid" unfolding instance_ok_def by blast
    then have "filter (\<lambda>s. ws_machine_id s = wi_machine_id x) (wf_states db) \<noteq> []" by (simp add: installed_def)
    then obtain y where "y \<in> set (wf_states db)" "ws_machine_id y = wi_machine_id x" by (auto simp: filter_empty_conv)
    then show ?thesis using rows unfolding rows_ok_def by (metis imageI subsetD)
  qed
  have ships: "dget (wf_shipments db') x = (if x = si_shipment ids then Some s else dget (wf_shipments db) x)" for x
    using e(18) k(6) by (simp add: dget_dset)
  have entity_old: "wi_entity_id x \<noteq> si_shipment ids" if "instance_ok db x" for x
    using that fresh(1) unfolding instance_ok_def by (metis domI dom_map_of_conv_image_fst set_map)
  have all: "instance_ok db' x" if x: "dget (wf_instances db') y = Some x" for x y
  proof (cases "y = si_instance ids")
    case True
    then have "x = i" using x e(13) by (simp add: dget_dset)
    then show ?thesis
      unfolding instance_ok_def inst using k(2) e st noh ships
      by (intro exI [of _ sd] exI [of _ 0] exI [of _ s]) (simp add: lifecycle_def)
  next
    case False
    then have "dget (wf_instances db) y = Some x" using x e(13) k(4) by (simp add: dget_dset)
    then have o: "instance_ok db x" by (rule old)
    then obtain sid k' j s' where h: "k' < 8" "j \<le> k'" "installed db (wi_machine_id x) sid" "wi_current_state_id x = sid k'"
      "wi_version x = int k' + 1" "wi_entity_type x = ''shipment''"
      "map (\<lambda>h. (wh_from h, wh_to h)) (history_of db (wi_id x)) = map (\<lambda>m. (sid m, sid (Suc m))) [0..<k']"
      "dget (wf_shipments db) (wi_entity_id x) = Some s'" "sd_tenant_id s' = wi_tenant_id x" "sd_status s' = lifecycle ! j"
      unfolding instance_ok_def by blast
    have "installed ?db0 (wi_machine_id x) sid" using h(3) by (simp add: installed_def)
    then have "installed db1 (wi_machine_id x) sid" using k(3) old_machine [OF o] by blast
    then show ?thesis
      unfolding instance_ok_def inst hist ships using h entity_old [OF o]
      by (intro exI [of _ sid] exI [of _ k'] exI [of _ j] exI [of _ s']) simp
  qed
  have "dvalues (wf_instances db') = dvalues (wf_instances db) @ [i]"
    using e(13) k(4) dvalues_new [OF fresh(2)] by simp
  moreover have "si_shipment ids \<notin> wi_entity_id ` set (dvalues (wf_instances db))"
  proof
    assume "si_shipment ids \<in> wi_entity_id ` set (dvalues (wf_instances db))"
    then obtain x where x: "x \<in> set (dvalues (wf_instances db))" "wi_entity_id x = si_shipment ids" by (metis imageE)
    have "store_inv wi_id (wf_instances db)" using inv by (simp only: wf_inv_def)
    then have "dget (wf_instances db) (wi_id x) = Some x" using x(1) by (simp only: store_elems_iff)
    then show False using old entity_old x(2) by blast
  qed
  ultimately have d: "distinct (map wi_entity_id (dvalues (wf_instances db')))"
    using inv e(10) by (simp add: wf_inv_def del: map_map)
  have i: "store_inv wi_id (wf_instances db')" "store_inv sd_id (wf_shipments db')"
    using inv e(2,6,13,18) k(4,6) by (simp_all add: wf_inv_def store_inv_dset)
  have "set (dkeys (wf_instances db')) = insert (si_instance ids) (set (dkeys (wf_instances db)))"
    using e(13) k(4) by (auto simp: AList.update_keys)
  then have w: "wh_instance_id ` set (wf_history db') \<subseteq> set (dkeys (wf_instances db'))"
    using inv e(17) k(5) unfolding wf_inv_def by auto
  have r: "rows_ok db'" by (rule rows_ok_frame [OF k(1)]) (simp_all add: e)
  show ?thesis unfolding wf_inv_def using all d i w r by (simp del: map_map)
qed

lemma wf_keeps:
  assumes inv: "wf_inv db" and ok: "wf_ok r db" and s: "wf_service r db = (Inr x, db')"
  shows "wf_inv db'"
proof (cases r)
  case (Create_Shipment now ids tid actor cid bid mode)
  then show ?thesis using s wf_inv_create [OF inv _ ok [unfolded Create_Shipment]] by (auto simp: apfst_Inr)
next
  case (Shipment_Transition now sid tid actor perms code nts ctx)
  with s obtain sh where "shipment_transition guard_registry now sid tid actor perms code nts ctx db = (Inr sh, db')"
    by (auto simp: apfst_Inr)
  then show ?thesis
  proof (rule shipment_transition_effect)
    fix s i i' db1
    assume h: "dget (wf_shipments db) sid = Some s" "filter (\<lambda>i. wi_entity_type i = ''shipment'' \<and> wi_entity_id i = sid \<and> wi_tenant_id i = tid)
        (dvalues (wf_instances db)) = [i]"
      "transition guard_registry now (wi_id i) code actor tid perms nts ctx db = (Inr i', db1)" "sh = s\<lparr>sd_status := code\<rparr>"
      "db' = db1\<lparr>wf_shipments := dset sid sh (wf_shipments db1)\<rparr>"
    have "i \<in> set (filter (\<lambda>i. wi_entity_type i = ''shipment'' \<and> wi_entity_id i = sid \<and> wi_tenant_id i = tid) (dvalues (wf_instances db)))"
      unfolding h(2) by simp
    then have i: "i \<in> set (dvalues (wf_instances db))" "wi_entity_id i = sid" by simp_all
    have "store_inv wi_id (wf_instances db)" using inv by (simp only: wf_inv_def)
    then have g: "dget (wf_instances db) (wi_id i) = Some i" using i(1) by (simp only: store_elems_iff)
    have "wf_shipments db1 = wf_shipments db" using h(3) by (auto elim: transition_effect)
    then show ?thesis
      unfolding h(5) using h(1,4) i(2) by (intro wf_inv_step [OF inv h(3) g]) auto
  qed
next
  case (Instance_Transition now iid code actor tid perms nts ctx)
  with s obtain i' where t: "transition guard_registry now iid code actor tid perms nts ctx db = (Inr i', db')" by (auto simp: apfst_Inr)
  then obtain i where g: "dget (wf_instances db) iid = Some i" "wf_shipments db' = wf_shipments db" by (auto elim: transition_effect)
  from wf_inv_step [OF inv t g(1), of "wf_shipments db"] have "wf_inv (db'\<lparr>wf_shipments := wf_shipments db\<rparr>)" by simp
  moreover have "db'\<lparr>wf_shipments := wf_shipments db\<rparr> = db'" using g(2) by (cases db') simp
  ultimately show ?thesis by simp
qed

interpretation lifecycle: service_contract wf_service wf_ok wf_inv
  by unfold_locales (rule wf_keeps)

end
