(* ===== verification/Shipment_Lifecycle.thy ===== *)
theory Shipment_Lifecycle
  imports Workflow_Life
begin

text \<open>
  Shipments under the workflow engine: in every database the endpoints reach, an instance follows the
  common lifecycle one state at a time, makes at most seven transitions and can be closed; what the
  instance endpoint leaves behind; and the machine of direct air freight, which cannot get past
  CARGO_READY with the guards the program registers.
\<close>

section \<open>Progress\<close>

text \<open>The code of a state of a machine.\<close>

definition code_of :: "wf_db \<Rightarrow> workflow_instance \<Rightarrow> string \<Rightarrow> string option" where
  "code_of db i state_id = map_option ws_code
     (List.find (\<lambda>s. ws_machine_id s = wi_machine_id i \<and> ws_id s = state_id) (wf_states db))"

definition no_shipments :: wf_db where
  "no_shipments = \<lparr>wf_machines = [], wf_states = [], wf_transitions = [], wf_instances = [], wf_history = [],
     wf_shipments = [], wf_outbox = [], wf_audit = []\<rparr>"

lemma no_shipments_inv: "wf_inv no_shipments"
  by (simp add: wf_inv_def rows_ok_def no_shipments_def)

lemma reached_wf_inv: "reached wf_service wf_ok no_shipments db \<Longrightarrow> wf_inv db"
  using lifecycle.reached_inv no_shipments_inv by blast

lemma wf_inv_instance:
  assumes "wf_inv db" "dget (wf_instances db) iid = Some i"
  obtains sid k j s where "wi_id i = iid" "k < 8" "j \<le> k" "installed db (wi_machine_id i) sid" "wi_current_state_id i = sid k"
    "wi_version i = int k + 1" "wi_entity_type i = ''shipment''"
    "map (\<lambda>h. (wh_from h, wh_to h)) (history_of db iid) = map (\<lambda>m. (sid m, sid (Suc m))) [0..<k]"
    "dget (wf_shipments db) (wi_entity_id i) = Some s" "sd_tenant_id s = wi_tenant_id i" "sd_status s = lifecycle ! j"
proof -
  have "store_inv wi_id (wf_instances db)" using assms(1) by (simp only: wf_inv_def)
  then have "wi_id i = iid" using assms(2) by (rule store_find_key)
  moreover have "instance_ok db i" using assms by (auto simp only: wf_inv_def)
  ultimately show ?thesis using that unfolding instance_ok_def by blast
qed

lemma code_of_state: "installed db (wi_machine_id i) sid \<Longrightarrow> k < 8 \<Longrightarrow> code_of db i (sid k) = Some (lifecycle ! k)"
  by (simp add: code_of_def installed_find_state(2))

lemma transition_ok:
  assumes inv: "wf_inv db" and g: "dget (wf_instances db) iid = Some i" and v: "wi_version i = int k + 1" and k: "k < 7"
    and perms: "{''shipment:create'', ''shipment:transition''} \<subseteq> set perms"
  obtains i' db' where
    "transition guard_registry now iid (lifecycle ! Suc k) actor (wi_tenant_id i) perms nts [] db = (Inr i', db')"
    "dget (wf_instances db') iid = Some i'" "wi_version i' = int (Suc k) + 1" "wi_tenant_id i' = wi_tenant_id i"
    "wi_entity_id i' = wi_entity_id i" "wf_shipments db' = wf_shipments db" "wi_machine_id i' = wi_machine_id i"
proof -
  from inv g obtain sid k' where h: "wi_id i = iid" "k' < 8" "installed db (wi_machine_id i) sid" "wi_current_state_id i = sid k'"
    "wi_version i = int k' + 1" by (rule wf_inv_instance)
  then have k': "k' = k" using v by simp
  have st: "get_state db (wi_machine_id i) (lifecycle ! Suc k) = Inr (lc_state (wi_machine_id i) sid (Suc k))"
    using installed_find_state(1) [OF h(3), of "Suc k"] k by (simp add: get_state_def)
  have tr: "find_transition db (wi_machine_id i) (sid k) (sid (Suc k)) = Inr (Some (lc_transition (wi_machine_id i) sid k))"
    using installed_find_transition [OF h(3), of k "Suc k"] k by simp
  have gd: "check_guards guard_registry [] [''always_true''] = Inr ()"
    by (simp add: guard_registry_def register_def evaluate_guard_def)
  obtain i' db' where p: "perform now (wi_tenant_id i) actor nts i (sid (Suc k)) db = (i', db')" by fastforce
  have "transition guard_registry now iid (lifecycle ! Suc k) actor (wi_tenant_id i) perms nts [] db = (Inr i', db')"
    using g st tr gd perms h(4) k' p by (simp add: transition_def) (simp add: lc_transition_def)
  then show ?thesis
    by (rule that) (use p h(1) v in \<open>auto simp: perform_def Let_def dget_dset\<close>)
qed

text \<open>Through the instance endpoint the status of the shipment is left behind.\<close>

lemma close_by_instance:
  assumes "wf_inv db" "dget (wf_instances db) iid = Some i" "wi_version i = int k + 1" "k \<le> 7"
  obtains i' db' where "reached wf_service wf_ok db db'" "dget (wf_instances db') iid = Some i'" "wi_version i' = 8"
    "wi_entity_id i' = wi_entity_id i" "wf_shipments db' = wf_shipments db"
  using assms
proof (induction "7 - k" arbitrary: k db i thesis)
  case 0
  then show ?case using reached_start [of wf_service wf_ok db] by simp
next
  case (Suc n)
  then have "k < 7" and n: "n = 7 - Suc k" by arith+
  obtain i1 db1 where t: "transition guard_registry 0 iid (lifecycle ! Suc k) ''U'' (wi_tenant_id i)
      [''shipment:create'', ''shipment:transition''] None [] db = (Inr i1, db1)"
    "dget (wf_instances db1) iid = Some i1" "wi_version i1 = int (Suc k) + 1" "wi_entity_id i1 = wi_entity_id i"
    "wf_shipments db1 = wf_shipments db"
    by (rule transition_ok [OF Suc.prems(2-4) \<open>k < 7\<close>, of "[''shipment:create'', ''shipment:transition'']" 0 "''U''" None]) (simp, blast)
  let ?r = "Instance_Transition 0 iid (lifecycle ! Suc k) ''U'' (wi_tenant_id i) [''shipment:create'', ''shipment:transition''] None []"
  have w: "wf_service ?r db = (Inr (), db1)" using t(1) by simp
  have r: "reached wf_service wf_ok db db1"
    using reached_request [OF reached_start, of wf_ok ?r db wf_service] w by simp
  have inv1: "wf_inv db1" using wf_keeps [OF Suc.prems(2) _ w] by simp
  obtain i' db' where "reached wf_service wf_ok db1 db'" "dget (wf_instances db') iid = Some i'"
    "wi_version i' = 8" "wi_entity_id i' = wi_entity_id i1" "wf_shipments db' = wf_shipments db1"
    by (rule Suc.hyps(1) [OF n _ inv1 t(2,3)]) (use \<open>k < 7\<close> in simp_all)
  note this(1-3) this(4) [unfolded t(4)] this(5) [unfolded t(5)]
  with r show ?case using Suc.prems(1) reached_trans by metis
qed

lemma distinct_of_map: "distinct (map f xs) \<Longrightarrow> distinct xs"
  by (simp add: distinct_map)

lemma filter_eq_single: "distinct xs \<Longrightarrow> a \<in> set xs \<Longrightarrow> filter (\<lambda>x. x = a) xs = [a]"
  by (induction xs) (auto simp: filter_empty_conv)

lemma entity_instances:
  assumes "wf_inv db" "dget (wf_instances db) iid = Some i"
  shows "filter (\<lambda>x. wi_entity_type x = ''shipment'' \<and> wi_entity_id x = wi_entity_id i \<and> wi_tenant_id x = wi_tenant_id i)
    (dvalues (wf_instances db)) = [i]"
proof -
  let ?xs = "dvalues (wf_instances db)"
  have d: "distinct (map wi_entity_id ?xs)" using assms(1) by (simp only: wf_inv_def)
  have i: "i \<in> set ?xs" using assms(2) by (force dest: map_of_SomeD)
  have ty: "wi_entity_type i = ''shipment''" using wf_inv_instance [OF assms] by blast
  have "filter (\<lambda>x. wi_entity_type x = ''shipment'' \<and> wi_entity_id x = wi_entity_id i \<and> wi_tenant_id x = wi_tenant_id i) ?xs =
      filter (\<lambda>x. x = i) ?xs"
    using d i ty by (intro filter_cong) (auto simp: distinct_map inj_on_def)
  also have "\<dots> = [i]" using distinct_of_map [OF d] i by (rule filter_eq_single)
  finally show ?thesis .
qed

lemma close_by_shipment:
  assumes "wf_inv db" "dget (wf_instances db) iid = Some i" "wi_version i = int k + 1" "k < 7"
    "{''shipment:create'', ''shipment:transition''} \<subseteq> set perms"
  obtains i' s' db' where "reached wf_service wf_ok db db'" "dget (wf_instances db') iid = Some i'" "wi_version i' = 8"
    "dget (wf_shipments db') (wi_entity_id i) = Some s'" "sd_status s' = ''CLOSED''"
  using assms
proof (induction "7 - k" arbitrary: k db i thesis)
  case (Suc n)
  from Suc.prems(2,3) obtain s where s: "dget (wf_shipments db) (wi_entity_id i) = Some s" "sd_tenant_id s = wi_tenant_id i"
    by (rule wf_inv_instance)
  obtain i1 db1 where t: "transition guard_registry 0 iid (lifecycle ! Suc k) ''U'' (wi_tenant_id i) perms None [] db = (Inr i1, db1)"
    "dget (wf_instances db1) iid = Some i1" "wi_version i1 = int (Suc k) + 1" "wi_entity_id i1 = wi_entity_id i"
    "wf_shipments db1 = wf_shipments db"
    by (rule transition_ok [OF Suc.prems(2-6), of 0 "''U''" None]) blast
  let ?db2 = "db1\<lparr>wf_shipments := dset (wi_entity_id i) (s\<lparr>sd_status := lifecycle ! Suc k\<rparr>) (wf_shipments db1)\<rparr>"
  let ?r = "Shipment_Transition 0 (wi_entity_id i) (wi_tenant_id i) ''U'' perms (lifecycle ! Suc k) None []"
  have id: "wi_id i = iid" using wf_inv_instance [OF Suc.prems(2,3)] by blast
  have w: "wf_service ?r db = (Inr (), ?db2)"
    using s t(1) id by (simp add: shipment_transition_def get_shipment_def entity_instances [OF Suc.prems(2,3)] one_or_none_def Let_def)
  have r: "reached wf_service wf_ok db ?db2"
    using reached_request [OF reached_start, of wf_ok ?r db wf_service] w by simp
  have inv2: "wf_inv ?db2" using wf_keeps [OF Suc.prems(2) _ w] by simp
  have get2: "dget (wf_instances ?db2) iid = Some i1" using t(2) by simp
  show ?case
  proof (cases "Suc k < 7")
    case True
    have n: "n = 7 - Suc k" using Suc.hyps(2) by arith
    obtain i' s' db' where "reached wf_service wf_ok ?db2 db'" "dget (wf_instances db') iid = Some i'" "wi_version i' = 8"
      "dget (wf_shipments db') (wi_entity_id i1) = Some s'" "sd_status s' = ''CLOSED''"
      by (rule Suc.hyps(1) [OF n _ inv2 get2 t(3) True Suc.prems(6)])
    note this(1-3) this(4) [unfolded t(4)] this(5)
    then show ?thesis using Suc.prems(1) reached_trans [OF _ r] by blast
  next
    case False
    then have "k = 6" using Suc.prems(5) by simp
    then show ?thesis
      by (intro Suc.prems(1) [OF r get2, of "s\<lparr>sd_status := lifecycle ! Suc k\<rparr>"]) (use t in \<open>simp_all add: dget_dset lifecycle_def\<close>)
  qed
qed simp

section \<open>Properties\<close>



text \<open>
  A shipment that is not yet closed can be closed through the shipment endpoint by any user with the
  two permissions of the machine; its status is then CLOSED.
\<close>

theorem shipment_can_be_closed:
  assumes "reached wf_service wf_ok no_shipments db" and "dget (wf_instances db) iid = Some i"
    and "code_of db i (wi_current_state_id i) \<noteq> Some ''CLOSED''"
  shows "\<exists>db' i' s'. reached wf_service wf_ok db db' \<and> dget (wf_instances db') iid = Some i' \<and>
    code_of db' i' (wi_current_state_id i') = Some ''CLOSED'' \<and> dget (wf_shipments db') (wi_entity_id i) = Some s' \<and> sd_status s' = ''CLOSED''"
proof -
  note inv = reached_wf_inv [OF assms(1)]
  from inv assms(2) obtain sid k where h: "k < 8" "installed db (wi_machine_id i) sid" "wi_current_state_id i = sid k" "wi_version i = int k + 1"
    by (rule wf_inv_instance)
  have "k \<noteq> 7" using code_of_state [OF h(2,1)] assms(3) h(3) by (auto simp: lifecycle_def)
  then have "k < 7" using h(1) by simp
  obtain i' s' db' where c: "reached wf_service wf_ok db db'" "dget (wf_instances db') iid = Some i'" "wi_version i' = 8"
    "dget (wf_shipments db') (wi_entity_id i) = Some s'" "sd_status s' = ''CLOSED''"
    by (rule close_by_shipment [OF inv assms(2) h(4) \<open>k < 7\<close>, of "[''shipment:create'', ''shipment:transition'']"]) simp
  have inv': "wf_inv db'" using lifecycle.reached_inv [OF c(1) inv] .
  from inv' c(2) obtain sid' k' where h': "k' < 8" "installed db' (wi_machine_id i') sid'" "wi_current_state_id i' = sid' k'" "wi_version i' = int k' + 1"
    by (rule wf_inv_instance)
  then have "k' = 7" using c(3) by simp
  then have "code_of db' i' (wi_current_state_id i') = Some ''CLOSED''" using code_of_state [OF h'(2,1)] h'(3) by (simp add: lifecycle_def)
  then show ?thesis using c by blast
qed

lemma stale_keeps:
  assumes inv: "wf_inv db \<and> dget (wf_instances db) iid = Some i \<and> wi_version i = 8 \<and> dget (wf_shipments db) (wi_entity_id i) = Some s"
    and ok: "wf_ok r db" and w: "wf_service r db = (Inr x, db')"
  shows "wf_inv db' \<and> dget (wf_instances db') iid = Some i \<and> wi_version i = 8 \<and> dget (wf_shipments db') (wi_entity_id i) = Some s"
proof -
  have inv': "wf_inv db'" using wf_keeps inv ok w by blast
  have id: "wi_id i = iid" and okI: "instance_ok db i" using wf_inv_instance [of db iid i] inv by (blast, auto simp only: wf_inv_def)
  have no: "\<not> transition guards now iid code actor tid perms nts ctx db = (Inr i', db1)" for guards now code actor tid perms nts ctx i' db1
    using instance_ok_step [OF okI, of guards now code actor tid perms nts ctx i' db1] id inv by auto
  have other: "dget (wf_instances db1) iid = Some i" if "transition guards now k code actor tid perms nts ctx db = (Inr i', db1)"
    for guards now k code actor tid perms nts ctx i' db1
  proof -
    from that obtain x where x: "dget (wf_instances db) k = Some x" "wf_instances db1 = dset (wi_id x) i' (wf_instances db)"
      by (rule transition_effect)
    have "wi_id x = k" using wf_inv_instance [of db k x] inv x(1) by blast
    moreover have "k \<noteq> iid" using that no by blast
    ultimately show ?thesis using x(2) inv by (simp add: dget_dset)
  qed
  show ?thesis
  proof (cases r)
    case (Create_Shipment now ids tid actor cid bid mode)
    with w ok inv show ?thesis
      by (auto simp: apfst_Inr inv' dget_dset elim!: create_effect ensure_effect)
        (metis domI dom_map_of_conv_image_fst)+
  next
    case (Shipment_Transition now sid tid actor perms code nts ctx)
    with w obtain sh where "shipment_transition guard_registry now sid tid actor perms code nts ctx db = (Inr sh, db')"
      by (auto simp: apfst_Inr)
    then show ?thesis
    proof (rule shipment_transition_effect)
      fix sx y i' db1
      assume h: "filter (\<lambda>i. wi_entity_type i = ''shipment'' \<and> wi_entity_id i = sid \<and> wi_tenant_id i = tid) (dvalues (wf_instances db)) = [y]"
        "transition guard_registry now (wi_id y) code actor tid perms nts ctx db = (Inr i', db1)"
        "db' = db1\<lparr>wf_shipments := dset sid sh (wf_shipments db1)\<rparr>"
      have "y \<in> set (filter (\<lambda>i. wi_entity_type i = ''shipment'' \<and> wi_entity_id i = sid \<and> wi_tenant_id i = tid) (dvalues (wf_instances db)))"
        unfolding h(1) by simp
      then have y: "y \<in> set (dvalues (wf_instances db))" "wi_entity_id y = sid" by simp_all
      have "store_inv wi_id (wf_instances db)" using inv by (simp only: wf_inv_def)
      then have gy: "dget (wf_instances db) (wi_id y) = Some y" using y(1) by (simp only: store_elems_iff)
      have "wi_id y \<noteq> iid" using h(2) no by blast
      moreover have d: "distinct (map wi_entity_id (dvalues (wf_instances db)))" using inv by (simp only: wf_inv_def)
      moreover have g: "dget (wf_instances db) iid = Some i" using inv by blast
      ultimately have "wi_entity_id i \<noteq> sid"
        using dvalues_inj [OF d gy g] y(2) by blast
      moreover have "wf_shipments db1 = wf_shipments db" using h(2) by (auto elim: transition_effect)
      ultimately show ?thesis using inv inv' other [OF h(2)] h(3) by (simp add: dget_dset)
    qed
  next
    case (Instance_Transition now k code actor tid perms nts ctx)
    with w obtain i' where t: "transition guard_registry now k code actor tid perms nts ctx db = (Inr i', db')" by (auto simp: apfst_Inr)
    moreover have "wf_shipments db' = wf_shipments db" using t by (auto elim: transition_effect)
    ultimately show ?thesis using inv inv' other by simp
  qed
qed

interpretation stale: service_contract wf_service wf_ok
    "\<lambda>db. wf_inv db \<and> dget (wf_instances db) iid = Some i \<and> wi_version i = 8 \<and> dget (wf_shipments db) (wi_entity_id i) = Some s" for iid i s
  by unfold_locales (rule stale_keeps)

text \<open>
  The instance endpoint moves the instance and not the shipment. An instance closed that way leaves
  the status it found for ever: no later request changes the shipment.
\<close>

theorem stale_status_is_final:
  assumes "reached wf_service wf_ok no_shipments db" and "dget (wf_instances db) iid = Some i"
    and "code_of db i (wi_current_state_id i) = Some ''CLOSED''" and "dget (wf_shipments db) (wi_entity_id i) = Some s"
    and "reached wf_service wf_ok db db'"
  shows "dget (wf_shipments db') (wi_entity_id i) = Some s"
proof -
  note inv = reached_wf_inv [OF assms(1)]
  from inv assms(2) obtain sid k where h: "k < 8" "installed db (wi_machine_id i) sid" "wi_current_state_id i = sid k" "wi_version i = int k + 1"
    by (rule wf_inv_instance)
  have "k = 7" using code_of_state [OF h(2,1)] assms(3) h(1,3) lifecycle_eq_iff [of k 7] by (simp add: lifecycle_def)
  then show ?thesis using stale.reached_inv [OF assms(5), of iid i s] inv assms(2,4) h(4) by simp
qed

section \<open>A worked shipment\<close>

definition sample_shipment_ids :: shipment_ids where
  "sample_shipment_ids = \<lparr>si_shipment = ''S'', si_machine = ''M'', si_states = (\<lambda>n. replicate n CHR ''s''), si_instance = ''W''\<rparr>"

lemma sample_create_shipment:
  obtains s db i where "reached wf_service wf_ok no_shipments db" "dget (wf_instances db) ''W'' = Some i" "wi_version i = 1"
    "dget (wf_shipments db) (wi_entity_id i) = Some s" "sd_status s = ''DRAFT''"
proof -
  let ?r = "Create_Shipment 0 sample_shipment_ids ''T'' ''U'' ''K'' ''B'' ''SEA''"
  have ok: "wf_ok ?r no_shipments"
    by (simp add: sample_shipment_ids_def no_shipments_def inj_on_def)
  obtain s db where c: "create_shipment 0 sample_shipment_ids ''T'' ''U'' ''K'' ''B'' ''SEA'' no_shipments = (Inr s, db)"
  proof -
    let ?s = "\<lparr>sd_id = ''S'', sd_tenant_id = ''T'', sd_booking_id = ''B'', sd_customer_id = ''K'', sd_mode = ''SEA'',
      sd_status = ''DRAFT'', sd_created_by = Some ''U''\<rparr>"
    let ?db0 = "no_shipments\<lparr>wf_shipments := dset ''S'' ?s (wf_shipments no_shipments)\<rparr>"
    obtain m db1 where e: "ensure_shipment_workflow ''T'' ''M'' (\<lambda>n. replicate n CHR ''s'') ?db0 = (m, db1)" by fastforce
    have "rows_ok ?db0" by (simp add: rows_ok_def no_shipments_def)
    moreover have "inj_on (\<lambda>n. replicate n CHR ''s'') {..<8}" by (rule inj_onI) (metis length_replicate)
    ultimately obtain sd where "installed db1 (sm_id m) sd" using ensure_keeps [OF e] by (auto simp: no_shipments_def)
    from installed_find_state(1) [OF this, of 0]
    have "List.find (\<lambda>st. ws_machine_id st = sm_id m \<and> ws_code st = ''DRAFT'') (wf_states db1) = Some (lc_state (sm_id m) sd 0)"
      by (simp add: lifecycle_def)
    with e show ?thesis using that by (simp add: create_shipment_def sample_shipment_ids_def Let_def)
  qed
  have w: "wf_service ?r no_shipments = (Inr (), db)" using c by simp
  have r: "reached wf_service wf_ok no_shipments db"
    using reached_request [OF reached_start, of wf_ok ?r no_shipments wf_service] ok w by simp
  from c obtain i where i: "dget (wf_instances db) ''W'' = Some i" "wi_version i = 1"
    by (auto elim!: create_effect simp: dget_dset sample_shipment_ids_def)
  from reached_wf_inv [OF r] i(1) obtain k j s where s: "k < 8" "j \<le> k" "wi_version i = int k + 1"
    "dget (wf_shipments db) (wi_entity_id i) = Some s" "sd_status s = lifecycle ! j" by (rule wf_inv_instance)
  then have "sd_status s = ''DRAFT''" using i(2) by (simp add: lifecycle_def)
  with r i s(4) show ?thesis using that by blast
qed

lemma sample_moved_shipment:
  obtains s db i where "reached wf_service wf_ok no_shipments db" "dget (wf_instances db) ''W'' = Some i" "wi_version i = 8"
    "dget (wf_shipments db) (wi_entity_id i) = Some s" "sd_status s = ''DRAFT''"
proof -
  obtain s db i where h: "reached wf_service wf_ok no_shipments db" "dget (wf_instances db) ''W'' = Some i" "wi_version i = 1"
    "dget (wf_shipments db) (wi_entity_id i) = Some s" "sd_status s = ''DRAFT''" by (rule sample_create_shipment)
  obtain i' db' where "reached wf_service wf_ok db db'" "dget (wf_instances db') ''W'' = Some i'" "wi_version i' = 8"
    "wi_entity_id i' = wi_entity_id i" "wf_shipments db' = wf_shipments db"
    by (rule close_by_instance [OF reached_wf_inv [OF h(1)] h(2), of 0]) (use h(3) in simp_all)
  with h show ?thesis using that [of db' i' s] reached_trans by metis
qed

lemma code_of_version:
  assumes "reached wf_service wf_ok no_shipments db" "dget (wf_instances db) iid = Some i" "wi_version i = int k + 1"
  shows "code_of db i (wi_current_state_id i) = Some (lifecycle ! k) \<and> length (history_of db iid) = k"
proof -
  from reached_wf_inv [OF assms(1)] assms(2) obtain sid k' where h: "k' < 8" "installed db (wi_machine_id i) sid" "wi_current_state_id i = sid k'"
    "wi_version i = int k' + 1" "map (\<lambda>h. (wh_from h, wh_to h)) (history_of db iid) = map (\<lambda>m. (sid m, sid (Suc m))) [0..<k']"
    by (rule wf_inv_instance)
  then have "k' = k" using assms(3) by simp
  moreover from arg_cong [OF h(5), of length] have "length (history_of db iid) = k'" by simp
  ultimately show ?thesis using h(1-3) code_of_state by simp
qed



theorem shipment_can_be_closed_witness:
  "\<exists>db i db' s'. reached wf_service wf_ok no_shipments db \<and> dget (wf_instances db) ''W'' = Some i \<and>
    reached wf_service wf_ok db db' \<and> dget (wf_shipments db') (wi_entity_id i) = Some s' \<and> sd_status s' = ''CLOSED''"
proof -
  obtain s db i where h: "reached wf_service wf_ok no_shipments db" "dget (wf_instances db) ''W'' = Some i" "wi_version i = 1"
    "dget (wf_shipments db) (wi_entity_id i) = Some s" by (rule sample_create_shipment)
  have "code_of db i (wi_current_state_id i) \<noteq> Some ''CLOSED''" using code_of_version [OF h(1,2), of 0] h(3) by (simp add: lifecycle_def)
  from shipment_can_be_closed [OF h(1,2) this] h show ?thesis by blast
qed

theorem stale_status_is_final_witness:
  "\<exists>db i s. reached wf_service wf_ok no_shipments db \<and> dget (wf_instances db) ''W'' = Some i \<and> wi_version i = 8 \<and>
    dget (wf_shipments db) (wi_entity_id i) = Some s \<and> sd_status s = ''DRAFT'' \<and>
    (\<forall>db'. reached wf_service wf_ok db db' \<longrightarrow> dget (wf_shipments db') (wi_entity_id i) = Some s)"
proof -
  obtain s db i where h: "reached wf_service wf_ok no_shipments db" "dget (wf_instances db) ''W'' = Some i" "wi_version i = 8"
    "dget (wf_shipments db) (wi_entity_id i) = Some s" "sd_status s = ''DRAFT''" by (rule sample_moved_shipment)
  have "code_of db i (wi_current_state_id i) = Some ''CLOSED''" using code_of_version [OF h(1,2), of 7] h(3) by (simp add: lifecycle_def)
  from stale_status_is_final [OF h(1,2) this h(4)] h show ?thesis by blast
qed

section \<open>Direct air freight\<close>

lemma state_map_code:
  assumes "distinct (map fst specs)" "k < length specs"
  shows "dget (state_map (state_rows mid sid specs)) (fst (specs ! k)) = Some (sid k)"
proof -
  let ?kvs = "map (\<lambda>j. (fst (specs ! j), sid j)) [0..<length specs]"
  have "map (\<lambda>s. (ws_code s, ws_id s)) (state_rows mid sid specs) = ?kvs"
    by (rule nth_equalityI) (simp_all add: state_rows_def state_row_def)
  moreover have "map fst ?kvs = map fst specs" by (rule nth_equalityI) simp_all
  then have "distinct (map fst (rev ?kvs))" using assms(1) by (metis rev_map distinct_rev)
  moreover have "(fst (specs ! k), sid k) \<in> set (rev ?kvs)" using assms(2) by auto
  ultimately show ?thesis by (simp only: state_map_def dget_dict_of map_of_eq_Some_iff)
qed

lemma air_states_distinct: "distinct (map fst air_states)" "length air_states = 21"
  by (simp_all add: air_states_def)

lemma air_state_map:
  "k < 21 \<Longrightarrow> fst (air_states ! k) = c \<Longrightarrow> dget (state_map (state_rows mid sid air_states)) c = Some (sid k)"
  using state_map_code [OF air_states_distinct(1), of k] air_states_distinct(2) by auto

lemma air_from_cargo_ready:
  assumes "t \<in> set (transition_rows mid (state_rows mid sid air_states) air_transitions)" "wt_from t = sid 3" "inj_on sid {..<21}"
  shows "wt_guards t = [''pickup_assigned_guard'']"
proof -
  have len: "length air_transitions = 20" by (simp add: air_transitions_def)
  define code where "code = (\<lambda>x :: string \<times> string \<times> string \<times> string list. fst x)"
  have src: "\<exists>n<20. code x = fst (air_states ! n) \<and> (n = 3 \<longrightarrow> snd (snd (snd x)) = [''pickup_assigned_guard''])"
    if x: "x \<in> set air_transitions" for x
  proof -
    obtain n where n: "n < 20" "x = air_transitions ! n"
      using x len by (auto simp: in_set_conv_nth)
    have "map code air_transitions = butlast (map fst air_states)" by (simp add: air_transitions_def air_states_def code_def)
    then have "code x = fst (air_states ! n)"
      using n len nth_map [of n air_transitions code] air_states_distinct(2) by (simp add: nth_butlast)
    moreover have "snd (snd (snd (air_transitions ! 3))) = [''pickup_assigned_guard'']" by (simp add: air_transitions_def)
    ultimately show ?thesis using n by blast
  qed
  from assms(1) obtain x where x: "x \<in> set air_transitions"
    "t = \<lparr>wt_machine_id = mid, wt_from = the (dget (state_map (state_rows mid sid air_states)) (code x)),
      wt_to = the (dget (state_map (state_rows mid sid air_states)) (fst (snd x))), wt_required_permission = Some (fst (snd (snd x))),
      wt_required_fields = [], wt_guards = (if snd (snd (snd x)) \<noteq> [] then snd (snd (snd x)) else [''always_true'']), wt_is_active = True\<rparr>"
    by (auto simp: transition_rows_def code_def)
  from src [OF x(1)] obtain n where n: "n < 20" "code x = fst (air_states ! n)" "n = 3 \<longrightarrow> snd (snd (snd x)) = [''pickup_assigned_guard'']" by blast
  then have "wt_from t = sid n" using air_state_map [of n "code x" mid sid] by (simp add: x(2))
  then have "n = 3" using assms(2,3) n(1) by (auto simp: inj_on_def)
  then show ?thesis using n(3) by (simp add: x(2))
qed

text \<open>
  A direct air shipment that has reached CARGO_READY stays there: the program registers the guard
  \<open>always_true\<close> only, and the one transition out of CARGO_READY names another.
\<close>

theorem air_freight_stuck_at_cargo_ready:
  assumes "ensure_air_workflow tid mid sid db = (m, db')" and "rows_ok db" and "mid \<notin> sm_id ` set (wf_machines db)"
    and "\<forall>m \<in> set (wf_machines db). sm_code m \<noteq> ''air_freight_direct''" and "inj_on sid {..<21}"
    and "dget inst iid = Some i" and "wi_machine_id i = mid" and "wi_current_state_id i = sid 3"
  shows "\<exists>e. transition guard_registry now iid code actor t perms nts ctx (db'\<lparr>wf_instances := inst\<rparr>) =
    (Inl e, db'\<lparr>wf_instances := inst\<rparr>)"
proof (cases "transition guard_registry now iid code actor t perms nts ctx (db'\<lparr>wf_instances := inst\<rparr>)")
  case (Pair r db1)
  show ?thesis
  proof (cases r)
    case (Inl e)
    then show ?thesis using Pair transition_Inl by blast
  next
    case (Inr i')
    with Pair have "transition guard_registry now iid code actor t perms nts ctx (db'\<lparr>wf_instances := inst\<rparr>) = (Inr i', db1)" by simp
    then obtain i0 tr and st :: workflow_state where "dget (wf_instances (db'\<lparr>wf_instances := inst\<rparr>)) iid = Some i0"
      "find_transition (db'\<lparr>wf_instances := inst\<rparr>) (wi_machine_id i0) (wi_current_state_id i0) (ws_id st) = Inr (Some tr)"
      "check_guards guard_registry ctx (wt_guards tr) = Inr ()" by (rule transition_effect) blast
    then have e: "find_transition (db'\<lparr>wf_instances := inst\<rparr>) mid (sid 3) (ws_id st) = Inr (Some tr)"
      "check_guards guard_registry ctx (wt_guards tr) = Inr ()" using assms(6-8) by simp_all
    have "List.find (\<lambda>m. sm_tenant_id m = tid \<and> sm_code m = ''air_freight_direct'') (wf_machines db) = None"
      using assms(4) by (auto simp: find_None_iff)
    then have rows: "wf_transitions db' = wf_transitions db @ transition_rows mid (state_rows mid sid air_states) air_transitions"
      using assms(1) by (auto simp: ensure_air_workflow_def ensure_workflow_def Let_def)
    from e(1) have "filter (\<lambda>t. wt_machine_id t = mid \<and> wt_from t = sid 3 \<and> wt_to t = ws_id st) (wf_transitions db') = [tr]"
      by (auto simp: find_transition_def one_or_none_def split: list.splits)
    then have "tr \<in> set (filter (\<lambda>t. wt_machine_id t = mid \<and> wt_from t = sid 3 \<and> wt_to t = ws_id st) (wf_transitions db'))" by simp
    then have tr: "tr \<in> set (wf_transitions db')" "wt_machine_id tr = mid" "wt_from tr = sid 3" by auto
    have "tr \<notin> set (wf_transitions db)" using assms(2,3) tr(2) by (auto simp: rows_ok_def)
    then have "wt_guards tr = [''pickup_assigned_guard'']"
      using tr rows air_from_cargo_ready [OF _ _ assms(5)] by auto
    then show ?thesis using e(2) by (simp add: evaluate_guard_def guard_registry_def register_def)
  qed
qed

theorem air_freight_stuck_at_cargo_ready_witness:
  "\<exists>db' i e. dget (wf_instances db') ''W'' = Some i \<and> wi_machine_id i = ''M'' \<and>
     transition guard_registry 0 ''W'' ''PICKED_UP'' ''U'' ''T'' [''air_shipment:transition''] None [] db' = (Inl e, db')"
proof -
  let ?i = "\<lparr>wi_id = ''W'', wi_tenant_id = ''T'', wi_machine_id = ''M'', wi_entity_type = ''shipment'', wi_entity_id = ''S'',
    wi_current_state_id = replicate 3 CHR ''s'', wi_version = 4, wi_updated_at = 0\<rparr>"
  obtain m db' where e: "ensure_air_workflow ''T'' ''M'' (\<lambda>n. replicate n CHR ''s'') no_shipments = (m, db')" by fastforce
  have "inj_on (\<lambda>n. replicate n CHR ''s'') {..<21}" by (rule inj_onI) (metis length_replicate)
  from air_freight_stuck_at_cargo_ready [OF e _ _ _ this, of "[(''W'', ?i)]" "''W''" ?i 0 "''PICKED_UP''" "''U''" "''T''"
      "[''air_shipment:transition'']" None "[]"]
  have "\<exists>e. transition guard_registry 0 ''W'' ''PICKED_UP'' ''U'' ''T'' [''air_shipment:transition''] None []
      (db'\<lparr>wf_instances := [(''W'', ?i)]\<rparr>) = (Inl e, db'\<lparr>wf_instances := [(''W'', ?i)]\<rparr>)"
    by (simp add: no_shipments_def rows_ok_def)
  then show ?thesis by (intro exI [of _ "db'\<lparr>wf_instances := [(''W'', ?i)]\<rparr>"] exI [of _ ?i]) simp
qed

end
