(* ===== verification/Rules.thy ===== *)
theory Rules
  imports Py_Date Py_Float Transactions
begin

text \<open>
  The rules engine of \<open>app/modules/rules/service.py\<close> and its endpoints: nested conditions over a context
  of JSON values, their evaluation, and the actions of the rules of a domain. The JSON of a stored
  version is modelled parsed: the endpoint that stores it has validated it with the same schema.
\<close>

section \<open>Values\<close>

datatype jval =
    VNone
  | VBool bool
  | VInt int
  | VFloat flt
  | VStr string
  | VList "jval list"
  | VDict "(string \<times> jval) list"

text \<open>Booleans are numbers; comparing an \<open>int\<close> with a \<open>float\<close> is exact.\<close>

fun num_of :: "jval \<Rightarrow> flt option" where
  "num_of (VBool b) = Some (if b then 1 else 0)"
| "num_of (VInt i) = Some (of_int i)"
| "num_of (VFloat x) = Some x"
| "num_of _ = None"

fun py_eq :: "jval \<Rightarrow> jval \<Rightarrow> bool"
  and py_eq_list :: "jval list \<Rightarrow> jval list \<Rightarrow> bool"
  and py_eq_dict :: "(string \<times> jval) list \<Rightarrow> (string \<times> jval) list \<Rightarrow> bool" where
  "py_eq (VList xs) y = (case y of VList ys \<Rightarrow> py_eq_list xs ys | _ \<Rightarrow> False)"
| "py_eq (VDict a) y = (case y of VDict b \<Rightarrow> length a = length b \<and> py_eq_dict a b | _ \<Rightarrow> False)"
| "py_eq (VStr s) y = (y = VStr s)"
| "py_eq VNone y = (y = VNone)"
| "py_eq (VBool b) y = (num_of y = num_of (VBool b))"
| "py_eq (VInt i) y = (num_of y = num_of (VInt i))"
| "py_eq (VFloat x) y = (num_of y = num_of (VFloat x))"
| "py_eq_list [] ys = (ys = [])"
| "py_eq_list (x # xs) ys = (case ys of [] \<Rightarrow> False | y # ys \<Rightarrow> py_eq x y \<and> py_eq_list xs ys)"
| "py_eq_dict [] b = True"
| "py_eq_dict ((k, v) # a) b = ((case dget b k of None \<Rightarrow> False | Some w \<Rightarrow> py_eq v w) \<and> py_eq_dict a b)"

fun str_less :: "string \<Rightarrow> string \<Rightarrow> bool" where
  "str_less s [] = False"
| "str_less [] (d # t) = True"
| "str_less (c # s) (d # t) = (if c = d then str_less s t else (of_char c :: nat) < of_char d)"

datatype cmp_op = Gt | Gte | Lt | Lte

text \<open>The outcome of an operator between operands of which one may be less than the other.\<close>

fun cmp_of :: "cmp_op \<Rightarrow> bool \<Rightarrow> bool \<Rightarrow> bool" where
  "cmp_of Gt smaller bigger = bigger"
| "cmp_of Gte smaller bigger = (\<not> smaller)"
| "cmp_of Lt smaller bigger = smaller"
| "cmp_of Lte smaller bigger = (\<not> bigger)"

text \<open>Lists are compared at the first position they differ in, else by length.\<close>

fun py_compare :: "cmp_op \<Rightarrow> jval \<Rightarrow> jval \<Rightarrow> bool res"
  and py_compare_list :: "cmp_op \<Rightarrow> jval list \<Rightarrow> jval list \<Rightarrow> bool res" where
  "py_compare op (VStr s) y = (case y of VStr t \<Rightarrow> Inr (cmp_of op (str_less s t) (str_less t s)) | _ \<Rightarrow> Inl TypeError)"
| "py_compare op (VList xs) y = (case y of VList ys \<Rightarrow> py_compare_list op xs ys | _ \<Rightarrow> Inl TypeError)"
| "py_compare op x y = (case (num_of x, num_of y) of
     (Some a, Some b) \<Rightarrow> Inr (cmp_of op (a < b) (b < a)) | _ \<Rightarrow> Inl TypeError)"
| "py_compare_list op [] ys = Inr (cmp_of op (ys \<noteq> []) False)"
| "py_compare_list op (x # xs) ys = (case ys of
     [] \<Rightarrow> Inr (cmp_of op False True)
   | y # ys \<Rightarrow> if py_eq x y then py_compare_list op xs ys else py_compare op x y)"

fun truthy_val :: "jval \<Rightarrow> bool" where
  "truthy_val VNone = False"
| "truthy_val (VBool b) = b"
| "truthy_val (VInt i) = (i \<noteq> 0)"
| "truthy_val (VFloat x) = (x \<noteq> 0)"
| "truthy_val (VStr s) = (s \<noteq> [])"
| "truthy_val (VList xs) = (xs \<noteq> [])"
| "truthy_val (VDict a) = (a \<noteq> [])"

fun hashable :: "jval \<Rightarrow> bool" where
  "hashable (VList xs) = False"
| "hashable (VDict a) = False"
| "hashable _ = True"

text \<open>\<open>x in container\<close>: elements of a list, substrings of a string, keys of a dictionary.\<close>

fun py_contains :: "jval \<Rightarrow> jval \<Rightarrow> bool res" where
  "py_contains x (VList ys) = Inr (list_ex (py_eq x) ys)"
| "py_contains x (VStr t) = (case x of VStr s \<Rightarrow> Inr (py_in s t) | _ \<Rightarrow> Inl TypeError)"
| "py_contains x (VDict a) = (if hashable x then Inr (list_ex (\<lambda>p. py_eq x (VStr (fst p))) a) else Inl TypeError)"
| "py_contains x _ = Inl TypeError"

section \<open>Conditions\<close>

datatype rule_condition =
    Condition string string jval
  | Condition_Group string "rule_condition list"

type_synonym rule_context = "(string, jval) dict"

definition allowed_operators :: "string list" where
  "allowed_operators = [''eq'', ''ne'', ''gt'', ''gte'', ''lt'', ''lte'', ''in'', ''exists'']"

definition allowed_actions :: "string list" where
  "allowed_actions = [''block'', ''require_approval'', ''raise_exception'', ''notify'', ''create_task'', ''set_value'']"

text \<open>\<open>context.get(field)\<close>, and a comparison that is false for a missing value.\<close>

definition get_value :: "rule_context \<Rightarrow> string \<Rightarrow> jval" where
  "get_value ctx field = (case dget ctx field of None \<Rightarrow> VNone | Some x \<Rightarrow> x)"

definition compare_present :: "cmp_op \<Rightarrow> jval \<Rightarrow> jval \<Rightarrow> bool res" where
  "compare_present op x y = (if x = VNone then Inr False else py_compare op x y)"

definition evaluate_condition :: "rule_context \<Rightarrow> string \<Rightarrow> string \<Rightarrow> jval \<Rightarrow> bool res" where
  "evaluate_condition ctx field operator expected =
    (if operator \<notin> set allowed_operators then Inl (ValidationError (''Unsupported operator: '' @ operator))
     else (let value = get_value ctx field in
       if operator = ''eq'' then Inr (py_eq value expected)
       else if operator = ''ne'' then Inr (\<not> py_eq value expected)
       else if operator = ''gt'' then compare_present Gt value expected
       else if operator = ''gte'' then compare_present Gte value expected
       else if operator = ''lt'' then compare_present Lt value expected
       else if operator = ''lte'' then compare_present Lte value expected
       else if operator = ''in'' then py_contains value (if truthy_val expected then expected else VList [])
       else Inr (value \<noteq> VNone)))"

definition combine :: "string \<Rightarrow> bool list \<Rightarrow> bool" where
  "combine combinator results =
    (if combinator = ''OR'' then (if results \<noteq> [] then list_ex (\<lambda>b. b) results else False)
     else if combinator = ''NOT'' then (if results \<noteq> [] then \<not> list_all (\<lambda>b. b) results else True)
     else (if results \<noteq> [] then list_all (\<lambda>b. b) results else True))"

declare mapM_res_cong [fundef_cong]

fun evaluate_conditions :: "rule_context \<Rightarrow> rule_condition \<Rightarrow> bool res" where
  "evaluate_conditions ctx (Condition field operator expected) = evaluate_condition ctx field operator expected"
| "evaluate_conditions ctx (Condition_Group combinator items) =
     res_map (combine combinator) (mapM_res (evaluate_conditions ctx) items)"

section \<open>Rules of a domain\<close>

record rule_action =
  ra_type :: string
  ra_params :: "(string \<times> jval) list"

record rule_definition =
  rd_conditions :: rule_condition
  rd_actions :: "rule_action list"

record business_rule =
  br_id :: string
  br_tenant_id :: string
  br_domain :: string
  br_code :: string
  br_name :: string
  br_priority :: int
  br_active_from :: "date option"
  br_active_to :: "date option"
  br_active_version_id :: "string option"
  br_is_active :: bool

record rule_version =
  rver_id :: string
  rver_rule_id :: string
  rver_number :: int
  rver_definition :: rule_definition
  rver_approval_status :: string

record evaluation_log =
  el_rule_id :: string
  el_tenant_id :: string
  el_context :: rule_context
  el_matched :: bool
  el_result :: "rule_action list option"
  el_evaluated_at :: datetime

record rules_db =
  rd_rules :: "business_rule list"
  rd_versions :: "(string, rule_version) dict"
  rd_logs :: "evaluation_log list"

text \<open>The joined rows of a tenant's domain, by priority.\<close>

definition domain_rules :: "rules_db \<Rightarrow> string \<Rightarrow> string \<Rightarrow> (business_rule \<times> rule_version) list" where
  "domain_rules db tenant_id domain = somes (map (\<lambda>r. case br_active_version_id r of
       None \<Rightarrow> None | Some v \<Rightarrow> map_option (\<lambda>ver. (r, ver)) (dget (rd_versions db) v))
     (sort_key br_priority (filter (\<lambda>r. br_tenant_id r = tenant_id \<and> br_domain r = domain \<and> br_is_active r) (rd_rules db))))"

definition out_of_period :: "date \<Rightarrow> business_rule \<Rightarrow> bool" where
  "out_of_period today r \<longleftrightarrow> (\<exists>d. br_active_from r = Some d \<and> today < d) \<or> (\<exists>d. br_active_to r = Some d \<and> d < today)"

fun add_actions :: "rule_action list \<Rightarrow> rule_action list \<Rightarrow> rule_action list res" where
  "add_actions out [] = Inr out"
| "add_actions out (a # as) = (if ra_type a \<notin> set allowed_actions
     then Inl (ValidationError (''Unsupported action: '' @ ra_type a)) else add_actions (out @ [a]) as)"

fun rules_loop :: "date \<Rightarrow> datetime \<Rightarrow> string \<Rightarrow> rule_context \<Rightarrow> (business_rule \<times> rule_version) list \<Rightarrow>
    rule_action list \<Rightarrow> evaluation_log list \<Rightarrow> rule_action list res \<times> evaluation_log list" where
  "rules_loop today now tenant_id ctx [] out logs = (Inr out, logs)"
| "rules_loop today now tenant_id ctx ((r, v) # rows) out logs =
    (if out_of_period today r then rules_loop today now tenant_id ctx rows out logs
     else case evaluate_conditions ctx (rd_conditions (rver_definition v)) of
       Inl e \<Rightarrow> (Inl e, logs)
     | Inr matched \<Rightarrow>
        (let logs = logs @ [\<lparr>el_rule_id = br_id r, el_tenant_id = tenant_id, el_context = ctx, el_matched = matched,
               el_result = (if matched then Some (rd_actions (rver_definition v)) else None), el_evaluated_at = now\<rparr>]
         in if matched
            then (case add_actions out (rd_actions (rver_definition v)) of
                Inl e \<Rightarrow> (Inl e, logs)
              | Inr out \<Rightarrow> rules_loop today now tenant_id ctx rows out logs)
            else rules_loop today now tenant_id ctx rows out logs))"

definition evaluate_domain :: "date \<Rightarrow> datetime \<Rightarrow> string \<Rightarrow> string \<Rightarrow> rule_context \<Rightarrow> rules_db \<Rightarrow>
    rule_action list res \<times> rules_db" where
  "evaluate_domain today now tenant_id domain ctx db =
    (let (r, logs) = rules_loop today now tenant_id ctx (domain_rules db tenant_id domain) [] (rd_logs db)
     in (r, db\<lparr>rd_logs := logs\<rparr>))"

section \<open>Endpoints\<close>

record rule_create =
  rc_domain :: string
  rc_code :: string
  rc_name :: string
  rc_priority :: int
  rc_definition :: rule_definition

text \<open>The pair of tenant, domain and code is unique in the table.\<close>

definition create_rule :: "string \<Rightarrow> string \<Rightarrow> string \<Rightarrow> rule_create \<Rightarrow> rules_db \<Rightarrow> string res \<times> rules_db" where
  "create_rule rid vid tenant_id q db =
    (if list_ex (\<lambda>r. br_tenant_id r = tenant_id \<and> br_domain r = rc_domain q \<and> br_code r = rc_code q) (rd_rules db)
     then (Inl IntegrityError, db)
     else
       (let r = \<lparr>br_id = rid, br_tenant_id = tenant_id, br_domain = rc_domain q, br_code = rc_code q, br_name = rc_name q,
                 br_priority = rc_priority q, br_active_from = None, br_active_to = None, br_active_version_id = Some vid,
                 br_is_active = True\<rparr>;
            v = \<lparr>rver_id = vid, rver_rule_id = rid, rver_number = 1, rver_definition = rc_definition q,
                 rver_approval_status = ''APPROVED''\<rparr>
        in (Inr rid, db\<lparr>rd_rules := rd_rules db @ [r], rd_versions := dset vid v (rd_versions db)\<rparr>)))"

text \<open>The request that evaluates a domain commits the log entries only when no rule raises.\<close>

definition evaluate_rules :: "date \<Rightarrow> datetime \<Rightarrow> string \<Rightarrow> string \<Rightarrow> rule_context \<Rightarrow> rules_db \<Rightarrow>
    rule_action list res \<times> rules_db" where
  "evaluate_rules today now tenant_id domain ctx db =
    (case evaluate_domain today now tenant_id domain ctx db of
       (Inl e, _) \<Rightarrow> (Inl e, db)
     | (Inr acts, db') \<Rightarrow> (Inr acts, db'))"

definition list_rules :: "rules_db \<Rightarrow> string \<Rightarrow> (string \<times> string \<times> string \<times> string \<times> bool) list" where
  "list_rules db tenant_id = map (\<lambda>r. (br_id r, br_domain r, br_code r, br_name r, br_is_active r))
     (filter (\<lambda>r. br_tenant_id r = tenant_id) (rd_rules db))"


section \<open>What a condition means\<close>

text \<open>The leaves in the order they are evaluated, and the meaning of a condition over an assignment of
  truth values to its leaves.\<close>

fun leaves :: "rule_condition \<Rightarrow> (string \<times> string \<times> jval) list" where
  "leaves (Condition f op v) = [(f, op, v)]"
| "leaves (Condition_Group c items) = concat (map leaves items)"

fun holds :: "((string \<times> string \<times> jval) \<Rightarrow> bool) \<Rightarrow> rule_condition \<Rightarrow> bool" where
  "holds val (Condition f op v) = val (f, op, v)"
| "holds val (Condition_Group c items) =
    (if c = ''OR'' then \<exists>i \<in> set items. holds val i
     else if c = ''NOT'' then items = [] \<or> (\<exists>i \<in> set items. \<not> holds val i)
     else \<forall>i \<in> set items. holds val i)"

definition leaf_result :: "rule_context \<Rightarrow> string \<times> string \<times> jval \<Rightarrow> bool res" where
  "leaf_result ctx l = (case l of (f, op, v) \<Rightarrow> evaluate_condition ctx f op v)"

definition leaf_true :: "rule_context \<Rightarrow> string \<times> string \<times> jval \<Rightarrow> bool" where
  "leaf_true ctx l = (leaf_result ctx l = Inr True)"

definition leaf_errors :: "rule_context \<Rightarrow> rule_condition \<Rightarrow> py_error list" where
  "leaf_errors ctx c = somes (map (\<lambda>l. case leaf_result ctx l of Inl e \<Rightarrow> Some e | Inr b \<Rightarrow> None) (leaves c))"

lemma somes_append: "somes (xs @ ys) = somes xs @ somes ys"
  by (induction xs rule: somes.induct) simp_all

lemma leaf_errors_simps:
  "leaf_errors ctx (Condition f op v) = (case evaluate_condition ctx f op v of Inl e \<Rightarrow> [e] | Inr b \<Rightarrow> [])"
  "leaf_errors ctx (Condition_Group c []) = []"
  "leaf_errors ctx (Condition_Group c (i # items)) = leaf_errors ctx i @ leaf_errors ctx (Condition_Group c items)"
  by (simp_all add: leaf_errors_def leaf_result_def somes_append split: sum.splits)

lemma combine_holds:
  "combine c (map (holds val) items) = holds val (Condition_Group c items)"
  by (auto simp: combine_def list_ex_iff list_all_iff)

definition sequenced :: "py_error list \<Rightarrow> 'a \<Rightarrow> 'a res" where
  "sequenced es x = (case es of [] \<Rightarrow> Inr x | e # _ \<Rightarrow> Inl e)"

lemma mapM_sequenced:
  assumes "\<And>i. i \<in> set items \<Longrightarrow> evaluate_conditions ctx i = sequenced (leaf_errors ctx i) (h i)"
  shows "mapM_res (evaluate_conditions ctx) items = sequenced (leaf_errors ctx (Condition_Group c items)) (map h items)"
  using assms
proof (induction items)
  case (Cons i items)
  then show ?case
    by (cases "leaf_errors ctx i") (simp_all add: sequenced_def leaf_errors_simps split: list.splits)
qed (simp add: sequenced_def leaf_errors_simps)

lemma evaluate_leaves:
  "evaluate_conditions ctx c =
    (case leaf_errors ctx c of [] \<Rightarrow> Inr (holds (leaf_true ctx) c) | e # _ \<Rightarrow> Inl e)"
proof -
  have "evaluate_conditions ctx c = sequenced (leaf_errors ctx c) (holds (leaf_true ctx) c)"
  proof (induction c)
    case (Condition f op v)
    show ?case
      by (cases "evaluate_condition ctx f op v")
        (simp_all add: leaf_errors_simps sequenced_def leaf_true_def leaf_result_def)
  next
    case (Condition_Group c items)
    show ?case
      using mapM_sequenced [of items ctx "holds (leaf_true ctx)" c] Condition_Group.IH
      by (cases "leaf_errors ctx (Condition_Group c items)")
        (simp_all del: holds.simps add: sequenced_def combine_holds)
  qed
  then show ?thesis by (simp add: sequenced_def)
qed

text \<open>C37: The evaluation of a condition visits every leaf: it fails with the error of the first leaf that raises,
  and otherwise gives the boolean meaning of its groups over the truth of its leaves. An unknown
  combinator means conjunction, \<open>NOT\<close> is the negation of the conjunction, and an empty \<open>NOT\<close> holds.\<close>

theorem conditions_exact:
  "evaluate_conditions ctx c =
    (case leaf_errors ctx c of [] \<Rightarrow> Inr (holds (leaf_true ctx) c) | e # _ \<Rightarrow> Inl e)"
  by (rule evaluate_leaves)

section \<open>Well-typed rules do not raise\<close>

datatype field_type = Number_Field | Text_Field | Any_Field

fun has_type :: "field_type \<Rightarrow> jval \<Rightarrow> bool" where
  "has_type Number_Field v = (num_of v \<noteq> None)"
| "has_type Text_Field v = (\<exists>s. v = VStr s)"
| "has_type Any_Field v = True"

definition typed_context :: "(string \<Rightarrow> field_type) \<Rightarrow> rule_context \<Rightarrow> bool" where
  "typed_context G ctx \<longleftrightarrow> (\<forall>f v. dget ctx f = Some v \<longrightarrow> v = VNone \<or> has_type (G f) v)"

definition typed_leaf :: "(string \<Rightarrow> field_type) \<Rightarrow> string \<times> string \<times> jval \<Rightarrow> bool" where
  "typed_leaf G l \<longleftrightarrow> (case l of (f, op, v) \<Rightarrow>
     op \<in> {''eq'', ''ne'', ''exists''}
     \<or> op \<in> {''gt'', ''gte'', ''lt'', ''lte''} \<and> G f \<noteq> Any_Field \<and> has_type (G f) v
     \<or> op = ''in'' \<and> (\<not> truthy_val v \<or> (\<exists>xs. v = VList xs)))"

definition typed_condition :: "(string \<Rightarrow> field_type) \<Rightarrow> rule_condition \<Rightarrow> bool" where
  "typed_condition G c \<longleftrightarrow> (\<forall>l \<in> set (leaves c). typed_leaf G l)"

lemma py_compare_numbers:
  "num_of x = Some a \<Longrightarrow> num_of y = Some b \<Longrightarrow> py_compare op x y = Inr (cmp_of op (a < b) (b < a))"
  by (cases x) auto

lemma compare_typed:
  assumes "x = VNone \<or> has_type t x" "has_type t y" "t \<noteq> Any_Field"
  shows "\<exists>b. compare_present op x y = Inr b"
  using assms by (cases t) (auto simp: compare_present_def py_compare_numbers)

lemma get_value_typed: "typed_context G ctx \<Longrightarrow> get_value ctx f = VNone \<or> has_type (G f) (get_value ctx f)"
  by (auto simp: typed_context_def get_value_def split: option.splits)

lemma leaf_results:
  "leaf_result ctx (f, ''eq'', v) = Inr (py_eq (get_value ctx f) v)"
  "leaf_result ctx (f, ''ne'', v) = Inr (\<not> py_eq (get_value ctx f) v)"
  "leaf_result ctx (f, ''gt'', v) = compare_present Gt (get_value ctx f) v"
  "leaf_result ctx (f, ''gte'', v) = compare_present Gte (get_value ctx f) v"
  "leaf_result ctx (f, ''lt'', v) = compare_present Lt (get_value ctx f) v"
  "leaf_result ctx (f, ''lte'', v) = compare_present Lte (get_value ctx f) v"
  "leaf_result ctx (f, ''in'', v) = py_contains (get_value ctx f) (if truthy_val v then v else VList [])"
  "leaf_result ctx (f, ''exists'', v) = Inr (get_value ctx f \<noteq> VNone)"
  by (simp_all add: leaf_result_def evaluate_condition_def allowed_operators_def)

lemma contains_typed: "\<not> truthy_val v \<or> (\<exists>xs. v = VList xs) \<Longrightarrow> \<exists>b. py_contains x (if truthy_val v then v else VList []) = Inr b"
  by (cases "truthy_val v") auto

lemma typed_leaf_safe:
  assumes "typed_context G ctx" and "typed_leaf G l"
  shows "\<exists>b. leaf_result ctx l = Inr b"
proof -
  obtain f op v where l: "l = (f, op, v)" by (cases l)
  note g = get_value_typed [OF assms(1), of f]
  from assms(2) [unfolded typed_leaf_def l prod.case] show ?thesis
  proof (elim disjE conjE, goal_cases)
    case 1
    then show ?case unfolding l by (elim insertE emptyE) (simp_all only: leaf_results, simp_all)
  next
    case 2
    note c = compare_typed [OF g 2(3,2)]
    from 2(1) show ?case unfolding l by (elim insertE emptyE) (simp_all only: leaf_results c)
  next
    case 3
    show ?case unfolding l 3(1) leaf_results by (rule contains_typed) (use 3(2) in blast)
  next
    case 4
    show ?case unfolding l 4(1) leaf_results by (rule contains_typed) (use 4(2) in blast)
  qed
qed

lemma somes_Nil_iff: "somes xs = [] \<longleftrightarrow> (\<forall>x \<in> set xs. x = None)"
  by (induction xs rule: somes.induct) auto

lemma no_leaf_errors:
  assumes "\<And>l. l \<in> set (leaves c) \<Longrightarrow> \<exists>b. leaf_result ctx l = Inr b"
  shows "leaf_errors ctx c = []"
  using assms by (fastforce simp: leaf_errors_def somes_Nil_iff)

text \<open>C9: A rule whose leaves are typed for the fields they read never raises: ordering operators only between
  numbers or between texts, and \<open>in\<close> only with a list or an empty value.\<close>

theorem typed_rules_do_not_raise:
  assumes "typed_context G ctx" and "typed_condition G c"
  shows "evaluate_conditions ctx c = Inr (holds (leaf_true ctx) c)"
proof -
  have "\<exists>b. leaf_result ctx l = Inr b" if "l \<in> set (leaves c)" for l
    using typed_leaf_safe [OF assms(1)] assms(2) that by (simp add: typed_condition_def)
  then have "leaf_errors ctx c = []" by (rule no_leaf_errors)
  then show ?thesis by (simp add: evaluate_leaves)
qed

definition credit_condition :: rule_condition where
  "credit_condition = Condition_Group ''AND'' [Condition ''amount'' ''gt'' (VInt 1000),
     Condition_Group ''OR'' [Condition ''country'' ''in'' (VList [VStr ''AE'', VStr ''SA'']), Condition ''hold'' ''exists'' VNone]]"

definition credit_fields :: "string \<Rightarrow> field_type" where
  "credit_fields f = (if f = ''amount'' then Number_Field else Any_Field)"

theorem typed_rules_do_not_raise_witness:
  "evaluate_conditions [(''amount'', VInt 1500), (''country'', VStr ''AE'')] credit_condition = Inr True"
proof -
  let ?ctx = "[(''amount'', VInt 1500), (''country'', VStr ''AE'')]"
  have 1: "typed_context credit_fields ?ctx" by (simp add: typed_context_def credit_fields_def)
  have 2: "typed_condition credit_fields credit_condition"
    by (simp add: typed_condition_def credit_condition_def typed_leaf_def credit_fields_def)
  have "holds (leaf_true ?ctx) credit_condition"
    by (simp add: credit_condition_def leaf_true_def leaf_results compare_present_def get_value_def)
  then show ?thesis using typed_rules_do_not_raise [OF 1 2] by simp
qed

section \<open>The evaluation of a domain\<close>

definition in_force :: "date \<Rightarrow> rules_db \<Rightarrow> string \<Rightarrow> string \<Rightarrow> (business_rule \<times> rule_version) list" where
  "in_force today db tenant_id domain = filter (\<lambda>(r, v). \<not> out_of_period today r) (domain_rules db tenant_id domain)"

definition row_matches :: "rule_context \<Rightarrow> business_rule \<times> rule_version \<Rightarrow> bool" where
  "row_matches ctx row = (evaluate_conditions ctx (rd_conditions (rver_definition (snd row))) = Inr True)"

definition row_actions :: "business_rule \<times> rule_version \<Rightarrow> rule_action list" where
  "row_actions row = rd_actions (rver_definition (snd row))"

definition row_fails :: "rule_context \<Rightarrow> business_rule \<times> rule_version \<Rightarrow> bool" where
  "row_fails ctx row \<longleftrightarrow> (\<exists>e. evaluate_conditions ctx (rd_conditions (rver_definition (snd row))) = Inl e)
     \<or> row_matches ctx row \<and> (\<exists>a \<in> set (row_actions row). ra_type a \<notin> set allowed_actions)"

definition row_log :: "datetime \<Rightarrow> string \<Rightarrow> rule_context \<Rightarrow> business_rule \<times> rule_version \<Rightarrow> evaluation_log" where
  "row_log now tenant_id ctx row = \<lparr>el_rule_id = br_id (fst row), el_tenant_id = tenant_id, el_context = ctx,
     el_matched = row_matches ctx row, el_result = (if row_matches ctx row then Some (row_actions row) else None),
     el_evaluated_at = now\<rparr>"

lemma add_actions_eq:
  "add_actions out acts = Inr r \<longleftrightarrow> (\<forall>a \<in> set acts. ra_type a \<in> set allowed_actions) \<and> r = out @ acts"
  by (induction acts arbitrary: out) auto

lemma add_actions_ok:
  "(\<forall>a \<in> set acts. ra_type a \<in> set allowed_actions) \<Longrightarrow> add_actions out acts = Inr (out @ acts)"
  by (simp add: add_actions_eq)

lemma add_actions_bad:
  "\<exists>a \<in> set acts. ra_type a \<notin> set allowed_actions \<Longrightarrow> \<exists>e. add_actions out acts = Inl e"
  by (cases "add_actions out acts") (auto simp: add_actions_eq)

definition loop_ok :: "date \<Rightarrow> rule_context \<Rightarrow> (business_rule \<times> rule_version) list \<Rightarrow> bool" where
  "loop_ok today ctx rows \<longleftrightarrow> (\<forall>row \<in> set (filter (\<lambda>(r, v). \<not> out_of_period today r) rows). \<not> row_fails ctx row)"

lemma rules_loop_ok:
  assumes "loop_ok today ctx rows"
  shows "rules_loop today now tenant_id ctx rows out logs =
    (Inr (out @ concat (map row_actions (filter (row_matches ctx) (filter (\<lambda>(r, v). \<not> out_of_period today r) rows)))),
     logs @ map (row_log now tenant_id ctx) (filter (\<lambda>(r, v). \<not> out_of_period today r) rows))"
  using assms
proof (induction rows arbitrary: out logs)
  case (Cons row rows)
  obtain r v where row: "row = (r, v)" by (cases row)
  have ok: "loop_ok today ctx rows" using Cons.prems by (simp add: loop_ok_def)
  show ?case
  proof (cases "out_of_period today r")
    case True
    then show ?thesis by (simp add: row Cons.IH [OF ok])
  next
    case False
    then have nf: "\<not> row_fails ctx (r, v)" using Cons.prems by (simp add: loop_ok_def row)
    then obtain b where b: "evaluate_conditions ctx (rd_conditions (rver_definition v)) = Inr b"
      by (cases "evaluate_conditions ctx (rd_conditions (rver_definition v))") (auto simp: row_fails_def)
    have m: "row_matches ctx (r, v) = b" by (simp add: row_matches_def b)
    have acts: "b \<Longrightarrow> add_actions out (rd_actions (rver_definition v)) = Inr (out @ row_actions (r, v))"
      using nf m by (subst add_actions_ok) (auto simp: row_fails_def row_actions_def)
    show ?thesis using False acts
      by (cases b) (simp_all add: row b m Cons.IH [OF ok] Let_def row_log_def row_actions_def)
  qed
qed simp

lemma rules_loop_fails:
  assumes "\<not> loop_ok today ctx rows"
  shows "\<exists>e logs'. rules_loop today now tenant_id ctx rows out logs = (Inl e, logs')"
  using assms
proof (induction rows arbitrary: out logs)
  case (Cons row rows)
  obtain r v where row: "row = (r, v)" by (cases row)
  show ?case
  proof (cases "out_of_period today r")
    case True
    then have "\<not> loop_ok today ctx rows" using Cons.prems by (simp add: loop_ok_def row)
    then show ?thesis using True Cons.IH by (simp add: row)
  next
    case False
    show ?thesis
    proof (cases "row_fails ctx (r, v)")
      case True
      then consider e where "evaluate_conditions ctx (rd_conditions (rver_definition v)) = Inl e"
        | e where "evaluate_conditions ctx (rd_conditions (rver_definition v)) = Inr True"
            "add_actions out (rd_actions (rver_definition v)) = Inl e"
        using add_actions_bad [of "rd_actions (rver_definition v)" out]
        by (auto simp: row_fails_def row_matches_def row_actions_def)
      then show ?thesis using False by cases (simp_all add: row Let_def)
    next
      case nf: False
      then have bad: "\<not> loop_ok today ctx rows" using Cons.prems by (auto simp: loop_ok_def row split: if_splits)
      show ?thesis using False Cons.IH [OF bad]
        by (simp add: row Let_def split: sum.splits)
    qed
  qed
qed (simp add: loop_ok_def)

lemma loop_ok_in_force:
  "loop_ok today ctx (domain_rules db tenant_id domain) \<longleftrightarrow> (\<forall>row \<in> set (in_force today db tenant_id domain). \<not> row_fails ctx row)"
  by (simp only: loop_ok_def in_force_def)

lemma evaluate_rules_ok:
  assumes "\<forall>row \<in> set (in_force today db tenant_id domain). \<not> row_fails ctx row"
  shows "evaluate_rules today now tenant_id domain ctx db =
    (Inr (concat (map row_actions (filter (row_matches ctx) (in_force today db tenant_id domain)))),
     db\<lparr>rd_logs := rd_logs db @ map (row_log now tenant_id ctx) (in_force today db tenant_id domain)\<rparr>)"
proof -
  have "loop_ok today ctx (domain_rules db tenant_id domain)" using assms by (simp only: loop_ok_in_force)
  from rules_loop_ok [OF this] show ?thesis
    by (simp add: evaluate_rules_def evaluate_domain_def in_force_def)
qed

lemma evaluate_rules_fails:
  assumes "row \<in> set (in_force today db tenant_id domain)" and "row_fails ctx row"
  shows "\<exists>e. evaluate_rules today now tenant_id domain ctx db = (Inl e, db)"
proof -
  have "\<not> loop_ok today ctx (domain_rules db tenant_id domain)" using assms by (auto simp only: loop_ok_in_force)
  from rules_loop_fails [OF this] obtain e logs' where
    "rules_loop today now tenant_id ctx (domain_rules db tenant_id domain) [] (rd_logs db) = (Inl e, logs')" by blast
  then show ?thesis by (simp add: evaluate_rules_def evaluate_domain_def)
qed

text \<open>The evaluation of a domain succeeds exactly when no rule in force raises; it then returns the actions
  of the matching rules in force by priority and commits one log entry for each of them, and otherwise
  it leaves the database as it was.\<close>

theorem domain_evaluation_exact:
  "if \<exists>row \<in> set (in_force today db tenant_id domain). row_fails ctx row
   then \<exists>e. evaluate_rules today now tenant_id domain ctx db = (Inl e, db)
   else evaluate_rules today now tenant_id domain ctx db =
     (Inr (concat (map row_actions (filter (row_matches ctx) (in_force today db tenant_id domain)))),
      db\<lparr>rd_logs := rd_logs db @ map (row_log now tenant_id ctx) (in_force today db tenant_id domain)\<rparr>)"
proof (cases "\<exists>row \<in> set (in_force today db tenant_id domain). row_fails ctx row")
  case True
  then show ?thesis using evaluate_rules_fails by (simp only: if_True) blast
next
  case False
  then show ?thesis using evaluate_rules_ok by (simp only: if_False) blast
qed

text \<open>The row a stored rule gives: the rule is in force from the day it is stored.\<close>

lemma domain_rules_mem:
  "(r, v) \<in> set (domain_rules db tenant_id domain) \<longleftrightarrow> r \<in> set (rd_rules db) \<and> br_tenant_id r = tenant_id \<and> br_domain r = domain
     \<and> br_is_active r \<and> (\<exists>vid. br_active_version_id r = Some vid \<and> dget (rd_versions db) vid = Some v)"
proof -
  have "Some (r, v) = (case br_active_version_id r' of None \<Rightarrow> None | Some w \<Rightarrow> map_option (\<lambda>ver. (r', ver)) (dget (rd_versions db) w))
    \<longleftrightarrow> r' = r \<and> (\<exists>vid. br_active_version_id r = Some vid \<and> dget (rd_versions db) vid = Some v)" for r'
    by (cases "br_active_version_id r'") (auto simp: map_option_case split: option.splits)
  then show ?thesis by (simp only: domain_rules_def somes_set set_map set_sort image_iff set_filter mem_Collect_eq) blast
qed

lemma created_rule_in_force:
  assumes "create_rule rid vid tenant_id q db = (Inr x, db')"
  shows "\<exists>row \<in> set (in_force today db' tenant_id (rc_domain q)). rver_definition (snd row) = rc_definition q"
proof -
  let ?r = "\<lparr>br_id = rid, br_tenant_id = tenant_id, br_domain = rc_domain q, br_code = rc_code q, br_name = rc_name q,
     br_priority = rc_priority q, br_active_from = None, br_active_to = None, br_active_version_id = Some vid, br_is_active = True\<rparr>"
  let ?v = "\<lparr>rver_id = vid, rver_rule_id = rid, rver_number = 1, rver_definition = rc_definition q, rver_approval_status = ''APPROVED''\<rparr>"
  have "db' = db\<lparr>rd_rules := rd_rules db @ [?r], rd_versions := dset vid ?v (rd_versions db)\<rparr>"
    using assms by (auto simp: create_rule_def Let_def split: if_splits)
  then have "(?r, ?v) \<in> set (in_force today db' tenant_id (rc_domain q))"
    by (simp add: in_force_def domain_rules_mem dget_dset out_of_period_def)
  then show ?thesis by (rule bexI [rotated]) simp
qed

text \<open>One stored rule with an action outside the allowed ones blocks its domain: the endpoint stores it without
  a check, and from then on every evaluation for a context its condition holds for fails, the actions of
  every other rule included.\<close>

theorem one_bad_rule_blocks_domain:
  assumes "create_rule rid vid tenant_id q db = (Inr x, db')"
    and "evaluate_conditions ctx (rd_conditions (rc_definition q)) = Inr True"
    and "a \<in> set (rd_actions (rc_definition q))" and "ra_type a \<notin> set allowed_actions"
  shows "\<exists>e. evaluate_rules today now tenant_id (rc_domain q) ctx db' = (Inl e, db')"
proof -
  obtain row where row: "row \<in> set (in_force today db' tenant_id (rc_domain q))" "rver_definition (snd row) = rc_definition q"
    using created_rule_in_force [OF assms(1)] by blast
  moreover have "row_fails ctx row" using assms(2-4) row(2) by (auto simp: row_fails_def row_matches_def row_actions_def)
  ultimately show ?thesis by (intro evaluate_rules_fails)
qed

definition bad_rule :: rule_create where
  "bad_rule = \<lparr>rc_domain = ''credit'', rc_code = ''R1'', rc_name = ''Hold'', rc_priority = 100,
     rc_definition = \<lparr>rd_conditions = Condition_Group ''AND'' [], rd_actions = [\<lparr>ra_type = ''email'', ra_params = []\<rparr>]\<rparr>\<rparr>"

theorem one_bad_rule_blocks_domain_witness:
  "\<exists>e. evaluate_rules 1 2 ''t'' ''credit'' [] (snd (create_rule ''r'' ''v'' ''t'' bad_rule \<lparr>rd_rules = [], rd_versions = [], rd_logs = []\<rparr>))
     = (Inl e, snd (create_rule ''r'' ''v'' ''t'' bad_rule \<lparr>rd_rules = [], rd_versions = [], rd_logs = []\<rparr>))"
proof -
  let ?db = "\<lparr>rd_rules = [], rd_versions = [], rd_logs = []\<rparr> :: rules_db"
  have 1: "create_rule ''r'' ''v'' ''t'' bad_rule ?db = (Inr ''r'', snd (create_rule ''r'' ''v'' ''t'' bad_rule ?db))"
    by (simp add: create_rule_def)
  have 2: "evaluate_conditions [] (rd_conditions (rc_definition bad_rule)) = Inr True"
    by (simp add: bad_rule_def combine_def)
  show ?thesis
    using one_bad_rule_blocks_domain [OF 1 2, of "\<lparr>ra_type = ''email'', ra_params = []\<rparr>" 1 2]
    by (simp add: bad_rule_def allowed_actions_def)
qed

end
