(* ===== verification/Eta.thy ===== *)
theory Eta
  imports Invoicing
begin

text \<open>
  The versions of estimated times: \<open>app/modules/eta/cascade.py\<close>, \<open>alerts.py\<close> and \<open>service.py\<close>. Times are
  instants (a naive one is read as UTC); the leg table is in the order of creation. The text of an
  alert and the rendering of its times are left out.
\<close>

section \<open>Times\<close>

definition day_us :: int where "day_us = 86400000000"
definition hour_us :: int where "hour_us = 3600000000"

text \<open>Adding a \<open>timedelta\<close> leaves the years 1 to 9999 only by raising.\<close>

definition dt_add :: "datetime \<Rightarrow> int \<Rightarrow> datetime res" where
  "dt_add t d = (if day_us \<le> t + d \<and> t + d < (max_ordinal + 1) * day_us then Inr (t + d) else Inl OverflowError)"

section \<open>Tables\<close>

record ship_leg =
  sl_id :: string
  sl_shipment_id :: string
  sl_carrier_id :: "string option"
  sl_origin :: string
  sl_destination :: string
  sl_etd :: "datetime option"
  sl_eta :: "datetime option"

record eta_version =
  eh_id :: string
  eh_shipment_id :: string
  eh_leg_id :: string
  eh_type :: string
  eh_version :: int
  eh_value :: datetime
  eh_source :: string
  eh_reason :: "string option"
  eh_recorded_by :: "string option"
  eh_recorded_at :: datetime

record eta_db =
  et_legs :: "(string, ship_leg) dict"
  et_history :: "eta_version list"
  et_outbox :: "outbox_event list"
  et_audit :: "audit_log list"

section \<open>The cascade\<close>

record cascade_item =
  ci_leg_id :: string
  ci_type :: string
  ci_value :: datetime
  ci_source :: string
  ci_reason :: string

definition transit_duration :: "ship_leg \<Rightarrow> int" where
  "transit_duration l = (case (sl_eta l, sl_etd l) of
     (Some a, Some d) \<Rightarrow> if d < a then a - d else 24 * hour_us | _ \<Rightarrow> 24 * hour_us)"

definition new_departure :: "ship_leg \<Rightarrow> datetime \<Rightarrow> datetime" where
  "new_departure l earliest = (case sl_etd l of None \<Rightarrow> earliest | Some d \<Rightarrow> if d < earliest then earliest else d)"

definition cascade_reason :: "string \<Rightarrow> string" where
  "cascade_reason changed_leg_id = ''Auto-cascaded from upstream ETA change on '' @
     (if 8 \<le> length changed_leg_id then ''Leg '' @ take 8 changed_leg_id else ''Leg '' @ changed_leg_id)"

definition cascade_item_for :: "string \<Rightarrow> string \<Rightarrow> string \<Rightarrow> datetime \<Rightarrow> cascade_item" where
  "cascade_item_for changed_leg_id leg_id ty t = \<lparr>ci_leg_id = leg_id, ci_type = ty, ci_value = t,
     ci_source = ''AUTO_CASCADE'', ci_reason = cascade_reason changed_leg_id\<rparr>"

text \<open>The loop over the downstream legs; \<open>min_connection\<close> is the buffer in microseconds.\<close>

fun cascade_loop :: "int \<Rightarrow> string \<Rightarrow> ship_leg list \<Rightarrow> datetime \<Rightarrow> cascade_item list res" where
  "cascade_loop min_connection changed [] current_arrival = Inr []"
| "cascade_loop min_connection changed (l # legs) current_arrival =
    res_bind (dt_add current_arrival min_connection) (\<lambda>earliest.
    res_bind (dt_add (new_departure l earliest) (transit_duration l)) (\<lambda>new_eta.
    res_map (\<lambda>rest. cascade_item_for changed (sl_id l) ''ETD'' (new_departure l earliest) #
        cascade_item_for changed (sl_id l) ''ETA'' new_eta # rest)
      (cascade_loop min_connection changed legs new_eta)))"

definition calculate_leg_cascade :: "int \<Rightarrow> ship_leg list \<Rightarrow> string \<Rightarrow> datetime \<Rightarrow> cascade_item list res" where
  "calculate_leg_cascade min_connection legs changed new_eta =
    (case dropWhile (\<lambda>l. sl_id l \<noteq> changed) legs of
       [] \<Rightarrow> Inr []
     | _ # downstream \<Rightarrow> cascade_loop min_connection changed downstream new_eta)"

section \<open>Alerts\<close>

record eta_alert =
  ea_leg_id :: string
  ea_shipment_id :: string
  ea_severity :: string
  ea_deviation_days :: flt
  ea_original_eta :: datetime
  ea_latest_eta :: datetime
  ea_original_version :: int
  ea_latest_version :: int
  ea_recipients :: "string list"
  ea_customer_notification :: bool
  ea_firm_override :: bool

text \<open>\<open>setdefault(leg_id, []).append(r)\<close> for the records of type ETA.\<close>

definition eta_groups :: "eta_version list \<Rightarrow> (string, eta_version list) dict" where
  "eta_groups records = foldl (\<lambda>d r. dset (eh_leg_id r) (dget_or d (eh_leg_id r) [] @ [r]) d) []
     (filter (\<lambda>r. py_upper (eh_type r) = ''ETA'') records)"

definition deviation_days :: "datetime \<Rightarrow> datetime \<Rightarrow> flt" where
  "deviation_days original latest = fquot (fquot (of_int (latest - original)) 1000000) 86400"

text \<open>Severity, recipients and customer notification of a delay.\<close>

definition alert_level :: "bool \<Rightarrow> flt \<Rightarrow> (string \<times> string list \<times> bool) option" where
  "alert_level firm days =
    (if firm then Some (''CRITICAL'', [''OPERATIONS_MANAGER'', ''CUSTOMER_SERVICE'', ''OPERATIONS''], True)
     else if 7 < days then Some (''CRITICAL'', [''OPERATIONS_MANAGER''], True)
     else if 3 < days then Some (''WARNING'', [''OPERATIONS'', ''CUSTOMER_SERVICE''], False)
     else if 1 < days then Some (''INFO'', [''OPERATIONS''], False)
     else None)"

definition leg_alert :: "bool \<Rightarrow> string \<Rightarrow> eta_version list \<Rightarrow> eta_alert option" where
  "leg_alert firm leg_id leg_records =
    (if leg_records = [] then None
     else
       (let sorted = sort_key eh_version leg_records; original = hd sorted; latest = last sorted;
            days = deviation_days (eh_value original) (eh_value latest)
        in if days \<le> 0 then None
           else map_option (\<lambda>(severity, recipients, notify).
             \<lparr>ea_leg_id = leg_id, ea_shipment_id = eh_shipment_id latest, ea_severity = severity,
              ea_deviation_days = py_round 2 days, ea_original_eta = eh_value original, ea_latest_eta = eh_value latest,
              ea_original_version = eh_version original, ea_latest_version = eh_version latest,
              ea_recipients = recipients, ea_customer_notification = notify, ea_firm_override = firm\<rparr>)
             (alert_level firm days)))"

definition evaluate_eta_deviations :: "eta_version list \<Rightarrow> bool \<Rightarrow> eta_alert list" where
  "evaluate_eta_deviations records firm = somes (map (\<lambda>(leg_id, rs). leg_alert firm leg_id rs) (eta_groups records))"

section \<open>Recording a version\<close>

record version_request =
  vr_shipment_id :: string
  vr_leg_id :: string
  vr_type :: string
  vr_value :: datetime
  vr_source :: string
  vr_reason :: "string option"
  vr_recorded_by :: "string option"
  vr_tenant_id :: "string option"
  vr_firm :: bool

record version_result =
  vo_id :: string
  vo_type :: string
  vo_version :: int
  vo_value :: datetime
  vo_cascaded :: "(string \<times> string \<times> int \<times> datetime) list"
  vo_alerts :: "eta_alert list"

definition valid_sources :: "string list" where
  "valid_sources = [''QUOTATION'', ''BOOKING'', ''CARRIER_API'', ''MANUAL'', ''TERMINAL'', ''AUTO_CASCADE'']"

text \<open>The first row by descending version.\<close>

definition next_version :: "eta_version list \<Rightarrow> string \<Rightarrow> string \<Rightarrow> int" where
  "next_version history leg_id ty =
    (case sort_key (\<lambda>h. - eh_version h) (filter (\<lambda>h. eh_leg_id h = leg_id \<and> eh_type h = ty) history) of
       [] \<Rightarrow> 1 | h # _ \<Rightarrow> eh_version h + 1)"

definition set_time :: "string \<Rightarrow> datetime \<Rightarrow> ship_leg \<Rightarrow> ship_leg" where
  "set_time ty t l = (if ty = ''ETA'' then l\<lparr>sl_eta := Some t\<rparr> else l\<lparr>sl_etd := Some t\<rparr>)"

definition put_leg :: "ship_leg \<Rightarrow> eta_db \<Rightarrow> eta_db" where
  "put_leg l db = db\<lparr>et_legs := dset (sl_id l) l (et_legs db)\<rparr>"

text \<open>A new row of the history and the value it gives the leg, for the version asked for and for each
  of the cascade.\<close>

definition add_version :: "string \<Rightarrow> string \<Rightarrow> string \<Rightarrow> string \<Rightarrow> datetime \<Rightarrow> string \<Rightarrow> string option \<Rightarrow> string option \<Rightarrow>
    datetime \<Rightarrow> eta_db \<Rightarrow> eta_db" where
  "add_version rid shipment_id leg_id ty t src reason recorded_by now db =
    (let db = db\<lparr>et_history := et_history db @ [\<lparr>eh_id = rid, eh_shipment_id = shipment_id, eh_leg_id = leg_id, eh_type = ty,
           eh_version = next_version (et_history db) leg_id ty, eh_value = t, eh_source = src, eh_reason = reason,
           eh_recorded_by = recorded_by, eh_recorded_at = now\<rparr>]\<rparr>
     in case dget (et_legs db) leg_id of None \<Rightarrow> db | Some l \<Rightarrow> put_leg (set_time ty t l) db)"

definition legs_of :: "eta_db \<Rightarrow> string \<Rightarrow> ship_leg list" where
  "legs_of db shipment_id = filter (\<lambda>l. sl_shipment_id l = shipment_id) (dvalues (et_legs db))"

fun apply_cascade :: "(nat \<Rightarrow> string) \<Rightarrow> nat \<Rightarrow> version_request \<Rightarrow> datetime \<Rightarrow> cascade_item list \<Rightarrow> eta_db \<Rightarrow>
    (string \<times> string \<times> int \<times> datetime) list \<times> eta_db" where
  "apply_cascade uid k q now [] db = ([], db)"
| "apply_cascade uid k q now (c # cs) db =
    (let v = next_version (et_history db) (ci_leg_id c) (ci_type c);
         (outs, db') = apply_cascade uid (Suc k) q now cs
           (add_version (uid k) (vr_shipment_id q) (ci_leg_id c) (ci_type c) (ci_value c) (ci_source c)
             (Some (ci_reason c)) (vr_recorded_by q) now db)
     in ((ci_leg_id c, ci_type c, v, ci_value c) # outs, db'))"

definition alert_payload :: "eta_alert \<Rightarrow> (string \<times> json) list" where
  "alert_payload a = [(''alert'', JObj [(''leg_id'', JStr (ea_leg_id a)), (''shipment_id'', JStr (ea_shipment_id a)),
     (''severity'', JStr (ea_severity a)), (''deviation_days'', JFloat (ea_deviation_days a)),
     (''original_eta'', JTime (ea_original_eta a)), (''latest_eta'', JTime (ea_latest_eta a)),
     (''original_version'', JInt (ea_original_version a)), (''latest_version'', JInt (ea_latest_version a)),
     (''recipients'', JList (map JStr (ea_recipients a))),
     (''publish_customer_notification'', JBool (ea_customer_notification a)),
     (''firm_commitment_override'', JBool (ea_firm_override a))]),
     (''notification_channel'', JStr ''EMAIL_AND_PORTAL'')]"

definition publish_alerts :: "string \<Rightarrow> string \<Rightarrow> datetime \<Rightarrow> eta_alert list \<Rightarrow> outbox_event list \<Rightarrow> outbox_event list" where
  "publish_alerts tenant_id shipment_id now alerts rows =
    foldl (\<lambda>rows a. if ea_customer_notification a
      then enqueue ''customer.notification'' tenant_id ''shipment'' shipment_id (alert_payload a) now rows else rows) rows alerts"

definition version_audit :: "string \<Rightarrow> version_request \<Rightarrow> string \<Rightarrow> string \<Rightarrow> int \<Rightarrow> audit_log" where
  "version_audit tenant_id q ty src v = \<lparr>al_tenant_id = Some tenant_id, al_user_id = vr_recorded_by q, al_branch_id = None,
     al_entity_type = ''shipment_leg'', al_entity_id = vr_leg_id q, al_action = ''eta.version_recorded'',
     al_previous_value = None, al_new_value = Some [(''type'', JStr ty), (''version'', JInt v),
       (''value'', JTime (vr_value q)), (''source'', JStr src)],
     al_correlation_id = None, al_ip_address = None, al_user_agent = None\<rparr>"

definition record_version :: "(nat \<Rightarrow> string) \<Rightarrow> datetime \<Rightarrow> version_request \<Rightarrow> eta_db \<Rightarrow> version_result res \<times> eta_db" where
  "record_version uid now q db =
    (let ty = py_upper (py_strip (vr_type q)); src = py_upper (py_strip (vr_source q)) in
     if ty \<notin> {''ETA'', ''ETD''} then (Inl (ValidationError (''Invalid type '' @ vr_type q)), db)
     else if src \<notin> set valid_sources then (Inl (ValidationError (''Invalid source '' @ vr_source q)), db)
     else case dget (et_legs db) (vr_leg_id q) of
       None \<Rightarrow> (Inl (NotFoundError (''Shipment leg '' @ vr_leg_id q @ '' not found'')), db)
     | Some leg \<Rightarrow>
       if sl_shipment_id leg \<noteq> vr_shipment_id q
       then (Inl (NotFoundError (''Shipment leg '' @ vr_leg_id q @ '' not found'')), db)
       else
        (let v = next_version (et_history db) (vr_leg_id q) ty;
             db = add_version (uid 0) (vr_shipment_id q) (vr_leg_id q) ty (vr_value q) src (vr_reason q) (vr_recorded_by q) now db
         in case (if ty = ''ETA'' then calculate_leg_cascade (6 * hour_us) (legs_of db (vr_shipment_id q)) (vr_leg_id q) (vr_value q)
                  else Inr []) of
              Inl e \<Rightarrow> (Inl e, db)
            | Inr plan \<Rightarrow>
               (let (outs, db) = apply_cascade uid 1 q now plan db;
                    alerts = evaluate_eta_deviations
                      (sort_key eh_version (filter (\<lambda>h. eh_shipment_id h = vr_shipment_id q) (et_history db))) (vr_firm q);
                    db = (case vr_tenant_id q of None \<Rightarrow> db
                      | Some t \<Rightarrow> db\<lparr>et_outbox := publish_alerts t (vr_shipment_id q) now alerts (et_outbox db),
                                     et_audit := record_audit (version_audit t q ty src v) (et_audit db)\<rparr>)
                in (Inr \<lparr>vo_id = uid 0, vo_type = ty, vo_version = v, vo_value = vr_value q, vo_cascaded = outs, vo_alerts = alerts\<rparr>, db))))"

text \<open>The rows of a leg, by type (ETA before ETD, the only two) and version.\<close>

definition get_leg_history :: "eta_db \<Rightarrow> string \<Rightarrow> string \<Rightarrow> string option \<Rightarrow> eta_version list" where
  "get_leg_history db shipment_id leg_id ty =
    sort_key (\<lambda>h. if eh_type h = ''ETA'' then 0 else 1 :: nat) (sort_key eh_version (filter (\<lambda>h. eh_shipment_id h = shipment_id \<and> eh_leg_id h = leg_id
       \<and> (case ty of None \<Rightarrow> True | Some t \<Rightarrow> t = [] \<or> eh_type h = py_upper (py_strip t))) (et_history db)))"

end
