(* ===== verification/Exceptions.thy ===== *)
theory Exceptions
  imports Eta
begin

text \<open>
  The exceptions of shipments: \<open>app/modules/exceptions/taxonomy.py\<close>, \<open>escalations.py\<close> and \<open>service.py\<close>.
  The text of the reason of an escalation is left out. The tables are a record that the financial
  profile of a shipment extends.
\<close>

section \<open>Taxonomy\<close>

record exception_type_config =
  etc_code :: string
  etc_name :: string
  etc_domain :: string
  etc_default_severity :: string
  etc_description :: string
  etc_sla_hours :: int  \<comment> \<open>every duration is a whole number of hours\<close>

abbreviation etc :: "string \<Rightarrow> string \<Rightarrow> string \<Rightarrow> string \<Rightarrow> string \<Rightarrow> int \<Rightarrow> exception_type_config" where
  "etc c n d s t h \<equiv> \<lparr>etc_code = c, etc_name = n, etc_domain = d, etc_default_severity = s, etc_description = t, etc_sla_hours = h\<rparr>"

definition exception_taxonomy :: "(string, exception_type_config) dict" where
  "exception_taxonomy =
    [(''SHIPMENT_DELAY'', etc ''SHIPMENT_DELAY'' ''Shipment Transit Delay'' ''CARRIER'' ''WARNING'' ''Carrier departure or transit schedule delay'' 12),
     (''VESSEL_ROLL'', etc ''VESSEL_ROLL'' ''Vessel / Flight Roll'' ''CARRIER'' ''CRITICAL'' ''Container or cargo rolled to next scheduled vessel/voyage'' 8),
     (''CARGO_HOLD'', etc ''CARGO_HOLD'' ''Operational Cargo Hold'' ''OPERATIONAL'' ''WARNING'' ''Operational hold placed on cargo at terminal or CFS'' 12),
     (''CUSTOMS_HOLD'', etc ''CUSTOMS_HOLD'' ''Customs Regulatory Hold'' ''CUSTOMS'' ''CRITICAL'' ''Customs authority inspection stop or documentation query'' 6),
     (''MISSING_DOCUMENT'', etc ''MISSING_DOCUMENT'' ''Missing Mandatory Document'' ''DOCUMENTATION'' ''WARNING'' ''Mandatory shipping or compliance document missing'' 8),
     (''DGR_ISSUE'', etc ''DGR_ISSUE'' ''Dangerous Goods Non-Compliance'' ''DOCUMENTATION'' ''CRITICAL'' ''Dangerous Goods packaging, labeling, or declaration mismatch'' 4),
     (''CARGO_DAMAGE'', etc ''CARGO_DAMAGE'' ''Cargo Damage'' ''OPERATIONAL'' ''CRITICAL'' ''Physical cargo damage noted during transit or handling'' 12),
     (''CARGO_LOSS'', etc ''CARGO_LOSS'' ''Cargo Loss / Shortage'' ''OPERATIONAL'' ''CRITICAL'' ''Total or partial cargo loss or pilferage'' 8),
     (''SHORT_SHIPMENT'', etc ''SHORT_SHIPMENT'' ''Short Shipment Discrepancy'' ''OPERATIONAL'' ''WARNING'' ''Discrepancy in package count vs manifest'' 12),
     (''WRONG_DELIVERY'', etc ''WRONG_DELIVERY'' ''Misrouted / Wrong Delivery'' ''OPERATIONAL'' ''CRITICAL'' ''Cargo delivered to incorrect consignee or facility'' 4),
     (''RETURNED_TO_SHIPPER'', etc ''RETURNED_TO_SHIPPER'' ''Returned to Shipper'' ''BOOKING'' ''WARNING'' ''Cargo refused at destination and returning to origin'' 24),
     (''SECURITY_HOLD'', etc ''SECURITY_HOLD'' ''Security Authority Stop'' ''CUSTOMS'' ''CRITICAL'' ''Cargo held by port, airport, or national security authorities'' 6),
     (''WEATHER_DELAY'', etc ''WEATHER_DELAY'' ''Adverse Weather Delay'' ''CARRIER'' ''INFO'' ''Transit delay due to adverse meteorological conditions'' 24),
     (''EQUIPMENT_FAILURE'', etc ''EQUIPMENT_FAILURE'' ''Reefer / Equipment Failure'' ''CARRIER'' ''CRITICAL'' ''Container reefer unit, genset, or equipment breakdown'' 4)]"

definition exception_aliases :: "(string, string) dict" where
  "exception_aliases = [(''DELAY'', ''SHIPMENT_DELAY''), (''ROLL'', ''VESSEL_ROLL''), (''HOLD'', ''CARGO_HOLD''), (''DAMAGE'', ''CARGO_DAMAGE''), (''LOSS'', ''CARGO_LOSS''), (''RETURNED'', ''RETURNED_TO_SHIPPER'')]"

definition valid_domains :: "string list" where
  "valid_domains = [''BOOKING'', ''DOCUMENTATION'', ''CUSTOMS'', ''CARRIER'', ''OPERATIONAL'']"

definition valid_severities :: "string list" where
  "valid_severities = [''INFO'', ''WARNING'', ''CRITICAL'']"

definition valid_statuses :: "string list" where
  "valid_statuses = [''OPEN'', ''ACKNOWLEDGED'', ''UNDER_INVESTIGATION'', ''RESOLVED'', ''CLOSED'']"

definition resolve_exception_type :: "string \<Rightarrow> exception_type_config option" where
  "resolve_exception_type type_input =
    (let norm = py_upper (py_strip type_input)
     in dget exception_taxonomy (dget_or exception_aliases norm norm))"

section \<open>Escalations\<close>

text \<open>The keys of the dictionary that are read.\<close>

record exception_view =
  ev_exception_type :: string
  ev_severity :: string
  ev_status :: string
  ev_owner_id :: "string option"
  ev_financial_impact :: flt
  ev_opened_at :: "datetime option"
  ev_acknowledged_at :: "datetime option"

record escalation =
  es_rule_id :: string
  es_target :: string
  es_outbox_event :: "string option"
  es_severity :: string

definition rule_if :: "bool \<Rightarrow> string \<Rightarrow> string \<Rightarrow> string option \<Rightarrow> string \<Rightarrow> escalation list" where
  "rule_if b rule_id target event severity = (if b then [\<lparr>es_rule_id = rule_id, es_target = target,
     es_outbox_event = event, es_severity = severity\<rparr>] else [])"

definition evaluate_exception_escalations :: "exception_view \<Rightarrow> datetime \<Rightarrow> flt \<Rightarrow> escalation list" where
  "evaluate_exception_escalations ex now threshold =
    (case ev_opened_at ex of
       None \<Rightarrow> []
     | Some opened_at \<Rightarrow>
        (let status = py_upper (ev_status ex); severity = py_upper (ev_severity ex);
             impact = ev_financial_impact ex; exception_type = py_upper (ev_exception_type ex);
             sla = (case dget exception_taxonomy exception_type of None \<Rightarrow> 24 | Some c \<Rightarrow> etc_sla_hours c);
             elapsed = now - opened_at;
             is_open = (status \<notin> {''RESOLVED'', ''CLOSED''});
             unassigned = (case ev_owner_id ex of None \<Rightarrow> True | Some i \<Rightarrow> py_strip i = [])
         in rule_if (is_open \<and> ev_acknowledged_at ex = None \<and> 1 * hour_us < elapsed)
              ''RULE_1_UNACKNOWLEDGED_1H'' ''TEAM_LEAD'' (Some ''sla.breach'') ''WARNING'' @
            rule_if (is_open \<and> unassigned \<and> 2 * hour_us < elapsed)
              ''RULE_2_UNASSIGNED_2H'' ''DEPARTMENT_MANAGER'' None ''WARNING'' @
            rule_if (is_open \<and> sla * hour_us < elapsed)
              ''RULE_3_SLA_BREACHED'' ''OPERATIONS_MANAGER'' (Some ''customer.notification'') ''CRITICAL'' @
            rule_if (is_open \<and> severity = ''CRITICAL'')
              ''RULE_4_CRITICAL_UNRESOLVED'' ''BRANCH_HEAD'' None ''CRITICAL'' @
            rule_if (threshold < impact)
              ''RULE_5_HIGH_FINANCIAL_IMPACT'' ''FINANCE_CONTROLLER'' None (if impact < 25000 then ''WARNING'' else ''CRITICAL'')))"

section \<open>The service\<close>

record shipment_exception =
  se_id :: string
  se_tenant_id :: string
  se_shipment_id :: string
  se_exception_type :: string
  se_severity :: string
  se_domain :: string
  se_status :: string
  se_description :: string
  se_financial_impact :: flt
  se_owner_id :: "string option"
  se_opened_at :: datetime
  se_acknowledged_at :: "datetime option"
  se_resolved_at :: "datetime option"
  se_resolution_notes :: "string option"

record exc_db =
  ex_shipments :: "(string \<times> string) list"  \<comment> \<open>id and tenant\<close>
  ex_exceptions :: "(string, shipment_exception) dict"
  ex_outbox :: "outbox_event list"
  ex_audit :: "audit_log list"

definition put_exception :: "shipment_exception \<Rightarrow> 'a exc_db_scheme \<Rightarrow> 'a exc_db_scheme" where
  "put_exception e db = db\<lparr>ex_exceptions := dset (se_id e) e (ex_exceptions db)\<rparr>"

record exception_request =
  xr_shipment_id :: string
  xr_tenant_id :: string
  xr_exception_type :: string
  xr_description :: string
  xr_severity :: "string option"
  xr_domain :: "string option"
  xr_financial_impact :: flt
  xr_owner_id :: "string option"
  xr_actor_id :: "string option"

definition escalation_json :: "escalation \<Rightarrow> json" where
  "escalation_json s = JObj [(''rule_id'', JStr (es_rule_id s)), (''escalation_target'', JStr (es_target s)),
     (''outbox_event'', case es_outbox_event s of None \<Rightarrow> JNull | Some e \<Rightarrow> JStr e), (''severity'', JStr (es_severity s))]"

definition publish_escalations :: "shipment_exception \<Rightarrow> datetime \<Rightarrow> escalation list \<Rightarrow> outbox_event list \<Rightarrow> outbox_event list" where
  "publish_escalations e now escs rows = foldl (\<lambda>rows s. case es_outbox_event s of
       None \<Rightarrow> rows
     | Some ty \<Rightarrow> enqueue ty (se_tenant_id e) ''shipment_exception'' (se_id e)
         [(''exception_id'', JStr (se_id e)), (''shipment_id'', JStr (se_shipment_id e)), (''escalation'', escalation_json s),
          (''exception_type'', JStr (se_exception_type e)), (''severity'', JStr (se_severity e))] now rows) rows escs"

definition exception_audit :: "shipment_exception \<Rightarrow> string option \<Rightarrow> string \<Rightarrow> (string \<times> json) list option \<Rightarrow>
    (string \<times> json) list \<Rightarrow> audit_log" where
  "exception_audit e actor_id action prev new = \<lparr>al_tenant_id = Some (se_tenant_id e), al_user_id = actor_id, al_branch_id = None,
     al_entity_type = ''shipment_exception'', al_entity_id = se_id e, al_action = action,
     al_previous_value = prev, al_new_value = Some new, al_correlation_id = None, al_ip_address = None, al_user_agent = None\<rparr>"

definition create_exception :: "string \<Rightarrow> datetime \<Rightarrow> exception_request \<Rightarrow> 'a exc_db_scheme \<Rightarrow>
    (shipment_exception \<times> escalation list) res \<times> 'a exc_db_scheme" where
  "create_exception eid now q db =
    (case resolve_exception_type (xr_exception_type q) of
       None \<Rightarrow> (Inl (ValidationError (''Invalid exception type '' @ xr_exception_type q)), db)
     | Some config \<Rightarrow>
      (let severity = (if truthy (xr_severity q) then py_upper (the (xr_severity q)) else etc_default_severity config);
           domain = (if truthy (xr_domain q) then py_upper (the (xr_domain q)) else etc_domain config)
       in if severity \<notin> set valid_severities then (Inl (ValidationError (''Invalid severity '' @ severity)), db)
          else if domain \<notin> set valid_domains then (Inl (ValidationError (''Invalid domain '' @ domain)), db)
          else if xr_shipment_id q \<notin> fst ` set (ex_shipments db)
          then (Inl (NotFoundError (''Shipment '' @ xr_shipment_id q @ '' not found.'')), db)
          else
           (let e = \<lparr>se_id = eid, se_tenant_id = xr_tenant_id q, se_shipment_id = xr_shipment_id q,
                  se_exception_type = etc_code config, se_severity = severity, se_domain = domain, se_status = ''OPEN'',
                  se_description = xr_description q, se_financial_impact = xr_financial_impact q, se_owner_id = xr_owner_id q,
                  se_opened_at = now, se_acknowledged_at = None, se_resolved_at = None, se_resolution_notes = None\<rparr>;
                escs = evaluate_exception_escalations
                  \<lparr>ev_exception_type = etc_code config, ev_severity = severity, ev_status = ''OPEN'', ev_owner_id = xr_owner_id q,
                   ev_financial_impact = xr_financial_impact q, ev_opened_at = Some now, ev_acknowledged_at = None\<rparr> now 5000;
                db = put_exception e db;
                db = db\<lparr>ex_outbox := publish_escalations e now escs (ex_outbox db)\<rparr>;
                db = db\<lparr>ex_audit := record_audit (exception_audit e (xr_actor_id q) ''exception.created'' None
                  [(''exception_type'', JStr (etc_code config)), (''severity'', JStr severity), (''domain'', JStr domain),
                   (''status'', JStr ''OPEN'')]) (ex_audit db)\<rparr>
            in (Inr (e, escs), db))))"

record exception_update =
  xu_status :: "string option"
  xu_owner_id :: "string option"
  xu_resolution_notes :: "string option"
  xu_financial_impact :: "flt option"

definition set_exception_status :: "datetime \<Rightarrow> string \<Rightarrow> shipment_exception \<Rightarrow> shipment_exception" where
  "set_exception_status now status e =
    (let e = e\<lparr>se_status := status\<rparr> in
     if status = ''ACKNOWLEDGED'' \<and> se_acknowledged_at e = None then e\<lparr>se_acknowledged_at := Some now\<rparr>
     else if status \<in> {''RESOLVED'', ''CLOSED''} \<and> se_resolved_at e = None then e\<lparr>se_resolved_at := Some now\<rparr>
     else e)"

definition set_exception_owner :: "datetime \<Rightarrow> string \<Rightarrow> shipment_exception \<Rightarrow> shipment_exception" where
  "set_exception_owner now owner_id e =
    (let e = e\<lparr>se_owner_id := Some owner_id\<rparr> in
     if se_acknowledged_at e = None then e\<lparr>se_acknowledged_at := Some now\<rparr> else e)"

definition update_fields :: "datetime \<Rightarrow> exception_update \<Rightarrow> shipment_exception \<Rightarrow> shipment_exception" where
  "update_fields now u e =
    (let e = (case xu_owner_id u of None \<Rightarrow> e | Some i \<Rightarrow> set_exception_owner now i e);
         e = (case xu_resolution_notes u of None \<Rightarrow> e | Some t \<Rightarrow> e\<lparr>se_resolution_notes := Some t\<rparr>)
     in case xu_financial_impact u of None \<Rightarrow> e | Some x \<Rightarrow> e\<lparr>se_financial_impact := x\<rparr>)"

definition update_exception :: "datetime \<Rightarrow> string \<Rightarrow> string \<Rightarrow> string \<Rightarrow> exception_update \<Rightarrow> 'a exc_db_scheme \<Rightarrow>
    shipment_exception res \<times> 'a exc_db_scheme" where
  "update_exception now exception_id tenant_id actor_id u db =
    (case dget (ex_exceptions db) exception_id of
       None \<Rightarrow> (Inl (NotFoundError (''Exception '' @ exception_id @ '' not found.'')), db)
     | Some e \<Rightarrow>
       if se_tenant_id e \<noteq> tenant_id then (Inl (NotFoundError (''Exception '' @ exception_id @ '' not found.'')), db)
       else
        (let norm = py_upper (py_strip (the (xu_status u))) in
         if truthy (xu_status u) \<and> norm \<notin> set valid_statuses then (Inl (ValidationError (''Invalid status '' @ norm)), db)
         else
          (let e' = update_fields now u (if truthy (xu_status u) then set_exception_status now norm e else e);
               db = put_exception e' db;
               db = db\<lparr>ex_audit := record_audit (exception_audit e' (Some actor_id) ''exception.updated''
                 (Some [(''status'', JStr (se_status e))])
                 [(''status'', JStr (se_status e')), (''owner_id'', case se_owner_id e' of None \<Rightarrow> JNull | Some i \<Rightarrow> JStr i)]) (ex_audit db)\<rparr>
           in (Inr e', db))))"

definition filtered :: "string option \<Rightarrow> (shipment_exception \<Rightarrow> string) \<Rightarrow> shipment_exception \<Rightarrow> bool" where
  "filtered wanted field e \<longleftrightarrow> (truthy wanted \<longrightarrow> field e = py_upper (py_strip (the wanted)))"

definition tenant_exceptions :: "'a exc_db_scheme \<Rightarrow> string \<Rightarrow> shipment_exception list" where
  "tenant_exceptions db tenant_id = filter (\<lambda>e. se_tenant_id e = tenant_id) (dvalues (ex_exceptions db))"

definition list_exceptions :: "'a exc_db_scheme \<Rightarrow> string \<Rightarrow> string option \<Rightarrow> string option \<Rightarrow> string option \<Rightarrow> string option \<Rightarrow>
    shipment_exception list" where
  "list_exceptions db tenant_id shipment_id status severity domain =
    sort_key (\<lambda>e. - se_opened_at e) (filter (\<lambda>e. (shipment_id \<noteq> None \<longrightarrow> Some (se_shipment_id e) = shipment_id)
       \<and> filtered status se_status e \<and> filtered severity se_severity e \<and> filtered domain se_domain e) (tenant_exceptions db tenant_id))"

definition active_statuses :: "string list" where
  "active_statuses = [''OPEN'', ''ACKNOWLEDGED'', ''UNDER_INVESTIGATION'']"

record exception_summary =
  sm_total_open :: nat
  sm_total_critical :: nat
  sm_total_financial_impact :: flt
  sm_by_status :: "(string, nat) dict"
  sm_by_severity :: "(string, nat) dict"
  sm_by_domain :: "(string, nat) dict"

text \<open>\<open>select(f, count(id)) group by f\<close>; the order of the groups is that of the rows.\<close>

definition group_count :: "('e \<Rightarrow> string) \<Rightarrow> 'e list \<Rightarrow> (string, nat) dict" where
  "group_count f rows = foldl (\<lambda>d e. dset (f e) (dget_or d (f e) 0 + 1) d) [] rows"

definition get_summary :: "db_env \<Rightarrow> 'a exc_db_scheme \<Rightarrow> string \<Rightarrow> exception_summary" where
  "get_summary env db tenant_id =
    (let rows = tenant_exceptions db tenant_id;
         by_status = group_count se_status rows; by_sev = group_count se_severity rows;
         active = filter (\<lambda>e. se_status e \<in> set active_statuses) rows
     in \<lparr>sm_total_open = sum_list (map snd (filter (\<lambda>p. fst p \<in> set active_statuses) by_status)),
         sm_total_critical = dget_or by_sev ''CRITICAL'' 0,
         sm_total_financial_impact = (if active = [] then 0 else db_sum env (map se_financial_impact active)),
         sm_by_status = by_status, sm_by_severity = by_sev, sm_by_domain = group_count se_domain rows\<rparr>)"

end
