(* ===== verification/Financial.thy ===== *)
theory Financial
  imports Exceptions Workflow
begin

text \<open>
  The financial profile of a shipment, \<open>app/modules/financial/service.py\<close>: the ledgers of revenue and
  direct cost, the profit they give, the exception raised for a negative margin, and the correction of
  a posted entry. Its tables extend those of the exception service, whose table of exceptions it
  shares; the lines of the ledgers are in the order of creation.
\<close>

section \<open>Tables\<close>

record revenue_entry =
  ll_id :: string
  ll_shipment_id :: string
  ll_charge_code :: "string option"
  ll_description :: "string option"
  ll_quantity :: flt
  ll_unit_rate :: "flt option"
  ll_amount :: flt
  ll_currency_code :: "string option"
  ll_status :: string
  ll_is_additional :: bool
  ll_quotation_line_id :: "string option"
  ll_created_by :: "string option"

record cost_entry = revenue_entry +
  ce_vendor_id :: "string option"
  ce_carrier_id :: "string option"

record ledger_entry = fin_entry +
  fe_reversal_of_id :: "string option"
  fe_reversal_reason :: "string option"
  fe_revenue_line_id :: "string option"
  fe_cost_line_id :: "string option"

record fin_db = exc_db +
  fd_revenue :: "revenue_entry list"
  fd_costs :: "cost_entry list"
  fd_vendors :: "(string \<times> string) list"  \<comment> \<open>id and tenant\<close>
  fd_carriers :: "string list"
  fd_quotation_lines :: "string list"
  fd_entries :: "(string, ledger_entry) dict"

text \<open>A shipment of the tenant.\<close>

definition tenant_shipment :: "fin_db \<Rightarrow> string \<Rightarrow> string \<Rightarrow> unit res" where
  "tenant_shipment db shipment_id tenant_id = (if (shipment_id, tenant_id) \<in> set (ex_shipments db) then Inr ()
     else Inl (NotFoundError (''Shipment '' @ shipment_id @ '' not found or does not belong to tenant.'')))"

section \<open>Profitability\<close>

record profitability =
  pf_gross_revenue :: flt
  pf_direct_cost :: flt
  pf_gross_profit :: flt
  pf_margin_percent :: flt
  pf_quoted_revenue :: flt
  pf_actual_revenue :: flt
  pf_quoted_cost :: flt
  pf_actual_cost :: flt
  pf_currency_code :: string

definition revenue_of :: "fin_db \<Rightarrow> string \<Rightarrow> revenue_entry list" where
  "revenue_of db shipment_id = filter (\<lambda>l. ll_shipment_id l = shipment_id) (fd_revenue db)"

definition costs_of :: "fin_db \<Rightarrow> string \<Rightarrow> cost_entry list" where
  "costs_of db shipment_id = filter (\<lambda>l. ll_shipment_id l = shipment_id) (fd_costs db)"

definition sum_amounts :: "('a revenue_entry_scheme \<Rightarrow> bool) \<Rightarrow> 'a revenue_entry_scheme list \<Rightarrow> flt" where
  "sum_amounts P ls = py_sum (map ll_amount (filter P ls))"

definition margin_percent :: "flt \<Rightarrow> flt \<Rightarrow> flt \<Rightarrow> flt" where
  "margin_percent gross_revenue direct_cost gross_profit =
    (if 0 < gross_revenue then py_round 2 (fmul (fquot gross_profit gross_revenue) 100)
     else if gross_revenue = 0 \<and> 0 < direct_cost then - 100 else 0)"

definition profit_of :: "revenue_entry list \<Rightarrow> cost_entry list \<Rightarrow> profitability" where
  "profit_of rev_lines cost_lines =
    (let gross_revenue = sum_amounts (\<lambda>_. True) rev_lines; direct_cost = sum_amounts (\<lambda>_. True) cost_lines;
         gross_profit = fsub gross_revenue direct_cost
     in \<lparr>pf_gross_revenue = py_round 2 gross_revenue, pf_direct_cost = py_round 2 direct_cost,
         pf_gross_profit = py_round 2 gross_profit, pf_margin_percent = margin_percent gross_revenue direct_cost gross_profit,
         pf_quoted_revenue = py_round 2 (sum_amounts (\<lambda>r. \<not> ll_is_additional r \<or> ll_status r \<in> {''QUOTED'', ''INVOICED'', ''PAID''}) rev_lines),
         pf_actual_revenue = py_round 2 (sum_amounts (\<lambda>r. ll_status r \<in> {''INVOICED'', ''PAID''}) rev_lines),
         pf_quoted_cost = py_round 2 (sum_amounts (\<lambda>c. \<not> ll_is_additional c) cost_lines),
         pf_actual_cost = py_round 2 (sum_amounts (\<lambda>c. ll_status c \<in> {''BILLED'', ''VERIFIED'', ''APPROVED'', ''PAID''}) cost_lines),
         pf_currency_code = (case rev_lines of [] \<Rightarrow> ''USD''
           | r # _ \<Rightarrow> if truthy (ll_currency_code r) then the (ll_currency_code r) else ''USD'')\<rparr>)"

definition get_profitability :: "fin_db \<Rightarrow> string \<Rightarrow> string \<Rightarrow> profitability res" where
  "get_profitability db shipment_id tenant_id = res_bind (tenant_shipment db shipment_id tenant_id)
     (\<lambda>_. Inr (profit_of (revenue_of db shipment_id) (costs_of db shipment_id)))"

section \<open>The exception for a negative margin\<close>

text \<open>The format \<open>,.2f\<close>: the nearest hundredth, with a comma after each group of three digits.\<close>

fun commas_rev :: "string \<Rightarrow> string" where
  "commas_rev (a # b # c # d # s) = a # b # c # CHR '','' # commas_rev (d # s)"
| "commas_rev s = s"

definition fmt_money :: "flt \<Rightarrow> string" where
  "fmt_money x = (let k = rhe (\<bar>x\<bar> * 100) in (if x < 0 then ''-'' else []) @ rev (commas_rev (rev (dec_digits (k div 100)))) @
     ''.'' @ zpad 2 (k mod 100))"

definition margin_text :: "string \<Rightarrow> profitability \<Rightarrow> string" where
  "margin_text shipment_id p = ''Negative gross margin on shipment '' @ shipment_id @ '': Revenue=$'' @ fmt_money (pf_gross_revenue p) @
     '', Direct Cost=$'' @ fmt_money (pf_direct_cost p) @ '', Loss=$'' @ fmt_money \<bar>pf_gross_profit p\<bar> @
     '' ('' @ frepr (pf_margin_percent p) @ ''%)''"

definition open_loss :: "'a exc_db_scheme \<Rightarrow> string \<Rightarrow> string \<Rightarrow> shipment_exception list" where
  "open_loss db shipment_id tenant_id = filter (\<lambda>e. se_shipment_id e = shipment_id \<and> se_tenant_id e = tenant_id
     \<and> se_exception_type e = ''CARGO_LOSS'' \<and> se_status e \<in> set active_statuses) (dvalues (ex_exceptions db))"

definition profit_json :: "string \<Rightarrow> profitability \<Rightarrow> json" where
  "profit_json shipment_id p = JObj [(''shipment_id'', JStr shipment_id), (''gross_revenue'', JFloat (pf_gross_revenue p)),
     (''direct_cost'', JFloat (pf_direct_cost p)), (''gross_profit'', JFloat (pf_gross_profit p)),
     (''gross_margin_percent'', JFloat (pf_margin_percent p)), (''quoted_revenue'', JFloat (pf_quoted_revenue p)),
     (''actual_revenue'', JFloat (pf_actual_revenue p)), (''quoted_cost'', JFloat (pf_quoted_cost p)),
     (''actual_cost'', JFloat (pf_actual_cost p)), (''currency_code'', JStr (pf_currency_code p))]"

definition margin_exception :: "string \<Rightarrow> datetime \<Rightarrow> string \<Rightarrow> string \<Rightarrow> string option \<Rightarrow> profitability \<Rightarrow> shipment_exception" where
  "margin_exception eid now shipment_id tenant_id actor_id p =
    \<lparr>se_id = eid, se_tenant_id = tenant_id, se_shipment_id = shipment_id, se_exception_type = ''CARGO_LOSS'',
     se_severity = ''CRITICAL'', se_domain = ''OPERATIONAL'', se_status = ''OPEN'', se_description = margin_text shipment_id p,
     se_financial_impact = \<bar>pf_gross_profit p\<bar>, se_owner_id = actor_id, se_opened_at = now, se_acknowledged_at = None,
     se_resolved_at = None, se_resolution_notes = None\<rparr>"

definition sync_negative_margin :: "string \<Rightarrow> datetime \<Rightarrow> string \<Rightarrow> string \<Rightarrow> string option \<Rightarrow> profitability \<Rightarrow>
    'a exc_db_scheme \<Rightarrow> unit res \<times> 'a exc_db_scheme" where
  "sync_negative_margin eid now shipment_id tenant_id actor_id p db =
    (case one_or_none (open_loss db shipment_id tenant_id) of
       Inl err \<Rightarrow> (Inl err, db)
     | Inr existing \<Rightarrow>
        if pf_gross_profit p < 0
        then (case existing of
            Some e \<Rightarrow> (Inr (), put_exception (e\<lparr>se_description := margin_text shipment_id p,
               se_financial_impact := \<bar>pf_gross_profit p\<bar>, se_severity := ''CRITICAL''\<rparr>) db)
          | None \<Rightarrow>
             (let db = put_exception (margin_exception eid now shipment_id tenant_id actor_id p) db
              in (Inr (), db\<lparr>ex_outbox := enqueue ''financial.negative_margin_alert'' tenant_id ''shipment'' shipment_id
                   [(''shipment_id'', JStr shipment_id), (''profitability'', profit_json shipment_id p), (''severity'', JStr ''CRITICAL'')]
                   now (ex_outbox db)\<rparr>)))
        else (case existing of
            Some e \<Rightarrow> (Inr (), put_exception (e\<lparr>se_status := ''RESOLVED'', se_resolved_at := Some now,
               se_resolution_notes := Some ''Shipment returned to positive gross profitability.''\<rparr>) db)
          | None \<Rightarrow> (Inr (), db)))"

section \<open>The ledgers\<close>

record line_request =
  lq_shipment_id :: string
  lq_tenant_id :: string
  lq_actor_id :: "string option"
  lq_charge_code :: string
  lq_amount :: flt
  lq_currency_code :: string
  lq_is_additional :: bool
  lq_description :: "string option"
  lq_quantity :: flt
  lq_unit_rate :: "flt option"
  lq_quotation_line_id :: "string option"
  lq_status :: string

definition unit_rate_of :: "line_request \<Rightarrow> flt" where
  "unit_rate_of q = (case lq_unit_rate q of Some u \<Rightarrow> u
     | None \<Rightarrow> if lq_quantity q \<noteq> 0 then fquot (lq_amount q) (lq_quantity q) else lq_amount q)"

text \<open>The guards both ledgers have, with the statuses of each.\<close>

definition line_guard :: "string \<Rightarrow> string list \<Rightarrow> line_request \<Rightarrow> string res" where
  "line_guard name statuses q =
    (let st = py_upper (py_strip (lq_status q)) in
     if lq_amount q < 0 then Inl (ValidationError (name @ '' amount cannot be negative.''))
     else if py_strip (lq_charge_code q) = [] then Inl (ValidationError ''Charge code is required.'')
     else if st \<notin> set statuses then Inl (ValidationError (''Invalid status '' @ lq_status q))
     else Inr st)"

definition line_audit :: "string \<Rightarrow> line_request \<Rightarrow> 'a revenue_entry_scheme \<Rightarrow> fin_db \<Rightarrow> fin_db" where
  "line_audit entity_type q l db = (case lq_actor_id q of None \<Rightarrow> db
     | Some actor \<Rightarrow> db\<lparr>ex_audit := record_audit
        \<lparr>al_tenant_id = Some (lq_tenant_id q), al_user_id = Some actor, al_branch_id = None, al_entity_type = entity_type,
         al_entity_id = ll_id l, al_action = entity_type @ ''.created'', al_previous_value = None,
         al_new_value = Some [(''shipment_id'', JStr (lq_shipment_id q)), (''charge_code'', case ll_charge_code l of None \<Rightarrow> JNull | Some c \<Rightarrow> JStr c),
           (''amount'', JFloat (ll_amount l)), (''is_additional'', JBool (ll_is_additional l)), (''status'', JStr (ll_status l))],
         al_correlation_id = None, al_ip_address = None, al_user_agent = None\<rparr> (ex_audit db)\<rparr>)"

text \<open>The profit is computed and its exception brought up to date with every line.\<close>

definition update_margin :: "string \<Rightarrow> datetime \<Rightarrow> line_request \<Rightarrow> fin_db \<Rightarrow> unit res \<times> fin_db" where
  "update_margin eid now q db =
    (case get_profitability db (lq_shipment_id q) (lq_tenant_id q) of
       Inl e \<Rightarrow> (Inl e, db)
     | Inr p \<Rightarrow> sync_negative_margin eid now (lq_shipment_id q) (lq_tenant_id q) (lq_actor_id q) p db)"

definition new_line :: "string \<Rightarrow> string \<Rightarrow> line_request \<Rightarrow> revenue_entry" where
  "new_line lid st q = \<lparr>ll_id = lid, ll_shipment_id = lq_shipment_id q, ll_charge_code = Some (py_upper (py_strip (lq_charge_code q))),
     ll_description = lq_description q, ll_quantity = lq_quantity q, ll_unit_rate = Some (unit_rate_of q), ll_amount = lq_amount q,
     ll_currency_code = Some (py_upper (lq_currency_code q)), ll_status = st, ll_is_additional = lq_is_additional q,
     ll_quotation_line_id = lq_quotation_line_id q, ll_created_by = lq_actor_id q\<rparr>"

definition add_revenue_line :: "string \<Rightarrow> string \<Rightarrow> datetime \<Rightarrow> line_request \<Rightarrow> fin_db \<Rightarrow> revenue_entry res \<times> fin_db" where
  "add_revenue_line lid eid now q db =
    (case line_guard ''Revenue'' [''ESTIMATED'', ''QUOTED'', ''INVOICED'', ''PAID''] q of
       Inl e \<Rightarrow> (Inl e, db)
     | Inr st \<Rightarrow>
      (case tenant_shipment db (lq_shipment_id q) (lq_tenant_id q) of
         Inl e \<Rightarrow> (Inl e, db)
       | Inr _ \<Rightarrow>
          if truthy (lq_quotation_line_id q) \<and> the (lq_quotation_line_id q) \<notin> set (fd_quotation_lines db)
          then (Inl (NotFoundError (''Referenced quotation line '' @ the (lq_quotation_line_id q) @ '' not found.'')), db)
          else
           (let l = new_line lid st q; db = db\<lparr>fd_revenue := fd_revenue db @ [l]\<rparr>; db = line_audit ''revenue_line'' q l db
            in case update_margin eid now q db of
                 (Inl e, db) \<Rightarrow> (Inl e, db)
               | (Inr _, db) \<Rightarrow> (Inr l, db))))"

definition add_cost_line :: "string \<Rightarrow> string \<Rightarrow> datetime \<Rightarrow> string option \<Rightarrow> string option \<Rightarrow> line_request \<Rightarrow> fin_db \<Rightarrow>
    cost_entry res \<times> fin_db" where
  "add_cost_line lid eid now vendor_id carrier_id q db =
    (case line_guard ''Cost'' [''ESTIMATED'', ''ACCRUED'', ''BILLED'', ''VERIFIED'', ''APPROVED'', ''PAID''] q of
       Inl e \<Rightarrow> (Inl e, db)
     | Inr st \<Rightarrow>
      (case tenant_shipment db (lq_shipment_id q) (lq_tenant_id q) of
         Inl e \<Rightarrow> (Inl e, db)
       | Inr _ \<Rightarrow>
          if truthy vendor_id \<and> (the vendor_id, lq_tenant_id q) \<notin> set (fd_vendors db)
          then (Inl (NotFoundError (''Vendor '' @ the vendor_id @ '' not found or does not belong to tenant.'')), db)
          else if truthy carrier_id \<and> the carrier_id \<notin> set (fd_carriers db)
          then (Inl (NotFoundError (''Carrier '' @ the carrier_id @ '' not found.'')), db)
          else
           (let l = revenue_entry.extend (new_line lid st q) \<lparr>ce_vendor_id = vendor_id, ce_carrier_id = carrier_id\<rparr>;
                db = db\<lparr>fd_costs := fd_costs db @ [l]\<rparr>; db = line_audit ''cost_line'' q l db
            in case update_margin eid now q db of
                 (Inl e, db) \<Rightarrow> (Inl e, db)
               | (Inr _, db) \<Rightarrow> (Inr l, db))))"

definition get_revenue_ledger :: "fin_db \<Rightarrow> string \<Rightarrow> string \<Rightarrow> revenue_entry list res" where
  "get_revenue_ledger db shipment_id tenant_id =
    res_map (\<lambda>_. revenue_of db shipment_id) (tenant_shipment db shipment_id tenant_id)"

definition get_cost_ledger :: "fin_db \<Rightarrow> string \<Rightarrow> string \<Rightarrow> cost_entry list res" where
  "get_cost_ledger db shipment_id tenant_id =
    res_map (\<lambda>_. costs_of db shipment_id) (tenant_shipment db shipment_id tenant_id)"

section \<open>Corrections\<close>

record correction =
  cq_entry_id :: string
  cq_tenant_id :: string
  cq_actor_id :: string
  cq_reason :: string
  cq_new_debit :: flt
  cq_new_credit :: flt
  cq_new_description :: "string option"
  cq_approved_by :: "string option"

definition approver :: "correction \<Rightarrow> string option" where
  "approver q = Some (if truthy (cq_approved_by q) then the (cq_approved_by q) else cq_actor_id q)"

definition reversal_of :: "string \<Rightarrow> date \<Rightarrow> correction \<Rightarrow> ledger_entry \<Rightarrow> ledger_entry" where
  "reversal_of rid today q e = e\<lparr>fe_id := rid, fe_tenant_id := cq_tenant_id q, fe_entry_date := today,
     fe_entry_type := ''REVERSAL_'' @ fe_entry_type e, fe_debit_amount := fe_credit_amount e, fe_credit_amount := fe_debit_amount e,
     fe_description := Some (''Reversal of Entry '' @ fe_id e @ '': '' @ cq_reason q), fe_reversal_of_id := Some (fe_id e),
     fe_reversal_reason := Some (cq_reason q), fe_approved_by := approver q, fe_status := ''REVERSAL''\<rparr>"

definition corrected_of :: "string \<Rightarrow> string \<Rightarrow> date \<Rightarrow> correction \<Rightarrow> ledger_entry \<Rightarrow> ledger_entry" where
  "corrected_of cid rid today q e = e\<lparr>fe_id := cid, fe_tenant_id := cq_tenant_id q, fe_entry_date := today,
     fe_debit_amount := cq_new_debit q, fe_credit_amount := cq_new_credit q,
     fe_description := (if truthy (cq_new_description q) then cq_new_description q else fe_description e),
     fe_reversal_of_id := Some rid, fe_reversal_reason := None, fe_approved_by := approver q, fe_status := ''POSTED''\<rparr>"

definition correction_audit :: "string \<Rightarrow> string \<Rightarrow> correction \<Rightarrow> ledger_entry \<Rightarrow> audit_log" where
  "correction_audit rid cid q e = \<lparr>al_tenant_id = Some (cq_tenant_id q), al_user_id = Some (cq_actor_id q), al_branch_id = None,
     al_entity_type = ''financial_entry'', al_entity_id = fe_id e, al_action = ''financial_entry.reversed_and_corrected'',
     al_previous_value = Some [(''debit'', JFloat (fe_debit_amount e)), (''credit'', JFloat (fe_credit_amount e)), (''status'', JStr ''POSTED'')],
     al_new_value = Some [(''reversal_id'', JStr rid), (''corrected_id'', JStr cid), (''new_debit'', JFloat (cq_new_debit q)),
       (''new_credit'', JFloat (cq_new_credit q)), (''reason'', JStr (cq_reason q))],
     al_correlation_id = None, al_ip_address = None, al_user_agent = None\<rparr>"

text \<open>The result names the entry, its reversal and its correction.\<close>

definition reverse_and_correct_entry :: "string \<Rightarrow> string \<Rightarrow> date \<Rightarrow> correction \<Rightarrow> fin_db \<Rightarrow> (string \<times> string \<times> string) res \<times> fin_db" where
  "reverse_and_correct_entry rid cid today q db =
    (if length (py_strip (cq_reason q)) < 3
     then (Inl (ValidationError ''Reversal reason is required (minimum 3 characters).''), db)
     else if cq_new_debit q < 0 \<or> cq_new_credit q < 0 then (Inl (ValidationError ''Financial amounts cannot be negative.''), db)
     else case dget (fd_entries db) (cq_entry_id q) of
       None \<Rightarrow> (Inl (NotFoundError (''Financial entry '' @ cq_entry_id q @ '' not found.'')), db)
     | Some e \<Rightarrow>
       if fe_tenant_id e \<noteq> cq_tenant_id q then (Inl (NotFoundError (''Financial entry '' @ cq_entry_id q @ '' not found.'')), db)
       else if fe_status e \<noteq> ''POSTED''
       then (Inl (ValidationError (''Cannot reverse financial entry in status '' @ fe_status e)), db)
       else
        (let o' = e\<lparr>fe_status := ''REVERSED'', fe_reversal_reason := Some (cq_reason q)\<rparr>;
             entries = dset cid (corrected_of cid rid today q e) (dset rid (reversal_of rid today q e) (dset (fe_id e) o' (fd_entries db)))
         in (Inr (fe_id e, rid, cid), db\<lparr>fd_entries := entries,
               ex_audit := record_audit (correction_audit rid cid q e) (ex_audit db)\<rparr>)))"

end
