(* ===== verification/Integrity.thy ===== *)
theory Integrity
  imports Financial
begin

text \<open>
  Contracted rates against what is billed and settled: \<open>app/modules/commercial/financial/service.py\<close>. Its
  tables extend those of the financial profile, whose ledgers a settlement posts to. Rows without an
  order are read in the order of their table; an identity is the canonical text of its UUID.
\<close>

section \<open>Identities\<close>

definition is_hex :: "char \<Rightarrow> bool" where
  "is_hex c \<longleftrightarrow> (let n = of_char c :: nat in 48 \<le> n \<and> n \<le> 57 \<or> 65 \<le> n \<and> n \<le> 70 \<or> 97 \<le> n \<and> n \<le> 102)"

definition strip_braces :: "string \<Rightarrow> string" where
  "strip_braces s = (let b = (\<lambda>c. c \<in> {CHR ''{'', CHR ''}''}) in rev (dropWhile b (rev (dropWhile b s))))"

text \<open>\<open>uuid.UUID(str(val))\<close> for hexadecimal digits, and its canonical text.\<close>

definition parse_uuid :: "string option \<Rightarrow> string option" where
  "parse_uuid v = (if \<not> truthy v then None
     else (let h = py_delete ''-'' (strip_braces (py_delete ''uuid:'' (py_delete ''urn:'' (the v))))
           in if length h = 32 \<and> list_all is_hex h
              then (let h = py_lower h in Some (take 8 h @ ''-'' @ take 4 (drop 8 h) @ ''-'' @ take 4 (drop 12 h) @ ''-'' @
                take 4 (drop 16 h) @ ''-'' @ drop 20 h))
              else None))"

section \<open>Tables\<close>

record contract_rate =
  kr_id :: string
  kr_tenant_id :: string
  kr_rate_number :: string
  kr_rate_type :: string
  kr_rate_category :: string
  kr_vendor_id :: "string option"
  kr_origin_id :: "string option"
  kr_destination_id :: "string option"
  kr_effective_date :: date
  kr_expiry_date :: date
  kr_currency_code :: string
  kr_status :: string

record contract_version =
  kv_id :: string
  kv_rate_id :: string
  kv_number :: int
  kv_approval_status :: string

record contract_line =
  kl_version_id :: string
  kl_charge_code :: string
  kl_amount :: flt

record agent_row =
  ag_id :: string
  ag_tenant_id :: string
  ag_vendor_id :: "string option"

record agent_agreement =
  aa_id :: string
  aa_agent_id :: string
  aa_rate_id :: string
  aa_effective_date :: date
  aa_expiry_date :: date

record market_rate =
  mk_id :: string
  mk_tenant_id :: string
  mk_origin_id :: string
  mk_destination_id :: string
  mk_mode :: string
  mk_rate_type :: string
  mk_amount :: flt
  mk_currency_code :: string
  mk_effective_date :: date
  mk_expiry_date :: "date option"
  mk_source :: string
  mk_notes :: "string option"

record bill_discrepancy =
  bd_id :: string
  bd_tenant_id :: string
  bd_shipment_id :: "string option"
  bd_vendor_id :: "string option"
  bd_rate_id :: "string option"
  bd_version_id :: "string option"
  bd_shipment_reference :: "string option"
  bd_invoice_reference :: "string option"
  bd_charge_code :: "string option"
  bd_contracted_amount :: "flt option"
  bd_invoiced_amount :: flt
  bd_variance_amount :: flt
  bd_currency_code :: string
  bd_effective_date :: "date option"
  bd_expiry_date :: "date option"
  bd_was_expired :: bool
  bd_invoice_date :: date
  bd_status :: string
  bd_detected_at :: datetime

record agent_settlement =
  as_id :: string
  as_tenant_id :: string
  as_agent_id :: string
  as_shipment_id :: "string option"
  as_agreement_id :: "string option"
  as_version_id :: "string option"
  as_cost_entry_id :: string
  as_base_amount :: flt
  as_rate_applied :: flt
  as_settlement_amount :: flt
  as_currency_code :: string
  as_settlement_date :: date
  as_effective_date :: "date option"
  as_expiry_date :: "date option"
  as_calculated_at :: datetime
  as_calculated_by :: "string option"
  as_status :: string
  as_notes :: "string option"

record integ_db = fin_db +
  ig_rates :: "contract_rate list"
  ig_versions :: "contract_version list"
  ig_lines :: "contract_line list"
  ig_agents :: "agent_row list"
  ig_agreements :: "agent_agreement list"
  ig_market :: "market_rate list"
  ig_discrepancies :: "bill_discrepancy list"
  ig_settlements :: "agent_settlement list"

section \<open>The contracted rate\<close>

text \<open>\<open>LIKE\<close> with its wildcards and its escape.\<close>

fun sql_like :: "string \<Rightarrow> string \<Rightarrow> bool" where
  "sql_like [] s = (s = [])"
| "sql_like (d # p) s =
    (if d = CHR ''%'' then sql_like p s \<or> (case s of [] \<Rightarrow> False | c # t \<Rightarrow> sql_like (d # p) t)
     else case s of [] \<Rightarrow> False
       | c # t \<Rightarrow> if d = CHR ''_'' then sql_like p t
         else if d = CHR 0x5C then (case p of [] \<Rightarrow> False | e # p' \<Rightarrow> e = c \<and> sql_like p' t)
         else d = c \<and> sql_like p t)"

definition ilike_mode :: "string \<Rightarrow> string \<Rightarrow> bool" where
  "ilike_mode m rate_type = sql_like (''%'' @ py_lower m @ ''%'') (py_lower rate_type)"

definition given :: "string option \<Rightarrow> string option \<Rightarrow> bool" where
  "given wanted column \<longleftrightarrow> (wanted \<noteq> None \<longrightarrow> column = wanted)"

definition candidate_rates :: "'a integ_db_scheme \<Rightarrow> string \<Rightarrow> date \<Rightarrow> string list \<Rightarrow> string option \<Rightarrow> string option \<Rightarrow>
    string option \<Rightarrow> string option \<Rightarrow> contract_rate list" where
  "candidate_rates db tenant_id on_date statuses vendor_id origin_id destination_id m =
    filter (\<lambda>r. kr_tenant_id r = tenant_id \<and> kr_effective_date r \<le> on_date \<and> on_date \<le> kr_expiry_date r
       \<and> kr_status r \<in> set statuses \<and> given vendor_id (kr_vendor_id r) \<and> given origin_id (kr_origin_id r)
       \<and> given destination_id (kr_destination_id r) \<and> (truthy m \<longrightarrow> ilike_mode (the m) (kr_rate_type r))) (ig_rates db)"

text \<open>The approved version of highest number.\<close>

definition latest_version :: "'a integ_db_scheme \<Rightarrow> string \<Rightarrow> contract_version option" where
  "latest_version db rate_id =
    (case sort_key (\<lambda>v. - kv_number v) (filter (\<lambda>v. kv_rate_id v = rate_id \<and> kv_approval_status v = ''APPROVED'') (ig_versions db)) of
       [] \<Rightarrow> None | v # _ \<Rightarrow> Some v)"

definition version_lines :: "'a integ_db_scheme \<Rightarrow> string \<Rightarrow> contract_line list" where
  "version_lines db version_id = filter (\<lambda>l. kl_version_id l = version_id) (ig_lines db)"

fun first_versioned :: "'a integ_db_scheme \<Rightarrow> string option \<Rightarrow> contract_rate list \<Rightarrow>
    (contract_rate \<times> contract_version \<times> contract_line option) option res" where
  "first_versioned db charge_code [] = Inr None"
| "first_versioned db charge_code (r # rates) =
    (case latest_version db (kr_id r) of
       None \<Rightarrow> first_versioned db charge_code rates
     | Some v \<Rightarrow>
        if truthy charge_code
        then res_map (\<lambda>line. Some (r, v, line)) (one_or_none (filter (\<lambda>l. kl_charge_code l = the charge_code) (version_lines db (kv_id v))))
        else Inr (Some (r, v, None)))"

section \<open>Matching a bill\<close>

record match_request =
  mq_tenant_id :: string
  mq_vendor_id :: "string option"
  mq_shipment_id :: "string option"
  mq_shipment_reference :: "string option"
  mq_invoice_reference :: "string option"
  mq_charge_code :: "string option"
  mq_invoiced_amount :: flt
  mq_currency_code :: string
  mq_invoice_date :: date
  mq_origin_id :: "string option"
  mq_destination_id :: "string option"
  mq_mode :: "string option"

record match_result =
  mr_matched :: bool
  mr_rate_id :: "string option"
  mr_version_id :: "string option"
  mr_contracted_amount :: "flt option"
  mr_invoiced_amount :: flt
  mr_variance :: flt
  mr_currency_code :: string
  mr_was_expired :: bool
  mr_discrepancy_id :: "string option"
  mr_status :: string

definition find_contracted :: "match_request \<Rightarrow> 'a integ_db_scheme \<Rightarrow>
    (contract_rate \<times> contract_version \<times> contract_line option) option res" where
  "find_contracted q db = first_versioned db (mq_charge_code q)
     (candidate_rates db (mq_tenant_id q) (mq_invoice_date q) [''APPROVED'', ''ACTIVE''] (parse_uuid (mq_vendor_id q))
       (parse_uuid (mq_origin_id q)) (parse_uuid (mq_destination_id q)) (mq_mode q))"

definition discrepancy_of :: "string \<Rightarrow> datetime \<Rightarrow> match_request \<Rightarrow> contract_rate option \<Rightarrow> contract_version option \<Rightarrow> flt option \<Rightarrow>
    flt \<Rightarrow> bool \<Rightarrow> bill_discrepancy" where
  "discrepancy_of did now q rate version contracted variance was_expired =
    \<lparr>bd_id = did, bd_tenant_id = mq_tenant_id q, bd_shipment_id = parse_uuid (mq_shipment_id q),
     bd_vendor_id = parse_uuid (mq_vendor_id q), bd_rate_id = map_option kr_id rate, bd_version_id = map_option kv_id version,
     bd_shipment_reference = mq_shipment_reference q, bd_invoice_reference = mq_invoice_reference q,
     bd_charge_code = mq_charge_code q, bd_contracted_amount = contracted, bd_invoiced_amount = mq_invoiced_amount q,
     bd_variance_amount = variance, bd_currency_code = mq_currency_code q,
     bd_effective_date = map_option kr_effective_date rate, bd_expiry_date = map_option kr_expiry_date rate,
     bd_was_expired = was_expired, bd_invoice_date = mq_invoice_date q, bd_status = ''OPEN'', bd_detected_at = now\<rparr>"

definition bill_variance :: "match_request \<Rightarrow> flt option \<Rightarrow> flt" where
  "bill_variance q contracted = (case contracted of Some c \<Rightarrow> py_round 4 (fsub (mq_invoiced_amount q) c) | None \<Rightarrow> mq_invoiced_amount q)"

definition match_vendor_bill :: "string \<Rightarrow> datetime \<Rightarrow> match_request \<Rightarrow> 'a integ_db_scheme \<Rightarrow> match_result res \<times> 'a integ_db_scheme" where
  "match_vendor_bill did now q db =
    (case find_contracted q db of
       Inl e \<Rightarrow> (Inl e, db)
     | Inr best \<Rightarrow>
        (let rate = map_option fst best; version = map_option (fst \<circ> snd) best;
             contracted = Option.bind best (\<lambda>b. map_option kl_amount (snd (snd b)));
             was_expired = (case rate of None \<Rightarrow> False | Some r \<Rightarrow> kr_expiry_date r < mq_invoice_date q);
             variance = bill_variance q contracted;
             matched = (contracted \<noteq> None \<and> \<bar>variance\<bar> < flit (1 / 10000) \<and> \<not> was_expired);
             needed = (\<not> matched \<or> rate = None \<or> was_expired)
         in (Inr \<lparr>mr_matched = matched, mr_rate_id = map_option kr_id rate, mr_version_id = map_option kv_id version,
                  mr_contracted_amount = contracted, mr_invoiced_amount = mq_invoiced_amount q, mr_variance = variance,
                  mr_currency_code = mq_currency_code q, mr_was_expired = was_expired,
                  mr_discrepancy_id = (if needed then Some did else None), mr_status = (if needed then ''OPEN'' else ''MATCHED'')\<rparr>,
             if needed then db\<lparr>ig_discrepancies := ig_discrepancies db @ [discrepancy_of did now q rate version contracted variance was_expired]\<rparr>
             else db)))"

definition get_discrepancy :: "'a integ_db_scheme \<Rightarrow> string \<Rightarrow> string \<Rightarrow> bill_discrepancy res" where
  "get_discrepancy db discrepancy_id tenant_id =
    (case List.find (\<lambda>d. Some (bd_id d) = parse_uuid (Some discrepancy_id) \<and> bd_tenant_id d = tenant_id) (ig_discrepancies db) of
       None \<Rightarrow> Inl (NotFoundError (''Discrepancy '' @ discrepancy_id @ '' not found'')) | Some d \<Rightarrow> Inr d)"

definition list_discrepancies :: "'a integ_db_scheme \<Rightarrow> string \<Rightarrow> string option \<Rightarrow> string option \<Rightarrow> nat \<Rightarrow> bill_discrepancy list" where
  "list_discrepancies db tenant_id status vendor_id maximum =
    take maximum (sort_key (\<lambda>d. - bd_detected_at d) (filter (\<lambda>d. bd_tenant_id d = tenant_id \<and> (truthy status \<longrightarrow> bd_status d = the status)
       \<and> given (parse_uuid vendor_id) (bd_vendor_id d)) (ig_discrepancies db)))"

section \<open>Settling an agent\<close>

record settlement_request =
  sq_tenant_id :: string
  sq_agent_id :: string
  sq_shipment_id :: "string option"
  sq_base_amount :: flt
  sq_currency_code :: string
  sq_settlement_date :: date
  sq_calculated_by :: "string option"
  sq_notes :: "string option"

text \<open>The agreement in force on the day that took effect last, and the amount of the first line of the
  latest approved version of its rate.\<close>

definition active_agreement :: "'a integ_db_scheme \<Rightarrow> string \<Rightarrow> date \<Rightarrow> agent_agreement option" where
  "active_agreement db agent_id day =
    (case sort_key (\<lambda>a. - aa_effective_date a) (filter (\<lambda>a. aa_rate_id a \<in> kr_id ` set (ig_rates db) \<and> aa_agent_id a = agent_id
        \<and> aa_effective_date a \<le> day \<and> day \<le> aa_expiry_date a) (ig_agreements db)) of
       [] \<Rightarrow> None | a # _ \<Rightarrow> Some a)"

definition first_amount :: "'a integ_db_scheme \<Rightarrow> string \<Rightarrow> flt option" where
  "first_amount db version_id = (case version_lines db version_id of [] \<Rightarrow> None | l # _ \<Rightarrow> Some (kl_amount l))"

definition settlement_text :: "string \<Rightarrow> string option \<Rightarrow> string option \<Rightarrow> string" where
  "settlement_text agent_id agreement_id version_id = ''Agent settlement for agent '' @ agent_id @ '' on agreement '' @
     (case agreement_id of None \<Rightarrow> ''NONE'' | Some i \<Rightarrow> i) @ '' using rate version '' @ (case version_id of None \<Rightarrow> ''NONE'' | Some i \<Rightarrow> i)"

definition settlement_entry :: "string \<Rightarrow> settlement_request \<Rightarrow> string \<Rightarrow> flt \<Rightarrow> ledger_entry" where
  "settlement_entry eid q text amount = \<lparr>fe_id = eid, fe_tenant_id = sq_tenant_id q, fe_shipment_id = parse_uuid (sq_shipment_id q),
     fe_entry_date = sq_settlement_date q, fe_entry_type = ''AGENT_SETTLEMENT'', fe_debit_amount = amount, fe_credit_amount = 0,
     fe_currency_code = sq_currency_code q, fe_description = Some text, fe_approved_by = None, fe_status = ''POSTED'',
     fe_reversal_of_id = None, fe_reversal_reason = None, fe_revenue_line_id = None, fe_cost_line_id = None\<rparr>"

text \<open>The cost line takes the defaults of its table for what is not given.\<close>

definition settlement_cost :: "string \<Rightarrow> string \<Rightarrow> string \<Rightarrow> flt \<Rightarrow> cost_entry" where
  "settlement_cost lid shipment_id vendor_id amount = \<lparr>ll_id = lid, ll_shipment_id = shipment_id, ll_charge_code = None,
     ll_description = None, ll_quantity = 1, ll_unit_rate = None, ll_amount = amount, ll_currency_code = Some ''USD'',
     ll_status = ''ESTIMATED'', ll_is_additional = False, ll_quotation_line_id = None, ll_created_by = None,
     ce_vendor_id = Some vendor_id, ce_carrier_id = None\<rparr>"

definition calculate_agent_settlement :: "string \<Rightarrow> string \<Rightarrow> string \<Rightarrow> datetime \<Rightarrow> settlement_request \<Rightarrow> 'a integ_db_scheme \<Rightarrow>
    agent_settlement res \<times> 'a integ_db_scheme" where
  "calculate_agent_settlement sid eid lid now q db =
    (case parse_uuid (Some (sq_agent_id q)) of
       None \<Rightarrow> (Inl (ValidationError (''Invalid agent_id: '' @ sq_agent_id q)), db)
     | Some agent_id \<Rightarrow>
      (case List.find (\<lambda>a. ag_id a = agent_id \<and> ag_tenant_id a = sq_tenant_id q) (ig_agents db) of
         None \<Rightarrow> (Inl (NotFoundError (''Agent '' @ sq_agent_id q @ '' not found'')), db)
       | Some agent \<Rightarrow>
          (let agreement = active_agreement db agent_id (sq_settlement_date q);
               version = Option.bind agreement (\<lambda>a. latest_version db (aa_rate_id a));
               rate_applied = (case Option.bind version (\<lambda>v. first_amount db (kv_id v)) of None \<Rightarrow> 0 | Some x \<Rightarrow> x);
               amount = py_round 4 (fmul (sq_base_amount q) rate_applied);
               shipment = parse_uuid (sq_shipment_id q);
               text = settlement_text agent_id (map_option aa_id agreement) (map_option kv_id version);
               db = db\<lparr>fd_entries := dset eid (settlement_entry eid q text amount) (fd_entries db)\<rparr>;
               db = (case (shipment, ag_vendor_id agent) of
                  (Some s, Some v) \<Rightarrow> db\<lparr>fd_costs := fd_costs db @ [settlement_cost lid s v amount]\<rparr> | _ \<Rightarrow> db);
               r = \<lparr>as_id = sid, as_tenant_id = sq_tenant_id q, as_agent_id = agent_id, as_shipment_id = shipment,
                    as_agreement_id = map_option aa_id agreement, as_version_id = map_option kv_id version, as_cost_entry_id = eid,
                    as_base_amount = sq_base_amount q, as_rate_applied = rate_applied, as_settlement_amount = amount,
                    as_currency_code = sq_currency_code q, as_settlement_date = sq_settlement_date q,
                    as_effective_date = map_option aa_effective_date agreement, as_expiry_date = map_option aa_expiry_date agreement,
                    as_calculated_at = now, as_calculated_by = sq_calculated_by q, as_status = ''DRAFT'', as_notes = sq_notes q\<rparr>
           in (Inr r, db\<lparr>ig_settlements := ig_settlements db @ [r]\<rparr>))))"

definition get_settlement :: "'a integ_db_scheme \<Rightarrow> string \<Rightarrow> string \<Rightarrow> agent_settlement res" where
  "get_settlement db settlement_id tenant_id =
    (case List.find (\<lambda>r. Some (as_id r) = parse_uuid (Some settlement_id) \<and> as_tenant_id r = tenant_id) (ig_settlements db) of
       None \<Rightarrow> Inl (NotFoundError (''Settlement '' @ settlement_id @ '' not found'')) | Some r \<Rightarrow> Inr r)"

section \<open>The quarterly review\<close>

record review_entry =
  re_rate :: contract_rate
  re_contracted_amount :: "flt option"
  re_market_amount :: "flt option"
  re_variance :: "flt option"
  re_variance_pct :: "flt option"
  re_competitiveness :: string
  re_days_to_expiry :: int
  re_expiring_soon :: bool
  re_needs_review :: bool
  re_version_id :: "string option"

record review_report =
  rr_as_of_date :: date
  rr_total :: nat
  rr_competitive :: nat
  rr_above_market :: nat
  rr_below_market :: nat
  rr_unavailable :: nat
  rr_expiring_soon :: nat
  rr_needs_review :: nat
  rr_entries :: "review_entry list"

text \<open>The market rate of a lane in force today that took effect last; a rate without both ends has no lane.\<close>

definition market_amount :: "'a integ_db_scheme \<Rightarrow> string \<Rightarrow> date \<Rightarrow> contract_rate \<Rightarrow> flt option" where
  "market_amount db tenant_id today r =
    (if kr_origin_id r = None \<or> kr_destination_id r = None then None
     else case sort_key (\<lambda>m. - mk_effective_date m) (filter (\<lambda>m. mk_tenant_id m = tenant_id \<and> Some (mk_origin_id m) = kr_origin_id r
          \<and> Some (mk_destination_id m) = kr_destination_id r \<and> mk_rate_type m = kr_rate_type r \<and> mk_effective_date m \<le> today
          \<and> (case mk_expiry_date m of None \<Rightarrow> True | Some d \<Rightarrow> today \<le> d)) (ig_market db)) of
        [] \<Rightarrow> None | m # _ \<Rightarrow> Some (mk_amount m))"

definition competitiveness :: "flt \<Rightarrow> flt \<Rightarrow> flt \<Rightarrow> string" where
  "competitiveness contracted market variance =
    (if \<bar>variance\<bar> < fmul (flit (1 / 100)) market then ''COMPETITIVE''
     else if contracted < market then ''BELOW_MARKET'' else ''ABOVE_MARKET'')"

definition review_entry_for :: "'a integ_db_scheme \<Rightarrow> string \<Rightarrow> date \<Rightarrow> date \<Rightarrow> contract_rate \<Rightarrow> review_entry" where
  "review_entry_for db tenant_id today horizon r =
    (let version = latest_version db (kr_id r); contracted = Option.bind version (\<lambda>v. first_amount db (kv_id v));
         market = market_amount db tenant_id today r;
         variance = (case (contracted, market) of (Some c, Some m) \<Rightarrow> Some (py_round 4 (fsub c m)) | _ \<Rightarrow> None);
         pct = (case (variance, market) of (Some v, Some m) \<Rightarrow> if m \<noteq> 0 then Some (py_round 2 (fmul (fquot v m) 100)) else None | _ \<Rightarrow> None);
         comp = (case (contracted, market, variance) of (Some c, Some m, Some v) \<Rightarrow> competitiveness c m v | _ \<Rightarrow> ''UNKNOWN'');
         expiring = (kr_expiry_date r \<le> horizon)
     in \<lparr>re_rate = r, re_contracted_amount = contracted, re_market_amount = market, re_variance = variance, re_variance_pct = pct,
         re_competitiveness = comp, re_days_to_expiry = kr_expiry_date r - today, re_expiring_soon = expiring,
         re_needs_review = (expiring \<or> comp = ''ABOVE_MARKET''), re_version_id = map_option kv_id version\<rparr>)"

definition count_if :: "('e \<Rightarrow> bool) \<Rightarrow> 'e list \<Rightarrow> nat" where
  "count_if P xs = length (filter P xs)"

definition review_of :: "date \<Rightarrow> review_entry list \<Rightarrow> review_report" where
  "review_of today entries = \<lparr>rr_as_of_date = today, rr_total = length entries,
     rr_competitive = count_if (\<lambda>e. re_competitiveness e = ''COMPETITIVE'') entries,
     rr_above_market = count_if (\<lambda>e. re_competitiveness e = ''ABOVE_MARKET'') entries,
     rr_below_market = count_if (\<lambda>e. re_competitiveness e = ''BELOW_MARKET'') entries,
     rr_unavailable = count_if (\<lambda>e. re_competitiveness e = ''UNKNOWN'') entries,
     rr_expiring_soon = count_if re_expiring_soon entries, rr_needs_review = count_if re_needs_review entries,
     rr_entries = entries\<rparr>"

text \<open>Every rate of the report is valid today, so it is among the expiring ones exactly when it ends by the horizon.\<close>

definition quarterly_rate_review :: "date \<Rightarrow> string \<Rightarrow> date option \<Rightarrow> string option \<Rightarrow> string option \<Rightarrow> string option \<Rightarrow> int \<Rightarrow>
    'a integ_db_scheme \<Rightarrow> review_report res" where
  "quarterly_rate_review clock tenant_id as_of m origin_id destination_id warning_days db =
    (let today = (case as_of of None \<Rightarrow> clock | Some d \<Rightarrow> d); horizon = today + warning_days;
         rates = candidate_rates db tenant_id today [''APPROVED'', ''ACTIVE'', ''DRAFT''] None (parse_uuid origin_id) (parse_uuid destination_id) m
     in if horizon < 1 \<or> max_ordinal < horizon then Inl (ValueError ''year is out of range'')
        else Inr (review_of today (map (review_entry_for db tenant_id today horizon) rates)))"

section \<open>Market rates\<close>

record market_request =
  xm_origin_id :: "string option"
  xm_destination_id :: "string option"
  xm_mode :: string
  xm_rate_type :: string
  xm_amount :: flt
  xm_currency_code :: string
  xm_effective_date :: date
  xm_expiry_date :: "date option"
  xm_source :: string
  xm_notes :: "string option"

definition create_market_rate :: "string \<Rightarrow> string \<Rightarrow> market_request \<Rightarrow> 'a integ_db_scheme \<Rightarrow> market_rate res \<times> 'a integ_db_scheme" where
  "create_market_rate mid tenant_id q db =
    (case (parse_uuid (xm_origin_id q), parse_uuid (xm_destination_id q)) of
       (Some origin, Some dest) \<Rightarrow>
        (let m = \<lparr>mk_id = mid, mk_tenant_id = tenant_id, mk_origin_id = origin, mk_destination_id = dest, mk_mode = xm_mode q,
               mk_rate_type = xm_rate_type q, mk_amount = xm_amount q, mk_currency_code = xm_currency_code q,
               mk_effective_date = xm_effective_date q, mk_expiry_date = xm_expiry_date q, mk_source = xm_source q, mk_notes = xm_notes q\<rparr>
         in (Inr m, db\<lparr>ig_market := ig_market db @ [m]\<rparr>))
     | _ \<Rightarrow> (Inl (ValidationError ''origin_location_id and destination_location_id are required UUIDs''), db))"

end
