(* ===== verification/Eta_Life.thy ===== *)
theory Eta_Life
  imports Eta Invoicing_Life
begin

text \<open>
  What the versions of estimated times guarantee: the rescheduling of the legs after a delay, the numbering of
  the history and its agreement with the legs, and the alerts.
\<close>


section \<open>What a new version does to the legs\<close>

text \<open>The legs downstream of an arrival, as they must be rescheduled.\<close>

fun shifted :: "int \<Rightarrow> ship_leg list \<Rightarrow> datetime \<Rightarrow> ship_leg list" where
  "shifted m [] a = []"
| "shifted m (l # ls) a =
    l\<lparr>sl_etd := Some (new_departure l (a + m)), sl_eta := Some (new_departure l (a + m) + transit_duration l)\<rparr>
      # shifted m ls (new_departure l (a + m) + transit_duration l)"

lemma set_time_simps [simp]:
  "sl_id (set_time ty t l) = sl_id l" "sl_shipment_id (set_time ty t l) = sl_shipment_id l"
  by (simp_all add: set_time_def)

lemma add_version_simps [simp]:
  "et_history (add_version rid s leg ty t src r by now db) = et_history db @ [\<lparr>eh_id = rid, eh_shipment_id = s, eh_leg_id = leg,
     eh_type = ty, eh_version = next_version (et_history db) leg ty, eh_value = t, eh_source = src, eh_reason = r,
     eh_recorded_by = by, eh_recorded_at = now\<rparr>]"
  by (simp add: add_version_def Let_def put_leg_def split: option.splits)

lemma add_version_legs:
  "store_inv sl_id (et_legs db) \<Longrightarrow> et_legs (add_version rid s leg ty t src r by now db) =
    (case dget (et_legs db) leg of None \<Rightarrow> et_legs db | Some l \<Rightarrow> dset leg (set_time ty t l) (et_legs db))"
  by (auto simp: add_version_def Let_def put_leg_def dest: store_find_key split: option.splits)

lemma add_version_dget:
  "store_inv sl_id (et_legs db) \<Longrightarrow> dget (et_legs (add_version rid s leg ty t src r by now db)) k =
    (if k = leg then map_option (set_time ty t) (dget (et_legs db) leg) else dget (et_legs db) k)"
  by (simp add: add_version_legs dget_dset split: option.splits)

lemma dset_keys: "dget d k \<noteq> None \<Longrightarrow> dkeys (dset k v d) = dkeys d"
  by (induction d) auto

lemma add_version_keys:
  "store_inv sl_id (et_legs db) \<Longrightarrow> dkeys (et_legs (add_version rid s leg ty t src r by now db)) = dkeys (et_legs db)"
  by (simp add: add_version_legs dset_keys split: option.splits)

lemma add_version_store:
  "store_inv sl_id (et_legs db) \<Longrightarrow> store_inv sl_id (et_legs (add_version rid s leg ty t src r by now db))"
proof (cases "dget (et_legs db) leg")
  case (Some l)
  assume h: "store_inv sl_id (et_legs db)"
  have "sl_id (set_time ty t l) = leg" using store_find_key [OF h Some] by simp
  with store_inv_dset [OF h, of "set_time ty t l"] Some h show ?thesis by (simp add: add_version_legs)
qed (simp add: add_version_legs)

lemma add_version_shipment:
  "store_inv sl_id (et_legs db) \<Longrightarrow>
    map_option sl_shipment_id (dget (et_legs (add_version rid s leg ty t src r by now db)) x) = map_option sl_shipment_id (dget (et_legs db) x)"
  by (simp add: add_version_dget option.map_comp comp_def)

lemma apply_cascade_store:
  "store_inv sl_id (et_legs db) \<Longrightarrow> apply_cascade uid k q now cs db = (outs, db') \<Longrightarrow>
    store_inv sl_id (et_legs db') \<and> dkeys (et_legs db') = dkeys (et_legs db)
      \<and> (\<forall>x. map_option sl_shipment_id (dget (et_legs db') x) = map_option sl_shipment_id (dget (et_legs db) x))"
proof (induction uid k q now cs db arbitrary: outs db' rule: apply_cascade.induct)
  case (2 uid k q now c cs db)
  then show ?case by (auto simp: Let_def add_version_store add_version_keys add_version_shipment split: prod.splits)
qed simp

lemma apply_cascade_grows:
  "apply_cascade uid k q now cs db = (outs, db') \<Longrightarrow> \<exists>rows. et_history db' = et_history db @ rows"
proof (induction uid k q now cs db arbitrary: outs db' rule: apply_cascade.induct)
  case (2 uid k q now c cs db)
  then show ?case by (fastforce simp: Let_def split: prod.splits)
qed simp

lemma cascade_applied:
  assumes "cascade_loop m changed ls a = Inr plan" and "store_inv sl_id (et_legs db)"
    and "\<And>l. l \<in> set ls \<Longrightarrow> dget (et_legs db) (sl_id l) = Some l" and "distinct (map sl_id ls)"
    and "apply_cascade uid k q now plan db = (outs, db')"
  shows "map (\<lambda>l. dget (et_legs db') (sl_id l)) ls = map Some (shifted m ls a)
    \<and> (\<forall>i. i \<notin> sl_id ` set ls \<longrightarrow> dget (et_legs db') i = dget (et_legs db) i)"
  using assms
proof (induction ls arbitrary: a plan k db outs)
  case (Cons l ls)
  let ?d = "new_departure l (a + m)"
  let ?e = "?d + transit_duration l"
  obtain rest where rest: "cascade_loop m changed ls ?e = Inr rest"
    and plan: "plan = cascade_item_for changed (sl_id l) ''ETD'' ?d # cascade_item_for changed (sl_id l) ''ETA'' ?e # rest"
    using Cons.prems(1) by (auto simp: dt_add_def res_simps split: if_splits)
  let ?db1 = "add_version (uid k) (vr_shipment_id q) (sl_id l) ''ETD'' ?d ''AUTO_CASCADE'' (Some (cascade_reason changed)) (vr_recorded_by q) now db"
  let ?db2 = "add_version (uid (Suc k)) (vr_shipment_id q) (sl_id l) ''ETA'' ?e ''AUTO_CASCADE'' (Some (cascade_reason changed)) (vr_recorded_by q) now ?db1"
  obtain outs' where ap: "apply_cascade uid (Suc (Suc k)) q now rest ?db2 = (outs', db')"
    using Cons.prems(5) by (auto simp: plan cascade_item_for_def Let_def split: prod.splits)
  have st: "store_inv sl_id (et_legs ?db2)" using Cons.prems(2) by (simp add: add_version_store)
  have get: "dget (et_legs ?db2) i = (if i = sl_id l then Some (l\<lparr>sl_etd := Some ?d, sl_eta := Some ?e\<rparr>) else dget (et_legs db) i)" for i
    using Cons.prems(2) Cons.prems(3) [of l] by (simp add: add_version_dget add_version_store set_time_def)
  have sub: "dget (et_legs ?db2) (sl_id x) = Some x" if "x \<in> set ls" for x
  proof -
    have "sl_id x \<noteq> sl_id l" using Cons.prems(4) that by (auto simp: image_iff)
    then show ?thesis using Cons.prems(3) [of x] that by (simp only: get if_False list.set_intros)
  qed
  have d: "distinct (map sl_id ls)" "sl_id l \<notin> sl_id ` set ls" using Cons.prems(4) by auto
  note ih = Cons.IH [OF rest st sub d(1) ap]
  have "dget (et_legs db') (sl_id l) = dget (et_legs ?db2) (sl_id l)" using ih d(2) by blast
  then have 1: "dget (et_legs db') (sl_id l) = Some (l\<lparr>sl_etd := Some ?d, sl_eta := Some ?e\<rparr>)" by (simp add: get)
  have "dget (et_legs db') i = dget (et_legs db) i" if "i \<notin> sl_id ` set (l # ls)" for i
  proof -
    have "dget (et_legs db') i = dget (et_legs ?db2) i" "i \<noteq> sl_id l" using ih that by auto
    then show ?thesis by (simp only: get if_False)
  qed
  with 1 ih show ?case by (simp only: list.map shifted.simps simp_thms) blast
qed simp

lemma legs_of_map:
  assumes "store_inv sl_id (et_legs db)" "store_inv sl_id (et_legs db')" "dkeys (et_legs db') = dkeys (et_legs db)"
    and "\<And>x. map_option sl_shipment_id (dget (et_legs db') x) = map_option sl_shipment_id (dget (et_legs db) x)"
  shows "map Some (legs_of db' sid) = map (\<lambda>l. dget (et_legs db') (sl_id l)) (legs_of db sid)"
proof -
  have keys: "map sl_id (dvalues (et_legs db')) = map sl_id (dvalues (et_legs db))"
    using assms(1-3) by (simp only: store_keys)
  have get: "dget (et_legs d) (sl_id l) = Some l" if "l \<in> set (dvalues (et_legs d))" "store_inv sl_id (et_legs d)" for d l
    by (rule iffD1 [OF store_elems_iff [OF that(2)] that(1)])
  have m: "map (\<lambda>l. f (sl_id l)) xs = map f (map sl_id xs)" for f :: "string \<Rightarrow> ship_leg option" and xs by simp
  have "map Some (dvalues (et_legs db')) = map (\<lambda>l. dget (et_legs db') (sl_id l)) (dvalues (et_legs db'))"
    by (rule map_cong [OF refl]) (simp only: get assms(2))
  also have "\<dots> = map (\<lambda>l. dget (et_legs db') (sl_id l)) (dvalues (et_legs db))" by (simp only: m keys)
  finally have vals: "map Some (dvalues (et_legs db')) = map (\<lambda>l. dget (et_legs db') (sl_id l)) (dvalues (et_legs db))" .
  have ship: "map_option sl_shipment_id (dget (et_legs db') (sl_id l)) = Some (sl_shipment_id l)" if "l \<in> set (dvalues (et_legs db))" for l
    using assms(4) get [OF that assms(1)] by simp
  let ?P = "\<lambda>z. map_option sl_shipment_id z = Some sid"
  have "map Some (legs_of db' sid) = filter ?P (map Some (dvalues (et_legs db')))"
    by (simp add: legs_of_def filter_map comp_def)
  also have "\<dots> = filter ?P (map (\<lambda>l. dget (et_legs db') (sl_id l)) (dvalues (et_legs db)))" by (simp only: vals)
  also have "\<dots> = map (\<lambda>l. dget (et_legs db') (sl_id l)) (filter (\<lambda>l. ?P (dget (et_legs db') (sl_id l))) (dvalues (et_legs db)))"
    by (rule filter_map [unfolded comp_def])
  also have "filter (\<lambda>l. ?P (dget (et_legs db') (sl_id l))) (dvalues (et_legs db)) = legs_of db sid"
    unfolding legs_of_def by (rule filter_cong [OF refl]) (simp only: ship option.inject)
  finally show ?thesis .
qed

lemma legs_of_dget:
  assumes "store_inv sl_id (et_legs db)"
  shows "l \<in> set (legs_of db sid) \<longleftrightarrow> dget (et_legs db) (sl_id l) = Some l \<and> sl_shipment_id l = sid"
  using store_elems_iff [OF assms, of l] by (auto simp: legs_of_def simp del: set_map)

lemma legs_of_ids: "store_inv sl_id (et_legs db) \<Longrightarrow> distinct (map sl_id (legs_of db sid))"
  unfolding legs_of_def by (rule distinct_map_filter) (rule store_distinct)

lemma map_Some_inj: "map Some xs = map Some ys \<Longrightarrow> xs = ys"
  by (metis inj_Some inj_map_eq_map)

lemma record_version_steps:
  assumes "record_version uid now q db = (Inr r, db')"
  obtains leg plan outs db1 db2 where "dget (et_legs db) (vr_leg_id q) = Some leg" "sl_shipment_id leg = vr_shipment_id q"
    "py_upper (py_strip (vr_type q)) \<in> {''ETA'', ''ETD''}"
    "db1 = add_version (uid 0) (vr_shipment_id q) (vr_leg_id q) (py_upper (py_strip (vr_type q))) (vr_value q)
       (py_upper (py_strip (vr_source q))) (vr_reason q) (vr_recorded_by q) now db"
    "(if py_upper (py_strip (vr_type q)) = ''ETA''
      then calculate_leg_cascade (6 * hour_us) (legs_of db1 (vr_shipment_id q)) (vr_leg_id q) (vr_value q) else Inr []) = Inr plan"
    "apply_cascade uid 1 q now plan db1 = (outs, db2)" "et_legs db' = et_legs db2" "et_history db' = et_history db2"
    "vo_alerts r = evaluate_eta_deviations (sort_key eh_version (filter (\<lambda>h. eh_shipment_id h = vr_shipment_id q) (et_history db'))) (vr_firm q)"
proof -
  let ?ty = "py_upper (py_strip (vr_type q))"
  let ?src = "py_upper (py_strip (vr_source q))"
  have ty: "?ty \<in> {''ETA'', ''ETD''}"
  proof (rule ccontr)
    assume "?ty \<notin> {''ETA'', ''ETD''}"
    then show False using assms by (simp only: record_version_def Let_def simp_thms if_True) simp
  qed
  have src: "?src \<in> set valid_sources"
  proof (rule ccontr)
    assume "?src \<notin> set valid_sources"
    then show False using assms ty by (simp only: record_version_def Let_def simp_thms if_True if_False) simp
  qed
  note h = assms [unfolded record_version_def Let_def, simplified ty src simp_thms if_False]
  obtain leg where leg: "dget (et_legs db) (vr_leg_id q) = Some leg" using h by (cases "dget (et_legs db) (vr_leg_id q)") simp_all
  have ship: "sl_shipment_id leg = vr_shipment_id q" using h leg by (simp split: if_splits)
  let ?db1 = "add_version (uid 0) (vr_shipment_id q) (vr_leg_id q) ?ty (vr_value q) ?src (vr_reason q) (vr_recorded_by q) now db"
  let ?c = "if ?ty = ''ETA'' then calculate_leg_cascade (6 * hour_us) (legs_of ?db1 (vr_shipment_id q)) (vr_leg_id q) (vr_value q) else Inr []"
  obtain plan where plan: "?c = Inr plan" using h leg ship by (cases ?c) simp_all
  obtain outs db2 where ap: "apply_cascade uid 1 q now plan ?db1 = (outs, db2)" by (cases "apply_cascade uid 1 q now plan ?db1")
  show thesis
    by (rule that [OF leg ship ty refl plan ap]) (use h leg ship plan ap in \<open>auto split: option.splits\<close>)
qed

section \<open>Rescheduling\<close>

lemma reschedule:
  assumes "store_inv sl_id (et_legs db)" and "record_version uid now q db = (Inr r, db')"
    and "py_upper (py_strip (vr_type q)) = ''ETA''"
  obtains pre leg post where "legs_of db (vr_shipment_id q) = pre @ leg # post" "sl_id leg = vr_leg_id q"
    "legs_of db' (vr_shipment_id q) = pre @ leg\<lparr>sl_eta := Some (vr_value q)\<rparr> # shifted (6 * hour_us) post (vr_value q)"
proof -
  let ?sid = "vr_shipment_id q"
  obtain leg plan outs db1 db2 where leg: "dget (et_legs db) (vr_leg_id q) = Some leg" "sl_shipment_id leg = ?sid"
    and db1_raw: "db1 = add_version (uid 0) ?sid (vr_leg_id q) (py_upper (py_strip (vr_type q))) (vr_value q)
       (py_upper (py_strip (vr_source q))) (vr_reason q) (vr_recorded_by q) now db"
    and plan_raw: "(if py_upper (py_strip (vr_type q)) = ''ETA''
      then calculate_leg_cascade (6 * hour_us) (legs_of db1 ?sid) (vr_leg_id q) (vr_value q) else Inr []) = Inr plan"
    and ap: "apply_cascade uid 1 q now plan db1 = (outs, db2)" and legs': "et_legs db' = et_legs db2"
    by (rule record_version_steps [OF assms(2)]) (rule that)
  note db1 = db1_raw [unfolded assms(3)]
  have plan: "calculate_leg_cascade (6 * hour_us) (legs_of db1 ?sid) (vr_leg_id q) (vr_value q) = Inr plan"
    using plan_raw by (simp only: assms(3) if_True simp_thms)
  have lid: "sl_id leg = vr_leg_id q" using store_find_key [OF assms(1) leg(1)] .
  have st1: "store_inv sl_id (et_legs db1)" unfolding db1 using assms(1) by (rule add_version_store)
  note k1 = add_version_keys [OF assms(1), of "uid 0" ?sid "vr_leg_id q" "''ETA''" "vr_value q" _ _ _ now, folded db1]
  have get1: "dget (et_legs db1) x = (if x = vr_leg_id q then Some (leg\<lparr>sl_eta := Some (vr_value q)\<rparr>) else dget (et_legs db) x)" for x
    using leg by (simp add: db1 add_version_dget [OF assms(1)] set_time_def)
  have mem: "leg \<in> set (legs_of db ?sid)" using leg lid by (simp add: legs_of_dget [OF assms(1)])
  then obtain pre post where L: "legs_of db ?sid = pre @ leg # post" by (meson split_list)
  have d: "distinct (map sl_id (pre @ leg # post))" using legs_of_ids [OF assms(1), of ?sid] L by simp
  have in0: "dget (et_legs db) (sl_id l) = Some l" if "l \<in> set (pre @ leg # post)" for l
    using that legs_of_dget [OF assms(1), of l ?sid] unfolding L by blast
  have other: "sl_id l \<noteq> vr_leg_id q" if "l \<in> set pre \<union> set post" for l using d that lid by (auto simp: image_iff)
  have g1: "dget (et_legs db1) (sl_id l) = Some l" if "l \<in> set pre \<union> set post" for l
    using get1 [of "sl_id l"] other [OF that] in0 [of l] that by auto
  have L1: "legs_of db1 ?sid = pre @ leg\<lparr>sl_eta := Some (vr_value q)\<rparr> # post"
  proof (rule map_Some_inj)
    have "map Some (legs_of db1 ?sid) = map (\<lambda>l. dget (et_legs db1) (sl_id l)) (pre @ leg # post)"
      unfolding L [symmetric] by (rule legs_of_map [OF assms(1) st1]) (simp_all add: db1 add_version_keys [OF assms(1)] add_version_shipment [OF assms(1)])
    then show "map Some (legs_of db1 ?sid) = map Some (pre @ leg\<lparr>sl_eta := Some (vr_value q)\<rparr> # post)"
      using g1 get1 [of "sl_id leg"] lid by simp
  qed
  have dw: "dropWhile (\<lambda>l. sl_id l \<noteq> vr_leg_id q) (pre @ l # post) = l # post" if "sl_id l = vr_leg_id q" for l
    using other that by (induction pre) auto
  have loop: "cascade_loop (6 * hour_us) (vr_leg_id q) post (vr_value q) = Inr plan"
    using plan by (simp add: calculate_leg_cascade_def L1 dw lid)
  have app: "map (\<lambda>l. dget (et_legs db2) (sl_id l)) post = map Some (shifted (6 * hour_us) post (vr_value q))"
    "\<And>i. i \<notin> sl_id ` set post \<Longrightarrow> dget (et_legs db2) i = dget (et_legs db1) i"
    using cascade_applied [OF loop st1 _ _ ap] g1 d by auto
  have out: "sl_id l \<notin> sl_id ` set post" if "l \<in> set pre \<or> l = leg" for l using d that by (auto simp: image_iff)
  have L2: "legs_of db2 ?sid = pre @ leg\<lparr>sl_eta := Some (vr_value q)\<rparr> # shifted (6 * hour_us) post (vr_value q)"
  proof (rule map_Some_inj)
    note st2 = apply_cascade_store [OF st1 ap]
    have "map Some (legs_of db2 ?sid) = map (\<lambda>l. dget (et_legs db2) (sl_id l)) (legs_of db1 ?sid)"
      by (rule legs_of_map [OF st1]) (use st2 in blast)+
    also have "\<dots> = map (\<lambda>l. dget (et_legs db2) (sl_id l)) pre @ dget (et_legs db2) (sl_id leg) # map (\<lambda>l. dget (et_legs db2) (sl_id l)) post"
      by (simp add: L1)
    also have "map (\<lambda>l. dget (et_legs db2) (sl_id l)) pre = map Some pre"
      using out app(2) g1 by simp
    also have "dget (et_legs db2) (sl_id leg) = Some (leg\<lparr>sl_eta := Some (vr_value q)\<rparr>)"
      using out [of leg] app(2) [of "sl_id leg"] get1 [of "sl_id leg"] lid by simp
    finally show "map Some (legs_of db2 ?sid) = map Some (pre @ leg\<lparr>sl_eta := Some (vr_value q)\<rparr> # shifted (6 * hour_us) post (vr_value q))"
      by (simp only: app(1)) simp
  qed
  show thesis by (rule that [OF L lid]) (use L2 legs' in \<open>simp add: legs_of_def\<close>)
qed

lemma length_shifted [simp]: "length (shifted m ls a) = length ls"
  by (induction ls arbitrary: a) simp_all

lemma shifted_chain:
  assumes "i < length ls"
  shows "\<exists>a' d e. sl_eta ((x\<lparr>sl_eta := Some a\<rparr> # shifted m ls a) ! i) = Some a' \<and> sl_etd (shifted m ls a ! i) = Some d
     \<and> sl_eta (shifted m ls a ! i) = Some e \<and> a' + m \<le> d \<and> (\<forall>d0. sl_etd (ls ! i) = Some d0 \<longrightarrow> d0 \<le> d) \<and> e - d = transit_duration (ls ! i)"
  using assms
proof (induction ls arbitrary: a i x)
  case (Cons l ls)
  have nd: "a + m \<le> new_departure l (a + m)" "\<forall>d0. sl_etd l = Some d0 \<longrightarrow> d0 \<le> new_departure l (a + m)"
    by (auto simp: new_departure_def split: option.splits)
  show ?case
  proof (cases i)
    case 0
    then show ?thesis using nd by simp
  next
    case (Suc j)
    let ?e = "new_departure l (a + m) + transit_duration l"
    from Cons.IH [where i = j and x = "l\<lparr>sl_etd := Some (new_departure l (a + m))\<rparr>" and a = ?e] Cons.prems show ?thesis by (simp add: Suc)
  qed
qed simp

text \<open>A new arrival time reschedules exactly the legs after it: each departs at its own time or six hours after
  the arrival before it, whichever is later, and keeps its duration; the legs before stay as they were.\<close>

theorem eta_change_reschedules:
  assumes "store_inv sl_id (et_legs db)" and "record_version uid now q db = (Inr r, db')"
    and "py_upper (py_strip (vr_type q)) = ''ETA''"
  shows "\<exists>pre leg post. legs_of db (vr_shipment_id q) = pre @ leg # post \<and> sl_id leg = vr_leg_id q
    \<and> legs_of db' (vr_shipment_id q) = pre @ leg\<lparr>sl_eta := Some (vr_value q)\<rparr> # shifted (6 * hour_us) post (vr_value q)"
  by (rule reschedule [OF assms]) blast

text \<open>C18: After a new arrival time every later leg of the shipment departs at least six hours after the arrival before
  it and never before the time it had. A leg whose departure lay before its arrival takes exactly as long as it did; one
  that lacks a time, or has its times in the wrong order, is given 24 hours.\<close>

theorem connections_kept:
  assumes "store_inv sl_id (et_legs db)" and "record_version uid now q db = (Inr r, db')"
    and "py_upper (py_strip (vr_type q)) = ''ETA''"
    and "j \<le> i" and "Suc i < length (legs_of db (vr_shipment_id q))" and "sl_id (legs_of db (vr_shipment_id q) ! j) = vr_leg_id q"
  defines "old \<equiv> legs_of db (vr_shipment_id q) ! Suc i"
  shows "\<exists>a d e. sl_eta (legs_of db' (vr_shipment_id q) ! i) = Some a \<and> sl_etd (legs_of db' (vr_shipment_id q) ! Suc i) = Some d
    \<and> sl_eta (legs_of db' (vr_shipment_id q) ! Suc i) = Some e \<and> a + 6 * hour_us \<le> d
    \<and> (\<forall>d0. sl_etd old = Some d0 \<longrightarrow> d0 \<le> d)
    \<and> (\<forall>d0 e0. sl_etd old = Some d0 \<longrightarrow> sl_eta old = Some e0 \<longrightarrow> d0 < e0 \<longrightarrow> e - d = e0 - d0)
    \<and> (\<not> (\<exists>d0 e0. sl_etd old = Some d0 \<and> sl_eta old = Some e0 \<and> d0 < e0) \<longrightarrow> e - d = 24 * hour_us)"
proof -
  obtain pre leg post where L: "legs_of db (vr_shipment_id q) = pre @ leg # post" "sl_id leg = vr_leg_id q"
    and L': "legs_of db' (vr_shipment_id q) = pre @ leg\<lparr>sl_eta := Some (vr_value q)\<rparr> # shifted (6 * hour_us) post (vr_value q)"
    by (rule reschedule [OF assms(1-3)])
  have d: "distinct (map sl_id (legs_of db (vr_shipment_id q)))" by (rule legs_of_ids [OF assms(1)])
  have len: "length pre < length (map sl_id (legs_of db (vr_shipment_id q)))" "j < length (map sl_id (legs_of db (vr_shipment_id q)))"
    using assms(4,5) L by auto
  have "map sl_id (legs_of db (vr_shipment_id q)) ! j = vr_leg_id q" using assms(6) len(2) by simp
  moreover have "map sl_id (legs_of db (vr_shipment_id q)) ! length pre = vr_leg_id q" by (simp add: L nth_append)
  ultimately have "map sl_id (legs_of db (vr_shipment_id q)) ! j = map sl_id (legs_of db (vr_shipment_id q)) ! length pre"
    by (simp only:)
  then have j: "j = length pre" using nth_eq_iff_index_eq [OF d len(2,1)] by blast
  then obtain k where k: "i = length pre + k" using assms(4) le_Suc_ex by blast
  have "k < length post" using assms(5) L(1) k by simp
  from shifted_chain [where x = leg and a = "vr_value q" and m = "6 * hour_us", OF this] obtain a d e where
    e: "sl_eta (legs_of db' (vr_shipment_id q) ! i) = Some a" "sl_etd (legs_of db' (vr_shipment_id q) ! Suc i) = Some d"
      "sl_eta (legs_of db' (vr_shipment_id q) ! Suc i) = Some e" "a + 6 * hour_us \<le> d" "\<forall>d0. sl_etd old = Some d0 \<longrightarrow> d0 \<le> d"
      "e - d = transit_duration old"
    by (auto simp: old_def L(1) L' k nth_append)
  then show ?thesis by (intro exI [of _ a] exI [of _ d] exI [of _ e]) (auto simp: transit_duration_def split: option.splits)
qed

section \<open>The history\<close>

definition rows_of :: "eta_db \<Rightarrow> string \<Rightarrow> string \<Rightarrow> eta_version list" where
  "rows_of db leg ty = filter (\<lambda>h. eh_leg_id h = leg \<and> eh_type h = ty) (et_history db)"

definition time_of :: "string \<Rightarrow> ship_leg \<Rightarrow> datetime option" where
  "time_of ty l = (if ty = ''ETA'' then sl_eta l else sl_etd l)"

definition eta_inv :: "eta_db \<Rightarrow> bool" where
  "eta_inv db \<longleftrightarrow> store_inv sl_id (et_legs db)
     \<and> (\<forall>h \<in> set (et_history db). eh_type h \<in> {''ETA'', ''ETD''})
     \<and> (\<forall>leg ty. map eh_version (rows_of db leg ty) = map int [1..<Suc (length (rows_of db leg ty))])
     \<and> (\<forall>leg ty l. dget (et_legs db) leg = Some l \<longrightarrow> rows_of db leg ty \<noteq> [] \<longrightarrow>
          time_of ty l = Some (eh_value (last (rows_of db leg ty))))"

lemma next_version_length:
  assumes "map eh_version (rows_of db leg ty) = map int [1..<Suc (length (rows_of db leg ty))]"
  shows "next_version (et_history db) leg ty = int (length (rows_of db leg ty)) + 1"
proof (cases "rows_of db leg ty")
  case Nil
  then show ?thesis by (simp add: next_version_def rows_of_def)
next
  case (Cons a list)
  let ?R = "rows_of db leg ty"
  let ?s = "sort_key (\<lambda>h. - eh_version h) ?R"
  have ne: "?R \<noteq> []" "?s \<noteq> []" using Cons by (simp, metis Cons list.distinct(1) set_empty set_sort)
  have vs: "eh_version ` set ?R = int ` {1..<Suc (length ?R)}" using arg_cong [OF assms, of set] by (simp only: set_map set_upt)
  have hd: "hd ?s \<in> set ?R" using hd_sort_key_mem [OF ne(1)] .
  have "int (length ?R) \<in> int ` {1..<Suc (length ?R)}" using ne(1) by (intro imageI) (cases ?R, simp_all)
  then obtain x where "x \<in> set ?R" "eh_version x = int (length ?R)" unfolding vs [symmetric] by auto
  with hd_sort_key_le [of x ?R "\<lambda>h. - eh_version h"] have "int (length ?R) \<le> eh_version (hd ?s)" by simp
  moreover have "eh_version (hd ?s) \<in> int ` {1..<Suc (length ?R)}" unfolding vs [symmetric] using hd by simp
  ultimately have "eh_version (hd ?s) = int (length ?R)" by auto
  with ne(2) show ?thesis by (cases ?s) (simp_all add: next_version_def rows_of_def)
qed

lemma add_version_inv:
  assumes "eta_inv db" and "ty \<in> {''ETA'', ''ETD''}"
  shows "eta_inv (add_version rid s leg ty t src r by now db)"
proof -
  let ?db = "add_version rid s leg ty t src r by now db"
  have st: "store_inv sl_id (et_legs db)" and types: "\<forall>h \<in> set (et_history db). eh_type h \<in> {''ETA'', ''ETD''}"
    and vers: "\<And>leg ty. map eh_version (rows_of db leg ty) = map int [1..<Suc (length (rows_of db leg ty))]"
    and times: "\<And>leg ty l. dget (et_legs db) leg = Some l \<Longrightarrow> rows_of db leg ty \<noteq> [] \<Longrightarrow> time_of ty l = Some (eh_value (last (rows_of db leg ty)))"
    using assms(1) by (simp_all add: eta_inv_def)
  have rows: "rows_of ?db leg' ty' = (if leg' = leg \<and> ty' = ty then rows_of db leg ty @ [\<lparr>eh_id = rid, eh_shipment_id = s, eh_leg_id = leg,
     eh_type = ty, eh_version = int (length (rows_of db leg ty)) + 1, eh_value = t, eh_source = src, eh_reason = r,
     eh_recorded_by = by, eh_recorded_at = now\<rparr>] else rows_of db leg' ty')" for leg' ty'
    by (auto simp: rows_of_def next_version_length [OF vers, unfolded rows_of_def])
  have up: "map int [Suc 0..<Suc (Suc n)] = map int [Suc 0..<Suc n] @ [int n + 1]" for n by simp
  have 1: "map eh_version (rows_of ?db leg' ty') = map int [1..<Suc (length (rows_of ?db leg' ty'))]" for leg' ty'
  proof (cases "leg' = leg \<and> ty' = ty")
    case True
    then show ?thesis using vers [of leg ty] by (simp add: rows up del: upt_Suc)
  next
    case False
    then show ?thesis using vers [of leg' ty'] by (simp only: rows if_False)
  qed
  have 2: "time_of ty' l = Some (eh_value (last (rows_of ?db leg' ty')))"
    if get: "dget (et_legs ?db) leg' = Some l" and ne: "rows_of ?db leg' ty' \<noteq> []" for leg' ty' l
  proof (cases "leg' = leg")
    case False
    then show ?thesis using times [of leg' l ty'] get ne by (simp add: rows add_version_dget [OF st])
  next
    case True
    then obtain l0 where l0: "dget (et_legs db) leg = Some l0" "l = set_time ty t l0"
      using get by (auto simp: add_version_dget [OF st])
    show ?thesis
    proof (cases "ty' = ty")
      case same: True
      then show ?thesis using True assms(2) by (auto simp: rows l0 set_time_def time_of_def)
    next
      case False
      then have ne': "rows_of db leg ty' \<noteq> []" using ne True by (simp add: rows)
      then obtain h where "h \<in> set (et_history db)" "eh_type h = ty'" unfolding rows_of_def filter_empty_conv by blast
      then have "ty' \<in> {''ETA'', ''ETD''}" using types by blast
      then have "time_of ty' l = time_of ty' l0" using False assms(2) by (auto simp: l0 set_time_def time_of_def)
      then show ?thesis using times [OF l0(1) ne'] False True by (simp add: rows)
    qed
  qed
  have 3: "store_inv sl_id (et_legs ?db)" using st by (rule add_version_store)
  have 4: "\<forall>h \<in> set (et_history ?db). eh_type h \<in> {''ETA'', ''ETD''}" using types assms(2) by simp
  show ?thesis unfolding eta_inv_def using 1 2 3 4 by blast
qed

lemma apply_cascade_inv:
  "eta_inv db \<Longrightarrow> \<forall>c \<in> set cs. ci_type c \<in> {''ETA'', ''ETD''} \<Longrightarrow> apply_cascade uid k q now cs db = (outs, db') \<Longrightarrow> eta_inv db'"
proof (induction uid k q now cs db arbitrary: outs db' rule: apply_cascade.induct)
  case (2 uid k q now c cs db)
  let ?db1 = "add_version (uid k) (vr_shipment_id q) (ci_leg_id c) (ci_type c) (ci_value c) (ci_source c) (Some (ci_reason c)) (vr_recorded_by q) now db"
  obtain outs1 db1 where ap: "apply_cascade uid (Suc k) q now cs ?db1 = (outs1, db1)" by (cases "apply_cascade uid (Suc k) q now cs ?db1")
  then have "db' = db1" using "2.prems"(3) by (simp add: Let_def)
  moreover have "eta_inv ?db1" using "2.prems"(1,2) by (intro add_version_inv) simp_all
  ultimately show ?case using "2.IH" [OF refl _ _ ap] "2.prems"(2) by simp
qed simp

lemma cascade_types: "cascade_loop m changed ls a = Inr plan \<Longrightarrow> c \<in> set plan \<Longrightarrow> ci_type c \<in> {''ETA'', ''ETD''}"
proof (induction ls arbitrary: a plan)
  case (Cons l ls)
  from Cons.prems obtain rest e where "cascade_loop m changed ls e = Inr rest"
    "plan = cascade_item_for changed (sl_id l) ''ETD'' (new_departure l (a + m)) # cascade_item_for changed (sl_id l) ''ETA'' e # rest"
    by (auto simp: dt_add_def res_simps split: if_splits)
  then show ?case using Cons.IH Cons.prems(2) by (auto simp: cascade_item_for_def)
qed simp

lemma record_version_inv:
  assumes "eta_inv db" and "record_version uid now q db = (Inr r, db')"
  shows "eta_inv db'"
proof -
  obtain leg plan outs db1 db2 where ty: "py_upper (py_strip (vr_type q)) \<in> {''ETA'', ''ETD''}"
    and db1: "db1 = add_version (uid 0) (vr_shipment_id q) (vr_leg_id q) (py_upper (py_strip (vr_type q))) (vr_value q)
       (py_upper (py_strip (vr_source q))) (vr_reason q) (vr_recorded_by q) now db"
    and plan: "(if py_upper (py_strip (vr_type q)) = ''ETA''
      then calculate_leg_cascade (6 * hour_us) (legs_of db1 (vr_shipment_id q)) (vr_leg_id q) (vr_value q) else Inr []) = Inr plan"
    and ap: "apply_cascade uid 1 q now plan db1 = (outs, db2)" and eq: "et_legs db' = et_legs db2" "et_history db' = et_history db2"
    by (rule record_version_steps [OF assms(2)]) (rule that)
  have "eta_inv db1" unfolding db1 using assms(1) ty by (rule add_version_inv)
  moreover have "\<forall>c \<in> set plan. ci_type c \<in> {''ETA'', ''ETD''}"
    using plan cascade_types by (fastforce simp: calculate_leg_cascade_def split: if_splits list.splits)
  ultimately have "eta_inv db2" using ap by (rule apply_cascade_inv)
  then show ?thesis unfolding eta_inv_def rows_of_def eq .
qed

definition eta_service :: "(nat \<Rightarrow> string) \<times> datetime \<times> version_request \<Rightarrow> eta_db \<Rightarrow> version_result res \<times> eta_db" where
  "eta_service rq db = (case rq of (uid, now, q) \<Rightarrow> record_version uid now q db)"

interpretation eta: service_contract eta_service "\<lambda>_ _. True" eta_inv
  by unfold_locales (auto simp: eta_service_def record_version_inv split: prod.splits)

text \<open>C19: In every database the endpoint reaches, the versions of a leg's times count 1, 2, 3 and so on for each type,
  and the leg shows the value of the last version.\<close>

theorem eta_history_consistent:
  assumes "reached eta_service (\<lambda>_ _. True) start db" and "eta_inv start"
  shows "map eh_version (rows_of db leg ty) = map int [1..<Suc (length (rows_of db leg ty))]
    \<and> (\<forall>l. dget (et_legs db) leg = Some l \<longrightarrow> rows_of db leg ty \<noteq> [] \<longrightarrow>
          time_of ty l = Some (eh_value (last (rows_of db leg ty))))"
  using eta.reached_inv [OF assms] unfolding eta_inv_def by blast

section \<open>Alerts\<close>

text \<open>The records of each leg, in the order they are given.\<close>

lemma groups_snoc: "eta_groups (rs @ [r]) = (if py_upper (eh_type r) = ''ETA''
    then dset (eh_leg_id r) (dget_or (eta_groups rs) (eh_leg_id r) [] @ [r]) (eta_groups rs) else eta_groups rs)"
  by (simp add: eta_groups_def)

definition leg_etas :: "eta_version list \<Rightarrow> string \<Rightarrow> eta_version list" where
  "leg_etas rs leg = filter (\<lambda>r. py_upper (eh_type r) = ''ETA'' \<and> eh_leg_id r = leg) rs"

lemma groups_get: "dget (eta_groups rs) leg = (if leg_etas rs leg = [] then None else Some (leg_etas rs leg))"
proof (induction rs rule: rev_induct)
  case Nil
  then show ?case by (simp add: eta_groups_def leg_etas_def)
next
  case (snoc r rs)
  then show ?case by (auto simp: groups_snoc leg_etas_def dget_dset dget_or_def)
qed

lemma groups_distinct: "distinct (dkeys (eta_groups rs))"
proof (induction rs rule: rev_induct)
  case Nil
  then show ?case by (simp add: eta_groups_def)
next
  case (snoc r rs)
  then show ?case by (simp add: groups_snoc AList.distinct_update)
qed

lemma alerts_mem:
  "a \<in> set (evaluate_eta_deviations rs firm) \<longleftrightarrow> (\<exists>leg. leg_alert firm leg (leg_etas rs leg) = Some a)"
proof -
  have "(leg, es) \<in> set (eta_groups rs) \<longleftrightarrow> es = leg_etas rs leg \<and> es \<noteq> []" for leg es
    using groups_get [of rs leg] by (auto simp: map_of_eq_Some_iff [OF groups_distinct, symmetric] split: if_splits)
  moreover have "leg_alert firm leg [] = None" for leg by (simp add: leg_alert_def)
  ultimately have "(\<exists>x \<in> set (eta_groups rs). leg_alert firm (fst x) (snd x) = Some a) \<longleftrightarrow> (\<exists>leg. leg_alert firm leg (leg_etas rs leg) = Some a)"
    by (metis fst_conv option.distinct(1) prod.collapse snd_conv)
  then show ?thesis unfolding evaluate_eta_deviations_def somes_set set_map image_iff split_beta by (simp only: eq_commute)
qed

text \<open>The number of days as a float is on the same side of a whole number of days as the exact delay.\<close>

lemma deviation_le: "latest - original \<le> k * day_us \<Longrightarrow> \<bar>k\<bar> \<le> 10000000 \<Longrightarrow> deviation_days original latest \<le> of_int k"
proof -
  assume h: "latest - original \<le> k * day_us" and k: "\<bar>k\<bar> \<le> 10000000"
  have "(of_int (latest - original) :: rat) \<le> of_int (k * day_us)" using h by (simp only: of_int_le_iff)
  then have "of_int (latest - original) / 1000000 \<le> (of_int (k * 86400) :: rat)" by (simp add: day_us_def)
  from rnd_mono [OF this] have "fquot (of_int (latest - original)) 1000000 \<le> of_int (k * 86400)"
    using rnd_of_int [of "k * 86400"] k by (simp add: fquot_def)
  then have "fquot (of_int (latest - original)) 1000000 / 86400 \<le> of_int k" by simp
  from rnd_mono [OF this] show ?thesis using rnd_of_int [of k] k by (simp add: fquot_def deviation_days_def)
qed

lemma deviation_mono: "latest - original \<le> latest' - original' \<Longrightarrow> deviation_days original latest \<le> deviation_days original' latest'"
  unfolding deviation_days_def fquot_def by (intro rnd_mono divide_right_mono of_int_le_iff [THEN iffD2]) simp_all

lemma deviation_gt: "k * day_us < latest - original \<Longrightarrow> k \<in> {0, 1, 3, 7} \<Longrightarrow> of_int k < deviation_days original latest"
proof -
  assume h: "k * day_us < latest - original" and k: "k \<in> {0, 1, 3, 7}"
  have "deviation_days 0 (k * day_us + 1) \<le> deviation_days original latest" using h by (intro deviation_mono) simp
  moreover have "of_int k < deviation_days 0 (k * day_us + 1)"
  proof -
    have "0 < deviation_days 0 (0 * day_us + 1)" "1 < deviation_days 0 (1 * day_us + 1)"
      "3 < deviation_days 0 (3 * day_us + 1)" "7 < deviation_days 0 (7 * day_us + 1)"
    proof -
      have "(0 < deviation_days 0 (0 * day_us + 1)) \<and> (1 < deviation_days 0 (1 * day_us + 1)) \<and> (3 < deviation_days 0 (3 * day_us + 1)) \<and> (7 < deviation_days 0 (7 * day_us + 1))" by code_simp
      then show "0 < deviation_days 0 (0 * day_us + 1)" "1 < deviation_days 0 (1 * day_us + 1)" "3 < deviation_days 0 (3 * day_us + 1)" "7 < deviation_days 0 (7 * day_us + 1)" by blast+
    qed
    then show ?thesis using k by auto
  qed
  ultimately show ?thesis by (rule less_le_trans [rotated])
qed

lemma deviation_exact: "k \<in> {0, 1, 3, 7} \<Longrightarrow> of_int k < deviation_days original latest \<longleftrightarrow> k * day_us < latest - original"
proof -
  assume k: "k \<in> {0, 1, 3, 7}"
  then have "\<bar>k\<bar> \<le> 10000000" by auto
  then show ?thesis using k deviation_le [of latest original k] deviation_gt [of k latest original] by (meson not_le)
qed

text \<open>A leg raises an alert exactly when its latest arrival time is later than its first: by any delay under a firm
  commitment, and by more than one, three and seven days otherwise, the exact number of microseconds
  deciding; only critical alerts notify the customer.\<close>

theorem alerts_exact:
  "a \<in> set (evaluate_eta_deviations rs firm) \<longleftrightarrow>
    (\<exists>leg first latest. leg_etas rs leg \<noteq> [] \<and> first = hd (sort_key eh_version (leg_etas rs leg))
       \<and> latest = last (sort_key eh_version (leg_etas rs leg))
       \<and> (let delay = eh_value latest - eh_value first in
           (if firm then 0 < delay else day_us < delay)
           \<and> ea_leg_id a = leg \<and> ea_shipment_id a = eh_shipment_id latest
           \<and> ea_severity a = (if firm \<or> 7 * day_us < delay then ''CRITICAL'' else if 3 * day_us < delay then ''WARNING'' else ''INFO'')
           \<and> ea_deviation_days a = py_round 2 (deviation_days (eh_value first) (eh_value latest))
           \<and> ea_original_eta a = eh_value first \<and> ea_latest_eta a = eh_value latest
           \<and> ea_original_version a = eh_version first \<and> ea_latest_version a = eh_version latest
           \<and> ea_recipients a = (if firm then [''OPERATIONS_MANAGER'', ''CUSTOMER_SERVICE'', ''OPERATIONS'']
                else if 7 * day_us < delay then [''OPERATIONS_MANAGER'']
                else if 3 * day_us < delay then [''OPERATIONS'', ''CUSTOMER_SERVICE''] else [''OPERATIONS''])
           \<and> ea_customer_notification a = (firm \<or> 7 * day_us < delay) \<and> ea_firm_override a = firm))"
proof -
  have "leg_alert firm leg es = Some a \<longleftrightarrow> es \<noteq> [] \<and> (let first = hd (sort_key eh_version es); latest = last (sort_key eh_version es);
     delay = eh_value latest - eh_value first in
           (if firm then 0 < delay else day_us < delay)
           \<and> ea_leg_id a = leg \<and> ea_shipment_id a = eh_shipment_id latest
           \<and> ea_severity a = (if firm \<or> 7 * day_us < delay then ''CRITICAL'' else if 3 * day_us < delay then ''WARNING'' else ''INFO'')
           \<and> ea_deviation_days a = py_round 2 (deviation_days (eh_value first) (eh_value latest))
           \<and> ea_original_eta a = eh_value first \<and> ea_latest_eta a = eh_value latest
           \<and> ea_original_version a = eh_version first \<and> ea_latest_version a = eh_version latest
           \<and> ea_recipients a = (if firm then [''OPERATIONS_MANAGER'', ''CUSTOMER_SERVICE'', ''OPERATIONS'']
                else if 7 * day_us < delay then [''OPERATIONS_MANAGER'']
                else if 3 * day_us < delay then [''OPERATIONS'', ''CUSTOMER_SERVICE''] else [''OPERATIONS''])
           \<and> ea_customer_notification a = (firm \<or> 7 * day_us < delay) \<and> ea_firm_override a = firm)" (is "_ = ?R") for leg es
  proof (cases "es = []")
    case False
    define f where "f = hd (sort_key eh_version es)"
    define l where "l = last (sort_key eh_version es)"
    have e: "deviation_days (eh_value f) (eh_value l) \<le> 0 \<longleftrightarrow> \<not> 0 < eh_value l - eh_value f"
      "7 < deviation_days (eh_value f) (eh_value l) \<longleftrightarrow> 7 * day_us < eh_value l - eh_value f"
      "3 < deviation_days (eh_value f) (eh_value l) \<longleftrightarrow> 3 * day_us < eh_value l - eh_value f"
      "1 < deviation_days (eh_value f) (eh_value l) \<longleftrightarrow> day_us < eh_value l - eh_value f"
      using deviation_exact [of 0] deviation_exact [of 7] deviation_exact [of 3] deviation_exact [of 1]
      by (simp_all add: not_less [symmetric])
    show ?thesis using False
      unfolding leg_alert_def Let_def f_def [symmetric] l_def [symmetric] alert_level_def e
      by (cases a) (auto simp: day_us_def)
  qed (simp add: leg_alert_def)
  then show ?thesis unfolding alerts_mem Let_def by blast
qed

section \<open>A worked shipment\<close>

definition voyage_leg :: "string \<Rightarrow> int \<Rightarrow> int \<Rightarrow> ship_leg" where
  "voyage_leg i etd eta = \<lparr>sl_id = i, sl_shipment_id = ''S'', sl_carrier_id = None, sl_origin = ''AEJEA'', sl_destination = ''NLRTM'',
     sl_etd = Some (etd * day_us), sl_eta = Some (eta * day_us)\<rparr>"

definition sample_eta :: eta_db where
  "sample_eta = \<lparr>et_legs = [(''A'', voyage_leg ''A'' 100 101), (''B'', voyage_leg ''B'' 102 105)],
     et_history = [], et_outbox = [], et_audit = []\<rparr>"

definition sample_delay :: version_request where
  "sample_delay = \<lparr>vr_shipment_id = ''S'', vr_leg_id = ''A'', vr_type = ''eta'', vr_value = 102 * day_us, vr_source = ''MANUAL'',
     vr_reason = None, vr_recorded_by = None, vr_tenant_id = None, vr_firm = False\<rparr>"

lemma sample_eta_inv: "eta_inv sample_eta" "store_inv sl_id (et_legs sample_eta)"
  by (simp_all add: eta_inv_def sample_eta_def store_inv_def rows_of_def voyage_leg_def)

lemma sample_delay_norm: "py_upper (py_strip ''eta'') = ''ETA''" "py_upper (py_strip ''MANUAL'') = ''MANUAL''"
proof -
  have "(py_upper (py_strip ''eta'') = ''ETA'') \<and> (py_upper (py_strip ''MANUAL'') = ''MANUAL'')" by code_simp
  then show "py_upper (py_strip ''eta'') = ''ETA''" "py_upper (py_strip ''MANUAL'') = ''MANUAL''" by blast+
qed

lemma sample_delay_type: "py_upper (py_strip (vr_type sample_delay)) = ''ETA''"
  by (simp add: sample_delay_def sample_delay_norm)

lemma record_version_succeeds:
  assumes "py_upper (py_strip (vr_type q)) = ''ETA''" "py_upper (py_strip (vr_source q)) \<in> set valid_sources"
    and "dget (et_legs db) (vr_leg_id q) = Some leg" "sl_shipment_id leg = vr_shipment_id q"
    and "calculate_leg_cascade (6 * hour_us) (legs_of (add_version (uid 0) (vr_shipment_id q) (vr_leg_id q) ''ETA'' (vr_value q)
       (py_upper (py_strip (vr_source q))) (vr_reason q) (vr_recorded_by q) now db) (vr_shipment_id q)) (vr_leg_id q) (vr_value q) = Inr plan"
  shows "\<exists>r db'. record_version uid now q db = (Inr r, db')"
  using assms by (simp add: record_version_def Let_def split_beta)

lemma sample_recorded: "\<exists>r db. record_version uid now sample_delay sample_eta = (Inr r, db)"
proof (rule record_version_succeeds [where leg = "voyage_leg ''A'' 100 101"])
  let ?db = "add_version (uid 0) ''S'' ''A'' ''ETA'' (102 * day_us) ''MANUAL'' None None now sample_eta"
  have "et_legs ?db = [(''A'', (voyage_leg ''A'' 100 101)\<lparr>sl_eta := Some (102 * day_us)\<rparr>), (''B'', voyage_leg ''B'' 102 105)]"
    by (simp add: add_version_def Let_def put_leg_def sample_eta_def set_time_def voyage_leg_def)
  then have "legs_of ?db ''S'' = [(voyage_leg ''A'' 100 101)\<lparr>sl_eta := Some (102 * day_us)\<rparr>, voyage_leg ''B'' 102 105]"
    by (simp add: legs_of_def voyage_leg_def)
  then show "calculate_leg_cascade (6 * hour_us) (legs_of (add_version (uid 0) (vr_shipment_id sample_delay) (vr_leg_id sample_delay)
      ''ETA'' (vr_value sample_delay) (py_upper (py_strip (vr_source sample_delay))) (vr_reason sample_delay)
      (vr_recorded_by sample_delay) now sample_eta) (vr_shipment_id sample_delay)) (vr_leg_id sample_delay) (vr_value sample_delay)
    = Inr [cascade_item_for ''A'' ''B'' ''ETD'' (102 * day_us + 6 * hour_us), cascade_item_for ''A'' ''B'' ''ETA'' (105 * day_us + 6 * hour_us)]"
    by (simp add: sample_delay_def sample_delay_norm calculate_leg_cascade_def voyage_leg_def dt_add_def new_departure_def
      transit_duration_def day_us_def hour_us_def max_ordinal_def)
qed (simp_all add: sample_delay_def sample_delay_norm valid_sources_def sample_eta_def voyage_leg_def)

lemma voyage_legs: "legs_of sample_eta ''S'' = [voyage_leg ''A'' 100 101, voyage_leg ''B'' 102 105]"
  by (simp add: legs_of_def sample_eta_def voyage_leg_def)

theorem eta_change_reschedules_witness:
  "\<exists>r db pre leg post. record_version (\<lambda>_. ''V'') 0 sample_delay sample_eta = (Inr r, db) \<and> legs_of sample_eta ''S'' = pre @ leg # post
    \<and> sl_id leg = ''A'' \<and> legs_of db ''S'' = pre @ leg\<lparr>sl_eta := Some (102 * day_us)\<rparr> # shifted (6 * hour_us) post (102 * day_us)"
proof -
  obtain r db where h: "record_version (\<lambda>_. ''V'') 0 sample_delay sample_eta = (Inr r, db)" using sample_recorded by blast
  from eta_change_reschedules [OF sample_eta_inv(2) this sample_delay_type] show ?thesis
    using h by (simp add: sample_delay_def)
qed

theorem connections_kept_witness:
  "\<exists>r db a d. record_version (\<lambda>_. ''V'') 0 sample_delay sample_eta = (Inr r, db) \<and> sl_eta (legs_of db ''S'' ! 0) = Some a
    \<and> sl_etd (legs_of db ''S'' ! 1) = Some d \<and> a + 6 * hour_us \<le> d"
proof -
  obtain r db where h: "record_version (\<lambda>_. ''V'') 0 sample_delay sample_eta = (Inr r, db)" using sample_recorded by blast
  have s: "vr_shipment_id sample_delay = ''S''" "vr_leg_id sample_delay = ''A''" by (simp_all add: sample_delay_def)
  have "Suc 0 < length (legs_of sample_eta ''S'')" "sl_id (legs_of sample_eta ''S'' ! 0) = ''A''"
    by (simp_all add: voyage_legs voyage_leg_def)
  from connections_kept [OF sample_eta_inv(2) h sample_delay_type le_refl, unfolded s, OF this] h show ?thesis by auto
qed

theorem eta_history_consistent_witness:
  "\<exists>db l. reached eta_service (\<lambda>_ _. True) sample_eta db \<and> rows_of db ''A'' ''ETA'' \<noteq> [] \<and> dget (et_legs db) ''A'' = Some l
    \<and> map eh_version (rows_of db ''A'' ''ETA'') = map int [1..<Suc (length (rows_of db ''A'' ''ETA''))]
    \<and> time_of ''ETA'' l = Some (eh_value (last (rows_of db ''A'' ''ETA'')))"
proof -
  let ?rq = "(\<lambda>_. ''V'', 0, sample_delay)"
  obtain r db where h: "record_version (\<lambda>_. ''V'') 0 sample_delay sample_eta = (Inr r, db)" using sample_recorded by blast
  have "reached eta_service (\<lambda>_ _. True) sample_eta (snd (committed (eta_service ?rq sample_eta) sample_eta))"
    by (rule reached_request [OF reached_start]) simp
  then have re: "reached eta_service (\<lambda>_ _. True) sample_eta db" by (simp add: eta_service_def h)
  have legs: "\<exists>l. dget (et_legs db) ''A'' = Some l" and rows: "rows_of db ''A'' ''ETA'' \<noteq> []"
  proof -
    obtain leg plan outs db1 db2 where "dget (et_legs sample_eta) (vr_leg_id sample_delay) = Some leg"
      and db1: "db1 = add_version ''V'' (vr_shipment_id sample_delay) (vr_leg_id sample_delay) (py_upper (py_strip (vr_type sample_delay)))
        (vr_value sample_delay) (py_upper (py_strip (vr_source sample_delay))) (vr_reason sample_delay) (vr_recorded_by sample_delay) 0 sample_eta"
      and ap: "apply_cascade (\<lambda>_. ''V'') 1 sample_delay 0 plan db1 = (outs, db2)" and eq: "et_legs db = et_legs db2" "et_history db = et_history db2"
      by (rule record_version_steps [OF h]) (rule that)
    have k: "dkeys (et_legs db2) = dkeys (et_legs sample_eta)"
      using apply_cascade_store [OF _ ap] by (simp add: db1 add_version_store add_version_keys sample_eta_inv(2))
    then have "''A'' \<in> set (dkeys (et_legs db2))" by (simp only: k) (simp add: sample_eta_def)
    then show "\<exists>l. dget (et_legs db) ''A'' = Some l" unfolding eq by (metis map_of_eq_None_iff not_None_eq list.set_map)
    have "\<exists>h \<in> set (et_history db1). eh_leg_id h = ''A'' \<and> eh_type h = ''ETA''"
      by (simp add: db1 sample_delay_type sample_delay_def sample_delay_norm)
    then have "\<exists>h \<in> set (et_history db2). eh_leg_id h = ''A'' \<and> eh_type h = ''ETA''"
      using apply_cascade_grows [OF ap] by auto
    then show "rows_of db ''A'' ''ETA'' \<noteq> []" unfolding rows_of_def eq filter_empty_conv by blast
  qed
  then show ?thesis using eta_history_consistent [OF re sample_eta_inv(1), of "''A''" "''ETA''"] re by blast
qed

end
