(* ===== verification/Exceptions_Life.thy ===== *)
theory Exceptions_Life
  imports Exceptions Eta_Life
begin

text \<open>
  What the exception service guarantees: names resolve once, escalation grows with time and is never published,
  stored exceptions are well formed and keep their first times, and the summary counts them.
\<close>


section \<open>Taxonomy\<close>

lemma taxonomy_entries:
  "dget exception_taxonomy k = Some c \<Longrightarrow> etc_code c = k \<and> etc_domain c \<in> set valid_domains
     \<and> etc_default_severity c \<in> set valid_severities \<and> 0 < etc_sla_hours c"
proof -
  have "list_all (\<lambda>(k, c). etc_code c = k \<and> etc_domain c \<in> set valid_domains
     \<and> etc_default_severity c \<in> set valid_severities \<and> 0 < etc_sla_hours c) exception_taxonomy" by code_simp
  then show "dget exception_taxonomy k = Some c \<Longrightarrow> ?thesis" by (auto simp: list_all_iff dest: map_of_SomeD)
qed

lemma taxonomy_codes:
  "dget exception_taxonomy k = Some c \<Longrightarrow> py_upper (py_strip k) = k \<and> dget_or exception_aliases k k = k"
proof -
  have "list_all (\<lambda>(k, c). py_upper (py_strip k) = k \<and> dget_or exception_aliases k k = k) exception_taxonomy" by code_simp
  then show "dget exception_taxonomy k = Some c \<Longrightarrow> ?thesis" by (auto simp: list_all_iff dest: map_of_SomeD)
qed

text \<open>The code a name resolves to resolves to itself: aliases and spelling are gone after one resolution.\<close>

theorem resolution_idempotent:
  assumes "resolve_exception_type s = Some c"
  shows "resolve_exception_type (etc_code c) = Some c"
proof -
  let ?k = "dget_or exception_aliases (py_upper (py_strip s)) (py_upper (py_strip s))"
  have k: "dget exception_taxonomy ?k = Some c" using assms by (simp add: resolve_exception_type_def Let_def)
  have "etc_code c = ?k" "py_upper (py_strip ?k) = ?k" "dget_or exception_aliases ?k ?k = ?k"
    using taxonomy_entries [OF k] taxonomy_codes [OF k] by simp_all
  then show ?thesis using k by (simp add: resolve_exception_type_def Let_def)
qed

theorem resolution_idempotent_witness:
  "\<exists>c. resolve_exception_type '' loss '' = Some c \<and> etc_code c = ''CARGO_LOSS'' \<and> resolve_exception_type (etc_code c) = Some c"
proof -
  have h: "map_option etc_code (resolve_exception_type '' loss '') = Some ''CARGO_LOSS''" by code_simp
  then obtain c where c: "resolve_exception_type '' loss '' = Some c" "etc_code c = ''CARGO_LOSS''" by auto
  from resolution_idempotent [OF c(1)] c show ?thesis by blast
qed

section \<open>Escalations\<close>

lemma rule_if_set: "s \<in> set (rule_if b r t e v) \<longleftrightarrow> b \<and> s = \<lparr>es_rule_id = r, es_target = t, es_outbox_event = e, es_severity = v\<rparr>"
  by (auto simp: rule_if_def)

lemma rule_if_mono: "(b \<Longrightarrow> b') \<Longrightarrow> set (rule_if b r t e v) \<subseteq> set (rule_if b' r t e v)"
  by (auto simp: rule_if_set)

text \<open>Escalation only grows with time: every rule that fires for an unchanged exception fires at any later time.\<close>

theorem escalation_monotone:
  assumes "now \<le> later"
  shows "set (evaluate_exception_escalations ex now threshold) \<subseteq> set (evaluate_exception_escalations ex later threshold)"
proof (cases "ev_opened_at ex")
  case (Some opened)
  show ?thesis
    unfolding evaluate_exception_escalations_def Some option.case Let_def set_append
    by (insert assms, intro Un_mono rule_if_mono; (elim conjE)?; (intro conjI)?; (assumption | linarith))
qed (simp add: evaluate_exception_escalations_def)

definition sample_view :: exception_view where
  "sample_view = \<lparr>ev_exception_type = ''CARGO_LOSS'', ev_severity = ''CRITICAL'', ev_status = ''OPEN'', ev_owner_id = None,
     ev_financial_impact = 6000, ev_opened_at = Some 0, ev_acknowledged_at = None\<rparr>"

theorem escalation_monotone_witness:
  "set (evaluate_exception_escalations sample_view 0 5000) \<subseteq> set (evaluate_exception_escalations sample_view hour_us 5000)"
  by (rule escalation_monotone) (simp add: hour_us_def)

lemma escalations_at_opening:
  "s \<in> set (evaluate_exception_escalations (ex\<lparr>ev_opened_at := Some now\<rparr>) now threshold) \<Longrightarrow>
    es_outbox_event s = None \<and> es_rule_id s \<in> {''RULE_4_CRITICAL_UNRESOLVED'', ''RULE_5_HIGH_FINANCIAL_IMPACT''}"
proof -
  assume s: "s \<in> set (evaluate_exception_escalations (ex\<lparr>ev_opened_at := Some now\<rparr>) now threshold)"
  have "\<not> (case dget exception_taxonomy (py_upper (ev_exception_type ex)) of None \<Rightarrow> 24 | Some c \<Rightarrow> etc_sla_hours c) < 0"
    using taxonomy_entries by (fastforce split: option.splits)
  then show ?thesis using s by (auto simp: evaluate_exception_escalations_def Let_def rule_if_set hour_us_def)
qed

lemma publish_nothing: "(\<And>s. s \<in> set escs \<Longrightarrow> es_outbox_event s = None) \<Longrightarrow> publish_escalations e now escs rows = rows"
  by (induction escs arbitrary: rows) (simp_all add: publish_escalations_def)

lemma create_exception_effect:
  assumes "create_exception eid now q db = (Inr (e, escs), db')"
  obtains config where "resolve_exception_type (xr_exception_type q) = Some config" "se_exception_type e = etc_code config"
    "se_id e = eid" "se_tenant_id e = xr_tenant_id q" "se_shipment_id e = xr_shipment_id q" "se_status e = ''OPEN''"
    "se_severity e \<in> set valid_severities" "se_domain e \<in> set valid_domains" "se_opened_at e = now"
    "se_acknowledged_at e = None" "se_resolved_at e = None"
    "ex_exceptions db' = dset eid e (ex_exceptions db)" "ex_outbox db' = ex_outbox db" "ex_shipments db' = ex_shipments db"
    "exc_db.more db' = exc_db.more db"
proof -
  obtain config where c: "resolve_exception_type (xr_exception_type q) = Some config"
    using assms by (cases "resolve_exception_type (xr_exception_type q)") (simp_all add: create_exception_def)
  define sev where "sev = (if truthy (xr_severity q) then py_upper (the (xr_severity q)) else etc_default_severity config)"
  define dom where "dom = (if truthy (xr_domain q) then py_upper (the (xr_domain q)) else etc_domain config)"
  define v where "v = \<lparr>ev_exception_type = etc_code config, ev_severity = sev, ev_status = ''OPEN'', ev_owner_id = xr_owner_id q,
                   ev_financial_impact = xr_financial_impact q, ev_opened_at = Some now, ev_acknowledged_at = None\<rparr>"
  have "v = v\<lparr>ev_opened_at := Some now\<rparr>" by (simp add: v_def)
  then have pub: "publish_escalations e now (evaluate_exception_escalations v now 5000) rows = rows" for rows e
    by (intro publish_nothing) (metis escalations_at_opening)
  note h = assms [unfolded create_exception_def c option.case Let_def, folded sev_def dom_def, folded v_def]
  have ok: "sev \<in> set valid_severities" "dom \<in> set valid_domains" "xr_shipment_id q \<in> fst ` set (ex_shipments db)"
    using h by (simp_all split: if_splits)
  show thesis
    by (rule that [OF c]) (use h ok in \<open>auto simp: pub put_exception_def\<close>)
qed

lemma update_exception_effect:
  assumes "update_exception now i tenant actor u db = (Inr e', db')"
  obtains e where "dget (ex_exceptions db) i = Some e" "se_tenant_id e = tenant"
    "truthy (xu_status u) \<longrightarrow> py_upper (py_strip (the (xu_status u))) \<in> set valid_statuses"
    "e' = update_fields now u (if truthy (xu_status u) then set_exception_status now (py_upper (py_strip (the (xu_status u)))) e else e)"
    "ex_exceptions db' = dset (se_id e') e' (ex_exceptions db)" "ex_outbox db' = ex_outbox db" "ex_shipments db' = ex_shipments db"
    "exc_db.more db' = exc_db.more db"
proof -
  obtain e where e: "dget (ex_exceptions db) i = Some e"
    using assms by (cases "dget (ex_exceptions db) i") (simp_all add: update_exception_def)
  note h = assms [unfolded update_exception_def e option.case Let_def]
  have t: "se_tenant_id e = tenant" using h by (simp split: if_splits)
  have s: "truthy (xu_status u) \<longrightarrow> py_upper (py_strip (the (xu_status u))) \<in> set valid_statuses"
    using h t by (simp split: if_splits)
  show thesis by (rule that [OF e t s]) (use h s t in \<open>auto simp: put_exception_def\<close>)
qed

lemma set_status_simps [simp]:
  "se_id (set_exception_status now s e) = se_id e" "se_tenant_id (set_exception_status now s e) = se_tenant_id e"
  "se_shipment_id (set_exception_status now s e) = se_shipment_id e" "se_exception_type (set_exception_status now s e) = se_exception_type e"
  "se_severity (set_exception_status now s e) = se_severity e" "se_domain (set_exception_status now s e) = se_domain e"
  "se_opened_at (set_exception_status now s e) = se_opened_at e" "se_status (set_exception_status now s e) = s"
  by (simp_all add: set_exception_status_def Let_def)

lemma update_fields_simps [simp]:
  "se_id (update_fields now u e) = se_id e" "se_tenant_id (update_fields now u e) = se_tenant_id e"
  "se_shipment_id (update_fields now u e) = se_shipment_id e" "se_exception_type (update_fields now u e) = se_exception_type e"
  "se_severity (update_fields now u e) = se_severity e" "se_domain (update_fields now u e) = se_domain e"
  "se_opened_at (update_fields now u e) = se_opened_at e" "se_status (update_fields now u e) = se_status e"
  "se_resolved_at (update_fields now u e) = se_resolved_at e"
  by (simp_all add: update_fields_def set_exception_owner_def Let_def split: option.splits)

lemma acknowledged_kept:
  "se_acknowledged_at e = Some t \<Longrightarrow> se_acknowledged_at (set_exception_status now s e) = Some t"
  "se_acknowledged_at e = Some t \<Longrightarrow> se_acknowledged_at (update_fields now u e) = Some t"
  "se_resolved_at e = Some t \<Longrightarrow> se_resolved_at (set_exception_status now s e) = Some t"
  by (simp_all add: set_exception_status_def update_fields_def set_exception_owner_def Let_def split: option.splits)

lemma status_stamped:
  "s \<in> {''RESOLVED'', ''CLOSED''} \<Longrightarrow> se_resolved_at (set_exception_status now s e) \<noteq> None"
  "s = ''ACKNOWLEDGED'' \<Longrightarrow> se_acknowledged_at (set_exception_status now s e) \<noteq> None"
  by (auto simp: set_exception_status_def Let_def)

section \<open>The exceptions the endpoints reach\<close>

datatype exception_op =
    Raise_Exception string datetime exception_request
  | Update_Exception datetime string string string exception_update

fun exception_service :: "exception_op \<Rightarrow> 'a exc_db_scheme \<Rightarrow> shipment_exception res \<times> 'a exc_db_scheme" where
  "exception_service (Raise_Exception eid now q) db = (case create_exception eid now q db of (r, db') \<Rightarrow> (res_map fst r, db'))"
| "exception_service (Update_Exception now i tenant actor u) db = update_exception now i tenant actor u db"

text \<open>Identities are drawn new.\<close>

fun exception_ok :: "exception_op \<Rightarrow> 'a exc_db_scheme \<Rightarrow> bool" where
  "exception_ok (Raise_Exception eid now q) db = (eid \<notin> set (dkeys (ex_exceptions db)))"
| "exception_ok (Update_Exception now i tenant actor u) db = True"

definition exception_row_ok :: "shipment_exception \<Rightarrow> bool" where
  "exception_row_ok e \<longleftrightarrow> dget exception_taxonomy (se_exception_type e) \<noteq> None \<and> se_severity e \<in> set valid_severities
     \<and> se_domain e \<in> set valid_domains \<and> se_status e \<in> set valid_statuses
     \<and> (se_status e \<in> {''RESOLVED'', ''CLOSED''} \<longrightarrow> se_resolved_at e \<noteq> None)
     \<and> (se_status e = ''ACKNOWLEDGED'' \<longrightarrow> se_acknowledged_at e \<noteq> None)"

definition exceptions_inv :: "'a exc_db_scheme \<Rightarrow> bool" where
  "exceptions_inv db \<longleftrightarrow> store_inv se_id (ex_exceptions db) \<and> (\<forall>i e. dget (ex_exceptions db) i = Some e \<longrightarrow> exception_row_ok e)"

lemma exceptions_inv_put:
  assumes "exceptions_inv db" and "exception_row_ok e" and "ex_exceptions db' = dset (se_id e) e (ex_exceptions db)"
  shows "exceptions_inv db'"
  using assms by (auto simp: exceptions_inv_def dget_dset intro: store_inv_dset)

lemma resolved_in_taxonomy: "resolve_exception_type s = Some c \<Longrightarrow> dget exception_taxonomy (etc_code c) = Some c"
  using taxonomy_entries by (fastforce simp: resolve_exception_type_def Let_def)

lemma update_row_ok:
  assumes "exception_row_ok e" and "truthy st \<longrightarrow> py_upper (py_strip (the st)) \<in> set valid_statuses"
  shows "exception_row_ok (update_fields now u (if truthy st then set_exception_status now (py_upper (py_strip (the st))) e else e))"
proof -
  have "se_acknowledged_at (update_fields now u x) \<noteq> None" if "se_acknowledged_at x \<noteq> None" for x
    using that acknowledged_kept(2) by fastforce
  moreover have "se_status x = ''ACKNOWLEDGED'' \<longrightarrow> se_acknowledged_at x \<noteq> None"
    if "x = (if truthy st then set_exception_status now (py_upper (py_strip (the st))) e else e)" for x
    using that assms(1) status_stamped(2) by (simp add: exception_row_ok_def)
  ultimately show ?thesis
    using assms status_stamped(1) [of "py_upper (py_strip (the st))" now e] by (cases "truthy st") (simp_all add: exception_row_ok_def)
qed

lemma exception_service_inv:
  assumes "exceptions_inv db" and "exception_service r db = (Inr x, db')"
  shows "exceptions_inv db'"
proof (cases r)
  case (Raise_Exception eid now q)
  then obtain escs where c: "create_exception eid now q db = (Inr (x, escs), db')"
    using assms(2) by (auto simp: res_simps split: prod.splits)
  obtain config where f: "resolve_exception_type (xr_exception_type q) = Some config" "se_exception_type x = etc_code config" "se_id x = eid"
    "se_status x = ''OPEN''" "se_severity x \<in> set valid_severities" "se_domain x \<in> set valid_domains"
    "ex_exceptions db' = dset eid x (ex_exceptions db)"
    by (rule create_exception_effect [OF c]) (rule that)
  have ok: "exception_row_ok x" using f resolved_in_taxonomy [OF f(1)] by (simp add: exception_row_ok_def valid_statuses_def)
  show ?thesis by (rule exceptions_inv_put [OF assms(1) ok]) (simp only: f(3,7))
next
  case (Update_Exception now i tenant actor u)
  then have up: "update_exception now i tenant actor u db = (Inr x, db')" using assms(2) by simp
  obtain e where e: "dget (ex_exceptions db) i = Some e"
    "truthy (xu_status u) \<longrightarrow> py_upper (py_strip (the (xu_status u))) \<in> set valid_statuses"
    "x = update_fields now u (if truthy (xu_status u) then set_exception_status now (py_upper (py_strip (the (xu_status u)))) e else e)"
    "ex_exceptions db' = dset (se_id x) x (ex_exceptions db)"
    by (rule update_exception_effect [OF up]) (rule that)
  have "exception_row_ok e" using assms(1) e(1) by (simp add: exceptions_inv_def)
  then have "exception_row_ok x" unfolding e(3) using e(2) by (rule update_row_ok)
  then show ?thesis using exceptions_inv_put [OF assms(1)] e(4) by blast
qed

lemma exception_service_outbox: "exception_service r db = (Inr x, db') \<Longrightarrow> ex_outbox db' = ex_outbox db"
  by (cases r) (auto simp: res_simps split: prod.splits elim: create_exception_effect update_exception_effect)

interpretation exceptions: service_contract exception_service exception_ok exceptions_inv
  by unfold_locales (rule exception_service_inv)

interpretation silent: service_contract exception_service exception_ok "\<lambda>db. ex_outbox db = events"
  by unfold_locales (simp add: exception_service_outbox)

text \<open>C20: The exception endpoints keep the table well formed: after any sequence of their requests on a table of such
  rows, every exception has a type of the taxonomy and a valid severity, domain and status, and the time that its status
  stands for. This is about these requests only: the verification of a payable stores a row of another kind, which is
  shown next.\<close>

theorem exceptions_well_formed:
  assumes "reached exception_service exception_ok start db" and "exceptions_inv start" and "dget (ex_exceptions db) i = Some e"
  shows "dget exception_taxonomy (se_exception_type e) \<noteq> None \<and> se_severity e \<in> set valid_severities
    \<and> se_domain e \<in> set valid_domains \<and> se_status e \<in> set valid_statuses
    \<and> (se_status e \<in> {''RESOLVED'', ''CLOSED''} \<longrightarrow> se_resolved_at e \<noteq> None)
    \<and> (se_status e = ''ACKNOWLEDGED'' \<longrightarrow> se_acknowledged_at e \<noteq> None)"
  using exceptions.reached_inv [OF assms(1,2)] assms(3) by (auto simp: exceptions_inv_def exception_row_ok_def)

text \<open>The payables service writes an exception itself, without the taxonomy: a bill with a variance that passes its
  verification leaves a row whose type the exception service does not know and whose domain it would refuse.\<close>

theorem payables_bypass_taxonomy:
  assumes "verify_payable env now pid tid actor allow nts db = (Inr d, db')"
    and "dget (ap_payables db) pid = Some p" and "pay_variance_amount p \<noteq> 0"
  shows "\<exists>x. ap_exceptions db' = ap_exceptions db @ [x] \<and> sx_shipment_id x = pay_shipment_id p
    \<and> resolve_exception_type (sx_exception_type x) = None \<and> dget exception_taxonomy (sx_exception_type x) = None
    \<and> sx_domain x \<notin> set valid_domains"
proof -
  have u: "resolve_exception_type ''COST_VARIANCE'' = None \<and> dget exception_taxonomy ''COST_VARIANCE'' = None
    \<and> ''FINANCIAL'' \<notin> set valid_domains" by code_simp
  have "ap_exceptions db' = ap_exceptions db @ [cost_variance_exception env p tid now]"
    using assms by (auto simp: verify_payable_def find_payable_Inr Let_def put_payable_def audit_payable_def advance_costs_def
        split: sum.splits prod.splits if_splits)
  then show ?thesis using u by (simp add: cost_variance_exception_def)
qed

text \<open>No request of the exception endpoints publishes an event: escalations are evaluated only when an exception is
  opened, when no time has passed, so the events of the rules that wait never come.\<close>

theorem escalations_never_published:
  assumes "reached exception_service exception_ok start db"
  shows "ex_outbox db = ex_outbox start"
  using silent.reached_inv [OF assms refl] .

definition same_exception :: "shipment_exception \<Rightarrow> shipment_exception \<Rightarrow> bool" where
  "same_exception e e' \<longleftrightarrow> se_id e' = se_id e \<and> se_tenant_id e' = se_tenant_id e \<and> se_shipment_id e' = se_shipment_id e
     \<and> se_exception_type e' = se_exception_type e \<and> se_severity e' = se_severity e \<and> se_domain e' = se_domain e
     \<and> se_opened_at e' = se_opened_at e \<and> (\<forall>t. se_resolved_at e = Some t \<longrightarrow> se_resolved_at e' = Some t)
     \<and> (\<forall>t. se_acknowledged_at e = Some t \<longrightarrow> se_acknowledged_at e' = Some t)"

lemma update_same: "same_exception e (update_fields now u (if b then set_exception_status now s e else e))"
  by (auto simp: same_exception_def acknowledged_kept)

lemma same_exception_trans: "same_exception a b \<Longrightarrow> same_exception b c \<Longrightarrow> same_exception a c"
  by (simp add: same_exception_def)

lemma exception_service_same:
  assumes "exceptions_inv db" and "exception_ok r db" and "exception_service r db = (Inr x, db')" and "dget (ex_exceptions db) i = Some e"
  shows "\<exists>e'. dget (ex_exceptions db') i = Some e' \<and> same_exception e e'"
proof (cases r)
  case (Raise_Exception eid now q)
  then obtain escs where c: "create_exception eid now q db = (Inr (x, escs), db')"
    using assms(3) by (auto simp: res_simps split: prod.splits)
  obtain config where "resolve_exception_type (xr_exception_type q) = Some config"
    and "ex_exceptions db' = dset eid x (ex_exceptions db)" by (rule create_exception_effect [OF c]) (rule that)
  moreover have "dget (ex_exceptions db) eid = None" using assms(2) Raise_Exception by (simp add: map_of_eq_None_iff)
  then have "i \<noteq> eid" using assms(4) by auto
  ultimately show ?thesis using assms(4) by (simp add: dget_dset same_exception_def)
next
  case (Update_Exception now j tenant actor u)
  then have up: "update_exception now j tenant actor u db = (Inr x, db')" using assms(3) by simp
  obtain e0 where e0: "dget (ex_exceptions db) j = Some e0"
    "x = update_fields now u (if truthy (xu_status u) then set_exception_status now (py_upper (py_strip (the (xu_status u)))) e0 else e0)"
    "ex_exceptions db' = dset (se_id x) x (ex_exceptions db)"
    by (rule update_exception_effect [OF up]) (rule that)
  have s: "same_exception e0 x" unfolding e0(2) by (rule update_same)
  have "store_inv se_id (ex_exceptions db)" using assms(1) by (simp only: exceptions_inv_def)
  from store_find_key [OF this e0(1)] have j: "se_id e0 = j" .
  with s have k: "se_id x = j" by (simp add: same_exception_def)
  show ?thesis
  proof (cases "i = j")
    case True
    then have "e = e0" using assms(4) e0(1) by simp
    then show ?thesis using s True by (simp add: e0(3) dget_dset k)
  next
    case False
    then show ?thesis using assms(4) by (simp add: e0(3) dget_dset k same_exception_def)
  qed
qed

text \<open>No update changes what an exception is about, when it was opened, or the time it was first acknowledged or
  resolved: reopening an exception does not clear its time of resolution, and resolving it again keeps the
  first.\<close>

theorem exception_times_set_once:
  assumes "reached exception_service exception_ok start db" and "exceptions_inv start" and "dget (ex_exceptions start) i = Some e"
  shows "\<exists>e'. dget (ex_exceptions db) i = Some e' \<and> same_exception e e'"
  using assms
proof (induction rule: reached.induct)
  case reached_start
  then show ?case by (simp add: same_exception_def)
next
  case (reached_request db r)
  then obtain e1 where e1: "dget (ex_exceptions db) i = Some e1" "same_exception e e1" by blast
  have inv: "exceptions_inv db" by (rule exceptions.reached_inv [OF reached_request.hyps(1) reached_request.prems(1)])
  from committed_cases [of "exception_service r db" db] show ?case
  proof
    assume "snd (committed (exception_service r db) db) = db"
    then show ?thesis using e1 by simp
  next
    assume "\<exists>x. exception_service r db = (Inr x, snd (committed (exception_service r db) db))"
    then obtain x where "exception_service r db = (Inr x, snd (committed (exception_service r db) db))" ..
    from exception_service_same [OF inv reached_request.hyps(2) this e1(1)] e1(2) show ?thesis
      by (meson same_exception_trans)
  qed
qed

section \<open>The summary\<close>

lemma count_dset:
  "sum_list (map snd (filter (\<lambda>p. P (fst p)) (dset k (dget_or d k 0 + 1) d))) =
    sum_list (map snd (filter (\<lambda>p. P (fst p)) d)) + (if P k then 1 else (0::nat))"
  by (induction d) (auto simp: dget_or_def)

lemma group_count_snoc: "group_count f (rows @ [e]) = dset (f e) (dget_or (group_count f rows) (f e) 0 + 1) (group_count f rows)"
  by (simp add: group_count_def)

lemma group_count_sum:
  "sum_list (map snd (filter (\<lambda>p. P (fst p)) (group_count f rows))) = length (filter (\<lambda>e. P (f e)) rows)"
proof (induction rows rule: rev_induct)
  case Nil
  then show ?case by (simp add: group_count_def)
next
  case (snoc e rows)
  then show ?case by (simp add: group_count_snoc count_dset del: One_nat_def Suc_eq_plus1 add_Suc_right)
qed

lemma group_count_get: "dget_or (group_count f rows) k 0 = length (filter (\<lambda>e. f e = k) rows)"
proof (induction rows rule: rev_induct)
  case Nil
  then show ?case by (simp add: group_count_def dget_or_def)
next
  case (snoc e rows)
  then show ?case by (auto simp: group_count_snoc dget_or_dset)
qed

text \<open>The summary of a tenant counts its exceptions: the open ones are those in an active status, the critical ones
  all of that severity, resolved or not, and each grouping adds up to all exceptions of the tenant.\<close>

theorem summary_counts:
  "sm_total_open (get_summary env db tenant) = length (filter (\<lambda>e. se_status e \<in> set active_statuses) (tenant_exceptions db tenant))
   \<and> sm_total_critical (get_summary env db tenant) = length (filter (\<lambda>e. se_severity e = ''CRITICAL'') (tenant_exceptions db tenant))
   \<and> sum_list (map snd (sm_by_status (get_summary env db tenant))) = length (tenant_exceptions db tenant)
   \<and> sum_list (map snd (sm_by_severity (get_summary env db tenant))) = length (tenant_exceptions db tenant)
   \<and> sum_list (map snd (sm_by_domain (get_summary env db tenant))) = length (tenant_exceptions db tenant)"
  using group_count_sum [of "\<lambda>_. True" se_status "tenant_exceptions db tenant"]
    group_count_sum [of "\<lambda>_. True" se_severity "tenant_exceptions db tenant"]
    group_count_sum [of "\<lambda>_. True" se_domain "tenant_exceptions db tenant"]
  by (simp add: get_summary_def Let_def group_count_sum [of "\<lambda>x. x \<in> set active_statuses"] group_count_get)

section \<open>A worked exception\<close>

definition sample_exc :: exc_db where
  "sample_exc = \<lparr>ex_shipments = [(''S'', ''T'')], ex_exceptions = [], ex_outbox = [], ex_audit = []\<rparr>"

definition sample_loss :: exception_request where
  "sample_loss = \<lparr>xr_shipment_id = ''S'', xr_tenant_id = ''T'', xr_exception_type = '' loss '', xr_description = ''two pallets'',
     xr_severity = None, xr_domain = None, xr_financial_impact = 6000, xr_owner_id = None, xr_actor_id = Some ''U''\<rparr>"

lemma sample_exc_inv: "exceptions_inv sample_exc"
  by (simp add: exceptions_inv_def sample_exc_def)

lemma sample_created: "\<exists>e escs db. create_exception ''E'' now sample_loss sample_exc = (Inr (e, escs), db)"
proof -
  have "map_option (\<lambda>c. (etc_default_severity c, etc_domain c)) (resolve_exception_type '' loss '') = Some (''CRITICAL'', ''OPERATIONAL'')"
    by code_simp
  then obtain c where "resolve_exception_type '' loss '' = Some c" "etc_default_severity c = ''CRITICAL''" "etc_domain c = ''OPERATIONAL''"
    by auto
  then show ?thesis
    by (simp add: create_exception_def sample_loss_def sample_exc_def Let_def truthy_def valid_severities_def valid_domains_def)
qed

lemma sample_exception_reached:
  obtains db e where "reached exception_service exception_ok sample_exc db" "dget (ex_exceptions db) ''E'' = Some e"
    "se_status e = ''OPEN''" "exceptions_inv db"
proof -
  obtain e escs db where c: "create_exception ''E'' 0 sample_loss sample_exc = (Inr (e, escs), db)" using sample_created by blast
  have "reached exception_service exception_ok sample_exc
    (snd (committed (exception_service (Raise_Exception ''E'' 0 sample_loss) sample_exc) sample_exc))"
    by (rule reached_request [OF reached_start]) (simp add: sample_exc_def)
  then have r: "reached exception_service exception_ok sample_exc db" by (simp add: c)
  obtain config where "resolve_exception_type (xr_exception_type sample_loss) = Some config" and e: "se_status e = ''OPEN''"
    "ex_exceptions db = dset ''E'' e (ex_exceptions sample_exc)" by (rule create_exception_effect [OF c]) (rule that)
  have "dget (ex_exceptions db) ''E'' = Some e" by (simp add: e(2) dget_dset)
  from that [OF r this e(1) exceptions.reached_inv [OF r sample_exc_inv]] show thesis .
qed

theorem exceptions_well_formed_witness:
  "\<exists>db e. reached exception_service exception_ok sample_exc db \<and> dget (ex_exceptions db) ''E'' = Some e
    \<and> dget exception_taxonomy (se_exception_type e) \<noteq> None"
proof -
  obtain db e where h: "reached exception_service exception_ok sample_exc db" "dget (ex_exceptions db) ''E'' = Some e"
    by (rule sample_exception_reached)
  from exceptions_well_formed [OF h(1) sample_exc_inv h(2)] h show ?thesis by blast
qed

theorem escalations_never_published_witness:
  "\<exists>db e. reached exception_service exception_ok sample_exc db \<and> dget (ex_exceptions db) ''E'' = Some e \<and> ex_outbox db = []"
proof -
  obtain db e where h: "reached exception_service exception_ok sample_exc db" "dget (ex_exceptions db) ''E'' = Some e"
    by (rule sample_exception_reached)
  from escalations_never_published [OF h(1)] h show ?thesis by (auto simp: sample_exc_def)
qed

definition with_status :: "string \<Rightarrow> exception_update" where
  "with_status s = \<lparr>xu_status = Some s, xu_owner_id = None, xu_resolution_notes = None, xu_financial_impact = None\<rparr>"

definition resolved_exc :: "shipment_exception \<Rightarrow> exc_db" where
  "resolved_exc e = \<lparr>ex_shipments = [(''S'', ''T'')], ex_exceptions = [(''E'', e)], ex_outbox = [], ex_audit = []\<rparr>"

definition sample_resolved :: shipment_exception where
  "sample_resolved = \<lparr>se_id = ''E'', se_tenant_id = ''T'', se_shipment_id = ''S'', se_exception_type = ''CARGO_LOSS'',
     se_severity = ''CRITICAL'', se_domain = ''OPERATIONAL'', se_status = ''RESOLVED'', se_description = ''two pallets'',
     se_financial_impact = 6000, se_owner_id = None, se_opened_at = 0, se_acknowledged_at = None, se_resolved_at = Some 5,
     se_resolution_notes = None\<rparr>"

lemma sample_reopened:
  "\<exists>db e. reached exception_service exception_ok (resolved_exc sample_resolved) db \<and> dget (ex_exceptions db) ''E'' = Some e \<and> se_status e = ''OPEN''"
proof -
  let ?db = "resolved_exc sample_resolved"
  have norm: "py_upper (py_strip ''open'') = ''OPEN''" by code_simp
  have "\<exists>e db. update_exception 9 ''E'' ''T'' ''U'' (with_status ''open'') ?db = (Inr e, db) \<and> se_id e = ''E'' \<and> se_status e = ''OPEN''"
    by (simp add: update_exception_def resolved_exc_def with_status_def sample_resolved_def Let_def truthy_def norm valid_statuses_def)
  then obtain e db where u: "update_exception 9 ''E'' ''T'' ''U'' (with_status ''open'') ?db = (Inr e, db)" "se_id e = ''E''" "se_status e = ''OPEN''"
    by blast
  obtain e0 where "dget (ex_exceptions ?db) ''E'' = Some e0" and ex: "ex_exceptions db = dset (se_id e) e (ex_exceptions ?db)"
    by (rule update_exception_effect [OF u(1)]) (rule that)
  have "reached exception_service exception_ok ?db
    (snd (committed (exception_service (Update_Exception 9 ''E'' ''T'' ''U'' (with_status ''open'')) ?db) ?db))"
    by (rule reached_request [OF reached_start]) simp
  then have "reached exception_service exception_ok ?db db" by (simp add: u(1))
  then show ?thesis using u ex by (intro exI [of _ db] exI [of _ e]) (simp add: dget_dset)
qed

theorem exception_times_set_once_witness:
  "\<exists>db e. reached exception_service exception_ok (resolved_exc sample_resolved) db \<and> dget (ex_exceptions db) ''E'' = Some e
    \<and> se_status e = ''OPEN'' \<and> se_resolved_at e = Some 5"
proof -
  obtain db e where h: "reached exception_service exception_ok (resolved_exc sample_resolved) db" "dget (ex_exceptions db) ''E'' = Some e"
    "se_status e = ''OPEN''" using sample_reopened by blast
  have "dget exception_taxonomy ''CARGO_LOSS'' \<noteq> None" by code_simp
  then have inv: "exceptions_inv (resolved_exc sample_resolved)"
    by (auto simp: exceptions_inv_def resolved_exc_def sample_resolved_def store_inv_def exception_row_ok_def valid_severities_def
        valid_domains_def valid_statuses_def)
  have get: "dget (ex_exceptions (resolved_exc sample_resolved)) ''E'' = Some sample_resolved" by (simp add: resolved_exc_def)
  from exception_times_set_once [OF h(1) inv get] h show ?thesis
    by (auto simp: same_exception_def sample_resolved_def)
qed

end
