(* ===== verification/Financial_Life.thy ===== *)
theory Financial_Life
  imports Financial Exceptions_Life
begin

text \<open>
  What the financial profile of a shipment guarantees: profit in exact cents, one open exception exactly while it
  is negative, reversals that cancel, and what sharing the exceptions of cargo loss does.
\<close>


section \<open>The built-in sum of amounts in cents\<close>

text \<open>The compensation of one addition is within three rounding errors of zero.\<close>

lemma comp_error:
  assumes "\<bar>f + x\<bar> \<le> 10 ^ 10 + 1" and "\<bar>x\<bar> \<le> 10 ^ 10 + 1 - 1 / 2 ^ 20"
  shows "\<bar>fadd (fsub f (fadd f x)) x\<bar> \<le> 3 / 2 ^ 20"
proof -
  define t where "t = rnd (f + x)"
  have t: "\<bar>t - (f + x)\<bar> \<le> 1 / 2 ^ 20" unfolding t_def using assms(1) by (rule rnd_error_small)
  then have "\<bar>f - t\<bar> \<le> 10 ^ 10 + 1" using assms(2) by linarith
  then have u: "\<bar>rnd (f - t) - (f - t)\<bar> \<le> 1 / 2 ^ 20" by (rule rnd_error_small)
  define z where "z = rnd (f - t) + x"
  have z: "\<bar>z\<bar> \<le> 2 / 2 ^ 20" unfolding z_def using t u by linarith
  then have "\<bar>z\<bar> \<le> 10 ^ 10 + 1" by simp
  then have "\<bar>rnd z - z\<bar> \<le> 1 / 2 ^ 20" by (rule rnd_error_small)
  then have "\<bar>rnd z\<bar> \<le> 3 / 2 ^ 20" using z by linarith
  then show ?thesis by (simp only: fadd_def fsub_def t_def z_def)
qed

lemma near_bound: "near n x k \<Longrightarrow> \<bar>x\<bar> \<le> 10 ^ 10 + of_nat n / 2 ^ 20"
proof -
  assume a: "near n x k"
  have "\<bar>k\<bar> \<le> 10 ^ 12" using a by (simp add: near_def money_bound_def)
  then have "of_int \<bar>k\<bar> \<le> (of_int (10 ^ 12) :: rat)" by (simp only: of_int_le_iff)
  then have "\<bar>of_int k / 100 :: rat\<bar> \<le> 10 ^ 10" by simp
  moreover from a have "\<bar>x - of_int k / 100\<bar> \<le> of_nat n / 2 ^ 20" by (simp only: near_def)
  ultimately show ?thesis by linarith
qed

lemma near_fsum:
  "near m f k \<Longrightarrow> \<bar>c\<bar> \<le> of_nat d / 2 ^ 20 \<Longrightarrow> \<bar>k\<bar> + sum_list (map abs ks) \<le> money_bound \<Longrightarrow>
    m + d + 6 * length ks + 1 \<le> 2 ^ 20 \<Longrightarrow>
    near (m + d + 6 * length ks + 1) (fsum_from f c (map cent ks)) (k + sum_list ks)"
proof (induction ks arbitrary: m d f c k)
  case Nil
  have "\<bar>(f + c) - of_int k / 100\<bar> \<le> of_nat m / 2 ^ 20 + of_nat d / 2 ^ 20"
    using Nil.prems(1,2) unfolding near_def by linarith
  then have "\<bar>(f + c) - of_int k / 100\<bar> \<le> of_nat (m + d) / 2 ^ 20" by (simp only: of_nat_add add_divide_distrib)
  then have "near (Suc (m + d)) (fadd f c) k"
    unfolding fadd_def using Nil.prems(1,4) by (intro near_rnd) (simp_all add: near_def)
  then show ?case using near_mono [OF Nil.prems(1), of "m + d + 1"] by simp
next
  case (Cons a ks)
  let ?x = "cent a"
  let ?t = "fadd f ?x"
  have nn: "0 \<le> sum_list (map abs ks)" by (induction ks) auto
  have b: "\<bar>a\<bar> \<le> money_bound" "\<bar>k + a\<bar> \<le> money_bound" "\<bar>k + a\<bar> + sum_list (map abs ks) \<le> money_bound"
    using Cons.prems(3) nn abs_triangle_ineq [of k a] by simp_all
  have m: "m + 1 \<le> 2 ^ 20" using Cons.prems(4) by simp
  have nx: "near 1 ?x a" using b(1) by (rule near_cent)
  have nt: "near (m + 2) ?t (k + a)" using near_add [OF Cons.prems(1) nx b(2) m] by (simp add: numeral_2_eq_2)
  have "\<bar>(f + ?x) - of_int (k + a) / 100\<bar> \<le> of_nat (m + 1) / 2 ^ 20"
    by (rule near_add_aux) (use Cons.prems(1) nx in \<open>simp_all only: near_def simp_thms\<close>)
  then have "near (m + 1) (f + ?x) (k + a)" using b(2) by (simp only: near_def simp_thms)
  then have sum: "\<bar>f + ?x\<bar> \<le> 10 ^ 10 + 1" using m by (rule near_le)
  have "(of_nat (m + 1) :: rat) \<le> of_nat (2 ^ 20)" using m by (simp only: of_nat_le_iff)
  then have m1: "of_nat m / 2 ^ 20 \<le> (1 - 1 / 2 ^ 20 :: rat)" by (simp add: field_simps)
  have f: "\<bar>f\<bar> \<le> 10 ^ 10 + 1 - 1 / 2 ^ 20" using near_bound [OF Cons.prems(1)] m1 by linarith
  have x: "\<bar>?x\<bar> \<le> 10 ^ 10 + 1 - 1 / 2 ^ 20" using near_bound [OF nx] by simp
  have e1: "\<bar>fadd (fsub f ?t) ?x\<bar> \<le> 3 / 2 ^ 20" using sum x by (rule comp_error)
  have e2: "\<bar>fadd (fsub ?x ?t) f\<bar> \<le> 3 / 2 ^ 20"
    using comp_error [of ?x f] sum f by (simp add: fadd_def add.commute)
  have cn: "\<bar>fadd c e\<bar> \<le> of_nat (d + 4) / 2 ^ 20" if e: "\<bar>e\<bar> \<le> 3 / 2 ^ 20" for e
  proof -
    have "(of_nat d :: rat) \<le> of_nat (2 ^ 20)" using Cons.prems(4) by (simp only: of_nat_le_iff)
    then have "of_nat d / 2 ^ 20 \<le> (1 :: rat)" by simp
    then have "\<bar>c\<bar> \<le> 1" using Cons.prems(2) by linarith
    moreover have "\<bar>e\<bar> \<le> 1" using e by simp
    ultimately have "\<bar>c + e\<bar> \<le> 2" by linarith
    then have "\<bar>c + e\<bar> \<le> 10 ^ 10 + 1" by simp
    then have "\<bar>rnd (c + e) - (c + e)\<bar> \<le> 1 / 2 ^ 20" by (rule rnd_error_small)
    moreover have "of_nat (d + 4) / 2 ^ 20 = of_nat d / 2 ^ 20 + (4 / 2 ^ 20 :: rat)" by (simp add: add_divide_distrib)
    ultimately show ?thesis using Cons.prems(2) e unfolding fadd_def by linarith
  qed
  let ?c = "if \<bar>?x\<bar> \<le> \<bar>f\<bar> then fadd c (fadd (fsub f ?t) ?x) else fadd c (fadd (fsub ?x ?t) f)"
  have c': "\<bar>?c\<bar> \<le> of_nat (d + 4) / 2 ^ 20" using cn [OF e1] cn [OF e2] by simp
  have "near (m + 2 + (d + 4) + 6 * length ks + 1) (fsum_from ?t ?c (map cent ks)) (k + a + sum_list ks)"
    by (rule Cons.IH [OF nt c' b(3)]) (use Cons.prems(4) in simp)
  moreover have "m + 2 + (d + 4) + 6 * length ks + 1 = m + d + 6 * length (a # ks) + 1" by simp
  moreover have "fsum_from ?t ?c (map cent ks) = fsum_from f c (map cent (a # ks))" by (simp only: list.map fsum_from.simps Let_def)
  moreover have "k + a + sum_list ks = k + sum_list (a # ks)" by simp
  ultimately show ?case by (simp only:)
qed

lemma near_py_sum:
  assumes "sum_list (map abs ks) \<le> money_bound" and "6 * length ks + 2 \<le> 2 ^ 20"
  shows "near (6 * length ks + 2) (py_sum (map cent ks)) (sum_list ks)"
proof (cases ks)
  case (Cons a as)
  have nn: "0 \<le> sum_list (map abs as)" by (induction as) auto
  then have a: "\<bar>a\<bar> \<le> money_bound" using assms(1) by (simp add: Cons)
  have "near (1 + 0 + 6 * length as + 1) (fsum_from (cent a) 0 (map cent as)) (a + sum_list as)"
    by (rule near_fsum [OF near_cent [OF a]]) (use assms in \<open>simp_all add: Cons\<close>)
  then have "near (6 * length as + 2) (py_sum (map cent ks)) (sum_list ks)" by (simp add: py_sum_def Cons)
  then show ?thesis by (rule near_mono) (simp add: Cons)
qed (simp add: near_0)

section \<open>Profit in cents\<close>

text \<open>A ledger whose amounts are non-negative numbers of cents that add up to at most the bound.\<close>

definition cents_ledger :: "'a revenue_entry_scheme list \<Rightarrow> bool" where
  "cents_ledger ls \<longleftrightarrow> (\<forall>l \<in> set ls. 0 \<le> cents_of (ll_amount l) \<and> ll_amount l = cent (cents_of (ll_amount l)))
     \<and> sum_list (map (\<lambda>l. cents_of (ll_amount l)) ls) \<le> money_bound \<and> length ls \<le> 400"

definition total_cents :: "('a revenue_entry_scheme \<Rightarrow> bool) \<Rightarrow> 'a revenue_entry_scheme list \<Rightarrow> int" where
  "total_cents P ls = sum_list (map (\<lambda>l. cents_of (ll_amount l)) (filter P ls))"

lemma total_bounds:
  assumes "cents_ledger ls"
  shows "0 \<le> total_cents P ls" "total_cents P ls \<le> money_bound"
proof -
  have "0 \<le> total_cents P ls \<and> total_cents P ls \<le> sum_list (map (\<lambda>l. cents_of (ll_amount l)) ls)"
    if "\<forall>l \<in> set ls. 0 \<le> cents_of (ll_amount l)" using that
    by (induction ls) (auto simp: total_cents_def)
  then show "0 \<le> total_cents P ls" "total_cents P ls \<le> money_bound" using assms by (auto simp: cents_ledger_def)
qed

lemma near_sum_amounts:
  assumes "cents_ledger ls"
  shows "near 2402 (sum_amounts P ls) (total_cents P ls)"
proof -
  let ?ks = "map (\<lambda>l. cents_of (ll_amount l)) (filter P ls)"
  have amounts: "map ll_amount (filter P ls) = map cent ?ks" using assms by (auto simp: cents_ledger_def)
  have "map abs ?ks = ?ks" using assms by (auto simp: cents_ledger_def)
  then have abs: "sum_list (map abs ?ks) \<le> money_bound" using total_bounds(2) [OF assms, of P] by (simp only: total_cents_def)
  have "length ls \<le> 400" using assms by (simp add: cents_ledger_def)
  then have len: "length ?ks \<le> 400" unfolding length_map using length_filter_le [of P ls] by linarith
  have "near (6 * length ?ks + 2) (py_sum (map cent ?ks)) (sum_list ?ks)" by (rule near_py_sum [OF abs]) (use len in simp)
  then have "near 2402 (py_sum (map cent ?ks)) (sum_list ?ks)" by (rule near_mono) (use len in simp)
  then show ?thesis by (simp only: sum_amounts_def total_cents_def amounts)
qed

lemma round_sum_amounts: "cents_ledger ls \<Longrightarrow> py_round 2 (sum_amounts P ls) = cent (total_cents P ls)"
  by (rule near_round [OF near_sum_amounts]) simp_all

abbreviation quoted_revenue_line :: "revenue_entry \<Rightarrow> bool" where
  "quoted_revenue_line r \<equiv> \<not> ll_is_additional r \<or> ll_status r \<in> {''QUOTED'', ''INVOICED'', ''PAID''}"

abbreviation actual_revenue_line :: "revenue_entry \<Rightarrow> bool" where
  "actual_revenue_line r \<equiv> ll_status r \<in> {''INVOICED'', ''PAID''}"

abbreviation actual_cost_line :: "cost_entry \<Rightarrow> bool" where
  "actual_cost_line c \<equiv> ll_status c \<in> {''BILLED'', ''VERIFIED'', ''APPROVED'', ''PAID''}"

lemma round_profit:
  assumes "cents_ledger rs" and "cents_ledger cs"
  shows "py_round 2 (fsub (sum_amounts (\<lambda>_. True) rs) (sum_amounts (\<lambda>_. True) cs)) = cent (total_cents (\<lambda>_. True) rs - total_cents (\<lambda>_. True) cs)"
proof (rule near_round [OF near_sub [OF near_sum_amounts near_sum_amounts]])
  show "\<bar>total_cents (\<lambda>_. True) rs - total_cents (\<lambda>_. True) cs\<bar> \<le> money_bound"
    using total_bounds [OF assms(1), of "\<lambda>_. True"] total_bounds [OF assms(2), of "\<lambda>_. True"] by linarith
qed (use assms in simp_all)

text \<open>C12: For ledgers whose amounts are in whole cents the profitability of a shipment is exact: with at most 400 lines
  of revenue and 400 of cost, each amount a non-negative number of cents and each side adding up to at most
  \<open>money_bound\<close> (this is \<open>cents_ledger\<close>; the columns, \<open>Numeric(18, 4)\<close>, would hold finer amounts), the totals the float
  arithmetic gives are those of exact decimal arithmetic, and the profit is negative exactly when the costs
  exceed the revenue by a cent or more. The currencies of the lines are not looked at.\<close>

theorem profitability_exact:
  assumes "cents_ledger (revenue_of db sid)" and "cents_ledger (costs_of db sid)"
    and "get_profitability db sid tid = Inr p"
  shows "pf_gross_revenue p = cent (total_cents (\<lambda>_. True) (revenue_of db sid))
    \<and> pf_direct_cost p = cent (total_cents (\<lambda>_. True) (costs_of db sid))
    \<and> pf_gross_profit p = cent (total_cents (\<lambda>_. True) (revenue_of db sid) - total_cents (\<lambda>_. True) (costs_of db sid))
    \<and> pf_quoted_revenue p = cent (total_cents quoted_revenue_line (revenue_of db sid))
    \<and> pf_actual_revenue p = cent (total_cents actual_revenue_line (revenue_of db sid))
    \<and> pf_quoted_cost p = cent (total_cents (\<lambda>c. \<not> ll_is_additional c) (costs_of db sid))
    \<and> pf_actual_cost p = cent (total_cents actual_cost_line (costs_of db sid))
    \<and> (pf_gross_profit p < 0 \<longleftrightarrow> total_cents (\<lambda>_. True) (revenue_of db sid) < total_cents (\<lambda>_. True) (costs_of db sid))"
proof -
  have p: "p = profit_of (revenue_of db sid) (costs_of db sid)"
    using assms(3) by (auto simp: get_profitability_def tenant_shipment_def split: if_splits)
  let ?R = "total_cents (\<lambda>_. True) (revenue_of db sid)"
  let ?C = "total_cents (\<lambda>_. True) (costs_of db sid)"
  have "\<bar>?R - ?C\<bar> \<le> money_bound"
    using total_bounds [OF assms(1), of "\<lambda>_. True"] total_bounds [OF assms(2), of "\<lambda>_. True"] by linarith
  then have "cent (?R - ?C) < 0 \<longleftrightarrow> ?R < ?C" using cent_less_iff [of "?R - ?C" 0] by (simp add: money_bound_def)
  then show ?thesis
    by (simp add: p profit_of_def Let_def round_sum_amounts [OF assms(1)] round_sum_amounts [OF assms(2)] round_profit [OF assms(1,2)])
qed

text \<open>With amounts below a cent the sign is lost: a revenue of 0.001 against a cost of 0.005 is a loss that is reported
  as a profit of zero.\<close>

theorem loss_below_a_cent_unseen:
  assumes "ll_amount r = flit (1 / 1000)" and "ll_amount c = flit (5 / 1000)"
  shows "ll_amount r < ll_amount c \<and> pf_gross_profit (profit_of [r] [c]) = 0"
proof -
  have "flit (1 / 1000) < flit (5 / 1000) \<and>
      py_round 2 (fsub (py_sum [flit (1 / 1000)]) (py_sum [flit (5 / 1000)])) = 0" by code_simp
  then show ?thesis using assms by (simp add: profit_of_def Let_def sum_amounts_def)
qed

section \<open>The exception for a negative margin\<close>

lemma dvalues_update:
  assumes "store_inv key d" and "key e = k" and "k \<in> set (dkeys d)"
  shows "dvalues (dset k v d) = map (\<lambda>x. if key x = k then v else x) (dvalues d)"
proof -
  have "dvalues (dset k v d) = map (\<lambda>p. if fst p = k then v else snd p) d" if "distinct (dkeys d)" "k \<in> set (dkeys d)" for d :: "('b, 'a) dict"
    using that
  proof (induction d)
    case (Cons p d)
    show ?case
    proof (cases "fst p = k")
      case True
      then have "\<forall>x \<in> set d. fst x \<noteq> k" using Cons.prems(1) by (auto simp: image_iff)
      then show ?thesis using True by (cases p) simp
    next
      case False
      then show ?thesis using Cons by (cases p) simp
    qed
  qed simp
  moreover have "map (\<lambda>p. if fst p = k then v else snd p) d = map (\<lambda>x. if key x = k then v else x) (dvalues d)"
    using assms(1) by (auto simp: store_inv_def)
  ultimately show ?thesis using assms by (simp add: store_inv_def)
qed

lemma dvalues_fresh: "k \<notin> set (dkeys d) \<Longrightarrow> dvalues (dset k v d) = dvalues d @ [v]"
  by (induction d) auto

lemma filter_replace:
  assumes "filter P xs = [e]" and "distinct (map key xs)" and "key e = k"
  shows "filter P (map (\<lambda>x. if key x = k then v else x) xs) = (if P v then [v] else [])"
proof -
  obtain us vs where xs: "xs = us @ e # vs" and P: "\<forall>u \<in> set us. \<not> P u" "filter P vs = []"
    using assms(1) by (auto simp: filter_eq_Cons_iff)
  have "\<forall>x \<in> set us \<union> set vs. key x \<noteq> k" using assms(2,3) by (auto simp: xs image_iff)
  then have "map (\<lambda>x. if key x = k then v else x) us = us" "map (\<lambda>x. if key x = k then v else x) vs = vs"
    by (auto intro: map_idI)
  then show ?thesis using P assms(3) by (simp add: xs filter_empty_conv)
qed

text \<open>What bringing the exception up to date does to the table.\<close>

lemma sync_effect:
  assumes "sync_negative_margin eid now sid tid actor p db = (Inr u, db')"
    and "store_inv se_id (ex_exceptions db)" and "eid \<notin> set (dkeys (ex_exceptions db))"
  shows "store_inv se_id (ex_exceptions db')"
    and "if pf_gross_profit p < 0
         then \<exists>e. open_loss db' sid tid = [e] \<and> se_financial_impact e = \<bar>pf_gross_profit p\<bar> \<and> se_severity e = ''CRITICAL''
         else open_loss db' sid tid = []"
    and "\<And>i e. dget (ex_exceptions db) i = Some e \<Longrightarrow> \<exists>e'. dget (ex_exceptions db') i = Some e'
      \<and> (e' = e \<or> open_loss db sid tid = [e] \<and> (if pf_gross_profit p < 0 then se_status e' = se_status e
            else se_status e' = ''RESOLVED'' \<and> se_resolution_notes e' = Some ''Shipment returned to positive gross profitability.''))"
    and "exceptions_inv db \<Longrightarrow> exceptions_inv db'"
    and "ex_shipments db' = ex_shipments db" "exc_db.more db' = exc_db.more db"
proof -
  obtain existing where ex: "one_or_none (open_loss db sid tid) = Inr existing"
    using assms(1) by (cases "one_or_none (open_loss db sid tid)") (simp_all add: sync_negative_margin_def)
  have dist: "distinct (map se_id (dvalues (ex_exceptions db)))" using assms(2) by (rule store_distinct)
  let ?P = "\<lambda>e. se_shipment_id e = sid \<and> se_tenant_id e = tid \<and> se_exception_type e = ''CARGO_LOSS'' \<and> se_status e \<in> set active_statuses"
  consider (none) "existing = None" "open_loss db sid tid = []" | (some) e where "existing = Some e" "open_loss db sid tid = [e]"
    using ex by (auto simp: one_or_none_def split: list.splits)
  then have "store_inv se_id (ex_exceptions db')
    \<and> (if pf_gross_profit p < 0
         then \<exists>e. open_loss db' sid tid = [e] \<and> se_financial_impact e = \<bar>pf_gross_profit p\<bar> \<and> se_severity e = ''CRITICAL''
         else open_loss db' sid tid = [])
    \<and> (\<forall>i e. dget (ex_exceptions db) i = Some e \<longrightarrow> (\<exists>e'. dget (ex_exceptions db') i = Some e'
      \<and> (e' = e \<or> open_loss db sid tid = [e] \<and> (if pf_gross_profit p < 0 then se_status e' = se_status e
            else se_status e' = ''RESOLVED'' \<and> se_resolution_notes e' = Some ''Shipment returned to positive gross profitability.''))))
    \<and> (exceptions_inv db \<longrightarrow> exceptions_inv db') \<and> ex_shipments db' = ex_shipments db \<and> exc_db.more db' = exc_db.more db"
  proof cases
    case none
    show ?thesis
    proof (cases "pf_gross_profit p < 0")
      case True
      let ?e = "margin_exception eid now sid tid actor p"
      have e: "se_id ?e = eid" "?P ?e" "se_financial_impact ?e = \<bar>pf_gross_profit p\<bar>" "se_severity ?e = ''CRITICAL''"
        by (simp_all add: margin_exception_def active_statuses_def)
      have x': "ex_exceptions db' = dset eid ?e (ex_exceptions db)" "ex_shipments db' = ex_shipments db" "exc_db.more db' = exc_db.more db"
        using assms(1) ex none True by (auto simp: sync_negative_margin_def Let_def put_exception_def e(1))
      have "open_loss db' sid tid = open_loss db sid tid @ [?e]"
        using e(2) by (simp add: open_loss_def x' dvalues_fresh [OF assms(3)])
      moreover have "exception_row_ok ?e"
      proof -
        have "dget exception_taxonomy ''CARGO_LOSS'' \<noteq> None" by code_simp
        then show ?thesis by (simp add: exception_row_ok_def margin_exception_def valid_severities_def valid_domains_def valid_statuses_def)
      qed
      moreover have "dget (ex_exceptions db) eid = None" using assms(3) by (simp add: map_of_eq_None_iff)
      ultimately show ?thesis
        using True e none assms(2) exceptions_inv_put [of db ?e db']
        by (auto simp: x' dget_dset store_inv_dset)
    next
      case False
      then have "db' = db" using assms(1) ex none by (simp add: sync_negative_margin_def)
      then show ?thesis using False none assms(2) by simp
    qed
  next
    case some
    have "e \<in> set (open_loss db sid tid)" using some(2) by simp
    then have mem: "e \<in> set (dvalues (ex_exceptions db))" "?P e"
      by (simp_all only: open_loss_def set_filter mem_Collect_eq)
    have get: "dget (ex_exceptions db) (se_id e) = Some e" using iffD1 [OF store_elems_iff [OF assms(2)] mem(1)] .
    then have key: "se_id e \<in> set (dkeys (ex_exceptions db))" by (metis map_of_eq_None_iff option.distinct(1) list.set_map)
    define v where "v = (if pf_gross_profit p < 0 then e\<lparr>se_description := margin_text sid p,
               se_financial_impact := \<bar>pf_gross_profit p\<bar>, se_severity := ''CRITICAL''\<rparr>
       else e\<lparr>se_status := ''RESOLVED'', se_resolved_at := Some now,
               se_resolution_notes := Some ''Shipment returned to positive gross profitability.''\<rparr>)"
    have v: "se_id v = se_id e" by (simp add: v_def)
    have x': "ex_exceptions db' = dset (se_id e) v (ex_exceptions db)" "ex_shipments db' = ex_shipments db" "exc_db.more db' = exc_db.more db"
      using assms(1) ex some(1) v by (auto simp: sync_negative_margin_def put_exception_def v_def split: if_splits)
    have vals: "dvalues (ex_exceptions db') = map (\<lambda>x. if se_id x = se_id e then v else x) (dvalues (ex_exceptions db))"
      unfolding x' by (rule dvalues_update [OF assms(2) refl key])
    have "open_loss db' sid tid = (if ?P v then [v] else [])"
      unfolding open_loss_def vals by (rule filter_replace [OF some(2) [unfolded open_loss_def] dist refl])
    then have 1: "if pf_gross_profit p < 0
         then \<exists>e. open_loss db' sid tid = [e] \<and> se_financial_impact e = \<bar>pf_gross_profit p\<bar> \<and> se_severity e = ''CRITICAL''
         else open_loss db' sid tid = []"
      using mem(2) by (auto simp: v_def active_statuses_def)
    have 2: "store_inv se_id (ex_exceptions db')" unfolding x' by (rule store_inv_dset [OF assms(2) v])
    have 3: "exceptions_inv db'" if inv: "exceptions_inv db"
    proof -
      have "exception_row_ok e" using inv get by (simp add: exceptions_inv_def)
      then have "exception_row_ok v" by (simp add: v_def exception_row_ok_def valid_severities_def valid_statuses_def)
      then show ?thesis by (rule exceptions_inv_put [OF inv]) (simp only: x' v)
    qed
    have 4: "\<exists>e'. dget (ex_exceptions db') i = Some e'
      \<and> (e' = x \<or> open_loss db sid tid = [x] \<and> (if pf_gross_profit p < 0 then se_status e' = se_status x
            else se_status e' = ''RESOLVED'' \<and> se_resolution_notes e' = Some ''Shipment returned to positive gross profitability.''))"
      if x: "dget (ex_exceptions db) i = Some x" for i x
    proof (cases "i = se_id e")
      case True
      then have "x = e" using x get by simp
      then show ?thesis using True some(2) by (simp add: x' dget_dset v_def)
    next
      case False
      then show ?thesis using x by (simp add: x' dget_dset)
    qed
    show ?thesis using 1 2 3 4 x' by blast
  qed
  then show "store_inv se_id (ex_exceptions db')"
    and "if pf_gross_profit p < 0
         then \<exists>e. open_loss db' sid tid = [e] \<and> se_financial_impact e = \<bar>pf_gross_profit p\<bar> \<and> se_severity e = ''CRITICAL''
         else open_loss db' sid tid = []"
    and "\<And>i e. dget (ex_exceptions db) i = Some e \<Longrightarrow> \<exists>e'. dget (ex_exceptions db') i = Some e'
      \<and> (e' = e \<or> open_loss db sid tid = [e] \<and> (if pf_gross_profit p < 0 then se_status e' = se_status e
            else se_status e' = ''RESOLVED'' \<and> se_resolution_notes e' = Some ''Shipment returned to positive gross profitability.''))"
    and "exceptions_inv db \<Longrightarrow> exceptions_inv db'"
    and "ex_shipments db' = ex_shipments db" "exc_db.more db' = exc_db.more db"
    by blast+
qed

section \<open>The service\<close>

datatype fin_op =
    Revenue_Line string string datetime line_request
  | Cost_Line string string datetime "string option" "string option" line_request
  | Correct_Entry string string date correction
  | Exception_Op exception_op

fun fin_service :: "fin_op \<Rightarrow> fin_db \<Rightarrow> unit res \<times> fin_db" where
  "fin_service (Revenue_Line lid eid now q) db = (case add_revenue_line lid eid now q db of (r, db') \<Rightarrow> (res_map (\<lambda>_. ()) r, db'))"
| "fin_service (Cost_Line lid eid now v c q) db = (case add_cost_line lid eid now v c q db of (r, db') \<Rightarrow> (res_map (\<lambda>_. ()) r, db'))"
| "fin_service (Correct_Entry rid cid today q) db =
     (case reverse_and_correct_entry rid cid today q db of (r, db') \<Rightarrow> (res_map (\<lambda>_. ()) r, db'))"
| "fin_service (Exception_Op r) db = (case exception_service r db of (x, db') \<Rightarrow> (res_map (\<lambda>_. ()) x, db'))"

text \<open>The line an operation adds, and the identities it draws.\<close>

fun line_of :: "fin_op \<Rightarrow> (string \<times> datetime \<times> line_request) option" where
  "line_of (Revenue_Line lid eid now q) = Some (eid, now, q)"
| "line_of (Cost_Line lid eid now v c q) = Some (eid, now, q)"
| "line_of _ = None"

fun fin_ok :: "fin_op \<Rightarrow> fin_db \<Rightarrow> bool" where
  "fin_ok (Revenue_Line lid eid now q) db = (eid \<notin> set (dkeys (ex_exceptions db)))"
| "fin_ok (Cost_Line lid eid now v c q) db = (eid \<notin> set (dkeys (ex_exceptions db)))"
| "fin_ok (Correct_Entry rid cid today q) db = (rid \<notin> set (dkeys (fd_entries db)) \<and> cid \<notin> set (dkeys (fd_entries db)) \<and> rid \<noteq> cid)"
| "fin_ok (Exception_Op r) db = exception_ok r db"

lemma line_audit_simps [simp]:
  "ex_exceptions (line_audit ty q l db) = ex_exceptions db" "ex_shipments (line_audit ty q l db) = ex_shipments db"
  "ex_outbox (line_audit ty q l db) = ex_outbox db" "exc_db.more (line_audit ty q l db) = exc_db.more db"
  by (simp_all add: line_audit_def split: option.splits)

lemma more_eq:
  "exc_db.more db' = exc_db.more db \<longleftrightarrow> fd_revenue db' = fd_revenue db \<and> fd_costs db' = fd_costs db \<and> fd_vendors db' = fd_vendors db
     \<and> fd_carriers db' = fd_carriers db \<and> fd_quotation_lines db' = fd_quotation_lines db \<and> fd_entries db' = fd_entries (db :: fin_db)"
  by (cases db; cases db') auto

lemma update_margin_effect:
  assumes "update_margin eid now q db = (Inr u, db')"
  shows "sync_negative_margin eid now (lq_shipment_id q) (lq_tenant_id q) (lq_actor_id q)
    (profit_of (revenue_of db (lq_shipment_id q)) (costs_of db (lq_shipment_id q))) db = (Inr u, db')"
  using assms by (auto simp: update_margin_def get_profitability_def res_simps split: sum.splits)

lemma sync_more: "sync_negative_margin eid now sid tid actor p db = (Inr u, db') \<Longrightarrow> exc_db.more db' = exc_db.more db"
  by (auto simp: sync_negative_margin_def Let_def put_exception_def split: sum.splits option.splits if_splits)

text \<open>A line that is added: the ledger grows by it, and the exception is brought up to date.\<close>

lemma line_added:
  assumes "fin_service r db = (Inr u, db')" and "line_of r = Some (eid, now, q)"
  obtains db1 where
    "sync_negative_margin eid now (lq_shipment_id q) (lq_tenant_id q) (lq_actor_id q)
       (profit_of (revenue_of db1 (lq_shipment_id q)) (costs_of db1 (lq_shipment_id q))) db1 = (Inr u, db')"
    "ex_exceptions db1 = ex_exceptions db" "ex_shipments db1 = ex_shipments db" "fd_entries db1 = fd_entries db" "0 \<le> lq_amount q"
    "(lq_shipment_id q, lq_tenant_id q) \<in> set (ex_shipments db)"
    "(\<exists>lid l. r = Revenue_Line lid eid now q \<and> fd_revenue db1 = fd_revenue db @ [l] \<and> ll_amount l = lq_amount q
        \<and> ll_shipment_id l = lq_shipment_id q \<and> fd_costs db1 = fd_costs db)
     \<or> (\<exists>lid v c l. r = Cost_Line lid eid now v c q \<and> fd_costs db1 = fd_costs db @ [l] \<and> ll_amount l = lq_amount q
        \<and> ll_shipment_id l = lq_shipment_id q \<and> fd_revenue db1 = fd_revenue db)"
proof (cases r)
  case (Revenue_Line lid e n q')
  have eq: "e = eid" "n = now" "q' = q" using assms(2) Revenue_Line by simp_all
  obtain l where a: "add_revenue_line lid eid now q db = (Inr l, db')"
    using assms(1) unfolding Revenue_Line eq by (auto simp: res_simps split: prod.splits)
  obtain st where st: "line_guard ''Revenue'' [''ESTIMATED'', ''QUOTED'', ''INVOICED'', ''PAID''] q = Inr st"
    using a unfolding add_revenue_line_def by (auto split: sum.splits)
  have ship: "tenant_shipment db (lq_shipment_id q) (lq_tenant_id q) = Inr ()"
    using a unfolding add_revenue_line_def st by (auto split: sum.splits)
  have qt: "\<not> (truthy (lq_quotation_line_id q) \<and> the (lq_quotation_line_id q) \<notin> set (fd_quotation_lines db))"
    using a unfolding add_revenue_line_def st ship by (auto split: if_splits)
  define db1 where "db1 = line_audit ''revenue_line'' q (new_line lid st q) (db\<lparr>fd_revenue := fd_revenue db @ [new_line lid st q]\<rparr>)"
  have um: "update_margin eid now q db1 = (Inr u, db')"
    using a unfolding add_revenue_line_def st ship sum.case if_not_P [OF qt] Let_def db1_def [symmetric]
    by (auto split: prod.splits sum.splits)
  have more: "fd_revenue db1 = fd_revenue db @ [new_line lid st q] \<and> fd_costs db1 = fd_costs db \<and> fd_entries db1 = fd_entries db"
    by (simp add: db1_def line_audit_def split: option.splits)
  show thesis
    by (rule that [OF update_margin_effect [OF um]])
      (use Revenue_Line eq st ship more in \<open>auto simp: db1_def line_guard_def tenant_shipment_def new_line_def Let_def split: if_splits\<close>)
next
  case (Cost_Line lid e n v c q')
  have eq: "e = eid" "n = now" "q' = q" using assms(2) Cost_Line by simp_all
  obtain l where a: "add_cost_line lid eid now v c q db = (Inr l, db')"
    using assms(1) unfolding Cost_Line eq by (auto simp: res_simps split: prod.splits)
  obtain st where st: "line_guard ''Cost'' [''ESTIMATED'', ''ACCRUED'', ''BILLED'', ''VERIFIED'', ''APPROVED'', ''PAID''] q = Inr st"
    using a unfolding add_cost_line_def by (auto split: sum.splits)
  have ship: "tenant_shipment db (lq_shipment_id q) (lq_tenant_id q) = Inr ()"
    using a unfolding add_cost_line_def st by (auto split: sum.splits)
  have vn: "\<not> (truthy v \<and> (the v, lq_tenant_id q) \<notin> set (fd_vendors db))"
    using a unfolding add_cost_line_def st ship by (auto split: if_splits)
  have cr: "\<not> (truthy c \<and> the c \<notin> set (fd_carriers db))"
    using a unfolding add_cost_line_def st ship sum.case if_not_P [OF vn] by (auto split: if_splits)
  define l' where "l' = revenue_entry.extend (new_line lid st q) \<lparr>ce_vendor_id = v, ce_carrier_id = c\<rparr>"
  define db1 where "db1 = line_audit ''cost_line'' q l' (db\<lparr>fd_costs := fd_costs db @ [l']\<rparr>)"
  have um: "update_margin eid now q db1 = (Inr u, db')"
    using a unfolding add_cost_line_def st ship sum.case if_not_P [OF vn] if_not_P [OF cr] Let_def l'_def [symmetric] db1_def [symmetric]
    by (auto split: prod.splits sum.splits)
  have more: "fd_costs db1 = fd_costs db @ [l'] \<and> fd_revenue db1 = fd_revenue db \<and> fd_entries db1 = fd_entries db"
    by (simp add: db1_def line_audit_def split: option.splits)
  have amt: "ll_amount l' = lq_amount q" "ll_shipment_id l' = lq_shipment_id q" by (simp_all add: l'_def revenue_entry.extend_def new_line_def)
  show thesis
    by (rule that [OF update_margin_effect [OF um]])
      (use Cost_Line eq st ship more amt in \<open>auto simp: db1_def line_guard_def tenant_shipment_def Let_def split: if_splits\<close>)
qed (use assms(2) in simp_all)

lemma fin_line_entries:
  assumes "fin_service r db = (Inr u, db')" and "line_of r = Some (eid, now, q)"
  shows "fd_entries db' = fd_entries db"
proof -
  obtain db1 where s: "sync_negative_margin eid now (lq_shipment_id q) (lq_tenant_id q) (lq_actor_id q)
       (profit_of (revenue_of db1 (lq_shipment_id q)) (costs_of db1 (lq_shipment_id q))) db1 = (Inr u, db')"
    "fd_entries db1 = fd_entries db" by (rule line_added [OF assms]) (rule that)
  from sync_more [OF s(1)] s(2) show ?thesis by (simp add: more_eq)
qed

lemma line_added_same_profit:
  assumes "fin_service r db = (Inr u, db')" and "line_of r = Some (eid, now, q)" and "store_inv se_id (ex_exceptions db)"
    and "eid \<notin> set (dkeys (ex_exceptions db))"
  obtains db1 where
    "sync_negative_margin eid now (lq_shipment_id q) (lq_tenant_id q) (lq_actor_id q)
       (profit_of (revenue_of db' (lq_shipment_id q)) (costs_of db' (lq_shipment_id q))) db1 = (Inr u, db')"
    "ex_exceptions db1 = ex_exceptions db" "open_loss db1 s t = open_loss db s t"
proof -
  obtain db1 where db1: "sync_negative_margin eid now (lq_shipment_id q) (lq_tenant_id q) (lq_actor_id q)
       (profit_of (revenue_of db1 (lq_shipment_id q)) (costs_of db1 (lq_shipment_id q))) db1 = (Inr u, db')"
    "ex_exceptions db1 = ex_exceptions db" by (rule line_added [OF assms(1,2)]) (rule that)
  have "exc_db.more db' = exc_db.more db1" by (rule sync_effect(6) [OF db1(1), unfolded db1(2), OF assms(3,4)])
  then have "revenue_of db' x = revenue_of db1 x" "costs_of db' x = costs_of db1 x" for x
    by (simp_all add: more_eq revenue_of_def costs_of_def)
  then show thesis by (intro that [of db1]) (use db1 in \<open>simp_all add: open_loss_def\<close>)
qed


text \<open>A loss of cargo is closed by profit: an exception of cargo loss raised through the exception endpoint is
  resolved by the next line added to a ledger of the shipment that leaves its profit at zero or above.\<close>

theorem cargo_loss_resolved_by_profit:
  assumes "create_exception i t0 xq db0 = (Inr (e, escs), db)" and "store_inv se_id (ex_exceptions db0)"
    and "i \<notin> set (dkeys (ex_exceptions db0))" and "se_exception_type e = ''CARGO_LOSS''"
    and "fin_service r db = (Inr u, db')" and "line_of r = Some (eid, now, q)" and "eid \<notin> set (dkeys (ex_exceptions db))"
    and "lq_shipment_id q = xr_shipment_id xq" and "lq_tenant_id q = xr_tenant_id xq"
    and "get_profitability db' (lq_shipment_id q) (lq_tenant_id q) = Inr p" and "0 \<le> pf_gross_profit p"
  shows "\<exists>e'. dget (ex_exceptions db') i = Some e' \<and> se_status e' = ''RESOLVED''
    \<and> se_resolution_notes e' = Some ''Shipment returned to positive gross profitability.''"
proof -
  obtain config where "resolve_exception_type (xr_exception_type xq) = Some config" and e: "se_id e = i" "se_tenant_id e = xr_tenant_id xq"
    "se_shipment_id e = xr_shipment_id xq" "se_status e = ''OPEN''" "ex_exceptions db = dset i e (ex_exceptions db0)"
    by (rule create_exception_effect [OF assms(1)]) (rule that)
  have st: "store_inv se_id (ex_exceptions db)" unfolding e(5) by (rule store_inv_dset [OF assms(2) e(1)])
  obtain db1 where h: "sync_negative_margin eid now (lq_shipment_id q) (lq_tenant_id q) (lq_actor_id q)
       (profit_of (revenue_of db' (lq_shipment_id q)) (costs_of db' (lq_shipment_id q))) db1 = (Inr u, db')"
    "ex_exceptions db1 = ex_exceptions db" by (rule line_added_same_profit [OF assms(5,6) st assms(7)]) (rule that)
  have p: "p = profit_of (revenue_of db' (lq_shipment_id q)) (costs_of db' (lq_shipment_id q))"
    using assms(10) by (auto simp: get_profitability_def res_simps)
  note sync = sync_effect [OF h(1), unfolded h(2), folded p, OF st assms(7)]
  have get: "dget (ex_exceptions db) i = Some e" by (simp add: e(5) dget_dset)
  obtain e' where e': "dget (ex_exceptions db') i = Some e'"
    "e' = e \<or> (if pf_gross_profit p < 0 then se_status e' = se_status e
            else se_status e' = ''RESOLVED'' \<and> se_resolution_notes e' = Some ''Shipment returned to positive gross profitability.'')"
    using sync(3) [OF get] by blast
  have "open_loss db' (lq_shipment_id q) (lq_tenant_id q) = []" using sync(2) assms(11) by simp
  then have "e' \<noteq> e"
  proof (rule contrapos_pn)
    assume "e' = e"
    have "e \<in> set (dvalues (ex_exceptions db'))"
      by (rule iffD2 [OF store_elems_iff [OF sync(1)]]) (simp only: e(1) e'(1) \<open>e' = e\<close>)
    then have "e \<in> set (open_loss db' (lq_shipment_id q) (lq_tenant_id q))"
      unfolding open_loss_def set_filter mem_Collect_eq using assms(4,8,9) e by (simp add: active_statuses_def)
    then show "open_loss db' (lq_shipment_id q) (lq_tenant_id q) \<noteq> []" by auto
  qed
  then show ?thesis using e' assms(11) by auto
qed

text \<open>Two open losses: every line fails.\<close>

lemma two_losses_fail:
  assumes "line_of r = Some (eid, now, q)" and "2 \<le> length (open_loss db (lq_shipment_id q) (lq_tenant_id q))"
  shows "\<exists>e. fst (fin_service r db) = Inl e"
proof (rule ccontr)
  assume "\<nexists>e. fst (fin_service r db) = Inl e"
  then obtain u db' where "fin_service r db = (Inr u, db')"
    by (cases "fin_service r db"; cases "fst (fin_service r db)") auto
  then obtain db1 p where h: "sync_negative_margin eid now (lq_shipment_id q) (lq_tenant_id q) (lq_actor_id q) p db1 = (Inr u, db')"
    "ex_exceptions db1 = ex_exceptions db" by (rule line_added [OF _ assms(1)]) (rule that)
  have "2 \<le> length (open_loss db1 (lq_shipment_id q) (lq_tenant_id q))" using assms(2) by (simp only: open_loss_def h(2))
  then have "one_or_none (open_loss db1 (lq_shipment_id q) (lq_tenant_id q)) = Inl MultipleResultsFound"
    by (auto simp: one_or_none_def split: list.splits)
  then show False using h(1) by (simp add: sync_negative_margin_def)
qed

text \<open>The exception endpoint can block the ledgers of a shipment: once two losses are reported on it, every line of
  revenue or cost is refused until one of them is resolved.\<close>

theorem two_losses_block_ledgers:
  assumes "create_exception i t0 x db0 = (Inr (e, escs), db1)" and "create_exception j t1 y db1 = (Inr (f, escs'), db2)"
    and "store_inv se_id (ex_exceptions db0)" and "i \<noteq> j" and "j \<notin> set (dkeys (ex_exceptions db0))" and "i \<notin> set (dkeys (ex_exceptions db0))"
    and "se_exception_type e = ''CARGO_LOSS''" and "se_exception_type f = ''CARGO_LOSS''"
    and "xr_shipment_id x = lq_shipment_id q" and "xr_shipment_id y = lq_shipment_id q"
    and "xr_tenant_id x = lq_tenant_id q" and "xr_tenant_id y = lq_tenant_id q" and "line_of r = Some (eid, now, q)"
  shows "\<exists>err. fst (fin_service r db2) = Inl err"
proof (rule two_losses_fail [OF assms(13)])
  obtain c1 where "resolve_exception_type (xr_exception_type x) = Some c1" and e: "se_tenant_id e = xr_tenant_id x"
    "se_shipment_id e = xr_shipment_id x" "se_status e = ''OPEN''" "ex_exceptions db1 = dset i e (ex_exceptions db0)"
    by (rule create_exception_effect [OF assms(1)]) (rule that)
  obtain c2 where "resolve_exception_type (xr_exception_type y) = Some c2" and f: "se_tenant_id f = xr_tenant_id y"
    "se_shipment_id f = xr_shipment_id y" "se_status f = ''OPEN''" "ex_exceptions db2 = dset j f (ex_exceptions db1)"
    by (rule create_exception_effect [OF assms(2)]) (rule that)
  have "dvalues (ex_exceptions db1) = dvalues (ex_exceptions db0) @ [e]"
    unfolding e(4) by (rule dvalues_fresh [OF assms(6)])
  moreover have "j \<notin> set (dkeys (ex_exceptions db1))"
    using assms(4,5) by (simp only: e(4) AList.update_keys) (simp split: if_splits)
  ultimately have "dvalues (ex_exceptions db2) = dvalues (ex_exceptions db0) @ [e, f]"
    by (simp only: f(4) dvalues_fresh append_assoc append_Cons append_Nil not_False_eq_True)
  then show "2 \<le> length (open_loss db2 (lq_shipment_id q) (lq_tenant_id q))"
    using assms(7-12) e f by (simp add: open_loss_def active_statuses_def)
qed

section \<open>Reversals\<close>

definition is_reversal :: "ledger_entry \<Rightarrow> ledger_entry \<Rightarrow> bool" where
  "is_reversal e r \<longleftrightarrow> fe_status r = ''REVERSAL'' \<and> fe_reversal_of_id r = Some (fe_id e) \<and> fe_status e = ''REVERSED''
     \<and> fe_debit_amount r = fe_credit_amount e \<and> fe_credit_amount r = fe_debit_amount e \<and> fe_tenant_id r = fe_tenant_id e
     \<and> fe_shipment_id r = fe_shipment_id e \<and> fe_currency_code r = fe_currency_code e"

definition entries_inv :: "(string, ledger_entry) dict \<Rightarrow> bool" where
  "entries_inv d \<longleftrightarrow> store_inv fe_id d
     \<and> (\<forall>i r. dget d i = Some r \<longrightarrow> fe_status r = ''REVERSAL'' \<longrightarrow> (\<exists>j e. dget d j = Some e \<and> is_reversal e r))
     \<and> (\<forall>i e. dget d i = Some e \<longrightarrow> fe_status e = ''REVERSED'' \<longrightarrow> (\<exists>j r. dget d j = Some r \<and> is_reversal e r))
     \<and> (\<forall>i j r s. dget d i = Some r \<longrightarrow> dget d j = Some s \<longrightarrow> fe_status r = ''REVERSAL'' \<longrightarrow> fe_status s = ''REVERSAL'' \<longrightarrow>
          fe_reversal_of_id r = fe_reversal_of_id s \<longrightarrow> i = j)"

lemma correction_effect:
  assumes "reverse_and_correct_entry rid cid today q db = (Inr x, db')"
  obtains e where "dget (fd_entries db) (cq_entry_id q) = Some e" "fe_tenant_id e = cq_tenant_id q" "fe_status e = ''POSTED''"
    "0 \<le> cq_new_debit q" "0 \<le> cq_new_credit q" "x = (fe_id e, rid, cid)"
    "fd_entries db' = dset cid (corrected_of cid rid today q e) (dset rid (reversal_of rid today q e)
       (dset (fe_id e) (e\<lparr>fe_status := ''REVERSED'', fe_reversal_reason := Some (cq_reason q)\<rparr>) (fd_entries db)))"
    "ex_exceptions db' = ex_exceptions db" "ex_shipments db' = ex_shipments db" "fd_revenue db' = fd_revenue db" "fd_costs db' = fd_costs db"
proof -
  obtain e where e: "dget (fd_entries db) (cq_entry_id q) = Some e"
    using assms by (cases "dget (fd_entries db) (cq_entry_id q)") (simp_all add: reverse_and_correct_entry_def split: if_splits)
  show thesis
    by (rule that [OF e]) (use assms e in \<open>auto simp: reverse_and_correct_entry_def Let_def split: if_splits\<close>)
qed

lemma entries_inv_correction:
  assumes inv: "entries_inv d" and e: "dget d k = Some e" "fe_status e = ''POSTED''" "fe_tenant_id e = cq_tenant_id q"
    and new: "rid \<notin> set (dkeys d)" "cid \<notin> set (dkeys d)" "rid \<noteq> cid"
    and d': "d' = dset cid (corrected_of cid rid today q e) (dset rid (reversal_of rid today q e)
       (dset (fe_id e) (e\<lparr>fe_status := ''REVERSED'', fe_reversal_reason := Some (cq_reason q)\<rparr>) d))"
  shows "entries_inv d'"
proof -
  let ?o = "e\<lparr>fe_status := ''REVERSED'', fe_reversal_reason := Some (cq_reason q)\<rparr>"
  let ?r = "reversal_of rid today q e"
  let ?c = "corrected_of cid rid today q e"
  have st: "store_inv fe_id d"
    and bwd: "\<And>i r. dget d i = Some r \<Longrightarrow> fe_status r = ''REVERSAL'' \<Longrightarrow> \<exists>j e. dget d j = Some e \<and> is_reversal e r"
    and fwd: "\<And>i e. dget d i = Some e \<Longrightarrow> fe_status e = ''REVERSED'' \<Longrightarrow> \<exists>j r. dget d j = Some r \<and> is_reversal e r"
    and once: "\<And>i j r s. dget d i = Some r \<Longrightarrow> dget d j = Some s \<Longrightarrow> fe_status r = ''REVERSAL'' \<Longrightarrow> fe_status s = ''REVERSAL'' \<Longrightarrow>
          fe_reversal_of_id r = fe_reversal_of_id s \<Longrightarrow> i = j"
    using inv unfolding entries_inv_def by blast+
  have k: "fe_id e = k" using store_find_key [OF st e(1)] .
  have none: "dget d rid = None" "dget d cid = None" using new(1,2) by (simp_all add: map_of_eq_None_iff)
  have ne: "k \<noteq> rid" "k \<noteq> cid" using e(1) none by auto
  have ids: "fe_id ?o = k" "fe_id ?r = rid" "fe_id ?c = cid" by (simp_all add: k reversal_of_def corrected_of_def)
  have get: "dget d' i = (if i = cid then Some ?c else if i = rid then Some ?r else if i = k then Some ?o else dget d i)" for i
    by (simp add: d' dget_dset k)
  have rev: "is_reversal ?o ?r" using e(3) by (simp add: is_reversal_def reversal_of_def)
  have status: "fe_status ?c = ''POSTED''" "fe_status ?r = ''REVERSAL''" "fe_status ?o = ''REVERSED''" "fe_reversal_of_id ?r = Some k"
    by (simp_all add: corrected_of_def reversal_of_def k)
  have st': "store_inv fe_id d'" unfolding d' by (intro store_inv_dset st) (simp_all add: ids k)
  \<comment> \<open>an entry that was reversed or a reversal stays, and its partner with it\<close>
  have keep: "dget d' j = Some x" if "dget d j = Some x" "fe_status x \<noteq> ''POSTED''" for j x
    using that e none by (auto simp: get)
  have notk: "fe_reversal_of_id x \<noteq> Some k" if a: "dget d j = Some x" "fe_status x = ''REVERSAL''" for j x
  proof
    assume "fe_reversal_of_id x = Some k"
    obtain j' e' where "dget d j' = Some e'" "is_reversal e' x" using bwd [OF a] by blast
    then have "fe_id e' = k" "fe_status e' = ''REVERSED''" using \<open>fe_reversal_of_id x = Some k\<close> by (simp_all add: is_reversal_def)
    then have "e' = e" using store_find_key [OF st \<open>dget d j' = Some e'\<close>] \<open>dget d j' = Some e'\<close> e(1) by simp
    then show False using \<open>fe_status e' = ''REVERSED''\<close> e(2) by simp
  qed
  have 1: "\<exists>j e. dget d' j = Some e \<and> is_reversal e r" if "dget d' i = Some r" "fe_status r = ''REVERSAL''" for i r
  proof (cases "i = rid")
    case True
    then show ?thesis using that new(3) rev ne by (intro exI [of _ k] exI [of _ ?o]) (simp add: get)
  next
    case False
    then have "dget d i = Some r" using that status by (auto simp: get split: if_splits)
    from bwd [OF this that(2)] obtain j0 e0 where p: "dget d j0 = Some e0" "is_reversal e0 r" by blast
    from p(2) have "fe_status e0 \<noteq> ''POSTED''" by (simp add: is_reversal_def)
    from keep [OF p(1) this] p(2) show ?thesis by blast
  qed
  have 2: "\<exists>j r. dget d' j = Some r \<and> is_reversal x r" if "dget d' i = Some x" "fe_status x = ''REVERSED''" for i x
  proof (cases "i = k")
    case True
    then show ?thesis using that new(3) rev ne by (intro exI [of _ rid] exI [of _ ?r]) (simp add: get)
  next
    case False
    then have "dget d i = Some x" using that status by (auto simp: get split: if_splits)
    from fwd [OF this that(2)] obtain j0 r0 where p: "dget d j0 = Some r0" "is_reversal x r0" by blast
    from p(2) have "fe_status r0 \<noteq> ''POSTED''" by (simp add: is_reversal_def)
    from keep [OF p(1) this] p(2) show ?thesis by blast
  qed
  have 3: "i = j" if "dget d' i = Some r" "dget d' j = Some s" "fe_status r = ''REVERSAL''" "fe_status s = ''REVERSAL''"
    "fe_reversal_of_id r = fe_reversal_of_id s" for i j r s
  proof -
    have old: "x = rid \<and> y = ?r \<or> dget d x = Some y" if "dget d' x = Some y" "fe_status y = ''REVERSAL''" for x y
      using that status by (auto simp: get split: if_splits)
    from old [OF that(1,3)] old [OF that(2,4)] show ?thesis
      using once notk that(3-5) status(4) by metis
  qed
  show ?thesis unfolding entries_inv_def using st' 1 2 3 by blast
qed

section \<open>The invariant\<close>

definition fin_inv :: "fin_db \<Rightarrow> bool" where
  "fin_inv db \<longleftrightarrow> exceptions_inv db \<and> entries_inv (fd_entries db)
     \<and> (\<forall>l \<in> set (fd_revenue db). 0 \<le> ll_amount l) \<and> (\<forall>l \<in> set (fd_costs db). 0 \<le> ll_amount l)"

lemma line_added_inv:
  assumes inv: "fin_inv db" and ok: "eid \<notin> set (dkeys (ex_exceptions db))"
    and r: "fin_service r db = (Inr u, db')" "line_of r = Some (eid, now, q)"
  shows "fin_inv db'"
proof -
  obtain db1 where db1: "sync_negative_margin eid now (lq_shipment_id q) (lq_tenant_id q) (lq_actor_id q)
       (profit_of (revenue_of db1 (lq_shipment_id q)) (costs_of db1 (lq_shipment_id q))) db1 = (Inr u, db')"
    and ex: "ex_exceptions db1 = ex_exceptions db" and en: "fd_entries db1 = fd_entries db" and pos: "0 \<le> lq_amount q"
    and lines: "(\<exists>lid l. r = Revenue_Line lid eid now q \<and> fd_revenue db1 = fd_revenue db @ [l] \<and> ll_amount l = lq_amount q
        \<and> ll_shipment_id l = lq_shipment_id q \<and> fd_costs db1 = fd_costs db)
     \<or> (\<exists>lid v c l. r = Cost_Line lid eid now v c q \<and> fd_costs db1 = fd_costs db @ [l] \<and> ll_amount l = lq_amount q
        \<and> ll_shipment_id l = lq_shipment_id q \<and> fd_revenue db1 = fd_revenue db)"
    by (rule line_added [OF r]) (rule that)
  have inv1: "exceptions_inv db1" using inv by (simp add: fin_inv_def exceptions_inv_def ex)
  have st: "store_inv se_id (ex_exceptions db1)" using inv1 by (simp add: exceptions_inv_def)
  have fresh: "eid \<notin> set (dkeys (ex_exceptions db1))" unfolding ex by (rule ok)
  note s = sync_effect [OF db1 st fresh]
  have "fd_revenue db' = fd_revenue db1" "fd_costs db' = fd_costs db1" "fd_entries db' = fd_entries db1"
    using s(6) by (simp_all add: more_eq)
  then show ?thesis using inv s(4) [OF inv1] lines pos en by (auto simp: fin_inv_def)
qed

lemma exception_service_more:
  "exception_service r db = (Inr x, db') \<Longrightarrow> exc_db.more db' = exc_db.more db \<and> ex_shipments db' = ex_shipments db"
  by (cases r) (auto simp: res_simps split: prod.splits elim: create_exception_effect update_exception_effect)

lemma fin_service_inv:
  assumes inv: "fin_inv db" and ok: "fin_ok r db" and r: "fin_service r db = (Inr u, db')"
  shows "fin_inv db'"
proof (cases r)
  case (Revenue_Line lid eid now q)
  show ?thesis by (rule line_added_inv [OF inv _ r]) (use ok Revenue_Line in simp_all)
next
  case (Cost_Line lid eid now v c q)
  show ?thesis by (rule line_added_inv [OF inv _ r]) (use ok Cost_Line in simp_all)
next
  case (Correct_Entry rid cid today q)
  then obtain x where c: "reverse_and_correct_entry rid cid today q db = (Inr x, db')"
    using r by (auto simp: res_simps split: prod.splits)
  obtain e where e: "dget (fd_entries db) (cq_entry_id q) = Some e" "fe_tenant_id e = cq_tenant_id q" "fe_status e = ''POSTED''"
    and d': "fd_entries db' = dset cid (corrected_of cid rid today q e) (dset rid (reversal_of rid today q e)
       (dset (fe_id e) (e\<lparr>fe_status := ''REVERSED'', fe_reversal_reason := Some (cq_reason q)\<rparr>) (fd_entries db)))"
    and same: "ex_exceptions db' = ex_exceptions db" "fd_revenue db' = fd_revenue db" "fd_costs db' = fd_costs db"
    by (rule correction_effect [OF c]) (rule that)
  have en: "entries_inv (fd_entries db)" using inv by (simp add: fin_inv_def)
  have new: "rid \<notin> set (dkeys (fd_entries db))" "cid \<notin> set (dkeys (fd_entries db))" "rid \<noteq> cid" using ok Correct_Entry by simp_all
  have "entries_inv (fd_entries db')" by (rule entries_inv_correction [OF en e(1,3,2) new d'])
  then show ?thesis using inv by (simp add: fin_inv_def exceptions_inv_def same)
next
  case (Exception_Op op)
  then obtain x where x: "exception_service op db = (Inr x, db')" using r by (auto simp: res_simps split: prod.splits)
  have "exceptions_inv db'" using inv by (intro exception_service_inv [OF _ x]) (simp add: fin_inv_def)
  moreover have "exc_db.more db' = exc_db.more db" using exception_service_more [OF x] by blast
  ultimately show ?thesis using inv by (simp add: fin_inv_def more_eq)
qed

interpretation finance: service_contract fin_service fin_ok fin_inv
  by unfold_locales (rule fin_service_inv)

lemma reversal_unique:
  assumes en: "entries_inv d" and e: "dget d i = Some e" "fe_status e = ''REVERSED''"
  shows "\<exists>!j. \<exists>r. dget d j = Some r \<and> is_reversal e r
    \<and> (fe_debit_amount e - fe_credit_amount e) + (fe_debit_amount r - fe_credit_amount r) = 0"
proof -
  from en e obtain j r where jr: "dget d j = Some r" "is_reversal e r" unfolding entries_inv_def by blast
  show ?thesis
  proof (rule ex1I [of _ j])
    show "\<exists>r. dget d j = Some r \<and> is_reversal e r \<and>
      (fe_debit_amount e - fe_credit_amount e) + (fe_debit_amount r - fe_credit_amount r) = 0"
      using jr by (auto simp: is_reversal_def)
    fix j' assume "\<exists>r. dget d j' = Some r \<and> is_reversal e r \<and>
      (fe_debit_amount e - fe_credit_amount e) + (fe_debit_amount r - fe_credit_amount r) = 0"
    then obtain r' where r': "dget d j' = Some r'" "is_reversal e r'" by blast
    have st: "fe_status r = ''REVERSAL''" "fe_status r' = ''REVERSAL''" "fe_reversal_of_id r' = fe_reversal_of_id r"
      using jr(2) r'(2) by (simp_all add: is_reversal_def)
    from en show "j' = j" unfolding entries_inv_def using jr(1) r'(1) st by blast
  qed
qed

lemma reversed_unique:
  assumes en: "entries_inv d" and r: "dget d j = Some r" "fe_status r = ''REVERSAL''"
  shows "\<exists>!i. \<exists>e. dget d i = Some e \<and> fe_status e = ''REVERSED'' \<and> is_reversal e r"
proof -
  from en r obtain i e where ie: "dget d i = Some e" "is_reversal e r" unfolding entries_inv_def by blast
  have st: "store_inv fe_id d" using en by (simp add: entries_inv_def)
  show ?thesis
  proof (rule ex1I [of _ i])
    show "\<exists>e. dget d i = Some e \<and> fe_status e = ''REVERSED'' \<and> is_reversal e r" using ie by (auto simp: is_reversal_def)
    fix i' assume "\<exists>e. dget d i' = Some e \<and> fe_status e = ''REVERSED'' \<and> is_reversal e r"
    then obtain e' where e': "dget d i' = Some e'" "is_reversal e' r" by blast
    have "fe_id e = fe_id e'" using ie(2) e'(2) by (simp add: is_reversal_def)
    then show "i' = i" using store_find_key [OF st ie(1)] store_find_key [OF st e'(1)] by simp
  qed
qed

text \<open>C14: In every database that the ledger, correction and exception requests reach, a reversed entry has exactly one
  reversal, which swaps its debit and credit for the same shipment, tenant and currency, so that the two
  cancel; and every reversal belongs to exactly one entry, which is marked as reversed.\<close>

theorem reversals_cancel:
  assumes "reached fin_service fin_ok start db" and "fin_inv start"
  shows "(\<forall>i e. dget (fd_entries db) i = Some e \<longrightarrow> fe_status e = ''REVERSED'' \<longrightarrow>
      (\<exists>!j. \<exists>r. dget (fd_entries db) j = Some r \<and> is_reversal e r
        \<and> (fe_debit_amount e - fe_credit_amount e) + (fe_debit_amount r - fe_credit_amount r) = 0))
    \<and> (\<forall>j r. dget (fd_entries db) j = Some r \<longrightarrow> fe_status r = ''REVERSAL'' \<longrightarrow>
      (\<exists>!i. \<exists>e. dget (fd_entries db) i = Some e \<and> fe_status e = ''REVERSED'' \<and> is_reversal e r))"
proof -
  have en: "entries_inv (fd_entries db)" using finance.reached_inv [OF assms] by (simp add: fin_inv_def)
  show ?thesis using reversal_unique [OF en] reversed_unique [OF en] by blast
qed

section \<open>A worked profile\<close>

definition sample_entry :: ledger_entry where
  "sample_entry = \<lparr>fe_id = ''N'', fe_tenant_id = ''T'', fe_shipment_id = Some ''S'', fe_entry_date = 1, fe_entry_type = ''AP_BILL'',
     fe_debit_amount = 30, fe_credit_amount = 0, fe_currency_code = ''USD'', fe_description = None, fe_approved_by = None,
     fe_status = ''POSTED'', fe_reversal_of_id = None, fe_reversal_reason = None, fe_revenue_line_id = None, fe_cost_line_id = None\<rparr>"

definition sample_fin :: fin_db where
  "sample_fin = exc_db.extend sample_exc \<lparr>fd_revenue = [], fd_costs = [], fd_vendors = [], fd_carriers = [],
     fd_quotation_lines = [], fd_entries = [(''N'', sample_entry)]\<rparr>"

lemma sample_fin_simps [simp]:
  "ex_shipments sample_fin = [(''S'', ''T'')]" "ex_exceptions sample_fin = []" "fd_revenue sample_fin = []" "fd_costs sample_fin = []"
  "fd_entries sample_fin = [(''N'', sample_entry)]"
  by (simp_all add: sample_fin_def exc_db.extend_def sample_exc_def)

lemma sample_fin_inv: "fin_inv sample_fin"
  by (simp add: fin_inv_def exceptions_inv_def entries_inv_def store_inv_def sample_entry_def)

definition profile_line :: "flt \<Rightarrow> line_request" where
  "profile_line x = \<lparr>lq_shipment_id = ''S'', lq_tenant_id = ''T'', lq_actor_id = None, lq_charge_code = ''OFR'', lq_amount = x,
     lq_currency_code = ''USD'', lq_is_additional = True, lq_description = None, lq_quantity = 1, lq_unit_rate = None,
     lq_quotation_line_id = None, lq_status = ''ESTIMATED''\<rparr>"

lemma profile_line_simps [simp]:
  "lq_shipment_id (profile_line x) = ''S''" "lq_tenant_id (profile_line x) = ''T''" "lq_amount (profile_line x) = x"
  by (simp_all add: profile_line_def)

lemma profile_guard:
  assumes "0 \<le> x" and "''ESTIMATED'' \<in> set statuses"
  shows "line_guard name statuses (profile_line x) = Inr ''ESTIMATED''"
proof -
  have "py_upper (py_strip ''ESTIMATED'') = ''ESTIMATED''" "py_strip ''OFR'' \<noteq> []"
  proof -
    have "(py_upper (py_strip ''ESTIMATED'') = ''ESTIMATED'') \<and> (py_strip ''OFR'' \<noteq> [])" by code_simp
    then show "py_upper (py_strip ''ESTIMATED'') = ''ESTIMATED''" "py_strip ''OFR'' \<noteq> []" by blast+
  qed
  then show ?thesis using assms by (simp add: line_guard_def profile_line_def)
qed

lemma sync_succeeds: "length (open_loss db s t) \<le> 1 \<Longrightarrow> \<exists>u db'. sync_negative_margin eid now s t a p db = (Inr u, db')"
  by (auto simp: sync_negative_margin_def one_or_none_def Let_def le_Suc_eq length_Suc_conv split: option.splits)

lemma sample_revenue_added:
  assumes "0 \<le> x" "(''S'', ''T'') \<in> set (ex_shipments db)" "length (open_loss db ''S'' ''T'') \<le> 1"
  shows "\<exists>db'. fin_service (Revenue_Line ''L'' eid 0 (profile_line x)) db = (Inr (), db')"
proof -
  let ?l = "new_line ''L'' ''ESTIMATED'' (profile_line x)"
  define db1 where "db1 = line_audit ''revenue_line'' (profile_line x) ?l (db\<lparr>fd_revenue := fd_revenue db @ [?l]\<rparr>)"
  have "open_loss db1 ''S'' ''T'' = open_loss db ''S'' ''T''" by (simp add: open_loss_def db1_def)
  then obtain u db' where "sync_negative_margin eid 0 ''S'' ''T'' None (profit_of (revenue_of db1 ''S'') (costs_of db1 ''S'')) db1 = (Inr u, db')"
    using sync_succeeds assms(3) by (metis (no_types))
  moreover have "(''S'', ''T'') \<in> set (ex_shipments db1)" using assms(2) by (simp add: db1_def)
  moreover have "lq_actor_id (profile_line x) = None" "\<not> truthy (lq_quotation_line_id (profile_line x))"
    by (simp_all add: profile_line_def truthy_def)
  ultimately show ?thesis
    using assms(2) by (simp add: add_revenue_line_def profile_guard [OF assms(1)] tenant_shipment_def Let_def db1_def [symmetric]
        update_margin_def get_profitability_def)
qed



theorem profitability_exact_witness:
  "\<exists>p. get_profitability (sample_fin\<lparr>fd_revenue := [new_line ''L'' ''INVOICED'' (profile_line (cent 10010))]\<rparr>) ''S'' ''T'' = Inr p
    \<and> pf_gross_profit p = cent 10010 \<and> pf_actual_revenue p = cent 10010 \<and> pf_actual_cost p = cent 0"
proof -
  let ?db = "sample_fin\<lparr>fd_revenue := [new_line ''L'' ''INVOICED'' (profile_line (cent 10010))]\<rparr>"
  have c: "cents_of (cent 10010) = 10010" by (rule cents_of_cent) (simp add: money_bound_def)
  have r: "revenue_of ?db ''S'' = [new_line ''L'' ''INVOICED'' (profile_line (cent 10010))]" "costs_of ?db ''S'' = []"
    by (simp_all add: revenue_of_def costs_of_def new_line_def)
  have 1: "cents_ledger (revenue_of ?db ''S'')" "cents_ledger (costs_of ?db ''S'')"
    unfolding r by (simp_all add: cents_ledger_def new_line_def c money_bound_def)
  obtain p where p: "get_profitability ?db ''S'' ''T'' = Inr p" by (simp add: get_profitability_def tenant_shipment_def)
  from profitability_exact [OF 1 p, unfolded r] have "pf_gross_profit p = cent 10010" "pf_actual_revenue p = cent 10010" "pf_actual_cost p = cent 0"
    by (simp_all add: total_cents_def new_line_def c)
  with p show ?thesis by blast
qed

lemma sample_loss_raised:
  assumes "''S'' \<in> fst ` set (ex_shipments db)"
  shows "\<exists>e escs db'. create_exception i now sample_loss db = (Inr (e, escs), db') \<and> se_exception_type e = ''CARGO_LOSS''"
proof -
  have "map_option (\<lambda>c. (etc_default_severity c, etc_domain c, etc_code c)) (resolve_exception_type '' loss '') = Some (''CRITICAL'', ''OPERATIONAL'', ''CARGO_LOSS'')"
    by code_simp
  then obtain c where "resolve_exception_type '' loss '' = Some c" "etc_default_severity c = ''CRITICAL''" "etc_domain c = ''OPERATIONAL''"
    "etc_code c = ''CARGO_LOSS''" by auto
  then show ?thesis
    using assms by (simp add: create_exception_def sample_loss_def Let_def truthy_def valid_severities_def valid_domains_def)
qed

theorem cargo_loss_resolved_by_profit_witness:
  "\<exists>db0 db e. create_exception ''X'' 0 sample_loss sample_fin = (Inr e, db0)
    \<and> fin_service (Revenue_Line ''L'' ''E'' 0 (profile_line (cent 10000))) db0 = (Inr (), db)
    \<and> (\<exists>e'. dget (ex_exceptions db) ''X'' = Some e' \<and> se_status e' = ''RESOLVED'')"
proof -
  obtain e escs db0 where c: "create_exception ''X'' 0 sample_loss sample_fin = (Inr (e, escs), db0)" "se_exception_type e = ''CARGO_LOSS''"
    using sample_loss_raised [of sample_fin "''X''" 0] by auto
  obtain config where "resolve_exception_type (xr_exception_type sample_loss) = Some config" and d0: "se_id e = ''X''"
    "ex_exceptions db0 = dset ''X'' e (ex_exceptions sample_fin)" "ex_shipments db0 = ex_shipments sample_fin"
    "exc_db.more db0 = exc_db.more sample_fin" by (rule create_exception_effect [OF c(1)]) (rule that)
  have ol: "length (open_loss db0 ''S'' ''T'') \<le> 1" by (simp add: open_loss_def d0(2))
  obtain db where db: "fin_service (Revenue_Line ''L'' ''E'' 0 (profile_line (cent 10000))) db0 = (Inr (), db)"
    using sample_revenue_added [of "cent 10000" db0 "''E''"] ol d0(3) by (auto simp: cent_nonneg)
  have fresh: "''E'' \<notin> set (dkeys (ex_exceptions db0))" and st: "store_inv se_id (ex_exceptions db0)"
    using d0 by (simp_all add: store_inv_def)
  let ?q = "profile_line (cent 10000)"
  obtain db1 where db1: "sync_negative_margin ''E'' 0 (lq_shipment_id ?q) (lq_tenant_id ?q) (lq_actor_id ?q)
       (profit_of (revenue_of db1 (lq_shipment_id ?q)) (costs_of db1 (lq_shipment_id ?q))) db1 = (Inr (), db)"
    and same: "ex_exceptions db1 = ex_exceptions db0" "ex_shipments db1 = ex_shipments db0"
    and lines: "(\<exists>lid l. Revenue_Line ''L'' ''E'' 0 ?q = Revenue_Line lid ''E'' 0 ?q \<and> fd_revenue db1 = fd_revenue db0 @ [l] \<and> ll_amount l = lq_amount ?q
        \<and> ll_shipment_id l = lq_shipment_id ?q \<and> fd_costs db1 = fd_costs db0)
     \<or> (\<exists>lid v c l. Revenue_Line ''L'' ''E'' 0 ?q = Cost_Line lid ''E'' 0 v c ?q \<and> fd_costs db1 = fd_costs db0 @ [l] \<and> ll_amount l = lq_amount ?q
        \<and> ll_shipment_id l = lq_shipment_id ?q \<and> fd_revenue db1 = fd_revenue db0)"
    by (rule line_added [OF db, of "''E''" 0 ?q]) (simp, rule that)
  note s = sync_effect [OF db1, unfolded same, OF st fresh]
  from lines s(6) d0(4) obtain l where l: "fd_revenue db = [l]" "fd_costs db = []" "ll_amount l = cent 10000" "ll_shipment_id l = ''S''"
    by (auto simp: more_eq)
  have cl: "cents_of (cent 10000) = 10000" by (rule cents_of_cent) (simp add: money_bound_def)
  have led: "revenue_of db ''S'' = [l]" "costs_of db ''S'' = []" by (simp_all add: revenue_of_def costs_of_def l)
  have "cents_ledger [l]" "cents_ledger ([] :: cost_entry list)" by (simp_all add: cents_ledger_def l cl money_bound_def)
  from round_profit [OF this] have "pf_gross_profit (profit_of [l] []) = cent 10000"
    by (simp add: profit_of_def Let_def total_cents_def l cl)
  then have pos: "0 \<le> pf_gross_profit (profit_of [l] [])" by (simp add: cent_nonneg)
  have "get_profitability db ''S'' ''T'' = Inr (profit_of [l] [])"
    using s(5) d0(3) by (simp add: get_profitability_def tenant_shipment_def led)
  then have p: "get_profitability db (lq_shipment_id ?q) (lq_tenant_id ?q) = Inr (profit_of [l] [])" by simp
  have "\<exists>e'. dget (ex_exceptions db) ''X'' = Some e' \<and> se_status e' = ''RESOLVED''
    \<and> se_resolution_notes e' = Some ''Shipment returned to positive gross profitability.''"
    by (rule cargo_loss_resolved_by_profit [OF c(1) _ _ c(2) db _ fresh _ _ p pos]) (simp_all add: sample_loss_def)
  then show ?thesis using c(1) db by blast
qed

theorem two_losses_block_ledgers_witness:
  "\<exists>e f db1 db2 err. create_exception ''X'' 0 sample_loss sample_fin = (Inr e, db1) \<and> create_exception ''Y'' 0 sample_loss db1 = (Inr f, db2)
    \<and> fst (fin_service (Revenue_Line ''L'' ''E'' 0 (profile_line (cent 10000))) db2) = Inl err"
proof -
  obtain e escs db1 where c: "create_exception ''X'' 0 sample_loss sample_fin = (Inr (e, escs), db1)" "se_exception_type e = ''CARGO_LOSS''"
    using sample_loss_raised [of sample_fin "''X''" 0] by auto
  obtain config where "resolve_exception_type (xr_exception_type sample_loss) = Some config"
    and sh: "ex_shipments db1 = ex_shipments sample_fin" by (rule create_exception_effect [OF c(1)]) (rule that)
  obtain f escs' db2 where d: "create_exception ''Y'' 0 sample_loss db1 = (Inr (f, escs'), db2)" "se_exception_type f = ''CARGO_LOSS''"
    using sample_loss_raised [of db1 "''Y''" 0] sh by auto
  have "\<exists>err. fst (fin_service (Revenue_Line ''L'' ''E'' 0 (profile_line (cent 10000))) db2) = Inl err"
    by (rule two_losses_block_ledgers [OF c(1) d(1) _ _ _ _ c(2) d(2), where eid = "''E''" and now = 0 and q = "profile_line (cent 10000)"])
      (simp_all add: sample_loss_def)
  then show ?thesis using c(1) d(1) by blast
qed

definition sample_correction :: correction where
  "sample_correction = \<lparr>cq_entry_id = ''N'', cq_tenant_id = ''T'', cq_actor_id = ''U'', cq_reason = ''wrong rate'',
     cq_new_debit = 25, cq_new_credit = 0, cq_new_description = None, cq_approved_by = None\<rparr>"

theorem reversals_cancel_witness:
  "\<exists>db e j r. reached fin_service fin_ok sample_fin db \<and> dget (fd_entries db) ''N'' = Some e \<and> dget (fd_entries db) j = Some r
    \<and> is_reversal e r \<and> fe_debit_amount e = 30"
proof -
  let ?op = "Correct_Entry ''R'' ''C'' 7 sample_correction"
  have len: "\<not> length (py_strip ''wrong rate'') < 3" by code_simp
  have "\<exists>x db. reverse_and_correct_entry ''R'' ''C'' 7 sample_correction sample_fin = (Inr x, db)"
    using len by (simp add: reverse_and_correct_entry_def sample_correction_def sample_entry_def Let_def)
  then obtain x db where c: "reverse_and_correct_entry ''R'' ''C'' 7 sample_correction sample_fin = (Inr x, db)" by blast
  obtain e0 where e0: "dget (fd_entries sample_fin) (cq_entry_id sample_correction) = Some e0"
    and d: "fd_entries db = dset ''C'' (corrected_of ''C'' ''R'' 7 sample_correction e0) (dset ''R'' (reversal_of ''R'' 7 sample_correction e0)
       (dset (fe_id e0) (e0\<lparr>fe_status := ''REVERSED'', fe_reversal_reason := Some (cq_reason sample_correction)\<rparr>) (fd_entries sample_fin)))"
    by (rule correction_effect [OF c]) (rule that)
  have "reached fin_service fin_ok sample_fin (snd (committed (fin_service ?op sample_fin) sample_fin))"
    by (rule reached_request [OF reached_start]) simp
  then have re: "reached fin_service fin_ok sample_fin db" by (simp add: c)
  have e: "e0 = sample_entry" using e0 by (simp add: sample_correction_def)
  have get: "dget (fd_entries db) ''N'' = Some (sample_entry\<lparr>fe_status := ''REVERSED'', fe_reversal_reason := Some (cq_reason sample_correction)\<rparr>)"
    by (simp add: d e dget_dset sample_entry_def)
  from conjunct1 [OF reversals_cancel [OF re sample_fin_inv], rule_format, OF get] obtain j r where "dget (fd_entries db) j = Some r"
    "is_reversal (sample_entry\<lparr>fe_status := ''REVERSED'', fe_reversal_reason := Some (cq_reason sample_correction)\<rparr>) r" by auto
  then show ?thesis using re get
    by (intro exI [of _ db] exI [of _ "sample_entry\<lparr>fe_status := ''REVERSED'', fe_reversal_reason := Some (cq_reason sample_correction)\<rparr>"]
        exI [of _ j] exI [of _ r]) (simp add: sample_entry_def)
qed

end
