(* ===== verification/Integrity_Life.thy ===== *)
theory Integrity_Life
  imports Integrity Financial_Life
begin

text \<open>
Contracted rates against bills, settlements and the market: which bills match, what a settlement pays and posts,
  and how the review counts the rates.
\<close>


section \<open>The contracted rate\<close>

lemma latest_version_facts:
  assumes "latest_version db rate_id = Some v"
  shows "v \<in> set (ig_versions db)" "kv_rate_id v = rate_id" "kv_approval_status v = ''APPROVED''"
    and "\<And>w. w \<in> set (ig_versions db) \<Longrightarrow> kv_rate_id w = rate_id \<Longrightarrow> kv_approval_status w = ''APPROVED'' \<Longrightarrow> kv_number w \<le> kv_number v"
proof -
  let ?vs = "filter (\<lambda>v. kv_rate_id v = rate_id \<and> kv_approval_status v = ''APPROVED'') (ig_versions db)"
  obtain rest where s: "sort_key (\<lambda>v. - kv_number v) ?vs = v # rest"
    using assms by (auto simp: latest_version_def split: list.splits)
  then have ne: "?vs \<noteq> []" by (metis list.distinct(1) set_empty set_sort)
  have hd: "hd (sort_key (\<lambda>v. - kv_number v) ?vs) = v" by (simp only: s list.sel)
  from hd_sort_key_mem [OF ne, of "\<lambda>v. - kv_number v"] have "v \<in> set ?vs" by (simp only: hd)
  then show "v \<in> set (ig_versions db)" "kv_rate_id v = rate_id" "kv_approval_status v = ''APPROVED''" by simp_all
  fix w assume "w \<in> set (ig_versions db)" "kv_rate_id w = rate_id" "kv_approval_status w = ''APPROVED''"
  then have "w \<in> set ?vs" by simp
  from hd_sort_key_le [OF this, of "\<lambda>v. - kv_number v"] show "kv_number w \<le> kv_number v" by (simp only: hd neg_le_iff_le)
qed

lemma one_or_none_filter: "one_or_none (filter P xs) = Inr (Some x) \<Longrightarrow> x \<in> set xs \<and> P x"
proof -
  assume h: "one_or_none (filter P xs) = Inr (Some x)"
  have "x \<in> set ys" if "one_or_none ys = Inr (Some x)" for ys using that by (auto simp: one_or_none_def split: list.splits)
  from this [OF h] show ?thesis by simp
qed

lemma first_versioned_facts:
  "first_versioned db cc rates = Inr (Some (r, v, line)) \<Longrightarrow> r \<in> set rates \<and> latest_version db (kr_id r) = Some v
    \<and> (\<forall>l. line = Some l \<longrightarrow> l \<in> set (version_lines db (kv_id v)) \<and> cc = Some (kl_charge_code l))"
proof (induction rates)
  case (Cons r' rates)
  show ?case
  proof (cases "latest_version db (kr_id r')")
    case None
    then show ?thesis using Cons by auto
  next
    case (Some v')
    show ?thesis using Cons.prems Some by (cases cc) (auto simp: res_simps dest!: one_or_none_filter split: if_splits)
  qed
qed simp

lemma candidate_facts:
  "r \<in> set (candidate_rates db t day sts v o' d m) \<Longrightarrow> r \<in> set (ig_rates db) \<and> kr_tenant_id r = t \<and> kr_effective_date r \<le> day
     \<and> day \<le> kr_expiry_date r \<and> kr_status r \<in> set sts"
  by (simp add: candidate_rates_def)

section \<open>Matching\<close>

text \<open>Four digits: a difference rounds to less than one ten-thousandth exactly when it is at most half of one.\<close>

lemma small_variance: "\<bar>py_round 4 x\<bar> < flit (1 / 10000) \<longleftrightarrow> \<bar>x\<bar> \<le> 1 / 20000"
proof -
  let ?k = "rhe (x * 10 ^ 4)"
  have r: "py_round 4 x = rnd (of_int ?k / 10000)" by (simp add: py_round_def)
  have abs: "\<bar>rnd (of_int ?k / 10000)\<bar> = rnd (of_int \<bar>?k\<bar> / 10000)"
  proof (cases "0 \<le> ?k")
    case True
    then show ?thesis using rnd_nonneg [of "of_int ?k / 10000"] by simp
  next
    case False
    then have "0 \<le> rnd (of_int (- ?k) / 10000)" by (intro rnd_nonneg) simp
    moreover have "rnd (of_int ?k / 10000) = - rnd (of_int (- ?k) / 10000)"
      using rnd_minus [of "of_int (- ?k) / 10000"] by simp
    ultimately show ?thesis using False by simp
  qed
  have "rnd (of_int \<bar>?k\<bar> / 10000) < rnd (1 / 10000) \<longleftrightarrow> ?k = 0"
  proof
    assume lt: "rnd (of_int \<bar>?k\<bar> / 10000) < rnd (1 / 10000)"
    show "?k = 0"
    proof (rule ccontr)
      assume "?k \<noteq> 0"
      then have "(1 :: rat) \<le> of_int \<bar>?k\<bar>" by linarith
      then have "rnd (1 / 10000) \<le> rnd (of_int \<bar>?k\<bar> / 10000)" by (intro rnd_mono divide_right_mono) simp_all
      with lt show False by simp
    qed
  next
    assume "?k = 0"
    moreover have "0 < rnd (1 / 10000)" by code_simp
    ultimately show "rnd (of_int \<bar>?k\<bar> / 10000) < rnd (1 / 10000)" by simp
  qed
  moreover have "?k = 0 \<longleftrightarrow> \<bar>x\<bar> \<le> 1 / 20000"
  proof
    assume "?k = 0"
    then show "\<bar>x\<bar> \<le> 1 / 20000" using rhe_dist [of "x * 10 ^ 4"] by (simp add: abs_mult)
  next
    assume x: "\<bar>x\<bar> \<le> 1 / 20000"
    have "rhe (1 / 2) = 0" "rhe (- (1 / 2)) = 0"
    proof -
      have "(rhe (1 / 2) = 0) \<and> (rhe (- (1 / 2)) = 0)" by code_simp
      then show "rhe (1 / 2) = 0" "rhe (- (1 / 2)) = 0" by blast+
    qed
    moreover have "- (1 / 2) \<le> x * 10 ^ 4" "x * 10 ^ 4 \<le> 1 / 2" using x by (simp_all add: abs_le_iff)
    ultimately show "?k = 0" using rhe_mono [of "- (1 / 2)" "x * 10 ^ 4"] rhe_mono [of "x * 10 ^ 4" "1 / 2"] by simp
  qed
  ultimately show ?thesis by (simp only: r abs flit_def)
qed

lemma match_cases:
  assumes "match_vendor_bill did now q db = (Inr r, db')"
  shows "(mr_matched r \<longleftrightarrow> (\<exists>rate v l. find_contracted q db = Inr (Some (rate, v, Some l)) \<and> \<bar>fsub (mq_invoiced_amount q) (kl_amount l)\<bar> \<le> 1 / 20000))
    \<and> mr_status r = (if mr_matched r then ''MATCHED'' else ''OPEN'')
    \<and> (if mr_matched r then db' = db
       else \<exists>d. db' = db\<lparr>ig_discrepancies := ig_discrepancies db @ [d]\<rparr> \<and> bd_id d = did \<and> bd_tenant_id d = mq_tenant_id q
          \<and> bd_variance_amount d = mr_variance r \<and> \<not> bd_was_expired d)
    \<and> \<not> mr_was_expired r"
proof -
  obtain best where best: "find_contracted q db = Inr best"
    using assms by (cases "find_contracted q db") (simp_all add: match_vendor_bill_def)
  have valid: "\<not> kr_expiry_date rate < mq_invoice_date q" if "best = Some (rate, v, line)" for rate v line
  proof -
    have "rate \<in> set (candidate_rates db (mq_tenant_id q) (mq_invoice_date q) [''APPROVED'', ''ACTIVE''] (parse_uuid (mq_vendor_id q))
       (parse_uuid (mq_origin_id q)) (parse_uuid (mq_destination_id q)) (mq_mode q))"
      using first_versioned_facts best that unfolding find_contracted_def by blast
    then show ?thesis using candidate_facts by fastforce
  qed
  define rate where "rate = map_option fst best"
  define version where "version = map_option (fst \<circ> snd) best"
  define contracted where "contracted = Option.bind best (\<lambda>b. map_option kl_amount (snd (snd b)))"
  have nx: "(case rate of None \<Rightarrow> False | Some r \<Rightarrow> kr_expiry_date r < mq_invoice_date q) = False"
    using valid by (cases best) (auto simp: rate_def)
  define m where "m \<longleftrightarrow> contracted \<noteq> None \<and> \<bar>bill_variance q contracted\<bar> < flit (1 / 10000)"
  have rn: "rate = None \<Longrightarrow> \<not> m" by (auto simp: m_def contracted_def rate_def)
  note h = assms [unfolded match_vendor_bill_def best sum.case Let_def, folded rate_def version_def contracted_def, unfolded nx]
  have r: "mr_matched r = m" "mr_status r = (if m then ''MATCHED'' else ''OPEN'')" "\<not> mr_was_expired r" "mr_variance r = bill_variance q contracted"
    using h rn by (cases "rate = None"; auto simp: m_def)+
  have d: "db' = (if m then db else db\<lparr>ig_discrepancies := ig_discrepancies db @
      [discrepancy_of did now q rate version contracted (bill_variance q contracted) False]\<rparr>)"
    using h rn by (cases "rate = None"; auto simp: m_def)+
  have m: "m \<longleftrightarrow> (\<exists>rate v l. find_contracted q db = Inr (Some (rate, v, Some l)) \<and> \<bar>fsub (mq_invoiced_amount q) (kl_amount l)\<bar> \<le> 1 / 20000)"
    unfolding m_def best by (cases best) (auto simp: contracted_def bill_variance_def small_variance split: option.splits)
  have "if m then db' = db
       else \<exists>d. db' = db\<lparr>ig_discrepancies := ig_discrepancies db @ [d]\<rparr> \<and> bd_id d = did \<and> bd_tenant_id d = mq_tenant_id q
          \<and> bd_variance_amount d = bill_variance q contracted \<and> \<not> bd_was_expired d"
  proof (cases m)
    case False
    have "bd_id x = did \<and> bd_tenant_id x = mq_tenant_id q \<and> bd_variance_amount x = bill_variance q contracted \<and> \<not> bd_was_expired x"
      if "x = discrepancy_of did now q rate version contracted (bill_variance q contracted) False" for x
      using that by (simp add: discrepancy_of_def)
    with d False show ?thesis by (simp only: if_False) blast
  qed (simp add: d)
  then show ?thesis using m by (simp only: r) simp
qed

lemma match_effect:
  assumes "match_vendor_bill did now q db = (Inr r, db')"
  obtains ds where "ig_discrepancies db' = ig_discrepancies db @ ds" "\<forall>d \<in> set ds. \<not> bd_was_expired d"
    "ig_settlements db' = ig_settlements db" "fd_entries db' = fd_entries db"
proof (cases "mr_matched r")
  case True
  then have "db' = db" using match_cases [OF assms] by simp
  then show thesis by (intro that [of "[]"]) simp_all
next
  case False
  with match_cases [OF assms] have "\<exists>d. db' = db\<lparr>ig_discrepancies := ig_discrepancies db @ [d]\<rparr> \<and> bd_id d = did \<and> bd_tenant_id d = mq_tenant_id q
          \<and> bd_variance_amount d = mr_variance r \<and> \<not> bd_was_expired d" by (simp only: False if_False simp_thms)
  then obtain d where "db' = db\<lparr>ig_discrepancies := ig_discrepancies db @ [d]\<rparr>" "\<not> bd_was_expired d" by blast
  then show thesis by (intro that [of "[d]"]) simp_all
qed

text \<open>C15: A bill is matched exactly when the contracted rate found for its day has a line for the charge whose amount
  differs from the billed one by at most half of the fourth decimal; a discrepancy is stored exactly when it
  is not matched. The flag for a rate that has expired is never set: an expired rate is not found at all.\<close>

theorem bill_match_exact:
  assumes "match_vendor_bill did now q db = (Inr r, db')"
  shows "(mr_matched r \<longleftrightarrow> (\<exists>rate v l. find_contracted q db = Inr (Some (rate, v, Some l)) \<and> \<bar>fsub (mq_invoiced_amount q) (kl_amount l)\<bar> \<le> 1 / 20000))
    \<and> mr_status r = (if mr_matched r then ''MATCHED'' else ''OPEN'')
    \<and> (if mr_matched r then db' = db
       else \<exists>d. db' = db\<lparr>ig_discrepancies := ig_discrepancies db @ [d]\<rparr> \<and> bd_id d = did \<and> bd_tenant_id d = mq_tenant_id q
          \<and> bd_variance_amount d = mr_variance r \<and> \<not> bd_was_expired d)
    \<and> \<not> mr_was_expired r"
  by (rule match_cases [OF assms])

text \<open>Two lines of a version for the charge, as for two weight breaks, and no bill of the lane can be matched.\<close>

lemma ambiguous_lines_fail:
  assumes "candidate_rates db (mq_tenant_id q) (mq_invoice_date q) [''APPROVED'', ''ACTIVE''] (parse_uuid (mq_vendor_id q))
      (parse_uuid (mq_origin_id q)) (parse_uuid (mq_destination_id q)) (mq_mode q) = rate # rates"
    and "latest_version db (kr_id rate) = Some v" and "truthy (mq_charge_code q)"
    and "2 \<le> length (filter (\<lambda>l. kl_charge_code l = the (mq_charge_code q)) (version_lines db (kv_id v)))"
  shows "match_vendor_bill did now q db = (Inl MultipleResultsFound, db)"
proof -
  have "one_or_none (filter (\<lambda>l. kl_charge_code l = the (mq_charge_code q)) (version_lines db (kv_id v))) = Inl MultipleResultsFound"
    using assms(4) by (auto simp: one_or_none_def split: list.splits)
  then show ?thesis using assms by (simp add: match_vendor_bill_def find_contracted_def res_map_def res_bind_def)
qed

section \<open>Settlements\<close>

lemma active_agreement_facts:
  assumes "active_agreement db agent day = Some a"
  shows "a \<in> set (ig_agreements db)" "aa_agent_id a = agent" "aa_effective_date a \<le> day" "day \<le> aa_expiry_date a" "aa_rate_id a \<in> kr_id ` set (ig_rates db)"
    and "\<And>b. b \<in> set (ig_agreements db) \<Longrightarrow> aa_rate_id b \<in> kr_id ` set (ig_rates db) \<Longrightarrow> aa_agent_id b = agent \<Longrightarrow>
       aa_effective_date b \<le> day \<Longrightarrow> day \<le> aa_expiry_date b \<Longrightarrow> aa_effective_date b \<le> aa_effective_date a"
proof -
  let ?as = "filter (\<lambda>a. aa_rate_id a \<in> kr_id ` set (ig_rates db) \<and> aa_agent_id a = agent
        \<and> aa_effective_date a \<le> day \<and> day \<le> aa_expiry_date a) (ig_agreements db)"
  obtain rest where s: "sort_key (\<lambda>a. - aa_effective_date a) ?as = a # rest"
    using assms by (auto simp: active_agreement_def split: list.splits)
  then have ne: "?as \<noteq> []" by (metis list.distinct(1) set_empty set_sort)
  have hd: "hd (sort_key (\<lambda>a. - aa_effective_date a) ?as) = a" by (simp only: s list.sel)
  from hd_sort_key_mem [OF ne, of "\<lambda>a. - aa_effective_date a"] have "a \<in> set ?as" by (simp only: hd)
  then show "a \<in> set (ig_agreements db)" "aa_agent_id a = agent" "aa_effective_date a \<le> day" "day \<le> aa_expiry_date a"
    "aa_rate_id a \<in> kr_id ` set (ig_rates db)" by simp_all
  fix b assume "b \<in> set (ig_agreements db)" "aa_rate_id b \<in> kr_id ` set (ig_rates db)" "aa_agent_id b = agent"
    "aa_effective_date b \<le> day" "day \<le> aa_expiry_date b"
  then have "b \<in> set ?as" by simp
  from hd_sort_key_le [OF this, of "\<lambda>a. - aa_effective_date a"] show "aa_effective_date b \<le> aa_effective_date a" by (simp only: hd neg_le_iff_le)
qed

lemma settlement_effect:
  assumes "calculate_agent_settlement sid eid lid now q db = (Inr r, db')"
  obtains agent where "parse_uuid (Some (sq_agent_id q)) = Some (as_agent_id r)"
    "List.find (\<lambda>a. ag_id a = as_agent_id r \<and> ag_tenant_id a = sq_tenant_id q) (ig_agents db) = Some agent"
    "as_id r = sid" "as_cost_entry_id r = eid" "as_shipment_id r = parse_uuid (sq_shipment_id q)" "as_tenant_id r = sq_tenant_id q"
    "as_currency_code r = sq_currency_code q"
    "as_agreement_id r = map_option aa_id (active_agreement db (as_agent_id r) (sq_settlement_date q))"
    "as_rate_applied r = (case Option.bind (Option.bind (active_agreement db (as_agent_id r) (sq_settlement_date q)) (\<lambda>a. latest_version db (aa_rate_id a)))
       (\<lambda>v. first_amount db (kv_id v)) of None \<Rightarrow> 0 | Some x \<Rightarrow> x)"
    "as_settlement_amount r = py_round 4 (fmul (sq_base_amount q) (as_rate_applied r))"
    "\<exists>text. fd_entries db' = dset eid (settlement_entry eid q text (as_settlement_amount r)) (fd_entries db)"
    "fd_costs db' = (case (as_shipment_id r, ag_vendor_id agent) of
       (Some s, Some v) \<Rightarrow> fd_costs db @ [settlement_cost lid s v (as_settlement_amount r)] | _ \<Rightarrow> fd_costs db)"
    "ig_settlements db' = ig_settlements db @ [r]" "ex_exceptions db' = ex_exceptions db" "ex_outbox db' = ex_outbox db"
    "fd_revenue db' = fd_revenue db" "ex_shipments db' = ex_shipments db"
proof -
  obtain agent_id where a: "parse_uuid (Some (sq_agent_id q)) = Some agent_id"
    using assms by (cases "parse_uuid (Some (sq_agent_id q))") (simp_all add: calculate_agent_settlement_def)
  obtain agent where g: "List.find (\<lambda>a. ag_id a = agent_id \<and> ag_tenant_id a = sq_tenant_id q) (ig_agents db) = Some agent"
    using assms a by (cases "List.find (\<lambda>a. ag_id a = agent_id \<and> ag_tenant_id a = sq_tenant_id q) (ig_agents db)")
      (simp_all add: calculate_agent_settlement_def)
  note h = assms [unfolded calculate_agent_settlement_def a g option.case Let_def]
  note rd = h [unfolded prod.inject sum.inject]
  note R = conjunct1 [OF rd, symmetric] and D = conjunct2 [OF rd, symmetric]
  have i: "as_agent_id r = agent_id" by (simp only: R agent_settlement.simps)
  show thesis
  proof (rule that [of agent])
    show "fd_costs db' = (case (as_shipment_id r, ag_vendor_id agent) of
       (Some s, Some v) \<Rightarrow> fd_costs db @ [settlement_cost lid s v (as_settlement_amount r)] | _ \<Rightarrow> fd_costs db)"
      unfolding D R by (simp split: option.split)
    show "\<exists>text. fd_entries db' = dset eid (settlement_entry eid q text (as_settlement_amount r)) (fd_entries db)"
      unfolding D R
      by (rule exI [of _ "settlement_text agent_id (map_option aa_id (active_agreement db agent_id (sq_settlement_date q)))
        (map_option kv_id (Option.bind (active_agreement db agent_id (sq_settlement_date q)) (\<lambda>a. latest_version db (aa_rate_id a))))"])
        (simp split: option.split)
    show "ig_settlements db' = ig_settlements db @ [r]" unfolding D R by (simp split: option.split)
    show "ex_exceptions db' = ex_exceptions db" unfolding D by (simp split: option.split)
    show "ex_outbox db' = ex_outbox db" unfolding D by (simp split: option.split)
    show "fd_revenue db' = fd_revenue db" unfolding D by (simp split: option.split)
    show "ex_shipments db' = ex_shipments db" unfolding D by (simp split: option.split)
  qed (simp_all only: i a g R agent_settlement.simps)
qed

text \<open>A settlement is the amount times the rate of the agreement in force on its day that took effect last, and zero
  when none is in force.\<close>

theorem settlement_exact:
  assumes "calculate_agent_settlement sid eid lid now q db = (Inr r, db')"
  shows "as_settlement_amount r = py_round 4 (fmul (sq_base_amount q) (as_rate_applied r))
    \<and> (case active_agreement db (as_agent_id r) (sq_settlement_date q) of
         None \<Rightarrow> as_agreement_id r = None \<and> as_rate_applied r = 0 \<and> as_settlement_amount r = 0
       | Some a \<Rightarrow> as_agreement_id r = Some (aa_id a) \<and> aa_agent_id a = as_agent_id r
           \<and> aa_effective_date a \<le> sq_settlement_date q \<and> sq_settlement_date q \<le> aa_expiry_date a
           \<and> \<not> (\<exists>b \<in> set (ig_agreements db). aa_rate_id b \<in> kr_id ` set (ig_rates db) \<and> aa_agent_id b = as_agent_id r
                \<and> aa_effective_date b \<le> sq_settlement_date q \<and> sq_settlement_date q \<le> aa_expiry_date b \<and> aa_effective_date a < aa_effective_date b)
           \<and> (as_rate_applied r = 0 \<or> (\<exists>v l. latest_version db (aa_rate_id a) = Some v \<and> kl_version_id l = kv_id v \<and> l \<in> set (ig_lines db)
                \<and> as_rate_applied r = kl_amount l)))"
proof -
  obtain agent where e: "List.find (\<lambda>a. ag_id a = as_agent_id r \<and> ag_tenant_id a = sq_tenant_id q) (ig_agents db) = Some agent"
    "as_agreement_id r = map_option aa_id (active_agreement db (as_agent_id r) (sq_settlement_date q))"
    "as_rate_applied r = (case Option.bind (Option.bind (active_agreement db (as_agent_id r) (sq_settlement_date q)) (\<lambda>a. latest_version db (aa_rate_id a)))
       (\<lambda>v. first_amount db (kv_id v)) of None \<Rightarrow> 0 | Some x \<Rightarrow> x)"
    "as_settlement_amount r = py_round 4 (fmul (sq_base_amount q) (as_rate_applied r))"
    by (rule settlement_effect [OF assms]) (rule that)
  show ?thesis
  proof (cases "active_agreement db (as_agent_id r) (sq_settlement_date q)")
    case None
    then show ?thesis using e by (simp add: fmul_def)
  next
    case (Some a)
    note f = active_agreement_facts [OF Some]
    have l: "\<exists>l. kl_version_id l = i \<and> l \<in> set (ig_lines db) \<and> x = kl_amount l" if f: "first_amount db i = Some x" for i x
    proof -
      obtain l ls where ls: "version_lines db i = l # ls" "x = kl_amount l" using f by (auto simp: first_amount_def split: list.splits)
      have "l \<in> set (version_lines db i)" by (simp only: ls(1) list.set_intros)
      with ls(2) show ?thesis by (auto simp only: version_lines_def set_filter mem_Collect_eq)
    qed
    have "as_rate_applied r = 0 \<or> (\<exists>v l. latest_version db (aa_rate_id a) = Some v \<and> kl_version_id l = kv_id v \<and> l \<in> set (ig_lines db)
                \<and> as_rate_applied r = kl_amount l)"
    proof (cases "latest_version db (aa_rate_id a)")
      case (Some v)
      then show ?thesis using e(3) l [of "kv_id v"] \<open>active_agreement db _ _ = Some a\<close> by (cases "first_amount db (kv_id v)") auto
    qed (use e(3) Some in simp)
    moreover have "\<not> (\<exists>b \<in> set (ig_agreements db). aa_rate_id b \<in> kr_id ` set (ig_rates db) \<and> aa_agent_id b = as_agent_id r
                \<and> aa_effective_date b \<le> sq_settlement_date q \<and> sq_settlement_date q \<le> aa_expiry_date b \<and> aa_effective_date a < aa_effective_date b)"
      using f(6) by (meson not_less)
    ultimately show ?thesis using Some e(2,4) f(2-4) by simp
  qed
qed

text \<open>A settlement posts a cost on the shipment behind the back of the margin check: the direct cost grows by the
  settled amount, in USD whatever the currency of the settlement, and no exception is raised or resolved.\<close>

theorem settlement_bypasses_margin:
  assumes "calculate_agent_settlement sid eid lid now q db = (Inr r, db')" and "parse_uuid (sq_shipment_id q) = Some s"
    and "List.find (\<lambda>a. ag_id a = as_agent_id r \<and> ag_tenant_id a = sq_tenant_id q) (ig_agents db) = Some agent" and "ag_vendor_id agent = Some v"
  shows "\<exists>c. costs_of (fin_db.truncate db') s = costs_of (fin_db.truncate db) s @ [c] \<and> ll_amount c = as_settlement_amount r
    \<and> ll_currency_code c = Some ''USD'' \<and> revenue_of (fin_db.truncate db') s = revenue_of (fin_db.truncate db) s
    \<and> as_currency_code r = sq_currency_code q \<and> ex_exceptions db' = ex_exceptions db \<and> ex_outbox db' = ex_outbox db"
proof -
  obtain agent' where e: "List.find (\<lambda>a. ag_id a = as_agent_id r \<and> ag_tenant_id a = sq_tenant_id q) (ig_agents db) = Some agent'"
    "as_shipment_id r = parse_uuid (sq_shipment_id q)" "as_currency_code r = sq_currency_code q"
    "fd_costs db' = (case (as_shipment_id r, ag_vendor_id agent') of
       (Some s, Some v) \<Rightarrow> fd_costs db @ [settlement_cost lid s v (as_settlement_amount r)] | _ \<Rightarrow> fd_costs db)"
    "ex_exceptions db' = ex_exceptions db" "ex_outbox db' = ex_outbox db" "fd_revenue db' = fd_revenue db"
    by (rule settlement_effect [OF assms(1)]) (rule that)
  have "fd_costs db' = fd_costs db @ [settlement_cost lid s v (as_settlement_amount r)]"
    using e(1,2,4) assms(2,3,4) by simp
  then show ?thesis using e
    by (intro exI [of _ "settlement_cost lid s v (as_settlement_amount r)"])
      (simp add: costs_of_def revenue_of_def fin_db.truncate_def settlement_cost_def)
qed

text \<open>
  The requests on these tables: the three of this service that store anything, and those of the
  ledger, its corrections and the exceptions (\<open>fin_op\<close>), which share the entries with it.
\<close>

datatype integ_op =
    Match_Bill string datetime match_request
  | Settle_Agent string string string datetime settlement_request
  | Add_Market_Rate string string market_request
  | Ledger_Op fin_op

fun integ_service :: "integ_op \<Rightarrow> integ_db \<Rightarrow> unit res \<times> integ_db" where
  "integ_service (Match_Bill did now q) db = (case match_vendor_bill did now q db of (r, db') \<Rightarrow> (res_map (\<lambda>_. ()) r, db'))"
| "integ_service (Settle_Agent sid eid lid now q) db =
     (case calculate_agent_settlement sid eid lid now q db of (r, db') \<Rightarrow> (res_map (\<lambda>_. ()) r, db'))"
| "integ_service (Add_Market_Rate mid tenant q) db = (case create_market_rate mid tenant q db of (r, db') \<Rightarrow> (res_map (\<lambda>_. ()) r, db'))"
| "integ_service (Ledger_Op op) db =
     (case fin_service op (fin_db.truncate db) of (r, fd) \<Rightarrow> (r, fin_db.extend fd (fin_db.more db)))"

fun integ_ok :: "integ_op \<Rightarrow> integ_db \<Rightarrow> bool" where
  "integ_ok (Ledger_Op op) db = fin_ok op (fin_db.truncate db)"
| "integ_ok (Settle_Agent sid eid lid now q) db = (eid \<notin> set (dkeys (fd_entries db)))"
| "integ_ok _ db = True"

definition settlements_inv :: "integ_db \<Rightarrow> bool" where
  "settlements_inv db \<longleftrightarrow> distinct (map as_cost_entry_id (ig_settlements db)) \<and> store_inv fe_id (fd_entries db)
     \<and> (\<forall>r \<in> set (ig_settlements db). \<exists>e. dget (fd_entries db) (as_cost_entry_id r) = Some e \<and> fe_id e = as_cost_entry_id r
          \<and> fe_debit_amount e = as_settlement_amount r \<and> fe_credit_amount e = 0 \<and> fe_entry_type e = ''AGENT_SETTLEMENT''
          \<and> fe_shipment_id e = as_shipment_id r \<and> fe_currency_code e = as_currency_code r \<and> fe_tenant_id e = as_tenant_id r)
     \<and> (\<forall>d \<in> set (ig_discrepancies db). \<not> bd_was_expired d)"

text \<open>A ledger request keeps every entry but for the status and the reason of a reversal.\<close>

definition same_posting :: "ledger_entry \<Rightarrow> ledger_entry \<Rightarrow> bool" where
  "same_posting e e' \<longleftrightarrow> fe_id e' = fe_id e \<and> fe_debit_amount e' = fe_debit_amount e \<and> fe_credit_amount e' = fe_credit_amount e
     \<and> fe_entry_type e' = fe_entry_type e \<and> fe_shipment_id e' = fe_shipment_id e \<and> fe_currency_code e' = fe_currency_code e
     \<and> fe_tenant_id e' = fe_tenant_id e"

lemma ledger_op_entries:
  assumes st: "store_inv fe_id (fd_entries db)" and ok: "fin_ok op db" and op: "fin_service op db = (Inr u, db')"
  shows "store_inv fe_id (fd_entries db')"
    and "dget (fd_entries db) i = Some e \<Longrightarrow> \<exists>e'. dget (fd_entries db') i = Some e' \<and> same_posting e e'"
proof -
  have "store_inv fe_id (fd_entries db') \<and>
    (dget (fd_entries db) i = Some e \<longrightarrow> (\<exists>e'. dget (fd_entries db') i = Some e' \<and> same_posting e e'))"
  proof (cases "line_of op")
    case (Some l)
    then have "fd_entries db' = fd_entries db" using op by (cases l) (metis fin_line_entries)
    then show ?thesis using st by (simp add: same_posting_def)
  next
    case None
    then consider (correct) rid cid today q where "op = Correct_Entry rid cid today q" | (exc) r where "op = Exception_Op r"
      by (cases op) auto
    then show ?thesis
    proof cases
      case correct
      then obtain x where c: "reverse_and_correct_entry rid cid today q db = (Inr x, db')"
        using op by (auto simp: res_simps split: prod.splits)
      obtain o' where o: "dget (fd_entries db) (cq_entry_id q) = Some o'"
        and d': "fd_entries db' = dset cid (corrected_of cid rid today q o') (dset rid (reversal_of rid today q o')
          (dset (fe_id o') (o'\<lparr>fe_status := ''REVERSED'', fe_reversal_reason := Some (cq_reason q)\<rparr>) (fd_entries db)))"
        by (rule correction_effect [OF c]) (rule that)
      have k: "fe_id o' = cq_entry_id q" using store_find_key [OF st o] .
      have new: "dget (fd_entries db) rid = None" "dget (fd_entries db) cid = None"
        using ok correct by (simp_all add: map_of_eq_None_iff)
      have ids: "fe_id (reversal_of rid today q o') = rid" "fe_id (corrected_of cid rid today q o') = cid"
        by (simp_all add: reversal_of_def corrected_of_def)
      have "store_inv fe_id (fd_entries db')" unfolding d' by (intro store_inv_dset st) (simp_all add: ids)
      moreover have "\<exists>e'. dget (fd_entries db') i = Some e' \<and> same_posting e e'" if "dget (fd_entries db) i = Some e"
      proof (cases "i = cq_entry_id q")
        case True
        with that o new show ?thesis by (auto simp: d' k dget_dset same_posting_def)
      next
        case False
        with that new have "dget (fd_entries db') i = Some e" by (auto simp: d' k dget_dset)
        then show ?thesis by (simp add: same_posting_def)
      qed
      ultimately show ?thesis by blast
    next
      case exc
      then obtain x where "exception_service r db = (Inr x, db')" using op by (auto simp: res_simps split: prod.splits)
      then have "fd_entries db' = fd_entries db" using exception_service_more by (metis more_eq)
      then show ?thesis using st by (simp add: same_posting_def)
    qed
  qed
  then show "store_inv fe_id (fd_entries db')"
    and "dget (fd_entries db) i = Some e \<Longrightarrow> \<exists>e'. dget (fd_entries db') i = Some e' \<and> same_posting e e'" by blast+
qed

lemma create_market_rate_same:
  "create_market_rate mid tenant q db = (Inr m, db') \<Longrightarrow> ig_settlements db' = ig_settlements db \<and> fd_entries db' = fd_entries db
     \<and> ig_discrepancies db' = ig_discrepancies db"
  by (auto simp: create_market_rate_def Let_def split: option.splits)

lemma integ_service_inv:
  assumes inv: "settlements_inv db" and ok: "integ_ok op db" and op: "integ_service op db = (Inr u, db')"
  shows "settlements_inv db'"
proof (cases op)
  case (Match_Bill did now q)
  then obtain r where m: "match_vendor_bill did now q db = (Inr r, db')" using op by (auto simp: res_simps split: prod.splits)
  obtain ds where "ig_discrepancies db' = ig_discrepancies db @ ds" "\<forall>d \<in> set ds. \<not> bd_was_expired d"
    "ig_settlements db' = ig_settlements db" "fd_entries db' = fd_entries db"
    by (rule match_effect [OF m])
  then show ?thesis using inv by (auto simp: settlements_inv_def)
next
  case (Settle_Agent sid eid lid now q)
  then obtain r where c: "calculate_agent_settlement sid eid lid now q db = (Inr r, db')" using op by (auto simp: res_simps split: prod.splits)
  have new: "dget (fd_entries db) eid = None" using ok Settle_Agent by (simp add: map_of_eq_None_iff)
  have disc: "ig_discrepancies db' = ig_discrepancies db"
    using c by (auto simp: calculate_agent_settlement_def Let_def split: option.splits)
  obtain agent where e: "List.find (\<lambda>a. ag_id a = as_agent_id r \<and> ag_tenant_id a = sq_tenant_id q) (ig_agents db) = Some agent"
    "as_cost_entry_id r = eid" "as_shipment_id r = parse_uuid (sq_shipment_id q)" "as_tenant_id r = sq_tenant_id q"
    "as_currency_code r = sq_currency_code q"
    "\<exists>text. fd_entries db' = dset eid (settlement_entry eid q text (as_settlement_amount r)) (fd_entries db)"
    "ig_settlements db' = ig_settlements db @ [r]"
    by (rule settlement_effect [OF c]) (rule that)
  obtain txt0 where t: "fd_entries db' = dset eid (settlement_entry eid q txt0 (as_settlement_amount r)) (fd_entries db)" using e(6) ..
  have old: "as_cost_entry_id x \<noteq> eid" if "x \<in> set (ig_settlements db)" for x
    using inv that new unfolding settlements_inv_def by fastforce
  then have "eid \<notin> as_cost_entry_id ` set (ig_settlements db)" by blast
  moreover have "store_inv fe_id (fd_entries db')"
    unfolding t using inv by (intro store_inv_dset) (simp_all add: settlements_inv_def settlement_entry_def)
  ultimately show ?thesis using inv old unfolding settlements_inv_def
    by (simp add: e(2-5,7) t disc dget_dset settlement_entry_def)
next
  case (Add_Market_Rate mid tenant q)
  then obtain m where "create_market_rate mid tenant q db = (Inr m, db')" using op by (auto simp: res_simps split: prod.splits)
  from create_market_rate_same [OF this] show ?thesis using inv by (simp add: settlements_inv_def)
next
  case (Ledger_Op lop)
  then obtain fd where f: "fin_service lop (fin_db.truncate db) = (Inr u, fd)" and db': "db' = fin_db.extend fd (fin_db.more db)"
    using op by (auto split: prod.splits)
  have same: "ig_settlements db' = ig_settlements db" "ig_discrepancies db' = ig_discrepancies db" "fd_entries db' = fd_entries fd"
    by (cases db, simp add: db' fin_db.extend_def)+
  have tr: "fd_entries (fin_db.truncate db) = fd_entries db" by (simp add: fin_db.truncate_def)
  have "fin_ok lop (fin_db.truncate db)" "store_inv fe_id (fd_entries db)" using ok Ledger_Op inv by (simp_all add: settlements_inv_def)
  note l = ledger_op_entries [OF _ this(1) f, unfolded tr, OF this(2)]
  have "\<exists>e'. dget (fd_entries fd) (as_cost_entry_id r) = Some e' \<and> fe_id e' = as_cost_entry_id r
      \<and> fe_debit_amount e' = as_settlement_amount r \<and> fe_credit_amount e' = 0 \<and> fe_entry_type e' = ''AGENT_SETTLEMENT''
      \<and> fe_shipment_id e' = as_shipment_id r \<and> fe_currency_code e' = as_currency_code r \<and> fe_tenant_id e' = as_tenant_id r"
    if "r \<in> set (ig_settlements db)" for r
  proof -
    from bspec [OF inv [unfolded settlements_inv_def, THEN conjunct2, THEN conjunct2, THEN conjunct1] that]
    obtain e where e: "dget (fd_entries db) (as_cost_entry_id r) = Some e" "fe_id e = as_cost_entry_id r"
      "fe_debit_amount e = as_settlement_amount r" "fe_credit_amount e = 0" "fe_entry_type e = ''AGENT_SETTLEMENT''"
      "fe_shipment_id e = as_shipment_id r" "fe_currency_code e = as_currency_code r" "fe_tenant_id e = as_tenant_id r"
      by (elim exE conjE)
    from l(2) [OF e(1)] e(2-) show ?thesis by (auto simp: same_posting_def)
  qed
  then have "\<forall>r \<in> set (ig_settlements db). \<exists>e. dget (fd_entries fd) (as_cost_entry_id r) = Some e \<and> fe_id e = as_cost_entry_id r
      \<and> fe_debit_amount e = as_settlement_amount r \<and> fe_credit_amount e = 0 \<and> fe_entry_type e = ''AGENT_SETTLEMENT''
      \<and> fe_shipment_id e = as_shipment_id r \<and> fe_currency_code e = as_currency_code r \<and> fe_tenant_id e = as_tenant_id r" ..
  with inv l(1) show ?thesis unfolding settlements_inv_def same by (elim conjE) (intro conjI; assumption)
qed

interpretation integrity: service_contract integ_service integ_ok settlements_inv
  by unfold_locales (rule integ_service_inv)

text \<open>C16: In every database that the requests of this service (a bill matched, an agent settled, a market rate added)
  and of the ledger (lines, corrections, exceptions) reach in any order, distinct settlements have distinct ledger
  entries, and the entry of a settlement has its amount, shipment, tenant and currency; no discrepancy is marked as
  billed on an expired rate.\<close>

theorem settlements_posted:
  assumes "reached integ_service integ_ok start db" and "settlements_inv start"
  shows "(\<forall>r \<in> set (ig_settlements db). \<exists>e. dget (fd_entries db) (as_cost_entry_id r) = Some e \<and> fe_id e = as_cost_entry_id r
      \<and> fe_debit_amount e = as_settlement_amount r \<and> fe_credit_amount e = 0 \<and> fe_entry_type e = ''AGENT_SETTLEMENT''
      \<and> fe_shipment_id e = as_shipment_id r \<and> fe_currency_code e = as_currency_code r \<and> fe_tenant_id e = as_tenant_id r)
    \<and> (\<forall>i j. i < j \<longrightarrow> j < length (ig_settlements db) \<longrightarrow>
        as_cost_entry_id (ig_settlements db ! i) \<noteq> as_cost_entry_id (ig_settlements db ! j))
    \<and> (\<forall>d \<in> set (ig_discrepancies db). \<not> bd_was_expired d)"
proof -
  have inv: "settlements_inv db" by (rule integrity.reached_inv [OF assms])
  then have "distinct (map as_cost_entry_id (ig_settlements db))" by (simp add: settlements_inv_def)
  then have "\<forall>i j. i < j \<longrightarrow> j < length (ig_settlements db) \<longrightarrow>
      as_cost_entry_id (ig_settlements db ! i) \<noteq> as_cost_entry_id (ig_settlements db ! j)"
    by (auto simp: distinct_conv_nth)
  with inv show ?thesis unfolding settlements_inv_def by blast
qed

section \<open>The review\<close>

lemma review_competitiveness:
  "re_competitiveness (review_entry_for db t d h r) \<in> {''COMPETITIVE'', ''BELOW_MARKET'', ''ABOVE_MARKET'', ''UNKNOWN''}"
  by (auto simp: review_entry_for_def Let_def competitiveness_def split: option.splits)

lemma count_partition:
  "\<forall>e \<in> set es. re_competitiveness e \<in> {''COMPETITIVE'', ''BELOW_MARKET'', ''ABOVE_MARKET'', ''UNKNOWN''} \<Longrightarrow>
    count_if (\<lambda>e. re_competitiveness e = ''COMPETITIVE'') es + count_if (\<lambda>e. re_competitiveness e = ''ABOVE_MARKET'') es +
    count_if (\<lambda>e. re_competitiveness e = ''BELOW_MARKET'') es + count_if (\<lambda>e. re_competitiveness e = ''UNKNOWN'') es = length es"
  by (induction es) (auto simp: count_if_def)

text \<open>The review classifies every rate of the tenant that is valid on its day exactly once, drafts included, and asks
  for a review of exactly those that expire by the horizon or are above the market.\<close>

theorem review_partition:
  assumes "quarterly_rate_review clock tenant as_of m o' d warning db = Inr rep"
  shows "rr_competitive rep + rr_above_market rep + rr_below_market rep + rr_unavailable rep = rr_total rep
    \<and> rr_total rep = length (rr_entries rep)
    \<and> rr_needs_review rep = length (filter (\<lambda>e. kr_expiry_date (re_rate e) \<le> rr_as_of_date rep + warning \<or> re_competitiveness e = ''ABOVE_MARKET'') (rr_entries rep))
    \<and> map re_rate (rr_entries rep) = candidate_rates db tenant (rr_as_of_date rep) [''APPROVED'', ''ACTIVE'', ''DRAFT''] None (parse_uuid o') (parse_uuid d) m"
proof -
  let ?today = "case as_of of None \<Rightarrow> clock | Some d \<Rightarrow> d"
  let ?rates = "candidate_rates db tenant ?today [''APPROVED'', ''ACTIVE'', ''DRAFT''] None (parse_uuid o') (parse_uuid d) m"
  let ?es = "map (review_entry_for db tenant ?today (?today + warning)) ?rates"
  have rep: "rep = review_of ?today ?es"
    using assms by (simp add: quarterly_rate_review_def Let_def split: if_splits)
  have "re_needs_review (review_entry_for db tenant t h r) = (kr_expiry_date (re_rate (review_entry_for db tenant t h r)) \<le> h
     \<or> re_competitiveness (review_entry_for db tenant t h r) = ''ABOVE_MARKET'')" for t h r
    by (simp add: review_entry_for_def Let_def)
  then have 3: "length (filter re_needs_review ?es) = length (filter (\<lambda>e. kr_expiry_date (re_rate e) \<le> ?today + warning \<or> re_competitiveness e = ''ABOVE_MARKET'') ?es)"
    by (simp only: filter_map length_map comp_def)
  have "re_rate (review_entry_for db tenant t h r) = r" for t h r by (simp add: review_entry_for_def Let_def)
  then have 4: "map re_rate ?es = ?rates" by (simp add: comp_def)
  have "\<forall>e \<in> set ?es. re_competitiveness e \<in> {''COMPETITIVE'', ''BELOW_MARKET'', ''ABOVE_MARKET'', ''UNKNOWN''}"
    by (intro ballI, elim set_map [THEN equalityD1, THEN subsetD, THEN imageE]) (simp only: review_competitiveness)
  from count_partition [OF this] 3 4 show ?thesis
    by (simp only: rep review_of_def review_report.simps count_if_def simp_thms)
qed

section \<open>Instances\<close>

definition sample_id :: "char \<Rightarrow> string" where
  "sample_id c = replicate 8 c @ ''-'' @ replicate 4 c @ ''-'' @ replicate 4 c @ ''-'' @ replicate 4 c @ ''-'' @ replicate 12 c"

lemma parse_sample [simp]:
  "parse_uuid (Some (sample_id CHR ''1'')) = Some (sample_id CHR ''1'')" "parse_uuid (Some (sample_id CHR ''2'')) = Some (sample_id CHR ''2'')"
  "parse_uuid (Some (sample_id CHR ''3'')) = Some (sample_id CHR ''3'')" "parse_uuid (Some (sample_id CHR ''4'')) = Some (sample_id CHR ''4'')"
  "parse_uuid None = None"
proof -
  have "(parse_uuid (Some (sample_id CHR ''1'')) = Some (sample_id CHR ''1'')) \<and> (parse_uuid (Some (sample_id CHR ''2'')) = Some (sample_id CHR ''2'')) \<and> (parse_uuid (Some (sample_id CHR ''3'')) = Some (sample_id CHR ''3'')) \<and> (parse_uuid (Some (sample_id CHR ''4'')) = Some (sample_id CHR ''4'')) \<and> (parse_uuid None = None)" by code_simp
  then show "parse_uuid (Some (sample_id CHR ''1'')) = Some (sample_id CHR ''1'')" "parse_uuid (Some (sample_id CHR ''2'')) = Some (sample_id CHR ''2'')" "parse_uuid (Some (sample_id CHR ''3'')) = Some (sample_id CHR ''3'')" "parse_uuid (Some (sample_id CHR ''4'')) = Some (sample_id CHR ''4'')" "parse_uuid None = None" by blast+
qed

text \<open>A rate with an approved version of one line for freight, and an agent paid by it.\<close>

definition sample_contract :: contract_rate where
  "sample_contract = \<lparr>kr_id = ''R'', kr_tenant_id = ''T'', kr_rate_number = ''N'', kr_rate_type = ''SEA'', kr_rate_category = ''BUY'',
     kr_vendor_id = Some (sample_id CHR ''3''), kr_origin_id = Some (sample_id CHR ''1''), kr_destination_id = Some (sample_id CHR ''2''),
     kr_effective_date = 10, kr_expiry_date = 20, kr_currency_code = ''EUR'', kr_status = ''ACTIVE''\<rparr>"

definition sample_integ :: integ_db where
  "sample_integ = fin_db.extend sample_fin \<lparr>ig_rates = [sample_contract], ig_versions = [\<lparr>kv_id = ''V'', kv_rate_id = ''R'', kv_number = 1, kv_approval_status = ''APPROVED''\<rparr>],
     ig_lines = [\<lparr>kl_version_id = ''V'', kl_charge_code = ''FRT'', kl_amount = 100\<rparr>],
     ig_agents = [\<lparr>ag_id = sample_id CHR ''4'', ag_tenant_id = ''T'', ag_vendor_id = Some (sample_id CHR ''3'')\<rparr>],
     ig_agreements = [\<lparr>aa_id = ''A'', aa_agent_id = sample_id CHR ''4'', aa_rate_id = ''R'', aa_effective_date = 12, aa_expiry_date = 18\<rparr>],
     ig_market = [], ig_discrepancies = [], ig_settlements = []\<rparr>"

lemma sample_integ_tables [simp]:
  "ig_rates sample_integ = [sample_contract]" "ig_versions sample_integ = [\<lparr>kv_id = ''V'', kv_rate_id = ''R'', kv_number = 1, kv_approval_status = ''APPROVED''\<rparr>]"
  "ig_lines sample_integ = [\<lparr>kl_version_id = ''V'', kl_charge_code = ''FRT'', kl_amount = 100\<rparr>]"
  "ig_agents sample_integ = [\<lparr>ag_id = sample_id CHR ''4'', ag_tenant_id = ''T'', ag_vendor_id = Some (sample_id CHR ''3'')\<rparr>]"
  "ig_agreements sample_integ = [\<lparr>aa_id = ''A'', aa_agent_id = sample_id CHR ''4'', aa_rate_id = ''R'', aa_effective_date = 12, aa_expiry_date = 18\<rparr>]"
  "ig_market sample_integ = []" "ig_discrepancies sample_integ = []" "ig_settlements sample_integ = []"
  "fd_entries sample_integ = fd_entries sample_fin"
  by (simp_all add: sample_integ_def fin_db.defs)

definition contract_bill :: "flt \<Rightarrow> match_request" where
  "contract_bill x = \<lparr>mq_tenant_id = ''T'', mq_vendor_id = Some (sample_id CHR ''3''), mq_shipment_id = None, mq_shipment_reference = None,
     mq_invoice_reference = Some ''INV'', mq_charge_code = Some ''FRT'', mq_invoiced_amount = x, mq_currency_code = ''EUR'', mq_invoice_date = 15,
     mq_origin_id = Some (sample_id CHR ''1''), mq_destination_id = Some (sample_id CHR ''2''), mq_mode = Some ''sea''\<rparr>"

lemma contract_bill_amount [simp]: "mq_invoiced_amount (contract_bill x) = x" by (simp add: contract_bill_def)

lemma sample_found: "find_contracted (contract_bill x) sample_integ = Inr (Some (sample_contract, \<lparr>kv_id = ''V'', kv_rate_id = ''R'', kv_number = 1, kv_approval_status = ''APPROVED''\<rparr>,
    Some \<lparr>kl_version_id = ''V'', kl_charge_code = ''FRT'', kl_amount = 100\<rparr>))"
proof -
  have "ilike_mode ''sea'' ''SEA''" by code_simp
  then show ?thesis
    by (simp add: find_contracted_def candidate_rates_def contract_bill_def sample_contract_def given_def truthy_def latest_version_def version_lines_def
        one_or_none_def res_map_def)
qed

theorem bill_match_exact_witness:
  "\<exists>r s db. match_vendor_bill ''D'' 0 (contract_bill 100) sample_integ = (Inr r, sample_integ) \<and> mr_matched r
    \<and> match_vendor_bill ''D'' 0 (contract_bill 120) sample_integ = (Inr s, db) \<and> \<not> mr_matched s \<and> length (ig_discrepancies db) = 1"
proof -
  obtain r db0 where r: "match_vendor_bill ''D'' 0 (contract_bill 100) sample_integ = (Inr r, db0)"
    by (simp add: match_vendor_bill_def sample_found Let_def)
  obtain s db where s: "match_vendor_bill ''D'' 0 (contract_bill 120) sample_integ = (Inr s, db)"
    by (simp add: match_vendor_bill_def sample_found Let_def)
  have x: "\<bar>fsub 100 100\<bar> \<le> (1 / 20000 :: rat)" "\<not> \<bar>fsub 120 100\<bar> \<le> (1 / 20000 :: rat)"
  proof -
    have "(\<bar>fsub 100 100\<bar> \<le> (1 / 20000 :: rat)) \<and> (\<not> \<bar>fsub 120 100\<bar> \<le> (1 / 20000 :: rat))" by code_simp
    then show "\<bar>fsub 100 100\<bar> \<le> (1 / 20000 :: rat)" "\<not> \<bar>fsub 120 100\<bar> \<le> (1 / 20000 :: rat)" by blast+
  qed
  have m: "mr_matched r" using conjunct1 [OF bill_match_exact [OF r]] x(1) by (simp add: sample_found)
  have n: "\<not> mr_matched s" using conjunct1 [OF bill_match_exact [OF s]] x(2) by (simp add: sample_found)
  have "db0 = sample_integ" using bill_match_exact [OF r] m by simp
  moreover have "length (ig_discrepancies db) = 1" using bill_match_exact [OF s] n by auto
  ultimately show ?thesis using r s m n by blast
qed

definition sample_settlement :: settlement_request where
  "sample_settlement = \<lparr>sq_tenant_id = ''T'', sq_agent_id = sample_id CHR ''4'', sq_shipment_id = Some (sample_id CHR ''1''), sq_base_amount = 3,
     sq_currency_code = ''EUR'', sq_settlement_date = 15, sq_calculated_by = None, sq_notes = None\<rparr>"

lemma sample_settled: "\<exists>r db. calculate_agent_settlement ''S'' ''L'' ''K'' 0 sample_settlement sample_integ = (Inr r, db) \<and> as_agent_id r = sample_id CHR ''4''"
  by (simp add: calculate_agent_settlement_def sample_settlement_def Let_def)

lemma sample_agreement: "active_agreement sample_integ (sample_id CHR ''4'') 15 =
    Some \<lparr>aa_id = ''A'', aa_agent_id = sample_id CHR ''4'', aa_rate_id = ''R'', aa_effective_date = 12, aa_expiry_date = 18\<rparr>"
  by (simp add: active_agreement_def sample_contract_def)

theorem settlement_exact_witness:
  "\<exists>r db. calculate_agent_settlement ''S'' ''L'' ''K'' 0 sample_settlement sample_integ = (Inr r, db) \<and> as_agreement_id r = Some ''A''
    \<and> as_settlement_amount r = py_round 4 (fmul 3 (as_rate_applied r))"
proof -
  obtain r db where c: "calculate_agent_settlement ''S'' ''L'' ''K'' 0 sample_settlement sample_integ = (Inr r, db)" "as_agent_id r = sample_id CHR ''4''"
    using sample_settled by blast
  have "sq_settlement_date sample_settlement = 15" "sq_base_amount sample_settlement = 3" by (simp_all add: sample_settlement_def)
  with settlement_exact [OF c(1)] show ?thesis using c sample_agreement by auto
qed

theorem settlement_bypasses_margin_witness:
  "\<exists>r db c. calculate_agent_settlement ''S'' ''L'' ''K'' 0 sample_settlement sample_integ = (Inr r, db)
    \<and> costs_of (fin_db.truncate db) (sample_id CHR ''1'') = costs_of (fin_db.truncate sample_integ) (sample_id CHR ''1'') @ [c]
    \<and> ll_currency_code c = Some ''USD'' \<and> as_currency_code r = ''EUR'' \<and> ex_exceptions db = ex_exceptions sample_integ"
proof -
  obtain r db where c: "calculate_agent_settlement ''S'' ''L'' ''K'' 0 sample_settlement sample_integ = (Inr r, db)" "as_agent_id r = sample_id CHR ''4''"
    using sample_settled by blast
  have "parse_uuid (sq_shipment_id sample_settlement) = Some (sample_id CHR ''1'')" by (simp add: sample_settlement_def)
  moreover have "List.find (\<lambda>a. ag_id a = as_agent_id r \<and> ag_tenant_id a = sq_tenant_id sample_settlement) (ig_agents sample_integ)
      = Some \<lparr>ag_id = sample_id CHR ''4'', ag_tenant_id = ''T'', ag_vendor_id = Some (sample_id CHR ''3'')\<rparr>"
    by (simp add: c(2) sample_settlement_def)
  ultimately have "\<exists>x. costs_of (fin_db.truncate db) (sample_id CHR ''1'') = costs_of (fin_db.truncate sample_integ) (sample_id CHR ''1'') @ [x]
      \<and> ll_amount x = as_settlement_amount r \<and> ll_currency_code x = Some ''USD''
      \<and> revenue_of (fin_db.truncate db) (sample_id CHR ''1'') = revenue_of (fin_db.truncate sample_integ) (sample_id CHR ''1'')
      \<and> as_currency_code r = sq_currency_code sample_settlement \<and> ex_exceptions db = ex_exceptions sample_integ \<and> ex_outbox db = ex_outbox sample_integ"
    using settlement_bypasses_margin [OF c(1), of "sample_id CHR ''1''"] by simp
  moreover have "sq_currency_code sample_settlement = ''EUR''" by (simp add: sample_settlement_def)
  ultimately show ?thesis using c(1) by auto
qed

theorem settlements_posted_witness:
  "\<exists>db r e. reached integ_service integ_ok sample_integ db \<and> r \<in> set (ig_settlements db) \<and> dget (fd_entries db) ''L'' = Some e
    \<and> fe_debit_amount e = as_settlement_amount r"
proof -
  let ?op = "Settle_Agent ''S'' ''L'' ''K'' 0 sample_settlement"
  obtain r db where c: "calculate_agent_settlement ''S'' ''L'' ''K'' 0 sample_settlement sample_integ = (Inr r, db)"
    using sample_settled by blast
  have s: "ig_settlements db = ig_settlements sample_integ @ [r]" and i: "as_cost_entry_id r = ''L''" by (rule settlement_effect [OF c], simp)+
  have "integ_ok ?op sample_integ" by simp
  then have "reached integ_service integ_ok sample_integ (snd (committed (integ_service ?op sample_integ) sample_integ))"
    by (rule reached_request [OF reached_start])
  then have re: "reached integ_service integ_ok sample_integ db" by (simp add: c committed_def)
  have "settlements_inv sample_integ" by (simp add: settlements_inv_def store_inv_def sample_entry_def)
  from conjunct1 [OF settlements_posted [OF re this]] show ?thesis using s i re by auto
qed

theorem review_partition_witness:
  "\<exists>rep. quarterly_rate_review 15 ''T'' None None None None 90 sample_integ = Inr rep \<and> rr_total rep = 1 \<and> rr_needs_review rep = 1"
proof -
  obtain rep where rep: "quarterly_rate_review 15 ''T'' None None None None 90 sample_integ = Inr rep" "rr_as_of_date rep = 15"
    by (simp add: quarterly_rate_review_def review_of_def max_ordinal_def)
  have "candidate_rates sample_integ ''T'' 15 [''APPROVED'', ''ACTIVE'', ''DRAFT''] None None None None = [sample_contract]"
    by (simp add: candidate_rates_def sample_contract_def given_def truthy_def)
  then have m: "map re_rate (rr_entries rep) = [sample_contract]" using review_partition [OF rep(1)] rep(2) by simp
  then obtain e where "rr_entries rep = [e]" "re_rate e = sample_contract" by auto
  then show ?thesis using review_partition [OF rep(1)] rep by (simp add: sample_contract_def)
qed

end
