(* ===== verification/Documents.thy ===== *)
theory Documents
  imports Workflow
begin

text \<open>
  The documents of shipments: \<open>app/modules/documents/checklist.py\<close>, \<open>expiry.py\<close> and \<open>service.py\<close>, and the
  upload handler of \<open>app/api/v1/endpoints/documents.py\<close>. The storage back end is not part of the
  model: the URL it answers with is an argument. Times are instants in microseconds.
\<close>

section \<open>The checklist engine\<close>

type_synonym check_context = "(string, json) dict"

fun json_truthy :: "json \<Rightarrow> bool" where
  "json_truthy JNull = False"
| "json_truthy (JBool b) = b"
| "json_truthy (JInt i) = (i \<noteq> 0)"
| "json_truthy (JFloat x) = (x \<noteq> 0)"
| "json_truthy (JStr s) = (s \<noteq> [])"
| "json_truthy (JTime t) = True"
| "json_truthy (JList xs) = (xs \<noteq> [])"
| "json_truthy (JObj kvs) = (kvs \<noteq> [])"

text \<open>\<open>bool(ctx.get(key))\<close>, and \<open>ctx.get(key, "").upper() in values\<close>, which raises for a value that is not text.\<close>

definition ctx_flag :: "check_context \<Rightarrow> string \<Rightarrow> bool" where
  "ctx_flag c key = (case dget c key of None \<Rightarrow> False | Some v \<Rightarrow> json_truthy v)"

definition ctx_in :: "check_context \<Rightarrow> string \<Rightarrow> string list \<Rightarrow> bool res" where
  "ctx_in c key values = (case dget c key of
     None \<Rightarrow> Inr ([] \<in> set values)
   | Some (JStr s) \<Rightarrow> Inr (py_upper s \<in> set values)
   | Some _ \<Rightarrow> Inl (AttributeError ''upper''))"

definition py_or :: "bool \<Rightarrow> bool res \<Rightarrow> bool res" where "py_or b m = (if b then Inr True else m)"

definition py_and :: "bool res \<Rightarrow> bool res \<Rightarrow> bool res" where
  "py_and m n = res_bind m (\<lambda>b. if b then n else Inr False)"

record checklist_rule =
  ck_rule_id :: string
  ck_doc_type_code :: string
  ck_doc_name :: string
  ck_approval_role :: string
  ck_is_mandatory :: bool
  ck_stage :: string
  ck_predicate :: "check_context \<Rightarrow> bool res"
  ck_description :: string

definition default_checklist_rules :: "checklist_rule list" where
  "default_checklist_rules = [
    \<lparr>ck_rule_id = ''SEA_BASE_BL'', ck_doc_type_code = ''BILL_OF_LADING'', ck_doc_name = ''Bill of Lading (Original / Seaway)'',
     ck_approval_role = ''OPERATIONS'', ck_is_mandatory = True, ck_stage = ''DEPARTURE'',
     ck_predicate = (\<lambda>c. ctx_in c ''mode'' [''SEA'']),
     ck_description = ''Mandatory transport contract for all sea freight shipments''\<rparr>,
    \<lparr>ck_rule_id = ''SEA_FCL_VGM'', ck_doc_type_code = ''VGM_CERTIFICATE'', ck_doc_name = ''Verified Gross Mass (VGM) Certificate'',
     ck_approval_role = ''OPERATIONS'', ck_is_mandatory = True, ck_stage = ''DEPARTURE'',
     ck_predicate = (\<lambda>c. py_and (ctx_in c ''mode'' [''SEA'']) (ctx_in c ''service_type'' [''FCL''])),
     ck_description = ''SOLAS mandatory container weight verification''\<rparr>,
    \<lparr>ck_rule_id = ''AIR_BASE_AWB'', ck_doc_type_code = ''AIR_WAYBILL'', ck_doc_name = ''Air Waybill (MAWB / HAWB)'',
     ck_approval_role = ''OPERATIONS'', ck_is_mandatory = True, ck_stage = ''DEPARTURE'',
     ck_predicate = (\<lambda>c. ctx_in c ''mode'' [''AIR'']),
     ck_description = ''Mandatory transport contract for all air freight shipments''\<rparr>,
    \<lparr>ck_rule_id = ''AIR_SCREENING_CERT'', ck_doc_type_code = ''SECURITY_SCREENING_CERT'', ck_doc_name = ''Aviation Security Screening Certificate'',
     ck_approval_role = ''OPERATIONS'', ck_is_mandatory = True, ck_stage = ''DEPARTURE'',
     ck_predicate = (\<lambda>c. ctx_in c ''mode'' [''AIR'']),
     ck_description = ''Mandatory cargo screening declaration''\<rparr>,
    \<lparr>ck_rule_id = ''COMMERCIAL_INVOICE'', ck_doc_type_code = ''COMMERCIAL_INVOICE'', ck_doc_name = ''Commercial Invoice'',
     ck_approval_role = ''CUSTOMS'', ck_is_mandatory = True, ck_stage = ''BOOKING'',
     ck_predicate = (\<lambda>c. Inr True),
     ck_description = ''Standard commercial invoice for customs and valuation''\<rparr>,
    \<lparr>ck_rule_id = ''PACKING_LIST'', ck_doc_type_code = ''PACKING_LIST'', ck_doc_name = ''Packing List'',
     ck_approval_role = ''OPERATIONS'', ck_is_mandatory = True, ck_stage = ''BOOKING'',
     ck_predicate = (\<lambda>c. Inr True),
     ck_description = ''Detailed itemized packing specification''\<rparr>,
    \<lparr>ck_rule_id = ''DGR_SHIPPER_DECLARATION'', ck_doc_type_code = ''DGR_DECLARATION'', ck_doc_name = ''Shipper'' @ [CHR 0x27] @ ''s Declaration for Dangerous Goods'',
     ck_approval_role = ''COMPLIANCE'', ck_is_mandatory = True, ck_stage = ''BOOKING'',
     ck_predicate = (\<lambda>c. py_or (ctx_flag c ''is_dgr'') (ctx_in c ''commodity'' [''DGR'', ''HAZARDOUS'', ''DANGEROUS''])),
     ck_description = ''Mandatory IMO/IATA DGR declaration requiring Compliance Officer approval''\<rparr>,
    \<lparr>ck_rule_id = ''DGR_EMERGENCY_RESPONSE'', ck_doc_type_code = ''DGR_EMERGENCY_RESPONSE'', ck_doc_name = ''Material Safety Data Sheet (MSDS) & Emergency Procedures'',
     ck_approval_role = ''COMPLIANCE'', ck_is_mandatory = True, ck_stage = ''BOOKING'',
     ck_predicate = (\<lambda>c. py_or (ctx_flag c ''is_dgr'') (ctx_in c ''commodity'' [''DGR'', ''HAZARDOUS'', ''DANGEROUS''])),
     ck_description = ''Safety sheet and handling protocols for hazardous materials''\<rparr>,
    \<lparr>ck_rule_id = ''PERISHABLE_PHYTOSANITARY'', ck_doc_type_code = ''PHYTOSANITARY_CERT'', ck_doc_name = ''Phytosanitary / Health Certificate'',
     ck_approval_role = ''CUSTOMS'', ck_is_mandatory = True, ck_stage = ''DEPARTURE'',
     ck_predicate = (\<lambda>c. py_or (ctx_flag c ''is_perishable'') (ctx_in c ''commodity'' [''PERISHABLE'', ''FOOD'', ''AGRICULTURE'', ''FRUITS'', ''MEAT''])),
     ck_description = ''Agricultural and health quarantine certificate''\<rparr>,
    \<lparr>ck_rule_id = ''PERISHABLE_TEMP_LOG'', ck_doc_type_code = ''TEMPERATURE_DATA_LOG'', ck_doc_name = ''Reefer / Cold-Chain Temperature Log'',
     ck_approval_role = ''OPERATIONS'', ck_is_mandatory = False, ck_stage = ''ARRIVAL'',
     ck_predicate = (\<lambda>c. py_or (ctx_flag c ''is_perishable'') (Inr (ctx_flag c ''temperature_controlled''))),
     ck_description = ''Continuous cold-chain temperature verification''\<rparr>,
    \<lparr>ck_rule_id = ''LC_CERT_ORIGIN'', ck_doc_type_code = ''CERTIFICATE_OF_ORIGIN'', ck_doc_name = ''Chamber of Commerce Certificate of Origin'',
     ck_approval_role = ''CUSTOMS'', ck_is_mandatory = True, ck_stage = ''DEPARTURE'',
     ck_predicate = (\<lambda>c. py_or (ctx_flag c ''has_letter_of_credit'') (Inr (ctx_flag c ''lc_number''))),
     ck_description = ''Country of origin certification required under LC terms''\<rparr>,
    \<lparr>ck_rule_id = ''LC_INSPECTION_CERT'', ck_doc_type_code = ''INSPECTION_CERTIFICATE'', ck_doc_name = ''Pre-Shipment Inspection Certificate'',
     ck_approval_role = ''COMPLIANCE'', ck_is_mandatory = True, ck_stage = ''DEPARTURE'',
     ck_predicate = (\<lambda>c. py_or (ctx_flag c ''has_letter_of_credit'') (Inr (ctx_flag c ''lc_number''))),
     ck_description = ''Third-party quality and quantity inspection report''\<rparr>,
    \<lparr>ck_rule_id = ''LC_INSURANCE_CERT'', ck_doc_type_code = ''MARINE_INSURANCE_CERT'', ck_doc_name = ''Marine Cargo Insurance Policy / Certificate'',
     ck_approval_role = ''OPERATIONS'', ck_is_mandatory = True, ck_stage = ''BOOKING'',
     ck_predicate = (\<lambda>c. py_or (ctx_flag c ''has_letter_of_credit'') (py_or (ctx_flag c ''lc_number'') (ctx_in c ''incoterm'' [''CIF'', ''CIP'']))),
     ck_description = ''Mandatory cargo insurance coverage certificate''\<rparr>,
    \<lparr>ck_rule_id = ''DEST_SAUDI_SABER'', ck_doc_type_code = ''SABER_SASO_CERTIFICATE'', ck_doc_name = ''SABER Conformity Certificate (SASO)'',
     ck_approval_role = ''CUSTOMS'', ck_is_mandatory = True, ck_stage = ''CUSTOMS'',
     ck_predicate = (\<lambda>c. ctx_in c ''destination_country'' [''SA'', ''SAU'', ''SAUDI ARABIA'']),
     ck_description = ''Saudi Customs mandatory product conformity registration''\<rparr>,
    \<lparr>ck_rule_id = ''DEST_US_ISF'', ck_doc_type_code = ''US_ISF_10_2'', ck_doc_name = ''US Customs Importer Security Filing (ISF 10+2)'',
     ck_approval_role = ''CUSTOMS'', ck_is_mandatory = True, ck_stage = ''DEPARTURE'',
     ck_predicate = (\<lambda>c. ctx_in c ''destination_country'' [''US'', ''USA'', ''UNITED STATES'']),
     ck_description = ''Mandatory 24-hour advance filing before loading on vessel''\<rparr>,
    \<lparr>ck_rule_id = ''DELIVERY_POD'', ck_doc_type_code = ''PROOF_OF_DELIVERY'', ck_doc_name = ''Proof of Delivery (Signed POD / Delivery Order)'',
     ck_approval_role = ''OPERATIONS'', ck_is_mandatory = True, ck_stage = ''DELIVERY'',
     ck_predicate = (\<lambda>c. Inr True),
     ck_description = ''Consignee signature confirming receipt of cargo''\<rparr>]"

record checklist_item =
  cg_rule_id :: string
  cg_doc_type_code :: string
  cg_doc_name :: string
  cg_approval_role :: string
  cg_is_mandatory :: bool
  cg_stage :: string
  cg_status :: string
  cg_description :: string

definition item_of :: "checklist_rule \<Rightarrow> checklist_item" where
  "item_of r = \<lparr>cg_rule_id = ck_rule_id r, cg_doc_type_code = ck_doc_type_code r, cg_doc_name = ck_doc_name r,
     cg_approval_role = ck_approval_role r, cg_is_mandatory = ck_is_mandatory r, cg_stage = ck_stage r,
     cg_status = ''REQUIRED'', cg_description = ck_description r\<rparr>"

text \<open>The loop over the rules with the codes seen so far; a rule that raises is skipped.\<close>

fun checklist_loop :: "check_context \<Rightarrow> string list \<Rightarrow> checklist_rule list \<Rightarrow> checklist_item list" where
  "checklist_loop c seen [] = []"
| "checklist_loop c seen (r # rules) =
    (case ck_predicate r c of
       Inl _ \<Rightarrow> checklist_loop c seen rules
     | Inr b \<Rightarrow>
        if b \<and> ck_doc_type_code r \<notin> set seen
        then item_of r # checklist_loop c (ck_doc_type_code r # seen) rules
        else checklist_loop c seen rules)"

definition engine_checklist :: "checklist_rule list \<Rightarrow> check_context \<Rightarrow> checklist_item list" where
  "engine_checklist rules c = checklist_loop c [] rules"

section \<open>Expiry\<close>

record expiring =
  xd_id :: string
  xd_shipment_id :: string
  xd_doc_type :: string
  xd_document_name :: "string option"
  xd_expiry_date :: "datetime option"

record doc_expiry_alert =
  xa_document_id :: string
  xa_shipment_id :: string
  xa_doc_type :: string
  xa_document_name :: "string option"
  xa_expiry_date :: date
  xa_days_remaining :: int
  xa_severity :: string

definition us_per_day :: int where "us_per_day = 86400000000"

text \<open>The ordinal of the day of an instant.\<close>

definition day_of :: "datetime \<Rightarrow> date" where "day_of t = t div us_per_day"

definition expiry_severity :: "int \<times> int \<times> int \<Rightarrow> int \<Rightarrow> string option" where
  "expiry_severity thresholds days = (case thresholds of (t_info, t_warn, t_crit) \<Rightarrow>
     if days < 0 then Some ''EXPIRED''
     else if days \<le> t_crit then Some ''CRITICAL''
     else if days \<le> t_warn then Some ''WARNING''
     else if days \<le> t_info then Some ''INFO''
     else None)"

definition expiry_alert_of :: "date \<Rightarrow> int \<times> int \<times> int \<Rightarrow> expiring \<Rightarrow> doc_expiry_alert option" where
  "expiry_alert_of current_date thresholds d = (case xd_expiry_date d of
     None \<Rightarrow> None
   | Some t \<Rightarrow> map_option (\<lambda>severity. \<lparr>xa_document_id = xd_id d, xa_shipment_id = xd_shipment_id d, xa_doc_type = xd_doc_type d,
        xa_document_name = xd_document_name d, xa_expiry_date = day_of t, xa_days_remaining = day_of t - current_date,
        xa_severity = severity\<rparr>) (expiry_severity thresholds (day_of t - current_date)))"

definition check_document_expiries :: "expiring list \<Rightarrow> date \<Rightarrow> int \<times> int \<times> int \<Rightarrow> doc_expiry_alert list" where
  "check_document_expiries documents current_date thresholds =
     sort_key xa_days_remaining (List.map_filter (expiry_alert_of current_date thresholds) documents)"

section \<open>Tables\<close>

record document =
  do_id :: string
  do_shipment_id :: string
  do_doc_type :: string
  do_document_name :: "string option"
  do_file_url :: string
  do_version_number :: nat
  do_uploaded_by :: "string option"
  do_uploaded_at :: datetime
  do_file_size :: "nat option"
  do_mime_type :: "string option"
  do_status :: string
  do_expiry_date :: "datetime option"
  do_is_mandatory :: bool
  do_rejection_reason :: "string option"
  do_created_at :: datetime

record document_version =
  dv_id :: string
  dv_document_id :: string
  dv_version_number :: nat
  dv_file_url :: string
  dv_file_size :: "nat option"
  dv_uploaded_by :: "string option"
  dv_uploaded_at :: datetime
  dv_change_summary :: "string option"
  dv_status :: string

record checklist_row =
  dk_id :: string
  dk_shipment_id :: string
  dk_doc_type_code :: string
  dk_doc_name :: string
  dk_is_mandatory :: bool
  dk_status :: string
  dk_document_id :: "string option"
  dk_approval_role :: "string option"
  dk_created_at :: datetime

record access_log =
  lg_document_id :: string
  lg_user_id :: "string option"
  lg_action :: string
  lg_ip_address :: "string option"
  lg_timestamp :: datetime

record doc_db =
  dc_shipments :: "(string \<times> string \<times> string) list"  \<comment> \<open>id, tenant and customer\<close>
  dc_documents :: "(string, document) dict"
  dc_versions :: "document_version list"
  dc_items :: "(string, checklist_row) dict"
  dc_log :: "access_log list"
  dc_outbox :: "outbox_event list"
  dc_audit :: "audit_log list"

definition put_document :: "document \<Rightarrow> doc_db \<Rightarrow> doc_db" where
  "put_document d db = db\<lparr>dc_documents := dset (do_id d) d (dc_documents db)\<rparr>"

definition put_item :: "checklist_row \<Rightarrow> doc_db \<Rightarrow> doc_db" where
  "put_item i db = db\<lparr>dc_items := dset (dk_id i) i (dc_items db)\<rparr>"

definition log_access :: "string \<Rightarrow> string \<Rightarrow> string \<Rightarrow> string option \<Rightarrow> datetime \<Rightarrow> doc_db \<Rightarrow> doc_db" where
  "log_access document_id user_id action ip_address now db = db\<lparr>dc_log := dc_log db @
     [\<lparr>lg_document_id = document_id, lg_user_id = Some user_id, lg_action = action, lg_ip_address = ip_address, lg_timestamp = now\<rparr>]\<rparr>"

definition audit_document :: "string \<Rightarrow> string \<Rightarrow> string \<Rightarrow> string \<Rightarrow> (string \<times> json) list \<Rightarrow> doc_db \<Rightarrow> doc_db" where
  "audit_document tenant_id actor_id document_id action new_value db = db\<lparr>dc_audit := record_audit
     \<lparr>al_tenant_id = Some tenant_id, al_user_id = Some actor_id, al_branch_id = None, al_entity_type = ''document'',
      al_entity_id = document_id, al_action = action, al_previous_value = None, al_new_value = Some new_value,
      al_correlation_id = None, al_ip_address = None, al_user_agent = None\<rparr> (dc_audit db)\<rparr>"

definition documents_of :: "doc_db \<Rightarrow> string \<Rightarrow> string \<Rightarrow> document list" where
  "documents_of db shipment_id doc_type =
     filter (\<lambda>d. do_shipment_id d = shipment_id \<and> do_doc_type d = doc_type) (dvalues (dc_documents db))"

definition items_of :: "doc_db \<Rightarrow> string \<Rightarrow> string \<Rightarrow> checklist_row list" where
  "items_of db shipment_id code =
     filter (\<lambda>i. dk_shipment_id i = shipment_id \<and> dk_doc_type_code i = code) (dvalues (dc_items db))"

section \<open>Uploading\<close>

record upload_request =
  uq_shipment_id :: string
  uq_tenant_id :: string
  uq_actor_id :: string
  uq_doc_type :: string
  uq_document_name :: string
  uq_file_size :: nat
  uq_filename :: string
  uq_content_type :: "string option"
  uq_expiry_date :: "datetime option"
  uq_is_mandatory :: bool
  uq_change_summary :: "string option"
  uq_ip_address :: "string option"

definition new_document :: "string \<Rightarrow> string \<Rightarrow> datetime \<Rightarrow> upload_request \<Rightarrow> document" where
  "new_document did file_url now q = \<lparr>do_id = did, do_shipment_id = uq_shipment_id q, do_doc_type = uq_doc_type q,
     do_document_name = Some (if uq_document_name q = [] then uq_filename q else uq_document_name q), do_file_url = file_url,
     do_version_number = 1, do_uploaded_by = Some (uq_actor_id q), do_uploaded_at = now, do_file_size = Some (uq_file_size q),
     do_mime_type = uq_content_type q, do_status = ''PENDING_REVIEW'', do_expiry_date = uq_expiry_date q,
     do_is_mandatory = uq_is_mandatory q, do_rejection_reason = None, do_created_at = now\<rparr>"

text \<open>The columns a further version changes; the type of the file is not among them.\<close>

definition next_document :: "string \<Rightarrow> datetime \<Rightarrow> upload_request \<Rightarrow> document \<Rightarrow> document" where
  "next_document file_url now q d = d\<lparr>do_version_number := do_version_number d + 1, do_file_url := file_url,
     do_file_size := Some (uq_file_size q), do_uploaded_by := Some (uq_actor_id q), do_uploaded_at := now,
     do_status := ''PENDING_REVIEW'',
     do_expiry_date := (case uq_expiry_date q of None \<Rightarrow> do_expiry_date d | Some t \<Rightarrow> Some t),
     do_document_name := (if uq_document_name q = [] then do_document_name d else Some (uq_document_name q))\<rparr>"

definition version_of :: "string \<Rightarrow> datetime \<Rightarrow> upload_request \<Rightarrow> document \<Rightarrow> document_version" where
  "version_of vid now q d = \<lparr>dv_id = vid, dv_document_id = do_id d, dv_version_number = do_version_number d,
     dv_file_url = do_file_url d, dv_file_size = Some (uq_file_size q), dv_uploaded_by = Some (uq_actor_id q), dv_uploaded_at = now,
     dv_change_summary = Some (if truthy (uq_change_summary q) then the (uq_change_summary q)
       else ''Version '' @ int_str (int (do_version_number d)) @ '' upload''),
     dv_status = ''PENDING_REVIEW''\<rparr>"

definition upload_document :: "string \<Rightarrow> string \<Rightarrow> string \<Rightarrow> datetime \<Rightarrow> upload_request \<Rightarrow> doc_db \<Rightarrow> document res \<times> doc_db" where
  "upload_document did vid file_url now q db =
    (case one_or_none (documents_of db (uq_shipment_id q) (uq_doc_type q)) of
       Inl e \<Rightarrow> (Inl e, db)
     | Inr existing \<Rightarrow>
        (let d = (case existing of None \<Rightarrow> new_document did file_url now q | Some d \<Rightarrow> next_document file_url now q d);
             db = put_document d db;
             db = db\<lparr>dc_versions := dc_versions db @ [version_of vid now q d]\<rparr>
         in case one_or_none (items_of db (uq_shipment_id q) (uq_doc_type q)) of
              Inl e \<Rightarrow> (Inl e, db)
            | Inr item \<Rightarrow>
               (let db = (case item of None \<Rightarrow> db | Some i \<Rightarrow> put_item (i\<lparr>dk_status := ''UPLOADED'', dk_document_id := Some (do_id d)\<rparr>) db);
                    db = log_access (do_id d) (uq_actor_id q) ''UPLOAD'' (uq_ip_address q) now db;
                    db = audit_document (uq_tenant_id q) (uq_actor_id q) (do_id d) ''document.upload''
                      [(''doc_type'', JStr (uq_doc_type q)), (''version'', JInt (int (do_version_number d))), (''file_url'', JStr file_url)] db;
                    db = db\<lparr>dc_outbox := enqueue ''document.uploaded'' (uq_tenant_id q) ''document'' (do_id d)
                      [(''shipment_id'', JStr (uq_shipment_id q)), (''doc_type'', JStr (uq_doc_type q)),
                       (''version'', JInt (int (do_version_number d)))] now (dc_outbox db)\<rparr>
                in (Inr d, db))))"

text \<open>The handler of the multipart form.\<close>

record upload_form =
  uf_doc_type :: string
  uf_document_name :: "string option"
  uf_expiry_date :: "datetime option"
  uf_is_mandatory :: bool
  uf_change_summary :: "string option"
  uf_file_bytes :: "nat list"
  uf_file_name :: "string option"
  uf_content_type :: "string option"

definition form_request :: "string \<Rightarrow> string \<Rightarrow> string \<Rightarrow> string option \<Rightarrow> upload_form \<Rightarrow> upload_request" where
  "form_request shipment_id tenant_id actor_id ip f = \<lparr>uq_shipment_id = shipment_id, uq_tenant_id = tenant_id, uq_actor_id = actor_id,
     uq_doc_type = py_upper (uf_doc_type f),
     uq_document_name = (if truthy (uf_document_name f) then the (uf_document_name f)
       else if truthy (uf_file_name f) then the (uf_file_name f) else uf_doc_type f),
     uq_file_size = length (uf_file_bytes f),
     uq_filename = (if truthy (uf_file_name f) then the (uf_file_name f) else uf_doc_type f @ ''.pdf''),
     uq_content_type = uf_content_type f, uq_expiry_date = uf_expiry_date f, uq_is_mandatory = uf_is_mandatory f,
     uq_change_summary = uf_change_summary f, uq_ip_address = ip\<rparr>"

definition upload_shipment_document :: "string \<Rightarrow> string \<Rightarrow> string \<Rightarrow> datetime \<Rightarrow> string \<Rightarrow> string \<Rightarrow> string \<Rightarrow> string option \<Rightarrow> upload_form \<Rightarrow>
    doc_db \<Rightarrow> document res \<times> doc_db" where
  "upload_shipment_document did vid file_url now shipment_id tenant_id actor_id ip f db =
    (if uf_file_bytes f = [] then (Inl (ValidationError ''Uploaded file cannot be empty.''), db)
     else upload_document did vid file_url now (form_request shipment_id tenant_id actor_id ip f) db)"

section \<open>Reading\<close>

definition transport_doc_types :: "string list" where
  "transport_doc_types = [''BILL_OF_LADING'', ''AIR_WAYBILL'', ''MANIFEST'', ''CARGO_MANIFEST'', ''SHIPPING_INSTRUCTIONS'',
     ''VGM_CERTIFICATE'', ''SECURITY_SCREENING_CERT'', ''PROOF_OF_DELIVERY'']"

definition list_shipment_documents :: "doc_db \<Rightarrow> string \<Rightarrow> string \<Rightarrow> string list \<Rightarrow> bool \<Rightarrow> string option \<Rightarrow> document list res" where
  "list_shipment_documents db shipment_id tenant_id user_roles is_portal customer_id =
    (if is_portal \<and> customer_id \<noteq> None \<and> (shipment_id, tenant_id, the customer_id) \<notin> set (dc_shipments db)
     then Inl (ForbiddenError ''You do not have access to documents for this shipment.'')
     else
      (let carrier = (''CARRIER_PORTAL'' \<in> set user_roles \<or> ''CARRIER'' \<in> set user_roles)
       in Inr (filter (\<lambda>d. \<not> (carrier \<and> do_doc_type d \<notin> set transport_doc_types))
           (sort_key (\<lambda>d. - do_created_at d) (filter (\<lambda>d. do_shipment_id d = shipment_id) (dvalues (dc_documents db)))))))"

definition get_document :: "string \<Rightarrow> string option \<Rightarrow> string option \<Rightarrow> datetime \<Rightarrow> doc_db \<Rightarrow> (document \<times> document_version list) res \<times> doc_db" where
  "get_document document_id actor_id ip now db =
    (case dget (dc_documents db) document_id of
       None \<Rightarrow> (Inl (NotFoundError ''Document not found''), db)
     | Some d \<Rightarrow> (Inr (d, sort_key (\<lambda>v. - int (dv_version_number v)) (filter (\<lambda>v. dv_document_id v = document_id) (dc_versions db))),
         case actor_id of None \<Rightarrow> db | Some a \<Rightarrow> log_access document_id a ''VIEW'' ip now db))"

section \<open>Approval\<close>

definition approval_gates :: "(string, string list) dict" where
  "approval_gates = [
    (''DGR_DECLARATION'', [''COMPLIANCE'', ''COMPLIANCE_OFFICER'', ''SUPER_ADMIN'']),
    (''DGR_EMERGENCY_RESPONSE'', [''COMPLIANCE'', ''COMPLIANCE_OFFICER'', ''SUPER_ADMIN'']),
    (''COMMERCIAL_INVOICE'', [''CUSTOMS'', ''FINANCE'', ''FINANCE_CONTROLLER'', ''OPERATIONS'', ''SUPER_ADMIN'']),
    (''US_ISF_10_2'', [''CUSTOMS'', ''OPERATIONS'', ''SUPER_ADMIN'']),
    (''SABER_SASO_CERTIFICATE'', [''CUSTOMS'', ''COMPLIANCE'', ''SUPER_ADMIN'']),
    (''PHYTOSANITARY_CERT'', [''CUSTOMS'', ''COMPLIANCE'', ''SUPER_ADMIN'']),
    (''BILL_OF_LADING'', [''OPERATIONS'', ''PRICING'', ''SUPER_ADMIN'']),
    (''AIR_WAYBILL'', [''OPERATIONS'', ''PRICING'', ''SUPER_ADMIN''])]"

definition gate_refuses :: "string \<Rightarrow> string list \<Rightarrow> bool" where
  "gate_refuses doc_type user_roles = (case dget approval_gates doc_type of
     None \<Rightarrow> False
   | Some roles \<Rightarrow> roles \<noteq> [] \<and> \<not> (\<exists>r \<in> set user_roles. r \<in> set roles) \<and> ''SUPER_ADMIN'' \<notin> set user_roles)"

definition mark_item :: "string \<Rightarrow> document \<Rightarrow> doc_db \<Rightarrow> unit res \<times> doc_db" where
  "mark_item status d db =
    (case one_or_none (items_of db (do_shipment_id d) (do_doc_type d)) of
       Inl e \<Rightarrow> (Inl e, db)
     | Inr item \<Rightarrow> (Inr (), case item of None \<Rightarrow> db | Some i \<Rightarrow> put_item (i\<lparr>dk_status := status\<rparr>) db))"

definition approve_document :: "datetime \<Rightarrow> string \<Rightarrow> string \<Rightarrow> string \<Rightarrow> string list \<Rightarrow> string option \<Rightarrow> string option \<Rightarrow> doc_db \<Rightarrow>
    document res \<times> doc_db" where
  "approve_document now document_id tenant_id actor_id user_roles notes ip db =
    (case dget (dc_documents db) document_id of
       None \<Rightarrow> (Inl (NotFoundError ''Document not found''), db)
     | Some d \<Rightarrow>
       if gate_refuses (do_doc_type d) user_roles
       then (Inl (ForbiddenError (''Approval of '' @ do_doc_type d @ '' requires another role'')), db)
       else
        (let d = d\<lparr>do_status := ''APPROVED'', do_rejection_reason := None\<rparr>
         in case mark_item ''APPROVED'' d (put_document d db) of
              (Inl e, db) \<Rightarrow> (Inl e, db)
            | (Inr _, db) \<Rightarrow>
               (Inr d, audit_document tenant_id actor_id document_id ''document.approve''
                  [(''status'', JStr ''APPROVED''), (''notes'', case notes of None \<Rightarrow> JNull | Some t \<Rightarrow> JStr t)]
                  (log_access document_id actor_id ''APPROVE'' ip now db))))"

definition reject_document :: "datetime \<Rightarrow> string \<Rightarrow> string \<Rightarrow> string \<Rightarrow> string option \<Rightarrow> doc_db \<Rightarrow> document res \<times> doc_db" where
  "reject_document now document_id actor_id reason ip db =
    (case dget (dc_documents db) document_id of
       None \<Rightarrow> (Inl (NotFoundError ''Document not found''), db)
     | Some d \<Rightarrow>
        (let d = d\<lparr>do_status := ''REJECTED'', do_rejection_reason := Some reason\<rparr>
         in case mark_item ''MISSING'' d (put_document d db) of
              (Inl e, db) \<Rightarrow> (Inl e, db)
            | (Inr _, db) \<Rightarrow> (Inr d, log_access document_id actor_id ''REJECT'' ip now db)))"

definition request_revision :: "datetime \<Rightarrow> string \<Rightarrow> string \<Rightarrow> string \<Rightarrow> string option \<Rightarrow> doc_db \<Rightarrow> document res \<times> doc_db" where
  "request_revision now document_id actor_id notes ip db =
    (case dget (dc_documents db) document_id of
       None \<Rightarrow> (Inl (NotFoundError ''Document not found''), db)
     | Some d \<Rightarrow>
        (let d = d\<lparr>do_status := ''REVISION_REQUESTED'', do_rejection_reason := Some notes\<rparr>
         in (Inr d, log_access document_id actor_id ''REQUEST_REVISION'' ip now (put_document d db))))"

section \<open>The checklist of a shipment\<close>

definition row_of :: "string \<Rightarrow> datetime \<Rightarrow> string \<Rightarrow> checklist_item \<Rightarrow> checklist_row" where
  "row_of kid now shipment_id i = \<lparr>dk_id = kid, dk_shipment_id = shipment_id, dk_doc_type_code = cg_doc_type_code i,
     dk_doc_name = cg_doc_name i, dk_is_mandatory = cg_is_mandatory i, dk_status = ''REQUIRED'', dk_document_id = None,
     dk_approval_role = Some (cg_approval_role i), dk_created_at = now\<rparr>"

definition shipment_items :: "doc_db \<Rightarrow> string \<Rightarrow> checklist_row list" where
  "shipment_items db shipment_id = filter (\<lambda>i. dk_shipment_id i = shipment_id) (dvalues (dc_items db))"

definition missing_items :: "checklist_item list \<Rightarrow> string list \<Rightarrow> checklist_item list" where
  "missing_items items existing_codes = filter (\<lambda>i. cg_doc_type_code i \<notin> set existing_codes) items"

text \<open>The rows are added in the order of the items; the \<open>n\<close>-th takes the \<open>n\<close>-th new identity.\<close>

fun add_rows :: "(nat \<Rightarrow> string) \<Rightarrow> datetime \<Rightarrow> string \<Rightarrow> nat \<Rightarrow> checklist_item list \<Rightarrow> doc_db \<Rightarrow> doc_db" where
  "add_rows ids now shipment_id n [] db = db"
| "add_rows ids now shipment_id n (i # items) db =
     add_rows ids now shipment_id (Suc n) items (put_item (row_of (ids n) now shipment_id i) db)"

definition generate_checklist :: "checklist_rule list \<Rightarrow> (nat \<Rightarrow> string) \<Rightarrow> datetime \<Rightarrow> string \<Rightarrow> check_context \<Rightarrow> doc_db \<Rightarrow>
    checklist_item list \<times> doc_db" where
  "generate_checklist rules ids now shipment_id ctx db =
    (let items = engine_checklist rules ctx;
         existing_codes = map dk_doc_type_code (shipment_items db shipment_id)
     in (items, add_rows ids now shipment_id 0 (missing_items items existing_codes) db))"

definition get_checklist :: "doc_db \<Rightarrow> string \<Rightarrow> checklist_row list" where
  "get_checklist db shipment_id = sort_key dk_created_at (shipment_items db shipment_id)"

record document_gate =
  dg_can_proceed :: bool
  dg_missing :: "checklist_row list"
  dg_unapproved :: "checklist_row list"

text \<open>The stage a transition aims at is accepted and not used.\<close>

definition item_missing :: "checklist_row \<Rightarrow> bool" where
  "item_missing i \<longleftrightarrow> dk_status i = ''REQUIRED'' \<or> dk_document_id i = None"

definition validate_transition_documents :: "doc_db \<Rightarrow> string \<Rightarrow> string option \<Rightarrow> document_gate" where
  "validate_transition_documents db shipment_id target_stage =
    (let items = filter dk_is_mandatory (shipment_items db shipment_id);
         missing = filter item_missing items;
         unapproved = filter (\<lambda>i. \<not> item_missing i \<and> dk_status i \<noteq> ''APPROVED'') items
     in \<lparr>dg_can_proceed = (length missing = 0 \<and> length unapproved = 0), dg_missing = missing, dg_unapproved = unapproved\<rparr>)"

definition get_expiring_documents :: "doc_db \<Rightarrow> datetime \<Rightarrow> int \<times> int \<times> int \<Rightarrow> doc_expiry_alert list" where
  "get_expiring_documents db now thresholds = check_document_expiries
     (map (\<lambda>d. \<lparr>xd_id = do_id d, xd_shipment_id = do_shipment_id d, xd_doc_type = do_doc_type d,
        xd_document_name = do_document_name d, xd_expiry_date = do_expiry_date d\<rparr>)
       (filter (\<lambda>d. do_expiry_date d \<noteq> None) (dvalues (dc_documents db)))) (day_of now) thresholds"

text \<open>The context a request for a checklist carries.\<close>

record checklist_request =
  gq_mode :: string
  gq_service_type :: string
  gq_commodity :: string
  gq_is_dgr :: bool
  gq_is_perishable :: bool
  gq_incoterm :: string
  gq_destination_country :: string
  gq_has_letter_of_credit :: bool
  gq_lc_number :: "string option"

definition request_context :: "checklist_request \<Rightarrow> check_context" where
  "request_context q = [(''mode'', JStr (gq_mode q)), (''service_type'', JStr (gq_service_type q)), (''commodity'', JStr (gq_commodity q)),
     (''is_dgr'', JBool (gq_is_dgr q)), (''is_perishable'', JBool (gq_is_perishable q)), (''incoterm'', JStr (gq_incoterm q)),
     (''destination_country'', JStr (gq_destination_country q)), (''has_letter_of_credit'', JBool (gq_has_letter_of_credit q)),
     (''lc_number'', case gq_lc_number q of None \<Rightarrow> JNull | Some t \<Rightarrow> JStr t)]"

end
