(* ===== verification/Tables.thy ===== *)
theory Tables
  imports Workflow
begin

text \<open>
  Tables with a second key: a column, or several, that the database keeps unique beside the primary key. What a query
  by that key answers.
\<close>

definition unique_by :: "('e \<Rightarrow> 'b) \<Rightarrow> ('k, 'e) dict \<Rightarrow> bool" where
  "unique_by alt d \<longleftrightarrow> (\<forall>k k' e e'. dget d k = Some e \<longrightarrow> dget d k' = Some e' \<longrightarrow> alt e = alt e' \<longrightarrow> k = k')"

lemma unique_by_same:
  assumes "unique_by alt d" "dget d k = Some e" "alt e' = alt e"
  shows "unique_by alt (dset k e' d)"
  using assms unfolding unique_by_def dget_dset by (metis option.inject)

lemma unique_by_new:
  assumes "unique_by alt d" "\<And>k' e'. dget d k' = Some e' \<Longrightarrow> alt e' \<noteq> alt e"
  shows "unique_by alt (dset k e d)"
  using assms unfolding unique_by_def dget_dset by (metis option.inject)

lemma values_dget: "store_inv key d \<Longrightarrow> e \<in> set (dvalues d) \<Longrightarrow> dget d (key e) = Some e"
  by (rule iffD1 [OF store_elems_iff])

lemma dget_values: "store_inv key d \<Longrightarrow> dget d k = Some e \<Longrightarrow> e \<in> set (dvalues d) \<and> key e = k"
  by (metis store_elems_iff store_find_key)

lemma lookup_cases:
  assumes st: "store_inv key d" and u: "unique_by alt d"
  obtains (none) "filter (\<lambda>e. alt e = a) (dvalues d) = []" "\<And>k e. dget d k = Some e \<Longrightarrow> alt e \<noteq> a"
    | (one) e where "filter (\<lambda>e. alt e = a) (dvalues d) = [e]" "dget d (key e) = Some e" "alt e = a"
proof (cases "filter (\<lambda>e. alt e = a) (dvalues d)")
  case Nil
  have "alt e \<noteq> a" if "dget d k = Some e" for k e
    using dget_values [OF st that] Nil unfolding filter_empty_conv by blast
  with Nil show ?thesis by (rule none)
next
  case (Cons e es)
  have mem: "x \<in> set (dvalues d) \<and> alt x = a" if "x \<in> set (e # es)" for x
    using that unfolding Cons [symmetric] by simp
  have e: "dget d (key e) = Some e" "alt e = a" using mem [of e] values_dget [OF st] by auto
  have "es = []"
  proof (cases es)
    case (Cons x xs)
    then have x: "dget d (key x) = Some x" "alt x = a" using mem [of x] values_dget [OF st] by auto
    have "distinct (map key (filter (\<lambda>e. alt e = a) (dvalues d)))"
      by (rule distinct_map_filter [OF store_distinct [OF st]])
    then have "key e \<noteq> key x" by (simp add: \<open>filter _ _ = _\<close> Cons)
    with e x u show ?thesis unfolding unique_by_def by metis
  qed simp
  with Cons e show ?thesis by (intro one [of e]) simp_all
qed

lemma one_or_none_lookup:
  assumes st: "store_inv key d" and u: "unique_by alt d"
  obtains (none) "one_or_none (filter (\<lambda>e. alt e = a) (dvalues d)) = Inr None" "\<And>k e. dget d k = Some e \<Longrightarrow> alt e \<noteq> a"
    | (one) e where "one_or_none (filter (\<lambda>e. alt e = a) (dvalues d)) = Inr (Some e)" "dget d (key e) = Some e" "alt e = a"
  by (rule lookup_cases [OF st u, of a]) (use none one in \<open>simp_all add: one_or_none_def\<close>)

lemma one_or_none_found:
  assumes "store_inv key d" "unique_by alt d"
  shows "one_or_none (filter (\<lambda>e. alt e = a) (dvalues d)) = Inr (Some e) \<longleftrightarrow> dget d (key e) = Some e \<and> alt e = a"
proof (rule one_or_none_lookup [OF assms, of a])
  fix x assume x: "one_or_none (filter (\<lambda>e. alt e = a) (dvalues d)) = Inr (Some x)" "dget d (key x) = Some x" "alt x = a"
  have "x = e" if "dget d (key e) = Some e" "alt e = a"
    using x(2,3) that assms(2) unfolding unique_by_def by (metis option.inject)
  with x show ?thesis by auto
next
  assume none: "one_or_none (filter (\<lambda>e. alt e = a) (dvalues d)) = Inr None" "\<And>k e. dget d k = Some e \<Longrightarrow> alt e \<noteq> a"
  from none(2) [of "key e" e] none(1) show ?thesis by auto
qed

lemma one_or_none_absent:
  assumes "store_inv key d" "unique_by alt d"
  shows "one_or_none (filter (\<lambda>e. alt e = a) (dvalues d)) = Inr None \<longleftrightarrow> (\<forall>k e. dget d k = Some e \<longrightarrow> alt e \<noteq> a)"
  by (rule one_or_none_lookup [OF assms, of a]) auto

lemma table_dset_inv: "store_inv key d \<Longrightarrow> key e = k \<Longrightarrow> store_inv key (dset k e d)"
  using store_inv_save [of key d e] by (auto simp: store_save_def)

lemma stored_dset_new:
  assumes "dget d k = None"
  shows "(\<exists>j e. dget (dset k x d) j = Some e \<and> P e) \<longleftrightarrow> P x \<or> (\<exists>j e. dget d j = Some e \<and> P e)"
proof
  assume "\<exists>j e. dget (dset k x d) j = Some e \<and> P e"
  then obtain j e where "dget (dset k x d) j = Some e" "P e" by blast
  then show "P x \<or> (\<exists>j e. dget d j = Some e \<and> P e)" by (cases "j = k") (auto simp: dget_dset)
next
  assume "P x \<or> (\<exists>j e. dget d j = Some e \<and> P e)"
  then show "\<exists>j e. dget (dset k x d) j = Some e \<and> P e"
  proof (elim disjE exE conjE)
    assume "P x"
    then have "dget (dset k x d) k = Some x \<and> P x" by (simp add: dget_dset)
    then show ?thesis by blast
  next
    fix j e assume h: "dget d j = Some e" "P e"
    then have "j \<noteq> k" using assms by auto
    with h have "dget (dset k x d) j = Some e \<and> P e" by (simp add: dget_dset)
    then show ?thesis by blast
  qed
qed

text \<open>The primary key is unique too.\<close>

lemma unique_by_key: "store_inv key d \<Longrightarrow> unique_by key d"
  unfolding unique_by_def by (metis store_find_key)

end
