(* ===== verification/Documents_Life.thy ===== *)
theory Documents_Life
  imports Documents Tables
begin

text \<open>
What the document service guarantees: the versions of a document and their numbering, the checklist of a shipment,
  what the transition check demands and what it overlooks, and the expiry alerts.
\<close>


section \<open>The invariant\<close>

definition doc_lane :: "document \<Rightarrow> string \<times> string" where "doc_lane d = (do_shipment_id d, do_doc_type d)"
definition item_lane :: "checklist_row \<Rightarrow> string \<times> string" where "item_lane i = (dk_shipment_id i, dk_doc_type_code i)"

lemma documents_of_lane: "documents_of db s t = filter (\<lambda>d. doc_lane d = (s, t)) (dvalues (dc_documents db))"
  by (simp add: documents_of_def doc_lane_def)

lemma items_of_lane: "items_of db s t = filter (\<lambda>i. item_lane i = (s, t)) (dvalues (dc_items db))"
  by (simp add: items_of_def item_lane_def)

text \<open>The versions of a document: numbered from one in the order of their upload, the last one current.\<close>

definition upload_history :: "document_version list \<Rightarrow> string \<Rightarrow> document_version list" where
  "upload_history vs k = filter (\<lambda>v. dv_document_id v = k) vs"

definition history_ok :: "document_version list \<Rightarrow> document \<Rightarrow> bool" where
  "history_ok vs d \<longleftrightarrow> map dv_version_number (upload_history vs (do_id d)) = [1..<Suc (do_version_number d)]
     \<and> 1 \<le> do_version_number d \<and> dv_file_url (last (upload_history vs (do_id d))) = do_file_url d"

definition was_approved :: "access_log list \<Rightarrow> string \<Rightarrow> bool" where
  "was_approved ls k \<longleftrightarrow> (\<exists>l \<in> set ls. lg_document_id l = k \<and> lg_action l = ''APPROVE'')"

definition item_ok :: "(string, document) dict \<Rightarrow> access_log list \<Rightarrow> checklist_row \<Rightarrow> bool" where
  "item_ok docs ls i \<longleftrightarrow> dk_status i \<in> {''REQUIRED'', ''UPLOADED'', ''APPROVED'', ''MISSING''}
     \<and> (dk_status i = ''UPLOADED'' \<longrightarrow> dk_document_id i \<noteq> None)
     \<and> (\<forall>k. dk_document_id i = Some k \<longrightarrow> (\<exists>d. dget docs k = Some d \<and> doc_lane d = item_lane i))
     \<and> (dk_status i = ''APPROVED'' \<longrightarrow> (\<exists>k d. dget docs k = Some d \<and> doc_lane d = item_lane i
          \<and> do_status d \<in> {''APPROVED'', ''REVISION_REQUESTED''} \<and> was_approved ls k))"

definition doc_statuses :: "string list" where
  "doc_statuses = [''PENDING_REVIEW'', ''APPROVED'', ''REJECTED'', ''REVISION_REQUESTED'']"

definition docs_inv :: "doc_db \<Rightarrow> bool" where
  "docs_inv db \<longleftrightarrow> store_inv do_id (dc_documents db) \<and> store_inv dk_id (dc_items db)
     \<and> unique_by doc_lane (dc_documents db) \<and> unique_by item_lane (dc_items db)
     \<and> (\<forall>k d. dget (dc_documents db) k = Some d \<longrightarrow> history_ok (dc_versions db) d \<and> do_status d \<in> set doc_statuses)
     \<and> (\<forall>v \<in> set (dc_versions db). dv_document_id v \<in> set (dkeys (dc_documents db)))
     \<and> (\<forall>k i. dget (dc_items db) k = Some i \<longrightarrow> item_ok (dc_documents db) (dc_log db) i)"

lemma docs_invD:
  assumes "docs_inv db"
  shows "store_inv do_id (dc_documents db)" "store_inv dk_id (dc_items db)"
    "unique_by doc_lane (dc_documents db)" "unique_by item_lane (dc_items db)"
    "\<And>k d. dget (dc_documents db) k = Some d \<Longrightarrow> history_ok (dc_versions db) d"
    "\<And>k d. dget (dc_documents db) k = Some d \<Longrightarrow> do_status d \<in> set doc_statuses"
    "\<And>v. v \<in> set (dc_versions db) \<Longrightarrow> dv_document_id v \<in> set (dkeys (dc_documents db))"
    "\<And>k i. dget (dc_items db) k = Some i \<Longrightarrow> item_ok (dc_documents db) (dc_log db) i"
  using assms unfolding docs_inv_def by blast+

text \<open>The tables the invariant is about.\<close>

lemma docs_inv_cong:
  "dc_documents db' = dc_documents db \<Longrightarrow> dc_items db' = dc_items db \<Longrightarrow> dc_versions db' = dc_versions db \<Longrightarrow>
    set (dc_log db) \<subseteq> set (dc_log db') \<Longrightarrow> docs_inv db \<Longrightarrow> docs_inv db'"
  unfolding docs_inv_def item_ok_def was_approved_def by (simp, blast)

lemma document_frames [simp]:
  "dc_documents (put_item i db) = dc_documents db" "dc_versions (put_item i db) = dc_versions db" "dc_log (put_item i db) = dc_log db"
  "dc_items (put_item i db) = dset (dk_id i) i (dc_items db)"
  "dc_items (put_document d db) = dc_items db" "dc_versions (put_document d db) = dc_versions db" "dc_log (put_document d db) = dc_log db"
  "dc_documents (put_document d db) = dset (do_id d) d (dc_documents db)"
  "dc_documents (log_access k u a ip t db) = dc_documents db" "dc_versions (log_access k u a ip t db) = dc_versions db"
  "dc_items (log_access k u a ip t db) = dc_items db"
  "dc_documents (audit_document x u k a n db) = dc_documents db" "dc_versions (audit_document x u k a n db) = dc_versions db"
  "dc_items (audit_document x u k a n db) = dc_items db" "dc_log (audit_document x u k a n db) = dc_log db"
  by (simp_all add: put_item_def put_document_def log_access_def audit_document_def)

lemma log_access_set: "set (dc_log (log_access k u a ip t db)) =
    insert \<lparr>lg_document_id = k, lg_user_id = Some u, lg_action = a, lg_ip_address = ip, lg_timestamp = t\<rparr> (set (dc_log db))"
  by (auto simp: log_access_def)

lemma store_same: "store_inv key d \<Longrightarrow> dget d k = Some e \<Longrightarrow> key e' = key e \<Longrightarrow> store_inv key (dset k e' d)"
  using store_inv_save [of key d e'] store_find_key [of key d k e] by (simp add: store_save_def)

lemma key_of_dset: "k \<in> set (dkeys d) \<Longrightarrow> k \<in> set (dkeys (dset k' v d))"
  by (simp add: dom_update)

section \<open>What the requests do\<close>

abbreviation approved_once :: "string set" where "approved_once \<equiv> {''APPROVED'', ''REVISION_REQUESTED''}"

lemma item_ok_transfer:
  assumes "item_ok docs ls i" "set ls \<subseteq> set ls'"
    and "\<And>k d. dget docs k = Some d \<Longrightarrow> doc_lane d = item_lane i \<Longrightarrow>
      \<exists>d'. dget docs' k = Some d' \<and> doc_lane d' = item_lane i \<and> (do_status d \<in> approved_once \<longrightarrow> do_status d' \<in> approved_once)"
  shows "item_ok docs' ls' i"
proof -
  have w: "was_approved ls k \<Longrightarrow> was_approved ls' k" for k using assms(2) by (auto simp: was_approved_def)
  show ?thesis using assms(1) w assms(3) unfolding item_ok_def by blast
qed

lemma history_append_other: "\<forall>v \<in> set nv. dv_document_id v = k \<Longrightarrow> k' \<noteq> k \<Longrightarrow> upload_history (vs @ nv) k' = upload_history vs k'"
  by (auto simp: upload_history_def filter_empty_conv)

text \<open>A request that writes the document of a lane, and with it the item of the lane.\<close>

lemma docs_inv_change:
  assumes inv: "docs_inv db"
    and docs: "dc_documents db' = dset k d' (dc_documents db)" "do_id d' = k" "do_status d' \<in> set doc_statuses"
    and old: "\<And>d. dget (dc_documents db) k = Some d \<Longrightarrow> doc_lane d = doc_lane d'"
    and new: "\<And>k' d. dget (dc_documents db) k' = Some d \<Longrightarrow> k' \<noteq> k \<Longrightarrow> doc_lane d \<noteq> doc_lane d'"
    and vs: "dc_versions db' = dc_versions db @ nv" "\<forall>v \<in> set nv. dv_document_id v = k" "history_ok (dc_versions db') d'"
    and log: "set (dc_log db) \<subseteq> set (dc_log db')"
    and items: "dc_items db' = dc_items db \<and> (do_status d' \<in> approved_once \<or> (\<forall>j i. dget (dc_items db) j = Some i \<longrightarrow> item_lane i \<noteq> doc_lane d'))
      \<or> (\<exists>i i'. dget (dc_items db) (dk_id i) = Some i \<and> item_lane i = doc_lane d' \<and> dc_items db' = dset (dk_id i) i' (dc_items db)
           \<and> dk_id i' = dk_id i \<and> item_lane i' = item_lane i \<and> item_ok (dc_documents db') (dc_log db') i')"
  shows "docs_inv db'"
proof -
  note I = docs_invD [OF inv]
  have kept: "item_ok (dc_documents db') (dc_log db') i"
    if "item_ok (dc_documents db) (dc_log db) i" "do_status d' \<in> approved_once \<or> item_lane i \<noteq> doc_lane d'" for i
    by (rule item_ok_transfer [OF that(1) log]) (use that(2) old in \<open>auto simp: docs(1) dget_dset\<close>)
  have 1: "store_inv do_id (dc_documents db')" unfolding docs(1) using store_inv_save [OF I(1), of d'] docs(2) by (simp add: store_save_def)
  have 2: "unique_by doc_lane (dc_documents db')"
    unfolding docs(1)
  proof (cases "dget (dc_documents db) k")
    case None
    then show "unique_by doc_lane (dset k d' (dc_documents db))" using new by (intro unique_by_new [OF I(3)]) force
  next
    case (Some d)
    then show "unique_by doc_lane (dset k d' (dc_documents db))" using unique_by_same [OF I(3) Some] old by simp
  qed
  have 3: "history_ok (dc_versions db') e \<and> do_status e \<in> set doc_statuses" if "dget (dc_documents db') j = Some e" for j e
  proof (cases "j = k")
    case True
    then show ?thesis using that docs vs(3) by (simp add: dget_dset)
  next
    case False
    then have e: "dget (dc_documents db) j = Some e" using that by (simp add: docs(1) dget_dset)
    then have "do_id e = j" by (rule store_find_key [OF I(1)])
    then have "upload_history (dc_versions db') (do_id e) = upload_history (dc_versions db) (do_id e)"
      unfolding vs(1) using history_append_other [OF vs(2)] False by blast
    then show ?thesis using I(5) [OF e] I(6) [OF e] by (simp add: history_ok_def)
  qed
  have 4: "dv_document_id v \<in> set (dkeys (dc_documents db'))" if "v \<in> set (dc_versions db')" for v
    using that I(7) vs(2) by (auto simp: vs(1) docs(1) dom_update)
  from items show ?thesis
  proof (elim disjE exE conjE)
    assume "dc_items db' = dc_items db" and "do_status d' \<in> approved_once"
    then show ?thesis using 1 2 3 4 I kept unfolding docs_inv_def by auto
  next
    assume "dc_items db' = dc_items db" and "\<forall>j i. dget (dc_items db) j = Some i \<longrightarrow> item_lane i \<noteq> doc_lane d'"
    then show ?thesis using 1 2 3 4 I kept unfolding docs_inv_def by auto
  next
    fix i i'
    assume i: "dget (dc_items db) (dk_id i) = Some i" "item_lane i = doc_lane d'" "dc_items db' = dset (dk_id i) i' (dc_items db)"
      "dk_id i' = dk_id i" "item_lane i' = item_lane i" "item_ok (dc_documents db') (dc_log db') i'"
    have 5: "store_inv dk_id (dc_items db')" unfolding i(3) by (rule store_same [OF I(2) i(1,4)])
    have 6: "unique_by item_lane (dc_items db')" unfolding i(3) by (rule unique_by_same [OF I(4) i(1,5)])
    have "item_lane j \<noteq> doc_lane d'" if "dget (dc_items db) m = Some j" "m \<noteq> dk_id i" for m j
      using I(4) that i(1,2) unfolding unique_by_def by metis
    then have "item_ok (dc_documents db') (dc_log db') j" if "dget (dc_items db') m = Some j" for m j
      using that i(6) kept I(8) by (auto simp: i(3) dget_dset split: if_splits)
    with 1 2 3 4 5 6 show ?thesis unfolding docs_inv_def by blast
  qed
qed

text \<open>The row an upload leaves in a lane, and the item it marks.\<close>

lemma upload_effect:
  assumes inv: "docs_inv db" and new: "did \<notin> set (dkeys (dc_documents db))"
  obtains d db' where "upload_document did vid url now q db = (Inr d, db')" "doc_lane d = (uq_shipment_id q, uq_doc_type q)"
    "dc_documents db' = dset (do_id d) d (dc_documents db)" "dc_versions db' = dc_versions db @ [version_of vid now q d]"
    "set (dc_log db) \<subseteq> set (dc_log db')" "do_status d = ''PENDING_REVIEW''" "do_file_url d = url"
    "(do_id d = did \<and> do_version_number d = 1 \<and> (\<forall>k e. dget (dc_documents db) k = Some e \<longrightarrow> doc_lane e \<noteq> doc_lane d))
      \<or> (\<exists>e. dget (dc_documents db) (do_id d) = Some e \<and> doc_lane e = doc_lane d \<and> do_version_number d = Suc (do_version_number e))"
    "(dc_items db' = dc_items db \<and> (\<forall>j i. dget (dc_items db) j = Some i \<longrightarrow> item_lane i \<noteq> doc_lane d))
      \<or> (\<exists>i. dget (dc_items db) (dk_id i) = Some i \<and> item_lane i = doc_lane d
           \<and> dc_items db' = dset (dk_id i) (i\<lparr>dk_status := ''UPLOADED'', dk_document_id := Some (do_id d)\<rparr>) (dc_items db))"
proof -
  note I = docs_invD [OF inv]
  let ?l = "(uq_shipment_id q, uq_doc_type q)"
  obtain existing where ex: "one_or_none (documents_of db (uq_shipment_id q) (uq_doc_type q)) = Inr existing"
    and e: "case existing of None \<Rightarrow> (\<forall>k e. dget (dc_documents db) k = Some e \<longrightarrow> doc_lane e \<noteq> ?l)
      | Some e \<Rightarrow> dget (dc_documents db) (do_id e) = Some e \<and> doc_lane e = ?l"
    by (rule lookup_cases [OF I(1,3), of ?l]) (auto simp: documents_of_lane one_or_none_def)
  define d where "d = (case existing of None \<Rightarrow> new_document did url now q | Some d \<Rightarrow> next_document url now q d)"
  obtain item where it: "one_or_none (items_of db (uq_shipment_id q) (uq_doc_type q)) = Inr item"
    and i: "case item of None \<Rightarrow> (\<forall>k e. dget (dc_items db) k = Some e \<longrightarrow> item_lane e \<noteq> ?l)
      | Some i \<Rightarrow> dget (dc_items db) (dk_id i) = Some i \<and> item_lane i = ?l"
    by (rule lookup_cases [OF I(2,4), of ?l]) (auto simp: items_of_lane one_or_none_def)
  have lane: "doc_lane d = ?l" using e by (auto simp: d_def new_document_def next_document_def doc_lane_def split: option.splits)
  have same: "items_of (put_document d db\<lparr>dc_versions := vs\<rparr>) s t = items_of db s t" for vs s t by (simp add: items_of_def)
  have it': "one_or_none (items_of (put_document d db\<lparr>dc_versions := vs\<rparr>) (uq_shipment_id q) (uq_doc_type q)) = Inr item" for vs
    by (simp only: same it)
  define db1 where "db1 = put_document d db\<lparr>dc_versions := dc_versions (put_document d db) @ [version_of vid now q d]\<rparr>"
  define db2 where "db2 = (case item of None \<Rightarrow> db1 | Some i \<Rightarrow> put_item (i\<lparr>dk_status := ''UPLOADED'', dk_document_id := Some (do_id d)\<rparr>) db1)"
  have it1: "one_or_none (items_of db1 (uq_shipment_id q) (uq_doc_type q)) = Inr item" unfolding db1_def by (rule it')
  have "\<exists>db'. upload_document did vid url now q db = (Inr d, db') \<and> dc_documents db' = dc_documents db2 \<and> dc_versions db' = dc_versions db2
      \<and> dc_items db' = dc_items db2 \<and> set (dc_log db2) \<subseteq> set (dc_log db')"
    unfolding upload_document_def ex sum.case Let_def d_def [symmetric] db1_def [symmetric] it1 db2_def [symmetric]
    by (rule exI, intro conjI, rule refl) (auto simp: log_access_set)
  then obtain db' where up: "upload_document did vid url now q db = (Inr d, db')"
    and f: "dc_documents db' = dc_documents db2" "dc_versions db' = dc_versions db2" "dc_items db' = dc_items db2" "set (dc_log db2) \<subseteq> set (dc_log db')"
    by blast
  show thesis
  proof (rule that [OF up lane])
    show "dc_documents db' = dset (do_id d) d (dc_documents db)" "dc_versions db' = dc_versions db @ [version_of vid now q d]"
      unfolding f db2_def by (simp_all add: db1_def split: option.split)
    show "set (dc_log db) \<subseteq> set (dc_log db')" using f(4) by (auto simp: db2_def db1_def split: option.splits)
    show "do_status d = ''PENDING_REVIEW''" "do_file_url d = url"
      by (simp_all add: d_def new_document_def next_document_def split: option.split)
    show "(do_id d = did \<and> do_version_number d = 1 \<and> (\<forall>k e. dget (dc_documents db) k = Some e \<longrightarrow> doc_lane e \<noteq> doc_lane d))
      \<or> (\<exists>e. dget (dc_documents db) (do_id d) = Some e \<and> doc_lane e = doc_lane d \<and> do_version_number d = Suc (do_version_number e))"
      using e by (auto simp: lane) (auto simp: d_def new_document_def next_document_def split: option.splits)
    show "(dc_items db' = dc_items db \<and> (\<forall>j i. dget (dc_items db) j = Some i \<longrightarrow> item_lane i \<noteq> doc_lane d))
      \<or> (\<exists>i. dget (dc_items db) (dk_id i) = Some i \<and> item_lane i = doc_lane d
           \<and> dc_items db' = dset (dk_id i) (i\<lparr>dk_status := ''UPLOADED'', dk_document_id := Some (do_id d)\<rparr>) (dc_items db))"
      unfolding f(3) lane using i by (cases item) (auto simp: db2_def db1_def)
  qed
qed

lemma mark_item_effect:
  assumes inv: "docs_inv db" and lane: "(do_shipment_id d', do_doc_type d') = l"
  obtains db' where "mark_item st d' (put_document d' db) = (Inr (), db')" "dc_documents db' = dset (do_id d') d' (dc_documents db)"
    "dc_versions db' = dc_versions db" "dc_log db' = dc_log db"
    "(dc_items db' = dc_items db \<and> (\<forall>j i. dget (dc_items db) j = Some i \<longrightarrow> item_lane i \<noteq> l))
      \<or> (\<exists>i. dget (dc_items db) (dk_id i) = Some i \<and> item_lane i = l \<and> dc_items db' = dset (dk_id i) (i\<lparr>dk_status := st\<rparr>) (dc_items db))"
proof -
  note I = docs_invD [OF inv]
  have items: "items_of (put_document d' db) (do_shipment_id d') (do_doc_type d') = filter (\<lambda>i. item_lane i = l) (dvalues (dc_items db))"
    by (simp add: items_of_lane lane)
  show thesis
  proof (rule lookup_cases [OF I(2,4), of l])
    assume "filter (\<lambda>i. item_lane i = l) (dvalues (dc_items db)) = []" "\<And>k e. dget (dc_items db) k = Some e \<Longrightarrow> item_lane e \<noteq> l"
    then show thesis by (intro that [of "put_document d' db"]) (simp_all add: mark_item_def items one_or_none_def)
  next
    fix i assume "filter (\<lambda>i. item_lane i = l) (dvalues (dc_items db)) = [i]" "dget (dc_items db) (dk_id i) = Some i" "item_lane i = l"
    then show thesis by (intro that [of "put_item (i\<lparr>dk_status := st\<rparr>) (put_document d' db)"]) (auto simp: mark_item_def items one_or_none_def)
  qed
qed

text \<open>A decision on a document: approval, rejection or a request for revision.\<close>

lemma doc_approve_effect:
  assumes inv: "docs_inv db" and d: "dget (dc_documents db) k = Some d" and gate: "\<not> gate_refuses (do_doc_type d) roles"
  obtains d' db' where "approve_document now k t a roles notes ip db = (Inr d', db')" "d' = d\<lparr>do_status := ''APPROVED'', do_rejection_reason := None\<rparr>"
    "dc_documents db' = dset k d' (dc_documents db)" "dc_versions db' = dc_versions db" "set (dc_log db) \<subseteq> set (dc_log db')" "was_approved (dc_log db') k"
    "(dc_items db' = dc_items db \<and> (\<forall>j i. dget (dc_items db) j = Some i \<longrightarrow> item_lane i \<noteq> doc_lane d))
      \<or> (\<exists>i. dget (dc_items db) (dk_id i) = Some i \<and> item_lane i = doc_lane d
           \<and> dc_items db' = dset (dk_id i) (i\<lparr>dk_status := ''APPROVED''\<rparr>) (dc_items db))"
proof -
  let ?d = "d\<lparr>do_status := ''APPROVED'', do_rejection_reason := None\<rparr>"
  have k: "do_id ?d = k" using store_find_key [OF docs_invD(1) [OF inv] d] by simp
  obtain db1 where m: "mark_item ''APPROVED'' ?d (put_document ?d db) = (Inr (), db1)" "dc_documents db1 = dset (do_id ?d) ?d (dc_documents db)"
    "dc_versions db1 = dc_versions db" "dc_log db1 = dc_log db"
    "(dc_items db1 = dc_items db \<and> (\<forall>j i. dget (dc_items db) j = Some i \<longrightarrow> item_lane i \<noteq> doc_lane d))
      \<or> (\<exists>i. dget (dc_items db) (dk_id i) = Some i \<and> item_lane i = doc_lane d
           \<and> dc_items db1 = dset (dk_id i) (i\<lparr>dk_status := ''APPROVED''\<rparr>) (dc_items db))"
    by (rule mark_item_effect [OF inv, of ?d "doc_lane d" "''APPROVED''"]) (simp add: doc_lane_def, rule that)
  show thesis
    by (rule that [of ?d "audit_document t a k ''document.approve'' [(''status'', JStr ''APPROVED''), (''notes'', case notes of None \<Rightarrow> JNull | Some t \<Rightarrow> JStr t)]
        (log_access k a ''APPROVE'' ip now db1)"])
      (use m(2-4) k in \<open>simp_all add: approve_document_def d gate m(1) log_access_set was_approved_def, (simp add: m(4) subset_insertI)?\<close>,
       use m(5) in simp)
qed

lemma reject_effect:
  assumes inv: "docs_inv db" and d: "dget (dc_documents db) k = Some d"
  obtains d' db' where "reject_document now k a reason ip db = (Inr d', db')" "d' = d\<lparr>do_status := ''REJECTED'', do_rejection_reason := Some reason\<rparr>"
    "dc_documents db' = dset k d' (dc_documents db)" "dc_versions db' = dc_versions db" "set (dc_log db) \<subseteq> set (dc_log db')"
    "(dc_items db' = dc_items db \<and> (\<forall>j i. dget (dc_items db) j = Some i \<longrightarrow> item_lane i \<noteq> doc_lane d))
      \<or> (\<exists>i. dget (dc_items db) (dk_id i) = Some i \<and> item_lane i = doc_lane d
           \<and> dc_items db' = dset (dk_id i) (i\<lparr>dk_status := ''MISSING''\<rparr>) (dc_items db))"
proof -
  let ?d = "d\<lparr>do_status := ''REJECTED'', do_rejection_reason := Some reason\<rparr>"
  have k: "do_id ?d = k" using store_find_key [OF docs_invD(1) [OF inv] d] by simp
  obtain db1 where m: "mark_item ''MISSING'' ?d (put_document ?d db) = (Inr (), db1)" "dc_documents db1 = dset (do_id ?d) ?d (dc_documents db)"
    "dc_versions db1 = dc_versions db" "dc_log db1 = dc_log db"
    "(dc_items db1 = dc_items db \<and> (\<forall>j i. dget (dc_items db) j = Some i \<longrightarrow> item_lane i \<noteq> doc_lane d))
      \<or> (\<exists>i. dget (dc_items db) (dk_id i) = Some i \<and> item_lane i = doc_lane d
           \<and> dc_items db1 = dset (dk_id i) (i\<lparr>dk_status := ''MISSING''\<rparr>) (dc_items db))"
    by (rule mark_item_effect [OF inv, of ?d "doc_lane d" "''MISSING''"]) (simp add: doc_lane_def, rule that)
  show thesis
    by (rule that [of ?d "log_access k a ''REJECT'' ip now db1"])
      (use m(2-4) k in \<open>simp_all add: reject_document_def d m(1) log_access_set, (simp add: m(4) subset_insertI)?\<close>, use m(5) in simp)
qed

lemma revision_effect:
  assumes inv: "docs_inv db" and d: "dget (dc_documents db) k = Some d"
  obtains d' db' where "request_revision now k a notes ip db = (Inr d', db')" "d' = d\<lparr>do_status := ''REVISION_REQUESTED'', do_rejection_reason := Some notes\<rparr>"
    "dc_documents db' = dset k d' (dc_documents db)" "dc_versions db' = dc_versions db" "set (dc_log db) \<subseteq> set (dc_log db')" "dc_items db' = dc_items db"
proof -
  let ?d = "d\<lparr>do_status := ''REVISION_REQUESTED'', do_rejection_reason := Some notes\<rparr>"
  have k: "do_id ?d = k" using store_find_key [OF docs_invD(1) [OF inv] d] by simp
  show thesis
    by (rule that [of ?d "log_access k a ''REQUEST_REVISION'' ip now (put_document ?d db)"])
      (use k in \<open>auto simp: request_revision_def d log_access_set Let_def\<close>)
qed

section \<open>The requests of the endpoints\<close>

datatype doc_op =
    Upload string string string datetime upload_request
  | Approve_Document datetime string string string "string list" "string option" "string option"
  | Reject_Document datetime string string string "string option"
  | Request_Revision datetime string string string "string option"
  | Generate_Checklist "nat \<Rightarrow> string" datetime string check_context
  | View_Document string "string option" "string option" datetime

fun doc_service :: "checklist_rule list \<Rightarrow> doc_op \<Rightarrow> doc_db \<Rightarrow> unit res \<times> doc_db" where
  "doc_service rules (Upload did vid url now q) db = (case upload_document did vid url now q db of (r, db') \<Rightarrow> (res_map (\<lambda>_. ()) r, db'))"
| "doc_service rules (Approve_Document now k t a roles notes ip) db =
     (case approve_document now k t a roles notes ip db of (r, db') \<Rightarrow> (res_map (\<lambda>_. ()) r, db'))"
| "doc_service rules (Reject_Document now k a reason ip) db = (case reject_document now k a reason ip db of (r, db') \<Rightarrow> (res_map (\<lambda>_. ()) r, db'))"
| "doc_service rules (Request_Revision now k a notes ip) db = (case request_revision now k a notes ip db of (r, db') \<Rightarrow> (res_map (\<lambda>_. ()) r, db'))"
| "doc_service rules (Generate_Checklist ids now s c) db = (Inr (), snd (generate_checklist rules ids now s c db))"
| "doc_service rules (View_Document k a ip now) db = (case get_document k a ip now db of (r, db') \<Rightarrow> (res_map (\<lambda>_. ()) r, db'))"

text \<open>Identities are new.\<close>

fun doc_ok :: "doc_op \<Rightarrow> doc_db \<Rightarrow> bool" where
  "doc_ok (Upload did vid url now q) db = (did \<notin> set (dkeys (dc_documents db)))"
| "doc_ok (Generate_Checklist ids now s c) db = (inj ids \<and> (\<forall>n. ids n \<notin> set (dkeys (dc_items db))))"
| "doc_ok _ db = True"

lemma history_snoc: "upload_history (vs @ [v]) k = (if dv_document_id v = k then upload_history vs k @ [v] else upload_history vs k)"
  by (simp add: upload_history_def)

lemma upload_keeps:
  assumes inv: "docs_inv db" and new: "did \<notin> set (dkeys (dc_documents db))" and up: "upload_document did vid url now q db = (r, db')"
  shows "docs_inv db'"
proof -
  note I = docs_invD [OF inv]
  obtain d where r: "doc_lane d = (uq_shipment_id q, uq_doc_type q)"
    and docs: "dc_documents db' = dset (do_id d) d (dc_documents db)" and vs: "dc_versions db' = dc_versions db @ [version_of vid now q d]"
    and log: "set (dc_log db) \<subseteq> set (dc_log db')" and st: "do_status d = ''PENDING_REVIEW''" "do_file_url d = url"
    and doc: "(do_id d = did \<and> do_version_number d = 1 \<and> (\<forall>k e. dget (dc_documents db) k = Some e \<longrightarrow> doc_lane e \<noteq> doc_lane d))
      \<or> (\<exists>e. dget (dc_documents db) (do_id d) = Some e \<and> doc_lane e = doc_lane d \<and> do_version_number d = Suc (do_version_number e))"
    and item: "(dc_items db' = dc_items db \<and> (\<forall>j i. dget (dc_items db) j = Some i \<longrightarrow> item_lane i \<noteq> doc_lane d))
      \<or> (\<exists>i. dget (dc_items db) (dk_id i) = Some i \<and> item_lane i = doc_lane d
           \<and> dc_items db' = dset (dk_id i) (i\<lparr>dk_status := ''UPLOADED'', dk_document_id := Some (do_id d)\<rparr>) (dc_items db))"
    by (rule upload_effect [OF inv new, of vid url now q]) (use up in auto)
  have v: "dv_document_id (version_of vid now q d) = do_id d" "dv_version_number (version_of vid now q d) = do_version_number d"
    "dv_file_url (version_of vid now q d) = do_file_url d" by (simp_all add: version_of_def)
  have h: "history_ok (dc_versions db') d"
    using doc
  proof (elim disjE exE conjE)
    assume d: "do_id d = did" "do_version_number d = 1"
    have "dv_document_id v \<noteq> did" if "v \<in> set (dc_versions db)" for v using I(7) [OF that] new by metis
    then have "upload_history (dc_versions db) did = []" by (simp add: upload_history_def filter_empty_conv)
    then show ?thesis by (simp add: history_ok_def vs history_snoc v d)
  next
    fix e assume e: "dget (dc_documents db) (do_id d) = Some e" "do_version_number d = Suc (do_version_number e)"
    have "do_id e = do_id d" by (rule store_find_key [OF I(1) e(1)])
    then show ?thesis using I(5) [OF e(1)] by (simp add: history_ok_def vs history_snoc v e(2))
  qed
  show ?thesis
  proof (rule docs_inv_change [OF inv docs refl _ _ _ vs _ h log])
    show "do_status d \<in> set doc_statuses" by (simp add: st doc_statuses_def)
    show "\<forall>x \<in> set [version_of vid now q d]. dv_document_id x = do_id d" by (simp add: v)
    show "doc_lane e = doc_lane d" if "dget (dc_documents db) (do_id d) = Some e" for e
      using doc that new by (auto simp: map_of_eq_None_iff [symmetric])
    show "doc_lane e \<noteq> doc_lane d" if "dget (dc_documents db) k' = Some e" "k' \<noteq> do_id d" for k' e
      using doc that I(3) unfolding unique_by_def by metis
    from item show "dc_items db' = dc_items db \<and> (do_status d \<in> approved_once \<or> (\<forall>j i. dget (dc_items db) j = Some i \<longrightarrow> item_lane i \<noteq> doc_lane d))
      \<or> (\<exists>i i'. dget (dc_items db) (dk_id i) = Some i \<and> item_lane i = doc_lane d \<and> dc_items db' = dset (dk_id i) i' (dc_items db)
           \<and> dk_id i' = dk_id i \<and> item_lane i' = item_lane i \<and> item_ok (dc_documents db') (dc_log db') i')"
    proof (elim disjE exE conjE)
      fix i assume i: "dget (dc_items db) (dk_id i) = Some i" "item_lane i = doc_lane d"
        "dc_items db' = dset (dk_id i) (i\<lparr>dk_status := ''UPLOADED'', dk_document_id := Some (do_id d)\<rparr>) (dc_items db)"
      let ?i = "i\<lparr>dk_status := ''UPLOADED'', dk_document_id := Some (do_id d)\<rparr>"
      have l: "item_lane ?i = item_lane i" by (simp add: item_lane_def)
      have "item_ok (dc_documents db') (dc_log db') ?i" by (simp add: item_ok_def docs dget_dset l i(2))
      then have "dget (dc_items db) (dk_id i) = Some i \<and> item_lane i = doc_lane d \<and> dc_items db' = dset (dk_id i) ?i (dc_items db)
           \<and> dk_id ?i = dk_id i \<and> item_lane ?i = item_lane i \<and> item_ok (dc_documents db') (dc_log db') ?i"
        using i l by simp
      then show ?thesis by blast
    qed blast
  qed
qed

lemma decision_keeps:
  assumes inv: "docs_inv db" and d: "dget (dc_documents db) k = Some d" and docs: "dc_documents db' = dset k d' (dc_documents db)"
    and same: "do_id d' = do_id d" "doc_lane d' = doc_lane d" "do_version_number d' = do_version_number d" "do_file_url d' = do_file_url d"
      "do_status d' \<in> set doc_statuses"
    and vs: "dc_versions db' = dc_versions db" and log: "set (dc_log db) \<subseteq> set (dc_log db')"
    and item: "(dc_items db' = dc_items db \<and> (do_status d' \<in> approved_once \<or> (\<forall>j i. dget (dc_items db) j = Some i \<longrightarrow> item_lane i \<noteq> doc_lane d)))
      \<or> (\<exists>i. dget (dc_items db) (dk_id i) = Some i \<and> item_lane i = doc_lane d
           \<and> dc_items db' = dset (dk_id i) (i\<lparr>dk_status := st\<rparr>) (dc_items db))"
    and st: "st = ''MISSING'' \<or> st = ''APPROVED'' \<and> do_status d' = ''APPROVED'' \<and> was_approved (dc_log db') k"
  shows "docs_inv db'"
proof -
  note I = docs_invD [OF inv]
  have k: "do_id d = k" by (rule store_find_key [OF I(1) d])
  have h: "history_ok (dc_versions db') d'" using I(5) [OF d] by (simp add: history_ok_def vs same)
  show ?thesis
  proof (rule docs_inv_change [OF inv docs _ same(5) _ _ _ _ h log, of "[]"])
    show "do_id d' = k" by (simp add: same k)
    show "dc_versions db' = dc_versions db @ []" by (simp add: vs)
    show "doc_lane e = doc_lane d'" if "dget (dc_documents db) k = Some e" for e using that d same(2) by simp
    show "doc_lane e \<noteq> doc_lane d'" if "dget (dc_documents db) k' = Some e" "k' \<noteq> k" for k' e
      using that d I(3) same(2) unfolding unique_by_def by metis
    from item show "dc_items db' = dc_items db \<and> (do_status d' \<in> approved_once \<or> (\<forall>j i. dget (dc_items db) j = Some i \<longrightarrow> item_lane i \<noteq> doc_lane d'))
      \<or> (\<exists>i i'. dget (dc_items db) (dk_id i) = Some i \<and> item_lane i = doc_lane d' \<and> dc_items db' = dset (dk_id i) i' (dc_items db)
           \<and> dk_id i' = dk_id i \<and> item_lane i' = item_lane i \<and> item_ok (dc_documents db') (dc_log db') i')"
    proof (elim disjE exE conjE)
      fix i assume i: "dget (dc_items db) (dk_id i) = Some i" "item_lane i = doc_lane d" "dc_items db' = dset (dk_id i) (i\<lparr>dk_status := st\<rparr>) (dc_items db)"
      let ?i = "i\<lparr>dk_status := st\<rparr>"
      have l: "item_lane ?i = item_lane i" by (simp add: item_lane_def)
      have "\<exists>e. dget (dc_documents db') j = Some e \<and> doc_lane e = item_lane i" if "dk_document_id i = Some j" for j
        using I(8) [OF i(1)] that d same(2) i(2) unfolding item_ok_def docs dget_dset by auto
      moreover have "\<exists>j e. dget (dc_documents db') j = Some e \<and> doc_lane e = item_lane i \<and> do_status e \<in> approved_once \<and> was_approved (dc_log db') j"
        if "st = ''APPROVED''"
        by (rule exI [of _ k], rule exI [of _ d']) (use st that in \<open>simp add: docs dget_dset same(2) i(2)\<close>)
      ultimately have "item_ok (dc_documents db') (dc_log db') ?i"
        using st unfolding item_ok_def l by auto
      then have "dget (dc_items db) (dk_id i) = Some i \<and> item_lane i = doc_lane d' \<and> dc_items db' = dset (dk_id i) ?i (dc_items db)
           \<and> dk_id ?i = dk_id i \<and> item_lane ?i = item_lane i \<and> item_ok (dc_documents db') (dc_log db') ?i"
        using i l same(2) by simp
      then show ?thesis by blast
    qed (simp_all add: same(2))
  qed simp
qed

section \<open>The checklist\<close>

text \<open>The engine lists the first rule of each code among those whose condition holds.\<close>

definition rule_holds :: "check_context \<Rightarrow> checklist_rule \<Rightarrow> bool" where
  "rule_holds c r \<longleftrightarrow> ck_predicate r c = Inr True"

fun first_of_code :: "checklist_rule list \<Rightarrow> checklist_rule list" where
  "first_of_code [] = []"
| "first_of_code (r # rs) = r # filter (\<lambda>x. ck_doc_type_code x \<noteq> ck_doc_type_code r) (first_of_code rs)"

lemma checklist_loop_reference:
  "checklist_loop c seen rules = map item_of (filter (\<lambda>r. ck_doc_type_code r \<notin> set seen) (first_of_code (filter (rule_holds c) rules)))"
proof (induction rules arbitrary: seen)
  case (Cons r rules)
  show ?case
  proof (cases "rule_holds c r")
    case True
    then have r: "ck_predicate r c = Inr True" by (simp add: rule_holds_def)
    let ?fs = "first_of_code (filter (rule_holds c) rules)"
    have 1: "filter (\<lambda>x. ck_doc_type_code x \<notin> set seen \<and> ck_doc_type_code x \<noteq> ck_doc_type_code r) ?fs = filter (\<lambda>x. ck_doc_type_code x \<notin> set seen) ?fs"
      if "ck_doc_type_code r \<in> set seen" using that by (intro filter_cong) auto
    show ?thesis using True r 1 by (simp add: Cons.IH filter_filter conj_commute)
  next
    case False
    then show ?thesis by (auto simp: rule_holds_def Cons.IH split: sum.splits)
  qed
qed simp

lemma first_of_code_codes: "ck_doc_type_code ` set (first_of_code rs) = ck_doc_type_code ` set rs"
proof (induction rs)
  case (Cons r rs)
  have "ck_doc_type_code ` {x \<in> set (first_of_code rs). ck_doc_type_code x \<noteq> ck_doc_type_code r} = ck_doc_type_code ` set rs - {ck_doc_type_code r}"
    unfolding Cons.IH [symmetric] by auto
  then show ?case by auto
qed simp

lemma first_of_code_distinct: "distinct (map ck_doc_type_code (first_of_code rs))"
  by (induction rs) (auto simp: distinct_map_filter)

lemma engine_items:
  "engine_checklist rules c = map item_of (first_of_code (filter (rule_holds c) rules))"
  by (simp add: engine_checklist_def checklist_loop_reference)

lemma item_of_code [simp]: "cg_doc_type_code (item_of r) = ck_doc_type_code r" by (simp add: item_of_def)

lemma engine_codes: "map cg_doc_type_code (engine_checklist rules c) = map ck_doc_type_code (first_of_code (filter (rule_holds c) rules))"
  by (simp add: engine_items)

text \<open>C33: The checklist of a context names each code once, exactly the codes of the rules whose condition holds there
  without raising, each with the data of the first such rule.\<close>

theorem checklist_exact:
  "distinct (map cg_doc_type_code (engine_checklist rules c))
    \<and> set (map cg_doc_type_code (engine_checklist rules c)) = {ck_doc_type_code r | r. r \<in> set rules \<and> ck_predicate r c = Inr True}
    \<and> engine_checklist rules c = map item_of (first_of_code (filter (\<lambda>r. ck_predicate r c = Inr True) rules))"
proof -
  have f: "rule_holds c = (\<lambda>r. ck_predicate r c = Inr True)" by (simp add: rule_holds_def fun_eq_iff)
  have c: "map cg_doc_type_code (engine_checklist rules c) = map ck_doc_type_code (first_of_code (filter (\<lambda>r. ck_predicate r c = Inr True) rules))"
    unfolding engine_codes f ..
  have "set (map ck_doc_type_code (first_of_code (filter (\<lambda>r. ck_predicate r c = Inr True) rules))) = {ck_doc_type_code r | r. r \<in> set rules \<and> ck_predicate r c = Inr True}"
    unfolding set_map first_of_code_codes by auto
  then show ?thesis unfolding c using first_of_code_distinct engine_items f by simp
qed

lemma row_of_fields [simp]:
  "dk_id (row_of kid now s i) = kid" "item_lane (row_of kid now s i) = (s, cg_doc_type_code i)" "dk_document_id (row_of kid now s i) = None"
  "dk_status (row_of kid now s i) = ''REQUIRED''" "dk_is_mandatory (row_of kid now s i) = cg_is_mandatory i" "dk_shipment_id (row_of kid now s i) = s"
  by (simp_all add: row_of_def item_lane_def)

lemma put_item_keeps:
  assumes inv: "docs_inv db" and new: "kid \<notin> set (dkeys (dc_items db))"
    and code: "\<And>k j. dget (dc_items db) k = Some j \<Longrightarrow> item_lane j \<noteq> (s, cg_doc_type_code i)"
  shows "docs_inv (put_item (row_of kid now s i) db)"
proof -
  note I = docs_invD [OF inv]
  have "store_inv dk_id (dset kid (row_of kid now s i) (dc_items db))"
    using store_inv_save [OF I(2), of "row_of kid now s i"] by (simp add: store_save_def)
  moreover have "unique_by item_lane (dset kid (row_of kid now s i) (dc_items db))"
    by (rule unique_by_new [OF I(4)]) (simp add: code)
  moreover have "item_ok (dc_documents db) (dc_log db) j" if "dget (dset kid (row_of kid now s i) (dc_items db)) k = Some j" for k j
    using that I(8) by (auto simp: dget_dset item_ok_def split: if_splits)
  ultimately show ?thesis using I unfolding docs_inv_def by simp
qed

lemma add_rows_frames:
  "dc_documents (add_rows ids now s n items db) = dc_documents db" "dc_versions (add_rows ids now s n items db) = dc_versions db"
  "dc_log (add_rows ids now s n items db) = dc_log db"
  by (induction items arbitrary: n db) simp_all

lemma add_rows_keep:
  "docs_inv db \<Longrightarrow> inj ids \<Longrightarrow> \<forall>m \<ge> n. ids m \<notin> set (dkeys (dc_items db)) \<Longrightarrow> distinct (map cg_doc_type_code items) \<Longrightarrow>
    \<forall>k j. dget (dc_items db) k = Some j \<longrightarrow> dk_shipment_id j = s \<longrightarrow> dk_doc_type_code j \<notin> set (map cg_doc_type_code items) \<Longrightarrow>
    docs_inv (add_rows ids now s n items db)"
proof (induction items arbitrary: n db)
  case (Cons i items)
  let ?r = "row_of (ids n) now s i"
  have new: "ids n \<notin> set (dkeys (dc_items db))" using Cons.prems(3) by simp
  have code: "item_lane j \<noteq> (s, cg_doc_type_code i)" if "dget (dc_items db) k = Some j" for k j
    using Cons.prems(5) that by (auto simp: item_lane_def)
  have 1: "docs_inv (put_item ?r db)" by (rule put_item_keeps [OF Cons.prems(1) new code])
  have 2: "ids m \<notin> set (dkeys (dc_items (put_item ?r db)))" if "m \<ge> Suc n" for m
  proof -
    have "ids m \<noteq> ids n" using that Cons.prems(2) by (auto dest: injD)
    then show ?thesis using Cons.prems(3) that by (simp add: dom_update)
  qed
  have 3: "dk_doc_type_code j \<notin> set (map cg_doc_type_code items)"
    if "dget (dc_items (put_item ?r db)) k = Some j" "dk_shipment_id j = s" for k j
  proof (cases "k = ids n")
    case True
    then have "j = ?r" using that(1) by (simp add: dget_dset)
    then show ?thesis using Cons.prems(4) by (simp add: row_of_def)
  next
    case False
    then have "dget (dc_items db) k = Some j" using that(1) by (simp add: dget_dset)
    then show ?thesis using Cons.prems(5) that(2) by auto
  qed
  have "docs_inv (add_rows ids now s (Suc n) items (put_item ?r db))"
    by (rule Cons.IH [OF 1 Cons.prems(2)]) (use 2 3 Cons.prems(4) in auto)
  then show ?case by simp
qed simp

lemma generate_keeps:
  assumes inv: "docs_inv db" and "inj ids" "\<forall>n. ids n \<notin> set (dkeys (dc_items db))"
  shows "docs_inv (snd (generate_checklist rules ids now s c db))"
proof -
  let ?items = "missing_items (engine_checklist rules c) (map dk_doc_type_code (shipment_items db s))"
  have d: "distinct (map cg_doc_type_code ?items)"
    unfolding missing_items_def by (rule distinct_map_filter) (simp only: engine_codes first_of_code_distinct)
  have "dk_doc_type_code j \<notin> set (map cg_doc_type_code ?items)" if "dget (dc_items db) k = Some j" "dk_shipment_id j = s" for k j
  proof -
    have "j \<in> set (shipment_items db s)" using dget_values [OF docs_invD(2) [OF inv] that(1)] that(2) by (simp add: shipment_items_def)
    then have "dk_doc_type_code j \<in> dk_doc_type_code ` set (shipment_items db s)" by (rule imageI)
    then show ?thesis by (auto simp: missing_items_def)
  qed
  then show ?thesis unfolding generate_checklist_def Let_def snd_conv using assms d by (intro add_rows_keep) auto
qed

lemma doc_service_inv:
  assumes inv: "docs_inv db" and ok: "doc_ok op db" and op: "doc_service rules op db = (Inr u, db')"
  shows "docs_inv db'"
proof (cases op)
  case (Upload did vid url now q)
  then obtain r where "upload_document did vid url now q db = (r, db')" using op by (auto split: prod.splits)
  then show ?thesis using upload_keeps inv ok Upload by simp
next
  case (Approve_Document now k t a roles ns ip)
  then obtain d0 where a: "approve_document now k t a roles ns ip db = (Inr d0, db')" using op by (auto simp: res_simps split: prod.splits)
  then obtain d where d: "dget (dc_documents db) k = Some d" and g: "\<not> gate_refuses (do_doc_type d) roles"
    by (auto simp: approve_document_def split: option.splits if_splits)
  obtain d' where e: "d' = d\<lparr>do_status := ''APPROVED'', do_rejection_reason := None\<rparr>"
    "dc_documents db' = dset k d' (dc_documents db)" "dc_versions db' = dc_versions db" "set (dc_log db) \<subseteq> set (dc_log db')" "was_approved (dc_log db') k"
    "(dc_items db' = dc_items db \<and> (\<forall>j i. dget (dc_items db) j = Some i \<longrightarrow> item_lane i \<noteq> doc_lane d))
      \<or> (\<exists>i. dget (dc_items db) (dk_id i) = Some i \<and> item_lane i = doc_lane d
           \<and> dc_items db' = dset (dk_id i) (i\<lparr>dk_status := ''APPROVED''\<rparr>) (dc_items db))"
    by (rule doc_approve_effect [OF inv d g, of now t a ns ip]) (use a in auto)
  show ?thesis
    by (rule decision_keeps [OF inv d e(2) _ _ _ _ _ e(3,4), of "''APPROVED''"]) (use e in \<open>auto simp: doc_lane_def doc_statuses_def\<close>)
next
  case (Reject_Document now k a reason ip)
  then obtain d0 where a: "reject_document now k a reason ip db = (Inr d0, db')" using op by (auto simp: res_simps split: prod.splits)
  then obtain d where d: "dget (dc_documents db) k = Some d" by (auto simp: reject_document_def split: option.splits)
  obtain d' where e: "d' = d\<lparr>do_status := ''REJECTED'', do_rejection_reason := Some reason\<rparr>"
    "dc_documents db' = dset k d' (dc_documents db)" "dc_versions db' = dc_versions db" "set (dc_log db) \<subseteq> set (dc_log db')"
    "(dc_items db' = dc_items db \<and> (\<forall>j i. dget (dc_items db) j = Some i \<longrightarrow> item_lane i \<noteq> doc_lane d))
      \<or> (\<exists>i. dget (dc_items db) (dk_id i) = Some i \<and> item_lane i = doc_lane d
           \<and> dc_items db' = dset (dk_id i) (i\<lparr>dk_status := ''MISSING''\<rparr>) (dc_items db))"
    by (rule reject_effect [OF inv d, of now a reason ip]) (use a in auto)
  show ?thesis
    by (rule decision_keeps [OF inv d e(2) _ _ _ _ _ e(3,4), of "''MISSING''"]) (use e in \<open>auto simp: doc_lane_def doc_statuses_def\<close>)
next
  case (Request_Revision now k a ns ip)
  then obtain d0 where a: "request_revision now k a ns ip db = (Inr d0, db')" using op by (auto simp: res_simps split: prod.splits)
  then obtain d where d: "dget (dc_documents db) k = Some d" by (auto simp: request_revision_def split: option.splits)
  obtain d' where e: "d' = d\<lparr>do_status := ''REVISION_REQUESTED'', do_rejection_reason := Some ns\<rparr>"
    "dc_documents db' = dset k d' (dc_documents db)" "dc_versions db' = dc_versions db" "set (dc_log db) \<subseteq> set (dc_log db')" "dc_items db' = dc_items db"
    by (rule revision_effect [OF inv d, of now a ns ip]) (use a in auto)
  show ?thesis
    by (rule decision_keeps [OF inv d e(2) _ _ _ _ _ e(3,4), of "''MISSING''"]) (use e in \<open>auto simp: doc_lane_def doc_statuses_def\<close>)
next
  case (Generate_Checklist ids now s c)
  then show ?thesis using op generate_keeps [OF inv, of ids rules now s c] ok by simp
next
  case (View_Document k a ip now)
  then have "get_document k a ip now db = (fst (get_document k a ip now db), db')" using op by (auto split: prod.splits)
  then have "db' = db \<or> (\<exists>u. db' = log_access k u ''VIEW'' ip now db)"
    by (auto simp: get_document_def split: option.splits)
  then show ?thesis using inv by (auto intro!: docs_inv_cong [OF _ _ _ _ inv] simp: log_access_set)
qed

interpretation documents: service_contract "doc_service rules" doc_ok docs_inv for rules
  by unfold_locales (rule doc_service_inv)

section \<open>What the requests guarantee\<close>

text \<open>C7: In every database the endpoints reach, a shipment has at most one document of a type, the versions of a
  document are numbered from one in the order of their upload, and the document shows the last of them.\<close>

theorem documents_consistent:
  assumes "reached (doc_service rules) doc_ok start db" and "docs_inv start" and "dget (dc_documents db) k = Some d"
  shows "map dv_version_number (filter (\<lambda>v. dv_document_id v = k) (dc_versions db)) = [1..<Suc (do_version_number d)]
    \<and> dv_file_url (last (filter (\<lambda>v. dv_document_id v = k) (dc_versions db))) = do_file_url d
    \<and> (\<forall>j e. dget (dc_documents db) j = Some e \<longrightarrow> do_shipment_id e = do_shipment_id d \<longrightarrow> do_doc_type e = do_doc_type d \<longrightarrow> j = k)"
proof -
  note I = docs_invD [OF documents.reached_inv [OF assms(1,2)]]
  have "do_id d = k" by (rule store_find_key [OF I(1) assms(3)])
  moreover have "j = k" if "dget (dc_documents db) j = Some e" "do_shipment_id e = do_shipment_id d" "do_doc_type e = do_doc_type d" for j e
    using I(3) that assms(3) unfolding unique_by_def doc_lane_def by blast
  ultimately show ?thesis using I(5) [OF assms(3)] unfolding history_ok_def upload_history_def by blast
qed

lemma versions_appended:
  assumes "doc_service rules op db = (Inr u, db')"
  shows "\<exists>nv. dc_versions db' = dc_versions db @ nv"
proof (cases op)
  case (Upload did vid url now q)
  then show ?thesis using assms
    by (auto simp: upload_document_def Let_def res_simps split: sum.splits prod.splits option.splits)
next
  case (Approve_Document now k t a roles ns ip)
  then show ?thesis using assms
    by (auto simp: approve_document_def mark_item_def Let_def res_simps split: sum.splits prod.splits option.splits if_splits)
next
  case (Reject_Document now k a reason ip)
  then show ?thesis using assms
    by (auto simp: reject_document_def mark_item_def Let_def res_simps split: sum.splits prod.splits option.splits)
next
  case (Request_Revision now k a ns ip)
  then show ?thesis using assms by (auto simp: request_revision_def Let_def res_simps split: prod.splits option.splits)
next
  case (Generate_Checklist ids now s c)
  then show ?thesis using assms by (auto simp: generate_checklist_def Let_def add_rows_frames)
next
  case (View_Document k a ip now)
  then show ?thesis using assms by (auto simp: get_document_def res_simps split: prod.splits option.splits)
qed

interpretation version_trail: service_contract "doc_service rules" doc_ok "\<lambda>db. \<exists>nv. dc_versions db = vs @ nv" for rules vs
  by unfold_locales (metis versions_appended append.assoc)

text \<open>No request changes or removes a version of a document.\<close>

theorem versions_immutable:
  assumes "reached (doc_service rules) doc_ok start db"
  shows "take (length (dc_versions start)) (dc_versions db) = dc_versions start"
proof -
  have "\<exists>nv. dc_versions db = dc_versions start @ nv" by (rule version_trail.reached_inv [OF assms]) simp
  then show ?thesis by auto
qed

text \<open>C22: The transition check passes only over documents that were approved once: every mandatory item is approved, and a
  document of its type on the shipment was approved and is so still, or awaits a revision.\<close>

theorem gate_demands_approval:
  assumes "reached (doc_service rules) doc_ok start db" and "docs_inv start"
    and "dg_can_proceed (validate_transition_documents db s stage)" and "i \<in> set (dvalues (dc_items db))"
    and "dk_shipment_id i = s" and "dk_is_mandatory i"
  shows "dk_status i = ''APPROVED'' \<and> (\<exists>k d. dget (dc_documents db) k = Some d \<and> do_shipment_id d = s \<and> do_doc_type d = dk_doc_type_code i
    \<and> do_status d \<in> {''APPROVED'', ''REVISION_REQUESTED''} \<and> (\<exists>l \<in> set (dc_log db). lg_document_id l = k \<and> lg_action l = ''APPROVE''))"
proof -
  note I = docs_invD [OF documents.reached_inv [OF assms(1,2)]]
  have ok: "item_ok (dc_documents db) (dc_log db) i" by (rule I(8) [OF values_dget [OF I(2) assms(4)]])
  have "i \<in> set (filter dk_is_mandatory (shipment_items db s))" using assms(4-6) by (simp add: shipment_items_def)
  moreover have "filter item_missing (filter dk_is_mandatory (shipment_items db s)) = []"
    "filter (\<lambda>i. \<not> item_missing i \<and> dk_status i \<noteq> ''APPROVED'') (filter dk_is_mandatory (shipment_items db s)) = []"
    using assms(3) by (simp_all add: validate_transition_documents_def Let_def)
  ultimately have "dk_status i = ''APPROVED''" unfolding filter_empty_conv by blast
  then show ?thesis using ok assms(5) unfolding item_ok_def was_approved_def doc_lane_def item_lane_def by auto
qed

text \<open>A request for a revision takes back the approval of the document and leaves every transition check as it was.\<close>

theorem revision_leaves_gate:
  assumes "request_revision now k a ns ip db = (r, db')"
  shows "validate_transition_documents db' s stage = validate_transition_documents db s stage"
proof -
  have "dc_items db' = dc_items db" using assms by (auto simp: request_revision_def Let_def split: option.splits)
  then show ?thesis by (simp add: validate_transition_documents_def shipment_items_def)
qed

section \<open>Passing the check\<close>

definition blocking :: "doc_db \<Rightarrow> string \<Rightarrow> string set" where
  "blocking db s = {k. \<exists>i. dget (dc_items db) k = Some i \<and> dk_shipment_id i = s \<and> dk_is_mandatory i
     \<and> (dk_status i \<noteq> ''APPROVED'' \<or> dk_document_id i = None)}"

lemma finite_blocking: "finite (blocking db s)"
proof (rule finite_subset)
  show "blocking db s \<subseteq> set (dkeys (dc_items db))" by (auto simp: blocking_def dest!: map_of_SomeD intro: rev_image_eqI)
qed simp

lemma can_proceed_blocking:
  assumes "docs_inv db"
  shows "dg_can_proceed (validate_transition_documents db s stage) \<longleftrightarrow> blocking db s = {}"
proof -
  note I = docs_invD [OF assms]
  have gate: "filter item_missing xs = [] \<and> filter (\<lambda>i. \<not> item_missing i \<and> dk_status i \<noteq> ''APPROVED'') xs = []
      \<longleftrightarrow> (\<forall>i \<in> set xs. dk_status i = ''APPROVED'' \<and> dk_document_id i \<noteq> None)" for xs
    by (induction xs) (auto simp: item_missing_def)
  have "dg_can_proceed (validate_transition_documents db s stage)
      \<longleftrightarrow> (\<forall>i \<in> set (filter dk_is_mandatory (shipment_items db s)). dk_status i = ''APPROVED'' \<and> dk_document_id i \<noteq> None)"
    unfolding gate [symmetric] by (simp add: validate_transition_documents_def Let_def)
  also have "\<dots> \<longleftrightarrow> (\<forall>i \<in> set (dvalues (dc_items db)). dk_shipment_id i = s \<longrightarrow> dk_is_mandatory i \<longrightarrow> dk_status i = ''APPROVED'' \<and> dk_document_id i \<noteq> None)"
    unfolding shipment_items_def set_filter by blast
  also have "\<dots> \<longleftrightarrow> (\<forall>k i. dget (dc_items db) k = Some i \<longrightarrow> dk_shipment_id i = s \<longrightarrow> dk_is_mandatory i \<longrightarrow> dk_status i = ''APPROVED'' \<and> dk_document_id i \<noteq> None)"
    using values_dget [OF I(2)] dget_values [OF I(2)] by blast
  finally show ?thesis by (auto simp: blocking_def)
qed

lemma clear_item:
  assumes inv: "docs_inv db" and b: "k \<in> blocking db s"
  obtains db' where "reached (doc_service rules) doc_ok db db'" "docs_inv db'" "blocking db' s = blocking db s - {k}"
proof -
  note I = docs_invD [OF inv]
  obtain i where i: "dget (dc_items db) k = Some i" "dk_shipment_id i = s" using b by (auto simp: blocking_def)
  have id: "dk_id i = k" by (rule store_find_key [OF I(2) i(1)])
  obtain did where new: "did \<notin> set (dkeys (dc_documents db))" using ex_new_if_finite [OF infinite_UNIV_listI] by blast
  define q where "q = \<lparr>uq_shipment_id = s, uq_tenant_id = [], uq_actor_id = [], uq_doc_type = dk_doc_type_code i, uq_document_name = [],
    uq_file_size = 0, uq_filename = [], uq_content_type = None, uq_expiry_date = None, uq_is_mandatory = True, uq_change_summary = None, uq_ip_address = None\<rparr>"
  have lane: "(uq_shipment_id q, uq_doc_type q) = item_lane i" by (simp add: q_def item_lane_def i(2))
  obtain d db1 where u: "upload_document did [] [] 0 q db = (Inr d, db1)" "doc_lane d = item_lane i" "dc_documents db1 = dset (do_id d) d (dc_documents db)"
    and it: "(dc_items db1 = dc_items db \<and> (\<forall>j i. dget (dc_items db) j = Some i \<longrightarrow> item_lane i \<noteq> doc_lane d))
      \<or> (\<exists>i. dget (dc_items db) (dk_id i) = Some i \<and> item_lane i = doc_lane d
           \<and> dc_items db1 = dset (dk_id i) (i\<lparr>dk_status := ''UPLOADED'', dk_document_id := Some (do_id d)\<rparr>) (dc_items db))"
    by (rule upload_effect [OF inv new, of "[]" "[]" 0 q, unfolded lane])
  let ?i = "i\<lparr>dk_status := ''UPLOADED'', dk_document_id := Some (do_id d)\<rparr>"
  have the_item: "j = i" if "dget (dc_items db) (dk_id j) = Some j" "item_lane j = item_lane i" for j
    using I(4) that i(1) unfolding unique_by_def by (metis option.inject)
  have it1: "dc_items db1 = dset k ?i (dc_items db)" using it the_item i(1) u(2) id by auto
  have step1: "doc_service rules (Upload did [] [] 0 q) db = (Inr (), db1)" by (simp add: u(1))
  have r1: "reached (doc_service rules) doc_ok db db1" by (rule reached_step [where service = "doc_service rules", OF _ step1]) (use new in simp)
  have inv1: "docs_inv db1" by (rule doc_service_inv [OF inv _ step1]) (use new in simp)
  have g: "\<not> gate_refuses (do_doc_type d) [''SUPER_ADMIN'']" by (simp add: gate_refuses_def split: option.split)
  have d: "dget (dc_documents db1) (do_id d) = Some d" by (simp add: u(3) dget_dset)
  obtain d' db2 where a: "approve_document 0 (do_id d) [] [] [''SUPER_ADMIN''] None None db1 = (Inr d', db2)"
    and it2: "(dc_items db2 = dc_items db1 \<and> (\<forall>j i. dget (dc_items db1) j = Some i \<longrightarrow> item_lane i \<noteq> doc_lane d))
      \<or> (\<exists>i. dget (dc_items db1) (dk_id i) = Some i \<and> item_lane i = doc_lane d
           \<and> dc_items db2 = dset (dk_id i) (i\<lparr>dk_status := ''APPROVED''\<rparr>) (dc_items db1))"
    by (rule doc_approve_effect [OF inv1 d g, of 0 "[]" "[]" None None])
  have i1: "dget (dc_items db1) k = Some ?i" "item_lane ?i = doc_lane d" by (simp_all add: it1 dget_dset u(2) item_lane_def)
  have the_item1: "j = ?i" if "dget (dc_items db1) (dk_id j) = Some j" "item_lane j = doc_lane d" for j
    using docs_invD(4) [OF inv1] that i1 unfolding unique_by_def by (metis option.inject)
  have it3: "dc_items db2 = dset k (?i\<lparr>dk_status := ''APPROVED''\<rparr>) (dc_items db1)" using it2 the_item1 i1 id by fastforce
  have step2: "doc_service rules (Approve_Document 0 (do_id d) [] [] [''SUPER_ADMIN''] None None) db1 = (Inr (), db2)" by (simp add: a)
  have r2: "reached (doc_service rules) doc_ok db1 db2" by (rule reached_step [where service = "doc_service rules", OF _ step2]) simp
  have inv2: "docs_inv db2" by (rule doc_service_inv [OF inv1 _ step2]) simp
  have "blocking db2 s = blocking db s - {k}" by (auto simp: blocking_def it3 it1 dget_dset split: if_splits)
  then show thesis by (rule that [OF reached_trans [OF r2 r1] inv2])
qed

text \<open>C8: From every database the endpoints reach, uploads and approvals lead to one in which the transition check of a
  shipment passes.\<close>

theorem gate_can_be_passed:
  assumes "reached (doc_service rules) doc_ok start db" and "docs_inv start"
  shows "\<exists>db'. reached (doc_service rules) doc_ok db db' \<and> dg_can_proceed (validate_transition_documents db' s stage)"
proof -
  have "\<exists>db'. reached (doc_service rules) doc_ok db db' \<and> docs_inv db' \<and> blocking db' s = {}" if "docs_inv db" for db
    using that
  proof (induction "card (blocking db s)" arbitrary: db)
    case 0
    then show ?case using finite_blocking reached_start by (metis card_0_eq)
  next
    case (Suc n)
    then obtain k where k: "k \<in> blocking db s" by fastforce
    obtain db1 where 1: "reached (doc_service rules) doc_ok db db1" "docs_inv db1" "blocking db1 s = blocking db s - {k}"
      by (rule clear_item [OF Suc.prems k])
    have "n = card (blocking db1 s)" using Suc.hyps(2) k finite_blocking [of db s] by (simp add: 1(3))
    from Suc.hyps(1) [OF this 1(2)] obtain db' where "reached (doc_service rules) doc_ok db1 db'" "docs_inv db'" "blocking db' s = {}" by blast
    with reached_trans [OF this(1) 1(1)] show ?case by blast
  qed
  from this [OF documents.reached_inv [OF assms]] show ?thesis using can_proceed_blocking by blast
qed

section \<open>When the checklist is drawn up\<close>

lemma add_rows_kept:
  "\<forall>m \<ge> n. ids m \<noteq> k \<Longrightarrow> dget (dc_items (add_rows ids now s n items db)) k = dget (dc_items db) k"
proof (induction items arbitrary: n db)
  case (Cons i items)
  have "\<forall>m \<ge> Suc n. ids m \<noteq> k" "ids n \<noteq> k" using Cons.prems by auto
  then show ?case by (simp add: Cons.IH dget_dset)
qed simp

lemma add_rows_new:
  "inj ids \<Longrightarrow> i \<in> set items \<Longrightarrow> \<exists>m \<ge> n. dget (dc_items (add_rows ids now s n items db)) (ids m) = Some (row_of (ids m) now s i)"
proof (induction items arbitrary: n db)
  case (Cons j items)
  show ?case
  proof (cases "i = j")
    case True
    have "\<forall>m \<ge> Suc n. ids m \<noteq> ids n" using Cons.prems(1) by (auto dest: injD)
    then have "dget (dc_items (add_rows ids now s n (j # items) db)) (ids n) = Some (row_of (ids n) now s i)"
      by (simp add: True add_rows_kept dget_dset)
    then show ?thesis by blast
  next
    case False
    then have "i \<in> set items" using Cons.prems(2) by simp
    from Cons.IH [OF Cons.prems(1) this, of "Suc n"] show ?thesis by (simp, meson Suc_leD)
  qed
qed simp

lemma add_rows_rows:
  "dget (dc_items (add_rows ids now s n items db)) k = Some j \<Longrightarrow>
    dget (dc_items db) k = Some j \<or> (\<exists>i \<in> set items. \<exists>kid. j = row_of kid now s i)"
proof (induction items arbitrary: n db)
  case (Cons i items)
  from Cons.IH [of "Suc n" "put_item (row_of (ids n) now s i) db"] Cons.prems show ?case
    by (auto simp: dget_dset split: if_splits)
qed simp

text \<open>The item of a lane once the checklist of its shipment has been drawn up.\<close>

lemma generated_item:
  assumes inv: "docs_inv db" and ids: "inj ids" "\<forall>n. ids n \<notin> set (dkeys (dc_items db))"
    and i: "i \<in> set (engine_checklist rules c)"
  shows "(\<exists>k j. dget (dc_items db) k = Some j \<and> item_lane j = (s, cg_doc_type_code i))
    \<or> (\<exists>k. dget (dc_items (snd (generate_checklist rules ids now s c db))) k = Some (row_of k now s i))"
proof (cases "cg_doc_type_code i \<in> set (map dk_doc_type_code (shipment_items db s))")
  case True
  then have "cg_doc_type_code i \<in> dk_doc_type_code ` set (shipment_items db s)" by (simp only: set_map)
  then obtain j where "j \<in> set (shipment_items db s)" and c: "dk_doc_type_code j = cg_doc_type_code i" by (auto simp only:)
  then have j: "j \<in> set (dvalues (dc_items db))" "dk_shipment_id j = s" by (simp_all only: shipment_items_def set_filter mem_Collect_eq)
  have "dget (dc_items db) (dk_id j) = Some j" by (rule values_dget [OF docs_invD(2) [OF inv] j(1)])
  then show ?thesis using j(2) c by (auto simp: item_lane_def)
next
  case False
  then have "i \<in> set (missing_items (engine_checklist rules c) (map dk_doc_type_code (shipment_items db s)))"
    using i by (simp add: missing_items_def)
  from add_rows_new [OF ids(1) this, of 0 now s db] show ?thesis by (auto simp: generate_checklist_def Let_def)
qed

lemma generate_keeps_items:
  assumes ids: "\<forall>n. ids n \<notin> set (dkeys (dc_items db))" and k: "dget (dc_items db) k = Some j"
  shows "dget (dc_items (snd (generate_checklist rules ids now s c db))) k = Some j"
proof -
  have "k \<in> set (dkeys (dc_items db))" using k by (auto dest!: map_of_SomeD intro: rev_image_eqI)
  then have "\<forall>m \<ge> 0. ids m \<noteq> k" using ids by metis
  then show ?thesis by (simp add: generate_checklist_def Let_def add_rows_kept k)
qed

text \<open>C32: A checklist drawn up after the document was uploaded is not linked to it: the document can be approved and its
  item with it, and the check still reports it missing.\<close>

theorem late_checklist_blocks:
  assumes inv: "docs_inv db" and d: "dget (dc_documents db) k = Some d" and none: "items_of db (do_shipment_id d) (do_doc_type d) = []"
    and i: "i \<in> set (engine_checklist rules c)" "cg_doc_type_code i = do_doc_type d" "cg_is_mandatory i"
    and ok: "doc_ok (Generate_Checklist ids now (do_shipment_id d) c) db"
    and a: "approve_document now' k t actor roles ns ip (snd (generate_checklist rules ids now (do_shipment_id d) c db)) = (Inr d', db')"
  shows "do_status d' = ''APPROVED'' \<and> (\<exists>j \<in> set (dg_missing (validate_transition_documents db' (do_shipment_id d) stage)).
    dk_doc_type_code j = do_doc_type d \<and> dk_status j = ''APPROVED'')"
proof -
  let ?s = "do_shipment_id d"
  let ?db = "snd (generate_checklist rules ids now ?s c db)"
  have ids: "inj ids" "\<forall>n. ids n \<notin> set (dkeys (dc_items db))" using ok by simp_all
  have inv1: "docs_inv ?db" by (rule generate_keeps [OF inv ids])
  have d1: "dget (dc_documents ?db) k = Some d" by (simp add: generate_checklist_def Let_def add_rows_frames d)
  have no: "item_lane j \<noteq> (?s, do_doc_type d)" if "dget (dc_items db) m = Some j" for m j
    using none dget_values [OF docs_invD(2) [OF inv] that] unfolding items_of_lane filter_empty_conv by blast
  then obtain m where m: "dget (dc_items ?db) m = Some (row_of m now ?s i)" using generated_item [OF inv ids i(1), of ?s now] i(2) by auto
  have g: "\<not> gate_refuses (do_doc_type d) roles" using a d1 by (auto simp: approve_document_def split: if_splits)
  obtain e where e: "e = d\<lparr>do_status := ''APPROVED'', do_rejection_reason := None\<rparr>" "d' = e"
    and it: "(dc_items db' = dc_items ?db \<and> (\<forall>j i. dget (dc_items ?db) j = Some i \<longrightarrow> item_lane i \<noteq> doc_lane d))
      \<or> (\<exists>i. dget (dc_items ?db) (dk_id i) = Some i \<and> item_lane i = doc_lane d
           \<and> dc_items db' = dset (dk_id i) (i\<lparr>dk_status := ''APPROVED''\<rparr>) (dc_items ?db))"
    by (rule doc_approve_effect [OF inv1 d1 g, of now' t actor ns ip]) (use a in auto)
  have l: "item_lane (row_of m now ?s i) = doc_lane d" using i(2) by (simp add: doc_lane_def)
  then have items: "dc_items db' = dset m ((row_of m now ?s i)\<lparr>dk_status := ''APPROVED''\<rparr>) (dc_items ?db)"
    using it m docs_invD(4) [OF inv1] unfolding unique_by_def by (metis option.inject row_of_fields(1))
  let ?j = "(row_of m now ?s i)\<lparr>dk_status := ''APPROVED''\<rparr>"
  have "store_inv dk_id (dc_items db')" unfolding items by (rule store_same [OF docs_invD(2) [OF inv1] m]) simp
  then have "?j \<in> set (dvalues (dc_items db'))" by (rule conjunct1 [OF dget_values [where k = m]]) (simp add: items dget_dset)
  then have "?j \<in> set (shipment_items db' ?s)" unfolding shipment_items_def by simp
  then have "?j \<in> set (dg_missing (validate_transition_documents db' ?s stage))"
    unfolding validate_transition_documents_def Let_def document_gate.simps using i(3) by (simp add: item_missing_def)
  moreover have "dk_doc_type_code ?j = do_doc_type d" using i(2) by (simp add: row_of_def)
  moreover have "do_status d' = ''APPROVED''" by (simp add: e)
  ultimately show ?thesis by (intro conjI bexI [of _ ?j]) simp_all
qed

lemma marked_cases:
  assumes "(d' = d \<and> P) \<or> (\<exists>i. dget d (dk_id i) = Some i \<and> item_lane i = l \<and> d' = dset (dk_id i) (f i) d)"
    and "\<And>i. item_lane (f i) = item_lane i" "\<And>i. dk_is_mandatory (f i) = dk_is_mandatory i"
  obtains "d' = d" | i i' where "dget d (dk_id i) = Some i" "item_lane i' = item_lane i" "dk_is_mandatory i' = dk_is_mandatory i" "d' = dset (dk_id i) i' d"
  using assms by blast

lemma items_step:
  assumes inv: "docs_inv db" and ok: "doc_ok op db" and op: "doc_service rules op db = (Inr u, db')"
    and gen: "\<And>ids now s c. op \<noteq> Generate_Checklist ids now s c"
  obtains "dc_items db' = dc_items db"
    | i i' where "dget (dc_items db) (dk_id i) = Some i" "item_lane i' = item_lane i" "dk_is_mandatory i' = dk_is_mandatory i"
      "dc_items db' = dset (dk_id i) i' (dc_items db)"
proof (cases op)
  case (Upload did vid url now q)
  have new: "did \<notin> set (dkeys (dc_documents db))" using ok Upload by simp
  obtain d db1 where u: "upload_document did vid url now q db = (Inr d, db1)" and it: "(dc_items db1 = dc_items db \<and> (\<forall>j i. dget (dc_items db) j = Some i \<longrightarrow> item_lane i \<noteq> doc_lane d))
      \<or> (\<exists>i. dget (dc_items db) (dk_id i) = Some i \<and> item_lane i = doc_lane d
           \<and> dc_items db1 = dset (dk_id i) (i\<lparr>dk_status := ''UPLOADED'', dk_document_id := Some (do_id d)\<rparr>) (dc_items db))"
    by (rule upload_effect [OF inv new, of vid url now q])
  then have "db1 = db'" using op Upload by simp
  then show ?thesis by (rule_tac marked_cases [OF it]) (simp_all add: item_lane_def that)
next
  case (Approve_Document now k t a roles ns ip)
  then obtain d0 where a: "approve_document now k t a roles ns ip db = (Inr d0, db')" using op by (auto simp: res_simps split: prod.splits)
  then obtain d where d: "dget (dc_documents db) k = Some d" and g: "\<not> gate_refuses (do_doc_type d) roles"
    by (auto simp: approve_document_def split: option.splits if_splits)
  have "(dc_items db' = dc_items db \<and> (\<forall>j i. dget (dc_items db) j = Some i \<longrightarrow> item_lane i \<noteq> doc_lane d))
      \<or> (\<exists>i. dget (dc_items db) (dk_id i) = Some i \<and> item_lane i = doc_lane d
           \<and> dc_items db' = dset (dk_id i) (i\<lparr>dk_status := ''APPROVED''\<rparr>) (dc_items db))"
    by (rule doc_approve_effect [OF inv d g, of now t a ns ip]) (use a in auto)
  then show ?thesis by (rule marked_cases) (simp_all add: item_lane_def that)
next
  case (Reject_Document now k a reason ip)
  then obtain d0 where a: "reject_document now k a reason ip db = (Inr d0, db')" using op by (auto simp: res_simps split: prod.splits)
  then obtain d where d: "dget (dc_documents db) k = Some d" by (auto simp: reject_document_def split: option.splits)
  have "(dc_items db' = dc_items db \<and> (\<forall>j i. dget (dc_items db) j = Some i \<longrightarrow> item_lane i \<noteq> doc_lane d))
      \<or> (\<exists>i. dget (dc_items db) (dk_id i) = Some i \<and> item_lane i = doc_lane d
           \<and> dc_items db' = dset (dk_id i) (i\<lparr>dk_status := ''MISSING''\<rparr>) (dc_items db))"
    by (rule reject_effect [OF inv d, of now a reason ip]) (use a in auto)
  then show ?thesis by (rule marked_cases) (simp_all add: item_lane_def that)
next
  case (Request_Revision now k a ns ip)
  then have "dc_items db' = dc_items db" using op by (auto simp: request_revision_def Let_def res_simps split: prod.splits option.splits)
  then show ?thesis by (rule that(1))
next
  case (Generate_Checklist ids now s c)
  then show ?thesis using gen by simp
next
  case (View_Document k a ip now)
  then have "dc_items db' = dc_items db" using op by (auto simp: get_document_def res_simps split: prod.splits option.splits)
  then show ?thesis by (rule that(1))
qed

text \<open>A code that the rules demand in every context is on the checklist of every shipment that has one.\<close>

definition demands :: "string \<Rightarrow> doc_db \<Rightarrow> bool" where
  "demands code db \<longleftrightarrow> docs_inv db \<and> (\<forall>k i. dget (dc_items db) k = Some i \<longrightarrow> item_lane i = (dk_shipment_id i, code) \<longrightarrow> dk_is_mandatory i)
     \<and> (\<forall>k i. dget (dc_items db) k = Some i \<longrightarrow> (\<exists>j i'. dget (dc_items db) j = Some i' \<and> item_lane i' = (dk_shipment_id i, code)))"

lemma shipment_of_lane: "dk_shipment_id i = fst (item_lane i)" "dk_doc_type_code i = snd (item_lane i)" by (simp_all add: item_lane_def)

lemma demands_keeps:
  assumes always: "\<And>c. code \<in> set (map cg_doc_type_code (engine_checklist rules c))"
    and mand: "\<And>c i. i \<in> set (engine_checklist rules c) \<Longrightarrow> cg_doc_type_code i = code \<Longrightarrow> cg_is_mandatory i"
    and dem: "demands code db" and ok: "doc_ok op db" and op: "doc_service rules op db = (Inr u, db')"
  shows "demands code db'"
proof -
  have inv: "docs_inv db" using dem by (simp add: demands_def)
  have inv': "docs_inv db'" by (rule doc_service_inv [OF inv ok op])
  show ?thesis
  proof (cases "\<exists>ids now s c. op = Generate_Checklist ids now s c")
    case False
    then show ?thesis
    proof (rule_tac items_step [OF inv ok op])
      fix i i' assume h: "dget (dc_items db) (dk_id i) = Some i" "item_lane i' = item_lane i" "dk_is_mandatory i' = dk_is_mandatory i"
        "dc_items db' = dset (dk_id i) i' (dc_items db)"
      have "dk_is_mandatory x" if "dget (dc_items db') k = Some x" "item_lane x = (dk_shipment_id x, code)" for k x
        using that dem h(1-3) unfolding h(4) dget_dset demands_def by (cases "k = dk_id i") (auto simp: shipment_of_lane)
      moreover have "\<exists>j y. dget (dc_items db') j = Some y \<and> item_lane y = (dk_shipment_id x, code)" if x: "dget (dc_items db') k = Some x" for k x
      proof -
        have "\<exists>k x'. dget (dc_items db) k = Some x' \<and> dk_shipment_id x' = dk_shipment_id x"
          using x h(1,2) unfolding h(4) dget_dset by (cases "k = dk_id i") (auto simp: shipment_of_lane)
        then obtain j y where y: "dget (dc_items db) j = Some y" "item_lane y = (dk_shipment_id x, code)" using dem unfolding demands_def by metis
        show ?thesis
        proof (cases "j = dk_id i")
          case True
          then show ?thesis using y h by (intro exI [of _ j] exI [of _ i']) (simp add: dget_dset)
        next
          case False
          then show ?thesis using y h by (intro exI [of _ j] exI [of _ y]) (simp add: dget_dset)
        qed
      qed
      ultimately show ?thesis using inv' unfolding demands_def by blast
    qed (use dem inv' in \<open>auto simp: demands_def\<close>)
  next
    case True
    then obtain ids now s c where g: "op = Generate_Checklist ids now s c" by blast
    then have db': "db' = snd (generate_checklist rules ids now s c db)" and ids: "inj ids" "\<forall>n. ids n \<notin> set (dkeys (dc_items db))"
      using op ok by simp_all
    have kept: "dget (dc_items db') k = Some j" if "dget (dc_items db) k = Some j" for k j
      unfolding db' by (rule generate_keeps_items [OF ids(2) that])
    obtain p where p: "p \<in> set (engine_checklist rules c)" "cg_doc_type_code p = code" using always [of c] by auto
    have here: "\<exists>j y. dget (dc_items db') j = Some y \<and> item_lane y = (s, code)"
      using generated_item [OF inv ids p(1), of s now] kept p(2) unfolding db' [symmetric] by (metis row_of_fields(2))
    have old: "dget (dc_items db) k = Some x \<or> dk_shipment_id x = s \<and> (dk_doc_type_code x = code \<longrightarrow> dk_is_mandatory x)"
      if "dget (dc_items db') k = Some x" for k x
    proof -
      let ?items = "missing_items (engine_checklist rules c) (map dk_doc_type_code (shipment_items db s))"
      have "dget (dc_items (add_rows ids now s 0 ?items db)) k = Some x" using that by (simp add: db' generate_checklist_def Let_def)
      then have "dget (dc_items db) k = Some x \<or> (\<exists>i \<in> set ?items. \<exists>kid. x = row_of kid now s i)" by (rule add_rows_rows)
      moreover have "cg_is_mandatory i" if "i \<in> set ?items" "cg_doc_type_code i = code" for i using that mand by (auto simp: missing_items_def)
      ultimately show ?thesis by (auto simp: row_of_def)
    qed
    have "dk_is_mandatory x" if "dget (dc_items db') k = Some x" "item_lane x = (dk_shipment_id x, code)" for k x
      using old [OF that(1)] that(2) dem unfolding demands_def item_lane_def by blast
    moreover have "\<exists>j y. dget (dc_items db') j = Some y \<and> item_lane y = (dk_shipment_id x, code)" if "dget (dc_items db') k = Some x" for k x
      using old [OF that] here kept dem unfolding demands_def by metis
    ultimately show ?thesis using inv' unfolding demands_def by blast
  qed
qed

lemma holding_rule_listed:
  assumes "r \<in> set rules" "ck_predicate r c = Inr True"
  shows "ck_doc_type_code r \<in> set (map cg_doc_type_code (engine_checklist rules c))"
  unfolding conjunct1 [OF conjunct2 [OF checklist_exact]] using assms by blast

lemma listed_rule:
  assumes "i \<in> set (engine_checklist rules c)"
  obtains r where "r \<in> set rules" "i = item_of r"
proof -
  have "set (first_of_code rs) \<subseteq> set rs" for rs by (induction rs) auto
  then show thesis using assms that unfolding engine_items by fastforce
qed

lemma pod_rule:
  "\<exists>r \<in> set default_checklist_rules. ck_doc_type_code r = ''PROOF_OF_DELIVERY'' \<and> (\<forall>c. ck_predicate r c = Inr True)"
  by (intro bexI [of _ "last default_checklist_rules"]) (simp_all add: default_checklist_rules_def)

lemma pod_mandatory: "\<forall>r \<in> set default_checklist_rules. ck_doc_type_code r = ''PROOF_OF_DELIVERY'' \<longrightarrow> ck_is_mandatory r"
  by (simp add: default_checklist_rules_def)

interpretation delivery_proof: service_contract "doc_service default_checklist_rules" doc_ok "demands ''PROOF_OF_DELIVERY''"
proof
  fix db op u db'
  assume h: "demands ''PROOF_OF_DELIVERY'' db" "doc_ok op db" "doc_service default_checklist_rules op db = (Inr u, db')"
  show "demands ''PROOF_OF_DELIVERY'' db'"
  proof (rule demands_keeps [OF _ _ h])
    show "''PROOF_OF_DELIVERY'' \<in> set (map cg_doc_type_code (engine_checklist default_checklist_rules c))" for c
      using pod_rule holding_rule_listed by metis
    show "cg_is_mandatory i" if i: "i \<in> set (engine_checklist default_checklist_rules c)" and code: "cg_doc_type_code i = ''PROOF_OF_DELIVERY''" for c i
    proof -
      obtain r where "r \<in> set default_checklist_rules" "i = item_of r" by (rule listed_rule [OF i])
      then show ?thesis using pod_mandatory code by (simp add: item_of_def)
    qed
  qed
qed

text \<open>C31: The check ignores the stage it is asked for: with the default rules no transition of a shipment that has a
  checklist passes it, its departure included, before a proof of delivery was uploaded and approved.\<close>

theorem delivery_proof_gates_every_stage:
  assumes "reached (doc_service default_checklist_rules) doc_ok start db" and "docs_inv start" and "dc_items start = []"
    and "dg_can_proceed (validate_transition_documents db s stage)" and "shipment_items db s \<noteq> []"
  shows "\<exists>k d. dget (dc_documents db) k = Some d \<and> do_shipment_id d = s \<and> do_doc_type d = ''PROOF_OF_DELIVERY''
    \<and> (\<exists>l \<in> set (dc_log db). lg_document_id l = k \<and> lg_action l = ''APPROVE'')"
proof -
  have "demands ''PROOF_OF_DELIVERY'' start" using assms(2,3) by (simp add: demands_def)
  then have dem: "demands ''PROOF_OF_DELIVERY'' db" by (rule delivery_proof.reached_inv [OF assms(1)])
  then have inv: "docs_inv db" by (simp add: demands_def)
  note I = docs_invD [OF inv]
  obtain i0 where i0: "i0 \<in> set (dvalues (dc_items db))" "dk_shipment_id i0 = s" using assms(5) by (auto simp: shipment_items_def filter_empty_conv)
  obtain j i where i: "dget (dc_items db) j = Some i" "item_lane i = (s, ''PROOF_OF_DELIVERY'')"
    using dem values_dget [OF I(2) i0(1)] i0(2) unfolding demands_def by metis
  then have "dk_is_mandatory i" using dem by (auto simp: demands_def item_lane_def)
  moreover have "j \<notin> blocking db s" using can_proceed_blocking [OF inv] assms(4) by auto
  ultimately have "dk_status i = ''APPROVED''" using i by (auto simp: blocking_def item_lane_def)
  then show ?thesis using I(8) [OF i(1)] i(2) unfolding item_ok_def was_approved_def doc_lane_def by auto
qed

section \<open>Expiry\<close>

text \<open>The alerts are sorted by the days that remain; a document raises one exactly when it has expired or its days are within
  one of the three thresholds, whatever their order: the threshold asked for does not limit the other two.\<close>

theorem expiry_alerts_exact:
  shows "sorted (map xa_days_remaining (get_expiring_documents db now (t_info, t_warn, t_crit)))
    \<and> (a \<in> set (get_expiring_documents db now (t_info, t_warn, t_crit)) \<longleftrightarrow>
      (\<exists>d \<in> set (dvalues (dc_documents db)). \<exists>t. do_expiry_date d = Some t \<and>
        (day_of t < day_of now \<or> day_of t - day_of now \<le> max t_info (max t_warn t_crit))
        \<and> a = \<lparr>xa_document_id = do_id d, xa_shipment_id = do_shipment_id d, xa_doc_type = do_doc_type d,
            xa_document_name = do_document_name d, xa_expiry_date = day_of t, xa_days_remaining = day_of t - day_of now,
            xa_severity = (if day_of t < day_of now then ''EXPIRED'' else if day_of t - day_of now \<le> t_crit then ''CRITICAL''
              else if day_of t - day_of now \<le> t_warn then ''WARNING'' else ''INFO'')\<rparr>))"
proof -
  let ?x = "\<lambda>d. \<lparr>xd_id = do_id d, xd_shipment_id = do_shipment_id d, xd_doc_type = do_doc_type d,
        xd_document_name = do_document_name d, xd_expiry_date = do_expiry_date d\<rparr>"
  let ?sev = "\<lambda>n. if n < 0 then ''EXPIRED'' else if n \<le> t_crit then ''CRITICAL'' else if n \<le> t_warn then ''WARNING'' else ''INFO''"
  have sev: "expiry_severity (t_info, t_warn, t_crit) n = (if n < 0 \<or> n \<le> max t_info (max t_warn t_crit) then Some (?sev n) else None)" for n
    by (auto simp: expiry_severity_def)
  have "a \<in> set (get_expiring_documents db now (t_info, t_warn, t_crit)) \<longleftrightarrow>
      (\<exists>d \<in> set (dvalues (dc_documents db)). expiry_alert_of (day_of now) (t_info, t_warn, t_crit) (?x d) = Some a)"
    by (auto simp: get_expiring_documents_def check_document_expiries_def List.map_filter_def image_iff expiry_alert_of_def
        split: option.splits) (force simp: expiry_alert_of_def split: option.splits)+
  also have "\<dots> \<longleftrightarrow> (\<exists>d \<in> set (dvalues (dc_documents db)). \<exists>t. do_expiry_date d = Some t \<and>
        (day_of t < day_of now \<or> day_of t - day_of now \<le> max t_info (max t_warn t_crit))
        \<and> a = \<lparr>xa_document_id = do_id d, xa_shipment_id = do_shipment_id d, xa_doc_type = do_doc_type d,
            xa_document_name = do_document_name d, xa_expiry_date = day_of t, xa_days_remaining = day_of t - day_of now,
            xa_severity = ?sev (day_of t - day_of now)\<rparr>)"
    by (intro bex_cong refl) (auto simp: expiry_alert_of_def sev split: option.split)
  finally show ?thesis by (simp add: get_expiring_documents_def check_document_expiries_def)
qed

section \<open>Instances\<close>

definition no_documents :: doc_db where
  "no_documents = \<lparr>dc_shipments = [(''S'', ''T'', ''C'')], dc_documents = [], dc_versions = [], dc_items = [], dc_log = [], dc_outbox = [], dc_audit = []\<rparr>"

lemma no_documents_simps [simp]:
  "dc_documents no_documents = []" "dc_versions no_documents = []" "dc_items no_documents = []" "dc_log no_documents = []"
  by (simp_all add: no_documents_def)

lemma no_documents_inv: "docs_inv no_documents"
  by (simp add: docs_inv_def unique_by_def)

definition invoice_rule :: checklist_rule where
  "invoice_rule = \<lparr>ck_rule_id = ''R'', ck_doc_type_code = ''COMMERCIAL_INVOICE'', ck_doc_name = ''Commercial Invoice'', ck_approval_role = ''CUSTOMS'',
     ck_is_mandatory = True, ck_stage = ''BOOKING'', ck_predicate = (\<lambda>c. Inr True), ck_description = []\<rparr>"

definition invoice_upload :: upload_request where
  "invoice_upload = \<lparr>uq_shipment_id = ''S'', uq_tenant_id = ''T'', uq_actor_id = ''U'', uq_doc_type = ''COMMERCIAL_INVOICE'', uq_document_name = ''Invoice'',
     uq_file_size = 10, uq_filename = ''i.pdf'', uq_content_type = None, uq_expiry_date = None, uq_is_mandatory = True, uq_change_summary = None,
     uq_ip_address = None\<rparr>"

definition item_ids :: "nat \<Rightarrow> string" where "item_ids n = replicate n CHR ''x''"

lemma inj_item_ids: "inj item_ids" by (rule injI) (metis item_ids_def length_replicate)

lemma invoice_item: "engine_checklist [invoice_rule] [] = [item_of invoice_rule]"
  by (simp add: engine_checklist_def invoice_rule_def)

text \<open>A checklist of one item, and the invoice uploaded and approved.\<close>

definition listed_db :: doc_db where "listed_db = snd (generate_checklist [invoice_rule] item_ids 0 ''S'' [] no_documents)"

lemma listed_tables: "dc_items listed_db = [([], row_of [] 0 ''S'' (item_of invoice_rule))]" "dc_documents listed_db = []" "dc_log listed_db = []"
  by (simp_all add: listed_db_def generate_checklist_def Let_def invoice_item missing_items_def shipment_items_def item_ids_def)

lemma listed_reached: "reached (doc_service [invoice_rule]) doc_ok no_documents listed_db"
  by (rule reached_step [where r = "Generate_Checklist item_ids 0 ''S'' []" and service = "doc_service [invoice_rule]" and x = "()"])
    (simp_all add: inj_item_ids listed_db_def)

lemma sample_document_history:
  obtains d1 d2 db1 db2 where "upload_document ''D'' ''V'' ''url'' 1 invoice_upload listed_db = (Inr d1, db1)" "do_id d1 = ''D''"
    "reached (doc_service [invoice_rule]) doc_ok no_documents db1" "dget (dc_documents db1) ''D'' = Some d1"
    "approve_document 2 ''D'' ''T'' ''U'' [''CUSTOMS''] None None db1 = (Inr d2, db2)" "reached (doc_service [invoice_rule]) doc_ok no_documents db2"
    "dget (dc_documents db2) ''D'' = Some d2" "\<exists>i. dc_items db2 = [([], i)] \<and> dk_shipment_id i = ''S'' \<and> dk_is_mandatory i \<and> dk_status i = ''APPROVED'' \<and> dk_document_id i = Some ''D''"
proof -
  have inv: "docs_inv listed_db" by (rule documents.reached_inv [OF listed_reached no_documents_inv])
  have new: "''D'' \<notin> set (dkeys (dc_documents listed_db))" by (simp add: listed_tables)
  obtain d1 db1 where u: "upload_document ''D'' ''V'' ''url'' 1 invoice_upload listed_db = (Inr d1, db1)" "doc_lane d1 = (uq_shipment_id invoice_upload, uq_doc_type invoice_upload)"
    "dc_documents db1 = dset (do_id d1) d1 (dc_documents listed_db)"
    and id: "(do_id d1 = ''D'' \<and> do_version_number d1 = 1 \<and> (\<forall>k e. dget (dc_documents listed_db) k = Some e \<longrightarrow> doc_lane e \<noteq> doc_lane d1))
      \<or> (\<exists>e. dget (dc_documents listed_db) (do_id d1) = Some e \<and> doc_lane e = doc_lane d1 \<and> do_version_number d1 = Suc (do_version_number e))"
    and it: "(dc_items db1 = dc_items listed_db \<and> (\<forall>j i. dget (dc_items listed_db) j = Some i \<longrightarrow> item_lane i \<noteq> doc_lane d1))
      \<or> (\<exists>i. dget (dc_items listed_db) (dk_id i) = Some i \<and> item_lane i = doc_lane d1
           \<and> dc_items db1 = dset (dk_id i) (i\<lparr>dk_status := ''UPLOADED'', dk_document_id := Some (do_id d1)\<rparr>) (dc_items listed_db))"
    by (rule upload_effect [OF inv new, of "''V''" "''url''" 1 invoice_upload]) (rule that)
  have i1: "do_id d1 = ''D''" using id by (simp add: listed_tables)
  have l: "doc_lane d1 = (''S'', ''COMMERCIAL_INVOICE'')" using u(2) by (simp add: invoice_upload_def)
  let ?r = "row_of [] 0 ''S'' (item_of invoice_rule)"
  have "item_lane ?r = doc_lane d1" by (simp add: l invoice_rule_def)
  then have it1: "dc_items db1 = [([], ?r\<lparr>dk_status := ''UPLOADED'', dk_document_id := Some ''D''\<rparr>)]"
    using it by (auto simp: listed_tables i1 split: if_splits)
  have s1: "doc_service [invoice_rule] (Upload ''D'' ''V'' ''url'' 1 invoice_upload) listed_db = (Inr (), db1)" by (simp add: u(1))
  have r1: "reached (doc_service [invoice_rule]) doc_ok listed_db db1"
    by (rule reached_step [where service = "doc_service [invoice_rule]", OF _ s1]) (simp add: listed_tables)
  have r1': "reached (doc_service [invoice_rule]) doc_ok no_documents db1" by (rule reached_trans [OF r1 listed_reached])
  have inv1: "docs_inv db1" by (rule documents.reached_inv [OF r1' no_documents_inv])
  have d1: "dget (dc_documents db1) ''D'' = Some d1" by (simp add: u(3) i1 dget_dset)
  have ty: "do_doc_type d1 = ''COMMERCIAL_INVOICE''" using l by (simp add: doc_lane_def)
  have g: "\<not> gate_refuses (do_doc_type d1) [''CUSTOMS'']" by (simp add: gate_refuses_def ty approval_gates_def)
  obtain d2 db2 where a: "approve_document 2 ''D'' ''T'' ''U'' [''CUSTOMS''] None None db1 = (Inr d2, db2)"
    "dc_documents db2 = dset ''D'' d2 (dc_documents db1)"
    "(dc_items db2 = dc_items db1 \<and> (\<forall>j i. dget (dc_items db1) j = Some i \<longrightarrow> item_lane i \<noteq> doc_lane d1))
      \<or> (\<exists>i. dget (dc_items db1) (dk_id i) = Some i \<and> item_lane i = doc_lane d1
           \<and> dc_items db2 = dset (dk_id i) (i\<lparr>dk_status := ''APPROVED''\<rparr>) (dc_items db1))"
    by (rule doc_approve_effect [OF inv1 d1 g, of 2 "''T''" "''U''" None None]) (rule that)
  have s2: "doc_service [invoice_rule] (Approve_Document 2 ''D'' ''T'' ''U'' [''CUSTOMS''] None None) db1 = (Inr (), db2)" by (simp add: a(1))
  have r2: "reached (doc_service [invoice_rule]) doc_ok db1 db2" by (rule reached_step [where service = "doc_service [invoice_rule]", OF _ s2]) simp
  have l2: "item_lane (?r\<lparr>dk_status := ''UPLOADED'', dk_document_id := Some ''D''\<rparr>) = doc_lane d1" by (simp add: l item_lane_def row_of_def invoice_rule_def item_of_def)
  have "dc_items db2 = [([], ?r\<lparr>dk_status := ''APPROVED'', dk_document_id := Some ''D''\<rparr>)]"
    using a(3) l2 by (auto simp: it1 split: if_splits)
  then have "\<exists>i. dc_items db2 = [([], i)] \<and> dk_shipment_id i = ''S'' \<and> dk_is_mandatory i \<and> dk_status i = ''APPROVED'' \<and> dk_document_id i = Some ''D''"
    by (simp add: item_of_def invoice_rule_def)
  then show thesis using that [OF u(1) i1 r1' d1 a(1) reached_trans [OF r2 r1']] a(2) by (simp add: dget_dset)
qed

theorem documents_consistent_witness:
  "\<exists>db d. reached (doc_service [invoice_rule]) doc_ok no_documents db \<and> dget (dc_documents db) ''D'' = Some d
    \<and> map dv_version_number (filter (\<lambda>v. dv_document_id v = ''D'') (dc_versions db)) = [1..<Suc (do_version_number d)]"
proof (rule sample_document_history)
  fix d1 db1 assume h: "reached (doc_service [invoice_rule]) doc_ok no_documents db1" "dget (dc_documents db1) ''D'' = Some d1"
  from documents_consistent [OF h(1) no_documents_inv h(2)] h show ?thesis by blast
qed

theorem versions_immutable_witness:
  "\<exists>db1 db2. reached (doc_service [invoice_rule]) doc_ok no_documents db1 \<and> dget (dc_documents db1) ''D'' \<noteq> None
    \<and> reached (doc_service [invoice_rule]) doc_ok db1 db2 \<and> take (length (dc_versions db1)) (dc_versions db2) = dc_versions db1"
proof (rule sample_document_history)
  fix d1 db1 d2 db2 assume h: "reached (doc_service [invoice_rule]) doc_ok no_documents db1" "dget (dc_documents db1) ''D'' = Some d1"
    "approve_document 2 ''D'' ''T'' ''U'' [''CUSTOMS''] None None db1 = (Inr d2, db2)"
  have s: "doc_service [invoice_rule] (Approve_Document 2 ''D'' ''T'' ''U'' [''CUSTOMS''] None None) db1 = (Inr (), db2)" by (simp add: h(3))
  have r: "reached (doc_service [invoice_rule]) doc_ok db1 db2" by (rule reached_step [where service = "doc_service [invoice_rule]", OF _ s]) simp
  from versions_immutable [OF r] r h(1,2) show ?thesis by auto
qed

lemma single_item_proceeds:
  "dc_items db = [(k, i)] \<Longrightarrow> dk_shipment_id i = s \<Longrightarrow> dk_status i = ''APPROVED'' \<Longrightarrow> dk_document_id i = Some d \<Longrightarrow>
    dg_can_proceed (validate_transition_documents db s stage)"
  by (simp add: validate_transition_documents_def Let_def shipment_items_def item_missing_def)

theorem gate_demands_approval_witness:
  "\<exists>db k d. reached (doc_service [invoice_rule]) doc_ok no_documents db \<and> dg_can_proceed (validate_transition_documents db ''S'' None)
    \<and> dget (dc_documents db) k = Some d \<and> do_shipment_id d = ''S''"
proof (rule sample_document_history)
  fix d2 db2 assume r: "reached (doc_service [invoice_rule]) doc_ok no_documents db2"
    and "\<exists>i. dc_items db2 = [([], i)] \<and> dk_shipment_id i = ''S'' \<and> dk_is_mandatory i \<and> dk_status i = ''APPROVED'' \<and> dk_document_id i = Some ''D''"
  then obtain i where i: "dc_items db2 = [([], i)]" "dk_shipment_id i = ''S''" "dk_is_mandatory i" "dk_status i = ''APPROVED''" "dk_document_id i = Some ''D''"
    by blast
  have p: "dg_can_proceed (validate_transition_documents db2 ''S'' None)" by (rule single_item_proceeds [OF i(1,2,4,5)])
  have m: "i \<in> set (dvalues (dc_items db2))" by (simp add: i(1))
  from gate_demands_approval [OF r no_documents_inv p m i(2,3)] r p show ?thesis by blast
qed

text \<open>The check passes although the only mandatory document is to be revised.\<close>

theorem revision_leaves_gate_witness:
  "\<exists>db db' d. reached (doc_service [invoice_rule]) doc_ok no_documents db
    \<and> request_revision 3 ''D'' ''U'' ''wrong value'' None db = (Inr d, db') \<and> do_status d = ''REVISION_REQUESTED''
    \<and> dg_can_proceed (validate_transition_documents db' ''S'' None)"
proof (rule sample_document_history)
  fix d2 db2 assume r: "reached (doc_service [invoice_rule]) doc_ok no_documents db2" and d: "dget (dc_documents db2) ''D'' = Some d2"
    and "\<exists>i. dc_items db2 = [([], i)] \<and> dk_shipment_id i = ''S'' \<and> dk_is_mandatory i \<and> dk_status i = ''APPROVED'' \<and> dk_document_id i = Some ''D''"
  then obtain i where i: "dc_items db2 = [([], i)]" "dk_shipment_id i = ''S''" "dk_status i = ''APPROVED''" "dk_document_id i = Some ''D''" by blast
  have p: "dg_can_proceed (validate_transition_documents db2 ''S'' None)" by (rule single_item_proceeds [OF i])
  obtain d' db' where v: "request_revision 3 ''D'' ''U'' ''wrong value'' None db2 = (Inr d', db')"
    "d' = d2\<lparr>do_status := ''REVISION_REQUESTED'', do_rejection_reason := Some ''wrong value''\<rparr>"
    by (rule revision_effect [OF documents.reached_inv [OF r no_documents_inv] d])
  have "do_status d' = ''REVISION_REQUESTED''" by (simp add: v(2))
  with revision_leaves_gate [OF v(1), of "''S''" None] p r v(1) show ?thesis by metis
qed

theorem gate_can_be_passed_witness:
  "\<exists>db'. reached (doc_service [invoice_rule]) doc_ok listed_db db' \<and> dg_can_proceed (validate_transition_documents db' ''S'' None)
    \<and> \<not> dg_can_proceed (validate_transition_documents listed_db ''S'' None)"
proof -
  have "\<not> dg_can_proceed (validate_transition_documents listed_db ''S'' None)"
    by (simp add: validate_transition_documents_def Let_def shipment_items_def item_missing_def listed_tables item_of_def invoice_rule_def)
  with gate_can_be_passed [OF listed_reached no_documents_inv, of "''S''" None] show ?thesis by blast
qed

lemma uploaded_first:
  obtains d db where "upload_document ''D'' ''V'' ''url'' 1 invoice_upload no_documents = (Inr d, db)" "dget (dc_documents db) ''D'' = Some d" "docs_inv db"
    "do_shipment_id d = ''S''" "do_doc_type d = ''COMMERCIAL_INVOICE''" "dc_items db = []"
proof -
  have new: "''D'' \<notin> set (dkeys (dc_documents no_documents))" by simp
  obtain d db where u: "upload_document ''D'' ''V'' ''url'' 1 invoice_upload no_documents = (Inr d, db)" "doc_lane d = (uq_shipment_id invoice_upload, uq_doc_type invoice_upload)"
    "dc_documents db = dset (do_id d) d (dc_documents no_documents)"
    and id: "(do_id d = ''D'' \<and> do_version_number d = 1 \<and> (\<forall>k e. dget (dc_documents no_documents) k = Some e \<longrightarrow> doc_lane e \<noteq> doc_lane d))
      \<or> (\<exists>e. dget (dc_documents no_documents) (do_id d) = Some e \<and> doc_lane e = doc_lane d \<and> do_version_number d = Suc (do_version_number e))"
    and it: "(dc_items db = dc_items no_documents \<and> (\<forall>j i. dget (dc_items no_documents) j = Some i \<longrightarrow> item_lane i \<noteq> doc_lane d))
      \<or> (\<exists>i. dget (dc_items no_documents) (dk_id i) = Some i \<and> item_lane i = doc_lane d
           \<and> dc_items db = dset (dk_id i) (i\<lparr>dk_status := ''UPLOADED'', dk_document_id := Some (do_id d)\<rparr>) (dc_items no_documents))"
    by (rule upload_effect [OF no_documents_inv new, of "''V''" "''url''" 1 invoice_upload]) (rule that)
  have "docs_inv db" by (rule upload_keeps [OF no_documents_inv new u(1)])
  then show thesis using that [OF u(1)] id it u(2,3) by (simp add: invoice_upload_def doc_lane_def)
qed

theorem late_checklist_blocks_witness:
  "\<exists>db d d' db'. upload_document ''D'' ''V'' ''url'' 1 invoice_upload no_documents = (Inr d, db)
    \<and> approve_document 3 ''D'' ''T'' ''U'' [''CUSTOMS''] None None (snd (generate_checklist [invoice_rule] item_ids 2 ''S'' [] db)) = (Inr d', db')
    \<and> do_status d' = ''APPROVED'' \<and> dg_missing (validate_transition_documents db' ''S'' None) \<noteq> []"
proof (rule uploaded_first)
  fix d db
  assume u: "upload_document ''D'' ''V'' ''url'' 1 invoice_upload no_documents = (Inr d, db)" "dget (dc_documents db) ''D'' = Some d" "docs_inv db"
    "do_shipment_id d = ''S''" "do_doc_type d = ''COMMERCIAL_INVOICE''" "dc_items db = []"
  have none: "items_of db (do_shipment_id d) (do_doc_type d) = []" by (simp add: items_of_def u(6))
  have i: "item_of invoice_rule \<in> set (engine_checklist [invoice_rule] [])" by (simp add: invoice_item)
  have code: "cg_doc_type_code (item_of invoice_rule) = do_doc_type d" "cg_is_mandatory (item_of invoice_rule)"
    by (simp_all add: u(5) item_of_def invoice_rule_def)
  have ok: "doc_ok (Generate_Checklist item_ids 2 (do_shipment_id d) []) db" by (simp add: inj_item_ids u(6))
  let ?db = "snd (generate_checklist [invoice_rule] item_ids 2 (do_shipment_id d) [] db)"
  have inv: "docs_inv ?db" using generate_keeps [OF u(3), of item_ids] ok by simp
  have d: "dget (dc_documents ?db) ''D'' = Some d" by (simp add: generate_checklist_def Let_def add_rows_frames u(2))
  have g: "\<not> gate_refuses (do_doc_type d) [''CUSTOMS'']" by (simp add: gate_refuses_def u(5) approval_gates_def)
  obtain d' db' where a: "approve_document 3 ''D'' ''T'' ''U'' [''CUSTOMS''] None None ?db = (Inr d', db')"
    by (rule doc_approve_effect [OF inv d g])
  from late_checklist_blocks [OF u(3,2) none i code ok a, of None] have "do_status d' = ''APPROVED''"
    "dg_missing (validate_transition_documents db' ''S'' None) \<noteq> []" unfolding u(4) by auto
  then show ?thesis using u(1) a unfolding u(4) by blast
qed

lemma items_persist:
  assumes "docs_inv db" "doc_ok op db" "doc_service rules op db = (Inr u, db')" "dget (dc_items db) k = Some i"
  shows "\<exists>i'. dget (dc_items db') k = Some i' \<and> item_lane i' = item_lane i"
proof (cases "\<exists>ids now s c. op = Generate_Checklist ids now s c")
  case True
  then obtain ids now s c where g: "op = Generate_Checklist ids now s c" by blast
  have "\<forall>n. ids n \<notin> set (dkeys (dc_items db))" using assms(2) g by simp
  from generate_keeps_items [OF this assms(4), of rules now s c] show ?thesis using assms(3) g by auto
next
  case False
  show ?thesis
    by (rule items_step [OF assms(1-3)]) (use False assms(4) in \<open>auto simp: dget_dset\<close>)
qed

interpretation listed: service_contract "doc_service rules" doc_ok "\<lambda>db. docs_inv db \<and> (\<exists>i. dget (dc_items db) k = Some i \<and> item_lane i = l)" for rules k l
  by unfold_locales (metis doc_service_inv items_persist)

theorem delivery_proof_gates_every_stage_witness:
  "\<exists>db k d. reached (doc_service default_checklist_rules) doc_ok no_documents db \<and> dg_can_proceed (validate_transition_documents db ''S'' (Some ''DEPARTURE''))
    \<and> dget (dc_documents db) k = Some d \<and> do_doc_type d = ''PROOF_OF_DELIVERY'' \<and> do_shipment_id d = ''S''"
proof -
  let ?db = "snd (generate_checklist default_checklist_rules item_ids 0 ''S'' [] no_documents)"
  have ids: "\<forall>n. item_ids n \<notin> set (dkeys (dc_items no_documents))" by simp
  have r: "reached (doc_service default_checklist_rules) doc_ok no_documents ?db"
    by (rule reached_step [where r = "Generate_Checklist item_ids 0 ''S'' []" and service = "doc_service default_checklist_rules" and x = "()"])
      (simp_all add: inj_item_ids)
  have inv: "docs_inv ?db" by (rule documents.reached_inv [OF r no_documents_inv])
  obtain db where db: "reached (doc_service default_checklist_rules) doc_ok ?db db" "dg_can_proceed (validate_transition_documents db ''S'' (Some ''DEPARTURE''))"
    using gate_can_be_passed [OF r no_documents_inv] by blast
  obtain rl where rl: "rl \<in> set default_checklist_rules" "ck_doc_type_code rl = ''PROOF_OF_DELIVERY''" "\<forall>c. ck_predicate rl c = Inr True" using pod_rule by blast
  from holding_rule_listed [OF rl(1) spec [OF rl(3)], of "[]"] rl(2)
  obtain i where i: "i \<in> set (engine_checklist default_checklist_rules [])" "cg_doc_type_code i = ''PROOF_OF_DELIVERY''" by auto
  obtain k where k: "dget (dc_items ?db) k = Some (row_of k 0 ''S'' i)"
    using generated_item [OF no_documents_inv inj_item_ids ids i(1), of "''S''" 0] by auto
  have "docs_inv db \<and> (\<exists>j. dget (dc_items db) k = Some j \<and> item_lane j = (''S'', ''PROOF_OF_DELIVERY''))"
    by (rule listed.reached_inv [OF db(1)]) (use inv k i(2) in simp)
  then obtain j where j: "docs_inv db" "dget (dc_items db) k = Some j" "dk_shipment_id j = ''S''" by (auto simp: item_lane_def)
  have "j \<in> set (dvalues (dc_items db))" by (rule conjunct1 [OF dget_values [OF docs_invD(2) [OF j(1)] j(2)]])
  then have "j \<in> set (shipment_items db ''S'')" by (simp only: shipment_items_def set_filter mem_Collect_eq j(3))
  then have ne: "shipment_items db ''S'' \<noteq> []" by auto
  have all: "reached (doc_service default_checklist_rules) doc_ok no_documents db" by (rule reached_trans [OF db(1) r])
  from delivery_proof_gates_every_stage [OF all no_documents_inv _ db(2) ne] all db(2) show ?thesis by auto
qed

end
