(* ===== verification/Tracking.thy ===== *)
theory Tracking
  imports Workflow "HOL-Library.Char_ord" "HOL-Library.List_Lexorder" "HOL-Library.Product_Lexorder"
begin

text \<open>
  The tracking of shipments: \<open>app/modules/tracking/taxonomy.py\<close> and \<open>service.py\<close>. A naive time is read as UTC, so a
  time is an instant; how an aware time is written is the parameter \<open>time_text\<close>.
\<close>


section \<open>The taxonomy\<close>

text \<open>Type, category and standard description of an event.\<close>

definition event_taxonomy :: "(string \<times> string \<times> string) list" where
  "event_taxonomy = [
    (''BOOKING_REQUESTED'', ''BOOKING'', ''Booking request submitted to carrier''),
    (''BOOKING_CONFIRMED'', ''BOOKING'', ''Carrier booking confirmed with reference number''),
    (''BOOKING_AMENDED'', ''BOOKING'', ''Booking details amended with carrier''),
    (''BOOKING_CANCELLED'', ''BOOKING'', ''Booking cancelled''),
    (''BOOKING_ROLLED'', ''BOOKING'', ''Booking rolled to subsequent departure / voyage''),
    (''CONTAINER_ORDERED'', ''BOOKING'', ''Empty equipment ordered from depot''),
    (''CONTAINER_RELEASED'', ''BOOKING'', ''Equipment release order issued by carrier''),
    (''SPACE_CONFIRMED'', ''BOOKING'', ''Vessel / flight cargo allocation guaranteed''),
    (''SI_SUBMITTED'', ''BOOKING'', ''Shipping Instructions filed with carrier''),
    (''BOOKING_REJECTED'', ''BOOKING'', ''Carrier rejected booking request''),
    (''CARGO_READY'', ''CARGO'', ''Cargo ready at shipper premises''),
    (''CARGO_PICKED_UP'', ''CARGO'', ''Cargo picked up from origin address''),
    (''CARGO_RECEIVED_ORIGIN'', ''CARGO'', ''Cargo received at origin facility / CFS''),
    (''CARGO_RECEIVED_CY'', ''CARGO'', ''Container received at Container Yard (CY)''),
    (''CARGO_STUFFED'', ''CARGO'', ''Cargo stuffed and sealed in container''),
    (''CARGO_SCREENED'', ''CARGO'', ''Aviation security screening passed (X-Ray / ETD)''),
    (''CARGO_WAREHOUSE_IN'', ''CARGO'', ''Cargo gated into transit warehouse''),
    (''CARGO_BUILT_UP'', ''CARGO'', ''Air cargo built up into ULD pallet / container''),
    (''CARGO_ACCEPTED_AIRLINE'', ''CARGO'', ''Cargo accepted at airline cargo terminal''),
    (''CARGO_STRIPPED'', ''CARGO'', ''Container de-vanned / stripped at destination CFS''),
    (''CARGO_STORED'', ''CARGO'', ''Cargo placed into bonded storage''),
    (''CARGO_BREAKDOWN'', ''CARGO'', ''Flight ULD broken down into individual consignments''),
    (''GATE_IN'', ''TRANSPORT'', ''Container / truck gated in at port or airport terminal''),
    (''VGM_SUBMITTED'', ''TRANSPORT'', ''Verified Gross Mass submitted to carrier and terminal''),
    (''LOADED_ON_VESSEL'', ''TRANSPORT'', ''Container loaded on board oceanic vessel''),
    (''LOADED_ON_AIRCRAFT'', ''TRANSPORT'', ''Cargo loaded on board aircraft''),
    (''DEPARTED'', ''TRANSPORT'', ''Vessel / aircraft departed origin port / airport''),
    (''IN_TRANSIT'', ''TRANSPORT'', ''Shipment currently in international transit''),
    (''TRANSSHIPPED'', ''TRANSPORT'', ''Cargo transshipped at intermediate transshipment hub''),
    (''ARRIVED'', ''TRANSPORT'', ''Vessel / flight arrived at destination port / airport''),
    (''DISCHARGED'', ''TRANSPORT'', ''Container / cargo discharged from vessel or aircraft''),
    (''GATE_OUT_EMPTY'', ''TRANSPORT'', ''Empty container gated out from depot for stuffing''),
    (''GATE_OUT_LADEN'', ''TRANSPORT'', ''Full container gated out from port for final delivery''),
    (''RETURNED_TO_DEPOT'', ''TRANSPORT'', ''Empty container returned to carrier depot''),
    (''FEEDER_DEPARTED'', ''TRANSPORT'', ''Feeder vessel departed origin port''),
    (''FEEDER_ARRIVED'', ''TRANSPORT'', ''Feeder vessel arrived at transshipment hub''),
    (''MBL_ISSUED'', ''TRANSPORT'', ''Master Bill of Lading issued by carrier''),
    (''HBL_ISSUED'', ''TRANSPORT'', ''House Bill of Lading issued to shipper''),
    (''MAWB_ISSUED'', ''TRANSPORT'', ''Master Air Waybill issued by airline''),
    (''HAWB_ISSUED'', ''TRANSPORT'', ''House Air Waybill issued to shipper''),
    (''DECLARATION_FILED'', ''CUSTOMS'', ''Customs export / import declaration filed with authorities''),
    (''CUSTOMS_UNDER_EXAMINATION'', ''CUSTOMS'', ''Cargo selected for physical or document customs inspection''),
    (''CUSTOMS_ASSESSED'', ''CUSTOMS'', ''Customs duties and taxes assessed by revenue agency''),
    (''DUTY_PAID'', ''CUSTOMS'', ''Customs duties and terminal taxes successfully settled''),
    (''CUSTOMS_CLEARED'', ''CUSTOMS'', ''Customs out-of-charge / formal clearance granted''),
    (''CUSTOMS_HELD'', ''CUSTOMS'', ''Customs clearance hold placed on shipment''),
    (''CUSTOMS_RELEASED'', ''CUSTOMS'', ''Customs hold lifted following inspection / compliance review''),
    (''SANCTIONS_CHECK_PASSED'', ''CUSTOMS'', ''Sanctions screening verified clean across all parties''),
    (''SANCTIONS_HELD'', ''CUSTOMS'', ''Potential sanctions match flagged for compliance review''),
    (''INSPECTION_COMPLETED'', ''CUSTOMS'', ''Regulatory inspection (Phyto/Fumigation/DGR) completed''),
    (''DO_ISSUED'', ''DELIVERY'', ''Delivery Order issued to consignee / clearing agent''),
    (''OUT_FOR_DELIVERY'', ''DELIVERY'', ''Cargo loaded onto delivery truck en route to consignee''),
    (''ATTEMPTED_DELIVERY'', ''DELIVERY'', ''Delivery attempted at consignee premises''),
    (''DELIVERED'', ''DELIVERY'', ''Cargo successfully delivered to consignee address''),
    (''POD_RECEIVED'', ''DELIVERY'', ''Signed Proof of Delivery document received''),
    (''POD_CONFIRMED'', ''DELIVERY'', ''Proof of Delivery validated and approved''),
    (''EMPTY_RETURNED'', ''DELIVERY'', ''Empty container returned to designated carrier depot''),
    (''DELIVERY_RESCHEDULED'', ''DELIVERY'', ''Delivery appointment rescheduled per consignee request''),
    (''FINANCIALLY_SETTLED'', ''DELIVERY'', ''All job revenue and vendor costs reconciled and posted''),
    (''SHIPMENT_CLOSED'', ''DELIVERY'', ''Shipment lifecycle completed and archived''),
    (''SHIPMENT_DELAY'', ''EXCEPTION'', ''Carrier transit or departure delay reported''),
    (''VESSEL_ROLL'', ''EXCEPTION'', ''Container rolled by shipping line to next scheduled voyage''),
    (''CARGO_HOLD'', ''EXCEPTION'', ''Operational hold placed on cargo''),
    (''MISSING_DOCUMENT'', ''EXCEPTION'', ''Mandatory transport or regulatory document missing''),
    (''DGR_ISSUE'', ''EXCEPTION'', ''Dangerous Goods packaging, labeling, or declaration mismatch''),
    (''CARGO_DAMAGE'', ''EXCEPTION'', ''Cargo damage discovered and logged with condition survey''),
    (''CARGO_LOSS'', ''EXCEPTION'', ''Total or partial cargo loss reported''),
    (''SHORT_SHIPMENT'', ''EXCEPTION'', ''Discrepancy in package count vs booked manifesto''),
    (''WRONG_DELIVERY'', ''EXCEPTION'', ''Cargo misrouted or delivered to incorrect consignee''),
    (''RETURNED_TO_SHIPPER'', ''EXCEPTION'', ''Consignment refused by consignee and returned to origin''),
    (''SECURITY_HOLD'', ''EXCEPTION'', ''Port / airport authority security stop placed on consignment''),
    (''WEATHER_DELAY'', ''EXCEPTION'', ''Transit delay caused by adverse meteorological conditions''),
    (''EQUIPMENT_FAILURE'', ''EXCEPTION'', ''Reefer generator or container equipment malfunction'')]"

definition event_categories :: "string list" where
  "event_categories = [''BOOKING'', ''CARGO'', ''TRANSPORT'', ''CUSTOMS'', ''DELIVERY'', ''EXCEPTION'']"

text \<open>The normalized type with its category, if the type is in the taxonomy.\<close>

definition validate_event_type :: "string \<Rightarrow> (string \<times> string) option" where
  "validate_event_type event_type = (let normalized = py_upper (py_strip event_type) in
     map_option (\<lambda>(category, _). (normalized, category)) (dget event_taxonomy normalized))"

definition get_category_for_event :: "string \<Rightarrow> string" where
  "get_category_for_event event_type = (case validate_event_type event_type of None \<Rightarrow> ''TRANSPORT'' | Some (_, category) \<Rightarrow> category)"

section \<open>The service\<close>

record tracking_event =
  te_id :: string
  te_shipment_id :: string
  te_event_type :: string
  te_category :: string
  te_location :: "string option"
  te_event_time_original :: string
  te_event_time_utc :: datetime
  te_description :: string
  te_source :: string
  te_created_by :: "string option"
  te_created_at :: datetime

record track_db =
  tk_shipments :: "(string \<times> string) list"  \<comment> \<open>id and tenant\<close>
  tk_events :: "tracking_event list"
  tk_outbox :: "outbox_event list"
  tk_audit :: "audit_log list"

record event_request =
  eq_shipment_id :: string
  eq_tenant_id :: string
  eq_actor_id :: "string option"
  eq_event_type :: string
  eq_location :: "string option"
  eq_event_time_original :: "string option"
  eq_event_time_utc :: "datetime option"
  eq_description :: "string option"
  eq_source :: string

definition event_payload :: "string \<Rightarrow> string \<Rightarrow> string \<Rightarrow> string option \<Rightarrow> (string \<times> json) list" where
  "event_payload eid event_type category location = [(''event_id'', JStr eid), (''event_type'', JStr event_type), (''category'', JStr category),
     (''location'', case location of None \<Rightarrow> JNull | Some l \<Rightarrow> JStr l)]"

text \<open>\<open>time_text\<close> is \<open>str\<close> of an aware time.\<close>

definition record_event :: "(datetime \<Rightarrow> string) \<Rightarrow> string \<Rightarrow> datetime \<Rightarrow> event_request \<Rightarrow> track_db \<Rightarrow> tracking_event res \<times> track_db" where
  "record_event time_text eid now q db =
    (case validate_event_type (eq_event_type q) of
       None \<Rightarrow> (Inl (ValidationError (''Invalid tracking event_type '' @ eq_event_type q)), db)
     | Some (event_type, category) \<Rightarrow>
       if (eq_shipment_id q, eq_tenant_id q) \<notin> set (tk_shipments db) then (Inl (NotFoundError ''Shipment not found''), db)
       else
        (let utc = (case eq_event_time_utc q of None \<Rightarrow> now | Some t \<Rightarrow> t);
             standard = (case dget event_taxonomy event_type of None \<Rightarrow> [] | Some (_, d) \<Rightarrow> d);
             e = \<lparr>te_id = eid, te_shipment_id = eq_shipment_id q, te_event_type = event_type, te_category = category,
                te_location = eq_location q,
                te_event_time_original = (if truthy (eq_event_time_original q) then the (eq_event_time_original q) else time_text utc),
                te_event_time_utc = utc, te_description = (if truthy (eq_description q) then the (eq_description q) else standard),
                te_source = py_upper (eq_source q), te_created_by = eq_actor_id q, te_created_at = now\<rparr>;
             db = db\<lparr>tk_events := tk_events db @ [e]\<rparr>;
             db = (case eq_actor_id q of None \<Rightarrow> db | Some a \<Rightarrow> db\<lparr>tk_audit := record_audit
               \<lparr>al_tenant_id = Some (eq_tenant_id q), al_user_id = Some a, al_branch_id = None, al_entity_type = ''shipment'',
                al_entity_id = eq_shipment_id q, al_action = ''tracking.event_recorded'', al_previous_value = None,
                al_new_value = Some (event_payload eid event_type category (eq_location q)),
                al_correlation_id = None, al_ip_address = None, al_user_agent = None\<rparr> (tk_audit db)\<rparr>);
             db = db\<lparr>tk_outbox := enqueue ''tracking.event_recorded'' (eq_tenant_id q) ''shipment'' (eq_shipment_id q)
               (event_payload eid event_type category (eq_location q) @ [(''event_time_utc'', JTime utc)]) now (tk_outbox db)\<rparr>
         in (Inr e, db)))"

text \<open>The latest events first; of equal times the one recorded last.\<close>

definition get_timeline :: "track_db \<Rightarrow> string \<Rightarrow> string option \<Rightarrow> nat \<Rightarrow> tracking_event list" where
  "get_timeline db shipment_id category maximum = take maximum (sort_key (\<lambda>e. (- te_event_time_utc e, - te_created_at e))
     (filter (\<lambda>e. te_shipment_id e = shipment_id \<and> (truthy category \<longrightarrow> te_category e = py_upper (the category))) (tk_events db)))"

definition get_taxonomy_catalog :: "(string \<times> string \<times> string) list" where
  "get_taxonomy_catalog = sort_key (\<lambda>(t, c, d). (c, t)) event_taxonomy"

section \<open>What the service guarantees\<close>

lemma taxonomy_entry:
  assumes "dget event_taxonomy t = Some (c, d)"
  shows "py_upper (py_strip t) = t \<and> c \<in> set event_categories \<and> d \<noteq> []"
proof -
  have "list_all (\<lambda>(t, c, d). py_upper (py_strip t) = t \<and> c \<in> set event_categories \<and> d \<noteq> []) event_taxonomy" by code_simp
  then have "case (t, c, d) of (t, c, d) \<Rightarrow> py_upper (py_strip t) = t \<and> c \<in> set event_categories \<and> d \<noteq> []"
    unfolding list_all_iff by (rule bspec) (rule map_of_SomeD [OF assms])
  then show ?thesis unfolding prod.case .
qed

lemma validate_iff:
  "validate_event_type s = Some (t, c) \<longleftrightarrow> t = py_upper (py_strip s) \<and> (\<exists>d. dget event_taxonomy t = Some (c, d))"
proof (cases "dget event_taxonomy (py_upper (py_strip s))")
  case None
  then show ?thesis by (auto simp: validate_event_type_def)
next
  case (Some p)
  obtain c' d' where "p = (c', d')" by (cases p)
  with Some show ?thesis by (auto simp: validate_event_type_def)
qed

lemma validated:
  assumes "validate_event_type s = Some (t, c)"
  obtains d where "py_upper (py_strip t) = t" "c \<in> set event_categories" "dget event_taxonomy t = Some (c, d)" "d \<noteq> []"
proof -
  obtain d where d: "dget event_taxonomy t = Some (c, d)" using assms unfolding validate_iff by blast
  with taxonomy_entry [OF d] that show thesis by blast
qed

text \<open>Normalizing a type twice is normalizing it once, with the same category.\<close>

theorem event_types_normalized:
  assumes "validate_event_type s = Some (t, c)"
  shows "validate_event_type t = Some (t, c) \<and> get_category_for_event t = c \<and> c \<in> set event_categories"
proof (rule validated [OF assms])
  fix d assume d: "py_upper (py_strip t) = t" "c \<in> set event_categories" "dget event_taxonomy t = Some (c, d)"
  then have "validate_event_type t = Some (t, c)" unfolding validate_iff by simp
  then show ?thesis using d(2) by (simp add: get_category_for_event_def)
qed

definition event_ok :: "(string \<times> string) list \<Rightarrow> tracking_event \<Rightarrow> bool" where
  "event_ok shipments e \<longleftrightarrow> (\<exists>d. dget event_taxonomy (te_event_type e) = Some (te_category e, d)) \<and> te_category e \<in> set event_categories
     \<and> te_description e \<noteq> [] \<and> te_shipment_id e \<in> fst ` set shipments"

definition track_service :: "(datetime \<Rightarrow> string) \<Rightarrow> string \<times> datetime \<times> event_request \<Rightarrow> track_db \<Rightarrow> tracking_event res \<times> track_db" where
  "track_service time_text r db = (case r of (eid, now, q) \<Rightarrow> record_event time_text eid now q db)"

definition track_inv :: "(string \<times> string) list \<Rightarrow> track_db \<Rightarrow> bool" where
  "track_inv shipments db \<longleftrightarrow> tk_shipments db = shipments \<and> (\<forall>e \<in> set (tk_events db). event_ok shipments e)"

lemma record_event_effect:
  assumes "record_event tt eid now q db = (Inr e, db')"
  shows "validate_event_type (eq_event_type q) = Some (te_event_type e, te_category e)" "(eq_shipment_id q, eq_tenant_id q) \<in> set (tk_shipments db)"
    "tk_shipments db' = tk_shipments db" "tk_events db' = tk_events db @ [e]" "te_shipment_id e = eq_shipment_id q" "te_description e \<noteq> []"
    "te_event_time_utc e = (case eq_event_time_utc q of None \<Rightarrow> now | Some t \<Rightarrow> t)" "te_id e = eid"
proof -
  obtain t c where v: "validate_event_type (eq_event_type q) = Some (t, c)"
    using assms by (cases "validate_event_type (eq_event_type q)") (auto simp: record_event_def)
  have s: "(eq_shipment_id q, eq_tenant_id q) \<in> set (tk_shipments db)"
    using assms by (rule_tac ccontr) (simp add: record_event_def v)
  obtain d where d: "dget event_taxonomy t = Some (c, d)" "d \<noteq> []" by (rule validated [OF v])
  have h: "fst (record_event tt eid now q db) = Inr e" "snd (record_event tt eid now q db) = db'" by (simp_all add: assms)
  note e = h(1) [unfolded record_event_def v option.case prod.case Let_def d(1), symmetric]
  note f = h(2) [unfolded record_event_def v option.case prod.case Let_def d(1), symmetric]
  show "(eq_shipment_id q, eq_tenant_id q) \<in> set (tk_shipments db)" by (rule s)
  show "validate_event_type (eq_event_type q) = Some (te_event_type e, te_category e)" using e s v by simp
  show "te_shipment_id e = eq_shipment_id q" "te_id e = eid" "te_event_time_utc e = (case eq_event_time_utc q of None \<Rightarrow> now | Some t \<Rightarrow> t)"
    using e s by simp_all
  show "te_description e \<noteq> []" using e s d(2) by (simp add: truthy_def split: option.splits)
  show "tk_shipments db' = tk_shipments db" using f s by (simp split: option.split)
  show "tk_events db' = tk_events db @ [e]" using e f s by (simp split: option.split)
qed

interpretation tracked: service_contract "track_service tt" "\<lambda>_ _. True" "track_inv shipments" for tt shipments
proof
  fix db r e db'
  assume inv: "track_inv shipments db" and op: "track_service tt r db = (Inr e, db')"
  obtain eid now q where r: "r = (eid, now, q)" by (cases r)
  have h: "record_event tt eid now q db = (Inr e, db')" using op by (simp add: r track_service_def)
  note f = record_event_effect [OF h]
  obtain d where "te_category e \<in> set event_categories" "dget event_taxonomy (te_event_type e) = Some (te_category e, d)" by (rule validated [OF f(1)])
  moreover have "te_shipment_id e \<in> fst ` set shipments" using f(2) inv unfolding f(5) track_inv_def by force
  ultimately have "event_ok shipments e" using f(6) unfolding event_ok_def by blast
  then show "track_inv shipments db'" using inv f(3,4) by (simp add: track_inv_def)
qed

text \<open>In every database the endpoint reaches, every event has a type of the taxonomy with the category of that type,
  a description, and a shipment.\<close>

theorem events_in_taxonomy:
  assumes "reached (track_service tt) (\<lambda>_ _. True) start db" and "tk_events start = []" and "e \<in> set (tk_events db)"
  shows "validate_event_type (te_event_type e) = Some (te_event_type e, te_category e) \<and> te_description e \<noteq> []
    \<and> te_shipment_id e \<in> fst ` set (tk_shipments start)"
proof -
  have "track_inv (tk_shipments start) db" by (rule tracked.reached_inv [OF assms(1)]) (simp add: track_inv_def assms(2))
  then have ok: "event_ok (tk_shipments start) e" using assms(3) by (simp add: track_inv_def)
  then obtain d where d: "dget event_taxonomy (te_event_type e) = Some (te_category e, d)" by (auto simp: event_ok_def)
  have "validate_event_type (te_event_type e) = Some (te_event_type e, te_category e)" unfolding validate_iff using taxonomy_entry [OF d] d by auto
  then show ?thesis using ok by (simp add: event_ok_def)
qed

text \<open>The timeline is sorted with the latest event first; with room for all it holds exactly the events of the shipment
  in the category, and with less room none left out is later than one shown.\<close>

lemma timeline_exact:
  shows "sorted (map (\<lambda>e. (- te_event_time_utc e, - te_created_at e)) (get_timeline db s c n))"
    and "set (get_timeline db s c n) \<subseteq> {e \<in> set (tk_events db). te_shipment_id e = s \<and> (truthy c \<longrightarrow> te_category e = py_upper (the c))}"
    and "length (tk_events db) \<le> n \<Longrightarrow> set (get_timeline db s c n) = {e \<in> set (tk_events db). te_shipment_id e = s \<and> (truthy c \<longrightarrow> te_category e = py_upper (the c))}"
proof -
  let ?xs = "filter (\<lambda>e. te_shipment_id e = s \<and> (truthy c \<longrightarrow> te_category e = py_upper (the c))) (tk_events db)"
  let ?k = "\<lambda>e. (- te_event_time_utc e, - te_created_at e)"
  have t: "get_timeline db s c n = take n (sort_key ?k ?xs)" by (simp add: get_timeline_def)
  have "sorted (take n (map ?k (sort_key ?k ?xs)))" by (rule sorted_wrt_take) simp
  then show "sorted (map ?k (get_timeline db s c n))" by (simp only: t take_map)
  show "set (get_timeline db s c n) \<subseteq> {e \<in> set (tk_events db). te_shipment_id e = s \<and> (truthy c \<longrightarrow> te_category e = py_upper (the c))}"
    unfolding t using set_take_subset [of n "sort_key ?k ?xs"] by auto
  assume "length (tk_events db) \<le> n"
  then have "length (sort_key ?k ?xs) \<le> n" using length_filter_le [of _ "tk_events db"] le_trans by (simp only: length_sort) blast
  then show "set (get_timeline db s c n) = {e \<in> set (tk_events db). te_shipment_id e = s \<and> (truthy c \<longrightarrow> te_category e = py_upper (the c))}"
    unfolding t by simp
qed

theorem event_types_normalized_witness: "validate_event_type '' gate_in '' = Some (''GATE_IN'', ''TRANSPORT'') \<and> get_category_for_event ''GATE_IN'' = ''TRANSPORT''"
proof -
  have v: "validate_event_type '' gate_in '' = Some (''GATE_IN'', ''TRANSPORT'')" by code_simp
  from event_types_normalized [OF v] v show ?thesis by simp
qed

definition sample_track :: track_db where
  "sample_track = \<lparr>tk_shipments = [(''S'', ''T'')], tk_events = [], tk_outbox = [], tk_audit = []\<rparr>"

definition sample_event :: event_request where
  "sample_event = \<lparr>eq_shipment_id = ''S'', eq_tenant_id = ''T'', eq_actor_id = None, eq_event_type = '' gate_in '', eq_location = None,
     eq_event_time_original = None, eq_event_time_utc = Some 5, eq_description = None, eq_source = ''manual''\<rparr>"

lemma sample_event_recorded:
  obtains e db where "record_event (\<lambda>_. []) ''E'' 7 sample_event sample_track = (Inr e, db)"
    "reached (track_service (\<lambda>_. [])) (\<lambda>_ _. True) sample_track db" "tk_events db = [e]"
proof -
  have v: "validate_event_type '' gate_in '' = Some (''GATE_IN'', ''TRANSPORT'')" by code_simp
  have "\<exists>e db. record_event (\<lambda>_. []) ''E'' 7 sample_event sample_track = (Inr e, db)"
    by (simp add: record_event_def sample_event_def sample_track_def v Let_def)
  then obtain e db where r: "record_event (\<lambda>_. []) ''E'' 7 sample_event sample_track = (Inr e, db)" by blast
  have "tk_events db = [e]" using record_event_effect(4) [OF r] by (simp add: sample_track_def)
  moreover have "reached (track_service (\<lambda>_. [])) (\<lambda>_ _. True) sample_track db"
    by (rule reached_step [where r = "(''E'', 7, sample_event)" and x = e]) (simp_all add: track_service_def r)
  ultimately show thesis using that r by blast
qed

theorem events_in_taxonomy_witness:
  "\<exists>db e. reached (track_service (\<lambda>_. [])) (\<lambda>_ _. True) sample_track db \<and> e \<in> set (tk_events db)
    \<and> validate_event_type (te_event_type e) = Some (te_event_type e, te_category e)"
proof (rule sample_event_recorded)
  fix e db assume h: "reached (track_service (\<lambda>_. [])) (\<lambda>_ _. True) sample_track db" "tk_events db = [e]"
  have n: "tk_events sample_track = []" by (simp add: sample_track_def)
  from events_in_taxonomy [OF h(1) n, of e] h show ?thesis by auto
qed

end
