(* ===== verification/Identity.thy ===== *)
theory Identity
  imports Workflow
begin

text \<open>
  Roles and permissions (\<open>app/core/permissions.py\<close>), the tables of tenants, users, roles and refresh tokens
  (\<open>app/db/models/identity.py\<close>), the permissions of a user and the seeding of permissions and roles
  (\<open>app/modules/identity/service.py\<close>). A set that is iterated is a list in the order of the source.
\<close>


section \<open>Roles and permissions\<close>

datatype system_role =
    SUPER_ADMIN | BRANCH_MANAGER | SALES | PRICING | CUSTOMER_SERVICE
  | OPS_SEA | OPS_AIR | DOCUMENTATION | COMPLIANCE_DGR | CUSTOMS
  | FINANCE_AR | FINANCE_AP | FINANCE_CONTROLLER | PROCUREMENT | MANAGEMENT
  | AUDITOR | CUSTOMER_PORTAL | AGENT_PORTAL | CARRIER_PORTAL

definition system_roles :: "system_role list" where
  "system_roles = [
     SUPER_ADMIN, BRANCH_MANAGER, SALES, PRICING, CUSTOMER_SERVICE, OPS_SEA, OPS_AIR, DOCUMENTATION, COMPLIANCE_DGR,
     CUSTOMS, FINANCE_AR, FINANCE_AP, FINANCE_CONTROLLER, PROCUREMENT, MANAGEMENT, AUDITOR, CUSTOMER_PORTAL,
     AGENT_PORTAL, CARRIER_PORTAL]"

fun role_value :: "system_role \<Rightarrow> string" where
  "role_value SUPER_ADMIN = ''SUPER_ADMIN''"
| "role_value BRANCH_MANAGER = ''BRANCH_MANAGER''"
| "role_value SALES = ''SALES''"
| "role_value PRICING = ''PRICING''"
| "role_value CUSTOMER_SERVICE = ''CUSTOMER_SERVICE''"
| "role_value OPS_SEA = ''OPS_SEA''"
| "role_value OPS_AIR = ''OPS_AIR''"
| "role_value DOCUMENTATION = ''DOCUMENTATION''"
| "role_value COMPLIANCE_DGR = ''COMPLIANCE_DGR''"
| "role_value CUSTOMS = ''CUSTOMS''"
| "role_value FINANCE_AR = ''FINANCE_AR''"
| "role_value FINANCE_AP = ''FINANCE_AP''"
| "role_value FINANCE_CONTROLLER = ''FINANCE_CONTROLLER''"
| "role_value PROCUREMENT = ''PROCUREMENT''"
| "role_value MANAGEMENT = ''MANAGEMENT''"
| "role_value AUDITOR = ''AUDITOR''"
| "role_value CUSTOMER_PORTAL = ''CUSTOMER_PORTAL''"
| "role_value AGENT_PORTAL = ''AGENT_PORTAL''"
| "role_value CARRIER_PORTAL = ''CARRIER_PORTAL''"

definition system_permissions :: "(string \<times> string \<times> string) list" where
  "system_permissions = [
     (''user:read'', ''user'', ''read''), (''user:create'', ''user'', ''create''),
     (''user:update'', ''user'', ''update''), (''role:read'', ''role'', ''read''),
     (''role:manage'', ''role'', ''manage''), (''shipment:read'', ''shipment'', ''read''),
     (''shipment:create'', ''shipment'', ''create''), (''shipment:update'', ''shipment'', ''update''),
     (''shipment:transition'', ''shipment'', ''transition''), (''quotation:read'', ''quotation'', ''read''),
     (''quotation:approve'', ''quotation'', ''approve''), (''rate:create'', ''rate'', ''create''),
     (''rate:read'', ''rate'', ''read''), (''finance:read'', ''finance'', ''read''),
     (''finance:create'', ''finance'', ''create''), (''financial:read'', ''financial'', ''read''),
     (''financial:create'', ''financial'', ''create''), (''financial:approve'', ''financial'', ''approve''),
     (''financial:update'', ''financial'', ''update''), (''invoice:read'', ''invoice'', ''read''),
     (''invoice:create'', ''invoice'', ''create''), (''invoice:approve'', ''invoice'', ''approve''),
     (''invoice:send'', ''invoice'', ''send''), (''payable:read'', ''payable'', ''read''),
     (''payable:create'', ''payable'', ''create''), (''payable:verify'', ''payable'', ''verify''),
     (''payable:approve'', ''payable'', ''approve''), (''payable:pay'', ''payable'', ''pay''),
     (''audit:read'', ''audit'', ''read''), (''workflow:manage'', ''workflow'', ''manage''),
     (''rule:manage'', ''rule'', ''manage''), (''search:read'', ''search'', ''read'')]"

definition role_permission_map :: "(system_role, string list) dict" where
  "role_permission_map = [
     (SUPER_ADMIN, map fst system_permissions),
     (BRANCH_MANAGER, [
        ''user:read'', ''user:create'', ''user:update'', ''role:read'', ''shipment:read'', ''shipment:create'',
        ''shipment:update'', ''shipment:transition'', ''quotation:read'', ''quotation:approve'', ''rate:read'',
        ''invoice:read'', ''audit:read'', ''search:read'']),
     (SALES, [
        ''shipment:read'', ''shipment:create'', ''quotation:read'', ''rate:read'', ''search:read'']),
     (PRICING, [
        ''quotation:read'', ''quotation:approve'', ''rate:create'', ''rate:read'', ''search:read'']),
     (CUSTOMER_SERVICE, [
        ''shipment:read'', ''quotation:read'', ''invoice:read'', ''search:read'']),
     (FINANCE_CONTROLLER, [
        ''finance:read'', ''finance:create'', ''financial:read'', ''financial:create'', ''financial:approve'',
        ''financial:update'', ''invoice:read'', ''invoice:create'', ''invoice:approve'', ''invoice:send'',
        ''payable:read'', ''payable:create'', ''payable:verify'', ''payable:approve'', ''payable:pay'',
        ''audit:read'', ''shipment:read'', ''search:read'']),
     (FINANCE_AR, [
        ''finance:read'', ''finance:create'', ''financial:read'', ''financial:create'', ''invoice:read'',
        ''invoice:create'', ''invoice:approve'', ''invoice:send'', ''shipment:read'', ''search:read'']),
     (FINANCE_AP, [
        ''finance:read'', ''finance:create'', ''financial:read'', ''financial:create'', ''invoice:read'',
        ''payable:read'', ''payable:create'', ''payable:verify'', ''payable:approve'', ''payable:pay'',
        ''shipment:read'', ''search:read'']),
     (CUSTOMER_PORTAL, [
        ''shipment:read'', ''quotation:read'', ''invoice:read'', ''search:read'']),
     (AUDITOR, [
        ''audit:read'', ''shipment:read'', ''finance:read'', ''financial:read'', ''invoice:read'', ''payable:read''])]"

definition portal_roles :: "system_role list" where "portal_roles = [CUSTOMER_PORTAL, AGENT_PORTAL, CARRIER_PORTAL]"

text \<open>\<open>SystemRole(code)\<close>, for a code that is the name of a member; a member is its own name.\<close>

definition system_role_of :: "string \<Rightarrow> system_role option" where
  "system_role_of code = List.find (\<lambda>r. role_value r = code) system_roles"

section \<open>The tables\<close>

record tenant =
  ten_id :: string
  ten_code :: string
  ten_name :: string
  ten_status :: string

record user =
  usr_id :: string
  usr_tenant_id :: string
  usr_email :: string
  usr_password_hash :: string
  usr_full_name :: string
  usr_status :: string
  usr_failed_login_count :: int
  usr_locked_until :: "datetime option"
  usr_mfa_enabled :: bool
  usr_mfa_secret_encrypted :: "string option"
  usr_mfa_recovery_hashes :: "string list option"
  usr_last_login_at :: "datetime option"
  usr_created_by :: "string option"
  usr_updated_by :: "string option"

record role =
  role_id :: string
  role_tenant_id :: string
  role_name :: string
  role_code :: string
  role_is_system :: bool

record permission =
  perm_id :: string
  perm_code :: string
  perm_resource :: string
  perm_action :: string
  perm_description :: "string option"

text \<open>A grant is a pair of a role and a permission.\<close>

record user_branch_role =
  ubr_user_id :: string
  ubr_branch_id :: string
  ubr_role_id :: string

record refresh_token =
  rft_id :: string
  rft_user_id :: string
  rft_token_hash :: string
  rft_expires_at :: datetime
  rft_revoked_at :: "datetime option"
  rft_replaced_by_id :: "string option"
  rft_device_info :: "string option"
  rft_ip_address :: "string option"

record id_db =
  id_tenants :: "(string, tenant) dict"
  id_users :: "(string, user) dict"
  id_roles :: "(string, role) dict"
  id_permissions :: "(string, permission) dict"
  id_grants :: "(string \<times> string) list"
  id_assignments :: "user_branch_role list"
  id_tokens :: "(string, refresh_token) dict"

section \<open>The identity service\<close>

definition get_tenant_by_code :: "id_db \<Rightarrow> string \<Rightarrow> tenant option res" where
  "get_tenant_by_code db code = one_or_none (filter (\<lambda>t. ten_code t = code) (dvalues (id_tenants db)))"

definition role_permissions :: "id_db \<Rightarrow> string \<Rightarrow> permission list" where
  "role_permissions db rid = concat (map (\<lambda>p. map (\<lambda>_. p) (filter (\<lambda>g. g = (rid, perm_id p)) (id_grants db))) (dvalues (id_permissions db)))"

definition builtin_permissions :: "string \<Rightarrow> string set" where
  "builtin_permissions code = (case system_role_of code of
     None \<Rightarrow> {} | Some r \<Rightarrow> set (dget_or role_permission_map r []))"

text \<open>The join of the assignments of a user with the roles, and the loop over its rows.\<close>

definition user_roles :: "id_db \<Rightarrow> string \<Rightarrow> role list" where
  "user_roles db user_id = concat (map (\<lambda>a. filter (\<lambda>r. role_id r = ubr_role_id a) (dvalues (id_roles db)))
     (filter (\<lambda>a. ubr_user_id a = user_id) (id_assignments db)))"

fun collect_roles :: "id_db \<Rightarrow> role list \<Rightarrow> string set \<times> string set \<Rightarrow> string set \<times> string set" where
  "collect_roles db [] (permissions, roles) = (permissions, roles)"
| "collect_roles db (r # rs) (permissions, roles) = collect_roles db rs
     (permissions \<union> set (map perm_code (role_permissions db (role_id r))) \<union> builtin_permissions (role_code r),
      insert (role_code r) roles)"

definition get_user_permissions_and_roles :: "id_db \<Rightarrow> string \<Rightarrow> string set \<times> string set" where
  "get_user_permissions_and_roles db user_id = collect_roles db (user_roles db user_id) ({}, {})"

section \<open>Seeding\<close>

fun seed_permissions :: "(nat \<Rightarrow> string) \<Rightarrow> nat \<Rightarrow> (string \<times> string \<times> string) list \<Rightarrow> id_db \<Rightarrow> unit res \<times> id_db" where
  "seed_permissions ids n [] db = (Inr (), db)"
| "seed_permissions ids n ((code, resource, action) # ps) db =
    (case one_or_none (filter (\<lambda>p. perm_code p = code) (dvalues (id_permissions db))) of
       Inl e \<Rightarrow> (Inl e, db)
     | Inr (Some _) \<Rightarrow> seed_permissions ids n ps db
     | Inr None \<Rightarrow> seed_permissions ids (Suc n) ps (db\<lparr>id_permissions := dset (ids n)
         \<lparr>perm_id = ids n, perm_code = code, perm_resource = resource, perm_action = action, perm_description = Some code\<rparr>
         (id_permissions db)\<rparr>))"

definition seed_system_permissions :: "(nat \<Rightarrow> string) \<Rightarrow> id_db \<Rightarrow> unit res \<times> id_db" where
  "seed_system_permissions ids db = seed_permissions ids 0 system_permissions db"

text \<open>The name of a role is its value with blanks, as a title.\<close>

definition role_title :: "system_role \<Rightarrow> string" where "role_title r = state_title (role_value r)"

fun grant_permissions :: "string \<Rightarrow> string list \<Rightarrow> id_db \<Rightarrow> unit res \<times> id_db" where
  "grant_permissions rid [] db = (Inr (), db)"
| "grant_permissions rid (code # codes) db =
    (case one_or_none (filter (\<lambda>p. perm_code p = code) (dvalues (id_permissions db))) of
       Inl e \<Rightarrow> (Inl e, db)
     | Inr None \<Rightarrow> grant_permissions rid codes db
     | Inr (Some p) \<Rightarrow> grant_permissions rid codes (db\<lparr>id_grants := id_grants db @ [(rid, perm_id p)]\<rparr>))"

definition seeded_codes :: "system_role \<Rightarrow> string list" where
  "seeded_codes r = (if r = SUPER_ADMIN then map fst system_permissions else dget_or role_permission_map r [])"

fun seed_roles :: "(nat \<Rightarrow> string) \<Rightarrow> nat \<Rightarrow> string \<Rightarrow> system_role list \<Rightarrow> id_db \<Rightarrow> unit res \<times> id_db" where
  "seed_roles ids n tenant_id [] db = (Inr (), db)"
| "seed_roles ids n tenant_id (r # rs) db =
    (case one_or_none (filter (\<lambda>x. role_tenant_id x = tenant_id \<and> role_code x = role_value r) (dvalues (id_roles db))) of
       Inl e \<Rightarrow> (Inl e, db)
     | Inr (Some _) \<Rightarrow> seed_roles ids n tenant_id rs db
     | Inr None \<Rightarrow>
        (let db = db\<lparr>id_roles := dset (ids n) \<lparr>role_id = ids n, role_tenant_id = tenant_id, role_name = role_title r,
                 role_code = role_value r, role_is_system = True\<rparr> (id_roles db)\<rparr>
         in case grant_permissions (ids n) (seeded_codes r) db of
              (Inl e, db) \<Rightarrow> (Inl e, db)
            | (Inr _, db) \<Rightarrow> seed_roles ids (Suc n) tenant_id rs db))"

definition seed_system_roles_for_tenant :: "(nat \<Rightarrow> string) \<Rightarrow> string \<Rightarrow> id_db \<Rightarrow> unit res \<times> id_db" where
  "seed_system_roles_for_tenant ids tenant_id db = seed_roles ids 0 tenant_id system_roles db"

end
