(* ===== verification/Auth.thy ===== *)
theory Auth
  imports Identity "HOL-Library.Char_ord" "HOL-Library.List_Lexorder"
begin

text \<open>
  Authentication: \<open>app/core/security.py\<close> over the libraries it calls, \<open>app/modules/auth\<close>, the current user and the
  permission check of \<open>app/api/dependencies.py\<close>, and the endpoints of users. Times are instants in microseconds.
\<close>


section \<open>Cryptography\<close>

text \<open>
  What \<open>core/security.py\<close> calls, and the settings. \<open>bcrypt.checkpw\<close> has no value where it raises \<open>ValueError\<close>,
  \<open>jwt.decode\<close> where it raises \<open>JWTError\<close>, the decryption where it raises \<open>InvalidToken\<close>, and the parser of UUIDs where it
  raises \<open>ValueError\<close>. A salt or nonce the library draws is an argument.
\<close>

type_synonym claims = "(string, json) dict"

record auth_env =
  ae_checkpw :: "string \<Rightarrow> string \<Rightarrow> bool option"
  ae_hashpw :: "string \<Rightarrow> string \<Rightarrow> string"
  ae_sha256 :: "string \<Rightarrow> string"
  ae_jwt_encode :: "claims \<Rightarrow> string"
  ae_jwt_decode :: "datetime \<Rightarrow> string \<Rightarrow> claims option"
  ae_fernet_encrypt :: "string \<Rightarrow> string \<Rightarrow> string"
  ae_fernet_decrypt :: "string \<Rightarrow> string option"
  ae_totp_verify :: "datetime \<Rightarrow> string \<Rightarrow> string \<Rightarrow> bool"
  ae_totp_uri :: "string \<Rightarrow> string \<Rightarrow> string \<Rightarrow> string"
  ae_parse_uuid :: "string \<Rightarrow> string option"
  ae_access_minutes :: int
  ae_refresh_days :: int
  ae_max_failed :: int
  ae_lockout_minutes :: int

definition minutes :: "int \<Rightarrow> int" where "minutes n = n * 60000000"
definition days :: "int \<Rightarrow> int" where "days n = n * 86400000000"

definition verify_password :: "auth_env \<Rightarrow> string \<Rightarrow> string \<Rightarrow> bool" where
  "verify_password env plain hashed = (case ae_checkpw env plain hashed of Some b \<Rightarrow> b | None \<Rightarrow> False)"

definition hash_token :: "auth_env \<Rightarrow> string \<Rightarrow> string" where "hash_token env token = ae_sha256 env token"
definition hash_recovery_code :: "auth_env \<Rightarrow> string \<Rightarrow> string" where "hash_recovery_code env code = ae_sha256 env code"

definition encrypt_value :: "auth_env \<Rightarrow> string \<Rightarrow> string \<Rightarrow> string" where
  "encrypt_value env nonce plaintext = ae_fernet_encrypt env nonce plaintext"

definition decrypt_value :: "auth_env \<Rightarrow> string \<Rightarrow> string res" where
  "decrypt_value env ciphertext = (case ae_fernet_decrypt env ciphertext of
     None \<Rightarrow> Inl (ValueError ''Unable to decrypt value'') | Some s \<Rightarrow> Inr s)"

definition token_payload :: "string \<Rightarrow> string \<Rightarrow> string \<Rightarrow> datetime \<Rightarrow> string \<Rightarrow> claims" where
  "token_payload subject tenant_id token_id expire kind = [(''sub'', JStr subject), (''tenant_id'', JStr tenant_id),
     (''jti'', JStr token_id), (''exp'', JTime expire), (''type'', JStr kind)]"

definition create_access_token :: "auth_env \<Rightarrow> datetime \<Rightarrow> string \<Rightarrow> string \<Rightarrow> string \<Rightarrow> string" where
  "create_access_token env now subject tenant_id token_id =
     ae_jwt_encode env (token_payload subject tenant_id token_id (now + minutes (ae_access_minutes env)) ''access'')"

definition create_refresh_token :: "auth_env \<Rightarrow> datetime \<Rightarrow> string \<Rightarrow> string \<Rightarrow> string \<Rightarrow> string" where
  "create_refresh_token env now subject tenant_id token_id =
     ae_jwt_encode env (token_payload subject tenant_id token_id (now + days (ae_refresh_days env)) ''refresh'')"

definition decode_token :: "auth_env \<Rightarrow> datetime \<Rightarrow> string \<Rightarrow> claims res" where
  "decode_token env now token = (case ae_jwt_decode env now token of
     None \<Rightarrow> Inl (ValueError ''Invalid or expired token'') | Some c \<Rightarrow> Inr c)"

section \<open>The requests\<close>

record login_request =
  lgn_email :: string
  lgn_password :: string
  lgn_totp_code :: "string option"

text \<open>The email of a login: \<open>str.partition\<close> at the first at sign.\<close>

definition partition_at :: "char \<Rightarrow> string \<Rightarrow> string \<times> bool \<times> string" where
  "partition_at c s = (takeWhile (\<lambda>x. x \<noteq> c) s, c \<in> set s, drop 1 (dropWhile (\<lambda>x. x \<noteq> c) s))"

definition normalize_email :: "string \<Rightarrow> string res" where
  "normalize_email value = (case partition_at (CHR ''@'') (py_lower (py_strip value)) of (local, separator, domain) \<Rightarrow>
     if \<not> separator \<or> local = [] \<or> CHR ''.'' \<notin> set domain \<or> take 1 domain = ''.''
     then Inl (ValueError ''Invalid email address'') else Inr (local @ ''@'' @ domain))"

record token_response =
  tkr_access_token :: string
  tkr_refresh_token :: string
  tkr_token_type :: string
  tkr_expires_in :: int

section \<open>The repository\<close>

definition get_user_by_email :: "id_db \<Rightarrow> string \<Rightarrow> string \<Rightarrow> user option res" where
  "get_user_by_email db tenant_id email = one_or_none
     (filter (\<lambda>u. usr_tenant_id u = tenant_id \<and> usr_email u = py_lower email) (dvalues (id_users db)))"

definition get_user_by_id :: "id_db \<Rightarrow> string \<Rightarrow> string \<Rightarrow> user option res" where
  "get_user_by_id db user_id tenant_id = one_or_none
     (filter (\<lambda>u. usr_id u = user_id \<and> usr_tenant_id u = tenant_id) (dvalues (id_users db)))"

definition get_refresh_token_by_hash :: "id_db \<Rightarrow> string \<Rightarrow> refresh_token option res" where
  "get_refresh_token_by_hash db token_hash = one_or_none (filter (\<lambda>t. rft_token_hash t = token_hash) (dvalues (id_tokens db)))"

definition put_user :: "user \<Rightarrow> id_db \<Rightarrow> id_db" where
  "put_user u db = db\<lparr>id_users := dset (usr_id u) u (id_users db)\<rparr>"

definition put_token :: "refresh_token \<Rightarrow> id_db \<Rightarrow> id_db" where
  "put_token t db = db\<lparr>id_tokens := dset (rft_id t) t (id_tokens db)\<rparr>"

text \<open>The hash of a token is unique in its table.\<close>

definition save_refresh_token :: "refresh_token \<Rightarrow> id_db \<Rightarrow> unit res \<times> id_db" where
  "save_refresh_token t db =
    (if \<exists>x \<in> set (dvalues (id_tokens db)). rft_token_hash x = rft_token_hash t then (Inl IntegrityError, db)
     else (Inr (), put_token t db))"

text \<open>Nothing calls the revocation of all tokens of a user.\<close>

definition revoke_user_tokens :: "datetime \<Rightarrow> string \<Rightarrow> id_db \<Rightarrow> id_db" where
  "revoke_user_tokens now user_id db = db\<lparr>id_tokens := map (\<lambda>(k, t).
     (k, if rft_user_id t = user_id \<and> rft_revoked_at t = None then t\<lparr>rft_revoked_at := Some now\<rparr> else t)) (id_tokens db)\<rparr>"

section \<open>The authentication service\<close>

definition issue_tokens :: "auth_env \<Rightarrow> string \<Rightarrow> string \<Rightarrow> datetime \<Rightarrow> user \<Rightarrow> string option \<Rightarrow> string option \<Rightarrow> id_db \<Rightarrow>
    (token_response \<times> string) res \<times> id_db" where
  "issue_tokens env jti rid now u ip_address user_agent db =
    (let access = create_access_token env now (usr_id u) (usr_tenant_id u) jti;
         refresh = create_refresh_token env now (usr_id u) (usr_tenant_id u) jti;
         t = \<lparr>rft_id = rid, rft_user_id = usr_id u, rft_token_hash = hash_token env refresh,
              rft_expires_at = now + days (ae_refresh_days env), rft_revoked_at = None, rft_replaced_by_id = None,
              rft_device_info = user_agent, rft_ip_address = ip_address\<rparr>
     in case save_refresh_token t db of
          (Inl e, db) \<Rightarrow> (Inl e, db)
        | (Inr _, db) \<Rightarrow> (Inr (\<lparr>tkr_access_token = access, tkr_refresh_token = refresh, tkr_token_type = ''bearer'',
              tkr_expires_in = ae_access_minutes env * 60\<rparr>, rid), db))"

definition record_failed_login :: "auth_env \<Rightarrow> datetime \<Rightarrow> user \<Rightarrow> id_db \<Rightarrow> id_db" where
  "record_failed_login env now u db =
    (let n = usr_failed_login_count u + 1;
         u = u\<lparr>usr_failed_login_count := n\<rparr>;
         u = (if ae_max_failed env \<le> n then u\<lparr>usr_locked_until := Some (now + minutes (ae_lockout_minutes env))\<rparr> else u)
     in put_user u db)"

definition check_mfa :: "auth_env \<Rightarrow> datetime \<Rightarrow> user \<Rightarrow> string option \<Rightarrow> unit res" where
  "check_mfa env now u totp_code =
    (if \<not> usr_mfa_enabled u then Inr ()
     else if \<not> truthy totp_code then Inl (ValidationError ''MFA code required'')
     else res_bind (decrypt_value env (case usr_mfa_secret_encrypted u of None \<Rightarrow> [] | Some s \<Rightarrow> s)) (\<lambda>secret.
       if ae_totp_verify env now secret (the totp_code) then Inr () else Inl (UnauthorizedError ''Invalid MFA code'')))"

definition is_locked :: "datetime \<Rightarrow> user \<Rightarrow> bool" where
  "is_locked now u = (case usr_locked_until u of None \<Rightarrow> False | Some t \<Rightarrow> now < t)"

definition login :: "auth_env \<Rightarrow> string \<Rightarrow> string \<Rightarrow> datetime \<Rightarrow> string \<Rightarrow> login_request \<Rightarrow> string option \<Rightarrow> string option \<Rightarrow>
    id_db \<Rightarrow> token_response res \<times> id_db" where
  "login env jti rid now tenant_code q ip_address user_agent db =
    (case get_tenant_by_code db tenant_code of
       Inl e \<Rightarrow> (Inl e, db)
     | Inr None \<Rightarrow> (Inl (UnauthorizedError ''Invalid credentials''), db)
     | Inr (Some t) \<Rightarrow>
       (case get_user_by_email db (ten_id t) (lgn_email q) of
          Inl e \<Rightarrow> (Inl e, db)
        | Inr None \<Rightarrow> (Inl (UnauthorizedError ''Invalid credentials''), db)
        | Inr (Some u) \<Rightarrow>
          if \<not> verify_password env (lgn_password q) (usr_password_hash u)
          then (Inl (UnauthorizedError ''Invalid credentials''), record_failed_login env now u db)
          else if usr_status u \<noteq> ''ACTIVE'' then (Inl (ForbiddenError ''Account is not active''), db)
          else if is_locked now u then (Inl (ForbiddenError ''Account is locked''), db)
          else (case check_mfa env now u (lgn_totp_code q) of
            Inl e \<Rightarrow> (Inl e, db)
          | Inr _ \<Rightarrow>
            (let u = u\<lparr>usr_failed_login_count := 0, usr_locked_until := None, usr_last_login_at := Some now\<rparr>;
                 db = put_user u db
             in case issue_tokens env jti rid now u ip_address user_agent db of
                  (Inl e, db) \<Rightarrow> (Inl e, db)
                | (Inr (response, _), db) \<Rightarrow> (Inr response, db)))))"

text \<open>\<open>uuid.UUID(str(value))\<close> of a claim; no other value has a text that is a UUID.\<close>

definition claim_uuid :: "auth_env \<Rightarrow> json \<Rightarrow> string option" where
  "claim_uuid env j = (case j of JStr s \<Rightarrow> ae_parse_uuid env s | JInt n \<Rightarrow> ae_parse_uuid env (int_str n) | _ \<Rightarrow> None)"

definition refresh :: "auth_env \<Rightarrow> string \<Rightarrow> string \<Rightarrow> datetime \<Rightarrow> string \<Rightarrow> id_db \<Rightarrow> token_response res \<times> id_db" where
  "refresh env jti rid now token db =
    (case decode_token env now token of
       Inl e \<Rightarrow> (Inl e, db)
     | Inr claims \<Rightarrow>
       if dget claims ''type'' \<noteq> Some (JStr ''refresh'') then (Inl (UnauthorizedError ''Invalid refresh token''), db)
       else (case get_refresh_token_by_hash db (hash_token env token) of
         Inl e \<Rightarrow> (Inl e, db)
       | Inr None \<Rightarrow> (Inl (UnauthorizedError ''Invalid refresh token''), db)
       | Inr (Some stored) \<Rightarrow>
         if rft_revoked_at stored \<noteq> None \<or> rft_expires_at stored < now
         then (Inl (UnauthorizedError ''Invalid refresh token''), db)
         else (case Option.bind (dget claims ''tenant_id'') (claim_uuid env) of
           None \<Rightarrow> (Inl (UnauthorizedError ''Invalid refresh token''), db)
         | Some token_tenant_id \<Rightarrow>
           (case get_user_by_id db (rft_user_id stored) token_tenant_id of
              Inl e \<Rightarrow> (Inl e, db)
            | Inr None \<Rightarrow> (Inl (UnauthorizedError ''Invalid refresh token''), db)
            | Inr (Some u) \<Rightarrow>
              if usr_status u \<noteq> ''ACTIVE'' then (Inl (ForbiddenError ''Account is not active''), db)
              else
               (let stored = stored\<lparr>rft_revoked_at := Some now\<rparr>
                in case issue_tokens env jti rid now u None None (put_token stored db) of
                     (Inl e, db) \<Rightarrow> (Inl e, db)
                   | (Inr (response, replacement_id), db) \<Rightarrow>
                      (Inr response, put_token (stored\<lparr>rft_replaced_by_id := Some replacement_id\<rparr>) db))))))"

definition logout :: "auth_env \<Rightarrow> datetime \<Rightarrow> string \<Rightarrow> id_db \<Rightarrow> unit res \<times> id_db" where
  "logout env now token db =
    (case get_refresh_token_by_hash db (hash_token env token) of
       Inl e \<Rightarrow> (Inl e, db)
     | Inr None \<Rightarrow> (Inr (), db)
     | Inr (Some stored) \<Rightarrow> if rft_revoked_at stored = None then (Inr (), put_token (stored\<lparr>rft_revoked_at := Some now\<rparr>) db)
         else (Inr (), db))"

text \<open>The secret, the codes and the nonce of the encryption are drawn at random.\<close>

definition enroll_mfa :: "auth_env \<Rightarrow> string \<Rightarrow> string list \<Rightarrow> string \<Rightarrow> string \<Rightarrow> string \<Rightarrow> id_db \<Rightarrow>
    (string \<times> string \<times> string list) res \<times> id_db" where
  "enroll_mfa env secret recovery nonce user_id tenant_id db =
    (case get_user_by_id db user_id tenant_id of
       Inl e \<Rightarrow> (Inl e, db)
     | Inr None \<Rightarrow> (Inl (UnauthorizedError ''User not found''), db)
     | Inr (Some u) \<Rightarrow> (Inr (secret, ae_totp_uri env secret (usr_email u) ''FreightCore'', recovery),
         put_user (u\<lparr>usr_mfa_secret_encrypted := Some (encrypt_value env nonce secret),
           usr_mfa_recovery_hashes := Some (map (hash_recovery_code env) recovery), usr_mfa_enabled := False\<rparr>) db))"

definition confirm_mfa :: "auth_env \<Rightarrow> datetime \<Rightarrow> string \<Rightarrow> string \<Rightarrow> string \<Rightarrow> id_db \<Rightarrow> unit res \<times> id_db" where
  "confirm_mfa env now user_id tenant_id code db =
    (case get_user_by_id db user_id tenant_id of
       Inl e \<Rightarrow> (Inl e, db)
     | Inr None \<Rightarrow> (Inl (ValidationError ''MFA enrollment not started''), db)
     | Inr (Some u) \<Rightarrow>
       if \<not> truthy (usr_mfa_secret_encrypted u) then (Inl (ValidationError ''MFA enrollment not started''), db)
       else (case decrypt_value env (the (usr_mfa_secret_encrypted u)) of
         Inl e \<Rightarrow> (Inl e, db)
       | Inr secret \<Rightarrow> if \<not> ae_totp_verify env now secret code then (Inl (ValidationError ''Invalid MFA code''), db)
           else (Inr (), put_user (u\<lparr>usr_mfa_enabled := True\<rparr>) db)))"

record user_me =
  me_id :: string
  me_tenant_id :: string
  me_email :: string
  me_full_name :: string
  me_status :: string
  me_mfa_enabled :: bool
  me_permissions :: "string list"
  me_roles :: "string list"
  me_last_login_at :: "datetime option"

definition get_me :: "id_db \<Rightarrow> string \<Rightarrow> string \<Rightarrow> user_me res" where
  "get_me db user_id tenant_id = res_bind (get_user_by_id db user_id tenant_id) (\<lambda>r. case r of
     None \<Rightarrow> Inl (UnauthorizedError ''User not found'')
   | Some u \<Rightarrow> (case get_user_permissions_and_roles db (usr_id u) of (permissions, roles) \<Rightarrow>
       Inr \<lparr>me_id = usr_id u, me_tenant_id = usr_tenant_id u, me_email = usr_email u, me_full_name = usr_full_name u,
         me_status = usr_status u, me_mfa_enabled = usr_mfa_enabled u, me_permissions = sorted_list_of_set permissions,
         me_roles = sorted_list_of_set roles, me_last_login_at = usr_last_login_at u\<rparr>))"

section \<open>The current user\<close>

record current_user =
  cur_id :: string
  cur_tenant_id :: string
  cur_permissions :: "string set"
  cur_roles :: "string set"
  cur_is_portal :: bool

text \<open>\<open>uuid.UUID(payload[key])\<close>.\<close>

definition required_uuid :: "auth_env \<Rightarrow> claims \<Rightarrow> string \<Rightarrow> string res" where
  "required_uuid env claims key = (case dget claims key of
     None \<Rightarrow> Inl (KeyError key)
   | Some (JStr s) \<Rightarrow> (case ae_parse_uuid env s of None \<Rightarrow> Inl (ValueError ''badly formed hexadecimal UUID string'') | Some i \<Rightarrow> Inr i)
   | Some JNull \<Rightarrow> Inl TypeError
   | Some _ \<Rightarrow> Inl (AttributeError ''replace''))"

definition get_current_user_optional :: "auth_env \<Rightarrow> datetime \<Rightarrow> string option \<Rightarrow> id_db \<Rightarrow> current_user option res" where
  "get_current_user_optional env now credentials db = (case credentials of
     None \<Rightarrow> Inr None
   | Some token \<Rightarrow> (case decode_token env now token of
       Inl _ \<Rightarrow> Inl (UnauthorizedError ''Invalid or expired token'')
     | Inr payload \<Rightarrow>
       if dget payload ''type'' \<noteq> Some (JStr ''access'') then Inl (UnauthorizedError ''Invalid token type'')
       else res_bind (required_uuid env payload ''sub'') (\<lambda>user_id.
            res_bind (required_uuid env payload ''tenant_id'') (\<lambda>tenant_id.
              case get_user_permissions_and_roles db user_id of (permissions, roles) \<Rightarrow>
                Inr (Some \<lparr>cur_id = user_id, cur_tenant_id = tenant_id, cur_permissions = permissions, cur_roles = roles,
                  cur_is_portal = (\<exists>r \<in> set portal_roles. role_value r \<in> roles)\<rparr>)))))"

definition get_current_user :: "auth_env \<Rightarrow> datetime \<Rightarrow> string option \<Rightarrow> id_db \<Rightarrow> current_user res" where
  "get_current_user env now credentials db = res_bind (get_current_user_optional env now credentials db) (\<lambda>u. case u of
     None \<Rightarrow> Inl (UnauthorizedError ''Authentication required'') | Some u \<Rightarrow> Inr u)"

definition starts_with_any :: "string list \<Rightarrow> string \<Rightarrow> bool" where
  "starts_with_any ps s = (\<exists>p \<in> set ps. take (length p) s = p)"

definition require_permission :: "string \<Rightarrow> auth_env \<Rightarrow> datetime \<Rightarrow> string option \<Rightarrow> id_db \<Rightarrow> current_user res" where
  "require_permission permission env now credentials db = res_bind (get_current_user env now credentials db) (\<lambda>u.
     if permission \<notin> cur_permissions u then Inl (ForbiddenError (''Missing permission: '' @ permission))
     else if cur_is_portal u \<and> starts_with_any [''finance:'', ''audit:'', ''role:''] permission
     then Inl (ForbiddenError ''Portal users cannot access internal endpoints'')
     else Inr u)"

definition get_tenant_header :: "string option \<Rightarrow> string" where
  "get_tenant_header code = (if truthy code then the code else ''default'')"

section \<open>The endpoints of users\<close>

text \<open>The email of a new user is an address the framework has accepted; two users of a tenant have different ones.\<close>

record user_create =
  usc_email :: string
  usc_password :: string
  usc_full_name :: string

definition create_user :: "auth_env \<Rightarrow> string \<Rightarrow> string \<Rightarrow> user_create \<Rightarrow> current_user \<Rightarrow> id_db \<Rightarrow> user res \<times> id_db" where
  "create_user env salt uid q actor db =
    (let u = \<lparr>usr_id = uid, usr_tenant_id = cur_tenant_id actor, usr_email = py_lower (usc_email q),
              usr_password_hash = ae_hashpw env salt (usc_password q), usr_full_name = usc_full_name q, usr_status = ''ACTIVE'',
              usr_failed_login_count = 0, usr_locked_until = None, usr_mfa_enabled = False, usr_mfa_secret_encrypted = None,
              usr_mfa_recovery_hashes = None, usr_last_login_at = None, usr_created_by = Some (cur_id actor), usr_updated_by = None\<rparr>
     in if (\<exists>x \<in> set (dvalues (id_users db)). usr_tenant_id x = usr_tenant_id u \<and> usr_email x = usr_email u)
          \<or> cur_tenant_id actor \<notin> set (dkeys (id_tenants db)) \<or> cur_id actor \<notin> set (dkeys (id_users db))
        then (Inl IntegrityError, db) else (Inr u, put_user u db))"

definition update_user :: "string \<Rightarrow> string option \<Rightarrow> string option \<Rightarrow> current_user \<Rightarrow> id_db \<Rightarrow> user res \<times> id_db" where
  "update_user user_id full_name status actor db =
    (case get_user_by_id db user_id (cur_tenant_id actor) of
       Inl e \<Rightarrow> (Inl e, db)
     | Inr None \<Rightarrow> (Inl (NotFoundError ''User not found''), db)
     | Inr (Some u) \<Rightarrow>
       (let u = (case full_name of None \<Rightarrow> u | Some n \<Rightarrow> u\<lparr>usr_full_name := n\<rparr>);
            u = (case status of None \<Rightarrow> u | Some s \<Rightarrow> u\<lparr>usr_status := s\<rparr>);
            u = u\<lparr>usr_updated_by := Some (cur_id actor)\<rparr>
        in if cur_id actor \<notin> set (dkeys (id_users db)) then (Inl IntegrityError, db) else (Inr u, put_user u db)))"

definition list_users :: "current_user \<Rightarrow> id_db \<Rightarrow> user list" where
  "list_users actor db = take 50 (filter (\<lambda>u. usr_tenant_id u = cur_tenant_id actor) (dvalues (id_users db)))"

definition get_user :: "string \<Rightarrow> current_user \<Rightarrow> id_db \<Rightarrow> user res" where
  "get_user user_id actor db = res_bind (get_user_by_id db user_id (cur_tenant_id actor)) (\<lambda>r. case r of
     None \<Rightarrow> Inl (NotFoundError ''User not found'') | Some u \<Rightarrow> Inr u)"

end
