(* ===== verification/Identity_Life.thy ===== *)
theory Identity_Life
  imports Identity Tables
begin

text \<open>
  Which permissions a user has, and what the seeding of permissions and of the roles of a tenant leaves behind.
\<close>


section \<open>The permissions of a user\<close>

lemma system_roles_listed: "r \<in> set system_roles"
  by (cases r) (simp_all add: system_roles_def)

lemma role_values_distinct: "distinct (map role_value system_roles)"
  by code_simp

lemma role_value_inj: "role_value r = role_value s \<Longrightarrow> r = s"
  using role_values_distinct system_roles_listed by (metis distinct_map inj_onD)

lemma system_role_of_exact: "system_role_of code = Some s \<longleftrightarrow> role_value s = code"
proof
  assume "system_role_of code = Some s"
  then show "role_value s = code" by (auto simp: system_role_of_def find_Some_iff)
next
  assume "role_value s = code"
  then show "system_role_of code = Some s"
    using find_distinct_key [OF role_values_distinct system_roles_listed, of s] by (simp add: system_role_of_def)
qed

lemma collect_roles_exact: "collect_roles db rs (ps, cs) =
  (ps \<union> (\<Union>r \<in> set rs. set (map perm_code (role_permissions db (role_id r))) \<union> builtin_permissions (role_code r)), cs \<union> role_code ` set rs)"
  by (induction rs arbitrary: ps cs) auto

lemma role_permissions_exact: "p \<in> set (role_permissions db rid) \<longleftrightarrow> p \<in> set (dvalues (id_permissions db)) \<and> (rid, perm_id p) \<in> set (id_grants db)"
  by (auto simp: role_permissions_def)

lemma user_roles_exact: "r \<in> set (user_roles db u) \<longleftrightarrow>
  r \<in> set (dvalues (id_roles db)) \<and> (\<exists>a \<in> set (id_assignments db). ubr_user_id a = u \<and> ubr_role_id a = role_id r)"
  by (auto simp: user_roles_def)

text \<open>A user has a permission exactly when a role assigned to the user, in whatever branch, is granted it or is named like
  a built-in role that has it.\<close>

theorem permissions_exact:
  "c \<in> fst (get_user_permissions_and_roles db u) \<longleftrightarrow>
    (\<exists>r \<in> set (dvalues (id_roles db)). (\<exists>a \<in> set (id_assignments db). ubr_user_id a = u \<and> ubr_role_id a = role_id r)
      \<and> ((\<exists>p \<in> set (dvalues (id_permissions db)). (role_id r, perm_id p) \<in> set (id_grants db) \<and> perm_code p = c)
         \<or> (\<exists>s. role_value s = role_code r \<and> c \<in> set (dget_or role_permission_map s []))))"
  (is "?has \<longleftrightarrow> ?exact")
proof -
  note role = system_role_of_exact
  have builtin: "c \<in> builtin_permissions code \<longleftrightarrow> (\<exists>s. role_value s = code \<and> c \<in> set (dget_or role_permission_map s []))" for code
    by (cases "system_role_of code") (auto simp: builtin_permissions_def role [symmetric])
  have "?has \<longleftrightarrow> (\<exists>r \<in> set (user_roles db u). (\<exists>p \<in> set (role_permissions db (role_id r)). perm_code p = c) \<or> c \<in> builtin_permissions (role_code r))"
    by (auto simp: get_user_permissions_and_roles_def collect_roles_exact)
  also have "\<dots> \<longleftrightarrow> ?exact" unfolding builtin role_permissions_exact Bex_def user_roles_exact by blast
  finally show ?thesis .
qed

text \<open>Whatever grants are withdrawn, a role with the name of a built-in role keeps the permissions of that role.\<close>

theorem builtin_permissions_irrevocable:
  assumes "r \<in> set (dvalues (id_roles db))" and "a \<in> set (id_assignments db)" and "ubr_user_id a = u" and "ubr_role_id a = role_id r"
    and "role_code r = role_value s"
  shows "set (dget_or role_permission_map s []) \<subseteq> fst (get_user_permissions_and_roles (db\<lparr>id_grants := gs, id_permissions := ps\<rparr>) u)"
proof
  fix c assume "c \<in> set (dget_or role_permission_map s [])"
  with assms show "c \<in> fst (get_user_permissions_and_roles (db\<lparr>id_grants := gs, id_permissions := ps\<rparr>) u)"
    unfolding permissions_exact by auto
qed

section \<open>Seeding\<close>

definition perms_ok :: "id_db \<Rightarrow> bool" where
  "perms_ok db \<longleftrightarrow> store_inv perm_id (id_permissions db) \<and> unique_by perm_code (id_permissions db)"

lemma perms_ok_new:
  assumes "perms_ok db" and "perm_id p = k" and "k \<notin> set (dkeys (id_permissions db))"
    and "\<And>j e. dget (id_permissions db) j = Some e \<Longrightarrow> perm_code e \<noteq> perm_code p"
  shows "perms_ok (db\<lparr>id_permissions := dset k p (id_permissions db)\<rparr>)"
  using assms unfolding perms_ok_def by (auto intro!: table_dset_inv unique_by_new)

text \<open>The loop leaves what is stored and adds what is missing.\<close>

lemma seed_permissions_effect:
  assumes "perms_ok db" and "inj ids" and "\<forall>m \<ge> n. ids m \<notin> set (dkeys (id_permissions db))"
  shows "\<exists>new. seed_permissions ids n ps db = (Inr (), db\<lparr>id_permissions := new\<rparr>) \<and> perms_ok (db\<lparr>id_permissions := new\<rparr>)
    \<and> (\<forall>k p. dget (id_permissions db) k = Some p \<longrightarrow> dget new k = Some p)
    \<and> (\<forall>c. (\<exists>k p. dget new k = Some p \<and> perm_code p = c) \<longleftrightarrow> (\<exists>k p. dget (id_permissions db) k = Some p \<and> perm_code p = c) \<or> c \<in> fst ` set ps)"
  using assms
proof (induction ps arbitrary: n db)
  case Nil
  then show ?case by (intro exI [of _ "id_permissions db"]) auto
next
  case (Cons t ps)
  obtain code resource action where t: "t = (code, resource, action)" by (cases t)
  have st: "store_inv perm_id (id_permissions db)" "unique_by perm_code (id_permissions db)" using Cons.prems(1) by (simp_all add: perms_ok_def)
  show ?case
  proof (rule one_or_none_lookup [OF st, of code])
    fix p assume p: "one_or_none (filter (\<lambda>p. perm_code p = code) (dvalues (id_permissions db))) = Inr (Some p)"
      "dget (id_permissions db) (perm_id p) = Some p" "perm_code p = code"
    have step: "seed_permissions ids n (t # ps) db = seed_permissions ids n ps db" by (simp add: t p(1))
    have codes: "fst ` set (t # ps) = insert code (fst ` set ps)" by (simp add: t)
    show ?thesis using Cons.IH [OF Cons.prems] p(2,3) unfolding step codes by blast
  next
    assume none: "one_or_none (filter (\<lambda>p. perm_code p = code) (dvalues (id_permissions db))) = Inr None"
      "\<And>k p. dget (id_permissions db) k = Some p \<Longrightarrow> perm_code p \<noteq> code"
    let ?p = "\<lparr>perm_id = ids n, perm_code = code, perm_resource = resource, perm_action = action, perm_description = Some code\<rparr>"
    let ?db = "db\<lparr>id_permissions := dset (ids n) ?p (id_permissions db)\<rparr>"
    have step: "seed_permissions ids n (t # ps) db = seed_permissions ids (Suc n) ps ?db" by (simp add: t none(1))
    have codes: "fst ` set (t # ps) = insert code (fst ` set ps)" by (simp add: t)
    have fresh: "ids n \<notin> set (dkeys (id_permissions db))" using Cons.prems(3) by simp
    have ok: "perms_ok ?db" by (rule perms_ok_new [OF Cons.prems(1)]) (use fresh none(2) in auto)
    have "ids m \<noteq> ids n" if "Suc n \<le> m" for m using that Cons.prems(2) by (auto dest: injD)
    then have "\<forall>m \<ge> Suc n. ids m \<notin> set (dkeys (id_permissions ?db))" using Cons.prems(3) by (auto simp: AList.dom_update)
    from Cons.IH [OF ok Cons.prems(2) this] obtain new where new: "seed_permissions ids (Suc n) ps ?db = (Inr (), db\<lparr>id_permissions := new\<rparr>)"
      "perms_ok (db\<lparr>id_permissions := new\<rparr>)" "\<And>k p. dget (id_permissions ?db) k = Some p \<Longrightarrow> dget new k = Some p"
      "\<And>c. (\<exists>k p. dget new k = Some p \<and> perm_code p = c) \<longleftrightarrow> (\<exists>k p. dget (id_permissions ?db) k = Some p \<and> perm_code p = c) \<or> c \<in> fst ` set ps"
      by auto
    have none_at: "dget (id_permissions db) (ids n) = None" using fresh by (simp add: map_of_eq_None_iff)
    have kept: "dget new k = Some p" if "dget (id_permissions db) k = Some p" for k p
      by (rule new(3)) (use that none_at in \<open>auto simp: dget_dset\<close>)
    have tab: "id_permissions ?db = dset (ids n) ?p (id_permissions db)" by simp
    have swap: "((code = c \<or> A) \<or> S) = (A \<or> c = code \<or> S)" for A S :: bool and c by blast
    have all: "(\<exists>k p. dget new k = Some p \<and> perm_code p = c)
      \<longleftrightarrow> (\<exists>k p. dget (id_permissions db) k = Some p \<and> perm_code p = c) \<or> c \<in> fst ` set (t # ps)" for c
      unfolding codes insert_iff swap [symmetric] new(4) [of c] tab
      using stored_dset_new [OF none_at, of ?p "\<lambda>p. perm_code p = c"] by (simp only: permission.simps)
    show ?thesis unfolding step by (rule exI [of _ new], intro conjI allI impI) (fact new(1), fact new(2), erule kept, rule all)
  qed
qed

lemma seed_permissions_stored:
  assumes "perms_ok db" and "\<forall>c \<in> fst ` set ps. \<exists>k p. dget (id_permissions db) k = Some p \<and> perm_code p = c"
  shows "seed_permissions ids n ps db = (Inr (), db)"
  using assms(2)
proof (induction ps arbitrary: n)
  case (Cons t ps)
  obtain code resource action where t: "t = (code, resource, action)" by (cases t)
  obtain k p where p: "dget (id_permissions db) k = Some p" "perm_code p = code" using Cons.prems by (auto simp: t)
  have st: "store_inv perm_id (id_permissions db)" "unique_by perm_code (id_permissions db)" using assms(1) by (simp_all add: perms_ok_def)
  have "one_or_none (filter (\<lambda>p. perm_code p = code) (dvalues (id_permissions db))) = Inr (Some p)"
    unfolding one_or_none_found [OF st] using p store_find_key [OF st(1) p(1)] by simp
  then show ?case using Cons by (simp add: t)
qed simp

text \<open>Seeding stores every permission of the system once, keeps those that are stored, and changes nothing the second time.\<close>

theorem permissions_seeded_once:
  assumes "perms_ok db" and "inj ids" and "\<forall>m. ids m \<notin> set (dkeys (id_permissions db))"
  shows "\<exists>db'. seed_system_permissions ids db = (Inr (), db') \<and> seed_system_permissions ids' db' = (Inr (), db')
    \<and> (\<forall>k p. dget (id_permissions db) k = Some p \<longrightarrow> dget (id_permissions db') k = Some p)
    \<and> (\<forall>c \<in> fst ` set system_permissions. \<exists>!k. \<exists>p. dget (id_permissions db') k = Some p \<and> perm_code p = c)"
proof -
  have fresh: "\<forall>m \<ge> 0. ids m \<notin> set (dkeys (id_permissions db))" using assms(3) by simp
  from seed_permissions_effect [OF assms(1,2) fresh, of system_permissions] obtain new where
    new: "seed_permissions ids 0 system_permissions db = (Inr (), db\<lparr>id_permissions := new\<rparr>)" "perms_ok (db\<lparr>id_permissions := new\<rparr>)"
      "\<forall>k p. dget (id_permissions db) k = Some p \<longrightarrow> dget new k = Some p"
      "\<forall>c. (\<exists>k p. dget new k = Some p \<and> perm_code p = c) \<longleftrightarrow>
        (\<exists>k p. dget (id_permissions db) k = Some p \<and> perm_code p = c) \<or> c \<in> fst ` set system_permissions"
    by (elim exE conjE) (rule that; assumption)
  have all: "\<exists>k p. dget new k = Some p \<and> perm_code p = c" if "c \<in> fst ` set system_permissions" for c
    by (rule iffD2 [OF spec [OF new(4)]]) (rule disjI2 [OF that])
  have "seed_system_permissions ids' (db\<lparr>id_permissions := new\<rparr>) = (Inr (), db\<lparr>id_permissions := new\<rparr>)"
    unfolding seed_system_permissions_def by (rule seed_permissions_stored [OF new(2)]) (use all in simp)
  moreover have "\<exists>!k. \<exists>p. dget new k = Some p \<and> perm_code p = c" if "c \<in> fst ` set system_permissions" for c
    using all [OF that] new(2) unfolding perms_ok_def unique_by_def by auto
  ultimately show ?thesis using new(1,3)
    by (intro exI [of _ "db\<lparr>id_permissions := new\<rparr>"]) (simp add: seed_system_permissions_def)
qed

subsection \<open>The roles of a tenant\<close>

lemma grant_permissions_effect:
  assumes "perms_ok db"
  shows "\<exists>ps. grant_permissions rid codes db = (Inr (), db\<lparr>id_grants := id_grants db @ map (Pair rid) ps\<rparr>)
    \<and> (\<forall>i. i \<in> set ps \<longleftrightarrow> (\<exists>p. dget (id_permissions db) i = Some p \<and> perm_code p \<in> set codes))"
  using assms
proof (induction codes arbitrary: db)
  case Nil
  show ?case by (rule exI [of _ "[]"]) simp
next
  case (Cons code codes)
  have st: "store_inv perm_id (id_permissions db)" "unique_by perm_code (id_permissions db)" using Cons.prems by (simp_all add: perms_ok_def)
  show ?case
  proof (rule one_or_none_lookup [OF st, of code])
    fix p assume p: "one_or_none (filter (\<lambda>p. perm_code p = code) (dvalues (id_permissions db))) = Inr (Some p)"
      "dget (id_permissions db) (perm_id p) = Some p" "perm_code p = code"
    let ?db = "db\<lparr>id_grants := id_grants db @ [(rid, perm_id p)]\<rparr>"
    have "perms_ok ?db" using Cons.prems by (simp add: perms_ok_def)
    from Cons.IH [OF this] obtain ps where ps: "grant_permissions rid codes ?db = (Inr (), db\<lparr>id_grants := id_grants db @ (rid, perm_id p) # map (Pair rid) ps\<rparr>)"
      "\<And>i. i \<in> set ps \<longleftrightarrow> (\<exists>p. dget (id_permissions db) i = Some p \<and> perm_code p \<in> set codes)" by auto
    have "i = perm_id p \<longleftrightarrow> (\<exists>q. dget (id_permissions db) i = Some q \<and> perm_code q = code)" for i
      using p(2,3) st(2) unfolding unique_by_def by blast
    then have "i \<in> set (perm_id p # ps) \<longleftrightarrow> (\<exists>q. dget (id_permissions db) i = Some q \<and> perm_code q \<in> set (code # codes))" for i
      using ps(2) [of i] by auto
    then show ?thesis using ps(1) p(1) by (intro exI [of _ "perm_id p # ps"]) simp
  next
    assume none: "one_or_none (filter (\<lambda>p. perm_code p = code) (dvalues (id_permissions db))) = Inr None"
      "\<And>k p. dget (id_permissions db) k = Some p \<Longrightarrow> perm_code p \<noteq> code"
    have "(\<exists>p. dget (id_permissions db) i = Some p \<and> perm_code p \<in> set (code # codes))
      \<longleftrightarrow> (\<exists>p. dget (id_permissions db) i = Some p \<and> perm_code p \<in> set codes)" for i using none(2) by auto
    then show ?thesis using Cons.IH [OF Cons.prems] none(1) by simp
  qed
qed

definition role_key :: "role \<Rightarrow> string \<times> string" where "role_key r = (role_tenant_id r, role_code r)"

text \<open>A role of the tenant with the name of a built-in role, and grants of exactly the permissions that role is seeded with.\<close>

definition seeded :: "id_db \<Rightarrow> string \<Rightarrow> system_role \<Rightarrow> bool" where
  "seeded db tn s \<longleftrightarrow> (\<exists>k x. dget (id_roles db) k = Some x \<and> role_key x = (tn, role_value s) \<and> role_is_system x
     \<and> (\<forall>i. (k, i) \<in> set (id_grants db) \<longleftrightarrow> (\<exists>p. dget (id_permissions db) i = Some p \<and> perm_code p \<in> set (seeded_codes s))))"

lemma seeded_roles_loop:
  assumes "perms_ok db" and "store_inv role_id (id_roles db)" and "unique_by role_key (id_roles db)" and "inj ids"
    and "\<forall>m \<ge> n. ids m \<notin> set (dkeys (id_roles db)) \<and> ids m \<notin> fst ` set (id_grants db)"
    and "distinct rs" and "\<forall>s \<in> set rs. \<forall>k x. dget (id_roles db) k = Some x \<longrightarrow> role_key x \<noteq> (tn, role_value s)"
    and "\<forall>s \<in> set past. seeded db tn s"
  shows "\<exists>db'. seed_roles ids n tn rs db = (Inr (), db') \<and> (\<forall>s \<in> set (past @ rs). seeded db' tn s) \<and> id_permissions db' = id_permissions db
    \<and> (\<forall>k x. dget (id_roles db) k = Some x \<longrightarrow> dget (id_roles db') k = Some x)"
  using assms
proof (induction rs arbitrary: n db past)
  case Nil
  then show ?case by simp
next
  case (Cons r rs)
  let ?x = "\<lparr>role_id = ids n, role_tenant_id = tn, role_name = role_title r, role_code = role_value r, role_is_system = True\<rparr>"
  let ?db = "db\<lparr>id_roles := dset (ids n) ?x (id_roles db)\<rparr>"
  have none: "one_or_none (filter (\<lambda>x. role_tenant_id x = tn \<and> role_code x = role_value r) (dvalues (id_roles db))) = Inr None"
    using one_or_none_absent [OF Cons.prems(2,3), of "(tn, role_value r)"] Cons.prems(7) by (simp add: role_key_def)
  have "perms_ok ?db" using Cons.prems(1) by (simp add: perms_ok_def)
  from grant_permissions_effect [OF this, of "ids n" "seeded_codes r"] obtain ps where
    ps: "grant_permissions (ids n) (seeded_codes r) ?db = (Inr (), ?db\<lparr>id_grants := id_grants db @ map (Pair (ids n)) ps\<rparr>)"
      "\<And>i. i \<in> set ps \<longleftrightarrow> (\<exists>p. dget (id_permissions db) i = Some p \<and> perm_code p \<in> set (seeded_codes r))" by auto
  let ?db2 = "?db\<lparr>id_grants := id_grants db @ map (Pair (ids n)) ps\<rparr>"
  have fresh: "dget (id_roles db) (ids n) = None" "ids n \<notin> fst ` set (id_grants db)"
    using Cons.prems(5) by (auto simp: map_of_eq_None_iff)
  have step: "seed_roles ids n tn (r # rs) db = seed_roles ids (Suc n) tn rs ?db2" by (simp add: none ps(1) Let_def)
  have kept: "dget (id_roles ?db2) k = Some x" if "dget (id_roles db) k = Some x" for k x
    using that fresh(1) by (auto simp: dget_dset)
  have others: "(k, i) \<in> set (id_grants ?db2) \<longleftrightarrow> (k, i) \<in> set (id_grants db)" if "k \<noteq> ids n" for k i using that by auto
  have old: "seeded ?db2 tn s" if s: "seeded db tn s" for s
  proof -
    obtain k x where k: "dget (id_roles db) k = Some x" "role_key x = (tn, role_value s)" "role_is_system x"
      "\<And>i. (k, i) \<in> set (id_grants db) \<longleftrightarrow> (\<exists>p. dget (id_permissions db) i = Some p \<and> perm_code p \<in> set (seeded_codes s))"
      using s unfolding seeded_def by blast
    have "k \<noteq> ids n" using k(1) fresh(1) by auto
    from others [OF this] kept [OF k(1)] k(2-4) show ?thesis unfolding seeded_def by (intro exI [of _ k] exI [of _ x]) simp
  qed
  have this_one: "seeded ?db2 tn r"
  proof -
    have "(ids n, i) \<notin> set (id_grants db)" for i using fresh(2) by force
    then have "(ids n, i) \<in> set (id_grants ?db2) \<longleftrightarrow> i \<in> set ps" for i by auto
    then show ?thesis unfolding seeded_def by (intro exI [of _ "ids n"] exI [of _ ?x]) (simp add: dget_dset role_key_def ps(2))
  qed
  have later: "ids m \<noteq> ids n" if "Suc n \<le> m" for m using that Cons.prems(4) by (auto dest: injD)
  have "\<exists>db'. seed_roles ids (Suc n) tn rs ?db2 = (Inr (), db') \<and> (\<forall>s \<in> set ((past @ [r]) @ rs). seeded db' tn s)
    \<and> id_permissions db' = id_permissions ?db2 \<and> (\<forall>k x. dget (id_roles ?db2) k = Some x \<longrightarrow> dget (id_roles db') k = Some x)"
  proof (rule Cons.IH)
    show "perms_ok ?db2" using Cons.prems(1) by (simp add: perms_ok_def)
    show "store_inv role_id (id_roles ?db2)" using Cons.prems(2) by (simp add: table_dset_inv)
    show "unique_by role_key (id_roles ?db2)"
    proof -
      have "role_key x \<noteq> role_key ?x" if "dget (id_roles db) k = Some x" for k x
        using Cons.prems(7) that by (simp add: role_key_def)
      from unique_by_new [OF Cons.prems(3) this] show ?thesis by simp
    qed
    show "\<forall>m \<ge> Suc n. ids m \<notin> set (dkeys (id_roles ?db2)) \<and> ids m \<notin> fst ` set (id_grants ?db2)"
    proof (intro allI impI)
      fix m assume m: "Suc n \<le> m"
      then have "ids m \<notin> set (dkeys (id_roles db))" "ids m \<notin> fst ` set (id_grants db)" using Cons.prems(5) by simp_all
      then show "ids m \<notin> set (dkeys (id_roles ?db2)) \<and> ids m \<notin> fst ` set (id_grants ?db2)"
        using later [OF m] by (auto simp: AList.dom_update)
    qed
    show "\<forall>s \<in> set rs. \<forall>k x. dget (id_roles ?db2) k = Some x \<longrightarrow> role_key x \<noteq> (tn, role_value s)"
      using Cons.prems(6,7) role_value_inj by (auto simp: dget_dset role_key_def)
    show "\<forall>s \<in> set (past @ [r]). seeded ?db2 tn s" using Cons.prems(8) old this_one by auto
  qed (use Cons.prems(4,6) in simp_all)
  then show ?case unfolding step using kept by auto
qed

text \<open>A tenant without roles gets all nineteen, each with grants of exactly its permissions, once the permissions are seeded.\<close>

theorem tenant_roles_seeded:
  assumes "perms_ok db" and "store_inv role_id (id_roles db)" and "unique_by role_key (id_roles db)" and "inj ids"
    and "\<forall>m. ids m \<notin> set (dkeys (id_roles db)) \<and> ids m \<notin> fst ` set (id_grants db)"
    and "\<forall>k x. dget (id_roles db) k = Some x \<longrightarrow> role_tenant_id x \<noteq> tn"
  shows "\<exists>db'. seed_system_roles_for_tenant ids tn db = (Inr (), db')
    \<and> (\<forall>s. \<exists>k x. dget (id_roles db') k = Some x \<and> role_tenant_id x = tn \<and> role_code x = role_value s
        \<and> (\<forall>i. (k, i) \<in> set (id_grants db') \<longleftrightarrow> (\<exists>p. dget (id_permissions db') i = Some p \<and> perm_code p \<in> set (dget_or role_permission_map s []))))"
proof -
  have codes: "seeded_codes s = dget_or role_permission_map s []" for s
    by (simp add: seeded_codes_def role_permission_map_def dget_or_def)
  have "\<exists>db'. seed_roles ids 0 tn system_roles db = (Inr (), db') \<and> (\<forall>s \<in> set ([] @ system_roles). seeded db' tn s) \<and> id_permissions db' = id_permissions db
    \<and> (\<forall>k x. dget (id_roles db) k = Some x \<longrightarrow> dget (id_roles db') k = Some x)"
    by (rule seeded_roles_loop [OF assms(1-4)])
      (use assms(5,6) role_values_distinct in \<open>auto simp: role_key_def distinct_map\<close>)
  then obtain db' where db': "seed_roles ids 0 tn system_roles db = (Inr (), db')" "\<And>s. seeded db' tn s"
    using system_roles_listed by auto
  have "\<exists>k x. dget (id_roles db') k = Some x \<and> role_tenant_id x = tn \<and> role_code x = role_value s
        \<and> (\<forall>i. (k, i) \<in> set (id_grants db') \<longleftrightarrow> (\<exists>p. dget (id_permissions db') i = Some p \<and> perm_code p \<in> set (dget_or role_permission_map s [])))" for s
    using db'(2) [of s] unfolding seeded_def codes role_key_def by blast
  then show ?thesis using db'(1) by (auto simp: seed_system_roles_for_tenant_def)
qed

text \<open>An empty database, seeded.\<close>

definition unary :: "nat \<Rightarrow> string" where "unary n = replicate n CHR ''x''"

lemma inj_unary: "inj unary" by (rule injI) (metis unary_def length_replicate)

definition empty_ids :: id_db where
  "empty_ids = \<lparr>id_tenants = [], id_users = [], id_roles = [], id_permissions = [], id_grants = [], id_assignments = [], id_tokens = []\<rparr>"

theorem permissions_seeded_once_witness:
  "\<exists>db. seed_system_permissions unary empty_ids = (Inr (), db) \<and> (\<exists>k p. dget (id_permissions db) k = Some p \<and> perm_code p = ''user:read'')"
proof -
  have "perms_ok empty_ids" by (simp add: perms_ok_def empty_ids_def unique_by_def)
  from permissions_seeded_once [OF this inj_unary, of unary] obtain db where db: "seed_system_permissions unary empty_ids = (Inr (), db)"
    "\<forall>c \<in> fst ` set system_permissions. \<exists>!k. \<exists>p. dget (id_permissions db) k = Some p \<and> perm_code p = c" by (auto simp: empty_ids_def)
  have "''user:read'' \<in> fst ` set system_permissions" by (simp add: system_permissions_def)
  with db show ?thesis by blast
qed

theorem tenant_roles_seeded_witness:
  "\<exists>db k x. seed_system_roles_for_tenant unary ''T'' (snd (seed_system_permissions unary empty_ids)) = (Inr (), db)
    \<and> dget (id_roles db) k = Some x \<and> role_code x = ''AUDITOR''"
proof -
  have ok: "perms_ok empty_ids" by (simp add: perms_ok_def empty_ids_def unique_by_def)
  have "\<forall>m \<ge> 0. unary m \<notin> set (dkeys (id_permissions empty_ids))" by (simp add: empty_ids_def)
  from seed_permissions_effect [OF ok inj_unary this, of system_permissions] obtain new where
    new: "seed_system_permissions unary empty_ids = (Inr (), empty_ids\<lparr>id_permissions := new\<rparr>)" "perms_ok (empty_ids\<lparr>id_permissions := new\<rparr>)"
    unfolding seed_system_permissions_def by blast
  have "store_inv role_id (id_roles (empty_ids\<lparr>id_permissions := new\<rparr>))" "unique_by role_key (id_roles (empty_ids\<lparr>id_permissions := new\<rparr>))"
    by (simp_all add: empty_ids_def unique_by_def)
  from tenant_roles_seeded [OF new(2) this inj_unary, of "''T''"] obtain db where db: "seed_system_roles_for_tenant unary ''T'' (empty_ids\<lparr>id_permissions := new\<rparr>) = (Inr (), db)"
    "\<And>s. \<exists>k x. dget (id_roles db) k = Some x \<and> role_code x = role_value s" by (auto simp: empty_ids_def) metis
  from db(2) [of AUDITOR] db(1) show ?thesis by (simp add: new(1))
qed

end
