(* ===== verification/Auth_Life.thy ===== *)
theory Auth_Life
  imports Auth Identity_Life
begin

text \<open>
  The invariant of the tables of users and refresh tokens, what every request of the endpoints writes, and when a login
  succeeds.
\<close>


section \<open>The invariant\<close>

definition email_key :: "user \<Rightarrow> string \<times> string" where "email_key u = (usr_tenant_id u, usr_email u)"

definition rotation_ok :: "(string, refresh_token) dict \<Rightarrow> refresh_token \<Rightarrow> bool" where
  "rotation_ok tokens t \<longleftrightarrow> (\<forall>j. rft_replaced_by_id t = Some j \<longrightarrow> rft_revoked_at t \<noteq> None
     \<and> (\<exists>t'. dget tokens j = Some t' \<and> rft_user_id t' = rft_user_id t))"

definition auth_inv :: "id_db \<Rightarrow> bool" where
  "auth_inv db \<longleftrightarrow> store_inv ten_id (id_tenants db) \<and> unique_by ten_code (id_tenants db)
    \<and> store_inv usr_id (id_users db) \<and> unique_by email_key (id_users db)
    \<and> store_inv rft_id (id_tokens db) \<and> unique_by rft_token_hash (id_tokens db)
    \<and> (\<forall>k t. dget (id_tokens db) k = Some t \<longrightarrow> rft_user_id t \<in> set (dkeys (id_users db)) \<and> rotation_ok (id_tokens db) t)"

lemma auth_invD:
  assumes "auth_inv db"
  shows "store_inv ten_id (id_tenants db)" "unique_by ten_code (id_tenants db)" "store_inv usr_id (id_users db)" "unique_by email_key (id_users db)"
    "store_inv rft_id (id_tokens db)" "unique_by rft_token_hash (id_tokens db)"
    "\<And>k t. dget (id_tokens db) k = Some t \<Longrightarrow> rft_user_id t \<in> set (dkeys (id_users db)) \<and> rotation_ok (id_tokens db) t"
  using assms by (auto simp: auth_inv_def)

section \<open>The queries\<close>

lemma tenant_found:
  "auth_inv db \<Longrightarrow> get_tenant_by_code db code = Inr (Some t) \<longleftrightarrow> dget (id_tenants db) (ten_id t) = Some t \<and> ten_code t = code"
  unfolding get_tenant_by_code_def by (rule one_or_none_found [OF auth_invD(1,2)])

lemma email_found:
  "auth_inv db \<Longrightarrow> get_user_by_email db tid email = Inr (Some u) \<longleftrightarrow>
    dget (id_users db) (usr_id u) = Some u \<and> usr_tenant_id u = tid \<and> usr_email u = py_lower email"
  using one_or_none_found [OF auth_invD(3,4), of db "(tid, py_lower email)" u]
  by (simp add: get_user_by_email_def email_key_def)

lemma user_found:
  assumes "auth_inv db"
  shows "get_user_by_id db uid tid = Inr (Some u) \<longleftrightarrow> dget (id_users db) uid = Some u \<and> usr_tenant_id u = tid"
proof -
  have "unique_by (\<lambda>u. (usr_id u, usr_tenant_id u)) (id_users db)"
    using unique_by_key [OF auth_invD(3) [OF assms]] unfolding unique_by_def by blast
  from one_or_none_found [OF auth_invD(3) [OF assms] this, of "(uid, tid)" u] show ?thesis
    using store_find_key [OF auth_invD(3) [OF assms]] by (auto simp: get_user_by_id_def)
qed

lemma token_found:
  "auth_inv db \<Longrightarrow> get_refresh_token_by_hash db h = Inr (Some t) \<longleftrightarrow> dget (id_tokens db) (rft_id t) = Some t \<and> rft_token_hash t = h"
  unfolding get_refresh_token_by_hash_def by (rule one_or_none_found [OF auth_invD(5,6)])

lemma put_user_tables [simp]:
  "id_users (put_user u db) = dset (usr_id u) u (id_users db)" "id_tokens (put_user u db) = id_tokens db"
  "id_tenants (put_user u db) = id_tenants db"
  by (simp_all add: put_user_def)

lemma put_token_tables [simp]:
  "id_tokens (put_token t db) = dset (rft_id t) t (id_tokens db)" "id_users (put_token t db) = id_users db"
  "id_tenants (put_token t db) = id_tenants db"
  by (simp_all add: put_token_def)

section \<open>What keeps the invariant\<close>

lemma put_user_inv:
  assumes inv: "auth_inv db"
    and u: "(\<exists>v. dget (id_users db) (usr_id u) = Some v \<and> email_key u = email_key v)
      \<or> (\<forall>k v. dget (id_users db) k = Some v \<longrightarrow> email_key v \<noteq> email_key u)"
  shows "auth_inv (put_user u db)"
proof -
  note I = auth_invD [OF inv]
  have "unique_by email_key (dset (usr_id u) u (id_users db))"
    using u by (elim disjE exE conjE) (rule unique_by_same [OF I(4)], assumption+, rule unique_by_new [OF I(4)], blast)
  then show ?thesis using I by (auto simp: auth_inv_def table_dset_inv AList.dom_update)
qed

lemma put_token_inv:
  assumes inv: "auth_inv db"
    and t: "(\<exists>s. dget (id_tokens db) (rft_id t) = Some s \<and> rft_token_hash t = rft_token_hash s \<and> rft_user_id t = rft_user_id s)
      \<or> rft_id t \<notin> set (dkeys (id_tokens db)) \<and> (\<forall>k s. dget (id_tokens db) k = Some s \<longrightarrow> rft_token_hash s \<noteq> rft_token_hash t)"
    and user: "rft_user_id t \<in> set (dkeys (id_users db))" and rot: "rotation_ok (dset (rft_id t) t (id_tokens db)) t"
  shows "auth_inv (put_token t db)"
proof -
  note I = auth_invD [OF inv]
  have "unique_by rft_token_hash (dset (rft_id t) t (id_tokens db))"
    using t by (elim disjE exE conjE) (rule unique_by_same [OF I(6)], assumption+, rule unique_by_new [OF I(6)], blast)
  moreover have "rotation_ok (dset (rft_id t) t (id_tokens db)) s" if "dget (id_tokens db) k = Some s" for k s
  proof -
    have same: "rft_user_id t = rft_user_id x" if "dget (id_tokens db) (rft_id t) = Some x" for x
      using t that by (auto simp: map_of_eq_None_iff [symmetric])
    show ?thesis using I(7) [OF that] unfolding rotation_ok_def dget_dset by (auto simp: same)
  qed
  ultimately show ?thesis using I user rot
    by (auto simp: auth_inv_def table_dset_inv AList.dom_update dget_dset split: if_splits)
qed

lemma issue_tokens_effect:
  assumes "issue_tokens env jti rid now u ip agent db = (Inr (r, rid'), db')"
  obtains t where "db' = put_token t db" "rid' = rid" "rft_id t = rid" "rft_user_id t = usr_id u" "rft_revoked_at t = None" "rft_replaced_by_id t = None"
    "rft_token_hash t = hash_token env (create_refresh_token env now (usr_id u) (usr_tenant_id u) jti)"
    "rft_expires_at t = now + days (ae_refresh_days env)"
    "tkr_refresh_token r = create_refresh_token env now (usr_id u) (usr_tenant_id u) jti"
    "tkr_access_token r = create_access_token env now (usr_id u) (usr_tenant_id u) jti"
    "\<forall>s \<in> set (dvalues (id_tokens db)). rft_token_hash s \<noteq> rft_token_hash t"
  using assms by (auto simp: issue_tokens_def save_refresh_token_def Let_def split: if_splits)

lemma issue_tokens_ok:
  assumes "\<forall>s \<in> set (dvalues (id_tokens db)). rft_token_hash s \<noteq> hash_token env (create_refresh_token env now (usr_id u) (usr_tenant_id u) jti)"
  shows "\<exists>r db'. issue_tokens env jti rid now u ip agent db = (Inr (r, rid), db')"
  using assms by (auto simp: issue_tokens_def save_refresh_token_def Let_def)

lemma issue_tokens_inv:
  assumes inv: "auth_inv db" and new: "rid \<notin> set (dkeys (id_tokens db))" and user: "usr_id u \<in> set (dkeys (id_users db))"
    and iss: "issue_tokens env jti rid now u ip agent db = (Inr (r, rid'), db')"
  shows "auth_inv db'"
  using iss
proof (rule issue_tokens_effect)
  fix t assume t: "db' = put_token t db" "rft_id t = rid" "rft_user_id t = usr_id u" "rft_replaced_by_id t = None"
    "\<forall>s \<in> set (dvalues (id_tokens db)). rft_token_hash s \<noteq> rft_token_hash t"
  show ?thesis unfolding t(1)
  proof (rule put_token_inv [OF inv])
    show "rotation_ok (dset (rft_id t) t (id_tokens db)) t" by (simp add: rotation_ok_def t(4))
    have "rft_token_hash s \<noteq> rft_token_hash t" if "dget (id_tokens db) k = Some s" for k s
      using dget_values [OF auth_invD(5) [OF inv] that] t(5) by blast
    then show "(\<exists>s. dget (id_tokens db) (rft_id t) = Some s \<and> rft_token_hash t = rft_token_hash s \<and> rft_user_id t = rft_user_id s)
      \<or> rft_id t \<notin> set (dkeys (id_tokens db)) \<and> (\<forall>k s. dget (id_tokens db) k = Some s \<longrightarrow> rft_token_hash s \<noteq> rft_token_hash t)"
      using new t(2) by simp
  qed (use user t(3) in simp)
qed

section \<open>The requests of the endpoints\<close>

datatype auth_op =
    Login string string datetime string login_request "string option" "string option"
  | Refresh string string datetime string
  | Logout datetime string
  | Enroll datetime "string option" string "string list" string
  | Confirm datetime "string option" string
  | Create_User datetime "string option" string string user_create
  | Update_User datetime "string option" string "string option" "string option"

text \<open>A request on behalf of the current user, who may have to hold a permission.\<close>

definition on_behalf :: "current_user res \<Rightarrow> (current_user \<Rightarrow> id_db \<Rightarrow> 'a res \<times> id_db) \<Rightarrow> id_db \<Rightarrow> unit res \<times> id_db" where
  "on_behalf who act db = (case who of Inl e \<Rightarrow> (Inl e, db) | Inr u \<Rightarrow> (case act u db of (r, db') \<Rightarrow> (res_map (\<lambda>_. ()) r, db')))"

fun auth_service :: "auth_env \<Rightarrow> auth_op \<Rightarrow> id_db \<Rightarrow> unit res \<times> id_db" where
  "auth_service env (Login jti rid now code q ip agent) db =
     (case login env jti rid now (get_tenant_header (Some code)) q ip agent db of (r, db') \<Rightarrow> (res_map (\<lambda>_. ()) r, db'))"
| "auth_service env (Refresh jti rid now token) db = (case refresh env jti rid now token db of (r, db') \<Rightarrow> (res_map (\<lambda>_. ()) r, db'))"
| "auth_service env (Logout now token) db = logout env now token db"
| "auth_service env (Enroll now cred secret recovery nonce) db = on_behalf (get_current_user env now cred db)
     (\<lambda>u. enroll_mfa env secret recovery nonce (cur_id u) (cur_tenant_id u)) db"
| "auth_service env (Confirm now cred code) db = on_behalf (get_current_user env now cred db)
     (\<lambda>u. confirm_mfa env now (cur_id u) (cur_tenant_id u) code) db"
| "auth_service env (Create_User now cred salt uid q) db = on_behalf (require_permission ''user:create'' env now cred db)
     (create_user env salt uid q) db"
| "auth_service env (Update_User now cred uid name st) db = on_behalf (require_permission ''user:update'' env now cred db)
     (update_user uid name st) db"

text \<open>Identities are new.\<close>

fun auth_ok :: "auth_op \<Rightarrow> id_db \<Rightarrow> bool" where
  "auth_ok (Login jti rid now code q ip agent) db = (rid \<notin> set (dkeys (id_tokens db)))"
| "auth_ok (Refresh jti rid now token) db = (rid \<notin> set (dkeys (id_tokens db)))"
| "auth_ok (Create_User now cred salt uid q) db = (uid \<notin> set (dkeys (id_users db)))"
| "auth_ok _ db = True"

definition fits :: "auth_env \<Rightarrow> datetime \<Rightarrow> login_request \<Rightarrow> user \<Rightarrow> bool" where
  "fits env now q u \<longleftrightarrow> usr_email u = py_lower (lgn_email q) \<and> verify_password env (lgn_password q) (usr_password_hash u)
    \<and> usr_status u = ''ACTIVE'' \<and> \<not> is_locked now u \<and> check_mfa env now u (lgn_totp_code q) = Inr ()"

definition logged_in :: "datetime \<Rightarrow> user \<Rightarrow> user" where
  "logged_in now u = u\<lparr>usr_failed_login_count := 0, usr_locked_until := None, usr_last_login_at := Some now\<rparr>"

lemma logged_in_simps [simp]: "usr_id (logged_in now u) = usr_id u" "usr_tenant_id (logged_in now u) = usr_tenant_id u"
  "email_key (logged_in now u) = email_key u"
  by (simp_all add: logged_in_def email_key_def)

lemma login_effect:
  assumes inv: "auth_inv db" and log: "login env jti rid now code q ip agent db = (Inr r, db')"
  obtains t u rid' where "dget (id_tenants db) (ten_id t) = Some t" "ten_code t = code" "dget (id_users db) (usr_id u) = Some u" "usr_tenant_id u = ten_id t"
    "fits env now q u" "issue_tokens env jti rid now (logged_in now u) ip agent (put_user (logged_in now u) db) = (Inr (r, rid'), db')"
proof -
  obtain t where t: "get_tenant_by_code db code = Inr (Some t)" using log by (auto simp: login_def split: sum.splits option.splits)
  obtain u where u: "get_user_by_email db (ten_id t) (lgn_email q) = Inr (Some u)"
    using log by (auto simp: login_def t split: sum.splits option.splits)
  have ok: "verify_password env (lgn_password q) (usr_password_hash u)" "usr_status u = ''ACTIVE''" "\<not> is_locked now u"
    using log by (auto simp: login_def t u split: if_splits)
  have mfa: "check_mfa env now u (lgn_totp_code q) = Inr ()" using log by (auto simp: login_def t u ok split: sum.splits)
  obtain rid' where iss: "issue_tokens env jti rid now (logged_in now u) ip agent (put_user (logged_in now u) db) = (Inr (r, rid'), db')"
    using log by (auto simp: login_def t u ok mfa logged_in_def Let_def split: sum.splits prod.splits)
  have "dget (id_users db) (usr_id u) = Some u" "usr_tenant_id u = ten_id t" "usr_email u = py_lower (lgn_email q)"
    using u unfolding email_found [OF inv] by blast+
  then show thesis using that [of t u rid'] t ok mfa iss unfolding tenant_found [OF inv] fits_def by blast
qed

lemma login_ok:
  assumes inv: "auth_inv db" and t: "dget (id_tenants db) (ten_id t) = Some t" "ten_code t = code"
    and u: "dget (id_users db) (usr_id u) = Some u" "usr_tenant_id u = ten_id t" "fits env now q u"
    and new: "\<forall>s \<in> set (dvalues (id_tokens db)). rft_token_hash s \<noteq> hash_token env (create_refresh_token env now (usr_id u) (usr_tenant_id u) jti)"
  shows "\<exists>r db'. login env jti rid now code q ip agent db = (Inr r, db')"
proof -
  have t': "get_tenant_by_code db code = Inr (Some t)" unfolding tenant_found [OF inv] using t by blast
  have u': "get_user_by_email db (ten_id t) (lgn_email q) = Inr (Some u)" unfolding email_found [OF inv] using u by (simp add: fits_def)
  have "\<exists>r db'. issue_tokens env jti rid now (logged_in now u) ip agent (put_user (logged_in now u) db) = (Inr (r, rid), db')"
    by (rule issue_tokens_ok) (use new in simp)
  then show ?thesis using u(3) by (auto simp: login_def t' u' fits_def logged_in_def Let_def)
qed

text \<open>C27: A login succeeds exactly when the tenant has an active user with the email, the password is right, the account is not
  locked and the second factor, if any, is right; and its token is not stored already.\<close>

theorem login_exact:
  assumes "auth_inv db"
  shows "(\<exists>r db'. login env jti rid now code q ip agent db = (Inr r, db')) \<longleftrightarrow>
    (\<exists>t u. dget (id_tenants db) (ten_id t) = Some t \<and> ten_code t = code
      \<and> dget (id_users db) (usr_id u) = Some u \<and> usr_tenant_id u = ten_id t
      \<and> (usr_email u = py_lower (lgn_email q) \<and> ae_checkpw env (lgn_password q) (usr_password_hash u) = Some True \<and> usr_status u = ''ACTIVE''
      \<and> (\<forall>until. usr_locked_until u = Some until \<longrightarrow> until \<le> now)
      \<and> (usr_mfa_enabled u \<longrightarrow> (\<exists>c secret. lgn_totp_code q = Some c \<and> c \<noteq> []
          \<and> ae_fernet_decrypt env (case usr_mfa_secret_encrypted u of None \<Rightarrow> [] | Some s \<Rightarrow> s) = Some secret \<and> ae_totp_verify env now secret c)))
      \<and> hash_token env (create_refresh_token env now (usr_id u) (usr_tenant_id u) jti) \<notin> rft_token_hash ` set (dvalues (id_tokens db)))"
  (is "?succeeds \<longleftrightarrow> (\<exists>t u. ?t t \<and> ten_code t = code \<and> ?u u \<and> usr_tenant_id u = ten_id t \<and> ?fits u \<and> ?new u)")
proof -
  have mfa: "check_mfa env now u c = Inr () \<longleftrightarrow> (usr_mfa_enabled u \<longrightarrow> (\<exists>d secret. c = Some d \<and> d \<noteq> []
    \<and> ae_fernet_decrypt env (case usr_mfa_secret_encrypted u of None \<Rightarrow> [] | Some s \<Rightarrow> s) = Some secret \<and> ae_totp_verify env now secret d))" for u c
    by (cases c) (auto simp: check_mfa_def res_bind_def decrypt_value_def split: option.splits)
  have fits: "fits env now q u \<longleftrightarrow> ?fits u" for u
    unfolding fits_def mfa by (auto simp: verify_password_def is_locked_def not_less split: option.splits)
  show ?thesis
  proof
    assume ?succeeds
    then obtain r db' where log: "login env jti rid now code q ip agent db = (Inr r, db')" by blast
    show "\<exists>t u. ?t t \<and> ten_code t = code \<and> ?u u \<and> usr_tenant_id u = ten_id t \<and> ?fits u \<and> ?new u"
    proof (rule login_effect [OF assms log])
      fix t u rid' assume h: "?t t" "ten_code t = code" "?u u" "usr_tenant_id u = ten_id t" "fits env now q u"
        "issue_tokens env jti rid now (logged_in now u) ip agent (put_user (logged_in now u) db) = (Inr (r, rid'), db')"
      have "?new u" by (rule issue_tokens_effect [OF h(6)]) auto
      with h(1-5) show ?thesis unfolding fits by blast
    qed
  next
    assume "\<exists>t u. ?t t \<and> ten_code t = code \<and> ?u u \<and> usr_tenant_id u = ten_id t \<and> ?fits u \<and> ?new u"
    then obtain t u where h: "?t t" "ten_code t = code" "?u u" "usr_tenant_id u = ten_id t" "?fits u" "?new u" by blast
    have new: "\<forall>s \<in> set (dvalues (id_tokens db)). rft_token_hash s \<noteq> hash_token env (create_refresh_token env now (usr_id u) (usr_tenant_id u) jti)"
      using h(6) by (metis imageI)
    show ?succeeds by (rule login_ok [OF assms h(1-4) _ new]) (use h(5) fits in blast)
  qed
qed

section \<open>Refreshing\<close>

lemma refresh_effect:
  assumes inv: "auth_inv db" and ref: "refresh env jti rid now token db = (Inr r, db')"
  obtains t u tid claims db2 rid' where "decode_token env now token = Inr claims" "dget claims ''type'' = Some (JStr ''refresh'')"
    "dget (id_tokens db) (rft_id t) = Some t" "rft_token_hash t = hash_token env token" "rft_revoked_at t = None" "now \<le> rft_expires_at t"
    "Option.bind (dget claims ''tenant_id'') (claim_uuid env) = Some tid"
    "dget (id_users db) (rft_user_id t) = Some u" "usr_tenant_id u = tid" "usr_status u = ''ACTIVE''"
    "issue_tokens env jti rid now u None None (put_token (t\<lparr>rft_revoked_at := Some now\<rparr>) db) = (Inr (r, rid'), db2)"
    "db' = put_token (t\<lparr>rft_revoked_at := Some now, rft_replaced_by_id := Some rid'\<rparr>) db2"
proof -
  obtain claims where c: "decode_token env now token = Inr claims" using ref by (auto simp: refresh_def split: sum.splits)
  have ty: "dget claims ''type'' = Some (JStr ''refresh'')" using ref by (auto simp: refresh_def c split: if_splits)
  obtain t where t: "get_refresh_token_by_hash db (hash_token env token) = Inr (Some t)"
    using ref by (auto simp: refresh_def c ty split: sum.splits option.splits)
  have live: "rft_revoked_at t = None" "\<not> rft_expires_at t < now" using ref by (auto simp: refresh_def c ty t split: if_splits)
  obtain tid where tid: "Option.bind (dget claims ''tenant_id'') (claim_uuid env) = Some tid"
    using ref by (auto simp: refresh_def c ty t live split: option.splits)
  obtain u where u: "get_user_by_id db (rft_user_id t) tid = Inr (Some u)"
    using ref by (auto simp: refresh_def c ty t live tid split: sum.splits option.splits)
  have act: "usr_status u = ''ACTIVE''" using ref by (auto simp: refresh_def c ty t live tid u split: if_splits)
  obtain rid' db2 where iss: "issue_tokens env jti rid now u None None (put_token (t\<lparr>rft_revoked_at := Some now\<rparr>) db) = (Inr (r, rid'), db2)"
    "db' = put_token (t\<lparr>rft_revoked_at := Some now, rft_replaced_by_id := Some rid'\<rparr>) db2"
    using ref by (auto simp: refresh_def c ty t live tid u act Let_def split: sum.splits prod.splits)
  show thesis
    by (rule that [OF c ty _ _ _ _ tid _ _ act iss]) (use t u live in \<open>auto simp: token_found [OF inv] user_found [OF inv]\<close>)
qed

lemma refresh_inv:
  assumes inv: "auth_inv db" and new: "rid \<notin> set (dkeys (id_tokens db))" and ref: "refresh env jti rid now token db = (Inr r, db')"
  shows "auth_inv db'"
proof (rule refresh_effect [OF inv ref])
  fix t :: refresh_token and u tid claims db2 rid'
  let ?t = "t\<lparr>rft_revoked_at := Some now\<rparr>"
  assume h: "dget (id_tokens db) (rft_id t) = Some t" "dget (id_users db) (rft_user_id t) = Some u"
    "issue_tokens env jti rid now u None None (put_token ?t db) = (Inr (r, rid'), db2)"
    "db' = put_token (t\<lparr>rft_revoked_at := Some now, rft_replaced_by_id := Some rid'\<rparr>) db2"
  note I = auth_invD [OF inv]
  have uid: "usr_id u = rft_user_id t" by (rule store_find_key [OF I(3) h(2)])
  have uin: "rft_user_id t \<in> set (dkeys (id_users db))" using I(7) [OF h(1)] by blast
  have no: "rft_replaced_by_id t = None" if "rft_revoked_at t = None" using I(7) [OF h(1)] that by (auto simp: rotation_ok_def)
  have inv1: "auth_inv (put_token ?t db)"
    by (rule put_token_inv [OF inv]) (use h(1) uin I(7) [OF h(1)] in \<open>auto simp: rotation_ok_def dget_dset\<close>)
  have diff: "rid \<noteq> rft_id t" using new h(1) by (auto simp: map_of_eq_None_iff [symmetric])
  have new1: "rid \<notin> set (dkeys (id_tokens (put_token ?t db)))" using new diff by (simp add: AList.dom_update)
  have inv2: "auth_inv db2" by (rule issue_tokens_inv [OF inv1 new1 _ h(3)]) (use uid uin in simp)
  show ?thesis unfolding h(4)
    using h(3)
  proof (rule issue_tokens_effect)
    fix n assume n: "db2 = put_token n (put_token ?t db)" "rid' = rid" "rft_id n = rid" "rft_user_id n = usr_id u"
    show "auth_inv (put_token (t\<lparr>rft_revoked_at := Some now, rft_replaced_by_id := Some rid'\<rparr>) db2)"
      by (rule put_token_inv [OF inv2]) (use n diff uin uid in \<open>auto simp: rotation_ok_def dget_dset AList.dom_update\<close>)
  qed
qed

lemma login_inv:
  assumes inv: "auth_inv db" and new: "rid \<notin> set (dkeys (id_tokens db))" and log: "login env jti rid now code q ip agent db = (Inr r, db')"
  shows "auth_inv db'"
proof (rule login_effect [OF inv log])
  fix t u rid' assume h: "dget (id_users db) (usr_id u) = Some u"
    "issue_tokens env jti rid now (logged_in now u) ip agent (put_user (logged_in now u) db) = (Inr (r, rid'), db')"
  have inv1: "auth_inv (put_user (logged_in now u) db)" by (rule put_user_inv [OF inv]) (simp add: h(1))
  show ?thesis by (rule issue_tokens_inv [OF inv1 _ _ h(2)]) (use new in \<open>simp_all add: AList.dom_update\<close>)
qed

lemma logout_cases:
  assumes inv: "auth_inv db" and out: "logout env now token db = (r, db')"
  obtains (same) "db' = db" "\<And>k t. dget (id_tokens db) k = Some t \<Longrightarrow> rft_token_hash t = hash_token env token \<Longrightarrow> rft_revoked_at t \<noteq> None"
  | (revoked) t where "dget (id_tokens db) (rft_id t) = Some t" "rft_token_hash t = hash_token env token" "rft_revoked_at t = None"
      "db' = put_token (t\<lparr>rft_revoked_at := Some now\<rparr>) db"
proof (rule one_or_none_lookup [OF auth_invD(5,6) [OF inv], of "hash_token env token"])
  assume n: "one_or_none (filter (\<lambda>t. rft_token_hash t = hash_token env token) (dvalues (id_tokens db))) = Inr None"
    "\<And>k t. dget (id_tokens db) k = Some t \<Longrightarrow> rft_token_hash t \<noteq> hash_token env token"
  show thesis by (rule same) (use out n in \<open>auto simp: logout_def get_refresh_token_by_hash_def\<close>)
next
  fix t assume t: "one_or_none (filter (\<lambda>t. rft_token_hash t = hash_token env token) (dvalues (id_tokens db))) = Inr (Some t)"
    "dget (id_tokens db) (rft_id t) = Some t" "rft_token_hash t = hash_token env token"
  show thesis
  proof (cases "rft_revoked_at t")
    case None
    show thesis by (rule revoked [OF t(2,3) None]) (use out None in \<open>simp add: logout_def get_refresh_token_by_hash_def t(1)\<close>)
  next
    case (Some x)
    have "s = t" if "dget (id_tokens db) k = Some s" "rft_token_hash s = hash_token env token" for k s
      using auth_invD(6) [OF inv] that t(2,3) unfolding unique_by_def by (metis option.inject)
    then show thesis by (intro same) (use out Some in \<open>auto simp: logout_def get_refresh_token_by_hash_def t(1)\<close>)
  qed
qed

lemma logout_inv:
  assumes inv: "auth_inv db" and out: "logout env now token db = (r, db')"
  shows "auth_inv db'"
  using inv out
proof (cases rule: logout_cases)
  case (revoked t)
  show ?thesis unfolding revoked(4)
    by (rule put_token_inv [OF inv]) (use revoked(1) auth_invD(7) [OF inv revoked(1)] in \<open>auto simp: rotation_ok_def dget_dset\<close>)
qed (use inv in simp)

lemma enroll_effect:
  assumes inv: "auth_inv db" and en: "enroll_mfa env secret recovery nonce uid tid db = (Inr x, db')"
  obtains u where "dget (id_users db) uid = Some u" "usr_tenant_id u = tid"
    "db' = put_user (u\<lparr>usr_mfa_secret_encrypted := Some (encrypt_value env nonce secret),
      usr_mfa_recovery_hashes := Some (map (hash_recovery_code env) recovery), usr_mfa_enabled := False\<rparr>) db"
  using en user_found [OF inv] by (auto simp: enroll_mfa_def split: sum.splits option.splits)

lemma confirm_effect:
  assumes inv: "auth_inv db" and con: "confirm_mfa env now uid tid code db = (Inr x, db')"
  obtains u secret where "dget (id_users db) uid = Some u" "usr_tenant_id u = tid" "decrypt_value env (the (usr_mfa_secret_encrypted u)) = Inr secret"
    "truthy (usr_mfa_secret_encrypted u)" "ae_totp_verify env now secret code" "db' = put_user (u\<lparr>usr_mfa_enabled := True\<rparr>) db"
  using con user_found [OF inv] by (auto simp: confirm_mfa_def split: sum.splits option.splits if_splits)

lemma create_user_effect:
  assumes "create_user env salt uid q actor db = (Inr u, db')"
  shows "db' = put_user u db \<and> usr_id u = uid \<and> usr_tenant_id u = cur_tenant_id actor \<and> usr_email u = py_lower (usc_email q)
    \<and> usr_password_hash u = ae_hashpw env salt (usc_password q) \<and> usr_status u = ''ACTIVE'' \<and> usr_failed_login_count u = 0 \<and> usr_locked_until u = None
    \<and> \<not> usr_mfa_enabled u \<and> (\<forall>x \<in> set (dvalues (id_users db)). email_key x \<noteq> email_key u) \<and> cur_tenant_id actor \<in> set (dkeys (id_tenants db))"
  using assms by (auto simp: create_user_def Let_def email_key_def split: if_splits)

lemma update_effect:
  assumes inv: "auth_inv db" and up: "update_user uid name st actor db = (Inr x, db')"
  obtains u v where "dget (id_users db) uid = Some u" "db' = put_user v db" "usr_id v = usr_id u" "email_key v = email_key u"
    "usr_failed_login_count v = usr_failed_login_count u" "usr_locked_until v = usr_locked_until u"
  using up user_found [OF inv]
  by (auto simp: update_user_def Let_def email_key_def split: sum.splits option.splits if_splits)

lemma on_behalf_elim:
  assumes "on_behalf who act db = (Inr x, db')"
  obtains u y where "who = Inr u" "act u db = (Inr y, db')"
  using assms by (auto simp: on_behalf_def res_map_def res_bind_def split: sum.splits prod.splits)

text \<open>What a successful request writes: a token, a revocation, or a user under an identity of its own.\<close>

lemma auth_service_inv:
  assumes inv: "auth_inv db" and ok: "auth_ok op db" and ex: "auth_service env op db = (Inr x, db')"
  shows "auth_inv db'"
proof (cases op)
  case (Login jti rid now code q ip agent)
  then obtain r where "login env jti rid now (get_tenant_header (Some code)) q ip agent db = (Inr r, db')"
    using ex by (auto simp: res_map_def res_bind_def split: prod.splits sum.splits)
  then show ?thesis by (rule login_inv [OF inv, rotated]) (use ok Login in simp)
next
  case (Refresh jti rid now token)
  then obtain r where "refresh env jti rid now token db = (Inr r, db')"
    using ex by (auto simp: res_map_def res_bind_def split: prod.splits sum.splits)
  then show ?thesis by (rule refresh_inv [OF inv, rotated]) (use ok Refresh in simp)
next
  case (Logout now token)
  then show ?thesis using ex by (auto intro: logout_inv [OF inv])
next
  case (Enroll now cred secret recovery nonce)
  then obtain u :: current_user and y where "enroll_mfa env secret recovery nonce (cur_id u) (cur_tenant_id u) db = (Inr y, db')"
    using ex by (auto elim!: on_behalf_elim)
  then show ?thesis
  proof (rule enroll_effect [OF inv])
    fix v assume v: "dget (id_users db) (cur_id u) = Some v"
      "db' = put_user (v\<lparr>usr_mfa_secret_encrypted := Some (encrypt_value env nonce secret),
        usr_mfa_recovery_hashes := Some (map (hash_recovery_code env) recovery), usr_mfa_enabled := False\<rparr>) db"
    show ?thesis unfolding v(2) by (rule put_user_inv [OF inv]) (use v(1) store_find_key [OF auth_invD(3) [OF inv] v(1)] in \<open>simp add: email_key_def\<close>)
  qed
next
  case (Confirm now cred code)
  then obtain u :: current_user and y where "confirm_mfa env now (cur_id u) (cur_tenant_id u) code db = (Inr y, db')"
    using ex by (auto elim!: on_behalf_elim)
  then show ?thesis
  proof (rule confirm_effect [OF inv])
    fix v assume v: "dget (id_users db) (cur_id u) = Some v" "db' = put_user (v\<lparr>usr_mfa_enabled := True\<rparr>) db"
    show ?thesis unfolding v(2) by (rule put_user_inv [OF inv]) (use v(1) store_find_key [OF auth_invD(3) [OF inv] v(1)] in \<open>simp add: email_key_def\<close>)
  qed
next
  case (Create_User now cred salt uid q)
  then obtain u y where "create_user env salt uid q u db = (Inr y, db')"
    using ex by (auto elim!: on_behalf_elim)
  note c = create_user_effect [OF this]
  have "email_key v \<noteq> email_key y" if "dget (id_users db) k = Some v" for k v
    using c dget_values [OF auth_invD(3) [OF inv] that] by blast
  with c show ?thesis using put_user_inv [OF inv, of y] by blast
next
  case (Update_User now cred uid name st)
  then obtain u y where "update_user uid name st u db = (Inr y, db')"
    using ex by (auto elim!: on_behalf_elim)
  then show ?thesis
  proof (rule update_effect [OF inv])
    fix w v assume h: "dget (id_users db) uid = Some w" "db' = put_user v db" "usr_id v = usr_id w" "email_key v = email_key w"
    show ?thesis unfolding h(2) by (rule put_user_inv [OF inv]) (use h store_find_key [OF auth_invD(3) [OF inv] h(1)] in simp)
  qed
qed

interpretation auth: service_contract "auth_service env" auth_ok auth_inv for env
  by unfold_locales (rule auth_service_inv)

end
