(* ===== verification/Auth_Sessions.thy ===== *)
theory Auth_Sessions
  imports Auth_Life
begin

text \<open>
  Sessions: accounts are never locked, refresh tokens are used once, issued tokens work until they expire, and which requests
  are let through.
\<close>


section \<open>Accounts are never locked\<close>

definition lock_state :: "user \<Rightarrow> int \<times> datetime option" where "lock_state u = (usr_failed_login_count u, usr_locked_until u)"

lemma auth_service_users:
  assumes inv: "auth_inv db" and ex: "auth_service env op db = (Inr x, db')" and db': "dget (id_users db') k = Some v"
  shows "lock_state v = (0, None) \<or> (\<exists>u. dget (id_users db) k = Some u \<and> lock_state v = lock_state u)"
proof -
  have put: "?thesis" if "id_users db' = dset (usr_id w) w (id_users db)"
    "lock_state w = (0, None) \<or> (\<exists>u. dget (id_users db) (usr_id w) = Some u \<and> lock_state w = lock_state u)" for w
    using that db' by (auto simp: dget_dset split: if_splits)
  have put_one: "db' = put_user w db \<Longrightarrow>
    lock_state w = (0, None) \<or> (\<exists>u. dget (id_users db) (usr_id w) = Some u \<and> lock_state w = lock_state u) \<Longrightarrow> ?thesis" for w
    by (rule put [of w]) simp_all
  have key: "usr_id u = j" if "dget (id_users db) j = Some u" for j u by (rule store_find_key [OF auth_invD(3) [OF inv] that])
  show ?thesis
  proof (cases op)
    case (Login jti rid now code q ip agent)
    then obtain r where "login env jti rid now (get_tenant_header (Some code)) q ip agent db = (Inr r, db')"
      using ex by (auto simp: res_map_def res_bind_def split: prod.splits sum.splits)
    then show ?thesis
    proof (rule login_effect [OF inv])
      fix t u rid' assume i: "issue_tokens env jti rid now (logged_in now u) ip agent (put_user (logged_in now u) db) = (Inr (r, rid'), db')"
      have "id_users db' = dset (usr_id (logged_in now u)) (logged_in now u) (id_users db)" by (rule issue_tokens_effect [OF i]) simp
      then show ?thesis by (rule put) (simp add: lock_state_def logged_in_def)
    qed
  next
    case (Refresh jti rid now token)
    then obtain r where "refresh env jti rid now token db = (Inr r, db')"
      using ex by (auto simp: res_map_def res_bind_def split: prod.splits sum.splits)
    then have "id_users db' = id_users db" by (rule refresh_effect [OF inv]) (auto elim!: issue_tokens_effect)
    with db' show ?thesis by auto
  next
    case (Logout now token)
    then have "logout env now token db = (Inr x, db')" using ex by simp
    from inv this have "id_users db' = id_users db"
    proof (cases rule: logout_cases)
      case (revoked t)
      then show ?thesis by (simp only: put_token_tables)
    qed (rule arg_cong)
    with db' show ?thesis by auto
  next
    case (Enroll now cred secret recovery nonce)
    then obtain u :: current_user and y where "enroll_mfa env secret recovery nonce (cur_id u) (cur_tenant_id u) db = (Inr y, db')"
      using ex by (auto elim!: on_behalf_elim)
    then show ?thesis by (rule enroll_effect [OF inv]) (erule put_one, simp add: key lock_state_def)
  next
    case (Confirm now cred code)
    then obtain u :: current_user and y where "confirm_mfa env now (cur_id u) (cur_tenant_id u) code db = (Inr y, db')"
      using ex by (auto elim!: on_behalf_elim)
    then show ?thesis by (rule confirm_effect [OF inv]) (erule put_one, simp add: key lock_state_def)
  next
    case (Create_User now cred salt uid q)
    then obtain u y where "create_user env salt uid q u db = (Inr y, db')" using ex by (auto elim!: on_behalf_elim)
    from create_user_effect [OF this] show ?thesis by (intro put [of y]) (simp_all add: lock_state_def)
  next
    case (Update_User now cred uid name st)
    then obtain u y where "update_user uid name st u db = (Inr y, db')" using ex by (auto elim!: on_behalf_elim)
    then show ?thesis by (rule update_effect [OF inv]) (erule put_one, simp add: key lock_state_def)
  qed
qed

interpretation unlocked: service_contract "auth_service env" auth_ok
  "\<lambda>db. auth_inv db \<and> (\<forall>k u. dget (id_users db) k = Some u \<longrightarrow> lock_state u = (0, None))" for env
  by unfold_locales (metis auth_service_users auth_service_inv)

text \<open>C23: A failed login counts in its session only: the exception leaves the request without a commit, so whatever logins
  were tried, no account of a reachable database has a failed login or a lock.\<close>

theorem lockout_never_engages:
  assumes "reached (auth_service env) auth_ok start db" and "auth_inv start"
    and "\<forall>k u. dget (id_users start) k = Some u \<longrightarrow> usr_failed_login_count u = 0 \<and> usr_locked_until u = None"
    and "dget (id_users db) k = Some u"
  shows "usr_failed_login_count u = 0 \<and> usr_locked_until u = None \<and> \<not> is_locked now u"
proof -
  have "auth_inv start \<and> (\<forall>k u. dget (id_users start) k = Some u \<longrightarrow> lock_state u = (0, None))" using assms(2,3) by (simp add: lock_state_def)
  from unlocked.reached_inv [OF assms(1) this] assms(4) have "lock_state u = (0, None)" by blast
  then show ?thesis by (simp add: lock_state_def is_locked_def)
qed

section \<open>Refresh tokens\<close>

text \<open>A later entry of the same token: no field but the revocation and the successor differs, and a revocation stays.\<close>

definition follows :: "refresh_token \<Rightarrow> refresh_token \<Rightarrow> bool" where
  "follows t t' \<longleftrightarrow> rft_token_hash t' = rft_token_hash t \<and> rft_user_id t' = rft_user_id t \<and> rft_expires_at t' = rft_expires_at t
    \<and> (rft_revoked_at t \<noteq> None \<longrightarrow> rft_revoked_at t' \<noteq> None)"

lemma follows_refl [simp]: "follows t t" by (simp add: follows_def)

lemma put_token_follows:
  assumes "dget (id_tokens db) k = Some t" and "\<And>s'. dget (id_tokens db) (rft_id s) = Some s' \<Longrightarrow> follows s' s"
  shows "\<exists>t'. dget (id_tokens (put_token s db)) k = Some t' \<and> follows t t'"
  using assms by (auto simp: dget_dset)

lemma refresh_tokens:
  assumes inv: "auth_inv db" and new: "rid \<notin> set (dkeys (id_tokens db))" and ref: "refresh env jti rid now token db = (Inr r, db')"
  shows "(\<forall>k t. dget (id_tokens db) k = Some t \<longrightarrow> (\<exists>t'. dget (id_tokens db') k = Some t' \<and> follows t t'))
    \<and> (\<exists>k t'. dget (id_tokens db') k = Some t' \<and> rft_token_hash t' = hash_token env token \<and> rft_revoked_at t' \<noteq> None)"
proof (rule refresh_effect [OF inv ref])
  fix t :: refresh_token and u tid claims db2 rid'
  assume h: "dget (id_tokens db) (rft_id t) = Some t" "rft_token_hash t = hash_token env token"
    "issue_tokens env jti rid now u None None (put_token (t\<lparr>rft_revoked_at := Some now\<rparr>) db) = (Inr (r, rid'), db2)"
    "db' = put_token (t\<lparr>rft_revoked_at := Some now, rft_replaced_by_id := Some rid'\<rparr>) db2"
  have diff: "rft_id t \<noteq> rid" using new h(1) by (auto simp: map_of_eq_None_iff [symmetric])
  obtain n where n: "db2 = put_token n (put_token (t\<lparr>rft_revoked_at := Some now\<rparr>) db)" "rft_id n = rid"
    by (rule issue_tokens_effect [OF h(3)]) blast
  have tab: "dget (id_tokens db') k = (if k = rft_id t then Some (t\<lparr>rft_revoked_at := Some now, rft_replaced_by_id := Some rid'\<rparr>)
      else if k = rid then Some n else dget (id_tokens db) k)" for k
    using diff by (simp add: h(4) n dget_dset)
  have none: "dget (id_tokens db) rid = None" using new by (simp add: map_of_eq_None_iff)
  show ?thesis
  proof (intro conjI allI impI)
    fix k s assume s: "dget (id_tokens db) k = Some s"
    then have "k \<noteq> rid" using none by auto
    with s h(1) show "\<exists>t'. dget (id_tokens db') k = Some t' \<and> follows s t'" by (auto simp: tab follows_def)
  next
    show "\<exists>k t'. dget (id_tokens db') k = Some t' \<and> rft_token_hash t' = hash_token env token \<and> rft_revoked_at t' \<noteq> None"
      by (rule exI [of _ "rft_id t"]) (simp add: tab h(2))
  qed
qed

lemma auth_service_tokens:
  assumes inv: "auth_inv db" and ok: "auth_ok op db" and ex: "auth_service env op db = (Inr x, db')" and t: "dget (id_tokens db) k = Some t"
  shows "\<exists>t'. dget (id_tokens db') k = Some t' \<and> follows t t'"
proof -
  have same: ?thesis if "id_tokens db' = id_tokens db" using t that by auto
  show ?thesis
  proof (cases op)
    case (Login jti rid now code q ip agent)
    then obtain r where "login env jti rid now (get_tenant_header (Some code)) q ip agent db = (Inr r, db')"
      using ex by (auto simp: res_map_def res_bind_def split: prod.splits sum.splits)
    then show ?thesis
    proof (rule login_effect [OF inv])
      fix c u rid' assume i: "issue_tokens env jti rid now (logged_in now u) ip agent (put_user (logged_in now u) db) = (Inr (r, rid'), db')"
      show ?thesis
      proof (rule issue_tokens_effect [OF i])
        fix n assume n: "db' = put_token n (put_user (logged_in now u) db)" "rft_id n = rid"
        have "dget (id_tokens db) rid = None" using ok Login by (simp add: map_of_eq_None_iff)
        with t show ?thesis by (auto simp: n dget_dset)
      qed
    qed
  next
    case (Refresh jti rid now token)
    then obtain r where "refresh env jti rid now token db = (Inr r, db')"
      using ex by (auto simp: res_map_def res_bind_def split: prod.splits sum.splits)
    then show ?thesis using refresh_tokens [OF inv] ok Refresh t by simp
  next
    case (Logout now token)
    then have "logout env now token db = (Inr x, db')" using ex by simp
    then show ?thesis by (cases rule: logout_cases [OF inv]) (use t in \<open>auto simp: dget_dset follows_def\<close>)
  next
    case (Enroll now cred secret recovery nonce)
    then obtain u :: current_user and y where "enroll_mfa env secret recovery nonce (cur_id u) (cur_tenant_id u) db = (Inr y, db')"
      using ex by (auto elim!: on_behalf_elim)
    then show ?thesis by (rule enroll_effect [OF inv]) (rule same, simp)
  next
    case (Confirm now cred code)
    then obtain u :: current_user and y where "confirm_mfa env now (cur_id u) (cur_tenant_id u) code db = (Inr y, db')"
      using ex by (auto elim!: on_behalf_elim)
    then show ?thesis by (rule confirm_effect [OF inv]) (rule same, simp)
  next
    case (Create_User now cred salt uid q)
    then obtain u y where "create_user env salt uid q u db = (Inr y, db')" using ex by (auto elim!: on_behalf_elim)
    from create_user_effect [OF this] show ?thesis by (intro same) simp
  next
    case (Update_User now cred uid name st)
    then obtain u y where "update_user uid name st u db = (Inr y, db')" using ex by (auto elim!: on_behalf_elim)
    then show ?thesis by (rule update_effect [OF inv]) (rule same, simp)
  qed
qed

text \<open>The hash of a token that was used or revoked.\<close>

definition spent :: "string \<Rightarrow> id_db \<Rightarrow> bool" where
  "spent h db \<longleftrightarrow> (\<exists>k t. dget (id_tokens db) k = Some t \<and> rft_token_hash t = h \<and> rft_revoked_at t \<noteq> None)"

interpretation spent_tokens: service_contract "auth_service env" auth_ok "\<lambda>db. auth_inv db \<and> spent h db" for env h
proof
  fix db op x db' assume h: "auth_inv db \<and> spent h db" "auth_ok op db" "auth_service env op db = (Inr x, db')"
  then obtain k t where t: "dget (id_tokens db) k = Some t" "rft_token_hash t = h" "rft_revoked_at t \<noteq> None" by (auto simp: spent_def)
  from auth_service_tokens [OF _ h(2,3) t(1)] h(1) t(2,3) have "spent h db'" by (auto simp: spent_def follows_def)
  with auth_service_inv [OF _ h(2,3)] h(1) show "auth_inv db' \<and> spent h db'" by blast
qed

lemma spent_refused:
  assumes inv: "auth_inv db" and sp: "spent (hash_token env token) db"
  shows "\<exists>e. refresh env jti rid now token db = (Inl e, db)"
proof -
  obtain k t where t: "dget (id_tokens db) k = Some t" "rft_token_hash t = hash_token env token" "rft_revoked_at t \<noteq> None"
    using sp by (auto simp: spent_def)
  have "rft_id t = k" by (rule store_find_key [OF auth_invD(5) [OF inv] t(1)])
  then have "get_refresh_token_by_hash db (hash_token env token) = Inr (Some t)" unfolding token_found [OF inv] using t by simp
  then show ?thesis using t(3) by (auto simp: refresh_def split: sum.splits)
qed

text \<open>C21: A refresh token is accepted once: after a request with it succeeded, and whatever happens then, the next one is refused.\<close>

theorem refresh_token_used_once:
  assumes "reached (auth_service env) auth_ok start db" and "auth_inv start" and "rid \<notin> set (dkeys (id_tokens db))"
    and "refresh env jti rid now token db = (Inr r, db1)" and "reached (auth_service env) auth_ok db1 db2"
  shows "\<exists>e. refresh env jti' rid' now' token db2 = (Inl e, db2)"
proof -
  have inv: "auth_inv db" by (rule auth.reached_inv [OF assms(1,2)])
  have "auth_inv db1 \<and> spent (hash_token env token) db1"
    using refresh_inv [OF inv assms(3,4)] refresh_tokens [OF inv assms(3,4)] unfolding spent_def by blast
  from spent_tokens.reached_inv [OF assms(5) this] show ?thesis using spent_refused by blast
qed

text \<open>After a logout a stored refresh token is refused for ever.\<close>

theorem logout_is_final:
  assumes "reached (auth_service env) auth_ok start db" and "auth_inv start"
    and "dget (id_tokens db) k = Some t" and "rft_token_hash t = hash_token env token"
    and "logout env now token db = (r, db1)" and "reached (auth_service env) auth_ok db1 db2"
  shows "r = Inr () \<and> (\<exists>e. refresh env jti rid now' token db2 = (Inl e, db2))"
proof -
  have inv: "auth_inv db" by (rule auth.reached_inv [OF assms(1,2)])
  have "rft_id t = k" by (rule store_find_key [OF auth_invD(5) [OF inv] assms(3)])
  then have found: "get_refresh_token_by_hash db (hash_token env token) = Inr (Some t)" unfolding token_found [OF inv] using assms(3,4) by simp
  have "spent (hash_token env token) db1"
    using inv assms(5)
  proof (cases rule: logout_cases)
    case same
    show ?thesis unfolding spent_def same(1) using same(2) [OF assms(3,4)] assms(3,4) by blast
  next
    case (revoked s)
    show ?thesis unfolding spent_def by (rule exI [of _ "rft_id s"]) (simp add: revoked dget_dset)
  qed
  with logout_inv [OF inv assms(5)] have "auth_inv db1 \<and> spent (hash_token env token) db1" by blast
  from spent_tokens.reached_inv [OF assms(6) this] have "\<exists>e. refresh env jti rid now' token db2 = (Inl e, db2)" using spent_refused by blast
  then show ?thesis using assms(5) by (auto simp: logout_def found split: if_splits)
qed

text \<open>The chain of rotations: the successor of a token is a stored token of the same user, and a token with a successor is revoked.\<close>

theorem rotation_consistent:
  assumes "reached (auth_service env) auth_ok start db" and "auth_inv start" and "dget (id_tokens db) k = Some t"
    and "rft_replaced_by_id t = Some j"
  shows "rft_revoked_at t \<noteq> None \<and> (\<exists>t'. dget (id_tokens db) j = Some t' \<and> rft_user_id t' = rft_user_id t) \<and> rft_user_id t \<in> set (dkeys (id_users db))"
  using auth_invD(7) [OF auth.reached_inv [OF assms(1,2)] assms(3)] assms(4) by (auto simp: rotation_ok_def)

section \<open>Issued tokens\<close>

text \<open>What the library of tokens promises: a token the service signed is decoded, until it expires, to the claims it was made from.\<close>

definition jwt_sound :: "auth_env \<Rightarrow> bool" where
  "jwt_sound env \<longleftrightarrow> (\<forall>now s tn j e kind. now \<le> e \<longrightarrow> (\<exists>c. ae_jwt_decode env now (ae_jwt_encode env (token_payload s tn j e kind)) = Some c
     \<and> dget c ''sub'' = Some (JStr s) \<and> dget c ''tenant_id'' = Some (JStr tn) \<and> dget c ''type'' = Some (JStr kind)))"

lemma refresh_ok:
  assumes inv: "auth_inv db" and c: "ae_jwt_decode env now token = Some c" "dget c ''type'' = Some (JStr ''refresh'')" "dget c ''tenant_id'' = Some (JStr tn)"
    and t: "dget (id_tokens db) k = Some t" "rft_token_hash t = hash_token env token" "rft_revoked_at t = None" "now \<le> rft_expires_at t"
    and u: "dget (id_users db) (rft_user_id t) = Some u" "usr_tenant_id u = tn" "usr_status u = ''ACTIVE''" and uuid: "ae_parse_uuid env tn = Some tn"
    and new: "\<forall>s \<in> set (dvalues (id_tokens db)). rft_token_hash s \<noteq> hash_token env (create_refresh_token env now (usr_id u) tn jti)"
  shows "\<exists>r db'. refresh env jti rid now token db = (Inr r, db')"
proof -
  have id: "rft_id t = k" by (rule store_find_key [OF auth_invD(5) [OF inv] t(1)])
  have t': "get_refresh_token_by_hash db (hash_token env token) = Inr (Some t)" unfolding token_found [OF inv] using t id by simp
  have u': "get_user_by_id db (rft_user_id t) tn = Inr (Some u)" unfolding user_found [OF inv] using u by simp
  have old: "rft_token_hash t \<noteq> hash_token env (create_refresh_token env now (usr_id u) tn jti)"
    using new dget_values [OF auth_invD(5) [OF inv] t(1)] by blast
  have "\<forall>s \<in> set (dvalues (id_tokens (put_token (t\<lparr>rft_revoked_at := Some now\<rparr>) db))).
      rft_token_hash s \<noteq> hash_token env (create_refresh_token env now (usr_id u) (usr_tenant_id u) jti)"
    using new old u(2) set_dset [of "id_tokens db"] auth_invD(5) [OF inv] by (auto simp: store_inv_def)
  from issue_tokens_ok [OF this] obtain r db2 where
    "issue_tokens env jti rid now u None None (put_token (t\<lparr>rft_revoked_at := Some now\<rparr>) db) = (Inr (r, rid), db2)" by blast
  then show ?thesis using c t' u' t(3,4) u(3) uuid by (simp add: refresh_def decode_token_def claim_uuid_def Let_def)
qed

text \<open>C39: The refresh token of a login is accepted until it expires.\<close>

theorem issued_token_refreshes:
  assumes "auth_inv db" and "rid \<notin> set (dkeys (id_tokens db))" and "login env jti rid now code q ip agent db = (Inr r, db1)"
    and "jwt_sound env" and "\<forall>i \<in> set (dkeys (id_tenants db)). ae_parse_uuid env i = Some i"
    and "now \<le> now2" and "now2 \<le> now + days (ae_refresh_days env)"
    and "\<forall>u tn. hash_token env (create_refresh_token env now2 u tn jti2) \<notin> rft_token_hash ` set (dvalues (id_tokens db1))"
  shows "\<exists>r2 db2. refresh env jti2 rid2 now2 (tkr_refresh_token r) db1 = (Inr r2, db2)"
proof (rule login_effect [OF assms(1,3)])
  fix t u rid' assume h: "dget (id_tenants db) (ten_id t) = Some t" "dget (id_users db) (usr_id u) = Some u" "usr_tenant_id u = ten_id t"
    "fits env now q u" "issue_tokens env jti rid now (logged_in now u) ip agent (put_user (logged_in now u) db) = (Inr (r, rid'), db1)"
  let ?tok = "create_refresh_token env now (usr_id u) (usr_tenant_id u) jti"
  show ?thesis
  proof (rule issue_tokens_effect [OF h(5)])
    fix n assume n: "db1 = put_token n (put_user (logged_in now u) db)" "rft_id n = rid" "rft_user_id n = usr_id (logged_in now u)" "rft_revoked_at n = None"
      "rft_token_hash n = hash_token env (create_refresh_token env now (usr_id (logged_in now u)) (usr_tenant_id (logged_in now u)) jti)"
      "rft_expires_at n = now + days (ae_refresh_days env)"
      "tkr_refresh_token r = create_refresh_token env now (usr_id (logged_in now u)) (usr_tenant_id (logged_in now u)) jti"
    have tok: "tkr_refresh_token r = ?tok" by (simp add: n(7))
    obtain c where c: "ae_jwt_decode env now2 ?tok = Some c" "dget c ''tenant_id'' = Some (JStr (usr_tenant_id u))" "dget c ''type'' = Some (JStr ''refresh'')"
      using assms(4,7) unfolding jwt_sound_def create_refresh_token_def by blast
    have "ten_id t \<in> set (dkeys (id_tenants db))" using h(1) by (force dest: map_of_SomeD)
    then have uuid: "ae_parse_uuid env (usr_tenant_id u) = Some (usr_tenant_id u)" using assms(5) unfolding h(3) by (rule bspec [rotated])
    have inv1: "auth_inv db1" by (rule login_inv [OF assms(1-3)])
    show ?thesis unfolding tok
    proof (rule refresh_ok [OF inv1 c(1,3,2), of rid n "logged_in now u"])
      show "\<forall>s \<in> set (dvalues (id_tokens db1)). rft_token_hash s \<noteq> hash_token env (create_refresh_token env now2 (usr_id (logged_in now u)) (usr_tenant_id u) jti2)"
        using assms(8) by (metis imageI)
    qed (use n h(4) uuid assms(7) in \<open>auto simp: dget_dset logged_in_def fits_def\<close>)
  qed
qed

text \<open>The access token of a login identifies the user and the tenant until it expires.\<close>

theorem access_token_identifies:
  assumes "auth_inv db" and "login env jti rid now code q ip agent db = (Inr r, db1)"
    and "jwt_sound env" and "\<forall>i \<in> set (dkeys (id_tenants db)) \<union> set (dkeys (id_users db)). ae_parse_uuid env i = Some i"
    and "now2 \<le> now + minutes (ae_access_minutes env)"
  shows "\<exists>c u. get_current_user env now2 (Some (tkr_access_token r)) db1 = Inr c \<and> dget (id_users db) (cur_id c) = Some u
    \<and> usr_email u = py_lower (lgn_email q) \<and> cur_tenant_id c = usr_tenant_id u
    \<and> (cur_permissions c, cur_roles c) = get_user_permissions_and_roles db (usr_id u)"
proof (rule login_effect [OF assms(1,2)])
  fix t u rid' assume h: "dget (id_tenants db) (ten_id t) = Some t" "dget (id_users db) (usr_id u) = Some u" "usr_tenant_id u = ten_id t"
    "fits env now q u" "issue_tokens env jti rid now (logged_in now u) ip agent (put_user (logged_in now u) db) = (Inr (r, rid'), db1)"
  let ?tok = "create_access_token env now (usr_id u) (usr_tenant_id u) jti"
  show ?thesis
  proof (rule issue_tokens_effect [OF h(5)])
    fix n assume n: "db1 = put_token n (put_user (logged_in now u) db)"
      "tkr_access_token r = create_access_token env now (usr_id (logged_in now u)) (usr_tenant_id (logged_in now u)) jti"
    obtain c where c: "ae_jwt_decode env now2 ?tok = Some c" "dget c ''sub'' = Some (JStr (usr_id u))"
      "dget c ''tenant_id'' = Some (JStr (usr_tenant_id u))" "dget c ''type'' = Some (JStr ''access'')"
      using assms(3,5) unfolding jwt_sound_def create_access_token_def by blast
    have "ten_id t \<in> set (dkeys (id_tenants db))" "usr_id u \<in> set (dkeys (id_users db))" using h(1,2) by (force dest: map_of_SomeD)+
    then have uuid: "ae_parse_uuid env (usr_tenant_id u) = Some (usr_tenant_id u)" "ae_parse_uuid env (usr_id u) = Some (usr_id u)"
      using assms(4) h(3) by auto
    have same: "get_user_permissions_and_roles db1 (usr_id u) = get_user_permissions_and_roles db (usr_id u)"
      by (simp add: n get_user_permissions_and_roles_def collect_roles_exact role_permissions_def user_roles_def put_token_def put_user_def)
    have tok: "tkr_access_token r = ?tok" by (simp add: n(2))
    show ?thesis unfolding tok
      using c uuid h(2,4) by (auto simp: get_current_user_def get_current_user_optional_def decode_token_def required_uuid_def same fits_def split: prod.splits)
  qed
qed

section \<open>New users and the second factor\<close>

text \<open>A new user can log in with the password the account was created with.\<close>

theorem created_user_can_log_in:
  assumes "auth_inv db" and "uid \<notin> set (dkeys (id_users db))" and "create_user env salt uid q actor db = (Inr u, db1)"
    and "dget (id_tenants db) (cur_tenant_id actor) = Some t" and "ae_checkpw env (usc_password q) (ae_hashpw env salt (usc_password q)) = Some True"
    and "lgn_email l = usc_email q" and "lgn_password l = usc_password q"
    and "hash_token env (create_refresh_token env now uid (cur_tenant_id actor) jti) \<notin> rft_token_hash ` set (dvalues (id_tokens db))"
  shows "\<exists>r db2. login env jti rid now (ten_code t) l ip agent db1 = (Inr r, db2)"
proof -
  note c = create_user_effect [OF assms(3)]
  have "email_key v \<noteq> email_key u" if "dget (id_users db) k = Some v" for k v
    using c dget_values [OF auth_invD(3) [OF assms(1)] that] by blast
  then have inv1: "auth_inv db1" using put_user_inv [OF assms(1), of u] c by blast
  have t: "ten_id t = cur_tenant_id actor" by (rule store_find_key [OF auth_invD(1) [OF assms(1)] assms(4)])
  show ?thesis
  proof (rule login_ok [OF inv1, of t _ u])
    show "fits env now l u" using c assms(5-7) by (simp add: fits_def verify_password_def is_locked_def check_mfa_def)
    show "\<forall>s \<in> set (dvalues (id_tokens db1)). rft_token_hash s \<noteq> hash_token env (create_refresh_token env now (usr_id u) (usr_tenant_id u) jti)"
      using assms(8) c by (metis imageI put_user_tables(2))
  qed (use c t assms(4) in \<open>simp_all add: dget_dset\<close>)
qed

text \<open>To begin the enrolment of a second factor again switches the old one off: the password alone is enough for a login then.\<close>

theorem enrolment_disables_mfa:
  assumes "auth_inv db" and "enroll_mfa env secret recovery nonce uid tid db = (Inr x, db1)"
    and "dget (id_tenants db) tid = Some t" and "dget (id_users db) uid = Some u" and "usr_email u = py_lower (lgn_email q)"
    and "ae_checkpw env (lgn_password q) (usr_password_hash u) = Some True" and "usr_status u = ''ACTIVE''" and "usr_locked_until u = None"
    and "hash_token env (create_refresh_token env now uid tid jti) \<notin> rft_token_hash ` set (dvalues (id_tokens db))"
  shows "\<exists>r db2. login env jti rid now (ten_code t) (q\<lparr>lgn_totp_code := None\<rparr>) ip agent db1 = (Inr r, db2)"
proof (rule enroll_effect [OF assms(1,2)])
  fix v :: user
  let ?v = "v\<lparr>usr_mfa_secret_encrypted := Some (encrypt_value env nonce secret),
      usr_mfa_recovery_hashes := Some (map (hash_recovery_code env) recovery), usr_mfa_enabled := False\<rparr>"
  assume v: "dget (id_users db) uid = Some v" "usr_tenant_id v = tid" "db1 = put_user ?v db"
  have vu: "v = u" using v(1) assms(4) by simp
  have id: "usr_id v = uid" by (rule store_find_key [OF auth_invD(3) [OF assms(1)] v(1)])
  have tid: "ten_id t = tid" by (rule store_find_key [OF auth_invD(1) [OF assms(1)] assms(3)])
  have inv1: "auth_inv db1" unfolding v(3) by (rule put_user_inv [OF assms(1)]) (use v(1) id in \<open>simp add: email_key_def\<close>)
  show ?thesis
  proof (rule login_ok [OF inv1, of t _ ?v])
    show "fits env now (q\<lparr>lgn_totp_code := None\<rparr>) ?v" using assms(5-8) vu by (simp add: fits_def verify_password_def is_locked_def check_mfa_def)
    show "\<forall>s \<in> set (dvalues (id_tokens db1)). rft_token_hash s \<noteq> hash_token env (create_refresh_token env now (usr_id ?v) (usr_tenant_id ?v) jti)"
      using assms(9) v id by (auto simp: image_iff)
  qed (use v id tid assms(3) in \<open>simp_all add: dget_dset\<close>)
qed

section \<open>Permissions\<close>

text \<open>C38: A request is let through exactly when it carries an access token whose subject has the permission, and the subject has no
  portal role if the permission is internal.\<close>

theorem require_permission_exact:
  "(\<exists>u. require_permission p env now cred db = Inr u) \<longleftrightarrow>
    (\<exists>token c s t uid tid. cred = Some token \<and> ae_jwt_decode env now token = Some c \<and> dget c ''type'' = Some (JStr ''access'')
      \<and> dget c ''sub'' = Some (JStr s) \<and> ae_parse_uuid env s = Some uid \<and> dget c ''tenant_id'' = Some (JStr t) \<and> ae_parse_uuid env t = Some tid
      \<and> p \<in> fst (get_user_permissions_and_roles db uid)
      \<and> \<not> ((\<exists>r \<in> {CUSTOMER_PORTAL, AGENT_PORTAL, CARRIER_PORTAL}. role_value r \<in> snd (get_user_permissions_and_roles db uid))
          \<and> (\<exists>pre \<in> {''finance:'', ''audit:'', ''role:''}. take (length pre) p = pre)))"
  (is "?let \<longleftrightarrow> ?exact")
proof -
  have uuid: "required_uuid env c k = Inr i \<longleftrightarrow> (\<exists>s. dget c k = Some (JStr s) \<and> ae_parse_uuid env s = Some i)" for c k i
    by (auto simp: required_uuid_def split: option.splits json.splits)
  have decode: "decode_token env now token = Inr c \<longleftrightarrow> ae_jwt_decode env now token = Some c" for token c
    by (simp add: decode_token_def split: option.split)
  have user: "get_current_user env now cred db = Inr u \<longleftrightarrow> (\<exists>token c uid tid. cred = Some token \<and> ae_jwt_decode env now token = Some c
      \<and> dget c ''type'' = Some (JStr ''access'') \<and> required_uuid env c ''sub'' = Inr uid \<and> required_uuid env c ''tenant_id'' = Inr tid
      \<and> u = \<lparr>cur_id = uid, cur_tenant_id = tid, cur_permissions = fst (get_user_permissions_and_roles db uid),
          cur_roles = snd (get_user_permissions_and_roles db uid),
          cur_is_portal = (\<exists>r \<in> set portal_roles. role_value r \<in> snd (get_user_permissions_and_roles db uid))\<rparr>)" for u
    unfolding get_current_user_def get_current_user_optional_def decode [symmetric]
    by (auto simp: res_bind_def case_prod_unfold split: option.splits sum.splits if_splits)
  have "?let \<longleftrightarrow> (\<exists>u. get_current_user env now cred db = Inr u \<and> p \<in> cur_permissions u
      \<and> \<not> (cur_is_portal u \<and> starts_with_any [''finance:'', ''audit:'', ''role:''] p))"
    by (auto simp: require_permission_def res_bind_def split: sum.splits)
  also have "\<dots> \<longleftrightarrow> (\<exists>token c uid tid. cred = Some token \<and> ae_jwt_decode env now token = Some c \<and> dget c ''type'' = Some (JStr ''access'')
      \<and> required_uuid env c ''sub'' = Inr uid \<and> required_uuid env c ''tenant_id'' = Inr tid \<and> p \<in> fst (get_user_permissions_and_roles db uid)
      \<and> \<not> ((\<exists>r \<in> set portal_roles. role_value r \<in> snd (get_user_permissions_and_roles db uid)) \<and> starts_with_any [''finance:'', ''audit:'', ''role:''] p))"
    (is "_ \<longleftrightarrow> ?user")
  proof
    assume "\<exists>u. get_current_user env now cred db = Inr u \<and> p \<in> cur_permissions u
      \<and> \<not> (cur_is_portal u \<and> starts_with_any [''finance:'', ''audit:'', ''role:''] p)"
    then show ?user unfolding user by (elim exE conjE) (simp only: current_user.select_convs, blast)
  next
    assume ?user
    then show "\<exists>u. get_current_user env now cred db = Inr u \<and> p \<in> cur_permissions u
      \<and> \<not> (cur_is_portal u \<and> starts_with_any [''finance:'', ''audit:'', ''role:''] p)"
      unfolding user by (elim exE conjE) (intro exI conjI, assumption+, rule refl, simp_all only: current_user.select_convs not_False_eq_True)
  qed
  also have "\<dots> \<longleftrightarrow> ?exact"
    unfolding uuid by (simp add: portal_roles_def starts_with_any_def) blast
  finally show ?thesis .
qed

text \<open>The status of the account is not among it: a suspended user keeps the access of the token.\<close>

theorem authorization_ignores_account:
  "require_permission p env now cred (db\<lparr>id_users := users, id_tokens := tokens\<rparr>) = require_permission p env now cred db"
proof -
  have "get_user_permissions_and_roles (db\<lparr>id_users := users, id_tokens := tokens\<rparr>) u = get_user_permissions_and_roles db u" for u
    by (simp add: get_user_permissions_and_roles_def collect_roles_exact role_permissions_def user_roles_def)
  then show ?thesis by (simp add: require_permission_def get_current_user_def get_current_user_optional_def cong: sum.case_cong option.case_cong if_cong)
qed

section \<open>An instance\<close>

text \<open>Tokens as the concatenation of their texts with their lengths; passwords and secrets stand for themselves.\<close>

definition enc :: "string \<Rightarrow> string" where "enc s = replicate (length s) CHR ''1'' @ CHR ''0'' # s"

definition dec :: "string \<Rightarrow> string \<times> string" where
  "dec s = (let n = length (takeWhile (\<lambda>c. c = CHR ''1'') s); r = drop (Suc n) s in (take n r, drop n r))"

lemma dec_enc: "dec (enc s @ r) = (s, r)"
proof -
  have "takeWhile (\<lambda>c. c = CHR ''1'') (replicate n CHR ''1'' @ CHR ''0'' # xs) = replicate n CHR ''1''" for n xs
    by (induction n) simp_all
  then show ?thesis by (simp add: dec_def enc_def Let_def)
qed

definition claim_str :: "claims \<Rightarrow> string \<Rightarrow> string" where
  "claim_str c k = (case dget c k of Some (JStr s) \<Rightarrow> s | _ \<Rightarrow> [])"

definition sample_encode :: "claims \<Rightarrow> string" where
  "sample_encode c = enc (claim_str c ''sub'') @ enc (claim_str c ''tenant_id'') @ enc (claim_str c ''jti'') @ enc (claim_str c ''type'')"

definition sample_decode :: "datetime \<Rightarrow> string \<Rightarrow> claims option" where
  "sample_decode now s = (case dec s of (sub, s) \<Rightarrow> case dec s of (tn, s) \<Rightarrow> case dec s of (j, s) \<Rightarrow> case dec s of (kind, _) \<Rightarrow>
     Some [(''sub'', JStr sub), (''tenant_id'', JStr tn), (''jti'', JStr j), (''type'', JStr kind)])"

definition sample_auth_env :: auth_env where
  "sample_auth_env = \<lparr>ae_checkpw = (\<lambda>p h. Some (h = p)), ae_hashpw = (\<lambda>salt p. p), ae_sha256 = (\<lambda>s. s), ae_jwt_encode = sample_encode,
     ae_jwt_decode = sample_decode, ae_fernet_encrypt = (\<lambda>nonce s. s), ae_fernet_decrypt = Some, ae_totp_verify = (\<lambda>now s c. c = s),
     ae_totp_uri = (\<lambda>s e i. i @ e @ s), ae_parse_uuid = Some, ae_access_minutes = 15, ae_refresh_days = 7, ae_max_failed = 5, ae_lockout_minutes = 30\<rparr>"

lemma sample_env_simps [simp]: "ae_parse_uuid sample_auth_env = Some" "ae_jwt_encode sample_auth_env = sample_encode"
  "ae_jwt_decode sample_auth_env = sample_decode" "ae_refresh_days sample_auth_env = 7" "ae_access_minutes sample_auth_env = 15"
  "ae_checkpw sample_auth_env p h = Some (h = p)" "ae_hashpw sample_auth_env salt p = p" "hash_token sample_auth_env s = s"
  by (simp_all add: sample_auth_env_def hash_token_def)

lemma sample_env_sound: "jwt_sound sample_auth_env"
  by (simp add: jwt_sound_def token_payload_def sample_encode_def sample_decode_def claim_str_def dec_enc dec_enc [of _ "[]", simplified])

definition sample_tenant :: tenant where
  "sample_tenant = \<lparr>ten_id = ''T'', ten_code = ''default'', ten_name = ''Default Tenant'', ten_status = ''ACTIVE''\<rparr>"

definition sample_user :: user where
  "sample_user = \<lparr>usr_id = ''U'', usr_tenant_id = ''T'', usr_email = ''a@b.c'', usr_password_hash = ''ChangeMe123!'', usr_full_name = ''A'',
     usr_status = ''ACTIVE'', usr_failed_login_count = 0, usr_locked_until = None, usr_mfa_enabled = True, usr_mfa_secret_encrypted = Some ''K'',
     usr_mfa_recovery_hashes = None, usr_last_login_at = None, usr_created_by = None, usr_updated_by = None\<rparr>"

definition sample_role :: role where
  "sample_role = \<lparr>role_id = ''R'', role_tenant_id = ''T'', role_name = ''Super Admin'', role_code = ''SUPER_ADMIN'', role_is_system = True\<rparr>"

definition sample_assignment :: user_branch_role where
  "sample_assignment = \<lparr>ubr_user_id = ''U'', ubr_branch_id = ''B'', ubr_role_id = ''R''\<rparr>"

definition sample_id_db :: id_db where
  "sample_id_db = \<lparr>id_tenants = [(''T'', sample_tenant)], id_users = [(''U'', sample_user)], id_roles = [(''R'', sample_role)], id_permissions = [],
     id_grants = [], id_assignments = [sample_assignment], id_tokens = []\<rparr>"

lemma sample_db_simps [simp]: "id_tenants sample_id_db = [(''T'', sample_tenant)]" "id_users sample_id_db = [(''U'', sample_user)]"
  "id_tokens sample_id_db = []" "id_roles sample_id_db = [(''R'', sample_role)]" "id_assignments sample_id_db = [sample_assignment]"
  by (simp_all add: sample_id_db_def)

lemma sample_user_simps [simp]: "usr_id sample_user = ''U''" "usr_tenant_id sample_user = ''T''" "usr_email sample_user = ''a@b.c''"
  "usr_status sample_user = ''ACTIVE''" "usr_failed_login_count sample_user = 0" "usr_locked_until sample_user = None"
  "usr_password_hash sample_user = ''ChangeMe123!''" "ten_id sample_tenant = ''T''" "ten_code sample_tenant = ''default''"
  by (simp_all add: sample_user_def sample_tenant_def)

lemma sample_auth_inv: "auth_inv sample_id_db"
  by (simp add: auth_inv_def unique_by_def store_inv_def)

definition sample_login :: login_request where
  "sample_login = \<lparr>lgn_email = ''A@b.c'', lgn_password = ''ChangeMe123!'', lgn_totp_code = Some ''K''\<rparr>"

lemma not_isl_pair: "\<not> isl (fst p) \<Longrightarrow> \<exists>r db. p = (Inr r, db)"
  by (cases p; cases "fst p") auto

lemma token_of_jti: "create_refresh_token sample_auth_env n u t j = create_refresh_token sample_auth_env n' u' t' j' \<Longrightarrow> j = j'"
proof -
  assume "create_refresh_token sample_auth_env n u t j = create_refresh_token sample_auth_env n' u' t' j'"
  then have "sample_decode 0 (create_refresh_token sample_auth_env n u t j) = sample_decode 0 (create_refresh_token sample_auth_env n' u' t' j')" by simp
  then show ?thesis
    by (simp add: create_refresh_token_def token_payload_def sample_encode_def sample_decode_def claim_str_def dec_enc dec_enc [of _ "[]", simplified])
qed

text \<open>A login of the sample user: one token is stored.\<close>

lemma sample_login_result:
  obtains r db1 where "login sample_auth_env ''J'' ''I'' 0 ''default'' sample_login None None sample_id_db = (Inr r, db1)"
    "reached (auth_service sample_auth_env) auth_ok sample_id_db db1" "auth_inv db1"
    "\<exists>n. id_tokens db1 = [(''I'', n)] \<and> rft_token_hash n = tkr_refresh_token r \<and> rft_user_id n = ''U''"
    "tkr_refresh_token r = create_refresh_token sample_auth_env 0 ''U'' ''T'' ''J''" "id_tenants db1 = id_tenants sample_id_db"
proof -
  have "\<not> isl (fst (login sample_auth_env ''J'' ''I'' 0 ''default'' sample_login None None sample_id_db))" by code_simp
  from not_isl_pair [OF this] obtain r db1 where l: "login sample_auth_env ''J'' ''I'' 0 ''default'' sample_login None None sample_id_db = (Inr r, db1)" by blast
  have "auth_service sample_auth_env (Login ''J'' ''I'' 0 ''default'' sample_login None None) sample_id_db = (Inr (), db1)"
    by (simp add: get_tenant_header_def l)
  from reached_step [where service = "auth_service sample_auth_env", OF _ this, of auth_ok]
  have reach: "reached (auth_service sample_auth_env) auth_ok sample_id_db db1" by simp
  show thesis
  proof (rule login_effect [OF sample_auth_inv l])
    fix t u rid' assume u: "dget (id_users sample_id_db) (usr_id u) = Some u"
      "issue_tokens sample_auth_env ''J'' ''I'' 0 (logged_in 0 u) None None (put_user (logged_in 0 u) sample_id_db) = (Inr (r, rid'), db1)"
    then have us: "u = sample_user" by (simp split: if_splits)
    show thesis
      by (rule issue_tokens_effect [OF u(2)], rule that [OF l reach auth.reached_inv [OF reach sample_auth_inv]]) (simp_all add: us)
  qed
qed

theorem login_exact_witness:
  "\<exists>t u. dget (id_tenants sample_id_db) (ten_id t) = Some t \<and> dget (id_users sample_id_db) (usr_id u) = Some u \<and> usr_status u = ''ACTIVE''
    \<and> (usr_mfa_enabled u \<longrightarrow> (\<exists>secret. ae_totp_verify sample_auth_env 0 secret ''K''))"
proof (rule sample_login_result)
  fix r db1 assume l: "login sample_auth_env ''J'' ''I'' 0 ''default'' sample_login None None sample_id_db = (Inr r, db1)"
  have k: "lgn_totp_code sample_login = Some c \<longleftrightarrow> c = ''K''" for c by (auto simp: sample_login_def)
  from login_exact [OF sample_auth_inv, of sample_auth_env "''J''" "''I''" 0 "''default''" sample_login None None] l show ?thesis unfolding k by blast
qed

theorem lockout_never_engages_witness:
  "\<exists>db u. reached (auth_service sample_auth_env) auth_ok sample_id_db db \<and> id_tokens db \<noteq> [] \<and> dget (id_users db) ''U'' = Some u
    \<and> usr_failed_login_count u = 0 \<and> usr_locked_until u = None"
proof (rule sample_login_result)
  fix r db1 assume h: "reached (auth_service sample_auth_env) auth_ok sample_id_db db1" "auth_inv db1" "\<exists>n. id_tokens db1 = [(''I'', n)]
    \<and> rft_token_hash n = tkr_refresh_token r \<and> rft_user_id n = ''U''"
  then obtain n where n: "id_tokens db1 = [(''I'', n)]" "rft_user_id n = ''U''" by blast
  have "''U'' \<in> set (dkeys (id_users db1))" using auth_invD(7) [OF h(2), of "''I''" n] n by simp
  then obtain u where u: "dget (id_users db1) ''U'' = Some u" by (cases "dget (id_users db1) ''U''") (auto simp: map_of_eq_None_iff)
  have start: "\<forall>k u. dget (id_users sample_id_db) k = Some u \<longrightarrow> usr_failed_login_count u = 0 \<and> usr_locked_until u = None" by simp
  from n(1) have "id_tokens db1 \<noteq> []" by simp
  with lockout_never_engages [OF h(1) sample_auth_inv start u, of 0] h(1) u show ?thesis by blast
qed

lemma sample_refresh:
  obtains r db1 r2 db2 where "reached (auth_service sample_auth_env) auth_ok sample_id_db db1" "auth_inv db1"
    "refresh sample_auth_env ''K'' ''I2'' 1 (tkr_refresh_token r) db1 = (Inr r2, db2)" "''I2'' \<notin> set (dkeys (id_tokens db1))"
    "login sample_auth_env ''J'' ''I'' 0 ''default'' sample_login None None sample_id_db = (Inr r, db1)"
proof (rule sample_login_result)
  fix r db1 assume h: "login sample_auth_env ''J'' ''I'' 0 ''default'' sample_login None None sample_id_db = (Inr r, db1)"
    "reached (auth_service sample_auth_env) auth_ok sample_id_db db1" "auth_inv db1"
    "\<exists>n. id_tokens db1 = [(''I'', n)] \<and> rft_token_hash n = tkr_refresh_token r \<and> rft_user_id n = ''U''"
    "tkr_refresh_token r = create_refresh_token sample_auth_env 0 ''U'' ''T'' ''J''" "id_tenants db1 = id_tenants sample_id_db"
  obtain n where n: "id_tokens db1 = [(''I'', n)]" "rft_token_hash n = tkr_refresh_token r" using h(4) by blast
  have "\<not> isl (fst (refresh sample_auth_env ''K'' ''I2'' 1 (tkr_refresh_token (projr (fst (login sample_auth_env ''J'' ''I'' 0 ''default'' sample_login None None sample_id_db))))
    (snd (login sample_auth_env ''J'' ''I'' 0 ''default'' sample_login None None sample_id_db))))" by code_simp
  from not_isl_pair [OF this] obtain r2 db2 where "refresh sample_auth_env ''K'' ''I2'' 1 (tkr_refresh_token r) db1 = (Inr r2, db2)" by (auto simp: h(1))
  then show thesis by (rule that [OF h(2,3) _ _ h(1)]) (simp add: n)
qed

theorem refresh_token_used_once_witness:
  "\<exists>token db1 r db2 e. reached (auth_service sample_auth_env) auth_ok sample_id_db db1
    \<and> refresh sample_auth_env ''K'' ''I2'' 1 token db1 = (Inr r, db2) \<and> refresh sample_auth_env ''L'' ''I3'' 2 token db2 = (Inl e, db2)"
proof (rule sample_refresh)
  fix r db1 r2 db2 assume h: "reached (auth_service sample_auth_env) auth_ok sample_id_db db1"
    "refresh sample_auth_env ''K'' ''I2'' 1 (tkr_refresh_token r) db1 = (Inr r2, db2)" "''I2'' \<notin> set (dkeys (id_tokens db1))"
  from refresh_token_used_once [OF h(1) sample_auth_inv h(3,2) reached_start] h(1,2) show ?thesis by blast
qed

theorem rotation_consistent_witness:
  "\<exists>db t j. reached (auth_service sample_auth_env) auth_ok sample_id_db db \<and> t \<in> set (dvalues (id_tokens db)) \<and> rft_replaced_by_id t = Some j
    \<and> rft_revoked_at t \<noteq> None"
proof (rule sample_refresh)
  fix r db1 r2 db2 assume h: "reached (auth_service sample_auth_env) auth_ok sample_id_db db1" "auth_inv db1"
    "refresh sample_auth_env ''K'' ''I2'' 1 (tkr_refresh_token r) db1 = (Inr r2, db2)" "''I2'' \<notin> set (dkeys (id_tokens db1))"
  have "auth_service sample_auth_env (Refresh ''K'' ''I2'' 1 (tkr_refresh_token r)) db1 = (Inr (), db2)" by (simp add: h(3))
  from reached_step [where service = "auth_service sample_auth_env", OF _ this, of auth_ok] h(4)
  have reach: "reached (auth_service sample_auth_env) auth_ok sample_id_db db2" using reached_trans [OF _ h(1)] by simp
  show ?thesis
  proof (rule refresh_effect [OF h(2,3)])
    fix t :: refresh_token and u tid claims db' rid'
    assume t: "db2 = put_token (t\<lparr>rft_revoked_at := Some 1, rft_replaced_by_id := Some rid'\<rparr>) db'"
    let ?t = "t\<lparr>rft_revoked_at := Some 1, rft_replaced_by_id := Some rid'\<rparr>"
    have e: "dget (id_tokens db2) (rft_id t) = Some ?t" by (simp add: t dget_dset)
    have "?t \<in> set (dvalues (id_tokens db2))" using e by (force dest: map_of_SomeD)
    moreover have "rft_revoked_at ?t \<noteq> None" using rotation_consistent [OF reach sample_auth_inv e, of rid'] by simp
    ultimately show ?thesis using reach by (intro exI [of _ db2] exI [of _ ?t]) simp
  qed
qed

theorem logout_is_final_witness:
  "\<exists>token db1 db2 e. reached (auth_service sample_auth_env) auth_ok sample_id_db db1
    \<and> logout sample_auth_env 1 token db1 = (Inr (), db2) \<and> refresh sample_auth_env ''L'' ''I3'' 2 token db2 = (Inl e, db2)"
proof (rule sample_login_result)
  fix r db1 assume h: "reached (auth_service sample_auth_env) auth_ok sample_id_db db1"
    "\<exists>n. id_tokens db1 = [(''I'', n)] \<and> rft_token_hash n = tkr_refresh_token r \<and> rft_user_id n = ''U''"
  obtain n where n: "dget (id_tokens db1) ''I'' = Some n" "rft_token_hash n = hash_token sample_auth_env (tkr_refresh_token r)" using h(2) by auto
  obtain x db2 where o: "logout sample_auth_env 1 (tkr_refresh_token r) db1 = (x, db2)" by fastforce
  from logout_is_final [OF h(1) sample_auth_inv n o reached_start, of "''L''" "''I3''" 2] h(1) o show ?thesis by blast
qed

theorem issued_token_refreshes_witness:
  "\<exists>r db1 r2 db2. login sample_auth_env ''J'' ''I'' 0 ''default'' sample_login None None sample_id_db = (Inr r, db1)
    \<and> refresh sample_auth_env ''K'' ''I2'' (days 7) (tkr_refresh_token r) db1 = (Inr r2, db2)"
proof (rule sample_login_result)
  fix r db1 assume h: "login sample_auth_env ''J'' ''I'' 0 ''default'' sample_login None None sample_id_db = (Inr r, db1)"
    "\<exists>n. id_tokens db1 = [(''I'', n)] \<and> rft_token_hash n = tkr_refresh_token r \<and> rft_user_id n = ''U''"
    "tkr_refresh_token r = create_refresh_token sample_auth_env 0 ''U'' ''T'' ''J''"
  have new: "\<forall>u tn. hash_token sample_auth_env (create_refresh_token sample_auth_env (days 7) u tn ''K'') \<notin> rft_token_hash ` set (dvalues (id_tokens db1))"
    using h(2) by (auto simp: h(3) dest: token_of_jti)
  have "\<exists>r2 db2. refresh sample_auth_env ''K'' ''I2'' (days 7) (tkr_refresh_token r) db1 = (Inr r2, db2)"
    by (rule issued_token_refreshes [OF sample_auth_inv _ h(1) sample_env_sound _ _ _ new]) (simp_all add: days_def)
  with h(1) show ?thesis by blast
qed

theorem access_token_identifies_witness:
  "\<exists>r db1 c. login sample_auth_env ''J'' ''I'' 0 ''default'' sample_login None None sample_id_db = (Inr r, db1)
    \<and> get_current_user sample_auth_env (minutes 15) (Some (tkr_access_token r)) db1 = Inr c \<and> cur_tenant_id c = ''T''"
proof (rule sample_login_result)
  fix r db1 assume h: "login sample_auth_env ''J'' ''I'' 0 ''default'' sample_login None None sample_id_db = (Inr r, db1)"
  have "\<exists>c u. get_current_user sample_auth_env (minutes 15) (Some (tkr_access_token r)) db1 = Inr c \<and> dget (id_users sample_id_db) (cur_id c) = Some u
    \<and> usr_email u = py_lower (lgn_email sample_login) \<and> cur_tenant_id c = usr_tenant_id u
    \<and> (cur_permissions c, cur_roles c) = get_user_permissions_and_roles sample_id_db (usr_id u)"
    by (rule access_token_identifies [OF sample_auth_inv h sample_env_sound]) simp_all
  with h show ?thesis by (auto split: if_splits)
qed

definition sample_actor :: current_user where
  "sample_actor = \<lparr>cur_id = ''U'', cur_tenant_id = ''T'', cur_permissions = {''user:create''}, cur_roles = {''SUPER_ADMIN''}, cur_is_portal = False\<rparr>"

theorem created_user_can_log_in_witness:
  "\<exists>u db1 r db2. create_user sample_auth_env ''s'' ''V'' \<lparr>usc_email = ''n@b.c'', usc_password = ''longenough'', usc_full_name = ''N''\<rparr> sample_actor sample_id_db = (Inr u, db1)
    \<and> login sample_auth_env ''J'' ''I'' 0 ''default'' \<lparr>lgn_email = ''n@b.c'', lgn_password = ''longenough'', lgn_totp_code = None\<rparr> None None db1 = (Inr r, db2)"
proof -
  let ?q = "\<lparr>usc_email = ''n@b.c'', usc_password = ''longenough'', usc_full_name = ''N''\<rparr>"
  have "\<not> isl (fst (create_user sample_auth_env ''s'' ''V'' ?q sample_actor sample_id_db))" by code_simp
  from not_isl_pair [OF this] obtain u db1 where c: "create_user sample_auth_env ''s'' ''V'' ?q sample_actor sample_id_db = (Inr u, db1)" by blast
  have "\<exists>r db2. login sample_auth_env ''J'' ''I'' 0 (ten_code sample_tenant) \<lparr>lgn_email = ''n@b.c'', lgn_password = ''longenough'', lgn_totp_code = None\<rparr> None None db1 = (Inr r, db2)"
    by (rule created_user_can_log_in [OF sample_auth_inv _ c]) (simp_all add: sample_actor_def)
  with c show ?thesis by simp
qed

lemma lower_sample: "py_lower ''A@b.c'' = ''a@b.c''"
  by code_simp

theorem enrolment_disables_mfa_witness:
  "\<exists>x db1 r db2. enroll_mfa sample_auth_env ''S'' [] ''n'' ''U'' ''T'' sample_id_db = (Inr x, db1) \<and> usr_mfa_enabled sample_user
    \<and> login sample_auth_env ''J'' ''I'' 0 ''default'' (sample_login\<lparr>lgn_totp_code := None\<rparr>) None None db1 = (Inr r, db2)"
proof -
  have "\<not> isl (fst (enroll_mfa sample_auth_env ''S'' [] ''n'' ''U'' ''T'' sample_id_db))" by code_simp
  from not_isl_pair [OF this] obtain x db1 where e: "enroll_mfa sample_auth_env ''S'' [] ''n'' ''U'' ''T'' sample_id_db = (Inr x, db1)" by blast
  have "\<exists>r db2. login sample_auth_env ''J'' ''I'' 0 (ten_code sample_tenant) (sample_login\<lparr>lgn_totp_code := None\<rparr>) None None db1 = (Inr r, db2)"
    by (rule enrolment_disables_mfa [OF sample_auth_inv e, of _ sample_user]) (simp_all add: sample_login_def lower_sample)
  moreover have "usr_mfa_enabled sample_user" by (simp add: sample_user_def)
  ultimately show ?thesis using e unfolding sample_user_simps by blast
qed

theorem builtin_permissions_irrevocable_witness:
  "''finance:read'' \<in> fst (get_user_permissions_and_roles (sample_id_db\<lparr>id_grants := [], id_permissions := []\<rparr>) ''U'')"
proof -
  have "set (dget_or role_permission_map SUPER_ADMIN []) \<subseteq> fst (get_user_permissions_and_roles (sample_id_db\<lparr>id_grants := [], id_permissions := []\<rparr>) ''U'')"
    by (rule builtin_permissions_irrevocable [of sample_role _ sample_assignment]) (simp_all add: sample_assignment_def sample_role_def)
  moreover have "''finance:read'' \<in> set (dget_or role_permission_map SUPER_ADMIN [])" by code_simp
  ultimately show ?thesis by blast
qed

end
