(* ===== verification/Decimal_Arith.thy ===== *)
theory Decimal_Arith
  imports Py_Decimal
begin

text \<open>
  The operations of the default context of \<open>decimal\<close>: each rounds its exact result to 28 significant digits. The rounding is
  monotone, changes nothing it has produced, and nothing that is a number of cents below its precision. Exponents beyond the
  range of the context and the trap of \<open>quantize\<close> for more than 28 digits are not modelled.
\<close>


section \<open>Operations of the context\<close>

definition dadd :: "rat \<Rightarrow> rat \<Rightarrow> rat" where "dadd x y = drnd (x + y)"
definition dsub :: "rat \<Rightarrow> rat \<Rightarrow> rat" where "dsub x y = drnd (x - y)"
definition dmul :: "rat \<Rightarrow> rat \<Rightarrow> rat" where "dmul x y = drnd (x * y)"
definition ddiv :: "rat \<Rightarrow> rat \<Rightarrow> rat" where "ddiv x y = drnd (x / y)"

section \<open>Order\<close>

lemma drnd_0 [simp]: "drnd 0 = 0" by (simp add: drnd_def)

lemma drnd_minus: "drnd (- x) = - drnd x"
  by (simp add: drnd_def Let_def rhe_minus)

lemma drnd_pos: "0 < x \<Longrightarrow> drnd x = of_int (rhe (x / 10 powi (expo10 x - 27))) * 10 powi (expo10 x - 27)"
  by (simp add: drnd_def Let_def)

lemma powi10_split: "(10::rat) powi e = of_int (10 ^ 27) * 10 powi (e - 27)" "(10::rat) powi (e + 1) = of_int (10 ^ 28) * 10 powi (e - 27)"
  using power_int_add [of "10 :: rat" "e - 27" 27] power_int_add [of "10 :: rat" "e - 27" 28] by (simp_all add: add.commute)

lemma drnd_between: "0 < x \<Longrightarrow> 10 powi expo10 x \<le> drnd x \<and> drnd x \<le> 10 powi (expo10 x + 1)"
proof -
  assume x: "0 < x"
  let ?q = "expo10 x - 27"
  note b = expo10_bounds [OF x]
  have p: "(10::rat) powi expo10 x = of_int (10 ^ 27) * 10 powi ?q" "(10::rat) powi (expo10 x + 1) = of_int (10 ^ 28) * 10 powi ?q"
    by (rule powi10_split)+
  have "of_int (10 ^ 27) \<le> x / 10 powi ?q" using b p(1) by (simp add: pos_le_divide_eq)
  from rhe_mono [OF this] have lo: "10 ^ 27 \<le> rhe (x / 10 powi ?q)" by (simp only: rhe_of_int)
  have "x / 10 powi ?q \<le> of_int (10 ^ 28)" using b p(2) by (simp add: pos_divide_le_eq)
  from rhe_mono [OF this] have hi: "rhe (x / 10 powi ?q) \<le> 10 ^ 28" by (simp only: rhe_of_int)
  have "(of_int (10 ^ 27) :: rat) \<le> of_int (rhe (x / 10 powi ?q))" "(of_int (rhe (x / 10 powi ?q)) :: rat) \<le> of_int (10 ^ 28)"
    using lo hi by (simp_all only: of_int_le_iff)
  then show ?thesis unfolding drnd_pos [OF x] p by (simp add: mult_right_mono)
qed

lemma expo10_mono: "0 < x \<Longrightarrow> x \<le> y \<Longrightarrow> expo10 x \<le> expo10 y"
proof -
  assume h: "0 < x" "x \<le> y"
  have "(10::rat) powi expo10 x < 10 powi (expo10 y + 1)" using expo10_bounds [of x] expo10_bounds [of y] h by linarith
  then show ?thesis using powi10_less_cancel by fastforce
qed

lemma drnd_mono_pos: "0 < x \<Longrightarrow> x \<le> y \<Longrightarrow> drnd x \<le> drnd y"
proof -
  assume h: "0 < x" "x \<le> y"
  then have y: "0 < y" by linarith
  show ?thesis
  proof (cases "expo10 x = expo10 y")
    case True
    have "rhe (x / 10 powi (expo10 y - 27)) \<le> rhe (y / 10 powi (expo10 y - 27))" by (rule rhe_mono) (simp add: h divide_right_mono)
    then show ?thesis unfolding drnd_pos [OF h(1)] drnd_pos [OF y] True by (simp add: mult_right_mono)
  next
    case False
    then have "expo10 x + 1 \<le> expo10 y" using expo10_mono [OF h] by simp
    then have "(10::rat) powi (expo10 x + 1) \<le> 10 powi expo10 y" by (simp add: power_int_increasing)
    then show ?thesis using drnd_between [OF h(1)] drnd_between [OF y] by linarith
  qed
qed

lemma drnd_nonneg: "0 \<le> x \<Longrightarrow> 0 \<le> drnd x"
  using drnd_between [of x] powi10_pos [of "expo10 x"] by (cases "x = 0") (simp, linarith)

lemma drnd_mono: "x \<le> y \<Longrightarrow> drnd x \<le> drnd y"
proof (cases "0 < x")
  case False
  assume h: "x \<le> y"
  show ?thesis
  proof (cases "0 \<le> y")
    case True
    have "0 \<le> drnd (- x)" by (rule drnd_nonneg) (use False in simp)
    then show ?thesis using drnd_nonneg [OF True] by (simp add: drnd_minus)
  next
    case neg: False
    have "drnd (- y) \<le> drnd (- x)" by (rule drnd_mono_pos) (use neg h in simp_all)
    then show ?thesis by (simp add: drnd_minus)
  qed
qed (rule drnd_mono_pos)

text \<open>What the context has rounded is not rounded again.\<close>

lemma drnd_idem [simp]: "drnd (drnd x) = drnd x"
proof -
  have pos: "drnd (drnd x) = drnd x" if x: "0 < x" for x
  proof -
    let ?q = "expo10 x - 27" and ?m = "rhe (x / 10 powi (expo10 x - 27))"
    have "10 powi expo10 x \<le> of_int ?m * (10::rat) powi ?q" "of_int ?m * (10::rat) powi ?q \<le> 10 powi (expo10 x + 1)"
      using drnd_between [OF x] unfolding drnd_pos [OF x] by blast+
    moreover have p: "(10::rat) powi (expo10 x + 1) = of_int (10 ^ 28) * 10 powi ?q" by (rule powi10_split)
    ultimately have "0 < of_int ?m * (10::rat) powi ?q" "of_int ?m \<le> (of_int (10 ^ 28) :: rat)"
      using powi10_pos [of "expo10 x"] by (linarith, simp add: mult_le_cancel_right_pos)
    then have "0 < (of_int ?m :: rat)" and m2: "?m \<le> 10 ^ 28"
      using powi10_pos [of ?q] by (simp add: zero_less_mult_iff, simp only: of_int_le_iff)
    then have m: "0 < ?m" "?m \<le> 10 ^ 28" by simp_all
    show ?thesis
    proof (cases "?m = 10 ^ 28")
      case True
      have "drnd x = of_int 1 * 10 powi (expo10 x + 1)" unfolding drnd_pos [OF x] True p by simp
      then show ?thesis using drnd_exact [of 1 "expo10 x + 1"] by simp
    next
      case False
      then have "\<bar>?m\<bar> < 10 ^ 28" using m by linarith
      from drnd_exact [OF this] show ?thesis unfolding drnd_pos [OF x] .
    qed
  qed
  show ?thesis
  proof (cases x "0 :: rat" rule: linorder_cases)
    case less
    then show ?thesis using pos [of "- x"] by (simp add: drnd_minus)
  qed (simp_all add: pos)
qed

lemma drnd_tenth: "0 \<le> x \<Longrightarrow> x / 10 \<le> drnd x"
proof (cases "x = 0")
  case False
  assume "0 \<le> x"
  with False have x: "0 < x" by simp
  have "(10::rat) powi (expo10 x + 1) = 10 * 10 powi expo10 x" by (simp add: power_int_add)
  then show ?thesis using expo10_bounds [OF x] drnd_between [OF x] by linarith
qed simp

section \<open>Cents\<close>

lemma drnd_cents: "\<bar>m\<bar> < 10 ^ 28 \<Longrightarrow> drnd (of_int m / 100) = of_int m / 100"
  using drnd_exact [of m "-2"] by (simp add: powi10_minus2)

lemma half_up_mono: "x \<le> y \<Longrightarrow> half_up x \<le> half_up y"
proof -
  assume h: "x \<le> y"
  have neg: "- \<lfloor>1 / 2 - x\<rfloor> \<le> - \<lfloor>1 / 2 - y\<rfloor>" using floor_mono [of "1 / 2 - y" "1 / 2 - x"] h by simp
  have pos: "\<lfloor>x + 1 / 2\<rfloor> \<le> \<lfloor>y + 1 / 2\<rfloor>" by (rule floor_mono) (use h in simp)
  have mixed: "x < 0 \<Longrightarrow> - \<lfloor>1 / 2 - x\<rfloor> \<le> 0" by (simp add: le_floor_iff)
  have "0 \<le> y \<Longrightarrow> 0 \<le> \<lfloor>y + 1 / 2\<rfloor>" by (simp add: le_floor_iff)
  then have "x < 0 \<Longrightarrow> 0 \<le> y \<Longrightarrow> - \<lfloor>1 / 2 - x\<rfloor> \<le> \<lfloor>y + 1 / 2\<rfloor>" using mixed by linarith
  then show ?thesis using neg pos h by (simp add: half_up_def)
qed

lemma half_up_of_int [simp]: "half_up (of_int n) = n"
proof -
  have "\<lfloor>of_int n + 1 / 2 :: rat\<rfloor> = n" "\<lfloor>1 / 2 - of_int n :: rat\<rfloor> = - n" by (simp_all add: floor_eq_iff)
  then show ?thesis by (simp add: half_up_def)
qed

end
