(* ===== verification/Consolidation.thy ===== *)
theory Consolidation
  imports Decimal_Arith Py_Date "HOL-Library.Char_ord" "HOL-Library.List_Lexorder" "HOL-Library.Product_Lexorder"
begin

text \<open>
  The consolidation of sea and air freight: \<open>app/services/lcl_service.py\<close>, \<open>air_consolidation_service.py\<close> and the in-memory
  repositories of \<open>app/repositories\<close> they run on. Weights and costs of the repositories are floats, read as decimals.
\<close>


section \<open>Filling a shipment\<close>

text \<open>
  Parcels are taken in their order as long as the weight and the volume fit; both services have this loop. A parcel is
  its identity, weight and volume; the state is what was selected and the two totals.
\<close>

type_synonym parcel = "string \<times> rat \<times> rat"

fun fill :: "rat \<Rightarrow> rat \<Rightarrow> parcel list \<Rightarrow> string list \<times> rat \<times> rat \<Rightarrow> string list \<times> rat \<times> rat" where
  "fill max_weight max_volume [] s = s"
| "fill max_weight max_volume ((i, w, v) # ps) (selected, tw, tv) =
    (if dadd tw w \<le> max_weight \<and> dadd tv v \<le> max_volume
     then fill max_weight max_volume ps (selected @ [i], dadd tw w, dadd tv v)
     else fill max_weight max_volume ps (selected, tw, tv))"

definition utilization :: "rat \<Rightarrow> rat \<Rightarrow> rat" where
  "utilization used maximum = (if 0 < maximum then dmul (ddiv used maximum) 100 else 0)"

section \<open>The consolidation of sea freight\<close>

record mbl =
  mbl_id :: string
  mbl_max_weight :: flt
  mbl_max_cbm :: flt
  mbl_origin :: string
  mbl_destination :: string
  mbl_cost :: flt

record hbl =
  hbl_id :: string
  hbl_weight :: flt
  hbl_cbm :: flt
  hbl_origin :: string
  hbl_destination :: string

record consolidation =
  con_id :: string
  con_mbl_id :: string
  con_hbl_ids :: "string list"
  con_created_at :: datetime

record lcl_repo =
  lcl_consolidations :: "(string, consolidation) dict"
  lcl_mbls :: "(string, mbl) dict"
  lcl_hbls :: "(string, hbl) dict"

text \<open>The master and house bills the repository is created with.\<close>

definition lcl_repository :: lcl_repo where
  "lcl_repository = \<lparr>lcl_consolidations = [],
     lcl_mbls = [(''mbl-1'', \<lparr>mbl_id = ''mbl-1'', mbl_max_weight = 20000, mbl_max_cbm = 30, mbl_origin = ''CNPVG'', mbl_destination = ''USLAX'', mbl_cost = 5000\<rparr>),
       (''mbl-2'', \<lparr>mbl_id = ''mbl-2'', mbl_max_weight = 25000, mbl_max_cbm = 60, mbl_origin = ''CNYTN'', mbl_destination = ''USLGB'', mbl_cost = 8000\<rparr>)],
     lcl_hbls = [(''hbl-1'', \<lparr>hbl_id = ''hbl-1'', hbl_weight = 5000, hbl_cbm = 10, hbl_origin = ''CNPVG'', hbl_destination = ''USLAX''\<rparr>),
       (''hbl-2'', \<lparr>hbl_id = ''hbl-2'', hbl_weight = 12000, hbl_cbm = 15, hbl_origin = ''CNPVG'', hbl_destination = ''USLAX''\<rparr>),
       (''hbl-3'', \<lparr>hbl_id = ''hbl-3'', hbl_weight = 4000, hbl_cbm = 5, hbl_origin = ''CNPVG'', hbl_destination = ''USLAX''\<rparr>),
       (''hbl-4'', \<lparr>hbl_id = ''hbl-4'', hbl_weight = 10000, hbl_cbm = 20, hbl_origin = ''CNYTN'', hbl_destination = ''USLGB''\<rparr>)]\<rparr>"

definition get_chargeable_weight :: "rat \<Rightarrow> rat \<Rightarrow> rat" where
  "get_chargeable_weight weight cbm = max weight (dmul cbm 1000)"

text \<open>A suggestion has an identity of its own, which is drawn at random.\<close>

record suggestion =
  sgn_mbl_id :: string
  sgn_hbl_ids :: "string list"
  sgn_total_weight :: rat
  sgn_total_cbm :: rat
  sgn_weight_utilization :: rat
  sgn_cbm_utilization :: rat

definition parcel_of :: "hbl \<Rightarrow> parcel" where
  "parcel_of h = (hbl_id h, dec_of_flt (hbl_weight h), dec_of_flt (hbl_cbm h))"

definition matching_hbls :: "hbl list \<Rightarrow> mbl \<Rightarrow> hbl list" where
  "matching_hbls hs m = filter (\<lambda>h. hbl_origin h = mbl_origin m \<and> hbl_destination h = mbl_destination m) hs"

definition suggestion_for :: "hbl list \<Rightarrow> mbl \<Rightarrow> suggestion option" where
  "suggestion_for hs m =
    (let max_weight = dec_of_flt (mbl_max_weight m); max_cbm = dec_of_flt (mbl_max_cbm m)
     in case fill max_weight max_cbm (map parcel_of (matching_hbls hs m)) ([], 0, 0) of (selected, tw, tc) \<Rightarrow>
       if selected = [] then None
       else Some \<lparr>sgn_mbl_id = mbl_id m, sgn_hbl_ids = selected, sgn_total_weight = quantize_cents tw, sgn_total_cbm = quantize_cents tc,
         sgn_weight_utilization = quantize_cents (utilization tw max_weight), sgn_cbm_utilization = quantize_cents (utilization tc max_cbm)\<rparr>)"

definition generate_suggestions :: "lcl_repo \<Rightarrow> suggestion list" where
  "generate_suggestions repo =
    (let mbls = sort_key mbl_id (dvalues (lcl_mbls repo)); hbls = sort_key hbl_id (dvalues (lcl_hbls repo))
     in somes (map (suggestion_for hbls) mbls))"

definition create_consolidation :: "string \<Rightarrow> datetime \<Rightarrow> string \<Rightarrow> string list \<Rightarrow> lcl_repo \<Rightarrow> consolidation \<times> lcl_repo" where
  "create_consolidation cid now mid hids repo =
    (let c = \<lparr>con_id = cid, con_mbl_id = mid, con_hbl_ids = hids, con_created_at = now\<rparr>
     in (c, repo\<lparr>lcl_consolidations := dset cid c (lcl_consolidations repo)\<rparr>))"

definition get_mbl_cost :: "lcl_repo \<Rightarrow> string \<Rightarrow> flt" where
  "get_mbl_cost repo i = (case dget (lcl_mbls repo) i of None \<Rightarrow> 0 | Some m \<Rightarrow> mbl_cost m)"

text \<open>The house bills that are stored, with their chargeable weights.\<close>

definition hbl_details :: "lcl_repo \<Rightarrow> string list \<Rightarrow> (string \<times> rat) list" where
  "hbl_details repo ids = somes (map (\<lambda>i. map_option
     (\<lambda>h. (i, get_chargeable_weight (dec_of_flt (hbl_weight h)) (dec_of_flt (hbl_cbm h)))) (dget (lcl_hbls repo) i)) ids)"

definition total_chargeable :: "(string \<times> rat) list \<Rightarrow> rat" where
  "total_chargeable ds = fold (\<lambda>(i, cw) t. dadd t cw) ds 0"

fun allocate :: "rat \<Rightarrow> rat \<Rightarrow> rat \<Rightarrow> (string \<times> rat) list \<Rightarrow> (string \<times> rat) list" where
  "allocate cost whole allocated [] = []"
| "allocate cost whole allocated [(i, cw)] = [(i, dsub cost allocated)]"
| "allocate cost whole allocated ((i, cw) # d # ds) =
    (let ratio = (if 0 < whole then ddiv cw whole else 0); c = quantize_cents (dmul cost ratio)
     in (i, c) # allocate cost whole (dadd allocated c) (d # ds))"

definition calculate_cost_allocation :: "string \<Rightarrow> lcl_repo \<Rightarrow> (rat \<times> (string \<times> rat) list) res" where
  "calculate_cost_allocation cid repo = (case dget (lcl_consolidations repo) cid of
     None \<Rightarrow> Inl (ValueError ''Consolidation not found'')
   | Some c \<Rightarrow>
      (let cost = dec_of_flt (get_mbl_cost repo (con_mbl_id c)); ds = hbl_details repo (con_hbl_ids c)
       in Inr (cost, allocate cost (total_chargeable ds) 0 ds)))"

section \<open>The consolidation of air freight\<close>

record hawb =
  hawb_id :: string
  hawb_destination :: string
  hawb_actual_weight :: rat
  hawb_volume :: rat
  hawb_ready_date :: datetime

record deconsolidation_result =
  dcn_mawb_id :: string
  dcn_status :: string
  dcn_exceptions_raised :: nat
  dcn_processed_items :: nat

record air_repo =
  air_hawbs :: "hawb list"
  air_deconsolidations :: "(string, deconsolidation_result) dict"

record planning =
  plan_hawbs :: "string list"
  plan_actual_weight :: rat
  plan_volume :: rat
  plan_volumetric_weight :: rat
  plan_chargeable_weight :: rat
  plan_weight_pct :: rat
  plan_volume_pct :: rat

definition get_pending_hawbs :: "air_repo \<Rightarrow> string \<Rightarrow> hawb list" where
  "get_pending_hawbs repo dest = filter (\<lambda>h. hawb_destination h = dest) (air_hawbs repo)"

definition add_hawb :: "hawb \<Rightarrow> air_repo \<Rightarrow> air_repo" where
  "add_hawb h repo = repo\<lparr>air_hawbs := air_hawbs repo @ [h]\<rparr>"

definition air_volumetric_weight :: "rat \<Rightarrow> rat" where "air_volumetric_weight volume = dmul volume 167"

definition get_planning_suggestions :: "air_repo \<Rightarrow> string \<Rightarrow> rat \<Rightarrow> rat \<Rightarrow> planning" where
  "get_planning_suggestions repo dest max_weight max_volume =
    (let hawbs = sort_key (\<lambda>h. (hawb_ready_date h, hawb_id h)) (get_pending_hawbs repo dest)
     in case fill max_weight max_volume (map (\<lambda>h. (hawb_id h, hawb_actual_weight h, hawb_volume h)) hawbs) ([], 0, 0) of (selected, tw, tv) \<Rightarrow>
       (let vw = air_volumetric_weight tv
        in \<lparr>plan_hawbs = selected, plan_actual_weight = tw, plan_volume = tv, plan_volumetric_weight = vw, plan_chargeable_weight = max tw vw,
            plan_weight_pct = utilization tw max_weight, plan_volume_pct = utilization tv max_volume\<rparr>))"

text \<open>An item has a condition and, possibly, notes of a discrepancy.\<close>

type_synonym received_item = "string \<times> rat \<times> string \<times> string option"

definition is_exception :: "received_item \<Rightarrow> bool" where
  "is_exception t = (case t of (_, _, condition, discrepancy) \<Rightarrow> condition \<noteq> ''good'' \<or> discrepancy \<noteq> None)"

definition deconsolidate :: "string \<Rightarrow> received_item list \<Rightarrow> air_repo \<Rightarrow> deconsolidation_result \<times> air_repo" where
  "deconsolidate mawb_id its repo =
    (let exceptions = fold (\<lambda>t n. if is_exception t then Suc n else n) its 0;
         r = \<lparr>dcn_mawb_id = mawb_id, dcn_status = (if 0 < exceptions then ''completed_with_exceptions'' else ''completed''),
              dcn_exceptions_raised = exceptions, dcn_processed_items = length its\<rparr>
     in (r, repo\<lparr>air_deconsolidations := dset mawb_id r (air_deconsolidations repo)\<rparr>))"

section \<open>Filling respects the capacity\<close>

lemma fill_capacity:
  "fill mw mv ps (sel, tw, tv) = (sel', tw', tv') \<Longrightarrow> tw \<le> mw \<Longrightarrow> tv \<le> mv \<Longrightarrow> tw' \<le> mw \<and> tv' \<le> mv"
  by (induction ps arbitrary: sel tw tv) (auto split: if_splits)

text \<open>The totals are those of the selected parcels, which keep their order.\<close>

lemma fill_selected:
  assumes "fill mw mv ps (sel, tw, tv) = (sel', tw', tv')"
  shows "\<exists>qs. sel' = sel @ map fst qs \<and> set qs \<subseteq> set ps \<and> length qs \<le> length ps
    \<and> tw' = fold (\<lambda>q t. dadd t (fst (snd q))) qs tw \<and> tv' = fold (\<lambda>q t. dadd t (snd (snd q))) qs tv \<and> (distinct ps \<longrightarrow> distinct qs)"
  using assms
proof (induction ps arbitrary: sel tw tv)
  case Nil
  then show ?case by (intro exI [of _ "[]"]) simp
next
  case (Cons p ps)
  obtain i w v where p: "p = (i, w, v)" by (cases p)
  show ?case
  proof (cases "dadd tw w \<le> mw \<and> dadd tv v \<le> mv")
    case True
    then have "fill mw mv ps (sel @ [i], dadd tw w, dadd tv v) = (sel', tw', tv')" using Cons.prems by (simp add: p)
    from Cons.IH [OF this] obtain qs where qs: "sel' = (sel @ [i]) @ map fst qs" "set qs \<subseteq> set ps" "length qs \<le> length ps"
      "tw' = fold (\<lambda>q t. dadd t (fst (snd q))) qs (dadd tw w)" "tv' = fold (\<lambda>q t. dadd t (snd (snd q))) qs (dadd tv v)"
      "distinct ps \<longrightarrow> distinct qs" by blast
    show ?thesis by (rule exI [of _ "p # qs"]) (use qs in \<open>auto simp: p\<close>)
  next
    case False
    then have "fill mw mv ps (sel, tw, tv) = (sel', tw', tv')" using Cons.prems by (auto simp: p)
    from Cons.IH [OF this] show ?thesis by (fastforce simp: p)
  qed
qed

text \<open>With weights and volumes that are not negative the totals grow, so a parcel that was left out does not fit in the end either.\<close>

lemma dadd_le: "0 \<le> y \<Longrightarrow> drnd x = x \<Longrightarrow> x \<le> dadd x y"
  using drnd_mono [of x "x + y"] by (simp add: dadd_def)

lemma drnd_dadd [simp]: "drnd (dadd x y) = dadd x y" by (simp add: dadd_def)

lemma dadd_mono: "x \<le> x' \<Longrightarrow> dadd x y \<le> dadd x' y"
  by (simp add: dadd_def drnd_mono)

lemma fill_grows:
  assumes "fill mw mv ps (sel, tw, tv) = (sel', tw', tv')" and "\<forall>(i, w, v) \<in> set ps. 0 \<le> w \<and> 0 \<le> v" and "drnd tw = tw" "drnd tv = tv"
  shows "tw \<le> tw' \<and> tv \<le> tv'"
  using assms
proof (induction ps arbitrary: sel tw tv)
  case (Cons p ps)
  obtain i w v where p: "p = (i, w, v)" by (cases p)
  have n: "0 \<le> w" "0 \<le> v" using Cons.prems(2) by (auto simp: p)
  show ?case
  proof (cases "dadd tw w \<le> mw \<and> dadd tv v \<le> mv")
    case True
    then have "fill mw mv ps (sel @ [i], dadd tw w, dadd tv v) = (sel', tw', tv')" using Cons.prems(1) by (simp add: p)
    from Cons.IH [OF this] Cons.prems(2) show ?thesis using dadd_le [OF n(1) Cons.prems(3)] dadd_le [OF n(2) Cons.prems(4)] by auto
  next
    case False
    then have "fill mw mv ps (sel, tw, tv) = (sel', tw', tv')" using Cons.prems(1) by (auto simp: p)
    from Cons.IH [OF this] Cons.prems(2-4) show ?thesis by auto
  qed
qed simp

lemma fill_maximal:
  assumes "fill mw mv ps (sel, tw, tv) = (sel', tw', tv')" and "\<forall>(i, w, v) \<in> set ps. 0 \<le> w \<and> 0 \<le> v" and "drnd tw = tw" "drnd tv = tv"
    and "(i, w, v) \<in> set ps" and "i \<notin> set sel'"
  shows "mw < dadd tw' w \<or> mv < dadd tv' v"
  using assms
proof (induction ps arbitrary: sel tw tv)
  case (Cons p ps)
  obtain j x y where p: "p = (j, x, y)" by (cases p)
  have pre: "set sel \<subseteq> set sel'" if "fill mw mv ps (sel, tw, tv) = (sel', tw', tv')" for ps sel tw tv
    using fill_selected [OF that] by auto
  show ?case
  proof (cases "dadd tw x \<le> mw \<and> dadd tv y \<le> mv")
    case True
    then have f: "fill mw mv ps (sel @ [j], dadd tw x, dadd tv y) = (sel', tw', tv')" using Cons.prems(1) by (simp add: p)
    have "i \<noteq> j" using pre [OF f] Cons.prems(6) by auto
    then show ?thesis using Cons.IH [OF f] Cons.prems(2,5,6) by (auto simp: p)
  next
    case False
    then have f: "fill mw mv ps (sel, tw, tv) = (sel', tw', tv')" using Cons.prems(1) by (auto simp: p)
    have pos: "\<forall>(i, w, v) \<in> set ps. 0 \<le> w \<and> 0 \<le> v" using Cons.prems(2) by auto
    show ?thesis
    proof (cases "(i, w, v) \<in> set ps")
      case True
      then show ?thesis using Cons.IH [OF f pos Cons.prems(3,4) _ Cons.prems(6)] by blast
    next
      case no: False
      then have "w = x" "v = y" using Cons.prems(5) by (auto simp: p)
      then show ?thesis using False fill_grows [OF f pos Cons.prems(3,4)] dadd_mono [of tw tw' w] dadd_mono [of tv tv' v] by auto
    qed
  qed
qed simp

section \<open>Suggestions\<close>

lemma generated: "s \<in> set (generate_suggestions repo) \<longleftrightarrow>
  (\<exists>m \<in> set (dvalues (lcl_mbls repo)). suggestion_for (sort_key hbl_id (dvalues (lcl_hbls repo))) m = Some s)"
proof -
  have "y \<in> f ` A \<longleftrightarrow> (\<exists>x \<in> A. f x = y)" for y and f :: "mbl \<Rightarrow> suggestion option" and A by blast
  then show ?thesis unfolding generate_suggestions_def Let_def somes_set by (simp only: list.set_map set_sort)
qed

lemma one_mbl: "distinct (map mbl_id ms) \<Longrightarrow> m \<in> set ms \<Longrightarrow> n \<in> set ms \<Longrightarrow> mbl_id n = mbl_id m \<Longrightarrow> n = m"
  by (metis distinct_map inj_onD)

lemma suggestion_for_fill:
  assumes "suggestion_for hs m = Some s"
  obtains tw tc where "fill (dec_of_flt (mbl_max_weight m)) (dec_of_flt (mbl_max_cbm m)) (map parcel_of (matching_hbls hs m)) ([], 0, 0) = (sgn_hbl_ids s, tw, tc)"
    "sgn_mbl_id s = mbl_id m" "sgn_total_weight s = quantize_cents tw" "sgn_total_cbm s = quantize_cents tc" "sgn_hbl_ids s \<noteq> []"
  using assms by (auto simp: suggestion_for_def Let_def split: prod.splits if_splits)

text \<open>A suggestion is for a stored master bill and lists stored house bills of its lane; their totals fit, and with weights and
  volumes that are not negative no house bill of the lane that was left out would still fit.\<close>

theorem suggestions_fit:
  assumes "s \<in> set (generate_suggestions repo)"
    and "\<forall>h \<in> set (dvalues (lcl_hbls repo)). 0 \<le> dec_of_flt (hbl_weight h) \<and> 0 \<le> dec_of_flt (hbl_cbm h)"
    and "0 \<le> dec_of_flt (mbl_max_weight m)" and "0 \<le> dec_of_flt (mbl_max_cbm m)" and "m \<in> set (dvalues (lcl_mbls repo))" and "sgn_mbl_id s = mbl_id m"
    and "distinct (map mbl_id (dvalues (lcl_mbls repo)))"
  shows "\<exists>qs tw tc. sgn_hbl_ids s = map hbl_id qs \<and> qs \<noteq> []
    \<and> (\<forall>h \<in> set qs. h \<in> set (dvalues (lcl_hbls repo)) \<and> hbl_origin h = mbl_origin m \<and> hbl_destination h = mbl_destination m)
    \<and> tw = fold (\<lambda>h t. dadd t (dec_of_flt (hbl_weight h))) qs 0 \<and> tw \<le> dec_of_flt (mbl_max_weight m) \<and> sgn_total_weight s = quantize_cents tw
    \<and> tc = fold (\<lambda>h t. dadd t (dec_of_flt (hbl_cbm h))) qs 0 \<and> tc \<le> dec_of_flt (mbl_max_cbm m) \<and> sgn_total_cbm s = quantize_cents tc
    \<and> (\<forall>h \<in> set (dvalues (lcl_hbls repo)). hbl_origin h = mbl_origin m \<longrightarrow> hbl_destination h = mbl_destination m \<longrightarrow> hbl_id h \<notin> set (sgn_hbl_ids s) \<longrightarrow>
        dec_of_flt (mbl_max_weight m) < dadd tw (dec_of_flt (hbl_weight h)) \<or> dec_of_flt (mbl_max_cbm m) < dadd tc (dec_of_flt (hbl_cbm h)))"
proof -
  let ?hs = "sort_key hbl_id (dvalues (lcl_hbls repo))"
  obtain m' where m': "m' \<in> set (dvalues (lcl_mbls repo))" "suggestion_for ?hs m' = Some s"
    using assms(1) unfolding generated by blast
  have "mbl_id m' = mbl_id m" by (rule suggestion_for_fill [OF m'(2)]) (use assms(6) in simp)
  then have "m' = m" by (rule one_mbl [OF assms(7,5) m'(1)])
  with m' have s: "suggestion_for ?hs m = Some s" by simp
  let ?ps = "map parcel_of (matching_hbls ?hs m)"
  show ?thesis
  proof (rule suggestion_for_fill [OF s])
    fix tw tc assume f: "fill (dec_of_flt (mbl_max_weight m)) (dec_of_flt (mbl_max_cbm m)) ?ps ([], 0, 0) = (sgn_hbl_ids s, tw, tc)"
      and q: "sgn_total_weight s = quantize_cents tw" "sgn_total_cbm s = quantize_cents tc" "sgn_hbl_ids s \<noteq> []"
    from fill_selected [OF f] obtain qs where qs: "sgn_hbl_ids s = map fst qs" "set qs \<subseteq> set ?ps"
      "tw = fold (\<lambda>q t. dadd t (fst (snd q))) qs 0" "tc = fold (\<lambda>q t. dadd t (snd (snd q))) qs 0" by auto
    from qs(2) have "qs \<in> lists (parcel_of ` set (matching_hbls ?hs m))" by auto
    then obtain hs where hs: "qs = map parcel_of hs" "set hs \<subseteq> set (matching_hbls ?hs m)" by (auto simp: lists_image)
    have cap: "tw \<le> dec_of_flt (mbl_max_weight m) \<and> tc \<le> dec_of_flt (mbl_max_cbm m)" by (rule fill_capacity [OF f assms(3,4)])
    have pos: "\<forall>(i, w, v) \<in> set ?ps. 0 \<le> w \<and> 0 \<le> v" using assms(2) by (auto simp: parcel_of_def matching_hbls_def)
    have left: "dec_of_flt (mbl_max_weight m) < dadd tw (dec_of_flt (hbl_weight h)) \<or> dec_of_flt (mbl_max_cbm m) < dadd tc (dec_of_flt (hbl_cbm h))"
      if "h \<in> set (dvalues (lcl_hbls repo))" "hbl_origin h = mbl_origin m" "hbl_destination h = mbl_destination m" "hbl_id h \<notin> set (sgn_hbl_ids s)" for h
    proof (rule fill_maximal [OF f pos drnd_0 drnd_0 _ that(4)])
      show "(hbl_id h, dec_of_flt (hbl_weight h), dec_of_flt (hbl_cbm h)) \<in> set ?ps"
        using that by (force simp: parcel_of_def matching_hbls_def image_iff)
    qed
    show ?thesis
      by (rule exI [of _ hs], rule exI [of _ tw], rule exI [of _ tc])
        (use qs hs cap left q in \<open>auto simp: parcel_of_def matching_hbls_def fold_map o_def subset_iff\<close>)
  qed
qed

text \<open>A house bill is not taken from the pool: master bills of the same lane and capacity are suggested the same house bills, and a
  consolidation that is made changes no suggestion.\<close>

theorem twin_mbls_share_hbls:
  assumes "m \<in> set (dvalues (lcl_mbls repo))" and "m' \<in> set (dvalues (lcl_mbls repo))"
    and "mbl_origin m' = mbl_origin m" and "mbl_destination m' = mbl_destination m"
    and "mbl_max_weight m' = mbl_max_weight m" and "mbl_max_cbm m' = mbl_max_cbm m"
    and "s \<in> set (generate_suggestions repo)" and "sgn_mbl_id s = mbl_id m" and "distinct (map mbl_id (dvalues (lcl_mbls repo)))"
  shows "\<exists>s' \<in> set (generate_suggestions (snd (create_consolidation cid now (mbl_id m) (sgn_hbl_ids s) repo))).
    sgn_mbl_id s' = mbl_id m' \<and> sgn_hbl_ids s' = sgn_hbl_ids s"
proof -
  let ?hs = "sort_key hbl_id (dvalues (lcl_hbls repo))"
  have same: "generate_suggestions (snd (create_consolidation cid now (mbl_id m) (sgn_hbl_ids s) repo)) = generate_suggestions repo"
    by (simp add: generate_suggestions_def create_consolidation_def Let_def)
  obtain n where n: "n \<in> set (dvalues (lcl_mbls repo))" "suggestion_for ?hs n = Some s"
    using assms(7) unfolding generated by blast
  have "mbl_id n = mbl_id m" by (rule suggestion_for_fill [OF n(2)]) (use assms(8) in simp)
  then have "n = m" by (rule one_mbl [OF assms(9,1) n(1)])
  with n have s: "suggestion_for ?hs m = Some s" by simp
  have "matching_hbls ?hs m' = matching_hbls ?hs m" using assms(3,4) by (simp add: matching_hbls_def)
  then have "suggestion_for ?hs m' = Some (s\<lparr>sgn_mbl_id := mbl_id m'\<rparr>)"
    using s assms(5,6) by (auto simp: suggestion_for_def Let_def split: prod.splits if_splits)
  then have "s\<lparr>sgn_mbl_id := mbl_id m'\<rparr> \<in> set (generate_suggestions repo)" unfolding generated using assms(2) by blast
  then show ?thesis unfolding same by (rule bexI [rotated]) simp
qed

section \<open>The allocation of costs\<close>

lemma total_chargeable_covers:
  assumes "\<forall>(i, cw) \<in> set ds. 0 \<le> cw" and "(i, cw) \<in> set ds"
  shows "cw \<le> 10 * total_chargeable ds"
proof -
  have grow: "0 \<le> t \<Longrightarrow> drnd t = t \<Longrightarrow> \<forall>(i, cw) \<in> set ds. 0 \<le> cw \<Longrightarrow> t \<le> fold (\<lambda>(i, cw) t. dadd t cw) ds t
      \<and> (\<forall>(i, cw) \<in> set ds. drnd cw \<le> fold (\<lambda>(i, cw) t. dadd t cw) ds t)" for ds :: "(string \<times> rat) list" and t
  proof (induction ds arbitrary: t)
    case (Cons d ds)
    obtain i cw where d: "d = (i, cw)" by (cases d)
    have cw: "0 \<le> cw" using Cons.prems(3) by (simp add: d)
    have le: "t \<le> dadd t cw" by (rule dadd_le [OF cw Cons.prems(2)])
    have "drnd cw \<le> dadd t cw" unfolding dadd_def by (rule drnd_mono) (use Cons.prems(1) in simp)
    with Cons.IH [of "dadd t cw"] le Cons.prems show ?case by (auto simp: d)
  qed simp
  have "drnd cw \<le> total_chargeable ds" using grow [of 0 ds] assms by (auto simp: total_chargeable_def)
  moreover have "cw / 10 \<le> drnd cw" by (rule drnd_tenth) (use assms in auto)
  ultimately show ?thesis by simp
qed

lemma share_in_cents:
  assumes "0 \<le> k" "10 * k < 10 ^ 28" "0 \<le> cw" "0 < whole \<Longrightarrow> cw \<le> 10 * whole"
  shows "\<exists>x. quantize_cents (dmul (of_int k / 100) (if 0 < whole then ddiv cw whole else 0)) = of_int x / 100 \<and> 0 \<le> x \<and> x \<le> 10 * k"
proof -
  define r where "r = (if 0 < whole then ddiv cw whole else 0)"
  have r: "0 \<le> r" "r \<le> 10"
  proof -
    show "0 \<le> r" using assms(3) by (auto simp: r_def ddiv_def intro: drnd_nonneg)
    have "drnd (cw / whole) \<le> drnd (of_int 10 * 10 powi 0)" if "0 < whole"
      by (rule drnd_mono) (use that assms(4) in \<open>simp add: divide_simps\<close>)
    then show "r \<le> 10" using drnd_exact [of 10 0] by (auto simp: r_def ddiv_def)
  qed
  have lo: "0 \<le> dmul (of_int k / 100) r" unfolding dmul_def by (rule drnd_nonneg) (use assms(1) r in simp)
  have "of_int k / 100 * r \<le> of_int k / 100 * 10" by (rule mult_left_mono) (use assms(1) r in simp_all)
  then have "dmul (of_int k / 100) r \<le> drnd (of_int (10 * k) / 100)" unfolding dmul_def by (intro drnd_mono) simp
  also have "\<dots> = of_int (10 * k) / 100" by (rule drnd_cents) (use assms(1,2) in simp)
  finally have "dmul (of_int k / 100) r * 100 \<le> of_int (10 * k)" by simp
  from half_up_mono [OF this] have hi: "half_up (dmul (of_int k / 100) r * 100) \<le> 10 * k" by (simp only: half_up_of_int)
  have "0 \<le> half_up (dmul (of_int k / 100) r * 100)" using half_up_mono [of "of_int 0" "dmul (of_int k / 100) r * 100"] lo unfolding half_up_of_int by simp
  with hi show ?thesis unfolding r_def [symmetric] quantize_cents_def by blast
qed

lemma allocate_cents:
  assumes "0 \<le> k" "0 \<le> a" "a + 10 * k * int (length ds) < 10 ^ 28" "ds \<noteq> []"
    and "\<forall>(i, cw) \<in> set ds. 0 \<le> cw \<and> (0 < whole \<longrightarrow> cw \<le> 10 * whole)"
  shows "map fst (allocate (of_int k / 100) whole (of_int a / 100) ds) = map fst ds
    \<and> sum_list (map snd (allocate (of_int k / 100) whole (of_int a / 100) ds)) = of_int (k - a) / 100
    \<and> (\<forall>x \<in> set (butlast (allocate (of_int k / 100) whole (of_int a / 100) ds)). 0 \<le> snd x)"
  using assms
proof (induction ds arbitrary: a rule: induct_list012)
  case (2 d)
  obtain i cw where d: "d = (i, cw)" by (cases d)
  have "a < 10 ^ 28" "k < 10 ^ 28" using 2 by auto
  then have "\<bar>k - a\<bar> < 10 ^ 28" using 2(1,2) by auto
  from drnd_cents [OF this] have "dsub (of_int k / 100) (of_int a / 100) = of_int (k - a) / 100" by (simp add: dsub_def diff_divide_distrib)
  then show ?case by (simp add: d)
next
  case (3 d e ds)
  obtain i cw where d: "d = (i, cw)" by (cases d)
  have len: "10 * k * int (length (d # e # ds)) = 10 * k + 10 * k * int (length (e # ds))" by (simp add: algebra_simps)
  have nn: "0 \<le> 10 * k * int (length (e # ds))" using 3(3) by simp
  have small: "10 * k < 10 ^ 28" using 3(4,5) nn unfolding len by linarith
  have "0 \<le> cw" "0 < whole \<Longrightarrow> cw \<le> 10 * whole" using 3(7) by (auto simp: d)
  from share_in_cents [OF 3(3) small this] obtain x where
    x: "quantize_cents (dmul (of_int k / 100) (if 0 < whole then ddiv cw whole else 0)) = of_int x / 100" "0 \<le> x" "x \<le> 10 * k" by blast
  have "a + x < 10 ^ 28" using 3(5) x(3) nn unfolding len by linarith
  then have "\<bar>a + x\<bar> < 10 ^ 28" using 3(4) x(2) by simp
  from drnd_cents [OF this] have add: "dadd (of_int a / 100) (of_int x / 100) = of_int (a + x) / 100" by (simp add: dadd_def add_divide_distrib)
  have step: "allocate (of_int k / 100) whole (of_int a / 100) (d # e # ds)
    = (i, of_int x / 100) # allocate (of_int k / 100) whole (of_int (a + x) / 100) (e # ds)"
    by (simp only: d allocate.simps Let_def x(1) add)
  have ne: "allocate (of_int k / 100) whole (of_int (a + x) / 100) (e # ds) \<noteq> []" by (cases e; cases ds) (simp_all add: Let_def)
  have "map fst (allocate (of_int k / 100) whole (of_int (a + x) / 100) (e # ds)) = map fst (e # ds)
    \<and> sum_list (map snd (allocate (of_int k / 100) whole (of_int (a + x) / 100) (e # ds))) = of_int (k - (a + x)) / 100
    \<and> (\<forall>x \<in> set (butlast (allocate (of_int k / 100) whole (of_int (a + x) / 100) (e # ds))). 0 \<le> snd x)"
    by (rule 3(2)) (use 3(3,4,5,7) x(2,3) len in auto)
  then show ?case unfolding step using ne x(2) by (auto simp: d diff_divide_distrib add_divide_distrib)
qed simp

text \<open>C25: The shares of the stored house bills add up to the cost of the master bill, to the cent; only the last can be negative.\<close>

theorem allocation_sums_exactly:
  assumes "dget (lcl_consolidations repo) cid = Some c" and "get_mbl_cost repo (con_mbl_id c) = cent k" and "0 \<le> k" and "k < money_bound"
    and "\<forall>h \<in> set (dvalues (lcl_hbls repo)). 0 \<le> dec_of_flt (hbl_weight h)" and "int (length (con_hbl_ids c)) \<le> 10 ^ 12"
  shows "\<exists>shares. calculate_cost_allocation cid repo = Inr (of_int k / 100, shares)
    \<and> map fst shares = filter (\<lambda>i. i \<in> set (dkeys (lcl_hbls repo))) (con_hbl_ids c)
    \<and> (shares \<noteq> [] \<longrightarrow> sum_list (map snd shares) = of_int k / 100) \<and> (\<forall>x \<in> set (butlast shares). 0 \<le> snd x)"
proof -
  let ?ds = "hbl_details repo (con_hbl_ids c)"
  have ids: "map fst (hbl_details repo is) = filter (\<lambda>i. i \<in> set (dkeys (lcl_hbls repo))) is" for "is"
  proof (induction "is")
    case (Cons i "is")
    show ?case
    proof (cases "dget (lcl_hbls repo) i")
      case None
      then have "i \<notin> set (dkeys (lcl_hbls repo))" by (simp add: map_of_eq_None_iff)
      then show ?thesis using Cons None by (simp add: hbl_details_def)
    next
      case (Some h)
      then have "i \<in> set (dkeys (lcl_hbls repo))" by (force dest: map_of_SomeD)
      then show ?thesis using Cons Some by (simp add: hbl_details_def)
    qed
  qed (simp add: hbl_details_def)
  have nn: "\<forall>(i, cw) \<in> set ?ds. 0 \<le> cw"
  proof (clarify)
    fix i cw assume "(i, cw) \<in> set ?ds"
    then obtain h where h: "dget (lcl_hbls repo) i = Some h" "cw = get_chargeable_weight (dec_of_flt (hbl_weight h)) (dec_of_flt (hbl_cbm h))"
      by (auto simp: hbl_details_def somes_set map_option_case split: option.splits)
    then have "h \<in> set (dvalues (lcl_hbls repo))" by (force dest: map_of_SomeD)
    then show "0 \<le> cw" using assms(5) by (auto simp: h(2) get_chargeable_weight_def max_def intro: order_trans)
  qed
  have cost: "dec_of_flt (get_mbl_cost repo (con_mbl_id c)) = of_int k / 100" unfolding assms(2) by (rule dec_of_cent [OF assms(3,4)])
  have calc: "calculate_cost_allocation cid repo = Inr (of_int k / 100, allocate (of_int k / 100) (total_chargeable ?ds) 0 ?ds)"
    by (simp add: calculate_cost_allocation_def assms(1) cost Let_def)
  show ?thesis
  proof (cases "?ds = []")
    case True
    then show ?thesis using calc ids [of "con_hbl_ids c"] by simp
  next
    case False
    have "length ?ds = length (filter (\<lambda>i. i \<in> set (dkeys (lcl_hbls repo))) (con_hbl_ids c))" using ids by (metis length_map)
    then have "int (length ?ds) \<le> 10 ^ 12" using assms(6) length_filter_le [of "\<lambda>i. i \<in> set (dkeys (lcl_hbls repo))" "con_hbl_ids c"] by linarith
    then have "10 * k * int (length ?ds) \<le> 10 * 10 ^ 12 * 10 ^ 12"
      using assms(3,4) by (intro mult_mono) (simp_all add: money_bound_def)
    then have "0 + 10 * k * int (length ?ds) < 10 ^ 28" by simp
    moreover have "\<forall>(i, cw) \<in> set ?ds. 0 \<le> cw \<and> (0 < total_chargeable ?ds \<longrightarrow> cw \<le> 10 * total_chargeable ?ds)"
      using nn total_chargeable_covers [OF nn] by blast
    ultimately show ?thesis
      using allocate_cents [OF assms(3) order_refl _ False] ids [of "con_hbl_ids c"] calc by simp
  qed
qed

section \<open>Instances\<close>

lemma sample_numbers: "dec_of_flt 5000 = 5000" "dec_of_flt 12000 = 12000" "dec_of_flt 10 = 10" "dec_of_flt 15 = 15"
proof -
  have "(dec_of_flt 5000 = 5000) \<and> (dec_of_flt 12000 = 12000) \<and> (dec_of_flt 10 = 10) \<and> (dec_of_flt 15 = 15)" by code_simp
  then show "dec_of_flt 5000 = 5000" "dec_of_flt 12000 = 12000" "dec_of_flt 10 = 10" "dec_of_flt 15 = 15" by blast+
qed

definition sample_mbl :: "string \<Rightarrow> mbl" where
  "sample_mbl i = \<lparr>mbl_id = i, mbl_max_weight = 12000, mbl_max_cbm = 15, mbl_origin = ''CNPVG'', mbl_destination = ''USLAX'', mbl_cost = cent 2\<rparr>"

definition sample_hbl :: "string \<Rightarrow> hbl" where
  "sample_hbl i = \<lparr>hbl_id = i, hbl_weight = 5000, hbl_cbm = 10, hbl_origin = ''CNPVG'', hbl_destination = ''USLAX''\<rparr>"

definition sample_lcl :: lcl_repo where
  "sample_lcl = \<lparr>lcl_consolidations = [(''K'', \<lparr>con_id = ''K'', con_mbl_id = ''M'', con_hbl_ids = [''A'', ''B'', ''C'', ''D''], con_created_at = 0\<rparr>)],
     lcl_mbls = [(''M'', sample_mbl ''M''), (''N'', sample_mbl ''N'')],
     lcl_hbls = map (\<lambda>i. (i, sample_hbl i)) [''A'', ''B'', ''C'', ''D'']\<rparr>"

definition single_lcl :: lcl_repo where
  "single_lcl = \<lparr>lcl_consolidations = [], lcl_mbls = [(''M'', sample_mbl ''M''), (''N'', sample_mbl ''N'')], lcl_hbls = [(''A'', sample_hbl ''A'')]\<rparr>"

lemma drnd_5000: "drnd 5000 = 5000" "drnd 10 = 10" "drnd 10000 = 10000" "drnd 20000 = 20000" "drnd 30000 = 30000" "drnd 40000 = 40000"
  using drnd_exact [of 5000 0] drnd_exact [of 10 0] drnd_exact [of 10000 0] drnd_exact [of 20000 0] drnd_exact [of 30000 0] drnd_exact [of 40000 0]
  by simp_all

lemma single_suggestion: "\<exists>s \<in> set (generate_suggestions single_lcl). sgn_mbl_id s = ''M'' \<and> sgn_hbl_ids s = [''A'']"
proof -
  have "\<exists>s. suggestion_for [sample_hbl ''A''] (sample_mbl ''M'') = Some s \<and> sgn_mbl_id s = ''M'' \<and> sgn_hbl_ids s = [''A'']"
    by (simp add: suggestion_for_def matching_hbls_def parcel_of_def sample_hbl_def sample_mbl_def sample_numbers dadd_def drnd_5000)
  then obtain s where "suggestion_for [sample_hbl ''A''] (sample_mbl ''M'') = Some s" "sgn_mbl_id s = ''M''" "sgn_hbl_ids s = [''A'']" by blast
  then show ?thesis by (intro bexI [of _ s]) (simp_all add: generated single_lcl_def)
qed

theorem suggestions_fit_witness:
  "\<exists>s \<in> set (generate_suggestions single_lcl). \<exists>qs :: hbl list. qs \<noteq> [] \<and> sgn_hbl_ids s = map hbl_id qs
    \<and> fold (\<lambda>h t. dadd t (dec_of_flt (hbl_weight h))) qs 0 \<le> 12000"
proof -
  obtain s where s: "s \<in> set (generate_suggestions single_lcl)" "sgn_mbl_id s = ''M''" using single_suggestion by blast
  have m: "sample_mbl ''M'' \<in> set (dvalues (lcl_mbls single_lcl))" "sgn_mbl_id s = mbl_id (sample_mbl ''M'')"
    "distinct (map mbl_id (dvalues (lcl_mbls single_lcl)))" "0 \<le> dec_of_flt (mbl_max_weight (sample_mbl ''M''))" "0 \<le> dec_of_flt (mbl_max_cbm (sample_mbl ''M''))"
    "dec_of_flt (mbl_max_weight (sample_mbl ''M'')) = 12000"
    by (simp_all add: single_lcl_def sample_mbl_def s(2) sample_numbers)
  have h: "\<forall>h \<in> set (dvalues (lcl_hbls single_lcl)). 0 \<le> dec_of_flt (hbl_weight h) \<and> 0 \<le> dec_of_flt (hbl_cbm h)"
    by (simp add: single_lcl_def sample_hbl_def sample_numbers)
  from suggestions_fit [OF s(1) h m(4,5,1,2,3)] obtain qs :: "hbl list" and tw where q: "sgn_hbl_ids s = map hbl_id qs" "qs \<noteq> []"
    "tw = fold (\<lambda>h t. dadd t (dec_of_flt (hbl_weight h))) qs 0" "tw \<le> dec_of_flt (mbl_max_weight (sample_mbl ''M''))"
    by (elim exE conjE) (rule that)
  show ?thesis by (rule bexI [OF _ s(1)], rule exI [of _ qs]) (use q(1,2) q(4) [unfolded q(3) m(6)] in simp)
qed

theorem twin_mbls_share_hbls_witness:
  "\<exists>s' \<in> set (generate_suggestions (snd (create_consolidation ''K'' 0 ''M'' [''A''] single_lcl))). sgn_mbl_id s' = ''N'' \<and> sgn_hbl_ids s' = [''A'']"
proof -
  obtain s where s: "s \<in> set (generate_suggestions single_lcl)" "sgn_mbl_id s = ''M''" "sgn_hbl_ids s = [''A'']" using single_suggestion by blast
  have m: "mbl_id (sample_mbl i) = i" for i by (simp add: sample_mbl_def)
  have "\<exists>s' \<in> set (generate_suggestions (snd (create_consolidation ''K'' 0 (mbl_id (sample_mbl ''M'')) (sgn_hbl_ids s) single_lcl))).
    sgn_mbl_id s' = mbl_id (sample_mbl ''N'') \<and> sgn_hbl_ids s' = sgn_hbl_ids s"
    by (rule twin_mbls_share_hbls [of _ _ _ s]) (simp_all add: single_lcl_def s(1,2) [unfolded single_lcl_def] m, simp_all add: sample_mbl_def)
  then show ?thesis by (simp only: m s(3))
qed

lemma quarter_share: "quantize_cents (dmul (2 / 100) (ddiv 5000 20000)) = 1 / 100"
proof -
  have q: "drnd (1 / 4) = 1 / 4" using drnd_exact [of 25 "-2"] by (simp add: powi10_minus2)
  have h: "drnd (1 / 200) = 1 / 200" using drnd_exact [of 5 "-3"] by (simp add: power_int_minus)
  have d: "ddiv 5000 20000 = 1 / 4" by (simp add: ddiv_def q)
  have m: "dmul (2 / 100) (1 / 4) = 1 / 200" by (simp add: dmul_def h)
  show ?thesis unfolding d m by (simp add: quantize_cents_def half_up_def)
qed

text \<open>Half a cent is rounded up for everyone but the last: of two cents over four equal house bills the last gets minus one.\<close>

theorem last_share_negative:
  "calculate_cost_allocation ''K'' sample_lcl = Inr (2 / 100, [(''A'', 1 / 100), (''B'', 1 / 100), (''C'', 1 / 100), (''D'', - 1 / 100)])"
proof -
  have cost: "dec_of_flt (get_mbl_cost sample_lcl ''M'') = 2 / 100"
    using dec_of_cent [of 2] by (simp add: get_mbl_cost_def sample_lcl_def sample_mbl_def money_bound_def)
  have cw: "get_chargeable_weight 5000 10 = 10000"
    by (simp add: get_chargeable_weight_def dmul_def drnd_5000)
  have ds: "hbl_details sample_lcl [''A'', ''B'', ''C'', ''D''] = [(''A'', 10000), (''B'', 10000), (''C'', 10000), (''D'', 10000)]"
    by (simp add: hbl_details_def sample_lcl_def sample_hbl_def sample_numbers cw)
  have whole: "total_chargeable [(''A'', 10000), (''B'', 10000), (''C'', 10000), (''D'', 10000)] = 40000"
    by (simp add: total_chargeable_def dadd_def drnd_5000)
  have share: "quantize_cents (dmul (1 / 50) (ddiv 10000 40000)) = 1 / 100" using quarter_share by (simp add: ddiv_def)
  have cents: "drnd (1 / 100) = 1 / 100" "drnd (1 / 50) = 1 / 50" "drnd (3 / 100) = 3 / 100" "drnd (- (1 / 100)) = - (1 / 100)"
    using drnd_cents [of 1] drnd_cents [of 2] drnd_cents [of 3] drnd_cents [of "-1"] by simp_all
  show ?thesis
    by (simp add: calculate_cost_allocation_def sample_lcl_def [THEN arg_cong, of lcl_consolidations] cost ds whole share Let_def dadd_def dsub_def cents)
qed

theorem allocation_sums_exactly_witness:
  "\<exists>shares. calculate_cost_allocation ''K'' sample_lcl = Inr (2 / 100, shares) \<and> shares \<noteq> [] \<and> sum_list (map snd shares) = 2 / 100"
proof -
  let ?c = "\<lparr>con_id = ''K'', con_mbl_id = ''M'', con_hbl_ids = [''A'', ''B'', ''C'', ''D''], con_created_at = 0\<rparr>"
  have c: "dget (lcl_consolidations sample_lcl) ''K'' = Some ?c" "get_mbl_cost sample_lcl (con_mbl_id ?c) = cent 2"
    "\<forall>h \<in> set (dvalues (lcl_hbls sample_lcl)). 0 \<le> dec_of_flt (hbl_weight h)" "int (length (con_hbl_ids ?c)) \<le> 10 ^ 12"
    by (simp_all add: sample_lcl_def get_mbl_cost_def sample_mbl_def sample_hbl_def sample_numbers)
  from allocation_sums_exactly [OF c(1,2) _ _ c(3,4)] obtain shares where sh: "calculate_cost_allocation ''K'' sample_lcl = Inr (2 / 100, shares)"
    "map fst shares = filter (\<lambda>i. i \<in> set (dkeys (lcl_hbls sample_lcl))) (con_hbl_ids ?c)" "shares \<noteq> [] \<Longrightarrow> sum_list (map snd shares) = 2 / 100"
    by (auto simp: money_bound_def)
  from sh(2) have "shares \<noteq> []" by (auto simp: sample_lcl_def)
  with sh show ?thesis by blast
qed

section \<open>Air freight\<close>

text \<open>A plan lists parcels of the destination that fit together, and leaves out none that would still fit.\<close>

theorem planning_fits:
  assumes "\<forall>h \<in> set (air_hawbs repo). 0 \<le> hawb_actual_weight h \<and> 0 \<le> hawb_volume h" and "0 \<le> mw" and "0 \<le> mv"
    and "get_planning_suggestions repo dest mw mv = p"
  shows "set (plan_hawbs p) \<subseteq> hawb_id ` set (get_pending_hawbs repo dest) \<and> plan_actual_weight p \<le> mw \<and> plan_volume p \<le> mv
    \<and> plan_chargeable_weight p = max (plan_actual_weight p) (dmul (plan_volume p) 167)
    \<and> (\<forall>h \<in> set (get_pending_hawbs repo dest). hawb_id h \<notin> set (plan_hawbs p) \<longrightarrow>
        mw < dadd (plan_actual_weight p) (hawb_actual_weight h) \<or> mv < dadd (plan_volume p) (hawb_volume h))"
proof -
  let ?hs = "sort_key (\<lambda>h. (hawb_ready_date h, hawb_id h)) (get_pending_hawbs repo dest)"
  let ?ps = "map (\<lambda>h. (hawb_id h, hawb_actual_weight h, hawb_volume h)) ?hs"
  obtain sel tw tv where f: "fill mw mv ?ps ([], 0, 0) = (sel, tw, tv)" by (cases "fill mw mv ?ps ([], 0, 0)") auto
  have p: "plan_hawbs p = sel" "plan_actual_weight p = tw" "plan_volume p = tv" "plan_chargeable_weight p = max tw (dmul tv 167)"
    using assms(4) f by (auto simp: get_planning_suggestions_def air_volumetric_weight_def Let_def)
  have pos: "\<forall>(i, w, v) \<in> set ?ps. 0 \<le> w \<and> 0 \<le> v" using assms(1) by (auto simp: get_pending_hawbs_def)
  have sub: "set sel \<subseteq> hawb_id ` set (get_pending_hawbs repo dest)"
    using fill_selected [OF f] by (fastforce simp: image_iff)
  have "mw < dadd tw (hawb_actual_weight h) \<or> mv < dadd tv (hawb_volume h)"
    if "h \<in> set (get_pending_hawbs repo dest)" "hawb_id h \<notin> set sel" for h
    by (rule fill_maximal [OF f pos drnd_0 drnd_0 _ that(2)]) (use that(1) in force)
  with sub fill_capacity [OF f assms(2,3)] show ?thesis unfolding p by blast
qed

theorem planning_fits_witness:
  "plan_actual_weight (get_planning_suggestions \<lparr>air_hawbs = [\<lparr>hawb_id = ''H'', hawb_destination = ''LAX'', hawb_actual_weight = 5000, hawb_volume = 10,
    hawb_ready_date = 0\<rparr>], air_deconsolidations = []\<rparr> ''LAX'' 6000 20) \<le> 6000"
  using planning_fits [of "\<lparr>air_hawbs = [\<lparr>hawb_id = ''H'', hawb_destination = ''LAX'', hawb_actual_weight = 5000, hawb_volume = 10,
    hawb_ready_date = 0\<rparr>], air_deconsolidations = []\<rparr>" 6000 20 "''LAX''", OF _ _ _ refl] by simp

text \<open>The result of a deconsolidation counts the items that are not good or have a discrepancy, and is what is stored.\<close>

theorem deconsolidation_exact:
  "case deconsolidate mawb its repo of (r, repo') \<Rightarrow>
    dcn_exceptions_raised r = length (filter (\<lambda>(_, _, condition, discrepancy). condition \<noteq> ''good'' \<or> discrepancy \<noteq> None) its)
    \<and> dcn_processed_items r = length its
    \<and> (dcn_status r = ''completed'') = (\<forall>(_, _, condition, discrepancy) \<in> set its. condition = ''good'' \<and> discrepancy = None)
    \<and> dget (air_deconsolidations repo') mawb = Some r \<and> air_hawbs repo' = air_hawbs repo"
proof -
  have eq: "is_exception = (\<lambda>(_, _, condition, discrepancy). condition \<noteq> ''good'' \<or> discrepancy \<noteq> None)" by (auto simp: is_exception_def fun_eq_iff)
  have cnt: "fold (\<lambda>t n. if is_exception t then Suc n else n) its k = k + length (filter is_exception its)" for k :: nat and its
    by (induction its arbitrary: k) simp_all
  have good: "(\<forall>(_, _, condition, discrepancy) \<in> set its. condition = ''good'' \<and> discrepancy = None) = (\<forall>t \<in> set its. \<not> is_exception t)"
    by (auto simp: is_exception_def)
  have none: "filter is_exception its = [] \<longleftrightarrow> (\<forall>t \<in> set its. \<not> is_exception t)" by (simp add: filter_empty_conv)
  show ?thesis unfolding eq [symmetric] good none [symmetric]
    by (simp add: deconsolidate_def cnt dget_dset Let_def)
qed

end
