(* ===== verification/Claims.thy ===== *)
theory Claims
  imports Transactions Decimal_Arith Py_Date
begin

text \<open>
  Claims: \<open>app/services/claims_service.py\<close> over \<open>app/repositories/claims_repository.py\<close>. A request that raises has changed
  nothing, so the repository in memory behaves like a session that is rolled back.
\<close>


section \<open>Claims\<close>

datatype claim_status = REPORTED | UNDER_REVIEW | APPROVED | DENIED | CLOSED

record claim_create =
  clc_shipment_id :: string
  clc_carrier_id :: string
  clc_claim_amount :: rat
  clc_description :: string

record claim =
  clm_id :: string
  clm_shipment_id :: string
  clm_carrier_id :: string
  clm_claim_amount :: rat
  clm_description :: string
  clm_status :: claim_status
  clm_approved_amount :: "rat option"
  clm_settlement_amount :: "rat option"
  clm_net_loss :: "rat option"
  clm_reported_at :: datetime
  clm_closed_at :: "datetime option"
  clm_notes :: "string option"

type_synonym claims_repo = "(string, claim) dict"

definition create_claim :: "string \<Rightarrow> datetime \<Rightarrow> claim_create \<Rightarrow> claims_repo \<Rightarrow> claim \<times> claims_repo" where
  "create_claim cid now q claims =
    (let c = \<lparr>clm_id = cid, clm_shipment_id = clc_shipment_id q, clm_carrier_id = clc_carrier_id q, clm_claim_amount = clc_claim_amount q,
              clm_description = clc_description q, clm_status = REPORTED, clm_approved_amount = None, clm_settlement_amount = None,
              clm_net_loss = None, clm_reported_at = now, clm_closed_at = None, clm_notes = None\<rparr>
     in (c, dset cid c claims))"

text \<open>The fields an update sets: the status and the notes always, an amount or the closing only when there is a value.\<close>

record claim_update =
  clu_status :: claim_status
  clu_notes :: "string option"
  clu_approved_amount :: "rat option"
  clu_settlement_amount :: "rat option"
  clu_net_loss :: "rat option"
  clu_closed_at :: "datetime option"

definition or_old :: "'a option \<Rightarrow> 'a option \<Rightarrow> 'a option" where
  "or_old a b = (case a of None \<Rightarrow> b | Some _ \<Rightarrow> a)"

lemma or_old_simps [simp]: "or_old None b = b" "or_old (Some x) b = Some x"
  by (simp_all add: or_old_def)

definition updated_claim :: "claim_update \<Rightarrow> claim \<Rightarrow> claim" where
  "updated_claim u c = c\<lparr>clm_status := clu_status u, clm_approved_amount := or_old (clu_approved_amount u) (clm_approved_amount c),
     clm_settlement_amount := or_old (clu_settlement_amount u) (clm_settlement_amount c),
     clm_net_loss := or_old (clu_net_loss u) (clm_net_loss c), clm_closed_at := or_old (clu_closed_at u) (clm_closed_at c),
     clm_notes := clu_notes u\<rparr>"

definition update_claim :: "string \<Rightarrow> claim_update \<Rightarrow> claims_repo \<Rightarrow> claim option \<times> claims_repo" where
  "update_claim cid u claims = (case dget claims cid of
     None \<Rightarrow> (None, claims) | Some c \<Rightarrow> (Some (updated_claim u c), dset cid (updated_claim u c) claims))"

fun valid_transitions :: "claim_status \<Rightarrow> claim_status list" where
  "valid_transitions REPORTED = [UNDER_REVIEW, DENIED, CLOSED]"
| "valid_transitions UNDER_REVIEW = [APPROVED, DENIED]"
| "valid_transitions APPROVED = [CLOSED]"
| "valid_transitions DENIED = [CLOSED]"
| "valid_transitions CLOSED = []"

text \<open>How a status is formatted in a message.\<close>

fun status_text :: "claim_status \<Rightarrow> string" where
  "status_text REPORTED = ''ClaimStatus.REPORTED''"
| "status_text UNDER_REVIEW = ''ClaimStatus.UNDER_REVIEW''"
| "status_text APPROVED = ''ClaimStatus.APPROVED''"
| "status_text DENIED = ''ClaimStatus.DENIED''"
| "status_text CLOSED = ''ClaimStatus.CLOSED''"

definition amount_or_zero :: "rat option \<Rightarrow> rat" where "amount_or_zero a = (case a of None \<Rightarrow> 0 | Some x \<Rightarrow> x)"

definition process_claim_status :: "datetime \<Rightarrow> string \<Rightarrow> claim_status \<Rightarrow> rat option \<Rightarrow> rat option \<Rightarrow> string option \<Rightarrow>
    claims_repo \<Rightarrow> claim option res \<times> claims_repo" where
  "process_claim_status now cid status approved settlement remarks claims =
    (case dget claims cid of
       None \<Rightarrow> (Inl (ValueError ''Claim not found''), claims)
     | Some c \<Rightarrow>
       if status \<notin> set (valid_transitions (clm_status c)) \<and> status \<noteq> clm_status c
       then (Inl (ValueError (''Invalid state transition from '' @ status_text (clm_status c) @ '' to '' @ status_text status)), claims)
       else
        (let u = \<lparr>clu_status = status, clu_notes = remarks, clu_approved_amount = approved, clu_settlement_amount = settlement,
                  clu_net_loss = None, clu_closed_at = None\<rparr>;
             u = (if status = CLOSED \<and> clm_status c \<noteq> CLOSED
                  then u\<lparr>clu_closed_at := Some now,
                         clu_net_loss := Some (dsub (amount_or_zero (or_old approved (clm_approved_amount c)))
                           (amount_or_zero (or_old settlement (clm_settlement_amount c))))\<rparr>
                  else u)
         in case update_claim cid u claims of (r, claims) \<Rightarrow> (Inr r, claims)))"

record carrier_metrics =
  met_carrier_id :: string
  met_total_claims :: nat
  met_total_claim_amount :: rat
  met_total_net_loss :: rat

definition get_carrier_metrics :: "string \<Rightarrow> claims_repo \<Rightarrow> carrier_metrics" where
  "get_carrier_metrics carrier_id claims =
    (let cs = filter (\<lambda>c. clm_carrier_id c = carrier_id) (dvalues claims)
     in \<lparr>met_carrier_id = carrier_id, met_total_claims = length cs,
         met_total_claim_amount = fold (\<lambda>x t. dadd t x) (map clm_claim_amount cs) 0,
         met_total_net_loss = fold (\<lambda>x t. dadd t x) (somes (map clm_net_loss cs)) 0\<rparr>)"

section \<open>What requests do to a claim\<close>

datatype claim_op =
    Create_Claim string datetime claim_create
  | Process_Claim datetime string claim_status "rat option" "rat option" "string option"

fun claim_service :: "claim_op \<Rightarrow> claims_repo \<Rightarrow> unit res \<times> claims_repo" where
  "claim_service (Create_Claim cid now q) claims = (Inr (), snd (create_claim cid now q claims))"
| "claim_service (Process_Claim now cid st a s n) claims = (case process_claim_status now cid st a s n claims of (r, claims') \<Rightarrow> (res_map (\<lambda>_. ()) r, claims'))"

fun claim_op_ok :: "claim_op \<Rightarrow> claims_repo \<Rightarrow> bool" where
  "claim_op_ok (Create_Claim cid now q) claims = (cid \<notin> set (dkeys claims))"
| "claim_op_ok (Process_Claim now cid st a s n) claims = True"

text \<open>A successful change of the status, with what it writes.\<close>

lemma process_effect:
  assumes "process_claim_status now cid status approved settlement remarks claims = (Inr r, claims')"
  obtains c c' where "dget claims cid = Some c" "r = Some c'" "claims' = dset cid c' claims"
    "status \<in> set (valid_transitions (clm_status c)) \<or> status = clm_status c" "clm_status c' = status" "clm_notes c' = remarks"
    "clm_approved_amount c' = or_old approved (clm_approved_amount c)" "clm_settlement_amount c' = or_old settlement (clm_settlement_amount c)"
    "status = CLOSED \<and> clm_status c \<noteq> CLOSED \<Longrightarrow> clm_closed_at c' = Some now
      \<and> clm_net_loss c' = Some (dsub (amount_or_zero (clm_approved_amount c')) (amount_or_zero (clm_settlement_amount c')))"
    "\<not> (status = CLOSED \<and> clm_status c \<noteq> CLOSED) \<Longrightarrow> clm_closed_at c' = clm_closed_at c \<and> clm_net_loss c' = clm_net_loss c"
    "clm_carrier_id c' = clm_carrier_id c" "clm_claim_amount c' = clm_claim_amount c"
proof -
  obtain c where c: "dget claims cid = Some c" using assms by (auto simp: process_claim_status_def split: option.splits)
  have ok: "status \<in> set (valid_transitions (clm_status c)) \<or> status = clm_status c"
    using assms by (auto simp: process_claim_status_def c split: if_splits)
  then show thesis
    using assms by (intro that [of c "the r"]) (auto simp: process_claim_status_def c update_claim_def updated_claim_def Let_def split: if_splits)
qed

definition claim_ok :: "claim \<Rightarrow> bool" where
  "claim_ok c \<longleftrightarrow> (clm_status c = CLOSED) = (clm_closed_at c \<noteq> None) \<and> (clm_status c = CLOSED) = (clm_net_loss c \<noteq> None)"

interpretation claims: service_contract claim_service claim_op_ok "\<lambda>claims. \<forall>k c. dget claims k = Some c \<longrightarrow> claim_ok c"
proof
  fix claims op x claims' assume h: "\<forall>k c. dget claims k = Some c \<longrightarrow> claim_ok c" "claim_op_ok op claims" "claim_service op claims = (Inr x, claims')"
  show "\<forall>k c. dget claims' k = Some c \<longrightarrow> claim_ok c"
  proof (cases op)
    case (Create_Claim cid now q)
    have "claim_ok (fst (create_claim cid now q claims))" by (simp add: create_claim_def claim_ok_def Let_def)
    moreover have "claims' = dset cid (fst (create_claim cid now q claims)) claims" using h(3) Create_Claim by (simp add: create_claim_def Let_def)
    ultimately show ?thesis using h(1) by (simp add: dget_dset)
  next
    case (Process_Claim now cid st a s n)
    then obtain r where "process_claim_status now cid st a s n claims = (Inr r, claims')"
      using h(3) by (auto simp: res_map_def res_bind_def split: prod.splits sum.splits)
    then show ?thesis
    proof (rule process_effect)
      fix c c' assume p: "dget claims cid = Some c" "claims' = dset cid c' claims"
        "st \<in> set (valid_transitions (clm_status c)) \<or> st = clm_status c" "clm_status c' = st"
        "st = CLOSED \<and> clm_status c \<noteq> CLOSED \<Longrightarrow> clm_closed_at c' = Some now
          \<and> clm_net_loss c' = Some (dsub (amount_or_zero (clm_approved_amount c')) (amount_or_zero (clm_settlement_amount c')))"
        "\<not> (st = CLOSED \<and> clm_status c \<noteq> CLOSED) \<Longrightarrow> clm_closed_at c' = clm_closed_at c \<and> clm_net_loss c' = clm_net_loss c"
      have "claim_ok c" using h(1) p(1) by blast
      then have "claim_ok c'" using p(3-6) by (cases "st = CLOSED"; cases "clm_status c = CLOSED") (auto simp: claim_ok_def)
      then show ?thesis using h(1) by (auto simp: p(2) dget_dset)
    qed
  qed
qed

text \<open>In every repository the requests reach, a claim is closed exactly when it has a closing time, and then it has a net loss.\<close>

theorem claims_well_formed:
  assumes "reached claim_service claim_op_ok [] claims" and "dget claims k = Some c"
  shows "(clm_status c = CLOSED) = (clm_closed_at c \<noteq> None) \<and> (clm_status c = CLOSED) = (clm_net_loss c \<noteq> None)"
proof -
  have "claim_ok c" using claims.reached_inv [OF assms(1)] assms(2) by simp
  then show ?thesis unfolding claim_ok_def .
qed

text \<open>The rank of a status: every change lowers it, so a claim changes its status at most three times and a closed one never.\<close>

fun claim_rank :: "claim_status \<Rightarrow> nat" where
  "claim_rank REPORTED = 3" | "claim_rank UNDER_REVIEW = 2" | "claim_rank APPROVED = 1" | "claim_rank DENIED = 1" | "claim_rank CLOSED = 0"

lemma transitions_lower: "s \<in> set (valid_transitions t) \<Longrightarrow> claim_rank s < claim_rank t"
  by (cases t) auto

definition status_changes :: "claim_op list \<Rightarrow> string \<Rightarrow> claims_repo \<Rightarrow> nat" where
  "status_changes ops k claims = fst (fold (\<lambda>op (n, claims).
     let claims' = snd (committed (claim_service op claims) claims)
     in ((if map_option clm_status (dget claims' k) = map_option clm_status (dget claims k) then n else Suc n), claims')) ops (0, claims))"

lemma claim_step:
  assumes c: "dget claims k = Some c" and ok: "claim_op_ok op claims"
  shows "\<exists>c'. dget (snd (committed (claim_service op claims) claims)) k = Some c'
    \<and> (clm_status c' = clm_status c \<or> claim_rank (clm_status c') < claim_rank (clm_status c))
    \<and> (clm_status c = CLOSED \<longrightarrow> clm_closed_at c' = clm_closed_at c \<and> clm_net_loss c' = clm_net_loss c)"
proof (cases op)
  case (Create_Claim cid now q)
  have "k \<in> set (dkeys claims)" using c by (force dest: map_of_SomeD)
  then have "k \<noteq> cid" using ok Create_Claim by auto
  then show ?thesis using c by (simp add: Create_Claim create_claim_def dget_dset Let_def)
next
  case (Process_Claim now cid st a s n)
  obtain r claims' where p: "process_claim_status now cid st a s n claims = (r, claims')" by fastforce
  show ?thesis
  proof (cases r)
    case (Inl e)
    then show ?thesis using c by (simp add: Process_Claim p)
  next
    case (Inr x)
    show ?thesis
    proof (rule process_effect [OF p [unfolded Inr]])
      fix d d' assume h: "dget claims cid = Some d" "claims' = dset cid d' claims"
        "st \<in> set (valid_transitions (clm_status d)) \<or> st = clm_status d" "clm_status d' = st"
        "\<not> (st = CLOSED \<and> clm_status d \<noteq> CLOSED) \<Longrightarrow> clm_closed_at d' = clm_closed_at d \<and> clm_net_loss d' = clm_net_loss d"
      have step: "snd (committed (claim_service op claims) claims) = dset cid d' claims" by (simp add: Process_Claim p Inr h(2))
      show ?thesis
      proof (cases "k = cid")
        case True
        then have "d = c" using c h(1) by simp
        then show ?thesis using h(3-5) transitions_lower unfolding step True by (auto simp: dget_dset)
      next
        case False
        then show ?thesis using c unfolding step by (simp add: dget_dset)
      qed
    qed
  qed
qed

text \<open>A closed claim stays closed, with the closing time and the net loss it got then.\<close>

theorem closed_claims_stay_closed:
  assumes "reached claim_service claim_op_ok claims claims'" and "dget claims k = Some c" and "clm_status c = CLOSED"
  shows "\<exists>c'. dget claims' k = Some c' \<and> clm_status c' = CLOSED \<and> clm_closed_at c' = clm_closed_at c \<and> clm_net_loss c' = clm_net_loss c"
  using assms(1)
proof (induction rule: reached.induct)
  case reached_start
  then show ?case using assms(2,3) by blast
next
  case (reached_request claims' op)
  then obtain d where d: "dget claims' k = Some d" "clm_status d = CLOSED" "clm_closed_at d = clm_closed_at c" "clm_net_loss d = clm_net_loss c" by blast
  from claim_step [OF d(1) reached_request(2)] d(2-4) show ?case by auto
qed

text \<open>A sequence of requests, claims that are filed included, each with a new identity.\<close>

fun claim_run_ok :: "claim_op list \<Rightarrow> claims_repo \<Rightarrow> bool" where
  "claim_run_ok [] claims = True"
| "claim_run_ok (op # ops) claims =
     (claim_op_ok op claims \<and> claim_run_ok ops (snd (committed (claim_service op claims) claims)))"

text \<open>C29: Whatever requests follow, other claims filed under new identities included, the status of a claim changes at
  most three times, at most as often as its status leaves room for, and not at all once it is closed. This is the
  workflow of the code, of five statuses; the plan (5.9) prescribes eleven, from REPORTED to CLOSED in ten changes.\<close>

theorem claim_changes_bounded:
  assumes "claim_run_ok ops claims" and "dget claims k = Some c"
  shows "status_changes ops k claims \<le> claim_rank (clm_status c) \<and> status_changes ops k claims \<le> 3
    \<and> (clm_status c = CLOSED \<longrightarrow> status_changes ops k claims = 0)"
proof -
  let ?f = "\<lambda>op (n, claims). let claims' = snd (committed (claim_service op claims) claims)
     in ((if map_option clm_status (dget claims' k) = map_option clm_status (dget claims k) then n else Suc n :: nat), claims')"
  have "dget claims k = Some c \<Longrightarrow> claim_run_ok ops claims
    \<Longrightarrow> fst (fold ?f ops (n, claims)) \<le> n + claim_rank (clm_status c)" for n claims c
  proof (induction ops arbitrary: n claims c)
    case (Cons op ops)
    have ok: "claim_op_ok op claims" "claim_run_ok ops (snd (committed (claim_service op claims) claims))"
      using Cons.prems(2) by simp_all
    from claim_step [OF Cons.prems(1) ok(1)] obtain c' where
      c': "dget (snd (committed (claim_service op claims) claims)) k = Some c'" "clm_status c' = clm_status c \<or> claim_rank (clm_status c') < claim_rank (clm_status c)" by blast
    let ?n = "if map_option clm_status (dget (snd (committed (claim_service op claims) claims)) k) = map_option clm_status (dget claims k) then n else Suc n"
    have "fst (fold ?f ops (?n, snd (committed (claim_service op claims) claims))) \<le> ?n + claim_rank (clm_status c')"
      by (rule Cons.IH [OF c'(1) ok(2)])
    moreover have "?n + claim_rank (clm_status c') \<le> n + claim_rank (clm_status c)" using c' Cons.prems(1) by auto
    moreover have "fold ?f (op # ops) (n, claims) = fold ?f ops (?n, snd (committed (claim_service op claims) claims))" by (simp add: Let_def)
    ultimately show ?case by (simp only: order_trans)
  qed simp
  from this [OF assms(2,1), of 0] have le: "status_changes ops k claims \<le> claim_rank (clm_status c)"
    by (simp add: status_changes_def)
  moreover have "claim_rank (clm_status c) \<le> 3" by (cases "clm_status c") simp_all
  ultimately show ?thesis by auto
qed

text \<open>The amounts of a closed claim can still be changed; the net loss is not computed again. And any change of the status without
  notes erases the notes of the claim.\<close>

theorem closed_amounts_change:
  assumes "dget claims k = Some c" and "clm_status c = CLOSED"
  shows "\<exists>c'. process_claim_status now k CLOSED (Some a) (Some s) None claims = (Inr (Some c'), dset k c' claims)
    \<and> clm_approved_amount c' = Some a \<and> clm_settlement_amount c' = Some s \<and> clm_net_loss c' = clm_net_loss c \<and> clm_notes c' = None"
  using assms by (simp add: process_claim_status_def update_claim_def updated_claim_def Let_def)

text \<open>Closing a claim computes the net loss from the amounts the claim has afterwards.\<close>

theorem closing_computes_net_loss:
  assumes "dget claims k = Some c" and "clm_status c \<in> {REPORTED, APPROVED, DENIED}"
  shows "\<exists>c'. process_claim_status now k CLOSED approved settlement remarks claims = (Inr (Some c'), dset k c' claims)
    \<and> clm_net_loss c' = Some (dsub (amount_or_zero (clm_approved_amount c')) (amount_or_zero (clm_settlement_amount c')))
    \<and> clm_closed_at c' = Some now \<and> clm_status c' = CLOSED"
  using assms by (auto simp: process_claim_status_def update_claim_def updated_claim_def Let_def)

section \<open>An instance\<close>

definition sample_claim :: claim_create where
  "sample_claim = \<lparr>clc_shipment_id = ''SHP123'', clc_carrier_id = ''CAR456'', clc_claim_amount = 1000, clc_description = ''Damaged goods''\<rparr>"

definition one_claim :: claims_repo where "one_claim = snd (create_claim ''C'' 0 sample_claim [])"

lemma one_claim_reached: "reached claim_service claim_op_ok [] one_claim"
  using reached_step [where service = claim_service and ok = claim_op_ok and r = "Create_Claim ''C'' 0 sample_claim" and db = "[]", OF _ claim_service.simps(1)]
  by (simp add: one_claim_def)

lemma one_claim_get: "\<exists>c. dget one_claim ''C'' = Some c \<and> clm_status c = REPORTED"
  by (simp add: one_claim_def create_claim_def Let_def)

theorem closing_computes_net_loss_witness:
  "\<exists>c' claims'. process_claim_status 1 ''C'' CLOSED (Some 800) (Some 500) None one_claim = (Inr (Some c'), claims') \<and> clm_status c' = CLOSED"
proof -
  obtain c where c: "dget one_claim ''C'' = Some c" "clm_status c = REPORTED" using one_claim_get by blast
  from closing_computes_net_loss [OF c(1), of 1 "Some 800" "Some 500" None] c(2) show ?thesis by auto
qed

lemma closed_reached:
  obtains c claims where "reached claim_service claim_op_ok [] claims" "dget claims ''C'' = Some c" "clm_status c = CLOSED"
proof -
  obtain c claims' where p: "process_claim_status 1 ''C'' CLOSED (Some 800) (Some 500) None one_claim = (Inr (Some c), claims')"
    by (auto simp: one_claim_def create_claim_def process_claim_status_def update_claim_def Let_def)
  have "claim_service (Process_Claim 1 ''C'' CLOSED (Some 800) (Some 500) None) one_claim = (Inr (), claims')" by (simp add: p)
  from reached_step [where service = claim_service and ok = claim_op_ok, OF _ this] reached_trans [OF _ one_claim_reached]
  have r: "reached claim_service claim_op_ok [] claims'" by simp
  show thesis
  proof (rule process_effect [OF p])
    fix d d' assume h: "Some c = Some d'" "claims' = dset ''C'' d' one_claim" "clm_status d' = CLOSED"
    have "dget claims' ''C'' = Some d'" by (simp add: h(2) dget_dset)
    with r h(3) show thesis by (intro that)
  qed
qed

theorem claims_well_formed_witness:
  "\<exists>claims c. reached claim_service claim_op_ok [] claims \<and> dget claims ''C'' = Some c \<and> clm_closed_at c \<noteq> None \<and> clm_net_loss c \<noteq> None"
proof (rule closed_reached)
  fix c :: claim and claims assume h: "reached claim_service claim_op_ok [] claims" "dget claims ''C'' = Some c" "clm_status c = CLOSED"
  from claims_well_formed [OF h(1,2)] h show ?thesis by blast
qed

theorem closed_claims_stay_closed_witness:
  "\<exists>claims c. reached claim_service claim_op_ok [] claims \<and> dget claims ''C'' = Some c \<and> clm_status c = CLOSED"
proof (rule closed_reached)
  fix c :: claim and claims assume h: "reached claim_service claim_op_ok [] claims" "dget claims ''C'' = Some c" "clm_status c = CLOSED"
  from closed_claims_stay_closed [OF reached_start h(2,3)] h(1) show ?thesis by blast
qed

theorem closed_amounts_change_witness:
  "\<exists>claims c c'. dget claims ''C'' = Some c \<and> clm_status c = CLOSED
    \<and> process_claim_status 2 ''C'' CLOSED (Some 1) (Some 2) None claims = (Inr (Some c'), dset ''C'' c' claims) \<and> clm_net_loss c' = clm_net_loss c"
proof (rule closed_reached)
  fix c :: claim and claims assume h: "dget claims ''C'' = Some c" "clm_status c = CLOSED"
  from closed_amounts_change [OF h, of 2 1 2] h show ?thesis by blast
qed

theorem claim_changes_bounded_witness:
  "status_changes [Process_Claim 1 ''C'' DENIED None None None, Process_Claim 2 ''C'' REPORTED None None None] ''C'' one_claim \<le> 3"
proof -
  obtain c where c: "dget one_claim ''C'' = Some c" "clm_status c = REPORTED" using one_claim_get by blast
  from claim_changes_bounded [OF _ c(1), of "[Process_Claim 1 ''C'' DENIED None None None, Process_Claim 2 ''C'' REPORTED None None None]"]
  show ?thesis by simp
qed

end
