(* ===== verification/Customs.thy ===== *)
theory Customs
  imports Py_Prelude Decimal_Arith Py_Date
begin

text \<open>
  Customs declarations (\<open>app/services/customs_service.py\<close>) and the reconciliation report
  (\<open>app/services/reconciliation_service.py\<close>).
\<close>


section \<open>Customs\<close>

datatype clearance_status = PENDING | CLEARED | REJECTED | UNDER_REVIEW

record customs_create =
  cde_declared_value :: rat
  cde_currency :: string
  cde_hs_code :: string
  cde_origin_country :: string
  cde_destination_country :: string
  cde_description :: string

record customs_declaration =
  cdn_id :: string
  cdn_shipment_id :: string
  cdn_content :: customs_create
  cdn_status :: clearance_status
  cdn_created_at :: datetime
  cdn_updated_at :: datetime

type_synonym customs_repo = "(string, customs_declaration) dict"

definition jurisdictional_rules :: "(string, rat) dict" where
  "jurisdictional_rules = [(''US'', 2500), (''EU'', 1000)]"

definition sanctions_list :: "string list" where "sanctions_list = [''WEAPONS'', ''RESTRICTED_TECH'']"

definition check_sanctions :: "string \<Rightarrow> bool" where
  "check_sanctions description = (\<not> (\<exists>t \<in> set sanctions_list. py_in t (py_upper description)))"

definition check_jurisdictional_rules :: "string \<Rightarrow> rat \<Rightarrow> clearance_status" where
  "check_jurisdictional_rules destination declared = (case dget jurisdictional_rules destination of
     None \<Rightarrow> CLEARED | Some maximum \<Rightarrow> if maximum < declared then UNDER_REVIEW else CLEARED)"

definition customs_new :: "string \<Rightarrow> datetime \<Rightarrow> string \<Rightarrow> customs_create \<Rightarrow> customs_repo \<Rightarrow> customs_declaration \<times> customs_repo" where
  "customs_new did now shipment_id q repo =
    (let d = \<lparr>cdn_id = did, cdn_shipment_id = shipment_id, cdn_content = q, cdn_status = PENDING, cdn_created_at = now, cdn_updated_at = now\<rparr>
     in (d, dset did d repo))"

definition list_by_shipment :: "customs_repo \<Rightarrow> string \<Rightarrow> customs_declaration list" where
  "list_by_shipment repo shipment_id = filter (\<lambda>d. cdn_shipment_id d = shipment_id) (dvalues repo)"

definition update_clearance :: "datetime \<Rightarrow> string \<Rightarrow> clearance_status \<Rightarrow> customs_repo \<Rightarrow> customs_declaration option \<times> customs_repo" where
  "update_clearance now did status repo = (case dget repo did of
     None \<Rightarrow> (None, repo)
   | Some d \<Rightarrow> (let d = d\<lparr>cdn_status := status, cdn_updated_at := now\<rparr> in (Some d, dset did d repo)))"

definition create_declaration :: "string \<Rightarrow> datetime \<Rightarrow> string \<Rightarrow> customs_create \<Rightarrow> customs_repo \<Rightarrow> customs_declaration option \<times> customs_repo" where
  "create_declaration did now shipment_id q repo =
    (if \<not> check_sanctions (cde_description q)
     then (case customs_new did now shipment_id q repo of (d, repo) \<Rightarrow> update_clearance now (cdn_id d) REJECTED repo)
     else
      (let initial = check_jurisdictional_rules (cde_destination_country q) (cde_declared_value q)
       in case customs_new did now shipment_id q repo of (d, repo) \<Rightarrow>
            if initial \<noteq> PENDING then update_clearance now (cdn_id d) initial repo else (Some d, repo)))"

text \<open>A declaration is rejected when a sanctioned term occurs in the description, is reviewed when its value exceeds the limit of
  the destination, and is cleared otherwise; the currency is not looked at, and a destination without a rule is never reviewed.\<close>

theorem declaration_exact:
  "\<exists>d. create_declaration did now s q repo = (Some d, dset did d repo) \<and> cdn_id d = did \<and> cdn_shipment_id d = s \<and> cdn_content d = q
    \<and> cdn_status d = (if (\<exists>t \<in> {''WEAPONS'', ''RESTRICTED_TECH''}. \<exists>u v. py_upper (cde_description q) = u @ t @ v) then REJECTED
        else if cde_destination_country q = ''US'' \<and> 2500 < cde_declared_value q \<or> cde_destination_country q = ''EU'' \<and> 1000 < cde_declared_value q
        then UNDER_REVIEW else CLEARED)"
proof -
  have san: "(\<exists>t \<in> {''WEAPONS'', ''RESTRICTED_TECH''}. \<exists>u v. py_upper (cde_description q) = u @ t @ v) = (\<not> check_sanctions (cde_description q))"
    unfolding check_sanctions_def py_in_def sublist_def sanctions_list_def by simp
  have rule: "check_jurisdictional_rules c x = (if c = ''US'' \<and> 2500 < x \<or> c = ''EU'' \<and> 1000 < x then UNDER_REVIEW else CLEARED)" for c x
    by (auto simp: check_jurisdictional_rules_def jurisdictional_rules_def)
  have upd: "update_clearance now did st (snd (customs_new did now s q repo)) =
    (Some \<lparr>cdn_id = did, cdn_shipment_id = s, cdn_content = q, cdn_status = st, cdn_created_at = now, cdn_updated_at = now\<rparr>,
     dset did \<lparr>cdn_id = did, cdn_shipment_id = s, cdn_content = q, cdn_status = st, cdn_created_at = now, cdn_updated_at = now\<rparr> repo)" for st
    by (simp add: update_clearance_def customs_new_def Let_def dget_dset)
  have pending: "check_jurisdictional_rules c x \<noteq> PENDING" for c x by (simp add: rule)
  have id: "cdn_id (fst (customs_new did now s q repo)) = did" by (simp add: customs_new_def Let_def)
  have "create_declaration did now s q repo = update_clearance now did (if \<not> check_sanctions (cde_description q) then REJECTED
      else check_jurisdictional_rules (cde_destination_country q) (cde_declared_value q)) (snd (customs_new did now s q repo))"
    using id pending by (simp add: create_declaration_def Let_def case_prod_unfold)
  then show ?thesis unfolding upd san rule [symmetric] by auto
qed

text \<open>The status of a declaration can be set to anything from anything: a rejected declaration can be cleared.\<close>

theorem rejected_can_be_cleared:
  assumes "dget repo k = Some d"
  shows "\<exists>d'. update_clearance now k CLEARED repo = (Some d', dset k d' repo) \<and> cdn_status d' = CLEARED \<and> cdn_content d' = cdn_content d"
  using assms by (simp add: update_clearance_def Let_def)

theorem rejected_can_be_cleared_witness:
  "\<exists>d d'. create_declaration ''D'' 0 ''S'' \<lparr>cde_declared_value = 1, cde_currency = ''USD'', cde_hs_code = [], cde_origin_country = ''CN'',
      cde_destination_country = ''US'', cde_description = ''weapons''\<rparr> [] = (Some d, [(''D'', d)]) \<and> cdn_status d = REJECTED
    \<and> update_clearance 1 ''D'' CLEARED [(''D'', d)] = (Some d', [(''D'', d')]) \<and> cdn_status d' = CLEARED"
proof -
  let ?q = "\<lparr>cde_declared_value = 1, cde_currency = ''USD'', cde_hs_code = [], cde_origin_country = ''CN'', cde_destination_country = ''US'',
    cde_description = ''weapons''\<rparr>"
  have "\<not> check_sanctions ''weapons''" by code_simp
  then obtain d where d: "create_declaration ''D'' 0 ''S'' ?q [] = (Some d, [(''D'', d)])" "cdn_status d = REJECTED"
    by (simp add: create_declaration_def customs_new_def update_clearance_def Let_def)
  from rejected_can_be_cleared [of "[(''D'', d)]" "''D''" d 1] d show ?thesis by auto
qed

section \<open>The reconciliation report\<close>

text \<open>A row is a dictionary in which every key may be missing; how an amount is written is the parameter \<open>fmt\<close>.\<close>

record reconciliation_row =
  rcn_id :: "string option"
  rcn_expected_amount :: "rat option"
  rcn_actual_amount :: "rat option"
  rcn_registered :: "bool option"

record settlement_row =
  pmr_id :: "string option"
  pmr_amount :: "rat option"
  pmr_matched :: "bool option"

record discrepancy =
  dcy_type :: string
  dcy_description :: string
  dcy_amount :: rat
  dcy_reference_id :: string
  dcy_auto_resolved :: bool

record reconciliation_report =
  rrp_period_start :: datetime
  rrp_period_end :: datetime
  rrp_total_revenue :: rat
  rrp_total_cost :: rat
  rrp_discrepancies :: "discrepancy list"
  rrp_status :: string

definition get_or :: "'a \<Rightarrow> 'a option \<Rightarrow> 'a" where "get_or x a = (case a of None \<Rightarrow> x | Some y \<Rightarrow> y)"

definition tolerance :: rat where "tolerance = 5"

definition discrepancy_entry :: "string \<Rightarrow> string \<Rightarrow> rat \<Rightarrow> string option \<Rightarrow> bool \<Rightarrow> discrepancy" where
  "discrepancy_entry kind description amount reference auto_resolved =
    \<lparr>dcy_type = kind, dcy_description = description, dcy_amount = amount, dcy_reference_id = get_or ''unknown'' reference, dcy_auto_resolved = auto_resolved\<rparr>"

fun revenue_loop :: "(rat \<Rightarrow> string) \<Rightarrow> reconciliation_row list \<Rightarrow> rat \<times> discrepancy list \<Rightarrow> rat \<times> discrepancy list" where
  "revenue_loop fmt [] s = s"
| "revenue_loop fmt (i # rows) (revenue, ds) =
    (let expected = get_or 0 (rcn_expected_amount i); actual = get_or 0 (rcn_actual_amount i); diff = dsub actual expected
     in revenue_loop fmt rows (dadd revenue actual,
       if tolerance < diff then ds @ [discrepancy_entry ''revenue_overbilling'' (''Overbilled by '' @ fmt diff) diff (rcn_id i) False]
       else if diff < - tolerance
       then ds @ [discrepancy_entry ''revenue_leakage'' (''Revenue leakage of '' @ fmt (- diff)) (- diff) (rcn_id i) False]
       else if diff \<noteq> 0
       then ds @ [discrepancy_entry ''revenue_variance_auto_resolved'' (''Variance of '' @ fmt diff @ '' auto-resolved'') diff (rcn_id i) True]
       else ds))"

fun cost_loop :: "(rat \<Rightarrow> string) \<Rightarrow> reconciliation_row list \<Rightarrow> rat \<times> discrepancy list \<Rightarrow> rat \<times> discrepancy list" where
  "cost_loop fmt [] s = s"
| "cost_loop fmt (c # rows) (cost, ds) =
    (let expected = get_or 0 (rcn_expected_amount c); actual = get_or 0 (rcn_actual_amount c)
     in cost_loop fmt rows (dadd cost actual,
       if \<not> get_or True (rcn_registered c)
       then ds @ [discrepancy_entry ''unregistered_cost'' (''Unregistered cost of '' @ fmt actual) actual (rcn_id c) False]
       else let diff = dsub actual expected
         in if tolerance < \<bar>diff\<bar> then ds @ [discrepancy_entry ''cost_variance'' (''Cost variance of '' @ fmt diff) diff (rcn_id c) False]
            else if diff \<noteq> 0
            then ds @ [discrepancy_entry ''cost_variance_auto_resolved'' (''Variance of '' @ fmt diff @ '' auto-resolved'') diff (rcn_id c) True]
            else ds))"

definition payment_discrepancies :: "settlement_row list \<Rightarrow> discrepancy list" where
  "payment_discrepancies pays = map (\<lambda>p. discrepancy_entry ''suspense_payment'' ''Unmatched payment'' (get_or 0 (pmr_amount p)) (pmr_id p) False)
     (filter (\<lambda>p. \<not> get_or False (pmr_matched p)) pays)"

definition generate_report :: "(rat \<Rightarrow> string) \<Rightarrow> datetime \<Rightarrow> datetime \<Rightarrow> reconciliation_row list \<Rightarrow> reconciliation_row list \<Rightarrow> settlement_row list \<Rightarrow>
    reconciliation_report" where
  "generate_report fmt start stop invoices costs payments =
    (case revenue_loop fmt invoices (0, []) of (revenue, ds) \<Rightarrow> case cost_loop fmt costs (0, ds) of (cost, ds) \<Rightarrow>
      let ds = ds @ payment_discrepancies payments
      in \<lparr>rrp_period_start = start, rrp_period_end = stop, rrp_total_revenue = revenue, rrp_total_cost = cost, rrp_discrepancies = ds,
          rrp_status = (if ds = [] then ''completed'' else ''needs_review'')\<rparr>)"

lemma drnd_eq_0: "drnd x = 0 \<longleftrightarrow> x = 0"
proof -
  have pos: "drnd y \<noteq> 0" if "0 < y" for y
    using drnd_between [OF that] powi10_pos [of "expo10 y"] by linarith
  show ?thesis using pos [of x] pos [of "- x"] by (cases x "0 :: rat" rule: linorder_cases) (auto simp: drnd_minus)
qed

text \<open>What a row adds to the report.\<close>

definition revenue_discrepancies :: "(rat \<Rightarrow> string) \<Rightarrow> reconciliation_row \<Rightarrow> discrepancy list" where
  "revenue_discrepancies fmt i = (let diff = dsub (get_or 0 (rcn_actual_amount i)) (get_or 0 (rcn_expected_amount i)) in
     if 5 < diff then [discrepancy_entry ''revenue_overbilling'' (''Overbilled by '' @ fmt diff) diff (rcn_id i) False]
     else if diff < - 5 then [discrepancy_entry ''revenue_leakage'' (''Revenue leakage of '' @ fmt (- diff)) (- diff) (rcn_id i) False]
     else if diff = 0 then []
     else [discrepancy_entry ''revenue_variance_auto_resolved'' (''Variance of '' @ fmt diff @ '' auto-resolved'') diff (rcn_id i) True])"

definition cost_discrepancies :: "(rat \<Rightarrow> string) \<Rightarrow> reconciliation_row \<Rightarrow> discrepancy list" where
  "cost_discrepancies fmt c =
    (let actual = get_or 0 (rcn_actual_amount c); diff = dsub actual (get_or 0 (rcn_expected_amount c)) in
     if \<not> get_or True (rcn_registered c) then [discrepancy_entry ''unregistered_cost'' (''Unregistered cost of '' @ fmt actual) actual (rcn_id c) False]
     else if 5 < \<bar>diff\<bar> then [discrepancy_entry ''cost_variance'' (''Cost variance of '' @ fmt diff) diff (rcn_id c) False]
     else if diff = 0 then []
     else [discrepancy_entry ''cost_variance_auto_resolved'' (''Variance of '' @ fmt diff @ '' auto-resolved'') diff (rcn_id c) True])"

lemma revenue_loop_exact: "revenue_loop fmt rows (r, ds) =
  (fold (\<lambda>i t. dadd t (get_or 0 (rcn_actual_amount i))) rows r, ds @ concat (map (revenue_discrepancies fmt) rows))"
proof (induction rows arbitrary: r ds)
  case (Cons i rows)
  show ?case unfolding revenue_loop.simps Let_def Cons.IH
    by (simp add: revenue_discrepancies_def [of fmt i] tolerance_def Let_def)
qed simp

lemma cost_loop_exact: "cost_loop fmt rows (r, ds) =
  (fold (\<lambda>i t. dadd t (get_or 0 (rcn_actual_amount i))) rows r, ds @ concat (map (cost_discrepancies fmt) rows))"
proof (induction rows arbitrary: r ds)
  case (Cons i rows)
  show ?case unfolding cost_loop.simps Let_def Cons.IH
    by (simp add: cost_discrepancies_def [of fmt i] tolerance_def Let_def)
qed simp

lemma dsub_self: "dsub a a = 0" by (simp add: dsub_def)

lemma revenue_none: "revenue_discrepancies fmt i = [] \<longleftrightarrow> get_or 0 (rcn_actual_amount i) = get_or 0 (rcn_expected_amount i)"
proof -
  have "dsub a e = 0 \<longleftrightarrow> a = e" for a e by (simp add: dsub_def drnd_eq_0)
  then show ?thesis by (auto simp: revenue_discrepancies_def Let_def dsub_self)
qed

lemma cost_none: "cost_discrepancies fmt c = [] \<longleftrightarrow> get_or True (rcn_registered c) \<and> get_or 0 (rcn_actual_amount c) = get_or 0 (rcn_expected_amount c)"
proof -
  have "dsub a e = 0 \<longleftrightarrow> a = e" for a e by (simp add: dsub_def drnd_eq_0)
  then show ?thesis by (auto simp: cost_discrepancies_def Let_def dsub_self)
qed

lemma unresolved_revenue: "filter (\<lambda>d. \<not> dcy_auto_resolved d) (revenue_discrepancies fmt i) \<noteq> [] \<longleftrightarrow>
    5 < \<bar>dsub (get_or 0 (rcn_actual_amount i)) (get_or 0 (rcn_expected_amount i))\<bar>"
  by (auto simp: revenue_discrepancies_def Let_def discrepancy_entry_def)

lemma unresolved_cost: "filter (\<lambda>d. \<not> dcy_auto_resolved d) (cost_discrepancies fmt c) \<noteq> [] \<longleftrightarrow> \<not> get_or True (rcn_registered c)
    \<or> 5 < \<bar>dsub (get_or 0 (rcn_actual_amount c)) (get_or 0 (rcn_expected_amount c))\<bar>"
  by (auto simp: cost_discrepancies_def Let_def discrepancy_entry_def)

text \<open>A report is complete exactly when every amount is as expected to the last digit, every cost is registered and every payment
  matched: a variance that is resolved automatically still demands a review. What is left unresolved are variances of more than
  five, unregistered costs and unmatched payments.\<close>

theorem report_complete_iff:
  "((rrp_status (generate_report fmt start stop invoices costs payments) = ''completed'') \<longleftrightarrow>
      (\<forall>i \<in> set invoices. get_or 0 (rcn_actual_amount i) = get_or 0 (rcn_expected_amount i))
      \<and> (\<forall>c \<in> set costs. get_or True (rcn_registered c) \<and> get_or 0 (rcn_actual_amount c) = get_or 0 (rcn_expected_amount c))
      \<and> (\<forall>p \<in> set payments. get_or False (pmr_matched p)))
    \<and> ((\<forall>d \<in> set (rrp_discrepancies (generate_report fmt start stop invoices costs payments)). dcy_auto_resolved d) \<longleftrightarrow>
      (\<forall>i \<in> set invoices. \<bar>dsub (get_or 0 (rcn_actual_amount i)) (get_or 0 (rcn_expected_amount i))\<bar> \<le> 5)
      \<and> (\<forall>c \<in> set costs. get_or True (rcn_registered c) \<and> \<bar>dsub (get_or 0 (rcn_actual_amount c)) (get_or 0 (rcn_expected_amount c))\<bar> \<le> 5)
      \<and> (\<forall>p \<in> set payments. get_or False (pmr_matched p)))"
  (is "?complete \<and> ?resolved")
proof -
  let ?off = "\<lambda>r. dsub (get_or 0 (rcn_actual_amount r)) (get_or 0 (rcn_expected_amount r))"
  let ?r = "generate_report fmt start stop invoices costs payments"
  have ds: "rrp_discrepancies ?r = concat (map (revenue_discrepancies fmt) invoices) @ concat (map (cost_discrepancies fmt) costs) @ payment_discrepancies payments"
    by (simp add: generate_report_def revenue_loop_exact cost_loop_exact Let_def)
  have st: "rrp_status ?r = ''completed'' \<longleftrightarrow> rrp_discrepancies ?r = []"
    by (simp add: generate_report_def revenue_loop_exact cost_loop_exact Let_def)
  have pay: "payment_discrepancies payments = [] \<longleftrightarrow> (\<forall>p \<in> set payments. get_or False (pmr_matched p))"
    by (simp add: payment_discrepancies_def filter_empty_conv)
  have complete: ?complete
    unfolding st ds append_is_Nil_conv pay concat_eq_Nil_conv by (simp add: revenue_none cost_none)
  have rev: "(\<forall>d \<in> set (revenue_discrepancies fmt i). dcy_auto_resolved d) \<longleftrightarrow> \<bar>?off i\<bar> \<le> 5" for i
    using unresolved_revenue [of fmt i] by (auto simp: filter_empty_conv not_less)
  have cost: "(\<forall>d \<in> set (cost_discrepancies fmt c). dcy_auto_resolved d) \<longleftrightarrow> get_or True (rcn_registered c) \<and> \<bar>?off c\<bar> \<le> 5" for c
    using unresolved_cost [of fmt c] by (auto simp: filter_empty_conv not_less)
  have p: "(\<forall>d \<in> set (payment_discrepancies payments). dcy_auto_resolved d) \<longleftrightarrow> (\<forall>p \<in> set payments. get_or False (pmr_matched p))"
    by (auto simp: payment_discrepancies_def discrepancy_entry_def)
  have "(\<forall>d \<in> set (rrp_discrepancies ?r). dcy_auto_resolved d) \<longleftrightarrow> (\<forall>i \<in> set invoices. \<forall>d \<in> set (revenue_discrepancies fmt i). dcy_auto_resolved d)
      \<and> (\<forall>c \<in> set costs. \<forall>d \<in> set (cost_discrepancies fmt c). dcy_auto_resolved d) \<and> (\<forall>d \<in> set (payment_discrepancies payments). dcy_auto_resolved d)"
    unfolding ds by auto
  then have ?resolved unfolding rev cost p .
  with complete show ?thesis ..
qed

end
