(* ===== verification/Tariff_Versions.thy ===== *)
theory Tariff_Versions
  imports Py_Float Py_Date
begin

text \<open>
  The generic repositories of \<open>app/modules/commercial/ports.py\<close>, the records of
  \<open>rate_engine/models.py\<close> and the versioning service of \<open>rate_engine/versioning.py\<close>. A version and
  its lines live in repositories that refuse every update; what clients rely on is that nothing
  stored is ever changed, the interface \<open>append_only\<close> below, which both repositories of the
  service provide.
\<close>

section \<open>Repositories\<close>

type_synonym 'e memory_repo = "(string, 'e) dict"

definition repo_get :: "'e memory_repo \<Rightarrow> string \<Rightarrow> 'e option" where
  "repo_get store entity_id = dget store entity_id"

text \<open>\<open>list(**filters)\<close>: each filter compares an attribute with a value.\<close>

definition repo_list :: "('e \<Rightarrow> bool) list \<Rightarrow> 'e memory_repo \<Rightarrow> 'e list" where
  "repo_list filters store = fold filter filters (dvalues store)"

definition repo_add :: "('e \<Rightarrow> string) \<Rightarrow> 'e \<Rightarrow> 'e memory_repo \<Rightarrow> 'e res \<times> 'e memory_repo" where
  "repo_add id_attr e store =
    (if dget store (id_attr e) \<noteq> None
     then (Inl (ValueError (''Entity with id '' @ [CHR 0x27] @ id_attr e @ [CHR 0x27] @ '' already exists'')), store)
     else (Inr e, dset (id_attr e) e store))"

definition repo_update :: "('e \<Rightarrow> string) \<Rightarrow> 'e \<Rightarrow> 'e memory_repo \<Rightarrow> 'e res \<times> 'e memory_repo" where
  "repo_update id_attr e store =
    (if dget store (id_attr e) = None
     then (Inl (ValueError (''Entity with id '' @ [CHR 0x27] @ id_attr e @ [CHR 0x27] @ '' not found'')), store)
     else (Inr e, dset (id_attr e) e store))"

definition repo_delete :: "string \<Rightarrow> 'e memory_repo \<Rightarrow> bool \<times> 'e memory_repo" where
  "repo_delete entity_id store = (dget store entity_id \<noteq> None, AList.delete entity_id store)"

definition repo_count :: "'e memory_repo \<Rightarrow> int" where
  "repo_count store = int (length store)"

definition immutable_update :: "'e \<Rightarrow> 'e memory_repo \<Rightarrow> 'e res \<times> 'e memory_repo" where
  "immutable_update e store =
    (Inl (ValueError (''This entity is immutable once created - create a new version instead '' @
       ''of updating an existing one.'')), store)"

section \<open>Records\<close>

record tariff_rate =
  tr_id :: string
  tr_rate_number :: string
  tr_rate_type :: string
  tr_rate_category :: string
  tr_carrier_vendor_id :: string
  tr_service_name :: string
  tr_origin_location_id :: string
  tr_destination_location_id :: string
  tr_via_routing :: "string option"
  tr_commodity_id :: "string option"
  tr_customer_id :: "string option"
  tr_effective_date :: date
  tr_expiry_date :: date
  tr_currency_code :: string
  tr_status :: string

record tariff_version =
  tv_id :: string
  tv_rate_id :: string
  tv_version_number :: int
  tv_modified_by :: string
  tv_modified_date :: datetime
  tv_reason :: string
  tv_approval_status :: string

record tariff_line =
  tl_id :: string
  tl_rate_version_id :: string
  tl_charge_code :: string
  tl_rate_basis :: string
  tl_weight_break_from :: "flt option"
  tl_weight_break_to :: "flt option"
  tl_container_type_code :: "string option"
  tl_amount :: flt

record tariff_surcharge =
  ts_id :: string
  ts_rate_version_id :: string
  ts_charge_code :: string
  ts_basis :: string
  ts_amount :: flt
  ts_applicable_from :: date
  ts_applicable_to :: date

section \<open>The versioning service\<close>

record versioning_state =
  vs_versions :: "tariff_version memory_repo"
  vs_lines :: "tariff_line memory_repo"

definition versions_of :: "versioning_state \<Rightarrow> string \<Rightarrow> tariff_version list" where
  "versions_of s rid = repo_list [\<lambda>v. tv_rate_id v = rid] (vs_versions s)"

definition next_number :: "tariff_version list \<Rightarrow> int" where
  "next_number vs = (case vs of [] \<Rightarrow> 0 | v # ws \<Rightarrow> tv_version_number (max_by tv_version_number v ws)) + 1"

text \<open>
  The identities drawn from the generator in one call are \<open>ids 0\<close> for the version and
  \<open>ids 1, ids 2, \<dots>\<close> for its lines. A clash of identities raises with the part done so far stored.
\<close>

fun add_lines :: "(nat \<Rightarrow> string) \<Rightarrow> nat \<Rightarrow> string \<Rightarrow> tariff_line list \<Rightarrow> tariff_line memory_repo \<Rightarrow> unit res \<times> tariff_line memory_repo" where
  "add_lines ids n vid [] store = (Inr (), store)"
| "add_lines ids n vid (l # ls) store =
    (case repo_add tl_id (l\<lparr>tl_id := ids n, tl_rate_version_id := vid\<rparr>) store of
       (Inl e, store) \<Rightarrow> (Inl e, store)
     | (Inr _, store) \<Rightarrow> add_lines ids (Suc n) vid ls store)"

definition create_new_version :: "(nat \<Rightarrow> string) \<Rightarrow> datetime \<Rightarrow> string \<Rightarrow> string \<Rightarrow> string \<Rightarrow> tariff_line list \<Rightarrow>
    datetime option \<Rightarrow> versioning_state \<Rightarrow> tariff_version res \<times> versioning_state" where
  "create_new_version ids now rid modified_by reason lines modified_date s =
    (let existing_versions = versions_of s rid;
         version = \<lparr>tv_id = ids 0, tv_rate_id = rid, tv_version_number = next_number existing_versions,
           tv_modified_by = modified_by,
           tv_modified_date = (case modified_date of None \<Rightarrow> now | Some t \<Rightarrow> t),
           tv_reason = reason, tv_approval_status = ''DRAFT''\<rparr>
     in case repo_add tv_id version (vs_versions s) of
          (Inl e, vr) \<Rightarrow> (Inl e, s\<lparr>vs_versions := vr\<rparr>)
        | (Inr _, vr) \<Rightarrow>
            (case add_lines ids 1 (tv_id version) lines (vs_lines s) of
               (Inl e, lr) \<Rightarrow> (Inl e, \<lparr>vs_versions = vr, vs_lines = lr\<rparr>)
             | (Inr _, lr) \<Rightarrow> (Inr version, \<lparr>vs_versions = vr, vs_lines = lr\<rparr>)))"

definition get_latest_version :: "versioning_state \<Rightarrow> string \<Rightarrow> tariff_version option" where
  "get_latest_version s rid = (case versions_of s rid of [] \<Rightarrow> None
     | v # vs \<Rightarrow> Some (max_by tv_version_number v vs))"

definition get_lines_for_version :: "versioning_state \<Rightarrow> string \<Rightarrow> tariff_line list" where
  "get_lines_for_version s vid = repo_list [\<lambda>l. tl_rate_version_id l = vid] (vs_lines s)"

record version_comparison =
  vcmp_version_a :: tariff_version
  vcmp_version_b :: tariff_version
  vcmp_lines_a :: "tariff_line list"
  vcmp_lines_b :: "tariff_line list"

definition compare_versions :: "versioning_state \<Rightarrow> string \<Rightarrow> int \<Rightarrow> int \<Rightarrow> version_comparison res" where
  "compare_versions s rid version_a version_b =
    (let versions = dict_of (map (\<lambda>v. (tv_version_number v, v)) (versions_of s rid)) in
     case (dget versions version_a, dget versions version_b) of
       (Some a, Some b) \<Rightarrow> Inr \<lparr>vcmp_version_a = a, vcmp_version_b = b,
         vcmp_lines_a = get_lines_for_version s (tv_id a), vcmp_lines_b = get_lines_for_version s (tv_id b)\<rparr>
     | _ \<Rightarrow> Inl (ValueError ''One or both version numbers do not exist for this rate''))"

section \<open>Append-only histories\<close>

text \<open>
  A store is append-only under some operations when a lookup that succeeds keeps its answer.
\<close>

locale append_only =
  fixes step :: "'op \<Rightarrow> 's \<Rightarrow> 's"
    and lookup :: "'s \<Rightarrow> 'k \<Rightarrow> 'v option"
  assumes step_keeps: "lookup s k = Some v \<Longrightarrow> lookup (step op s) k = Some v"
begin

lemma run_keeps: "lookup s k = Some v \<Longrightarrow> lookup (fold step ops s) k = Some v"
  by (induction ops arbitrary: s) (simp_all add: step_keeps)

lemma run_grows: "dom (lookup s) \<subseteq> dom (lookup (fold step ops s))"
  using run_keeps by fastforce

end

lemma repo_add_keeps: "dget store k = Some v \<Longrightarrow> dget (snd (repo_add key e store)) k = Some v"
  by (auto simp: repo_add_def dget_dset)

lemma add_lines_keeps: "dget store k = Some v \<Longrightarrow> dget (snd (add_lines ids n vid ls store)) k = Some v"
proof (induction ls arbitrary: n store)
  case (Cons l ls)
  then show ?case
    using repo_add_keeps [OF Cons.prems, of tl_id "l\<lparr>tl_id := ids n, tl_rate_version_id := vid\<rparr>"]
    by (auto split: prod.split sum.split)
qed simp

text \<open>One call of the service, with what it draws and receives.\<close>

record version_call =
  vcl_ids :: "nat \<Rightarrow> string"
  vcl_now :: datetime
  vcl_rate_id :: string
  vcl_modified_by :: string
  vcl_reason :: string
  vcl_lines :: "tariff_line list"
  vcl_modified_date :: "datetime option"

definition call_version :: "version_call \<Rightarrow> versioning_state \<Rightarrow> versioning_state" where
  "call_version c s = snd (create_new_version (vcl_ids c) (vcl_now c) (vcl_rate_id c) (vcl_modified_by c)
     (vcl_reason c) (vcl_lines c) (vcl_modified_date c) s)"

lemma create_keeps_versions:
  "dget (vs_versions s) k = Some v \<Longrightarrow>
    dget (vs_versions (snd (create_new_version ids now rid m r ls d s))) k = Some v"
  by (auto simp: create_new_version_def Let_def repo_add_def dget_dset split: prod.split sum.split)

lemma create_keeps_lines:
  "dget (vs_lines s) k = Some l \<Longrightarrow>
    dget (vs_lines (snd (create_new_version ids now rid m r ls d s))) k = Some l"
  using add_lines_keeps [of "vs_lines s" k l ids 1 "ids 0" ls]
  by (auto simp: create_new_version_def Let_def repo_add_def split: prod.split sum.split)

interpretation version_history: append_only call_version "\<lambda>s. dget (vs_versions s)"
  by unfold_locales (simp add: call_version_def create_keeps_versions)

interpretation line_history: append_only call_version "\<lambda>s. dget (vs_lines s)"
  by unfold_locales (simp add: call_version_def create_keeps_lines)

text \<open>The versions of each rate carry the numbers 1, 2, \<dots> in the order of their creation.\<close>

definition first_numbers :: "nat \<Rightarrow> int list" where
  "first_numbers n = map int [1..<Suc n]"

lemma first_numbers_simps [simp]:
  "first_numbers 0 = []"
  "first_numbers (Suc n) = first_numbers n @ [int (Suc n)]"
  by (simp_all add: first_numbers_def)

lemma length_first_numbers [simp]: "length (first_numbers n) = n"
  by (simp add: first_numbers_def)

lemma set_first_numbers: "set (first_numbers n) = {1..int n}"
  by (induction n) auto

definition numbered :: "versioning_state \<Rightarrow> bool" where
  "numbered s \<longleftrightarrow> (\<forall>rid. map tv_version_number (versions_of s rid) = first_numbers (length (versions_of s rid)))"

lemma dvalues_dset_new: "dget d k = None \<Longrightarrow> dvalues (dset k v d) = dvalues d @ [v]"
  by (induction d) (auto split: if_splits)

lemma next_number_numbered:
  assumes "map tv_version_number vs = first_numbers (length vs)"
  shows "next_number vs = int (Suc (length vs))"
proof (cases vs)
  case (Cons v ws)
  have "tv_version_number (max_by tv_version_number v ws) = int (length vs)"
  proof (rule antisym)
    have "tv_version_number (max_by tv_version_number v ws) \<in> set (map tv_version_number vs)"
      using max_by_mem [of tv_version_number v ws] by (auto simp: Cons)
    then show "tv_version_number (max_by tv_version_number v ws) \<le> int (length vs)"
      unfolding assms set_first_numbers by simp
    have "int (length vs) \<in> set (map tv_version_number vs)"
      unfolding assms set_first_numbers by (simp add: Cons)
    then have "\<exists>w \<in> set vs. tv_version_number w = int (length vs)" by (metis (mono_tags) image_iff set_map)
    then obtain w where "w \<in> set (v # ws)" "tv_version_number w = int (length vs)" unfolding Cons by blast
    then show "int (length vs) \<le> tv_version_number (max_by tv_version_number v ws)"
      using max_by_ge [of w v ws tv_version_number] by simp
  qed
  then show ?thesis by (simp add: next_number_def Cons)
qed (simp add: next_number_def)

definition drafted :: "(nat \<Rightarrow> string) \<Rightarrow> datetime \<Rightarrow> string \<Rightarrow> string \<Rightarrow> string \<Rightarrow> datetime option \<Rightarrow> versioning_state \<Rightarrow> tariff_version" where
  "drafted ids now rid m r d s = \<lparr>tv_id = ids 0, tv_rate_id = rid, tv_version_number = next_number (versions_of s rid),
     tv_modified_by = m, tv_modified_date = (case d of None \<Rightarrow> now | Some t \<Rightarrow> t), tv_reason = r,
     tv_approval_status = ''DRAFT''\<rparr>"

lemma create_versions_of:
  "versions_of (snd (create_new_version ids now rid m r ls d s)) rid' = versions_of s rid' @
    (if rid' = rid \<and> dget (vs_versions s) (ids 0) = None then [drafted ids now rid m r d s] else [])"
  by (auto simp: create_new_version_def Let_def repo_add_def versions_of_def repo_list_def drafted_def dvalues_dset_new
      split: prod.split sum.split)

lemma numbered_create: "numbered s \<Longrightarrow> numbered (snd (create_new_version ids now rid m r ls d s))"
  using next_number_numbered [of "versions_of s rid"]
  by (auto simp: numbered_def create_versions_of drafted_def)

lemma numbered_run: "numbered s \<Longrightarrow> numbered (fold call_version calls s)"
  by (induction calls arbitrary: s) (simp_all add: call_version_def numbered_create)

lemma numbered_empty: "numbered \<lparr>vs_versions = [], vs_lines = []\<rparr>"
  by (simp add: numbered_def versions_of_def repo_list_def)

text \<open>The lines of a version that is created with fresh identities.\<close>

definition stamped :: "(nat \<Rightarrow> string) \<Rightarrow> nat \<Rightarrow> string \<Rightarrow> tariff_line list \<Rightarrow> tariff_line list" where
  "stamped ids n vid ls = map (\<lambda>(i, l). l\<lparr>tl_id := ids (n + i), tl_rate_version_id := vid\<rparr>) (zip [0..<length ls] ls)"

lemma stamped_Cons: "stamped ids n vid (l # ls) = l\<lparr>tl_id := ids n, tl_rate_version_id := vid\<rparr> # stamped ids (Suc n) vid ls"
  by (simp add: stamped_def upt_conv_Cons map_Suc_upt [symmetric] zip_map1 comp_def del: upt_Suc) auto

lemma add_lines_stored: "fst (add_lines ids n vid ls store) = Inr () \<Longrightarrow>
    dvalues (snd (add_lines ids n vid ls store)) = dvalues store @ stamped ids n vid ls"
proof (induction ls arbitrary: n store)
  case Nil
  then show ?case by (simp add: stamped_def)
next
  case (Cons l ls)
  then show ?case
    by (auto simp: repo_add_def stamped_Cons dvalues_dset_new split: if_splits)
qed

section \<open>Properties of the versioning service\<close>

text \<open>
  History is append-only. Whatever calls of the versioning service follow, failing ones
  included, every version and every line that is stored keeps its content under its identity.
\<close>

theorem tariff_history_append_only:
  "(dget (vs_versions s) k = Some v \<longrightarrow> dget (vs_versions (fold call_version calls s)) k = Some v) \<and>
   (dget (vs_lines s) k = Some l \<longrightarrow> dget (vs_lines (fold call_version calls s)) k = Some l)"
  by (intro conjI impI version_history.run_keeps line_history.run_keeps)

text \<open>
  The versions of each rate are numbered 1, 2, \<dots> without gaps in the order of creation, after
  any sequence of calls on an empty service; the latest version of a rate is the one with the
  largest number, the last of its list.
\<close>

theorem tariff_versions_consecutive:
  fixes calls :: "version_call list"
  defines "s \<equiv> fold call_version calls \<lparr>vs_versions = [], vs_lines = []\<rparr>"
  shows "map tv_version_number (versions_of s rid) = first_numbers (length (versions_of s rid)) \<and>
    (case get_latest_version s rid of None \<Rightarrow> versions_of s rid = []
     | Some v \<Rightarrow> v = last (versions_of s rid) \<and> tv_version_number v = int (length (versions_of s rid)))"
proof -
  have n: "map tv_version_number (versions_of s rid) = first_numbers (length (versions_of s rid))"
    using numbered_run [OF numbered_empty, of calls] by (simp add: numbered_def s_def)
  show ?thesis
  proof (cases "versions_of s rid" rule: rev_cases)
    case Nil
    then show ?thesis by (simp add: get_latest_version_def)
  next
    case (snoc vs l)
    with n have l: "tv_version_number l = int (Suc (length vs))"
      and im: "tv_version_number ` set vs = {1..int (length vs)}"
      using set_first_numbers [of "length vs"] by (auto dest!: arg_cong [of "map _ _" _ set])
    have low: "tv_version_number v < tv_version_number l" if "v \<in> set vs" for v
      using imageI [OF that, of tv_version_number] l unfolding im by simp
    have "\<exists>v ws. vs @ [l] = v # ws" by (cases vs) auto
    then obtain v ws where c: "vs @ [l] = v # ws" by blast
    let ?m = "max_by tv_version_number v ws"
    have "?m \<in> set (vs @ [l])" unfolding c by (rule max_by_mem)
    moreover have "tv_version_number l \<le> tv_version_number ?m"
      by (rule max_by_ge) (simp add: c [symmetric])
    ultimately have "?m = l" using low by fastforce
    then have "get_latest_version s rid = Some l" by (simp add: get_latest_version_def snoc c)
    with n l show ?thesis by (simp add: snoc)
  qed
qed

text \<open>
  A version created without a clash of identities is stored as a draft with the next number, and
  its lines are exactly the given ones, in order, stamped with the version; the lines of the other
  versions stay as they were.
\<close>

theorem created_version_readable:
  assumes "create_new_version ids now rid m r ls d s = (Inr v, s')"
    and "\<forall>l \<in> set (dvalues (vs_lines s)). tl_rate_version_id l \<noteq> ids 0"
  shows "tv_approval_status v = ''DRAFT'' \<and> tv_version_number v = next_number (versions_of s rid) \<and>
    versions_of s' rid = versions_of s rid @ [v] \<and>
    get_lines_for_version s' (tv_id v) = stamped ids 1 (tv_id v) ls \<and>
    (\<forall>vid. vid \<noteq> tv_id v \<longrightarrow> get_lines_for_version s' vid = get_lines_for_version s vid)"
proof -
  have v: "v = drafted ids now rid m r d s" and fresh: "dget (vs_versions s) (ids 0) = None"
    and al: "fst (add_lines ids 1 (ids 0) ls (vs_lines s)) = Inr ()" "vs_lines s' = snd (add_lines ids 1 (ids 0) ls (vs_lines s))"
    using assms(1)
    by (auto simp: create_new_version_def Let_def repo_add_def drafted_def split: prod.splits sum.splits if_splits)
  have vs: "versions_of s' rid = versions_of s rid @ [v]"
    using create_versions_of [of ids now rid m r ls d s rid] fresh by (simp add: assms(1) v)
  have lines: "get_lines_for_version s' vid = get_lines_for_version s vid @ filter (\<lambda>l. tl_rate_version_id l = vid) (stamped ids 1 (ids 0) ls)" for vid
    by (simp add: get_lines_for_version_def repo_list_def al(2) add_lines_stored [OF al(1)] del: One_nat_def)
  have own: "tl_rate_version_id l = ids 0" if "l \<in> set (stamped ids 1 (ids 0) ls)" for l
    using that by (auto simp: stamped_def)
  have none: "get_lines_for_version s (ids 0) = []"
    using assms(2) by (auto simp: get_lines_for_version_def repo_list_def filter_empty_conv)
  have "get_lines_for_version s' (ids 0) = stamped ids 1 (ids 0) ls"
    using own by (simp add: lines none)
  moreover have "get_lines_for_version s' vid = get_lines_for_version s vid" if "vid \<noteq> ids 0" for vid
    using own that by (auto simp: lines filter_empty_conv)
  ultimately show ?thesis using vs by (simp add: v drafted_def)
qed

text \<open>Concrete inputs at which the hypotheses above hold.\<close>

definition sample_tariff_line :: tariff_line where
  "sample_tariff_line = \<lparr>tl_id = ''x'', tl_rate_version_id = ''y'', tl_charge_code = ''OFT'', tl_rate_basis = ''PER_KG'',
     tl_weight_break_from = Some 0, tl_weight_break_to = None, tl_container_type_code = None, tl_amount = 2\<rparr>"

definition sample_call :: version_call where
  "sample_call = \<lparr>vcl_ids = (\<lambda>n. ''v'' @ replicate n CHR ''i''), vcl_now = 5, vcl_rate_id = ''R1'', vcl_modified_by = ''u'',
     vcl_reason = ''why'', vcl_lines = [sample_tariff_line], vcl_modified_date = None\<rparr>"

theorem tariff_history_append_only_witness:
  "\<exists>v. dget (vs_versions (fold call_version [sample_call, sample_call] (call_version sample_call \<lparr>vs_versions = [], vs_lines = []\<rparr>))) ''v'' = Some v"
proof -
  have "dget (vs_versions (call_version sample_call \<lparr>vs_versions = [], vs_lines = []\<rparr>)) ''v'' =
      Some (drafted (vcl_ids sample_call) 5 ''R1'' ''u'' ''why'' None \<lparr>vs_versions = [], vs_lines = []\<rparr>)"
    by (simp add: call_version_def sample_call_def create_new_version_def Let_def repo_add_def drafted_def versions_of_def
        repo_list_def)
  then show ?thesis using tariff_history_append_only by blast
qed

theorem created_version_readable_witness:
  "\<exists>v s'. create_new_version (\<lambda>n. ''v'' @ replicate n CHR ''i'') 5 ''R1'' ''u'' ''why'' [sample_tariff_line] None
      \<lparr>vs_versions = [], vs_lines = []\<rparr> = (Inr v, s') \<and> length (get_lines_for_version s' (tv_id v)) = 1"
proof -
  obtain v s' where c: "create_new_version (\<lambda>n. ''v'' @ replicate n CHR ''i'') 5 ''R1'' ''u'' ''why'' [sample_tariff_line] None
      \<lparr>vs_versions = [], vs_lines = []\<rparr> = (Inr v, s')"
    by (simp add: create_new_version_def Let_def repo_add_def)
  then show ?thesis
    using created_version_readable [OF c] by (auto simp: stamped_def)
qed

end
