(* ===== verification/Currency_Conversion.thy ===== *)
theory Currency_Conversion
  imports Tariff_Versions
begin

text \<open>
  Reference data of the commercial modules, \<open>app/modules/commercial/master_data/services.py\<close>: lookups by code, the search for
  places, conversion through a base currency with dated rates, and rates locked for an entity. The repositories are those of
  \<open>Tariff_Versions\<close>.
\<close>


section \<open>Lookups\<close>

text \<open>A table of coded records; the key of the repository is the code or the identity.\<close>

definition get_by_code :: "'e memory_repo \<Rightarrow> string \<Rightarrow> 'e res" where
  "get_by_code store code = (case repo_get store code of
     None \<Rightarrow> Inl (LookupError (''No record found for code '' @ [CHR 0x27] @ code @ [CHR 0x27])) | Some e \<Rightarrow> Inr e)"

definition get_by_id :: "'e memory_repo \<Rightarrow> string \<Rightarrow> 'e res" where
  "get_by_id store i = (case repo_get store i of
     None \<Rightarrow> Inl (LookupError (''No record found for id '' @ [CHR 0x27] @ i @ [CHR 0x27])) | Some e \<Rightarrow> Inr e)"

definition list_records :: "('e \<Rightarrow> bool) list \<Rightarrow> 'e memory_repo \<Rightarrow> 'e list" where
  "list_records filters store = repo_list filters store"

record place =
  plc_id :: string
  plc_un_locode :: string
  plc_iata_code :: "string option"
  plc_name :: string
  plc_country_id :: string
  plc_city :: string
  plc_type :: string
  plc_timezone :: string
  plc_is_active :: bool

definition search_places :: "place memory_repo \<Rightarrow> string \<Rightarrow> string option \<Rightarrow> place list" where
  "search_places store query location_type =
    (let query_lower = py_lower (py_strip query);
         candidates = (if truthy location_type then repo_list [\<lambda>l. Some (plc_type l) = location_type] store else repo_list [] store)
     in if query_lower = [] then filter plc_is_active candidates
        else filter (\<lambda>l. plc_is_active l \<and> (py_in query_lower (py_lower (plc_name l)) \<or> py_in query_lower (py_lower (plc_city l))
          \<or> py_in query_lower (py_lower (plc_un_locode l))
          \<or> py_in query_lower (py_lower (case plc_iata_code l of None \<Rightarrow> [] | Some c \<Rightarrow> c)))) candidates)"

section \<open>Conversion\<close>

text \<open>What one unit of a currency is worth in the base currency, from a date on.\<close>

record base_rate =
  brt_id :: string
  brt_currency_code :: string
  brt_rate_date :: date
  brt_rate_to_base :: flt
  brt_source :: string

definition rates_until :: "base_rate memory_repo \<Rightarrow> string \<Rightarrow> date \<Rightarrow> base_rate list" where
  "rates_until store code on_date = filter (\<lambda>r. brt_rate_date r \<le> on_date) (repo_list [\<lambda>r. brt_currency_code r = code] store)"

definition get_rate_to_base :: "string \<Rightarrow> base_rate memory_repo \<Rightarrow> string \<Rightarrow> date \<Rightarrow> flt res" where
  "get_rate_to_base base store code on_date =
    (if code = base then Inr 1
     else case rates_until store code on_date of
       [] \<Rightarrow> Inl (CurrencyConversionError (''No exchange rate available for '' @ code @ '' on or before '' @ isoformat on_date))
     | r # rs \<Rightarrow> Inr (brt_rate_to_base (max_by brt_rate_date r rs)))"

definition convert_on :: "string \<Rightarrow> base_rate memory_repo \<Rightarrow> flt \<Rightarrow> string \<Rightarrow> string \<Rightarrow> date \<Rightarrow> flt res" where
  "convert_on base store amount from_currency to_currency on_date =
    (if from_currency = to_currency then Inr (py_round 2 amount)
     else res_bind (get_rate_to_base base store from_currency on_date) (\<lambda>rate_from.
       let amount_in_base = fmul amount rate_from
       in res_bind (get_rate_to_base base store to_currency on_date) (\<lambda>rate_to.
         res_map (py_round 2) (fdiv amount_in_base rate_to))))"

section \<open>Locked rates\<close>

record fx_lock =
  fxl_id :: string
  fxl_entity_type :: string
  fxl_entity_id :: string
  fxl_currency_code :: string
  fxl_locked_rate_to_base :: flt
  fxl_locked_on_date :: date

record fx_desk =
  fxd_rates :: "base_rate memory_repo"
  fxd_locks :: "fx_lock memory_repo"

definition lock_rate :: "string \<Rightarrow> string \<Rightarrow> string \<Rightarrow> string \<Rightarrow> string \<Rightarrow> date \<Rightarrow> fx_desk \<Rightarrow> fx_lock res \<times> fx_desk" where
  "lock_rate base lock_id entity_type entity_id code on_date d =
    (case get_rate_to_base base (fxd_rates d) code on_date of
       Inl e \<Rightarrow> (Inl e, d)
     | Inr r \<Rightarrow> (case repo_add fxl_id \<lparr>fxl_id = lock_id, fxl_entity_type = entity_type, fxl_entity_id = entity_id,
           fxl_currency_code = code, fxl_locked_rate_to_base = r, fxl_locked_on_date = on_date\<rparr> (fxd_locks d) of
         (x, locks) \<Rightarrow> (x, d\<lparr>fxd_locks := locks\<rparr>)))"

definition get_lock :: "fx_desk \<Rightarrow> string \<Rightarrow> string \<Rightarrow> fx_lock option" where
  "get_lock d entity_type entity_id =
    (case repo_list [\<lambda>l. fxl_entity_type l = entity_type, \<lambda>l. fxl_entity_id l = entity_id] (fxd_locks d) of
       [] \<Rightarrow> None | l # _ \<Rightarrow> Some l)"

definition calculate_fx_gain_loss :: "flt \<Rightarrow> flt \<Rightarrow> flt \<Rightarrow> flt" where
  "calculate_fx_gain_loss amount_foreign locked_rate_to_base settlement_rate_to_base =
    (let value_at_lock = fmul amount_foreign locked_rate_to_base; value_at_settlement = fmul amount_foreign settlement_rate_to_base
     in py_round 2 (fsub value_at_settlement value_at_lock))"

section \<open>Laws\<close>

lemma repo_add_appends: "repo_add key e store = (Inr x, store') \<Longrightarrow> x = e \<and> store' = store @ [(key e, e)] \<and> dget store (key e) = None"
proof -
  assume h: "repo_add key e store = (Inr x, store')"
  have new: "dget store k = None \<Longrightarrow> dset k v store = store @ [(k, v)]" for k and v
    by (induction store) (auto split: if_splits)
  show ?thesis using h new by (auto simp: repo_add_def split: if_splits)
qed

lemma repo_add_refused: "repo_add key e store = (Inl x, store') \<Longrightarrow> store' = store"
  by (auto simp: repo_add_def split: if_splits)

lemma repo_add_grows: "repo_add key e store = (x, store') \<Longrightarrow> \<exists>ls. store' = store @ ls"
  using repo_add_appends [of key e store] repo_add_refused [of key e store] by (cases x) fastforce+

lemma rates_until_mem: "r \<in> set (rates_until store c t) \<longleftrightarrow> r \<in> set (dvalues store) \<and> brt_currency_code r = c \<and> brt_rate_date r \<le> t"
  by (auto simp: rates_until_def repo_list_def)

text \<open>The rate used for a currency is the latest one on or before the date, and there is one exactly when some rate is that old.\<close>

theorem rate_is_latest:
  "(case get_rate_to_base base store c t of
      Inl e \<Rightarrow> c \<noteq> base \<and> \<not> (\<exists>q \<in> set (dvalues store). brt_currency_code q = c \<and> brt_rate_date q \<le> t)
    | Inr r \<Rightarrow> if c = base then r = 1
        else (\<exists>q \<in> set (dvalues store). brt_currency_code q = c \<and> brt_rate_date q \<le> t \<and> brt_rate_to_base q = r \<and>
          \<not> (\<exists>q' \<in> set (dvalues store). brt_currency_code q' = c \<and> brt_rate_date q' \<le> t \<and> brt_rate_date q < brt_rate_date q')))"
proof (cases "c = base")
  case True
  then show ?thesis by (simp add: get_rate_to_base_def)
next
  case False
  show ?thesis
  proof (cases "rates_until store c t")
    case Nil
    then have "\<forall>q. q \<notin> set (rates_until store c t)" by simp
    then have "\<not> (\<exists>q \<in> set (dvalues store). brt_currency_code q = c \<and> brt_rate_date q \<le> t)" unfolding rates_until_mem by blast
    with False show ?thesis by (simp only: get_rate_to_base_def Nil if_False list.case sum.case) blast
  next
    case (Cons r rs)
    let ?m = "max_by brt_rate_date r rs"
    have m: "?m \<in> set (rates_until store c t)" unfolding Cons by (rule max_by_mem)
    have "q \<in> set (rates_until store c t) \<Longrightarrow> brt_rate_date q \<le> brt_rate_date ?m" for q unfolding Cons by (rule max_by_ge)
    then have "\<not> (\<exists>q' \<in> set (dvalues store). brt_currency_code q' = c \<and> brt_rate_date q' \<le> t \<and> brt_rate_date ?m < brt_rate_date q')"
      by (auto simp: rates_until_mem not_less)
    with m show ?thesis using False unfolding rates_until_mem by (simp only: get_rate_to_base_def Cons if_False list.case sum.case) blast
  qed
qed

text \<open>What happens to the rates and the locks: rates are added and changed, and rates are locked.\<close>

datatype fx_desk_op = Add_Rate base_rate | Update_Rate base_rate | Lock_Rate string string string string date

fun fx_desk_step :: "string \<Rightarrow> fx_desk_op \<Rightarrow> fx_desk \<Rightarrow> fx_desk" where
  "fx_desk_step base (Add_Rate r) d = d\<lparr>fxd_rates := snd (repo_add brt_id r (fxd_rates d))\<rparr>"
| "fx_desk_step base (Update_Rate r) d = d\<lparr>fxd_rates := snd (repo_update brt_id r (fxd_rates d))\<rparr>"
| "fx_desk_step base (Lock_Rate i t e c on_date) d = snd (lock_rate base i t e c on_date d)"

lemma lock_appends: "\<exists>ls. fxd_locks (fx_desk_step base op d) = fxd_locks d @ ls"
proof (cases op)
  case (Lock_Rate i t e c on_date)
  then show ?thesis by (auto simp: lock_rate_def split: sum.splits prod.splits dest: repo_add_grows)
qed simp_all

interpretation fx_locks: append_only "fx_desk_step base" "\<lambda>d k. get_lock d (fst k) (snd k)" for base
proof
  fix d op k l assume h: "get_lock d (fst k) (snd k) = Some l"
  obtain ls where ls: "fxd_locks (fx_desk_step base op d) = fxd_locks d @ ls" using lock_appends by blast
  show "get_lock (fx_desk_step base op d) (fst k) (snd k) = Some l"
    using h by (auto simp: get_lock_def repo_list_def ls split: list.splits)
qed

text \<open>The lock an entity has is never replaced, whatever rates are added or changed and whatever is locked, in whatever currency.\<close>

theorem locks_are_frozen:
  assumes "get_lock d t e = Some l"
  shows "get_lock (fold (fx_desk_step base) ops d) t e = Some l"
  using fx_locks.run_keeps [of d "(t, e)" l base ops] assms by simp

text \<open>A new lock is found by the entity exactly when it had none, and holds the rate of the date.\<close>

theorem lock_rate_exact:
  assumes "lock_rate base i t e c on_date d = (Inr l, d')"
  shows "get_rate_to_base base (fxd_rates d) c on_date = Inr (fxl_locked_rate_to_base l) \<and> fxl_currency_code l = c
    \<and> get_lock d' t e = (case get_lock d t e of None \<Rightarrow> Some l | Some l' \<Rightarrow> Some l')"
proof -
  obtain r where r: "get_rate_to_base base (fxd_rates d) c on_date = Inr r" using assms by (auto simp: lock_rate_def split: sum.splits)
  define new where "new = \<lparr>fxl_id = i, fxl_entity_type = t, fxl_entity_id = e, fxl_currency_code = c, fxl_locked_rate_to_base = r, fxl_locked_on_date = on_date\<rparr>"
  have "repo_add fxl_id new (fxd_locks d) = (Inr l, fxd_locks d')"
    using assms by (auto simp: lock_rate_def r new_def split: prod.splits)
  from repo_add_appends [OF this] have l: "l = new" "fxd_locks d' = fxd_locks d @ [(i, new)]" by (simp_all add: new_def)
  then show ?thesis by (auto simp: r new_def get_lock_def repo_list_def split: list.splits)
qed

text \<open>Rates after a date do not matter for it: adding them changes no conversion.\<close>

theorem later_rates_do_not_matter:
  fixes store :: "base_rate memory_repo"
  assumes "\<And>r. r \<in> set rs \<Longrightarrow> on_date < brt_rate_date r"
  shows "convert_on base (fold (\<lambda>r s. snd (repo_add brt_id r s)) rs store) amount c c' on_date = convert_on base store amount c c' on_date"
proof -
  have one: "rates_until (snd (repo_add brt_id r s)) k on_date = rates_until s k on_date" if "on_date < brt_rate_date r" for r k and s :: "base_rate memory_repo"
  proof (cases "repo_add brt_id r s")
    case (Pair x s')
    then show ?thesis using that
      by (cases x) (auto simp: rates_until_def repo_list_def dest: repo_add_appends repo_add_refused)
  qed
  have all: "rates_until (fold (\<lambda>r s. snd (repo_add brt_id r s)) rs s) k on_date = rates_until s k on_date" for k and s :: "base_rate memory_repo"
    using assms by (induction rs arbitrary: s) (simp_all add: one)
  show ?thesis unfolding convert_on_def get_rate_to_base_def all ..
qed

text \<open>A larger amount converts to no smaller one.\<close>

theorem conversion_monotone:
  assumes "\<And>q. q \<in> set (dvalues store) \<Longrightarrow> 0 < brt_rate_to_base q"
    and "amount \<le> amount'" and "convert_on base store amount c c' t = Inr x"
  shows "\<exists>y. convert_on base store amount' c c' t = Inr y \<and> x \<le> y"
proof (cases "c = c'")
  case True
  then show ?thesis using assms(2,3) by (auto simp: convert_on_def py_round_mono)
next
  case False
  obtain a where a: "get_rate_to_base base store c t = Inr a" using assms(3) False by (auto simp: convert_on_def res_simps)
  obtain b where b: "get_rate_to_base base store c' t = Inr b" using assms(3) False by (auto simp: convert_on_def res_simps Let_def)
  have pos: "0 < r" if "get_rate_to_base base store k t = Inr r" for k r
    using rate_is_latest [where base = base and store = store and c = k and t = t] assms(1) that by (auto split: if_splits)
  from pos [OF a] pos [OF b] have p: "0 < a" "0 < b" .
  have "fmul amount a \<le> fmul amount' a" unfolding fmul_def by (rule rnd_mono) (use p assms(2) in simp)
  then have "fquot (fmul amount a) b \<le> fquot (fmul amount' a) b" unfolding fquot_def by (intro rnd_mono divide_right_mono) (use p in simp_all)
  then show ?thesis using assms(3) False a b p by (auto simp: convert_on_def Let_def py_round_mono)
qed

text \<open>A rate that has risen since it was locked is a gain, one that has fallen a loss, and an unchanged one neither.\<close>

theorem gain_follows_rate:
  assumes "0 \<le> amount" and "locked \<le> settled"
  shows "0 \<le> calculate_fx_gain_loss amount locked settled \<and> calculate_fx_gain_loss amount settled locked \<le> 0
    \<and> calculate_fx_gain_loss amount locked locked = 0"
proof -
  have "fmul amount locked \<le> fmul amount settled" unfolding fmul_def by (rule rnd_mono) (use assms in \<open>simp add: mult_left_mono\<close>)
  then have "0 \<le> fsub (fmul amount settled) (fmul amount locked)" "fsub (fmul amount locked) (fmul amount settled) \<le> 0"
    by (simp_all add: fsub_nonneg, simp add: fsub_def dbl.nonpos)
  then show ?thesis by (simp add: calculate_fx_gain_loss_def pr.nonneg pr.nonpos)
qed

text \<open>A search finds the active places of the type whose name, city or code contains the trimmed query, in any case.\<close>

theorem place_search_exact:
  "l \<in> set (search_places store query kind) \<longleftrightarrow> l \<in> set (dvalues store) \<and> plc_is_active l \<and> (\<not> truthy kind \<or> kind = Some (plc_type l))
     \<and> (\<exists>s \<in> {plc_name l, plc_city l, plc_un_locode l} \<union> set_option (plc_iata_code l). py_in (py_lower (py_strip query)) (py_lower s))"
proof -
  let ?q = "py_lower (py_strip query)" and ?cands = "if truthy kind then repo_list [\<lambda>l. Some (plc_type l) = kind] store else repo_list [] store"
  have cand: "l \<in> set ?cands \<longleftrightarrow> l \<in> set (dvalues store) \<and> (\<not> truthy kind \<or> kind = Some (plc_type l))" by (auto simp: repo_list_def)
  have empty: "py_in [] s" "py_in (c # q) (py_lower []) = False" for s q c by (simp_all add: py_in_def py_lower_def)
  show ?thesis
  proof (cases ?q)
    case Nil
    have "l \<in> set (search_places store query kind) \<longleftrightarrow> l \<in> set ?cands \<and> plc_is_active l" by (simp only: search_places_def Let_def Nil set_filter mem_Collect_eq refl if_True)
    then show ?thesis unfolding cand Nil by (auto simp: empty)
  next
    case (Cons c q)
    have "l \<in> set (search_places store query kind) \<longleftrightarrow> l \<in> set ?cands \<and> plc_is_active l
        \<and> (\<exists>s \<in> {plc_name l, plc_city l, plc_un_locode l} \<union> set_option (plc_iata_code l). py_in ?q (py_lower s))"
      by (cases "plc_iata_code l") (simp_all add: search_places_def Let_def Cons empty, blast)
    then show ?thesis unfolding cand by blast
  qed
qed

section \<open>Witnesses\<close>

definition sample_base_rate :: "string \<Rightarrow> string \<Rightarrow> date \<Rightarrow> flt \<Rightarrow> base_rate" where
  "sample_base_rate i c t r = \<lparr>brt_id = i, brt_currency_code = c, brt_rate_date = t, brt_rate_to_base = r, brt_source = ''bank''\<rparr>"

definition sample_desk :: fx_desk where
  "sample_desk = \<lparr>fxd_rates = [(''1'', sample_base_rate ''1'' ''EUR'' 10 2), (''2'', sample_base_rate ''2'' ''GBP'' 10 4), (''3'', sample_base_rate ''3'' ''EUR'' 20 3)],
     fxd_locks = []\<rparr>"

lemmas sample_desk_defs = sample_desk_def sample_base_rate_def

lemma sample_desk_lock: "lock_rate ''USD'' ''L'' ''QUOTATION'' ''Q'' ''EUR'' 15 sample_desk =
    (Inr \<lparr>fxl_id = ''L'', fxl_entity_type = ''QUOTATION'', fxl_entity_id = ''Q'', fxl_currency_code = ''EUR'', fxl_locked_rate_to_base = 2, fxl_locked_on_date = 15\<rparr>,
     snd (lock_rate ''USD'' ''L'' ''QUOTATION'' ''Q'' ''EUR'' 15 sample_desk))"
  by (simp add: sample_desk_defs lock_rate_def get_rate_to_base_def rates_until_def repo_list_def repo_add_def)

theorem lock_rate_exact_witness:
  "\<exists>l. get_lock (snd (lock_rate ''USD'' ''L'' ''QUOTATION'' ''Q'' ''EUR'' 15 sample_desk)) ''QUOTATION'' ''Q'' = Some l \<and> fxl_locked_rate_to_base l = 2"
  using lock_rate_exact [OF sample_desk_lock] by (simp add: get_lock_def sample_desk_def repo_list_def)

text \<open>The second currency that is locked for an entity is never found.\<close>

theorem locks_are_frozen_witness:
  "\<exists>l. get_lock (fold (fx_desk_step ''USD'') [Add_Rate (sample_base_rate ''4'' ''EUR'' 15 9), Lock_Rate ''M'' ''QUOTATION'' ''Q'' ''GBP'' 15]
      (snd (lock_rate ''USD'' ''L'' ''QUOTATION'' ''Q'' ''EUR'' 15 sample_desk))) ''QUOTATION'' ''Q'' = Some l
    \<and> fxl_currency_code l = ''EUR'' \<and> fxl_locked_rate_to_base l = 2"
proof -
  from sample_desk_lock have "get_lock (snd (lock_rate ''USD'' ''L'' ''QUOTATION'' ''Q'' ''EUR'' 15 sample_desk)) ''QUOTATION'' ''Q'' =
    Some \<lparr>fxl_id = ''L'', fxl_entity_type = ''QUOTATION'', fxl_entity_id = ''Q'', fxl_currency_code = ''EUR'', fxl_locked_rate_to_base = 2, fxl_locked_on_date = 15\<rparr>"
    by (simp add: sample_desk_defs lock_rate_def get_rate_to_base_def rates_until_def repo_list_def repo_add_def get_lock_def)
  then show ?thesis by - (rule exI, intro conjI, rule locks_are_frozen, assumption, simp_all)
qed

theorem later_rates_do_not_matter_witness:
  "convert_on ''USD'' (fold (\<lambda>r s. snd (repo_add brt_id r s)) [sample_base_rate ''5'' ''EUR'' 30 9] (fxd_rates sample_desk)) 7 ''EUR'' ''GBP'' 25 =
   convert_on ''USD'' (fxd_rates sample_desk) 7 ''EUR'' ''GBP'' 25"
  by (rule later_rates_do_not_matter) (simp add: sample_base_rate_def)

theorem conversion_monotone_witness:
  "\<exists>x y. convert_on ''USD'' (fxd_rates sample_desk) 7 ''EUR'' ''GBP'' 25 = Inr x \<and> convert_on ''USD'' (fxd_rates sample_desk) 8 ''EUR'' ''GBP'' 25 = Inr y \<and> x \<le> y"
proof -
  obtain x where x: "convert_on ''USD'' (fxd_rates sample_desk) 7 ''EUR'' ''GBP'' 25 = Inr x"
    by (simp add: sample_desk_defs convert_on_def get_rate_to_base_def rates_until_def repo_list_def)
  have "\<exists>y. convert_on ''USD'' (fxd_rates sample_desk) 8 ''EUR'' ''GBP'' 25 = Inr y \<and> x \<le> y"
    by (rule conversion_monotone [OF _ _ x]) (auto simp: sample_desk_defs)
  with x show ?thesis by blast
qed

theorem gain_follows_rate_witness: "0 \<le> calculate_fx_gain_loss 1000 2 3 \<and> calculate_fx_gain_loss 1000 3 2 \<le> 0"
  using gain_follows_rate [of 1000 2 3] by simp

end
