(* ===== verification/Entities.thy ===== *)
theory Entities
  imports Py_Float Py_Date
begin

text \<open>
  The domain entities of \<open>domain/entities.py\<close>: one record per dataclass, with the fields in the
  source's order (inherited orderings included), one datatype per enumeration with the function
  that gives its \<open>.value\<close>, and the computed properties of the dataclasses. Field names carry a
  prefix of the class, because record fields share one name space. Identifiers drawn by
  \<open>generate_uuid\<close> as a field default are arguments of the operation that builds the object.
\<close>

section \<open>Data\<close>

record country =
  co_iso_code :: "string"
  co_name :: "string"
  co_region :: "string"
  co_trade_zone :: "string"
  co_is_sanctioned :: "bool"
  co_requires_permit :: "bool"
  co_id :: "string"

record location =
  loc_name :: "string"
  loc_country_id :: "string option"
  loc_city :: "string"
  loc_type :: "string"
  loc_un_locode :: "string option"
  loc_iata_code :: "string option"
  loc_timezone :: "string"
  loc_is_active :: "bool"
  loc_id :: "string"

record zone =
  zn_zone_code :: "string"
  zn_name :: "string"
  zn_country_id :: "string"
  zn_id :: "string"

record currency =
  cur_code :: "string"
  cur_name :: "string"
  cur_symbol :: "string"

record exchange_rate =
  xr_currency_code :: "string"
  xr_rate_date :: "date"
  xr_rate_to_base :: "flt"
  xr_source :: "string"
  xr_id :: "string"

record incoterm =
  inc_code :: "string"
  inc_name :: "string"

record container_type =
  ct_code :: "string"
  ct_cbm_capacity :: "flt"
  ct_max_payload_kg :: "flt"

record commodity =
  com_hs_code :: "string"
  com_name :: "string"
  com_is_dgr :: "bool"
  com_export_restricted :: "bool"
  com_import_restricted :: "bool"
  com_id :: "string"

record package_type =
  pt_code :: "string"
  pt_name :: "string"

record uld_type =
  uld_code :: "string"
  uld_name :: "string"
  uld_volume_cbm :: "flt"

record charge_code =
  cc_code :: "string"
  cc_name :: "string"
  cc_charge_type :: "string"
  cc_rate_basis :: "string"
  cc_applicable_mode :: "string"

record document_type =
  dt_code :: "string"
  dt_name :: "string"
  dt_applicable_mode :: "string"

record carrier =
  car_carrier_type :: "string"
  car_name :: "string"
  car_scac_code :: "string option"
  car_iata_code :: "string option"
  car_iata_prefix :: "string option"
  car_is_nvocc :: "bool"
  car_hub_locations :: "string"
  car_id :: "string"

record vessel =
  ves_imo_number :: "string"
  ves_name :: "string"
  ves_flag :: "string"
  ves_owner_carrier_id :: "string"
  ves_teu_capacity :: "int"
  ves_vessel_type :: "string"
  ves_id :: "string"

text \<open>An entry of \<open>port_rotation\<close>, a dictionary with the keys \<open>port\<close>, \<open>eta\<close> and \<open>etd\<close>.\<close>

record port_call =
  pc_port :: "string option"
  pc_eta :: "datetime option"
  pc_etd :: "datetime option"

record vessel_schedule =
  vs_carrier_id :: "string"
  vs_service_name :: "string"
  vs_vessel_id :: "string"
  vs_voyage_number :: "string"
  vs_port_rotation :: "port_call list"
  vs_cy_cutoff :: "datetime option"
  vs_si_cutoff :: "datetime option"
  vs_vgm_cutoff :: "datetime option"
  vs_id :: "string"

record flight_schedule =
  fs_carrier_id :: "string"
  fs_origin_location_id :: "string"
  fs_destination_location_id :: "string"
  fs_flight_number :: "string"
  fs_frequency :: "string"
  fs_sched_departure :: "int option"
  fs_sched_arrival :: "int option"
  fs_cargo_cutoff :: "string option"
  fs_doc_cutoff :: "string option"
  fs_id :: "string"

datatype credit_tier = Tier_A | Tier_B | Tier_C | Tier_NEW | Tier_BLOCKED

fun credit_tier_value :: "credit_tier \<Rightarrow> string" where
  "credit_tier_value credit_tier.Tier_A = ''A''"
| "credit_tier_value credit_tier.Tier_B = ''B''"
| "credit_tier_value credit_tier.Tier_C = ''C''"
| "credit_tier_value credit_tier.Tier_NEW = ''NEW''"
| "credit_tier_value credit_tier.Tier_BLOCKED = ''BLOCKED''"

record customer =
  cust_customer_code :: "string"
  cust_name :: "string"
  cust_credit_limit_amount :: "flt"
  cust_credit_limit_currency :: "string"
  cust_payment_terms_days :: "int"
  cust_credit_tier :: "credit_tier"
  cust_tenant_id :: "string"
  cust_tax_registration :: "string"
  cust_registration_number :: "string"
  cust_iata_fiata_membership :: "string"
  cust_preferred_carrier_ids :: "string list"
  cust_preferred_lanes :: "(string, string) dict list"
  cust_kyc_status :: "string"
  cust_is_active :: "bool"
  cust_onboarding_date :: "date"
  cust_id :: "string"

record customer_contact =
  ccon_customer_id :: "string"
  ccon_name :: "string"
  ccon_role :: "string"
  ccon_email :: "string"
  ccon_phone :: "string"
  ccon_id :: "string"

record customer_address =
  cadr_customer_id :: "string"
  cadr_address_type :: "string"
  cadr_line1 :: "string"
  cadr_city :: "string"
  cadr_country :: "string"
  cadr_id :: "string"

record customer_portal_user =
  cpu_customer_id :: "string"
  cpu_user_id :: "string"
  cpu_id :: "string"

record customer_credit_override =
  cco_customer_id :: "string"
  cco_reason :: "string"
  cco_approved_by :: "string"
  cco_valid_from :: "date"
  cco_valid_to :: "date"
  cco_id :: "string"

record vendor =
  ven_vendor_code :: "string"
  ven_name :: "string"
  ven_vendor_type :: "string"
  ven_tax_registration :: "string"
  ven_bank_details :: "(string, string) dict"
  ven_payment_terms :: "string"
  ven_performance_score :: "flt"
  ven_id :: "string"

record agent =
  ag_vendor_id :: "string"
  ag_coverage_country :: "string"
  ag_coverage_city :: "string"
  ag_services_provided :: "string"
  ag_certifications :: "string"
  ag_settlement_model :: "string"
  ag_id :: "string"

record agent_rate_agreement =
  ara_agent_id :: "string"
  ara_rate_id :: "string"
  ara_effective_date :: "date"
  ara_expiry_date :: "date"
  ara_id :: "string"

datatype rate_category = CONTRACT_NAC | SPOT | LANE_NAC | PROMOTIONAL | FAK | AGENT

fun rate_category_value :: "rate_category \<Rightarrow> string" where
  "rate_category_value rate_category.CONTRACT_NAC = ''CONTRACT_NAC''"
| "rate_category_value rate_category.SPOT = ''SPOT''"
| "rate_category_value rate_category.LANE_NAC = ''LANE_NAC''"
| "rate_category_value rate_category.PROMOTIONAL = ''PROMOTIONAL''"
| "rate_category_value rate_category.FAK = ''FAK''"
| "rate_category_value rate_category.AGENT = ''AGENT''"

datatype rate_status = DRAFT | ACTIVE | EXPIRED | SUPERSEDED | CANCELLED

fun rate_status_value :: "rate_status \<Rightarrow> string" where
  "rate_status_value rate_status.DRAFT = ''DRAFT''"
| "rate_status_value rate_status.ACTIVE = ''ACTIVE''"
| "rate_status_value rate_status.EXPIRED = ''EXPIRED''"
| "rate_status_value rate_status.SUPERSEDED = ''SUPERSEDED''"
| "rate_status_value rate_status.CANCELLED = ''CANCELLED''"

datatype version_approval_status = DRAFT | PENDING_APPROVAL | APPROVED

fun version_approval_status_value :: "version_approval_status \<Rightarrow> string" where
  "version_approval_status_value version_approval_status.DRAFT = ''DRAFT''"
| "version_approval_status_value version_approval_status.PENDING_APPROVAL = ''PENDING_APPROVAL''"
| "version_approval_status_value version_approval_status.APPROVED = ''APPROVED''"

record rate_line =
  rl_charge_code :: "string"
  rl_rate_basis :: "string"
  rl_amount :: "flt"
  rl_weight_break_from :: "flt option"
  rl_weight_break_to :: "flt option"
  rl_container_type_code :: "string option"
  rl_rate_version_id :: "string option"
  rl_id :: "string"

record rate_surcharge =
  rs_charge_code :: "string"
  rs_basis :: "string"
  rs_amount :: "flt"
  rs_applicable_from :: "date"
  rs_applicable_to :: "date"
  rs_rate_version_id :: "string option"
  rs_id :: "string"

record rate_version =
  rv_rate_id :: "string"
  rv_version_number :: "int"
  rv_modified_by :: "string"
  rv_modified_date :: "datetime"
  rv_reason :: "string"
  rv_approval_status :: "version_approval_status"
  rv_lines :: "rate_line list"
  rv_surcharges :: "rate_surcharge list"
  rv_id :: "string"

record rate =
  rate_rate_number :: "string"
  rate_rate_type :: "string"
  rate_rate_category :: "rate_category"
  rate_carrier_vendor_id :: "string"
  rate_service_name :: "string"
  rate_origin_location_id :: "string"
  rate_destination_location_id :: "string"
  rate_effective_date :: "date"
  rate_expiry_date :: "date"
  rate_currency_code :: "string"
  rate_status :: "rate_status"
  rate_via_routing :: "string"
  rate_commodity_id :: "string option"
  rate_customer_id :: "string option"
  rate_versions :: "rate_version list"
  rate_id :: "string"

record margin_rule =
  mr_service_type :: "string"
  mr_min_margin_pct :: "flt option"
  mr_min_margin_amount :: "flt option"
  mr_customer_tier_overrides :: "(string, flt) dict"
  mr_lane_overrides :: "(string, flt) dict"
  mr_id :: "string"

datatype rfq_mode = SEA | AIR

fun rfq_mode_value :: "rfq_mode \<Rightarrow> string" where
  "rfq_mode_value rfq_mode.SEA = ''SEA''"
| "rfq_mode_value rfq_mode.AIR = ''AIR''"

datatype rfq_service_type = FCL | LCL | DIRECT | CONSOL

fun rfq_service_type_value :: "rfq_service_type \<Rightarrow> string" where
  "rfq_service_type_value rfq_service_type.FCL = ''FCL''"
| "rfq_service_type_value rfq_service_type.LCL = ''LCL''"
| "rfq_service_type_value rfq_service_type.DIRECT = ''DIRECT''"
| "rfq_service_type_value rfq_service_type.CONSOL = ''CONSOL''"

datatype rfq_status = DRAFT | SUBMITTED | PRICING_IN_PROGRESS | QUOTED | SENT_TO_CUSTOMER | ACCEPTED | REJECTED | EXPIRED | REVISED | CANCELLED

fun rfq_status_value :: "rfq_status \<Rightarrow> string" where
  "rfq_status_value rfq_status.DRAFT = ''DRAFT''"
| "rfq_status_value rfq_status.SUBMITTED = ''SUBMITTED''"
| "rfq_status_value rfq_status.PRICING_IN_PROGRESS = ''PRICING_IN_PROGRESS''"
| "rfq_status_value rfq_status.QUOTED = ''QUOTED''"
| "rfq_status_value rfq_status.SENT_TO_CUSTOMER = ''SENT_TO_CUSTOMER''"
| "rfq_status_value rfq_status.ACCEPTED = ''ACCEPTED''"
| "rfq_status_value rfq_status.REJECTED = ''REJECTED''"
| "rfq_status_value rfq_status.EXPIRED = ''EXPIRED''"
| "rfq_status_value rfq_status.REVISED = ''REVISED''"
| "rfq_status_value rfq_status.CANCELLED = ''CANCELLED''"

datatype party_role = SHIPPER | CONSIGNEE | NOTIFY_1 | NOTIFY_2 | NOTIFY_3 | BUYER

fun party_role_value :: "party_role \<Rightarrow> string" where
  "party_role_value party_role.SHIPPER = ''SHIPPER''"
| "party_role_value party_role.CONSIGNEE = ''CONSIGNEE''"
| "party_role_value party_role.NOTIFY_1 = ''NOTIFY_1''"
| "party_role_value party_role.NOTIFY_2 = ''NOTIFY_2''"
| "party_role_value party_role.NOTIFY_3 = ''NOTIFY_3''"
| "party_role_value party_role.BUYER = ''BUYER''"

record rfq_party =
  rp_party_role :: "party_role"
  rp_name :: "string"
  rp_address :: "string"
  rp_contact :: "string"
  rp_rfq_id :: "string option"
  rp_id :: "string"

record rfq_cargo_line =
  rcl_packages :: "int"
  rcl_gross_weight :: "flt"
  rcl_commodity_id :: "string option"
  rcl_package_type_code :: "string"
  rcl_net_weight :: "flt option"
  rcl_volume_cbm :: "flt"
  rcl_dimensions_length_cm :: "flt option"
  rcl_dimensions_width_cm :: "flt option"
  rcl_dimensions_height_cm :: "flt option"
  rcl_cargo_value :: "flt option"
  rcl_currency_code :: "string"
  rcl_is_stackable :: "bool"
  rcl_is_tiltable :: "bool"
  rcl_rfq_id :: "string option"
  rcl_id :: "string"

record rfq_container_requirement =
  rcr_container_type_code :: "string"
  rcr_qty :: "int"
  rcr_weight_per_container :: "flt"
  rcr_temperature_controlled :: "bool"
  rcr_genset_required :: "bool"
  rcr_soc_coc :: "string"
  rcr_oog_dimensions :: "(string, flt) dict"
  rcr_rfq_id :: "string option"
  rcr_id :: "string"

record rfq_special_requirement =
  rsr_dgr_flag :: "bool"
  rsr_dgr_un_number :: "string option"
  rsr_dgr_class :: "string option"
  rsr_temp_controlled :: "bool"
  rsr_insurance :: "bool"
  rsr_fumigation :: "bool"
  rsr_inspection :: "bool"
  rsr_special_handling_codes :: "string"
  rsr_customs_docs_required :: "string"
  rsr_lc_flag :: "bool"
  rsr_lc_number :: "string option"
  rsr_rfq_id :: "string option"
  rsr_id :: "string"

record rfq =
  rfq_rfq_number :: "string"
  rfq_customer_id :: "string"
  rfq_origin_location_id :: "string"
  rfq_destination_location_id :: "string"
  rfq_mode :: "rfq_mode"
  rfq_service_type :: "rfq_service_type"
  rfq_cargo_ready_date :: "date"
  rfq_preferred_departure :: "date"
  rfq_required_delivery :: "date"
  rfq_incoterm_code :: "string"
  rfq_movement_type :: "string"
  rfq_preferred_carrier_id :: "string option"
  rfq_priority :: "string"
  rfq_status :: "rfq_status"
  rfq_assigned_to :: "string option"
  rfq_parties :: "rfq_party list"
  rfq_cargo_lines :: "rfq_cargo_line list"
  rfq_container_requirements :: "rfq_container_requirement list"
  rfq_special_requirement :: "rfq_special_requirement option"
  rfq_id :: "string"

record route_leg =
  leg_from_location_id :: "string"
  leg_to_location_id :: "string"
  leg_carrier_id :: "string"
  leg_sequence :: "int"
  leg_vessel_id :: "string option"
  leg_flight_id :: "string option"
  leg_etd :: "datetime option"
  leg_eta :: "datetime option"
  leg_transit_time_hours :: "flt"
  leg_is_transshipment :: "bool"
  leg_route_id :: "string option"
  leg_id :: "string"

record route =
  route_origin_location_id :: "string"
  route_destination_location_id :: "string"
  route_mode :: "string"
  route_legs :: "route_leg list"
  route_id :: "string"

datatype charge_category = FREIGHT | SURCHARGE | LOCAL | AGENT

fun charge_category_value :: "charge_category \<Rightarrow> string" where
  "charge_category_value charge_category.FREIGHT = ''FREIGHT''"
| "charge_category_value charge_category.SURCHARGE = ''SURCHARGE''"
| "charge_category_value charge_category.LOCAL = ''LOCAL''"
| "charge_category_value charge_category.AGENT = ''AGENT''"

record quotation_line =
  ql_charge_code :: "string"
  ql_category :: "charge_category"
  ql_cost_amount :: "flt"
  ql_sell_amount :: "flt"
  ql_description :: "string"
  ql_rate_version_id :: "string option"
  ql_quotation_option_id :: "string option"
  ql_id :: "string"

record quotation_option =
  qo_label :: "string"
  qo_charge_lines :: "quotation_line list"
  qo_route_id :: "string option"
  qo_primary_rate_version_id :: "string option"
  qo_currency_code :: "string"
  qo_is_below_margin :: "bool"
  qo_quotation_id :: "string option"
  qo_id :: "string"

datatype quotation_status = DRAFT | PENDING_APPROVAL | APPROVED | SENT_TO_CUSTOMER | ACCEPTED | REJECTED | EXPIRED | REVISED | CANCELLED

fun quotation_status_value :: "quotation_status \<Rightarrow> string" where
  "quotation_status_value quotation_status.DRAFT = ''DRAFT''"
| "quotation_status_value quotation_status.PENDING_APPROVAL = ''PENDING_APPROVAL''"
| "quotation_status_value quotation_status.APPROVED = ''APPROVED''"
| "quotation_status_value quotation_status.SENT_TO_CUSTOMER = ''SENT_TO_CUSTOMER''"
| "quotation_status_value quotation_status.ACCEPTED = ''ACCEPTED''"
| "quotation_status_value quotation_status.REJECTED = ''REJECTED''"
| "quotation_status_value quotation_status.EXPIRED = ''EXPIRED''"
| "quotation_status_value quotation_status.REVISED = ''REVISED''"
| "quotation_status_value quotation_status.CANCELLED = ''CANCELLED''"

record quotation_approval =
  qa_quotation_id :: "string"
  qa_approval_type :: "string"
  qa_approver_role :: "string"
  qa_status :: "string"
  qa_approved_by :: "string option"
  qa_approved_at :: "datetime option"
  qa_id :: "string"

record quotation =
  quo_quotation_number :: "string"
  quo_rfq_id :: "string"
  quo_expiry_date :: "date"
  quo_status :: "quotation_status"
  quo_parent_quotation_id :: "string option"
  quo_sent_at :: "datetime option"
  quo_options :: "quotation_option list"
  quo_approvals :: "quotation_approval list"
  quo_id :: "string"

record job =
  job_job_number :: "string"
  job_quotation_id :: "string"
  job_customer_id :: "string"
  job_status :: "string"
  job_id :: "string"

section \<open>Computed properties\<close>

text \<open>\<open>Rate.current_version\<close>: the first of the versions with the largest number.\<close>

definition current_version :: "rate \<Rightarrow> rate_version option" where
  "current_version r = (case rate_versions r of [] \<Rightarrow> None
     | v # vs \<Rightarrow> Some (max_by rv_version_number v vs))"

text \<open>\<open>Route.total_transit_hours\<close>, \<open>transshipment_count\<close>, \<open>carriers_used\<close>.\<close>

definition total_transit_hours :: "route \<Rightarrow> flt" where
  "total_transit_hours r = py_sum (map leg_transit_time_hours (route_legs r))"

definition transshipment_count :: "route \<Rightarrow> int" where
  "transshipment_count r = max (int (length (route_legs r)) - 1) 0"

definition carriers_used :: "route \<Rightarrow> string set" where
  "carriers_used r = set (map leg_carrier_id (route_legs r))"

text \<open>\<open>QuotationOption.total_cost\<close>, \<open>total_sell\<close>, \<open>gross_margin\<close>, \<open>margin_pct\<close>.\<close>

definition total_cost :: "quotation_option \<Rightarrow> flt" where
  "total_cost q = py_round 2 (py_sum (map ql_cost_amount (qo_charge_lines q)))"

definition total_sell :: "quotation_option \<Rightarrow> flt" where
  "total_sell q = py_round 2 (py_sum (map ql_sell_amount (qo_charge_lines q)))"

definition gross_margin :: "quotation_option \<Rightarrow> flt" where
  "gross_margin q = py_round 2 (fsub (total_sell q) (total_cost q))"

definition margin_pct :: "quotation_option \<Rightarrow> flt" where
  "margin_pct q = (if total_sell q = 0 then 0
     else py_round 2 (fmul (fquot (gross_margin q) (total_sell q)) 100))"

lemma current_version_None: "current_version r = None \<longleftrightarrow> rate_versions r = []"
  by (simp add: current_version_def split: list.splits)

lemma current_version_mem: "current_version r = Some v \<Longrightarrow> v \<in> set (rate_versions r)"
  using max_by_mem [of rv_version_number]
  by (fastforce simp: current_version_def split: list.splits)

lemma current_version_max:
  "current_version r = Some v \<Longrightarrow> w \<in> set (rate_versions r) \<Longrightarrow> rv_version_number w \<le> rv_version_number v"
  using max_by_ge [of w _ _ rv_version_number]
  by (auto simp: current_version_def split: list.splits)

lemma current_version_cong: "rate_versions r = rate_versions r' \<Longrightarrow> current_version r = current_version r'"
  by (simp add: current_version_def)

lemma gross_margin_nonneg: "total_cost q \<le> total_sell q \<Longrightarrow> 0 \<le> gross_margin q"
  by (simp add: gross_margin_def fsub_nonneg pr.nonneg)

lemma carriers_used_bound: "card (carriers_used r) \<le> nat (transshipment_count r) + 1"
  unfolding carriers_used_def transshipment_count_def
  using card_length [of "map leg_carrier_id (route_legs r)"] by simp

section \<open>Instances of the library's classes\<close>

text \<open>
  The rate categories in the order of the selection cascade: a smaller category is preferred.
\<close>

fun cascade_tier :: "rate_category \<Rightarrow> nat" where
  "cascade_tier rate_category.CONTRACT_NAC = 0"
| "cascade_tier rate_category.SPOT = 1"
| "cascade_tier rate_category.LANE_NAC = 2"
| "cascade_tier rate_category.PROMOTIONAL = 3"
| "cascade_tier rate_category.FAK = 4"
| "cascade_tier rate_category.AGENT = 5"

lemma cascade_tier_inj: "cascade_tier a = cascade_tier b \<longleftrightarrow> a = b"
  by (cases a; cases b) simp_all

instantiation rate_category :: linorder
begin

definition less_eq_rate_category :: "rate_category \<Rightarrow> rate_category \<Rightarrow> bool" where
  "less_eq_rate_category a b \<longleftrightarrow> cascade_tier a \<le> cascade_tier b"

definition less_rate_category :: "rate_category \<Rightarrow> rate_category \<Rightarrow> bool" where
  "less_rate_category a b \<longleftrightarrow> cascade_tier a < cascade_tier b"

instance
  by standard (auto simp: less_eq_rate_category_def less_rate_category_def cascade_tier_inj)

end

end
