(* ===== verification/Repositories.thy ===== *)
theory Repositories
  imports Entities
begin

text \<open>
  The in-memory adapters of \<open>domain/in_memory_repos.py\<close> behind the ports of
  \<open>domain/interfaces.py\<close>. Each repository's state is its dictionary (a record of dictionaries
  where it has several attributes); a method that changes the repository returns the new state.
  The repositories keyed by identity are instances of the interface \<open>keyed_store\<close>.
\<close>

section \<open>RFQ repository\<close>

type_synonym rfq_repo = "(string, rfq) dict"

definition save_rfq :: "rfq \<Rightarrow> rfq_repo \<Rightarrow> rfq_repo" where
  "save_rfq r d = dset (rfq_id r) r d"

definition get_rfq_by_id :: "rfq_repo \<Rightarrow> string \<Rightarrow> rfq option" where
  "get_rfq_by_id d i = dget d i"

definition list_all_rfqs :: "rfq_repo \<Rightarrow> string option \<Rightarrow> string option \<Rightarrow> rfq list" where
  "list_all_rfqs d status assigned_to = (let results = dvalues d;
     results = (if truthy status then filter (\<lambda>r. Some (rfq_status_value (rfq_status r)) = status) results
                else results)
     in if truthy assigned_to then filter (\<lambda>r. rfq_assigned_to r = assigned_to) results else results)"

abbreviation rfq_repo_inv :: "rfq_repo \<Rightarrow> bool" where "rfq_repo_inv \<equiv> store_inv rfq_id"

lemma save_rfq_store: "save_rfq = store_save rfq_id"
  by (simp add: fun_eq_iff save_rfq_def store_save_def)

lemma get_rfq_store: "get_rfq_by_id = dget"
  by (simp add: fun_eq_iff get_rfq_by_id_def)

lemma list_all_rfqs_all: "list_all_rfqs d None None = dvalues d"
  by (simp add: list_all_rfqs_def)

interpretation rfq_store: keyed_store save_rfq get_rfq_by_id "\<lambda>d. list_all_rfqs d None None" rfq_id rfq_repo_inv
  unfolding save_rfq_store get_rfq_store list_all_rfqs_all by (rule keyed_store_dict)

section \<open>Rate repository\<close>

type_synonym rate_repo = "(string, rate) dict"

definition save_rate :: "rate \<Rightarrow> rate_repo \<Rightarrow> rate_repo" where
  "save_rate r d = dset (rate_id r) r d"

definition get_rate_by_id :: "rate_repo \<Rightarrow> string \<Rightarrow> rate option" where
  "get_rate_by_id d i = dget d i"

definition get_rate_version_by_id :: "rate_repo \<Rightarrow> string \<Rightarrow> rate_version option" where
  "get_rate_version_by_id d vid = List.find (\<lambda>v. rv_id v = vid) (concat (map rate_versions (dvalues d)))"

definition list_all_rates :: "rate_repo \<Rightarrow> rate list" where
  "list_all_rates d = dvalues d"

text \<open>The conditions of the loop of \<open>find_rates\<close> under which a rate is kept.\<close>

definition rate_matches :: "string \<Rightarrow> string \<Rightarrow> date \<Rightarrow> string option \<Rightarrow> string option \<Rightarrow> rate \<Rightarrow> bool" where
  "rate_matches origin_id destination_id effective_date customer_id commodity_id r =
    (if rate_origin_location_id r \<noteq> origin_id \<or> rate_destination_location_id r \<noteq> destination_id then False
     else if \<not> (rate_effective_date r \<le> effective_date \<and> effective_date \<le> rate_expiry_date r) then False
     else if rate_status_value (rate_status r) \<noteq> ''ACTIVE'' then False
     else if truthy customer_id \<and> truthy (rate_customer_id r) \<and> rate_customer_id r \<noteq> customer_id then False
     else if truthy commodity_id \<and> truthy (rate_commodity_id r) \<and> rate_commodity_id r \<noteq> commodity_id then False
     else True)"

definition find_rates ::
  "rate_repo \<Rightarrow> string \<Rightarrow> string \<Rightarrow> date \<Rightarrow> string option \<Rightarrow> string option \<Rightarrow> rate list" where
  "find_rates d origin_id destination_id effective_date customer_id commodity_id =
    filter (rate_matches origin_id destination_id effective_date customer_id commodity_id) (dvalues d)"

abbreviation rate_repo_inv :: "rate_repo \<Rightarrow> bool" where "rate_repo_inv \<equiv> store_inv rate_id"

lemma save_rate_store: "save_rate = store_save rate_id"
  by (simp add: fun_eq_iff save_rate_def store_save_def)

lemma get_rate_store: "get_rate_by_id = dget"
  by (simp add: fun_eq_iff get_rate_by_id_def)

lemma list_all_rates_store: "list_all_rates = dvalues"
  by (simp add: fun_eq_iff list_all_rates_def)

interpretation rate_store: keyed_store save_rate get_rate_by_id list_all_rates rate_id rate_repo_inv
  unfolding save_rate_store get_rate_store list_all_rates_store by (rule keyed_store_dict)

lemma rate_status_value_ACTIVE [simp]: "rate_status_value s = ''ACTIVE'' \<longleftrightarrow> s = rate_status.ACTIVE"
  by (cases s) simp_all

lemma find_rates_mem:
  "r \<in> set (find_rates d o' d' t c m) \<longleftrightarrow> r \<in> set (list_all_rates d) \<and>
    rate_origin_location_id r = o' \<and> rate_destination_location_id r = d' \<and>
    rate_effective_date r \<le> t \<and> t \<le> rate_expiry_date r \<and> rate_status r = rate_status.ACTIVE \<and>
    (truthy c \<and> truthy (rate_customer_id r) \<longrightarrow> rate_customer_id r = c) \<and>
    (truthy m \<and> truthy (rate_commodity_id r) \<longrightarrow> rate_commodity_id r = m)"
  by (auto simp: find_rates_def rate_matches_def list_all_rates_def)

lemma get_rate_version_mem:
  "get_rate_version_by_id d i = Some v \<Longrightarrow>
    rv_id v = i \<and> (\<exists>r \<in> set (list_all_rates d). v \<in> set (rate_versions r))"
  by (auto simp: get_rate_version_by_id_def find_Some_iff list_all_rates_def dest!: nth_mem)

section \<open>Route repository\<close>

type_synonym route_repo = "(string, route) dict"

definition save_route :: "route \<Rightarrow> route_repo \<Rightarrow> route_repo" where
  "save_route r d = dset (route_id r) r d"

definition find_routes :: "route_repo \<Rightarrow> string \<Rightarrow> string \<Rightarrow> string \<Rightarrow> route list" where
  "find_routes d origin_id destination_id mode = filter (\<lambda>r. route_origin_location_id r = origin_id \<and>
     route_destination_location_id r = destination_id \<and> py_upper (route_mode r) = py_upper mode) (dvalues d)"

section \<open>Quotation repository\<close>

type_synonym quotation_repo = "(string, quotation) dict"

definition save_quotation :: "quotation \<Rightarrow> quotation_repo \<Rightarrow> quotation_repo" where
  "save_quotation q d = dset (quo_id q) q d"

definition get_quotation_by_id :: "quotation_repo \<Rightarrow> string \<Rightarrow> quotation option" where
  "get_quotation_by_id d i = dget d i"

definition get_by_rfq_id :: "quotation_repo \<Rightarrow> string \<Rightarrow> quotation list" where
  "get_by_rfq_id d i = filter (\<lambda>q. quo_rfq_id q = i) (dvalues d)"

abbreviation quotation_repo_inv :: "quotation_repo \<Rightarrow> bool" where "quotation_repo_inv \<equiv> store_inv quo_id"

lemma save_quotation_store: "save_quotation = store_save quo_id"
  by (simp add: fun_eq_iff save_quotation_def store_save_def)

lemma get_quotation_store: "get_quotation_by_id = dget"
  by (simp add: fun_eq_iff get_quotation_by_id_def)

interpretation quotation_store: keyed_store save_quotation get_quotation_by_id dvalues quo_id quotation_repo_inv
  unfolding save_quotation_store get_quotation_store by (rule keyed_store_dict)

section \<open>Customer repository\<close>

record customer_repo =
  cr_customers :: "(string, customer) dict"
  cr_exposures :: "(string, flt) dict"
  cr_customer_seq :: int

definition generate_next_customer_code :: "customer_repo \<Rightarrow> string \<times> customer_repo" where
  "generate_next_customer_code s = (let n = cr_customer_seq s + 1
     in (''CUST-'' @ zpad 4 n, s\<lparr>cr_customer_seq := n\<rparr>))"

definition save_customer :: "customer \<Rightarrow> customer_repo \<Rightarrow> customer_repo" where
  "save_customer c s = s\<lparr>cr_customers := dset (cust_id c) c (cr_customers s)\<rparr>"

definition get_customer_by_id :: "customer_repo \<Rightarrow> string \<Rightarrow> customer option" where
  "get_customer_by_id s i = dget (cr_customers s) i"

definition set_exposure :: "string \<Rightarrow> flt \<Rightarrow> customer_repo \<Rightarrow> customer_repo" where
  "set_exposure i amount s = s\<lparr>cr_exposures := dset i amount (cr_exposures s)\<rparr>"

definition get_customer_exposure :: "customer_repo \<Rightarrow> string \<Rightarrow> flt" where
  "get_customer_exposure s i = dget_or (cr_exposures s) i 0"

definition list_all_customers :: "customer_repo \<Rightarrow> customer list" where
  "list_all_customers s = dvalues (cr_customers s)"

definition customer_repo_inv :: "customer_repo \<Rightarrow> bool" where
  "customer_repo_inv s \<longleftrightarrow> store_inv cust_id (cr_customers s)"

interpretation customer_store: keyed_store save_customer get_customer_by_id list_all_customers cust_id customer_repo_inv
proof
  fix s e k assume h: "customer_repo_inv s"
  then have i: "store_inv cust_id (cr_customers s)" by (simp add: customer_repo_inv_def)
  show "get_customer_by_id (save_customer e s) k = (if k = cust_id e then Some e else get_customer_by_id s k)"
    by (simp add: get_customer_by_id_def save_customer_def dget_dset)
  show "customer_repo_inv (save_customer e s)"
    using store_inv_save [OF i] by (simp add: customer_repo_inv_def save_customer_def store_save_def)
  show "e \<in> set (list_all_customers s) \<longleftrightarrow> get_customer_by_id s (cust_id e) = Some e"
    unfolding list_all_customers_def get_customer_by_id_def by (rule store_elems_iff [OF i])
  show "distinct (map cust_id (list_all_customers s))"
    unfolding list_all_customers_def by (rule store_distinct [OF i])
  assume "get_customer_by_id s k = Some e"
  then show "cust_id e = k"
    unfolding get_customer_by_id_def by (rule store_find_key [OF i])
qed

lemma get_customer_exposure_set:
  "get_customer_exposure (set_exposure i a s) j = (if j = i then a else get_customer_exposure s j)"
  by (simp add: get_customer_exposure_def set_exposure_def dget_or_dset)

section \<open>Master-data repository\<close>

record master_repo =
  md_countries :: "(string, country) dict"
  md_locations :: "(string, location) dict"
  md_zones :: "(string, zone) dict"
  md_carriers :: "(string, carrier) dict"
  md_vessels :: "(string, vessel) dict"
  md_vessel_schedules :: "vessel_schedule list"
  md_flight_schedules :: "flight_schedule list"
  md_container_types :: "(string, container_type) dict"
  md_commodities :: "(string, commodity) dict"
  md_package_types :: "(string, package_type) dict"
  md_incoterms :: "(string, incoterm) dict"
  md_charge_codes :: "(string, charge_code) dict"
  md_document_types :: "(string, document_type) dict"
  md_vendors :: "(string, vendor) dict"
  md_agents :: "(string, agent) dict"
  md_agent_rate_agreements :: "agent_rate_agreement list"
  md_credit_overrides :: "customer_credit_override list"
  md_customer_contacts :: "customer_contact list"
  md_customer_addresses :: "customer_address list"

definition empty_master_repo :: master_repo where
  "empty_master_repo = \<lparr>md_countries = [], md_locations = [], md_zones = [], md_carriers = [],
    md_vessels = [], md_vessel_schedules = [], md_flight_schedules = [], md_container_types = [],
    md_commodities = [], md_package_types = [], md_incoterms = [], md_charge_codes = [],
    md_document_types = [], md_vendors = [], md_agents = [], md_agent_rate_agreements = [],
    md_credit_overrides = [], md_customer_contacts = [], md_customer_addresses = []\<rparr>"

text \<open>
  A lookup by identity or code: \<open>d.get(k.upper(), d.get(k))\<close>, and the write of an optional code
  that is only made when the code is non-empty.
\<close>

definition get_code_or_id :: "(string, 'a) dict \<Rightarrow> string \<Rightarrow> 'a option" where
  "get_code_or_id d k = (case dget d (py_upper k) of Some x \<Rightarrow> Some x | None \<Rightarrow> dget d k)"

definition set_code :: "string option \<Rightarrow> 'a \<Rightarrow> (string, 'a) dict \<Rightarrow> (string, 'a) dict" where
  "set_code c x d = (case c of Some k \<Rightarrow> if k \<noteq> [] then dset (py_upper k) x d else d | None \<Rightarrow> d)"

lemma dget_set_code:
  "dget (set_code c x d) k = (if truthy c \<and> k = py_upper (the c) then Some x else dget d k)"
  by (cases c) (auto simp: set_code_def dget_dset)

subsection \<open>Geography\<close>

definition add_country :: "country \<Rightarrow> master_repo \<Rightarrow> master_repo" where
  "add_country c s = s\<lparr>md_countries := dset (co_id c) c (dset (py_upper (co_iso_code c)) c (md_countries s))\<rparr>"

definition get_country :: "master_repo \<Rightarrow> string \<Rightarrow> country option" where
  "get_country s iso_code = dget (md_countries s) (py_upper iso_code)"

definition add_location :: "location \<Rightarrow> master_repo \<Rightarrow> master_repo" where
  "add_location l s = s\<lparr>md_locations :=
     set_code (loc_iata_code l) l (set_code (loc_un_locode l) l (dset (loc_id l) l (md_locations s)))\<rparr>"

definition get_location_by_id :: "master_repo \<Rightarrow> string \<Rightarrow> location option" where
  "get_location_by_id s k = get_code_or_id (md_locations s) k"

definition location_hit :: "string \<Rightarrow> location \<Rightarrow> bool" where
  "location_hit q l \<longleftrightarrow> py_in q (py_lower (loc_name l)) \<or> py_in q (py_lower (loc_city l)) \<or>
     (truthy (loc_un_locode l) \<and> py_in q (py_lower (the (loc_un_locode l)))) \<or>
     (truthy (loc_iata_code l) \<and> py_in q (py_lower (the (loc_iata_code l))))"

fun search_loop :: "string \<Rightarrow> string option \<Rightarrow> bool \<Rightarrow> string set \<Rightarrow> location list \<Rightarrow> location list" where
  "search_loop q ltype active_only seen [] = []"
| "search_loop q ltype active_only seen (l # ls) =
    (if loc_id l \<in> seen then search_loop q ltype active_only seen ls
     else let seen = insert (loc_id l) seen; rest = search_loop q ltype active_only seen ls in
       if active_only \<and> \<not> loc_is_active l then rest
       else if truthy ltype \<and> Some (loc_type l) \<noteq> ltype then rest
       else if location_hit q l then l # rest else rest)"

definition search_locations :: "master_repo \<Rightarrow> string \<Rightarrow> string option \<Rightarrow> bool \<Rightarrow> location list" where
  "search_locations s query ltype active_only =
    search_loop (py_lower query) ltype active_only {} (dvalues (md_locations s))"

definition add_zone :: "zone \<Rightarrow> master_repo \<Rightarrow> master_repo" where
  "add_zone z s = s\<lparr>md_zones := dset (py_upper (zn_zone_code z)) z (dset (zn_id z) z (md_zones s))\<rparr>"

definition get_zone :: "master_repo \<Rightarrow> string \<Rightarrow> zone option" where
  "get_zone s code = get_code_or_id (md_zones s) code"

subsection \<open>Carriers and network\<close>

definition add_carrier :: "carrier \<Rightarrow> master_repo \<Rightarrow> master_repo" where
  "add_carrier c s = s\<lparr>md_carriers :=
     set_code (car_iata_code c) c (set_code (car_scac_code c) c (dset (car_id c) c (md_carriers s)))\<rparr>"

definition get_carrier_by_id :: "master_repo \<Rightarrow> string \<Rightarrow> carrier option" where
  "get_carrier_by_id s k = get_code_or_id (md_carriers s) k"

definition add_vessel :: "vessel \<Rightarrow> master_repo \<Rightarrow> master_repo" where
  "add_vessel v s = s\<lparr>md_vessels := dset (ves_imo_number v) v (dset (ves_id v) v (md_vessels s))\<rparr>"

definition get_vessel :: "master_repo \<Rightarrow> string \<Rightarrow> vessel option" where
  "get_vessel s k = dget (md_vessels s) k"

definition add_vessel_schedule :: "vessel_schedule \<Rightarrow> master_repo \<Rightarrow> master_repo" where
  "add_vessel_schedule v s = s\<lparr>md_vessel_schedules := md_vessel_schedules s @ [v]\<rparr>"

text \<open>\<open>ports.index(p)\<close> of a port known to occur: its first position.\<close>

fun first_index :: "'a \<Rightarrow> 'a list \<Rightarrow> nat" where
  "first_index x [] = 0"
| "first_index x (y # ys) = (if y = x then 0 else Suc (first_index x ys))"

definition serves :: "string \<Rightarrow> string \<Rightarrow> vessel_schedule \<Rightarrow> bool" where
  "serves origin_port dest_port v = (let ports = map pc_port (vs_port_rotation v) in
     if Some origin_port \<in> set ports \<and> Some dest_port \<in> set ports
     then first_index (Some origin_port) ports < first_index (Some dest_port) ports else False)"

definition find_vessel_schedules :: "master_repo \<Rightarrow> string \<Rightarrow> string \<Rightarrow> vessel_schedule list" where
  "find_vessel_schedules s origin_port dest_port = filter (serves origin_port dest_port) (md_vessel_schedules s)"

definition add_flight_schedule :: "flight_schedule \<Rightarrow> master_repo \<Rightarrow> master_repo" where
  "add_flight_schedule f s = s\<lparr>md_flight_schedules := md_flight_schedules s @ [f]\<rparr>"

definition find_flight_schedules :: "master_repo \<Rightarrow> string \<Rightarrow> string \<Rightarrow> flight_schedule list" where
  "find_flight_schedules s origin_id dest_id =
    filter (\<lambda>f. fs_origin_location_id f = origin_id \<and> fs_destination_location_id f = dest_id)
      (md_flight_schedules s)"

subsection \<open>Reference data, vendors and agents\<close>

definition add_container_type :: "container_type \<Rightarrow> master_repo \<Rightarrow> master_repo" where
  "add_container_type c s = s\<lparr>md_container_types := dset (py_upper (ct_code c)) c (md_container_types s)\<rparr>"

definition get_container_type :: "master_repo \<Rightarrow> string \<Rightarrow> container_type option" where
  "get_container_type s code = dget (md_container_types s) (py_upper code)"

definition add_commodity :: "commodity \<Rightarrow> master_repo \<Rightarrow> master_repo" where
  "add_commodity c s = (let d = dset (com_id c) c (md_commodities s)
     in s\<lparr>md_commodities := (if com_hs_code c \<noteq> [] then dset (com_hs_code c) c d else d)\<rparr>)"

definition get_commodity_by_id :: "master_repo \<Rightarrow> string \<Rightarrow> commodity option" where
  "get_commodity_by_id s k = dget (md_commodities s) k"

definition add_package_types :: "package_type list \<Rightarrow> master_repo \<Rightarrow> master_repo" where
  "add_package_types ts s =
    s\<lparr>md_package_types := fold (\<lambda>t. dset (py_upper (pt_code t)) t) ts (md_package_types s)\<rparr>"

definition add_incoterms :: "incoterm list \<Rightarrow> master_repo \<Rightarrow> master_repo" where
  "add_incoterms ts s = s\<lparr>md_incoterms := fold (\<lambda>t. dset (py_upper (inc_code t)) t) ts (md_incoterms s)\<rparr>"

definition add_charge_codes :: "charge_code list \<Rightarrow> master_repo \<Rightarrow> master_repo" where
  "add_charge_codes cs s =
    s\<lparr>md_charge_codes := fold (\<lambda>c. dset (py_upper (cc_code c)) c) cs (md_charge_codes s)\<rparr>"

definition add_vendor :: "vendor \<Rightarrow> master_repo \<Rightarrow> master_repo" where
  "add_vendor v s = (let d = dset (ven_id v) v (md_vendors s)
     in s\<lparr>md_vendors := (if ven_vendor_code v \<noteq> [] then dset (py_upper (ven_vendor_code v)) v d else d)\<rparr>)"

definition get_vendor_by_id :: "master_repo \<Rightarrow> string \<Rightarrow> vendor option" where
  "get_vendor_by_id s k = get_code_or_id (md_vendors s) k"

definition add_agent :: "agent \<Rightarrow> master_repo \<Rightarrow> master_repo" where
  "add_agent a s = s\<lparr>md_agents := dset (ag_id a) a (md_agents s)\<rparr>"

definition add_agent_rate_agreement :: "agent_rate_agreement \<Rightarrow> master_repo \<Rightarrow> master_repo" where
  "add_agent_rate_agreement a s = s\<lparr>md_agent_rate_agreements := md_agent_rate_agreements s @ [a]\<rparr>"

definition save_credit_override :: "customer_credit_override \<Rightarrow> master_repo \<Rightarrow> master_repo" where
  "save_credit_override c s = s\<lparr>md_credit_overrides := md_credit_overrides s @ [c]\<rparr>"

definition add_customer_contacts :: "customer_contact list \<Rightarrow> master_repo \<Rightarrow> master_repo" where
  "add_customer_contacts cs s = s\<lparr>md_customer_contacts := md_customer_contacts s @ cs\<rparr>"

definition add_customer_addresses :: "customer_address list \<Rightarrow> master_repo \<Rightarrow> master_repo" where
  "add_customer_addresses cs s = s\<lparr>md_customer_addresses := md_customer_addresses s @ cs\<rparr>"

subsection \<open>Laws of the search\<close>

text \<open>The first location stored under each identity, in the order of the dictionary.\<close>

fun first_by_id :: "string set \<Rightarrow> location list \<Rightarrow> location list" where
  "first_by_id seen [] = []"
| "first_by_id seen (l # ls) = (if loc_id l \<in> seen then first_by_id seen ls
     else l # first_by_id (insert (loc_id l) seen) ls)"

definition location_wanted :: "string \<Rightarrow> string option \<Rightarrow> bool \<Rightarrow> location \<Rightarrow> bool" where
  "location_wanted q ltype active_only l \<longleftrightarrow> (active_only \<longrightarrow> loc_is_active l) \<and>
     (truthy ltype \<longrightarrow> ltype = Some (loc_type l)) \<and> location_hit q l"

lemma search_loop_filter:
  "search_loop q t a seen ls = filter (location_wanted q t a) (first_by_id seen ls)"
  by (induction ls arbitrary: seen) (auto simp: location_wanted_def Let_def)

lemma first_by_id_ids: "loc_id ` set (first_by_id seen ls) = loc_id ` set ls - seen"
  by (induction ls arbitrary: seen) auto

lemma first_by_id_distinct: "distinct (map loc_id (first_by_id seen ls))"
  by (induction ls arbitrary: seen) (auto simp: first_by_id_ids)

lemma first_by_id_subset: "set (first_by_id seen ls) \<subseteq> set ls"
proof (induction ls arbitrary: seen)
  case (Cons l ls)
  then show ?case using Cons.IH [of seen] Cons.IH [of "insert (loc_id l) seen"] by auto
qed simp

lemma first_by_id_complete:
  "inj_on loc_id (set ls) \<Longrightarrow> set (first_by_id {} ls) = set ls"
proof
  assume inj: "inj_on loc_id (set ls)"
  show "set (first_by_id {} ls) \<subseteq> set ls" by (rule first_by_id_subset)
  show "set ls \<subseteq> set (first_by_id {} ls)"
  proof
    fix l assume l: "l \<in> set ls"
    then have "loc_id l \<in> loc_id ` set (first_by_id {} ls)" by (simp add: first_by_id_ids)
    then obtain l' where l': "l' \<in> set (first_by_id {} ls)" "loc_id l' = loc_id l" by auto
    then have "l' \<in> set ls" using first_by_id_subset [of "{}" ls] by blast
    with inj l l' have "l' = l" by (auto dest: inj_onD)
    with l' show "l \<in> set (first_by_id {} ls)" by simp
  qed
qed

lemma first_index_less: "x \<in> set xs \<Longrightarrow> first_index x xs < length xs \<and> xs ! first_index x xs = x"
  by (induction xs) auto

section \<open>Exchange-rate service\<close>

type_synonym fx_rates = "(string, flt) dict"

definition default_fx_rates :: fx_rates where
  "default_fx_rates = [(''USD'', 1), (''EUR'', flit (108 / 100)), (''GBP'', flit (128 / 100)),
     (''PKR'', flit (36 / 10000)), (''SAR'', flit (2667 / 10000)), (''AED'', flit (2723 / 10000)),
     (''CNY'', flit (138 / 1000)), (''JPY'', flit (67 / 10000))]"

definition set_rate_to_usd :: "string \<Rightarrow> flt \<Rightarrow> fx_rates \<Rightarrow> fx_rates" where
  "set_rate_to_usd currency_code r d = dset (py_upper currency_code) r d"

definition get_exchange_rate :: "fx_rates \<Rightarrow> string \<Rightarrow> flt" where
  "get_exchange_rate d currency_code = dget_or d (py_upper currency_code) 1"

definition convert :: "fx_rates \<Rightarrow> flt \<Rightarrow> string \<Rightarrow> string \<Rightarrow> flt res" where
  "convert d amount from_currency to_currency =
    (if py_upper from_currency = py_upper to_currency then Inr (py_round 2 amount)
     else let from_rate = dget_or d (py_upper from_currency) 1;
              to_rate = dget_or d (py_upper to_currency) 1;
              usd_amount = fmul amount from_rate
          in res_map (py_round 2) (fdiv usd_amount to_rate))"

lemma get_exchange_rate_set:
  "get_exchange_rate (set_rate_to_usd c r d) k = (if py_upper k = py_upper c then r else get_exchange_rate d k)"
  by (simp add: get_exchange_rate_def set_rate_to_usd_def dget_or_dset)

lemma convert_alt:
  "convert d a f t = (if py_upper f = py_upper t then Inr (py_round 2 a)
     else if get_exchange_rate d t = 0 then Inl ZeroDivisionError
     else Inr (py_round 2 (fquot (fmul a (get_exchange_rate d f)) (get_exchange_rate d t))))"
  by (simp add: convert_def get_exchange_rate_def Let_def)

lemma convert_set_other:
  "py_upper c \<noteq> py_upper f \<Longrightarrow> py_upper c \<noteq> py_upper t \<Longrightarrow>
    convert (set_rate_to_usd c r d) a f t = convert d a f t"
  by (auto simp: convert_alt get_exchange_rate_set)

text \<open>
  What a client relies on in an exchange-rate port: while the table is sound, a conversion never
  raises, returns a double, and keeps a non-negative amount non-negative.
\<close>

locale fx_port =
  fixes conv :: "'s \<Rightarrow> flt \<Rightarrow> string \<Rightarrow> string \<Rightarrow> date \<Rightarrow> flt res"
    and ok :: "'s \<Rightarrow> bool"
  assumes conv_total: "ok s \<Longrightarrow> \<exists>b. conv s a f t d = Inr b"
    and conv_flt: "ok s \<Longrightarrow> conv s a f t d = Inr b \<Longrightarrow> is_flt b"
    and conv_nonneg: "ok s \<Longrightarrow> 0 \<le> a \<Longrightarrow> conv s a f t d = Inr b \<Longrightarrow> 0 \<le> b"

definition fx_of :: "fx_rates \<Rightarrow> flt \<Rightarrow> string \<Rightarrow> string \<Rightarrow> date \<Rightarrow> flt res" where
  "fx_of rates amount from_currency to_currency effective_date = convert rates amount from_currency to_currency"

definition fx_ok :: "fx_rates \<Rightarrow> bool" where "fx_ok rates \<longleftrightarrow> (\<forall>(c, r) \<in> set rates. 0 < r)"

lemma fx_ok_pos: "fx_ok rates \<Longrightarrow> 0 < get_exchange_rate rates c"
  by (auto simp: fx_ok_def get_exchange_rate_def dget_or_def split: option.splits dest!: map_of_SomeD)

lemma fx_ok_set: "fx_ok rates \<Longrightarrow> 0 < r \<Longrightarrow> fx_ok (set_rate_to_usd c r rates)"
  using set_update_subset [of "py_upper c" r rates] by (auto simp: fx_ok_def set_rate_to_usd_def)

interpretation mem_fx: fx_port fx_of fx_ok
proof
  fix s a f t d assume ok: "fx_ok s"
  show "\<exists>b. fx_of s a f t d = Inr b"
    using fx_ok_pos [OF ok, of t] by (simp add: fx_of_def convert_alt)
next
  fix s a f t d b assume "fx_ok s" and c: "fx_of s a f t d = Inr b"
  then show "is_flt b" by (auto simp: fx_of_def convert_alt split: if_splits)
next
  fix s a f t d b assume ok: "fx_ok s" and a: "0 \<le> a" and c: "fx_of s a f t d = Inr b"
  have "0 \<le> fquot (fmul a (get_exchange_rate s f)) (get_exchange_rate s t)"
    using a fx_ok_pos [OF ok, of f] fx_ok_pos [OF ok, of t]
    by (simp add: flt_op_defs rnd_nonneg)
  with a c show "0 \<le> b" by (auto simp: fx_of_def convert_alt pr.nonneg split: if_splits)
qed

section \<open>Event publisher\<close>

text \<open>The values that occur in event payloads.\<close>

datatype pyval = PStr string | PNum flt | PInt int | PNone

record event =
  ev_name :: string
  ev_payload :: "(string, pyval) dict"

definition publish :: "string \<Rightarrow> (string, pyval) dict \<Rightarrow> event list \<Rightarrow> event list" where
  "publish event_name payload evs = evs @ [\<lparr>ev_name = event_name, ev_payload = payload\<rparr>]"

end
