(* ===== verification/Rate_Importer.thy ===== *)
theory Rate_Importer
  imports Repositories Py_Money
begin

text \<open>
  The import of rates from a table, \<open>domain/services/rate_importer.py\<close>, into the rate repository.
\<close>


section \<open>Numbers in text\<close>

text \<open>
  \<open>float(s)\<close> for a text: blanks around it, underscores between digits, a sign, digits with a point and an exponent, or the names
  of the infinities and of NaN. A number too large for a double is an infinity. The numbers of the model (\<open>flt\<close>) are the
  finite ones; what \<open>float\<close> returns may be another.
\<close>

datatype pyfloat = Finite flt | Infinity bool | Not_A_Number

text \<open>\<open>x < 0\<close>: true of negative infinity, false of NaN.\<close>

fun is_negative :: "pyfloat \<Rightarrow> bool" where
  "is_negative (Finite x) = (x < 0)"
| "is_negative (Infinity negative) = negative"
| "is_negative Not_A_Number = False"

fun finite_part :: "pyfloat \<Rightarrow> flt option" where
  "finite_part (Finite x) = Some x"
| "finite_part _ = None"

text \<open>An underscore stands between two digits; the argument says whether the character before is one.\<close>

fun drop_underscores :: "bool \<Rightarrow> string \<Rightarrow> string option" where
  "drop_underscores after_digit [] = Some []"
| "drop_underscores after_digit (c # s) =
    (if c = CHR ''_''
     then (if after_digit \<and> s \<noteq> [] \<and> is_digit (hd s) then drop_underscores False s else None)
     else map_option (Cons c) (drop_underscores (is_digit c) s))"

definition float_sign :: "string \<Rightarrow> int \<times> string" where
  "float_sign s = (case s of [] \<Rightarrow> (1, []) | c # r \<Rightarrow> if c = CHR ''-'' then (- 1, r) else if c = CHR ''+'' then (1, r) else (1, c # r))"

definition float_mantissa :: "string \<Rightarrow> (int \<times> nat) option" where
  "float_mantissa s = (let a = takeWhile is_digit s in
     case dropWhile is_digit s of
       [] \<Rightarrow> if a = [] then None else Some (digits_val 0 a, 0)
     | c # f \<Rightarrow> if c = CHR ''.'' \<and> a @ f \<noteq> [] \<and> list_all is_digit f then Some (digits_val 0 (a @ f), length f) else None)"

definition not_e :: "char \<Rightarrow> bool" where "not_e c = (c \<noteq> CHR ''e'' \<and> c \<noteq> CHR ''E'')"

text \<open>A double has an exponent below 1024; what rounds to more is an infinity.\<close>

definition float_value :: "rat \<Rightarrow> pyfloat" where
  "float_value x = (if 1024 \<le> expo (flit x) then Infinity (x < 0) else Finite (flit x))"

definition float_number :: "int \<Rightarrow> string \<Rightarrow> pyfloat option" where
  "float_number sign s =
     (case float_mantissa (takeWhile not_e s) of
        None \<Rightarrow> None
      | Some (m, n) \<Rightarrow>
          (case dropWhile not_e s of
             [] \<Rightarrow> Some (float_value (of_int (sign * m) / 10 ^ n))
           | _ # e \<Rightarrow> (case float_sign e of (esign, ds) \<Rightarrow>
               if ds \<noteq> [] \<and> list_all is_digit ds
               then Some (float_value (of_int (sign * m) * 10 powi (esign * digits_val 0 ds) / 10 ^ n)) else None)))"

definition py_float :: "string \<Rightarrow> pyfloat option" where
  "py_float text = (case drop_underscores False (py_strip text) of
     None \<Rightarrow> None
   | Some t \<Rightarrow> (case float_sign t of (sign, s) \<Rightarrow>
       if py_upper s = ''INF'' \<or> py_upper s = ''INFINITY'' then Some (Infinity (sign < 0))
       else if py_upper s = ''NAN'' then Some Not_A_Number
       else float_number sign s))"

section \<open>The rows of a table\<close>

text \<open>What the reader of \<open>csv\<close> yields for a table whose lines have a text in every column.\<close>

type_synonym csv_row = "(string, string) dict"

record row_import_error =
  rie_row_number :: int
  rie_field :: string
  rie_error_message :: string
  rie_raw_value :: "string option"

record rate_import_report =
  rir_total_rows :: int
  rir_success_count :: int
  rir_error_count :: int
  rir_created_rate_ids :: "string list"
  rir_row_errors :: "row_import_error list"
  rir_dry_run :: bool
  rir_is_successful :: bool

definition mandatory_fields :: "string list" where
  "mandatory_fields = [''carrier_code'', ''origin_code'', ''dest_code'', ''effective_date'', ''expiry_date'', ''amount'', ''rate_category'']"

definition cell_of :: "csv_row \<Rightarrow> string \<Rightarrow> string" where "cell_of row f = dget_or row f []"

definition quoted :: "string \<Rightarrow> string" where "quoted s = CHR 0x27 # s @ [CHR 0x27]"

definition rate_category_of :: "string \<Rightarrow> rate_category option" where
  "rate_category_of s = List.find (\<lambda>c. rate_category_value c = s)
     [rate_category.CONTRACT_NAC, rate_category.SPOT, rate_category.LANE_NAC, rate_category.PROMOTIONAL, rate_category.FAK, rate_category.AGENT]"

definition parse_row_date :: "string \<Rightarrow> date option" where "parse_row_date s = parse_ymd (py_strip s)"

text \<open>How the set of the categories is written in a message, in no specified order, is the argument \<open>cats\<close>.\<close>

definition validate_row :: "string \<Rightarrow> master_repo option \<Rightarrow> int \<Rightarrow> csv_row \<Rightarrow> row_import_error list" where
  "validate_row cats master row_num row =
    (let err = (\<lambda>f m v. \<lparr>rie_row_number = row_num, rie_field = f, rie_error_message = m, rie_raw_value = v\<rparr>);
         missing = map (\<lambda>f. err f (''Missing mandatory field '' @ quoted f) (dget row f)) (filter (\<lambda>f. py_strip (cell_of row f) = []) mandatory_fields)
     in if missing \<noteq> [] then missing
        else
         (let cat_str = py_upper (py_strip (cell_of row ''rate_category''));
              eff_date = parse_row_date (cell_of row ''effective_date''); exp_date = parse_row_date (cell_of row ''expiry_date'')
          in (if rate_category_of cat_str = None
              then [err ''rate_category'' (''Invalid rate_category '' @ quoted cat_str @ ''. Must be one of '' @ cats) (dget row ''rate_category'')] else [])
           @ (if eff_date = None then [err ''effective_date'' ''Invalid effective_date format. Expected YYYY-MM-DD'' (dget row ''effective_date'')] else [])
           @ (if exp_date = None then [err ''expiry_date'' ''Invalid expiry_date format. Expected YYYY-MM-DD'' (dget row ''expiry_date'')] else [])
           @ (case (eff_date, exp_date) of
                (Some a, Some b) \<Rightarrow> if b < a then [err ''expiry_date'' ''expiry_date must be on or after effective_date'' (dget row ''expiry_date'')] else []
              | _ \<Rightarrow> [])
           @ (case py_float (cell_of row ''amount'') of
                None \<Rightarrow> [err ''amount'' ''Invalid numeric amount'' (dget row ''amount'')]
              | Some a \<Rightarrow> if is_negative a then [err ''amount'' ''Rate amount must be non-negative'' (dget row ''amount'')] else [])
           @ (case master of
                None \<Rightarrow> []
              | Some repo \<Rightarrow>
                 (let origin_code = py_strip (cell_of row ''origin_code''); dest_code = py_strip (cell_of row ''dest_code'')
                  in (if get_location_by_id repo origin_code = None
                      then [err ''origin_code'' (''Origin location '' @ quoted origin_code @ '' not found in location master'') (Some origin_code)] else [])
                   @ (if get_location_by_id repo dest_code = None
                      then [err ''dest_code'' (''Destination location '' @ quoted dest_code @ '' not found in location master'') (Some dest_code)] else [])))))"

section \<open>Import\<close>

text \<open>A weight break: nothing when the cell is missing or empty, else a number, or \<open>ValueError\<close>.\<close>

definition weight_cell :: "csv_row \<Rightarrow> string \<Rightarrow> pyfloat option res" where
  "weight_cell row f = (if cell_of row f = [] then Inr None
     else case py_float (cell_of row f) of
       None \<Rightarrow> Inl (ValueError (''could not convert string to float: '' @ quoted (cell_of row f))) | Some x \<Rightarrow> Inr (Some x))"

definition rate_number_for :: "int \<Rightarrow> csv_row \<Rightarrow> string" where
  "rate_number_for idx r = dget_or r ''rate_number''
     (''RT-'' @ cell_of r ''carrier_code'' @ ''-'' @ cell_of r ''origin_code'' @ cell_of r ''dest_code'' @ ''-'' @ zpad 4 idx)"

fun finite_weight :: "pyfloat option \<Rightarrow> flt option option" where
  "finite_weight None = Some None"
| "finite_weight (Some w) = map_option Some (finite_part w)"

text \<open>
  The rate of a valid row. Its line, itself and its version draw the identities \<open>lid\<close>, \<open>rid\<close> and \<open>vid\<close>.
  A row whose numbers are not all finite gives a rate the entities of the model cannot hold: \<open>Inr None\<close>.
\<close>

definition imported_rate :: "string \<times> string \<times> string \<Rightarrow> datetime \<Rightarrow> int \<Rightarrow> string \<Rightarrow> csv_row \<Rightarrow> date \<Rightarrow> date \<Rightarrow> rate_category \<Rightarrow>
    flt \<Rightarrow> flt option \<Rightarrow> flt option \<Rightarrow> rate" where
  "imported_rate ids now idx created_by r eff_date exp_date cat amount wb_from wb_to = (case ids of (lid, rid, vid) \<Rightarrow>
    (let line = \<lparr>rl_charge_code = py_upper (dget_or r ''charge_code'' ''OFT''), rl_rate_basis = py_upper (dget_or r ''rate_basis'' ''PER_CONTAINER''),
           rl_amount = amount, rl_weight_break_from = wb_from, rl_weight_break_to = wb_to,
           rl_container_type_code = dget r ''container_type_code'', rl_rate_version_id = Some vid, rl_id = lid\<rparr>;
         version = \<lparr>rv_rate_id = rid, rv_version_number = 1, rv_modified_by = created_by, rv_modified_date = now,
           rv_reason = ''Imported via bulk CSV'', rv_approval_status = version_approval_status.APPROVED, rv_lines = [line],
           rv_surcharges = [], rv_id = vid\<rparr>
     in \<lparr>rate_rate_number = rate_number_for idx r, rate_rate_type = py_upper (dget_or r ''rate_type'' ''SEA''), rate_rate_category = cat,
         rate_carrier_vendor_id = cell_of r ''carrier_code'', rate_service_name = dget_or r ''service_name'' ''Standard Service'',
         rate_origin_location_id = cell_of r ''origin_code'', rate_destination_location_id = cell_of r ''dest_code'',
         rate_effective_date = eff_date, rate_expiry_date = exp_date, rate_currency_code = py_upper (dget_or r ''currency'' ''USD''),
         rate_status = rate_status.ACTIVE, rate_via_routing = [], rate_commodity_id = None, rate_customer_id = dget r ''customer_id'',
         rate_versions = [version], rate_id = rid\<rparr>))"

definition rate_of_row :: "string \<times> string \<times> string \<Rightarrow> datetime \<Rightarrow> int \<Rightarrow> string \<Rightarrow> csv_row \<Rightarrow> rate option res" where
  "rate_of_row ids now idx created_by r =
    (case (parse_row_date (cell_of r ''effective_date''), parse_row_date (cell_of r ''expiry_date'')) of
       (Some eff_date, Some exp_date) \<Rightarrow>
        (case rate_category_of (py_upper (cell_of r ''rate_category'')) of
           None \<Rightarrow> Inl (ValueError (quoted (py_upper (cell_of r ''rate_category'')) @ '' is not a valid RateCategory''))
         | Some cat \<Rightarrow>
            (case py_float (cell_of r ''amount'') of
               None \<Rightarrow> Inl (ValueError (''could not convert string to float: '' @ quoted (cell_of r ''amount'')))
             | Some amount \<Rightarrow>
                res_bind (weight_cell r ''weight_break_from'') (\<lambda>wb_from. res_map (\<lambda>wb_to.
                  Option.bind (finite_part amount) (\<lambda>a. Option.bind (finite_weight wb_from) (\<lambda>f.
                    map_option (imported_rate ids now idx created_by r eff_date exp_date cat a f) (finite_weight wb_to))))
                  (weight_cell r ''weight_break_to''))))
     | _ \<Rightarrow> Inl (ValueError ''time data does not match format''))"

text \<open>
  The rows are saved one after the other; \<open>ids n\<close> are the identities the row \<open>n\<close> draws, \<open>idx\<close> is left over from the validation.
  The result is None when a row reached holds an infinity or NaN, which the validation lets pass.
\<close>

fun save_rows :: "(nat \<Rightarrow> string \<times> string \<times> string) \<Rightarrow> datetime \<Rightarrow> int \<Rightarrow> string \<Rightarrow> nat \<Rightarrow> csv_row list \<Rightarrow> string list \<Rightarrow> rate_repo \<Rightarrow>
    (string list res \<times> rate_repo) option" where
  "save_rows ids now idx by n [] created repo = Some (Inr created, repo)"
| "save_rows ids now idx by n (r # rs) created repo = (case rate_of_row (ids n) now idx by r of
     Inl e \<Rightarrow> Some (Inl e, repo)
   | Inr None \<Rightarrow> None
   | Inr (Some x) \<Rightarrow> save_rows ids now idx by (Suc n) rs (created @ [rate_id x]) (save_rate x repo))"

fun check_rows :: "string \<Rightarrow> master_repo option \<Rightarrow> int \<Rightarrow> csv_row list \<Rightarrow> row_import_error list \<times> csv_row list" where
  "check_rows cats master idx [] = ([], [])"
| "check_rows cats master idx (row # rows) =
    (case check_rows cats master (idx + 1) rows of (errs, valid) \<Rightarrow>
       (let errors = validate_row cats master idx row in if errors \<noteq> [] then (errors @ errs, valid) else (errs, row # valid)))"

definition import_rate_rows :: "string \<Rightarrow> master_repo option \<Rightarrow> (nat \<Rightarrow> string \<times> string \<times> string) \<Rightarrow> datetime \<Rightarrow> csv_row list \<Rightarrow> bool \<Rightarrow> string \<Rightarrow>
    rate_repo \<Rightarrow> (rate_import_report res \<times> rate_repo) option" where
  "import_rate_rows cats master ids now rows dry_run created_by repo =
    (case check_rows cats master 1 rows of (row_errors, valid_records) \<Rightarrow>
      map_option (\<lambda>(saved, repo).
         (res_map (\<lambda>created_ids. let total_rows = int (length rows); error_count = int (length row_errors)
           in \<lparr>rir_total_rows = total_rows, rir_success_count = total_rows - error_count, rir_error_count = error_count,
                rir_created_rate_ids = created_ids, rir_row_errors = row_errors, rir_dry_run = dry_run, rir_is_successful = (error_count = 0)\<rparr>) saved, repo))
       (if row_errors = [] \<and> \<not> dry_run then save_rows ids now (int (length rows)) created_by 0 valid_records [] repo
        else Some (Inr [], repo)))"

section \<open>Which rows are accepted\<close>

definition row_filled :: "csv_row \<Rightarrow> bool" where
  "row_filled row \<longleftrightarrow> (\<forall>f \<in> set mandatory_fields. py_strip (cell_of row f) \<noteq> [])"

definition row_ok :: "master_repo option \<Rightarrow> csv_row \<Rightarrow> bool" where
  "row_ok master row \<longleftrightarrow> row_filled row
    \<and> rate_category_of (py_upper (py_strip (cell_of row ''rate_category''))) \<noteq> None
    \<and> (\<exists>a b. parse_row_date (cell_of row ''effective_date'') = Some a \<and> parse_row_date (cell_of row ''expiry_date'') = Some b \<and> a \<le> b)
    \<and> (\<exists>x. py_float (cell_of row ''amount'') = Some x \<and> \<not> is_negative x)
    \<and> (\<forall>repo \<in> set_option master. \<forall>f \<in> {''origin_code'', ''dest_code''}. get_location_by_id repo (py_strip (cell_of row f)) \<noteq> None)"

lemma validate_row_Nil: "validate_row cats master i row = [] \<longleftrightarrow> row_ok master row"
proof -
  let ?missing = "filter (\<lambda>f. py_strip (cell_of row f) = []) mandatory_fields"
  show ?thesis
  proof (cases "?missing = []")
    case True
    then have filled: "row_filled row" by (simp add: filter_empty_conv row_filled_def)
    show ?thesis by (auto simp: row_ok_def filled validate_row_def True Let_def not_less split: option.splits)
  next
    case False
    then have "\<not> row_filled row" by (simp add: filter_empty_conv row_filled_def)
    with False show ?thesis by (auto simp: row_ok_def validate_row_def Let_def)
  qed
qed

lemma check_rows_clean: "check_rows cats master i rows = ([], valid) \<Longrightarrow> valid = rows \<and> (\<forall>r \<in> set rows. row_ok master r)"
  by (induction rows arbitrary: i valid) (auto simp: Let_def validate_row_Nil split: prod.splits if_splits)

lemma check_rows_dirty: "fst (check_rows cats master i rows) = [] \<longleftrightarrow> (\<forall>r \<in> set rows. row_ok master r)"
  by (induction rows arbitrary: i) (auto simp: Let_def validate_row_Nil split: prod.splits, (metis fst_conv)+)

lemma save_rows_all:
  assumes "save_rows ids now idx by n rs created repo = Some (Inr cs, repo')"
  shows "\<exists>xs. length xs = length rs \<and> (\<forall>k < length rs. rate_of_row (ids (n + k)) now idx by (rs ! k) = Inr (Some (xs ! k)))
    \<and> cs = created @ map rate_id xs \<and> repo' = fold save_rate xs repo"
  using assms
proof (induction rs arbitrary: n created repo)
  case (Cons r rs)
  from Cons.prems obtain x where x: "rate_of_row (ids n) now idx by r = Inr (Some x)"
    "save_rows ids now idx by (Suc n) rs (created @ [rate_id x]) (save_rate x repo) = Some (Inr cs, repo')"
    by (auto split: sum.splits option.splits)
  from Cons.IH [OF x(2)] obtain xs where xs: "length xs = length rs" "\<forall>k < length rs. rate_of_row (ids (Suc n + k)) now idx by (rs ! k) = Inr (Some (xs ! k))"
    "cs = (created @ [rate_id x]) @ map rate_id xs" "repo' = fold save_rate xs (save_rate x repo)" by blast
  have "\<forall>k < length (r # rs). rate_of_row (ids (n + k)) now idx by ((r # rs) ! k) = Inr (Some ((x # xs) ! k))"
  proof (intro allI impI)
    fix k assume "k < length (r # rs)"
    then show "rate_of_row (ids (n + k)) now idx by ((r # rs) ! k) = Inr (Some ((x # xs) ! k))" using x(1) xs(2) by (cases k) auto
  qed
  with xs show ?case by (intro exI [of _ "x # xs"]) simp
qed simp

lemma bind_cases:
  "Some x = Option.bind m g \<longleftrightarrow> (\<exists>y. m = Some y \<and> g y = Some x)"
  "None = Option.bind m g \<longleftrightarrow> (m = None \<or> (\<exists>y. m = Some y \<and> g y = None))"
  by (cases m; auto)+

lemma finite_part_Some: "finite_part x = Some a \<longleftrightarrow> x = Finite a"
  by (cases x) simp_all

text \<open>What the rate of a row says.\<close>

lemma rate_of_row_fields:
  assumes "rate_of_row (lid, rid, vid) now idx by r = Inr (Some x)"
  shows "rate_id x = rid \<and> rate_rate_number x = rate_number_for idx r \<and> rate_status x = rate_status.ACTIVE
    \<and> rate_origin_location_id x = cell_of r ''origin_code'' \<and> rate_destination_location_id x = cell_of r ''dest_code''
    \<and> rate_carrier_vendor_id x = cell_of r ''carrier_code'' \<and> rate_customer_id x = dget r ''customer_id'' \<and> rate_commodity_id x = None
    \<and> parse_row_date (cell_of r ''effective_date'') = Some (rate_effective_date x) \<and> parse_row_date (cell_of r ''expiry_date'') = Some (rate_expiry_date x)
    \<and> rate_category_of (py_upper (cell_of r ''rate_category'')) = Some (rate_rate_category x)
    \<and> (\<exists>v l. rate_versions x = [v] \<and> rv_lines v = [l] \<and> py_float (cell_of r ''amount'') = Some (Finite (rl_amount l)))"
proof -
  obtain a f u e d c where x: "py_float (cell_of r ''amount'') = Some (Finite a)" "x = imported_rate (lid, rid, vid) now idx by r e d c a f u"
    "parse_row_date (cell_of r ''effective_date'') = Some e" "parse_row_date (cell_of r ''expiry_date'') = Some d"
    "rate_category_of (py_upper (cell_of r ''rate_category'')) = Some c"
    using assms by (auto simp: rate_of_row_def res_simps finite_part_Some bind_cases bind_eq_Some_conv split: option.splits)
  then show ?thesis by (simp add: imported_rate_def)
qed

lemma save_others: "i \<notin> rate_id ` set xs \<Longrightarrow> dget (fold save_rate xs repo) i = dget repo i"
  by (induction xs arbitrary: repo) (simp_all add: save_rate_def dget_dset)

lemma save_all: "distinct (map rate_id xs) \<Longrightarrow> x \<in> set xs \<Longrightarrow> dget (fold save_rate xs repo) (rate_id x) = Some x"
proof (induction xs arbitrary: repo)
  case (Cons y xs)
  show ?case
  proof (cases "x \<in> set xs")
    case True
    then show ?thesis using Cons by simp
  next
    case False
    then have "x = y" "rate_id y \<notin> rate_id ` set xs" using Cons.prems by simp_all
    then show ?thesis by (simp add: save_others) (simp add: save_rate_def dget_dset)
  qed
qed simp

section \<open>The import\<close>

text \<open>A dry run, or a table with an error in any row, stores nothing; the rows have no errors exactly when each of them is acceptable.\<close>

theorem rejected_import_changes_nothing:
  "dry_run \<or> \<not> (\<forall>r \<in> set rows. row_ok master r) \<Longrightarrow>
      (\<exists>rep. import_rate_rows cats master ids now rows dry_run by repo = Some (Inr rep, repo) \<and> rir_created_rate_ids rep = [] \<and> rir_is_successful rep = (\<forall>r \<in> set rows. row_ok master r))"
proof -
  assume h: "dry_run \<or> \<not> (\<forall>r \<in> set rows. row_ok master r)"
  obtain errs valid where c: "check_rows cats master 1 rows = (errs, valid)" by fastforce
  have "errs = [] \<longleftrightarrow> (\<forall>r \<in> set rows. row_ok master r)" using check_rows_dirty [of cats master 1 rows] c by simp
  with h show ?thesis by (auto simp: import_rate_rows_def c Let_def res_simps)
qed

text \<open>The model gives a result whenever the numbers of the rows are finite.\<close>

definition finite_cells :: "csv_row \<Rightarrow> bool" where
  "finite_cells row \<longleftrightarrow> (\<forall>f \<in> {''amount'', ''weight_break_from'', ''weight_break_to''}. \<forall>x.
     py_float (cell_of row f) = Some x \<longrightarrow> finite_part x \<noteq> None)"

lemma finite_weight_cell:
  assumes "finite_cells row" and "f \<in> {''weight_break_from'', ''weight_break_to''}" and "weight_cell row f = Inr w"
  shows "finite_weight w \<noteq> None"
proof (cases w)
  case (Some x)
  then have "py_float (cell_of row f) = Some x" using assms(3) by (simp add: weight_cell_def split: if_splits option.splits)
  moreover have "\<forall>x. py_float (cell_of row f) = Some x \<longrightarrow> finite_part x \<noteq> None"
    using assms(1,2) unfolding finite_cells_def by blast
  ultimately show ?thesis using Some by simp
qed simp

lemma rate_of_row_finite:
  assumes "finite_cells r"
  shows "rate_of_row i now idx by r \<noteq> Inr None"
proof
  assume h: "rate_of_row i now idx by r = Inr None"
  then obtain a f u where w: "py_float (cell_of r ''amount'') = Some a" "weight_cell r ''weight_break_from'' = Inr f"
    "weight_cell r ''weight_break_to'' = Inr u" "finite_part a = None \<or> finite_weight f = None \<or> finite_weight u = None"
    by (auto simp: rate_of_row_def res_simps bind_cases bind_eq_None_conv split: option.splits)
  moreover have "finite_part a \<noteq> None" using assms w(1) by (simp add: finite_cells_def)
  moreover have "finite_weight f \<noteq> None" "finite_weight u \<noteq> None"
    using finite_weight_cell [OF assms _ w(2)] finite_weight_cell [OF assms _ w(3)] by simp_all
  ultimately show False by blast
qed

lemma save_rows_finite: "\<forall>r \<in> set rs. finite_cells r \<Longrightarrow> save_rows ids now idx by n rs created repo \<noteq> None"
proof (induction rs arbitrary: n created repo)
  case (Cons r rs)
  then have "rate_of_row (ids n) now idx by r \<noteq> Inr None" by (intro rate_of_row_finite) simp
  with Cons show ?case by (auto split: sum.splits option.splits)
qed simp

theorem finite_import_defined:
  assumes "\<forall>r \<in> set rows. finite_cells r"
  shows "import_rate_rows cats master ids now rows dry_run by repo \<noteq> None"
proof -
  obtain errs valid where c: "check_rows cats master 1 rows = (errs, valid)" by fastforce
  show ?thesis
  proof (cases "errs = []")
    case True
    then have "valid = rows" using c check_rows_clean by blast
    then show ?thesis
      using save_rows_finite [OF assms] by (auto simp: import_rate_rows_def c True)
  qed (simp add: import_rate_rows_def c)
qed

text \<open>
  C28: An import of rows with finite numbers that returns without errors stores one rate per row, under different
  identities, with the lane, the dates and the non-negative amount of the row; every other rate stays as it was. The rates
  are stored ACTIVE, so that each is found on its lane on every day of its validity at once: the plan has an imported rate
  start as DRAFT and wait for approval, which the code does not do.
\<close>

theorem import_stores_every_row:
  assumes "import_rate_rows cats master ids now rows False by repo = Some (Inr rep, repo')" and "rir_row_errors rep = []"
    and "distinct (map (\<lambda>k. fst (snd (ids k))) [0..<length rows])" and "k < length rows"
  shows "length (rir_created_rate_ids rep) = length rows \<and> distinct (rir_created_rate_ids rep) \<and> rir_success_count rep = int (length rows)
    \<and> (\<exists>x. get_rate_by_id repo' (rir_created_rate_ids rep ! k) = Some x \<and> rate_rate_number x = rate_number_for (int (length rows)) (rows ! k)
      \<and> rate_origin_location_id x = cell_of (rows ! k) ''origin_code'' \<and> rate_destination_location_id x = cell_of (rows ! k) ''dest_code''
      \<and> parse_row_date (cell_of (rows ! k) ''effective_date'') = Some (rate_effective_date x)
      \<and> parse_row_date (cell_of (rows ! k) ''expiry_date'') = Some (rate_expiry_date x) \<and> rate_effective_date x \<le> rate_expiry_date x
      \<and> rate_status x = rate_status.ACTIVE
      \<and> (\<exists>v l. rate_versions x = [v] \<and> rv_lines v = [l] \<and> py_float (cell_of (rows ! k) ''amount'') = Some (Finite (rl_amount l)) \<and> 0 \<le> rl_amount l)
      \<and> (\<forall>t. t \<in> {rate_effective_date x..rate_expiry_date x} \<longrightarrow>
          x \<in> set (find_rates repo' (cell_of (rows ! k) ''origin_code'') (cell_of (rows ! k) ''dest_code'') t None None)))
    \<and> (\<forall>i. i \<notin> set (rir_created_rate_ids rep) \<longrightarrow> get_rate_by_id repo' i = get_rate_by_id repo i)"
proof -
  obtain errs valid where c: "check_rows cats master 1 rows = (errs, valid)" by fastforce
  have e: "errs = []" using assms(1,2) by (auto simp: import_rate_rows_def c Let_def res_simps split: if_splits)
  from check_rows_clean [OF c [unfolded e]] have v: "valid = rows" "\<forall>r \<in> set rows. row_ok master r" by auto
  obtain cs where s: "save_rows ids now (int (length rows)) by 0 rows [] repo = Some (Inr cs, repo')" and rep: "rir_created_rate_ids rep = cs"
    "rir_success_count rep = int (length rows)"
    using assms(1) by (auto simp: import_rate_rows_def c e v(1) Let_def res_simps)
  from save_rows_all [OF s] obtain xs where xs: "length xs = length rows"
    "\<forall>k < length rows. rate_of_row (ids k) now (int (length rows)) by (rows ! k) = Inr (Some (xs ! k))" "cs = map rate_id xs" "repo' = fold save_rate xs repo" by auto
  have fld: "rate_id (xs ! j) = fst (snd (ids j))" if "j < length rows" for j
    using rate_of_row_fields [of "fst (ids j)" "fst (snd (ids j))" "snd (snd (ids j))" now "int (length rows)" "by" "rows ! j" "xs ! j"] xs(2) that by simp
  have "map rate_id xs = map (\<lambda>k. fst (snd (ids k))) [0..<length rows]" by (rule nth_equalityI) (simp_all add: xs(1) fld)
  then have d: "distinct (map rate_id xs)" using assms(3) by simp
  let ?x = "xs ! k"
  have mem: "?x \<in> set xs" using assms(4) xs(1) by simp
  note got = save_all [OF d mem, of repo]
  have f: "rate_of_row (fst (ids k), fst (snd (ids k)), snd (snd (ids k))) now (int (length rows)) by (rows ! k) = Inr (Some ?x)" using xs(2) assms(4) by simp
  note fields = rate_of_row_fields [OF f]
  have ok: "row_ok master (rows ! k)" using v(2) assms(4) by simp
  have dates: "rate_effective_date ?x \<le> rate_expiry_date ?x" using ok fields by (auto simp: row_ok_def)
  obtain ver l where vl: "rate_versions ?x = [ver]" "rv_lines ver = [l]" "py_float (cell_of (rows ! k) ''amount'') = Some (Finite (rl_amount l))" using fields by blast
  have "0 \<le> rl_amount l" using ok vl(3) by (auto simp: row_ok_def)
  moreover have "?x \<in> set (list_all_rates repo')" using got unfolding xs(4) list_all_rates_def by (force dest: map_of_SomeD)
  ultimately show ?thesis using got fields dates vl assms(4)
    by (auto simp: rep xs get_rate_by_id_def save_others find_rates_mem d)
qed

text \<open>Errors are counted, not rows: a table of one empty row has a success count of minus six.\<close>

theorem success_count_negative:
  "\<exists>rep. import_rate_rows cats master ids now [[]] dry_run by repo = Some (Inr rep, repo) \<and> rir_total_rows rep = 1 \<and> rir_error_count rep = 7
    \<and> rir_success_count rep = - 6"
  by (simp add: import_rate_rows_def validate_row_def mandatory_fields_def cell_of_def dget_or_def py_strip_def Let_def)

definition sample_csv_row :: "string \<Rightarrow> csv_row" where
  "sample_csv_row w = [(''carrier_code'', ''C''), (''origin_code'', ''O''), (''dest_code'', ''D''), (''effective_date'', ''2025-01-01''),
     (''expiry_date'', ''2025-12-31''), (''amount'', ''100.5''), (''rate_category'', ''fak''), (''weight_break_from'', w)]"

definition row_ids :: "nat \<Rightarrow> string \<times> string \<times> string" where "row_ids n = (''line'', int_str (int n), ''version'')"

text \<open>The weight breaks are not validated and the rows are saved one by one: a bad one raises with the rows before it stored.\<close>

theorem import_not_atomic:
  "case import_rate_rows [] None row_ids 0 [sample_csv_row ''45'', sample_csv_row ''x''] False ''U'' [] of None \<Rightarrow> False | Some (res, repo') \<Rightarrow>
    (\<exists>m. res = Inl (ValueError m)) \<and> dkeys repo' = [''0'']"
proof -
  have "case import_rate_rows [] None row_ids 0 [sample_csv_row ''45'', sample_csv_row ''x''] False ''U'' [] of None \<Rightarrow> False | Some (res, repo') \<Rightarrow>
    (case res of Inl (ValueError m) \<Rightarrow> True | _ \<Rightarrow> False) \<and> dkeys repo' = [''0'']" by code_simp
  then show ?thesis by (auto split: option.splits prod.splits sum.splits py_error.splits)
qed

text \<open>Underscores are dropped, and the names of NaN and the infinities are numbers, of which only negative infinity is refused.\<close>

theorem not_a_number_accepted:
  "validate_row [] None 1 ((sample_csv_row [])[5 := (''amount'', ''nan'')]) = []
    \<and> validate_row [] None 1 ((sample_csv_row [])[5 := (''amount'', '' Infinity'')]) = []
    \<and> validate_row [] None 1 ((sample_csv_row [])[5 := (''amount'', ''-inf'')]) \<noteq> []
    \<and> py_float ''1_000.5'' = Some (Finite (2001 / 2)) \<and> py_float ''1__0'' = None
    \<and> import_rate_rows [] None row_ids 0 [(sample_csv_row [])[5 := (''amount'', ''nan'')]] False ''U'' [] = None"
  by code_simp

theorem import_stores_every_row_witness:
  "\<exists>rep repo' x. import_rate_rows [] None row_ids 0 [sample_csv_row ''45'', sample_csv_row []] False ''U'' [] = Some (Inr rep, repo')
    \<and> get_rate_by_id repo' (rir_created_rate_ids rep ! 1) = Some x \<and> rate_rate_number x = ''RT-C-OD-0002''
    \<and> x \<in> set (find_rates repo' ''O'' ''D'' (ymd_ord 2025 6 1) None None)"
proof -
  let ?rows = "[sample_csv_row ''45'', sample_csv_row []]"
  have run: "case import_rate_rows [] None row_ids 0 ?rows False ''U'' [] of None \<Rightarrow> False | Some (res, repo') \<Rightarrow>
    (case res of Inl e \<Rightarrow> False | Inr rep \<Rightarrow> rir_row_errors rep = [])" by code_simp
  obtain rep repo' where r: "import_rate_rows [] None row_ids 0 ?rows False ''U'' [] = Some (Inr rep, repo')" "rir_row_errors rep = []"
    using run by (auto split: option.splits prod.splits sum.splits)
  have "distinct (map (\<lambda>k. fst (snd (row_ids k))) [0..<length ?rows])
    \<and> parse_row_date (cell_of (?rows ! 1) ''effective_date'') = Some (ymd_ord 2025 1 1)
    \<and> parse_row_date (cell_of (?rows ! 1) ''expiry_date'') = Some (ymd_ord 2025 12 31)
    \<and> ymd_ord 2025 6 1 \<in> {ymd_ord 2025 1 1..ymd_ord 2025 12 31}
    \<and> rate_number_for (int (length ?rows)) (?rows ! 1) = ''RT-C-OD-0002''
    \<and> cell_of (?rows ! 1) ''origin_code'' = ''O''
    \<and> cell_of (?rows ! 1) ''dest_code'' = ''D''" by code_simp
  then have d: "distinct (map (\<lambda>k. fst (snd (row_ids k))) [0..<length ?rows])"
    and days: "parse_row_date (cell_of (?rows ! 1) ''effective_date'') = Some (ymd_ord 2025 1 1)" "parse_row_date (cell_of (?rows ! 1) ''expiry_date'') = Some (ymd_ord 2025 12 31)"
    and mid: "ymd_ord 2025 6 1 \<in> {ymd_ord 2025 1 1..ymd_ord 2025 12 31}"
    and num: "rate_number_for (int (length ?rows)) (?rows ! 1) = ''RT-C-OD-0002''" "cell_of (?rows ! 1) ''origin_code'' = ''O''" "cell_of (?rows ! 1) ''dest_code'' = ''D''" by blast+
  have "1 < length ?rows" by simp
  from import_stores_every_row [OF r d this] obtain x where
    "get_rate_by_id repo' (rir_created_rate_ids rep ! 1) = Some x" "rate_rate_number x = ''RT-C-OD-0002''"
    "rate_effective_date x = ymd_ord 2025 1 1" "rate_expiry_date x = ymd_ord 2025 12 31"
    "\<forall>t. t \<in> {rate_effective_date x..rate_expiry_date x} \<longrightarrow> x \<in> set (find_rates repo' ''O'' ''D'' t None None)"
    unfolding days num by auto
  with r(1) mid show ?thesis by metis
qed

text \<open>Rows of one lane and carrier without a number of their own get the same number: the counter is that of the last row.\<close>

theorem default_numbers_collide:
  assumes "dget r ''rate_number'' = None" and "dget r' ''rate_number'' = None"
    and "\<forall>f \<in> {''carrier_code'', ''origin_code'', ''dest_code''}. cell_of r f = cell_of r' f"
  shows "rate_number_for idx r = rate_number_for idx r'"
  using assms by (simp add: rate_number_for_def dget_or_def)

theorem default_numbers_collide_witness:
  "rate_number_for 2 (sample_csv_row ''45'') = rate_number_for 2 (sample_csv_row [])"
  by (rule default_numbers_collide) (simp_all add: sample_csv_row_def cell_of_def dget_or_def)

end
