(* ===== verification/Air_Cargo.thy ===== *)
theory Air_Cargo
  imports Audit_Trail Transactions Py_Float Py_Date
begin

text \<open>
  Air waybills, unit load devices and the acceptance of cargo: \<open>awb_service.py\<close>, \<open>uld_service.py\<close> and \<open>cargo_acceptance.py\<close> of
  \<open>backend/app/services\<close>, with the repositories the first two hold in memory.
\<close>


section \<open>Air waybills\<close>

text \<open>An entry of the history, of an amendment or a cancellation; the columns the service does not read are in \<open>awb_details\<close>.\<close>

record awb_event =
  awe_version :: int
  awe_timestamp :: datetime
  awe_reason :: string
  awe_requested_by :: string
  awe_reference :: "string option"
  awe_is_cancellation :: bool

record awb =
  awb_id :: string
  awb_tenant_id :: string
  awb_kind :: string
  awb_parent_mawb_id :: "string option"
  awb_airline_prefix :: string
  awb_serial_number :: string
  awb_full_number :: string
  awb_status :: string
  awb_version :: int
  awb_issuing_user :: string
  awb_history :: "awb_event list"
  awb_details :: "(string, json) dict"

record awb_create =
  awq_kind :: string
  awq_parent_mawb_id :: "string option"
  awq_airline_prefix :: string
  awq_serial_number :: "string option"
  awq_details :: "(string, json) dict"

record awb_repo =
  awr_awbs :: "(string, awb) dict"
  awr_sequences :: "(string, int) dict"

definition next_serial :: "awb_repo \<Rightarrow> string \<Rightarrow> int" where "next_serial repo pre = dget_or (awr_sequences repo) pre 1000000"

definition get_next_sequence :: "string \<Rightarrow> awb_repo \<Rightarrow> string \<times> awb_repo" where
  "get_next_sequence pre repo =
    (let current = next_serial repo pre; check_digit = current mod 7
     in (int_str current @ int_str check_digit, repo\<lparr>awr_sequences := dset pre (current + 1) (awr_sequences repo)\<rparr>))"

definition get_by_mawb :: "awb_repo \<Rightarrow> string \<Rightarrow> awb list" where
  "get_by_mawb repo mawb_id = filter (\<lambda>a. awb_parent_mawb_id a = Some mawb_id \<and> awb_status a \<noteq> ''CANCELLED'') (dvalues (awr_awbs repo))"

definition save_awb :: "awb \<Rightarrow> awb_repo \<Rightarrow> awb_repo" where
  "save_awb a repo = repo\<lparr>awr_awbs := dset (awb_id a) a (awr_awbs repo)\<rparr>"

definition check_hierarchy :: "string \<Rightarrow> awb_create \<Rightarrow> awb_repo \<Rightarrow> unit res" where
  "check_hierarchy tenant_id q repo =
    (if awq_kind q = ''HAWB''
     then (case awq_parent_mawb_id q of
             None \<Rightarrow> Inl (ValidationError ''HAWB requires a parent MAWB ID'')
           | Some pid \<Rightarrow> (case dget (awr_awbs repo) pid of
               None \<Rightarrow> Inl (NotFoundError ''Parent MAWB not found'')
             | Some parent \<Rightarrow>
                 if awb_tenant_id parent \<noteq> tenant_id then Inl (ConflictError ''Parent MAWB belongs to a different tenant'')
                 else if awb_kind parent \<noteq> ''MAWB'' then Inl (ValidationError ''Parent must be a MAWB'')
                 else Inr ()))
     else Inr ())"

definition create_awb :: "string \<Rightarrow> string \<Rightarrow> string \<Rightarrow> awb_create \<Rightarrow> awb_repo \<Rightarrow> awb res \<times> awb_repo" where
  "create_awb aid tenant_id actor_id q repo = (case check_hierarchy tenant_id q repo of
     Inl e \<Rightarrow> (Inl e, repo)
   | Inr _ \<Rightarrow>
      (case (if truthy (awq_serial_number q) then (the (awq_serial_number q), repo) else get_next_sequence (awq_airline_prefix q) repo) of (serial, repo) \<Rightarrow>
        (let a = \<lparr>awb_id = aid, awb_tenant_id = tenant_id, awb_kind = awq_kind q, awb_parent_mawb_id = awq_parent_mawb_id q,
               awb_airline_prefix = awq_airline_prefix q, awb_serial_number = serial, awb_full_number = awq_airline_prefix q @ ''-'' @ serial,
               awb_status = ''DRAFT'', awb_version = 1, awb_issuing_user = actor_id, awb_history = [], awb_details = awq_details q\<rparr>
         in (Inr a, save_awb a repo))))"

text \<open>A field an amendment sets, with a value of its type. The identity and the history are not amended in the model.\<close>

datatype awb_field = Set_Status string | Set_Tenant string | Set_Kind string | Set_Parent "string option" | Set_Version int | Set_Number string
  | Set_Detail string json

fun set_field :: "awb_field \<Rightarrow> awb \<Rightarrow> awb" where
  "set_field (Set_Status s) a = a\<lparr>awb_status := s\<rparr>"
| "set_field (Set_Tenant t) a = a\<lparr>awb_tenant_id := t\<rparr>"
| "set_field (Set_Kind k) a = a\<lparr>awb_kind := k\<rparr>"
| "set_field (Set_Parent p) a = a\<lparr>awb_parent_mawb_id := p\<rparr>"
| "set_field (Set_Version n) a = a\<lparr>awb_version := n\<rparr>"
| "set_field (Set_Number s) a = a\<lparr>awb_full_number := s\<rparr>"
| "set_field (Set_Detail k v) a = a\<lparr>awb_details := dset k v (awb_details a)\<rparr>"

record awb_amendment =
  awa_reason :: string
  awa_fields_changed :: "awb_field list"
  awa_carrier_confirmation_ref :: "string option"

definition amend_awb :: "datetime \<Rightarrow> string \<Rightarrow> string \<Rightarrow> string \<Rightarrow> awb_amendment \<Rightarrow> awb_repo \<Rightarrow> awb res \<times> awb_repo" where
  "amend_awb now aid tenant_id actor_id q repo = (case dget (awr_awbs repo) aid of
     None \<Rightarrow> (Inl (NotFoundError ''AWB not found''), repo)
   | Some a \<Rightarrow>
      if awb_tenant_id a \<noteq> tenant_id then (Inl (NotFoundError ''AWB not found''), repo)
      else if awb_status a = ''CANCELLED'' then (Inl (ValidationError ''Cannot amend a cancelled AWB''), repo)
      else
       (let entry = \<lparr>awe_version = awb_version a, awe_timestamp = now, awe_reason = awa_reason q, awe_requested_by = actor_id,
              awe_reference = awa_carrier_confirmation_ref q, awe_is_cancellation = False\<rparr>;
            a = a\<lparr>awb_history := awb_history a @ [entry], awb_version := awb_version a + 1\<rparr>;
            a = fold set_field (awa_fields_changed q) a
        in (Inr a, save_awb a repo)))"

definition cancel_awb :: "datetime \<Rightarrow> string \<Rightarrow> string \<Rightarrow> string \<Rightarrow> string \<Rightarrow> string option \<Rightarrow> awb_repo \<Rightarrow> awb res \<times> awb_repo" where
  "cancel_awb now aid tenant_id actor_id reason replacement repo = (case dget (awr_awbs repo) aid of
     None \<Rightarrow> (Inl (NotFoundError ''AWB not found''), repo)
   | Some a \<Rightarrow>
      if awb_tenant_id a \<noteq> tenant_id then (Inl (NotFoundError ''AWB not found''), repo)
      else if awb_kind a = ''MAWB'' \<and> get_by_mawb repo aid \<noteq> [] then (Inl (ConflictError ''Cannot cancel MAWB with active HAWB children''), repo)
      else
       (let entry = \<lparr>awe_version = awb_version a, awe_timestamp = now, awe_reason = reason, awe_requested_by = actor_id,
              awe_reference = replacement, awe_is_cancellation = True\<rparr>;
            a = a\<lparr>awb_status := ''CANCELLED'', awb_history := awb_history a @ [entry]\<rparr>
        in (Inr a, save_awb a repo)))"

definition generate_label :: "string \<Rightarrow> string \<Rightarrow> awb_repo \<Rightarrow> string res" where
  "generate_label aid tenant_id repo = (case dget (awr_awbs repo) aid of
     None \<Rightarrow> Inl (NotFoundError ''AWB not found'')
   | Some a \<Rightarrow>
      if awb_tenant_id a \<noteq> tenant_id then Inl (NotFoundError ''AWB not found'')
      else if awb_status a = ''DRAFT'' then Inl (ValidationError ''Cannot generate label for DRAFT AWB'')
      else Inr (''%PDF-1.4'' @ [CHR 0x0A] @ ''%Stub IATA Barcode Label PDF'' @ [CHR 0x0A]))"

section \<open>Unit load devices\<close>

record uld_allocation =
  ula_awb_id :: string
  ula_pieces :: int
  ula_weight :: flt

record uld_create =
  ulq_uld_number :: string
  ulq_uld_type :: string
  ulq_flight_id :: string
  ulq_max_weight :: flt
  ulq_max_volume :: flt

record uld =
  uld_id :: string
  uld_tenant_id :: string
  uld_request :: uld_create
  uld_build_status :: string
  uld_allocations :: "uld_allocation list"
  uld_total_pieces :: int
  uld_total_weight :: flt

type_synonym uld_repo = "(string, uld) dict"

definition create_uld :: "string \<Rightarrow> string \<Rightarrow> uld_create \<Rightarrow> uld_repo \<Rightarrow> uld res \<times> uld_repo" where
  "create_uld uid tenant_id q ulds =
    (let u = \<lparr>uld_id = uid, uld_tenant_id = tenant_id, uld_request = q, uld_build_status = ''OPEN'', uld_allocations = [], uld_total_pieces = 0,
              uld_total_weight = 0\<rparr>
     in (Inr u, dset uid u ulds))"

definition assign_awb_to_uld :: "string \<Rightarrow> string \<Rightarrow> uld_allocation \<Rightarrow> uld_repo \<Rightarrow> uld res \<times> uld_repo" where
  "assign_awb_to_uld tenant_id uid x ulds = (case dget ulds uid of
     None \<Rightarrow> (Inl (NotFoundError ''ULD not found''), ulds)
   | Some u \<Rightarrow>
      if uld_tenant_id u \<noteq> tenant_id then (Inl (NotFoundError ''ULD not found''), ulds)
      else if uld_build_status u \<noteq> ''OPEN'' then (Inl (ValidationError ''Cannot assign AWB to finalized ULD''), ulds)
      else if ulq_max_weight (uld_request u) < fadd (uld_total_weight u) (ula_weight x)
      then (Inl (ValidationError ''ULD weight capacity exceeded''), ulds)
      else
       (let u = u\<lparr>uld_allocations := uld_allocations u @ [x], uld_total_pieces := uld_total_pieces u + ula_pieces x,
                  uld_total_weight := fadd (uld_total_weight u) (ula_weight x)\<rparr>
        in (Inr u, dset uid u ulds)))"

definition finalize_uld :: "string \<Rightarrow> string \<Rightarrow> uld_repo \<Rightarrow> uld res \<times> uld_repo" where
  "finalize_uld tenant_id uid ulds = (case dget ulds uid of
     None \<Rightarrow> (Inl (NotFoundError ''ULD not found''), ulds)
   | Some u \<Rightarrow>
      if uld_tenant_id u \<noteq> tenant_id then (Inl (NotFoundError ''ULD not found''), ulds)
      else (let u = u\<lparr>uld_build_status := ''FINALIZED''\<rparr> in (Inr u, dset uid u ulds)))"

record flight_manifest =
  fmf_flight_id :: string
  fmf_ulds :: "uld list"
  fmf_total_awbs :: nat
  fmf_total_pieces :: int
  fmf_total_weight :: flt

definition generate_flight_manifest :: "string \<Rightarrow> string \<Rightarrow> uld_repo \<Rightarrow> flight_manifest" where
  "generate_flight_manifest tenant_id flight_id ulds =
    (let tenant_ulds = filter (\<lambda>u. uld_tenant_id u = tenant_id) (filter (\<lambda>u. ulq_flight_id (uld_request u) = flight_id) (dvalues ulds))
     in case fold (\<lambda>x (awbs, pieces, weight). (insert (ula_awb_id x) awbs, pieces + ula_pieces x, fadd weight (ula_weight x)))
            (concat (map uld_allocations tenant_ulds)) ({}, 0, 0) of (awb_set, total_pieces, total_weight) \<Rightarrow>
          \<lparr>fmf_flight_id = flight_id, fmf_ulds = tenant_ulds, fmf_total_awbs = card awb_set, fmf_total_pieces = total_pieces,
           fmf_total_weight = total_weight\<rparr>)"

section \<open>Acceptance of cargo\<close>

record cargo_acceptance =
  cgq_warehouse :: string
  cgq_booked_pieces :: int
  cgq_pieces_received :: int
  cgq_pieces_accepted :: int
  cgq_condition :: string
  cgq_damage_notes :: "string option"

record cargo_exception =
  cge_id :: string
  cge_shipment_id :: string
  cge_exception_type :: string
  cge_severity :: string
  cge_details :: "(string, json) dict"
  cge_created_at :: datetime

definition process_acceptance :: "string \<Rightarrow> datetime \<Rightarrow> string \<Rightarrow> cargo_acceptance \<Rightarrow> cargo_exception option res" where
  "process_acceptance eid now shipment_id q =
    (if cgq_pieces_received q < cgq_pieces_accepted q then Inl (ValidationError ''Accepted pieces cannot exceed received pieces'')
     else if cgq_condition q \<in> {''DAMAGED'', ''SHORT''} \<and> \<not> truthy (cgq_damage_notes q)
     then Inl (ValidationError ''Damage notes are required for DAMAGED or SHORT condition'')
     else
      (let is_short = (cgq_pieces_received q < cgq_booked_pieces q \<or> cgq_pieces_accepted q < cgq_pieces_received q)
       in Inr (if is_short \<or> cgq_condition q = ''SHORT''
               then Some \<lparr>cge_id = eid, cge_shipment_id = shipment_id, cge_exception_type = ''SHORT_SHIPMENT'', cge_severity = ''HIGH'',
                 cge_details = [(''booked_pieces'', JInt (cgq_booked_pieces q)), (''received_pieces'', JInt (cgq_pieces_received q)),
                   (''difference'', JInt (cgq_booked_pieces q - cgq_pieces_received q)), (''warehouse'', JStr (cgq_warehouse q))],
                 cge_created_at = now\<rparr>
               else None)))"

section \<open>What requests do to waybills\<close>

datatype awb_op =
    Create_Awb string string string awb_create
  | Amend_Awb datetime string string string awb_amendment
  | Cancel_Awb datetime string string string string "string option"

fun awb_service :: "awb_op \<Rightarrow> awb_repo \<Rightarrow> awb res \<times> awb_repo" where
  "awb_service (Create_Awb aid t u q) repo = create_awb aid t u q repo"
| "awb_service (Amend_Awb now aid t u q) repo = amend_awb now aid t u q repo"
| "awb_service (Cancel_Awb now aid t u m r) repo = cancel_awb now aid t u m r repo"

fun is_detail :: "awb_field \<Rightarrow> bool" where
  "is_detail (Set_Detail k v) = True"
| "is_detail _ = False"

text \<open>Identities are new, prefixes have three letters, and amendments change what the service does not read.\<close>

fun awb_ok :: "awb_op \<Rightarrow> awb_repo \<Rightarrow> bool" where
  "awb_ok (Create_Awb aid t u q) repo = (dget (awr_awbs repo) aid = None \<and> length (awq_airline_prefix q) = 3)"
| "awb_ok (Amend_Awb now aid t u q) repo = list_all is_detail (awa_fields_changed q)"
| "awb_ok (Cancel_Awb now aid t u m r) repo = True"

text \<open>What amendments of details and cancellations leave alone.\<close>

definition awb_core :: "awb \<Rightarrow> string \<times> string \<times> string \<times> string option \<times> string \<times> string" where
  "awb_core a = (awb_id a, awb_tenant_id a, awb_kind a, awb_parent_mawb_id a, awb_airline_prefix a, awb_full_number a)"

lemma set_details: "list_all is_detail fs \<Longrightarrow> awb_core (fold set_field fs a) = awb_core a \<and> awb_status (fold set_field fs a) = awb_status a
    \<and> awb_version (fold set_field fs a) = awb_version a \<and> awb_history (fold set_field fs a) = awb_history a"
proof (induction fs arbitrary: a)
  case (Cons f fs)
  then show ?case by (cases f) (auto simp: awb_core_def)
qed simp

definition amendments :: "awb \<Rightarrow> nat" where "amendments a = length (filter (\<lambda>e. \<not> awe_is_cancellation e) (awb_history a))"

lemma created_awb:
  assumes "create_awb aid t u q repo = (Inr a, repo')"
  shows "check_hierarchy t q repo = Inr () \<and> awb_id a = aid \<and> awb_tenant_id a = t \<and> awb_kind a = awq_kind q \<and> awb_parent_mawb_id a = awq_parent_mawb_id q
    \<and> awb_airline_prefix a = awq_airline_prefix q \<and> awb_status a = ''DRAFT'' \<and> awb_version a = 1 \<and> awb_history a = []
    \<and> awr_awbs repo' = dset aid a (awr_awbs repo)
    \<and> (\<not> truthy (awq_serial_number q) \<longrightarrow> (let c = next_serial repo (awq_airline_prefix q) in
        awb_full_number a = awq_airline_prefix q @ ''-'' @ int_str c @ int_str (c mod 7)
        \<and> awr_sequences repo' = dset (awq_airline_prefix q) (c + 1) (awr_sequences repo)))"
  using assms by (auto simp: create_awb_def get_next_sequence_def save_awb_def Let_def split: sum.splits prod.splits if_splits)

lemma changed_awb:
  assumes "awb_service op repo = (Inr a, repo')" and "awb_ok op repo" and "\<And>aid t u q. op \<noteq> Create_Awb aid t u q"
  obtains k a0 where "dget (awr_awbs repo) k = Some a0" "awb_core a = awb_core a0" "repo' = save_awb a repo"
    "awb_status a = awb_status a0 \<or> awb_status a = ''CANCELLED''"
    "awb_version a - int (amendments a) = awb_version a0 - int (amendments a0)"
    "awb_status a0 = ''CANCELLED'' \<Longrightarrow> awb_status a = ''CANCELLED''"
proof (cases op)
  case (Amend_Awb now aid t u q)
  then show thesis
    using assms(1,2) set_details by (intro that [of aid "the (dget (awr_awbs repo) aid)"])
      (auto simp: amend_awb_def Let_def awb_core_def amendments_def split: option.splits if_splits)
next
  case (Cancel_Awb now aid t u m r)
  then show thesis
    using assms(1) by (intro that [of aid "the (dget (awr_awbs repo) aid)"])
      (auto simp: cancel_awb_def Let_def awb_core_def amendments_def split: option.splits if_splits)
qed (use assms(3) in blast)

lemma check_hierarchy_ok: "check_hierarchy t q repo = Inr () \<longleftrightarrow> (awq_kind q = ''HAWB'' \<longrightarrow> (\<exists>p parent. awq_parent_mawb_id q = Some p
    \<and> dget (awr_awbs repo) p = Some parent \<and> awb_tenant_id parent = t \<and> awb_kind parent = ''MAWB''))"
  by (auto simp: check_hierarchy_def split: option.splits)

definition awb_has_parent :: "awb_repo \<Rightarrow> awb \<Rightarrow> bool" where
  "awb_has_parent repo a \<longleftrightarrow> (\<exists>p parent. awb_parent_mawb_id a = Some p \<and> dget (awr_awbs repo) p = Some parent
    \<and> awb_tenant_id parent = awb_tenant_id a \<and> awb_kind parent = ''MAWB'')"

definition awb_inv :: "awb_repo \<Rightarrow> bool" where
  "awb_inv repo \<longleftrightarrow> (\<forall>k a. dget (awr_awbs repo) k = Some a \<longrightarrow> awb_id a = k \<and> (awb_kind a = ''HAWB'' \<longrightarrow> awb_has_parent repo a)
    \<and> awb_status a \<in> {''DRAFT'', ''CANCELLED''} \<and> awb_version a = 1 + int (amendments a))"

lemma has_parent_save:
  assumes "awb_has_parent repo a" and "dget (awr_awbs repo) k = None \<or> (\<exists>b0. dget (awr_awbs repo) k = Some b0 \<and> awb_core b = awb_core b0)"
    and "awr_awbs repo' = dset k b (awr_awbs repo)"
  shows "awb_has_parent repo' a"
  using assms by (fastforce simp: awb_has_parent_def dget_dset awb_core_def)

interpretation awbs: service_contract awb_service awb_ok awb_inv
proof
  fix repo op a repo' assume h: "awb_inv repo" "awb_ok op repo" "awb_service op repo = (Inr a, repo')"
  note inv = h(1) [unfolded awb_inv_def, rule_format]
  show "awb_inv repo'"
  proof (cases "\<exists>aid t u q. op = Create_Awb aid t u q")
    case True
    then obtain aid t u q where op: "op = Create_Awb aid t u q" by blast
    then have c: "create_awb aid t u q repo = (Inr a, repo')" and new: "dget (awr_awbs repo) aid = None" using h by auto
    note cr = created_awb [OF c]
    have par: "awb_has_parent repo b \<Longrightarrow> awb_has_parent repo' b" for b
      by (rule has_parent_save [of repo b aid a repo']) (use new cr in auto)
    have "awb_kind a = ''HAWB'' \<Longrightarrow> awb_has_parent repo a" using cr check_hierarchy_ok [of t q repo] by (auto simp: awb_has_parent_def)
    moreover have "awb_version a = 1 + int (amendments a)" using cr by (simp add: amendments_def)
    ultimately show ?thesis using cr par inv unfolding awb_inv_def by (auto simp: dget_dset)
  next
    case False
    then obtain k a0 where e: "dget (awr_awbs repo) k = Some a0" "awb_core a = awb_core a0" "repo' = save_awb a repo"
      "awb_status a = awb_status a0 \<or> awb_status a = ''CANCELLED''" "awb_version a - int (amendments a) = awb_version a0 - int (amendments a0)"
      using changed_awb [OF h(3,2)] by metis
    note i0 = inv [OF e(1)]
    have id: "awb_id a = k" using i0 e(2) by (simp add: awb_core_def)
    then have r: "awr_awbs repo' = dset k a (awr_awbs repo)" by (simp add: e(3) save_awb_def)
    have par: "awb_has_parent repo b \<Longrightarrow> awb_has_parent repo' b" for b
      by (rule has_parent_save [of repo b k a repo']) (use e r in auto)
    have "awb_kind a = ''HAWB'' \<Longrightarrow> awb_has_parent repo a" using i0 e(2) by (simp add: awb_core_def awb_has_parent_def)
    moreover have "awb_status a \<in> {''DRAFT'', ''CANCELLED''}" using i0 e(4) by auto
    moreover have "awb_version a = 1 + int (amendments a)" using i0 e(5) by simp
    ultimately show ?thesis using par inv id unfolding awb_inv_def r by (simp add: dget_dset)
  qed
qed

lemma awb_inv_start: "awb_inv \<lparr>awr_awbs = [], awr_sequences = []\<rparr>" by (simp add: awb_inv_def)

abbreviation no_awbs :: awb_repo where "no_awbs \<equiv> \<lparr>awr_awbs = [], awr_sequences = []\<rparr>"

text \<open>In every repository the requests reach, a house waybill names a stored master waybill of its tenant.\<close>

theorem house_waybills_have_master:
  assumes "reached awb_service awb_ok no_awbs repo" and "dget (awr_awbs repo) k = Some a" and "awb_kind a = ''HAWB''"
  shows "\<exists>p parent. awb_parent_mawb_id a = Some p \<and> dget (awr_awbs repo) p = Some parent \<and> awb_tenant_id parent = awb_tenant_id a \<and> awb_kind parent = ''MAWB''"
  using awbs.reached_inv [OF assms(1) awb_inv_start] assms(2,3) by (auto simp: awb_inv_def awb_has_parent_def)

text \<open>The version of a waybill counts its amendments.\<close>

theorem version_counts_amendments:
  assumes "reached awb_service awb_ok no_awbs repo" and "dget (awr_awbs repo) k = Some a"
  shows "awb_version a = 1 + int (length (filter (\<lambda>e. \<not> awe_is_cancellation e) (awb_history a)))"
  using awbs.reached_inv [OF assms(1) awb_inv_start] assms(2) by (auto simp: awb_inv_def amendments_def)

text \<open>No request issues a waybill: unless an amendment writes the status itself, a label is printed for cancelled waybills only.\<close>

theorem labels_of_cancelled_only:
  assumes "reached awb_service awb_ok no_awbs repo" and "generate_label k t repo = Inr text"
  shows "\<exists>a. dget (awr_awbs repo) k = Some a \<and> awb_status a = ''CANCELLED''"
  using awbs.reached_inv [OF assms(1) awb_inv_start] assms(2) by (fastforce simp: awb_inv_def generate_label_def split: option.splits if_splits)

section \<open>Numbers\<close>

fun awb_numbered :: "awb_op \<Rightarrow> awb_repo \<Rightarrow> bool" where
  "awb_numbered (Create_Awb aid t u q) repo = (awb_ok (Create_Awb aid t u q) repo \<and> \<not> truthy (awq_serial_number q))"
| "awb_numbered op repo = awb_ok op repo"

lemma awb_numbered_ok: "awb_numbered op repo \<Longrightarrow> awb_ok op repo" by (cases op) auto

definition awb_number :: "string \<Rightarrow> int \<Rightarrow> string" where "awb_number pre c = pre @ ''-'' @ int_str c @ int_str (c mod 7)"

lemma awb_number_inj:
  assumes "awb_number p c = awb_number p' c'" and "length p = 3" "length p' = 3" and "0 \<le> c" "0 \<le> c'"
  shows "p = p' \<and> c = c'"
proof -
  have one: "length (int_str (n mod 7)) = 1" for n :: int
  proof -
    have "0 \<le> n mod 7" "n mod 7 < 7" by simp_all
    then have "\<not> n mod 7 < 0" "n mod 7 < 10" by linarith+
    then show ?thesis by (simp add: int_str_def dec_digits.simps)
  qed
  have "p = p'" "int_str c @ int_str (c mod 7) = int_str c' @ int_str (c' mod 7)" using assms(1-3) by (simp_all add: awb_number_def)
  then have "int_str c = int_str c'" using one by (simp add: append_eq_append_conv)
  then show ?thesis using \<open>p = p'\<close> assms(4,5) by (simp add: int_str_def dec_digits_inj)
qed

definition numbers_inv :: "awb_repo \<Rightarrow> bool" where
  "numbers_inv repo \<longleftrightarrow> (\<forall>pre. 1000000 \<le> next_serial repo pre)
    \<and> (\<forall>k a. dget (awr_awbs repo) k = Some a \<longrightarrow> awb_id a = k \<and> length (awb_airline_prefix a) = 3
        \<and> (\<exists>c. 1000000 \<le> c \<and> c < next_serial repo (awb_airline_prefix a) \<and> awb_full_number a = awb_number (awb_airline_prefix a) c))
    \<and> (\<forall>k k' a a'. dget (awr_awbs repo) k = Some a \<longrightarrow> dget (awr_awbs repo) k' = Some a' \<longrightarrow> awb_full_number a = awb_full_number a' \<longrightarrow> k = k')"

interpretation awb_numbers: service_contract awb_service awb_numbered numbers_inv
proof
  fix repo op a repo' assume h: "numbers_inv repo" "awb_numbered op repo" "awb_service op repo = (Inr a, repo')"
  note base = h(1) [unfolded numbers_inv_def, THEN conjunct1, rule_format]
  note own = h(1) [unfolded numbers_inv_def, THEN conjunct2, THEN conjunct1, rule_format]
  note one = h(1) [unfolded numbers_inv_def, THEN conjunct2, THEN conjunct2, rule_format]
  show "numbers_inv repo'"
  proof (cases "\<exists>aid t u q. op = Create_Awb aid t u q")
    case True
    then obtain aid t u q where op: "op = Create_Awb aid t u q" by blast
    then have c: "create_awb aid t u q repo = (Inr a, repo')" and new: "dget (awr_awbs repo) aid = None"
      and len: "length (awq_airline_prefix q) = 3" "\<not> truthy (awq_serial_number q)" using h by auto
    let ?p = "awq_airline_prefix q" and ?c = "next_serial repo (awq_airline_prefix q)"
    have f: "awb_id a = aid" "awb_airline_prefix a = ?p" "awb_full_number a = awb_number ?p ?c" "awr_awbs repo' = dset aid a (awr_awbs repo)"
      "awr_sequences repo' = dset ?p (?c + 1) (awr_sequences repo)"
      using created_awb [OF c] len(2) by (auto simp: awb_number_def Let_def)
    have nx: "next_serial repo' r = (if r = ?p then ?c + 1 else next_serial repo r)" for r
      by (simp add: next_serial_def f(5) dget_or_def dget_dset)
    have fresh: "awb_full_number b \<noteq> awb_full_number a" if b: "dget (awr_awbs repo) k = Some b" for k b
    proof
      assume eq: "awb_full_number b = awb_full_number a"
      obtain d where d: "1000000 \<le> d" "d < next_serial repo (awb_airline_prefix b)" "awb_full_number b = awb_number (awb_airline_prefix b) d"
        using own [OF b] by blast
      have "awb_airline_prefix b = ?p \<and> d = ?c"
        by (rule awb_number_inj) (use d eq f(3) own [OF b] len base [of ?p] in auto)
      with d(2) show False by simp
    qed
    show ?thesis unfolding numbers_inv_def
    proof (intro conjI allI impI)
      fix k b assume b: "dget (awr_awbs repo') k = Some b"
      show "awb_id b = k" "length (awb_airline_prefix b) = 3" using b own [of k b] f len by (auto simp: dget_dset split: if_splits)
      show "\<exists>c. 1000000 \<le> c \<and> c < next_serial repo' (awb_airline_prefix b) \<and> awb_full_number b = awb_number (awb_airline_prefix b) c"
      proof (cases "k = aid")
        case True
        then have "b = a" using b f(4) by (simp add: dget_dset)
        then show ?thesis using f(2,3) base [of ?p] by (intro exI [of _ ?c]) (simp add: nx)
      next
        case False
        then have "dget (awr_awbs repo) k = Some b" using b f(4) by (simp add: dget_dset)
        from own [OF this] obtain d where "1000000 \<le> d" "d < next_serial repo (awb_airline_prefix b)" "awb_full_number b = awb_number (awb_airline_prefix b) d" by blast
        then show ?thesis by (intro exI [of _ d]) (auto simp: nx)
      qed
    next
      fix k k' b b' assume "dget (awr_awbs repo') k = Some b" "dget (awr_awbs repo') k' = Some b'" "awb_full_number b = awb_full_number b'"
      then show "k = k'" using one [of k b k' b'] fresh by (metis f(4) dget_dset option.inject)
    next
      fix r show "1000000 \<le> next_serial repo' r" using base [of r] base [of ?p] by (simp add: nx)
    qed
  next
    case False
    then obtain k a0 where e: "dget (awr_awbs repo) k = Some a0" "awb_core a = awb_core a0" "repo' = save_awb a repo"
      using changed_awb [OF h(3) awb_numbered_ok [OF h(2)]] by metis
    have f: "awb_id a = k" "awb_airline_prefix a = awb_airline_prefix a0" "awb_full_number a = awb_full_number a0"
      using own [OF e(1)] e(2) by (simp_all add: awb_core_def)
    have r: "awr_awbs repo' = dset k a (awr_awbs repo)" "awr_sequences repo' = awr_sequences repo" by (simp_all add: e(3) save_awb_def f(1))
    have nx: "next_serial repo' = next_serial repo" by (simp add: next_serial_def r(2) fun_eq_iff)
    have old: "\<exists>b0. dget (awr_awbs repo) j = Some b0 \<and> awb_id b = awb_id b0 \<and> awb_airline_prefix b = awb_airline_prefix b0 \<and> awb_full_number b = awb_full_number b0"
      if "dget (awr_awbs repo') j = Some b" for j b
      using that e(1) f own [OF e(1)] by (cases "j = k") (auto simp: r dget_dset)
    show ?thesis unfolding numbers_inv_def nx
    proof (intro conjI allI impI)
      fix j b assume "dget (awr_awbs repo') j = Some b"
      from old [OF this] own show "awb_id b = j" "length (awb_airline_prefix b) = 3"
        "\<exists>c. 1000000 \<le> c \<and> c < next_serial repo (awb_airline_prefix b) \<and> awb_full_number b = awb_number (awb_airline_prefix b) c" by metis+
    next
      fix j j' b b' assume "dget (awr_awbs repo') j = Some b" "dget (awr_awbs repo') j' = Some b'" "awb_full_number b = awb_full_number b'"
      then show "j = j'" using old one by metis
    qed (rule base)
  qed
qed

text \<open>The numbers the service draws are different for different waybills, whatever their airline.\<close>

theorem drawn_numbers_unique:
  assumes "reached awb_service awb_numbered no_awbs repo" and "dget (awr_awbs repo) k = Some a" and "dget (awr_awbs repo) k' = Some a'" and "k \<noteq> k'"
  shows "awb_full_number a \<noteq> awb_full_number a'"
proof -
  have "numbers_inv no_awbs" by (simp add: numbers_inv_def next_serial_def dget_or_def)
  from awb_numbers.reached_inv [OF assms(1) this] assms(2-4) show ?thesis by (auto simp: numbers_inv_def)
qed

text \<open>A master waybill is cancelled only when no house waybill is active under it, but then it can get new ones.\<close>

theorem cancellation_needs_no_children:
  assumes "cancel_awb now k t u m r repo = (Inr a, repo')" and "awb_kind a = ''MAWB''"
  shows "\<not> (\<exists>j b. (j, b) \<in> set (awr_awbs repo) \<and> awb_parent_mawb_id b = Some k \<and> awb_status b \<noteq> ''CANCELLED'')"
  using assms by (force simp: cancel_awb_def get_by_mawb_def filter_empty_conv Let_def split: option.splits if_splits)

theorem cancelled_master_takes_houses:
  assumes "dget (awr_awbs repo) p = Some parent" and "awb_kind parent = ''MAWB''" and "awb_status parent = ''CANCELLED''" and "j \<noteq> p"
    and "awq_kind q = ''HAWB''" and "awq_parent_mawb_id q = Some p"
  shows "\<exists>a repo'. create_awb j (awb_tenant_id parent) u q repo = (Inr a, repo') \<and> dget (awr_awbs repo') p = Some parent
    \<and> awb_parent_mawb_id a = Some p \<and> awb_status a = ''DRAFT''"
proof -
  have ok: "check_hierarchy (awb_tenant_id parent) q repo = Inr ()" using assms by (simp add: check_hierarchy_ok)
  obtain a repo' where c: "create_awb j (awb_tenant_id parent) u q repo = (Inr a, repo')"
    by (cases "if truthy (awq_serial_number q) then (the (awq_serial_number q), repo) else get_next_sequence (awq_airline_prefix q) repo")
      (auto simp: create_awb_def ok Let_def simp del: if_split)
  from created_awb [OF c] assms show ?thesis by (auto simp: c dget_dset)
qed

text \<open>An amendment of the status cancels a master waybill whatever house waybills are active under it.\<close>

theorem amendment_cancels_master:
  assumes "dget (awr_awbs repo) k = Some a" and "awb_status a = ''DRAFT''" and "awb_id a = k"
  shows "\<exists>a' repo'. amend_awb now k (awb_tenant_id a) u \<lparr>awa_reason = m, awa_fields_changed = [Set_Status ''CANCELLED''], awa_carrier_confirmation_ref = None\<rparr> repo
      = (Inr a', repo') \<and> awb_status a' = ''CANCELLED'' \<and> repo' = repo\<lparr>awr_awbs := dset k a' (awr_awbs repo)\<rparr>"
  using assms by (simp add: amend_awb_def save_awb_def Let_def)

section \<open>What requests do to unit load devices\<close>

datatype uld_op = Create_Uld string string uld_create | Assign_Awb string string uld_allocation | Finalize_Uld string string

fun uld_service :: "uld_op \<Rightarrow> uld_repo \<Rightarrow> uld res \<times> uld_repo" where
  "uld_service (Create_Uld i t q) ulds = create_uld i t q ulds"
| "uld_service (Assign_Awb t i x) ulds = assign_awb_to_uld t i x ulds"
| "uld_service (Finalize_Uld t i) ulds = finalize_uld t i ulds"

fun uld_op_ok :: "uld_op \<Rightarrow> uld_repo \<Rightarrow> bool" where
  "uld_op_ok (Create_Uld i t q) ulds = (dget ulds i = None)"
| "uld_op_ok op ulds = True"

definition uld_totals :: "uld \<Rightarrow> bool" where
  "uld_totals u \<longleftrightarrow> uld_total_pieces u = sum_list (map ula_pieces (uld_allocations u))
    \<and> uld_total_weight u = fold (\<lambda>x t. fadd t (ula_weight x)) (uld_allocations u) 0
    \<and> (uld_allocations u \<noteq> [] \<longrightarrow> uld_total_weight u \<le> ulq_max_weight (uld_request u))"

lemma uld_effect:
  assumes "uld_service op ulds = (Inr u, ulds')" and "uld_op_ok op ulds"
  obtains k where "ulds' = dset k u ulds" "dget ulds k = None \<and> uld_build_status u = ''OPEN'' \<and> uld_allocations u = [] \<and> uld_totals u
    \<or> (\<exists>v. dget ulds k = Some v \<and> (uld_totals v \<longrightarrow> uld_totals u) \<and> (uld_build_status v = ''FINALIZED'' \<longrightarrow> u = v))"
proof (cases op)
  case (Create_Uld i t q)
  then show thesis using assms by (intro that [of i]) (auto simp: create_uld_def Let_def uld_totals_def)
next
  case (Assign_Awb t i x)
  then show thesis using assms(1) by (intro that [of i]) (auto simp: assign_awb_to_uld_def Let_def uld_totals_def split: option.splits if_splits)
next
  case (Finalize_Uld t i)
  then show thesis using assms(1) by (intro that [of i]) (auto simp: finalize_uld_def Let_def uld_totals_def split: option.splits if_splits)
qed

interpretation ulds: service_contract uld_service uld_op_ok "\<lambda>ulds. distinct (dkeys ulds) \<and> (\<forall>k u. dget ulds k = Some u \<longrightarrow> uld_totals u)"
proof
  fix ulds op u ulds' assume h: "distinct (dkeys ulds) \<and> (\<forall>k u. dget ulds k = Some u \<longrightarrow> uld_totals u)" "uld_op_ok op ulds" "uld_service op ulds = (Inr u, ulds')"
  from uld_effect [OF h(3,2)] obtain k where k: "ulds' = dset k u ulds" "uld_totals u" using h(1) by metis
  then show "distinct (dkeys ulds') \<and> (\<forall>k u. dget ulds' k = Some u \<longrightarrow> uld_totals u)" using h(1) by (simp add: distinct_update dget_dset)
qed

text \<open>The totals of a device are those of what was assigned to it, and within its capacity.\<close>

theorem uld_within_capacity:
  assumes "reached uld_service uld_op_ok [] ulds" and "dget ulds k = Some u"
  shows "uld_total_pieces u = sum_list (map ula_pieces (uld_allocations u))
    \<and> uld_total_weight u = fold (\<lambda>x t. fadd t (ula_weight x)) (uld_allocations u) 0
    \<and> (uld_allocations u \<noteq> [] \<longrightarrow> uld_total_weight u \<le> ulq_max_weight (uld_request u))"
proof -
  have "distinct (dkeys ulds) \<and> (\<forall>k u. dget ulds k = Some u \<longrightarrow> uld_totals u)" by (rule ulds.reached_inv [OF assms(1)]) simp
  then have "uld_totals u" using assms(2) by blast
  then show ?thesis unfolding uld_totals_def .
qed

text \<open>A finalized device never changes again.\<close>

theorem finalized_ulds_stay:
  assumes "reached uld_service uld_op_ok ulds ulds'" and "dget ulds k = Some u" and "uld_build_status u = ''FINALIZED''"
  shows "dget ulds' k = Some u"
  using assms(1)
proof (induction rule: reached.induct)
  case (reached_request ulds' op)
  show ?case
  proof (cases "uld_service op ulds'")
    case (Pair r db)
    show ?thesis
    proof (cases r)
      case (Inr v)
      from uld_effect [OF Pair [unfolded Inr] reached_request(2)] obtain j where "db = dset j v ulds'"
        "dget ulds' j = None \<or> (\<exists>w. dget ulds' j = Some w \<and> (uld_build_status w = ''FINALIZED'' \<longrightarrow> v = w))" by metis
      then show ?thesis using reached_request(3) assms(3) by (auto simp: Pair Inr dget_dset)
    qed (use Pair reached_request(3) in simp)
  qed
qed (rule assms(2))

text \<open>A manifest lists the devices of the flight and the tenant; its pieces are those of the devices, and a waybill that is spread
  over several devices counts once.\<close>

theorem manifest_totals:
  assumes "reached uld_service uld_op_ok [] ulds" and "generate_flight_manifest t f ulds = m"
  shows "set (fmf_ulds m) = {u. u \<in> snd ` set ulds \<and> uld_tenant_id u = t \<and> ulq_flight_id (uld_request u) = f}
    \<and> fmf_total_pieces m = sum_list (map uld_total_pieces (fmf_ulds m))
    \<and> fmf_total_awbs m = card (ula_awb_id ` (\<Union>u \<in> set (fmf_ulds m). set (uld_allocations u)))"
proof -
  have i: "distinct (dkeys ulds) \<and> (\<forall>k u. dget ulds k = Some u \<longrightarrow> uld_totals u)" by (rule ulds.reached_inv [OF assms(1)]) simp
  then have inv: "distinct (dkeys ulds)" "\<And>k u. dget ulds k = Some u \<Longrightarrow> uld_totals u" by blast+
  let ?us = "filter (\<lambda>u. uld_tenant_id u = t) (filter (\<lambda>u. ulq_flight_id (uld_request u) = f) (dvalues ulds))"
  let ?xs = "concat (map uld_allocations ?us)"
  have loop: "fold (\<lambda>x (awbs, pieces, weight). (insert (ula_awb_id x) awbs, pieces + ula_pieces x, fadd weight (ula_weight x))) xs (S, n, w)
      = (S \<union> ula_awb_id ` set xs, n + sum_list (map ula_pieces xs), fold (\<lambda>x t. fadd t (ula_weight x)) xs w)" for xs S n w
    by (induction xs arbitrary: S n w) (simp_all add: add.assoc)
  have m: "fmf_ulds m = ?us" "fmf_total_awbs m = card (ula_awb_id ` set ?xs)" "fmf_total_pieces m = sum_list (map ula_pieces ?xs)"
    unfolding assms(2) [symmetric] generate_flight_manifest_def Let_def loop by simp_all
  have tot: "uld_totals u" if "u \<in> set ?us" for u using that inv by (force simp: map_of_is_SomeI)
  have "sum_list (map ula_pieces (concat (map uld_allocations us))) = sum_list (map (\<lambda>u. sum_list (map ula_pieces (uld_allocations u))) us)" for us :: "uld list"
    by (induction us) simp_all
  moreover have "map (\<lambda>u. sum_list (map ula_pieces (uld_allocations u))) ?us = map uld_total_pieces ?us"
    by (rule map_cong [OF refl]) (use tot in \<open>simp only: uld_totals_def\<close>)
  ultimately have "sum_list (map ula_pieces ?xs) = sum_list (map uld_total_pieces ?us)" by (simp only:)
  then show ?thesis unfolding m by auto
qed

text \<open>An acceptance raises an exception exactly when pieces are missing or refused or the cargo is declared short; damage alone raises none.\<close>

theorem acceptance_exact:
  "process_acceptance eid now s q = (if cgq_pieces_received q < cgq_pieces_accepted q then Inl (ValidationError ''Accepted pieces cannot exceed received pieces'')
    else if cgq_condition q \<in> {''DAMAGED'', ''SHORT''} \<and> \<not> truthy (cgq_damage_notes q)
    then Inl (ValidationError ''Damage notes are required for DAMAGED or SHORT condition'')
    else Inr (if cgq_booked_pieces q \<le> cgq_pieces_accepted q \<and> cgq_pieces_accepted q = cgq_pieces_received q \<and> cgq_condition q \<noteq> ''SHORT'' then None
      else Some \<lparr>cge_id = eid, cge_shipment_id = s, cge_exception_type = ''SHORT_SHIPMENT'', cge_severity = ''HIGH'',
        cge_details = [(''booked_pieces'', JInt (cgq_booked_pieces q)), (''received_pieces'', JInt (cgq_pieces_received q)),
          (''difference'', JInt (cgq_booked_pieces q - cgq_pieces_received q)), (''warehouse'', JStr (cgq_warehouse q))], cge_created_at = now\<rparr>))"
  by (auto simp: process_acceptance_def Let_def)

section \<open>Witnesses\<close>

definition sample_awb_request :: "string \<Rightarrow> string option \<Rightarrow> awb_create" where
  "sample_awb_request k p = \<lparr>awq_kind = k, awq_parent_mawb_id = p, awq_airline_prefix = ''176'', awq_serial_number = None, awq_details = []\<rparr>"

lemma two_awbs:
  obtains repo m h where "reached awb_service awb_numbered no_awbs repo" "dget (awr_awbs repo) ''M'' = Some m" "dget (awr_awbs repo) ''H'' = Some h"
    "awb_kind m = ''MAWB''" "awb_kind h = ''HAWB''" "awb_status h = ''DRAFT''" "awb_id h = ''H''" "awb_tenant_id h = ''T''"
proof -
  let ?c1 = "Create_Awb ''M'' ''T'' ''U'' (sample_awb_request ''MAWB'' None)" and ?c2 = "Create_Awb ''H'' ''T'' ''U'' (sample_awb_request ''HAWB'' (Some ''M''))"
  obtain m r1 where 1: "create_awb ''M'' ''T'' ''U'' (sample_awb_request ''MAWB'' None) no_awbs = (Inr m, r1)"
    by (simp add: create_awb_def check_hierarchy_def sample_awb_request_def get_next_sequence_def Let_def)
  note c1 = created_awb [OF 1]
  have g1: "dget (awr_awbs r1) ''M'' = Some m" "dget (awr_awbs r1) ''H'' = None" using c1 by simp_all
  have ok: "check_hierarchy ''T'' (sample_awb_request ''HAWB'' (Some ''M'')) r1 = Inr ()"
    using g1 c1 by (simp add: check_hierarchy_ok sample_awb_request_def)
  obtain h r2 where 2: "create_awb ''H'' ''T'' ''U'' (sample_awb_request ''HAWB'' (Some ''M'')) r1 = (Inr h, r2)"
    by (cases "get_next_sequence ''176'' r1") (simp add: create_awb_def ok Let_def, simp add: sample_awb_request_def)
  note c2 = created_awb [OF 2]
  have "reached awb_service awb_numbered no_awbs r1" by (rule reached_step [of _ ?c1 _ _ m]) (simp_all add: 1, simp add: sample_awb_request_def)
  moreover have "reached awb_service awb_numbered r1 r2" by (rule reached_step [of _ ?c2 _ _ h]) (simp_all add: 2 g1, simp add: sample_awb_request_def)
  ultimately have "reached awb_service awb_numbered no_awbs r2" by (rule reached_trans [rotated])
  then show thesis by (rule that) (use c1 c2 g1 in \<open>auto simp: dget_dset sample_awb_request_def\<close>)
qed

lemma numbered_reached: "reached awb_service awb_numbered no_awbs repo \<Longrightarrow> reached awb_service awb_ok no_awbs repo"
  by (erule reached_mono) (rule awb_numbered_ok)

theorem drawn_numbers_unique_witness:
  "\<exists>(repo :: awb_repo) m h. dget (awr_awbs repo) ''M'' = Some m \<and> dget (awr_awbs repo) ''H'' = Some h \<and> awb_full_number m \<noteq> awb_full_number h"
proof (rule two_awbs)
  fix repo :: awb_repo and m h :: awb assume r: "reached awb_service awb_numbered no_awbs repo" "dget (awr_awbs repo) ''M'' = Some m" "dget (awr_awbs repo) ''H'' = Some h"
  from drawn_numbers_unique [OF this] r show ?thesis by auto
qed

theorem house_waybills_have_master_witness:
  "\<exists>repo h p. reached awb_service awb_ok no_awbs repo \<and> dget (awr_awbs repo) ''H'' = Some h \<and> awb_kind h = ''HAWB'' \<and> awb_parent_mawb_id h = Some p"
proof (rule two_awbs)
  fix repo :: awb_repo and m h :: awb assume r: "reached awb_service awb_numbered no_awbs repo" "dget (awr_awbs repo) ''H'' = Some h" "awb_kind h = ''HAWB''"
  from house_waybills_have_master [OF numbered_reached [OF r(1)] r(2,3)] numbered_reached [OF r(1)] r(2,3) show ?thesis by blast
qed

theorem version_counts_amendments_witness: "\<exists>(repo :: awb_repo) h. dget (awr_awbs repo) ''H'' = Some h \<and> 1 \<le> awb_version h"
proof (rule two_awbs)
  fix repo :: awb_repo and m h :: awb assume r: "reached awb_service awb_numbered no_awbs repo" "dget (awr_awbs repo) ''H'' = Some h"
  from version_counts_amendments [OF numbered_reached [OF r(1)] r(2)] r(2) show ?thesis by fastforce
qed

theorem amendment_cancels_master_witness:
  "\<exists>repo h a' repo'. reached awb_service awb_ok no_awbs repo \<and> dget (awr_awbs repo) ''H'' = Some h
    \<and> amend_awb 0 ''H'' ''T'' ''U'' \<lparr>awa_reason = [], awa_fields_changed = [Set_Status ''CANCELLED''], awa_carrier_confirmation_ref = None\<rparr> repo = (Inr a', repo')
    \<and> awb_status a' = ''CANCELLED''"
proof (rule two_awbs)
  fix repo :: awb_repo and m h :: awb assume r: "reached awb_service awb_numbered no_awbs repo" "dget (awr_awbs repo) ''H'' = Some h" "awb_status h = ''DRAFT''" "awb_id h = ''H''" "awb_tenant_id h = ''T''"
  from amendment_cancels_master [OF r(2-4), of 0 "''U''" "[]"] r numbered_reached [OF r(1)] show ?thesis by metis
qed

lemma cancelled_house:
  obtains repo h repo' where "reached awb_service awb_ok no_awbs repo'" "cancel_awb 5 ''H'' ''T'' ''U'' [] None repo = (Inr h, repo')"
    "dget (awr_awbs repo') ''H'' = Some h" "awb_status h = ''CANCELLED''" "awb_tenant_id h = ''T''"
proof (rule two_awbs)
  fix repo :: awb_repo and m h :: awb assume r: "reached awb_service awb_numbered no_awbs repo" "dget (awr_awbs repo) ''H'' = Some h" "awb_kind h = ''HAWB''" "awb_id h = ''H''" "awb_tenant_id h = ''T''"
  obtain a repo' where c: "cancel_awb 5 ''H'' ''T'' ''U'' [] None repo = (Inr a, repo')" "awb_status a = ''CANCELLED''" "awb_tenant_id a = ''T''"
    "dget (awr_awbs repo') ''H'' = Some a" using r by (simp add: cancel_awb_def save_awb_def Let_def dget_dset)
  have "reached awb_service awb_ok repo repo'" by (rule reached_step [of _ "Cancel_Awb 5 ''H'' ''T'' ''U'' [] None" _ _ a]) (simp_all add: c)
  with numbered_reached [OF r(1)] have "reached awb_service awb_ok no_awbs repo'" by (rule reached_trans [rotated])
  with c show thesis by (intro that)
qed

theorem labels_of_cancelled_only_witness:
  "\<exists>repo text a. reached awb_service awb_ok no_awbs repo \<and> generate_label ''H'' ''T'' repo = Inr text \<and> dget (awr_awbs repo) ''H'' = Some a \<and> awb_status a = ''CANCELLED''"
proof (rule cancelled_house)
  fix repo repo' :: awb_repo and h :: awb assume r: "reached awb_service awb_ok no_awbs repo'" "dget (awr_awbs repo') ''H'' = Some h" "awb_status h = ''CANCELLED''" "awb_tenant_id h = ''T''"
  obtain label where l: "generate_label ''H'' ''T'' repo' = Inr label" using r by (simp add: generate_label_def)
  from labels_of_cancelled_only [OF r(1) l] r(1) l show ?thesis by blast
qed

definition sample_uld :: uld_create where
  "sample_uld = \<lparr>ulq_uld_number = ''AKE1'', ulq_uld_type = ''AKE'', ulq_flight_id = ''F'', ulq_max_weight = 1000, ulq_max_volume = 4\<rparr>"

lemma loaded_uld:
  obtains ulds u where "reached uld_service uld_op_ok [] ulds" "dget ulds ''D'' = Some u" "uld_build_status u = ''FINALIZED''"
    "length (uld_allocations u) = 1"
proof -
  let ?x = "\<lparr>ula_awb_id = ''H'', ula_pieces = 3, ula_weight = 0\<rparr>"
  obtain u1 d1 where 1: "create_uld ''D'' ''T'' sample_uld [] = (Inr u1, d1)" "dget d1 ''D'' = Some u1" "uld_build_status u1 = ''OPEN''" "uld_allocations u1 = []"
    "uld_tenant_id u1 = ''T''" "uld_request u1 = sample_uld" "uld_total_weight u1 = 0" by (simp add: create_uld_def Let_def)
  obtain u2 d2 where 2: "assign_awb_to_uld ''T'' ''D'' ?x d1 = (Inr u2, d2)" "dget d2 ''D'' = Some u2" "length (uld_allocations u2) = 1" "uld_tenant_id u2 = ''T''"
    using 1 by (simp add: assign_awb_to_uld_def Let_def sample_uld_def fadd_def dget_dset)
  obtain u3 d3 where 3: "finalize_uld ''T'' ''D'' d2 = (Inr u3, d3)" "dget d3 ''D'' = Some u3" "length (uld_allocations u3) = 1" "uld_build_status u3 = ''FINALIZED''"
    using 2 by (simp add: finalize_uld_def Let_def dget_dset)
  have "reached uld_service uld_op_ok [] d1" by (rule reached_step [of _ "Create_Uld ''D'' ''T'' sample_uld" _ _ u1]) (simp_all add: 1)
  moreover have "reached uld_service uld_op_ok d1 d2" by (rule reached_step [of _ "Assign_Awb ''T'' ''D'' ?x" _ _ u2]) (simp_all add: 2)
  moreover have "reached uld_service uld_op_ok d2 d3" by (rule reached_step [of _ "Finalize_Uld ''T'' ''D''" _ _ u3]) (simp_all add: 3)
  ultimately have "reached uld_service uld_op_ok [] d3" by (metis reached_trans)
  then show thesis by (rule that) (use 3 in simp_all)
qed

theorem uld_within_capacity_witness:
  "\<exists>(ulds :: uld_repo) u. dget ulds ''D'' = Some u \<and> length (uld_allocations u) = 1 \<and> uld_total_weight u \<le> ulq_max_weight (uld_request u)"
proof (rule loaded_uld)
  fix ulds :: uld_repo and u :: uld assume r: "reached uld_service uld_op_ok [] ulds" "dget ulds ''D'' = Some u" "length (uld_allocations u) = 1"
  from uld_within_capacity [OF r(1,2)] r show ?thesis by (metis length_0_conv zero_neq_one)
qed

theorem finalized_ulds_stay_witness: "\<exists>(ulds :: uld_repo) u. dget ulds ''D'' = Some u \<and> uld_build_status u = ''FINALIZED''"
proof (rule loaded_uld)
  fix ulds :: uld_repo and u :: uld assume r: "dget ulds ''D'' = Some u" "uld_build_status u = ''FINALIZED''"
  from finalized_ulds_stay [OF reached_start r] r(2) show ?thesis by blast
qed

theorem manifest_totals_witness:
  "\<exists>(ulds :: uld_repo). fmf_total_pieces (generate_flight_manifest ''T'' ''F'' ulds) = sum_list (map uld_total_pieces (fmf_ulds (generate_flight_manifest ''T'' ''F'' ulds)))"
proof (rule loaded_uld)
  fix ulds :: uld_repo assume r: "reached uld_service uld_op_ok [] ulds"
  from manifest_totals [OF r refl] show ?thesis by blast
qed

end
