(* ===== verification/Rate_Engine.thy ===== *)
theory Rate_Engine
  imports Repositories
begin

text \<open>
  \<open>domain/services/rate_engine.py\<close>: the selection of a rate for a lane by the category cascade, the
  charge lines with cost and sell prices, and the comparison of all carriers on a lane. The engine
  receives its exchange-rate service as an optional port; the laws the charge lines rely on are
  the interface \<open>fx_port\<close>, which the in-memory service provides.
\<close>

section \<open>Resolution of a rate\<close>

text \<open>Applicable rate lines: \<open>weight_break_to or inf\<close> makes \<open>None\<close> and \<open>0.0\<close> unbounded.\<close>

definition below_break :: "flt \<Rightarrow> flt option \<Rightarrow> bool" where
  "below_break w wb_to = (case wb_to of None \<Rightarrow> True | Some t \<Rightarrow> t = 0 \<or> w < t)"

definition line_applies :: "flt option \<Rightarrow> string option \<Rightarrow> rate_line \<Rightarrow> bool" where
  "line_applies weight_kg container_type l =
    (case (weight_kg, rl_weight_break_from l) of
       (Some w, Some from_w) \<Rightarrow> from_w \<le> w \<and> below_break w (rl_weight_break_to l)
     | _ \<Rightarrow> (if truthy container_type \<and> truthy (rl_container_type_code l)
             then rl_container_type_code l = container_type else True))"

definition surcharge_applies :: "date \<Rightarrow> rate_surcharge \<Rightarrow> bool" where
  "surcharge_applies d s \<longleftrightarrow> rs_applicable_from s \<le> d \<and> d \<le> rs_applicable_to s"

definition cascade :: "rate_category list" where
  "cascade = [rate_category.CONTRACT_NAC, rate_category.SPOT, rate_category.LANE_NAC,
    rate_category.PROMOTIONAL, rate_category.FAK, rate_category.AGENT]"

definition candidates :: "rate list \<Rightarrow> string \<Rightarrow> rate_category \<Rightarrow> rate list" where
  "candidates available customer_id cat = (let cs = filter (\<lambda>r. rate_rate_category r = cat) available
     in if cat \<in> {rate_category.CONTRACT_NAC, rate_category.SPOT}
        then filter (\<lambda>r. rate_customer_id r = Some customer_id) cs else cs)"

type_synonym resolution = "rate option \<times> rate_version option \<times> rate_line list \<times> rate_surcharge list \<times> string"

fun resolve_cascade ::
  "rate list \<Rightarrow> string \<Rightarrow> date \<Rightarrow> flt option \<Rightarrow> string option \<Rightarrow> rate_category list \<Rightarrow> resolution" where
  "resolve_cascade available customer_id d w ct [] =
    (None, None, [], [], ''No valid rate found in any category for this lane'')"
| "resolve_cascade available customer_id d w ct (cat # cats) =
    (case candidates available customer_id cat of
       [] \<Rightarrow> resolve_cascade available customer_id d w ct cats
     | best # _ \<Rightarrow>
         (case current_version best of
            None \<Rightarrow> resolve_cascade available customer_id d w ct cats
          | Some v \<Rightarrow> (Some best, Some v, filter (line_applies w ct) (rv_lines v),
              filter (surcharge_applies d) (rv_surcharges v),
              ''Selected '' @ rate_category_value cat @ '' rate '' @ rate_rate_number best)))"

text \<open>The argument \<open>volume_cbm\<close> of the method is not used by its body.\<close>

definition lane_rates :: "rate_repo \<Rightarrow> string \<Rightarrow> string \<Rightarrow> date \<Rightarrow> string option \<Rightarrow> string option \<Rightarrow> rate list" where
  "lane_rates repo origin_id destination_id d commodity_id carrier_id =
    (let available = find_rates repo origin_id destination_id d None commodity_id
     in if truthy carrier_id then filter (\<lambda>r. Some (rate_carrier_vendor_id r) = carrier_id) available
        else available)"

definition resolve_rate_for_lane ::
  "rate_repo \<Rightarrow> string \<Rightarrow> string \<Rightarrow> string \<Rightarrow> date \<Rightarrow> flt option \<Rightarrow> string option \<Rightarrow> string option \<Rightarrow>
    string option \<Rightarrow> resolution" where
  "resolve_rate_for_lane repo customer_id origin_id destination_id d weight_kg container_type commodity_id carrier_id =
    resolve_cascade (lane_rates repo origin_id destination_id d commodity_id carrier_id)
      customer_id d weight_kg container_type cascade"

section \<open>Charge lines\<close>

type_synonym fx_fun = "flt \<Rightarrow> string \<Rightarrow> string \<Rightarrow> date \<Rightarrow> flt res"

text \<open>The parameters of a price calculation.\<close>

record charge_params =
  cp_markup_pct :: flt
  cp_rate_currency :: string
  cp_target_currency :: string
  cp_effective_date :: "date option"
  cp_weight_kg :: flt
  cp_volume_cbm :: flt
  cp_container_qty :: int

definition in_target :: "fx_fun option \<Rightarrow> charge_params \<Rightarrow> date \<Rightarrow> flt \<Rightarrow> flt res" where
  "in_target fx p d cost = (case fx of None \<Rightarrow> Inr cost
     | Some conv \<Rightarrow> if cp_rate_currency p \<noteq> cp_target_currency p
         then conv cost (cp_rate_currency p) (cp_target_currency p) d else Inr cost)"

definition priced_line :: "charge_params \<Rightarrow> charge_category \<Rightarrow> string \<Rightarrow> string \<Rightarrow> string \<Rightarrow> string \<Rightarrow> flt \<Rightarrow> quotation_line" where
  "priced_line p cat code descr version_id i cost =
    \<lparr>ql_charge_code = code, ql_category = cat, ql_cost_amount = py_round 2 cost,
     ql_sell_amount = py_round 2 (fmul cost (fadd 1 (fquot (cp_markup_pct p) 100))),
     ql_description = descr @ '' ('' @ code @ '')'', ql_rate_version_id = Some version_id,
     ql_quotation_option_id = None, ql_id = i\<rparr>"

definition freight_cost :: "charge_params \<Rightarrow> rate_line \<Rightarrow> flt" where
  "freight_cost p l =
    (if rl_rate_basis l = ''PER_KG'' then fmul (rl_amount l) (cp_weight_kg p)
     else if rl_rate_basis l = ''PER_CBM'' then fmul (rl_amount l) (cp_volume_cbm p)
     else if rl_rate_basis l = ''PER_CONTAINER'' then fmul (rl_amount l) (fint (cp_container_qty p))
     else rl_amount l)"

fun freight_loop :: "fx_fun option \<Rightarrow> charge_params \<Rightarrow> date \<Rightarrow> string \<Rightarrow> (nat \<Rightarrow> string) \<Rightarrow>
    quotation_line list \<Rightarrow> rate_line list \<Rightarrow> quotation_line list res" where
  "freight_loop fx p d vid ids charge_lines [] = Inr charge_lines"
| "freight_loop fx p d vid ids charge_lines (l # ls) =
    res_bind (in_target fx p d (freight_cost p l)) (\<lambda>cost.
      freight_loop fx p d vid ids (charge_lines @ [priced_line p charge_category.FREIGHT
        (rl_charge_code l) ''Base Freight'' vid (ids (length charge_lines)) cost]) ls)"

definition cost_in_category :: "charge_category \<Rightarrow> quotation_line list \<Rightarrow> flt" where
  "cost_in_category cat cls = py_sum (map ql_cost_amount (filter (\<lambda>c. ql_category c = cat) cls))"

definition surcharge_cost :: "charge_params \<Rightarrow> flt \<Rightarrow> rate_surcharge \<Rightarrow> flt" where
  "surcharge_cost p base_cost s =
    (if rs_basis s = ''PER_TEU'' \<or> rs_basis s = ''PER_CONTAINER'' then fmul (rs_amount s) (fint (cp_container_qty p))
     else if rs_basis s = ''PER_KG'' then fmul (rs_amount s) (cp_weight_kg p)
     else if rs_basis s = ''PERCENTAGE'' then fmul base_cost (fquot (rs_amount s) 100)
     else rs_amount s)"

definition surcharge_in_target :: "fx_fun option \<Rightarrow> charge_params \<Rightarrow> date \<Rightarrow> flt \<Rightarrow> rate_surcharge \<Rightarrow> flt res" where
  "surcharge_in_target fx p d base_cost s =
    (if rs_basis s \<noteq> ''PERCENTAGE'' then in_target fx p d (surcharge_cost p base_cost s)
     else Inr (surcharge_cost p base_cost s))"

fun surcharge_loop :: "fx_fun option \<Rightarrow> charge_params \<Rightarrow> date \<Rightarrow> string \<Rightarrow> (nat \<Rightarrow> string) \<Rightarrow>
    quotation_line list \<Rightarrow> rate_surcharge list \<Rightarrow> quotation_line list res" where
  "surcharge_loop fx p d vid ids charge_lines [] = Inr charge_lines"
| "surcharge_loop fx p d vid ids charge_lines (s # ss) =
    res_bind (surcharge_in_target fx p d (cost_in_category charge_category.FREIGHT charge_lines) s) (\<lambda>cost.
      surcharge_loop fx p d vid ids (charge_lines @ [priced_line p charge_category.SURCHARGE
        (rs_charge_code s) ''Surcharge'' vid (ids (length charge_lines)) cost]) ss)"

text \<open>\<open>today\<close> is the clock reading that stands in for a missing effective date.\<close>

definition calculate_freight_charge_lines ::
  "fx_fun option \<Rightarrow> date \<Rightarrow> (nat \<Rightarrow> string) \<Rightarrow> rate_version \<Rightarrow> rate_line list \<Rightarrow> rate_surcharge list \<Rightarrow>
    charge_params \<Rightarrow> quotation_line list res" where
  "calculate_freight_charge_lines fx today ids v matched_lines surcharges p =
    (let d = (case cp_effective_date p of None \<Rightarrow> today | Some d \<Rightarrow> d)
     in res_bind (freight_loop fx p d (rv_id v) ids [] matched_lines)
          (\<lambda>cls. surcharge_loop fx p d (rv_id v) ids cls surcharges))"

section \<open>Comparison of carriers\<close>

record comparison_item =
  ci_carrier_id :: string
  ci_service_name :: string
  ci_rate_category :: string
  ci_base_freight_cost :: flt
  ci_surcharges_cost :: flt
  ci_total_landed_cost :: flt
  ci_proposed_sell_price :: flt
  ci_gross_margin :: flt
  ci_margin_pct :: flt
  ci_currency :: string
  ci_rate_version_id :: string
  ci_rate :: rate
  ci_version :: rate_version
  ci_resolved_lines :: "rate_line list"
  ci_attached_surcharges :: "rate_surcharge list"

record lane_query =
  lq_customer_id :: string
  lq_origin_id :: string
  lq_destination_id :: string
  lq_effective_date :: date
  lq_weight_kg :: flt
  lq_volume_cbm :: flt
  lq_container_type :: "string option"
  lq_container_qty :: int
  lq_markup_pct :: flt
  lq_target_currency :: string

definition comparison_item_of ::
  "string \<Rightarrow> string \<Rightarrow> rate \<Rightarrow> rate_version \<Rightarrow> rate_line list \<Rightarrow> rate_surcharge list \<Rightarrow> quotation_line list \<Rightarrow> comparison_item" where
  "comparison_item_of carrier_id currency r v ls ss cls =
    (let freight = cost_in_category charge_category.FREIGHT cls;
         sur = cost_in_category charge_category.SURCHARGE cls;
         cost = py_round 2 (fadd freight sur);
         sell = py_round 2 (py_sum (map ql_sell_amount cls));
         margin = py_round 2 (fsub sell cost)
     in \<lparr>ci_carrier_id = carrier_id, ci_service_name = rate_service_name r,
         ci_rate_category = rate_category_value (rate_rate_category r),
         ci_base_freight_cost = freight, ci_surcharges_cost = sur, ci_total_landed_cost = cost,
         ci_proposed_sell_price = sell, ci_gross_margin = margin,
         ci_margin_pct = (if 0 < sell then py_round 2 (fmul (fquot margin sell) 100) else 0),
         ci_currency = currency, ci_rate_version_id = rv_id v, ci_rate = r, ci_version = v,
         ci_resolved_lines = ls, ci_attached_surcharges = ss\<rparr>)"

text \<open>One turn of the loop over the carriers; \<open>None\<close> is its \<open>continue\<close>.\<close>

definition compare_carrier ::
  "fx_fun option \<Rightarrow> date \<Rightarrow> (string \<Rightarrow> nat \<Rightarrow> string) \<Rightarrow> rate_repo \<Rightarrow> lane_query \<Rightarrow> string \<Rightarrow> comparison_item option res" where
  "compare_carrier fx today ids repo q carrier_id =
    (case resolve_rate_for_lane repo (lq_customer_id q) (lq_origin_id q) (lq_destination_id q)
        (lq_effective_date q) (Some (lq_weight_kg q)) (lq_container_type q) None (Some carrier_id) of
       (Some r, Some v, ls, ss, _) \<Rightarrow>
         res_map (\<lambda>cls. Some (comparison_item_of carrier_id (lq_target_currency q) r v ls ss cls))
           (calculate_freight_charge_lines fx today (ids carrier_id) v ls ss
             \<lparr>cp_markup_pct = lq_markup_pct q, cp_rate_currency = rate_currency_code r,
              cp_target_currency = lq_target_currency q, cp_effective_date = Some (lq_effective_date q),
              cp_weight_kg = lq_weight_kg q, cp_volume_cbm = lq_volume_cbm q,
              cp_container_qty = lq_container_qty q\<rparr>)
     | _ \<Rightarrow> Inr None)"

text \<open>\<open>ord\<close> is the order in which Python iterates over the set of carriers.\<close>

definition compare_all_carriers_on_lane ::
  "(string list \<Rightarrow> string list) \<Rightarrow> fx_fun option \<Rightarrow> date \<Rightarrow> (string \<Rightarrow> nat \<Rightarrow> string) \<Rightarrow> rate_repo \<Rightarrow> lane_query \<Rightarrow>
    comparison_item list res" where
  "compare_all_carriers_on_lane ord fx today ids repo q =
    (let available = find_rates repo (lq_origin_id q) (lq_destination_id q) (lq_effective_date q) None None
     in res_map (\<lambda>items. sort_key ci_total_landed_cost (somes items))
          (mapM_res (compare_carrier fx today ids repo q) (ord (map rate_carrier_vendor_id available))))"

section \<open>Laws of the resolution\<close>

text \<open>
  The abstract contract of the cascade: a category is usable when its first candidate has a
  version; the resolution selects the smallest usable category (the order of \<^typ>\<open>rate_category\<close>
  is the order of the cascade).
\<close>

definition usable :: "rate list \<Rightarrow> string \<Rightarrow> rate_category \<Rightarrow> rate \<Rightarrow> rate_version \<Rightarrow> bool" where
  "usable available customer_id cat r v \<longleftrightarrow>
    (case candidates available customer_id cat of [] \<Rightarrow> False | x # _ \<Rightarrow> r = x) \<and> current_version r = Some v"

lemma usable_candidate: "usable available c cat r v \<Longrightarrow> r \<in> set (candidates available c cat)"
  by (auto simp: usable_def split: list.splits)

lemma usable_unique: "usable available c cat r v \<Longrightarrow> usable available c cat r' v' \<Longrightarrow> r' = r \<and> v' = v"
  by (auto simp: usable_def split: list.splits)

lemma candidates_mem:
  "r \<in> set (candidates available c cat) \<longleftrightarrow> r \<in> set available \<and> rate_rate_category r = cat \<and>
    (cat \<in> {rate_category.CONTRACT_NAC, rate_category.SPOT} \<longrightarrow> rate_customer_id r = Some c)"
  by (auto simp: candidates_def Let_def)

lemma cascade_all: "set cascade = UNIV"
proof -
  have "cat \<in> set cascade" for cat by (cases cat) (simp_all add: cascade_def)
  then show ?thesis by auto
qed

lemma cascade_sorted: "sorted_wrt (<) cascade"
  by (simp add: cascade_def less_rate_category_def)

definition selected :: "date \<Rightarrow> flt option \<Rightarrow> string option \<Rightarrow> rate_category \<Rightarrow> rate \<Rightarrow> rate_version \<Rightarrow> resolution" where
  "selected d w ct cat r v = (Some r, Some v, filter (line_applies w ct) (rv_lines v),
     filter (surcharge_applies d) (rv_surcharges v),
     ''Selected '' @ rate_category_value cat @ '' rate '' @ rate_rate_number r)"

lemma resolve_cascade_step:
  "usable av c cat r v \<Longrightarrow> resolve_cascade av c d w ct (cat # cats) = selected d w ct cat r v"
  "\<forall>r v. \<not> usable av c cat r v \<Longrightarrow> resolve_cascade av c d w ct (cat # cats) = resolve_cascade av c d w ct cats"
  by (auto simp: usable_def selected_def split: list.splits option.splits)

lemma resolve_cascade_selects:
  "sorted_wrt (<) cats \<Longrightarrow> cat \<in> set cats \<Longrightarrow> usable av c cat r v \<Longrightarrow>
    (\<And>k r v. k < cat \<Longrightarrow> \<not> usable av c k r v) \<Longrightarrow>
    resolve_cascade av c d w ct cats = selected d w ct cat r v"
proof (induction cats)
  case (Cons k cats)
  then show ?case
    by (cases "k = cat") (auto simp: resolve_cascade_step simp del: resolve_cascade.simps)
qed simp

lemma resolve_cascade_none:
  "(\<And>k r v. k \<in> set cats \<Longrightarrow> \<not> usable av c k r v) \<Longrightarrow>
    resolve_cascade av c d w ct cats =
      (None, None, [], [], ''No valid rate found in any category for this lane'')"
  by (induction cats) (simp_all add: resolve_cascade_step del: resolve_cascade.simps(2))

lemma least_usable:
  "usable av c k r v \<Longrightarrow> \<exists>cat r v. usable av c cat r v \<and> (\<forall>k < cat. \<forall>r v. \<not> usable av c k r v)"
proof (induction "cascade_tier k" arbitrary: k r v rule: less_induct)
  case less
  then show ?case by (metis less_rate_category_def)
qed

lemma resolve_cases:
  obtains (found) cat r v where "usable av c cat r v" "\<forall>k < cat. \<forall>r v. \<not> usable av c k r v"
      "resolve_cascade av c d w ct cascade = selected d w ct cat r v"
  | (none) "\<forall>k r v. \<not> usable av c k r v"
      "resolve_cascade av c d w ct cascade =
         (None, None, [], [], ''No valid rate found in any category for this lane'')"
proof (cases "\<exists>k r v. usable av c k r v")
  case True
  then obtain cat r v where u: "usable av c cat r v" "\<forall>k < cat. \<forall>r v. \<not> usable av c k r v"
    using least_usable by blast
  then have "resolve_cascade av c d w ct cascade = selected d w ct cat r v"
    by (intro resolve_cascade_selects cascade_sorted) (auto simp: cascade_all)
  with u show ?thesis by (rule found)
next
  case False
  then show ?thesis by (intro none resolve_cascade_none) auto
qed

lemma lane_rates_mem:
  "r \<in> set (lane_rates repo o' d' t m k) \<longleftrightarrow> r \<in> set (find_rates repo o' d' t None m) \<and>
    (truthy k \<longrightarrow> k = Some (rate_carrier_vendor_id r))"
  by (auto simp: lane_rates_def Let_def)

lemma resolve_found_selected:
  "resolve_rate_for_lane repo c o' d' t w ct m k = (Some r, Some v, ls, ss, msg) \<Longrightarrow>
    \<exists>cat. usable (lane_rates repo o' d' t m k) c cat r v \<and>
      (\<forall>cat' < cat. \<forall>r' v'. \<not> usable (lane_rates repo o' d' t m k) c cat' r' v') \<and>
      (Some r, Some v, ls, ss, msg) = selected t w ct cat r v"
  unfolding resolve_rate_for_lane_def
  by (rule resolve_cases [of "lane_rates repo o' d' t m k" c t w ct]) (auto simp: selected_def)

text \<open>
  C1: The cascade is exact. A rate and version are returned if and only if they are the first
  candidate (with a version) of some category and no category of higher priority has a usable
  first candidate; the returned rate lines are those of the version that fit the weight or the
  container, the surcharges those valid on the date, in the version's order. The candidates of a
  category are taken in the order in which the repository stores them: where SRS 5.6, plan 3.3 and the
  comment in the code ask for the best rate of the category (lowest cost or best margin for FAK), the
  code takes the first, see \<open>dearer_rate_selected\<close>.
\<close>

theorem resolve_selects_least_usable:
  "resolve_rate_for_lane repo c o' d' t w ct m k = (Some r, Some v, ls, ss, msg) \<longleftrightarrow>
    (\<exists>cat. usable (lane_rates repo o' d' t m k) c cat r v \<and>
      (\<forall>cat' r' v'. usable (lane_rates repo o' d' t m k) c cat' r' v' \<longrightarrow> cat \<le> cat') \<and>
      (Some r, Some v, ls, ss, msg) = selected t w ct cat r v)"
  (is "?L \<longleftrightarrow> ?R")
proof
  assume ?L
  from resolve_found_selected [OF this] show ?R by (meson not_le)
next
  assume ?R
  then obtain cat where u: "usable (lane_rates repo o' d' t m k) c cat r v"
    and least: "\<And>k' r v. k' < cat \<Longrightarrow> \<not> usable (lane_rates repo o' d' t m k) c k' r v"
    and s: "(Some r, Some v, ls, ss, msg) = selected t w ct cat r v"
    using leD by blast
  have "cat \<in> set cascade" by (simp add: cascade_all)
  from resolve_cascade_selects [OF cascade_sorted this u least] show ?L
    by (simp add: resolve_rate_for_lane_def s)
qed

text \<open>
  C26: A resolved rate is safe to price: it is stored, serves the lane, is ACTIVE and valid on the
  date, belongs to the carrier asked for, does not contradict the commodity, and belongs to the
  customer when it is a contract or spot rate; the version is its newest one.
\<close>

theorem resolved_rate_is_valid:
  assumes "resolve_rate_for_lane repo c o' d' t w ct m k = (Some r, Some v, ls, ss, msg)"
  shows "r \<in> set (list_all_rates repo) \<and> rate_origin_location_id r = o' \<and>
    rate_destination_location_id r = d' \<and> rate_status r = rate_status.ACTIVE \<and>
    rate_effective_date r \<le> t \<and> t \<le> rate_expiry_date r \<and>
    (truthy k \<longrightarrow> k = Some (rate_carrier_vendor_id r)) \<and>
    (truthy m \<and> truthy (rate_commodity_id r) \<longrightarrow> rate_commodity_id r = m) \<and>
    (rate_rate_category r \<in> {rate_category.CONTRACT_NAC, rate_category.SPOT} \<longrightarrow> rate_customer_id r = Some c) \<and>
    v \<in> set (rate_versions r) \<and> (\<forall>v' \<in> set (rate_versions r). rv_version_number v' \<le> rv_version_number v)"
proof -
  obtain cat where u: "usable (lane_rates repo o' d' t m k) c cat r v"
    using resolve_found_selected [OF assms] by blast
  then have v: "current_version r = Some v" by (simp add: usable_def)
  from usable_candidate [OF u] show ?thesis
    using current_version_mem [OF v] current_version_max [OF v]
    by (auto simp: candidates_mem lane_rates_mem find_rates_mem)
qed

text \<open>
  No rate is returned exactly when no category has a usable first candidate, and then the
  lines and surcharges are empty too; the rate and the version are present or absent together.
\<close>

theorem resolve_none_iff:
  "(fst (resolve_rate_for_lane repo c o' d' t w ct m k) = None \<longleftrightarrow>
      (\<forall>cat r v. \<not> usable (lane_rates repo o' d' t m k) c cat r v)) \<and>
   (fst (resolve_rate_for_lane repo c o' d' t w ct m k) = None \<longleftrightarrow>
      resolve_rate_for_lane repo c o' d' t w ct m k =
        (None, None, [], [], ''No valid rate found in any category for this lane''))"
  unfolding resolve_rate_for_lane_def
  by (rule resolve_cases [of "lane_rates repo o' d' t m k" c t w ct]) (auto simp: selected_def)

section \<open>Laws of the charge lines\<close>

text \<open>
  The reference description of the calculation, without an accumulator: the freight costs are
  computed first, the basis of the percentage surcharges is the sum of the rounded freight costs,
  and every line is priced from its own cost.
\<close>

definition numbered_lines :: "charge_params \<Rightarrow> charge_category \<Rightarrow> string \<Rightarrow> string \<Rightarrow> (nat \<Rightarrow> string) \<Rightarrow> nat \<Rightarrow>
    string list \<Rightarrow> flt list \<Rightarrow> quotation_line list" where
  "numbered_lines p cat descr vid ids n codes costs =
    map (\<lambda>(i, code, c). priced_line p cat code descr vid (ids i) c)
      (zip [n..<n + length codes] (zip codes costs))"

lemma numbered_lines_Nil [simp]: "numbered_lines p cat descr vid ids n [] costs = []"
  by (simp add: numbered_lines_def)

lemma numbered_lines_Cons [simp]:
  "numbered_lines p cat descr vid ids n (k # ks) (c # cs) =
    priced_line p cat k descr vid (ids n) c # numbered_lines p cat descr vid ids (Suc n) ks cs"
proof -
  have "[n..<n + length (k # ks)] = n # [Suc n..<Suc n + length ks]"
    by (subst upt_conv_Cons) simp_all
  then show ?thesis by (simp add: numbered_lines_def del: upt_Suc)
qed

lemma numbered_lines_set:
  "l \<in> set (numbered_lines p cat descr vid ids n ks cs) \<Longrightarrow>
    \<exists>i k c. c \<in> set cs \<and> l = priced_line p cat k descr vid (ids i) c"
  by (auto simp: numbered_lines_def dest!: set_zip_rightD)

lemma numbered_lines_costs:
  "length ks = length cs \<Longrightarrow>
    map ql_cost_amount (numbered_lines p cat descr vid ids n ks cs) = map (py_round 2) cs"
  by (induction ks cs arbitrary: n rule: list_induct2) (simp_all add: priced_line_def)

lemma priced_line_simps [simp]:
  "ql_category (priced_line p cat k descr vid i c) = cat"
  "ql_cost_amount (priced_line p cat k descr vid i c) = py_round 2 c"
  "ql_id (priced_line p cat k descr vid i c) = i"
  by (simp_all add: priced_line_def)

lemma numbered_lines_filter:
  "filter (\<lambda>c. ql_category c = k) (numbered_lines p cat descr vid ids n ks cs) =
    (if k = cat then numbered_lines p cat descr vid ids n ks cs else [])"
  by (auto simp: filter_id_conv filter_empty_conv dest!: numbered_lines_set)

definition charge_lines_spec ::
  "fx_fun option \<Rightarrow> date \<Rightarrow> (nat \<Rightarrow> string) \<Rightarrow> rate_version \<Rightarrow> rate_line list \<Rightarrow> rate_surcharge list \<Rightarrow>
    charge_params \<Rightarrow> quotation_line list res" where
  "charge_lines_spec fx today ids v ls ss p =
    (let d = (case cp_effective_date p of None \<Rightarrow> today | Some d \<Rightarrow> d)
     in res_bind (mapM_res (\<lambda>l. in_target fx p d (freight_cost p l)) ls) (\<lambda>fcs.
        res_map (\<lambda>scs.
            numbered_lines p charge_category.FREIGHT ''Base Freight'' (rv_id v) ids 0 (map rl_charge_code ls) fcs @
            numbered_lines p charge_category.SURCHARGE ''Surcharge'' (rv_id v) ids (length ls) (map rs_charge_code ss) scs)
          (mapM_res (surcharge_in_target fx p d (py_sum (map (py_round 2) fcs))) ss)))"

lemma freight_loop_mapM:
  "freight_loop fx p d vid ids acc ls =
    res_map (\<lambda>cs. acc @ numbered_lines p charge_category.FREIGHT ''Base Freight'' vid ids (length acc)
        (map rl_charge_code ls) cs)
      (mapM_res (\<lambda>l. in_target fx p d (freight_cost p l)) ls)"
proof (induction ls arbitrary: acc)
  case (Cons l ls)
  then show ?case
    by (cases "in_target fx p d (freight_cost p l)";
        cases "mapM_res (\<lambda>l. in_target fx p d (freight_cost p l)) ls") simp_all
qed simp

lemma surcharge_loop_mapM:
  "cost_in_category charge_category.FREIGHT acc = b \<Longrightarrow>
   surcharge_loop fx p d vid ids acc ss =
    res_map (\<lambda>cs. acc @ numbered_lines p charge_category.SURCHARGE ''Surcharge'' vid ids (length acc)
        (map rs_charge_code ss) cs)
      (mapM_res (surcharge_in_target fx p d b) ss)"
proof (induction ss arbitrary: acc)
  case (Cons s ss)
  have "cost_in_category charge_category.FREIGHT (acc @ [priced_line p charge_category.SURCHARGE k e vid i c]) = b"
    for k e i c using Cons.prems by (simp add: cost_in_category_def)
  with Cons show ?case
    by (cases "surcharge_in_target fx p d b s";
        cases "mapM_res (surcharge_in_target fx p d b) ss") simp_all
qed simp

lemma calculate_refines:
  "calculate_freight_charge_lines fx today ids v ls ss p = charge_lines_spec fx today ids v ls ss p"
proof -
  let ?d = "case cp_effective_date p of None \<Rightarrow> today | Some d \<Rightarrow> d"
  show ?thesis
  proof (cases "mapM_res (\<lambda>l. in_target fx p ?d (freight_cost p l)) ls")
    case (Inl e)
    then show ?thesis
      by (simp add: calculate_freight_charge_lines_def charge_lines_spec_def Let_def freight_loop_mapM)
  next
    case (Inr fcs)
    let ?F = "numbered_lines p charge_category.FREIGHT ''Base Freight'' (rv_id v) ids 0 (map rl_charge_code ls) fcs"
    have len: "length fcs = length ls" using Inr by (rule mapM_res_length)
    have base: "cost_in_category charge_category.FREIGHT ?F = py_sum (map (py_round 2) fcs)"
      by (simp add: cost_in_category_def numbered_lines_filter numbered_lines_costs len)
    have "length ?F = length ls" by (simp add: numbered_lines_def len)
    then show ?thesis
      using Inr surcharge_loop_mapM [OF base]
      by (simp add: calculate_freight_charge_lines_def charge_lines_spec_def Let_def freight_loop_mapM)
  qed
qed

text \<open>
  C30: The accumulating loops of the calculation equal the reference description: percentage
  surcharges are taken on the rounded freight costs only (never on other surcharges, whatever
  their order), line numbers and descriptions follow the input order, and the first failing
  conversion is the result.
\<close>

theorem charge_lines_equal_reference:
  "calculate_freight_charge_lines fx today ids v ls ss p = charge_lines_spec fx today ids v ls ss p"
  by (rule calculate_refines)

definition nonneg_inputs :: "charge_params \<Rightarrow> rate_line list \<Rightarrow> rate_surcharge list \<Rightarrow> bool" where
  "nonneg_inputs p ls ss \<longleftrightarrow> 0 \<le> cp_markup_pct p \<and> 0 \<le> cp_weight_kg p \<and> 0 \<le> cp_volume_cbm p \<and>
     0 \<le> cp_container_qty p \<and> (\<forall>l \<in> set ls. is_flt (rl_amount l) \<and> 0 \<le> rl_amount l) \<and>
     (\<forall>s \<in> set ss. is_flt (rs_amount s) \<and> 0 \<le> rs_amount s)"

lemma freight_cost_nonneg:
  "nonneg_inputs p ls ss \<Longrightarrow> l \<in> set ls \<Longrightarrow> is_flt (freight_cost p l) \<and> 0 \<le> freight_cost p l"
  by (auto simp: freight_cost_def nonneg_inputs_def fmul_nonneg fint_nonneg)

lemma surcharge_cost_nonneg:
  "nonneg_inputs p ls ss \<Longrightarrow> s \<in> set ss \<Longrightarrow> 0 \<le> b \<Longrightarrow> is_flt (surcharge_cost p b s) \<and> 0 \<le> surcharge_cost p b s"
  by (auto simp: surcharge_cost_def nonneg_inputs_def fmul_nonneg fint_nonneg fquot_nonneg)

lemma priced_line_margin:
  "0 \<le> cp_markup_pct p \<Longrightarrow> is_flt c \<Longrightarrow> 0 \<le> c \<Longrightarrow>
    0 \<le> ql_cost_amount (priced_line p cat k descr vid i c) \<and>
    ql_cost_amount (priced_line p cat k descr vid i c) \<le> ql_sell_amount (priced_line p cat k descr vid i c)"
  by (simp add: priced_line_def pr.nonneg py_round_mono fmul_ge fadd_one_ge fquot_nonneg)

text \<open>With a sound port, or none, the calculation is total and no line is sold below its cost.\<close>

context fx_port
begin

definition port :: "'s \<Rightarrow> fx_fun option \<Rightarrow> bool" where
  "port s fx \<longleftrightarrow> ok s \<and> (fx = None \<or> fx = Some (conv s))"

lemma in_target_total: "port s fx \<Longrightarrow> \<exists>b. in_target fx p d a = Inr b"
  by (auto simp: port_def in_target_def conv_total)

lemma in_target_nonneg:
  "port s fx \<Longrightarrow> is_flt a \<and> 0 \<le> a \<Longrightarrow> in_target fx p d a = Inr b \<Longrightarrow> is_flt b \<and> 0 \<le> b"
  by (auto simp: port_def in_target_def conv_flt conv_nonneg split: if_splits)

lemma surcharge_total: "port s fx \<Longrightarrow> \<exists>b. surcharge_in_target fx p d base x = Inr b"
  by (simp add: surcharge_in_target_def in_target_total)

lemma charge_lines_total:
  "port s fx \<Longrightarrow> \<exists>cls. calculate_freight_charge_lines fx today ids v ls ss p = Inr cls \<and>
     length cls = length ls + length ss"
proof -
  assume s: "port s fx"
  let ?d = "case cp_effective_date p of None \<Rightarrow> today | Some d \<Rightarrow> d"
  obtain fcs where f: "mapM_res (\<lambda>l. in_target fx p ?d (freight_cost p l)) ls = Inr fcs"
    using mapM_res_total in_target_total [OF s] by metis
  obtain scs where g: "mapM_res (surcharge_in_target fx p ?d (py_sum (map (py_round 2) fcs))) ss = Inr scs"
    using mapM_res_total surcharge_total [OF s] by metis
  show ?thesis
    using mapM_res_length [OF f] mapM_res_length [OF g]
    by (simp add: calculate_refines charge_lines_spec_def Let_def f g numbered_lines_def)
qed

lemma charge_lines_margin:
  assumes s: "port s fx" and n: "nonneg_inputs p ls ss"
    and c: "calculate_freight_charge_lines fx today ids v ls ss p = Inr cls" and l: "l \<in> set cls"
  shows "0 \<le> ql_cost_amount l \<and> ql_cost_amount l \<le> ql_sell_amount l"
proof -
  let ?d = "case cp_effective_date p of None \<Rightarrow> today | Some d \<Rightarrow> d"
  from c obtain fcs scs where f: "mapM_res (\<lambda>l. in_target fx p ?d (freight_cost p l)) ls = Inr fcs"
    and g: "mapM_res (surcharge_in_target fx p ?d (py_sum (map (py_round 2) fcs))) ss = Inr scs"
    and cls: "cls = numbered_lines p charge_category.FREIGHT ''Base Freight'' (rv_id v) ids 0 (map rl_charge_code ls) fcs @
      numbered_lines p charge_category.SURCHARGE ''Surcharge'' (rv_id v) ids (length ls) (map rs_charge_code ss) scs"
    by (auto simp: calculate_refines charge_lines_spec_def Let_def res_simps)
  have fr: "is_flt x \<and> 0 \<le> x" if x: "x \<in> set fcs" for x
    using mapM_res_set [OF f x] in_target_nonneg [OF s freight_cost_nonneg [OF n]] by blast
  have base: "0 \<le> py_sum (map (py_round 2) fcs)"
    by (rule py_sum_nonneg) (use fr in \<open>auto simp: pr.nonneg\<close>)
  have su: "is_flt x \<and> 0 \<le> x" if x: "x \<in> set scs" for x
  proof -
    obtain y where y: "y \<in> set ss" "surcharge_in_target fx p ?d (py_sum (map (py_round 2) fcs)) y = Inr x"
      using mapM_res_set [OF g x] by blast
    then show ?thesis
      using in_target_nonneg [OF s surcharge_cost_nonneg [OF n y(1) base]] surcharge_cost_nonneg [OF n y(1) base]
      by (auto simp: surcharge_in_target_def split: if_splits)
  qed
  have m: "0 \<le> cp_markup_pct p" using n by (simp add: nonneg_inputs_def)
  from l obtain cat k descr vid i x where "l = priced_line p cat k descr vid i x" "is_flt x \<and> 0 \<le> x"
    unfolding cls by (auto dest!: numbered_lines_set dest: fr su)
  then show ?thesis using priced_line_margin [OF m] by blast
qed

lemma compare_carrier_total: "port s fx \<Longrightarrow> \<exists>x. compare_carrier fx today ids repo q k = Inr x"
  unfolding compare_carrier_def
  by (auto split: prod.split option.split)
    (metis charge_lines_total res_map_simps(2))

end

section \<open>Laws of the comparison\<close>

lemma compare_carrier_id: "compare_carrier fx today ids repo q k = Inr (Some i) \<Longrightarrow> ci_carrier_id i = k"
  by (auto simp: compare_carrier_def comparison_item_of_def Let_def res_simps
      split: prod.splits option.splits)

lemma somes_carriers:
  "mapM_res (compare_carrier fx today ids repo q) ks = Inr items \<Longrightarrow> distinct ks \<Longrightarrow>
    distinct (map ci_carrier_id (somes items)) \<and> ci_carrier_id ` set (somes items) \<subseteq> set ks"
proof (induction ks arbitrary: items)
  case (Cons k ks)
  then obtain x xs where x: "compare_carrier fx today ids repo q k = Inr x"
    and xs: "mapM_res (compare_carrier fx today ids repo q) ks = Inr xs" and items: "items = x # xs"
    by (auto simp: res_simps)
  with Cons have ih: "distinct (map ci_carrier_id (somes xs))" "ci_carrier_id ` set (somes xs) \<subseteq> set ks"
    by auto
  show ?case
  proof (cases x)
    case (Some i)
    then have "ci_carrier_id i = k" using x compare_carrier_id by blast
    then show ?thesis using ih Cons.prems(2) by (auto simp: items Some)
  qed (use ih items in auto)
qed simp

section \<open>Properties of the charge lines and the comparison\<close>

text \<open>
  C24: With a sound exchange-rate table (or none) and non-negative inputs the calculation never
  raises, yields one line per rate line and per surcharge, and no line is sold below its cost;
  costs are never negative.
\<close>

theorem sell_covers_cost:
  assumes "fx_ok rates" and "fx = None \<or> fx = Some (fx_of rates)" and "nonneg_inputs p ls ss"
  shows "\<exists>cls. calculate_freight_charge_lines fx today ids v ls ss p = Inr cls \<and>
    length cls = length ls + length ss \<and>
    (\<forall>l \<in> set cls. 0 \<le> ql_cost_amount l \<and> ql_cost_amount l \<le> ql_sell_amount l)"
proof -
  have s: "mem_fx.port rates fx" using assms(1,2) by (simp add: mem_fx.port_def)
  obtain cls where "calculate_freight_charge_lines fx today ids v ls ss p = Inr cls" "length cls = length ls + length ss"
    using mem_fx.charge_lines_total [OF s] by blast
  then show ?thesis using mem_fx.charge_lines_margin [OF s assms(3)] by blast
qed

text \<open>
  C35: The comparison of carriers succeeds with a sound exchange-rate table and, whatever the
  iteration order of the set of carriers, lists exactly one item for every carrier with an
  available rate for which a rate resolves, cheapest landed cost first.
\<close>

theorem comparison_sorted_complete:
  assumes "fx_ok rates" and "fx = None \<or> fx = Some (fx_of rates)" and "enumerates ord"
  shows "\<exists>items. compare_all_carriers_on_lane ord fx today ids repo q = Inr items \<and>
    sorted (map ci_total_landed_cost items) \<and> distinct (map ci_carrier_id items) \<and>
    set items = {i. \<exists>r \<in> set (find_rates repo (lq_origin_id q) (lq_destination_id q) (lq_effective_date q) None None).
      compare_carrier fx today ids repo q (rate_carrier_vendor_id r) = Inr (Some i)}"
proof -
  have s: "mem_fx.port rates fx" using assms(1,2) by (simp add: mem_fx.port_def)
  define ks where "ks = ord (map rate_carrier_vendor_id
    (find_rates repo (lq_origin_id q) (lq_destination_id q) (lq_effective_date q) None None))"
  obtain items where items: "mapM_res (compare_carrier fx today ids repo q) ks = Inr items"
    using mapM_res_total mem_fx.compare_carrier_total [OF s] by metis
  have ks: "distinct ks" "set ks = rate_carrier_vendor_id `
      set (find_rates repo (lq_origin_id q) (lq_destination_id q) (lq_effective_date q) None None)"
    using assms(3) by (simp_all add: ks_def enumerates_def)
  have "distinct (map ci_carrier_id (somes items))" using somes_carriers [OF items ks(1)] by blast
  then have "distinct (map ci_carrier_id (sort_key ci_total_landed_cost (somes items)))"
    by (simp add: distinct_map)
  moreover have "i \<in> set (somes items) \<longleftrightarrow> (\<exists>k \<in> set ks. compare_carrier fx today ids repo q k = Inr (Some i))" for i
    using mapM_res_set_iff [OF items] by (simp add: somes_set)
  ultimately show ?thesis
    using items by (auto simp: compare_all_carriers_on_lane_def Let_def ks_def [symmetric] ks(2))
qed

text \<open>Concrete inputs at which the hypotheses above hold.\<close>

definition sample_version :: rate_version where
  "sample_version = \<lparr>rv_rate_id = ''R1'', rv_version_number = 1, rv_modified_by = ''u'', rv_modified_date = 0,
     rv_reason = ''Initial'', rv_approval_status = version_approval_status.APPROVED,
     rv_lines = [\<lparr>rl_charge_code = ''FRT'', rl_rate_basis = ''PER_KG'', rl_amount = 2, rl_weight_break_from = Some 0,
       rl_weight_break_to = Some 100, rl_container_type_code = None, rl_rate_version_id = None, rl_id = ''L1''\<rparr>],
     rv_surcharges = [\<lparr>rs_charge_code = ''BAF'', rs_basis = ''PERCENTAGE'', rs_amount = 10,
       rs_applicable_from = 1, rs_applicable_to = 20, rs_rate_version_id = None, rs_id = ''S1''\<rparr>],
     rv_id = ''V1''\<rparr>"

definition sample_rate :: rate where
  "sample_rate = \<lparr>rate_rate_number = ''RN1'', rate_rate_type = ''BUY'', rate_rate_category = rate_category.FAK,
     rate_carrier_vendor_id = ''C1'', rate_service_name = ''S'', rate_origin_location_id = ''A'',
     rate_destination_location_id = ''B'', rate_effective_date = 1, rate_expiry_date = 30,
     rate_currency_code = ''EUR'', rate_status = rate_status.ACTIVE, rate_via_routing = [],
     rate_commodity_id = None, rate_customer_id = None, rate_versions = [sample_version], rate_id = ''R1''\<rparr>"

definition sample_params :: charge_params where
  "sample_params = \<lparr>cp_markup_pct = 15, cp_rate_currency = ''EUR'', cp_target_currency = ''USD'',
     cp_effective_date = Some 10, cp_weight_kg = 50, cp_volume_cbm = 1, cp_container_qty = 1\<rparr>"

lemma default_fx_ok: "fx_ok default_fx_rates"
proof -
  have pos: "0 < flit x" if "1 / 1000 \<le> x" for x
  proof -
    have "rnd (1 / 1000) \<le> rnd x" using that by (rule rnd_mono)
    moreover have "0 < rnd (1 / 1000)" by code_simp
    ultimately show ?thesis by (simp add: flit_def)
  qed
  show ?thesis by (auto simp: fx_ok_def default_fx_rates_def intro!: pos)
qed

lemma sample_nonneg: "nonneg_inputs sample_params (rv_lines sample_version) (rv_surcharges sample_version)"
  using is_flt_of_int [of 2] is_flt_of_int [of 10]
  by (simp add: nonneg_inputs_def sample_params_def sample_version_def)

lemma sample_resolution:
  "resolve_rate_for_lane [(''R1'', sample_rate)] ''K'' ''A'' ''B'' 10 (Some 50) None None (Some ''C1'') =
    (Some sample_rate, Some sample_version, rv_lines sample_version, rv_surcharges sample_version, ''Selected FAK rate RN1'')"
  by (simp add: resolve_rate_for_lane_def lane_rates_def find_rates_def rate_matches_def cascade_def
      candidates_def Let_def sample_rate_def sample_version_def current_version_def line_applies_def
      below_break_def surcharge_applies_def)

text \<open>
  The first candidate is not the best: of two FAK rates of one carrier on the lane, the one stored
  first is selected, though its only line costs three times as much and the surcharges are the same.
\<close>

definition dear_version :: rate_version where
  "dear_version = sample_version\<lparr>rv_lines := map (\<lambda>l. l\<lparr>rl_amount := 6\<rparr>) (rv_lines sample_version)\<rparr>"

definition dear_rate :: rate where
  "dear_rate = sample_rate\<lparr>rate_id := ''R0'', rate_rate_number := ''RN0'', rate_versions := [dear_version]\<rparr>"

theorem dearer_rate_selected:
  "resolve_rate_for_lane [(''R0'', dear_rate), (''R1'', sample_rate)] ''K'' ''A'' ''B'' 10 (Some 50) None None None =
      (Some dear_rate, Some dear_version, rv_lines dear_version, rv_surcharges dear_version, ''Selected FAK rate RN0'') \<and>
    candidates (lane_rates [(''R0'', dear_rate), (''R1'', sample_rate)] ''A'' ''B'' 10 None None) ''K'' rate_category.FAK =
      [dear_rate, sample_rate] \<and>
    map rl_amount (rv_lines dear_version) = [6] \<and> map rl_amount (rv_lines sample_version) = [2] \<and>
    rv_surcharges dear_version = rv_surcharges sample_version"
  by (simp add: resolve_rate_for_lane_def lane_rates_def find_rates_def rate_matches_def cascade_def
      candidates_def Let_def sample_rate_def sample_version_def dear_rate_def dear_version_def current_version_def
      line_applies_def below_break_def surcharge_applies_def)

theorem resolve_selects_least_usable_witness:
  "\<exists>cat. usable (lane_rates [(''R1'', sample_rate)] ''A'' ''B'' 10 None (Some ''C1'')) ''K'' cat sample_rate sample_version"
  using iffD1 [OF resolve_selects_least_usable sample_resolution] by blast

theorem resolved_rate_is_valid_witness:
  "rate_status sample_rate = rate_status.ACTIVE \<and> sample_version \<in> set (rate_versions sample_rate)"
  using resolved_rate_is_valid [OF sample_resolution] by blast

theorem sell_covers_cost_witness:
  "\<exists>cls. calculate_freight_charge_lines (Some (fx_of default_fx_rates)) 10 (\<lambda>i. ''id'') sample_version
    (rv_lines sample_version) (rv_surcharges sample_version) sample_params = Inr cls \<and> length cls = 2"
  using sell_covers_cost [OF default_fx_ok _ sample_nonneg, of "Some (fx_of default_fx_rates)" 10 "\<lambda>i. ''id''" sample_version]
  by (auto simp: sample_version_def)

definition sample_query :: lane_query where
  "sample_query = \<lparr>lq_customer_id = ''K'', lq_origin_id = ''A'', lq_destination_id = ''B'', lq_effective_date = 10,
     lq_weight_kg = 50, lq_volume_cbm = 1, lq_container_type = None, lq_container_qty = 1, lq_markup_pct = 15,
     lq_target_currency = ''USD''\<rparr>"

theorem comparison_sorted_complete_witness:
  "\<exists>items. compare_all_carriers_on_lane remdups (Some (fx_of default_fx_rates)) 10 (\<lambda>k i. ''id'')
    [(''R1'', sample_rate)] sample_query = Inr items \<and> sorted (map ci_total_landed_cost items)"
  using comparison_sorted_complete [OF default_fx_ok _ enumerates_remdups,
      of "Some (fx_of default_fx_rates)" 10 "\<lambda>k i. ''id''" "[(''R1'', sample_rate)]" sample_query]
  by blast

end
