(* ===== verification/Quotation_Engine.thy ===== *)
theory Quotation_Engine
  imports Repositories
begin

text \<open>
  \<open>app/modules/commercial/calculations/quotation_engine.py\<close>: the totals of a quotation option and
  the margin rules. \<open>evaluate_margin_rules\<close> is duck-typed: the quotation service calls it with the
  options and rules of \<open>domain/entities.py\<close>, the tests with this module's own classes. Options are
  those of the domain; a rule is an object of either class, and reading an attribute its class does
  not have raises \<open>AttributeError\<close>.
\<close>

section \<open>The module's own option class\<close>

record calc_charge_line =
  cl_description :: string
  cl_category :: charge_category
  cl_cost_amount :: flt
  cl_sell_amount :: flt
  cl_charge_code :: string
  cl_rate_version_id :: "string option"

record calc_option =
  copt_label :: string
  copt_charge_lines :: "calc_charge_line list"
  copt_route_id :: "string option"
  copt_primary_rate_version_id :: "string option"
  copt_currency_code :: string
  copt_is_below_margin :: bool

definition calc_total_cost :: "calc_option \<Rightarrow> flt" where
  "calc_total_cost q = py_round 2 (py_sum (map cl_cost_amount (copt_charge_lines q)))"

definition calc_total_sell :: "calc_option \<Rightarrow> flt" where
  "calc_total_sell q = py_round 2 (py_sum (map cl_sell_amount (copt_charge_lines q)))"

definition calc_gross_margin :: "calc_option \<Rightarrow> flt" where
  "calc_gross_margin q = py_round 2 (fsub (calc_total_sell q) (calc_total_cost q))"

definition calc_margin_pct :: "calc_option \<Rightarrow> flt" where
  "calc_margin_pct q = (if calc_total_sell q = 0 then 0
     else py_round 2 (fmul (fquot (calc_gross_margin q) (calc_total_sell q)) 100))"

definition build_quotation_option :: "string \<Rightarrow> calc_charge_line list \<Rightarrow> string \<Rightarrow> calc_option res" where
  "build_quotation_option label charge_lines currency_code =
    (if charge_lines = [] then Inl (ValueError ''A quotation option needs at least one charge line'')
     else Inr \<lparr>copt_label = label, copt_charge_lines = charge_lines, copt_route_id = None,
       copt_primary_rate_version_id = None, copt_currency_code = currency_code, copt_is_below_margin = False\<rparr>)"

section \<open>Margin rules\<close>

record engine_margin_rule =
  er_service_type :: string
  er_min_margin_pct :: "flt option"
  er_min_margin_amount :: "flt option"
  er_customer_tier_override_pct :: "(string, flt) dict"
  er_customer_tier_overrides :: "(string, flt) dict"
  er_lane_overrides :: "(string, flt) dict"

datatype rule_obj = Engine_Rule engine_margin_rule | Domain_Rule margin_rule

fun rule_service_type :: "rule_obj \<Rightarrow> string" where
  "rule_service_type (Engine_Rule r) = er_service_type r"
| "rule_service_type (Domain_Rule r) = mr_service_type r"

fun rule_min_margin_pct :: "rule_obj \<Rightarrow> flt option" where
  "rule_min_margin_pct (Engine_Rule r) = er_min_margin_pct r"
| "rule_min_margin_pct (Domain_Rule r) = mr_min_margin_pct r"

fun rule_min_margin_amount :: "rule_obj \<Rightarrow> flt option" where
  "rule_min_margin_amount (Engine_Rule r) = er_min_margin_amount r"
| "rule_min_margin_amount (Domain_Rule r) = mr_min_margin_amount r"

fun rule_lane_overrides :: "rule_obj \<Rightarrow> (string, flt) dict" where
  "rule_lane_overrides (Engine_Rule r) = er_lane_overrides r"
| "rule_lane_overrides (Domain_Rule r) = mr_lane_overrides r"

text \<open>\<open>rule.customer_tier_overrides or rule.customer_tier_override_pct\<close>.\<close>

fun tier_table :: "rule_obj \<Rightarrow> (string, flt) dict res" where
  "tier_table (Engine_Rule r) = Inr (if er_customer_tier_overrides r \<noteq> [] then er_customer_tier_overrides r
     else er_customer_tier_override_pct r)"
| "tier_table (Domain_Rule r) = (if mr_customer_tier_overrides r \<noteq> [] then Inr (mr_customer_tier_overrides r)
     else Inl (AttributeError ''customer_tier_override_pct''))"

definition lane_override :: "string option \<Rightarrow> rule_obj \<Rightarrow> flt option" where
  "lane_override lane_code r = (if truthy lane_code \<and> rule_lane_overrides r \<noteq> []
     then dget (rule_lane_overrides r) (the lane_code) else None)"

definition rule_min_pct :: "string option \<Rightarrow> string option \<Rightarrow> rule_obj \<Rightarrow> flt option res" where
  "rule_min_pct customer_tier lane_code r =
    (case lane_override lane_code r of
       Some p \<Rightarrow> Inr (Some p)
     | None \<Rightarrow> if truthy customer_tier then
         res_bind (tier_table r) (\<lambda>overrides. Inr (case dget overrides (the customer_tier) of
            Some p \<Rightarrow> Some p | None \<Rightarrow> rule_min_margin_pct r))
       else Inr (rule_min_margin_pct r))"

record margin_result =
  mres_passes :: bool
  mres_violations :: "string list"
  mres_effective_min_margin_pct :: "flt option"

text \<open>\<open>str(option.gross_margin)\<close>: the total of no lines is the integer 0.\<close>

definition gross_margin_text :: "quotation_option \<Rightarrow> string" where
  "gross_margin_text q = (if qo_charge_lines q = [] then ''0'' else frepr (gross_margin q))"

definition pct_violation :: "quotation_option \<Rightarrow> string \<Rightarrow> flt option \<Rightarrow> string list" where
  "pct_violation q service_type min_pct = (case min_pct of
     Some p \<Rightarrow> if margin_pct q < p then [''Margin '' @ frepr (margin_pct q) @ ''% is below minimum '' @ frepr p @
         ''% required for '' @ service_type] else []
   | None \<Rightarrow> [])"

definition amount_violation :: "quotation_option \<Rightarrow> string \<Rightarrow> flt option \<Rightarrow> string list" where
  "amount_violation q service_type min_amount = (case min_amount of
     Some a \<Rightarrow> if gross_margin q < a then [''Margin amount '' @ gross_margin_text q @ '' is below minimum '' @
         frepr a @ '' required for '' @ service_type] else []
   | None \<Rightarrow> [])"

fun margin_loop :: "quotation_option \<Rightarrow> string \<Rightarrow> string option \<Rightarrow> string option \<Rightarrow> string list \<Rightarrow> flt option \<Rightarrow>
    rule_obj list \<Rightarrow> (string list \<times> flt option) res" where
  "margin_loop q service_type tier lane violations eff [] = Inr (violations, eff)"
| "margin_loop q service_type tier lane violations eff (r # rs) =
    res_bind (rule_min_pct tier lane r) (\<lambda>min_pct.
      margin_loop q service_type tier lane
        (violations @ pct_violation q service_type min_pct @ amount_violation q service_type (rule_min_margin_amount r))
        (case min_pct of Some p \<Rightarrow> Some p | None \<Rightarrow> eff) rs)"

definition applicable_rules :: "string \<Rightarrow> rule_obj list \<Rightarrow> rule_obj list" where
  "applicable_rules service_type rules = filter (\<lambda>r. rule_service_type r \<in> {service_type, ''*''}) rules"

text \<open>The result, and the option with its flag \<open>is_below_margin\<close> set.\<close>

definition evaluate_margin_rules :: "quotation_option \<Rightarrow> string \<Rightarrow> rule_obj list \<Rightarrow> string option \<Rightarrow> string option \<Rightarrow>
    (margin_result \<times> quotation_option) res" where
  "evaluate_margin_rules q service_type rules customer_tier lane_code =
    res_bind (margin_loop q service_type customer_tier lane_code [] None (applicable_rules service_type rules))
      (\<lambda>(violations, eff). let passes = (length violations = 0) in
        Inr (\<lparr>mres_passes = passes, mres_violations = violations, mres_effective_min_margin_pct = eff\<rparr>,
             q\<lparr>qo_is_below_margin := \<not> passes\<rparr>))"

section \<open>Laws of the margin rules\<close>

text \<open>
  What a rule asks of an option: its percentage is the lane override, else the tier override, else
  the rule's own minimum.
\<close>

fun tier_entries :: "rule_obj \<Rightarrow> (string, flt) dict" where
  "tier_entries (Engine_Rule r) = (if er_customer_tier_overrides r = [] then er_customer_tier_override_pct r
     else er_customer_tier_overrides r)"
| "tier_entries (Domain_Rule r) = mr_customer_tier_overrides r"

definition override_for :: "string option \<Rightarrow> (string, flt) dict \<Rightarrow> flt list" where
  "override_for k d = (if truthy k then (case dget d (the k) of None \<Rightarrow> [] | Some p \<Rightarrow> [p]) else [])"

text \<open>The demanded percentages of a rule in order of precedence; the first one counts.\<close>

definition demanded :: "string option \<Rightarrow> string option \<Rightarrow> rule_obj \<Rightarrow> flt list" where
  "demanded tier lane r = override_for lane (rule_lane_overrides r) @ override_for tier (tier_entries r) @
     (case rule_min_margin_pct r of None \<Rightarrow> [] | Some p \<Rightarrow> [p])"

definition rule_met :: "quotation_option \<Rightarrow> string option \<Rightarrow> string option \<Rightarrow> rule_obj \<Rightarrow> bool" where
  "rule_met q tier lane r \<longleftrightarrow>
    (demanded tier lane r \<noteq> [] \<longrightarrow> hd (demanded tier lane r) \<le> margin_pct q) \<and>
    (\<forall>a. rule_min_margin_amount r = Some a \<longrightarrow> a \<le> gross_margin q)"

lemma tier_table_entries: "tier_table r = Inr d \<Longrightarrow> d = tier_entries r"
  by (cases r) (auto split: if_splits)

lemma rule_min_pct_demanded:
  "rule_min_pct tier lane r = Inr m \<Longrightarrow> m = (case demanded tier lane r of [] \<Rightarrow> None | p # ps \<Rightarrow> Some p)"
  by (auto simp: rule_min_pct_def demanded_def override_for_def lane_override_def res_simps
      dest!: tier_table_entries split: option.splits if_splits)

lemma violations_Nil:
  "pct_violation q s m = [] \<longleftrightarrow> (\<forall>p. m = Some p \<longrightarrow> p \<le> margin_pct q)"
  "amount_violation q s a = [] \<longleftrightarrow> (\<forall>x. a = Some x \<longrightarrow> x \<le> gross_margin q)"
  by (auto simp: pct_violation_def amount_violation_def split: option.splits)

lemma margin_loop_violations:
  "margin_loop q s tier lane vs eff rs = Inr (ws, eff') \<Longrightarrow>
    ws = [] \<longleftrightarrow> vs = [] \<and> (\<forall>r \<in> set rs. rule_met q tier lane r)"
proof (induction rs arbitrary: vs eff)
  case (Cons r rs)
  then obtain m where m: "rule_min_pct tier lane r = Inr m" by (auto simp: res_simps)
  from rule_min_pct_demanded [OF m]
  have d: "demanded tier lane r \<noteq> [] \<longleftrightarrow> m \<noteq> None" "m = Some p \<Longrightarrow> hd (demanded tier lane r) = p" for p
    by (auto split: list.splits)
  with Cons m show ?case by (auto simp: violations_Nil rule_met_def)
qed simp

lemma margin_loop_raises:
  "margin_loop q s tier lane vs eff rs = Inl e \<longleftrightarrow> (\<exists>r \<in> set rs. \<exists>e. rule_min_pct tier lane r = Inl e) \<and>
    e = AttributeError ''customer_tier_override_pct''"
proof (induction rs arbitrary: vs eff)
  case (Cons r rs)
  have *: "rule_min_pct tier lane r = Inl e' \<Longrightarrow> e' = AttributeError ''customer_tier_override_pct''" for e'
    by (cases r) (auto simp: rule_min_pct_def res_simps split: option.splits if_splits)
  show ?case
  proof (cases "rule_min_pct tier lane r")
    case (Inl e')
    then show ?thesis using * by auto
  next
    case (Inr m)
    then show ?thesis by (simp add: Cons.IH)
  qed
qed simp

text \<open>The rules for which a tier lookup raises.\<close>

definition tier_lookup_fails :: "string option \<Rightarrow> string option \<Rightarrow> rule_obj \<Rightarrow> bool" where
  "tier_lookup_fails tier lane r \<longleftrightarrow> truthy tier \<and> lane_override lane r = None \<and>
    (case r of Domain_Rule m \<Rightarrow> mr_customer_tier_overrides m = [] | _ \<Rightarrow> False)"

lemma rule_min_pct_raises: "(\<exists>e. rule_min_pct tier lane r = Inl e) \<longleftrightarrow> tier_lookup_fails tier lane r"
  by (cases r) (auto simp: rule_min_pct_def tier_lookup_fails_def split: option.splits)

lemma evaluate_Inr:
  "evaluate_margin_rules q s rules tier lane = Inr (res, q') \<Longrightarrow>
    (mres_passes res \<longleftrightarrow> (\<forall>r \<in> set (applicable_rules s rules). rule_met q tier lane r)) \<and>
    (mres_passes res \<longleftrightarrow> mres_violations res = []) \<and> q' = q\<lparr>qo_is_below_margin := \<not> mres_passes res\<rparr>"
  using margin_loop_violations [of q s tier lane "[]" None "applicable_rules s rules"]
  by (fastforce simp: evaluate_margin_rules_def res_simps Let_def)

lemma evaluate_raises:
  "evaluate_margin_rules q s rules tier lane = Inl e \<longleftrightarrow>
    e = AttributeError ''customer_tier_override_pct'' \<and>
    (\<exists>r \<in> set (applicable_rules s rules). tier_lookup_fails tier lane r)"
  by (auto simp: evaluate_margin_rules_def res_simps Let_def margin_loop_raises rule_min_pct_raises)

text \<open>The outcome of an evaluation depends only on the lines of the option, not on its flag.\<close>

lemma margin_pct_flag [simp]:
  "margin_pct (q\<lparr>qo_is_below_margin := b\<rparr>) = margin_pct q"
  "gross_margin (q\<lparr>qo_is_below_margin := b\<rparr>) = gross_margin q"
  "total_sell (q\<lparr>qo_is_below_margin := b\<rparr>) = total_sell q"
  "total_cost (q\<lparr>qo_is_below_margin := b\<rparr>) = total_cost q"
  by (simp_all add: margin_pct_def gross_margin_def total_sell_def total_cost_def)

section \<open>Properties of the margin rules\<close>

text \<open>
  C11: When the evaluation returns, an option passes exactly when it meets every applicable rule
  (those of the service type or of the wildcard): its margin percentage reaches the lane override,
  failing that the tier override, failing that the rule's minimum, and its gross margin the minimum
  amount. The violations are listed exactly when it fails, and the flag of the option is set
  exactly then.
\<close>

theorem margin_evaluation_exact:
  assumes "evaluate_margin_rules q s rules tier lane = Inr (res, q')"
  shows "(mres_passes res \<longleftrightarrow> (\<forall>r \<in> set rules. rule_service_type r \<in> {s, ''*''} \<longrightarrow> rule_met q tier lane r)) \<and>
    (mres_passes res \<longleftrightarrow> mres_violations res = []) \<and> q' = q\<lparr>qo_is_below_margin := \<not> mres_passes res\<rparr>"
  using evaluate_Inr [OF assms] by (auto simp: applicable_rules_def)

text \<open>
  The evaluation raises exactly when some applicable rule of the domain's class has no tier
  overrides, a customer tier is given and no lane override hits: the fallback attribute
  \<open>customer_tier_override_pct\<close> exists in this module's rule class only. Nothing else makes it raise.
\<close>

theorem margin_evaluation_raises_iff:
  "(\<exists>e. evaluate_margin_rules q s rules tier lane = Inl e) \<longleftrightarrow>
    (\<exists>m. Domain_Rule m \<in> set rules \<and> mr_service_type m \<in> {s, ''*''} \<and> truthy tier \<and>
      lane_override lane (Domain_Rule m) = None \<and> mr_customer_tier_overrides m = [])"
proof -
  have "tier_lookup_fails tier lane r \<longleftrightarrow> truthy tier \<and> lane_override lane r = None \<and>
      (\<exists>m. r = Domain_Rule m \<and> mr_customer_tier_overrides m = [])" for r
    by (cases r) (simp_all add: tier_lookup_fails_def)
  then show ?thesis by (fastforce simp: evaluate_raises applicable_rules_def)
qed

definition sample_ql :: quotation_line where
  "sample_ql = \<lparr>ql_charge_code = ''FRT'', ql_category = charge_category.FREIGHT, ql_cost_amount = 100,
     ql_sell_amount = 110, ql_description = ''F'', ql_rate_version_id = None, ql_quotation_option_id = None,
     ql_id = ''L''\<rparr>"

definition sample_option :: quotation_option where
  "sample_option = \<lparr>qo_label = ''Opt'', qo_charge_lines = [sample_ql], qo_route_id = None,
     qo_primary_rate_version_id = None, qo_currency_code = ''USD'', qo_is_below_margin = False,
     qo_quotation_id = None, qo_id = ''O''\<rparr>"

definition sample_rule :: rule_obj where
  "sample_rule = Domain_Rule \<lparr>mr_service_type = ''FCL'', mr_min_margin_pct = Some 5, mr_min_margin_amount = None,
     mr_customer_tier_overrides = [(''A'', 20)], mr_lane_overrides = [(''X-Y'', 3)], mr_id = ''M''\<rparr>"

lemma sample_margin: "margin_pct sample_option = flit (909 / 100)"
  by code_simp

lemma sample_evaluation:
  "\<exists>vs. evaluate_margin_rules sample_option ''FCL'' [sample_rule] (Some ''A'') None =
    Inr (\<lparr>mres_passes = False, mres_violations = vs, mres_effective_min_margin_pct = Some 20\<rparr>,
      sample_option\<lparr>qo_is_below_margin := True\<rparr>)"
proof -
  have "margin_pct sample_option < 20" by code_simp
  then show ?thesis
    by (auto simp: evaluate_margin_rules_def applicable_rules_def sample_rule_def rule_min_pct_def
      lane_override_def pct_violation_def amount_violation_def)
qed

theorem margin_evaluation_exact_witness:
  "\<not> rule_met sample_option (Some ''A'') None sample_rule"
proof -
  obtain vs where e: "evaluate_margin_rules sample_option ''FCL'' [sample_rule] (Some ''A'') None =
    Inr (\<lparr>mres_passes = False, mres_violations = vs, mres_effective_min_margin_pct = Some 20\<rparr>,
      sample_option\<lparr>qo_is_below_margin := True\<rparr>)"
    using sample_evaluation by blast
  from margin_evaluation_exact [OF e] show ?thesis by (simp add: sample_rule_def)
qed

end
