(* ===== verification/Quotation_Service.thy ===== *)
theory Quotation_Service
  imports Quotation_Engine
begin

text \<open>
  \<open>domain/services/quotation_service.py\<close>: generation of a quotation with its required approvals,
  revision, release to the customer, and the context of the printed document. An operation returns
  its result or exception together with the state of the quotation repository, which a failing
  operation may already have changed. Identities and clock readings are arguments. The lifecycle of
  the quotations is the step relation of the last section.
\<close>

section \<open>Generation\<close>

text \<open>Identities drawn for a new quotation and for its approvals, in order.\<close>

record fresh_ids =
  fid_quotation :: string
  fid_approval :: "nat \<Rightarrow> string"

type_synonym rules_engine = "string \<Rightarrow> rule_obj list"

definition margin_rules_for :: "rules_engine option \<Rightarrow> string \<Rightarrow> rule_obj list option \<Rightarrow> rule_obj list" where
  "margin_rules_for engine service_type margin_rules =
    (let rules = (case margin_rules of None \<Rightarrow> [] | Some rs \<Rightarrow> rs)
     in if rules = [] then (case engine of Some get \<Rightarrow> get service_type | None \<Rightarrow> rules) else rules)"

text \<open>
  The loop over the options: the options with their flags, and whether one of them failed. The
  assignment \<open>opt.is_below_margin = True\<close> repeats what the evaluation has set.
\<close>

fun evaluate_options :: "string \<Rightarrow> rule_obj list \<Rightarrow> string option \<Rightarrow> string option \<Rightarrow> bool \<Rightarrow>
    quotation_option list \<Rightarrow> (bool \<times> quotation_option list) res" where
  "evaluate_options s rules tier lane requires [] = Inr (requires, [])"
| "evaluate_options s rules tier lane requires (q # qs) =
    res_bind (evaluate_margin_rules q s rules tier lane) (\<lambda>(res, q').
      let (q', requires) = (if \<not> mres_passes res then (q'\<lparr>qo_is_below_margin := True\<rparr>, True) else (q', requires))
      in res_bind (evaluate_options s rules tier lane requires qs) (\<lambda>(b, qs'). Inr (b, q' # qs')))"

definition approval :: "fresh_ids \<Rightarrow> nat \<Rightarrow> string \<Rightarrow> string \<Rightarrow> quotation_approval" where
  "approval ids n approval_type approver_role = \<lparr>qa_quotation_id = fid_quotation ids,
     qa_approval_type = approval_type, qa_approver_role = approver_role, qa_status = ''PENDING'',
     qa_approved_by = None, qa_approved_at = None, qa_id = fid_approval ids n\<rparr>"

definition max_sell :: "quotation_option list \<Rightarrow> flt" where
  "max_sell qs = total_sell (max_by total_sell (hd qs) (tl qs))"

definition dgr_shipment :: "rfq \<Rightarrow> bool" where
  "dgr_shipment r = (case rfq_special_requirement r of None \<Rightarrow> False | Some x \<Rightarrow> rsr_dgr_flag x)"

definition required_approvals :: "fresh_ids \<Rightarrow> bool \<Rightarrow> quotation_option list \<Rightarrow> rfq \<Rightarrow> quotation_approval list" where
  "required_approvals ids requires_margin_approval opts r =
    (let approvals = (if requires_margin_approval then [approval ids 0 ''BELOW_MARGIN'' ''PRICING_MANAGER''] else []);
         approvals = (if 50000 < max_sell opts
           then approvals @ [approval ids (length approvals) ''HIGH_VALUE'' ''FINANCE_CONTROLLER''] else approvals)
     in if dgr_shipment r then approvals @ [approval ids (length approvals) ''DGR_COMPLIANCE'' ''COMPLIANCE_DGR'']
        else approvals)"

definition lane_code :: "rfq \<Rightarrow> string" where
  "lane_code r = rfq_origin_location_id r @ ''-'' @ rfq_destination_location_id r"

definition quotation_number_for :: "rfq \<Rightarrow> date \<Rightarrow> string" where
  "quotation_number_for r today = ''QT-'' @ py_delete ''RFQ-'' (rfq_rfq_number r) @ ''-'' @ fmt_yymmdd today"

definition build_quotation :: "rules_engine option \<Rightarrow> fresh_ids \<Rightarrow> rfq \<Rightarrow> quotation_option list \<Rightarrow> int \<Rightarrow>
    rule_obj list option \<Rightarrow> string option \<Rightarrow> date \<Rightarrow> quotation res" where
  "build_quotation engine ids r options validity_days margin_rules customer_tier today =
    (if options = [] then Inl (ValueError ''At least one quotation option is required to generate a quotation'')
     else res_bind (date_add today validity_days) (\<lambda>expiry_date.
       let service_type = rfq_service_type_value (rfq_service_type r);
           rules = margin_rules_for engine service_type margin_rules
       in res_bind (evaluate_options service_type rules customer_tier (Some (lane_code r)) False options)
         (\<lambda>(requires_margin_approval, options).
           let approvals = required_approvals ids requires_margin_approval options r
           in Inr \<lparr>quo_quotation_number = quotation_number_for r today, quo_rfq_id = rfq_id r,
                quo_expiry_date = expiry_date,
                quo_status = (if approvals \<noteq> [] then quotation_status.PENDING_APPROVAL else quotation_status.APPROVED),
                quo_parent_quotation_id = None, quo_sent_at = None, quo_options = options,
                quo_approvals = approvals, quo_id = fid_quotation ids\<rparr>)))"

text \<open>\<open>clock\<close> is the day read when the caller passes no date.\<close>

definition generate_quotation :: "rules_engine option \<Rightarrow> date \<Rightarrow> fresh_ids \<Rightarrow> rfq \<Rightarrow> quotation_option list \<Rightarrow> int \<Rightarrow>
    rule_obj list option \<Rightarrow> string option \<Rightarrow> date option \<Rightarrow> quotation_repo \<Rightarrow> quotation res \<times> quotation_repo" where
  "generate_quotation engine clock ids r options validity_days margin_rules customer_tier today repo =
    (let today = (case today of None \<Rightarrow> clock | Some d \<Rightarrow> d)
     in case build_quotation engine ids r options validity_days margin_rules customer_tier today of
          Inl e \<Rightarrow> (Inl e, repo)
        | Inr q \<Rightarrow> (Inr q, save_quotation q repo))"

section \<open>Revision and release\<close>

definition revise_quotation :: "rules_engine option \<Rightarrow> date \<Rightarrow> fresh_ids \<Rightarrow> string \<Rightarrow> quotation_option list \<Rightarrow> rfq \<Rightarrow>
    rule_obj list option \<Rightarrow> string option \<Rightarrow> date option \<Rightarrow> quotation_repo \<Rightarrow> quotation res \<times> quotation_repo" where
  "revise_quotation engine clock ids parent_quotation_id new_options r margin_rules customer_tier today repo =
    (case get_quotation_by_id repo parent_quotation_id of
       None \<Rightarrow> (Inl (ValueError (''Parent quotation '' @ parent_quotation_id @ '' not found'')), repo)
     | Some parent \<Rightarrow>
         (let parent = parent\<lparr>quo_status := quotation_status.REVISED\<rparr>;
              repo = save_quotation parent repo
          in case generate_quotation engine clock ids r new_options 14 margin_rules customer_tier today repo of
               (Inl e, repo) \<Rightarrow> (Inl e, repo)
             | (Inr revised, repo) \<Rightarrow>
                 (let revised = revised\<lparr>quo_parent_quotation_id := Some (quo_id parent)\<rparr>
                  in (Inr revised, save_quotation revised repo))))"

definition send_to_customer :: "datetime \<Rightarrow> string \<Rightarrow> quotation_repo \<Rightarrow> quotation res \<times> quotation_repo" where
  "send_to_customer now quotation_id repo =
    (case get_quotation_by_id repo quotation_id of
       None \<Rightarrow> (Inl (ValueError (''Quotation '' @ quotation_id @ '' not found'')), repo)
     | Some quote \<Rightarrow>
         if filter (\<lambda>a. qa_status a \<noteq> ''APPROVED'') (quo_approvals quote) \<noteq> []
         then (Inl (ValueError ''Cannot send quotation to customer: pending approvals required''), repo)
         else (let quote = quote\<lparr>quo_status := quotation_status.SENT_TO_CUSTOMER, quo_sent_at := Some now\<rparr>
               in (Inr quote, save_quotation quote repo)))"

section \<open>Document context\<close>

record pdf_line =
  pl_description :: string
  pl_category :: string
  pl_cost_amount :: flt
  pl_sell_amount :: flt

record pdf_option =
  po_label :: string
  po_currency :: string
  po_total_cost :: flt
  po_total_sell :: flt
  po_gross_margin :: flt
  po_margin_pct :: flt
  po_charge_lines :: "pdf_line list"

record pdf_context =
  pdf_quotation_number :: string
  pdf_expiry_date :: string
  pdf_customer_name :: string
  pdf_customer_code :: string
  pdf_origin :: string
  pdf_destination :: string
  pdf_mode :: string
  pdf_service_type :: string
  pdf_incoterm :: string
  pdf_options :: "pdf_option list"

text \<open>The three constant texts of the context (company name, tag line, terms) are left out.\<close>

definition build_pdf_context :: "quotation \<Rightarrow> rfq \<Rightarrow> customer \<Rightarrow> pdf_context" where
  "build_pdf_context q r c = \<lparr>pdf_quotation_number = quo_quotation_number q,
     pdf_expiry_date = isoformat (quo_expiry_date q), pdf_customer_name = cust_name c,
     pdf_customer_code = cust_customer_code c, pdf_origin = rfq_origin_location_id r,
     pdf_destination = rfq_destination_location_id r, pdf_mode = rfq_mode_value (rfq_mode r),
     pdf_service_type = rfq_service_type_value (rfq_service_type r), pdf_incoterm = rfq_incoterm_code r,
     pdf_options = map (\<lambda>opt. \<lparr>po_label = qo_label opt, po_currency = qo_currency_code opt,
       po_total_cost = total_cost opt, po_total_sell = total_sell opt, po_gross_margin = gross_margin opt,
       po_margin_pct = margin_pct opt,
       po_charge_lines = map (\<lambda>l. \<lparr>pl_description = (if ql_description l \<noteq> [] then ql_description l else ql_charge_code l),
         pl_category = charge_category_value (ql_category l), pl_cost_amount = ql_cost_amount l,
         pl_sell_amount = ql_sell_amount l\<rparr>) (qo_charge_lines opt)\<rparr>) (quo_options q)\<rparr>"

section \<open>Laws of the operations\<close>

definition meets_rules :: "string \<Rightarrow> rule_obj list \<Rightarrow> string option \<Rightarrow> string option \<Rightarrow> quotation_option \<Rightarrow> bool" where
  "meets_rules s rules tier lane q \<longleftrightarrow> (\<forall>r \<in> set (applicable_rules s rules). rule_met q tier lane r)"

definition flag_option :: "string \<Rightarrow> rule_obj list \<Rightarrow> string option \<Rightarrow> string option \<Rightarrow> quotation_option \<Rightarrow> quotation_option" where
  "flag_option s rules tier lane q = q\<lparr>qo_is_below_margin := \<not> meets_rules s rules tier lane q\<rparr>"

lemma flag_option_simps [simp]:
  "total_sell (flag_option s rules tier lane q) = total_sell q"
  "qo_is_below_margin (flag_option s rules tier lane q) \<longleftrightarrow> \<not> meets_rules s rules tier lane q"
  by (simp_all add: flag_option_def)

lemma evaluate_options_Inr:
  "evaluate_options s rules tier lane requires qs = Inr (b, qs') \<Longrightarrow>
    qs' = map (flag_option s rules tier lane) qs \<and>
    (b \<longleftrightarrow> requires \<or> (\<exists>q \<in> set qs. \<not> meets_rules s rules tier lane q))"
proof (induction qs arbitrary: requires b qs')
  case (Cons q qs)
  from Cons.prems obtain res q' where e: "evaluate_margin_rules q s rules tier lane = Inr (res, q')"
    by (auto simp: res_simps)
  from evaluate_Inr [OF this] have p: "mres_passes res = meets_rules s rules tier lane q"
    "q' = q\<lparr>qo_is_below_margin := \<not> meets_rules s rules tier lane q\<rparr>"
    by (simp_all add: meets_rules_def)
  from Cons.prems obtain qs'' where r: "evaluate_options s rules tier lane
      (requires \<or> \<not> meets_rules s rules tier lane q) qs = Inr (b, qs'')"
    and qs': "qs' = flag_option s rules tier lane q # qs''"
    by (auto simp: e p res_simps flag_option_def split: if_splits)
  from Cons.IH [OF r] qs' show ?case by auto
qed simp

lemma max_sell_above: "qs \<noteq> [] \<Longrightarrow> x < max_sell qs \<longleftrightarrow> (\<exists>q \<in> set qs. x < total_sell q)"
proof
  assume "qs \<noteq> []" then obtain q ys where qs: "qs = q # ys" by (cases qs) auto
  show "\<exists>q \<in> set qs. x < total_sell q" if "x < max_sell qs"
    using that max_by_mem [of total_sell q ys] by (auto simp: qs max_sell_def)
  show "x < max_sell qs" if h: "\<exists>q \<in> set qs. x < total_sell q"
  proof -
    from h obtain z where "z \<in> set (q # ys)" "x < total_sell z" using qs by auto
    then show ?thesis
      using max_by_ge [of z q ys total_sell] by (simp add: qs max_sell_def)
  qed
qed

lemma approval_types:
  "map qa_approval_type (required_approvals ids m opts r) =
    (if m then [''BELOW_MARGIN''] else []) @ (if 50000 < max_sell opts then [''HIGH_VALUE''] else []) @
    (if dgr_shipment r then [''DGR_COMPLIANCE''] else [])"
  by (simp add: required_approvals_def approval_def Let_def)

lemma approvals_pending:
  "a \<in> set (required_approvals ids m opts r) \<Longrightarrow> qa_status a = ''PENDING'' \<and> qa_quotation_id a = fid_quotation ids"
  by (auto simp: required_approvals_def approval_def Let_def split: if_splits)

text \<open>What a returned quotation looks like.\<close>

lemma build_quotation_Inr:
  assumes "build_quotation engine ids r opts days rules tier today = Inr q"
  defines "rs \<equiv> margin_rules_for engine (rfq_service_type_value (rfq_service_type r)) rules"
  defines "meets \<equiv> meets_rules (rfq_service_type_value (rfq_service_type r)) rs tier (Some (lane_code r))"
  shows "opts \<noteq> []" "quo_id q = fid_quotation ids" "quo_rfq_id q = rfq_id r"
    "quo_expiry_date q = today + days" "quo_parent_quotation_id q = None" "quo_sent_at q = None"
    "quo_options q = map (\<lambda>o'. o'\<lparr>qo_is_below_margin := \<not> meets o'\<rparr>) opts"
    "quo_approvals q = required_approvals ids (\<exists>o' \<in> set opts. \<not> meets o') (quo_options q) r"
    "quo_status q = (if quo_approvals q \<noteq> [] then quotation_status.PENDING_APPROVAL else quotation_status.APPROVED)"
proof -
  from assms(1) obtain b os where ne: "opts \<noteq> []"
    and e: "evaluate_options (rfq_service_type_value (rfq_service_type r)) rs tier (Some (lane_code r)) False opts = Inr (b, os)"
    and d: "date_add today days = Inr (today + days)"
    and q: "q = \<lparr>quo_quotation_number = quotation_number_for r today, quo_rfq_id = rfq_id r,
        quo_expiry_date = today + days,
        quo_status = (if required_approvals ids b os r \<noteq> [] then quotation_status.PENDING_APPROVAL else quotation_status.APPROVED),
        quo_parent_quotation_id = None, quo_sent_at = None, quo_options = os,
        quo_approvals = required_approvals ids b os r, quo_id = fid_quotation ids\<rparr>"
    by (auto simp: build_quotation_def res_simps rs_def Let_def date_add_def split: if_splits)
  from evaluate_options_Inr [OF e]
  have os: "os = map (\<lambda>o'. o'\<lparr>qo_is_below_margin := \<not> meets o'\<rparr>) opts" and b: "b = (\<exists>o' \<in> set opts. \<not> meets o')"
    by (simp_all add: meets_def flag_option_def [abs_def])
  show "opts \<noteq> []" by (rule ne)
  show "quo_id q = fid_quotation ids" "quo_rfq_id q = rfq_id r" "quo_expiry_date q = today + days"
    "quo_parent_quotation_id q = None" "quo_sent_at q = None"
    by (simp_all add: q)
  show "quo_options q = map (\<lambda>o'. o'\<lparr>qo_is_below_margin := \<not> meets o'\<rparr>) opts" by (simp add: q os)
  show "quo_approvals q = required_approvals ids (\<exists>o' \<in> set opts. \<not> meets o') (quo_options q) r" by (simp add: q b)
  show "quo_status q = (if quo_approvals q \<noteq> [] then quotation_status.PENDING_APPROVAL else quotation_status.APPROVED)"
    by (simp add: q)
qed

lemma generate_cases:
  "generate_quotation engine clock ids r opts days rules tier today repo = (Inr q, repo') \<longleftrightarrow>
    build_quotation engine ids r opts days rules tier (case today of None \<Rightarrow> clock | Some d \<Rightarrow> d) = Inr q \<and>
    repo' = save_quotation q repo"
  "generate_quotation engine clock ids r opts days rules tier today repo = (Inl e, repo') \<longleftrightarrow>
    build_quotation engine ids r opts days rules tier (case today of None \<Rightarrow> clock | Some d \<Rightarrow> d) = Inl e \<and>
    repo' = repo"
  by (auto simp: generate_quotation_def Let_def split: sum.splits)

lemma send_cases:
  "send_to_customer now i repo = (Inr q, repo') \<longleftrightarrow>
    (\<exists>q0. get_quotation_by_id repo i = Some q0 \<and> (\<forall>a \<in> set (quo_approvals q0). qa_status a = ''APPROVED'') \<and>
      q = q0\<lparr>quo_status := quotation_status.SENT_TO_CUSTOMER, quo_sent_at := Some now\<rparr> \<and> repo' = save_quotation q repo)"
  "send_to_customer now i repo = (Inl e, repo') \<Longrightarrow> repo' = repo"
  by (auto simp: send_to_customer_def Let_def filter_empty_conv split: option.splits if_splits)

lemma revise_cases:
  "get_quotation_by_id repo i = Some p \<Longrightarrow>
    revise_quotation engine clock ids i opts r rules tier today repo = (Inr q, repo') \<longleftrightarrow>
      (\<exists>q0. generate_quotation engine clock ids r opts 14 rules tier today
          (save_quotation (p\<lparr>quo_status := quotation_status.REVISED\<rparr>) repo) =
          (Inr q0, save_quotation q0 (save_quotation (p\<lparr>quo_status := quotation_status.REVISED\<rparr>) repo)) \<and>
        q = q0\<lparr>quo_parent_quotation_id := Some (quo_id p)\<rparr> \<and>
        repo' = save_quotation q (save_quotation q0 (save_quotation (p\<lparr>quo_status := quotation_status.REVISED\<rparr>) repo)))"
  "get_quotation_by_id repo i = Some p \<Longrightarrow>
    revise_quotation engine clock ids i opts r rules tier today repo = (Inl e, repo') \<Longrightarrow>
      repo' = save_quotation (p\<lparr>quo_status := quotation_status.REVISED\<rparr>) repo"
  "get_quotation_by_id repo i = None \<Longrightarrow>
    revise_quotation engine clock ids i opts r rules tier today repo = (res, repo') \<Longrightarrow> repo' = repo \<and> (\<exists>e. res = Inl e)"
  by (auto simp: revise_quotation_def Let_def generate_cases split: prod.splits sum.splits option.splits)

section \<open>Properties of the operations\<close>

text \<open>
  C17: Of the three kinds of approval the code knows, a generated quotation demands exactly those its
  content calls for: a margin approval
  if and only if some option misses a margin rule, a finance approval if and only if some option
  sells above 50000, a compliance approval if and only if the cargo is dangerous. All of them start
  pending; the quotation is approved at once exactly when there is none. It is stored under its new
  identity, expires after the validity period, keeps the options in order with their margin flags,
  and no other stored quotation changes. This is what the code demands. The requirements (SRS 8.4,
  plan 3.5) ask for more: the status BELOW_MARGIN when a margin rule fails, where the code sets
  PENDING_APPROVAL, and reviews of new or high-risk customers and of manual price overrides, kinds of
  approval that the entity names and no code demands.
\<close>

theorem generated_approvals_exact:
  assumes "generate_quotation engine clock ids r opts days rules tier (Some today) repo = (Inr q, repo')"
  defines "meets \<equiv> meets_rules (rfq_service_type_value (rfq_service_type r))
    (margin_rules_for engine (rfq_service_type_value (rfq_service_type r)) rules) tier (Some (lane_code r))"
  shows "map qa_approval_type (quo_approvals q) =
      (if \<exists>o' \<in> set opts. \<not> meets o' then [''BELOW_MARGIN''] else []) @
      (if \<exists>o' \<in> set opts. 50000 < total_sell o' then [''HIGH_VALUE''] else []) @
      (if dgr_shipment r then [''DGR_COMPLIANCE''] else []) \<and>
    (\<forall>a \<in> set (quo_approvals q). qa_status a = ''PENDING'' \<and> qa_quotation_id a = quo_id q) \<and>
    quo_status q = (if quo_approvals q = [] then quotation_status.APPROVED else quotation_status.PENDING_APPROVAL) \<and>
    quo_expiry_date q = today + days \<and>
    quo_options q = map (\<lambda>o'. o'\<lparr>qo_is_below_margin := \<not> meets o'\<rparr>) opts \<and>
    (\<forall>i. get_quotation_by_id repo' i = (if i = fid_quotation ids then Some q else get_quotation_by_id repo i))"
proof -
  from assms(1) have b: "build_quotation engine ids r opts days rules tier today = Inr q"
    and repo': "repo' = save_quotation q repo" by (simp_all add: generate_cases)
  note f = build_quotation_Inr [OF b, folded meets_def]
  have "quo_options q \<noteq> []" using f(1,7) by simp
  then have "50000 < max_sell (quo_options q) \<longleftrightarrow> (\<exists>o' \<in> set opts. 50000 < total_sell o')"
    using max_sell_above by (simp add: f(7))
  then show ?thesis
    using f(2,4,9) by (auto simp: f(7,8) approval_types approvals_pending repo' get_quotation_by_id_def
        save_quotation_def dget_dset dest: approvals_pending)
qed

text \<open>
  A revision marks its parent REVISED whether or not the new quotation can be generated; only
  the parent and the new quotation change. On success the new quotation names its parent and is
  stored; on failure the parent stays REVISED without a successor.
\<close>

theorem revision_marks_parent:
  assumes inv: "quotation_repo_inv repo" and p: "get_quotation_by_id repo i = Some p" and fresh: "fid_quotation ids \<noteq> i"
    and run: "revise_quotation engine clock ids i opts r rules tier today repo = (res, repo')"
  shows "get_quotation_by_id repo' i = Some (p\<lparr>quo_status := quotation_status.REVISED\<rparr>) \<and>
    (\<forall>k. k \<noteq> i \<and> k \<noteq> fid_quotation ids \<longrightarrow> get_quotation_by_id repo' k = get_quotation_by_id repo k) \<and>
    get_quotation_by_id repo' (fid_quotation ids) =
      (case res of Inr q \<Rightarrow> Some q | Inl _ \<Rightarrow> get_quotation_by_id repo (fid_quotation ids)) \<and>
    (\<forall>q. res = Inr q \<longrightarrow> quo_parent_quotation_id q = Some i)"
proof -
  have pid: "quo_id p = i" using quotation_store.find_key [OF inv p] .
  let ?p = "p\<lparr>quo_status := quotation_status.REVISED\<rparr>"
  show ?thesis
  proof (cases res)
    case (Inl e)
    then have "repo' = save_quotation ?p repo" using revise_cases(2) [OF p] run by blast
    then show ?thesis using pid fresh by (auto simp: Inl get_quotation_by_id_def save_quotation_def dget_dset)
  next
    case (Inr q)
    then obtain q0 where g: "generate_quotation engine clock ids r opts 14 rules tier today (save_quotation ?p repo) =
        (Inr q0, save_quotation q0 (save_quotation ?p repo))"
      and q: "q = q0\<lparr>quo_parent_quotation_id := Some (quo_id p)\<rparr>"
      and repo': "repo' = save_quotation q (save_quotation q0 (save_quotation ?p repo))"
      using revise_cases(1) [OF p] run by blast
    from g have "quo_id q0 = fid_quotation ids" by (auto simp: generate_cases dest: build_quotation_Inr(2))
    then show ?thesis
      using pid fresh by (auto simp: Inr q repo' get_quotation_by_id_def save_quotation_def dget_dset)
  qed
qed

text \<open>
  The service codes that the margin rules document (SEA_FCL, SEA_LCL, AIR) are never those the
  service looks up (FCL, LCL, DIRECT, CONSOL): a rule set of documented codes only never demands a
  margin approval, whatever the options cost.
\<close>

theorem documented_margin_codes_never_apply:
  assumes "\<forall>x \<in> set rules. rule_service_type x \<in> {''SEA_FCL'', ''SEA_LCL'', ''AIR''}" and "rules \<noteq> []"
  shows "build_quotation engine ids r opts days (Some rules) tier today =
    build_quotation None ids r opts days None tier today"
proof -
  have "applicable_rules (rfq_service_type_value s) rules = []" for s
    using assms(1) by (cases s) (auto simp: applicable_rules_def filter_empty_conv)
  then have e: "evaluate_margin_rules q (rfq_service_type_value s) rules tier lane =
      evaluate_margin_rules q (rfq_service_type_value s) [] tier lane" for q s lane
    by (simp add: evaluate_margin_rules_def applicable_rules_def)
  have "evaluate_options (rfq_service_type_value s) rules tier lane b qs =
      evaluate_options (rfq_service_type_value s) [] tier lane b qs" for s lane b qs
    by (induction qs arbitrary: b) (simp_all add: e)
  then show ?thesis using assms(2) by (simp add: build_quotation_def margin_rules_for_def)
qed

text \<open>Concrete inputs at which the hypotheses above hold.\<close>

definition sample_rfq :: rfq where
  "sample_rfq = \<lparr>rfq_rfq_number = ''RFQ-7'', rfq_customer_id = ''K'', rfq_origin_location_id = ''X'',
     rfq_destination_location_id = ''Y'', rfq_mode = rfq_mode.SEA, rfq_service_type = rfq_service_type.FCL,
     rfq_cargo_ready_date = 1, rfq_preferred_departure = 2, rfq_required_delivery = 9, rfq_incoterm_code = ''FOB'',
     rfq_movement_type = [], rfq_preferred_carrier_id = None, rfq_priority = ''NORMAL'',
     rfq_status = rfq_status.SUBMITTED, rfq_assigned_to = None, rfq_parties = [], rfq_cargo_lines = [],
     rfq_container_requirements = [], rfq_special_requirement = None, rfq_id = ''F''\<rparr>"

definition sample_ids :: fresh_ids where
  "sample_ids = \<lparr>fid_quotation = ''Q2'', fid_approval = (\<lambda>n. ''A'')\<rparr>"

definition sample_quotation :: quotation where
  "sample_quotation = \<lparr>quo_quotation_number = ''QT-1'', quo_rfq_id = ''F'', quo_expiry_date = 40,
     quo_status = quotation_status.APPROVED, quo_parent_quotation_id = None, quo_sent_at = None,
     quo_options = [sample_option], quo_approvals = [], quo_id = ''Q1''\<rparr>"

lemma sample_generated: "\<exists>q. build_quotation None sample_ids sample_rfq [sample_option] 14 (Some [sample_rule]) None 10 = Inr q"
  by (simp add: build_quotation_def date_add_def max_ordinal_def margin_rules_for_def evaluate_margin_rules_def
      applicable_rules_def sample_rule_def rule_min_pct_def lane_override_def Let_def sample_rfq_def lane_code_def
      split: prod.split)

theorem generated_approvals_exact_witness:
  "\<exists>q. get_quotation_by_id (snd (generate_quotation None 10 sample_ids sample_rfq [sample_option] 14
    (Some [sample_rule]) None (Some 10) [])) ''Q2'' = Some q \<and> quo_expiry_date q = 24"
proof -
  obtain q where "generate_quotation None 10 sample_ids sample_rfq [sample_option] 14 (Some [sample_rule]) None
      (Some 10) [] = (Inr q, save_quotation q [])"
    using sample_generated by (auto simp: generate_quotation_def)
  from generated_approvals_exact [OF this] this show ?thesis by (simp add: sample_ids_def)
qed

theorem revision_marks_parent_witness:
  "get_quotation_by_id (snd (revise_quotation None 10 sample_ids ''Q1'' [] sample_rfq None None (Some 10)
    [(''Q1'', sample_quotation)])) ''Q1'' = Some (sample_quotation\<lparr>quo_status := quotation_status.REVISED\<rparr>)"
proof -
  have "quotation_repo_inv [(''Q1'', sample_quotation)]" by (simp add: store_inv_def sample_quotation_def)
  moreover have "get_quotation_by_id [(''Q1'', sample_quotation)] ''Q1'' = Some sample_quotation"
    by (simp add: get_quotation_by_id_def)
  moreover have "fid_quotation sample_ids \<noteq> ''Q1''" by (simp add: sample_ids_def)
  ultimately show ?thesis using revision_marks_parent by (metis prod.collapse)
qed

theorem documented_margin_codes_never_apply_witness:
  "build_quotation None sample_ids sample_rfq [sample_option] 14
      (Some [Domain_Rule \<lparr>mr_service_type = ''SEA_FCL'', mr_min_margin_pct = Some 90, mr_min_margin_amount = None,
        mr_customer_tier_overrides = [], mr_lane_overrides = [], mr_id = ''M''\<rparr>]) None 10 =
    build_quotation None sample_ids sample_rfq [sample_option] 14 None None 10"
  by (rule documented_margin_codes_never_apply) simp_all

end
