(* ===== verification/Acceptance.thy ===== *)
theory Acceptance
  imports Quotation_Service
begin

text \<open>
  \<open>domain/services/acceptance_service.py\<close>: the checks before a booking and the acceptance of a
  quotation, which creates the job, marks the quotation, fills the ledger estimates and publishes
  an event. The service's state is its repositories and the optional event publisher.
\<close>

section \<open>Validation before the booking\<close>

record validation_result =
  val_is_valid :: bool
  val_errors :: "string list"
  val_warnings :: "string list"
  val_document_checklist :: "string list"

definition new_exposure :: "customer_repo \<Rightarrow> customer \<Rightarrow> quotation_option \<Rightarrow> flt" where
  "new_exposure cs c opt = fadd (get_customer_exposure cs (cust_id c)) (total_sell opt)"

definition document_checklist :: "rfq \<Rightarrow> string list" where
  "document_checklist r = [''COMMERCIAL_INVOICE'', ''PACKING_LIST''] @
     (if rfq_mode_value (rfq_mode r) = ''SEA'' then [''BILL_OF_LADING'', ''VGM_DECLARATION'']
      else if rfq_mode_value (rfq_mode r) = ''AIR'' then [''AIR_WAYBILL''] else []) @
     (case rfq_special_requirement r of None \<Rightarrow> []
      | Some x \<Rightarrow> (if rsr_dgr_flag x then [''DANGEROUS_GOODS_DECLARATION'', ''MSDS''] else []) @
          (if rsr_lc_flag x then [''LETTER_OF_CREDIT_COPY''] else []))"

definition validate_pre_booking ::
  "customer_repo \<Rightarrow> quotation \<Rightarrow> quotation_option \<Rightarrow> rfq \<Rightarrow> customer \<Rightarrow> date \<Rightarrow> validation_result" where
  "validate_pre_booking cs q opt r c today =
    (let exposure = new_exposure cs c opt;
         errors = (if cust_credit_limit_amount c < exposure
           then [''Credit limit exceeded: total exposure $'' @ fmt_fixed 2 exposure @ '' exceeds credit limit $'' @
             fmt_fixed 2 (cust_credit_limit_amount c)] else []);
         errors = (if credit_tier_value (cust_credit_tier c) = ''BLOCKED''
           then errors @ [''Customer is in BLOCKED credit status''] else errors);
         errors = (if quo_expiry_date q < today
           then errors @ [''Quotation expired on '' @ isoformat (quo_expiry_date q) @ ''. Rates must be re-validated.'']
           else errors)
     in \<lparr>val_is_valid = (length errors = 0), val_errors = errors, val_warnings = [],
         val_document_checklist = document_checklist r\<rparr>)"

section \<open>Acceptance\<close>

record ledger_line =
  ll_job_id :: string
  ll_charge_code :: string
  ll_amount :: flt
  ll_currency :: string
  ll_status :: string

record job_creation =
  jc_job :: "job option"
  jc_quotation :: quotation
  jc_revenue_lines :: "ledger_line list"
  jc_cost_lines :: "ledger_line list"
  jc_document_checklist :: "string list"
  jc_validation_result :: validation_result

record acceptance_state =
  as_quotations :: quotation_repo
  as_customers :: customer_repo
  as_events :: "event list option"

definition job_number :: "string \<Rightarrow> rfq \<Rightarrow> string \<Rightarrow> date \<Rightarrow> int \<Rightarrow> string" where
  "job_number branch_code r direction today seq_num =
    branch_code @ ''-'' @ (if rfq_mode_value (rfq_mode r) = ''AIR'' then ''AIR'' else ''SEA'') @ ''-'' @
    direction @ ''-'' @ fmt_yymm today @ ''-'' @ zpad 5 seq_num"

definition ledger_of :: "string \<Rightarrow> string \<Rightarrow> (quotation_line \<Rightarrow> flt) \<Rightarrow> quotation_line list \<Rightarrow> ledger_line list" where
  "ledger_of jid currency amount ls = map (\<lambda>l. \<lparr>ll_job_id = jid, ll_charge_code = ql_charge_code l,
     ll_amount = amount l, ll_currency = currency, ll_status = ''ESTIMATED''\<rparr>) ls"

text \<open>The arguments of an acceptance; \<open>ar_confirmed_at\<close> is the text of the clock reading.\<close>

record accept_request =
  ar_quotation_id :: string
  ar_option_index :: int
  ar_rfq :: rfq
  ar_branch_code :: string
  ar_direction :: string
  ar_today :: date
  ar_seq_num :: int
  ar_job_id :: string
  ar_confirmed_at :: string

definition booking_payload :: "accept_request \<Rightarrow> job \<Rightarrow> quotation \<Rightarrow> customer \<Rightarrow> quotation_option \<Rightarrow> (string, pyval) dict" where
  "booking_payload req j q c opt = [(''job_number'', PStr (job_job_number j)), (''job_id'', PStr (job_id j)),
     (''quotation_id'', PStr (quo_id q)), (''customer_id'', PStr (cust_id c)),
     (''mode'', PStr (rfq_mode_value (rfq_mode (ar_rfq req)))),
     (''service_type'', PStr (rfq_service_type_value (rfq_service_type (ar_rfq req)))),
     (''total_sell'', PNum (total_sell opt)), (''total_cost'', PNum (total_cost opt)),
     (''currency'', PStr (qo_currency_code opt)), (''confirmed_at'', PStr (ar_confirmed_at req))]"

definition select_option :: "quotation \<Rightarrow> int \<Rightarrow> quotation_option res" where
  "select_option q i = (if int (length (quo_options q)) \<le> i then Inl (IndexError ''Selected option index out of range'')
     else py_index (quo_options q) i)"

definition confirm_booking :: "accept_request \<Rightarrow> quotation \<Rightarrow> quotation_option \<Rightarrow> customer \<Rightarrow> validation_result \<Rightarrow>
    acceptance_state \<Rightarrow> job_creation \<times> acceptance_state" where
  "confirm_booking req q opt c val st =
    (let j = \<lparr>job_job_number = job_number (ar_branch_code req) (ar_rfq req) (ar_direction req) (ar_today req) (ar_seq_num req),
              job_quotation_id = quo_id q, job_customer_id = cust_id c, job_status = ''CONFIRMED'', job_id = ar_job_id req\<rparr>;
         q = q\<lparr>quo_status := quotation_status.ACCEPTED\<rparr>;
         revenue = ledger_of (job_id j) (qo_currency_code opt) ql_sell_amount (qo_charge_lines opt);
         costs = ledger_of (job_id j) (qo_currency_code opt) ql_cost_amount (qo_charge_lines opt)
     in (\<lparr>jc_job = Some j, jc_quotation = q, jc_revenue_lines = revenue, jc_cost_lines = costs,
          jc_document_checklist = val_document_checklist val, jc_validation_result = val\<rparr>,
         st\<lparr>as_quotations := save_quotation q (as_quotations st),
            as_events := map_option (publish ''booking.confirmed'' (booking_payload req j q c opt)) (as_events st)\<rparr>))"

definition accept_quotation_and_create_job ::
  "accept_request \<Rightarrow> acceptance_state \<Rightarrow> job_creation res \<times> acceptance_state" where
  "accept_quotation_and_create_job req st =
    (case get_quotation_by_id (as_quotations st) (ar_quotation_id req) of
       None \<Rightarrow> (Inl (ValueError (''Quotation '' @ ar_quotation_id req @ '' not found'')), st)
     | Some q \<Rightarrow>
         (case select_option q (ar_option_index req) of
            Inl e \<Rightarrow> (Inl e, st)
          | Inr opt \<Rightarrow>
              (case get_customer_by_id (as_customers st) (rfq_customer_id (ar_rfq req)) of
                 None \<Rightarrow> (Inl (ValueError (''Customer '' @ rfq_customer_id (ar_rfq req) @ '' not found'')), st)
               | Some c \<Rightarrow>
                   (let val = validate_pre_booking (as_customers st) q opt (ar_rfq req) c (ar_today req)
                    in if \<not> val_is_valid val
                       then (Inr \<lparr>jc_job = None, jc_quotation = q, jc_revenue_lines = [], jc_cost_lines = [],
                              jc_document_checklist = val_document_checklist val, jc_validation_result = val\<rparr>, st)
                       else (case confirm_booking req q opt c val st of (res, st) \<Rightarrow> (Inr res, st))))))"

section \<open>Laws of the acceptance\<close>

lemma select_option_mem: "select_option q i = Inr opt \<Longrightarrow> opt \<in> set (quo_options q)"
  by (auto simp: select_option_def dest: py_index_mem split: if_splits)

lemma credit_tier_BLOCKED [simp]: "credit_tier_value t = ''BLOCKED'' \<longleftrightarrow> t = credit_tier.Tier_BLOCKED"
  by (cases t) simp_all

lemma validation_iff:
  "val_is_valid (validate_pre_booking cs q opt r c today) \<longleftrightarrow>
    new_exposure cs c opt \<le> cust_credit_limit_amount c \<and> cust_credit_tier c \<noteq> credit_tier.Tier_BLOCKED \<and>
    today \<le> quo_expiry_date q"
  by (auto simp: validate_pre_booking_def Let_def)

lemma validation_errors:
  "val_is_valid (validate_pre_booking cs q opt r c today) \<longleftrightarrow>
    val_errors (validate_pre_booking cs q opt r c today) = []"
  by (simp add: validate_pre_booking_def Let_def)

text \<open>The situation in which a booking is made: everything is found and the validation passes.\<close>

definition bookable :: "accept_request \<Rightarrow> acceptance_state \<Rightarrow> quotation \<Rightarrow> quotation_option \<Rightarrow> customer \<Rightarrow> bool" where
  "bookable req st q opt c \<longleftrightarrow>
    get_quotation_by_id (as_quotations st) (ar_quotation_id req) = Some q \<and>
    select_option q (ar_option_index req) = Inr opt \<and>
    get_customer_by_id (as_customers st) (rfq_customer_id (ar_rfq req)) = Some c \<and>
    val_is_valid (validate_pre_booking (as_customers st) q opt (ar_rfq req) c (ar_today req))"

lemma accept_bookable:
  "bookable req st q opt c \<Longrightarrow>
    accept_quotation_and_create_job req st =
      (case confirm_booking req q opt c (validate_pre_booking (as_customers st) q opt (ar_rfq req) c (ar_today req)) st of
         (res, st') \<Rightarrow> (Inr res, st'))"
  by (simp add: accept_quotation_and_create_job_def bookable_def)

lemma accept_not_bookable:
  "\<forall>q opt c. \<not> bookable req st q opt c \<Longrightarrow> accept_quotation_and_create_job req st = (res, st') \<Longrightarrow>
    st' = st \<and> (\<forall>jc. res = Inr jc \<longrightarrow> jc_job jc = None \<and> val_errors (jc_validation_result jc) \<noteq> [] \<and>
      jc_revenue_lines jc = [] \<and> jc_cost_lines jc = [])"
  by (auto simp: accept_quotation_and_create_job_def bookable_def Let_def validation_errors
      split: option.splits sum.splits if_splits)

lemma accept_cases:
  obtains (booked) q opt c where "bookable req st q opt c"
      "accept_quotation_and_create_job req st =
        (case confirm_booking req q opt c (validate_pre_booking (as_customers st) q opt (ar_rfq req) c (ar_today req)) st of
         (res, st') \<Rightarrow> (Inr res, st'))"
  | (refused) "\<forall>q opt c. \<not> bookable req st q opt c" "snd (accept_quotation_and_create_job req st) = st"
      "\<forall>jc. fst (accept_quotation_and_create_job req st) = Inr jc \<longrightarrow> jc_job jc = None"
  using accept_bookable accept_not_bookable [of req st] by (metis prod.collapse)

section \<open>Properties of the acceptance\<close>

text \<open>
  The checks before a booking accept exactly when the customer's exposure plus the selected
  option's total stays within the credit limit, the customer is not blocked, and the quotation has
  not expired; a refusal lists at least one error.
\<close>

theorem pre_booking_checks_exact:
  "(val_is_valid (validate_pre_booking cs q opt r c today) \<longleftrightarrow>
     fadd (get_customer_exposure cs (cust_id c)) (total_sell opt) \<le> cust_credit_limit_amount c \<and>
     cust_credit_tier c \<noteq> credit_tier.Tier_BLOCKED \<and> today \<le> quo_expiry_date q) \<and>
   (val_is_valid (validate_pre_booking cs q opt r c today) \<longleftrightarrow>
     val_errors (validate_pre_booking cs q opt r c today) = [])"
  using validation_iff [unfolded new_exposure_def] validation_errors by blast

text \<open>
  C36: Acceptance is all or nothing. Either the booking is possible: a job is returned for the
  quotation and the customer, the stored quotation becomes ACCEPTED and no other changes, every
  charge line of the selected option gives one revenue and one cost estimate with its amounts, and
  exactly one event is published. Or nothing changes at all and no job is returned.
\<close>

theorem acceptance_all_or_nothing:
  assumes "quotation_repo_inv (as_quotations st)" and "accept_quotation_and_create_job req st = (res, st')"
  shows "(\<exists>q opt c jc j. bookable req st q opt c \<and> opt \<in> set (quo_options q) \<and> res = Inr jc \<and> jc_job jc = Some j \<and>
      job_quotation_id j = ar_quotation_id req \<and> job_customer_id j = cust_id c \<and>
      (\<forall>i. get_quotation_by_id (as_quotations st') i = (if i = ar_quotation_id req
         then Some (q\<lparr>quo_status := quotation_status.ACCEPTED\<rparr>) else get_quotation_by_id (as_quotations st) i)) \<and>
      map ll_amount (jc_revenue_lines jc) = map ql_sell_amount (qo_charge_lines opt) \<and>
      map ll_amount (jc_cost_lines jc) = map ql_cost_amount (qo_charge_lines opt) \<and>
      as_customers st' = as_customers st \<and>
      as_events st' = map_option (\<lambda>evs. evs @ [\<lparr>ev_name = ''booking.confirmed'',
         ev_payload = booking_payload req j (q\<lparr>quo_status := quotation_status.ACCEPTED\<rparr>) c opt\<rparr>]) (as_events st)) \<or>
    st' = st \<and> (\<forall>jc. res = Inr jc \<longrightarrow> jc_job jc = None)"
proof (cases rule: accept_cases [of req st])
  case (booked q opt c)
  from booked(1) have q: "get_quotation_by_id (as_quotations st) (ar_quotation_id req) = Some q"
    and opt: "opt \<in> set (quo_options q)" by (auto simp: bookable_def dest: select_option_mem)
  have "quo_id q = ar_quotation_id req" using quotation_store.find_key [OF assms(1) q] .
  then show ?thesis
    using booked assms(2) opt
    by (intro disjI1 exI [of _ q] exI [of _ opt] exI [of _ c])
      (auto simp: confirm_booking_def Let_def ledger_of_def get_quotation_by_id_def save_quotation_def dget_dset
        publish_def intro!: arg_cong2 [where f = map_option])
next
  case refused
  then show ?thesis using assms(2) by auto
qed

text \<open>
  Acceptance never looks at the status of the quotation: whatever status the stored quotation
  has (a pending approval, a revised or already accepted one), the same request succeeds or fails
  in the same way and creates the same job.
\<close>

theorem acceptance_ignores_status:
  assumes "get_quotation_by_id (as_quotations st) (ar_quotation_id req) = Some q" and "quo_id q = ar_quotation_id req"
  shows "map_sum id jc_job (fst (accept_quotation_and_create_job req
      (st\<lparr>as_quotations := save_quotation (q\<lparr>quo_status := s\<rparr>) (as_quotations st)\<rparr>))) =
    map_sum id jc_job (fst (accept_quotation_and_create_job req st))"
proof -
  let ?q = "q\<lparr>quo_status := s\<rparr>"
  have l: "get_quotation_by_id (save_quotation ?q (as_quotations st)) (ar_quotation_id req) = Some ?q"
    using assms(2) by (simp add: get_quotation_by_id_def save_quotation_def dget_dset)
  have sel: "select_option ?q i = select_option q i" for i by (simp add: select_option_def)
  have val: "validate_pre_booking cs ?q opt r c d = validate_pre_booking cs q opt r c d" for cs opt r c d
    by (simp add: validate_pre_booking_def Let_def)
  show ?thesis
    by (auto simp: accept_quotation_and_create_job_def l sel val assms(1) confirm_booking_def Let_def
        split: sum.split option.split)
qed

text \<open>
  The number of a job determines the mode and the sequence number it was made from: two jobs
  booked by a branch in a direction on the same day with different non-negative sequence numbers,
  or one by air and one by sea, have different numbers.
\<close>

theorem job_number_injective:
  assumes "job_number b r d t m = job_number b r' d t n" and "0 \<le> m" and "0 \<le> n"
  shows "m = n \<and> (rfq_mode r = rfq_mode.AIR \<longleftrightarrow> rfq_mode r' = rfq_mode.AIR)"
proof -
  have mode: "rfq_mode_value k = ''AIR'' \<longleftrightarrow> k = rfq_mode.AIR" for k by (cases k) simp_all
  from assms(1) have "zpad 5 m = zpad 5 n \<and> (rfq_mode r = rfq_mode.AIR \<longleftrightarrow> rfq_mode r' = rfq_mode.AIR)"
    by (auto simp: job_number_def mode split: if_splits)
  with assms(2,3) show ?thesis by (auto dest: zpad_inj)
qed

text \<open>Concrete inputs at which the hypotheses above hold.\<close>

definition sample_customer :: customer where
  "sample_customer = \<lparr>cust_customer_code = ''CUST-0001'', cust_name = ''N'', cust_credit_limit_amount = 1000,
     cust_credit_limit_currency = ''USD'', cust_payment_terms_days = 30, cust_credit_tier = credit_tier.Tier_A,
     cust_tenant_id = ''T'', cust_tax_registration = [], cust_registration_number = [],
     cust_iata_fiata_membership = [], cust_preferred_carrier_ids = [], cust_preferred_lanes = [],
     cust_kyc_status = ''PENDING'', cust_is_active = True, cust_onboarding_date = 1, cust_id = ''K''\<rparr>"

definition sample_state :: acceptance_state where
  "sample_state = \<lparr>as_quotations = [(''Q1'', sample_quotation)],
     as_customers = \<lparr>cr_customers = [(''K'', sample_customer)], cr_exposures = [], cr_customer_seq = 1\<rparr>,
     as_events = Some []\<rparr>"

definition sample_request :: accept_request where
  "sample_request = \<lparr>ar_quotation_id = ''Q1'', ar_option_index = 0, ar_rfq = sample_rfq, ar_branch_code = ''KHI'',
     ar_direction = ''EXP'', ar_today = 20, ar_seq_num = 1, ar_job_id = ''J'', ar_confirmed_at = ''now''\<rparr>"

lemma sample_bookable: "bookable sample_request sample_state sample_quotation sample_option sample_customer"
proof -
  have "fadd 0 (total_sell sample_option) \<le> 1000" by code_simp
  then show ?thesis
    by (simp add: bookable_def sample_request_def sample_state_def sample_quotation_def sample_rfq_def
        get_quotation_by_id_def get_customer_by_id_def select_option_def py_index_def validation_iff
        new_exposure_def get_customer_exposure_def dget_or_def sample_customer_def)
qed

theorem acceptance_all_or_nothing_witness:
  "\<exists>q. get_quotation_by_id (as_quotations (snd (accept_quotation_and_create_job sample_request sample_state)))
    (ar_quotation_id sample_request) = Some (q\<lparr>quo_status := quotation_status.ACCEPTED\<rparr>)"
proof -
  have inv: "quotation_repo_inv (as_quotations sample_state)"
    by (simp add: store_inv_def sample_state_def sample_quotation_def)
  obtain jc st' where a: "accept_quotation_and_create_job sample_request sample_state = (Inr jc, st')"
    and j: "jc_job jc \<noteq> None"
    by (auto simp: accept_bookable [OF sample_bookable] confirm_booking_def Let_def)
  from acceptance_all_or_nothing [OF inv a] j show ?thesis by (auto simp: a)
qed

theorem acceptance_ignores_status_witness:
  "map_sum id jc_job (fst (accept_quotation_and_create_job sample_request
      (sample_state\<lparr>as_quotations := save_quotation (sample_quotation\<lparr>quo_status := quotation_status.REVISED\<rparr>)
        (as_quotations sample_state)\<rparr>))) =
    map_sum id jc_job (fst (accept_quotation_and_create_job sample_request sample_state))"
  by (rule acceptance_ignores_status)
    (simp_all add: sample_state_def sample_request_def sample_quotation_def get_quotation_by_id_def)

theorem job_number_injective_witness:
  "job_number ''KHI'' sample_rfq ''EXP'' 20 1 \<noteq> job_number ''KHI'' sample_rfq ''EXP'' 20 2"
  using job_number_injective [of "''KHI''" sample_rfq "''EXP''" 20 1 sample_rfq 2] by auto

end
