(* ===== verification/Quotation_Lifecycle.thy ===== *)
theory Quotation_Lifecycle
  imports Acceptance
begin

text \<open>
  The life of the stored quotations across the services: generation, revision and release by the
  quotation service, acceptance by the acceptance service, decisions of the approvers and changes of
  the customers, interleaved in any order. The last two are steps of the environment: no code of the
  repository decides an approval, so the model lets an approver change the approvals of a quotation
  that awaits approval in any way that keeps their kinds, and lets the customers change freely.
\<close>

section \<open>The step relation\<close>

definition same_kinds :: "quotation_approval list \<Rightarrow> quotation_approval list \<Rightarrow> bool" where
  "same_kinds as bs \<longleftrightarrow> map qa_approval_type as = map qa_approval_type bs"

inductive lifecycle_step :: "acceptance_state \<Rightarrow> acceptance_state \<Rightarrow> bool" where
  generate: "get_quotation_by_id (as_quotations s) (fid_quotation ids) = None \<Longrightarrow>
    generate_quotation engine clock ids r opts days rules tier today (as_quotations s) = (res, repo') \<Longrightarrow>
    lifecycle_step s (s\<lparr>as_quotations := repo'\<rparr>)"
| revise: "get_quotation_by_id (as_quotations s) (fid_quotation ids) = None \<Longrightarrow>
    revise_quotation engine clock ids i opts r rules tier today (as_quotations s) = (res, repo') \<Longrightarrow>
    lifecycle_step s (s\<lparr>as_quotations := repo'\<rparr>)"
| send: "send_to_customer now i (as_quotations s) = (res, repo') \<Longrightarrow>
    lifecycle_step s (s\<lparr>as_quotations := repo'\<rparr>)"
| accept: "accept_quotation_and_create_job req s = (jres, s') \<Longrightarrow> lifecycle_step s s'"
| decide: "get_quotation_by_id (as_quotations s) i = Some q \<Longrightarrow> quo_status q = quotation_status.PENDING_APPROVAL \<Longrightarrow>
    same_kinds as (quo_approvals q) \<Longrightarrow>
    lifecycle_step s (s\<lparr>as_quotations := save_quotation (q\<lparr>quo_approvals := as\<rparr>) (as_quotations s)\<rparr>)"
| customers: "lifecycle_step s (s\<lparr>as_customers := cs\<rparr>)"

inductive_cases lifecycle_stepE: "lifecycle_step s s'"

inductive reachable :: "acceptance_state \<Rightarrow> bool" where
  start: "as_quotations s = [] \<Longrightarrow> reachable s"
| step: "reachable s \<Longrightarrow> lifecycle_step s s' \<Longrightarrow> reachable s'"

section \<open>The invariant\<close>

definition approval_types_of :: "quotation \<Rightarrow> string set" where
  "approval_types_of q = set (map qa_approval_type (quo_approvals q))"

definition good_quotation :: "quotation \<Rightarrow> bool" where
  "good_quotation q \<longleftrightarrow> quo_options q \<noteq> [] \<and>
    (quo_status q = quotation_status.SENT_TO_CUSTOMER \<longrightarrow> (\<forall>a \<in> set (quo_approvals q). qa_status a = ''APPROVED'')) \<and>
    ((\<exists>opt \<in> set (quo_options q). qo_is_below_margin opt) \<longrightarrow> ''BELOW_MARGIN'' \<in> approval_types_of q) \<and>
    ((\<exists>opt \<in> set (quo_options q). 50000 < total_sell opt) \<longrightarrow> ''HIGH_VALUE'' \<in> approval_types_of q)"

definition parent_stored :: "quotation_repo \<Rightarrow> quotation \<Rightarrow> bool" where
  "parent_stored repo q \<longleftrightarrow> (case quo_parent_quotation_id q of None \<Rightarrow> True
     | Some p \<Rightarrow> get_quotation_by_id repo p \<noteq> None)"

definition lifecycle_inv :: "quotation_repo \<Rightarrow> bool" where
  "lifecycle_inv repo \<longleftrightarrow> quotation_repo_inv repo \<and>
    (\<forall>q \<in> set (dvalues repo). good_quotation q \<and> parent_stored repo q)"

lemma parent_stored_save: "parent_stored repo q \<Longrightarrow> parent_stored (save_quotation x repo) q"
  by (auto simp: parent_stored_def get_quotation_by_id_def save_quotation_def dget_dset split: option.splits)

lemma lifecycle_inv_save:
  "lifecycle_inv repo \<Longrightarrow> good_quotation q \<Longrightarrow> parent_stored repo q \<Longrightarrow> lifecycle_inv (save_quotation q repo)"
  unfolding lifecycle_inv_def
  by (auto simp: quotation_store.elems_save quotation_store.inv_save parent_stored_save simp del: set_map)

lemma lifecycle_inv_lookup:
  "lifecycle_inv repo \<Longrightarrow> get_quotation_by_id repo i = Some q \<Longrightarrow>
    good_quotation q \<and> parent_stored repo q \<and> quo_id q = i"
  using quotation_store.find_in_elems quotation_store.find_key by (auto simp: lifecycle_inv_def simp del: set_map)

lemma good_status:
  "good_quotation q \<Longrightarrow> s \<noteq> quotation_status.SENT_TO_CUSTOMER \<Longrightarrow> good_quotation (q\<lparr>quo_status := s\<rparr>)"
  by (simp add: good_quotation_def approval_types_of_def)

lemma parent_stored_fields [simp]:
  "parent_stored repo (q\<lparr>quo_status := s\<rparr>) = parent_stored repo q"
  "parent_stored repo (q\<lparr>quo_approvals := as\<rparr>) = parent_stored repo q"
  "parent_stored repo (q\<lparr>quo_sent_at := t\<rparr>) = parent_stored repo q"
  by (simp_all add: parent_stored_def)

lemma good_parent [simp]: "good_quotation (q\<lparr>quo_parent_quotation_id := p\<rparr>) = good_quotation q"
  by (simp add: good_quotation_def approval_types_of_def)

lemma built_good:
  assumes "build_quotation engine ids r opts days rules tier today = Inr q"
  shows "good_quotation q"
proof -
  note f = build_quotation_Inr [OF assms]
  have ne: "quo_options q \<noteq> []" using f(1,7) by simp
  have t: "approval_types_of q = set ((if \<exists>opt \<in> set (quo_options q). qo_is_below_margin opt then [''BELOW_MARGIN''] else []) @
      (if 50000 < max_sell (quo_options q) then [''HIGH_VALUE''] else []) @
      (if dgr_shipment r then [''DGR_COMPLIANCE''] else []))"
    unfolding approval_types_of_def f(8) approval_types by (auto simp: f(7))
  have "quo_status q \<noteq> quotation_status.SENT_TO_CUSTOMER" using f(9) by simp
  then show ?thesis using ne max_sell_above [OF ne] by (auto simp: good_quotation_def t)
qed

lemma built_no_parent:
  "build_quotation engine ids r opts days rules tier today = Inr q \<Longrightarrow> parent_stored repo q"
  by (simp add: parent_stored_def build_quotation_Inr(5))

lemma generate_inv:
  "lifecycle_inv repo \<Longrightarrow> generate_quotation engine clock ids r opts days rules tier today repo = (res, repo') \<Longrightarrow>
    lifecycle_inv repo'"
  by (cases res) (auto simp: generate_cases intro: lifecycle_inv_save built_good built_no_parent)

lemma revise_inv:
  assumes inv: "lifecycle_inv repo"
    and run: "revise_quotation engine clock ids i opts r rules tier today repo = (res, repo')"
  shows "lifecycle_inv repo'"
proof (cases "get_quotation_by_id repo i")
  case None
  then show ?thesis using run inv revise_cases(3) by blast
next
  case (Some p)
  let ?p = "p\<lparr>quo_status := quotation_status.REVISED\<rparr>"
  have p: "good_quotation p" "parent_stored repo p" "quo_id p = i"
    using lifecycle_inv_lookup [OF inv Some] by auto
  then have i1: "lifecycle_inv (save_quotation ?p repo)"
    by (intro lifecycle_inv_save inv good_status) simp_all
  show ?thesis
  proof (cases res)
    case (Inl e)
    then show ?thesis using revise_cases(2) [OF Some] run i1 by blast
  next
    case (Inr q)
    then obtain q0 where g: "generate_quotation engine clock ids r opts 14 rules tier today (save_quotation ?p repo) =
        (Inr q0, save_quotation q0 (save_quotation ?p repo))"
      and q: "q = q0\<lparr>quo_parent_quotation_id := Some (quo_id p)\<rparr>"
      and repo': "repo' = save_quotation q (save_quotation q0 (save_quotation ?p repo))"
      using revise_cases(1) [OF Some] run by blast
    from g have b: "good_quotation q0" by (auto simp: generate_cases intro: built_good)
    have i2: "lifecycle_inv (save_quotation q0 (save_quotation ?p repo))" using generate_inv [OF i1 g] .
    have "parent_stored (save_quotation q0 (save_quotation ?p repo)) q"
      by (simp add: q parent_stored_def get_quotation_by_id_def save_quotation_def dget_dset)
    moreover have "good_quotation q" using b by (simp add: q)
    ultimately show ?thesis unfolding repo' using lifecycle_inv_save [OF i2] by blast
  qed
qed

lemma send_inv:
  assumes inv: "lifecycle_inv repo" and run: "send_to_customer now i repo = (res, repo')"
  shows "lifecycle_inv repo'"
proof (cases res)
  case (Inl e)
  then show ?thesis using run inv send_cases(2) by blast
next
  case (Inr q)
  then obtain q0 where q0: "get_quotation_by_id repo i = Some q0" "\<forall>a \<in> set (quo_approvals q0). qa_status a = ''APPROVED''"
    and q: "q = q0\<lparr>quo_status := quotation_status.SENT_TO_CUSTOMER, quo_sent_at := Some now\<rparr>"
    and repo': "repo' = save_quotation q repo"
    using run send_cases(1) by blast
  from lifecycle_inv_lookup [OF inv q0(1)] q0(2) show ?thesis
    unfolding repo' by (intro lifecycle_inv_save inv) (auto simp: q good_quotation_def approval_types_of_def)
qed

lemma accept_inv:
  assumes inv: "lifecycle_inv (as_quotations s)" and run: "accept_quotation_and_create_job req s = (res, s')"
  shows "lifecycle_inv (as_quotations s')"
proof (cases rule: accept_cases [of req s])
  case (booked q opt c)
  then have "get_quotation_by_id (as_quotations s) (ar_quotation_id req) = Some q" by (simp add: bookable_def)
  from lifecycle_inv_lookup [OF inv this] booked run show ?thesis
    by (auto simp: confirm_booking_def Let_def intro!: lifecycle_inv_save inv good_status)
qed (use run inv in auto)

lemma decide_inv:
  assumes inv: "lifecycle_inv repo" and q: "get_quotation_by_id repo i = Some q"
    "quo_status q = quotation_status.PENDING_APPROVAL" "same_kinds as (quo_approvals q)"
  shows "lifecycle_inv (save_quotation (q\<lparr>quo_approvals := as\<rparr>) repo)"
proof -
  have "approval_types_of (q\<lparr>quo_approvals := as\<rparr>) = approval_types_of q"
    using q(3) by (simp add: approval_types_of_def same_kinds_def del: set_map)
  then show ?thesis
    using lifecycle_inv_lookup [OF inv q(1)] q(2)
    by (intro lifecycle_inv_save inv) (auto simp: good_quotation_def)
qed

lemma step_inv: "lifecycle_step s s' \<Longrightarrow> lifecycle_inv (as_quotations s) \<Longrightarrow> lifecycle_inv (as_quotations s')"
  by (erule lifecycle_stepE) (auto intro: generate_inv revise_inv send_inv accept_inv decide_inv)

lemma reachable_inv: "reachable s \<Longrightarrow> lifecycle_inv (as_quotations s)"
  by (induction rule: reachable.induct) (simp add: lifecycle_inv_def, rule step_inv)

section \<open>Properties of the lifecycle\<close>

text \<open>
  C40: In every state reachable by generation, revision, sending, acceptance and the decisions of the
  approvers, a quotation with the status SENT_TO_CUSTOMER has all its approvals
  APPROVED, and the approvals its content calls for are among them: an APPROVED finance approval if
  an option sells above 50000, an APPROVED margin approval if an option is flagged below margin.
\<close>

theorem sent_quotations_are_approved:
  assumes "reachable s" and "get_quotation_by_id (as_quotations s) i = Some q"
    and "quo_status q = quotation_status.SENT_TO_CUSTOMER"
  shows "(\<forall>a \<in> set (quo_approvals q). qa_status a = ''APPROVED'') \<and>
    ((\<exists>opt \<in> set (quo_options q). 50000 < total_sell opt) \<longrightarrow>
      (\<exists>a \<in> set (quo_approvals q). qa_approval_type a = ''HIGH_VALUE'' \<and> qa_status a = ''APPROVED'')) \<and>
    ((\<exists>opt \<in> set (quo_options q). qo_is_below_margin opt) \<longrightarrow>
      (\<exists>a \<in> set (quo_approvals q). qa_approval_type a = ''BELOW_MARGIN'' \<and> qa_status a = ''APPROVED''))"
proof -
  have "good_quotation q" using lifecycle_inv_lookup [OF reachable_inv [OF assms(1)] assms(2)] by blast
  then have a: "\<forall>a \<in> set (quo_approvals q). qa_status a = ''APPROVED''"
    and h: "(\<exists>opt \<in> set (quo_options q). 50000 < total_sell opt) \<longrightarrow> ''HIGH_VALUE'' \<in> approval_types_of q"
    and b: "(\<exists>opt \<in> set (quo_options q). qo_is_below_margin opt) \<longrightarrow> ''BELOW_MARGIN'' \<in> approval_types_of q"
    using assms(3) by (auto simp: good_quotation_def)
  have "k \<in> approval_types_of q \<Longrightarrow> \<exists>a \<in> set (quo_approvals q). qa_approval_type a = k \<and> qa_status a = ''APPROVED''" for k
    using a by (auto simp: approval_types_of_def)
  with a h b show ?thesis by blast
qed

text \<open>
  Every reachable repository is consistent: each quotation is stored under its own identity,
  offers at least one option, and the parent it names is stored as well.
\<close>

theorem stored_quotations_well_formed:
  assumes "reachable s" and "get_quotation_by_id (as_quotations s) i = Some q"
  shows "quo_id q = i \<and> quo_options q \<noteq> [] \<and>
    (\<forall>p. quo_parent_quotation_id q = Some p \<longrightarrow> get_quotation_by_id (as_quotations s) p \<noteq> None)"
  using lifecycle_inv_lookup [OF reachable_inv [OF assms(1)] assms(2)]
  by (auto simp: good_quotation_def parent_stored_def)

section \<open>A booking without approval\<close>

definition dgr_rfq :: rfq where
  "dgr_rfq = sample_rfq\<lparr>rfq_special_requirement := Some \<lparr>rsr_dgr_flag = True, rsr_dgr_un_number = None,
     rsr_dgr_class = None, rsr_temp_controlled = False, rsr_insurance = False, rsr_fumigation = False,
     rsr_inspection = False, rsr_special_handling_codes = [], rsr_customs_docs_required = [],
     rsr_lc_flag = False, rsr_lc_number = None, rsr_rfq_id = None, rsr_id = ''S''\<rparr>\<rparr>"

definition start_state :: acceptance_state where
  "start_state = sample_state\<lparr>as_quotations := []\<rparr>"

definition dgr_request :: accept_request where
  "dgr_request = sample_request\<lparr>ar_quotation_id := ''Q2'', ar_rfq := dgr_rfq\<rparr>"

lemma dgr_generated:
  "\<exists>q. generate_quotation None 10 sample_ids dgr_rfq [sample_option] 14 None None (Some 10) [] =
      (Inr q, [(''Q2'', q)]) \<and> quo_id q = ''Q2'' \<and> quo_expiry_date q = 24 \<and>
      quo_status q = quotation_status.PENDING_APPROVAL \<and> map qa_status (quo_approvals q) = [''PENDING''] \<and>
      quo_options q = [sample_option\<lparr>qo_is_below_margin := False\<rparr>]"
proof -
  have "\<not> 50000 < total_sell sample_option" by code_simp
  then have "\<not> 50000 < max_sell [sample_option\<lparr>qo_is_below_margin := b\<rparr>]" for b
    by (simp add: max_sell_def)
  moreover have "dgr_shipment dgr_rfq" by (simp add: dgr_shipment_def dgr_rfq_def)
  ultimately show ?thesis
    by (simp add: generate_quotation_def build_quotation_def date_add_def max_ordinal_def margin_rules_for_def
        evaluate_margin_rules_def applicable_rules_def Let_def required_approvals_def approval_def save_quotation_def
        sample_ids_def)
qed

text \<open>
  Acceptance bypasses the approvals: a state is reachable in which a quotation is ACCEPTED and
  booked although its only approval (dangerous goods) is still pending and it was never sent.
\<close>

theorem acceptance_bypasses_approvals:
  "\<exists>s q. reachable s \<and> get_quotation_by_id (as_quotations s) ''Q2'' = Some q \<and>
    quo_status q = quotation_status.ACCEPTED \<and> map qa_status (quo_approvals q) = [''PENDING'']"
proof -
  obtain q where g: "generate_quotation None 10 sample_ids dgr_rfq [sample_option] 14 None None (Some 10) [] =
      (Inr q, [(''Q2'', q)])" and q: "quo_id q = ''Q2''" "quo_expiry_date q = 24"
      "map qa_status (quo_approvals q) = [''PENDING'']" "quo_options q = [sample_option\<lparr>qo_is_below_margin := False\<rparr>]"
    using dgr_generated by (elim exE conjE) (rule that)
  let ?s = "start_state\<lparr>as_quotations := [(''Q2'', q)]\<rparr>"
  have "reachable start_state" by (rule reachable.start) (simp add: start_state_def)
  moreover have "lifecycle_step start_state ?s"
    by (rule lifecycle_step.generate [where ids = sample_ids]) (use g in \<open>simp_all add: start_state_def get_quotation_by_id_def\<close>)
  ultimately have r: "reachable ?s" by (rule reachable.step)
  have "fadd 0 (total_sell sample_option) \<le> 1000" by code_simp
  then have b: "bookable dgr_request ?s q (sample_option\<lparr>qo_is_below_margin := False\<rparr>) sample_customer"
    by (simp add: bookable_def dgr_request_def sample_request_def start_state_def sample_state_def dgr_rfq_def
        sample_rfq_def get_quotation_by_id_def get_customer_by_id_def select_option_def py_index_def q validation_iff
        new_exposure_def get_customer_exposure_def dget_or_def sample_customer_def)
  obtain jc s' where a: "accept_quotation_and_create_job dgr_request ?s = (Inr jc, s')"
    and s': "as_quotations s' = [(''Q2'', q\<lparr>quo_status := quotation_status.ACCEPTED\<rparr>)]"
    by (simp add: accept_bookable [OF b] confirm_booking_def Let_def save_quotation_def q)
  from r lifecycle_step.accept [OF a] have "reachable s'" by (rule reachable.step)
  then show ?thesis using s' q(3) by (intro exI [of _ s']) (simp add: get_quotation_by_id_def)
qed

text \<open>Concrete inputs at which the hypotheses above hold.\<close>

lemma sample_sent: "\<exists>s q. reachable s \<and> get_quotation_by_id (as_quotations s) ''Q2'' = Some q \<and>
    quo_status q = quotation_status.SENT_TO_CUSTOMER"
proof -
  have "\<not> 50000 < total_sell sample_option" by code_simp
  then have "\<not> 50000 < max_sell [sample_option\<lparr>qo_is_below_margin := b\<rparr>]" for b
    by (simp add: max_sell_def)
  moreover have "\<not> dgr_shipment sample_rfq" by (simp add: dgr_shipment_def sample_rfq_def)
  ultimately obtain q where g: "generate_quotation None 10 sample_ids sample_rfq [sample_option] 14 None None (Some 10) [] =
      (Inr q, [(''Q2'', q)])" and q: "quo_id q = ''Q2''" "quo_approvals q = []"
    by (simp add: generate_quotation_def build_quotation_def date_add_def max_ordinal_def margin_rules_for_def
        evaluate_margin_rules_def applicable_rules_def Let_def required_approvals_def approval_def save_quotation_def
        sample_ids_def)
  let ?s = "start_state\<lparr>as_quotations := [(''Q2'', q)]\<rparr>"
  let ?q = "q\<lparr>quo_status := quotation_status.SENT_TO_CUSTOMER, quo_sent_at := Some 5\<rparr>"
  have "reachable start_state" by (rule reachable.start) (simp add: start_state_def)
  moreover have "lifecycle_step start_state ?s"
    by (rule lifecycle_step.generate [where ids = sample_ids]) (use g in \<open>simp_all add: start_state_def get_quotation_by_id_def\<close>)
  ultimately have r: "reachable ?s" by (rule reachable.step)
  have "send_to_customer 5 ''Q2'' (as_quotations ?s) = (Inr ?q, [(''Q2'', ?q)])"
    by (simp add: send_to_customer_def get_quotation_by_id_def save_quotation_def q Let_def)
  from reachable.step [OF r lifecycle_step.send [OF this]]
  show ?thesis
    by (intro exI [of _ "?s\<lparr>as_quotations := [(''Q2'', ?q)]\<rparr>"] exI [of _ ?q]) (simp add: get_quotation_by_id_def)
qed

theorem sent_quotations_are_approved_witness:
  "\<exists>s q. reachable s \<and> get_quotation_by_id (as_quotations s) ''Q2'' = Some q \<and>
    (\<forall>a \<in> set (quo_approvals q). qa_status a = ''APPROVED'')"
proof -
  obtain s q where s: "reachable s" "get_quotation_by_id (as_quotations s) ''Q2'' = Some q"
    "quo_status q = quotation_status.SENT_TO_CUSTOMER" using sample_sent by blast
  from sent_quotations_are_approved [OF s] s show ?thesis by blast
qed

theorem stored_quotations_well_formed_witness:
  "\<exists>s q. reachable s \<and> get_quotation_by_id (as_quotations s) ''Q2'' = Some q \<and> quo_options q \<noteq> []"
proof -
  obtain s q where s: "reachable s" "get_quotation_by_id (as_quotations s) ''Q2'' = Some q"
    using sample_sent by blast
  from stored_quotations_well_formed [OF s] s show ?thesis by blast
qed

end
