(* ===== verification/Fx_Service.thy ===== *)
theory Fx_Service
  imports Repositories
begin

text \<open>
  \<open>domain/services/fx_service.py\<close>: conversion between currencies, rates frozen for a quotation, and
  the variance between a frozen and the current rate. The service's state is its table of rates and
  its dictionary of locks; it is a second provider of the interface \<open>fx_port\<close>.
\<close>

section \<open>State and operations\<close>

record locked_rate =
  lx_quotation_id :: string
  lx_from_currency :: string
  lx_to_currency :: string
  lx_locked_rate :: flt
  lx_locked_date :: date
  lx_stage :: string
  lx_id :: string

record fx_variance =
  fv_original_amount :: flt
  fv_from_currency :: string
  fv_to_currency :: string
  fv_locked_rate :: flt
  fv_current_rate :: flt
  fv_locked_value :: flt
  fv_current_value :: flt
  fv_variance_amount :: flt
  fv_is_gain :: bool

record fx_service =
  fxs_rates_to_usd :: fx_rates
  fxs_locked_rates :: "(string \<times> string \<times> string, locked_rate) dict"

definition new_fx_service :: fx_service where
  "new_fx_service = \<lparr>fxs_rates_to_usd = [(''USD'', 1), (''EUR'', flit (108 / 100)), (''GBP'', flit (128 / 100)),
     (''PKR'', flit (36 / 10000)), (''SAR'', flit (2667 / 10000)), (''AED'', flit (2723 / 10000)),
     (''CNY'', flit (138 / 1000)), (''JPY'', flit (67 / 10000))], fxs_locked_rates = []\<rparr>"

definition fxs_set_rate :: "string \<Rightarrow> flt \<Rightarrow> fx_service \<Rightarrow> fx_service" where
  "fxs_set_rate currency_code r s =
    s\<lparr>fxs_rates_to_usd := dset (py_upper currency_code) r (fxs_rates_to_usd s)\<rparr>"

definition fxs_get_rate :: "fx_service \<Rightarrow> string \<Rightarrow> flt" where
  "fxs_get_rate s currency_code = dget_or (fxs_rates_to_usd s) (py_upper currency_code) 1"

definition get_locked_rate :: "fx_service \<Rightarrow> string \<Rightarrow> string \<Rightarrow> string \<Rightarrow> locked_rate option" where
  "get_locked_rate s quotation_id from_currency to_currency =
    dget (fxs_locked_rates s) (quotation_id, py_upper from_currency, py_upper to_currency)"

definition fxs_convert :: "fx_service \<Rightarrow> flt \<Rightarrow> string \<Rightarrow> string \<Rightarrow> string option \<Rightarrow> flt res" where
  "fxs_convert s amount from_currency to_currency quotation_id =
    (let from_curr = py_upper from_currency; to_curr = py_upper to_currency in
     if from_curr = to_curr then Inr (py_round 2 amount)
     else case (if truthy quotation_id then get_locked_rate s (the quotation_id) from_curr to_curr else None) of
       Some locked \<Rightarrow> Inr (py_round 2 (fmul amount (lx_locked_rate locked)))
     | None \<Rightarrow>
         (let from_rate = dget_or (fxs_rates_to_usd s) from_curr 1;
              to_rate = dget_or (fxs_rates_to_usd s) to_curr 1;
              usd_amount = fmul amount from_rate
          in res_map (py_round 2) (fdiv usd_amount to_rate)))"

text \<open>\<open>lock_id\<close> is the identity drawn for the lock.\<close>

definition lock_exchange_rate ::
  "string \<Rightarrow> string \<Rightarrow> string \<Rightarrow> string \<Rightarrow> date \<Rightarrow> string \<Rightarrow> fx_service \<Rightarrow> locked_rate res \<times> fx_service" where
  "lock_exchange_rate lock_id quotation_id from_currency to_currency effective_date stage s =
    (let from_curr = py_upper from_currency; to_curr = py_upper to_currency;
         r = (if from_curr = to_curr then Inr 1
              else fdiv (dget_or (fxs_rates_to_usd s) from_curr 1) (dget_or (fxs_rates_to_usd s) to_curr 1))
     in case r of Inl e \<Rightarrow> (Inl e, s)
        | Inr r \<Rightarrow>
            (let locked = \<lparr>lx_quotation_id = quotation_id, lx_from_currency = from_curr, lx_to_currency = to_curr,
                   lx_locked_rate = py_round 6 r, lx_locked_date = effective_date, lx_stage = stage, lx_id = lock_id\<rparr>
             in (Inr locked, s\<lparr>fxs_locked_rates := dset (quotation_id, from_curr, to_curr) locked (fxs_locked_rates s)\<rparr>)))"

definition calculate_fx_variance :: "fx_service \<Rightarrow> flt \<Rightarrow> string \<Rightarrow> string \<Rightarrow> string \<Rightarrow> fx_variance res" where
  "calculate_fx_variance s original_amount from_currency to_currency quotation_id =
    (let from_curr = py_upper from_currency; to_curr = py_upper to_currency in
     case get_locked_rate s quotation_id from_curr to_curr of
       None \<Rightarrow> Inl (ValueError (''No locked FX rate found for quotation '' @ quotation_id @ '' ('' @ from_curr @
         ''->'' @ to_curr @ '')''))
     | Some locked \<Rightarrow>
         res_map (\<lambda>current_rate.
            let locked_val = py_round 2 (fmul original_amount (lx_locked_rate locked));
                current_val = py_round 2 (fmul original_amount current_rate);
                variance = py_round 2 (fsub current_val locked_val)
            in \<lparr>fv_original_amount = original_amount, fv_from_currency = from_curr, fv_to_currency = to_curr,
                fv_locked_rate = lx_locked_rate locked, fv_current_rate = py_round 6 current_rate,
                fv_locked_value = locked_val, fv_current_value = current_val,
                fv_variance_amount = \<bar>variance\<bar>, fv_is_gain = (0 \<le> variance)\<rparr>)
          (fdiv (dget_or (fxs_rates_to_usd s) from_curr 1) (dget_or (fxs_rates_to_usd s) to_curr 1)))"

section \<open>Laws\<close>

lemma get_locked_upper [simp]:
  "get_locked_rate s q (py_upper f) (py_upper t) = get_locked_rate s q f t"
  by (simp add: get_locked_rate_def)

lemma fxs_convert_alt:
  "fxs_convert s a f t q = (if py_upper f = py_upper t then Inr (py_round 2 a)
    else case (if truthy q then get_locked_rate s (the q) f t else None) of
      Some l \<Rightarrow> Inr (py_round 2 (fmul a (lx_locked_rate l)))
    | None \<Rightarrow> if fxs_get_rate s t = 0 then Inl ZeroDivisionError
        else Inr (py_round 2 (fquot (fmul a (fxs_get_rate s f)) (fxs_get_rate s t))))"
  by (simp add: fxs_convert_def fxs_get_rate_def Let_def split: option.split)

lemma lock_cases:
  "lock_exchange_rate lid q f t d stage s = (Inr l, s') \<Longrightarrow>
    s' = s\<lparr>fxs_locked_rates := dset (q, py_upper f, py_upper t) l (fxs_locked_rates s)\<rparr>"
  "lock_exchange_rate lid q f t d stage s = (Inl e, s') \<Longrightarrow> s' = s"
  by (auto simp: lock_exchange_rate_def Let_def split: sum.splits)

text \<open>The service is sound when its rates are positive and its locks are non-negative.\<close>

definition fxs_ok :: "fx_service \<Rightarrow> bool" where
  "fxs_ok s \<longleftrightarrow> fx_ok (fxs_rates_to_usd s) \<and> (\<forall>(k, l) \<in> set (fxs_locked_rates s). 0 \<le> lx_locked_rate l)"

lemma fxs_rate_pos: "fxs_ok s \<Longrightarrow> 0 < fxs_get_rate s c"
  using fx_ok_pos [of "fxs_rates_to_usd s" c] by (simp add: fxs_ok_def fxs_get_rate_def get_exchange_rate_def)

lemma fxs_lock_nonneg: "fxs_ok s \<Longrightarrow> get_locked_rate s q f t = Some l \<Longrightarrow> 0 \<le> lx_locked_rate l"
  by (auto simp: fxs_ok_def get_locked_rate_def dest!: map_of_SomeD)

lemma fxs_ok_set: "fxs_ok s \<Longrightarrow> 0 < r \<Longrightarrow> fxs_ok (fxs_set_rate c r s)"
  using fx_ok_set [of "fxs_rates_to_usd s" r c] by (simp add: fxs_ok_def fxs_set_rate_def set_rate_to_usd_def)

lemma fxs_ok_lock: "fxs_ok s \<Longrightarrow> lock_exchange_rate lid q f t d stage s = (res, s') \<Longrightarrow> fxs_ok s'"
proof -
  assume ok: "fxs_ok s" and l: "lock_exchange_rate lid q f t d stage s = (res, s')"
  have nn: "0 \<le> fquot (fxs_get_rate s f) (fxs_get_rate s t)"
    using fxs_rate_pos [OF ok, of f] fxs_rate_pos [OF ok, of t] by (simp add: fquot_nonneg)
  show ?thesis
  proof (cases res)
    case (Inr x)
    have "0 \<le> lx_locked_rate x"
      using l nn fxs_rate_pos [OF ok, of t]
      by (auto simp: Inr lock_exchange_rate_def Let_def fxs_get_rate_def pr.nonneg split: if_splits)
    then show ?thesis
      using ok lock_cases(1) [OF l [unfolded Inr]] set_update_subset [of "(q, py_upper f, py_upper t)" x "fxs_locked_rates s"]
      by (auto simp: fxs_ok_def)
  qed (use ok l in \<open>auto dest: lock_cases(2)\<close>)
qed

interpretation quoted_fx: fx_port "\<lambda>s a f t d. fxs_convert s a f t quotation_id" fxs_ok for quotation_id
proof
  fix s a f t assume ok: "fxs_ok s"
  have p: "fxs_get_rate s t \<noteq> 0" using fxs_rate_pos [OF ok, of t] by simp
  show "\<exists>b. fxs_convert s a f t quotation_id = Inr b"
    by (simp add: fxs_convert_alt p split: option.split)
next
  fix s a f t b assume "fxs_ok s" and "fxs_convert s a f t quotation_id = Inr b"
  then show "is_flt b" by (auto simp: fxs_convert_alt split: if_splits option.splits)
next
  fix s a f t b assume ok: "fxs_ok s" and a: "0 \<le> a" and c: "fxs_convert s a f t quotation_id = Inr b"
  have "0 \<le> fquot (fmul a (fxs_get_rate s f)) (fxs_get_rate s t)"
    using a fxs_rate_pos [OF ok, of f] fxs_rate_pos [OF ok, of t] by (simp add: fquot_nonneg fmul_nonneg)
  with a c fxs_lock_nonneg [OF ok] show "0 \<le> b"
    by (auto simp: fxs_convert_alt pr.nonneg fmul_nonneg split: if_splits option.splits)
qed

section \<open>Sequences of operations\<close>

datatype fx_op = Set_Rate string flt | Lock string string string string date string

fun run_fx_op :: "fx_op \<Rightarrow> fx_service \<Rightarrow> fx_service" where
  "run_fx_op (Set_Rate c r) s = fxs_set_rate c r s"
| "run_fx_op (Lock lid q f t d stage) s = snd (lock_exchange_rate lid q f t d stage s)"

fun relocks :: "string \<Rightarrow> string \<Rightarrow> string \<Rightarrow> fx_op \<Rightarrow> bool" where
  "relocks q f t (Set_Rate c r) = False"
| "relocks q f t (Lock lid q' f' t' d stage) = (q' = q \<and> py_upper f' = py_upper f \<and> py_upper t' = py_upper t)"

lemma run_fx_op_keeps_lock:
  "\<not> relocks q f t op \<Longrightarrow> get_locked_rate (run_fx_op op s) q f t = get_locked_rate s q f t"
proof (cases op)
  case (Lock lid q' f' t' d stage)
  assume "\<not> relocks q f t op"
  then show ?thesis
    by (cases "lock_exchange_rate lid q' f' t' d stage s"; cases "fst (lock_exchange_rate lid q' f' t' d stage s)")
      (auto simp: Lock get_locked_rate_def dget_dset dest!: lock_cases)
qed (simp add: fxs_set_rate_def get_locked_rate_def)

lemma run_fx_ops_keep_lock:
  "\<forall>op \<in> set ops. \<not> relocks q f t op \<Longrightarrow> get_locked_rate (fold run_fx_op ops s) q f t = get_locked_rate s q f t"
  by (induction ops arbitrary: s) (simp_all add: run_fx_op_keeps_lock)

section \<open>Properties of the service\<close>

text \<open>
  A locked rate is frozen: whatever rates are set and whatever other locks are taken
  afterwards, a conversion for the quotation still uses the rate locked for it.
\<close>

theorem locked_conversion_is_stable:
  assumes "lock_exchange_rate lid q f t d stage s = (Inr l, s')" and "\<forall>op \<in> set ops. \<not> relocks q f t op"
    and "q \<noteq> []" and "py_upper f \<noteq> py_upper t"
  shows "fxs_convert (fold run_fx_op ops s') a f t (Some q) = Inr (py_round 2 (fmul a (lx_locked_rate l)))"
proof -
  have "get_locked_rate s' q f t = Some l"
    using lock_cases(1) [OF assms(1)] by (simp add: get_locked_rate_def dget_dset)
  with run_fx_ops_keep_lock [OF assms(2)] assms(3,4) show ?thesis by (simp add: fxs_convert_alt)
qed

text \<open>
  Without a lock the service converts exactly like the in-memory exchange-rate service on the
  same table, errors included; currency codes are compared without regard to case.
\<close>

theorem unlocked_conversion_agrees:
  "fxs_convert s a f t None = convert (fxs_rates_to_usd s) a f t \<and>
   fxs_convert s a (py_upper f) (py_upper t) q = fxs_convert s a f t q"
  by (simp add: fxs_convert_alt convert_alt fxs_get_rate_def get_exchange_rate_def split: option.split)

text \<open>
  A conversion raises exactly when the currencies differ, no lock applies and the target's rate
  is zero; the only exception is ZeroDivisionError.
\<close>

theorem conversion_raises_iff:
  "fxs_convert s a f t q = Inl e \<longleftrightarrow> e = ZeroDivisionError \<and> py_upper f \<noteq> py_upper t \<and>
    (truthy q \<longrightarrow> get_locked_rate s (the q) f t = None) \<and> fxs_get_rate s t = 0"
  by (auto simp: fxs_convert_alt split: option.split)

text \<open>
  The variance report compares the value at the locked rate with the value at the current one:
  it is a gain whenever the current value is not smaller, a loss only when it is smaller, and the
  reported amount is the distance of the two values rounded to cents.
\<close>

theorem variance_report_sound:
  assumes "calculate_fx_variance s a f t q = Inr v"
  shows "(fv_locked_value v \<le> fv_current_value v \<longrightarrow> fv_is_gain v) \<and>
    (\<not> fv_is_gain v \<longrightarrow> fv_current_value v < fv_locked_value v) \<and>
    fv_variance_amount v = \<bar>py_round 2 (fsub (fv_current_value v) (fv_locked_value v))\<bar> \<and> 0 \<le> fv_variance_amount v"
proof -
  from assms have g: "fv_is_gain v \<longleftrightarrow> 0 \<le> py_round 2 (fsub (fv_current_value v) (fv_locked_value v))"
    and m: "fv_variance_amount v = \<bar>py_round 2 (fsub (fv_current_value v) (fv_locked_value v))\<bar>"
    by (auto simp: calculate_fx_variance_def Let_def res_simps split: option.splits)
  have "fv_locked_value v \<le> fv_current_value v \<Longrightarrow> fv_is_gain v"
    using g by (simp add: fsub_nonneg pr.nonneg)
  moreover from this have "\<not> fv_is_gain v \<Longrightarrow> fv_current_value v < fv_locked_value v" by (meson not_le)
  ultimately show ?thesis using m by simp
qed

text \<open>
  Rounding the locked rate to six places shows as a variance although no rate moved: right
  after locking JPY to EUR at the default rates, a million yen report a difference.
\<close>

theorem variance_without_movement:
  "\<exists>l s v. lock_exchange_rate ''L'' ''Q'' ''JPY'' ''EUR'' 1 ''QUOTATION'' new_fx_service = (Inr l, s) \<and>
    calculate_fx_variance s 1000000 ''JPY'' ''EUR'' ''Q'' = Inr v \<and> fv_variance_amount v = flit (3 / 10)"
proof -
  let ?r = "fquot (flit (67 / 10000)) (flit (27 / 25))"
  have u: "py_upper ''JPY'' = ''JPY''" "py_upper ''EUR'' = ''EUR''" by (simp_all add: py_eval)
  have l: "py_round 2 (fmul 1000000 (py_round 6 ?r)) = 6204" by code_simp
  have c: "py_round 2 (fmul 1000000 ?r) = flit (62037 / 10)" by code_simp
  have d: "py_round 2 (fsub (flit (62037 / 10)) 6204) = - flit (3 / 10)" by code_simp
  have p: "0 \<le> flit (3 / 10)" by (simp add: flit_def rnd_nonneg)
  have z: "flit (27 / 25) \<noteq> 0" by code_simp
  let ?l = "\<lparr>lx_quotation_id = ''Q'', lx_from_currency = ''JPY'', lx_to_currency = ''EUR'',
    lx_locked_rate = py_round 6 ?r, lx_locked_date = 1, lx_stage = ''QUOTATION'', lx_id = ''L''\<rparr>"
  have lock: "lock_exchange_rate ''L'' ''Q'' ''JPY'' ''EUR'' 1 ''QUOTATION'' new_fx_service =
      (Inr ?l, new_fx_service\<lparr>fxs_locked_rates := [((''Q'', ''JPY'', ''EUR''), ?l)]\<rparr>)"
    using z by (simp add: lock_exchange_rate_def new_fx_service_def u dget_or_def Let_def)
  have "fv_variance_amount v = flit (3 / 10)"
    if "calculate_fx_variance (new_fx_service\<lparr>fxs_locked_rates := [((''Q'', ''JPY'', ''EUR''), ?l)]\<rparr>)
      1000000 ''JPY'' ''EUR'' ''Q'' = Inr v" for v
    using that z p by (auto simp: calculate_fx_variance_def new_fx_service_def get_locked_rate_def u dget_or_def Let_def l c d)
  moreover have "\<exists>v. calculate_fx_variance (new_fx_service\<lparr>fxs_locked_rates := [((''Q'', ''JPY'', ''EUR''), ?l)]\<rparr>)
      1000000 ''JPY'' ''EUR'' ''Q'' = Inr v"
    using z by (simp add: calculate_fx_variance_def new_fx_service_def get_locked_rate_def u dget_or_def Let_def)
  ultimately show ?thesis using lock by blast
qed

text \<open>Concrete inputs at which the hypotheses above hold.\<close>

lemma sample_lock:
  "\<exists>l s. lock_exchange_rate ''L'' ''Q'' ''EUR'' ''USD'' 1 ''QUOTATION'' new_fx_service = (Inr l, s) \<and> fxs_rates_to_usd s = fxs_rates_to_usd new_fx_service"
  by (simp add: lock_exchange_rate_def new_fx_service_def py_eval Let_def)

theorem locked_conversion_is_stable_witness:
  "\<exists>(l :: locked_rate) s. fxs_convert (fold run_fx_op [Set_Rate ''eur'' 2] s) 10 ''EUR'' ''USD'' (Some ''Q'') =
    Inr (py_round 2 (fmul 10 (lx_locked_rate l)))"
proof -
  obtain l s where l: "lock_exchange_rate ''L'' ''Q'' ''EUR'' ''USD'' 1 ''QUOTATION'' new_fx_service = (Inr l, s)"
    using sample_lock by blast
  have "py_upper ''EUR'' \<noteq> py_upper ''USD''" by (simp add: py_eval)
  then have "fxs_convert (fold run_fx_op [Set_Rate ''eur'' 2] s) 10 ''EUR'' ''USD'' (Some ''Q'') =
      Inr (py_round 2 (fmul 10 (lx_locked_rate l)))"
    by (intro locked_conversion_is_stable [OF l]) simp_all
  then show ?thesis by blast
qed

theorem variance_report_sound_witness:
  "\<exists>s v. calculate_fx_variance s 100 ''EUR'' ''USD'' ''Q'' = Inr v \<and> 0 \<le> fv_variance_amount v"
proof -
  obtain l s where l: "lock_exchange_rate ''L'' ''Q'' ''EUR'' ''USD'' 1 ''QUOTATION'' new_fx_service = (Inr l, s)"
    and r: "fxs_rates_to_usd s = fxs_rates_to_usd new_fx_service"
    using sample_lock by blast
  then have "get_locked_rate s ''Q'' ''EUR'' ''USD'' = Some l"
    using lock_cases(1) [OF l] by (simp add: get_locked_rate_def dget_dset)
  then obtain v where v: "calculate_fx_variance s 100 ''EUR'' ''USD'' ''Q'' = Inr v"
    by (simp add: calculate_fx_variance_def r new_fx_service_def py_eval Let_def)
  from variance_report_sound [OF v] v show ?thesis by blast
qed

end
