(* ===== verification/Rate_Versions.thy ===== *)
theory Rate_Versions
  imports Rate_Engine
begin

text \<open>
  \<open>domain/services/rate_version_service.py\<close>: rates are created with a first version, every change
  appends a version, and two versions can be compared. The line and surcharge objects handed in are
  those of the caller; the model assumes, as the callers do, that they are not shared with an
  earlier version, so that writing their \<open>rate_version_id\<close> changes only the new version.
\<close>

section \<open>Creation\<close>

text \<open>The arguments of \<open>create_rate\<close>.\<close>

record rate_request =
  rq_rate_number :: string
  rq_rate_type :: string
  rq_rate_category :: rate_category
  rq_carrier_vendor_id :: string
  rq_service_name :: string
  rq_origin_location_id :: string
  rq_destination_location_id :: string
  rq_effective_date :: date
  rq_expiry_date :: date
  rq_lines :: "rate_line list"
  rq_surcharges :: "rate_surcharge list option"
  rq_currency_code :: string
  rq_customer_id :: "string option"
  rq_commodity_id :: "string option"
  rq_created_by :: string
  rq_reason :: string

definition own_lines :: "string \<Rightarrow> rate_line list \<Rightarrow> rate_line list" where
  "own_lines vid ls = map (\<lambda>l. l\<lparr>rl_rate_version_id := Some vid\<rparr>) ls"

definition own_surcharges :: "string \<Rightarrow> rate_surcharge list option \<Rightarrow> rate_surcharge list" where
  "own_surcharges vid ss = map (\<lambda>s. s\<lparr>rs_rate_version_id := Some vid\<rparr>) (case ss of None \<Rightarrow> [] | Some xs \<Rightarrow> xs)"

definition create_rate :: "string \<Rightarrow> string \<Rightarrow> datetime \<Rightarrow> rate_request \<Rightarrow> rate_repo \<Rightarrow> rate \<times> rate_repo" where
  "create_rate rid vid now q repo =
    (let version_1 = \<lparr>rv_rate_id = rid, rv_version_number = 1, rv_modified_by = rq_created_by q,
           rv_modified_date = now, rv_reason = rq_reason q, rv_approval_status = version_approval_status.APPROVED,
           rv_lines = own_lines vid (rq_lines q), rv_surcharges = own_surcharges vid (rq_surcharges q), rv_id = vid\<rparr>;
         r = \<lparr>rate_rate_number = rq_rate_number q, rate_rate_type = rq_rate_type q,
           rate_rate_category = rq_rate_category q, rate_carrier_vendor_id = rq_carrier_vendor_id q,
           rate_service_name = rq_service_name q, rate_origin_location_id = rq_origin_location_id q,
           rate_destination_location_id = rq_destination_location_id q, rate_effective_date = rq_effective_date q,
           rate_expiry_date = rq_expiry_date q, rate_currency_code = rq_currency_code q,
           rate_status = rate_status.ACTIVE, rate_via_routing = [], rate_commodity_id = rq_commodity_id q,
           rate_customer_id = rq_customer_id q, rate_versions = [version_1], rate_id = rid\<rparr>
     in (r, save_rate r repo))"

text \<open>\<open>max((v.version_number for v in versions), default=0)\<close>.\<close>

definition max_version_number :: "rate_version list \<Rightarrow> int" where
  "max_version_number vs = (case vs of [] \<Rightarrow> 0 | v # ws \<Rightarrow> rv_version_number (max_by rv_version_number v ws))"

definition create_new_rate_version :: "string \<Rightarrow> datetime \<Rightarrow> string \<Rightarrow> rate_line list \<Rightarrow> rate_surcharge list option \<Rightarrow>
    string \<Rightarrow> string \<Rightarrow> version_approval_status \<Rightarrow> rate_repo \<Rightarrow> rate_version res \<times> rate_repo" where
  "create_new_rate_version vid now rid new_lines new_surcharges modified_by reason approval_status repo =
    (case get_rate_by_id repo rid of
       None \<Rightarrow> (Inl (ValueError (''Rate '' @ rid @ '' not found'')), repo)
     | Some r \<Rightarrow>
         (let new_version = \<lparr>rv_rate_id = rate_id r, rv_version_number = max_version_number (rate_versions r) + 1,
                rv_modified_by = modified_by, rv_modified_date = now, rv_reason = reason,
                rv_approval_status = approval_status, rv_lines = own_lines vid new_lines,
                rv_surcharges = own_surcharges vid new_surcharges, rv_id = vid\<rparr>;
              r = r\<lparr>rate_versions := rate_versions r @ [new_version]\<rparr>
          in (Inr new_version, save_rate r repo)))"

section \<open>Comparison of versions\<close>

record line_change =
  lch_charge_code :: string
  lch_v1_amount :: flt
  lch_v2_amount :: flt
  lch_change :: flt

record surcharge_change =
  sch_charge_code :: string
  sch_v1_amount :: flt
  sch_v2_amount :: flt
  sch_v1_basis :: string
  sch_v2_basis :: string

record version_diff =
  vd_rate_id :: string
  vd_v1_number :: int
  vd_v2_number :: int
  vd_v1_version_id :: string
  vd_v2_version_id :: string
  vd_added_lines :: "rate_line list"
  vd_removed_lines :: "rate_line list"
  vd_modified_lines :: "line_change list"
  vd_added_surcharges :: "rate_surcharge list"
  vd_removed_surcharges :: "rate_surcharge list"
  vd_modified_surcharges :: "surcharge_change list"

type_synonym line_key = "string \<times> string \<times> string option \<times> flt option"

definition line_key :: "rate_line \<Rightarrow> line_key" where
  "line_key l = (rl_charge_code l, rl_rate_basis l, rl_container_type_code l, rl_weight_break_from l)"

definition lines_map :: "rate_version \<Rightarrow> (line_key, rate_line) dict" where
  "lines_map v = dict_of (map (\<lambda>l. (line_key l, l)) (rv_lines v))"

definition surcharges_map :: "rate_version \<Rightarrow> (string, rate_surcharge) dict" where
  "surcharges_map v = dict_of (map (\<lambda>s. (rs_charge_code s, s)) (rv_surcharges v))"

text \<open>The two loops over the items of the maps: entries without a partner, and changed entries.\<close>

fun only_in :: "('k, 'v) dict \<Rightarrow> ('k, 'v) dict \<Rightarrow> 'v list" where
  "only_in [] m = []"
| "only_in ((k, x) # d) m = (if dget m k = None then x # only_in d m else only_in d m)"

fun changed :: "('k \<Rightarrow> 'v \<Rightarrow> 'v \<Rightarrow> 'c list) \<Rightarrow> ('k, 'v) dict \<Rightarrow> ('k, 'v) dict \<Rightarrow> 'c list" where
  "changed f m1 [] = []"
| "changed f m1 ((k, x2) # d) =
    (case dget m1 k of None \<Rightarrow> changed f m1 d | Some x1 \<Rightarrow> f k x1 x2 @ changed f m1 d)"

definition line_changes :: "line_key \<Rightarrow> rate_line \<Rightarrow> rate_line \<Rightarrow> line_change list" where
  "line_changes k l1 l2 = (if rl_amount l1 \<noteq> rl_amount l2
     then [\<lparr>lch_charge_code = rl_charge_code l2, lch_v1_amount = rl_amount l1, lch_v2_amount = rl_amount l2,
            lch_change = py_round 2 (fsub (rl_amount l2) (rl_amount l1))\<rparr>] else [])"

definition surcharge_changes :: "string \<Rightarrow> rate_surcharge \<Rightarrow> rate_surcharge \<Rightarrow> surcharge_change list" where
  "surcharge_changes code s1 s2 = (if rs_amount s1 \<noteq> rs_amount s2 \<or> rs_basis s1 \<noteq> rs_basis s2
     then [\<lparr>sch_charge_code = code, sch_v1_amount = rs_amount s1, sch_v2_amount = rs_amount s2,
            sch_v1_basis = rs_basis s1, sch_v2_basis = rs_basis s2\<rparr>] else [])"

definition diff_versions :: "string \<Rightarrow> rate_version \<Rightarrow> int \<Rightarrow> rate_version \<Rightarrow> int \<Rightarrow> version_diff" where
  "diff_versions rid v1 v1_number v2 v2_number =
    (let m1 = lines_map v1; m2 = lines_map v2; s1 = surcharges_map v1; s2 = surcharges_map v2
     in \<lparr>vd_rate_id = rid, vd_v1_number = v1_number, vd_v2_number = v2_number, vd_v1_version_id = rv_id v1,
         vd_v2_version_id = rv_id v2, vd_added_lines = only_in m2 m1, vd_removed_lines = only_in m1 m2,
         vd_modified_lines = changed line_changes m1 m2, vd_added_surcharges = only_in s2 s1,
         vd_removed_surcharges = only_in s1 s2, vd_modified_surcharges = changed surcharge_changes s1 s2\<rparr>)"

definition find_version :: "rate \<Rightarrow> int \<Rightarrow> rate_version option" where
  "find_version r n = List.find (\<lambda>v. rv_version_number v = n) (rate_versions r)"

definition compare_rate_versions :: "rate_repo \<Rightarrow> string \<Rightarrow> int \<Rightarrow> int \<Rightarrow> version_diff res" where
  "compare_rate_versions repo rid v1_number v2_number =
    (case get_rate_by_id repo rid of
       None \<Rightarrow> Inl (ValueError (''Rate '' @ rid @ '' not found''))
     | Some r \<Rightarrow>
         (case (find_version r v1_number, find_version r v2_number) of
            (Some v1, Some v2) \<Rightarrow> Inr (diff_versions rid v1 v1_number v2 v2_number)
          | _ \<Rightarrow> Inl (ValueError (''Could not find both versions '' @ int_str v1_number @ '' and '' @
                    int_str v2_number @ '' on rate '' @ rid))))"

section \<open>Laws\<close>

lemma max_version_number_ge: "v \<in> set vs \<Longrightarrow> rv_version_number v \<le> max_version_number vs"
  by (cases vs) (auto simp: max_version_number_def max_by_ge max_by_ge_hd)

text \<open>
  The versions of a rate are well formed when their numbers ascend and each belongs to the rate;
  the newest is then the last.
\<close>

definition versions_ok :: "rate \<Rightarrow> bool" where
  "versions_ok r \<longleftrightarrow> sorted_wrt (<) (map rv_version_number (rate_versions r)) \<and>
    (\<forall>v \<in> set (rate_versions r). 1 \<le> rv_version_number v \<and> rv_rate_id v = rate_id r)"

definition rates_ok :: "rate_repo \<Rightarrow> bool" where
  "rates_ok repo \<longleftrightarrow> rate_repo_inv repo \<and> (\<forall>r \<in> set (list_all_rates repo). versions_ok r)"

lemma rates_ok_save: "rates_ok repo \<Longrightarrow> versions_ok r \<Longrightarrow> rates_ok (save_rate r repo)"
  by (auto simp: rates_ok_def rate_store.elems_save rate_store.inv_save)

lemma max_version_number_nonneg: "versions_ok r \<Longrightarrow> 0 \<le> max_version_number (rate_versions r)"
proof (cases "rate_versions r")
  case (Cons v vs)
  moreover assume "versions_ok r"
  ultimately show ?thesis
    using max_version_number_ge [of v "rate_versions r"] by (force simp: versions_ok_def)
qed (simp add: max_version_number_def)

lemma versions_ok_append:
  "versions_ok r \<Longrightarrow> rv_version_number v = max_version_number (rate_versions r) + 1 \<Longrightarrow> rv_rate_id v = rate_id r \<Longrightarrow>
    versions_ok (r\<lparr>rate_versions := rate_versions r @ [v]\<rparr>)"
  using max_version_number_ge max_version_number_nonneg [of r]
  by (fastforce simp: versions_ok_def sorted_wrt_append)

lemma current_version_append:
  "rv_version_number v = max_version_number (rate_versions r) + 1 \<Longrightarrow>
    current_version (r\<lparr>rate_versions := rate_versions r @ [v]\<rparr>) = Some v"
proof -
  assume n: "rv_version_number v = max_version_number (rate_versions r) + 1"
  let ?r = "r\<lparr>rate_versions := rate_versions r @ [v]\<rparr>"
  obtain w where w: "current_version ?r = Some w" by (cases "current_version ?r") (auto simp: current_version_None)
  have "rv_version_number v \<le> rv_version_number w" using current_version_max [OF w] by simp
  moreover have "w \<in> set (rate_versions r) \<Longrightarrow> rv_version_number w < rv_version_number v"
    using max_version_number_ge n by fastforce
  ultimately show ?thesis using current_version_mem [OF w] w by auto
qed

lemma only_in_Nil: "only_in d m = [] \<longleftrightarrow> (\<forall>k \<in> set (dkeys d). dget m k \<noteq> None)"
  by (induction d m rule: only_in.induct) auto

lemma changed_concat:
  "changed f m1 d = concat (map (\<lambda>(k, x2). case dget m1 k of None \<Rightarrow> [] | Some x1 \<Rightarrow> f k x1 x2) d)"
  by (induction f m1 d rule: changed.induct) (auto split: option.splits)

lemma changed_set:
  "c \<in> set (changed f m1 d) \<longleftrightarrow> (\<exists>k x1 x2. (k, x2) \<in> set d \<and> dget m1 k = Some x1 \<and> c \<in> set (f k x1 x2))"
  unfolding changed_concat by (force split: option.splits)

lemma changed_Nil:
  "changed f m1 d = [] \<longleftrightarrow> (\<forall>k x1 x2. (k, x2) \<in> set d \<and> dget m1 k = Some x1 \<longrightarrow> f k x1 x2 = [])"
  by (induction f m1 d rule: changed.induct) (auto split: option.splits)

text \<open>Two maps with no unmatched and no changed entries agree, and conversely.\<close>

lemma maps_agree:
  assumes d: "distinct (dkeys m1)" "distinct (dkeys m2)" and g: "\<And>k x1 x2. f k x1 x2 = [] \<longleftrightarrow> g x1 = g x2"
  shows "(\<forall>k. map_option g (dget m1 k) = map_option g (dget m2 k)) \<longleftrightarrow>
    only_in m2 m1 = [] \<and> only_in m1 m2 = [] \<and> changed f m1 m2 = []"
proof -
  have mem: "(k, x) \<in> set m2 \<longleftrightarrow> dget m2 k = Some x" for k x
    using d(2) by simp
  have ks: "k \<in> set (dkeys m) \<longleftrightarrow> dget m k \<noteq> None" for k and m :: "('a \<times> 'b) list"
    by (simp add: map_of_eq_None_iff)
  have "(\<forall>k. map_option g (dget m1 k) = map_option g (dget m2 k)) \<longleftrightarrow>
      (\<forall>k. (dget m2 k \<noteq> None \<longrightarrow> dget m1 k \<noteq> None) \<and> (dget m1 k \<noteq> None \<longrightarrow> dget m2 k \<noteq> None) \<and>
        (\<forall>x1 x2. dget m2 k = Some x2 \<and> dget m1 k = Some x1 \<longrightarrow> g x1 = g x2))"
    by (intro arg_cong [where f = All] ext) (auto simp: map_option_case split: option.splits)
  also have "\<dots> \<longleftrightarrow> only_in m2 m1 = [] \<and> only_in m1 m2 = [] \<and> changed f m1 m2 = []"
    unfolding only_in_Nil changed_Nil mem g Ball_def ks by blast
  finally show ?thesis .
qed

lemma only_in_dict_distinct: "distinct (dkeys (lines_map v)) \<and> distinct (dkeys (surcharges_map v))"
  by (simp add: lines_map_def surcharges_map_def distinct_dkeys_dict_of)

lemma find_version_append:
  "dget d k = Some r \<Longrightarrow> \<not> P v \<Longrightarrow>
    List.find P (concat (map rate_versions (dvalues (dset k (r\<lparr>rate_versions := rate_versions r @ [v]\<rparr>) d)))) =
    List.find P (concat (map rate_versions (dvalues d)))"
  by (induction d) (auto simp: find_append split: option.splits)

lemma create_new_cases:
  "create_new_rate_version vid now rid ls ss by reason st repo = (Inr v, repo') \<longleftrightarrow>
    (\<exists>r. get_rate_by_id repo rid = Some r \<and>
      v = \<lparr>rv_rate_id = rate_id r, rv_version_number = max_version_number (rate_versions r) + 1,
           rv_modified_by = by, rv_modified_date = now, rv_reason = reason, rv_approval_status = st,
           rv_lines = own_lines vid ls, rv_surcharges = own_surcharges vid ss, rv_id = vid\<rparr> \<and>
      repo' = save_rate (r\<lparr>rate_versions := rate_versions r @ [v]\<rparr>) repo)"
  by (auto simp: create_new_rate_version_def Let_def split: option.splits)

section \<open>Properties of the versions\<close>

text \<open>
  Creating a version only appends: the rate keeps all its versions and gains one with a number
  above all of them, which becomes the current version whatever its approval status; its lines
  carry its identity. No other rate changes, and the numbering stays well formed.
\<close>

theorem new_version_appended:
  assumes "rates_ok repo" and "create_new_rate_version vid now rid ls ss by reason st repo = (Inr v, repo')"
  shows "rates_ok repo' \<and> (\<exists>r. get_rate_by_id repo rid = Some r \<and>
    get_rate_by_id repo' rid = Some (r\<lparr>rate_versions := rate_versions r @ [v]\<rparr>) \<and>
    current_version (r\<lparr>rate_versions := rate_versions r @ [v]\<rparr>) = Some v \<and>
    (\<forall>w \<in> set (rate_versions r). rv_version_number w < rv_version_number v)) \<and>
    (\<forall>i. i \<noteq> rid \<longrightarrow> get_rate_by_id repo' i = get_rate_by_id repo i) \<and>
    rv_approval_status v = st \<and> (\<forall>l \<in> set (rv_lines v). rl_rate_version_id l = Some (rv_id v))"
proof -
  obtain r where r: "get_rate_by_id repo rid = Some r"
    and v: "v = \<lparr>rv_rate_id = rate_id r, rv_version_number = max_version_number (rate_versions r) + 1,
           rv_modified_by = by, rv_modified_date = now, rv_reason = reason, rv_approval_status = st,
           rv_lines = own_lines vid ls, rv_surcharges = own_surcharges vid ss, rv_id = vid\<rparr>"
    and repo': "repo' = save_rate (r\<lparr>rate_versions := rate_versions r @ [v]\<rparr>) repo"
    using assms(2) create_new_cases by metis
  have inv: "rate_repo_inv repo" using assms(1) by (simp add: rates_ok_def)
  have id: "rate_id r = rid" using rate_store.find_key [OF inv r] .
  have n: "rv_version_number v = max_version_number (rate_versions r) + 1" "rv_rate_id v = rate_id r"
    by (simp_all add: v)
  have "versions_ok r" using assms(1) rate_store.find_in_elems [OF inv r] by (simp add: rates_ok_def)
  then have "rates_ok repo'" unfolding repo' by (intro rates_ok_save assms(1) versions_ok_append n)
  moreover have "w \<in> set (rate_versions r) \<Longrightarrow> rv_version_number w < rv_version_number v" for w
    using max_version_number_ge n(1) by fastforce
  moreover have "\<forall>l \<in> set (rv_lines v). rl_rate_version_id l = Some (rv_id v)" by (auto simp: v own_lines_def)
  ultimately show ?thesis
    using r current_version_append [OF n(1)] id by (auto simp: repo' rate_store.find_save [OF inv] v)
qed

text \<open>
  Earlier versions are immutable: creating a version changes nothing that a quotation can look
  up under any other version identity.
\<close>

theorem old_versions_untouched:
  assumes "rates_ok repo" and "create_new_rate_version vid now rid ls ss by reason st repo = (res, repo')" and "i \<noteq> vid"
  shows "get_rate_version_by_id repo' i = get_rate_version_by_id repo i"
proof (cases res)
  case (Inl e)
  then show ?thesis using assms(2) by (auto simp: create_new_rate_version_def Let_def split: option.splits)
next
  case (Inr v)
  then obtain r where r: "get_rate_by_id repo rid = Some r" and v: "rv_id v = vid"
    and repo': "repo' = save_rate (r\<lparr>rate_versions := rate_versions r @ [v]\<rparr>) repo"
    using assms(2) create_new_cases by fastforce
  have "rate_id r = rid" using rate_store.find_key [OF _ r] assms(1) by (simp add: rates_ok_def)
  then show ?thesis
    using find_version_append [of repo rid r "\<lambda>w. rv_id w = i" v] r v assms(3)
    by (simp add: get_rate_version_by_id_def repo' save_rate_def get_rate_by_id_def)
qed

text \<open>
  The comparison of two versions reports nothing exactly when they price the same: the same line
  keys with the same amounts, and the same surcharge codes with the same amounts and bases. In
  particular a version never differs from itself.
\<close>

theorem diff_empty_iff:
  "(vd_added_lines (diff_versions rid v1 n1 v2 n2) = [] \<and> vd_removed_lines (diff_versions rid v1 n1 v2 n2) = [] \<and>
    vd_modified_lines (diff_versions rid v1 n1 v2 n2) = [] \<and> vd_added_surcharges (diff_versions rid v1 n1 v2 n2) = [] \<and>
    vd_removed_surcharges (diff_versions rid v1 n1 v2 n2) = [] \<and> vd_modified_surcharges (diff_versions rid v1 n1 v2 n2) = []) \<longleftrightarrow>
   (\<forall>k. map_option rl_amount (dget (lines_map v1) k) = map_option rl_amount (dget (lines_map v2) k)) \<and>
   (\<forall>c. map_option (\<lambda>s. (rs_amount s, rs_basis s)) (dget (surcharges_map v1) c) =
        map_option (\<lambda>s. (rs_amount s, rs_basis s)) (dget (surcharges_map v2) c))"
proof -
  have d: "distinct (dkeys (lines_map v))" "distinct (dkeys (surcharges_map v))" for v
    by (simp_all add: only_in_dict_distinct)
  have "(\<forall>k. map_option rl_amount (dget (lines_map v1) k) = map_option rl_amount (dget (lines_map v2) k)) \<longleftrightarrow>
      only_in (lines_map v2) (lines_map v1) = [] \<and> only_in (lines_map v1) (lines_map v2) = [] \<and>
      changed line_changes (lines_map v1) (lines_map v2) = []"
    by (rule maps_agree [OF d(1) d(1)]) (simp add: line_changes_def)
  moreover have "(\<forall>c. map_option (\<lambda>s. (rs_amount s, rs_basis s)) (dget (surcharges_map v1) c) =
        map_option (\<lambda>s. (rs_amount s, rs_basis s)) (dget (surcharges_map v2) c)) \<longleftrightarrow>
      only_in (surcharges_map v2) (surcharges_map v1) = [] \<and> only_in (surcharges_map v1) (surcharges_map v2) = [] \<and>
      changed surcharge_changes (surcharges_map v1) (surcharges_map v2) = []"
    by (rule maps_agree [OF d(2) d(2)]) (simp add: surcharge_changes_def)
  ultimately show ?thesis by (simp add: diff_versions_def Let_def)
qed

text \<open>
  Comparing in the other direction mirrors the report: what was added is removed and conversely,
  and every changed line or surcharge reappears with its two amounts exchanged.
\<close>

theorem diff_mirrored:
  "vd_added_lines (diff_versions rid v2 n2 v1 n1) = vd_removed_lines (diff_versions rid v1 n1 v2 n2) \<and>
   vd_added_surcharges (diff_versions rid v2 n2 v1 n1) = vd_removed_surcharges (diff_versions rid v1 n1 v2 n2) \<and>
   (\<lambda>c. (lch_v2_amount c, lch_v1_amount c)) ` set (vd_modified_lines (diff_versions rid v2 n2 v1 n1)) =
     (\<lambda>c. (lch_v1_amount c, lch_v2_amount c)) ` set (vd_modified_lines (diff_versions rid v1 n1 v2 n2)) \<and>
   (\<lambda>c. (sch_charge_code c, sch_v2_amount c, sch_v1_amount c)) ` set (vd_modified_surcharges (diff_versions rid v2 n2 v1 n1)) =
     (\<lambda>c. (sch_charge_code c, sch_v1_amount c, sch_v2_amount c)) ` set (vd_modified_surcharges (diff_versions rid v1 n1 v2 n2))"
proof -
  have mem: "(k, x) \<in> set (lines_map v) \<longleftrightarrow> dget (lines_map v) k = Some x" for k x v
    using only_in_dict_distinct by simp
  have mem': "(k, x) \<in> set (surcharges_map v) \<longleftrightarrow> dget (surcharges_map v) k = Some x" for k x v
    using only_in_dict_distinct by simp
  have ls: "c \<in> (\<lambda>c. (lch_v1_amount c, lch_v2_amount c)) ` set (changed line_changes (lines_map v) (lines_map w)) \<longleftrightarrow>
      (\<exists>k x y. dget (lines_map w) k = Some y \<and> dget (lines_map v) k = Some x \<and> rl_amount x \<noteq> rl_amount y \<and>
        c = (rl_amount x, rl_amount y))" for c v w
    by (force simp: changed_set mem line_changes_def image_iff split: if_splits)
  have ls': "c \<in> (\<lambda>c. (lch_v2_amount c, lch_v1_amount c)) ` set (changed line_changes (lines_map v) (lines_map w)) \<longleftrightarrow>
      (\<exists>k x y. dget (lines_map w) k = Some y \<and> dget (lines_map v) k = Some x \<and> rl_amount x \<noteq> rl_amount y \<and>
        c = (rl_amount y, rl_amount x))" for c v w
    by (force simp: changed_set mem line_changes_def image_iff split: if_splits)
  have ss: "c \<in> (\<lambda>c. (sch_charge_code c, sch_v1_amount c, sch_v2_amount c)) `
        set (changed surcharge_changes (surcharges_map v) (surcharges_map w)) \<longleftrightarrow>
      (\<exists>k x y. dget (surcharges_map w) k = Some y \<and> dget (surcharges_map v) k = Some x \<and>
        (rs_amount x \<noteq> rs_amount y \<or> rs_basis x \<noteq> rs_basis y) \<and> c = (k, rs_amount x, rs_amount y))" for c v w
    by (force simp: changed_set mem' surcharge_changes_def image_iff split: if_splits)
  have ss': "c \<in> (\<lambda>c. (sch_charge_code c, sch_v2_amount c, sch_v1_amount c)) `
        set (changed surcharge_changes (surcharges_map v) (surcharges_map w)) \<longleftrightarrow>
      (\<exists>k x y. dget (surcharges_map w) k = Some y \<and> dget (surcharges_map v) k = Some x \<and>
        (rs_amount x \<noteq> rs_amount y \<or> rs_basis x \<noteq> rs_basis y) \<and> c = (k, rs_amount y, rs_amount x))" for c v w
    by (force simp: changed_set mem' surcharge_changes_def image_iff split: if_splits)
  show ?thesis
    unfolding diff_versions_def Let_def version_diff.simps set_eq_iff ls ls' ss ss'
    by (intro conjI refl allI iffI; metis)
qed

text \<open>Concrete inputs at which the hypotheses above hold.\<close>

lemma sample_rates_ok: "rates_ok [(''R1'', sample_rate)]"
  by (simp add: rates_ok_def store_inv_def list_all_rates_def versions_ok_def sample_rate_def sample_version_def)

lemma sample_new_version: "\<exists>v repo'. create_new_rate_version ''V2'' 5 ''R1'' [] None ''u'' ''why''
    version_approval_status.DRAFT [(''R1'', sample_rate)] = (Inr v, repo')"
  by (simp add: create_new_rate_version_def get_rate_by_id_def Let_def)

theorem new_version_appended_witness:
  "\<exists>v repo'. create_new_rate_version ''V2'' 5 ''R1'' [] None ''u'' ''why'' version_approval_status.DRAFT
    [(''R1'', sample_rate)] = (Inr v, repo') \<and> rates_ok repo' \<and>
    current_version (sample_rate\<lparr>rate_versions := rate_versions sample_rate @ [v]\<rparr>) = Some v"
proof -
  obtain v repo' where c: "create_new_rate_version ''V2'' 5 ''R1'' [] None ''u'' ''why'' version_approval_status.DRAFT
    [(''R1'', sample_rate)] = (Inr v, repo')" using sample_new_version by blast
  from new_version_appended [OF sample_rates_ok c] c show ?thesis by (auto simp: get_rate_by_id_def)
qed

theorem old_versions_untouched_witness:
  "get_rate_version_by_id (snd (create_new_rate_version ''V2'' 5 ''R1'' [] None ''u'' ''why''
    version_approval_status.DRAFT [(''R1'', sample_rate)])) ''V1'' = get_rate_version_by_id [(''R1'', sample_rate)] ''V1''"
  by (rule old_versions_untouched [OF sample_rates_ok prod.collapse [symmetric]]) simp

end
