(* ===== verification/Rate_Expiry.thy ===== *)
theory Rate_Expiry
  imports Rate_Engine
begin

text \<open>
  \<open>domain/services/rate_expiry_service.py\<close>: the daily check that expires rates and raises alerts,
  and the check of a quotation's rate versions. The service works on the rate repository and an
  optional event publisher; \<open>hasattr(rate_repo, 'list_all_rates')\<close> holds for the repository.
\<close>

section \<open>The daily check\<close>

record expiry_alert =
  ea_rate_id :: string
  ea_rate_number :: string
  ea_carrier_id :: string
  ea_origin_id :: string
  ea_destination_id :: string
  ea_expiry_date :: date
  ea_days_until_expiry :: int
  ea_alert_level :: string
  ea_message :: string

record expiry_report =
  ec_reference_date :: date
  ec_total_active_checked :: int
  ec_warning_7_day_count :: int
  ec_escalation_3_day_count :: int
  ec_expired_count :: int
  ec_alerts :: "expiry_alert list"
  ec_auto_expired_rate_ids :: "string list"

definition alert_for :: "rate \<Rightarrow> int \<Rightarrow> string \<Rightarrow> string \<Rightarrow> expiry_alert" where
  "alert_for r days_left level message = \<lparr>ea_rate_id = rate_id r, ea_rate_number = rate_rate_number r,
     ea_carrier_id = rate_carrier_vendor_id r, ea_origin_id = rate_origin_location_id r,
     ea_destination_id = rate_destination_location_id r, ea_expiry_date = rate_expiry_date r,
     ea_days_until_expiry = days_left, ea_alert_level = level, ea_message = message\<rparr>"

fun expiry_loop :: "date \<Rightarrow> expiry_report \<Rightarrow> rate_repo \<Rightarrow> rate list \<Rightarrow> expiry_report \<times> rate_repo" where
  "expiry_loop ref rep repo [] = (rep, repo)"
| "expiry_loop ref rep repo (r # rs) =
    (let days_left = rate_expiry_date r - ref in
     if days_left < 0 then
       (let r = r\<lparr>rate_status := rate_status.EXPIRED\<rparr>;
            rep = rep\<lparr>ec_auto_expired_rate_ids := ec_auto_expired_rate_ids rep @ [rate_id r],
              ec_expired_count := ec_expired_count rep + 1,
              ec_alerts := ec_alerts rep @ [alert_for r days_left ''EXPIRED''
                (''Rate '' @ rate_rate_number r @ '' expired on '' @ isoformat (rate_expiry_date r) @
                 '' and was auto-transitioned to EXPIRED'')]\<rparr>
        in expiry_loop ref rep (save_rate r repo) rs)
     else if days_left \<le> 3 then
       expiry_loop ref (rep\<lparr>ec_escalation_3_day_count := ec_escalation_3_day_count rep + 1,
          ec_alerts := ec_alerts rep @ [alert_for r days_left ''3_DAY_ESCALATION''
            (''ESCALATION: Rate '' @ rate_rate_number r @ '' expires in '' @ int_str days_left @ '' days ('' @
             isoformat (rate_expiry_date r) @ '')'')]\<rparr>) repo rs
     else if days_left \<le> 7 then
       expiry_loop ref (rep\<lparr>ec_warning_7_day_count := ec_warning_7_day_count rep + 1,
          ec_alerts := ec_alerts rep @ [alert_for r days_left ''7_DAY_WARNING''
            (''WARNING: Rate '' @ rate_rate_number r @ '' expires in '' @ int_str days_left @ '' days ('' @
             isoformat (rate_expiry_date r) @ '')'')]\<rparr>) repo rs
     else expiry_loop ref rep repo rs)"

definition active_rates :: "rate_repo \<Rightarrow> rate list" where
  "active_rates repo = filter (\<lambda>r. rate_status r = rate_status.ACTIVE) (list_all_rates repo)"

definition expiry_event :: "expiry_report \<Rightarrow> (string, pyval) dict" where
  "expiry_event rep = [(''reference_date'', PStr (isoformat (ec_reference_date rep))),
     (''total_alerts'', PInt (int (length (ec_alerts rep)))),
     (''auto_expired_count'', PInt (int (length (ec_auto_expired_rate_ids rep))))]"

definition run_daily_expiry_check ::
  "date \<Rightarrow> rate_repo \<Rightarrow> event list option \<Rightarrow> expiry_report \<times> rate_repo \<times> event list option" where
  "run_daily_expiry_check ref repo events =
    (let active = active_rates repo;
         (rep, repo) = expiry_loop ref \<lparr>ec_reference_date = ref, ec_total_active_checked = int (length active),
           ec_warning_7_day_count = 0, ec_escalation_3_day_count = 0, ec_expired_count = 0, ec_alerts = [],
           ec_auto_expired_rate_ids = []\<rparr> repo active
     in (rep, repo, if ec_alerts rep \<noteq> [] \<or> ec_auto_expired_rate_ids rep \<noteq> []
           then map_option (publish ''rate.expiry_check_completed'' (expiry_event rep)) events else events))"

section \<open>The rate versions of a quotation\<close>

definition option_warning :: "rate_repo \<Rightarrow> date \<Rightarrow> quotation_option \<Rightarrow> string option" where
  "option_warning repo ref opt =
    (if truthy (qo_primary_rate_version_id opt) then
       (case get_rate_version_by_id repo (the (qo_primary_rate_version_id opt)) of
          None \<Rightarrow> None
        | Some v \<Rightarrow>
            (case get_rate_by_id repo (rv_rate_id v) of
               None \<Rightarrow> None
             | Some parent \<Rightarrow>
                 if rate_status parent = rate_status.EXPIRED \<or> rate_expiry_date parent < ref
                 then Some (''Option '' @ [CHR 0x27] @ qo_label opt @ [CHR 0x27] @ '' references expired rate '' @ rate_rate_number parent @
                   '' (expired '' @ isoformat (rate_expiry_date parent) @ '')'')
                 else None))
     else None)"

definition validate_quotation_rate_versions :: "rate_repo \<Rightarrow> quotation \<Rightarrow> date \<Rightarrow> string list" where
  "validate_quotation_rate_versions repo q ref = somes (map (option_warning repo ref) (quo_options q))"

section \<open>Laws\<close>

definition expired_on :: "date \<Rightarrow> rate \<Rightarrow> bool" where
  "expired_on ref r \<longleftrightarrow> rate_status r = rate_status.ACTIVE \<and> rate_expiry_date r < ref"

definition expire :: "rate \<Rightarrow> rate" where "expire r = r\<lparr>rate_status := rate_status.EXPIRED\<rparr>"

lemma expire_id [simp]: "rate_id (expire r) = rate_id r"
  by (simp add: expire_def)

lemma not_expired_after: "\<not> expired_on ref (if expired_on ref r then expire r else r)"
  by (simp add: expired_on_def expire_def)

lemma expiry_loop_repo:
  "snd (expiry_loop ref rep repo rs) =
    fold save_rate (map expire (filter (\<lambda>r. rate_expiry_date r < ref) rs)) repo"
  by (induction rs arbitrary: rep repo) (simp_all add: Let_def expire_def)

text \<open>What the loop adds to the report, given by the list of rates alone.\<close>

definition in_days :: "date \<Rightarrow> int \<Rightarrow> int \<Rightarrow> rate \<Rightarrow> bool" where
  "in_days ref lo hi r \<longleftrightarrow> lo \<le> rate_expiry_date r - ref \<and> rate_expiry_date r - ref \<le> hi"

lemma expiry_loop_counts:
  "ec_expired_count (fst (expiry_loop ref rep repo rs)) =
     ec_expired_count rep + int (length (filter (\<lambda>r. rate_expiry_date r < ref) rs))"
  "ec_escalation_3_day_count (fst (expiry_loop ref rep repo rs)) =
     ec_escalation_3_day_count rep + int (length (filter (in_days ref 0 3) rs))"
  "ec_warning_7_day_count (fst (expiry_loop ref rep repo rs)) =
     ec_warning_7_day_count rep + int (length (filter (in_days ref 4 7) rs))"
  by (induction rs arbitrary: rep repo) (simp_all add: Let_def in_days_def)

lemma expiry_loop_lists:
  "ec_auto_expired_rate_ids (fst (expiry_loop ref rep repo rs)) =
     ec_auto_expired_rate_ids rep @ map rate_id (filter (\<lambda>r. rate_expiry_date r < ref) rs)"
  "map ea_rate_id (ec_alerts (fst (expiry_loop ref rep repo rs))) =
     map ea_rate_id (ec_alerts rep) @ map rate_id (filter (\<lambda>r. rate_expiry_date r - ref \<le> 7) rs)"
  "ec_total_active_checked (fst (expiry_loop ref rep repo rs)) = ec_total_active_checked rep"
  by (induction rs arbitrary: rep repo) (simp_all add: Let_def alert_for_def)

lemma active_expired: "filter (\<lambda>r. rate_expiry_date r < ref) (active_rates repo) = filter (expired_on ref) (list_all_rates repo)"
  by (auto simp: active_rates_def expired_on_def intro: filter_cong)

lemma daily_repo:
  "fst (snd (run_daily_expiry_check ref repo evs)) =
    fold save_rate (map expire (filter (expired_on ref) (list_all_rates repo))) repo"
  by (simp add: run_daily_expiry_check_def Let_def expiry_loop_repo active_expired split: prod.split)
    (metis active_expired expiry_loop_repo snd_conv)

lemma daily_lookup:
  assumes inv: "rate_repo_inv repo"
  shows "get_rate_by_id (fst (snd (run_daily_expiry_check ref repo evs))) i =
    map_option (\<lambda>r. if expired_on ref r then expire r else r) (get_rate_by_id repo i)"
proof -
  let ?es = "map expire (filter (expired_on ref) (list_all_rates repo))"
  have "distinct (map rate_id (list_all_rates repo))" using rate_store.elems_keys [OF inv] .
  then have d: "distinct (map rate_id ?es)" by (simp add: comp_def distinct_map_filter)
  have l: "get_rate_by_id (fold save_rate ?es repo) i =
      (case List.find (\<lambda>e. rate_id e = i) ?es of Some e \<Rightarrow> Some e | None \<Rightarrow> get_rate_by_id repo i)"
    by (rule rate_store.find_fold_save [OF inv d])
  have mem: "r \<in> set (list_all_rates repo) \<longleftrightarrow> get_rate_by_id repo (rate_id r) = Some r" for r
    by (rule rate_store.elems_iff [OF inv])
  show ?thesis
  proof (cases "List.find (\<lambda>e. rate_id e = i) ?es")
    case None
    then have "\<forall>r. get_rate_by_id repo i = Some r \<longrightarrow> \<not> expired_on ref r"
      using rate_store.find_in_elems [OF inv] rate_store.find_key [OF inv] by (fastforce simp: find_None_iff)
    then show ?thesis unfolding daily_repo l None by (cases "get_rate_by_id repo i") auto
  next
    case (Some e)
    then have "e \<in> set ?es \<and> rate_id e = i" by (rule find_SomeD)
    then obtain r where "r \<in> set (list_all_rates repo)" "expired_on ref r" "e = expire r" "rate_id r = i" by auto
    then show ?thesis unfolding daily_repo l Some by (simp add: mem)
  qed
qed

section \<open>Properties of the expiry check\<close>

text \<open>
  The daily check maps every stored rate: an ACTIVE rate whose expiry date has passed becomes
  EXPIRED, every other rate is left as it is, and no rate appears or disappears. Afterwards no
  ACTIVE rate is past its expiry date.
\<close>

theorem daily_check_expires_exactly:
  assumes "rate_repo_inv repo"
  shows "get_rate_by_id (fst (snd (run_daily_expiry_check ref repo evs))) i =
      map_option (\<lambda>r. if rate_status r = rate_status.ACTIVE \<and> rate_expiry_date r < ref
        then r\<lparr>rate_status := rate_status.EXPIRED\<rparr> else r) (get_rate_by_id repo i) \<and>
    (\<forall>r. get_rate_by_id (fst (snd (run_daily_expiry_check ref repo evs))) i = Some r \<and>
      rate_status r = rate_status.ACTIVE \<longrightarrow> ref \<le> rate_expiry_date r)"
proof -
  have e: "(if rate_status r = rate_status.ACTIVE \<and> rate_expiry_date r < ref
      then r\<lparr>rate_status := rate_status.EXPIRED\<rparr> else r) = (if expired_on ref r then expire r else r)" for r
    by (simp add: expired_on_def expire_def)
  have "ref \<le> rate_expiry_date r"
    if "map_option (\<lambda>r. if expired_on ref r then expire r else r) (get_rate_by_id repo i) = Some r"
      "rate_status r = rate_status.ACTIVE" for r
  proof -
    from that(1) not_expired_after have "\<not> expired_on ref r" by (metis (no_types, lifting) map_option_eq_Some)
    with that(2) show ?thesis by (simp add: expired_on_def)
  qed
  then show ?thesis unfolding e daily_lookup [OF assms] by blast
qed

text \<open>
  The report accounts for every ACTIVE rate: the expired identities are those of the rates past
  their date, in store order; there is one alert for each ACTIVE rate with at most seven days left,
  and the three counters add up to the number of alerts.
\<close>

theorem daily_report_complete:
  defines "active repo \<equiv> filter (\<lambda>r. rate_status r = rate_status.ACTIVE) (list_all_rates repo)"
  shows "ec_auto_expired_rate_ids (fst (run_daily_expiry_check ref repo evs)) =
      map rate_id (filter (\<lambda>r. rate_expiry_date r < ref) (active repo)) \<and>
    map ea_rate_id (ec_alerts (fst (run_daily_expiry_check ref repo evs))) =
      map rate_id (filter (\<lambda>r. rate_expiry_date r - ref \<le> 7) (active repo)) \<and>
    ec_expired_count (fst (run_daily_expiry_check ref repo evs)) +
      ec_escalation_3_day_count (fst (run_daily_expiry_check ref repo evs)) +
      ec_warning_7_day_count (fst (run_daily_expiry_check ref repo evs)) =
      int (length (ec_alerts (fst (run_daily_expiry_check ref repo evs)))) \<and>
    ec_total_active_checked (fst (run_daily_expiry_check ref repo evs)) = int (length (active repo))"
proof -
  have fst_daily: "fst (run_daily_expiry_check ref repo evs) = fst (expiry_loop ref \<lparr>ec_reference_date = ref,
      ec_total_active_checked = int (length (active repo)), ec_warning_7_day_count = 0, ec_escalation_3_day_count = 0,
      ec_expired_count = 0, ec_alerts = [], ec_auto_expired_rate_ids = []\<rparr> repo (active repo))"
    by (simp add: run_daily_expiry_check_def active_def active_rates_def Let_def split: prod.split)
  have sum: "length (filter (\<lambda>r. rate_expiry_date r < ref) rs) + length (filter (in_days ref 0 3) rs) +
      length (filter (in_days ref 4 7) rs) = length (filter (\<lambda>r. rate_expiry_date r - ref \<le> 7) rs)" for rs
    by (induction rs) (auto simp: in_days_def)
  let ?rep = "fst (run_daily_expiry_check ref repo evs)"
  have alerts: "map ea_rate_id (ec_alerts ?rep) = map rate_id (filter (\<lambda>r. rate_expiry_date r - ref \<le> 7) (active repo))"
    unfolding fst_daily expiry_loop_lists by simp
  then have "length (ec_alerts ?rep) = length (filter (\<lambda>r. rate_expiry_date r - ref \<le> 7) (active repo))"
    by (metis length_map)
  then show ?thesis
    unfolding alerts using sum [of "active repo"]
    unfolding fst_daily expiry_loop_lists expiry_loop_counts by simp
qed

text \<open>
  The check is idempotent: run again on the same day it expires nothing and leaves every rate
  as it is.
\<close>

theorem daily_check_idempotent:
  fixes ref :: date and evs :: "event list option"
  assumes "rate_repo_inv repo"
  defines "repo1 \<equiv> fst (snd (run_daily_expiry_check ref repo evs))"
  shows "ec_auto_expired_rate_ids (fst (run_daily_expiry_check ref repo1 evs')) = [] \<and>
    fst (snd (run_daily_expiry_check ref repo1 evs')) = repo1"
proof -
  have inv: "rate_repo_inv repo1"
    unfolding repo1_def daily_repo by (rule rate_store.inv_fold_save [OF assms(1)])
  have "\<not> expired_on ref r" if r: "r \<in> set (list_all_rates repo1)" for r
  proof -
    have "get_rate_by_id repo1 (rate_id r) = Some r" using r rate_store.elems_iff [OF inv] by blast
    then show ?thesis
      unfolding repo1_def daily_lookup [OF assms(1)] using not_expired_after by (metis (no_types, lifting) map_option_eq_Some)
  qed
  then have none: "filter (expired_on ref) (list_all_rates repo1) = []" by (simp add: filter_empty_conv)
  have "ec_auto_expired_rate_ids (fst (run_daily_expiry_check ref repo1 evs')) =
      map rate_id (filter (\<lambda>r. rate_expiry_date r < ref) (active_rates repo1))"
    by (simp add: run_daily_expiry_check_def Let_def expiry_loop_lists split: prod.split)
       (metis (no_types, lifting) append_Nil expiry_loop_lists(1) expiry_report.select_convs(7) fst_conv)
  then show ?thesis by (simp add: active_expired none daily_repo)
qed

theorem daily_check_expires_exactly_witness:
  "get_rate_by_id (fst (snd (run_daily_expiry_check 31 [(''R1'', sample_rate)] None))) ''R1'' =
    Some (sample_rate\<lparr>rate_status := rate_status.EXPIRED\<rparr>)"
proof -
  have "rate_repo_inv [(''R1'', sample_rate)]" by (simp add: store_inv_def sample_rate_def)
  from daily_check_expires_exactly [OF this, of 31 None "''R1''"] show ?thesis
    by (simp add: get_rate_by_id_def sample_rate_def)
qed

theorem daily_check_idempotent_witness:
  "ec_auto_expired_rate_ids (fst (run_daily_expiry_check 31
    (fst (snd (run_daily_expiry_check 31 [(''R1'', sample_rate)] None))) None)) = []"
  using daily_check_idempotent [of "[(''R1'', sample_rate)]"] by (simp add: store_inv_def sample_rate_def)

end
