(* ===== verification/Routes.thy ===== *)
theory Routes
  imports Repositories "HOL-Library.Multiset"
begin

text \<open>
  \<open>domain/services/route_service.py\<close> and \<open>app/modules/commercial/calculations/route_comparison.py\<close>:
  discovery of direct and two-hop routes, and the six-way comparison of routes. The two modules
  compare different classes with the same code; the common part is one function of the keys.
\<close>

section \<open>Discovery\<close>

text \<open>
  The copies made of the legs of a two-hop route keep places, carrier and transit time; \<open>lid\<close> is the
  identity drawn for the copy.
\<close>

definition leg_copy :: "string \<Rightarrow> int \<Rightarrow> bool \<Rightarrow> route_leg \<Rightarrow> route_leg" where
  "leg_copy lid sequence transshipment l = \<lparr>leg_from_location_id = leg_from_location_id l,
     leg_to_location_id = leg_to_location_id l, leg_carrier_id = leg_carrier_id l, leg_sequence = sequence,
     leg_vessel_id = None, leg_flight_id = None, leg_etd = None, leg_eta = None,
     leg_transit_time_hours = leg_transit_time_hours l, leg_is_transshipment = transshipment,
     leg_route_id = None, leg_id = lid\<rparr>"

definition direct_legs :: "string \<Rightarrow> string \<Rightarrow> route_leg list \<Rightarrow> route_leg list" where
  "direct_legs origin_id destination_id legs =
    filter (\<lambda>l. leg_from_location_id l = origin_id \<and> leg_to_location_id l = destination_id) legs"

definition two_hops :: "string \<Rightarrow> string \<Rightarrow> route_leg list \<Rightarrow> (route_leg \<times> route_leg) list" where
  "two_hops origin_id destination_id legs = concat (map (\<lambda>leg1.
     if leg_from_location_id leg1 = origin_id \<and> leg_to_location_id leg1 \<noteq> destination_id
     then map (Pair leg1) (filter (\<lambda>leg2. leg_from_location_id leg2 = leg_to_location_id leg1 \<and>
            leg_to_location_id leg2 = destination_id) legs)
     else []) legs)"

text \<open>\<open>rids\<close> and \<open>lids\<close> give the identities of the routes found and of the copied legs, by position.\<close>

definition discover_routes :: "(nat \<Rightarrow> string) \<Rightarrow> (nat \<Rightarrow> string \<times> string) \<Rightarrow> route_repo \<Rightarrow> string \<Rightarrow> string \<Rightarrow> string \<Rightarrow>
    route_leg list option \<Rightarrow> route list" where
  "discover_routes rids lids repo origin_id destination_id mode available_legs =
    (let existing = find_routes repo origin_id destination_id mode in
     if existing \<noteq> [] then existing
     else let legs = (case available_legs of None \<Rightarrow> [] | Some ls \<Rightarrow> ls);
              direct = map (\<lambda>l. [l]) (direct_legs origin_id destination_id legs);
              hops = two_hops origin_id destination_id legs;
              indirect = map (\<lambda>(n, l1, l2). [leg_copy (fst (lids n)) 1 False l1, leg_copy (snd (lids n)) 2 True l2])
                (zip [0..<length hops] hops);
              paths = direct @ indirect
          in map (\<lambda>(n, path). \<lparr>route_origin_location_id = origin_id, route_destination_location_id = destination_id,
                route_mode = mode, route_legs = path, route_id = rids n\<rparr>) (zip [0..<length paths] paths))"

section \<open>Comparison\<close>

record 'a route_choice =
  rc_cheapest :: "'a option"
  rc_fastest :: "'a option"
  rc_lowest_risk :: "'a option"
  rc_best_margin :: "'a option"
  rc_most_reliable :: "'a option"
  rc_customer_preferred :: "'a option"
  rc_all_ranked_by_risk :: "'a list"

definition compare_by :: "('a \<Rightarrow> flt) \<Rightarrow> ('a \<Rightarrow> flt) \<Rightarrow> ('a \<Rightarrow> flt) \<Rightarrow> ('a \<Rightarrow> flt) \<Rightarrow> ('a \<Rightarrow> flt) \<Rightarrow> ('a \<Rightarrow> string set) \<Rightarrow>
    'a list \<Rightarrow> string option \<Rightarrow> 'a route_choice" where
  "compare_by cost transit risk margin on_time carriers xs preferred =
    (case xs of
       [] \<Rightarrow> \<lparr>rc_cheapest = None, rc_fastest = None, rc_lowest_risk = None, rc_best_margin = None,
             rc_most_reliable = None, rc_customer_preferred = None, rc_all_ranked_by_risk = []\<rparr>
     | y # ys \<Rightarrow>
         (let ranked = sort_key risk xs;
              preferred_choice = (if truthy preferred
                then (case filter (\<lambda>e. the preferred \<in> carriers e) xs of [] \<Rightarrow> None | m # ms \<Rightarrow> Some (min_by cost m ms))
                else None)
          in \<lparr>rc_cheapest = Some (min_by cost y ys), rc_fastest = Some (min_by transit y ys),
              rc_lowest_risk = Some (hd ranked), rc_best_margin = Some (max_by margin y ys),
              rc_most_reliable = Some (max_by on_time y ys), rc_customer_preferred = preferred_choice,
              rc_all_ranked_by_risk = ranked\<rparr>))"

subsection \<open>The route service\<close>

record route_evaluation =
  re_route :: route
  re_total_landed_cost :: flt
  re_proposed_sell_price :: flt
  re_carrier_reliability_score :: flt
  re_congestion_index :: flt
  re_on_time_pct :: flt
  re_has_peak_season_flag :: bool
  re_has_embargo_risk :: bool

definition re_gross_margin :: "route_evaluation \<Rightarrow> flt" where
  "re_gross_margin e = py_round 2 (fsub (re_proposed_sell_price e) (re_total_landed_cost e))"

definition re_margin_pct :: "route_evaluation \<Rightarrow> flt" where
  "re_margin_pct e = (if re_proposed_sell_price e = 0 then 0
     else py_round 2 (fmul (fquot (re_gross_margin e) (re_proposed_sell_price e)) 100))"

definition re_risk_score :: "route_evaluation \<Rightarrow> flt" where
  "re_risk_score e =
    (let base_risk = fadd (fadd (fmul (fint (transshipment_count (re_route e))) 10)
           (fmul (fsub 100 (re_carrier_reliability_score e)) (1 / 2)))
           (fmul (re_congestion_index e) (flit (3 / 10)));
         base_risk = (if re_has_peak_season_flag e then fadd base_risk 15 else base_risk);
         base_risk = (if re_has_embargo_risk e then fadd base_risk 50 else base_risk)
     in py_round 2 base_risk)"

definition compare_evaluated_routes :: "route_evaluation list \<Rightarrow> string option \<Rightarrow> route_evaluation route_choice" where
  "compare_evaluated_routes evaluations preferred_carrier_id =
    compare_by re_total_landed_cost (\<lambda>e. total_transit_hours (re_route e)) re_risk_score re_gross_margin
      re_on_time_pct (\<lambda>e. carriers_used (re_route e)) evaluations preferred_carrier_id"

subsection \<open>The comparison engine\<close>

record calc_route_leg =
  crl_from_location :: string
  crl_to_location :: string
  crl_carrier :: string
  crl_transit_time_hours :: flt
  crl_is_transshipment_point :: bool

record calc_route =
  cr_route_id :: string
  cr_origin :: string
  cr_destination :: string
  cr_legs :: "calc_route_leg list"
  cr_total_landed_cost :: flt
  cr_proposed_sell_price :: flt
  cr_carrier_reliability_score :: flt
  cr_congestion_index :: flt
  cr_on_time_pct :: flt

definition cr_transit_hours :: "calc_route \<Rightarrow> flt" where
  "cr_transit_hours r = py_sum (map crl_transit_time_hours (cr_legs r))"

definition cr_transshipment_count :: "calc_route \<Rightarrow> int" where
  "cr_transshipment_count r = max (int (length (cr_legs r)) - 1) 0"

definition cr_carriers_used :: "calc_route \<Rightarrow> string set" where
  "cr_carriers_used r = set (map crl_carrier (cr_legs r))"

definition cr_gross_margin :: "calc_route \<Rightarrow> flt" where
  "cr_gross_margin r = fsub (cr_proposed_sell_price r) (cr_total_landed_cost r)"

definition cr_risk_score :: "calc_route \<Rightarrow> flt" where
  "cr_risk_score r = fadd (fadd (fint (cr_transshipment_count r * 10))
     (fmul (fsub 100 (cr_carrier_reliability_score r)) (1 / 2))) (fmul (cr_congestion_index r) (flit (3 / 10)))"

definition compare_routes :: "calc_route list \<Rightarrow> string option \<Rightarrow> calc_route route_choice" where
  "compare_routes routes preferred_carrier =
    compare_by cr_total_landed_cost cr_transit_hours cr_risk_score cr_gross_margin cr_on_time_pct cr_carriers_used
      routes preferred_carrier"

section \<open>Laws\<close>

text \<open>A leg up to the data that a copy keeps.\<close>

definition leg_core :: "route_leg \<Rightarrow> string \<times> string \<times> string \<times> flt" where
  "leg_core l = (leg_from_location_id l, leg_to_location_id l, leg_carrier_id l, leg_transit_time_hours l)"

lemma leg_core_copy [simp]: "leg_core (leg_copy lid s b l) = leg_core l"
  by (simp add: leg_core_def leg_copy_def)

lemma two_hops_set:
  "(l1, l2) \<in> set (two_hops o' d legs) \<longleftrightarrow> l1 \<in> set legs \<and> l2 \<in> set legs \<and> leg_from_location_id l1 = o' \<and>
    leg_to_location_id l1 \<noteq> d \<and> leg_from_location_id l2 = leg_to_location_id l1 \<and> leg_to_location_id l2 = d"
  by (auto simp: two_hops_def split: if_splits)

lemma map_zip_upt_snd: "map (\<lambda>p. f (snd p)) (zip [0..<length xs] xs) = map f xs"
proof -
  have "map snd (zip [0..<length xs] xs) = xs" by (rule map_snd_zip) simp
  then have "map f (map snd (zip [0..<length xs] xs)) = map f xs" by (rule arg_cong)
  then show ?thesis unfolding map_map comp_def .
qed

lemma discovered_cores:
  "find_routes repo o' d mode = [] \<Longrightarrow>
    map (\<lambda>r. map leg_core (route_legs r)) (discover_routes rids lids repo o' d mode (Some legs)) =
      map (\<lambda>l. [leg_core l]) (direct_legs o' d legs) @
      map (\<lambda>(l1, l2). [leg_core l1, leg_core l2]) (two_hops o' d legs)"
proof -
  assume e: "find_routes repo o' d mode = []"
  let ?h = "two_hops o' d legs"
  define I where "I = map (\<lambda>(n, l1, l2). [leg_copy (fst (lids n)) 1 False l1, leg_copy (snd (lids n)) 2 True l2])
    (zip [0..<length ?h] ?h)"
  define P where "P = map (\<lambda>l. [l]) (direct_legs o' d legs) @ I"
  have "discover_routes rids lids repo o' d mode (Some legs) =
      map (\<lambda>p. \<lparr>route_origin_location_id = o', route_destination_location_id = d,
                route_mode = mode, route_legs = snd p, route_id = rids (fst p)\<rparr>) (zip [0..<length P] P)"
    unfolding discover_routes_def Let_def e P_def I_def by (simp add: case_prod_beta)
  then have "map (\<lambda>r. map leg_core (route_legs r)) (discover_routes rids lids repo o' d mode (Some legs)) =
      map (\<lambda>p. map leg_core (snd p)) (zip [0..<length P] P)"
    by (simp add: comp_def)
  also have "\<dots> = map (map leg_core) P" by (rule map_zip_upt_snd)
  finally have cores: "map (\<lambda>r. map leg_core (route_legs r)) (discover_routes rids lids repo o' d mode (Some legs)) =
      map (map leg_core) P" .
  have "map (map leg_core) I = map (\<lambda>(l1, l2). [leg_core l1, leg_core l2]) ?h"
    using map_zip_upt_snd [of "\<lambda>(l1, l2). [leg_core l1, leg_core l2]" ?h]
    by (simp add: I_def comp_def case_prod_beta)
  then show ?thesis unfolding cores by (simp add: P_def comp_def)
qed

text \<open>Every choice of a non-empty comparison is optimal, and the ranking is a sorted rearrangement.\<close>

lemma compare_by_optimal:
  assumes "xs \<noteq> []" and ch: "ch = compare_by cost transit risk margin on_time carriers xs preferred"
  shows "rc_all_ranked_by_risk ch = sort_key risk xs \<and>
    (\<exists>c f l b m. rc_cheapest ch = Some c \<and> rc_fastest ch = Some f \<and> rc_lowest_risk ch = Some l \<and>
      rc_best_margin ch = Some b \<and> rc_most_reliable ch = Some m \<and> {c, f, l, b, m} \<subseteq> set xs \<and>
      (\<forall>x \<in> set xs. cost c \<le> cost x \<and> transit f \<le> transit x \<and> risk l \<le> risk x \<and> margin x \<le> margin b \<and>
        on_time x \<le> on_time m))"
proof -
  obtain y ys where xs: "xs = y # ys" using assms(1) by (cases xs) auto
  let ?c = "min_by cost y ys" and ?f = "min_by transit y ys" and ?l = "hd (sort_key risk xs)"
  let ?b = "max_by margin y ys" and ?m = "max_by on_time y ys"
  have "{?c, ?f, ?l, ?b, ?m} \<subseteq> set xs"
    using min_by_mem [of cost y ys] min_by_mem [of transit y ys] max_by_mem [of margin y ys] max_by_mem [of on_time y ys]
      hd_sort_key_mem [OF assms(1), of risk] by (simp add: xs)
  moreover have "\<forall>x \<in> set xs. cost ?c \<le> cost x \<and> transit ?f \<le> transit x \<and> risk ?l \<le> risk x \<and>
      margin x \<le> margin ?b \<and> on_time x \<le> on_time ?m"
    using min_by_le [of _ y ys cost] min_by_le [of _ y ys transit] max_by_ge [of _ y ys margin]
      max_by_ge [of _ y ys on_time] hd_sort_key_le [of _ xs risk] by (simp add: xs)
  ultimately show ?thesis
    by (intro conjI exI [of _ ?c] exI [of _ ?f] exI [of _ ?l] exI [of _ ?b] exI [of _ ?m])
      (simp_all add: ch compare_by_def xs Let_def)
qed

lemma compare_by_preferred:
  "rc_customer_preferred (compare_by cost transit risk margin on_time carriers xs preferred) = None \<longleftrightarrow>
     \<not> truthy preferred \<or> (\<forall>x \<in> set xs. the preferred \<notin> carriers x)"
  "rc_customer_preferred (compare_by cost transit risk margin on_time carriers xs preferred) = Some p \<Longrightarrow>
     p \<in> set xs \<and> the preferred \<in> carriers p \<and> (\<forall>x \<in> set xs. the preferred \<in> carriers x \<longrightarrow> cost p \<le> cost x)"
proof -
  show "rc_customer_preferred (compare_by cost transit risk margin on_time carriers xs preferred) = None \<longleftrightarrow>
     \<not> truthy preferred \<or> (\<forall>x \<in> set xs. the preferred \<notin> carriers x)"
  proof (cases "filter (\<lambda>e. the preferred \<in> carriers e) xs")
    case Nil
    then show ?thesis by (auto simp: compare_by_def Let_def filter_empty_conv split: list.split)
  next
    case (Cons m ms)
    then have "m \<in> set xs" "the preferred \<in> carriers m" by (auto dest: filter_eq_ConsD)
    then show ?thesis using Cons by (cases xs) (auto simp: compare_by_def Let_def)
  qed
next
  assume p: "rc_customer_preferred (compare_by cost transit risk margin on_time carriers xs preferred) = Some p"
  then obtain m ms where f: "filter (\<lambda>e. the preferred \<in> carriers e) xs = m # ms" and p: "p = min_by cost m ms"
    by (auto simp: compare_by_def Let_def split: list.splits if_splits)
  have "set (m # ms) = {x \<in> set xs. the preferred \<in> carriers x}" by (metis f set_filter)
  then show "p \<in> set xs \<and> the preferred \<in> carriers p \<and> (\<forall>x \<in> set xs. the preferred \<in> carriers x \<longrightarrow> cost p \<le> cost x)"
    using min_by_mem [of cost m ms] min_by_le [of _ m ms cost] by (auto simp: p)
qed

section \<open>Properties of the routes\<close>

text \<open>
  When no stored route fits, discovery finds exactly the direct connections and the two-hop
  connections over a place other than the destination: one route per direct leg, one per pair of
  legs that meet, in that order and with the places, carriers and transit times of the legs. Every
  route found is labelled with the requested ends and mode.
\<close>

theorem discovery_exact:
  assumes "find_routes repo o' d mode = []"
  shows "map (\<lambda>r. map leg_core (route_legs r)) (discover_routes rids lids repo o' d mode (Some legs)) =
      map (\<lambda>l. [leg_core l]) (filter (\<lambda>l. leg_from_location_id l = o' \<and> leg_to_location_id l = d) legs) @
      map (\<lambda>(l1, l2). [leg_core l1, leg_core l2]) (two_hops o' d legs) \<and>
    set (two_hops o' d legs) = {(l1, l2). l1 \<in> set legs \<and> l2 \<in> set legs \<and> leg_from_location_id l1 = o' \<and>
      leg_to_location_id l1 \<noteq> d \<and> leg_from_location_id l2 = leg_to_location_id l1 \<and> leg_to_location_id l2 = d} \<and>
    (\<forall>r \<in> set (discover_routes rids lids repo o' d mode (Some legs)).
      route_origin_location_id r = o' \<and> route_destination_location_id r = d \<and> route_mode r = mode)"
proof (intro conjI)
  show "map (\<lambda>r. map leg_core (route_legs r)) (discover_routes rids lids repo o' d mode (Some legs)) =
      map (\<lambda>l. [leg_core l]) (filter (\<lambda>l. leg_from_location_id l = o' \<and> leg_to_location_id l = d) legs) @
      map (\<lambda>(l1, l2). [leg_core l1, leg_core l2]) (two_hops o' d legs)"
    using discovered_cores [OF assms] by (simp add: direct_legs_def)
  show "set (two_hops o' d legs) = {(l1, l2). l1 \<in> set legs \<and> l2 \<in> set legs \<and> leg_from_location_id l1 = o' \<and>
      leg_to_location_id l1 \<noteq> d \<and> leg_from_location_id l2 = leg_to_location_id l1 \<and> leg_to_location_id l2 = d}"
    using two_hops_set by auto
  show "\<forall>r \<in> set (discover_routes rids lids repo o' d mode (Some legs)).
      route_origin_location_id r = o' \<and> route_destination_location_id r = d \<and> route_mode r = mode"
    by (auto simp: discover_routes_def assms Let_def)
qed

text \<open>
  Each choice of a route comparison is optimal among the evaluated routes: the cheapest, the
  fastest, the lowest risk, the best margin and the most reliable; the ranking rearranges the routes
  by ascending risk; the preferred choice is the cheapest route that uses the preferred carrier, and
  is missing exactly when no carrier is preferred or none of the routes uses it.
\<close>

theorem route_comparison_optimal:
  assumes "es \<noteq> []" and "compare_evaluated_routes es pref = ch"
  shows "mset (rc_all_ranked_by_risk ch) = mset es \<and> sorted (map re_risk_score (rc_all_ranked_by_risk ch)) \<and>
    (\<exists>c f l b m. rc_cheapest ch = Some c \<and> rc_fastest ch = Some f \<and> rc_lowest_risk ch = Some l \<and>
      rc_best_margin ch = Some b \<and> rc_most_reliable ch = Some m \<and> {c, f, l, b, m} \<subseteq> set es \<and>
      (\<forall>e \<in> set es. re_total_landed_cost c \<le> re_total_landed_cost e \<and>
        total_transit_hours (re_route f) \<le> total_transit_hours (re_route e) \<and> re_risk_score l \<le> re_risk_score e \<and>
        re_gross_margin e \<le> re_gross_margin b \<and> re_on_time_pct e \<le> re_on_time_pct m)) \<and>
    (rc_customer_preferred ch = None \<longleftrightarrow>
      \<not> truthy pref \<or> (\<forall>e \<in> set es. the pref \<notin> carriers_used (re_route e))) \<and>
    (\<forall>p. rc_customer_preferred ch = Some p \<longrightarrow> p \<in> set es \<and> the pref \<in> carriers_used (re_route p) \<and>
      (\<forall>e \<in> set es. the pref \<in> carriers_used (re_route e) \<longrightarrow> re_total_landed_cost p \<le> re_total_landed_cost e))"
proof -
  let ?ch = "compare_by re_total_landed_cost (\<lambda>e. total_transit_hours (re_route e)) re_risk_score re_gross_margin
      re_on_time_pct (\<lambda>e. carriers_used (re_route e)) es pref"
  have ch: "ch = ?ch" using assms(2) by (simp add: compare_evaluated_routes_def)
  note o = compare_by_optimal [OF assms(1) ch]
  note p = compare_by_preferred [of re_total_landed_cost "\<lambda>e. total_transit_hours (re_route e)" re_risk_score
      re_gross_margin re_on_time_pct "\<lambda>e. carriers_used (re_route e)" es pref, folded ch]
  have r: "rc_all_ranked_by_risk ch = sort_key re_risk_score es" by (rule conjunct1 [OF o])
  show ?thesis
    by (rule conjI, simp add: r, rule conjI, simp add: r, rule conjI, rule conjunct2 [OF o],
        rule conjI, rule p(1), rule allI, rule impI, rule p(2))
qed

text \<open>
  A risk flag never makes a route look safer: marking an evaluation with the peak season or with
  an embargo risk does not lower its risk score.
\<close>

theorem risk_flags_never_lower_score:
  "re_risk_score (e\<lparr>re_has_embargo_risk := False\<rparr>) \<le> re_risk_score (e\<lparr>re_has_embargo_risk := True\<rparr>) \<and>
   re_risk_score (e\<lparr>re_has_peak_season_flag := False\<rparr>) \<le> re_risk_score (e\<lparr>re_has_peak_season_flag := True\<rparr>)"
proof -
  have add: "fadd x 0 \<le> fadd x k" if "0 \<le> k" for x k :: flt
    using that by (simp add: fadd_def rnd_mono)
  have mono: "x \<le> y \<Longrightarrow> fadd x k \<le> fadd y k" for x y k :: flt by (simp add: fadd_def rnd_mono)
  have id: "fadd (fadd x y) 0 = fadd x y" for x y :: flt by (simp add: fadd_def)
  have up: "fadd x y \<le> fadd (fadd x y) k" if "0 \<le> k" for x y k :: flt
    using add [OF that, of "fadd x y"] by (simp add: id)
  show ?thesis
    by (simp add: re_risk_score_def Let_def) (auto intro!: py_round_mono up mono)
qed

definition sample_leg :: "string \<Rightarrow> string \<Rightarrow> route_leg" where
  "sample_leg a b = \<lparr>leg_from_location_id = a, leg_to_location_id = b, leg_carrier_id = ''C'', leg_sequence = 1,
     leg_vessel_id = None, leg_flight_id = None, leg_etd = None, leg_eta = None, leg_transit_time_hours = 10,
     leg_is_transshipment = False, leg_route_id = None, leg_id = ''L''\<rparr>"

definition sample_evaluation :: route_evaluation where
  "sample_evaluation = \<lparr>re_route = \<lparr>route_origin_location_id = ''A'', route_destination_location_id = ''B'',
     route_mode = ''SEA'', route_legs = [sample_leg ''A'' ''B''], route_id = ''R''\<rparr>, re_total_landed_cost = 100,
     re_proposed_sell_price = 120, re_carrier_reliability_score = 90, re_congestion_index = 10, re_on_time_pct = 95,
     re_has_peak_season_flag = False, re_has_embargo_risk = False\<rparr>"

theorem discovery_exact_witness:
  "length (discover_routes (\<lambda>n. ''R'') (\<lambda>n. (''L1'', ''L2'')) [] ''A'' ''B'' ''SEA''
    (Some [sample_leg ''A'' ''B'', sample_leg ''A'' ''H'', sample_leg ''H'' ''B''])) = 2"
proof -
  have "find_routes [] ''A'' ''B'' ''SEA'' = []" by (simp add: find_routes_def)
  from discovery_exact [OF this, of "\<lambda>n. ''R''" "\<lambda>n. (''L1'', ''L2'')"
      "[sample_leg ''A'' ''B'', sample_leg ''A'' ''H'', sample_leg ''H'' ''B'']"]
  have "length (map (\<lambda>r. map leg_core (route_legs r)) (discover_routes (\<lambda>n. ''R'') (\<lambda>n. (''L1'', ''L2'')) [] ''A'' ''B'' ''SEA''
    (Some [sample_leg ''A'' ''B'', sample_leg ''A'' ''H'', sample_leg ''H'' ''B'']))) = 2"
    by (simp add: two_hops_def sample_leg_def)
  then show ?thesis by simp
qed

theorem route_comparison_optimal_witness:
  "rc_customer_preferred (compare_evaluated_routes [sample_evaluation] (Some ''C'')) \<noteq> None"
  using route_comparison_optimal [of "[sample_evaluation]" "Some ''C''"]
  by (simp add: sample_evaluation_def carriers_used_def sample_leg_def)

end
