(* ===== verification/Rfq.thy ===== *)
theory Rfq
  imports Repositories
begin

text \<open>
  \<open>app/modules/commercial/calculations/rfq_validation.py\<close> and \<open>domain/services/rfq_service.py\<close>: the
  validation of requests for quotation, on the domain object and on the flat input class, and the
  capture and assignment of requests.
\<close>

section \<open>Validation\<close>

record rfq_validation =
  rv_is_valid :: bool
  rv_errors :: "string list"

record rfq_input =
  ri_service_type :: string
  ri_mode :: string
  ri_cargo_readiness_date :: date
  ri_preferred_departure_date :: date
  ri_required_delivery_date :: date
  ri_container_types :: "string list"
  ri_package_length_cm :: "flt option"
  ri_package_width_cm :: "flt option"
  ri_package_height_cm :: "flt option"
  ri_is_dgr :: bool
  ri_dgr_un_number :: "string option"
  ri_dgr_class :: "string option"
  ri_has_lc :: bool
  ri_lc_number :: "string option"

definition add_error :: "bool \<Rightarrow> string \<Rightarrow> string list \<Rightarrow> string list" where
  "add_error c e errors = (if c then errors @ [e] else errors)"

definition has_dimensions :: "rfq_cargo_line \<Rightarrow> bool" where
  "has_dimensions l \<longleftrightarrow> rcl_dimensions_length_cm l \<noteq> None \<and> rcl_dimensions_width_cm l \<noteq> None \<and>
     rcl_dimensions_height_cm l \<noteq> None"

definition validate_rfq :: "rfq \<Rightarrow> date \<Rightarrow> rfq_validation" where
  "validate_rfq r today =
    (let service_type = rfq_service_type_value (rfq_service_type r);
         mode = rfq_mode_value (rfq_mode r);
         errors = (if service_type = ''FCL''
           then add_error (rfq_container_requirements r = []) ''Container requirement is required for FCL shipments'' []
           else if service_type \<in> {''LCL'', ''DIRECT'', ''CONSOL''} \<or> mode = ''AIR''
           then add_error (\<not> (\<exists>l \<in> set (rfq_cargo_lines r). has_dimensions l))
             ''Package dimensions (L/W/H) are required for LCL or Air shipments'' []
           else []);
         errors = (case rfq_special_requirement r of None \<Rightarrow> errors
           | Some sr \<Rightarrow>
             (let errors = (if rsr_dgr_flag sr
                then add_error (\<not> truthy (rsr_dgr_class sr)) ''DGR class is required when DGR flag is set''
                  (add_error (\<not> truthy (rsr_dgr_un_number sr)) ''DGR UN number is required when DGR flag is set'' errors)
                else errors)
              in add_error (rsr_lc_flag sr \<and> \<not> truthy (rsr_lc_number sr)) ''LC number is required when LC flag is set'' errors));
         errors = add_error (rfq_preferred_departure r < today) ''Preferred departure date cannot be in the past'' errors;
         errors = add_error (rfq_required_delivery r < rfq_preferred_departure r)
           ''Required delivery date must be on or after preferred departure date'' errors
     in \<lparr>rv_is_valid = (length errors = 0), rv_errors = errors\<rparr>)"

definition validate_rfq_input :: "rfq_input \<Rightarrow> date \<Rightarrow> rfq_validation" where
  "validate_rfq_input r today =
    (let errors = (if ri_service_type r = ''FCL''
           then add_error (ri_container_types r = []) ''Container type is required for FCL shipments'' []
           else if ri_service_type r \<in> {''LCL'', ''DIRECT'', ''CONSOL''} \<or> ri_mode r = ''AIR''
           then add_error (ri_package_length_cm r = None \<or> ri_package_width_cm r = None \<or> ri_package_height_cm r = None)
             ''Package dimensions (L/W/H) are required for LCL or Air shipments'' []
           else []);
         errors = (if ri_is_dgr r
           then add_error (\<not> truthy (ri_dgr_class r)) ''DGR class is required when DGR flag is set''
             (add_error (\<not> truthy (ri_dgr_un_number r)) ''DGR UN number is required when DGR flag is set'' errors)
           else errors);
         errors = add_error (ri_has_lc r \<and> \<not> truthy (ri_lc_number r)) ''LC number is required when LC flag is set'' errors;
         errors = add_error (ri_preferred_departure_date r < today) ''Preferred departure date cannot be in the past'' errors;
         errors = add_error (ri_required_delivery_date r < ri_preferred_departure_date r)
           ''Required delivery date must be on or after preferred departure date'' errors
     in \<lparr>rv_is_valid = (length errors = 0), rv_errors = errors\<rparr>)"

section \<open>Service\<close>

text \<open>
  The lookups in the master data that precede the save have no effect (the cross-check with
  sanctioned countries is announced for the future).
\<close>

definition create_rfq :: "rfq \<Rightarrow> date \<Rightarrow> rfq_repo \<Rightarrow> (rfq \<times> rfq_validation) \<times> rfq_repo" where
  "create_rfq r today repo =
    (let val_result = validate_rfq r today in
     if \<not> rv_is_valid val_result then ((r, val_result), repo)
     else let r = r\<lparr>rfq_status := rfq_status.SUBMITTED\<rparr> in ((r, val_result), save_rfq r repo))"

definition assign_to_analyst :: "string \<Rightarrow> string \<Rightarrow> rfq_repo \<Rightarrow> rfq res \<times> rfq_repo" where
  "assign_to_analyst i user_id repo =
    (case get_rfq_by_id repo i of
       None \<Rightarrow> (Inl (ValueError (''RFQ with ID '' @ i @ '' not found'')), repo)
     | Some r \<Rightarrow>
         (let r = r\<lparr>rfq_assigned_to := Some user_id, rfq_status := rfq_status.PRICING_IN_PROGRESS\<rparr>
          in (Inr r, save_rfq r repo)))"

section \<open>Laws\<close>

lemma add_error_Nil [simp]: "add_error c e errors = [] \<longleftrightarrow> \<not> c \<and> errors = []"
  by (simp add: add_error_def)

text \<open>The requirements on a request, as a predicate.\<close>

definition cargo_described :: "rfq \<Rightarrow> bool" where
  "cargo_described r \<longleftrightarrow> (if rfq_service_type r = rfq_service_type.FCL then rfq_container_requirements r \<noteq> []
     else \<exists>l \<in> set (rfq_cargo_lines r). has_dimensions l)"

definition specials_complete :: "rfq \<Rightarrow> bool" where
  "specials_complete r \<longleftrightarrow> (\<forall>sr. rfq_special_requirement r = Some sr \<longrightarrow>
     (rsr_dgr_flag sr \<longrightarrow> truthy (rsr_dgr_un_number sr) \<and> truthy (rsr_dgr_class sr)) \<and>
     (rsr_lc_flag sr \<longrightarrow> truthy (rsr_lc_number sr)))"

definition rfq_acceptable :: "rfq \<Rightarrow> date \<Rightarrow> bool" where
  "rfq_acceptable r today \<longleftrightarrow> cargo_described r \<and> specials_complete r \<and> today \<le> rfq_preferred_departure r \<and>
     rfq_preferred_departure r \<le> rfq_required_delivery r"

lemma validate_rfq_valid: "rv_is_valid (validate_rfq r today) \<longleftrightarrow> rfq_acceptable r today"
  by (cases "rfq_service_type r"; cases "rfq_special_requirement r")
    (auto simp: validate_rfq_def Let_def rfq_acceptable_def cargo_described_def specials_complete_def)

lemma validate_rfq_errors: "rv_is_valid (validate_rfq r today) \<longleftrightarrow> rv_errors (validate_rfq r today) = []"
  by (simp add: validate_rfq_def Let_def)

text \<open>The flat view of a domain request, with the dimensions of a chosen cargo line.\<close>

definition input_of :: "rfq \<Rightarrow> rfq_cargo_line option \<Rightarrow> rfq_input" where
  "input_of r l = \<lparr>ri_service_type = rfq_service_type_value (rfq_service_type r), ri_mode = rfq_mode_value (rfq_mode r),
     ri_cargo_readiness_date = rfq_cargo_ready_date r, ri_preferred_departure_date = rfq_preferred_departure r,
     ri_required_delivery_date = rfq_required_delivery r,
     ri_container_types = map rcr_container_type_code (rfq_container_requirements r),
     ri_package_length_cm = Option.bind l rcl_dimensions_length_cm, ri_package_width_cm = Option.bind l rcl_dimensions_width_cm,
     ri_package_height_cm = Option.bind l rcl_dimensions_height_cm,
     ri_is_dgr = (case rfq_special_requirement r of None \<Rightarrow> False | Some s \<Rightarrow> rsr_dgr_flag s),
     ri_dgr_un_number = Option.bind (rfq_special_requirement r) rsr_dgr_un_number,
     ri_dgr_class = Option.bind (rfq_special_requirement r) rsr_dgr_class,
     ri_has_lc = (case rfq_special_requirement r of None \<Rightarrow> False | Some s \<Rightarrow> rsr_lc_flag s),
     ri_lc_number = Option.bind (rfq_special_requirement r) rsr_lc_number\<rparr>"

section \<open>Properties of the requests\<close>

text \<open>
  A request is valid exactly when its cargo is described (containers for FCL, a line with all
  dimensions otherwise), dangerous goods and letters of credit are documented, and the dates are in
  order; it is invalid exactly when at least one error is reported.
\<close>

theorem rfq_validation_exact:
  "(rv_is_valid (validate_rfq r today) \<longleftrightarrow> rfq_acceptable r today) \<and>
   (rv_is_valid (validate_rfq r today) \<longleftrightarrow> rv_errors (validate_rfq r today) = [])"
  using validate_rfq_valid validate_rfq_errors by blast

text \<open>
  The two branches of the validation agree: a domain request is valid exactly when its flat view
  is valid for some cargo line (or for none).
\<close>

theorem rfq_branches_agree:
  "rv_is_valid (validate_rfq r today) \<longleftrightarrow>
    (\<exists>l. (l = None \<or> l \<in> Some ` set (rfq_cargo_lines r)) \<and> rv_is_valid (validate_rfq_input (input_of r l) today))"
proof -
  have v: "rv_is_valid (validate_rfq_input (input_of r l) today) \<longleftrightarrow>
      (if rfq_service_type r = rfq_service_type.FCL then rfq_container_requirements r \<noteq> []
       else \<exists>x. l = Some x \<and> has_dimensions x) \<and> specials_complete r \<and>
      today \<le> rfq_preferred_departure r \<and> rfq_preferred_departure r \<le> rfq_required_delivery r" for l
    by (cases "rfq_service_type r"; cases "rfq_special_requirement r"; cases l)
      (auto simp: validate_rfq_input_def input_of_def Let_def specials_complete_def has_dimensions_def)
  show ?thesis
    unfolding validate_rfq_valid v rfq_acceptable_def cargo_described_def by auto
qed

text \<open>
  Only valid requests are stored: capturing stores the request as SUBMITTED when it is valid and
  changes nothing otherwise; assignment sets the analyst and the status of a stored request only.
\<close>

theorem only_valid_rfqs_stored:
  "(case create_rfq r today repo of ((r', res), repo') \<Rightarrow>
      res = validate_rfq r today \<and>
      (if rfq_acceptable r today then r' = r\<lparr>rfq_status := rfq_status.SUBMITTED\<rparr> \<and>
         (\<forall>i. get_rfq_by_id repo' i = (if i = rfq_id r then Some r' else get_rfq_by_id repo i))
       else r' = r \<and> repo' = repo)) \<and>
   (case assign_to_analyst i u repo of
      (Inl e, repo') \<Rightarrow> repo' = repo \<and> get_rfq_by_id repo i = None
    | (Inr r', repo') \<Rightarrow> (\<exists>r0. get_rfq_by_id repo i = Some r0 \<and>
        r' = r0\<lparr>rfq_assigned_to := Some u, rfq_status := rfq_status.PRICING_IN_PROGRESS\<rparr> \<and> repo' = save_rfq r' repo))"
  by (auto simp: create_rfq_def Let_def validate_rfq_valid get_rfq_by_id_def save_rfq_def dget_dset
      assign_to_analyst_def split: option.split)

end
