(* ===== verification/Master_Data.thy ===== *)
theory Master_Data
  imports Repositories
begin

text \<open>
  \<open>domain/services/master_data_service.py\<close>: the operations on the master data, registration of
  customers with automatic codes, the credit position, and the standard catalogues. The service
  works on the master-data repository and an optional customer repository. The tests
  \<open>hasattr(master_repo, ...)\<close> hold for the repository of \<open>domain/in_memory_repos.py\<close>, and so does the
  one on the customer repository when there is one.
\<close>

record md_state =
  ms_master :: master_repo
  ms_customers :: "customer_repo option"

definition on_master :: "('e \<Rightarrow> master_repo \<Rightarrow> master_repo) \<Rightarrow> 'e \<Rightarrow> md_state \<Rightarrow> 'e \<times> md_state" where
  "on_master add e s = (e, s\<lparr>ms_master := add e (ms_master s)\<rparr>)"

section \<open>Geography, carriers, vendors and reference data\<close>

definition svc_add_country :: "country \<Rightarrow> md_state \<Rightarrow> country \<times> md_state" where
  "svc_add_country = on_master add_country"

definition svc_get_country :: "md_state \<Rightarrow> string \<Rightarrow> country option" where
  "svc_get_country s iso_code = get_country (ms_master s) iso_code"

definition is_country_sanctioned :: "md_state \<Rightarrow> string \<Rightarrow> bool" where
  "is_country_sanctioned s iso_code = (case svc_get_country s iso_code of None \<Rightarrow> False | Some c \<Rightarrow> co_is_sanctioned c)"

definition svc_add_location :: "location \<Rightarrow> md_state \<Rightarrow> location \<times> md_state" where
  "svc_add_location = on_master add_location"

definition svc_get_location :: "md_state \<Rightarrow> string \<Rightarrow> location option" where
  "svc_get_location s k = get_location_by_id (ms_master s) k"

definition svc_search_locations :: "md_state \<Rightarrow> string \<Rightarrow> string option \<Rightarrow> bool \<Rightarrow> location list" where
  "svc_search_locations s query ltype active_only = search_locations (ms_master s) query ltype active_only"

definition svc_add_carrier :: "carrier \<Rightarrow> md_state \<Rightarrow> carrier \<times> md_state" where
  "svc_add_carrier = on_master add_carrier"

definition svc_get_carrier :: "md_state \<Rightarrow> string \<Rightarrow> carrier option" where
  "svc_get_carrier s k = get_carrier_by_id (ms_master s) k"

definition svc_add_vessel :: "vessel \<Rightarrow> md_state \<Rightarrow> vessel \<times> md_state" where
  "svc_add_vessel = on_master add_vessel"

definition svc_add_flight_schedule :: "flight_schedule \<Rightarrow> md_state \<Rightarrow> flight_schedule \<times> md_state" where
  "svc_add_flight_schedule = on_master add_flight_schedule"

definition svc_find_flight_schedules :: "md_state \<Rightarrow> string \<Rightarrow> string \<Rightarrow> flight_schedule list" where
  "svc_find_flight_schedules s a b = find_flight_schedules (ms_master s) a b"

definition svc_add_vessel_schedule :: "vessel_schedule \<Rightarrow> md_state \<Rightarrow> vessel_schedule \<times> md_state" where
  "svc_add_vessel_schedule = on_master add_vessel_schedule"

definition svc_find_vessel_schedules :: "md_state \<Rightarrow> string \<Rightarrow> string \<Rightarrow> vessel_schedule list" where
  "svc_find_vessel_schedules s a b = find_vessel_schedules (ms_master s) a b"

definition svc_add_vendor :: "vendor \<Rightarrow> md_state \<Rightarrow> vendor \<times> md_state" where
  "svc_add_vendor = on_master add_vendor"

definition svc_add_agent :: "agent \<Rightarrow> md_state \<Rightarrow> agent \<times> md_state" where
  "svc_add_agent = on_master add_agent"

definition link_agent_rate_agreement :: "agent_rate_agreement \<Rightarrow> md_state \<Rightarrow> agent_rate_agreement \<times> md_state" where
  "link_agent_rate_agreement = on_master add_agent_rate_agreement"

definition svc_add_container_type :: "container_type \<Rightarrow> md_state \<Rightarrow> container_type \<times> md_state" where
  "svc_add_container_type = on_master add_container_type"

definition svc_get_container_type :: "md_state \<Rightarrow> string \<Rightarrow> container_type option" where
  "svc_get_container_type s code = get_container_type (ms_master s) code"

definition svc_add_commodity :: "commodity \<Rightarrow> md_state \<Rightarrow> commodity \<times> md_state" where
  "svc_add_commodity = on_master add_commodity"

definition svc_get_commodity :: "md_state \<Rightarrow> string \<Rightarrow> commodity option" where
  "svc_get_commodity s k = get_commodity_by_id (ms_master s) k"

section \<open>Customers\<close>

record customer_request =
  cq_name :: string
  cq_credit_limit_amount :: flt
  cq_credit_limit_currency :: string
  cq_payment_terms_days :: int
  cq_credit_tier :: credit_tier
  cq_tax_registration :: string
  cq_registration_number :: string
  cq_iata_fiata_membership :: string
  cq_preferred_carrier_ids :: "string list option"
  cq_preferred_lanes :: "(string, string) dict list option"
  cq_contacts :: "customer_contact list option"
  cq_addresses :: "customer_address list option"
  cq_custom_code :: "string option"

definition list_or_empty :: "'a list option \<Rightarrow> 'a list" where
  "list_or_empty xs = (case xs of None \<Rightarrow> [] | Some ys \<Rightarrow> ys)"

definition customer_code_for :: "customer_request \<Rightarrow> customer_repo option \<Rightarrow> string \<times> customer_repo option" where
  "customer_code_for q cr =
    (if truthy (cq_custom_code q) then (the (cq_custom_code q), cr)
     else case cr of
       Some r \<Rightarrow> (case generate_next_customer_code r of (code, r) \<Rightarrow> (code, Some r))
     | None \<Rightarrow> (''CUST-0001'', None))"

text \<open>\<open>cid\<close> is the identity drawn for the customer, \<open>today\<close> its onboarding date.\<close>

definition register_customer :: "string \<Rightarrow> date \<Rightarrow> customer_request \<Rightarrow> md_state \<Rightarrow> customer \<times> md_state" where
  "register_customer cid today q s =
    (let (code, cr) = customer_code_for q (ms_customers s);
         c = \<lparr>cust_customer_code = code, cust_name = cq_name q, cust_credit_limit_amount = cq_credit_limit_amount q,
           cust_credit_limit_currency = cq_credit_limit_currency q, cust_payment_terms_days = cq_payment_terms_days q,
           cust_credit_tier = cq_credit_tier q, cust_tenant_id = ''default_tenant'',
           cust_tax_registration = cq_tax_registration q, cust_registration_number = cq_registration_number q,
           cust_iata_fiata_membership = cq_iata_fiata_membership q,
           cust_preferred_carrier_ids = list_or_empty (cq_preferred_carrier_ids q),
           cust_preferred_lanes = list_or_empty (cq_preferred_lanes q), cust_kyc_status = ''VERIFIED'',
           cust_is_active = True, cust_onboarding_date = today, cust_id = cid\<rparr>;
         cr = map_option (save_customer c) cr;
         m = ms_master s;
         m = (if list_or_empty (cq_contacts q) \<noteq> []
              then add_customer_contacts (map (\<lambda>x. x\<lparr>ccon_customer_id := cid\<rparr>) (list_or_empty (cq_contacts q))) m else m);
         m = (if list_or_empty (cq_addresses q) \<noteq> []
              then add_customer_addresses (map (\<lambda>x. x\<lparr>cadr_customer_id := cid\<rparr>) (list_or_empty (cq_addresses q))) m else m)
     in (c, \<lparr>ms_master = m, ms_customers = cr\<rparr>))"

record credit_position =
  cpos_customer_id :: string
  cpos_customer_code :: string
  cpos_name :: string
  cpos_credit_limit :: flt
  cpos_currency :: string
  cpos_total_exposure :: flt
  cpos_available_credit :: flt
  cpos_credit_tier :: string
  cpos_payment_terms_days :: int
  cpos_is_blocked :: bool

definition get_customer_credit_position :: "md_state \<Rightarrow> string \<Rightarrow> credit_position res" where
  "get_customer_credit_position s i =
    (case ms_customers s of
       None \<Rightarrow> Inl (ValueError ''Customer repository not configured'')
     | Some cr \<Rightarrow>
         (case get_customer_by_id cr i of
            None \<Rightarrow> Inl (ValueError (''Customer '' @ i @ '' not found''))
          | Some c \<Rightarrow>
              (let exposure = get_customer_exposure cr i
               in Inr \<lparr>cpos_customer_id = cust_id c, cpos_customer_code = cust_customer_code c, cpos_name = cust_name c,
                   cpos_credit_limit = cust_credit_limit_amount c, cpos_currency = cust_credit_limit_currency c,
                   cpos_total_exposure = exposure,
                   cpos_available_credit = py_round 2 (fsub (cust_credit_limit_amount c) exposure),
                   cpos_credit_tier = credit_tier_value (cust_credit_tier c),
                   cpos_payment_terms_days = cust_payment_terms_days c,
                   cpos_is_blocked = (cust_credit_tier c = credit_tier.Tier_BLOCKED \<or>
                     cust_credit_limit_amount c \<le> exposure)\<rparr>)))"

definition grant_credit_override :: "string \<Rightarrow> string \<Rightarrow> string \<Rightarrow> string \<Rightarrow> date \<Rightarrow> date \<Rightarrow> md_state \<Rightarrow>
    customer_credit_override \<times> md_state" where
  "grant_credit_override oid customer_id reason approved_by valid_from valid_to =
    on_master save_credit_override \<lparr>cco_customer_id = customer_id, cco_reason = reason, cco_approved_by = approved_by,
      cco_valid_from = valid_from, cco_valid_to = valid_to, cco_id = oid\<rparr>"

section \<open>Standard catalogues\<close>

definition standard_incoterms :: "incoterm list" where
  "standard_incoterms = map (\<lambda>(c, n). \<lparr>inc_code = c, inc_name = n\<rparr>) [
    (''EXW'', ''Ex Works''),
    (''FCA'', ''Free Carrier''),
    (''CPT'', ''Carriage Paid To''),
    (''CIP'', ''Carriage and Insurance Paid To''),
    (''DAP'', ''Delivered at Place''),
    (''DPU'', ''Delivered at Place Unloaded''),
    (''DDP'', ''Delivered Duty Paid''),
    (''FAS'', ''Free Alongside Ship''),
    (''FOB'', ''Free on Board''),
    (''CFR'', ''Cost and Freight''),
    (''CIF'', ''Cost, Insurance and Freight'')]"

definition standard_containers :: "container_type list" where
  "standard_containers = map (\<lambda>(c, v, p). \<lparr>ct_code = c, ct_cbm_capacity = v, ct_max_payload_kg = p\<rparr>) [
    (''20GP'', flit (332 / 10), 28200),
    (''40GP'', flit (677 / 10), 26700),
    (''40HC'', flit (763 / 10), 26500),
    (''20RF'', flit (283 / 10), 27700),
    (''40RF'', flit (593 / 10), 29500),
    (''20OT'', flit (325 / 10), 28000),
    (''40OT'', 66, 26500),
    (''20FR'', flit (279 / 10), 31000),
    (''40FR'', flit (548 / 10), 39000)]"

definition standard_package_types :: "package_type list" where
  "standard_package_types = map (\<lambda>(c, n). \<lparr>pt_code = c, pt_name = n\<rparr>) [
    (''CTN'', ''Carton''),
    (''PLT'', ''Pallet''),
    (''DRM'', ''Drum''),
    (''BAG'', ''Bag''),
    (''BDL'', ''Bundle''),
    (''BOX'', ''Box''),
    (''CRATE'', ''Crate'')]"

definition standard_charge_codes :: "charge_code list" where
  "standard_charge_codes = map (\<lambda>(c, n, t, b, m). \<lparr>cc_code = c, cc_name = n, cc_charge_type = t, cc_rate_basis = b,
      cc_applicable_mode = m\<rparr>) [
    (''OFT'', ''Ocean Freight'', ''FREIGHT'', ''PER_CONTAINER'', ''SEA''),
    (''AFT'', ''Air Freight'', ''FREIGHT'', ''PER_KG'', ''AIR''),
    (''BAF'', ''Bunker Adjustment Factor'', ''SURCHARGE'', ''PER_CONTAINER'', ''SEA''),
    (''FSC'', ''Fuel Surcharge'', ''SURCHARGE'', ''PER_KG'', ''AIR''),
    (''THC_O'', ''Terminal Handling Origin'', ''LOCAL'', ''PER_CONTAINER'', ''SEA''),
    (''THC_D'', ''Terminal Handling Destination'', ''LOCAL'', ''PER_CONTAINER'', ''SEA''),
    (''DOC'', ''Documentation Fee'', ''LOCAL'', ''FLAT'', ''ALL''),
    (''CUSTOMS'', ''Customs Clearance'', ''LOCAL'', ''FLAT'', ''ALL''),
    (''DGR_SUR'', ''Dangerous Goods Surcharge'', ''SURCHARGE'', ''FLAT'', ''ALL''),
    (''PSS'', ''Peak Season Surcharge'', ''SURCHARGE'', ''PER_CONTAINER'', ''SEA''),
    (''EBS'', ''Emergency Bunker Surcharge'', ''SURCHARGE'', ''PER_CONTAINER'', ''SEA''),
    (''AWB_FEE'', ''Air Waybill Fee'', ''LOCAL'', ''FLAT'', ''AIR''),
    (''SCREENING'', ''Cargo Screening Fee'', ''LOCAL'', ''PER_KG'', ''AIR'')]"

definition seed_standard_catalogs :: "md_state \<Rightarrow> md_state" where
  "seed_standard_catalogs s =
    (let s = s\<lparr>ms_master := add_incoterms standard_incoterms (ms_master s)\<rparr>;
         s = fold (\<lambda>c s. snd (svc_add_container_type c s)) standard_containers s;
         s = s\<lparr>ms_master := add_package_types standard_package_types (ms_master s)\<rparr>
     in s\<lparr>ms_master := add_charge_codes standard_charge_codes (ms_master s)\<rparr>)"

section \<open>Laws\<close>

lemma on_master_state [simp]: "ms_master (snd (on_master add e s)) = add e (ms_master s)"
  by (simp add: on_master_def)

lemma seed_containers:
  "fold (\<lambda>c s. snd (svc_add_container_type c s)) cs s =
    s\<lparr>ms_master := (ms_master s)\<lparr>md_container_types :=
      fold (\<lambda>c. dset (py_upper (ct_code c)) c) cs (md_container_types (ms_master s))\<rparr>\<rparr>"
  by (induction cs arbitrary: s) (simp_all add: svc_add_container_type_def on_master_def add_container_type_def)

lemma seed_master:
  "ms_master (seed_standard_catalogs s) = (ms_master s)\<lparr>
     md_incoterms := fold (\<lambda>t. dset (py_upper (inc_code t)) t) standard_incoterms (md_incoterms (ms_master s)),
     md_container_types := fold (\<lambda>c. dset (py_upper (ct_code c)) c) standard_containers (md_container_types (ms_master s)),
     md_package_types := fold (\<lambda>t. dset (py_upper (pt_code t)) t) standard_package_types (md_package_types (ms_master s)),
     md_charge_codes := fold (\<lambda>c. dset (py_upper (cc_code c)) c) standard_charge_codes (md_charge_codes (ms_master s))\<rparr>"
  "ms_customers (seed_standard_catalogs s) = ms_customers s"
  by (simp_all add: seed_standard_catalogs_def Let_def seed_containers add_incoterms_def add_package_types_def
      add_charge_codes_def)

lemma standard_codes_distinct:
  "distinct (map (\<lambda>t. py_upper (inc_code t)) standard_incoterms)"
  "distinct (map (\<lambda>c. py_upper (ct_code c)) standard_containers)"
  "distinct (map (\<lambda>t. py_upper (pt_code t)) standard_package_types)"
  "distinct (map (\<lambda>c. py_upper (cc_code c)) standard_charge_codes)"
  by (simp_all add: standard_incoterms_def standard_containers_def standard_package_types_def
      standard_charge_codes_def py_eval)

text \<open>Codes drawn one after another.\<close>

fun register_all :: "date \<Rightarrow> (string \<times> customer_request) list \<Rightarrow> md_state \<Rightarrow> customer list" where
  "register_all today [] s = []"
| "register_all today ((cid, q) # qs) s =
    (case register_customer cid today q s of (c, s) \<Rightarrow> c # register_all today qs s)"

lemma register_auto:
  "ms_customers s = Some cr \<Longrightarrow> \<not> truthy (cq_custom_code q) \<Longrightarrow>
    cust_customer_code (fst (register_customer cid today q s)) = ''CUST-'' @ zpad 4 (cr_customer_seq cr + 1) \<and>
    (\<exists>cr'. ms_customers (snd (register_customer cid today q s)) = Some cr' \<and> cr_customer_seq cr' = cr_customer_seq cr + 1)"
  by (simp add: register_customer_def customer_code_for_def generate_next_customer_code_def Let_def save_customer_def)

lemma register_all_codes:
  "ms_customers s = Some cr \<Longrightarrow> \<forall>(i, q) \<in> set qs. \<not> truthy (cq_custom_code q) \<Longrightarrow>
    map cust_customer_code (register_all today qs s) =
      map (\<lambda>n. ''CUST-'' @ zpad 4 (cr_customer_seq cr + int n)) [1..<Suc (length qs)]"
proof (induction qs arbitrary: s cr)
  case (Cons p qs)
  obtain i q where p: "p = (i, q)" by (cases p)
  obtain c s' where r: "register_customer i today q s = (c, s')" by (cases "register_customer i today q s")
  from register_auto [OF Cons.prems(1), of q i today] Cons.prems(2) obtain cr' where
    c: "cust_customer_code c = ''CUST-'' @ zpad 4 (cr_customer_seq cr + 1)"
    and s': "ms_customers s' = Some cr'" and n: "cr_customer_seq cr' = cr_customer_seq cr + 1"
    by (auto simp: p r)
  have "map cust_customer_code (register_all today qs s') =
      map (\<lambda>n. ''CUST-'' @ zpad 4 (cr_customer_seq cr + 1 + int n)) [1..<Suc (length qs)]"
    using Cons.IH [OF s'] Cons.prems(2) by (simp add: n)
  also have "\<dots> = map (\<lambda>n. ''CUST-'' @ zpad 4 (cr_customer_seq cr + int n)) (map Suc [1..<Suc (length qs)])"
    by (simp add: add.assoc comp_def del: upt_Suc)
  also have "map Suc [1..<Suc (length qs)] = [2..<Suc (length (p # qs))]"
    by (simp add: map_Suc_upt numeral_2_eq_2 del: upt_Suc)
  finally have "map cust_customer_code (register_all today (p # qs) s) =
      (''CUST-'' @ zpad 4 (cr_customer_seq cr + int 1)) #
      map (\<lambda>n. ''CUST-'' @ zpad 4 (cr_customer_seq cr + int n)) [2..<Suc (length (p # qs))]"
    by (simp add: p r c)
  also have "\<dots> = map (\<lambda>n. ''CUST-'' @ zpad 4 (cr_customer_seq cr + int n)) (1 # [2..<Suc (length (p # qs))])"
    by simp
  also have "1 # [2..<Suc (length (p # qs))] = [1..<Suc (length (p # qs))]"
    by (subst upt_conv_Cons [of 1]) (simp_all add: numeral_2_eq_2)
  finally show ?case .
qed simp

section \<open>Properties of the master data\<close>

text \<open>
  Seeding the standard catalogues makes every standard container type available under its code in
  any spelling of case, leaves all other container codes as they were, touches neither customers nor
  locations, and is idempotent: seeding twice is seeding once.
\<close>

theorem seeding_complete_idempotent:
  "(\<forall>c \<in> set standard_containers. \<forall>code. py_upper code = py_upper (ct_code c) \<longrightarrow>
      svc_get_container_type (seed_standard_catalogs s) code = Some c) \<and>
   (\<forall>code. py_upper code \<notin> (\<lambda>c. py_upper (ct_code c)) ` set standard_containers \<longrightarrow>
      svc_get_container_type (seed_standard_catalogs s) code = svc_get_container_type s code) \<and>
   md_locations (ms_master (seed_standard_catalogs s)) = md_locations (ms_master s) \<and>
   ms_customers (seed_standard_catalogs s) = ms_customers s \<and>
   seed_standard_catalogs (seed_standard_catalogs s) = seed_standard_catalogs s"
proof (intro conjI ballI allI impI)
  fix c code assume "c \<in> set standard_containers" "py_upper code = py_upper (ct_code c)"
  then show "svc_get_container_type (seed_standard_catalogs s) code = Some c"
    using dget_fold_dset_mem [OF standard_codes_distinct(2)]
    by (simp add: svc_get_container_type_def get_container_type_def seed_master)
next
  fix code assume "py_upper code \<notin> (\<lambda>c. py_upper (ct_code c)) ` set standard_containers"
  then have "List.find (\<lambda>c. py_upper (ct_code c) = py_upper code) standard_containers = None"
    by (simp add: find_None_iff) (metis image_eqI)
  then show "svc_get_container_type (seed_standard_catalogs s) code = svc_get_container_type s code"
    by (simp add: svc_get_container_type_def get_container_type_def seed_master
        dget_fold_dset [OF standard_codes_distinct(2)])
next
  have "ms_master (seed_standard_catalogs (seed_standard_catalogs s)) = ms_master (seed_standard_catalogs s)"
    unfolding seed_master(1) [of "seed_standard_catalogs s"]
    by (simp add: seed_master fold_dset_idem standard_codes_distinct)
  then show "seed_standard_catalogs (seed_standard_catalogs s) = seed_standard_catalogs s"
    by (simp add: md_state.equality seed_master(2))
qed (simp_all add: seed_master)

text \<open>
  A location is found under its UN/LOCODE and under its IATA code in any spelling of case as soon
  as it has been added, and adding it changes no lookup under any other key.
\<close>

theorem added_location_found:
  assumes "svc_add_location l s = (l', s')"
  shows "l' = l \<and>
    (\<forall>c k. (loc_un_locode l = Some c \<or> loc_iata_code l = Some c) \<and> c \<noteq> [] \<and> py_upper k = py_upper c \<longrightarrow>
      svc_get_location s' k = Some l) \<and>
    (\<forall>k. {k, py_upper k} \<inter> ({loc_id l} \<union> {py_upper c |c. loc_un_locode l = Some c \<or> loc_iata_code l = Some c}) = {} \<longrightarrow>
      svc_get_location s' k = svc_get_location s k)"
proof -
  have s': "l' = l" "s' = s\<lparr>ms_master := add_location l (ms_master s)\<rparr>"
    using assms by (auto simp: svc_add_location_def on_master_def)
  have d: "dget (md_locations (ms_master s')) k = (if truthy (loc_iata_code l) \<and> k = py_upper (the (loc_iata_code l)) then Some l
      else if truthy (loc_un_locode l) \<and> k = py_upper (the (loc_un_locode l)) then Some l
      else if k = loc_id l then Some l else dget (md_locations (ms_master s)) k)" for k
    by (simp add: s' add_location_def dget_set_code dget_dset)
  show ?thesis
    unfolding svc_get_location_def get_location_by_id_def get_code_or_id_def d
    by (cases "loc_un_locode l"; cases "loc_iata_code l") (auto simp: s'(1) split: option.split)
qed

text \<open>
  The location search returns, in store order, the first location stored under each identity
  that is active (when asked), of the requested type and matches the text; no identity appears
  twice, and nothing that matches is missed when each identity is stored with one value.
\<close>

theorem search_exact:
  "svc_search_locations s query ltype active_only =
      filter (location_wanted (py_lower query) ltype active_only) (first_by_id {} (dvalues (md_locations (ms_master s)))) \<and>
   distinct (map loc_id (svc_search_locations s query ltype active_only)) \<and>
   (inj_on loc_id (set (dvalues (md_locations (ms_master s)))) \<longrightarrow>
     set (svc_search_locations s query ltype active_only) =
       {l \<in> set (dvalues (md_locations (ms_master s))). location_wanted (py_lower query) ltype active_only l})"
  by (auto simp: svc_search_locations_def search_locations_def search_loop_filter first_by_id_distinct
      first_by_id_complete distinct_map_filter simp del: set_map)

text \<open>
  Automatic customer codes never repeat: any sequence of registrations without a custom code
  yields pairwise different codes.
\<close>

theorem automatic_codes_distinct:
  assumes "ms_customers s = Some cr" and "0 \<le> cr_customer_seq cr"
    and "\<forall>(i, q) \<in> set qs. \<not> truthy (cq_custom_code q)"
  shows "distinct (map cust_customer_code (register_all today qs s))"
proof -
  have "inj_on (\<lambda>n. ''CUST-'' @ zpad 4 (cr_customer_seq cr + int n)) (set [1..<Suc (length qs)])"
    using assms(2) by (auto simp: inj_on_def dest!: zpad_inj [rotated 2])
  then show ?thesis unfolding register_all_codes [OF assms(1,3)] distinct_map by simp
qed

text \<open>
  The credit position exists exactly for stored customers; a customer reported as not blocked has
  exposure below the limit and a non-negative available credit.
\<close>

theorem credit_position_consistent:
  assumes "ms_customers s = Some cr"
  shows "(case get_customer_credit_position s i of
      Inl e \<Rightarrow> get_customer_by_id cr i = None
    | Inr p \<Rightarrow> (\<exists>c. get_customer_by_id cr i = Some c \<and> cpos_customer_code p = cust_customer_code c \<and>
        (cpos_is_blocked p \<longleftrightarrow> cust_credit_tier c = credit_tier.Tier_BLOCKED \<or>
          cust_credit_limit_amount c \<le> get_customer_exposure cr i) \<and>
        (\<not> cpos_is_blocked p \<longrightarrow> 0 \<le> cpos_available_credit p)))"
  using assms by (auto simp: get_customer_credit_position_def Let_def pr.nonneg fsub_nonneg split: option.splits)

text \<open>
  A code that a location gives up stays behind: when a location is stored again with another
  UN/LOCODE, the old code still finds the old version.
\<close>

theorem changed_location_leaves_stale_code:
  assumes "loc_un_locode l = Some ''PKKHI''" and "loc_iata_code l = None" and "loc_id l = ''1''"
  defines "l' \<equiv> l\<lparr>loc_un_locode := Some ''PKBQM''\<rparr>"
  shows "svc_get_location (snd (svc_add_location l' (snd (svc_add_location l s)))) ''PKKHI'' = Some l \<and> l' \<noteq> l"
proof -
  have "loc_un_locode l' \<noteq> loc_un_locode l" using assms(1) by (simp add: l'_def)
  then have "l' \<noteq> l" by auto
  then show ?thesis
    using assms by (simp add: svc_get_location_def get_location_by_id_def get_code_or_id_def svc_add_location_def
        add_location_def dget_set_code dget_dset py_eval)
qed

text \<open>Concrete inputs at which the hypotheses above hold.\<close>

definition sample_location :: location where
  "sample_location = \<lparr>loc_name = ''Karachi'', loc_country_id = None, loc_city = ''Karachi'', loc_type = ''SEAPORT'',
     loc_un_locode = Some ''PKKHI'', loc_iata_code = None, loc_timezone = ''UTC'', loc_is_active = True, loc_id = ''1''\<rparr>"

definition sample_md :: md_state where
  "sample_md = \<lparr>ms_master = empty_master_repo,
     ms_customers = Some \<lparr>cr_customers = [], cr_exposures = [], cr_customer_seq = 0\<rparr>\<rparr>"

definition sample_customer_request :: customer_request where
  "sample_customer_request = \<lparr>cq_name = ''N'', cq_credit_limit_amount = 1000, cq_credit_limit_currency = ''USD'',
     cq_payment_terms_days = 30, cq_credit_tier = credit_tier.Tier_NEW, cq_tax_registration = [],
     cq_registration_number = [], cq_iata_fiata_membership = [], cq_preferred_carrier_ids = None,
     cq_preferred_lanes = None, cq_contacts = None, cq_addresses = None, cq_custom_code = None\<rparr>"

theorem seeding_complete_idempotent_witness:
  "\<exists>c. svc_get_container_type (seed_standard_catalogs sample_md) ''40hc'' = Some c \<and> ct_max_payload_kg c = 26500"
proof -
  let ?c = "\<lparr>ct_code = ''40HC'', ct_cbm_capacity = flit (763 / 10), ct_max_payload_kg = 26500\<rparr>"
  have "?c \<in> set standard_containers" by (simp add: standard_containers_def)
  moreover have "py_upper ''40hc'' = py_upper (ct_code ?c)" by (simp add: py_eval char_of_def bit_0)
  ultimately have "svc_get_container_type (seed_standard_catalogs sample_md) ''40hc'' = Some ?c"
    using seeding_complete_idempotent [of sample_md] by blast
  then show ?thesis by simp
qed

theorem added_location_found_witness:
  "svc_get_location (snd (svc_add_location sample_location sample_md)) ''pkkhi'' = Some sample_location"
proof -
  have "py_upper ''pkkhi'' = py_upper ''PKKHI''" by (simp add: py_eval char_of_def bit_0)
  moreover have "loc_un_locode sample_location = Some ''PKKHI''" by (simp add: sample_location_def)
  ultimately show ?thesis
    using added_location_found [OF prod.collapse [symmetric], of sample_location sample_md] by blast
qed

theorem search_exact_witness:
  "set (svc_search_locations sample_md ''k'' None True) = {}"
proof -
  have e: "dvalues (md_locations (ms_master sample_md)) = []" by (simp add: sample_md_def empty_master_repo_def)
  from search_exact [of sample_md "''k''" None True] show ?thesis unfolding e by simp
qed

theorem automatic_codes_distinct_witness:
  "distinct (map cust_customer_code (register_all 1 [(''a'', sample_customer_request), (''b'', sample_customer_request)] sample_md))"
  by (rule automatic_codes_distinct [where cr = "\<lparr>cr_customers = [], cr_exposures = [], cr_customer_seq = 0\<rparr>"])
    (simp_all add: sample_md_def sample_customer_request_def)

theorem credit_position_consistent_witness:
  "\<exists>e. get_customer_credit_position sample_md ''x'' = Inl e"
  using credit_position_consistent [of sample_md _ "''x''"]
  by (auto simp: sample_md_def get_customer_by_id_def split: sum.splits)

theorem changed_location_leaves_stale_code_witness:
  "svc_get_location (snd (svc_add_location (sample_location\<lparr>loc_un_locode := Some ''PKBQM''\<rparr>)
    (snd (svc_add_location sample_location sample_md)))) ''PKKHI'' = Some sample_location"
proof -
  have "loc_un_locode sample_location = Some ''PKKHI''" "loc_iata_code sample_location = None" "loc_id sample_location = ''1''"
    by (simp_all add: sample_location_def)
  from changed_location_leaves_stale_code [OF this] show ?thesis by blast
qed

end
