(* ===== verification/Freight_Calc.thy ===== *)
theory Freight_Calc
  imports Py_Float
begin

text \<open>
  The freight calculators of \<open>app/modules/commercial/calculations\<close>: chargeable weight and pivot
  weight of air freight (\<open>air_freight.py\<close>), revenue tons of consolidated sea freight
  (\<open>lcl_revenue_tons.py\<close>) and the utilisation of containers (\<open>container_utilization.py\<close>).
\<close>

section \<open>Air freight\<close>

record package =
  pk_gross_weight_kg :: flt
  pk_length_cm :: flt
  pk_width_cm :: flt
  pk_height_cm :: flt
  pk_quantity :: int

record chargeable_weight =
  cw_total_gross_weight_kg :: flt
  cw_total_volumetric_weight_kg :: flt
  cw_chargeable_weight_kg :: flt
  cw_basis :: string

record rate_break =
  rb_weight_break_kg :: flt
  rb_rate_per_kg :: flt

record pivot_result =
  pv_actual_chargeable_weight_kg :: flt
  pv_actual_rate_per_kg :: flt
  pv_actual_total_cost :: flt
  pv_optimized_weight_kg :: flt
  pv_optimized_rate_per_kg :: flt
  pv_optimized_total_cost :: flt
  pv_savings_amount :: flt
  pv_savings_pct :: flt
  pv_recommendation :: string
  pv_is_optimized :: bool

definition default_volumetric_divisor :: int where
  "default_volumetric_divisor = 6000"

definition calculate_volumetric_weight :: "package \<Rightarrow> int \<Rightarrow> flt res" where
  "calculate_volumetric_weight p divisor =
    res_map (\<lambda>per_piece. fmul per_piece (fint (pk_quantity p)))
      (fdiv (fmul (fmul (pk_length_cm p) (pk_width_cm p)) (pk_height_cm p)) (fint divisor))"

definition total_gross_weight :: "package list \<Rightarrow> flt" where
  "total_gross_weight packages = py_sum (map (\<lambda>p. fmul (pk_gross_weight_kg p) (fint (pk_quantity p))) packages)"

definition calculate_chargeable_weight :: "package list \<Rightarrow> int \<Rightarrow> chargeable_weight res" where
  "calculate_chargeable_weight packages divisor =
    (if packages = [] then Inl (ValueError ''At least one package is required'')
     else
       (let total_gross = total_gross_weight packages in
        res_map (\<lambda>vs.
          let total_volumetric = py_sum vs;
              chargeable = max total_gross total_volumetric
          in \<lparr>cw_total_gross_weight_kg = py_round 2 total_gross,
              cw_total_volumetric_weight_kg = py_round 2 total_volumetric,
              cw_chargeable_weight_kg = py_round 2 chargeable,
              cw_basis = (if total_gross < total_volumetric then ''VOLUMETRIC'' else ''GROSS'')\<rparr>)
          (mapM_res (\<lambda>p. calculate_volumetric_weight p divisor) packages)))"

text \<open>The two loops of the pivot weight: the break that applies, and the cheapest higher break.\<close>

definition applicable_break :: "flt \<Rightarrow> rate_break list \<Rightarrow> rate_break" where
  "applicable_break w sorted_breaks =
    fold (\<lambda>b acc. if rb_weight_break_kg b \<le> w then b else acc) sorted_breaks (hd sorted_breaks)"

type_synonym pivot_choice = "flt \<times> flt \<times> flt \<times> bool"

definition break_total :: "rate_break \<Rightarrow> flt" where
  "break_total b = py_round 2 (fmul (rb_weight_break_kg b) (rb_rate_per_kg b))"

fun pivot_loop :: "flt \<Rightarrow> pivot_choice \<Rightarrow> rate_break list \<Rightarrow> pivot_choice" where
  "pivot_loop w best [] = best"
| "pivot_loop w (best_weight, best_rate, best_total, is_optimized) (b # bs) =
    (if w < rb_weight_break_kg b \<and> break_total b < best_total
     then pivot_loop w (rb_weight_break_kg b, rb_rate_per_kg b, break_total b, True) bs
     else pivot_loop w (best_weight, best_rate, best_total, is_optimized) bs)"

definition pivot_recommendation :: "flt \<Rightarrow> flt \<Rightarrow> pivot_choice \<Rightarrow> flt \<Rightarrow> flt \<Rightarrow> string" where
  "pivot_recommendation w actual_rate best savings savings_pct =
    (case best of (best_weight, best_rate, best_total, is_optimized) \<Rightarrow>
       if is_optimized then
         ''Bump to '' @ frepr best_weight @ '' kg break at $'' @ frepr best_rate @ ''/kg: saves $'' @ frepr savings @
         '' ('' @ frepr savings_pct @ ''%) vs actual '' @ frepr w @ '' kg at $'' @ frepr actual_rate @ ''/kg''
       else ''Rate as actual '' @ frepr w @ '' kg at $'' @ frepr actual_rate @ ''/kg (optimal)'')"

definition calculate_pivot_weight_optimization :: "flt \<Rightarrow> rate_break list \<Rightarrow> pivot_result res" where
  "calculate_pivot_weight_optimization w rate_breaks =
    (if rate_breaks = [] then Inl (ValueError ''Rate breaks are required for optimization'')
     else
       (let sorted_breaks = sort_key rb_weight_break_kg rate_breaks;
            actual_rate = rb_rate_per_kg (applicable_break w sorted_breaks);
            actual_total = py_round 2 (fmul w actual_rate);
            best = pivot_loop w (w, actual_rate, actual_total, False) sorted_breaks;
            (best_weight, best_rate, best_total, is_optimized) = best;
            savings = py_round 2 (fsub actual_total best_total);
            savings_pct = (if 0 < actual_total then py_round 2 (fmul (fquot savings actual_total) 100) else 0)
        in Inr \<lparr>pv_actual_chargeable_weight_kg = w, pv_actual_rate_per_kg = actual_rate,
             pv_actual_total_cost = actual_total, pv_optimized_weight_kg = best_weight,
             pv_optimized_rate_per_kg = best_rate, pv_optimized_total_cost = best_total,
             pv_savings_amount = savings, pv_savings_pct = savings_pct,
             pv_recommendation = pivot_recommendation w actual_rate best savings savings_pct,
             pv_is_optimized = is_optimized\<rparr>))"

section \<open>Consolidated sea freight\<close>

record revenue_tons =
  rt_weight_tons :: flt
  rt_volume_cbm :: flt
  rt_revenue_tons :: flt
  rt_basis :: string
  rt_minimum_applied :: bool
  rt_billable_revenue_tons :: flt

definition rt_gross_weight_kg :: "revenue_tons \<Rightarrow> flt" where
  "rt_gross_weight_kg r = py_round 3 (fmul (rt_weight_tons r) 1000)"

definition rt_rating_basis :: "revenue_tons \<Rightarrow> string" where
  "rt_rating_basis r = rt_basis r"

definition rt_is_minimum_applied :: "revenue_tons \<Rightarrow> bool" where
  "rt_is_minimum_applied r = rt_minimum_applied r"

definition calculate_lcl_revenue_tons :: "flt \<Rightarrow> flt \<Rightarrow> flt \<Rightarrow> revenue_tons res" where
  "calculate_lcl_revenue_tons gross_weight_kg total_cbm carrier_minimum_rt =
    (if gross_weight_kg < 0 \<or> total_cbm < 0 then Inl (ValueError ''Weight and volume must be non-negative'')
     else
       (let weight_tons = fquot gross_weight_kg 1000;
            revenue_tons = max weight_tons total_cbm;
            minimum_applied = (revenue_tons < carrier_minimum_rt);
            billable = (if minimum_applied then carrier_minimum_rt else revenue_tons)
        in Inr \<lparr>rt_weight_tons = py_round 3 weight_tons, rt_volume_cbm = py_round 3 total_cbm,
             rt_revenue_tons = py_round 3 revenue_tons,
             rt_basis = (if weight_tons < total_cbm then ''VOLUME'' else ''WEIGHT''),
             rt_minimum_applied = minimum_applied, rt_billable_revenue_tons = py_round 3 billable\<rparr>))"

section \<open>Containers\<close>

record container_spec =
  cs_cbm_capacity :: flt
  cs_max_payload_kg :: int

definition container_specs :: "(string, container_spec) dict" where
  "container_specs = [
    (''20GP'', \<lparr>cs_cbm_capacity = flit (332 / 10), cs_max_payload_kg = 28200\<rparr>),
    (''40GP'', \<lparr>cs_cbm_capacity = flit (677 / 10), cs_max_payload_kg = 26700\<rparr>),
    (''40HC'', \<lparr>cs_cbm_capacity = flit (763 / 10), cs_max_payload_kg = 26500\<rparr>),
    (''20RF'', \<lparr>cs_cbm_capacity = flit (283 / 10), cs_max_payload_kg = 27700\<rparr>),
    (''40RF'', \<lparr>cs_cbm_capacity = flit (593 / 10), cs_max_payload_kg = 29500\<rparr>)]"

definition upgrade_suggestions :: "(string, string) dict" where
  "upgrade_suggestions = [(''40GP'', ''40HC''), (''20GP'', ''40GP'')]"

record container_utilization =
  cu_container_type :: string
  cu_volume_utilization_pct :: flt
  cu_weight_utilization_pct :: flt
  cu_effective_utilization_pct :: flt
  cu_warnings :: "string list"
  cu_suggested_container_type :: "string option"

definition limiting_factor :: "container_utilization \<Rightarrow> string" where
  "limiting_factor u = (if cu_weight_utilization_pct u \<le> cu_volume_utilization_pct u then ''VOLUME'' else ''WEIGHT'')"

definition suggestions :: "container_utilization \<Rightarrow> string list" where
  "suggestions u = (if truthy (cu_suggested_container_type u)
     then [''Consider '' @ the (cu_suggested_container_type u)] else [])"

definition calculate_container_utilization :: "flt \<Rightarrow> flt \<Rightarrow> string \<Rightarrow> container_utilization res" where
  "calculate_container_utilization total_cbm gross_weight_kg container_type =
    (case dget container_specs container_type of
       None \<Rightarrow> Inl (ValueError (''Unknown container type: '' @ container_type))
     | Some specs \<Rightarrow>
         (let volume_pct = fmul (fquot total_cbm (cs_cbm_capacity specs)) 100;
              weight_pct = fmul (fquot gross_weight_kg (fint (cs_max_payload_kg specs))) 100;
              effective_pct = min volume_pct weight_pct;
              warnings = []; suggested_type = None;
              (warnings, suggested_type) = (if 95 < volume_pct
                then (warnings @ [''Volume utilization '' @ fmt_fixed 1 volume_pct @ ''% exceeds 95.0% threshold''],
                      dget upgrade_suggestions container_type)
                else (warnings, suggested_type));
              (warnings, suggested_type) = (if 90 < weight_pct
                then (warnings @ [''Weight utilization '' @ fmt_fixed 1 weight_pct @ ''% exceeds 90.0% threshold''],
                      if suggested_type = None then dget upgrade_suggestions container_type else suggested_type)
                else (warnings, suggested_type))
          in Inr \<lparr>cu_container_type = container_type, cu_volume_utilization_pct = py_round 2 volume_pct,
               cu_weight_utilization_pct = py_round 2 weight_pct,
               cu_effective_utilization_pct = py_round 2 effective_pct, cu_warnings = warnings,
               cu_suggested_container_type = suggested_type\<rparr>))"

section \<open>Laws\<close>

lemma fint_eq_0 [simp]: "fint n = 0 \<longleftrightarrow> n = 0"
proof
  assume z: "fint n = 0"
  show "n = 0"
  proof (rule ccontr)
    assume "n \<noteq> 0"
    then have "1 \<le> \<bar>n\<bar>" by simp
    then have "(1::rat) \<le> of_int \<bar>n\<bar>" by (metis of_int_1 of_int_le_iff)
    then have "rnd 1 \<le> rnd (of_int \<bar>n\<bar>)" by (rule rnd_mono)
    moreover have "rnd (of_int \<bar>n\<bar>) = \<bar>fint n\<bar>"
      using rnd_nonneg [of "of_int n"] rnd_nonneg [of "- of_int n"]
      by (cases "0 \<le> n") (auto simp: fint_def rnd_minus abs_if)
    ultimately show False using z by simp
  qed
qed (simp add: fint_def)

lemma fint_0 [simp]: "fint 0 = 0"
  by simp

lemma volumetric_weight_cases:
  "calculate_volumetric_weight p d = (if d = 0 then Inl ZeroDivisionError else
     Inr (fmul (fquot (fmul (fmul (pk_length_cm p) (pk_width_cm p)) (pk_height_cm p)) (fint d)) (fint (pk_quantity p))))"
  by (simp add: calculate_volumetric_weight_def)

lemma applicable_break_fold:
  "sorted (map rb_weight_break_kg bs) \<Longrightarrow> rb_weight_break_kg acc \<le> w \<Longrightarrow> \<forall>b \<in> set bs. rb_weight_break_kg acc \<le> rb_weight_break_kg b \<Longrightarrow>
    (let r = fold (\<lambda>b acc. if rb_weight_break_kg b \<le> w then b else acc) bs acc in
     r \<in> set (acc # bs) \<and> rb_weight_break_kg r \<le> w \<and>
     (\<forall>b \<in> set (acc # bs). rb_weight_break_kg b \<le> w \<longrightarrow> rb_weight_break_kg b \<le> rb_weight_break_kg r))"
proof (induction bs arbitrary: acc)
  case (Cons b bs)
  show ?case
  proof (cases "rb_weight_break_kg b \<le> w")
    case True
    then show ?thesis using Cons.IH [of b] Cons.prems by (auto simp: Let_def)
  next
    case False
    then show ?thesis using Cons.IH [of acc] Cons.prems by (auto simp: Let_def)
  qed
qed (simp add: Let_def)

lemma applicable_break_none:
  "\<forall>b \<in> set bs. w < rb_weight_break_kg b \<Longrightarrow>
    fold (\<lambda>b acc. if rb_weight_break_kg b \<le> w then b else acc) bs acc = acc"
  by (induction bs) auto

lemma pivot_loop_spec:
  "pivot_loop w (bw, br, bt, opt) bs = (bw', br', bt', opt') \<Longrightarrow>
    bt' \<le> bt \<and> (\<forall>b \<in> set bs. w < rb_weight_break_kg b \<longrightarrow> bt' \<le> break_total b) \<and>
    (opt' \<longleftrightarrow> opt \<or> bt' < bt) \<and>
    ((bw', br', bt') = (bw, br, bt) \<or>
     (\<exists>b \<in> set bs. w < rb_weight_break_kg b \<and> bw' = rb_weight_break_kg b \<and> br' = rb_rate_per_kg b \<and> bt' = break_total b))"
proof (induction bs arbitrary: bw br bt opt)
  case (Cons b bs)
  show ?case
  proof (cases "w < rb_weight_break_kg b \<and> break_total b < bt")
    case True
    then show ?thesis using Cons.IH [of "rb_weight_break_kg b" "rb_rate_per_kg b" "break_total b" True] Cons.prems by auto
  next
    case False
    then show ?thesis using Cons.IH [of bw br bt opt] Cons.prems by auto
  qed
qed simp

text \<open>What the break that applies to a weight is.\<close>

definition applies_at :: "flt \<Rightarrow> rate_break list \<Rightarrow> rate_break \<Rightarrow> bool" where
  "applies_at w bs b \<longleftrightarrow> b \<in> set bs \<and>
     (if \<exists>c \<in> set bs. rb_weight_break_kg c \<le> w
      then rb_weight_break_kg b \<le> w \<and> (\<forall>c \<in> set bs. rb_weight_break_kg c \<le> w \<longrightarrow> rb_weight_break_kg c \<le> rb_weight_break_kg b)
      else \<forall>c \<in> set bs. rb_weight_break_kg b \<le> rb_weight_break_kg c)"

lemma applicable_break_applies:
  assumes "sorted (map rb_weight_break_kg bs)" and "bs \<noteq> []"
  shows "applies_at w bs (applicable_break w bs)"
proof -
  obtain b cs where bs: "bs = b # cs" using assms(2) by (cases bs) auto
  show ?thesis
  proof (cases "rb_weight_break_kg b \<le> w")
    case True
    then show ?thesis
      using applicable_break_fold [of cs b w] assms(1)
      by (auto simp: bs applicable_break_def applies_at_def Let_def)
  next
    case False
    then have above: "\<forall>c \<in> set bs. w < rb_weight_break_kg c" and low: "\<forall>c \<in> set bs. rb_weight_break_kg b \<le> rb_weight_break_kg c"
      using assms(1) by (auto simp: bs)
    then show ?thesis
      using applicable_break_none [OF above] by (auto simp: applicable_break_def applies_at_def bs not_le)
  qed
qed

section \<open>Properties of the calculators\<close>

text \<open>
  The pivot weight is optimal. Given any rate breaks, the actual rate is that of the highest
  break not above the weight (of the lowest break when all are above); the optimised total is the
  least of the actual total and the totals of all breaks above the weight, it is the total of the
  optimised weight at the optimised rate, savings are never negative, and the plan counts as
  optimised exactly when it is strictly cheaper. Without breaks the computation raises.
\<close>

theorem pivot_weight_optimal:
  "calculate_pivot_weight_optimization w [] = Inl (ValueError ''Rate breaks are required for optimization'') \<and>
   (bs \<noteq> [] \<longrightarrow> (\<exists>p. calculate_pivot_weight_optimization w bs = Inr p \<and>
     (\<exists>b. applies_at w bs b \<and> pv_actual_rate_per_kg p = rb_rate_per_kg b) \<and>
     pv_actual_total_cost p = py_round 2 (fmul w (pv_actual_rate_per_kg p)) \<and>
     pv_optimized_total_cost p \<le> pv_actual_total_cost p \<and>
     (\<forall>b \<in> set bs. w < rb_weight_break_kg b \<longrightarrow> pv_optimized_total_cost p \<le> break_total b) \<and>
     pv_optimized_total_cost p = py_round 2 (fmul (pv_optimized_weight_kg p) (pv_optimized_rate_per_kg p)) \<and>
     w \<le> pv_optimized_weight_kg p \<and> 0 \<le> pv_savings_amount p \<and>
     (pv_is_optimized p \<longleftrightarrow> pv_optimized_total_cost p < pv_actual_total_cost p)))"
proof (intro conjI impI)
  assume ne: "bs \<noteq> []"
  define ss where "ss = sort_key rb_weight_break_kg bs"
  have ss: "set ss = set bs" "sorted (map rb_weight_break_kg ss)" "ss \<noteq> []"
    using ne by (simp_all add: ss_def) (metis length_0_conv length_sort)
  define rt where "rt = rb_rate_per_kg (applicable_break w ss)"
  obtain bw br bt opt where l: "pivot_loop w (w, rt, py_round 2 (fmul w rt), False) ss = (bw, br, bt, opt)"
    by (metis prod_cases4)
  have ap: "applies_at w bs (applicable_break w ss)"
    using applicable_break_applies [OF ss(2,3), of w] by (simp add: applies_at_def ss(1))
  from pivot_loop_spec [OF l] have spec: "bt \<le> py_round 2 (fmul w rt)"
    "\<forall>b \<in> set bs. w < rb_weight_break_kg b \<longrightarrow> bt \<le> break_total b" "opt \<longleftrightarrow> bt < py_round 2 (fmul w rt)"
    "bt = py_round 2 (fmul bw br)" "w \<le> bw"
    by (auto simp: ss(1) break_total_def)
  show "\<exists>p. calculate_pivot_weight_optimization w bs = Inr p \<and>
     (\<exists>b. applies_at w bs b \<and> pv_actual_rate_per_kg p = rb_rate_per_kg b) \<and>
     pv_actual_total_cost p = py_round 2 (fmul w (pv_actual_rate_per_kg p)) \<and>
     pv_optimized_total_cost p \<le> pv_actual_total_cost p \<and>
     (\<forall>b \<in> set bs. w < rb_weight_break_kg b \<longrightarrow> pv_optimized_total_cost p \<le> break_total b) \<and>
     pv_optimized_total_cost p = py_round 2 (fmul (pv_optimized_weight_kg p) (pv_optimized_rate_per_kg p)) \<and>
     w \<le> pv_optimized_weight_kg p \<and> 0 \<le> pv_savings_amount p \<and>
     (pv_is_optimized p \<longleftrightarrow> pv_optimized_total_cost p < pv_actual_total_cost p)"
    using ne ap spec fsub_nonneg [OF spec(1)]
    by (auto simp: calculate_pivot_weight_optimization_def Let_def ss_def [symmetric] rt_def [symmetric] l intro: pr.nonneg)
qed (simp add: calculate_pivot_weight_optimization_def)

text \<open>
  The chargeable weight raises exactly for an empty shipment or the divisor zero; otherwise the
  reported chargeable weight is the larger of the reported gross and volumetric weights, and the
  basis names the larger of the two sums.
\<close>

theorem chargeable_weight_exact:
  "(\<exists>e. calculate_chargeable_weight ps d = Inl e) = (ps = [] \<or> d = 0) \<and>
   (\<forall>r. calculate_chargeable_weight ps d = Inr r \<longrightarrow>
     cw_chargeable_weight_kg r = max (cw_total_gross_weight_kg r) (cw_total_volumetric_weight_kg r) \<and>
     cw_total_gross_weight_kg r = py_round 2 (total_gross_weight ps) \<and>
     (cw_basis r = ''VOLUMETRIC'' \<longrightarrow> cw_chargeable_weight_kg r = cw_total_volumetric_weight_kg r) \<and>
     (cw_basis r \<noteq> ''VOLUMETRIC'' \<longrightarrow> cw_basis r = ''GROSS'' \<and> cw_chargeable_weight_kg r = cw_total_gross_weight_kg r))"
proof (cases "ps = [] \<or> d = 0")
  case True
  then show ?thesis
    by (cases ps) (auto simp: calculate_chargeable_weight_def Let_def volumetric_weight_cases)
next
  case False
  then have d: "d \<noteq> 0" by simp
  define v where "v = (\<lambda>p :: package. fmul (fquot (fmul (fmul (pk_length_cm p) (pk_width_cm p)) (pk_height_cm p)) (fint d)) (fint (pk_quantity p)))"
  have "mapM_res (\<lambda>p. calculate_volumetric_weight p d) ps = Inr (map v ps)"
    using d by (induction ps) (auto simp: volumetric_weight_cases v_def)
  then show ?thesis
    using False by (auto simp: calculate_chargeable_weight_def Let_def pr.max_commute max_def pr.mono not_less
        intro: order.antisym)
qed

text \<open>
  The billable revenue tons are the largest of weight, volume and carrier minimum, each rounded
  to three digits; the minimum counts as applied exactly when both are below it, and the
  computation raises exactly for a negative weight or volume.
\<close>

theorem revenue_tons_exact:
  "(\<exists>e. calculate_lcl_revenue_tons w v m = Inl e) = (w < 0 \<or> v < 0) \<and>
   (\<forall>r. calculate_lcl_revenue_tons w v m = Inr r \<longrightarrow>
     rt_billable_revenue_tons r = max (py_round 3 m) (max (rt_weight_tons r) (rt_volume_cbm r)) \<and>
     rt_revenue_tons r = max (rt_weight_tons r) (rt_volume_cbm r) \<and> 0 \<le> rt_revenue_tons r \<and>
     (rt_minimum_applied r \<longleftrightarrow> fquot w 1000 < m \<and> v < m))"
  by (auto simp: calculate_lcl_revenue_tons_def Let_def pr.max_commute [symmetric] max.absorb1 max.absorb2
      not_less less_imp_le intro: pr.nonneg)

text \<open>
  The utilisation is defined exactly for the five listed container types. It warns once
  for a volume above 95 per cent and once for a weight above 90 per cent, suggests the
  larger type exactly when it warns and there is one, and the effective utilisation is the smaller
  of the two.
\<close>

theorem container_utilization_exact:
  "(\<exists>e. calculate_container_utilization v w t = Inl e) = (t \<notin> {''20GP'', ''40GP'', ''40HC'', ''20RF'', ''40RF''}) \<and>
   (\<forall>u s. calculate_container_utilization v w t = Inr u \<and> dget container_specs t = Some s \<longrightarrow>
     int (length (cu_warnings u)) =
       (if 95 < fmul (fquot v (cs_cbm_capacity s)) 100 then 1 else 0) +
       (if 90 < fmul (fquot w (fint (cs_max_payload_kg s))) 100 then 1 else 0) \<and>
     cu_suggested_container_type u = (if cu_warnings u = [] then None
       else if t = ''40GP'' then Some ''40HC'' else if t = ''20GP'' then Some ''40GP'' else None) \<and>
     cu_effective_utilization_pct u = min (cu_volume_utilization_pct u) (cu_weight_utilization_pct u))"
proof (intro conjI allI impI)
  show "(\<exists>e. calculate_container_utilization v w t = Inl e) = (t \<notin> {''20GP'', ''40GP'', ''40HC'', ''20RF'', ''40RF''})"
    by (auto simp: calculate_container_utilization_def container_specs_def Let_def split: option.split prod.split)
next
  fix u s
  assume a: "calculate_container_utilization v w t = Inr u \<and> dget container_specs t = Some s"
  show "int (length (cu_warnings u)) =
       (if 95 < fmul (fquot v (cs_cbm_capacity s)) 100 then 1 else 0) +
       (if 90 < fmul (fquot w (fint (cs_max_payload_kg s))) 100 then 1 else 0)"
    using a by (auto simp: calculate_container_utilization_def Let_def split: if_splits)
  show "cu_suggested_container_type u = (if cu_warnings u = [] then None
       else if t = ''40GP'' then Some ''40HC'' else if t = ''20GP'' then Some ''40GP'' else None)"
    using a by (auto simp: calculate_container_utilization_def Let_def upgrade_suggestions_def split: if_splits)
  show "cu_effective_utilization_pct u = min (cu_volume_utilization_pct u) (cu_weight_utilization_pct u)"
    using a by (auto simp: calculate_container_utilization_def Let_def pr.min_commute split: if_splits)
qed

text \<open>
  The weight that the revenue tons report back is rounded through whole kilograms: 0.4 kg comes back as zero.
\<close>

theorem reported_weight_loses_grams:
  "res_map rt_gross_weight_kg (calculate_lcl_revenue_tons (flit (4 / 10)) 0 1) = Inr 0"
  by code_simp

text \<open>Concrete inputs at which the hypotheses above hold.\<close>

theorem pivot_weight_optimal_witness:
  "\<exists>p. calculate_pivot_weight_optimization 90 [\<lparr>rb_weight_break_kg = 100, rb_rate_per_kg = 2\<rparr>] = Inr p \<and>
    pv_optimized_total_cost p \<le> break_total \<lparr>rb_weight_break_kg = 100, rb_rate_per_kg = 2\<rparr>"
proof -
  let ?b = "\<lparr>rb_weight_break_kg = 100, rb_rate_per_kg = 2\<rparr>"
  have "[?b] \<noteq> []" and "?b \<in> set [?b]" and "90 < rb_weight_break_kg ?b" by simp_all
  then show ?thesis using pivot_weight_optimal [of 90 "[?b]"] by blast
qed

theorem chargeable_weight_exact_witness:
  "\<exists>r. calculate_chargeable_weight [\<lparr>pk_gross_weight_kg = 10, pk_length_cm = 60, pk_width_cm = 50, pk_height_cm = 40,
      pk_quantity = 2\<rparr>] 6000 = Inr r \<and>
    cw_chargeable_weight_kg r = max (cw_total_gross_weight_kg r) (cw_total_volumetric_weight_kg r)"
proof -
  let ?ps = "[\<lparr>pk_gross_weight_kg = 10, pk_length_cm = 60, pk_width_cm = 50, pk_height_cm = 40, pk_quantity = 2\<rparr>]"
  have "\<not> (\<exists>e. calculate_chargeable_weight ?ps 6000 = Inl e)"
    using chargeable_weight_exact [of ?ps 6000] by simp
  then obtain r where "calculate_chargeable_weight ?ps 6000 = Inr r"
    by (cases "calculate_chargeable_weight ?ps 6000") auto
  then show ?thesis using chargeable_weight_exact [of ?ps 6000] by blast
qed

end
