(* ===== verification/Rate_Selection.thy ===== *)
theory Rate_Selection
  imports Rate_Engine
begin

text \<open>
  \<open>app/modules/commercial/calculations/rate_selection.py\<close>: the selection of a rate from a list, by the
  same category cascade as the rate engine of the domain. The functions are duck-typed: they read
  the rates of \<open>domain/entities.py\<close> and the flat rates of their own module through \<open>getattr\<close>. A rate
  is an object of either class; reading an attribute that its class does not have raises
  \<open>AttributeError\<close>. Both modules' category classes have the same members and the same values, and
  the code compares them by value only, so one type stands for both.
\<close>

section \<open>Rates of either class\<close>

record flat_rate =
  fr_rate_id :: string
  fr_category :: rate_category
  fr_carrier :: string
  fr_origin :: string
  fr_destination :: string
  fr_base_amount :: flt
  fr_currency :: string
  fr_effective_date :: date
  fr_expiry_date :: date
  fr_status :: string
  fr_customer_id :: "string option"
  fr_commodity_id :: "string option"
  fr_versions :: "rate_version list"

datatype rate_obj = Flat_Rate flat_rate | Domain_Rate rate

record rate_selection =
  rsel_selected_rate :: "rate_obj option"
  rsel_reason :: string
  rsel_no_rate_available :: bool
  rsel_applicable_version :: "rate_version option"
  rsel_resolved_lines :: "rate_line list"
  rsel_attached_surcharges :: "rate_surcharge list"
  rsel_total_freight_cost :: flt

text \<open>The attributes as \<open>getattr\<close> with its fallbacks finds them.\<close>

fun ro_origin :: "rate_obj \<Rightarrow> string" where
  "ro_origin (Flat_Rate r) = fr_origin r"
| "ro_origin (Domain_Rate r) = rate_origin_location_id r"

fun ro_destination :: "rate_obj \<Rightarrow> string" where
  "ro_destination (Flat_Rate r) = fr_destination r"
| "ro_destination (Domain_Rate r) = rate_destination_location_id r"

fun ro_category :: "rate_obj \<Rightarrow> rate_category" where
  "ro_category (Flat_Rate r) = fr_category r"
| "ro_category (Domain_Rate r) = rate_rate_category r"

fun ro_customer_id :: "rate_obj \<Rightarrow> string option" where
  "ro_customer_id (Flat_Rate r) = fr_customer_id r"
| "ro_customer_id (Domain_Rate r) = rate_customer_id r"

fun ro_versions :: "rate_obj \<Rightarrow> rate_version list" where
  "ro_versions (Flat_Rate r) = fr_versions r"
| "ro_versions (Domain_Rate r) = rate_versions r"

fun ro_base_amount :: "rate_obj \<Rightarrow> flt" where
  "ro_base_amount (Flat_Rate r) = fr_base_amount r"
| "ro_base_amount (Domain_Rate r) = 0"

fun ro_number :: "rate_obj \<Rightarrow> string" where
  "ro_number (Flat_Rate r) = fr_rate_id r"
| "ro_number (Domain_Rate r) = rate_rate_number r"

fun ro_is_valid :: "date \<Rightarrow> rate_obj \<Rightarrow> bool" where
  "ro_is_valid today (Flat_Rate r) \<longleftrightarrow>
     fr_status r = ''ACTIVE'' \<and> fr_effective_date r \<le> today \<and> today \<le> fr_expiry_date r"
| "ro_is_valid today (Domain_Rate r) \<longleftrightarrow>
     rate_status_value (rate_status r) = ''ACTIVE'' \<and> rate_effective_date r \<le> today \<and> today \<le> rate_expiry_date r"

definition on_lane :: "string \<Rightarrow> string \<Rightarrow> date \<Rightarrow> rate_obj \<Rightarrow> bool" where
  "on_lane origin destination today r \<longleftrightarrow>
     ro_origin r = origin \<and> ro_destination r = destination \<and> ro_is_valid today r"

section \<open>Selection\<close>

definition category_priority :: "rate_category list" where
  "category_priority = [rate_category.CONTRACT_NAC, rate_category.SPOT, rate_category.LANE_NAC,
    rate_category.PROMOTIONAL, rate_category.FAK, rate_category.AGENT]"

definition category_candidates :: "rate_obj list \<Rightarrow> string \<Rightarrow> rate_category \<Rightarrow> rate_obj list" where
  "category_candidates lane customer_id category =
    (let cs = filter (\<lambda>r. ro_category r = category) lane
     in if category \<in> {rate_category.CONTRACT_NAC, rate_category.SPOT}
        then filter (\<lambda>r. ro_customer_id r = Some customer_id) cs else cs)"

definition line_resolved :: "flt option \<Rightarrow> string option \<Rightarrow> rate_line \<Rightarrow> bool" where
  "line_resolved weight_kg container_type l =
    (if weight_kg \<noteq> None \<and> rl_weight_break_from l \<noteq> None
     then the (rl_weight_break_from l) \<le> the weight_kg \<and>
       (case rl_weight_break_to l of None \<Rightarrow> True | Some t \<Rightarrow> t = 0 \<or> the weight_kg < t)
     else if truthy container_type \<and> truthy (rl_container_type_code l)
     then rl_container_type_code l = container_type
     else True)"

definition selected_reason :: "rate_category \<Rightarrow> rate_obj \<Rightarrow> string" where
  "selected_reason category r = ''Selected '' @ rate_category_value category @ '' rate '' @ ro_number r"

definition select_versioned :: "flt option \<Rightarrow> string option \<Rightarrow> rate_category \<Rightarrow> rate_obj \<Rightarrow> rate_selection res" where
  "select_versioned weight_kg container_type category best =
    (case best of
       Flat_Rate _ \<Rightarrow> Inl (AttributeError ''current_version'')
     | Domain_Rate r \<Rightarrow>
         (let best_version = current_version r in
          Inr \<lparr>rsel_selected_rate = Some best, rsel_reason = selected_reason category best,
            rsel_no_rate_available = False, rsel_applicable_version = best_version,
            rsel_resolved_lines = (case best_version of None \<Rightarrow> []
              | Some v \<Rightarrow> filter (line_resolved weight_kg container_type) (rv_lines v)),
            rsel_attached_surcharges = (case best_version of None \<Rightarrow> [] | Some v \<Rightarrow> rv_surcharges v),
            rsel_total_freight_cost = 0\<rparr>))"

fun select_cascade :: "rate_obj list \<Rightarrow> string \<Rightarrow> flt option \<Rightarrow> string option \<Rightarrow> rate_category list \<Rightarrow> rate_selection res" where
  "select_cascade lane customer_id w ct [] =
    Inr \<lparr>rsel_selected_rate = None, rsel_reason = ''No valid rate found in any category for this lane'',
      rsel_no_rate_available = True, rsel_applicable_version = None, rsel_resolved_lines = [],
      rsel_attached_surcharges = [], rsel_total_freight_cost = 0\<rparr>"
| "select_cascade lane customer_id w ct (category # categories) =
    (case category_candidates lane customer_id category of
       [] \<Rightarrow> select_cascade lane customer_id w ct categories
     | first # rest \<Rightarrow>
         if ro_versions first \<noteq> [] then select_versioned w ct category first
         else (let best = min_by ro_base_amount first rest
               in Inr \<lparr>rsel_selected_rate = Some best, rsel_reason = selected_reason category best,
                    rsel_no_rate_available = False, rsel_applicable_version = None, rsel_resolved_lines = [],
                    rsel_attached_surcharges = [], rsel_total_freight_cost = ro_base_amount best\<rparr>))"

definition select_rate :: "string \<Rightarrow> string \<Rightarrow> string \<Rightarrow> rate_obj list \<Rightarrow> date \<Rightarrow> flt option \<Rightarrow> string option \<Rightarrow> rate_selection res" where
  "select_rate customer_id origin destination available today weight_kg container_type =
    select_cascade (filter (on_lane origin destination today) available) customer_id weight_kg container_type
      category_priority"

definition compare_carrier_rates :: "string \<Rightarrow> string \<Rightarrow> rate_obj list \<Rightarrow> date \<Rightarrow> rate_obj list" where
  "compare_carrier_rates origin destination available today =
    sort_key ro_base_amount (filter (on_lane origin destination today) available)"

section \<open>Laws\<close>

lemma category_priority_cascade: "category_priority = cascade"
  by (simp add: category_priority_def cascade_def)

lemma line_resolved_applies: "line_resolved = line_applies"
  by (intro ext) (auto simp: line_resolved_def line_applies_def below_break_def split: option.split)

lemma select_versioned_Inr:
  "select_versioned w ct k r = Inr res \<Longrightarrow> rsel_selected_rate res = Some r \<and> \<not> rsel_no_rate_available res"
  by (auto simp: select_versioned_def Let_def split: rate_obj.splits)

lemma select_cascade_cases:
  "sorted_wrt (<) cats \<Longrightarrow> select_cascade lane c w ct cats = Inr res \<Longrightarrow>
    (if rsel_no_rate_available res
     then rsel_selected_rate res = None \<and> (\<forall>k \<in> set cats. category_candidates lane c k = [])
     else (\<exists>s. s \<in> set (category_candidates lane c (ro_category s)) \<and>
       rsel_selected_rate res = Some s \<and>
       (\<forall>k \<in> set cats. k < ro_category s \<longrightarrow> category_candidates lane c k = []) \<and>
       (ro_versions (hd (category_candidates lane c (ro_category s))) = [] \<longrightarrow>
         (\<forall>r \<in> set (category_candidates lane c (ro_category s)). ro_base_amount s \<le> ro_base_amount r))))"
proof (induction cats)
  case (Cons k cats)
  show ?case
  proof (cases "category_candidates lane c k")
    case Nil
    with Cons.prems have step: "select_cascade lane c w ct cats = Inr res" by simp
    from Cons.prems(1) have "sorted_wrt (<) cats" by simp
    from Cons.IH [OF this step] Nil show ?thesis by (auto split: if_splits)
  next
    case (Cons first rest)
    have cat: "ro_category r = k" if "r \<in> set (first # rest)" for r
      using that unfolding Cons [symmetric] by (auto simp: category_candidates_def Let_def split: if_splits)
    have low: "\<not> j < k" if "j \<in> set (k # cats)" for j
      using that Cons.prems(1) by auto
    have first: "ro_category first = k" by (rule cat) simp
    show ?thesis
    proof (cases "ro_versions first = []")
      case True
      let ?s = "min_by ro_base_amount first rest"
      have m: "?s \<in> set (first # rest)" by (rule min_by_mem)
      have le: "ro_base_amount ?s \<le> ro_base_amount r" if "r \<in> set (first # rest)" for r
        using that by (rule min_by_le)
      show ?thesis
        using Cons.prems(2) True m le low by (auto simp: Cons Let_def cat [OF m] first simp del: min_by.simps intro!: exI [of _ ?s])
    next
      case False
      then show ?thesis
        using Cons.prems(2) low
        by (auto simp: Cons first dest!: select_versioned_Inr intro!: exI [of _ first])
    qed
  qed
qed auto

lemma category_candidates_mem:
  "r \<in> set (category_candidates lane c k) \<longleftrightarrow> r \<in> set lane \<and> ro_category r = k \<and>
    (k \<in> {rate_category.CONTRACT_NAC, rate_category.SPOT} \<longrightarrow> ro_customer_id r = Some c)"
  by (auto simp: category_candidates_def Let_def)

text \<open>A rate that the selection may use for the customer.\<close>

definition eligible :: "string \<Rightarrow> string \<Rightarrow> string \<Rightarrow> date \<Rightarrow> rate_obj \<Rightarrow> bool" where
  "eligible c origin destination today r \<longleftrightarrow> on_lane origin destination today r \<and>
     (ro_category r \<in> {rate_category.CONTRACT_NAC, rate_category.SPOT} \<longrightarrow> ro_customer_id r = Some c)"

lemma domain_candidates:
  "category_candidates (map Domain_Rate rs) c k = map Domain_Rate (candidates rs c k)"
  by (simp add: category_candidates_def candidates_def Let_def filter_map comp_def)

lemma domain_lane:
  "filter (on_lane origin destination today) (map Domain_Rate (list_all_rates repo)) =
    map Domain_Rate (find_rates repo origin destination today None None)"
proof -
  have act: "rate_status_value x = ''ACTIVE'' \<longleftrightarrow> x = rate_status.ACTIVE" for x by (cases x) simp_all
  have "on_lane origin destination today (Domain_Rate r) = rate_matches origin destination today None None r" for r
    by (auto simp: on_lane_def rate_matches_def act)
  then show ?thesis by (simp add: filter_map comp_def list_all_rates_def find_rates_def)
qed

lemma select_resolve:
  "\<forall>r \<in> set rs. rate_versions r \<noteq> [] \<Longrightarrow>
    \<exists>res. select_cascade (map Domain_Rate rs) c w ct cats = Inr res \<and>
      (case resolve_cascade rs c today w ct cats of (r, v, ls, ss, reason) \<Rightarrow>
         rsel_selected_rate res = map_option Domain_Rate r \<and> rsel_applicable_version res = v \<and>
         rsel_resolved_lines res = ls \<and> rsel_reason res = reason \<and> rsel_no_rate_available res = (r = None) \<and>
         ss = filter (surcharge_applies today) (rsel_attached_surcharges res))"
proof (induction cats)
  case (Cons k cats)
  show ?case
  proof (cases "candidates rs c k")
    case Nil
    with Cons show ?thesis by (simp add: domain_candidates)
  next
    case (Cons first rest)
    then have "first \<in> set (candidates rs c k)" by simp
    then have ne: "rate_versions first \<noteq> []" using Cons.prems by (simp add: candidates_mem)
    then obtain v where v: "current_version first = Some v"
      using current_version_None by (cases "current_version first") auto
    show ?thesis
      using ne v by (simp add: Cons domain_candidates select_versioned_def line_resolved_applies selected_reason_def)
  qed
qed simp

section \<open>Properties of the selection\<close>

text \<open>
  The selection is exact. It reports that no rate is available if and only if no rate of the
  list is eligible (on the lane, valid today and, for customer-specific categories, belonging to the
  customer); otherwise it selects an eligible rate such that every eligible rate has the same or a
  lower priority, and the cheapest of its category when the category's first rate is unversioned.
\<close>

theorem selection_exact:
  assumes "select_rate c origin destination rates today w ct = Inr res"
  shows "(rsel_no_rate_available res \<longleftrightarrow> (\<forall>r \<in> set rates. \<not> eligible c origin destination today r)) \<and>
    (\<not> rsel_no_rate_available res \<longrightarrow> (\<exists>s \<in> set rates. rsel_selected_rate res = Some s \<and> eligible c origin destination today s \<and>
      (\<forall>r \<in> set rates. eligible c origin destination today r \<longrightarrow> ro_category s \<le> ro_category r) \<and>
      ((\<forall>r \<in> set rates. ro_versions r = []) \<longrightarrow>
        (\<forall>r \<in> set rates. eligible c origin destination today r \<and> ro_category r = ro_category s \<longrightarrow>
          ro_base_amount s \<le> ro_base_amount r))))"
proof -
  let ?lane = "filter (on_lane origin destination today) rates"
  have el: "r \<in> set (category_candidates ?lane c (ro_category r)) \<longleftrightarrow> r \<in> set rates \<and> eligible c origin destination today r" for r
    by (auto simp: category_candidates_mem eligible_def)
  have all: "k \<in> set category_priority" for k by (simp add: category_priority_cascade cascade_all)
  have cs: "if rsel_no_rate_available res
     then rsel_selected_rate res = None \<and> (\<forall>k \<in> set category_priority. category_candidates ?lane c k = [])
     else (\<exists>s. s \<in> set (category_candidates ?lane c (ro_category s)) \<and>
       rsel_selected_rate res = Some s \<and>
       (\<forall>k \<in> set category_priority. k < ro_category s \<longrightarrow> category_candidates ?lane c k = []) \<and>
       (ro_versions (hd (category_candidates ?lane c (ro_category s))) = [] \<longrightarrow>
         (\<forall>r \<in> set (category_candidates ?lane c (ro_category s)). ro_base_amount s \<le> ro_base_amount r)))"
    using select_cascade_cases [of category_priority ?lane c w ct res] assms
    by (simp add: select_rate_def category_priority_cascade cascade_sorted)
  show ?thesis
  proof (cases "rsel_no_rate_available res")
    case True
    then have "category_candidates ?lane c k = []" for k using cs all by simp
    then have "\<not> eligible c origin destination today r" if "r \<in> set rates" for r using el [of r] that by simp
    with True show ?thesis by simp
  next
    case False
    with cs obtain s where s: "s \<in> set (category_candidates ?lane c (ro_category s))" "rsel_selected_rate res = Some s"
      "\<forall>k. k < ro_category s \<longrightarrow> category_candidates ?lane c k = []"
      "ro_versions (hd (category_candidates ?lane c (ro_category s))) = [] \<longrightarrow>
         (\<forall>r \<in> set (category_candidates ?lane c (ro_category s)). ro_base_amount s \<le> ro_base_amount r)"
      using all by auto
    have min: "ro_category s \<le> ro_category r" if "r \<in> set rates" "eligible c origin destination today r" for r
      using el [of r] that s(3) by (metis empty_iff list.set(1) not_le)
    have "category_candidates ?lane c (ro_category s) \<noteq> []" using s(1) by auto
    then have hd: "hd (category_candidates ?lane c (ro_category s)) \<in> set rates"
      by (drule_tac hd_in_set) (simp add: category_candidates_mem)
    have "ro_base_amount s \<le> ro_base_amount r"
      if "\<forall>r \<in> set rates. ro_versions r = []" "r \<in> set rates" "eligible c origin destination today r" "ro_category r = ro_category s" for r
      using that el [of r] s(4) hd by metis
    with False s(1,2) el [of s] min show ?thesis by blast
  qed
qed

text \<open>
  C34: The selection agrees with the rate engine of the domain. On the stored rates, all with a
  version, and without commodity and carrier, it never raises and returns the engine's rate,
  version, lines and reason; the engine's surcharges are those of the selection that apply on the
  day.
\<close>

theorem selection_agrees_with_engine:
  assumes "\<forall>r \<in> set (list_all_rates repo). rate_versions r \<noteq> []"
  shows "\<exists>res. select_rate c origin destination (map Domain_Rate (list_all_rates repo)) today w ct = Inr res \<and>
    (case resolve_rate_for_lane repo c origin destination today w ct None None of (r, v, ls, ss, reason) \<Rightarrow>
       rsel_selected_rate res = map_option Domain_Rate r \<and> rsel_applicable_version res = v \<and>
       rsel_resolved_lines res = ls \<and> rsel_reason res = reason \<and> rsel_no_rate_available res = (r = None) \<and>
       ss = filter (surcharge_applies today) (rsel_attached_surcharges res))"
proof -
  have lane: "lane_rates repo origin destination today None None = find_rates repo origin destination today None None"
    by (simp add: lane_rates_def)
  show ?thesis
    unfolding select_rate_def domain_lane category_priority_cascade resolve_rate_for_lane_def lane
    by (rule select_resolve) (use assms in \<open>auto simp: find_rates_def list_all_rates_def\<close>)
qed

text \<open>
  The comparison of carriers ranks flat rates by price but leaves the domain's rates in the order in
  which they came: they have no base amount.
\<close>

theorem carrier_comparison_ranks_flat_rates:
  "set (compare_carrier_rates origin destination rates today) = {r \<in> set rates. on_lane origin destination today r} \<and>
   sorted (map ro_base_amount (compare_carrier_rates origin destination rates today)) \<and>
   compare_carrier_rates origin destination (map Domain_Rate rs) today =
     filter (on_lane origin destination today) (map Domain_Rate rs)"
proof -
  have flat: "sort_key ro_base_amount xs = xs" if "\<forall>x \<in> set xs. ro_base_amount x = 0" for xs :: "rate_obj list"
    using that by (induction xs) (auto simp: insort_is_Cons)
  have "sort_key ro_base_amount (filter (on_lane origin destination today) (map Domain_Rate rs)) =
      filter (on_lane origin destination today) (map Domain_Rate rs)"
    by (rule flat) auto
  then show ?thesis by (simp add: compare_carrier_rates_def)
qed

text \<open>Concrete inputs at which the hypotheses above hold.\<close>

lemma sample_store_versions: "\<forall>r \<in> set (list_all_rates [(''R1'', sample_rate)]). rate_versions r \<noteq> []"
  by (simp add: list_all_rates_def sample_rate_def)

theorem selection_agrees_with_engine_witness:
  "\<exists>res. select_rate ''K'' ''A'' ''B'' (map Domain_Rate (list_all_rates [(''R1'', sample_rate)])) 10 (Some 50) None = Inr res \<and>
     rsel_selected_rate res = Some (Domain_Rate sample_rate)"
proof -
  have e: "resolve_rate_for_lane [(''R1'', sample_rate)] ''K'' ''A'' ''B'' 10 (Some 50) None None None =
    (Some sample_rate, Some sample_version, rv_lines sample_version, rv_surcharges sample_version, ''Selected FAK rate RN1'')"
    using sample_resolution by (simp add: resolve_rate_for_lane_def lane_rates_def sample_rate_def find_rates_def rate_matches_def)
  show ?thesis
    using selection_agrees_with_engine [OF sample_store_versions, of "''K''" "''A''" "''B''" 10 "Some 50" None]
    unfolding e by auto
qed

theorem selection_exact_witness:
  "\<exists>res s. select_rate ''K'' ''A'' ''B'' [Domain_Rate sample_rate] 10 None None = Inr res \<and>
     rsel_selected_rate res = Some s \<and> eligible ''K'' ''A'' ''B'' 10 s"
proof -
  obtain res where res: "select_rate ''K'' ''A'' ''B'' [Domain_Rate sample_rate] 10 None None = Inr res"
    by (auto simp: select_rate_def on_lane_def category_priority_def category_candidates_def select_versioned_def
        sample_rate_def Let_def)
  have "eligible ''K'' ''A'' ''B'' 10 (Domain_Rate sample_rate)"
    by (simp add: eligible_def on_lane_def sample_rate_def)
  with selection_exact [OF res] res show ?thesis by auto
qed

end
