(* ===== verification/Tariff_Rates.thy ===== *)
theory Tariff_Rates
  imports Tariff_Versions
begin

text \<open>
  The rest of the tariff engine, \<open>app/modules/commercial/rate_engine\<close>: which line of a version prices a
  shipment (\<open>resolution.py\<close>), the expiry of rates (\<open>expiry.py\<close>) and the validation of an imported
  table of rates (\<open>import_service.py\<close>; reading the file itself, done by pandas, is left out).
\<close>

section \<open>Resolution\<close>

definition weight_lines :: "tariff_line list \<Rightarrow> tariff_line list" where
  "weight_lines ls = filter (\<lambda>l. tl_weight_break_from l \<noteq> None) ls"

definition break_from :: "tariff_line \<Rightarrow> flt" where
  "break_from l = the (tl_weight_break_from l)"

definition covers :: "flt \<Rightarrow> tariff_line \<Rightarrow> bool" where
  "covers w l \<longleftrightarrow> break_from l \<le> w \<and> (case tl_weight_break_to l of None \<Rightarrow> True | Some t \<Rightarrow> w \<le> t)"

definition resolve_weight_break_rate :: "tariff_line list \<Rightarrow> flt \<Rightarrow> tariff_line res" where
  "resolve_weight_break_rate ls w =
    (case weight_lines ls of
       [] \<Rightarrow> Inl (RateResolutionError ''No weight-break rate lines found on this rate version'')
     | _ \<Rightarrow>
         (case filter (covers w) (weight_lines ls) of
            [] \<Rightarrow> Inl (RateResolutionError (''No weight break covers chargeable weight '' @ frepr w @ ''kg''))
          | c # cs \<Rightarrow> Inr (max_by break_from c cs)))"

record pivot_offer =
  po_break_weight_kg :: flt
  po_rate_per_kg :: flt
  po_total_charge :: flt

record pivot_option =
  pw_actual_weight_kg :: flt
  pw_actual_rate_per_kg :: flt
  pw_actual_total_charge :: flt
  pw_cheaper_pivot_option :: "pivot_offer option"
  pw_recommendation :: string

text \<open>The loop looks at the first break above the weight only: it ends with \<open>break\<close>.\<close>

fun first_pivot :: "flt \<Rightarrow> flt \<Rightarrow> tariff_line list \<Rightarrow> pivot_offer option" where
  "first_pivot w actual_total [] = None"
| "first_pivot w actual_total (l # ls) =
    (if w < break_from l
     then (let pivot_total = fmul (tl_amount l) (break_from l) in
           if pivot_total < actual_total
           then Some \<lparr>po_break_weight_kg = break_from l, po_rate_per_kg = tl_amount l,
                  po_total_charge = py_round 2 pivot_total\<rparr>
           else None)
     else first_pivot w actual_total ls)"

definition resolve_pivot_weight_option :: "tariff_line list \<Rightarrow> flt \<Rightarrow> pivot_option res" where
  "resolve_pivot_weight_option ls w =
    res_map (\<lambda>actual_line.
      let actual_total = fmul (tl_amount actual_line) w;
          cheaper_option = first_pivot w actual_total (sort_key break_from (weight_lines ls))
      in \<lparr>pw_actual_weight_kg = w, pw_actual_rate_per_kg = tl_amount actual_line,
          pw_actual_total_charge = py_round 2 actual_total, pw_cheaper_pivot_option = cheaper_option,
          pw_recommendation = (if cheaper_option \<noteq> None then ''USE_PIVOT'' else ''USE_ACTUAL'')\<rparr>)
      (resolve_weight_break_rate ls w)"

definition resolve_container_rate :: "tariff_line list \<Rightarrow> string \<Rightarrow> tariff_line res" where
  "resolve_container_rate ls container_type_code =
    (case filter (\<lambda>l. tl_container_type_code l = Some container_type_code) ls of
       [] \<Rightarrow> Inl (RateResolutionError (''No rate line found for container type '' @ [CHR 0x27] @ container_type_code @ [CHR 0x27]))
     | [m] \<Rightarrow> Inr m
     | m # ms \<Rightarrow> Inr (min_by tl_amount m ms))"

definition resolve_applicable_surcharges :: "tariff_surcharge list \<Rightarrow> date \<Rightarrow> tariff_surcharge list" where
  "resolve_applicable_surcharges surcharges on_date =
    filter (\<lambda>s. ts_applicable_from s \<le> on_date \<and> on_date \<le> ts_applicable_to s) surcharges"

section \<open>Expiry\<close>

definition closed_statuses :: "string list" where
  "closed_statuses = [''EXPIRED'', ''CANCELLED'', ''SUPERSEDED'']"

record expiry_check =
  xc_warning :: "tariff_rate list"
  xc_escalation :: "tariff_rate list"
  xc_newly_expired :: "tariff_rate list"

fun check_loop :: "date \<Rightarrow> int \<Rightarrow> int \<Rightarrow> expiry_check \<Rightarrow> tariff_rate list \<Rightarrow> expiry_check" where
  "check_loop today warning_days escalation_days c [] = c"
| "check_loop today warning_days escalation_days c (r # rs) =
    (let days_to_expiry = tr_expiry_date r - today;
         c = (if days_to_expiry < 0 then c\<lparr>xc_newly_expired := xc_newly_expired c @ [r]\<rparr>
              else if days_to_expiry \<le> escalation_days then c\<lparr>xc_escalation := xc_escalation c @ [r]\<rparr>
              else if days_to_expiry \<le> warning_days then c\<lparr>xc_warning := xc_warning c @ [r]\<rparr>
              else c)
     in check_loop today warning_days escalation_days c rs)"

definition check_rate_expiry :: "tariff_rate list \<Rightarrow> date \<Rightarrow> int \<Rightarrow> int \<Rightarrow> expiry_check" where
  "check_rate_expiry rs today warning_days escalation_days =
    check_loop today warning_days escalation_days \<lparr>xc_warning = [], xc_escalation = [], xc_newly_expired = []\<rparr>
      (filter (\<lambda>r. tr_status r \<notin> set closed_statuses) rs)"

definition apply_auto_expiry :: "tariff_rate list \<Rightarrow> date \<Rightarrow> tariff_rate list" where
  "apply_auto_expiry rs today =
    map (\<lambda>r. if tr_expiry_date r < today \<and> tr_status r \<notin> set closed_statuses
             then r\<lparr>tr_status := ''EXPIRED''\<rparr> else r) rs"

section \<open>Import\<close>

text \<open>A cell of the table holds a text or a date, or nothing.\<close>

datatype cell = Text string | Day date

type_synonym import_row = "(string, cell) dict"

definition filled :: "cell option \<Rightarrow> bool" where
  "filled c \<longleftrightarrow> (case c of None \<Rightarrow> False | Some (Text s) \<Rightarrow> s \<noteq> [] | Some (Day _) \<Rightarrow> True)"

fun cell_str :: "cell \<Rightarrow> string" where
  "cell_str (Text s) = s"
| "cell_str (Day d) = isoformat d"

definition required_fields :: "string list" where
  "required_fields = [''rate_number'', ''rate_type'', ''rate_category'', ''carrier_vendor_id'',
     ''origin_location_id'', ''destination_location_id'', ''effective_date'', ''expiry_date'', ''currency_code'']"

record row_error =
  rowerr_row_number :: int
  rowerr_errors :: "string list"

record import_report =
  ir_total_rows :: int
  ir_success_count :: int
  ir_error_count :: int
  ir_row_errors :: "row_error list"
  ir_valid_rows :: "import_row list"
  ir_dry_run :: bool

definition parse_cell_date :: "cell option \<Rightarrow> date option" where
  "parse_cell_date c = (case c of Some (Day d) \<Rightarrow> Some d | Some (Text s) \<Rightarrow> parse_ymd s | None \<Rightarrow> None)"

definition unknown_cell :: "string list \<Rightarrow> cell option \<Rightarrow> bool" where
  "unknown_cell known c \<longleftrightarrow> filled c \<and> the c \<notin> Text ` set known"

definition row_errors :: "string list \<Rightarrow> string list \<Rightarrow> cell list \<Rightarrow> import_row \<Rightarrow> string list" where
  "row_errors locations carriers seen row =
    (let effective = parse_cell_date (dget row ''effective_date'');
         expiry = parse_cell_date (dget row ''expiry_date'');
         origin = dget row ''origin_location_id'';
         destination = dget row ''destination_location_id'';
         carrier = dget row ''carrier_vendor_id'';
         rate_number = dget row ''rate_number''
     in map (\<lambda>f. ''Missing required field: '' @ f) (filter (\<lambda>f. \<not> filled (dget row f)) required_fields) @
        (if filled (dget row ''effective_date'') \<and> effective = None
         then [''Invalid effective_date format (expected YYYY-MM-DD)''] else []) @
        (if filled (dget row ''expiry_date'') \<and> expiry = None
         then [''Invalid expiry_date format (expected YYYY-MM-DD)''] else []) @
        (case (effective, expiry) of
           (Some a, Some b) \<Rightarrow> if b < a then [''effective_date must be on or before expiry_date''] else []
         | _ \<Rightarrow> []) @
        (if unknown_cell locations origin then [''Unknown origin_location_id: '' @ cell_str (the origin)] else []) @
        (if unknown_cell locations destination
         then [''Unknown destination_location_id: '' @ cell_str (the destination)] else []) @
        (if unknown_cell carriers carrier then [''Unknown carrier_vendor_id: '' @ cell_str (the carrier)] else []) @
        (if filled rate_number \<and> the rate_number \<in> set seen
         then [''Duplicate rate_number within this import: '' @ cell_str (the rate_number)] else []))"

fun rows_loop :: "string list \<Rightarrow> string list \<Rightarrow> int \<Rightarrow> cell list \<Rightarrow> import_row list \<Rightarrow> row_error list \<times> import_row list" where
  "rows_loop locations carriers i seen [] = ([], [])"
| "rows_loop locations carriers i seen (row # rows) =
    (let errors = row_errors locations carriers seen row;
         rate_number = dget row ''rate_number'';
         seen = (if filled rate_number \<and> the rate_number \<notin> set seen then the rate_number # seen else seen);
         (row_errs, valid) = rows_loop locations carriers (i + 1) seen rows
     in if errors \<noteq> [] then (\<lparr>rowerr_row_number = i, rowerr_errors = errors\<rparr> # row_errs, valid)
        else (row_errs, row # valid))"

definition validate_rate_rows :: "import_row list \<Rightarrow> string list \<Rightarrow> string list \<Rightarrow> bool \<Rightarrow> import_report" where
  "validate_rate_rows rows known_location_ids known_carrier_ids dry_run =
    (case rows_loop known_location_ids known_carrier_ids 1 [] rows of (errs, valid) \<Rightarrow>
       \<lparr>ir_total_rows = int (length rows), ir_success_count = int (length valid),
        ir_error_count = int (length errs), ir_row_errors = errs, ir_valid_rows = valid, ir_dry_run = dry_run\<rparr>)"

section \<open>Laws\<close>

lemma check_loop_filter:
  "check_loop today wd ed c rs = \<lparr>
     xc_warning = xc_warning c @ filter (\<lambda>r. ed < tr_expiry_date r - today \<and> 0 \<le> tr_expiry_date r - today \<and> tr_expiry_date r - today \<le> wd) rs,
     xc_escalation = xc_escalation c @ filter (\<lambda>r. 0 \<le> tr_expiry_date r - today \<and> tr_expiry_date r - today \<le> ed) rs,
     xc_newly_expired = xc_newly_expired c @ filter (\<lambda>r. tr_expiry_date r < today) rs\<rparr>"
  by (induction rs arbitrary: c) (auto simp: Let_def)

lemma filter_covers_Nil: "filter (covers w) (weight_lines ls) = [] \<longleftrightarrow> (\<forall>l \<in> set (weight_lines ls). \<not> covers w l)"
  by (simp add: filter_empty_conv)

text \<open>What makes a row acceptable on its own, and a table's rate numbers.\<close>

definition known_text :: "string list \<Rightarrow> cell option \<Rightarrow> bool" where
  "known_text known c \<longleftrightarrow> (\<exists>s. c = Some (Text s) \<and> s \<noteq> [] \<and> s \<in> set known)"

definition row_acceptable :: "string list \<Rightarrow> string list \<Rightarrow> import_row \<Rightarrow> bool" where
  "row_acceptable locations carriers row \<longleftrightarrow>
     (\<forall>f \<in> set required_fields. filled (dget row f)) \<and>
     (\<exists>a b. parse_cell_date (dget row ''effective_date'') = Some a \<and> parse_cell_date (dget row ''expiry_date'') = Some b \<and> a \<le> b) \<and>
     known_text locations (dget row ''origin_location_id'') \<and>
     known_text locations (dget row ''destination_location_id'') \<and>
     known_text carriers (dget row ''carrier_vendor_id'')"

lemma unknown_cell_known: "filled c \<Longrightarrow> unknown_cell known c \<longleftrightarrow> \<not> known_text known c"
  by (auto simp: unknown_cell_def known_text_def filled_def split: option.splits cell.splits)

lemma required_fields_mem:
  "''rate_number'' \<in> set required_fields" "''effective_date'' \<in> set required_fields" "''expiry_date'' \<in> set required_fields"
  "''origin_location_id'' \<in> set required_fields" "''destination_location_id'' \<in> set required_fields"
  "''carrier_vendor_id'' \<in> set required_fields"
  by (simp_all add: required_fields_def)

lemma row_errors_Nil:
  "row_errors locations carriers seen row = [] \<longleftrightarrow>
     row_acceptable locations carriers row \<and> the (dget row ''rate_number'') \<notin> set seen"
proof (cases "\<forall>f \<in> set required_fields. filled (dget row f)")
  case True
  note f = required_fields_mem [THEN bspec [OF True]]
  show ?thesis
    using True
    by (auto simp: row_errors_def Let_def row_acceptable_def f unknown_cell_known filter_empty_conv not_less split: option.split)
next
  case False
  then show ?thesis by (auto simp: row_errors_def Let_def row_acceptable_def filter_empty_conv)
qed

definition rate_number_of :: "import_row \<Rightarrow> cell" where
  "rate_number_of row = the (dget row ''rate_number'')"

lemma rows_loop_spec:
  "rows_loop locations carriers i seen rows = (errs, valid) \<Longrightarrow>
    length errs + length valid = length rows \<and>
    (\<forall>row \<in> set valid. row \<in> set rows \<and> row_acceptable locations carriers row \<and> rate_number_of row \<notin> set seen) \<and>
    distinct (map rate_number_of valid) \<and>
    (\<forall>row \<in> set rows. row_acceptable locations carriers row \<and> rate_number_of row \<notin> set seen \<and>
       (\<forall>r \<in> set rows. rate_number_of r = rate_number_of row \<longrightarrow> r = row) \<longrightarrow> row \<in> set valid)"
proof (induction rows arbitrary: i seen errs valid)
  case (Cons x rows)
  define seen' where "seen' = (if filled (dget x ''rate_number'') \<and> rate_number_of x \<notin> set seen then rate_number_of x # seen else seen)"
  have seen'_eq: "(if filled (dget x ''rate_number'') \<and> the (dget x ''rate_number'') \<notin> set seen
      then the (dget x ''rate_number'') # seen else seen) = seen'"
    by (simp add: seen'_def rate_number_of_def)
  obtain errs' valid' where l: "rows_loop locations carriers (i + 1) seen' rows = (errs', valid')" by fastforce
  have step: "rows_loop locations carriers i seen (x # rows) =
      (if row_errors locations carriers seen x \<noteq> []
       then (\<lparr>rowerr_row_number = i, rowerr_errors = row_errors locations carriers seen x\<rparr> # errs', valid')
       else (errs', x # valid'))"
    by (simp only: rows_loop.simps Let_def seen'_eq l prod.case)
  note IH = Cons.IH [OF l]
  have seen': "set seen \<subseteq> set seen'" "set seen' \<subseteq> insert (rate_number_of x) (set seen)" by (auto simp: seen'_def)
  have x: "row_errors locations carriers seen x = [] \<longleftrightarrow> row_acceptable locations carriers x \<and> rate_number_of x \<notin> set seen"
    by (simp add: row_errors_Nil rate_number_of_def)
  have num: "row_acceptable locations carriers x \<Longrightarrow> rate_number_of x \<in> set seen'"
    using required_fields_mem(1) by (auto simp: row_acceptable_def seen'_def)
  have v: "valid = (if row_errors locations carriers seen x = [] then x # valid' else valid')"
    "length errs = (if row_errors locations carriers seen x = [] then length errs' else Suc (length errs'))"
    using Cons.prems unfolding step by (auto split: if_splits)
  have passed: "row \<in> set valid" if "row \<in> set (x # rows)" "row_acceptable locations carriers row" "rate_number_of row \<notin> set seen"
    "\<forall>r \<in> set (x # rows). rate_number_of r = rate_number_of row \<longrightarrow> r = row" for row
  proof (cases "row = x")
    case True
    with that x v(1) show ?thesis by simp
  next
    case False
    then have row: "row \<in> set rows" using that(1) by simp
    have "rate_number_of x = rate_number_of row \<Longrightarrow> x = row" by (rule bspec [OF that(4), THEN mp]) simp_all
    then have "rate_number_of x \<noteq> rate_number_of row" using False by blast
    then have "rate_number_of row \<notin> set seen'" using seen'(2) that(3) by (metis insertE subsetD)
    moreover have "\<forall>r \<in> set rows. rate_number_of r = rate_number_of row \<longrightarrow> r = row"
      by (rule ballI, rule bspec [OF that(4)]) simp
    ultimately have "row \<in> set valid'" using IH row that(2) by blast
    then show ?thesis by (simp add: v(1))
  qed
  have "distinct (map rate_number_of valid)"
    using IH num x by (auto simp: v(1))
  moreover have "\<forall>row \<in> set valid. row \<in> set (x # rows) \<and> row_acceptable locations carriers row \<and> rate_number_of row \<notin> set seen"
    using IH seen'(1) x by (auto simp: v(1))
  moreover have "length errs + length valid = length (x # rows)" using IH by (simp add: v)
  ultimately show ?case using passed by blast
qed simp

section \<open>Properties\<close>

text \<open>
  The weight break is resolved exactly. The result is a line of the version whose break covers
  the weight and starts highest among those that do; the resolution raises if and only if no
  weight-break line covers the weight.
\<close>

theorem weight_break_exact:
  "(\<exists>e. resolve_weight_break_rate ls w = Inl e) = (\<forall>l \<in> set ls. tl_weight_break_from l \<noteq> None \<longrightarrow> \<not> covers w l) \<and>
   (\<forall>l. resolve_weight_break_rate ls w = Inr l \<longrightarrow> l \<in> set ls \<and> tl_weight_break_from l \<noteq> None \<and> covers w l \<and>
     (\<forall>m \<in> set ls. tl_weight_break_from m \<noteq> None \<and> covers w m \<longrightarrow> break_from m \<le> break_from l))"
proof -
  have all: "set (filter (covers w) (weight_lines ls)) = {l \<in> set ls. tl_weight_break_from l \<noteq> None \<and> covers w l}"
    by (auto simp: weight_lines_def)
  show ?thesis
  proof (cases "filter (covers w) (weight_lines ls)")
    case Nil
    then have "\<exists>e. resolve_weight_break_rate ls w = Inl e"
      by (cases "weight_lines ls") (simp_all add: resolve_weight_break_rate_def)
    moreover have "\<forall>l \<in> set ls. tl_weight_break_from l \<noteq> None \<longrightarrow> \<not> covers w l" using all Nil by auto
    ultimately show ?thesis by auto
  next
    case (Cons c cs)
    then have "weight_lines ls \<noteq> []" by auto
    with Cons have r: "resolve_weight_break_rate ls w = Inr (max_by break_from c cs)"
      by (cases "weight_lines ls") (simp_all add: resolve_weight_break_rate_def)
    have m: "max_by break_from c cs \<in> {l \<in> set ls. tl_weight_break_from l \<noteq> None \<and> covers w l}"
      using max_by_mem [of break_from c cs] unfolding Cons [symmetric] all .
    have "break_from l \<le> break_from (max_by break_from c cs)" if "l \<in> {l \<in> set ls. tl_weight_break_from l \<noteq> None \<and> covers w l}" for l
      using that unfolding all [symmetric] Cons by (rule max_by_ge)
    with m r show ?thesis by auto
  qed
qed

text \<open>
  Checking and applying the expiry agree: applying it changes exactly the rates that the check
  reports as newly expired, marks them \<open>EXPIRED\<close> and keeps everything else; afterwards a check on the
  same day reports no rate as newly expired and applying it again changes nothing.
\<close>

theorem auto_expiry_matches_check:
  "apply_auto_expiry rs today =
     map (\<lambda>r. if r \<in> set (xc_newly_expired (check_rate_expiry rs today wd ed)) then r\<lparr>tr_status := ''EXPIRED''\<rparr> else r) rs \<and>
   xc_newly_expired (check_rate_expiry (apply_auto_expiry rs today) today wd ed) = [] \<and>
   apply_auto_expiry (apply_auto_expiry rs today) today = apply_auto_expiry rs today"
  by (auto simp: apply_auto_expiry_def check_rate_expiry_def check_loop_filter closed_statuses_def filter_empty_conv)

text \<open>
  The import report is sound. Every row is either reported or passed; each passed row is complete,
  has dates in order and known places and carrier, and no two passed rows share a rate number. A
  complete and correct row whose rate number no other row carries is passed.
\<close>

theorem import_rows_sound:
  fixes rows :: "import_row list" and locations carriers :: "string list" and dry_run :: bool
  defines "rep \<equiv> validate_rate_rows rows locations carriers dry_run"
  shows "ir_success_count rep + ir_error_count rep = ir_total_rows rep \<and>
    (\<forall>row \<in> set (ir_valid_rows rep). row \<in> set rows \<and> row_acceptable locations carriers row) \<and>
    distinct (map rate_number_of (ir_valid_rows rep)) \<and>
    (\<forall>row \<in> set rows. row_acceptable locations carriers row \<and>
       (\<forall>r \<in> set rows. rate_number_of r = rate_number_of row \<longrightarrow> r = row) \<longrightarrow> row \<in> set (ir_valid_rows rep))"
proof -
  obtain errs valid where l: "rows_loop locations carriers 1 [] rows = (errs, valid)" by fastforce
  have rep: "ir_valid_rows rep = valid" "ir_success_count rep = int (length valid)" "ir_error_count rep = int (length errs)"
    "ir_total_rows rep = int (length rows)"
    by (simp_all add: rep_def validate_rate_rows_def l)
  show ?thesis unfolding rep using rows_loop_spec [OF l] by auto
qed

text \<open>Concrete inputs at which the hypotheses above hold.\<close>

theorem weight_break_exact_witness:
  "\<exists>l. resolve_weight_break_rate [sample_tariff_line] 10 = Inr l \<and> covers 10 l"
proof -
  obtain l where "resolve_weight_break_rate [sample_tariff_line] 10 = Inr l"
    by (simp add: resolve_weight_break_rate_def weight_lines_def sample_tariff_line_def covers_def break_from_def)
  then show ?thesis using weight_break_exact [of "[sample_tariff_line]" 10] by blast
qed

definition sample_import_row :: import_row where
  "sample_import_row = [(''rate_number'', Text ''R1''), (''rate_type'', Text ''SEA''), (''rate_category'', Text ''FAK''),
     (''carrier_vendor_id'', Text ''K''), (''origin_location_id'', Text ''A''), (''destination_location_id'', Text ''B''),
     (''effective_date'', Day 5), (''expiry_date'', Day 9), (''currency_code'', Text ''USD'')]"

theorem import_rows_sound_witness:
  "sample_import_row \<in> set (ir_valid_rows (validate_rate_rows [sample_import_row] [''A'', ''B''] [''K''] True))"
proof -
  have "row_acceptable [''A'', ''B''] [''K''] sample_import_row"
    by (simp add: row_acceptable_def sample_import_row_def required_fields_def filled_def parse_cell_date_def known_text_def)
  then show ?thesis using import_rows_sound [of "[sample_import_row]" "[''A'', ''B'']" "[''K'']" True] by simp
qed

end
