(* ===== verification/Spec2Isabelle.thy ===== *)
theory Spec2Isabelle
  imports Audit_Trail Invoicing_Totals Shipment_Lifecycle Rules Integrity_Life Documents_Life Tracking Auth_Sessions Consolidation Claims Customs Currency_Conversion Rate_Importer Air_Cargo Rate_Engine Quotation_Lifecycle Fx_Service Rate_Versions Rate_Expiry Routes Rfq Master_Data
    Freight_Calc Rate_Selection Tariff_Rates
begin

text \<open>
  FreightCore is the back end of a freight forwarder: rates are kept and versioned, customers ask for
  quotations, quotations become jobs and shipments, shipments run through a lifecycle, are tracked,
  documented, paid for and invoiced. Two layers carry its logic. \<open>src/domain\<close> is a pure commercial core:
  entities, ports, in-memory adapters and services that call each other through the ports. \<open>src/app/modules\<close>
  is the operational layer: services over an SQL session that the endpoints of \<open>src/app/api/v1\<close> call,
  one session per request, committed on success and rolled back on an exception.
  \<open>src/backend\<close> holds a second copy of \<open>app\<close> with some services of its own; the theories follow \<open>src/app\<close>, and
  \<open>src/backend\<close> for what only it has.

  \<^bold>\<open>What the theories model\<close>

  \<^item> The language. \<open>Py_Prelude\<close>: exceptions as the left side of a sum, \<open>str\<close>, \<open>dict\<close> (an association list in
    insertion order), stable sorting. \<open>Py_Float\<close>: a \<open>float\<close> is the rational it
    denotes, every operation rounds the exact result to 53 bits, ties to even, and \<open>py_round\<close> is the built-in
    \<open>round\<close>. \<open>Py_Date\<close>: a date is its ordinal. \<open>Py_Money\<close>: amounts of cents in floats. \<open>Py_Decimal\<close> and
    \<open>Decimal_Arith\<close>: the operations of \<open>decimal\<close>. \<open>Tables\<close>: lookups in tables with unique columns.
    \<open>Transactions\<close>: a request against the tables and the states requests reach (\<open>reached\<close>); its locale
    \<open>service_contract\<close> turns an invariant that every request keeps into one of all reached states, and is
    interpreted on every service below that has tables.
  \<^item> The commercial core, \<open>src/domain\<close>. \<open>Entities\<close> (\<open>entities.py\<close>), \<open>Repositories\<close> (\<open>in_memory_repos.py\<close>,
    \<open>ports.py\<close>; locales \<open>keyed_store\<close> and \<open>fx_port\<close>, the second also interpreted on the exchange-rate service),
    \<open>Rate_Engine\<close>, \<open>Rate_Importer\<close>, \<open>Fx_Service\<close>, \<open>Rate_Versions\<close>, \<open>Rate_Expiry\<close>, \<open>Routes\<close>, \<open>Rfq\<close>, \<open>Master_Data\<close>,
    \<open>Quotation_Service\<close>, \<open>Acceptance\<close> (the service of the same name each), \<open>Quotation_Engine\<close> (the margin rules
    of \<open>app/modules/commercial/calculations/quotation_engine.py\<close>), and \<open>Quotation_Lifecycle\<close>: quotation and
    acceptance services interleaved with approvers and customers, as a step relation.
  \<^item> The calculators of \<open>app/modules/commercial\<close>: \<open>Freight_Calc\<close> (\<open>air_freight.py\<close>, \<open>lcl_freight.py\<close>,
    \<open>container_utilization.py\<close>), \<open>Rate_Selection\<close>, \<open>Tariff_Versions\<close> and \<open>Tariff_Rates\<close> (\<open>ports.py\<close> and
    \<open>rate_engine/\<close>: locale \<open>append_only\<close> for the histories), \<open>Currency_Conversion\<close> (\<open>master_data/services.py\<close>; its locked
    rates are another instance of \<open>append_only\<close>).
  \<^item> Money owed and billed. \<open>Audit_Trail\<close> (\<open>app/modules/audit\<close>, and the JSON values of the columns), \<open>Payables\<close> and \<open>Payables_Life\<close>
    (\<open>app/modules/payables\<close>), \<open>Invoicing\<close>, \<open>Invoicing_Life\<close> and \<open>Invoicing_Totals\<close> (\<open>app/modules/invoicing\<close>),
    \<open>Financial\<close> and \<open>Financial_Life\<close> (\<open>app/modules/financial\<close>), \<open>Integrity\<close> and \<open>Integrity_Life\<close>
    (\<open>app/modules/commercial/financial\<close>).
  \<^item> The life of a shipment. \<open>Workflow\<close>, \<open>Workflow_Life\<close> and \<open>Shipment_Lifecycle\<close> (\<open>app/modules/workflow\<close>, the
    machines of \<open>app/modules/shipments\<close> and the endpoints that move a shipment), \<open>Rules\<close> (\<open>app/modules/rules\<close>),
    \<open>Eta\<close> and \<open>Eta_Life\<close> (\<open>app/modules/eta\<close>), \<open>Exceptions\<close> and \<open>Exceptions_Life\<close> (\<open>app/modules/exceptions\<close>),
    \<open>Documents\<close> and \<open>Documents_Life\<close> (\<open>app/modules/documents\<close>), \<open>Tracking\<close> (\<open>app/modules/tracking\<close>).
  \<^item> Who may do what. \<open>Identity\<close> and \<open>Identity_Life\<close> (\<open>app/modules/identity\<close>, \<open>app/core/permissions.py\<close>): roles,
    permissions and their seeding. \<open>Auth\<close>, \<open>Auth_Life\<close> and \<open>Auth_Sessions\<close> (\<open>app/modules/auth\<close>, \<open>app/core/security.py\<close>,
    \<open>app/api/dependencies.py\<close> and the endpoints of users): logins, tokens, sessions and the check of a permission.
  \<^item> Services over repositories in memory. \<open>Consolidation\<close> (\<open>app/services/lcl_service.py\<close>,
    \<open>air_consolidation_service.py\<close>), \<open>Claims\<close> (\<open>claims_service.py\<close>), \<open>Customs\<close> (\<open>customs_service.py\<close>,
    \<open>reconciliation_service.py\<close>), \<open>Air_Cargo\<close> (\<open>awb_service.py\<close>, \<open>uld_service.py\<close>, \<open>cargo_acceptance.py\<close> of
    \<open>backend/app/services\<close>).

  A theory named \<open>X_Life\<close>, \<open>X_Sessions\<close>, \<open>X_Totals\<close> or \<open>Shipment_Lifecycle\<close> holds the theorems about the definitions of
  \<open>X\<close>; the other theories hold both. Names are those of the source; the fields of a record carry a prefix of their class, since
  Isabelle's selectors are global.

  \<^bold>\<open>How the parts interact\<close>

  The services of the core call each other through their repositories: a quotation reads rates through the
  rate engine, the engine converts through the exchange-rate port, acceptance reads the stored quotation and
  writes a job and ledger lines. The operational services share tables: payables and invoicing write the same
  ledger and audit trail, the workflow engine and the shipment service share instances, versions of arrival
  times feed the alerts and the exceptions, and the financial profile opens and resolves exceptions in the
  table of the exception service. The tables of the exception service, the financial profile and the
  integrity service are one database (\<open>fin_db\<close> extends \<open>exc_db\<close>, \<open>integ_db\<close> extends \<open>fin_db\<close>), so the theorems
  about one service speak of the rows the other one wrote; payables, invoicing and workflow have tables of
  their own in which the columns they share (ledger entries, audit rows) are those of the shared records.

  \<^bold>\<open>Conventions\<close>

  \<^item> Identities that the code draws (\<open>uuid4\<close>) and the clock (\<open>date.today\<close>, \<open>datetime.now\<close>) are arguments. That a
    drawn identity is new is a hypothesis where it matters (\<open>ap_ok\<close>, \<open>inv_ok\<close>, \<open>fin_ok\<close>, \<open>exception_ok\<close>,
    \<open>integ_ok\<close>, \<open>claim_op_ok\<close>, \<open>awb_ok\<close>, \<open>uld_op_ok\<close>).
  \<^item> A function that can raise returns \<open>res\<close>; one that changes tables before it can raise returns the result and the
    tables, so the effects of a failed call are visible; \<open>committed\<close> drops them as the session does.
  \<^item> Floats are finite: infinities and NaN are outside the model, except in the importer, which reads them from text. Text is ASCII. Objects are values; where
    the code relies on two names for one object the model returns the changed object, or (the generic
    repositories) keeps an explicit store.
  \<^item> A table is an association list or a list of rows in the order of insertion. Unordered queries read in that
    order; the order of the database is not specified, and the theorems that depend on it say so by naming the
    list. A numeric column keeps the float that was written. What a database computes itself (column sums, the text of a
    number) is the parameter \<open>db_env\<close>; \<open>exact_sums\<close> states the documented behaviour of a sum over a numeric
    column. Unique constraints are preconditions of the requests.
  \<^item> The branches that serve when no database session is configured are left out.

  \<^bold>\<open>What the lemmas show\<close>

  \<^item> Floats: rounding is monotone and exact where the result is representable (locale \<open>monotone_rounding\<close>);
    amounts of cents up to \<open>money_bound\<close>, ten to the twelfth cents, are recovered exactly from the nearest double,
    and sums of at most 1000 such terms (400 for the two ledgers of a profile) round to the exact cents, which is far beyond
    the lines of any shipment. The properties of bills, credits and profit are for such amounts only: \<open>ap_ok\<close>,
    \<open>inv_cents\<close> and \<open>cents_ledger\<close> are their hypotheses. The schemas and the columns would take fractions of a cent, and
    with them the code overpays a bill, credits more than an invoice and overlooks a loss
    (\<open>fraction_of_a_cent_overpays\<close>, \<open>fraction_of_a_cent_overcredits\<close>, \<open>loss_below_a_cent_unseen\<close>). The loops of the program are structural or over finite lists, so no definition needs
    fuel; the lifecycle theorems bound the number of transitions instead.
  \<^item> The core: the resolved rate is the first usable one of the cascade and is valid; charge lines equal their
    reference; margins and approvals are exact; acceptance writes everything or nothing; version
    histories only grow; expiry is exact and idempotent; repositories are keyed stores.
  \<^item> The operational layer: each service has an invariant that all its requests keep, the functional behaviour of the
    requests, errors included, and a number of theorems about the composition with its neighbours. Payables
    refine an abstract contract of bills (\<open>payables_refine_contract\<close>); shipments follow the common lifecycle
    and terminate; profit is exact in cents and its sign drives the exception of a loss.
  \<^item> Where the code and its intent part, a theorem states what the code does: a loss of cargo is resolved by profit,
    a bill verified again can never be settled, escalations are never published, direct air freight cannot leave
    CARGO_READY, a settlement bypasses the margin check, failed logins are never counted, the last share of an allocated cost
    can be negative, an import can stop half way with its first rates stored and lets NaN pass, labels are printed for cancelled
    waybills only, a bill with a variance stores an exception outside the taxonomy.
  \<^item> Where the requirements ask for another behaviour than the code has, the text of the theorem says so: the best rate of a
    category (the code takes the first, \<open>dearer_rate_selected\<close>), the status BELOW_MARGIN and the reviews of risky customers and
    overridden prices (no code demands them), the approval of imported rates (they are stored ACTIVE), the eleven statuses of a
    claim (the code has five).

  \<^bold>\<open>Not modelled\<close>

  Endpoints beyond the handlers named above (request parsing and response shapes), the definitions of tables and their
  migrations beyond the columns the services read, the primitives of cryptography (hashing of passwords, signing of tokens,
  one-time codes: parameters of \<open>Auth\<close>), search, cache and object storage (external services), PDF rendering, workers and
  mail, middleware, seed data, analytics and the repository classes that only build SQL
  (\<open>app/modules/commercial/analytics\<close>, \<open>app/modules/commercial/repository.py\<close>), and the copy under \<open>src/backend\<close>. Of what
  only the backend has, the services of receivables and dangerous goods import records and repositories that no file defines,
  so that their state cannot be read; its portal and report services format the rows of queries.
\<close>

end
